(* ===== verification/Prelude.thy ===== *)
theory Prelude
  imports Main "HOL-Library.Word"
begin

text \<open>
  Shared material of the development: the names of the types that several components use and the
  lemmas on lists, filters and vectors that the component theories share.

  A \<open>std::vector\<close> is a list. A subscript \<open>v[i]\<close> that the C++ code does not check is undefined
  behaviour out of range; \<open>vec_get\<close> and \<open>vec_set\<close> return \<open>None\<close> there, and a model function whose
  result type is an \<open>option\<close> in this sense passes the \<open>None\<close> on.
\<close>

type_synonym u32 = "32 word"

text \<open>Time stamps: microseconds since the unix epoch. The empty \<open>yat::Time\<close> is the epoch.\<close>

type_synonym timestamp = int

subsection \<open>Unchecked vector access\<close>

definition vec_get :: "'a list \<Rightarrow> nat \<Rightarrow> 'a option" where
  "vec_get xs i = (if i < length xs then Some (xs ! i) else None)"

definition vec_set :: "'a list \<Rightarrow> nat \<Rightarrow> 'a \<Rightarrow> 'a list option" where
  "vec_set xs i x = (if i < length xs then Some (xs[i := x]) else None)"

lemma vec_get_simps [simp]:
  "i < length xs \<Longrightarrow> vec_get xs i = Some (xs ! i)"
  "length xs \<le> i \<Longrightarrow> vec_get xs i = None"
  by (simp_all add: vec_get_def)

lemma vec_set_simps [simp]:
  "i < length xs \<Longrightarrow> vec_set xs i x = Some (xs[i := x])"
  "length xs \<le> i \<Longrightarrow> vec_set xs i x = None"
  by (simp_all add: vec_set_def)

lemma vec_get_eq_Some: "vec_get xs i = Some x \<longleftrightarrow> i < length xs \<and> x = xs ! i"
  by (auto simp: vec_get_def)

lemma vec_set_eq_Some: "vec_set xs i x = Some ys \<longleftrightarrow> i < length xs \<and> ys = xs[i := x]"
  by (auto simp: vec_set_def)

subsection \<open>First match: \<open>std::find_if\<close>\<close>

text \<open>The position of the first element that satisfies the predicate, \<open>None\<close> for \<open>end()\<close>.\<close>

fun find_index :: "('a \<Rightarrow> bool) \<Rightarrow> 'a list \<Rightarrow> nat option" where
  "find_index P [] = None"
| "find_index P (x # xs) = (if P x then Some 0 else map_option Suc (find_index P xs))"

lemma find_index_None [simp]: "find_index P xs = None \<longleftrightarrow> (\<forall>x\<in>set xs. \<not> P x)"
  by (induction xs) auto

lemma find_index_SomeD:
  "find_index P xs = Some i \<Longrightarrow> i < length xs \<and> P (xs ! i) \<and> (\<forall>j<i. \<not> P (xs ! j))"
proof (induction xs arbitrary: i)
  case Nil
  then show ?case by simp
next
  case (Cons x xs)
  show ?case
  proof (cases "P x")
    case True
    with Cons.prems show ?thesis by simp
  next
    case False
    with Cons.prems obtain k where k: "find_index P xs = Some k" "i = Suc k" by auto
    from Cons.IH [OF k(1)] False k(2) show ?thesis
      by (auto simp: nth_Cons split: nat.splits)
  qed
qed

lemma find_index_bound: "find_index P xs = Some i \<Longrightarrow> i < length xs"
  by (simp add: find_index_SomeD)

lemma find_index_hit: "find_index P xs = Some i \<Longrightarrow> P (xs ! i)"
  by (simp add: find_index_SomeD)

lemma find_index_cong:
  "(\<And>x. x \<in> set xs \<Longrightarrow> P x = Q x) \<Longrightarrow> find_index P xs = find_index Q xs"
  by (induction xs) auto

subsection \<open>Counting\<close>

definition count_if :: "('a \<Rightarrow> bool) \<Rightarrow> 'a list \<Rightarrow> nat" where
  "count_if P xs = length (filter P xs)"

lemma count_if_simps [simp]:
  "count_if P [] = 0"
  "count_if P (x # xs) = (if P x then Suc (count_if P xs) else count_if P xs)"
  "count_if P (xs @ ys) = count_if P xs + count_if P ys"
  by (simp_all add: count_if_def)

lemma count_if_le_length: "count_if P xs \<le> length xs"
  by (simp add: count_if_def)

lemma count_if_all: "(\<And>x. x \<in> set xs \<Longrightarrow> P x) \<Longrightarrow> count_if P xs = length xs"
  by (induction xs) auto

lemma count_if_none: "(\<And>x. x \<in> set xs \<Longrightarrow> \<not> P x) \<Longrightarrow> count_if P xs = 0"
  by (induction xs) auto

lemma count_if_pos: "x \<in> set xs \<Longrightarrow> P x \<Longrightarrow> 0 < count_if P xs"
  by (induction xs) auto

text \<open>How a count changes when one element of the vector is overwritten.\<close>

lemma count_if_update:
  "i < length xs \<Longrightarrow>
   int (count_if P (xs[i := x])) =
     int (count_if P xs) - of_bool (P (xs ! i)) + of_bool (P x)"
proof (induction xs arbitrary: i)
  case Nil
  then show ?case by simp
next
  case (Cons y ys)
  then show ?case by (cases i) auto
qed

text \<open>How a count changes when one element is erased.\<close>

definition erase_at :: "nat \<Rightarrow> 'a list \<Rightarrow> 'a list" where
  "erase_at i xs = take i xs @ drop (Suc i) xs"

lemma length_erase_at: "i < length xs \<Longrightarrow> length (erase_at i xs) = length xs - 1"
  by (simp add: erase_at_def)

lemma erase_at_simps [simp]:
  "erase_at 0 (x # xs) = xs"
  "erase_at (Suc i) (x # xs) = x # erase_at i xs"
  by (simp_all add: erase_at_def)

lemma set_erase_at: "set (erase_at i xs) \<subseteq> set xs"
  by (auto simp: erase_at_def dest: in_set_takeD in_set_dropD)

lemma count_if_erase:
  "i < length xs \<Longrightarrow>
   int (count_if P (erase_at i xs)) = int (count_if P xs) - of_bool (P (xs ! i))"
proof (induction xs arbitrary: i)
  case Nil
  then show ?case by simp
next
  case (Cons y ys)
  then show ?case by (cases i) auto
qed

lemma list_all_update:
  "list_all P xs \<Longrightarrow> P x \<Longrightarrow> list_all P (xs[i := x])"
  by (auto simp: list_all_iff dest: set_update_subset_insert [THEN subsetD])

lemma list_all_erase_at: "list_all P xs \<Longrightarrow> list_all P (erase_at i xs)"
  using set_erase_at [of i xs] by (auto simp: list_all_iff)

lemma map_erase_at: "List.map f (erase_at i xs) = erase_at i (List.map f xs)"
  by (simp add: erase_at_def take_map drop_map)

lemma distinct_erase_at: "distinct xs \<Longrightarrow> distinct (erase_at i xs)"
  using set_take_disj_set_drop_if_distinct [of xs i "Suc i"] by (simp add: erase_at_def)

lemma map_update_same: "g x = g (xs ! i) \<Longrightarrow> List.map g (xs[i := x]) = List.map g xs"
  by (cases "i < length xs") (simp_all add: list_eq_iff_nth_eq nth_list_update)

lemma erase_at_update: "erase_at i (xs[i := x]) = erase_at i xs"
  by (simp add: erase_at_def)

lemma find_index_map: "find_index (\<lambda>x. P (g x)) xs = find_index P (List.map g xs)"
  by (induction xs) auto

subsection \<open>The minimum of a list\<close>

lemma fold_min_le:
  "fold min xs (m :: 'a :: linorder) \<le> m \<and> (\<forall>x\<in>set xs. fold min xs m \<le> x)"
proof (induction xs arbitrary: m)
  case Nil
  then show ?case by simp
next
  case (Cons x xs)
  have "fold min xs (min x m) \<le> min x m" "\<forall>y\<in>set xs. fold min xs (min x m) \<le> y"
    using Cons.IH by blast+
  then show ?case by simp
qed

lemma fold_min_mem: "fold min xs (m :: 'a :: linorder) \<in> insert m (set xs)"
proof (induction xs arbitrary: m)
  case Nil
  then show ?case by simp
next
  case (Cons x xs)
  then have "fold min xs (min x m) \<in> insert (min x m) (set xs)" .
  then show ?case by (cases "x \<le> m") (auto simp: min_absorb1 min_absorb2)
qed

end
