(* ===== verification/StdContainers.thy ===== *)
theory StdContainers
  imports Prelude "HOL-Library.List_Lexorder" "HOL-Library.Char_ord"
begin

text \<open>
  \<open>std::map\<close> as an association list in the order in which the code iterates over it: sorted by key,
  each key once. \<open>find\<close> is \<open>map_of\<close>; \<open>insert\<close> keeps the value of a key that is already present, as
  \<open>std::map::insert\<close> does. Strings are compared by character code.

  The interface that the clients of such a container rely on is the locale \<open>std_container\<close>; it is
  interpreted on the operations below.
\<close>

definition sorted_map :: "('k::linorder \<times> 'v) list \<Rightarrow> bool" where
  "sorted_map m \<longleftrightarrow> sorted_wrt (<) (List.map fst m)"

fun map_insert :: "'k::linorder \<Rightarrow> 'v \<Rightarrow> ('k \<times> 'v) list \<Rightarrow> ('k \<times> 'v) list" where
  "map_insert k v [] = [(k, v)]"
| "map_insert k v ((k', v') # m) =
     (if k < k' then (k, v) # (k', v') # m
      else if k = k' then (k', v') # m
      else (k', v') # map_insert k v m)"

definition map_erase :: "'k \<Rightarrow> ('k \<times> 'v) list \<Rightarrow> ('k \<times> 'v) list" where
  "map_erase k = filter (\<lambda>p. fst p \<noteq> k)"

text \<open>A change through the iterator that \<open>find\<close> returns.\<close>

definition map_modify :: "'k \<Rightarrow> ('v \<Rightarrow> 'v) \<Rightarrow> ('k \<times> 'v) list \<Rightarrow> ('k \<times> 'v) list" where
  "map_modify k f = List.map (\<lambda>p. if fst p = k then (k, f (snd p)) else p)"

text \<open>A loop over all elements that changes the values.\<close>

definition map_values :: "('v \<Rightarrow> 'w) \<Rightarrow> ('k \<times> 'v) list \<Rightarrow> ('k \<times> 'w) list" where
  "map_values f = List.map (\<lambda>p. (fst p, f (snd p)))"

subsection \<open>Order\<close>

lemma sorted_map_simps [simp]:
  "sorted_map []"
  "sorted_map ((k, v) # m) \<longleftrightarrow> (\<forall>x\<in>set m. k < fst x) \<and> sorted_map m"
  by (simp_all add: sorted_map_def)

lemma set_map_insert: "set (map_insert k v m) \<subseteq> insert (k, v) (set m)"
  by (induction m) (auto split: if_splits)

lemma keys_map_insert: "fst ` set (map_insert k v m) = insert k (fst ` set m)"
  by (induction k v m rule: map_insert.induct) auto

lemma sorted_map_insert: "sorted_map m \<Longrightarrow> sorted_map (map_insert k v m)"
proof (induction m)
  case Nil
  then show ?case by simp
next
  case (Cons p m)
  then show ?case using set_map_insert [of k v m] by (cases p) (fastforce dest: order.strict_trans)
qed

lemma sorted_map_erase: "sorted_map m \<Longrightarrow> sorted_map (map_erase k m)"
  by (induction m) (auto simp: map_erase_def)

lemma keys_map_modify [simp]: "List.map fst (map_modify k f m) = List.map fst m"
  by (induction m) (auto simp: map_modify_def)

lemma sorted_map_modify [simp]: "sorted_map (map_modify k f m) = sorted_map m"
  by (simp add: sorted_map_def)

lemma keys_map_values [simp]: "List.map fst (map_values f m) = List.map fst m"
  by (induction m) (auto simp: map_values_def)

lemma sorted_map_values [simp]: "sorted_map (map_values f m) = sorted_map m"
  by (simp add: sorted_map_def)

lemma sorted_map_distinct: "sorted_map m \<Longrightarrow> distinct (List.map fst m)"
  by (simp add: sorted_map_def strict_sorted_iff)

subsection \<open>Lookup\<close>

lemma map_of_insert_sorted:
  "sorted_map m \<Longrightarrow>
   map_of (map_insert k v m) = (if map_of m k = None then (map_of m)(k \<mapsto> v) else map_of m)"
proof (induction m)
  case Nil
  then show ?case by simp
next
  case (Cons p m)
  obtain a b where p: "p = (a, b)" by (cases p)
  have absent: "map_of m k = None" if "k < a"
    using Cons.prems that by (fastforce simp: p map_of_eq_None_iff)
  from Cons absent show ?case by (auto simp: p fun_eq_iff)
qed

lemma map_of_erase: "map_of (map_erase k m) = (map_of m)(k := None)"
  by (induction m) (auto simp: map_erase_def fun_eq_iff)

lemma map_of_modify: "map_of (map_modify k f m) = (map_of m)(k := map_option f (map_of m k))"
  by (induction m) (auto simp: map_modify_def fun_eq_iff)

lemma map_of_values: "map_of (map_values f m) k = map_option f (map_of m k)"
  by (induction m) (auto simp: map_values_def)

lemma map_of_in_set: "map_of m k = Some v \<Longrightarrow> (k, v) \<in> set m"
  by (rule map_of_SomeD)

lemma in_set_map_of: "sorted_map m \<Longrightarrow> (k, v) \<in> set m \<Longrightarrow> map_of m k = Some v"
  by (simp add: sorted_map_distinct)

lemma map_modify_absent: "map_of m k = None \<Longrightarrow> map_modify k f m = m"
  by (induction m) (auto simp: map_modify_def split: if_splits)

lemma in_set_modify:
  "(k', v') \<in> set (map_modify k f m) \<Longrightarrow>
   (k' \<noteq> k \<and> (k', v') \<in> set m) \<or> (k' = k \<and> (\<exists>v. (k, v) \<in> set m \<and> v' = f v))"
  by (auto simp: map_modify_def split: if_splits)

lemma in_set_values: "(k, w) \<in> set (map_values f m) \<longleftrightarrow> (\<exists>v. (k, v) \<in> set m \<and> w = f v)"
  by (force simp: map_values_def)

lemma in_set_erase: "p \<in> set (map_erase k m) \<longleftrightarrow> p \<in> set m \<and> fst p \<noteq> k"
  by (auto simp: map_erase_def)

lemma in_set_insert: "(k', v') \<in> set (map_insert k v m) \<Longrightarrow> (k', v') = (k, v) \<or> (k', v') \<in> set m"
  using set_map_insert [of k v m] by auto

subsection \<open>The interface of the container\<close>

locale std_container =
  fixes lookup :: "'m \<Rightarrow> 'k \<Rightarrow> 'v option"
    and ins :: "'k \<Rightarrow> 'v \<Rightarrow> 'm \<Rightarrow> 'm"
    and ers :: "'k \<Rightarrow> 'm \<Rightarrow> 'm"
    and modi :: "'k \<Rightarrow> ('v \<Rightarrow> 'v) \<Rightarrow> 'm \<Rightarrow> 'm"
    and inv :: "'m \<Rightarrow> bool"
  assumes lookup_ins: "inv m \<Longrightarrow>
            lookup (ins k v m) k' = (if k' = k \<and> lookup m k = None then Some v else lookup m k')"
    and lookup_ers: "inv m \<Longrightarrow> lookup (ers k m) k' = (if k' = k then None else lookup m k')"
    and lookup_modi: "inv m \<Longrightarrow>
            lookup (modi k f m) k' = (if k' = k then map_option f (lookup m k) else lookup m k')"
    and inv_ins: "inv m \<Longrightarrow> inv (ins k v m)"
    and inv_ers: "inv m \<Longrightarrow> inv (ers k m)"
    and inv_modi: "inv m \<Longrightarrow> inv (modi k f m)"
begin

lemma ins_present: "inv m \<Longrightarrow> lookup m k = Some w \<Longrightarrow> lookup (ins k v m) k' = lookup m k'"
  by (simp add: lookup_ins)

lemma ers_ins: "inv m \<Longrightarrow> lookup m k = None \<Longrightarrow> lookup (ers k (ins k v m)) k' = lookup m k'"
  by (simp add: lookup_ers lookup_ins inv_ins)

lemma modi_ins:
  "inv m \<Longrightarrow> lookup m k = None \<Longrightarrow> lookup (modi k f (ins k v m)) k = Some (f v)"
  by (simp add: lookup_modi lookup_ins inv_ins)

lemma ers_modi: "inv m \<Longrightarrow> lookup (ers k (modi k f m)) k' = lookup (ers k m) k'"
  by (simp add: lookup_ers lookup_modi inv_modi)

end

interpretation std: std_container map_of map_insert map_erase map_modify sorted_map
  by unfold_locales
    (simp_all add: map_of_insert_sorted map_of_erase map_of_modify sorted_map_insert
      sorted_map_erase)


text \<open>
  The ordered containers of the code: \<open>std::set<Ptr,Compare>\<close> (the task queue of
  \<open>src/utils/TaskManager.h\<close>, the pointing queue of \<open>PointingSchedule.h\<close>). The model of such a set is
  the list of its elements in iteration order.

  \<open>set_insert\<close> is \<open>std::set::insert\<close>: the new element goes before the first element it is less
  than, unless an equivalent element (neither less nor greater) is met, in which case nothing is
  inserted. The C++ standard asks that the comparator be a strict weak order; the locale
  \<open>strict_weak_on\<close> is that requirement, on the elements a container may hold, and its lemmas say what
  the container then guarantees. The comparators of the code are checked against it where they are
  modelled.
\<close>

fun set_insert :: "('a \<Rightarrow> 'a \<Rightarrow> bool) \<Rightarrow> 'a \<Rightarrow> 'a list \<Rightarrow> 'a list" where
  "set_insert lt x [] = [x]"
| "set_insert lt x (y # ys) =
     (if lt x y then x # y # ys
      else if lt y x then y # set_insert lt x ys
      else y # ys)"

text \<open>Erasing every element that matches: the \<open>find_if\<close> and \<open>erase\<close> loops of the code.\<close>

definition set_erase_if :: "('a \<Rightarrow> bool) \<Rightarrow> 'a list \<Rightarrow> 'a list" where
  "set_erase_if P xs = filter (\<lambda>x. \<not> P x) xs"

lemma set_insert_subset: "set (set_insert lt x xs) \<subseteq> insert x (set xs)"
  by (induction xs) auto

lemma set_insert_keeps: "set xs \<subseteq> set (set_insert lt x xs)"
  by (induction xs) auto

lemma length_set_insert: "length (set_insert lt x xs) \<le> Suc (length xs)"
  by (induction xs) auto

lemma length_set_insert_ge: "length xs \<le> length (set_insert lt x xs)"
  by (induction xs) auto

lemma set_insert_nonempty [simp]: "set_insert lt x xs \<noteq> []"
  by (cases xs) auto

locale strict_weak_on =
  fixes lt :: "'a \<Rightarrow> 'a \<Rightarrow> bool" and S :: "'a set"
  assumes lt_irrefl: "x \<in> S \<Longrightarrow> \<not> lt x x"
    and lt_trans: "\<lbrakk>x \<in> S; y \<in> S; z \<in> S; lt x y; lt y z\<rbrakk> \<Longrightarrow> lt x z"
    and incomp_trans: "\<lbrakk>x \<in> S; y \<in> S; z \<in> S; \<not> lt x y; \<not> lt y x; \<not> lt y z; \<not> lt z y\<rbrakk>
          \<Longrightarrow> \<not> lt x z \<and> \<not> lt z x"
begin

lemma lt_asym: "\<lbrakk>x \<in> S; y \<in> S; lt x y\<rbrakk> \<Longrightarrow> \<not> lt y x"
  using lt_irrefl lt_trans by blast

lemma lt_cotrans: "\<lbrakk>x \<in> S; y \<in> S; z \<in> S; lt x z\<rbrakk> \<Longrightarrow> lt x y \<or> lt y z"
  using incomp_trans lt_trans lt_asym by metis

text \<open>Insertion keeps the iteration order strictly increasing.\<close>

lemma sorted_set_insert:
  assumes "sorted_wrt lt xs" and "set xs \<subseteq> S" and "x \<in> S"
  shows "sorted_wrt lt (set_insert lt x xs)"
  using assms
proof (induction xs)
  case Nil
  then show ?case by simp
next
  case (Cons y ys)
  consider "lt x y" | "\<not> lt x y" "lt y x" | "\<not> lt x y" "\<not> lt y x" by blast
  then show ?case
  proof cases
    case 1
    with Cons.prems show ?thesis by (auto intro: lt_trans [of x y])
  next
    case 2
    with Cons have "sorted_wrt lt (set_insert lt x ys)" by simp
    moreover have "\<forall>z\<in>set (set_insert lt x ys). lt y z"
      using set_insert_subset [of lt x ys] Cons.prems(1) 2 by auto
    ultimately show ?thesis using 2 by simp
  next
    case 3
    with Cons.prems show ?thesis by simp
  qed
qed

lemma sorted_distinct: "sorted_wrt lt xs \<Longrightarrow> set xs \<subseteq> S \<Longrightarrow> distinct xs"
  by (induction xs) (auto dest: lt_irrefl)

text \<open>The element is inserted exactly when the container holds no equivalent one.\<close>

lemma set_insert_fresh:
  assumes "sorted_wrt lt xs" and "set xs \<subseteq> S" and "x \<in> S"
    and "\<forall>y\<in>set xs. lt x y \<or> lt y x"
  shows "set (set_insert lt x xs) = insert x (set xs) \<and>
         length (set_insert lt x xs) = Suc (length xs)"
  using assms by (induction xs) auto

lemma set_insert_equivalent:
  assumes "sorted_wrt lt xs" and "set xs \<subseteq> S" and "x \<in> S"
    and "y \<in> set xs" and "\<not> lt x y" and "\<not> lt y x"
  shows "set_insert lt x xs = xs"
  using assms
proof (induction xs)
  case Nil
  then show ?case by simp
next
  case (Cons a as)
  show ?case
  proof (cases "y = a")
    case True
    with Cons.prems show ?thesis by simp
  next
    case False
    with Cons.prems have "y \<in> set as" and "lt a y" by auto
    with Cons.prems have "lt a x" using lt_cotrans [of a x y] by auto
    moreover from this Cons.prems have "\<not> lt x a" using lt_asym by auto
    ultimately show ?thesis using Cons.IH Cons.prems \<open>y \<in> set as\<close> by simp
  qed
qed

text \<open>The first element of the container is a minimum: what \<open>begin()\<close> points to.\<close>

lemma begin_minimal:
  assumes "sorted_wrt lt (x # xs)" and "set (x # xs) \<subseteq> S" and "y \<in> set (x # xs)"
  shows "\<not> lt y x"
  using assms lt_irrefl lt_asym by auto

end

lemma sorted_set_erase_if: "sorted_wrt lt xs \<Longrightarrow> sorted_wrt lt (set_erase_if P xs)"
  by (simp add: set_erase_if_def sorted_wrt_filter)

lemma set_set_erase_if [simp]: "set (set_erase_if P xs) = {x \<in> set xs. \<not> P x}"
  by (auto simp: set_erase_if_def)

lemma length_set_erase_if: "length (set_erase_if P xs) \<le> length xs"
  by (simp add: set_erase_if_def)

text \<open>A key function into a linear order gives a strict weak order.\<close>

lemma strict_weak_on_key: "strict_weak_on (\<lambda>x y. (k x :: 'b :: linorder) < k y) S"
  by unfold_locales auto

text \<open>
  Lexicographic composition: compare by a key first and by \<open>lt\<close> where the keys are equal. This is
  how the comparators of the code are written (compare one field, fall through on equality).
\<close>

lemma strict_weak_on_lex:
  assumes "\<And>c :: 'b :: linorder. strict_weak_on lt {x \<in> S. k x = c}"
  shows "strict_weak_on (\<lambda>x y. k x < k y \<or> (k x = k y \<and> lt x y)) S"
proof
  fix x assume "x \<in> S"
  then show "\<not> (k x < k x \<or> k x = k x \<and> lt x x)"
    using strict_weak_on.lt_irrefl [OF assms [of "k x"], of x] by simp
next
  fix x y z
  assume S: "x \<in> S" "y \<in> S" "z \<in> S"
    and xy: "k x < k y \<or> k x = k y \<and> lt x y"
    and yz: "k y < k z \<or> k y = k z \<and> lt y z"
  show "k x < k z \<or> k x = k z \<and> lt x z"
  proof (cases "k x = k y \<and> k y = k z")
    case True
    with xy yz have "lt x y" "lt y z" by auto
    with True S have "lt x z"
      using strict_weak_on.lt_trans [OF assms [of "k z"], of x y z] by simp
    with True show ?thesis by simp
  next
    case False
    from xy yz have "k x \<le> k y" "k y \<le> k z" by auto
    with False have "k x < k z" by auto
    then show ?thesis by simp
  qed
next
  fix x y z
  assume S: "x \<in> S" "y \<in> S" "z \<in> S"
    and n: "\<not> (k x < k y \<or> k x = k y \<and> lt x y)" "\<not> (k y < k x \<or> k y = k x \<and> lt y x)"
      "\<not> (k y < k z \<or> k y = k z \<and> lt y z)" "\<not> (k z < k y \<or> k z = k y \<and> lt z y)"
  then have k: "k x = k y" "k y = k z" by auto
  with n have "\<not> lt x y" "\<not> lt y x" "\<not> lt y z" "\<not> lt z y" by simp_all
  with k S have "\<not> lt x z \<and> \<not> lt z x"
    using strict_weak_on.incomp_trans [OF assms [of "k z"], of x y z] by simp
  with k show "\<not> (k x < k z \<or> k x = k z \<and> lt x z) \<and> \<not> (k z < k x \<or> k z = k x \<and> lt z x)"
    by simp
qed

end
