(* ===== verification/TaskModel.thy ===== *)
theory TaskModel
  imports StdContainers "HOL-Library.Char_ord" "HOL-Library.List_Lexorder" "HOL-Library.Product_Lexorder"
begin

text \<open>
  Class \<open>Task\<close> of \<open>src/utils/Task.h\<close> and \<open>src/utils/Task.cc\<close>: the record of a queued command, the
  setters of its activation and expiration times, the activation, expiration and dependency tests,
  the comparator \<open>CompareTask\<close> that orders the task queue, and the \<open>Match...\<close> predicates.

  Time stamps are integers in microseconds. Every \<open>set_current\<close> of the code reads the clock anew: an
  operation takes the successive readings it makes as a function \<open>clk\<close> from the number of the
  reading. A \<open>yat::Timeout\<close> is a library object: the model records what it was created with, and what
  \<open>enabled()\<close> and \<open>expired()\<close> answer at the time of a call is an argument of the operation.
  \<open>CORBA::Any\<close> arguments are opaque octet strings. Return codes are the integers of the code.
\<close>

subsection \<open>Status, priority and time reference values\<close>

abbreviation (input) eUNKNOWN :: int where "eUNKNOWN \<equiv> 0"
abbreviation (input) eINIT :: int where "eINIT \<equiv> 1"
abbreviation (input) eIDLE :: int where "eIDLE \<equiv> 2"
abbreviation (input) eRUNNING :: int where "eRUNNING \<equiv> 3"
abbreviation (input) eCOMPLETED :: int where "eCOMPLETED \<equiv> 4"
abbreviation (input) eFAILED :: int where "eFAILED \<equiv> 5"
abbreviation (input) eABORTED :: int where "eABORTED \<equiv> 6"
abbreviation (input) eEXPIRED :: int where "eEXPIRED \<equiv> 7"
abbreviation (input) eCANCELED :: int where "eCANCELED \<equiv> 8"

abbreviation (input) eLOW_PRIORITY :: int where "eLOW_PRIORITY \<equiv> 0"
abbreviation (input) eMEDIUM_PRIORITY :: int where "eMEDIUM_PRIORITY \<equiv> 1"
abbreviation (input) eHIGH_PRIORITY :: int where "eHIGH_PRIORITY \<equiv> 2"

abbreviation (input) eTIME_NOW :: int where "eTIME_NOW \<equiv> 0"
abbreviation (input) eCREATION_TIME :: int where "eCREATION_TIME \<equiv> 1"
abbreviation (input) eEXTERNAL_TIME :: int where "eEXTERNAL_TIME \<equiv> 2"

subsection \<open>State\<close>

record timeout =
  tmo_created :: timestamp
  tmo_delay_ms :: int

record timer_state =
  tmo_enabled :: "timeout \<Rightarrow> bool"
  tmo_expired :: "timeout \<Rightarrow> bool"

type_synonym clock = "nat \<Rightarrow> timestamp"

record task =
  has_dev :: bool
  task_id :: string
  cmd_name :: string
  priority :: int
  cmd_argin :: string
  hasArgin :: bool
  argin_type :: int
  argin_format :: int
  status :: int
  status_info :: string
  is_asynch :: bool
  status_attr_name :: string
  is_in_sequence :: bool
  sequence_id :: string
  sequence_name :: string
  sequence_index :: nat
  depend_on_sequence_tasks :: bool
  dep_task_seq_indexes :: "nat list"
  useUTC :: bool
  activation_timeout :: "timeout option"
  expiration_timeout :: "timeout option"
  hasActivationTime :: bool
  activation_time :: timestamp
  hasExpirationTime :: bool
  max_duration :: int
  expiration_time :: timestamp
  creation_time :: timestamp
  default_max_duration :: int
  exp_max_activation_time :: timestamp
  exp_max_expiration_time :: timestamp

subsection \<open>Time arithmetic\<close>

text \<open>\<open>t += static_cast<double>(ms/1000)\<close>: the division is on \<open>long\<close>, so whole seconds are added.\<close>

definition add_whole_seconds :: "timestamp \<Rightarrow> int \<Rightarrow> timestamp" where
  "add_whole_seconds t ms = t + (ms div 1000) * 1000000"

definition GetYatTimeDiffUSec :: "timestamp \<Rightarrow> timestamp \<Rightarrow> int" where
  "GetYatTimeDiffUSec before after = after - before"

definition empty_unix :: timestamp where
  "empty_unix = 0"

subsection \<open>Timeouts\<close>

definition InitActivationTimeout :: "timestamp \<Rightarrow> int \<Rightarrow> task \<Rightarrow> task" where
  "InitActivationTimeout now delay t =
     t\<lparr>activation_timeout := Some \<lparr>tmo_created = now, tmo_delay_ms = delay\<rparr>,
       hasActivationTime := True\<rparr>"

definition InitExpirationTimeout :: "timestamp \<Rightarrow> int \<Rightarrow> task \<Rightarrow> task" where
  "InitExpirationTimeout now delay t =
     t\<lparr>expiration_timeout := Some \<lparr>tmo_created = now, tmo_delay_ms = delay\<rparr>,
       hasExpirationTime := True\<rparr>"

text \<open>A timeout that is not in the future is not created: the old one, if any, stays.\<close>

definition SetActivationTimeout :: "timestamp \<Rightarrow> timestamp \<Rightarrow> task \<Rightarrow> int \<times> task" where
  "SetActivationTimeout now tstart t =
     (let timeout_us = GetYatTimeDiffUSec now tstart in
      if timeout_us \<le> 0 then (-1, t)
      else (0, InitActivationTimeout now (timeout_us div 1000) t))"

definition SetExpirationTimeout :: "timestamp \<Rightarrow> timestamp \<Rightarrow> task \<Rightarrow> int \<times> task" where
  "SetExpirationTimeout now tstop t =
     (let timeout_us = GetYatTimeDiffUSec now tstop in
      if timeout_us \<le> 0 then (-1, t)
      else (0, InitExpirationTimeout now (timeout_us div 1000) t))"

subsection \<open>Construction\<close>

definition Task_Init :: "clock \<Rightarrow> task \<Rightarrow> task" where
  "Task_Init clk t =
     (let t1 = t\<lparr>creation_time := clk 0,
                 activation_time := empty_unix,
                 exp_max_activation_time := empty_unix,
                 exp_max_expiration_time := empty_unix,
                 activation_timeout := None,
                 expiration_timeout := None,
                 hasActivationTime := False,
                 default_max_duration := 30000,
                 max_duration := 30000,
                 expiration_time := add_whole_seconds (clk 0) 30000\<rparr>;
          t2 = snd (SetExpirationTimeout (clk 1) (expiration_time t1) t1)
      in t2\<lparr>hasExpirationTime := True,
            hasArgin := False,
            argin_type := -1,
            argin_format := -1,
            task_id := [],
            status := eINIT,
            status_info := [],
            is_asynch := False,
            status_attr_name := [],
            is_in_sequence := False,
            sequence_id := [],
            sequence_name := [],
            sequence_index := 0,
            depend_on_sequence_tasks := False\<rparr>)"

text \<open>A freshly allocated object before \<open>Init\<close>: the constructor's initialisers.\<close>

definition raw_task :: "bool \<Rightarrow> string \<Rightarrow> int \<Rightarrow> bool \<Rightarrow> task" where
  "raw_task dev name prio utc =
     \<lparr>has_dev = dev, task_id = [], cmd_name = name, priority = prio, cmd_argin = [],
      hasArgin = False, argin_type = 0, argin_format = 0, status = 0, status_info = [],
      is_asynch = False, status_attr_name = [], is_in_sequence = False, sequence_id = [],
      sequence_name = [], sequence_index = 0, depend_on_sequence_tasks = False,
      dep_task_seq_indexes = [], useUTC = utc, activation_timeout = None,
      expiration_timeout = None, hasActivationTime = False, activation_time = empty_unix,
      hasExpirationTime = False, max_duration = 0, expiration_time = empty_unix,
      creation_time = empty_unix, default_max_duration = 0,
      exp_max_activation_time = empty_unix, exp_max_expiration_time = empty_unix\<rparr>"

definition Task_new :: "clock \<Rightarrow> string \<Rightarrow> bool \<Rightarrow> string \<Rightarrow> int \<Rightarrow> bool \<Rightarrow> task" where
  "Task_new clk uuid dev name prio utc =
     (Task_Init clk (raw_task dev name prio utc))\<lparr>task_id := uuid\<rparr>"

definition SetTaskArgin :: "string \<Rightarrow> int \<Rightarrow> int \<Rightarrow> task \<Rightarrow> task" where
  "SetTaskArgin argin data_type data_format t =
     t\<lparr>argin_type := data_type, argin_format := data_format, cmd_argin := argin,
       hasArgin := True\<rparr>"

subsection \<open>Activation and expiration times\<close>

definition SetActivationTime :: "clock \<Rightarrow> timestamp \<Rightarrow> task \<Rightarrow> int \<times> task" where
  "SetActivationTime clk t_start t =
     (if t_start < clk 0 then (-1, t)
      else
        let t1 = snd (SetActivationTimeout (clk 1) t_start (t\<lparr>activation_time := t_start\<rparr>));
            t2 = t1\<lparr>hasActivationTime := True,
                    expiration_time := add_whole_seconds t_start (default_max_duration t1)\<rparr>;
            t3 = snd (SetExpirationTimeout (clk 2) (expiration_time t2) t2)
        in (0, t3\<lparr>hasExpirationTime := True\<rparr>))"

definition SetActivationTimeDelay :: "clock \<Rightarrow> int \<Rightarrow> task \<Rightarrow> int \<times> task" where
  "SetActivationTimeDelay clk delay_time t =
     (if delay_time < 0 then (-1, t)
      else
        let t1 = t\<lparr>activation_time := add_whole_seconds (clk 0) delay_time\<rparr>
        in SetActivationTime (\<lambda>n. clk (Suc n)) (activation_time t1) t1)"

definition SetExpirationTime :: "clock \<Rightarrow> timestamp \<Rightarrow> task \<Rightarrow> int \<times> task" where
  "SetExpirationTime clk t_stop t =
     (if t_stop < clk 0 then (-1, t)
      else if hasActivationTime t \<and> t_stop \<le> activation_time t then (-1, t)
      else
        let t1 = snd (SetExpirationTimeout (clk 1) t_stop (t\<lparr>expiration_time := t_stop\<rparr>))
        in (0, t1\<lparr>hasExpirationTime := True\<rparr>))"

text \<open>The reference time of a mode; \<open>None\<close> for an invalid mode.\<close>

definition time_of_mode :: "clock \<Rightarrow> int \<Rightarrow> timestamp \<Rightarrow> task \<Rightarrow> timestamp option" where
  "time_of_mode clk mode time_ref t =
     (if mode = eTIME_NOW then Some (clk 0)
      else if mode = eCREATION_TIME then Some (creation_time t)
      else if mode = eEXTERNAL_TIME then Some time_ref
      else None)"

definition SetMaxDuration :: "clock \<Rightarrow> int \<Rightarrow> int \<Rightarrow> timestamp \<Rightarrow> task \<Rightarrow> int \<times> task" where
  "SetMaxDuration clk duration mode time_ref t =
     (if duration < 0 then (-1, t)
      else
        let t1 = t\<lparr>max_duration := duration\<rparr> in
        case (if hasActivationTime t1 then Some (activation_time t1)
              else time_of_mode clk mode time_ref t1) of
          None \<Rightarrow> (-1, t1)
        | Some base \<Rightarrow>
            let t2 = t1\<lparr>expiration_time := add_whole_seconds base duration\<rparr>;
                t3 = snd (SetExpirationTimeout (clk 1) (expiration_time t2) t2)
            in (0, t3\<lparr>hasExpirationTime := True\<rparr>))"

definition SetTimeDelayAndDuration ::
  "clock \<Rightarrow> int \<Rightarrow> int \<Rightarrow> int \<Rightarrow> timestamp \<Rightarrow> task \<Rightarrow> int \<times> task"
where
  "SetTimeDelayAndDuration clk delay_time duration mode time_ref t =
     (if delay_time < 0 \<or> duration < 0 then (-1, t)
      else
        case time_of_mode clk mode time_ref t of
          None \<Rightarrow> (-1, t)
        | Some base \<Rightarrow>
            let t1 = t\<lparr>activation_time := add_whole_seconds base delay_time\<rparr>;
                t2 = snd (SetActivationTimeout (clk 1) (activation_time t1) t1);
                t3 = t2\<lparr>hasActivationTime := True, max_duration := duration,
                        expiration_time := add_whole_seconds (activation_time t2) duration\<rparr>;
                t4 = snd (SetExpirationTimeout (clk 2) (expiration_time t3) t3)
            in (0, t4\<lparr>hasExpirationTime := True\<rparr>))"

subsection \<open>Status, sequence and asynchronous-task information\<close>

definition SetAsynchTask :: "string \<Rightarrow> task \<Rightarrow> task" where
  "SetAsynchTask attr_name t = t\<lparr>is_asynch := True, status_attr_name := attr_name\<rparr>"

definition SetStatus :: "int \<Rightarrow> string \<Rightarrow> task \<Rightarrow> task" where
  "SetStatus st info t = t\<lparr>status := st, status_info := info\<rparr>"

definition SetSequenceInfo :: "string \<Rightarrow> nat \<Rightarrow> nat list \<Rightarrow> task \<Rightarrow> task" where
  "SetSequenceInfo seq_id seq_index dep_indexes t =
     (let t1 = t\<lparr>is_in_sequence := True, sequence_id := seq_id, sequence_index := seq_index\<rparr> in
      if dep_indexes = []
      then t1\<lparr>depend_on_sequence_tasks := False, dep_task_seq_indexes := []\<rparr>
      else t1\<lparr>depend_on_sequence_tasks := True, dep_task_seq_indexes := dep_indexes\<rparr>)"

subsection \<open>Tests\<close>

definition IsActivationReached :: "timer_state \<Rightarrow> task \<Rightarrow> bool" where
  "IsActivationReached tm t =
     (case activation_timeout t of
        None \<Rightarrow> True
      | Some a \<Rightarrow> tmo_enabled tm a \<and> tmo_expired tm a)"

definition IsWaitingForActivation :: "timer_state \<Rightarrow> task \<Rightarrow> bool" where
  "IsWaitingForActivation tm t =
     (case activation_timeout t of
        None \<Rightarrow> False
      | Some a \<Rightarrow> tmo_enabled tm a \<and> \<not> tmo_expired tm a)"

definition IsExpirationReached :: "timer_state \<Rightarrow> task \<Rightarrow> bool" where
  "IsExpirationReached tm t =
     (case expiration_timeout t of
        None \<Rightarrow> False
      | Some e \<Rightarrow> tmo_enabled tm e \<and> tmo_expired tm e)"

definition IsRunnable :: "timer_state \<Rightarrow> task \<Rightarrow> bool" where
  "IsRunnable tm t =
     (let isActivationReached = IsActivationReached tm t;
          isExpirationReached = IsExpirationReached tm t;
          isQueued = (status t = eIDLE)
      in isQueued \<and> isActivationReached \<and> \<not> isExpirationReached)"

definition DependOnTask :: "task \<Rightarrow> task \<Rightarrow> bool" where
  "DependOnTask t aTask =
     (if \<not> depend_on_sequence_tasks t then False
      else if sequence_id t \<noteq> sequence_id aTask \<or> sequence_name t \<noteq> sequence_name aTask then False
      else sequence_index aTask \<in> set (dep_task_seq_indexes t))"

subsection \<open>The queue comparator\<close>

definition areInSameSequence :: "task \<Rightarrow> task \<Rightarrow> bool" where
  "areInSameSequence t1 t2 =
     ((is_in_sequence t1 \<and> is_in_sequence t2) \<and> sequence_id t1 = sequence_id t2 \<and>
      sequence_name t1 = sequence_name t2)"

text \<open>The comparisons after the start times: priority, expiration time, then name and id.\<close>

definition compare_tail :: "task \<Rightarrow> task \<Rightarrow> bool" where
  "compare_tail t1 t2 =
     (if priority t1 \<noteq> priority t2 then priority t1 > priority t2
      else if expiration_time t1 \<noteq> expiration_time t2
      then expiration_time t1 < expiration_time t2
      else cmd_name t1 < cmd_name t2 \<or>
           (cmd_name t1 = cmd_name t2 \<and> task_id t1 < task_id t2))"

definition comparatorFcn :: "task \<Rightarrow> task \<Rightarrow> bool" where
  "comparatorFcn t1 t2 =
     (if areInSameSequence t1 t2 \<and> DependOnTask t1 t2 then False
      else if areInSameSequence t1 t2 \<and> DependOnTask t2 t1 then True
      else if depend_on_sequence_tasks t1 \<and> \<not> depend_on_sequence_tasks t2 then
        (if \<not> hasActivationTime t2 then False
         else if exp_max_activation_time t1 \<noteq> activation_time t2
         then exp_max_activation_time t1 < activation_time t2
         else compare_tail t1 t2)
      else if depend_on_sequence_tasks t2 \<and> \<not> depend_on_sequence_tasks t1 then
        (if \<not> hasActivationTime t1 then True
         else if activation_time t1 \<noteq> exp_max_activation_time t2
         then activation_time t1 < exp_max_activation_time t2
         else compare_tail t1 t2)
      else if depend_on_sequence_tasks t1 \<and> depend_on_sequence_tasks t2 then
        (if exp_max_activation_time t1 \<noteq> exp_max_activation_time t2
         then exp_max_activation_time t1 < exp_max_activation_time t2
         else compare_tail t1 t2)
      else
        (if \<not> hasActivationTime t1 \<and> hasActivationTime t2 then True
         else if \<not> hasActivationTime t2 \<and> hasActivationTime t1 then False
         else if hasActivationTime t1 \<and> hasActivationTime t2 \<and>
                 activation_time t1 \<noteq> activation_time t2
         then activation_time t1 < activation_time t2
         else compare_tail t1 t2))"

definition CompareTaskByExpirationTime :: "task \<Rightarrow> task \<Rightarrow> bool" where
  "CompareTaskByExpirationTime t1 t2 = (expiration_time t1 < expiration_time t2)"

subsection \<open>Match predicates\<close>

definition MatchTask :: "string \<Rightarrow> string \<Rightarrow> task \<Rightarrow> bool" where
  "MatchTask i name t = (task_id t = i \<and> cmd_name t = name)"

definition MatchTaskByName :: "string \<Rightarrow> task \<Rightarrow> bool" where
  "MatchTaskByName name t = (cmd_name t = name)"

definition MatchTaskById :: "string \<Rightarrow> task \<Rightarrow> bool" where
  "MatchTaskById i t = (task_id t = i)"

definition MatchTaskByStatus :: "int \<Rightarrow> task \<Rightarrow> bool" where
  "MatchTaskByStatus st t = (status t = st)"

definition MatchOldTask :: "int \<Rightarrow> timestamp \<Rightarrow> int \<Rightarrow> task \<Rightarrow> bool" where
  "MatchOldTask filter_status current_time historyTimeThr t =
     (GetYatTimeDiffUSec current_time (creation_time t) \<ge> historyTimeThr * 1000000 \<and>
      (filter_status = -1 \<or> status t \<noteq> filter_status))"

definition MatchTaskBySequenceId :: "string \<Rightarrow> task \<Rightarrow> bool" where
  "MatchTaskBySequenceId seq_id t = (is_in_sequence t \<and> sequence_id t = seq_id)"

definition MatchTaskBySequenceName :: "string \<Rightarrow> task \<Rightarrow> bool" where
  "MatchTaskBySequenceName name t = (is_in_sequence t \<and> sequence_name t = name)"

definition MatchAsynchTaskByWatchedAttrName :: "string \<Rightarrow> task \<Rightarrow> bool" where
  "MatchAsynchTaskByWatchedAttrName attr_name t =
     (is_asynch t \<and> status_attr_name t = attr_name \<and> status_attr_name t \<noteq> [])"

end
