(* ===== verification/TaskOrder.thy ===== *)
theory TaskOrder
  imports TaskModel
begin

text \<open>
  What the operations of \<open>TaskModel\<close> guarantee. The comparator of the task queue is a lexicographic
  comparison of the key \<open>task_key\<close>, overridden where one task of a sequence depends on the other; it
  meets the requirement of \<open>std::set\<close> (the locale \<open>strict_weak_on\<close>) on every set of tasks whose
  dependencies agree with their keys, and on the tasks without dependencies in particular. The
  setters of the activation and expiration times keep the window of a task well formed.
\<close>

subsection \<open>The comparator as a key comparison\<close>

definition start_rank :: "task \<Rightarrow> nat" where
  "start_rank t = (if \<not> depend_on_sequence_tasks t \<and> \<not> hasActivationTime t then 0 else 1)"

definition start_time :: "task \<Rightarrow> timestamp" where
  "start_time t =
     (if depend_on_sequence_tasks t then exp_max_activation_time t
      else if hasActivationTime t then activation_time t
      else 0)"

definition task_key :: "task \<Rightarrow> nat \<times> timestamp \<times> int \<times> timestamp \<times> string \<times> string" where
  "task_key t =
     (start_rank t, start_time t, - priority t, expiration_time t, cmd_name t, task_id t)"

definition depends_in_sequence :: "task \<Rightarrow> task \<Rightarrow> bool" where
  "depends_in_sequence t1 t2 \<longleftrightarrow> areInSameSequence t1 t2 \<and> DependOnTask t1 t2"

lemma areInSameSequence_sym: "areInSameSequence t1 t2 = areInSameSequence t2 t1"
  by (auto simp: areInSameSequence_def)

lemma compare_tail_key:
  "compare_tail t1 t2 \<longleftrightarrow>
     (- priority t1, expiration_time t1, cmd_name t1, task_id t1) <
     (- priority t2, expiration_time t2, cmd_name t2, task_id t2)"
  by (auto simp: compare_tail_def)

lemma comparator_independent_pair:
  assumes "\<not> depends_in_sequence t1 t2" and "\<not> depends_in_sequence t2 t1"
  shows "comparatorFcn t1 t2 \<longleftrightarrow> task_key t1 < task_key t2"
proof -
  have k: "task_key t1 < task_key t2 \<longleftrightarrow>
      start_rank t1 < start_rank t2 \<or> start_rank t1 = start_rank t2 \<and>
      (start_time t1 < start_time t2 \<or> start_time t1 = start_time t2 \<and> compare_tail t1 t2)"
    by (auto simp: task_key_def compare_tail_key)
  have d: "\<not> (areInSameSequence t1 t2 \<and> DependOnTask t1 t2)"
    "\<not> (areInSameSequence t1 t2 \<and> DependOnTask t2 t1)"
    using assms areInSameSequence_sym by (auto simp: depends_in_sequence_def)
  show ?thesis
    unfolding k comparatorFcn_def if_not_P [OF d(1)] if_not_P [OF d(2)]
    by (cases "depend_on_sequence_tasks t1"; cases "depend_on_sequence_tasks t2";
        cases "hasActivationTime t1"; cases "hasActivationTime t2")
      (simp_all add: start_rank_def start_time_def)
qed

lemma comparator_cases:
  "comparatorFcn t1 t2 =
     (if depends_in_sequence t1 t2 then False
      else if depends_in_sequence t2 t1 then True
      else task_key t1 < task_key t2)"
proof (cases "depends_in_sequence t1 t2 \<or> depends_in_sequence t2 t1")
  case True
  then show ?thesis
    by (auto simp: depends_in_sequence_def comparatorFcn_def areInSameSequence_sym [of t2])
next
  case False
  then show ?thesis by (simp add: comparator_independent_pair)
qed

subsection \<open>Where the comparator is a strict weak order\<close>

text \<open>The dependencies inside a set of tasks agree with the keys of its tasks.\<close>

definition key_consistent :: "task set \<Rightarrow> bool" where
  "key_consistent S \<longleftrightarrow>
     (\<forall>t1\<in>S. \<forall>t2\<in>S. depends_in_sequence t1 t2 \<longrightarrow> task_key t2 < task_key t1)"

lemma comparator_key_consistent:
  assumes "key_consistent S" and "t1 \<in> S" and "t2 \<in> S"
  shows "comparatorFcn t1 t2 \<longleftrightarrow> task_key t1 < task_key t2"
  using assms unfolding comparator_cases key_consistent_def
  by (auto dest: order.strict_implies_not_eq intro: order.asym)

interpretation task_keys: strict_weak_on "\<lambda>t1 t2. task_key t1 < task_key t2" UNIV
  by (rule strict_weak_on_key)

lemma strict_weak_comparator:
  assumes "key_consistent S"
  shows "strict_weak_on comparatorFcn S"
proof
  fix x assume "x \<in> S"
  then show "\<not> comparatorFcn x x"
    by (simp add: comparator_key_consistent [OF assms] task_keys.lt_irrefl)
next
  fix x y z
  assume S: "x \<in> S" "y \<in> S" "z \<in> S" and "comparatorFcn x y" "comparatorFcn y z"
  then show "comparatorFcn x z"
    using task_keys.lt_trans [of x y z] by (simp add: comparator_key_consistent [OF assms])
next
  fix x y z
  assume S: "x \<in> S" "y \<in> S" "z \<in> S"
    and n: "\<not> comparatorFcn x y" "\<not> comparatorFcn y x" "\<not> comparatorFcn y z" "\<not> comparatorFcn z y"
  then show "\<not> comparatorFcn x z \<and> \<not> comparatorFcn z x"
    using task_keys.incomp_trans [of x y z] by (simp add: comparator_key_consistent [OF assms])
qed

lemma key_consistent_independent: "key_consistent {t. \<not> depend_on_sequence_tasks t}"
  by (simp add: key_consistent_def depends_in_sequence_def DependOnTask_def)

interpretation independent_tasks: strict_weak_on comparatorFcn "{t. \<not> depend_on_sequence_tasks t}"
  by (rule strict_weak_comparator [OF key_consistent_independent])

interpretation by_expiration: strict_weak_on CompareTaskByExpirationTime UNIV
  by unfold_locales (auto simp: CompareTaskByExpirationTime_def)

text \<open>The queue holds pointers: the order of the pointed-to tasks.\<close>

lemma strict_weak_on_vimage:
  assumes "strict_weak_on lt S"
  shows "strict_weak_on (\<lambda>p q. lt (f p) (f q)) (f -` S)"
proof -
  note irrefl = strict_weak_on.lt_irrefl [OF assms] and trans = strict_weak_on.lt_trans [OF assms]
    and incomp = strict_weak_on.incomp_trans [OF assms]
  show ?thesis
  proof (unfold_locales, goal_cases)
    case (1 x)
    then show ?case by (simp add: irrefl)
  next
    case (2 x y z)
    then show ?case using trans [of "f x" "f y" "f z"] by simp
  next
    case (3 x y z)
    then show ?case using incomp [of "f x" "f y" "f z"] by simp
  qed
qed

subsection \<open>The activation window\<close>

definition window_ok :: "task \<Rightarrow> bool" where
  "window_ok t \<longleftrightarrow> (hasActivationTime t \<longrightarrow> activation_time t \<le> expiration_time t)"

lemma timeout_frame [simp]:
  "activation_time (snd (SetActivationTimeout now a t)) = activation_time t"
  "expiration_time (snd (SetActivationTimeout now a t)) = expiration_time t"
  "default_max_duration (snd (SetActivationTimeout now a t)) = default_max_duration t"
  "max_duration (snd (SetActivationTimeout now a t)) = max_duration t"
  "activation_time (snd (SetExpirationTimeout now a t)) = activation_time t"
  "expiration_time (snd (SetExpirationTimeout now a t)) = expiration_time t"
  "default_max_duration (snd (SetExpirationTimeout now a t)) = default_max_duration t"
  "max_duration (snd (SetExpirationTimeout now a t)) = max_duration t"
  "hasActivationTime (snd (SetExpirationTimeout now a t)) = hasActivationTime t"
  "activation_timeout (snd (SetExpirationTimeout now a t)) = activation_timeout t"
  "status (snd (SetExpirationTimeout now a t)) = status t"
  "exp_max_activation_time (snd (SetExpirationTimeout now a t)) = exp_max_activation_time t"
  "exp_max_expiration_time (snd (SetExpirationTimeout now a t)) = exp_max_expiration_time t"
  "depend_on_sequence_tasks (snd (SetExpirationTimeout now a t)) = depend_on_sequence_tasks t"
  "dep_task_seq_indexes (snd (SetExpirationTimeout now a t)) = dep_task_seq_indexes t"
  by (auto simp: SetActivationTimeout_def SetExpirationTimeout_def InitActivationTimeout_def
      InitExpirationTimeout_def Let_def)

lemma add_whole_seconds_mono: "0 \<le> ms \<Longrightarrow> t \<le> add_whole_seconds t ms"
  by (simp add: add_whole_seconds_def)

lemma add_whole_seconds_sub_second: "0 \<le> ms \<Longrightarrow> ms < 1000 \<Longrightarrow> add_whole_seconds t ms = t"
  by (simp add: add_whole_seconds_def)

text \<open>The public setters, as operations on a task.\<close>

datatype setter =
    ActTime timestamp
  | ActDelay int
  | ExpTime timestamp
  | MaxDur int int timestamp
  | DelayDur int int int timestamp

fun apply_setter :: "clock \<Rightarrow> setter \<Rightarrow> task \<Rightarrow> int \<times> task" where
  "apply_setter clk (ActTime a) t = SetActivationTime clk a t"
| "apply_setter clk (ActDelay d) t = SetActivationTimeDelay clk d t"
| "apply_setter clk (ExpTime e) t = SetExpirationTime clk e t"
| "apply_setter clk (MaxDur d m r) t = SetMaxDuration clk d m r t"
| "apply_setter clk (DelayDur a d m r) t = SetTimeDelayAndDuration clk a d m r t"

lemma window_activation_time:
  assumes "0 \<le> default_max_duration t" and "window_ok t"
  shows "window_ok (snd (SetActivationTime clk a t))"
  using assms add_whole_seconds_mono [of "default_max_duration t" a]
  by (simp add: SetActivationTime_def window_ok_def Let_def)

lemma window_activation_success:
  assumes "0 \<le> default_max_duration t" and "fst (SetActivationTime clk a t) = 0"
  shows "window_ok (snd (SetActivationTime clk a t))"
  using assms add_whole_seconds_mono [of "default_max_duration t" a]
  by (simp add: SetActivationTime_def window_ok_def Let_def split: if_splits)

lemma window_expiration_time:
  "window_ok t \<Longrightarrow> window_ok (snd (SetExpirationTime clk e t))"
  by (auto simp: SetExpirationTime_def window_ok_def Let_def)

lemma window_max_duration:
  "window_ok t \<Longrightarrow> window_ok (snd (SetMaxDuration clk d m r t))"
  using add_whole_seconds_mono [of d "activation_time t"]
  by (auto simp: SetMaxDuration_def window_ok_def Let_def split: option.splits)

lemma window_delay_duration:
  "window_ok t \<Longrightarrow> window_ok (snd (SetTimeDelayAndDuration clk a d m r t))"
  by (auto simp: SetTimeDelayAndDuration_def window_ok_def Let_def add_whole_seconds_mono
      split: option.splits)

lemmas window_setters =
  window_activation_time window_activation_success window_expiration_time window_max_duration
  window_delay_duration

end
