(* ===== verification/TaskGraph.thy ===== *)
theory TaskGraph
  imports Prelude
begin

text \<open>
  The dependency graph of a task sequence (\<open>src/utils/Task.cc\<close>): the recursive cycle check
  \<open>CheckCyclicDependencies\<close>/\<open>HasCyclicDependencies\<close>, and the topological sort
  \<open>Sorter\<close>/\<open>FindSortingIndexes\<close>. Row \<open>i\<close> of the dependency matrix lists the tasks that task \<open>i\<close>
  depends on. The two \<open>vector<bool>\<close> arguments and the stack are threaded through the recursion as
  in the code; the \<open>for\<close> loop over a row is the second function of each mutual recursion. \<open>None\<close> is
  an out-of-range vector access, which the code does not check.
\<close>

type_synonym dep_matrix = "nat list list"

subsection \<open>The cycle check\<close>

definition row_size :: "dep_matrix \<Rightarrow> nat \<Rightarrow> nat" where
  "row_size dep i = (case vec_get dep i of None \<Rightarrow> 0 | Some row \<Rightarrow> length row)"

function (sequential)
  CheckCyclicDependencies ::
    "nat \<Rightarrow> dep_matrix \<Rightarrow> bool list \<Rightarrow> bool list \<Rightarrow> (bool \<times> bool list \<times> bool list) option"
and check_row ::
    "nat list \<Rightarrow> dep_matrix \<Rightarrow> bool list \<Rightarrow> bool list \<Rightarrow> (bool \<times> bool list \<times> bool list) option"
where
  "CheckCyclicDependencies i dep visited recStack =
     (case vec_get visited i of
        None \<Rightarrow> None
      | Some True \<Rightarrow>
          (case vec_set recStack i False of
             None \<Rightarrow> None
           | Some recStack' \<Rightarrow> Some (False, visited, recStack'))
      | Some False \<Rightarrow>
          (case vec_set recStack i True of
             None \<Rightarrow> None
           | Some recStack1 \<Rightarrow>
               (case vec_get dep i of
                  None \<Rightarrow> None
                | Some row \<Rightarrow>
                    (case check_row row dep (visited[i := True]) recStack1 of
                       None \<Rightarrow> None
                     | Some (True, v, r) \<Rightarrow> Some (True, v, r)
                     | Some (False, v, r) \<Rightarrow>
                         (case vec_set r i False of
                            None \<Rightarrow> None
                          | Some r' \<Rightarrow> Some (False, v, r'))))))"
| "check_row [] dep visited recStack = Some (False, visited, recStack)"
| "check_row (x # xs) dep visited recStack =
     (case vec_get visited x of
        None \<Rightarrow> None
      | Some True \<Rightarrow>
          (case vec_get recStack x of
             None \<Rightarrow> None
           | Some True \<Rightarrow> Some (True, visited, recStack)
           | Some False \<Rightarrow> check_row xs dep visited recStack)
      | Some False \<Rightarrow>
          (case CheckCyclicDependencies x dep visited recStack of
             None \<Rightarrow> None
           | Some (True, v, r) \<Rightarrow> Some (True, v, r)
           | Some (False, v, r) \<Rightarrow>
               (case vec_get r x of
                  None \<Rightarrow> None
                | Some True \<Rightarrow> Some (True, v, r)
                | Some False \<Rightarrow> check_row xs dep v r)))"
  by pat_completeness auto

text \<open>
  Termination: a recursive call is made on an unvisited task only, and the tasks visited so far are
  never unmarked. The second fact is about the value of the inner call, so it is proved first on
  the domain of the function.
\<close>

abbreviation unvisited :: "bool list \<Rightarrow> nat" where
  "unvisited vis \<equiv> count_if Not vis"

lemma unvisited_mark: "unvisited (vis[i := True]) \<le> unvisited vis"
proof (cases "i < length vis")
  case True
  then show ?thesis using count_if_update [of i vis Not True] by (cases "vis ! i") auto
qed (simp add: list_update_beyond)

lemma unvisited_mark_less:
  assumes "i < length vis" and "\<not> vis ! i"
  shows "unvisited (vis[i := True]) < unvisited vis"
  using count_if_update [of i vis Not True] assms by simp

lemma check_cyclic_unvisited:
  "CheckCyclicDependencies_check_row_dom (Inl (i, dep, vis, rs)) \<Longrightarrow>
     CheckCyclicDependencies i dep vis rs = Some (b, v, r) \<Longrightarrow> unvisited v \<le> unvisited vis"
  "CheckCyclicDependencies_check_row_dom (Inr (row, dep, vis, rs)) \<Longrightarrow>
     check_row row dep vis rs = Some (b, v, r) \<Longrightarrow> unvisited v \<le> unvisited vis"
proof (induction i dep vis rs and row dep vis rs arbitrary: b v r and b v r
    rule: CheckCyclicDependencies_check_row.pinduct)
  case (1 i dep vis rs)
  then show ?case
    by (auto simp: CheckCyclicDependencies.psimps vec_get_eq_Some vec_set_eq_Some
        split: option.splits bool.splits) (blast intro: order_trans [OF _ unvisited_mark])+
next
  case (2 dep vis rs)
  then show ?case by (simp add: check_row.psimps)
next
  case (3 x xs dep vis rs)
  then show ?case
    by (auto simp: check_row.psimps split: option.splits bool.splits) (fastforce intro: order_trans)+
qed

termination CheckCyclicDependencies
  by (relation "measures
     [\<lambda>a. case a of Inl (i, dep, vis, rs) \<Rightarrow> unvisited (vis[i := True])
              | Inr (row, dep, vis, rs) \<Rightarrow> unvisited vis,
      \<lambda>a. case a of Inl (i, dep, vis, rs) \<Rightarrow> Suc (row_size dep i)
              | Inr (row, dep, vis, rs) \<Rightarrow> length row]")
    (auto simp: row_size_def vec_get_eq_Some unvisited_mark_less dest: check_cyclic_unvisited(1))


declare CheckCyclicDependencies.simps [simp del] check_row.simps(2) [simp del]

text \<open>\<open>HasCyclicDependencies\<close>: the check is started from every task in turn, with shared state.\<close>

fun check_all ::
  "nat list \<Rightarrow> dep_matrix \<Rightarrow> bool list \<Rightarrow> bool list \<Rightarrow> bool option"
where
  "check_all [] dep visited recStack = Some False"
| "check_all (i # is) dep visited recStack =
     (case CheckCyclicDependencies i dep visited recStack of
        None \<Rightarrow> None
      | Some (True, _, _) \<Rightarrow> Some True
      | Some (False, v, r) \<Rightarrow> check_all is dep v r)"

definition HasCyclicDependencies :: "nat \<Rightarrow> dep_matrix \<Rightarrow> bool option" where
  "HasCyclicDependencies ntasks dep =
     (if ntasks = 0 then Some False
      else if dep = [] then Some False
      else check_all [0..<ntasks] dep (replicate ntasks False) (replicate ntasks False))"

subsection \<open>Correctness of the cycle check\<close>

text \<open>The graph: an edge from a task to each task it depends on.\<close>

definition dep_rel :: "dep_matrix \<Rightarrow> (nat \<times> nat) set" where
  "dep_rel dep = {(i, j). i < length dep \<and> j \<in> set (dep ! i)}"

definition in_range :: "dep_matrix \<Rightarrow> bool" where
  "in_range dep \<longleftrightarrow> (\<forall>row\<in>set dep. \<forall>j\<in>set row. j < length dep)"

definition marked :: "bool list \<Rightarrow> nat set" where
  "marked bs = {i. i < length bs \<and> bs ! i}"

lemma marked_update:
  "i < length bs \<Longrightarrow> marked (bs[i := b]) = (if b then insert i (marked bs) else marked bs - {i})"
  by (auto simp: marked_def nth_list_update split: if_splits)

lemma marked_less: "i \<in> marked bs \<Longrightarrow> i < length bs"
  by (simp add: marked_def)

lemma marked_replicate [simp]: "marked (replicate n False) = {}"
  by (simp add: marked_def)

lemma in_range_row: "in_range dep \<Longrightarrow> i < length dep \<Longrightarrow> j \<in> set (dep ! i) \<Longrightarrow> j < length dep"
  by (auto simp: in_range_def)

lemma dep_rel_iff: "(i, j) \<in> dep_rel dep \<longleftrightarrow> i < length dep \<and> j \<in> set (dep ! i)"
  by (simp add: dep_rel_def)

text \<open>A set of tasks that is closed under dependencies is left by no path.\<close>

lemma closed_path:
  assumes "(x, y) \<in> E\<^sup>*" and "x \<in> B" and "\<And>a b. a \<in> B \<Longrightarrow> (a, b) \<in> E \<Longrightarrow> b \<in> B"
  shows "y \<in> B"
  using assms(1,2) by (induction rule: rtrancl_induct) (auto intro: assms(3))

text \<open>
  The state between two iterations. A marked task that is on the recursion stack is being visited;
  a marked task that is not is finished: its dependencies are finished and it is on no cycle.
\<close>

definition finished :: "bool list \<Rightarrow> bool list \<Rightarrow> nat set" where
  "finished vis rs = marked vis - marked rs"

definition cyc_inv :: "dep_matrix \<Rightarrow> bool list \<Rightarrow> bool list \<Rightarrow> bool" where
  "cyc_inv dep vis rs \<longleftrightarrow>
     length vis = length dep \<and> length rs = length dep \<and> marked rs \<subseteq> marked vis \<and>
     (\<forall>i\<in>finished vis rs. set (dep ! i) \<subseteq> finished vis rs) \<and>
     (\<forall>i\<in>finished vis rs. (i, i) \<notin> (dep_rel dep)\<^sup>+)"

definition has_cycle :: "dep_matrix \<Rightarrow> bool" where
  "has_cycle dep \<longleftrightarrow> (\<exists>x. (x, x) \<in> (dep_rel dep)\<^sup>+)"

definition visit_post ::
  "dep_matrix \<Rightarrow> bool list \<Rightarrow> bool list \<Rightarrow> nat set \<Rightarrow> (bool \<times> bool list \<times> bool list) option \<Rightarrow> bool"
where
  "visit_post dep vis rs done res \<longleftrightarrow>
     (case res of
        None \<Rightarrow> False
      | Some (True, _, _) \<Rightarrow> has_cycle dep
      | Some (False, v, r) \<Rightarrow>
          cyc_inv dep v r \<and> r = rs \<and> finished vis rs \<subseteq> finished v r \<and> done \<subseteq> finished v r)"

lemma cyc_inv_D:
  assumes "cyc_inv dep vis rs"
  shows "length vis = length dep" "length rs = length dep" "marked rs \<subseteq> marked vis"
    and "i \<in> finished vis rs \<Longrightarrow> j \<in> set (dep ! i) \<Longrightarrow> j \<in> finished vis rs"
    and "i \<in> finished vis rs \<Longrightarrow> (i, i) \<notin> (dep_rel dep)\<^sup>+"
  using assms by (auto simp: cyc_inv_def)

lemma finished_less: "cyc_inv dep vis rs \<Longrightarrow> i \<in> finished vis rs \<Longrightarrow> i < length dep"
  by (auto simp: cyc_inv_def finished_def marked_def)

text \<open>Entering a task puts it on the stack; leaving it, with its row finished, finishes it.\<close>

lemma cyc_inv_enter:
  assumes "cyc_inv dep vis rs" and "i < length dep" and "\<not> vis ! i"
  shows "cyc_inv dep (vis[i := True]) (rs[i := True])"
    and "finished (vis[i := True]) (rs[i := True]) = finished vis rs"
proof -
  have l: "length vis = length dep" "length rs = length dep" and sub: "marked rs \<subseteq> marked vis"
    using assms(1) by (simp_all add: cyc_inv_def)
  have "i \<notin> marked vis" using assms(3) by (simp add: marked_def)
  then show fin: "finished (vis[i := True]) (rs[i := True]) = finished vis rs"
    using sub assms(2) l by (auto simp: finished_def marked_update)
  show "cyc_inv dep (vis[i := True]) (rs[i := True])"
    using assms l sub unfolding cyc_inv_def fin by (auto simp: marked_update)
qed

lemma cyc_inv_leave:
  assumes inv: "cyc_inv dep v r" and i: "i < length dep" "i \<in> marked r"
    and row: "set (dep ! i) \<subseteq> finished v r"
  shows "cyc_inv dep v (r[i := False])"
    and "finished v (r[i := False]) = insert i (finished v r)"
proof -
  note D = cyc_inv_D [OF inv]
  show fin: "finished v (r[i := False]) = insert i (finished v r)"
    using i D(2,3) by (auto simp: finished_def marked_update)
  have "(i, i) \<notin> (dep_rel dep)\<^sup>+"
  proof
    assume "(i, i) \<in> (dep_rel dep)\<^sup>+"
    then obtain j where j: "(i, j) \<in> dep_rel dep" "(j, i) \<in> (dep_rel dep)\<^sup>*"
      by (meson tranclD)
    then have "j \<in> finished v r" using row by (auto simp: dep_rel_iff)
    with j(2) have "i \<in> finished v r"
      by (rule closed_path) (auto simp: dep_rel_iff dest: D(4))
    then show False using i by (simp add: finished_def)
  qed
  moreover have "marked (r[i := False]) \<subseteq> marked v"
    using D(2,3) i by (auto simp: marked_update)
  ultimately show "cyc_inv dep v (r[i := False])"
    using D row unfolding cyc_inv_def fin by auto
qed

lemma check_cyclic_correct:
  "\<lbrakk>cyc_inv dep vis rs; in_range dep; i < length dep; \<not> vis ! i;
    \<forall>g\<in>marked rs. (g, i) \<in> (dep_rel dep)\<^sup>+\<rbrakk>
   \<Longrightarrow> visit_post dep vis rs {i} (CheckCyclicDependencies i dep vis rs)"
  "\<lbrakk>cyc_inv dep vis rs; in_range dep; c < length dep; c \<in> marked rs; set row \<subseteq> set (dep ! c);
    \<forall>g\<in>marked rs. (g, c) \<in> (dep_rel dep)\<^sup>*\<rbrakk>
   \<Longrightarrow> visit_post dep vis rs (set row) (check_row row dep vis rs)"
proof (induction i dep vis rs and row dep vis rs arbitrary: and c
    rule: CheckCyclicDependencies_check_row.induct)
  case (1 i dep vis rs)
  note inv = "1.prems"(1) and i = "1.prems"(3,4)
  note l = cyc_inv_D(1,2) [OF inv]
  let ?vis = "vis[i := True]" and ?rs = "rs[i := True]"
  have ni: "i \<notin> marked rs" using i cyc_inv_D(3) [OF inv] by (auto simp: marked_def)
  have m: "marked ?rs = insert i (marked rs)" using i l by (simp add: marked_update)
  have "visit_post dep ?vis ?rs (set (dep ! i)) (check_row (dep ! i) dep ?vis ?rs)"
  proof (rule "1.IH" [where c = i])
    show "vec_get vis i = Some False" "False = False" "vec_set rs i True = Some ?rs"
      "vec_get dep i = Some (dep ! i)" using i l by simp_all
    show "cyc_inv dep ?vis ?rs" using cyc_inv_enter(1) [OF inv] i by simp
    show "in_range dep" "i < length dep" "set (dep ! i) \<subseteq> set (dep ! i)"
      using "1.prems" by simp_all
    show "i \<in> marked ?rs" using m by simp
    show "\<forall>g\<in>marked ?rs. (g, i) \<in> (dep_rel dep)\<^sup>*"
      using m "1.prems"(5) by (auto intro: trancl_into_rtrancl)
  qed
  then obtain b v r where res: "check_row (dep ! i) dep ?vis ?rs = Some (b, v, r)"
    and post: "visit_post dep ?vis ?rs (set (dep ! i)) (Some (b, v, r))"
    by (auto simp: visit_post_def split: option.splits)
  show ?case
  proof (cases b)
    case True
    then show ?thesis using post res i l
      by (simp add: CheckCyclicDependencies.simps [of i] visit_post_def)
  next
    case False
    with post have p: "cyc_inv dep v r" "r = ?rs" "finished ?vis ?rs \<subseteq> finished v r"
      "set (dep ! i) \<subseteq> finished v r" by (auto simp: visit_post_def)
    have rr: "r[i := False] = rs" using p(2) ni i l by (simp add: marked_def list_update_same_conv)
    have "i \<in> marked r" using p(2) m by simp
    note leave = cyc_inv_leave [OF p(1) i(1) this p(4), unfolded rr]
    show ?thesis using False res i l leave p(2,3) rr cyc_inv_enter(2) [OF inv i]
      by (auto simp: CheckCyclicDependencies.simps [of i] visit_post_def)
  qed
next
  case (2 dep vis rs)
  then show ?case by (simp add: visit_post_def)
next
  case (3 x xs dep vis rs)
  note inv = "3.prems"(1)
  have x: "x < length dep" using "3.prems" by (auto intro: in_range_row)
  note l = cyc_inv_D(1,2) [OF inv]
  have edge: "(c, x) \<in> dep_rel dep" using "3.prems" by (auto simp: dep_rel_iff)
  have xs: "set xs \<subseteq> set (dep ! c)" using "3.prems" by simp
  have cyc: "has_cycle dep" if "x \<in> marked rs"
    using that edge "3.prems"(6) by (auto simp: has_cycle_def intro: rtrancl_into_trancl2)
  show ?case
  proof (cases "vis ! x")
    case True
    show ?thesis
    proof (cases "rs ! x")
      case True
      then have "x \<in> marked rs" using l x by (simp add: marked_def)
      then show ?thesis using cyc \<open>vis ! x\<close> True l x
        by (simp add: check_row.simps(2) visit_post_def)
    next
      case False
      then have fx: "x \<in> finished vis rs" using l x \<open>vis ! x\<close>
        by (simp add: marked_def finished_def)
      have "visit_post dep vis rs (set xs) (check_row xs dep vis rs)"
        by (rule "3.IH"(1)) (use "3.prems" xs False \<open>vis ! x\<close> l x in simp_all)
      then show ?thesis using fx False \<open>vis ! x\<close> l x
        by (auto simp: check_row.simps(2) visit_post_def split: option.splits bool.splits)
    qed
  next
    case False
    have "visit_post dep vis rs {x} (CheckCyclicDependencies x dep vis rs)"
    proof (rule "3.IH"(2))
      show "\<forall>g\<in>marked rs. (g, x) \<in> (dep_rel dep)\<^sup>+"
        using "3.prems"(6) edge by (auto intro: rtrancl_into_trancl1)
    qed (use "3.prems" False l x in simp_all)
    then obtain b v r where res: "CheckCyclicDependencies x dep vis rs = Some (b, v, r)"
      and post: "visit_post dep vis rs {x} (Some (b, v, r))"
      by (auto simp: visit_post_def split: option.splits)
    show ?thesis
    proof (cases b)
      case True
      then show ?thesis using res post False l x
        by (simp add: check_row.simps(2) visit_post_def)
    next
      case nb: False
      with post have p: "cyc_inv dep v r" "r = rs" "finished vis rs \<subseteq> finished v r"
        "x \<in> finished v r" by (auto simp: visit_post_def)
      have rx: "\<not> r ! x" using p(4) x cyc_inv_D(2) [OF p(1)]
        by (simp add: finished_def marked_def)
      have "visit_post dep v r (set xs) (check_row xs dep v r)"
        by (rule "3.IH"(3)) (use "3.prems" xs p res nb rx False l x in simp_all)
      then show ?thesis using p res nb rx False l x
        by (auto simp: check_row.simps(2) visit_post_def split: option.splits bool.splits)
    qed
  qed
qed


text \<open>A task that was visited already is left as it is.\<close>

lemma check_cyclic_visited:
  assumes "cyc_inv dep vis rs" and "i < length dep" and "vis ! i" and "marked rs = {}"
  shows "visit_post dep vis rs {i} (CheckCyclicDependencies i dep vis rs)"
proof -
  note l = cyc_inv_D(1,2) [OF assms(1)]
  have "rs[i := False] = rs"
    using assms(2,4) l by (auto simp: marked_def list_update_same_conv)
  moreover have "i \<in> finished vis rs" using assms l by (auto simp: finished_def marked_def)
  ultimately show ?thesis
    using assms l by (simp add: CheckCyclicDependencies.simps [of i] visit_post_def)
qed

lemma check_all_correct:
  assumes "cyc_inv dep vis rs" and "in_range dep" and "marked rs = {}"
    and "\<forall>i\<in>set is. i < length dep" and "{..<length dep} \<subseteq> finished vis rs \<union> set is"
  shows "check_all is dep vis rs = Some (has_cycle dep)"
  using assms
proof (induction "is" arbitrary: vis)
  case Nil
  have "\<not> has_cycle dep"
  proof
    assume "has_cycle dep"
    then obtain x where x: "(x, x) \<in> (dep_rel dep)\<^sup>+" by (auto simp: has_cycle_def)
    then have "x < length dep" by (auto simp: dep_rel_iff dest: tranclD)
    then have "x \<in> finished vis rs" using Nil.prems(5) by auto
    with x show False using cyc_inv_D(5) [OF Nil.prems(1)] by blast
  qed
  then show ?case by simp
next
  case (Cons i "is")
  have post: "visit_post dep vis rs {i} (CheckCyclicDependencies i dep vis rs)"
  proof (cases "vis ! i")
    case True
    then show ?thesis using Cons.prems by (simp add: check_cyclic_visited)
  next
    case False
    then show ?thesis using Cons.prems by (simp add: check_cyclic_correct(1))
  qed
  then obtain b v r where res: "CheckCyclicDependencies i dep vis rs = Some (b, v, r)"
    by (auto simp: visit_post_def split: option.splits)
  show ?case
  proof (cases b)
    case True
    then show ?thesis using post res by (simp add: visit_post_def)
  next
    case False
    with post res have "cyc_inv dep v r" "r = rs" "finished vis rs \<subseteq> finished v r"
      "i \<in> finished v r" by (auto simp: visit_post_def)
    then show ?thesis using Cons.IH [of v] Cons.prems res False by auto
  qed
qed

lemma has_cyclic_dependencies_iff:
  assumes "dep \<noteq> []" and "in_range dep"
  shows "HasCyclicDependencies (length dep) dep = Some (has_cycle dep)"
proof -
  let ?f = "replicate (length dep) False"
  have "cyc_inv dep ?f ?f" by (simp add: cyc_inv_def finished_def)
  then have "check_all [0..<length dep] dep ?f ?f = Some (has_cycle dep)"
    using assms(2) by (rule check_all_correct) auto
  then show ?thesis using assms(1) by (simp add: HasCyclicDependencies_def)
qed

end
