(* ===== verification/TaskSort.thy ===== *)
theory TaskSort
  imports TaskGraph
begin

text \<open>
  The topological sort of a task sequence (\<open>Sorter\<close> and \<open>FindSortingIndexes\<close> of
  \<open>src/utils/Task.cc\<close>). \<open>Sorter\<close> pushes a task on the stack after the tasks it depends on;
  \<open>FindSortingIndexes\<close> then fills the index vector from its last position down while it pops the
  stack. The stack is a list with its top at the head. \<open>None\<close> is an out-of-range vector access.
\<close>

subsection \<open>The depth-first visit\<close>

function (sequential)
  Sorter :: "nat \<Rightarrow> dep_matrix \<Rightarrow> bool list \<Rightarrow> nat list \<Rightarrow> (bool list \<times> nat list) option"
and sort_row :: "nat list \<Rightarrow> dep_matrix \<Rightarrow> bool list \<Rightarrow> nat list \<Rightarrow> (bool list \<times> nat list) option"
where
  "Sorter i dep visited stack =
     (case vec_set visited i True of
        None \<Rightarrow> None
      | Some visited1 \<Rightarrow>
          (case vec_get dep i of
             None \<Rightarrow> None
           | Some row \<Rightarrow>
               (case sort_row row dep visited1 stack of
                  None \<Rightarrow> None
                | Some (v, s) \<Rightarrow> Some (v, i # s))))"
| "sort_row [] dep visited stack = Some (visited, stack)"
| "sort_row (x # xs) dep visited stack =
     (case vec_get visited x of
        None \<Rightarrow> None
      | Some True \<Rightarrow> sort_row xs dep visited stack
      | Some False \<Rightarrow>
          (case Sorter x dep visited stack of
             None \<Rightarrow> None
           | Some (v, s) \<Rightarrow> sort_row xs dep v s))"
  by pat_completeness auto

lemma sorter_unvisited:
  "Sorter_sort_row_dom (Inl (i, dep, vis, stk)) \<Longrightarrow>
     Sorter i dep vis stk = Some (v, s) \<Longrightarrow> unvisited v \<le> unvisited vis"
  "Sorter_sort_row_dom (Inr (row, dep, vis, stk)) \<Longrightarrow>
     sort_row row dep vis stk = Some (v, s) \<Longrightarrow> unvisited v \<le> unvisited vis"
proof (induction i dep vis stk and row dep vis stk arbitrary: v s and v s
    rule: Sorter_sort_row.pinduct)
  case (1 i dep vis stk)
  then show ?case
    by (auto simp: Sorter.psimps vec_get_eq_Some vec_set_eq_Some
        split: option.splits intro: order_trans [OF _ unvisited_mark])
next
  case (2 dep vis stk)
  then show ?case by (simp add: sort_row.psimps)
next
  case (3 x xs dep vis stk)
  then show ?case
    by (auto simp: sort_row.psimps split: option.splits bool.splits) (meson order_trans)
qed

termination Sorter
  by (relation "measures
     [\<lambda>a. case a of Inl (i, dep, vis, stk) \<Rightarrow> unvisited (vis[i := True])
              | Inr (row, dep, vis, stk) \<Rightarrow> unvisited vis,
      \<lambda>a. case a of Inl (i, dep, vis, stk) \<Rightarrow> Suc (row_size dep i)
              | Inr (row, dep, vis, stk) \<Rightarrow> length row]")
    (auto simp: row_size_def vec_get_eq_Some vec_set_eq_Some unvisited_mark_less
      dest: sorter_unvisited(1))

declare Sorter.simps [simp del] sort_row.simps(2) [simp del]

subsection \<open>The index vector\<close>

fun sort_all :: "nat list \<Rightarrow> dep_matrix \<Rightarrow> bool list \<Rightarrow> nat list \<Rightarrow> nat list option" where
  "sort_all [] dep visited stack = Some stack"
| "sort_all (i # is) dep visited stack =
     (case vec_get visited i of
        None \<Rightarrow> None
      | Some True \<Rightarrow> sort_all is dep visited stack
      | Some False \<Rightarrow>
          (case Sorter i dep visited stack of
             None \<Rightarrow> None
           | Some (v, s) \<Rightarrow> sort_all is dep v s))"

text \<open>\<open>order_index[counter--]= Stack.top(); Stack.pop()\<close>, with the 64-bit wrap of \<open>size_t\<close>.\<close>

fun fill_order :: "nat list \<Rightarrow> nat \<Rightarrow> nat list \<Rightarrow> nat list option" where
  "fill_order order counter [] = Some order"
| "fill_order order counter (t # stack) =
     (case vec_set order counter t of
        None \<Rightarrow> None
      | Some order' \<Rightarrow>
          fill_order order' (if counter = 0 then 2 ^ 64 - 1 else counter - 1) stack)"

definition FindSortingIndexes :: "nat \<Rightarrow> dep_matrix \<Rightarrow> nat list option" where
  "FindSortingIndexes ntasks dep =
     (let order_index = [0..<ntasks] in
      if ntasks = 0 then Some order_index
      else if dep = [] then Some order_index
      else
        (case sort_all [0..<ntasks] dep (replicate ntasks False) [] of
           None \<Rightarrow> None
         | Some stack \<Rightarrow> fill_order order_index (length order_index - 1) stack))"

subsection \<open>Correctness\<close>

text \<open>Every task on the stack lies above the tasks it depends on.\<close>

fun topo_stack :: "dep_matrix \<Rightarrow> nat list \<Rightarrow> bool" where
  "topo_stack dep [] = True"
| "topo_stack dep (x # xs) \<longleftrightarrow> set (dep ! x) \<subseteq> set xs \<and> x \<notin> set xs \<and> topo_stack dep xs"

lemma topo_stack_distinct: "topo_stack dep s \<Longrightarrow> distinct s"
  by (induction s) auto

text \<open>The marked tasks are the ones on the stack and the set \<open>G\<close> of those being visited.\<close>

definition sort_inv :: "dep_matrix \<Rightarrow> nat set \<Rightarrow> bool list \<Rightarrow> nat list \<Rightarrow> bool" where
  "sort_inv dep G vis stk \<longleftrightarrow>
     length vis = length dep \<and> marked vis = set stk \<union> G \<and> set stk \<inter> G = {} \<and> topo_stack dep stk"

definition sort_post ::
  "dep_matrix \<Rightarrow> nat set \<Rightarrow> nat list \<Rightarrow> nat set \<Rightarrow> (bool list \<times> nat list) option \<Rightarrow> bool"
where
  "sort_post dep G stk done res \<longleftrightarrow>
     (\<exists>v s. res = Some (v, s) \<and> sort_inv dep G v s \<and> set stk \<subseteq> set s \<and> done \<subseteq> set s)"

lemma sort_inv_enter:
  assumes "sort_inv dep G vis stk" and "i < length dep" and "\<not> vis ! i"
  shows "sort_inv dep (insert i G) (vis[i := True]) stk"
  using assms by (auto simp: sort_inv_def marked_update) (auto simp: marked_def)

lemma sort_inv_leave:
  assumes "sort_inv dep (insert i G) v s" and "i \<notin> G" and "set (dep ! i) \<subseteq> set s"
  shows "sort_inv dep G v (i # s)"
  using assms by (auto simp: sort_inv_def)

lemma acyclic_no_loop: "\<not> has_cycle dep \<Longrightarrow> (x, x) \<notin> (dep_rel dep)\<^sup>+"
  by (auto simp: has_cycle_def)

lemma sorter_correct:
  "\<lbrakk>sort_inv dep G vis stk; in_range dep; \<not> has_cycle dep; i < length dep; \<not> vis ! i;
    \<forall>g\<in>G. (g, i) \<in> (dep_rel dep)\<^sup>+\<rbrakk>
   \<Longrightarrow> sort_post dep G stk {i} (Sorter i dep vis stk)"
  "\<lbrakk>sort_inv dep G vis stk; in_range dep; \<not> has_cycle dep; c < length dep; c \<in> G;
    set row \<subseteq> set (dep ! c); \<forall>g\<in>G. (g, c) \<in> (dep_rel dep)\<^sup>*\<rbrakk>
   \<Longrightarrow> sort_post dep G stk (set row) (sort_row row dep vis stk)"
proof (induction i dep vis stk and row dep vis stk arbitrary: G and c G
    rule: Sorter_sort_row.induct)
  case (1 i dep vis stk)
  note inv = "1.prems"(1) and i = "1.prems"(4,5)
  have l: "length vis = length dep" using inv by (simp add: sort_inv_def)
  have nG: "i \<notin> G" using inv i l by (auto simp: sort_inv_def marked_def)
  have "sort_post dep (insert i G) stk (set (dep ! i)) (sort_row (dep ! i) dep (vis[i := True]) stk)"
  proof (rule "1.IH" [where c = i])
    show "vec_set vis i True = Some (vis[i := True])" "vec_get dep i = Some (dep ! i)"
      using i l by simp_all
    show "sort_inv dep (insert i G) (vis[i := True]) stk" using inv i by (rule sort_inv_enter)
    show "\<forall>g\<in>insert i G. (g, i) \<in> (dep_rel dep)\<^sup>*"
      using "1.prems"(6) by (auto intro: trancl_into_rtrancl)
  qed (use "1.prems" in simp_all)
  then obtain v s where res: "sort_row (dep ! i) dep (vis[i := True]) stk = Some (v, s)"
    and p: "sort_inv dep (insert i G) v s" "set stk \<subseteq> set s" "set (dep ! i) \<subseteq> set s"
    by (auto simp: sort_post_def)
  from sort_inv_leave [OF p(1) nG p(3)] show ?case
    using res p(2) i l by (auto simp: sort_post_def Sorter.simps [of i])
next
  case (2 dep vis stk)
  then show ?case by (simp add: sort_post_def)
next
  case (3 x xs dep vis stk)
  note inv = "3.prems"(1)
  have x: "x < length dep" using "3.prems" by (auto intro: in_range_row)
  have l: "length vis = length dep" using inv by (simp add: sort_inv_def)
  have edge: "(c, x) \<in> dep_rel dep" using "3.prems" by (auto simp: dep_rel_iff)
  have xG: "x \<notin> G"
    using "3.prems"(3,7) edge acyclic_no_loop by (blast intro: rtrancl_into_trancl2)
  show ?case
  proof (cases "vis ! x")
    case True
    then have xs: "x \<in> set stk" using inv l x xG by (auto simp: sort_inv_def marked_def)
    have "sort_post dep G stk (set xs) (sort_row xs dep vis stk)"
      by (rule "3.IH"(1)) (use "3.prems" True l x in simp_all)
    then show ?thesis using xs True l x by (auto simp: sort_row.simps(2) sort_post_def)
  next
    case False
    have "sort_post dep G stk {x} (Sorter x dep vis stk)"
    proof (rule "3.IH"(2))
      show "\<forall>g\<in>G. (g, x) \<in> (dep_rel dep)\<^sup>+"
        using "3.prems"(7) edge by (auto intro: rtrancl_into_trancl1)
    qed (use "3.prems" False l x in simp_all)
    then obtain v s where res: "Sorter x dep vis stk = Some (v, s)"
      and p: "sort_inv dep G v s" "set stk \<subseteq> set s" "x \<in> set s"
      by (auto simp: sort_post_def)
    have "sort_post dep G s (set xs) (sort_row xs dep v s)"
      by (rule "3.IH"(3)) (use "3.prems" res p False l x in simp_all)
    then show ?thesis using p res False l x by (auto simp: sort_row.simps(2) sort_post_def)
  qed
qed

lemma sort_all_correct:
  assumes "sort_inv dep {} vis stk" and "in_range dep" and "\<not> has_cycle dep"
    and "\<forall>i\<in>set is. i < length dep"
  shows "\<exists>s. sort_all is dep vis stk = Some s \<and> topo_stack dep s \<and> set s \<subseteq> {..<length dep} \<and>
             set stk \<union> set is \<subseteq> set s"
  using assms
proof (induction "is" arbitrary: vis stk)
  case Nil
  have "set stk \<subseteq> {..<length dep}"
    using Nil.prems(1) marked_less by (fastforce simp: sort_inv_def)
  then show ?case using Nil.prems(1) by (simp add: sort_inv_def)
next
  case (Cons i "is")
  have l: "length vis = length dep" using Cons.prems by (simp add: sort_inv_def)
  show ?case
  proof (cases "vis ! i")
    case True
    then have "i \<in> set stk" using Cons.prems l by (auto simp: sort_inv_def marked_def)
    with True show ?thesis using Cons l by fastforce
  next
    case False
    then have "sort_post dep {} stk {i} (Sorter i dep vis stk)"
      using Cons.prems by (simp add: sorter_correct(1))
    then obtain v s where "Sorter i dep vis stk = Some (v, s)" "sort_inv dep {} v s"
      "set stk \<subseteq> set s" "i \<in> set s" by (auto simp: sort_post_def)
    with False show ?thesis using Cons.IH [of v s] Cons.prems l by fastforce
  qed
qed

lemma fill_order_rev:
  "length stk \<le> length order \<Longrightarrow>
   fill_order order (length stk - 1) stk = Some (rev stk @ drop (length stk) order)"
proof (induction stk arbitrary: order)
  case Nil
  then show ?case by simp
next
  case (Cons t stk)
  show ?case
  proof (cases stk)
    case Nil
    with Cons.prems show ?thesis by (cases order) auto
  next
    case (Cons u us)
    then have "length stk \<noteq> 0" by simp
    then show ?thesis using Cons.prems Cons.IH [of "order[length stk := t]"]
      by (simp add: Cons_nth_drop_Suc [symmetric] nth_list_update drop_update_cancel)
  qed
qed

lemma topo_stack_nth:
  assumes "topo_stack dep s" and "k < length s"
  shows "set (dep ! (rev s ! k)) \<subseteq> set (take k (rev s))"
  using assms
proof (induction s)
  case Nil
  then show ?case by simp
next
  case (Cons x xs)
  show ?case
  proof (cases "k < length xs")
    case True
    with Cons show ?thesis by (simp add: nth_append)
  next
    case False
    with Cons.prems have "k = length xs" by simp
    with Cons.prems show ?thesis by (simp add: nth_append)
  qed
qed

lemma find_sorting_indexes_topological:
  assumes "in_range dep" and "\<not> has_cycle dep" and "dep \<noteq> []"
  shows "\<exists>order. FindSortingIndexes (length dep) dep = Some order \<and>
           distinct order \<and> set order = {..<length dep} \<and>
           (\<forall>k<length order. set (dep ! (order ! k)) \<subseteq> set (take k order))"
proof -
  have "sort_inv dep {} (replicate (length dep) False) []" by (simp add: sort_inv_def)
  from sort_all_correct [OF this assms(1,2), of "[0..<length dep]"] obtain s
    where s: "sort_all [0..<length dep] dep (replicate (length dep) False) [] = Some s"
      "topo_stack dep s" "set s \<subseteq> {..<length dep}" "{..<length dep} \<subseteq> set s"
    by (auto simp: lessThan_atLeast0)
  have d: "distinct s" using s(2) by (rule topo_stack_distinct)
  have ss: "set s = {..<length dep}" using s by blast
  with d have len: "length s = length dep" by (metis card_lessThan distinct_card)
  have "FindSortingIndexes (length dep) dep = Some (rev s)"
    using s(1) assms(3) len fill_order_rev [of s "[0..<length dep]"]
    by (simp add: FindSortingIndexes_def)
  then show ?thesis using d ss topo_stack_nth [OF s(2)] by auto
qed

end
