(* ===== verification/TaskSeq.thy ===== *)
theory TaskSeq
  imports TaskOrder TaskSort
begin

text \<open>
  Class \<open>TaskSequence\<close> of \<open>src/utils/Task.h\<close> and \<open>src/utils/Task.cc\<close>: a named list of tasks that are
  queued together, with a dependency matrix between them and an overall status.

  The tasks of a sequence are \<open>std::shared_ptr\<close>s that the queue and the caller hold as well, so a
  sequence keeps task addresses and every operation that writes a task takes and returns the task
  heap. \<open>TangoUtils::HasAttribute\<close> asks the Tango device; its answer is the argument \<open>has_attr\<close>. A
  result \<open>None\<close> is an out-of-range vector access.
\<close>

type_synonym task_ptr = nat
type_synonym task_heap = "task_ptr \<Rightarrow> task"

record task_sequence =
  seq_name :: string
  seq_id :: string
  tasks :: "task_ptr list"
  seq_status :: int
  seq_status_info :: string
  dependency_matrix :: dep_matrix
  seq_useUTC :: bool
  seq_creation_time :: timestamp
  has_device_status_attr :: bool
  dev_status_attr_name :: string

definition TaskSequence_new :: "string \<Rightarrow> timestamp \<Rightarrow> string \<Rightarrow> bool \<Rightarrow> task_sequence" where
  "TaskSequence_new uuid now name useUTCTime =
     \<lparr>seq_name = name, seq_id = uuid, tasks = [], seq_status = eINIT, seq_status_info = [],
      dependency_matrix = [], seq_useUTC = useUTCTime, seq_creation_time = now,
      has_device_status_attr = False, dev_status_attr_name = []\<rparr>"

definition update_task :: "(task \<Rightarrow> task) \<Rightarrow> task_ptr \<Rightarrow> task_heap \<Rightarrow> task_heap" where
  "update_task f p h = h(p := f (h p))"

lemma update_task_apply [simp]:
  "update_task f p h q = (if q = p then f (h p) else h q)"
  by (simp add: update_task_def)

subsection \<open>Building a sequence\<close>

text \<open>A null pointer is \<open>None\<close>.\<close>

definition AddTask ::
  "task_ptr option \<Rightarrow> task_heap \<Rightarrow> task_sequence \<Rightarrow> int \<times> task_heap \<times> task_sequence"
where
  "AddTask tp h s =
     (case tp of
        None \<Rightarrow> (-1, h, s)
      | Some p \<Rightarrow>
          if seq_id s = [] \<or> seq_name s = [] then (-1, h, s)
          else
            let s' = s\<lparr>tasks := tasks s @ [p]\<rparr>
            in (0,
                update_task (\<lambda>t. t\<lparr>is_in_sequence := True, sequence_id := seq_id s',
                                  sequence_name := seq_name s',
                                  sequence_index := length (tasks s') - 1\<rparr>) p h,
                s'))"

definition SetDevStatusAttr :: "(string \<Rightarrow> bool) \<Rightarrow> string \<Rightarrow> task_sequence \<Rightarrow> int \<times> task_sequence"
where
  "SetDevStatusAttr has_attr attr_name s =
     (if attr_name = [] then (-1, s)
      else if \<not> has_attr attr_name then (-1, s)
      else (0, s\<lparr>has_device_status_attr := True, dev_status_attr_name := attr_name\<rparr>))"

subsection \<open>Look-up and counters\<close>

text \<open>Each \<open>Find...\<close> returns the index and the pointer, \<open>None\<close> for \<open>nullptr\<close> with index \<open>-1\<close>.\<close>

definition find_task_where :: "(task \<Rightarrow> bool) \<Rightarrow> task_heap \<Rightarrow> task_sequence \<Rightarrow> (nat \<times> task_ptr) option"
where
  "find_task_where P h s =
     map_option (\<lambda>i. (i, tasks s ! i)) (find_index (\<lambda>p. P (h p)) (tasks s))"

definition FindTaskByName :: "string \<Rightarrow> task_heap \<Rightarrow> task_sequence \<Rightarrow> (nat \<times> task_ptr) option" where
  "FindTaskByName name = find_task_where (MatchTaskByName name)"

definition FindTask :: "string \<Rightarrow> string \<Rightarrow> task_heap \<Rightarrow> task_sequence \<Rightarrow> (nat \<times> task_ptr) option"
where
  "FindTask i name = find_task_where (MatchTask i name)"

definition FindAsynchTaskByWatchedAttrName ::
  "string \<Rightarrow> task_heap \<Rightarrow> task_sequence \<Rightarrow> (nat \<times> task_ptr) option"
where
  "FindAsynchTaskByWatchedAttrName attr_name =
     find_task_where (MatchAsynchTaskByWatchedAttrName attr_name)"

definition GetNTasks :: "task_sequence \<Rightarrow> int" where
  "GetNTasks s = int (length (tasks s))"

definition GetNTasksByStatus :: "int \<Rightarrow> task_heap \<Rightarrow> task_sequence \<Rightarrow> nat" where
  "GetNTasksByStatus st h s = count_if (\<lambda>p. MatchTaskByStatus st (h p)) (tasks s)"

subsection \<open>The status of the sequence\<close>

text \<open>\<open>{a, b, c}\<close>: all names but the last are followed by a comma.\<close>

definition brace_list :: "string list \<Rightarrow> string" where
  "brace_list names =
     ''{'' @ concat (List.map (\<lambda>n. n @ '', '') (butlast names)) @ last names @ ''}''"

definition ComputeStatus :: "task_heap \<Rightarrow> task_sequence \<Rightarrow> task_sequence" where
  "ComputeStatus h s =
     (let ts = List.map h (tasks s);
          oneTaskIdle = list_ex (\<lambda>t. status t = eIDLE) ts;
          allTaskIdle = list_all (\<lambda>t. status t = eIDLE) ts;
          oneTaskRunning = list_ex (\<lambda>t. status t = eRUNNING) ts;
          oneTaskCompleted = list_ex (\<lambda>t. status t = eCOMPLETED) ts;
          allTaskCompleted = list_all (\<lambda>t. status t = eCOMPLETED) ts;
          failedTasks =
            List.map cmd_name (filter (\<lambda>t. status t = eABORTED \<or> status t = eFAILED) ts);
          oneTaskFailed = (failedTasks \<noteq> []);
          expiredTasks = List.map cmd_name (filter (\<lambda>t. status t = eEXPIRED) ts);
          oneTaskTimedOut = (expiredTasks \<noteq> []);
          canceledTasks = List.map cmd_name (filter (\<lambda>t. status t = eCANCELED) ts);
          oneTaskCanceled = (canceledTasks \<noteq> []);
          allTaskCanceled = list_all (\<lambda>t. status t = eCANCELED) ts;
          this_seq = seq_name s @ '' (id='' @ seq_id s @ '')'';
          r0 = (eUNKNOWN, ''Cannot determine task sequence status as one/more task in UNKNOWN state or cannot map global sequence status'');
          r1 = (if allTaskCompleted
                then (eCOMPLETED, ''Task sequence '' @ this_seq @ '' completed with success'') else r0);
          r2 = (if allTaskIdle
                then (eIDLE, ''All tasks in sequence '' @ this_seq @ '' are queued'') else r1);
          r3 = (if allTaskCanceled
                then (eCANCELED, ''All tasks in sequence '' @ this_seq @ '' were cancelled/revoked'')
                else r2);
          running = (eRUNNING, ''One/more task in sequence '' @ this_seq @ '' are running'');
          r4 = (if oneTaskRunning \<and> \<not> oneTaskFailed \<and> \<not> oneTaskTimedOut then running else r3);
          r5 = (if oneTaskCompleted \<and> oneTaskIdle \<and> \<not> oneTaskFailed \<and> \<not> oneTaskTimedOut
                then running else r4);
          r6 = (if oneTaskFailed
                then (eFAILED, ''One/more tasks '' @ brace_list failedTasks @ '' in sequence '' @
                               this_seq @ '' failed in execution'')
                else r5);
          r7 = (if oneTaskCanceled
                then (eCANCELED, ''One/more tasks '' @ brace_list canceledTasks @ '' in sequence '' @
                                 this_seq @ '' were canceled'')
                else r6);
          r8 = (if oneTaskTimedOut \<and> \<not> oneTaskFailed
                then (eEXPIRED, ''One/more task '' @ brace_list expiredTasks @ '' in sequence '' @
                                this_seq @ '' timed-out before execution'')
                else r7)
      in s\<lparr>seq_status := fst r8, seq_status_info := snd r8\<rparr>)"

definition SetTaskStatus ::
  "string \<Rightarrow> int \<Rightarrow> string \<Rightarrow> task_heap \<Rightarrow> task_sequence \<Rightarrow> int \<times> task_heap \<times> task_sequence"
where
  "SetTaskStatus task_name st info h s =
     (case FindTaskByName task_name h s of
        None \<Rightarrow> (-1, h, s)
      | Some (i, p) \<Rightarrow>
          let h' = update_task (SetStatus st info) p h in (0, h', ComputeStatus h' s))"

definition SetAsynchTaskStatus ::
  "string \<Rightarrow> int \<Rightarrow> string \<Rightarrow> task_heap \<Rightarrow> task_sequence \<Rightarrow> int \<times> task_heap \<times> task_sequence"
where
  "SetAsynchTaskStatus attr_name st info h s =
     (case FindAsynchTaskByWatchedAttrName attr_name h s of
        None \<Rightarrow> (0, h, s)
      | Some (i, p) \<Rightarrow>
          let h' = update_task (SetStatus st info) p h in (0, h', ComputeStatus h' s))"

subsection \<open>Dependencies\<close>

text \<open>
  The inner loop over one row: indexes are appended until an invalid one; the flag tells whether the
  row was accepted.
\<close>

fun dep_row :: "nat \<Rightarrow> nat \<Rightarrow> nat list \<Rightarrow> task \<Rightarrow> bool \<times> task" where
  "dep_row ntasks i [] t = (True, t)"
| "dep_row ntasks i (d # ds) t =
     (if d = i \<or> ntasks \<le> d then (False, t)
      else dep_row ntasks i ds (t\<lparr>dep_task_seq_indexes := dep_task_seq_indexes t @ [d]\<rparr>))"

text \<open>The outer loop: row \<open>i\<close> belongs to the \<open>i\<close>th task.\<close>

fun dep_rows :: "nat \<Rightarrow> nat \<Rightarrow> dep_matrix \<Rightarrow> task_ptr list \<Rightarrow> task_heap \<Rightarrow> bool \<times> task_heap" where
  "dep_rows ntasks i (row # rows) (p # ps) h =
     (let t0 = (if row \<noteq> [] then (h p)\<lparr>depend_on_sequence_tasks := True\<rparr> else h p);
          r = dep_row ntasks i row (t0\<lparr>dep_task_seq_indexes := []\<rparr>);
          h' = h(p := snd r)
      in if fst r then dep_rows ntasks (Suc i) rows ps h' else (False, h'))"
| "dep_rows ntasks i _ _ h = (True, h)"

text \<open>
  The latest end of the tasks at the given indexes; a task that depends on others itself counts with
  its maximum expiration time.
\<close>

definition ready_time :: "task \<Rightarrow> timestamp" where
  "ready_time t =
     (if depend_on_sequence_tasks t then exp_max_expiration_time t else expiration_time t)"

fun max_dep_time :: "task_heap \<Rightarrow> task_ptr list \<Rightarrow> nat list \<Rightarrow> timestamp \<Rightarrow> timestamp option" where
  "max_dep_time h ps [] m = Some m"
| "max_dep_time h ps (d # ds) m =
     (case vec_get ps d of
        None \<Rightarrow> None
      | Some q \<Rightarrow> max_dep_time h ps ds (if m < ready_time (h q) then ready_time (h q) else m))"

definition set_max_times :: "clock \<Rightarrow> timestamp \<Rightarrow> task \<Rightarrow> task" where
  "set_max_times clk max_expiration_time t =
     (let t1 = t\<lparr>exp_max_activation_time :=
                   (if hasActivationTime t \<and> max_expiration_time < activation_time t
                    then activation_time t else max_expiration_time)\<rparr>;
          t2 = t1\<lparr>exp_max_expiration_time :=
                   add_whole_seconds (exp_max_activation_time t1) (max_duration t1)\<rparr>
      in snd (SetExpirationTime clk (exp_max_expiration_time t2) t2))"

fun max_times_loop :: "clock \<Rightarrow> task_ptr list \<Rightarrow> nat list \<Rightarrow> task_heap \<Rightarrow> task_heap option" where
  "max_times_loop clk ps [] h = Some h"
| "max_times_loop clk ps (i # is) h =
     (case vec_get ps i of
        None \<Rightarrow> None
      | Some p \<Rightarrow>
          if \<not> depend_on_sequence_tasks (h p) then max_times_loop clk ps is h
          else case max_dep_time h ps (dep_task_seq_indexes (h p)) empty_unix of
              None \<Rightarrow> None
            | Some m \<Rightarrow>
                max_times_loop (\<lambda>n. clk (n + 2)) ps is (update_task (set_max_times clk m) p h))"

definition SetTaskDependency ::
  "clock \<Rightarrow> dep_matrix \<Rightarrow> task_heap \<Rightarrow> task_sequence \<Rightarrow> (int \<times> task_heap \<times> task_sequence) option"
where
  "SetTaskDependency clk dep_indexes h s =
     (let n = length (tasks s) in
      if dep_indexes = [] \<or> length dep_indexes \<noteq> n then Some (-1, h, s)
      else case HasCyclicDependencies n dep_indexes of
          None \<Rightarrow> None
        | Some True \<Rightarrow> Some (-1, h, s)
        | Some False \<Rightarrow>
            let s' = s\<lparr>dependency_matrix := dep_indexes\<rparr>;
                r = dep_rows n 0 dep_indexes (tasks s) h
            in if \<not> fst r then Some (-1, snd r, s')
               else case FindSortingIndexes n dep_indexes of
                   None \<Rightarrow> None
                 | Some sorting_index \<Rightarrow>
                     map_option (\<lambda>h'. (0, h', s')) (max_times_loop clk (tasks s) sorting_index (snd r)))"

text \<open>\<open>Sort\<close> moves the task pointers only; the index a task has recorded stays.\<close>

definition Sort :: "task_sequence \<Rightarrow> (int \<times> task_sequence) option" where
  "Sort s =
     (case FindSortingIndexes (length (tasks s)) (dependency_matrix s) of
        None \<Rightarrow> None
      | Some order_index \<Rightarrow>
          (case those (List.map (vec_get (tasks s)) order_index) of
             None \<Rightarrow> None
           | Some tasks_ordered \<Rightarrow> Some (0, s\<lparr>tasks := tasks_ordered\<rparr>)))"

subsection \<open>Match predicates\<close>

definition MatchTaskSequenceByName :: "string \<Rightarrow> task_sequence \<Rightarrow> bool" where
  "MatchTaskSequenceByName name s = (seq_name s = name)"

definition MatchTaskSequenceByIdAndName :: "string \<Rightarrow> string \<Rightarrow> task_sequence \<Rightarrow> bool" where
  "MatchTaskSequenceByIdAndName i name s = (seq_name s = name \<and> seq_id s = i)"

definition MatchTaskSequenceByDevAttrName :: "string \<Rightarrow> task_sequence \<Rightarrow> bool" where
  "MatchTaskSequenceByDevAttrName attr_name s =
     (has_device_status_attr s \<and> dev_status_attr_name s = attr_name)"

text \<open>The threshold is in seconds; the difference of two times is exact.\<close>

definition MatchOldSequenceTask :: "int \<Rightarrow> timestamp \<Rightarrow> int \<Rightarrow> bool \<Rightarrow> task_sequence \<Rightarrow> bool" where
  "MatchOldSequenceTask filter_status current_time historyTimeThr invert_filter s =
     (let tdiff = GetYatTimeDiffUSec (seq_creation_time s) current_time;
          isOldTask = (tdiff \<ge> historyTimeThr * 1000000);
          isSelectedTask = (filter_status = -1 \<or>
            (\<not> invert_filter \<and> seq_status s = filter_status) \<or>
            (invert_filter \<and> seq_status s \<noteq> filter_status))
      in isOldTask \<and> isSelectedTask)"

end
