(* ===== verification/TaskMgr.thy ===== *)
theory TaskMgr
  imports TaskSeq
begin

text \<open>
  Class \<open>TaskManager\<close> of \<open>src/utils/TaskManager.h\<close> and \<open>src/utils/TaskManager.cc\<close>: the queue of
  tasks to run, ordered by \<open>CompareTask\<close>, and the collection of task sequences whose status clients
  ask for.

  Tasks and sequences are reached through \<open>std::shared_ptr\<close>, so the state holds a heap of each, and
  the queue and the collection hold addresses: a status set through one is seen through the other.
  Every public method locks the mutex of the manager for its whole body and is one step here.
  \<open>PopTask\<close> releases the mutex while it waits, and is two steps. Memory exhaustion, the only source of
  the exceptions that the container operations catch, is not modelled.
\<close>

type_synonym seq_ptr = nat

record task_manager =
  m_tasks :: task_heap
  m_seqs :: "seq_ptr \<Rightarrow> task_sequence"
  m_taskQueue :: "task_ptr list"
  m_taskSequences :: "seq_ptr list"
  m_wakeUpSignal :: bool
  m_endSignal :: bool
  m_maxTasksInQueue :: int
  m_maxTasksInCollection :: int
  m_defaultQueueWaitTime :: int

definition TaskManager_new :: "task_heap \<Rightarrow> (seq_ptr \<Rightarrow> task_sequence) \<Rightarrow> task_manager" where
  "TaskManager_new h sh =
     \<lparr>m_tasks = h, m_seqs = sh, m_taskQueue = [], m_taskSequences = [], m_wakeUpSignal = False,
      m_endSignal = False, m_maxTasksInQueue = 30, m_maxTasksInCollection = 1000,
      m_defaultQueueWaitTime = 30\<rparr>"

definition queue_lt :: "task_heap \<Rightarrow> task_ptr \<Rightarrow> task_ptr \<Rightarrow> bool" where
  "queue_lt h p q = comparatorFcn (h p) (h q)"

subsection \<open>Status names\<close>

text \<open>The old value of the output argument is the last argument.\<close>

definition GetTaskStatusFromString :: "string \<Rightarrow> int \<Rightarrow> int \<times> int" where
  "GetTaskStatusFromString status_str st =
     (if status_str = '''' then (-1, st)
      else if status_str = ''UNKNOWN'' then (0, eUNKNOWN)
      else if status_str = ''INIT'' then (0, eINIT)
      else if status_str = ''IDLE'' then (0, eIDLE)
      else if status_str = ''RUNNING'' then (0, eRUNNING)
      else if status_str = ''COMPLETED'' then (0, eCOMPLETED)
      else if status_str = ''FAILED'' then (0, eFAILED)
      else if status_str = ''ABORTED'' then (0, eABORTED)
      else if status_str = ''EXPIRED'' then (0, eEXPIRED)
      else if status_str = ''CANCELED'' then (0, eCANCELED)
      else (-1, -1))"

definition GetTaskStatusString :: "int \<Rightarrow> int \<times> string" where
  "GetTaskStatusString st =
     (if st = eUNKNOWN then (0, ''UNKNOWN'')
      else if st = eINIT then (0, ''INIT'')
      else if st = eIDLE then (0, ''IDLE'')
      else if st = eRUNNING then (0, ''RUNNING'')
      else if st = eCOMPLETED then (0, ''COMPLETED'')
      else if st = eFAILED then (0, ''FAILED'')
      else if st = eABORTED then (0, ''ABORTED'')
      else if st = eEXPIRED then (0, ''EXPIRED'')
      else if st = eCANCELED then (0, ''CANCELED'')
      else (-1, ''''))"

subsection \<open>Counters and limits\<close>

definition get_n_by_status :: "int \<Rightarrow> task_manager \<Rightarrow> int" where
  "get_n_by_status st m =
     (\<Sum>sp\<leftarrow>m_taskSequences m. int (GetNTasksByStatus st (m_tasks m) (m_seqs m sp)))"

definition get_n_running_sequence_tasks :: "task_manager \<Rightarrow> int" where
  "get_n_running_sequence_tasks m = get_n_by_status eRUNNING m"

definition get_n_idle_sequence_tasks :: "task_manager \<Rightarrow> int" where
  "get_n_idle_sequence_tasks m = get_n_by_status eIDLE m"

definition get_n_failed_sequence_tasks :: "task_manager \<Rightarrow> int" where
  "get_n_failed_sequence_tasks m = get_n_by_status eFAILED m"

definition get_n_tot_failed_sequence_tasks :: "task_manager \<Rightarrow> int" where
  "get_n_tot_failed_sequence_tasks m =
     get_n_by_status eFAILED m + get_n_by_status eABORTED m + get_n_by_status eEXPIRED m"

definition get_n_sequence_tasks :: "task_manager \<Rightarrow> int" where
  "get_n_sequence_tasks m = (\<Sum>sp\<leftarrow>m_taskSequences m. GetNTasks (m_seqs m sp))"

definition GetNTasksInQueue :: "task_manager \<Rightarrow> int" where
  "GetNTasksInQueue m = int (length (m_taskQueue m))"

definition is_task_quota_reached :: "task_manager \<Rightarrow> bool" where
  "is_task_quota_reached m =
     (GetNTasksInQueue m > m_maxTasksInQueue m \<or>
      get_n_sequence_tasks m > m_maxTasksInCollection m)"

definition SetMaxNTasksInQueue :: "int \<Rightarrow> task_manager \<Rightarrow> task_manager" where
  "SetMaxNTasksInQueue val m = m\<lparr>m_maxTasksInQueue := val\<rparr>"

definition SetMaxNTasksInCollection :: "int \<Rightarrow> task_manager \<Rightarrow> task_manager" where
  "SetMaxNTasksInCollection val m = m\<lparr>m_maxTasksInCollection := val\<rparr>"

definition WakeUp :: "task_manager \<Rightarrow> task_manager" where
  "WakeUp m = m\<lparr>m_wakeUpSignal := True\<rparr>"

definition End :: "task_manager \<Rightarrow> task_manager" where
  "End m = m\<lparr>m_endSignal := True\<rparr>"

subsection \<open>Look-up\<close>

definition find_task_in_queue :: "string \<Rightarrow> string \<Rightarrow> task_manager \<Rightarrow> task_ptr option" where
  "find_task_in_queue i name m =
     map_option (nth (m_taskQueue m))
       (find_index (\<lambda>p. MatchTask i name (m_tasks m p)) (m_taskQueue m))"

definition find_tasks_in_queue :: "string \<Rightarrow> string \<Rightarrow> task_manager \<Rightarrow> task_ptr list" where
  "find_tasks_in_queue i name m =
     filter (\<lambda>p. MatchTask i name (m_tasks m p)) (m_taskQueue m)"

definition find_sequence_tasks_in_queue :: "string \<Rightarrow> task_manager \<Rightarrow> task_ptr list" where
  "find_sequence_tasks_in_queue name m =
     filter (\<lambda>p. MatchTaskBySequenceName name (m_tasks m p)) (m_taskQueue m)"

definition find_task_sequence :: "string \<Rightarrow> string \<Rightarrow> task_manager \<Rightarrow> seq_ptr option" where
  "find_task_sequence i name m =
     map_option (nth (m_taskSequences m))
       (find_index (\<lambda>sp. MatchTaskSequenceByIdAndName i name (m_seqs m sp)) (m_taskSequences m))"

definition find_task_in_sequence ::
  "string \<Rightarrow> string \<Rightarrow> string \<Rightarrow> string \<Rightarrow> task_manager \<Rightarrow> task_ptr option"
where
  "find_task_in_sequence i name sid sname m =
     (case find_task_sequence sid sname m of
        None \<Rightarrow> None
      | Some sp \<Rightarrow> map_option snd (FindTask i name (m_tasks m) (m_seqs m sp)))"

definition find_task_sequences_by_dev_attr :: "string \<Rightarrow> task_manager \<Rightarrow> seq_ptr list" where
  "find_task_sequences_by_dev_attr attr_name m =
     filter (\<lambda>sp. MatchTaskSequenceByDevAttrName attr_name (m_seqs m sp)) (m_taskSequences m)"

definition find_tasks_by_watched_attr_name :: "string \<Rightarrow> task_manager \<Rightarrow> task_ptr list" where
  "find_tasks_by_watched_attr_name attr_name m =
     List.map_filter
       (\<lambda>sp. map_option snd (FindAsynchTaskByWatchedAttrName attr_name (m_tasks m) (m_seqs m sp)))
       (m_taskSequences m)"

type_synonym task_info = "string \<times> int \<times> string \<times> timestamp"

definition sequence_info :: "task_sequence \<Rightarrow> task_info" where
  "sequence_info s = (seq_name s, seq_status s, seq_status_info s, seq_creation_time s)"

definition GetTaskSequenceStatusInfo :: "bool \<Rightarrow> string \<Rightarrow> task_manager \<Rightarrow> task_info list" where
  "GetTaskSequenceStatusInfo useDevAttrFilter dev_attr_name m =
     List.map (\<lambda>sp. sequence_info (m_seqs m sp))
       (if useDevAttrFilter then find_task_sequences_by_dev_attr dev_attr_name m
        else m_taskSequences m)"

subsection \<open>Setting statuses\<close>

definition put_task :: "(task \<Rightarrow> task) \<Rightarrow> task_ptr \<Rightarrow> task_manager \<Rightarrow> task_manager" where
  "put_task f p m = m\<lparr>m_tasks := update_task f p (m_tasks m)\<rparr>"

definition recompute :: "seq_ptr \<Rightarrow> task_manager \<Rightarrow> task_manager" where
  "recompute sp m = m\<lparr>m_seqs := (m_seqs m)(sp := ComputeStatus (m_tasks m) (m_seqs m sp))\<rparr>"

fun set_status_loop ::
  "string \<Rightarrow> string \<Rightarrow> int \<Rightarrow> string \<Rightarrow> seq_ptr list \<Rightarrow> bool \<Rightarrow> task_manager \<Rightarrow> bool \<times> task_manager"
where
  "set_status_loop i name st info [] isFound m = (isFound, m)"
| "set_status_loop i name st info (sp # sps) isFound m =
     (case FindTask i name (m_tasks m) (m_seqs m sp) of
        None \<Rightarrow> set_status_loop i name st info sps isFound m
      | Some (k, p) \<Rightarrow>
          let m1 = put_task (SetStatus st info) p m;
              m2 = (if is_in_sequence (m_tasks m1 p) then recompute sp m1 else m1)
          in set_status_loop i name st info sps True m2)"

definition set_sequence_task_status ::
  "string \<Rightarrow> string \<Rightarrow> int \<Rightarrow> string \<Rightarrow> task_manager \<Rightarrow> int \<times> task_manager"
where
  "set_sequence_task_status i name st info m =
     (let r = set_status_loop i name st info (m_taskSequences m) False m
      in (if fst r then 0 else -1, snd r))"

definition mgr_SetSequenceTaskStatus ::
  "string \<Rightarrow> string \<Rightarrow> int \<Rightarrow> string \<Rightarrow> task_manager \<Rightarrow> int \<times> task_manager"
where
  "mgr_SetSequenceTaskStatus i name st info m = set_sequence_task_status i name st info m"

fun asynch_status_loop :: "string \<Rightarrow> int \<Rightarrow> string \<Rightarrow> seq_ptr list \<Rightarrow> task_manager \<Rightarrow> task_manager"
where
  "asynch_status_loop attr_name st info [] m = m"
| "asynch_status_loop attr_name st info (sp # sps) m =
     (case SetAsynchTaskStatus attr_name st info (m_tasks m) (m_seqs m sp) of
        (r, h', s') \<Rightarrow>
          asynch_status_loop attr_name st info sps
            (m\<lparr>m_tasks := h', m_seqs := (m_seqs m)(sp := s')\<rparr>))"

definition mgr_SetAsynchTaskStatus :: "string \<Rightarrow> int \<Rightarrow> string \<Rightarrow> task_manager \<Rightarrow> int \<times> task_manager"
where
  "mgr_SetAsynchTaskStatus attr_name st info m =
     (0, asynch_status_loop attr_name st info (m_taskSequences m) m)"

subsection \<open>Adding a sequence\<close>

text \<open>The loop that queues the tasks; the flag is false when it returns early.\<close>

fun queue_tasks :: "(string \<Rightarrow> bool) \<Rightarrow> task_ptr list \<Rightarrow> task_manager \<Rightarrow> bool \<times> task_manager" where
  "queue_tasks has_attr [] m = (True, m)"
| "queue_tasks has_attr (p # ps) m =
     (let t = m_tasks m p in
      if is_asynch t \<and> \<not> has_attr (status_attr_name t) then (False, m)
      else
        let m1 = m\<lparr>m_taskQueue := set_insert (queue_lt (m_tasks m)) p (m_taskQueue m)\<rparr>
        in queue_tasks has_attr ps (put_task (\<lambda>t. t\<lparr>status := eIDLE\<rparr>) p m1))"

definition AddTaskSequence ::
  "(string \<Rightarrow> bool) \<Rightarrow> seq_ptr option \<Rightarrow> bool \<Rightarrow> task_manager \<Rightarrow> int \<times> task_manager"
where
  "AddTaskSequence has_attr taskSequence addToQueue m =
     (case taskSequence of
        None \<Rightarrow> (-1, m)
      | Some sp \<Rightarrow>
          let s = m_seqs m sp; nTasksInSequence = GetNTasks s in
          if nTasksInSequence \<le> 0 then (-1, m)
          else if GetNTasksInQueue m + nTasksInSequence > m_maxTasksInQueue m then (-1, m)
          else
            let r = (if addToQueue then queue_tasks has_attr (tasks s) m else (True, m));
                m1 = snd r
            in if \<not> fst r then (-1, m1)
               else (0, m1\<lparr>m_taskSequences := m_taskSequences m1 @ [sp],
                           m_wakeUpSignal := True\<rparr>))"

subsection \<open>Removing and revoking\<close>

definition erase_queued :: "(task \<Rightarrow> bool) \<Rightarrow> task_manager \<Rightarrow> task_manager" where
  "erase_queued P m =
     m\<lparr>m_taskQueue := set_erase_if (\<lambda>p. P (m_tasks m p)) (m_taskQueue m)\<rparr>"

definition remove_sequence_tasks_in_queue :: "string \<Rightarrow> task_manager \<Rightarrow> task_manager" where
  "remove_sequence_tasks_in_queue name m = erase_queued (MatchTaskBySequenceName name) m"

definition remove_tasks_in_queue :: "string \<Rightarrow> task_manager \<Rightarrow> task_manager" where
  "remove_tasks_in_queue name m = erase_queued (MatchTaskByName name) m"

definition remove_tasks_in_queue_id :: "string \<Rightarrow> string \<Rightarrow> task_manager \<Rightarrow> task_manager" where
  "remove_tasks_in_queue_id i name m = erase_queued (MatchTask i name) m"

definition remove_expired_tasks_in_queue :: "task_manager \<Rightarrow> task_manager" where
  "remove_expired_tasks_in_queue m = erase_queued (MatchTaskByStatus eEXPIRED) m"

definition remove_sequence_tasks :: "string \<Rightarrow> task_manager \<Rightarrow> task_manager" where
  "remove_sequence_tasks name m =
     m\<lparr>m_taskSequences :=
         filter (\<lambda>sp. \<not> MatchTaskSequenceByName name (m_seqs m sp)) (m_taskSequences m)\<rparr>"

text \<open>The inner loop of the two revoking operations: idle tasks become canceled.\<close>

fun cancel_idle :: "(task \<Rightarrow> bool) \<Rightarrow> task_ptr list \<Rightarrow> bool \<Rightarrow> task_manager \<Rightarrow> bool \<times> task_manager" where
  "cancel_idle P [] hasCanceledTasks m = (hasCanceledTasks, m)"
| "cancel_idle P (p # ps) hasCanceledTasks m =
     (if status (m_tasks m p) \<noteq> eIDLE \<or> \<not> P (m_tasks m p)
      then cancel_idle P ps hasCanceledTasks m
      else cancel_idle P ps True (put_task (SetStatus eCANCELED ''Task was canceled'') p m))"

fun revoke_sequence_tasks_loop :: "string \<Rightarrow> seq_ptr list \<Rightarrow> task_manager \<Rightarrow> task_manager" where
  "revoke_sequence_tasks_loop name [] m = m"
| "revoke_sequence_tasks_loop name (sp # sps) m =
     (if seq_name (m_seqs m sp) \<noteq> name then revoke_sequence_tasks_loop name sps m
      else
        let r = cancel_idle (\<lambda>t. True) (tasks (m_seqs m sp)) False m in
        revoke_sequence_tasks_loop name sps (if fst r then recompute sp (snd r) else snd r))"

fun revoke_tasks_loop :: "string \<Rightarrow> seq_ptr list \<Rightarrow> task_manager \<Rightarrow> task_manager" where
  "revoke_tasks_loop name [] m = m"
| "revoke_tasks_loop name (sp # sps) m =
     (let r = cancel_idle (\<lambda>t. cmd_name t = name) (tasks (m_seqs m sp)) False m in
      revoke_tasks_loop name sps (if fst r then recompute sp (snd r) else snd r))"

definition revoke_sequence_tasks :: "string \<Rightarrow> task_manager \<Rightarrow> task_manager" where
  "revoke_sequence_tasks name m = revoke_sequence_tasks_loop name (m_taskSequences m) m"

definition revoke_tasks :: "string \<Rightarrow> task_manager \<Rightarrow> task_manager" where
  "revoke_tasks name m = revoke_tasks_loop name (m_taskSequences m) m"

definition RemoveTaskSequence :: "string \<Rightarrow> task_manager \<Rightarrow> int \<times> task_manager" where
  "RemoveTaskSequence name m =
     (0, remove_sequence_tasks name (remove_sequence_tasks_in_queue name m))"

definition RevokeTaskSequence :: "string \<Rightarrow> task_manager \<Rightarrow> int \<times> task_manager" where
  "RevokeTaskSequence name m =
     (0, revoke_sequence_tasks name (remove_sequence_tasks_in_queue name m))"

definition RevokeTask :: "string \<Rightarrow> task_manager \<Rightarrow> int \<times> task_manager" where
  "RevokeTask name m = (0, revoke_tasks name (remove_tasks_in_queue name m))"

definition FlushQueue :: "task_manager \<Rightarrow> int \<times> task_manager" where
  "FlushQueue m = (0, m\<lparr>m_taskQueue := []\<rparr>)"

subsection \<open>Clearing the collection\<close>

definition ClearAllSequenceTasks :: "task_manager \<Rightarrow> int \<times> task_manager" where
  "ClearAllSequenceTasks m = (0, m\<lparr>m_taskSequences := []\<rparr>)"

definition clear_old :: "int \<Rightarrow> timestamp \<Rightarrow> int \<Rightarrow> bool \<Rightarrow> task_manager \<Rightarrow> task_manager" where
  "clear_old filter_status now historyTimeThr invert_filter m =
     m\<lparr>m_taskSequences :=
         filter (\<lambda>sp. \<not> MatchOldSequenceTask filter_status now historyTimeThr invert_filter
                         (m_seqs m sp)) (m_taskSequences m)\<rparr>"

definition ClearSequenceTasks :: "timestamp \<Rightarrow> int \<Rightarrow> bool \<Rightarrow> task_manager \<Rightarrow> int \<times> task_manager" where
  "ClearSequenceTasks now historyTimeThr keepRunningTasks m =
     (if m_taskSequences m = [] then (0, m)
      else if keepRunningTasks then (0, clear_old eRUNNING now historyTimeThr True m)
      else (0, clear_old (-1) now historyTimeThr False m))"

definition ClearCompletedSequenceTasks :: "timestamp \<Rightarrow> int \<Rightarrow> task_manager \<Rightarrow> int \<times> task_manager" where
  "ClearCompletedSequenceTasks now historyTimeThr m =
     (if m_taskSequences m = [] then (0, m)
      else (0, clear_old eCOMPLETED now historyTimeThr True m))"

subsection \<open>Popping a task\<close>

definition is_sequence_task_runnable :: "task_ptr option \<Rightarrow> task_manager \<Rightarrow> bool" where
  "is_sequence_task_runnable aTask m =
     (case aTask of
        None \<Rightarrow> False
      | Some p \<Rightarrow>
          let t = m_tasks m p in
          if \<not> is_in_sequence t then True
          else if \<not> depend_on_sequence_tasks t \<or> dep_task_seq_indexes t = [] then True
          else case find_task_sequence (sequence_id t) (sequence_name t) m of
              None \<Rightarrow> False
            | Some sp \<Rightarrow>
                let s = m_seqs m sp; nTasksInSequence = length (tasks s) in
                list_all (\<lambda>d. d < nTasksInSequence \<and> status (m_tasks m (tasks s ! d)) = eCOMPLETED)
                  (dep_task_seq_indexes t))"

text \<open>
  The scan of the queue: \<open>k\<close> is the position of the iterator. The result is the state, in which timed
  out tasks are marked, the position of the runnable task and that of the first waiting task. The
  timers are asked anew in each test; \<open>tms\<close> gives the three answers at each position.
\<close>

fun pop_scan ::
  "(nat \<Rightarrow> timer_state) \<Rightarrow> nat \<Rightarrow> task_ptr list \<Rightarrow> nat option \<Rightarrow> task_manager \<Rightarrow>
     task_manager \<times> nat option \<times> nat option"
where
  "pop_scan tms k [] w m = (m, None, w)"
| "pop_scan tms k (p # ps) w m =
     (let isSequenceTaskRunnable = is_sequence_task_runnable (Some p) m in
      if IsRunnable (tms (3 * k)) (m_tasks m p) \<and> isSequenceTaskRunnable then (m, Some k, w)
      else if IsExpirationReached (tms (3 * k + 1)) (m_tasks m p) then
        pop_scan tms (Suc k) ps w
          (put_task (SetStatus eEXPIRED ''Task is found timed-out while processing the queue'') p m)
      else if IsWaitingForActivation (tms (3 * k + 2)) (m_tasks m p) \<and> w = None then
        pop_scan tms (Suc k) ps (Some k) m
      else pop_scan tms (Suc k) ps w m)"

datatype pop_result =
    PopBlocked
  | PopFail
  | PopWait task_ptr
  | Popped task

text \<open>
  The first part of \<open>PopTask\<close>: \<open>PopBlocked\<close> while the condition of the first wait is false,
  \<open>PopWait p\<close> when it goes on to wait for the activation of \<open>p\<close>.
\<close>

definition PopTask :: "(nat \<Rightarrow> timer_state) \<Rightarrow> task_manager \<Rightarrow> pop_result \<times> task_manager" where
  "PopTask tms m =
     (if \<not> (m_taskQueue m \<noteq> [] \<or> m_wakeUpSignal m \<or> m_endSignal m) then (PopBlocked, m)
      else
        let m1 = m\<lparr>m_wakeUpSignal := False\<rparr> in
        if m_endSignal m1 then (PopFail, m1)
        else if m_taskQueue m1 = [] then (PopFail, m1)
        else
          let m2 = remove_expired_tasks_in_queue m1 in
          case pop_scan tms 0 (m_taskQueue m2) None m2 of
            (m3, Some k, w) \<Rightarrow>
              (Popped (m_tasks m3 (m_taskQueue m3 ! k)),
               m3\<lparr>m_taskQueue := erase_at k (m_taskQueue m3)\<rparr>)
          | (m3, None, Some w) \<Rightarrow> (PopWait (m_taskQueue m3 ! w), m3)
          | (m3, None, None) \<Rightarrow> (PopFail, m3))"

text \<open>The end of the wait; the call then returns \<open>-1\<close>.\<close>

definition PopTask_resume :: "task_manager \<Rightarrow> task_manager" where
  "PopTask_resume m =
     (if m_wakeUpSignal m \<or> m_endSignal m then m\<lparr>m_wakeUpSignal := False\<rparr> else m)"

subsection \<open>Executing a task\<close>

text \<open>
  What the command handler that \<open>Task::Run\<close> calls does is the argument: it returns, throws
  \<open>Tango::DevFailed\<close> with a reason, or throws something else. The state is the one after the handler.
  The result tells whether the exception is thrown on.
\<close>

datatype run_outcome =
    RunReturns
  | RunDevFailed string
  | RunThrows

definition ExecuteTask ::
  "string \<Rightarrow> run_outcome \<Rightarrow> task \<Rightarrow> task_manager \<Rightarrow> bool \<times> task_manager"
where
  "ExecuteTask dev_name outcome t m =
     (case outcome of
        RunDevFailed exception_reason \<Rightarrow>
          (True, snd (mgr_SetSequenceTaskStatus (task_id t) (cmd_name t) eFAILED
             (''Tango exception occurred while executing '' @ cmd_name t @ '' on device '' @
              dev_name @ '' (reason='' @ exception_reason @ '')!'') m))
      | RunThrows \<Rightarrow>
          (True, snd (mgr_SetSequenceTaskStatus (task_id t) (cmd_name t) eFAILED
             (''Unknown exception occurred while executing '' @ cmd_name t @ '' on device '' @
              dev_name @ ''!'') m))
      | RunReturns \<Rightarrow>
          if is_asynch t then
            (False, snd (mgr_SetSequenceTaskStatus (task_id t) (cmd_name t) eRUNNING
               (''Task '' @ cmd_name t @ '' commanded in device '' @ dev_name @
                '' started with success'') m))
          else
            (False, snd (mgr_SetSequenceTaskStatus (task_id t) (cmd_name t) eCOMPLETED
               (''Task '' @ cmd_name t @ '' commanded in device '' @ dev_name @
                '' completed with success'') m)))"

end
