(* ===== verification/TaskSeqSpec.thy ===== *)
theory TaskSeqSpec
  imports TaskSeq
begin

text \<open>
  What \<open>TaskSequence\<close> guarantees. The status of a sequence is a function of the set of its tasks'
  statuses. \<open>SetTaskDependency\<close> accepts exactly the acyclic dependency matrices and gives every
  dependent task a latest activation time that none of its predecessors outlives; sequences built
  with \<open>AddTask\<close> and \<open>SetTaskDependency\<close> then order correctly in the task queue.
\<close>

subsection \<open>The status of a sequence\<close>

text \<open>The abstract verdict on a set of task statuses.\<close>

definition sequence_verdict :: "int set \<Rightarrow> int" where
  "sequence_verdict S =
     (if eEXPIRED \<in> S \<and> eFAILED \<notin> S \<and> eABORTED \<notin> S then eEXPIRED
      else if eCANCELED \<in> S \<or> S = {} then eCANCELED
      else if eFAILED \<in> S \<or> eABORTED \<in> S then eFAILED
      else if eRUNNING \<in> S \<or> (eCOMPLETED \<in> S \<and> eIDLE \<in> S) then eRUNNING
      else if S = {eIDLE} then eIDLE
      else if S = {eCOMPLETED} then eCOMPLETED
      else eUNKNOWN)"

definition task_statuses :: "task_heap \<Rightarrow> task_sequence \<Rightarrow> int set" where
  "task_statuses h s = (\<lambda>p. status (h p)) ` set (tasks s)"

lemma all_status_iff:
  "list_all (\<lambda>t. status t = c) (List.map h ps) \<longleftrightarrow> (\<lambda>p. status (h p)) ` set ps \<subseteq> {c}"
  by (auto simp: list_all_iff)

lemma ex_status_iff:
  "list_ex (\<lambda>t. status t = c) (List.map h ps) \<longleftrightarrow> c \<in> (\<lambda>p. status (h p)) ` set ps"
  by (auto simp: list_ex_iff)

lemma filter_status_iff:
  "List.map cmd_name (filter (\<lambda>t. status t = c) (List.map h ps)) \<noteq> [] \<longleftrightarrow>
     c \<in> (\<lambda>p. status (h p)) ` set ps"
  "List.map cmd_name (filter (\<lambda>t. status t = c \<or> status t = d) (List.map h ps)) \<noteq> [] \<longleftrightarrow>
     c \<in> (\<lambda>p. status (h p)) ` set ps \<or> d \<in> (\<lambda>p. status (h p)) ` set ps"
  by (auto simp: filter_empty_conv)

lemma compute_status_verdict:
  "seq_status (ComputeStatus h s) = sequence_verdict (task_statuses h s)"
  unfolding ComputeStatus_def Let_def all_status_iff ex_status_iff filter_status_iff
    task_statuses_def [symmetric] sequence_verdict_def
  by (simp add: subset_singleton_iff split del: if_split) (auto split: if_splits)

lemma compute_status_frame [simp]:
  "tasks (ComputeStatus h s) = tasks s"
  "seq_name (ComputeStatus h s) = seq_name s"
  "seq_id (ComputeStatus h s) = seq_id s"
  "dependency_matrix (ComputeStatus h s) = dependency_matrix s"
  "has_device_status_attr (ComputeStatus h s) = has_device_status_attr s"
  "dev_status_attr_name (ComputeStatus h s) = dev_status_attr_name s"
  "seq_creation_time (ComputeStatus h s) = seq_creation_time s"
  by (simp_all add: ComputeStatus_def Let_def)

lemma verdict_completed: "sequence_verdict S = eCOMPLETED \<longleftrightarrow> S = {eCOMPLETED}"
  by (auto simp: sequence_verdict_def)

lemma verdict_idle: "sequence_verdict S = eIDLE \<longleftrightarrow> S = {eIDLE}"
  by (auto simp: sequence_verdict_def)

subsection \<open>Well-formed sequences\<close>

text \<open>Every task of the sequence knows the sequence and its own position.\<close>

definition seq_wf :: "task_heap \<Rightarrow> task_sequence \<Rightarrow> bool" where
  "seq_wf h s \<longleftrightarrow>
     distinct (tasks s) \<and>
     (\<forall>i<length (tasks s). is_in_sequence (h (tasks s ! i)) \<and>
        sequence_id (h (tasks s ! i)) = seq_id s \<and> sequence_name (h (tasks s ! i)) = seq_name s \<and>
        sequence_index (h (tasks s ! i)) = i)"

lemma seq_wf_empty: "seq_wf h (TaskSequence_new uuid now name utc)"
  by (simp add: seq_wf_def TaskSequence_new_def)

lemma seq_wf_add_task:
  assumes "seq_wf h s" and "p \<notin> set (tasks s)" and "AddTask (Some p) h s = (r, h', s')"
  shows "seq_wf h' s'"
  using assms by (auto simp: seq_wf_def AddTask_def Let_def nth_append less_Suc_eq
      split: if_splits)

subsection \<open>Recording the dependencies\<close>

lemma dep_row_accept:
  "\<forall>d\<in>set ds. d \<noteq> i \<and> d < n \<Longrightarrow>
   dep_row n i ds t = (True, t\<lparr>dep_task_seq_indexes := dep_task_seq_indexes t @ ds\<rparr>)"
  by (induction ds arbitrary: t) auto

definition with_deps :: "nat list \<Rightarrow> task \<Rightarrow> task" where
  "with_deps row t =
     t\<lparr>depend_on_sequence_tasks := depend_on_sequence_tasks t \<or> row \<noteq> [],
       dep_task_seq_indexes := row\<rparr>"

lemma dep_rows_accept:
  assumes "length rows = length ps" and "distinct ps"
    and "\<forall>k<length rows. \<forall>d\<in>set (rows ! k). d \<noteq> i + k \<and> d < n"
  shows "\<exists>h'. dep_rows n i rows ps h = (True, h') \<and>
           (\<forall>k<length ps. h' (ps ! k) = with_deps (rows ! k) (h (ps ! k))) \<and>
           (\<forall>p. p \<notin> set ps \<longrightarrow> h' p = h p)"
  using assms
proof (induction rows arbitrary: ps h i)
  case Nil
  then show ?case by simp
next
  case (Cons row rows)
  then obtain p qs where ps: "ps = p # qs" and len: "length rows = length qs"
    by (cases ps) auto
  have row: "\<forall>d\<in>set row. d \<noteq> i \<and> d < n"
    using Cons.prems(3) [THEN spec, of 0] by auto
  have rest: "\<forall>k<length rows. \<forall>d\<in>set (rows ! k). d \<noteq> Suc i + k \<and> d < n"
    using Cons.prems(3) [THEN spec, of "Suc k" for k] by auto
  let ?t0 = "if row \<noteq> [] then (h p)\<lparr>depend_on_sequence_tasks := True\<rparr> else h p"
  let ?h1 = "h(p := with_deps row (h p))"
  have "?t0\<lparr>dep_task_seq_indexes := row\<rparr> = with_deps row (h p)"
    by (cases "depend_on_sequence_tasks (h p)") (auto simp: with_deps_def)
  then have step: "dep_rows n i (row # rows) (p # qs) h = dep_rows n (Suc i) rows qs ?h1"
    using dep_row_accept [OF row, of "?t0\<lparr>dep_task_seq_indexes := []\<rparr>"] by (simp add: Let_def)
  obtain h' where h': "dep_rows n (Suc i) rows qs ?h1 = (True, h')"
    "\<forall>k<length qs. h' (qs ! k) = with_deps (rows ! k) (?h1 (qs ! k))"
    "\<forall>q. q \<notin> set qs \<longrightarrow> h' q = ?h1 q"
    using Cons.IH [OF len _ rest, of ?h1] Cons.prems(2) ps by (simp del: fun_upd_apply) blast
  have "\<forall>k<length ps. h' (ps ! k) = with_deps ((row # rows) ! k) (h (ps ! k))"
    using h'(2,3) Cons.prems(2) ps by (auto simp: nth_Cons split: nat.splits)
  with h' step ps show ?case by auto
qed

subsection \<open>The latest activation times\<close>

lemma max_dep_time_Some:
  "\<forall>d\<in>set ds. d < length ps \<Longrightarrow>
   \<exists>m. max_dep_time h ps ds m0 = Some m \<and> m0 \<le> m \<and>
       (\<forall>d\<in>set ds. ready_time (h (ps ! d)) \<le> m) \<and>
       (m = m0 \<or> (\<exists>d\<in>set ds. m = ready_time (h (ps ! d))))"
proof (induction ds arbitrary: m0)
  case Nil
  then show ?case by simp
next
  case (Cons d ds)
  let ?r = "ready_time (h (ps ! d))"
  let ?m = "if m0 < ?r then ?r else m0"
  obtain m where m: "max_dep_time h ps ds ?m = Some m" "?m \<le> m"
    "\<forall>d\<in>set ds. ready_time (h (ps ! d)) \<le> m" "m = ?m \<or> (\<exists>d\<in>set ds. m = ready_time (h (ps ! d)))"
    using Cons.IH [of ?m] Cons.prems by auto
  have "max_dep_time h ps (d # ds) m0 = Some m" using m(1) Cons.prems by simp
  moreover have "m0 \<le> m" "?r \<le> m" using m(2) by (auto split: if_splits)
  ultimately show ?case using m(3,4) by (auto split: if_splits)
qed

text \<open>The fields that the computation of the maximum times writes, blanked out.\<close>

definition times_blank :: "task \<Rightarrow> task" where
  "times_blank t =
     t\<lparr>exp_max_activation_time := 0, exp_max_expiration_time := 0, expiration_time := 0,
       expiration_timeout := None, hasExpirationTime := False\<rparr>"

lemma set_max_times_blank: "times_blank (set_max_times clk m t) = times_blank t"
  by (simp add: set_max_times_def SetExpirationTime_def SetExpirationTimeout_def
      InitExpirationTimeout_def times_blank_def Let_def)

lemma set_max_times_values:
  "exp_max_activation_time (set_max_times clk m t) =
     (if hasActivationTime t \<and> m < activation_time t then activation_time t else m)"
  "exp_max_expiration_time (set_max_times clk m t) =
     add_whole_seconds (exp_max_activation_time (set_max_times clk m t)) (max_duration t)"
  by (simp_all add: set_max_times_def SetExpirationTime_def Let_def)

lemma times_blank_sel:
  "depend_on_sequence_tasks (times_blank t) = depend_on_sequence_tasks t"
  "dep_task_seq_indexes (times_blank t) = dep_task_seq_indexes t"
  "hasActivationTime (times_blank t) = hasActivationTime t"
  "activation_time (times_blank t) = activation_time t"
  "max_duration (times_blank t) = max_duration t"
  "sequence_index (times_blank t) = sequence_index t"
  "areInSameSequence (times_blank t) u = areInSameSequence t u"
  "is_in_sequence (times_blank t) = is_in_sequence t"
  "sequence_id (times_blank t) = sequence_id t"
  "sequence_name (times_blank t) = sequence_name t"
  "status (times_blank t) = status t"
  by (simp_all add: times_blank_def areInSameSequence_def)

lemma times_blank_fields:
  assumes "times_blank t' = times_blank t"
  shows "depend_on_sequence_tasks t' = depend_on_sequence_tasks t"
    and "dep_task_seq_indexes t' = dep_task_seq_indexes t"
    and "hasActivationTime t' = hasActivationTime t"
    and "activation_time t' = activation_time t"
    and "max_duration t' = max_duration t"
    and "sequence_index t' = sequence_index t"
    and "areInSameSequence t' u = areInSameSequence t u"
    and "is_in_sequence t' = is_in_sequence t"
    and "sequence_id t' = sequence_id t"
    and "sequence_name t' = sequence_name t"
    and "status t' = status t"
  using assms by (metis times_blank_sel)+

text \<open>A task whose maximum times are right.\<close>

definition times_ok :: "task_heap \<Rightarrow> task_ptr list \<Rightarrow> nat \<Rightarrow> bool" where
  "times_ok h ps i \<longleftrightarrow>
     (let t = h (ps ! i) in
      depend_on_sequence_tasks t \<longrightarrow>
        (\<forall>d\<in>set (dep_task_seq_indexes t). ready_time (h (ps ! d)) \<le> exp_max_activation_time t) \<and>
        (hasActivationTime t \<longrightarrow> activation_time t \<le> exp_max_activation_time t) \<and>
        exp_max_expiration_time t =
          add_whole_seconds (exp_max_activation_time t) (max_duration t))"

text \<open>
  One step of the loop: task \<open>i\<close> is finished after the tasks \<open>D\<close>, which hold all their predecessors
  and those of \<open>i\<close>.
\<close>

lemma times_ok_other:
  assumes "times_ok h ps j" and "distinct ps" and "j \<noteq> i" and "i < length ps" and "j < length ps"
    and "i \<notin> set (dep_task_seq_indexes (h (ps ! j)))"
    and "\<forall>d\<in>set (dep_task_seq_indexes (h (ps ! j))). d < length ps"
  shows "times_ok (update_task f (ps ! i) h) ps j"
proof -
  have "ps ! d \<noteq> ps ! i" if "d \<in> set (dep_task_seq_indexes (h (ps ! j)))" for d
    using that assms nth_eq_iff_index_eq [of ps d i] by auto
  moreover have "ps ! j \<noteq> ps ! i" using assms nth_eq_iff_index_eq [of ps j i] by auto
  ultimately show ?thesis using assms(1) by (simp add: times_ok_def Let_def)
qed

lemma times_ok_new:
  assumes "distinct ps" and "i < length ps"
    and "i \<notin> set (dep_task_seq_indexes (h (ps ! i)))"
    and "\<forall>d\<in>set (dep_task_seq_indexes (h (ps ! i))). d < length ps"
    and "\<forall>d\<in>set (dep_task_seq_indexes (h (ps ! i))). ready_time (h (ps ! d)) \<le> m"
  shows "times_ok (update_task (set_max_times clk m) (ps ! i) h) ps i"
proof -
  have ne: "ps ! d \<noteq> ps ! i" if "d \<in> set (dep_task_seq_indexes (h (ps ! i)))" for d
    using that assms nth_eq_iff_index_eq [of ps d i] by auto
  note eqs = times_blank_fields [OF set_max_times_blank [of clk m "h (ps ! i)"]]
  show ?thesis
    using assms(5) ne by (auto simp: times_ok_def Let_def eqs set_max_times_values)
qed

lemma max_times_loop_correct:
  assumes "distinct ps" and "set is \<subseteq> {..<length ps}" and "distinct is" and "D \<inter> set is = {}"
    and "D \<subseteq> {..<length ps}"
    and "\<forall>i\<in>D. set (dep_task_seq_indexes (h (ps ! i))) \<subseteq> D"
    and "\<forall>k<length is. set (dep_task_seq_indexes (h (ps ! (is ! k)))) \<subseteq> D \<union> set (take k is)"
    and "\<forall>i\<in>D. times_ok h ps i"
  shows "\<exists>h'. max_times_loop clk ps is h = Some h' \<and>
           (\<forall>i\<in>D \<union> set is. times_ok h' ps i) \<and>
           (\<forall>p. times_blank (h' p) = times_blank (h p)) \<and>
           (\<forall>p. \<not> depend_on_sequence_tasks (h p) \<longrightarrow> h' p = h p) \<and>
           (\<forall>p. p \<notin> set ps \<longrightarrow> h' p = h p)"
  using assms
proof (induction "is" arbitrary: D h clk)
  case Nil
  then show ?case by simp
next
  case (Cons i "is")
  let ?p = "ps ! i"
  have i: "i < length ps" "i \<notin> D" using Cons.prems(2,4) by auto
  have deps_i: "set (dep_task_seq_indexes (h ?p)) \<subseteq> D"
    using Cons.prems(7) [THEN spec, of 0] by simp
  then have deps_i': "\<forall>d\<in>set (dep_task_seq_indexes (h ?p)). d < length ps"
    "i \<notin> set (dep_task_seq_indexes (h ?p))"
    using Cons.prems(5) i by auto
  have rest: "\<forall>k<length is. set (dep_task_seq_indexes (h (ps ! (is ! k)))) \<subseteq>
      insert i D \<union> set (take k is)"
    using Cons.prems(7) [THEN spec, of "Suc k" for k] by auto
  have closed: "\<forall>j\<in>insert i D. set (dep_task_seq_indexes (h (ps ! j))) \<subseteq> insert i D"
    using deps_i Cons.prems(6) by auto
  show ?case
  proof (cases "depend_on_sequence_tasks (h ?p)")
    case False
    have "\<forall>j\<in>insert i D. times_ok h ps j"
      using Cons.prems(8) False by (auto simp: times_ok_def)
    from Cons.IH [OF Cons.prems(1) _ _ _ _ closed rest this, of clk] Cons.prems(2-5) i False
    show ?thesis by auto
  next
    case True
    obtain m where m: "max_dep_time h ps (dep_task_seq_indexes (h ?p)) empty_unix = Some m"
      "\<forall>d\<in>set (dep_task_seq_indexes (h ?p)). ready_time (h (ps ! d)) \<le> m"
      using max_dep_time_Some [OF deps_i'(1)] by blast
    let ?h = "update_task (set_max_times clk m) ?p h"
    have blank: "times_blank (?h q) = times_blank (h q)" for q
      by (simp add: set_max_times_blank)
    note deps_eq = times_blank_fields(2) [OF blank]
    have ok: "\<forall>j\<in>insert i D. times_ok ?h ps j"
    proof
      fix j assume j: "j \<in> insert i D"
      show "times_ok ?h ps j"
      proof (cases "j = i")
        case True
        then show ?thesis using times_ok_new [OF Cons.prems(1) i(1) deps_i'(2,1) m(2)] by simp
      next
        case False
        with j have "j \<in> D" by simp
        moreover from this have "set (dep_task_seq_indexes (h (ps ! j))) \<subseteq> D" using Cons.prems(6) by blast
        moreover from this have "i \<notin> set (dep_task_seq_indexes (h (ps ! j)))"
          "\<forall>d\<in>set (dep_task_seq_indexes (h (ps ! j))). d < length ps"
          using i(2) Cons.prems(5) by auto
        ultimately show ?thesis
          using False Cons.prems(1,5,8) i(1) by (intro times_ok_other) auto
      qed
    qed
    have "\<exists>h'. max_times_loop (\<lambda>n. clk (n + 2)) ps is ?h = Some h' \<and>
        (\<forall>j\<in>insert i D \<union> set is. times_ok h' ps j) \<and>
        (\<forall>p. times_blank (h' p) = times_blank (?h p)) \<and>
        (\<forall>p. \<not> depend_on_sequence_tasks (?h p) \<longrightarrow> h' p = ?h p) \<and>
        (\<forall>p. p \<notin> set ps \<longrightarrow> h' p = ?h p)"
      using Cons.prems(2-5) i closed rest ok
      by (intro Cons.IH [OF Cons.prems(1)]) (simp_all add: deps_eq del: update_task_apply)
    then obtain h' where h': "max_times_loop (\<lambda>n. clk (n + 2)) ps is ?h = Some h'"
      "\<forall>j\<in>insert i D \<union> set is. times_ok h' ps j"
      "\<forall>p. times_blank (h' p) = times_blank (?h p)"
      "\<forall>p. \<not> depend_on_sequence_tasks (?h p) \<longrightarrow> h' p = ?h p"
      "\<forall>p. p \<notin> set ps \<longrightarrow> h' p = ?h p" by blast
    have "max_times_loop clk ps (i # is) h = Some h'" using i True m(1) h'(1) by simp
    moreover have "\<not> depend_on_sequence_tasks (h q) \<longrightarrow> h' q = h q" for q
      using h'(4) True by (auto simp: times_blank_fields(1) [OF blank] simp del: update_task_apply)
        (auto split: if_splits)
    moreover have "q \<notin> set ps \<longrightarrow> h' q = h q" for q using h'(5) i(1) by (auto split: if_splits)
    ultimately show ?thesis using h'(2,3) by (auto simp: blank simp del: update_task_apply)
  qed
qed


subsection \<open>\<open>SetTaskDependency\<close>\<close>

lemma dep_matrix_cycle_free:
  assumes "\<not> has_cycle dep" and "i < length dep" and "d \<in> set (dep ! i)"
  shows "d \<noteq> i"
proof
  assume "d = i"
  then have "(i, i) \<in> dep_rel dep" using assms by (simp add: dep_rel_iff)
  then show False using assms(1) has_cycle_def by blast
qed

lemma set_task_dependency_accepts:
  assumes ne: "dep \<noteq> []" "length dep = length (tasks s)" and rng: "in_range dep"
    and acyclic: "\<not> has_cycle dep" and dist: "distinct (tasks s)"
  shows "\<exists>h'. SetTaskDependency clk dep h s = Some (0, h', s\<lparr>dependency_matrix := dep\<rparr>) \<and>
           (\<forall>i<length dep. times_ok h' (tasks s) i) \<and>
           (\<forall>i<length dep. times_blank (h' (tasks s ! i)) =
              times_blank (with_deps (dep ! i) (h (tasks s ! i)))) \<and>
           (\<forall>i<length dep. dep ! i = [] \<and> \<not> depend_on_sequence_tasks (h (tasks s ! i)) \<longrightarrow>
              h' (tasks s ! i) = (h (tasks s ! i))\<lparr>dep_task_seq_indexes := []\<rparr>) \<and>
           (\<forall>p. p \<notin> set (tasks s) \<longrightarrow> h' p = h p)"
proof -
  let ?ps = "tasks s" and ?n = "length (tasks s)"
  have no_cycle: "HasCyclicDependencies ?n dep = Some False"
    using has_cyclic_dependencies_iff [OF ne(1) rng] acyclic ne(2) by simp
  have rows: "\<forall>k<length dep. \<forall>d\<in>set (dep ! k). d \<noteq> 0 + k \<and> d < ?n"
    using dep_matrix_cycle_free [OF acyclic] rng ne(2) by (auto simp: in_range_def)
  obtain h1 where h1: "dep_rows ?n 0 dep ?ps h = (True, h1)"
    "\<forall>k<?n. h1 (?ps ! k) = with_deps (dep ! k) (h (?ps ! k))" "\<forall>p. p \<notin> set ?ps \<longrightarrow> h1 p = h p"
    using dep_rows_accept [OF ne(2) dist rows] by blast
  obtain order where order: "FindSortingIndexes (length dep) dep = Some order"
    "distinct order" "set order = {..<length dep}"
    "\<forall>k<length order. set (dep ! (order ! k)) \<subseteq> set (take k order)"
    using find_sorting_indexes_topological [OF rng acyclic ne(1)] by blast
  have deps: "dep_task_seq_indexes (h1 (?ps ! i)) = dep ! i" if "i < ?n" for i
    using h1(2) that by (simp add: with_deps_def)
  have in_order: "order ! k < ?n" if "k < length order" for k
    using order(3) ne(2) nth_mem [OF that] by auto
  have "\<exists>h'. max_times_loop clk ?ps order h1 = Some h' \<and>
      (\<forall>i\<in>{} \<union> set order. times_ok h' ?ps i) \<and>
      (\<forall>p. times_blank (h' p) = times_blank (h1 p)) \<and>
      (\<forall>p. \<not> depend_on_sequence_tasks (h1 p) \<longrightarrow> h' p = h1 p) \<and>
      (\<forall>p. p \<notin> set ?ps \<longrightarrow> h' p = h1 p)"
    using order ne(2) dist in_order by (intro max_times_loop_correct) (simp_all add: deps)
  then obtain h' where h': "max_times_loop clk ?ps order h1 = Some h'"
    "\<forall>i<length dep. times_ok h' ?ps i" "\<forall>p. times_blank (h' p) = times_blank (h1 p)"
    "\<forall>p. \<not> depend_on_sequence_tasks (h1 p) \<longrightarrow> h' p = h1 p" "\<forall>p. p \<notin> set ?ps \<longrightarrow> h' p = h1 p"
    using order(3) by auto
  have "SetTaskDependency clk dep h s = Some (0, h', s\<lparr>dependency_matrix := dep\<rparr>)"
    using ne h1(1) no_cycle order(1) h'(1) by (simp add: SetTaskDependency_def Let_def)
  moreover have "h' (?ps ! i) = (h (?ps ! i))\<lparr>dep_task_seq_indexes := []\<rparr>"
    if "i < length dep" "dep ! i = []" "\<not> depend_on_sequence_tasks (h (?ps ! i))" for i
    using h'(4) h1(2) that ne(2) by (simp add: with_deps_def)
  ultimately show ?thesis using h' h1 ne(2) by auto
qed

lemma set_task_dependency_rejects:
  assumes "in_range dep" and "length dep = length (tasks s)" and "has_cycle dep"
  shows "SetTaskDependency clk dep h s = Some (-1, h, s)"
proof (cases "dep = []")
  case False
  then have "HasCyclicDependencies (length (tasks s)) dep = Some True"
    using has_cyclic_dependencies_iff [OF False assms(1)] assms by simp
  then show ?thesis by (simp add: SetTaskDependency_def Let_def)
qed (simp add: SetTaskDependency_def)

subsection \<open>Sequences in the task queue\<close>

text \<open>
  Every task of the sequence lasts at least a second, and a task without predecessors has a window of
  positive length.
\<close>

definition positive_windows :: "task_heap \<Rightarrow> task_sequence \<Rightarrow> bool" where
  "positive_windows h s \<longleftrightarrow>
     (\<forall>p\<in>set (tasks s). 1000 \<le> max_duration (h p) \<and>
        (\<not> depend_on_sequence_tasks (h p) \<and> hasActivationTime (h p) \<longrightarrow>
           activation_time (h p) < expiration_time (h p)))"

lemma add_whole_seconds_less: "1000 \<le> ms \<Longrightarrow> t < add_whole_seconds t ms"
  by (simp add: add_whole_seconds_def)

lemma key_before_dependent:
  assumes "depend_on_sequence_tasks t1" and "ready_time t2 \<le> exp_max_activation_time t1"
    and "depend_on_sequence_tasks t2 \<Longrightarrow> exp_max_activation_time t2 < exp_max_expiration_time t2"
    and "\<not> depend_on_sequence_tasks t2 \<Longrightarrow> hasActivationTime t2 \<Longrightarrow>
           activation_time t2 < expiration_time t2"
  shows "task_key t2 < task_key t1"
  using assms by (auto simp: task_key_def start_rank_def start_time_def ready_time_def)

lemma sequence_key_consistent:
  assumes wf: "seq_wf h s" and len: "length dep = length (tasks s)"
    and deps: "\<forall>i<length dep. depend_on_sequence_tasks (h (tasks s ! i)) = (dep ! i \<noteq> []) \<and>
                 dep_task_seq_indexes (h (tasks s ! i)) = dep ! i"
    and ok: "\<forall>i<length dep. times_ok h (tasks s) i" and win: "positive_windows h s"
  shows "key_consistent (h ` set (tasks s))"
  unfolding key_consistent_def
proof (intro ballI impI)
  fix t1 t2 assume "t1 \<in> h ` set (tasks s)" "t2 \<in> h ` set (tasks s)"
    and dep: "depends_in_sequence t1 t2"
  then obtain i j where i: "i < length dep" "t1 = h (tasks s ! i)"
    and j: "j < length dep" "t2 = h (tasks s ! j)"
    by (auto simp: in_set_conv_nth len)
  have flag: "depend_on_sequence_tasks t1" and "sequence_index t2 \<in> set (dep_task_seq_indexes t1)"
    using dep by (auto simp: depends_in_sequence_def DependOnTask_def split: if_splits)
  then have "j \<in> set (dep_task_seq_indexes (h (tasks s ! i)))"
    using wf i j len by (simp add: seq_wf_def)
  then have "ready_time t2 \<le> exp_max_activation_time t1"
    using ok flag i j by (auto simp: times_ok_def Let_def)
  moreover have "exp_max_activation_time t2 < exp_max_expiration_time t2"
    if "depend_on_sequence_tasks t2"
    using that ok win j len nth_mem [of j "tasks s"]
    by (auto simp: times_ok_def Let_def positive_windows_def intro!: add_whole_seconds_less)
  moreover have "activation_time t2 < expiration_time t2"
    if "\<not> depend_on_sequence_tasks t2" "hasActivationTime t2"
    using that win j len nth_mem [of j "tasks s"] by (auto simp: positive_windows_def)
  ultimately show "task_key t2 < task_key t1" using flag by (intro key_before_dependent)
qed


lemma set_task_dependency_key_consistent:
  assumes ne: "dep \<noteq> []" "length dep = length (tasks s)" and "in_range dep" and "\<not> has_cycle dep"
    and wf: "seq_wf h s" and indep: "\<forall>p\<in>set (tasks s). \<not> depend_on_sequence_tasks (h p)"
    and win: "positive_windows h s"
    and res: "SetTaskDependency clk dep h s = Some (r, h', s')"
  shows "key_consistent (h' ` set (tasks s))" and "seq_wf h' s'" and "tasks s' = tasks s"
proof -
  have dist: "distinct (tasks s)" using wf by (simp add: seq_wf_def)
  have s': "s' = s\<lparr>dependency_matrix := dep\<rparr>" and ok: "\<forall>i<length dep. times_ok h' (tasks s) i"
    and blank: "\<And>i. i < length dep \<Longrightarrow>
        times_blank (h' (tasks s ! i)) = times_blank (with_deps (dep ! i) (h (tasks s ! i)))"
    and frame: "\<And>i. i < length dep \<Longrightarrow> dep ! i = [] \<Longrightarrow>
        h' (tasks s ! i) = (h (tasks s ! i))\<lparr>dep_task_seq_indexes := []\<rparr>"
    using set_task_dependency_accepts [OF ne assms(3,4) dist, of clk h] res indep ne(2) by auto
  have flag: "depend_on_sequence_tasks (h' (tasks s ! i)) = (dep ! i \<noteq> [])"
    "dep_task_seq_indexes (h' (tasks s ! i)) = dep ! i"
    "max_duration (h' (tasks s ! i)) = max_duration (h (tasks s ! i))"
    "sequence_index (h' (tasks s ! i)) = sequence_index (h (tasks s ! i))"
    "is_in_sequence (h' (tasks s ! i)) = is_in_sequence (h (tasks s ! i))"
    "sequence_id (h' (tasks s ! i)) = sequence_id (h (tasks s ! i))"
    "sequence_name (h' (tasks s ! i)) = sequence_name (h (tasks s ! i))" if "i < length dep" for i
    using times_blank_fields [OF blank [OF that]] indep ne(2) that by (simp_all add: with_deps_def)
  show "tasks s' = tasks s" by (simp add: s')
  have wf': "seq_wf h' s" using wf flag ne(2) by (simp add: seq_wf_def)
  then show "seq_wf h' s'" by (simp add: seq_wf_def s')
  have "positive_windows h' s"
    unfolding positive_windows_def all_set_conv_all_nth
    using win flag frame ne(2) by (auto simp: positive_windows_def all_set_conv_all_nth indep)
  then show "key_consistent (h' ` set (tasks s))"
    using sequence_key_consistent [OF wf' ne(2) _ ok] flag by blast
qed

end
