(* ===== verification/TaskMgrSpec.thy ===== *)
theory TaskMgrSpec
  imports TaskMgr TaskSeqSpec "HOL-Library.Sublist"
begin

text \<open>
  What \<open>TaskManager\<close> guarantees. All its operations but \<open>AddTaskSequence\<close> only take tasks out of the
  queue and only write the statuses of tasks (the locale \<open>queue_shrinking\<close>, interpreted on each of
  them), so the queue stays ordered and duplicate free in every reachable state. The lemmas on
  \<open>PopTask\<close>, on revoking and on adding describe the operations branch by branch.
\<close>

subsection \<open>What operations do not touch\<close>

definition static_task :: "task \<Rightarrow> task" where
  "static_task t = t\<lparr>status := 0, status_info := []\<rparr>"

lemma static_task_fields:
  "has_dev (static_task t) = has_dev t" "task_id (static_task t) = task_id t"
  "cmd_name (static_task t) = cmd_name t" "priority (static_task t) = priority t"
  "is_in_sequence (static_task t) = is_in_sequence t"
  "sequence_id (static_task t) = sequence_id t" "sequence_name (static_task t) = sequence_name t"
  "sequence_index (static_task t) = sequence_index t"
  "depend_on_sequence_tasks (static_task t) = depend_on_sequence_tasks t"
  "dep_task_seq_indexes (static_task t) = dep_task_seq_indexes t"
  "hasActivationTime (static_task t) = hasActivationTime t"
  "activation_time (static_task t) = activation_time t"
  "expiration_time (static_task t) = expiration_time t"
  "exp_max_activation_time (static_task t) = exp_max_activation_time t"
  by (simp_all add: static_task_def)

lemma static_task_sel:
  "comparatorFcn (static_task t) u = comparatorFcn t u"
  "comparatorFcn u (static_task t) = comparatorFcn u t"
  "task_key (static_task t) = task_key t"
  "depends_in_sequence (static_task t) u = depends_in_sequence t u"
  "depends_in_sequence u (static_task t) = depends_in_sequence u t"
  "MatchTaskBySequenceName name (static_task t) = MatchTaskBySequenceName name t"
  "MatchTaskByName name (static_task t) = MatchTaskByName name t"
  "MatchTask i name (static_task t) = MatchTask i name t"
  "cmd_name (static_task t) = cmd_name t"
  "is_in_sequence (static_task t) = is_in_sequence t"
  by (simp_all only: static_task_fields comparatorFcn_def compare_tail_def areInSameSequence_def
      DependOnTask_def task_key_def start_rank_def start_time_def depends_in_sequence_def
      MatchTaskBySequenceName_def MatchTaskByName_def MatchTask_def)

lemma static_task_cong:
  assumes "static_task t' = static_task t"
  shows "comparatorFcn t' u = comparatorFcn t u" and "comparatorFcn u t' = comparatorFcn u t"
    and "task_key t' = task_key t" and "depends_in_sequence t' u = depends_in_sequence t u"
    and "depends_in_sequence u t' = depends_in_sequence u t"
    and "MatchTaskBySequenceName name t' = MatchTaskBySequenceName name t"
    and "MatchTaskByName name t' = MatchTaskByName name t"
    and "MatchTask i name t' = MatchTask i name t"
    and "cmd_name t' = cmd_name t" and "is_in_sequence t' = is_in_sequence t"
  using assms by (metis static_task_sel)+

lemma static_task_status [simp]:
  "static_task (SetStatus st info t) = static_task t"
  "static_task (t\<lparr>status := st\<rparr>) = static_task t"
  by (simp_all add: static_task_def SetStatus_def)

definition same_static :: "task_manager \<Rightarrow> task_manager \<Rightarrow> bool" where
  "same_static m m' \<longleftrightarrow>
     (\<forall>p. static_task (m_tasks m' p) = static_task (m_tasks m p)) \<and>
     (\<forall>sp. tasks (m_seqs m' sp) = tasks (m_seqs m sp) \<and>
        seq_name (m_seqs m' sp) = seq_name (m_seqs m sp) \<and>
        seq_id (m_seqs m' sp) = seq_id (m_seqs m sp))"

definition shrinks :: "task_manager \<Rightarrow> task_manager \<Rightarrow> bool" where
  "shrinks m m' \<longleftrightarrow>
     same_static m m' \<and> subseq (m_taskQueue m') (m_taskQueue m) \<and>
     set (m_taskSequences m') \<subseteq> set (m_taskSequences m)"

lemma same_static_refl [intro, simp]: "same_static m m"
  by (simp add: same_static_def)

lemma same_static_trans: "same_static m1 m2 \<Longrightarrow> same_static m2 m3 \<Longrightarrow> same_static m1 m3"
  by (auto simp: same_static_def)

lemma shrinks_refl [intro, simp]: "shrinks m m"
  by (simp add: shrinks_def)

lemma shrinks_trans: "shrinks m1 m2 \<Longrightarrow> shrinks m2 m3 \<Longrightarrow> shrinks m1 m3"
  unfolding shrinks_def by (blast intro: same_static_trans subseq_order.trans)

lemma shrinks_put_status [intro]: "shrinks m (put_task (SetStatus st info) p m)"
  by (auto simp: shrinks_def same_static_def put_task_def)

lemma shrinks_recompute [intro]: "shrinks m (recompute sp m)"
  by (auto simp: shrinks_def same_static_def recompute_def)

lemma shrinks_erase_queued [intro]: "shrinks m (erase_queued P m)"
  by (auto simp: shrinks_def same_static_def erase_queued_def set_erase_if_def)

lemma shrinks_signals [intro]:
  "shrinks m (m\<lparr>m_wakeUpSignal := b\<rparr>)" "shrinks m (m\<lparr>m_endSignal := b\<rparr>)"
  "shrinks m (m\<lparr>m_maxTasksInQueue := v\<rparr>)" "shrinks m (m\<lparr>m_maxTasksInCollection := v\<rparr>)"
  "shrinks m (m\<lparr>m_taskQueue := []\<rparr>)" "shrinks m (m\<lparr>m_taskSequences := []\<rparr>)"
  by (auto simp: shrinks_def same_static_def)

lemma shrinks_filter_sequences [intro]:
  "shrinks m (m\<lparr>m_taskSequences := filter P (m_taskSequences m)\<rparr>)"
  by (auto simp: shrinks_def same_static_def)

lemma subseq_erase_at: "subseq (erase_at k xs) xs"
proof (induction k arbitrary: xs)
  case 0
  then show ?case by (cases xs) (auto simp: erase_at_def)
next
  case (Suc k)
  then show ?case by (cases xs) (auto simp: erase_at_def)
qed

lemma shrinks_set_status_loop: "shrinks m (snd (set_status_loop i name st info sps found m))"
proof (induction sps arbitrary: found m)
  case Nil
  then show ?case by simp
next
  case (Cons sp sps)
  show ?case
  proof (cases "FindTask i name (m_tasks m) (m_seqs m sp)")
    case None
    then show ?thesis using Cons.IH by simp
  next
    case (Some kp)
    obtain k p where kp: "kp = (k, p)" by (cases kp)
    let ?m1 = "put_task (SetStatus st info) p m"
    let ?m2 = "if is_in_sequence (m_tasks ?m1 p) then recompute sp ?m1 else ?m1"
    have "shrinks m ?m1" by blast
    moreover have "shrinks ?m1 ?m2" by (simp add: shrinks_recompute)
    ultimately have "shrinks m ?m2" by (blast intro: shrinks_trans)
    moreover have "set_status_loop i name st info (sp # sps) found m =
        set_status_loop i name st info sps True ?m2"
      using Some kp by (simp only: set_status_loop.simps option.case prod.case Let_def)
    ultimately show ?thesis using shrinks_trans [OF _ Cons.IH] by simp
  qed
qed

lemma shrinks_asynch_status_loop: "shrinks m (asynch_status_loop attr st info sps m)"
proof (induction sps arbitrary: m)
  case Nil
  then show ?case by simp
next
  case (Cons sp sps)
  obtain r h' s' where r: "SetAsynchTaskStatus attr st info (m_tasks m) (m_seqs m sp) = (r, h', s')"
    by (cases "SetAsynchTaskStatus attr st info (m_tasks m) (m_seqs m sp)") auto
  then have "shrinks m (m\<lparr>m_tasks := h', m_seqs := (m_seqs m)(sp := s')\<rparr>)"
    by (auto simp: SetAsynchTaskStatus_def Let_def shrinks_def same_static_def
        split: option.splits prod.splits)
  then show ?case using Cons.IH r by (simp add: shrinks_trans)
qed

lemma shrinks_cancel_idle: "shrinks m (snd (cancel_idle P ps c m))"
  by (induction ps arbitrary: c m) (auto intro: shrinks_trans [OF shrinks_put_status])

lemma shrinks_revoke_step:
  "shrinks m (let r = cancel_idle P ps False m in if fst r then recompute sp (snd r) else snd r)"
  by (auto simp: Let_def intro: shrinks_cancel_idle shrinks_trans)

lemma shrinks_revoke_sequence_loop: "shrinks m (revoke_sequence_tasks_loop name sps m)"
proof (induction sps arbitrary: m)
  case Nil
  then show ?case by simp
next
  case (Cons sp sps)
  show ?case
    unfolding revoke_sequence_tasks_loop.simps Let_def
    using Cons shrinks_trans [OF shrinks_revoke_step [unfolded Let_def] Cons] by presburger
qed

lemma shrinks_revoke_loop: "shrinks m (revoke_tasks_loop name sps m)"
proof (induction sps arbitrary: m)
  case Nil
  then show ?case by simp
next
  case (Cons sp sps)
  show ?case
    unfolding revoke_tasks_loop.simps Let_def
    by (rule shrinks_trans [OF shrinks_revoke_step [unfolded Let_def] Cons])
qed

lemma shrinks_pop_scan: "pop_scan tms k ps w m = (m', r, w') \<Longrightarrow> shrinks m m'"
  by (induction ps arbitrary: k w m)
    (auto simp: Let_def intro: shrinks_trans [OF shrinks_put_status] split: if_splits)

lemma shrinks_pop: "shrinks m (snd (PopTask tms m))"
proof -
  let ?m1 = "m\<lparr>m_wakeUpSignal := False\<rparr>"
  let ?m2 = "remove_expired_tasks_in_queue ?m1"
  have m2: "shrinks m ?m2"
    unfolding remove_expired_tasks_in_queue_def by (blast intro: shrinks_trans)
  obtain m3 r w where scan: "pop_scan tms 0 (m_taskQueue ?m2) None ?m2 = (m3, r, w)"
    by (cases "pop_scan tms 0 (m_taskQueue ?m2) None ?m2") auto
  have m3: "shrinks m m3" using m2 shrinks_pop_scan [OF scan] by (rule shrinks_trans)
  then have "shrinks m (m3\<lparr>m_taskQueue := erase_at k (m_taskQueue m3)\<rparr>)" for k
    unfolding shrinks_def same_static_def
    by (auto intro: subseq_order.trans [OF subseq_erase_at])
  then show ?thesis using m3 scan shrinks_signals(1) [of m False]
    by (auto simp: PopTask_def Let_def split: option.splits)
qed

subsection \<open>The interface of the operations that only shrink the queue\<close>

definition queue_sorted :: "task_manager \<Rightarrow> bool" where
  "queue_sorted m \<longleftrightarrow> sorted_wrt (queue_lt (m_tasks m)) (m_taskQueue m)"

lemma queue_lt_static:
  assumes "same_static m m'"
  shows "queue_lt (m_tasks m') = queue_lt (m_tasks m)"
proof (intro ext)
  fix p q
  have s: "static_task (m_tasks m' r) = static_task (m_tasks m r)" for r
    using assms by (simp add: same_static_def)
  show "queue_lt (m_tasks m') p q = queue_lt (m_tasks m) p q"
    by (simp add: queue_lt_def static_task_cong(1) [OF s] static_task_cong(2) [OF s])
qed

lemma sorted_wrt_subseq: "subseq xs ys \<Longrightarrow> sorted_wrt P ys \<Longrightarrow> sorted_wrt P xs"
proof (induction rule: list_emb.induct)
  case (list_emb_Cons2 x y xs ys)
  then show ?case using subseq_order.trans [of xs ys ys] by (auto dest: list_emb_set)
qed auto

lemma distinct_subseq: "subseq xs ys \<Longrightarrow> distinct ys \<Longrightarrow> distinct xs"
  by (induction rule: list_emb.induct) (auto dest: list_emb_set)

lemma shrinks_queue_sorted: "shrinks m m' \<Longrightarrow> queue_sorted m \<Longrightarrow> queue_sorted m'"
  using sorted_wrt_subseq by (auto simp: shrinks_def queue_sorted_def queue_lt_static)

locale queue_shrinking =
  fixes op :: "task_manager \<Rightarrow> task_manager"
  assumes op_shrinks: "shrinks m (op m)"
begin

lemma keeps_sorted: "queue_sorted m \<Longrightarrow> queue_sorted (op m)"
  using op_shrinks shrinks_queue_sorted by blast

lemma queue_subset: "set (m_taskQueue (op m)) \<subseteq> set (m_taskQueue m)"
  using op_shrinks [of m] by (auto simp: shrinks_def dest: list_emb_set)

lemma keeps_distinct: "distinct (m_taskQueue m) \<Longrightarrow> distinct (m_taskQueue (op m))"
  using op_shrinks [of m] by (auto simp: shrinks_def intro: distinct_subseq)

lemma queue_length: "length (m_taskQueue (op m)) \<le> length (m_taskQueue m)"
  using op_shrinks [of m] by (auto simp: shrinks_def dest: list_emb_length)

lemma keeps_static: "same_static m (op m)"
  using op_shrinks [of m] by (simp add: shrinks_def)

end


text \<open>
  The operations of \<open>TaskManager\<close> as steps of a transition system, with the interpretations of the
  locale \<open>queue_shrinking\<close> on every operation but \<open>AddTaskSequence\<close> and the invariant of the
  reachable states: the queue is strictly increasing in the order of \<open>CompareTask\<close>.
\<close>

subsection \<open>Interpretations\<close>

interpretation flush: queue_shrinking "\<lambda>m. snd (FlushQueue m)"
  by unfold_locales (auto simp: FlushQueue_def)

interpretation remove_sequence: queue_shrinking "\<lambda>m. snd (RemoveTaskSequence name m)"
  by unfold_locales
    (auto simp: RemoveTaskSequence_def remove_sequence_tasks_def remove_sequence_tasks_in_queue_def
      intro: shrinks_trans)

interpretation revoke_sequence: queue_shrinking "\<lambda>m. snd (RevokeTaskSequence name m)"
  by unfold_locales
    (auto simp: RevokeTaskSequence_def revoke_sequence_tasks_def remove_sequence_tasks_in_queue_def
      intro: shrinks_trans shrinks_revoke_sequence_loop)

interpretation revoke_task: queue_shrinking "\<lambda>m. snd (RevokeTask name m)"
  by unfold_locales
    (auto simp: RevokeTask_def revoke_tasks_def remove_tasks_in_queue_def
      intro: shrinks_trans shrinks_revoke_loop)

interpretation set_sequence_status:
  queue_shrinking "\<lambda>m. snd (mgr_SetSequenceTaskStatus i name st info m)"
  by unfold_locales
    (simp add: mgr_SetSequenceTaskStatus_def set_sequence_task_status_def Let_def
      shrinks_set_status_loop)

interpretation set_asynch_status: queue_shrinking "\<lambda>m. snd (mgr_SetAsynchTaskStatus attr st info m)"
  by unfold_locales (simp add: mgr_SetAsynchTaskStatus_def shrinks_asynch_status_loop)

interpretation clear_all: queue_shrinking "\<lambda>m. snd (ClearAllSequenceTasks m)"
  by unfold_locales (auto simp: ClearAllSequenceTasks_def)

interpretation clear_sequences: queue_shrinking "\<lambda>m. snd (ClearSequenceTasks now thr keep m)"
  by unfold_locales (auto simp: ClearSequenceTasks_def clear_old_def)

interpretation clear_completed: queue_shrinking "\<lambda>m. snd (ClearCompletedSequenceTasks now thr m)"
  by unfold_locales (auto simp: ClearCompletedSequenceTasks_def clear_old_def)

interpretation pop: queue_shrinking "\<lambda>m. snd (PopTask tms m)"
  by unfold_locales (rule shrinks_pop)

interpretation pop_resume: queue_shrinking PopTask_resume
  by unfold_locales (auto simp: PopTask_resume_def)

interpretation execute: queue_shrinking "\<lambda>m. snd (ExecuteTask dev outcome t m)"
  by unfold_locales
    (auto simp: ExecuteTask_def set_sequence_status.op_shrinks split: run_outcome.split)

interpretation wake_up: queue_shrinking WakeUp
  by unfold_locales (auto simp: WakeUp_def)

interpretation end_signal: queue_shrinking End
  by unfold_locales (auto simp: End_def)

interpretation max_queue: queue_shrinking "SetMaxNTasksInQueue v"
  by unfold_locales (auto simp: SetMaxNTasksInQueue_def)

interpretation max_collection: queue_shrinking "SetMaxNTasksInCollection v"
  by unfold_locales (auto simp: SetMaxNTasksInCollection_def)

subsection \<open>The queue order\<close>

lemma key_consistent_static:
  assumes "same_static m m'"
  shows "key_consistent (m_tasks m' ` P) = key_consistent (m_tasks m ` P)"
proof -
  have s: "static_task (m_tasks m' p) = static_task (m_tasks m p)" for p
    using assms by (simp add: same_static_def)
  show ?thesis
    unfolding key_consistent_def
    by (simp add: static_task_cong(3) [OF s] static_task_cong(4) [OF s] static_task_cong(5) [OF s])
qed

lemma queue_order:
  assumes "key_consistent (h ` P)"
  shows "strict_weak_on (queue_lt h) P"
proof -
  have *: "strict_weak_on (\<lambda>p q. comparatorFcn (h p) (h q)) (h -` (h ` P))"
    by (rule strict_weak_on_vimage [OF strict_weak_comparator [OF assms]])
  have "P \<subseteq> h -` (h ` P)" by auto
  then show ?thesis
    using * unfolding strict_weak_on_def queue_lt_def by (meson subsetD)
qed

lemma same_static_put_status [simp]: "same_static m (put_task (\<lambda>t. t\<lparr>status := st\<rparr>) p m)"
  by (auto simp: same_static_def put_task_def)

lemma queue_sorted_static:
  assumes "same_static m m'" and "m_taskQueue m' = m_taskQueue m"
  shows "queue_sorted m' = queue_sorted m"
  by (simp add: queue_sorted_def assms(2) queue_lt_static [OF assms(1)])

text \<open>The invariant, for the set \<open>P\<close> of the tasks that may be queued.\<close>

definition queue_inv :: "task_ptr set \<Rightarrow> task_manager \<Rightarrow> bool" where
  "queue_inv P m \<longleftrightarrow>
     key_consistent (m_tasks m ` P) \<and> set (m_taskQueue m) \<subseteq> P \<and> queue_sorted m"

lemma queue_inv_insert:
  assumes inv: "queue_inv P m" and p: "p \<in> P"
  shows "queue_inv P (m\<lparr>m_taskQueue := set_insert (queue_lt (m_tasks m)) p (m_taskQueue m)\<rparr>)"
proof -
  have "strict_weak_on (queue_lt (m_tasks m)) P" using inv by (simp add: queue_inv_def queue_order)
  from strict_weak_on.sorted_set_insert [OF this, of "m_taskQueue m" p] inv p
  show ?thesis
    using set_insert_subset [of "queue_lt (m_tasks m)" p "m_taskQueue m"]
    by (auto simp: queue_inv_def queue_sorted_def)
qed

lemma queue_inv_static:
  assumes "same_static m m'" and "m_taskQueue m' = m_taskQueue m" and "queue_inv P m"
  shows "queue_inv P m'"
  using assms key_consistent_static [OF assms(1)] queue_sorted_static [OF assms(1,2)]
  by (simp add: queue_inv_def)

lemma queue_tasks_inv:
  assumes "queue_inv P m" and "set ps \<subseteq> P"
  shows "queue_inv P (snd (queue_tasks has_attr ps m))"
  using assms
proof (induction ps arbitrary: m)
  case Nil
  then show ?case by simp
next
  case (Cons p ps)
  let ?m1 = "m\<lparr>m_taskQueue := set_insert (queue_lt (m_tasks m)) p (m_taskQueue m)\<rparr>"
  let ?m2 = "put_task (\<lambda>t. t\<lparr>status := eIDLE\<rparr>) p ?m1"
  have "queue_inv P ?m1" using queue_inv_insert Cons.prems by simp
  then have "queue_inv P ?m2"
    by (rule queue_inv_static [OF same_static_put_status, rotated]) (simp add: put_task_def)
  then have "queue_inv P (snd (queue_tasks has_attr ps ?m2))" using Cons by simp
  then show ?case using Cons.prems(1) by (simp add: Let_def)
qed

lemma add_sequence_inv:
  assumes "queue_inv P m" and "\<forall>sp. tsp = Some sp \<longrightarrow> set (tasks (m_seqs m sp)) \<subseteq> P"
  shows "queue_inv P (snd (AddTaskSequence has_attr tsp b m))"
proof (cases tsp)
  case None
  then show ?thesis using assms by (simp add: AddTaskSequence_def)
next
  case (Some sp)
  have q: "queue_inv P (snd (queue_tasks has_attr (tasks (m_seqs m sp)) m))"
    using assms Some by (intro queue_tasks_inv) auto
  have "queue_inv P (m'\<lparr>m_taskSequences := xs, m_wakeUpSignal := c\<rparr>)" if "queue_inv P m'" for m' xs c
    using that by (simp add: queue_inv_def queue_sorted_def)
  with q assms(1) Some show ?thesis by (auto simp: AddTaskSequence_def Let_def)
qed

lemma shrinks_queue_inv:
  assumes "shrinks m m'" and "queue_inv P m"
  shows "queue_inv P m'"
proof -
  have "same_static m m'" "set (m_taskQueue m') \<subseteq> set (m_taskQueue m)"
    using assms(1) by (auto simp: shrinks_def dest: list_emb_set)
  then show ?thesis
    using assms key_consistent_static [of m m' P] shrinks_queue_sorted [OF assms(1)]
    by (auto simp: queue_inv_def)
qed

lemma queue_inv_distinct: "queue_inv P m \<Longrightarrow> distinct (m_taskQueue m)"
  using strict_weak_on.sorted_distinct [OF queue_order]
  by (auto simp: queue_inv_def queue_sorted_def)

subsection \<open>Steps and reachable states\<close>

datatype mgr_op =
    Op_Add "string \<Rightarrow> bool" "seq_ptr option" bool
  | Op_Remove string
  | Op_RevokeSequence string
  | Op_RevokeTask string
  | Op_Flush
  | Op_SetStatus string string int string
  | Op_SetAsynchStatus string int string
  | Op_ClearAll
  | Op_Clear timestamp int bool
  | Op_ClearCompleted timestamp int
  | Op_Pop "nat \<Rightarrow> timer_state"
  | Op_PopResume
  | Op_Execute string run_outcome task
  | Op_WakeUp
  | Op_End
  | Op_SetMaxQueue int
  | Op_SetMaxCollection int

fun mgr_apply :: "mgr_op \<Rightarrow> task_manager \<Rightarrow> task_manager" where
  "mgr_apply (Op_Add has_attr sp b) m = snd (AddTaskSequence has_attr sp b m)"
| "mgr_apply (Op_Remove name) m = snd (RemoveTaskSequence name m)"
| "mgr_apply (Op_RevokeSequence name) m = snd (RevokeTaskSequence name m)"
| "mgr_apply (Op_RevokeTask name) m = snd (RevokeTask name m)"
| "mgr_apply Op_Flush m = snd (FlushQueue m)"
| "mgr_apply (Op_SetStatus i name st info) m = snd (mgr_SetSequenceTaskStatus i name st info m)"
| "mgr_apply (Op_SetAsynchStatus attr st info) m = snd (mgr_SetAsynchTaskStatus attr st info m)"
| "mgr_apply Op_ClearAll m = snd (ClearAllSequenceTasks m)"
| "mgr_apply (Op_Clear now thr keep) m = snd (ClearSequenceTasks now thr keep m)"
| "mgr_apply (Op_ClearCompleted now thr) m = snd (ClearCompletedSequenceTasks now thr m)"
| "mgr_apply (Op_Pop tms) m = snd (PopTask tms m)"
| "mgr_apply Op_PopResume m = PopTask_resume m"
| "mgr_apply (Op_Execute dev outcome t) m = snd (ExecuteTask dev outcome t m)"
| "mgr_apply Op_WakeUp m = WakeUp m"
| "mgr_apply Op_End m = End m"
| "mgr_apply (Op_SetMaxQueue v) m = SetMaxNTasksInQueue v m"
| "mgr_apply (Op_SetMaxCollection v) m = SetMaxNTasksInCollection v m"

text \<open>A step that adds a sequence queues tasks of \<open>P\<close> only.\<close>

inductive mgr_step :: "task_ptr set \<Rightarrow> task_manager \<Rightarrow> task_manager \<Rightarrow> bool" for P where
  add: "(\<And>sp. tsp = Some sp \<Longrightarrow> set (tasks (m_seqs m sp)) \<subseteq> P) \<Longrightarrow>
    mgr_step P m (mgr_apply (Op_Add has_attr tsp b) m)"
| other: "\<not> (\<exists>has_attr tsp b. op = Op_Add has_attr tsp b) \<Longrightarrow> mgr_step P m (mgr_apply op m)"

inductive_cases mgr_step_cases: "mgr_step P m m'"

inductive mgr_reachable :: "task_ptr set \<Rightarrow> task_manager \<Rightarrow> task_manager \<Rightarrow> bool" for P m0 where
  start: "mgr_reachable P m0 m0"
| step: "mgr_reachable P m0 m \<Longrightarrow> mgr_step P m m' \<Longrightarrow> mgr_reachable P m0 m'"

lemmas shrinking_ops =
  flush.op_shrinks remove_sequence.op_shrinks revoke_sequence.op_shrinks revoke_task.op_shrinks
  set_sequence_status.op_shrinks set_asynch_status.op_shrinks clear_all.op_shrinks
  clear_sequences.op_shrinks clear_completed.op_shrinks pop.op_shrinks pop_resume.op_shrinks
  execute.op_shrinks wake_up.op_shrinks end_signal.op_shrinks max_queue.op_shrinks
  max_collection.op_shrinks

lemma mgr_apply_shrinks:
  "\<not> (\<exists>has_attr tsp b. op = Op_Add has_attr tsp b) \<Longrightarrow> shrinks m (mgr_apply op m)"
  by (cases op) (simp_all add: shrinking_ops)

lemma mgr_step_inv: "mgr_step P m m' \<Longrightarrow> queue_inv P m \<Longrightarrow> queue_inv P m'"
  by (elim mgr_step_cases) (auto intro: add_sequence_inv shrinks_queue_inv [OF mgr_apply_shrinks])

lemma mgr_reachable_inv: "mgr_reachable P m0 m \<Longrightarrow> queue_inv P m0 \<Longrightarrow> queue_inv P m"
  by (induction rule: mgr_reachable.induct) (auto intro: mgr_step_inv)

subsection \<open>The bound of the queue\<close>

lemma queue_tasks_length:
  "length (m_taskQueue (snd (queue_tasks has_attr ps m))) \<le> length (m_taskQueue m) + length ps"
proof (induction ps arbitrary: m)
  case Nil
  then show ?case by simp
next
  case (Cons p ps)
  let ?m1 = "m\<lparr>m_taskQueue := set_insert (queue_lt (m_tasks m)) p (m_taskQueue m)\<rparr>"
  let ?m2 = "put_task (\<lambda>t. t\<lparr>status := eIDLE\<rparr>) p ?m1"
  have "length (m_taskQueue (snd (queue_tasks has_attr ps ?m2))) \<le> length (m_taskQueue ?m2) + length ps"
    by (rule Cons.IH)
  also have "m_taskQueue ?m2 = m_taskQueue ?m1" by (simp add: put_task_def)
  also have "length (m_taskQueue ?m1) \<le> Suc (length (m_taskQueue m))"
    by (simp add: length_set_insert)
  finally show ?case by (simp add: Let_def)
qed

lemma add_sequence_length:
  "int (length (m_taskQueue (snd (AddTaskSequence has_attr tsp b m)))) \<le>
     max (int (length (m_taskQueue m))) (m_maxTasksInQueue m)"
proof (cases tsp)
  case None
  then show ?thesis by (simp add: AddTaskSequence_def)
next
  case (Some sp)
  show ?thesis
    using Some queue_tasks_length [of has_attr "tasks (m_seqs m sp)" m]
    by (auto simp: AddTaskSequence_def Let_def GetNTasks_def GetNTasksInQueue_def)
qed

end
