(* ===== verification/TaskMgrOps.thy ===== *)
theory TaskMgrOps
  imports TaskMgrSpec
begin

text \<open>
  The operations of \<open>TaskManager\<close> branch by branch: which task \<open>PopTask\<close> returns and when it returns
  one, what revoking, status setting and adding do to the heaps, the queue and the collection.
\<close>

subsection \<open>\<open>PopTask\<close>\<close>

text \<open>A runnable sequence task has its predecessors completed.\<close>

lemma sequence_task_runnable_deps:
  assumes "is_sequence_task_runnable (Some p) m" and "is_in_sequence (m_tasks m p)"
    and "depend_on_sequence_tasks (m_tasks m p)" and "d \<in> set (dep_task_seq_indexes (m_tasks m p))"
  shows "\<exists>sp. find_task_sequence (sequence_id (m_tasks m p)) (sequence_name (m_tasks m p)) m = Some sp \<and>
           d < length (tasks (m_seqs m sp)) \<and>
           status (m_tasks m (tasks (m_seqs m sp) ! d)) = eCOMPLETED"
  using assms by (auto simp: is_sequence_task_runnable_def Let_def list_all_iff
      split: option.splits if_splits)

lemma sequence_task_runnable_cong:
  assumes "m_tasks m' = m_tasks m" and "m_seqs m' = m_seqs m"
    and "m_taskSequences m' = m_taskSequences m"
  shows "is_sequence_task_runnable tp m' = is_sequence_task_runnable tp m"
  by (simp only: is_sequence_task_runnable_def find_task_sequence_def assms)

lemma sequence_task_runnable_queue [simp]:
  "is_sequence_task_runnable tp (m\<lparr>m_taskQueue := q\<rparr>) = is_sequence_task_runnable tp m"
  "is_sequence_task_runnable tp (m\<lparr>m_wakeUpSignal := b\<rparr>) = is_sequence_task_runnable tp m"
  by (rule sequence_task_runnable_cong; simp)+

text \<open>Marking a task that is not completed does not stop another task from being runnable.\<close>

lemma sequence_task_runnable_put:
  assumes "is_sequence_task_runnable (Some p) m" and "q \<noteq> p" and "status (m_tasks m q) \<noteq> eCOMPLETED"
  shows "is_sequence_task_runnable (Some p) (put_task f q m)"
proof -
  have find: "find_task_sequence i name (put_task f q m) = find_task_sequence i name m" for i name
    by (simp add: find_task_sequence_def put_task_def)
  have keep: "status (m_tasks m r) = eCOMPLETED \<Longrightarrow> m_tasks (put_task f q m) r = m_tasks m r" for r
    using assms(3) by (auto simp: put_task_def)
  have "m_tasks (put_task f q m) p = m_tasks m p" "m_seqs (put_task f q m) = m_seqs m"
    using assms(2) by (simp_all add: put_task_def)
  then show ?thesis
    using assms(1) keep
    by (simp add: is_sequence_task_runnable_def find Let_def list_all_iff split: option.splits if_splits)
qed

lemma pop_scan_frame:
  "pop_scan tms k ps w m = (m', r, w') \<Longrightarrow>
     m_taskQueue m' = m_taskQueue m \<and> m_seqs m' = m_seqs m \<and> m_taskSequences m' = m_taskSequences m"
  by (induction ps arbitrary: k w m) (auto simp: Let_def put_task_def split: if_splits)

lemma pop_scan_hit:
  "pop_scan tms k ps w m = (m', Some j, w') \<Longrightarrow>
     k \<le> j \<and> j < k + length ps \<and> IsRunnable (tms (3 * j)) (m_tasks m' (ps ! (j - k))) \<and>
     is_sequence_task_runnable (Some (ps ! (j - k))) m'"
proof (induction ps arbitrary: k w m)
  case Nil
  then show ?case by simp
next
  case (Cons p ps)
  have rec: ?case if "pop_scan tms (Suc k) ps v n = (m', Some j, w')" for v n
    using Cons.IH [OF that] by (auto simp: nth_Cons' Suc_diff_le)
  show ?case using Cons.prems rec by (auto simp: Let_def split: if_splits)
qed

lemma pop_scan_total:
  assumes "p \<in> set ps" and "\<forall>n. IsRunnable (tms n) (m_tasks m p)"
    and "is_sequence_task_runnable (Some p) m"
    and "\<forall>q\<in>set ps. status (m_tasks m q) \<noteq> eCOMPLETED"
  shows "\<exists>m' j w'. pop_scan tms k ps w m = (m', Some j, w')"
  using assms
proof (induction ps arbitrary: k w m)
  case Nil
  then show ?case by simp
next
  case (Cons q ps)
  show ?case
  proof (cases "IsRunnable (tms (3 * k)) (m_tasks m q) \<and> is_sequence_task_runnable (Some q) m")
    case True
    then show ?thesis by (simp add: Let_def)
  next
    case False
    then have "q \<noteq> p" using Cons.prems by auto
    then have p: "p \<in> set ps" using Cons.prems(1) by auto
    let ?m1 = "put_task (SetStatus eEXPIRED ''Task is found timed-out while processing the queue'') q m"
    have "is_sequence_task_runnable (Some p) ?m1"
      using sequence_task_runnable_put [OF Cons.prems(3) \<open>q \<noteq> p\<close>] Cons.prems(4) by simp
    moreover have "\<forall>n. IsRunnable (tms n) (m_tasks ?m1 p)"
      using Cons.prems(2) \<open>q \<noteq> p\<close> by (simp add: put_task_def)
    moreover have "\<forall>r\<in>set ps. status (m_tasks ?m1 r) \<noteq> eCOMPLETED"
      using Cons.prems(4) by (auto simp: put_task_def SetStatus_def)
    ultimately have "\<exists>m' j w'. pop_scan tms (Suc k) ps w ?m1 = (m', Some j, w')"
      by (intro Cons.IH p)
    moreover have "\<exists>m' j w'. pop_scan tms (Suc k) ps v m = (m', Some j, w')" for v
      using Cons.prems by (intro Cons.IH p) auto
    ultimately show ?thesis using False by (simp add: Let_def)
  qed
qed

lemma set_erase_at_distinct: "distinct xs \<Longrightarrow> k < length xs \<Longrightarrow> set (erase_at k xs) = set xs - {xs ! k}"
proof (induction k arbitrary: xs)
  case 0
  then show ?case by (cases xs) auto
next
  case (Suc k)
  then show ?case by (cases xs) (auto simp: nth_mem)
qed

lemma pop_task_popped:
  assumes "PopTask tms m = (Popped t, m')" and "distinct (m_taskQueue m)"
  shows "\<exists>p tm. p \<in> set (m_taskQueue m) \<and> p \<notin> set (m_taskQueue m') \<and> t = m_tasks m' p \<and>
           IsRunnable tm t \<and> is_sequence_task_runnable (Some p) m' \<and> \<not> m_endSignal m"
proof -
  let ?m2 = "remove_expired_tasks_in_queue (m\<lparr>m_wakeUpSignal := False\<rparr>)"
  obtain m3 r w where scan: "pop_scan tms 0 (m_taskQueue ?m2) None ?m2 = (m3, r, w)"
    by (cases "pop_scan tms 0 (m_taskQueue ?m2) None ?m2") auto
  with assms(1) obtain k where k: "r = Some k" "t = m_tasks m3 (m_taskQueue m3 ! k)"
    "m' = m3\<lparr>m_taskQueue := erase_at k (m_taskQueue m3)\<rparr>" "\<not> m_endSignal m"
    by (auto simp: PopTask_def Let_def split: if_splits option.splits)
  have q: "m_taskQueue m3 = m_taskQueue ?m2" using pop_scan_frame [OF scan] by simp
  from pop_scan_hit [of tms 0 "m_taskQueue ?m2" None ?m2 m3 k w] scan k(1) q
  have hit: "k < length (m_taskQueue m3)" "IsRunnable (tms (3 * k)) t"
    "is_sequence_task_runnable (Some (m_taskQueue m3 ! k)) m3" by (simp_all add: k(2))
  have dist: "distinct (m_taskQueue m3)" and sub: "set (m_taskQueue m3) \<subseteq> set (m_taskQueue m)"
    using assms(2) unfolding q
    by (auto simp: remove_expired_tasks_in_queue_def erase_queued_def set_erase_if_def)
  show ?thesis
    using hit k sub nth_mem [OF hit(1)] set_erase_at_distinct [OF dist hit(1)]
    by (intro exI [of _ "m_taskQueue m3 ! k"] exI [of _ "tms (3 * k)"]) auto
qed

lemma pop_task_returns:
  assumes "\<not> m_endSignal m" and "p \<in> set (m_taskQueue m)"
    and run: "\<forall>n. IsRunnable (tms n) (m_tasks m p)" and seq: "is_sequence_task_runnable (Some p) m"
    and "\<forall>q\<in>set (m_taskQueue m). status (m_tasks m q) \<noteq> eCOMPLETED"
  shows "\<exists>t m'. PopTask tms m = (Popped t, m')"
proof -
  let ?m2 = "remove_expired_tasks_in_queue (m\<lparr>m_wakeUpSignal := False\<rparr>)"
  have idle: "status (m_tasks m p) = eIDLE" using run by (simp add: IsRunnable_def Let_def)
  have m2: "p \<in> set (m_taskQueue ?m2)" "is_sequence_task_runnable (Some p) ?m2"
    "m_tasks ?m2 = m_tasks m" "set (m_taskQueue ?m2) \<subseteq> set (m_taskQueue m)"
    using assms(2) seq idle
    by (auto simp: remove_expired_tasks_in_queue_def erase_queued_def MatchTaskByStatus_def)
  have "\<exists>m3 j w. pop_scan tms 0 (m_taskQueue ?m2) None ?m2 = (m3, Some j, w)"
    using m2 run assms(5) by (intro pop_scan_total) auto
  moreover have "m_taskQueue m \<noteq> []" using assms(2) by auto
  ultimately show ?thesis using assms(1) by (auto simp: PopTask_def Let_def)
qed

subsection \<open>Revoking\<close>

definition canceled :: "task \<Rightarrow> task" where
  "canceled t = SetStatus eCANCELED ''Task was canceled'' t"

lemma canceled_status [simp]: "status (canceled t) = eCANCELED"
  by (simp add: canceled_def SetStatus_def)

lemma cancel_idle_tasks:
  "m_tasks (snd (cancel_idle P ps c m)) =
     (\<lambda>p. if p \<in> set ps \<and> status (m_tasks m p) = eIDLE \<and> P (m_tasks m p)
          then canceled (m_tasks m p) else m_tasks m p)"
  by (induction ps arbitrary: c m)
    (auto simp: put_task_def fun_eq_iff canceled_def [symmetric])

lemma cancel_idle_frame [simp]:
  "m_seqs (snd (cancel_idle P ps c m)) = m_seqs m"
  "m_taskQueue (snd (cancel_idle P ps c m)) = m_taskQueue m"
  "m_taskSequences (snd (cancel_idle P ps c m)) = m_taskSequences m"
  by (induction ps arbitrary: c m) (auto simp: put_task_def)

lemma recompute_frame [simp]:
  "m_tasks (recompute sp m) = m_tasks m" "m_taskQueue (recompute sp m) = m_taskQueue m"
  "m_taskSequences (recompute sp m) = m_taskSequences m"
  "tasks (m_seqs (recompute sp m) sq) = tasks (m_seqs m sq)"
  "seq_name (m_seqs (recompute sp m) sq) = seq_name (m_seqs m sq)"
  by (simp_all add: recompute_def)

lemma revoke_sequence_loop_tasks:
  "m_tasks (revoke_sequence_tasks_loop name sps m) =
     (\<lambda>p. if status (m_tasks m p) = eIDLE \<and>
             (\<exists>sp\<in>set sps. seq_name (m_seqs m sp) = name \<and> p \<in> set (tasks (m_seqs m sp)))
          then canceled (m_tasks m p) else m_tasks m p)"
proof (induction sps arbitrary: m)
  case Nil
  then show ?case by simp
next
  case (Cons sp sps)
  let ?r = "cancel_idle (\<lambda>t. True) (tasks (m_seqs m sp)) False m"
  obtain M where M: "M = (if fst ?r then recompute sp (snd ?r) else snd ?r)" by blast
  have frame: "m_tasks M = m_tasks (snd ?r)"
    "tasks (m_seqs M sq) = tasks (m_seqs m sq)" "seq_name (m_seqs M sq) = seq_name (m_seqs m sq)" for sq
    by (simp_all add: M)
  have step: "m_tasks (revoke_sequence_tasks_loop name (sp # sps) m) =
      (if seq_name (m_seqs m sp) \<noteq> name then m_tasks (revoke_sequence_tasks_loop name sps m)
       else m_tasks (revoke_sequence_tasks_loop name sps M))"
    by (cases "seq_name (m_seqs m sp) = name")
      (simp_all only: M revoke_sequence_tasks_loop.simps Let_def simp_thms if_True if_False)
  show ?case
  proof (cases "seq_name (m_seqs m sp) = name")
    case False
    then show ?thesis unfolding step by (simp add: Cons.IH)
  next
    case True
    show ?thesis
    proof
      fix p
      show "m_tasks (revoke_sequence_tasks_loop name (sp # sps) m) p =
          (if status (m_tasks m p) = eIDLE \<and>
              (\<exists>sp\<in>set (sp # sps). seq_name (m_seqs m sp) = name \<and> p \<in> set (tasks (m_seqs m sp)))
           then canceled (m_tasks m p) else m_tasks m p)"
        unfolding step Cons.IH frame using True
        by (cases "p \<in> set (tasks (m_seqs m sp))"; cases "status (m_tasks m p) = eIDLE")
          (auto simp: cancel_idle_tasks)
    qed
  qed
qed

lemma revoke_sequence_loop_queue [simp]:
  "m_taskQueue (revoke_sequence_tasks_loop name sps m) = m_taskQueue m"
  "m_taskSequences (revoke_sequence_tasks_loop name sps m) = m_taskSequences m"
  by (induction sps arbitrary: m) (simp_all add: Let_def)

lemma revoke_sequence_queue:
  "set (m_taskQueue (snd (RevokeTaskSequence name m))) =
     {p \<in> set (m_taskQueue m). \<not> MatchTaskBySequenceName name (m_tasks m p)}"
  by (simp add: RevokeTaskSequence_def revoke_sequence_tasks_def remove_sequence_tasks_in_queue_def
      erase_queued_def)

lemma revoke_sequence_tasks_result:
  "m_tasks (snd (RevokeTaskSequence name m)) p =
     (if status (m_tasks m p) = eIDLE \<and>
         (\<exists>sp\<in>set (m_taskSequences m). seq_name (m_seqs m sp) = name \<and> p \<in> set (tasks (m_seqs m sp)))
      then canceled (m_tasks m p) else m_tasks m p)"
  by (auto simp: RevokeTaskSequence_def revoke_sequence_tasks_def remove_sequence_tasks_in_queue_def
      erase_queued_def revoke_sequence_loop_tasks)

subsection \<open>Setting the status of a task\<close>

lemma find_task_unique:
  assumes "\<forall>q\<in>set (tasks s). MatchTask i name (h q) \<longleftrightarrow> q = p"
  shows "if p \<in> set (tasks s) then \<exists>k. FindTask i name h s = Some (k, p)
         else FindTask i name h s = None"
proof (cases "p \<in> set (tasks s)")
  case True
  then have "find_index (\<lambda>q. MatchTask i name (h q)) (tasks s) \<noteq> None" using assms by auto
  then obtain k where k: "find_index (\<lambda>q. MatchTask i name (h q)) (tasks s) = Some k" by blast
  then have "tasks s ! k = p"
    using assms find_index_hit [OF k] nth_mem [OF find_index_bound [OF k]] by blast
  then show ?thesis using True k by (simp add: FindTask_def find_task_where_def)
next
  case False
  then have "find_index (\<lambda>q. MatchTask i name (h q)) (tasks s) = None" using assms by auto
  then show ?thesis using False by (simp add: FindTask_def find_task_where_def)
qed

lemma compute_status_idem [simp]: "ComputeStatus h (ComputeStatus h s) = ComputeStatus h s"
  by (simp add: ComputeStatus_def Let_def)

lemma match_task_set_status [simp]: "MatchTask i name (SetStatus st info t) = MatchTask i name t"
  by (simp add: MatchTask_def SetStatus_def)

lemma is_in_sequence_set_status [simp]: "is_in_sequence (SetStatus st info t) = is_in_sequence t"
  by (simp add: SetStatus_def)

lemma set_status_idem [simp]: "SetStatus st info (SetStatus st info t) = SetStatus st info t"
  by (simp add: SetStatus_def)

lemma set_status_loop_result:
  assumes "\<forall>sp\<in>set sps. \<forall>q\<in>set (tasks (m_seqs m sp)). MatchTask i name (m_tasks m q) \<longleftrightarrow> q = p"
    and "is_in_sequence (m_tasks m p)"
  shows "let r = set_status_loop i name st info sps found m;
             hit = (\<exists>sp\<in>set sps. p \<in> set (tasks (m_seqs m sp)));
             h' = (m_tasks m)(p := SetStatus st info (m_tasks m p))
         in fst r = (found \<or> hit) \<and> m_tasks (snd r) = (if hit then h' else m_tasks m) \<and>
            m_seqs (snd r) = (\<lambda>sp. if sp \<in> set sps \<and> p \<in> set (tasks (m_seqs m sp))
                                   then ComputeStatus h' (m_seqs m sp) else m_seqs m sp) \<and>
            m_taskQueue (snd r) = m_taskQueue m \<and> m_taskSequences (snd r) = m_taskSequences m"
  using assms
proof (induction sps arbitrary: found m)
  case Nil
  then show ?case by (simp add: Let_def)
next
  case (Cons sp sps)
  show ?case
  proof (cases "p \<in> set (tasks (m_seqs m sp))")
    case False
    then have "FindTask i name (m_tasks m) (m_seqs m sp) = None"
      using find_task_unique [of "m_seqs m sp" i name "m_tasks m" p] Cons.prems(1) by simp
    then show ?thesis using Cons.IH [of m found] Cons.prems False by (auto simp: Let_def)
  next
    case True
    then obtain k where k: "FindTask i name (m_tasks m) (m_seqs m sp) = Some (k, p)"
      using find_task_unique [of "m_seqs m sp" i name "m_tasks m" p] Cons.prems(1) by auto
    obtain M where M: "M = recompute sp (put_task (SetStatus st info) p m)" by blast
    have eq: "set_status_loop i name st info (sp # sps) found m = set_status_loop i name st info sps True M"
      using k Cons.prems(2) by (simp add: M put_task_def Let_def)
    let ?h = "(m_tasks m)(p := SetStatus st info (m_tasks m p))"
    have m: "m_tasks M = ?h" "m_seqs M = (m_seqs m)(sp := ComputeStatus ?h (m_seqs m sp))"
      "m_taskQueue M = m_taskQueue m" "m_taskSequences M = m_taskSequences m"
      by (auto simp: M recompute_def put_task_def update_task_def)
    have tk: "tasks (m_seqs M sq) = tasks (m_seqs m sq)" for sq by (simp add: m)
    have "\<forall>sq\<in>set sps. \<forall>q\<in>set (tasks (m_seqs M sq)). MatchTask i name (m_tasks M q) \<longleftrightarrow> q = p"
      using Cons.prems(1) True unfolding tk m by simp
    from Cons.IH [OF this, of True] Cons.prems(2) True
    show ?thesis unfolding eq Let_def tk by (simp add: m fun_eq_iff)
  qed
qed

subsection \<open>Adding a sequence\<close>

lemma queue_tasks_static: "same_static m (snd (queue_tasks has_attr ps m))"
proof (induction ps arbitrary: m)
  case (Cons p ps)
  let ?m1 = "m\<lparr>m_taskQueue := set_insert (queue_lt (m_tasks m)) p (m_taskQueue m)\<rparr>"
  let ?m2 = "put_task (\<lambda>t. t\<lparr>status := eIDLE\<rparr>) p ?m1"
  have "same_static m ?m2" by (auto simp: same_static_def put_task_def)
  from same_static_trans [OF this Cons.IH] show ?case by (simp add: Let_def)
qed simp

text \<open>Distinct tasks that may be queued have distinct keys; identifiers are unique, for example.\<close>

definition keys_distinct :: "task_ptr set \<Rightarrow> task_manager \<Rightarrow> bool" where
  "keys_distinct P m \<longleftrightarrow> inj_on (\<lambda>p. task_key (m_tasks m p)) P"

lemma set_insert_distinct_keys:
  assumes inv: "queue_inv P m" and keys: "keys_distinct P m" and p: "p \<in> P"
  shows "set (set_insert (queue_lt (m_tasks m)) p (m_taskQueue m)) = insert p (set (m_taskQueue m))"
proof (cases "p \<in> set (m_taskQueue m)")
  case True
  then show ?thesis
    using set_insert_subset [of "queue_lt (m_tasks m)" p "m_taskQueue m"]
      set_insert_keeps [of "m_taskQueue m" "queue_lt (m_tasks m)" p] by auto
next
  case False
  have swo: "strict_weak_on (queue_lt (m_tasks m)) P" using inv by (simp add: queue_inv_def queue_order)
  have "queue_lt (m_tasks m) p q \<or> queue_lt (m_tasks m) q p" if "q \<in> set (m_taskQueue m)" for q
  proof -
    have "q \<in> P" "p \<noteq> q" using inv that False by (auto simp: queue_inv_def)
    then have "task_key (m_tasks m p) \<noteq> task_key (m_tasks m q)"
      using keys p by (auto simp: keys_distinct_def dest: inj_onD)
    then show ?thesis
      using inv p \<open>q \<in> P\<close> comparator_key_consistent [of "m_tasks m ` P"]
      by (auto simp: queue_lt_def queue_inv_def neq_iff)
  qed
  then show ?thesis
    using strict_weak_on.set_insert_fresh [OF swo, of "m_taskQueue m" p] inv p
    by (auto simp: queue_inv_def queue_sorted_def)
qed

lemma keys_distinct_static:
  assumes "same_static m m'"
  shows "keys_distinct P m' = keys_distinct P m"
proof -
  have s: "static_task (m_tasks m' p) = static_task (m_tasks m p)" for p
    using assms by (simp add: same_static_def)
  have k: "task_key (m_tasks m' p) = task_key (m_tasks m p)" for p
    by (rule static_task_cong(3) [OF s])
  show ?thesis by (simp only: keys_distinct_def k)
qed

lemma queue_tasks_success:
  assumes "queue_inv P m" and "keys_distinct P m" and "set ps \<subseteq> P"
    and "\<forall>p\<in>set ps. is_asynch (m_tasks m p) \<longrightarrow> has_attr (status_attr_name (m_tasks m p))"
  shows "\<exists>m'. queue_tasks has_attr ps m = (True, m') \<and>
           set (m_taskQueue m') = set (m_taskQueue m) \<union> set ps \<and>
           m_tasks m' = (\<lambda>p. if p \<in> set ps then (m_tasks m p)\<lparr>status := eIDLE\<rparr> else m_tasks m p) \<and>
           m_seqs m' = m_seqs m \<and> m_taskSequences m' = m_taskSequences m"
  using assms
proof (induction ps arbitrary: m)
  case Nil
  then show ?case by auto
next
  case (Cons p ps)
  let ?m1 = "m\<lparr>m_taskQueue := set_insert (queue_lt (m_tasks m)) p (m_taskQueue m)\<rparr>"
  let ?m2 = "put_task (\<lambda>t. t\<lparr>status := eIDLE\<rparr>) p ?m1"
  have q: "set (m_taskQueue ?m2) = insert p (set (m_taskQueue m))"
    using set_insert_distinct_keys [OF Cons.prems(1,2)] Cons.prems(3) by (simp add: put_task_def)
  have "queue_inv P ?m1" using queue_inv_insert Cons.prems by simp
  then have inv: "queue_inv P ?m2"
    by (rule queue_inv_static [OF same_static_put_status, rotated]) (simp add: put_task_def)
  have "same_static m ?m2" by (auto simp: same_static_def put_task_def)
  then have keys: "keys_distinct P ?m2" using Cons.prems(2) keys_distinct_static by blast
  have "\<exists>m'. queue_tasks has_attr ps ?m2 = (True, m') \<and>
      set (m_taskQueue m') = set (m_taskQueue ?m2) \<union> set ps \<and>
      m_tasks m' = (\<lambda>p. if p \<in> set ps then (m_tasks ?m2 p)\<lparr>status := eIDLE\<rparr> else m_tasks ?m2 p) \<and>
      m_seqs m' = m_seqs ?m2 \<and> m_taskSequences m' = m_taskSequences ?m2"
    using Cons.prems(3,4) by (intro Cons.IH inv keys) (auto simp: put_task_def)
  then obtain m' where m': "queue_tasks has_attr ps ?m2 = (True, m')"
      "set (m_taskQueue m') = insert p (set (m_taskQueue m)) \<union> set ps"
      "m_tasks m' = (\<lambda>p. if p \<in> set ps then (m_tasks ?m2 p)\<lparr>status := eIDLE\<rparr> else m_tasks ?m2 p)"
      "m_seqs m' = m_seqs m" "m_taskSequences m' = m_taskSequences m"
    unfolding q by (auto simp: put_task_def)
  have "queue_tasks has_attr (p # ps) m = (True, m')" using m'(1) Cons.prems(4) by (simp add: Let_def)
  then show ?case using m'(2-5) by (auto simp: put_task_def fun_eq_iff)
qed

text \<open>The early return: the tasks before the faulty one stay queued.\<close>

lemma queue_tasks_early_return:
  assumes "fst (queue_tasks has_attr ps m)"
    and "is_asynch (m_tasks m q)" and "\<not> has_attr (status_attr_name (m_tasks m q))" and "q \<notin> set ps"
  shows "queue_tasks has_attr (ps @ q # rest) m = (False, snd (queue_tasks has_attr ps m))"
  using assms
proof (induction ps arbitrary: m)
  case Nil
  then show ?case by simp
next
  case (Cons p ps)
  then show ?case by (simp add: Let_def put_task_def split: if_splits)
qed

end
