(* ===== verification/TaskExamples.thy ===== *)
theory TaskExamples
  imports TaskMgrOps
begin

text \<open>
  A concrete sequence of two tasks, built with the operations of the model at time 0: task \<open>b\<close> (address
  1) starts after ten seconds, task \<open>a\<close> (address 0) depends on it. Task \<open>c\<close> (address 2) belongs to no
  sequence. The duration of the delayed tasks is a parameter.
\<close>

definition demo_clock :: clock where
  "demo_clock = (\<lambda>n. 0)"

definition demo_task :: "string \<Rightarrow> int \<Rightarrow> task" where
  "demo_task name prio = Task_new demo_clock name True name prio False"

definition delayed :: "int \<Rightarrow> task \<Rightarrow> task" where
  "delayed duration t = snd (SetTimeDelayAndDuration demo_clock 10000 duration eCREATION_TIME 0 t)"

definition demo_heap0 :: "int \<Rightarrow> task_heap" where
  "demo_heap0 duration =
     (\<lambda>p. if p = 0 then demo_task ''a'' eHIGH_PRIORITY
          else if p = 1 then delayed duration (demo_task ''b'' eLOW_PRIORITY)
          else delayed duration (demo_task ''c'' eMEDIUM_PRIORITY))"

definition demo_built :: "int \<Rightarrow> task_heap \<times> task_sequence" where
  "demo_built duration =
     (let r1 = AddTask (Some 0) (demo_heap0 duration) (TaskSequence_new ''id'' 0 ''seq'' False)
      in snd (AddTask (Some 1) (fst (snd r1)) (snd (snd r1))))"

definition demo_seq :: "int \<Rightarrow> task_heap \<times> task_sequence" where
  "demo_seq duration =
     (case SetTaskDependency demo_clock [[1], []] (fst (demo_built duration)) (snd (demo_built duration)) of
        Some (r, h, s) \<Rightarrow> (h, s))"

lemmas demo_defs =
  demo_seq_def demo_built_def demo_heap0_def delayed_def demo_clock_def TaskSequence_new_def AddTask_def
  SetTaskDependency_def Let_def vec_get_def update_task_def raw_task_def SetTimeDelayAndDuration_def
  time_of_mode_def add_whole_seconds_def SetActivationTimeout_def SetExpirationTimeout_def
  GetYatTimeDiffUSec_def InitActivationTimeout_def InitExpirationTimeout_def set_max_times_def
  ready_time_def empty_unix_def SetExpirationTime_def

lemma demo_task_value:
  "demo_task name prio = (raw_task True name prio False)
     \<lparr>default_max_duration := 30000, max_duration := 30000, expiration_time := 30000000,
      expiration_timeout := Some \<lparr>tmo_created = 0, tmo_delay_ms = 30000\<rparr>, hasExpirationTime := True,
      argin_type := -1, argin_format := -1, task_id := name, status := eINIT\<rparr>"
  by (simp add: demo_task_def Task_new_def Task_Init_def demo_defs)

lemma demo_matrix:
  "HasCyclicDependencies (Suc (Suc 0)) [[Suc 0], []] = Some False"
  "FindSortingIndexes (Suc (Suc 0)) [[Suc 0], []] = Some [Suc 0, 0]"
proof -
  have "HasCyclicDependencies 2 [[1], []] = Some False" by code_simp
  then show "HasCyclicDependencies (Suc (Suc 0)) [[Suc 0], []] = Some False"
    by (simp add: numeral_2_eq_2)
  show "FindSortingIndexes (Suc (Suc 0)) [[Suc 0], []] = Some [Suc 0, 0]"
    by (simp add: FindSortingIndexes_def Let_def Sorter.simps sort_row.simps vec_get_def vec_set_def
        upt_rec)
qed

lemma demo_no_cycle: "\<not> has_cycle [[Suc 0], []]"
  using has_cyclic_dependencies_iff [of "[[Suc 0], []]"] demo_matrix(1)
  by (simp add: in_range_def)

lemmas demo_eval = demo_defs demo_task_value demo_matrix

lemma demo_seq_value: "tasks (snd (demo_seq 20000)) = [0, 1]" "tasks (snd (demo_built 20000)) = [0, 1]"
  by (simp_all add: demo_eval)

lemma demo_built_wf: "seq_wf (fst (demo_built 20000)) (snd (demo_built 20000))"
  by (simp add: seq_wf_def demo_eval less_Suc_eq)

lemma demo_built_windows:
  "positive_windows (fst (demo_built 20000)) (snd (demo_built 20000))"
  "\<forall>p\<in>set (tasks (snd (demo_built 20000))). \<not> depend_on_sequence_tasks (fst (demo_built 20000) p)"
  by (simp_all add: positive_windows_def demo_eval)

lemma demo_accepted:
  "SetTaskDependency demo_clock [[Suc 0], []] (fst (demo_built 20000)) (snd (demo_built 20000)) =
     Some (0, demo_seq 20000)"
proof -
  have "\<exists>h' s'. SetTaskDependency demo_clock [[Suc 0], []] (fst (demo_built 20000))
      (snd (demo_built 20000)) = Some (0, h', s')"
    using set_task_dependency_accepts [of "[[Suc 0], []]" "snd (demo_built 20000)" demo_clock
        "fst (demo_built 20000)"] demo_no_cycle
    by (auto simp: demo_seq_value in_range_def)
  then show ?thesis by (auto simp: demo_seq_def)
qed

lemma demo_key_consistent: "key_consistent (fst (demo_seq 20000) ` {0, 1})"
  using set_task_dependency_key_consistent(1) [of "[[Suc 0], []]" "snd (demo_built 20000)"
      "fst (demo_built 20000)" demo_clock 0 "fst (demo_seq 20000)" "snd (demo_seq 20000)"]
    demo_built_wf demo_built_windows demo_no_cycle demo_accepted
  by (simp add: demo_seq_value in_range_def)

text \<open>A manager that holds the sequence, before and after it was added.\<close>

definition demo_mgr :: task_manager where
  "demo_mgr = TaskManager_new (fst (demo_seq 20000)) (\<lambda>sp. snd (demo_seq 20000))"

definition demo_added :: task_manager where
  "demo_added = snd (AddTaskSequence (\<lambda>a. True) (Some 0) True demo_mgr)"

lemma demo_mgr_inv: "queue_inv {0, 1} demo_mgr" "keys_distinct {0, 1} demo_mgr"
  using demo_key_consistent
  by (simp_all add: queue_inv_def queue_sorted_def demo_mgr_def TaskManager_new_def keys_distinct_def
      task_key_def demo_eval)

definition all_fired :: timer_state where
  "all_fired = \<lparr>tmo_enabled = (\<lambda>t. True), tmo_expired = (\<lambda>t. tmo_delay_ms t \<le> 10000)\<rparr>"

lemma demo_queue:
  "m_taskQueue demo_added = [1, 0]" "m_endSignal demo_added = False"
  "m_taskSequences demo_added = [0]" "m_seqs demo_added = (\<lambda>sp. snd (demo_seq 20000))"
  "m_tasks demo_added 0 = (fst (demo_seq 20000) 0)\<lparr>status := eIDLE\<rparr>"
  "m_tasks demo_added 1 = (fst (demo_seq 20000) 1)\<lparr>status := eIDLE\<rparr>"
  by (simp_all add: demo_added_def AddTaskSequence_def demo_mgr_def TaskManager_new_def GetNTasks_def
      GetNTasksInQueue_def demo_seq_value put_task_def queue_lt_def comparatorFcn_def
      areInSameSequence_def DependOnTask_def demo_eval)

lemma demo_reachable: "mgr_reachable {0, 1} demo_mgr demo_added"
proof -
  have "mgr_step {0, 1} demo_mgr (mgr_apply (Op_Add (\<lambda>a. True) (Some 0) True) demo_mgr)"
    by (rule mgr_step.add) (simp add: demo_mgr_def TaskManager_new_def demo_seq_value)
  then show ?thesis
    using mgr_reachable.step [OF mgr_reachable.start] by (simp add: demo_added_def)
qed

lemma demo_runnable:
  "IsRunnable all_fired (m_tasks demo_added 1)" "is_sequence_task_runnable (Some 1) demo_added"
  by (simp_all add: demo_queue [unfolded One_nat_def] IsRunnable_def IsActivationReached_def IsExpirationReached_def
      all_fired_def is_sequence_task_runnable_def demo_eval)

end
