(* ===== verification/TaskProps.thy ===== *)
theory TaskProps
  imports TaskExamples
begin

text \<open>The properties of the task engine (\<open>Task\<close>, \<open>TaskSequence\<close>, \<open>TaskManager\<close>) with their witnesses.\<close>

subsection \<open>Popping\<close>






subsection \<open>The queue\<close>



text \<open>No operation of the manager grows the queue beyond its limit: after every step the queue is no
  longer than before or than the limit in force.\<close>

theorem queue_bounded:
  assumes "mgr_step P m m'"
  shows "int (length (m_taskQueue m')) \<le> max (int (length (m_taskQueue m))) (m_maxTasksInQueue m)"
  using assms
proof (cases rule: mgr_step.cases)
  case (add tsp b has_attr)
  then show ?thesis using add_sequence_length by simp
next
  case (other op)
  then have "shrinks m m'" using mgr_apply_shrinks by blast
  then have "length (m_taskQueue m') \<le> length (m_taskQueue m)"
    by (auto simp: shrinks_def dest: list_emb_length)
  then show ?thesis by simp
qed

theorem queue_bounded_witness:
  "int (length (m_taskQueue (mgr_apply Op_Flush demo_added))) \<le> 30"
proof -
  have "mgr_step {} demo_added (mgr_apply Op_Flush demo_added)" by (rule mgr_step.other) simp
  from queue_bounded [OF this] show ?thesis by (simp add: FlushQueue_def)
qed

text \<open>C4: \<open>CompareTask\<close> is a strict weak order, the requirement of \<open>std::set\<close>, on every set of tasks whose
  dependencies agree with their start times, priorities and expiration times.\<close>

theorem comparator_strict_weak_order:
  assumes "key_consistent S"
  shows "strict_weak_on comparatorFcn S"
  using assms by (rule strict_weak_comparator)

theorem comparator_strict_weak_order_witness:
  "strict_weak_on comparatorFcn (fst (demo_seq 20000) ` {0, 1})"
  by (rule comparator_strict_weak_order [OF demo_key_consistent])

text \<open>The comparator is not transitive on all tasks: with durations below a second, the maximum
  activation time of a dependent task equals the activation time of the task it depends on, and a third
  task of medium priority closes a cycle \<open>a < c < b < a\<close>.\<close>

theorem comparator_cycle_sub_second:
  "let h = fst (demo_seq 500) in
   comparatorFcn (h 0) (h 2) \<and> comparatorFcn (h 2) (h 1) \<and> comparatorFcn (h 1) (h 0)"
  by (simp add: comparatorFcn_def compare_tail_def areInSameSequence_def DependOnTask_def demo_eval)

subsection \<open>Dependencies\<close>

text \<open>C5: \<open>HasCyclicDependencies\<close> terminates and decides whether the dependency relation has a cycle.\<close>

theorem cyclic_dependencies_decided:
  assumes "dep \<noteq> []" and "in_range dep"
  shows "HasCyclicDependencies (length dep) dep = Some (\<exists>x. (x, x) \<in> (dep_rel dep)\<^sup>+)"
  using has_cyclic_dependencies_iff [OF assms] by (simp add: has_cycle_def)

theorem cyclic_dependencies_decided_witness:
  "HasCyclicDependencies 2 [[1], [0]] = Some (\<exists>x. (x, x) \<in> (dep_rel [[1], [0]])\<^sup>+)"
  using cyclic_dependencies_decided [of "[[1], [0]]"] by (simp add: in_range_def numeral_2_eq_2)

text \<open>C6: \<open>FindSortingIndexes\<close> terminates with a permutation of the task indexes that puts every task
  after the tasks it depends on.\<close>

theorem sorting_indexes_topological:
  assumes "in_range dep" and "\<not> has_cycle dep" and "dep \<noteq> []"
  shows "\<exists>order. FindSortingIndexes (length dep) dep = Some order \<and> distinct order \<and>
           set order = {..<length dep} \<and>
           (\<forall>k<length order. set (dep ! (order ! k)) \<subseteq> set (take k order))"
  using assms by (rule find_sorting_indexes_topological)

theorem sorting_indexes_topological_witness:
  "\<exists>order. FindSortingIndexes 2 [[1], []] = Some order \<and> set order = {0, 1}"
  using sorting_indexes_topological [of "[[Suc 0], []]"] demo_no_cycle
  by (auto simp: in_range_def numeral_2_eq_2 lessThan_Suc)

text \<open>C7: \<open>SetTaskDependency\<close> rejects a matrix with a cycle and changes nothing then; it accepts every
  other matrix of the right size, and every dependent task gets a maximum activation time that no task
  it depends on ends after, and its maximum expiration time a duration later.\<close>

theorem set_task_dependency_spec:
  assumes "dep \<noteq> []" and "length dep = length (tasks s)" and "in_range dep" and "distinct (tasks s)"
  shows "if has_cycle dep then SetTaskDependency clk dep h s = Some (-1, h, s)
         else \<exists>h'. SetTaskDependency clk dep h s = Some (0, h', s\<lparr>dependency_matrix := dep\<rparr>) \<and>
           (\<forall>i<length dep. dep_task_seq_indexes (h' (tasks s ! i)) = dep ! i \<and>
              (\<forall>d\<in>set (dep ! i). ready_time (h' (tasks s ! d)) \<le> exp_max_activation_time (h' (tasks s ! i))) \<and>
              (dep ! i \<noteq> [] \<longrightarrow> exp_max_expiration_time (h' (tasks s ! i)) =
                 add_whole_seconds (exp_max_activation_time (h' (tasks s ! i)))
                   (max_duration (h (tasks s ! i)))))"
proof (cases "has_cycle dep")
  case True
  then show ?thesis using set_task_dependency_rejects assms by simp
next
  case False
  obtain h' where h': "SetTaskDependency clk dep h s = Some (0, h', s\<lparr>dependency_matrix := dep\<rparr>)"
    "\<forall>i<length dep. times_ok h' (tasks s) i"
    "\<And>i. i < length dep \<Longrightarrow>
        times_blank (h' (tasks s ! i)) = times_blank (with_deps (dep ! i) (h (tasks s ! i)))"
    using set_task_dependency_accepts [OF assms(1-3) False assms(4)] by blast
  have fields: "dep_task_seq_indexes (h' (tasks s ! i)) = dep ! i"
    "max_duration (h' (tasks s ! i)) = max_duration (h (tasks s ! i))"
    "dep ! i \<noteq> [] \<Longrightarrow> depend_on_sequence_tasks (h' (tasks s ! i))" if "i < length dep" for i
    using times_blank_fields [OF h'(3) [OF that]] by (simp_all add: with_deps_def)
  have "ready_time (h' (tasks s ! d)) \<le> exp_max_activation_time (h' (tasks s ! i))"
    if "i < length dep" "d \<in> set (dep ! i)" for i d
  proof -
    have "depend_on_sequence_tasks (h' (tasks s ! i))" using fields(3) that by fastforce
    then show ?thesis using h'(2) that fields(1) by (simp add: times_ok_def Let_def)
  qed
  then show ?thesis
    using False h'(1,2) fields by (auto simp: times_ok_def Let_def)
qed

theorem set_task_dependency_spec_witness:
  "\<exists>h'. SetTaskDependency demo_clock [[1], []] (fst (demo_built 20000)) (snd (demo_built 20000)) =
     Some (0, h', (snd (demo_built 20000))\<lparr>dependency_matrix := [[1], []]\<rparr>) \<and>
     ready_time (h' 1) \<le> exp_max_activation_time (h' 0)"
  using set_task_dependency_spec [of "[[Suc 0], []]" "snd (demo_built 20000)" demo_clock
      "fst (demo_built 20000)"] demo_no_cycle
  by (auto simp: demo_seq_value in_range_def)

text \<open>A sequence built with \<open>AddTask\<close> and \<open>SetTaskDependency\<close>, whose tasks last at least a second,
  can be queued: \<open>CompareTask\<close> is a strict weak order on its tasks.\<close>

theorem built_sequence_can_be_queued:
  assumes "dep \<noteq> []" and "length dep = length (tasks s)" and "in_range dep" and "\<not> has_cycle dep"
    and "seq_wf h s" and "\<forall>p\<in>set (tasks s). \<not> depend_on_sequence_tasks (h p)"
    and "positive_windows h s" and "SetTaskDependency clk dep h s = Some (r, h', s')"
  shows "r = 0 \<and> seq_wf h' s' \<and> strict_weak_on (queue_lt h') (set (tasks s'))"
proof -
  have "distinct (tasks s)" using assms(5) by (simp add: seq_wf_def)
  then obtain h1 where "SetTaskDependency clk dep h s = Some (0, h1, s\<lparr>dependency_matrix := dep\<rparr>)"
    using set_task_dependency_accepts [OF assms(1-4), of clk h] by blast
  then have "r = 0" using assms(8) by simp
  then show ?thesis
    using set_task_dependency_key_consistent [OF assms] by (simp add: queue_order)
qed

theorem built_sequence_can_be_queued_witness:
  "strict_weak_on (queue_lt (fst (demo_seq 20000))) {0, 1}"
  using built_sequence_can_be_queued [of "[[Suc 0], []]" "snd (demo_built 20000)"
      "fst (demo_built 20000)" demo_clock 0 "fst (demo_seq 20000)" "snd (demo_seq 20000)"]
    demo_built_wf demo_built_windows demo_no_cycle demo_accepted
  by (simp add: demo_seq_value in_range_def)

subsection \<open>Adding, revoking, executing\<close>

text \<open>\<open>AddTaskSequence\<close> with room in the queue, and progress attributes for its asynchronous tasks,
  queues every task of the sequence as idle next to those already there, appends the sequence to the
  collection and sets the wake-up signal.\<close>

theorem add_sequence_queues_all:
  assumes "queue_inv P m" and "keys_distinct P m" and "set (tasks (m_seqs m sp)) \<subseteq> P"
    and "tasks (m_seqs m sp) \<noteq> []"
    and "int (length (m_taskQueue m) + length (tasks (m_seqs m sp))) \<le> m_maxTasksInQueue m"
    and "\<forall>p\<in>set (tasks (m_seqs m sp)).
           is_asynch (m_tasks m p) \<longrightarrow> has_attr (status_attr_name (m_tasks m p))"
  shows "\<exists>m'. AddTaskSequence has_attr (Some sp) True m = (0, m') \<and>
           set (m_taskQueue m') = set (m_taskQueue m) \<union> set (tasks (m_seqs m sp)) \<and>
           (\<forall>p\<in>set (tasks (m_seqs m sp)). status (m_tasks m' p) = eIDLE) \<and>
           m_taskSequences m' = m_taskSequences m @ [sp] \<and> m_wakeUpSignal m'"
proof -
  obtain m' where m': "queue_tasks has_attr (tasks (m_seqs m sp)) m = (True, m')"
    "set (m_taskQueue m') = set (m_taskQueue m) \<union> set (tasks (m_seqs m sp))"
    "m_tasks m' = (\<lambda>p. if p \<in> set (tasks (m_seqs m sp)) then (m_tasks m p)\<lparr>status := eIDLE\<rparr>
                      else m_tasks m p)"
    "m_taskSequences m' = m_taskSequences m"
    using queue_tasks_success [OF assms(1-3,6)] by blast
  have "AddTaskSequence has_attr (Some sp) True m =
      (0, m'\<lparr>m_taskSequences := m_taskSequences m' @ [sp], m_wakeUpSignal := True\<rparr>)"
    using assms(4,5) m'(1) by (simp add: AddTaskSequence_def Let_def GetNTasks_def GetNTasksInQueue_def)
  then show ?thesis using m' by auto
qed

theorem add_sequence_queues_all_witness:
  "\<exists>m'. AddTaskSequence (\<lambda>a. True) (Some 0) True demo_mgr = (0, m') \<and> set (m_taskQueue m') = {0, 1}"
  using add_sequence_queues_all [OF demo_mgr_inv, of 0 "\<lambda>a. True"]
  by (auto simp: demo_mgr_def TaskManager_new_def demo_seq_value)

text \<open>A sequence whose asynchronous task has no progress attribute is refused, but the tasks before
  it stay in the queue although the sequence is not in the collection.\<close>

theorem add_sequence_leaves_orphans:
  assumes "m_seqs m sp = s" and "tasks s = ps @ q # rest" and "q \<notin> set ps"
    and "\<forall>p\<in>set ps. \<not> is_asynch (m_tasks m p)" and "queue_inv P m" and "keys_distinct P m"
    and "set ps \<subseteq> P" and "is_asynch (m_tasks m q)" and "\<not> has_attr (status_attr_name (m_tasks m q))"
    and "int (length (m_taskQueue m) + length (tasks s)) \<le> m_maxTasksInQueue m"
  shows "\<exists>m'. AddTaskSequence has_attr (Some sp) True m = (-1, m') \<and>
           set ps \<subseteq> set (m_taskQueue m') \<and> m_taskSequences m' = m_taskSequences m"
proof -
  obtain m' where m': "queue_tasks has_attr ps m = (True, m')"
    "set (m_taskQueue m') = set (m_taskQueue m) \<union> set ps" "m_taskSequences m' = m_taskSequences m"
    using queue_tasks_success [OF assms(5-7), of has_attr] assms(4) by blast
  have "queue_tasks has_attr (tasks s) m = (False, m')"
    unfolding assms(2) using queue_tasks_early_return [of has_attr ps m q rest] assms(3,8,9) m'(1) by simp
  then have "AddTaskSequence has_attr (Some sp) True m = (-1, m')"
    using assms(1,2,10) by (simp add: AddTaskSequence_def Let_def GetNTasks_def GetNTasksInQueue_def)
  then show ?thesis using m' by auto
qed

definition asynch_mgr :: task_manager where
  "asynch_mgr = TaskManager_new ((demo_heap0 20000)(5 := SetAsynchTask ''progress'' (demo_task ''d'' eLOW_PRIORITY)))
     (\<lambda>sp. (TaskSequence_new ''id'' 0 ''seq'' False)\<lparr>tasks := [0, 5]\<rparr>)"

theorem add_sequence_leaves_orphans_witness:
  "\<exists>m'. AddTaskSequence (\<lambda>a. False) (Some 0) True asynch_mgr = (-1, m') \<and> 0 \<in> set (m_taskQueue m') \<and>
     m_taskSequences m' = []"
  using add_sequence_leaves_orphans [of asynch_mgr 0 "m_seqs asynch_mgr 0" "[0]" 5 "[]" "{0}" "\<lambda>a. False"]
  by (simp add: asynch_mgr_def TaskManager_new_def queue_inv_def queue_sorted_def keys_distinct_def
      key_consistent_def depends_in_sequence_def DependOnTask_def SetAsynchTask_def demo_eval)

text \<open>\<open>RevokeTaskSequence\<close> takes exactly the tasks of the sequences with the given name out of the
  queue and cancels exactly the idle tasks of the sequences of that name in the collection.\<close>

theorem revoke_sequence_spec:
  "fst (RevokeTaskSequence name m) = 0 \<and>
   set (m_taskQueue (snd (RevokeTaskSequence name m))) =
     {p \<in> set (m_taskQueue m). \<not> (is_in_sequence (m_tasks m p) \<and> sequence_name (m_tasks m p) = name)} \<and>
   m_tasks (snd (RevokeTaskSequence name m)) =
     (\<lambda>p. if status (m_tasks m p) = eIDLE \<and>
             (\<exists>sp\<in>set (m_taskSequences m). seq_name (m_seqs m sp) = name \<and> p \<in> set (tasks (m_seqs m sp)))
          then SetStatus eCANCELED ''Task was canceled'' (m_tasks m p) else m_tasks m p)"
proof (intro conjI)
  show "fst (RevokeTaskSequence name m) = 0" by (simp add: RevokeTaskSequence_def)
qed (auto simp: revoke_sequence_queue MatchTaskBySequenceName_def fun_eq_iff
    revoke_sequence_tasks_result canceled_def)

text \<open>\<open>ExecuteTask\<close> records the outcome: the status of the task becomes failed when the handler
  throws, running when an asynchronous task returns and completed when a synchronous one does, the
  status of every sequence of the collection that holds the task is computed anew, the queue stays, and
  the exception is thrown on.\<close>

theorem execute_records_outcome:
  assumes "\<forall>sp\<in>set (m_taskSequences m). \<forall>q\<in>set (tasks (m_seqs m sp)).
             MatchTask (task_id t) (cmd_name t) (m_tasks m q) \<longleftrightarrow> q = p"
    and "is_in_sequence (m_tasks m p)"
    and "sp0 \<in> set (m_taskSequences m)" and "p \<in> set (tasks (m_seqs m sp0))"
    and "ExecuteTask dev outcome t m = (thrown, m')"
  shows "thrown = (outcome \<noteq> RunReturns) \<and>
         status (m_tasks m' p) = (if thrown then eFAILED else if is_asynch t then eRUNNING else eCOMPLETED) \<and>
         seq_status (m_seqs m' sp0) = sequence_verdict (task_statuses (m_tasks m') (m_seqs m' sp0)) \<and>
         m_taskQueue m' = m_taskQueue m"
proof -
  obtain st info where m': "m' = snd (mgr_SetSequenceTaskStatus (task_id t) (cmd_name t) st info m)"
    and thrown: "thrown = (outcome \<noteq> RunReturns)"
    and st: "st = (if thrown then eFAILED else if is_asynch t then eRUNNING else eCOMPLETED)"
    using assms(5) by (auto simp: ExecuteTask_def split: run_outcome.splits if_splits)
  let ?h = "(m_tasks m)(p := SetStatus st info (m_tasks m p))"
  have r: "m_tasks m' = ?h" "m_seqs m' sp0 = ComputeStatus ?h (m_seqs m sp0)" "m_taskQueue m' = m_taskQueue m"
    using set_status_loop_result [of "m_taskSequences m" m "task_id t" "cmd_name t" p st info False] assms(1-4)
    by (auto simp: m' mgr_SetSequenceTaskStatus_def set_sequence_task_status_def Let_def)
  have "status (?h p) = st" by (simp add: SetStatus_def)
  then show ?thesis
    using thrown st r by (simp add: compute_status_verdict task_statuses_def)
qed

theorem execute_records_outcome_witness:
  "\<exists>m'. ExecuteTask ''dev'' RunReturns (m_tasks demo_added 1) demo_added = (False, m') \<and>
     status (m_tasks m' 1) = eCOMPLETED"
proof -
  obtain thrown m' where ex: "ExecuteTask ''dev'' RunReturns (m_tasks demo_added 1) demo_added = (thrown, m')"
    by (cases "ExecuteTask ''dev'' RunReturns (m_tasks demo_added 1) demo_added")
  have "thrown = (RunReturns \<noteq> RunReturns) \<and>
      status (m_tasks m' 1) = (if thrown then eFAILED else if is_asynch (m_tasks demo_added 1) then eRUNNING else eCOMPLETED) \<and>
      seq_status (m_seqs m' 0) = sequence_verdict (task_statuses (m_tasks m') (m_seqs m' 0)) \<and>
      m_taskQueue m' = m_taskQueue demo_added"
    by (rule execute_records_outcome [OF _ _ _ _ ex])
      (auto simp: demo_queue [unfolded One_nat_def] MatchTask_def demo_eval)
  then show ?thesis using ex by (auto simp: demo_queue [unfolded One_nat_def] demo_eval)
qed

subsection \<open>Statuses\<close>

text \<open>The status of a sequence depends on the set of its tasks' statuses only: expired without a
  failure, else canceled, else failed, else running, else idle or completed when all tasks are, else
  unknown.\<close>

theorem sequence_status_verdict:
  "seq_status (ComputeStatus h s) =
     (let S = (\<lambda>p. status (h p)) ` set (tasks s) in
      if eEXPIRED \<in> S \<and> eFAILED \<notin> S \<and> eABORTED \<notin> S then eEXPIRED
      else if eCANCELED \<in> S \<or> S = {} then eCANCELED
      else if eFAILED \<in> S \<or> eABORTED \<in> S then eFAILED
      else if eRUNNING \<in> S \<or> (eCOMPLETED \<in> S \<and> eIDLE \<in> S) then eRUNNING
      else if S = {eIDLE} then eIDLE
      else if S = {eCOMPLETED} then eCOMPLETED
      else eUNKNOWN)"
  unfolding compute_status_verdict sequence_verdict_def task_statuses_def Let_def by (rule refl)

text \<open>Printing a status and parsing the name gives the status back.\<close>

theorem status_name_roundtrip:
  assumes "GetTaskStatusString st = (0, name)"
  shows "GetTaskStatusFromString name old = (0, st)"
  using assms by (auto simp: GetTaskStatusString_def GetTaskStatusFromString_def split: if_splits)

theorem status_name_roundtrip_witness: "GetTaskStatusFromString ''EXPIRED'' 0 = (0, eEXPIRED)"
  by (rule status_name_roundtrip) (simp add: GetTaskStatusString_def)

text \<open>\<open>ClearCompletedSequenceTasks\<close> keeps the completed sequences and removes the old sequences of
  every other status, the running ones included.\<close>

theorem clear_completed_keeps_completed:
  "m_taskSequences (snd (ClearCompletedSequenceTasks now thr m)) =
     filter (\<lambda>sp. seq_status (m_seqs m sp) = eCOMPLETED \<or>
                  now - seq_creation_time (m_seqs m sp) < thr * 1000000) (m_taskSequences m)"
  by (auto simp: ClearCompletedSequenceTasks_def clear_old_def MatchOldSequenceTask_def Let_def
      GetYatTimeDiffUSec_def intro!: filter_cong)

subsection \<open>The activation window\<close>

text \<open>The setters of the activation and expiration times keep the window of a task well formed (it
  does not end before it starts); \<open>SetActivationTimeDelay\<close> does so when it succeeds.\<close>

theorem setters_keep_window:
  assumes "window_ok t" and "0 \<le> default_max_duration t"
    and "(\<exists>d. op = ActDelay d) \<Longrightarrow> fst (apply_setter clk op t) = 0"
  shows "window_ok (snd (apply_setter clk op t))"
proof (cases op)
  case (ActDelay d)
  let ?t = "t\<lparr>activation_time := add_whole_seconds (clk 0) d\<rparr>"
  have "SetActivationTimeDelay clk d t = SetActivationTime (\<lambda>n. clk (Suc n)) (activation_time ?t) ?t"
    and "fst (SetActivationTimeDelay clk d t) = 0"
    using ActDelay assms(3) by (auto simp: SetActivationTimeDelay_def Let_def split: if_splits)
  then show ?thesis
    using window_activation_success [of ?t "\<lambda>n. clk (Suc n)" "activation_time ?t"] assms(2) ActDelay by simp
qed (use assms window_setters in simp_all)

theorem setters_keep_window_witness:
  "window_ok (snd (apply_setter (\<lambda>n. 7) (ActDelay 2000) (demo_task ''a'' 0)))"
  by (rule setters_keep_window)
    (simp_all add: window_ok_def SetActivationTimeDelay_def SetActivationTime_def demo_eval)

text \<open>A failing \<open>SetActivationTimeDelay\<close> overwrites the activation time: with a delay below a second
  and a clock that advances between its two readings, the call returns \<open>-1\<close> and the task, which had an
  activation time, now starts after it expires.\<close>

theorem failing_delay_breaks_window:
  "\<exists>t clk. window_ok t \<and> fst (SetActivationTimeDelay clk 500 t) = -1 \<and>
     \<not> window_ok (snd (SetActivationTimeDelay clk 500 t))"
  by (rule exI [of _ "delayed 20000 (demo_task ''b'' 0)"], rule exI [of _ "\<lambda>n. 50000000 + int n"])
    (simp add: window_ok_def SetActivationTimeDelay_def SetActivationTime_def demo_eval)

end
