(* ===== verification/HdbNames.thy ===== *)
theory HdbNames
  imports Prelude
begin

text \<open>
  The attribute name functions of class \<open>HdbDevice\<close>
  (\<open>src/devices/archiving/HdbEventSubscriber/HdbDevice.cpp\<close>): splitting a name
  \<open>tango://host.domain:port/device/attribute\<close>, completing and removing the domain of the host, and the
  comparison of two names without their domains. The build does not define \<open>_MULTI_TANGO_HOST\<close>, so the
  branches for a single host are modelled.

  The result \<open>None\<close> is a standard C++ exception: \<open>substr\<close> from \<open>npos\<close> throws \<open>std::out_of_range\<close>. The
  environment variable \<open>TANGO_HOST\<close> and the resolver \<open>getaddrinfo\<close> are arguments.
\<close>

subsection \<open>Character and substring functions\<close>

definition to_lower_char :: "char \<Rightarrow> char" where
  "to_lower_char c =
     (let n = of_char c :: nat in if 65 \<le> n \<and> n \<le> 90 then char_of (n + 32) else c)"

definition to_upper_char :: "char \<Rightarrow> char" where
  "to_upper_char c =
     (let n = of_char c :: nat in if 97 \<le> n \<and> n \<le> 122 then char_of (n - 32) else c)"

definition to_lower :: "string \<Rightarrow> string" where
  "to_lower = List.map to_lower_char"

definition to_upper :: "string \<Rightarrow> string" where
  "to_upper = List.map to_upper_char"

text \<open>\<open>s.find(pat, start)\<close>; \<open>None\<close> is \<open>npos\<close>.\<close>

fun find_sub :: "string \<Rightarrow> string \<Rightarrow> nat option" where
  "find_sub pat [] = (if pat = [] then Some 0 else None)"
| "find_sub pat (c # cs) =
     (if take (length pat) (c # cs) = pat then Some 0 else map_option Suc (find_sub pat cs))"

definition str_find :: "string \<Rightarrow> string \<Rightarrow> nat \<Rightarrow> nat option" where
  "str_find pat s start =
     (if length s < start then None
      else map_option (\<lambda>i. start + i) (find_sub pat (drop start s)))"

text \<open>\<open>s.find_last_of(c)\<close> for one character.\<close>

definition find_last_char :: "char \<Rightarrow> string \<Rightarrow> nat option" where
  "find_last_char c s =
     map_option (\<lambda>i. length s - Suc i) (find_index (\<lambda>d. d = c) (rev s))"

text \<open>\<open>s.substr(pos)\<close> for a position that is a valid index or \<open>npos\<close>.\<close>

definition substr_from :: "string \<Rightarrow> nat option \<Rightarrow> string option" where
  "substr_from s pos =
     (case pos of None \<Rightarrow> None | Some i \<Rightarrow> if i \<le> length s then Some (drop i s) else None)"

text \<open>A number in decimal notation.\<close>

fun show_nat :: "nat \<Rightarrow> string" where
  "show_nat n =
     (let d = [char_of (48 + n mod 10)] in if n < 10 then d else show_nat (n div 10) @ d)"

subsection \<open>Splitting names\<close>

definition scheme :: string where
  "scheme = ''tango://''"

text \<open>The position after the scheme prefix: 8 when the name contains it anywhere, 0 otherwise.\<close>

definition after_scheme :: "string \<Rightarrow> nat" where
  "after_scheme s = (case str_find scheme s 0 of None \<Rightarrow> 0 | Some i \<Rightarrow> 8)"

text \<open>When no \<open>/\<close> follows the host, \<open>npos + 1\<close> wraps to 0 and the whole name is returned.\<close>

definition get_only_signal_name :: "string \<Rightarrow> string" where
  "get_only_signal_name s =
     (case str_find scheme s 0 of
        None \<Rightarrow> s
      | Some start \<Rightarrow>
          (case str_find ''/'' s (start + 8) of None \<Rightarrow> s | Some i \<Rightarrow> drop (Suc i) s))"

definition get_only_tango_host :: "string option \<Rightarrow> string \<Rightarrow> string" where
  "get_only_tango_host env s =
     (case str_find scheme s 0 of
        None \<Rightarrow> (case env of None \<Rightarrow> ''unknown'' | Some host \<Rightarrow> host)
      | Some start \<Rightarrow>
          (case str_find ''/'' s (start + 8) of
             None \<Rightarrow> drop (start + 8) s
           | Some e \<Rightarrow> take (e - (start + 8)) (drop (start + 8) s)))"

text \<open>The parts between separator characters; empty parts are dropped.\<close>

function string_explode :: "string \<Rightarrow> char \<Rightarrow> string list" where
  "string_explode s sep =
     (case find_index (\<lambda>c. c = sep) s of
        None \<Rightarrow> (if s = [] then [] else [s])
      | Some i \<Rightarrow> (if 0 < i then [take i s] else []) @ string_explode (drop (Suc i) s) sep)"
  by pat_completeness auto

termination string_explode
  by (relation "measure (\<lambda>(s, sep). length s)") (auto dest: find_index_bound)

declare string_explode.simps [simp del]

subsection \<open>Domains\<close>

definition remove_domain :: "string \<Rightarrow> string option" where
  "remove_domain s =
     (case str_find ''.'' s 0 of
        None \<Rightarrow> Some s
      | Some end1 \<Rightarrow>
          (case str_find '':'' s (after_scheme s) of
             None \<Rightarrow> None
           | Some end2 \<Rightarrow>
               if end1 > end2 then Some s else Some (take end1 s @ drop end2 s)))"

definition compare_without_domain :: "string \<Rightarrow> string \<Rightarrow> bool option" where
  "compare_without_domain str1 str2 =
     (case remove_domain str1 of
        None \<Rightarrow> None
      | Some str1_nd \<Rightarrow>
          (case remove_domain str2 of
             None \<Rightarrow> None
           | Some str2_nd \<Rightarrow> Some (to_lower str1_nd = to_lower str2_nd)))"

text \<open>
  \<open>add_domain\<close>: the map \<open>domain_map\<close> caches resolved hosts. The resolver gives \<open>None\<close> for an error and
  the list of canonical names otherwise, where \<open>None\<close> is a null pointer, from which a string cannot be
  built. An insertion does not overwrite.
\<close>

type_synonym domain_map = "string \<rightharpoonup> string"

fun resolve_loop ::
  "string \<Rightarrow> string \<Rightarrow> string option \<Rightarrow> string option list \<Rightarrow> string \<Rightarrow> domain_map \<Rightarrow>
     (string \<times> domain_map) option"
where
  "resolve_loop s th port [] with_domain dm = Some (with_domain, dm)"
| "resolve_loop s th port (name # names) with_domain dm =
     (case (name, port) of
        (Some n, Some p) \<Rightarrow>
          resolve_loop s th port names (n @ p)
            (if dm th = None then dm(th \<mapsto> n @ p) else dm)
      | _ \<Rightarrow> None)"

definition add_domain ::
  "(string \<Rightarrow> string option list option) \<Rightarrow> string \<Rightarrow> domain_map \<Rightarrow> (string \<times> domain_map) option"
where
  "add_domain getaddrinfo s dm =
     (case str_find ''.'' s 0 of
        Some end1 \<Rightarrow> Some (s, dm)
      | None \<Rightarrow>
          let start = after_scheme s;
              end2 = str_find '':'' s start;
              th = (case end2 of None \<Rightarrow> drop start s | Some e \<Rightarrow> take e (drop start s))
          in case dm th of
               Some with_domain \<Rightarrow> Some (with_domain, dm)
             | None \<Rightarrow>
                 (case getaddrinfo th of
                    None \<Rightarrow> Some (s, dm)
                  | Some names \<Rightarrow> resolve_loop s th (substr_from s end2) names s dm))"

definition fix_tango_host ::
  "string option \<Rightarrow> (string \<Rightarrow> string option list option) \<Rightarrow> string \<Rightarrow> domain_map \<Rightarrow>
     (string \<times> domain_map) option"
where
  "fix_tango_host env getaddrinfo attr0 dm =
     (let attr = to_lower attr0 in
      case str_find scheme attr 0 of
        None \<Rightarrow>
          (case env of
             None \<Rightarrow> Some (attr, dm)
           | Some s \<Rightarrow>
               map_option (\<lambda>(s', dm'). (scheme @ s' @ ''/'' @ attr, dm')) (add_domain getaddrinfo s dm))
      | Some start \<Rightarrow>
          map_option (\<lambda>(facility, dm'). (scheme @ facility @ ''/'' @ get_only_signal_name attr, dm'))
            (add_domain getaddrinfo (get_only_tango_host env attr) dm))"

subsection \<open>Facts\<close>

lemma compare_without_domain_refl:
  "compare_without_domain s s \<noteq> None \<Longrightarrow> compare_without_domain s s = Some True"
  by (auto simp: compare_without_domain_def split: option.splits)

lemma compare_without_domain_sym:
  assumes "compare_without_domain s t = Some b"
  shows "compare_without_domain t s = Some b"
  using assms by (auto simp: compare_without_domain_def split: option.splits)

lemma compare_without_domain_trans:
  assumes "compare_without_domain s t = Some True" and "compare_without_domain t u = Some True"
  shows "compare_without_domain s u = Some True"
  using assms by (auto simp: compare_without_domain_def split: option.splits)

lemma compare_without_domain_same:
  assumes "compare_without_domain s t = Some b"
  shows "compare_without_domain s s = Some True"
  using assms by (auto simp: compare_without_domain_def split: option.splits)

text \<open>A name without a dot has nothing to remove.\<close>

lemma find_sub_char: "find_sub [c] s = find_index (\<lambda>d. d = c) s"
  by (induction s) auto

lemma str_find_char_None: "str_find [c] s 0 = None \<longleftrightarrow> c \<notin> set s"
  by (auto simp: str_find_def find_sub_char)

lemma remove_domain_plain: "CHR ''.'' \<notin> set s \<Longrightarrow> remove_domain s = Some s"
  using str_find_char_None [of "CHR ''.''" s] by (simp add: remove_domain_def)

lemma remove_domain_no_port:
  assumes "CHR ''.'' \<in> set s" and "CHR '':'' \<notin> set (drop (after_scheme s) s)"
  shows "remove_domain s = None"
proof -
  have "str_find ''.'' s 0 \<noteq> None" using assms(1) str_find_char_None by blast
  moreover have "str_find '':'' s (after_scheme s) = None"
    using assms(2) by (auto simp: str_find_def find_sub_char)
  ultimately show ?thesis by (auto simp: remove_domain_def)
qed

text \<open>A string without slash does not contain the scheme.\<close>

lemma find_sub_take: "find_sub pat s = Some i \<Longrightarrow> take (length pat) (drop i s) = pat"
  by (induction s arbitrary: i) (auto split: if_splits)

lemma find_sub_set: "find_sub pat s = Some i \<Longrightarrow> set pat \<subseteq> set s"
  using find_sub_take [of pat s i] by (metis set_drop_subset set_take_subset subset_trans)

lemma after_scheme_plain: "CHR ''/'' \<notin> set s \<Longrightarrow> after_scheme s = 0"
  using find_sub_set [of scheme s]
  by (cases "find_sub scheme s") (auto simp: after_scheme_def str_find_def scheme_def)

lemma str_find_char: "c \<notin> set a \<Longrightarrow> str_find [c] (a @ c # b) 0 = Some (length a)"
  by (simp add: str_find_def find_sub_char) (induction a, auto)

text \<open>A host without domain and its port: the cache and the resolver.\<close>

lemma add_domain_host_port:
  assumes "set h \<inter> {CHR ''.'', CHR ''/'', CHR '':''} = {}" and "set p \<inter> {CHR ''.'', CHR ''/'', CHR '':''} = {}"
  shows "add_domain g (h @ CHR '':'' # p) dm =
    (case dm h of
       Some with_domain \<Rightarrow> Some (with_domain, dm)
     | None \<Rightarrow>
         (case g h of
            None \<Rightarrow> Some (h @ CHR '':'' # p, dm)
          | Some names \<Rightarrow> resolve_loop (h @ CHR '':'' # p) h (Some (CHR '':'' # p)) names (h @ CHR '':'' # p) dm))"
proof -
  let ?s = "h @ CHR '':'' # p"
  have "CHR ''.'' \<notin> set ?s" "CHR ''/'' \<notin> set ?s" "CHR '':'' \<notin> set h" using assms by auto
  then have "str_find ''.'' ?s 0 = None" "after_scheme ?s = 0" "str_find '':'' ?s 0 = Some (length h)"
    using str_find_char_None after_scheme_plain str_find_char by blast+
  moreover have "substr_from ?s (Some (length h)) = Some (CHR '':'' # p)" by (simp add: substr_from_def)
  ultimately show ?thesis by (simp add: add_domain_def split: option.split)
qed

end
