(* ===== verification/HdbSignals.thy ===== *)
theory HdbSignals
  imports HdbNames
begin

text \<open>
  Class \<open>SharedData\<close> of \<open>src/devices/archiving/HdbEventSubscriber/SubscribeThread.h\<close> and
  \<open>SubscribeThread.cpp\<close>: the table of the archived signals, shared between the archiving device and
  the thread that subscribes to their events, with the device's counters of started, paused and
  stopped signals.

  Every operation runs under the lock of the table. An operation that may fail returns an error or a
  value together with the state it leaves, since the code changes counters before it throws. The
  Tango calls (attribute proxies, configuration, event subscription) are arguments; a Tango exception
  is represented by the description of its first error, which is all the code uses of it.
\<close>

subsection \<open>State\<close>

datatype dev_state = ST_ON | ST_ALARM

abbreviation (input) HDB_ERR :: int where "HDB_ERR \<equiv> -1"
abbreviation (input) HDB_NOTHING :: int where "HDB_NOTHING \<equiv> 0"
abbreviation (input) HDB_UPDATE_PROP :: int where "HDB_UPDATE_PROP \<equiv> 1"

record attr_info =
  data_type :: int
  data_format :: int
  writable :: int
  max_dim_x :: int
  max_dim_y :: int

record hdb_signal =
  sig_name :: string
  devname :: string
  attname :: string
  sig_status :: string
  sig_info :: attr_info
  attr :: bool \<comment> \<open>the attribute proxy exists\<close>
  evstate :: dev_state
  sig_first :: bool
  first_err :: bool
  event_id :: int
  event_conf_id :: int
  isZMQ :: bool
  okev_counter :: u32
  okev_counter_freq :: u32
  last_okev :: timestamp
  nokev_counter :: u32
  nokev_counter_freq :: u32
  last_nokev :: timestamp
  last_ev :: int \<comment> \<open>monotonic clock, in nanoseconds\<close>
  periodic_ev :: int
  running :: bool
  paused :: bool
  stopped :: bool
  contexts :: "string list"
  contexts_upper :: "string list"
  ttl :: u32

record shared_data =
  signals :: "hdb_signal list"
  action :: int
  stop_it :: bool
  initialized :: bool
  attr_number :: int
  attr_started :: int
  attr_paused :: int
  attr_stopped :: int
  signal_property :: "string list" \<comment> \<open>the device property as last written\<close>

definition SharedData_new :: shared_data where
  "SharedData_new =
     \<lparr>signals = [], action = HDB_NOTHING, stop_it = False, initialized = False, attr_number = 0,
      attr_started = 0, attr_paused = 0, attr_stopped = 0, signal_property = []\<rparr>"

text \<open>
  Errors: a Tango exception with its reason and description, a standard C++ exception that no handler
  of the class catches, and undefined behaviour (a null or uninitialised pointer is used).
\<close>

datatype hdb_error =
    DevFailed string string
  | StdException
  | Undefined

type_synonym 'a hdb_result = "(hdb_error + 'a) \<times> shared_data"

text \<open>
  The calls into Tango, for the name of a signal: creating the proxy (\<open>Some\<close> is the reason and description of the error), reading
  the configuration, and subscribing to the archive and configuration events, which gives the two
  event ids and whether the events come over ZMQ.
\<close>

record tango_env =
  new_proxy :: "string \<Rightarrow> (string \<times> string) option"
  get_config :: "string \<Rightarrow> string + attr_info"
  subscribe_event :: "string \<Rightarrow> string + (int \<times> int \<times> bool)"

subsection \<open>Look-up\<close>

datatype lookup = Found nat | Missing | LookupThrows

text \<open>The second pass: the first signal whose name is equal without domains.\<close>

fun scan_names :: "string \<Rightarrow> nat \<Rightarrow> string list \<Rightarrow> lookup" where
  "scan_names signame i [] = Missing"
| "scan_names signame i (n # ns) =
     (case compare_without_domain n signame of
        None \<Rightarrow> LookupThrows
      | Some True \<Rightarrow> Found i
      | Some False \<Rightarrow> scan_names signame (Suc i) ns)"

definition lookup_name :: "string \<Rightarrow> string list \<Rightarrow> lookup" where
  "lookup_name signame names =
     (case find_index (\<lambda>n. n = signame) names of
        Some i \<Rightarrow> Found i
      | None \<Rightarrow> scan_names signame 0 names)"

definition get_signal :: "string \<Rightarrow> shared_data \<Rightarrow> lookup" where
  "get_signal signame s = lookup_name signame (List.map sig_name (signals s))"

definition not_subscribed :: "string \<Rightarrow> hdb_error" where
  "not_subscribed signame =
     DevFailed ''BadSignalName'' (''Signal '' @ signame @ '' NOT subscribed'')"

definition set_signal :: "nat \<Rightarrow> (hdb_signal \<Rightarrow> hdb_signal) \<Rightarrow> shared_data \<Rightarrow> shared_data" where
  "set_signal i f s = s\<lparr>signals := (signals s)[i := f (signals s ! i)]\<rparr>"

text \<open>The shape of the getters and of the setters of one signal.\<close>

definition read_signal :: "(hdb_signal \<Rightarrow> 'a) \<Rightarrow> string \<Rightarrow> shared_data \<Rightarrow> 'a hdb_result" where
  "read_signal f signame s =
     (case get_signal signame s of
        Found i \<Rightarrow> (Inr (f (signals s ! i)), s)
      | Missing \<Rightarrow> (Inl (not_subscribed signame), s)
      | LookupThrows \<Rightarrow> (Inl StdException, s))"

definition write_signal ::
  "(hdb_signal \<Rightarrow> hdb_signal) \<Rightarrow> string \<Rightarrow> shared_data \<Rightarrow> unit hdb_result"
where
  "write_signal f signame s =
     (case get_signal signame s of
        Found i \<Rightarrow> (Inr (), set_signal i f s)
      | Missing \<Rightarrow> (Inl (not_subscribed signame), s)
      | LookupThrows \<Rightarrow> (Inl StdException, s))"

subsection \<open>Adding a signal\<close>

definition bump_action :: "int \<Rightarrow> shared_data \<Rightarrow> shared_data" where
  "bump_action to_do s =
     (if action s \<le> HDB_UPDATE_PROP then s\<lparr>action := action s + to_do\<rparr> else s)"

text \<open>The fields that \<open>add\<close> resets in both of its cases.\<close>

definition reset_event_state :: "int \<Rightarrow> hdb_signal \<Rightarrow> hdb_signal" where
  "reset_event_state now sig =
     sig\<lparr>event_id := HDB_ERR, event_conf_id := HDB_ERR, evstate := ST_ALARM, isZMQ := False,
         okev_counter := 0, okev_counter_freq := 0, nokev_counter := 0, nokev_counter_freq := 0,
         sig_first := True, first_err := True, periodic_ev := -1, last_ev := now\<rparr>"

definition new_signal :: "string \<Rightarrow> nat \<Rightarrow> string list \<Rightarrow> u32 \<Rightarrow> hdb_signal" where
  "new_signal signame idx ctxs t =
     \<lparr>sig_name = signame, devname = take idx signame, attname = drop (Suc idx) signame,
      sig_status = ''NOT connected'',
      sig_info = \<lparr>data_type = 0, data_format = 0, writable = 0, max_dim_x = 0, max_dim_y = 0\<rparr>,
      attr = False, evstate = ST_ON, sig_first = False, first_err = False, event_id = 0,
      event_conf_id = 0, isZMQ = False, okev_counter = 0, okev_counter_freq = 0, last_okev = 0,
      nokev_counter = 0, nokev_counter_freq = 0, last_nokev = 0, last_ev = 0, periodic_ev = 0,
      running = False, paused = False, stopped = True, contexts = ctxs,
      contexts_upper = List.map to_upper ctxs, ttl = t\<rparr>"

text \<open>
  \<open>add(signame, contexts, ttl, to_do, start)\<close>. With \<open>start\<close> an existing signal gets a new proxy and
  its event state is reset; a signal that does not exist is then an uninitialised pointer.
\<close>

definition add_signal ::
  "tango_env \<Rightarrow> int \<Rightarrow> string \<Rightarrow> string list \<Rightarrow> u32 \<Rightarrow> int \<Rightarrow> bool \<Rightarrow> shared_data \<Rightarrow> unit hdb_result"
where
  "add_signal env now signame ctxs t to_do start s =
     (case get_signal signame s of
        LookupThrows \<Rightarrow> (Inl StdException, s)
      | Found i \<Rightarrow>
          if \<not> start then
            (Inl (DevFailed ''BadSignalName'' (''Signal '' @ signame @ '' already subscribed'')), s)
          else
            let s1 = set_signal i (\<lambda>sig. sig\<lparr>sig_status := ''NOT connected''\<rparr>) s;
                name = sig_name (signals s ! i)
            in (case new_proxy env name of
                  Some (reason, desc) \<Rightarrow> (Inl (DevFailed reason desc), s1)
                | None \<Rightarrow>
                    let s2 = set_signal i (\<lambda>sig. reset_event_state now (sig\<lparr>attr := True\<rparr>)) s1;
                        s3 = (case get_config env name of
                                Inl desc \<Rightarrow> s2
                              | Inr info \<Rightarrow> set_signal i (\<lambda>sig. sig\<lparr>sig_info := info\<rparr>) s2)
                    in (Inr (), bump_action to_do s3))
      | Missing \<Rightarrow>
          if start then (Inl Undefined, s)
          else
            (case find_last_char (CHR ''/'') signame of
               None \<Rightarrow>
                 (Inl (DevFailed ''SyntaxError'' (''Syntax error in signal name '' @ signame)), s)
             | Some idx \<Rightarrow>
                 let sig = reset_event_state now (new_signal signame idx ctxs t);
                     s1 = s\<lparr>signals := signals s @ [sig], attr_number := attr_number s + 1,
                            attr_stopped := attr_stopped s + 1\<rparr>
                 in (Inr (), bump_action to_do s1)))"

text \<open>The short form, used by the device commands.\<close>

definition add_new ::
  "tango_env \<Rightarrow> int \<Rightarrow> string \<Rightarrow> string list \<Rightarrow> u32 \<Rightarrow> shared_data \<Rightarrow> unit hdb_result"
where
  "add_new env now signame ctxs t s = add_signal env now signame ctxs t HDB_NOTHING False s"

subsection \<open>Removing a signal\<close>

text \<open>
  \<open>remove(signame, stop)\<close> dereferences the result of \<open>get_signal\<close> before it tests whether the signal
  exists. With \<open>stop\<close> it unsubscribes (failures are ignored) and drops the proxy; otherwise it erases
  the signal from the table and asks for an update of the property.
\<close>

definition remove_signal :: "string \<Rightarrow> bool \<Rightarrow> shared_data \<Rightarrow> unit hdb_result" where
  "remove_signal signame stop s =
     (case get_signal signame s of
        LookupThrows \<Rightarrow> (Inl StdException, s)
      | Missing \<Rightarrow> (Inl Undefined, s)
      | Found i \<Rightarrow>
          if stop then
            (Inr (), set_signal i (\<lambda>sig. sig\<lparr>event_id := HDB_ERR, attr := False\<rparr>) s)
          else
            let sig = signals s ! i;
                s1 = s\<lparr>attr_started := attr_started s - of_bool (running sig),
                       attr_paused := attr_paused s - of_bool (paused sig),
                       attr_stopped := attr_stopped s - of_bool (stopped sig),
                       attr_number := attr_number s - 1,
                       signals := erase_at i (signals s)\<rparr>
            in (Inr (), bump_action 1 s1))"

subsection \<open>Starting, pausing and stopping a signal\<close>

text \<open>A Tango exception of the nested call becomes the status of the signal.\<close>

definition catch_devfailed :: "nat \<Rightarrow> unit hdb_result \<Rightarrow> unit hdb_result" where
  "catch_devfailed i r =
     (case r of
        (Inl (DevFailed reason desc), s) \<Rightarrow>
          (Inr (), set_signal i (\<lambda>sig. sig\<lparr>sig_status := desc\<rparr>) s)
      | _ \<Rightarrow> r)"

definition start_signal :: "tango_env \<Rightarrow> int \<Rightarrow> string \<Rightarrow> shared_data \<Rightarrow> unit hdb_result" where
  "start_signal env now signame s =
     (case get_signal signame s of
        LookupThrows \<Rightarrow> (Inl StdException, s)
      | Missing \<Rightarrow> (Inl (not_subscribed signame), s)
      | Found i \<Rightarrow>
          if running (signals s ! i) then (Inr (), s)
          else
            (case (if stopped (signals s ! i)
                   then catch_devfailed i
                          (add_signal env now signame [] 0 HDB_NOTHING True
                            (s\<lparr>attr_stopped := attr_stopped s - 1\<rparr>))
                   else (Inr (), s)) of
               (Inl e, s1) \<Rightarrow> (Inl e, s1)
             | (Inr u, s1) \<Rightarrow>
                 let was_paused = paused (signals s1 ! i);
                     s2 = s1\<lparr>attr_paused := attr_paused s1 - of_bool was_paused,
                             attr_started := attr_started s1 + 1\<rparr>
                 in (Inr (), set_signal i
                       (\<lambda>sig. sig\<lparr>running := True, paused := False, stopped := False\<rparr>) s2)))"

definition pause_signal :: "string \<Rightarrow> shared_data \<Rightarrow> unit hdb_result" where
  "pause_signal signame s =
     (case get_signal signame s of
        LookupThrows \<Rightarrow> (Inl StdException, s)
      | Missing \<Rightarrow> (Inl (not_subscribed signame), s)
      | Found i \<Rightarrow>
          let sig = signals s ! i in
          if paused sig then (Inr (), s)
          else
            let s1 = s\<lparr>attr_paused := attr_paused s + 1,
                       attr_started := attr_started s - of_bool (running sig),
                       attr_stopped := attr_stopped s - of_bool (stopped sig)\<rparr>
            in (Inr (), set_signal i
                  (\<lambda>sig. sig\<lparr>paused := True, running := False, stopped := False\<rparr>) s1))"

text \<open>The failures of the nested \<open>remove\<close> are only logged.\<close>

definition log_devfailed :: "unit hdb_result \<Rightarrow> unit hdb_result" where
  "log_devfailed r =
     (case r of (Inl (DevFailed reason desc), s) \<Rightarrow> (Inr (), s) | _ \<Rightarrow> r)"

definition stop_if ::
  "bool \<Rightarrow> (shared_data \<Rightarrow> shared_data) \<Rightarrow> string \<Rightarrow> unit hdb_result \<Rightarrow> unit hdb_result"
where
  "stop_if c decrement signame r =
     (case r of
        (Inl e, s) \<Rightarrow> (Inl e, s)
      | (Inr u, s) \<Rightarrow> if c then log_devfailed (remove_signal signame True (decrement s)) else r)"

definition stop_signal :: "string \<Rightarrow> shared_data \<Rightarrow> unit hdb_result" where
  "stop_signal signame s =
     (case get_signal signame s of
        LookupThrows \<Rightarrow> (Inl StdException, s)
      | Missing \<Rightarrow> (Inl (not_subscribed signame), s)
      | Found i \<Rightarrow>
          let sig = signals s ! i in
          if stopped sig then (Inr (), s)
          else
            let s1 = set_signal i (\<lambda>sig. sig\<lparr>stopped := True\<rparr>)
                       (s\<lparr>attr_stopped := attr_stopped s + 1\<rparr>);
                r2 = stop_if (running sig) (\<lambda>s. s\<lparr>attr_started := attr_started s - 1\<rparr>) signame
                       (Inr (), s1);
                r3 = stop_if (paused sig) (\<lambda>s. s\<lparr>attr_paused := attr_paused s - 1\<rparr>) signame r2
            in (case r3 of
                  (Inl e, s3) \<Rightarrow> (Inl e, s3)
                | (Inr u, s3) \<Rightarrow>
                    (Inr (), set_signal i (\<lambda>sig. sig\<lparr>running := False, paused := False\<rparr>) s3)))"

subsection \<open>All signals\<close>

definition start_all :: "shared_data \<Rightarrow> shared_data" where
  "start_all s =
     s\<lparr>signals := List.map (\<lambda>sig. sig\<lparr>running := True, paused := False, stopped := False\<rparr>) (signals s),
       attr_stopped := 0, attr_paused := 0, attr_started := int (length (signals s))\<rparr>"

definition pause_all :: "shared_data \<Rightarrow> shared_data" where
  "pause_all s =
     s\<lparr>signals := List.map (\<lambda>sig. sig\<lparr>running := False, paused := True, stopped := False\<rparr>) (signals s),
       attr_stopped := 0, attr_paused := int (length (signals s)), attr_started := 0\<rparr>"

definition stop_all :: "shared_data \<Rightarrow> shared_data" where
  "stop_all s =
     s\<lparr>signals := List.map (\<lambda>sig. sig\<lparr>running := False, paused := False, stopped := True\<rparr>) (signals s),
       attr_stopped := int (length (signals s)), attr_paused := 0, attr_started := 0\<rparr>"

end
