(* ===== verification/HdbEvents.thy ===== *)
theory HdbEvents
  imports HdbSignals
begin

text \<open>
  The remaining operations of class \<open>SharedData\<close> (\<open>SubscribeThread.cpp\<close>): the recording of events, the
  getters, the lists and numbers the archiving device publishes, the periodic event check, the
  subscription step, the device property, and one round of the subscription thread.
\<close>

subsection \<open>Getters\<close>

definition is_running :: "string \<Rightarrow> shared_data \<Rightarrow> bool hdb_result" where
  "is_running = read_signal running"

definition is_paused :: "string \<Rightarrow> shared_data \<Rightarrow> bool hdb_result" where
  "is_paused = read_signal paused"

definition is_stopped :: "string \<Rightarrow> shared_data \<Rightarrow> bool hdb_result" where
  "is_stopped = read_signal stopped"

definition is_first :: "string \<Rightarrow> shared_data \<Rightarrow> bool hdb_result" where
  "is_first = read_signal sig_first"

definition is_first_err :: "string \<Rightarrow> shared_data \<Rightarrow> bool hdb_result" where
  "is_first_err = read_signal first_err"

definition get_sig_source :: "string \<Rightarrow> shared_data \<Rightarrow> bool hdb_result" where
  "get_sig_source = read_signal isZMQ"

definition get_ok_event :: "string \<Rightarrow> shared_data \<Rightarrow> u32 hdb_result" where
  "get_ok_event = read_signal okev_counter"

definition get_ok_event_freq :: "string \<Rightarrow> shared_data \<Rightarrow> u32 hdb_result" where
  "get_ok_event_freq = read_signal okev_counter_freq"

definition get_last_okev :: "string \<Rightarrow> shared_data \<Rightarrow> timestamp hdb_result" where
  "get_last_okev = read_signal last_okev"

definition get_nok_event :: "string \<Rightarrow> shared_data \<Rightarrow> u32 hdb_result" where
  "get_nok_event = read_signal nokev_counter"

definition get_nok_event_freq :: "string \<Rightarrow> shared_data \<Rightarrow> u32 hdb_result" where
  "get_nok_event_freq = read_signal nokev_counter_freq"

definition get_last_nokev :: "string \<Rightarrow> shared_data \<Rightarrow> timestamp hdb_result" where
  "get_last_nokev = read_signal last_nokev"

definition get_sig_status :: "string \<Rightarrow> shared_data \<Rightarrow> string hdb_result" where
  "get_sig_status = read_signal sig_status"

definition get_sig_state :: "string \<Rightarrow> shared_data \<Rightarrow> dev_state hdb_result" where
  "get_sig_state = read_signal evstate"

definition get_sig_ttl :: "string \<Rightarrow> shared_data \<Rightarrow> u32 hdb_result" where
  "get_sig_ttl = read_signal ttl"

text \<open>\<open>a|b|c\<close>\<close>

fun join_contexts :: "string list \<Rightarrow> string" where
  "join_contexts [] = []"
| "join_contexts [c] = c"
| "join_contexts (c # cs) = c @ ''|'' @ join_contexts cs"

definition get_sig_context :: "string \<Rightarrow> shared_data \<Rightarrow> string hdb_result" where
  "get_sig_context = read_signal (\<lambda>sig. join_contexts (contexts sig))"

definition ALWAYS_CONTEXT :: string where
  "ALWAYS_CONTEXT = ''ALWAYS''"

definition is_current_context :: "string \<Rightarrow> string \<Rightarrow> shared_data \<Rightarrow> bool hdb_result" where
  "is_current_context signame context s =
     (let ctx = to_upper context in
      if ctx = ALWAYS_CONTEXT then (Inr True, s)
      else
        read_signal
          (\<lambda>sig. ctx \<in> set (contexts_upper sig) \<or> ALWAYS_CONTEXT \<in> set (contexts_upper sig))
          signame s)"

subsection \<open>Events\<close>

definition set_first :: "string \<Rightarrow> shared_data \<Rightarrow> unit hdb_result" where
  "set_first = write_signal (\<lambda>sig. sig\<lparr>sig_first := False\<rparr>)"

definition set_first_err :: "string \<Rightarrow> shared_data \<Rightarrow> unit hdb_result" where
  "set_first_err = write_signal (\<lambda>sig. sig\<lparr>first_err := False\<rparr>)"

definition ok_event :: "timestamp \<Rightarrow> int \<Rightarrow> hdb_signal \<Rightarrow> hdb_signal" where
  "ok_event time now sig =
     sig\<lparr>evstate := ST_ON, sig_status := ''Event received'',
         okev_counter := okev_counter sig + 1, okev_counter_freq := okev_counter_freq sig + 1,
         first_err := True, last_okev := time, last_ev := now\<rparr>"

definition set_ok_event :: "timestamp \<Rightarrow> int \<Rightarrow> string \<Rightarrow> shared_data \<Rightarrow> unit hdb_result" where
  "set_ok_event time now = write_signal (ok_event time now)"

definition nok_event :: "timestamp \<Rightarrow> int \<Rightarrow> hdb_signal \<Rightarrow> hdb_signal" where
  "nok_event time now sig =
     sig\<lparr>nokev_counter := nokev_counter sig + 1, nokev_counter_freq := nokev_counter_freq sig + 1,
         last_nokev := time, last_ev := now\<rparr>"

definition set_nok_event :: "timestamp \<Rightarrow> int \<Rightarrow> string \<Rightarrow> shared_data \<Rightarrow> unit hdb_result" where
  "set_nok_event time now = write_signal (nok_event time now)"

definition periodic_timeout :: "hdb_signal \<Rightarrow> hdb_signal" where
  "periodic_timeout sig = sig\<lparr>evstate := ST_ALARM, sig_status := ''Timeout on periodic event''\<rparr>"

definition set_nok_periodic_event :: "string \<Rightarrow> shared_data \<Rightarrow> unit hdb_result" where
  "set_nok_periodic_event = write_signal periodic_timeout"

text \<open>The period arrives as a decimal string; what \<open>atoi\<close> makes of it is the argument.\<close>

definition set_conf_periodic_event :: "int \<Rightarrow> string \<Rightarrow> shared_data \<Rightarrow> unit hdb_result" where
  "set_conf_periodic_event period = write_signal (\<lambda>sig. sig\<lparr>periodic_ev := period\<rparr>)"

text \<open>
  The check of the periodic events. Times are in nanoseconds; the minimum time to a timeout starts at
  ten seconds and is returned in whole milliseconds.
\<close>

definition time_to_timeout :: "int \<Rightarrow> int \<Rightarrow> hdb_signal \<Rightarrow> int" where
  "time_to_timeout now delay_tolerance_ms sig =
     (periodic_ev sig + delay_tolerance_ms) * 1000000 - (now - last_ev sig)"

fun periodic_loop ::
  "int \<Rightarrow> int \<Rightarrow> hdb_signal list \<Rightarrow> int \<Rightarrow> hdb_signal list \<times> int"
where
  "periodic_loop now tol [] m = ([], m)"
| "periodic_loop now tol (sig # sigs) m =
     (let (sig', m') =
        (if \<not> running sig \<or> evstate sig \<noteq> ST_ON \<or> periodic_ev sig \<le> 0 then (sig, m)
         else if time_to_timeout now tol sig \<le> 0 then (periodic_timeout sig, m)
         else if time_to_timeout now tol sig < m \<or> m = 0 then (sig, time_to_timeout now tol sig)
         else (sig, m));
        (sigs', m'') = periodic_loop now tol sigs m'
      in (sig' # sigs', m''))"

definition check_periodic_event_timeout :: "int \<Rightarrow> int \<Rightarrow> shared_data \<Rightarrow> int \<times> shared_data" where
  "check_periodic_event_timeout now delay_tolerance_ms s =
     (let r = periodic_loop now delay_tolerance_ms (signals s) (10000 * 1000000)
      in (snd r div 1000000, s\<lparr>signals := fst r\<rparr>))"

definition reset_statistics :: "shared_data \<Rightarrow> shared_data" where
  "reset_statistics s =
     s\<lparr>signals := List.map (\<lambda>sig. sig\<lparr>nokev_counter := 0, okev_counter := 0\<rparr>) (signals s)\<rparr>"

definition reset_freq_statistics :: "shared_data \<Rightarrow> shared_data" where
  "reset_freq_statistics s =
     s\<lparr>signals :=
         List.map (\<lambda>sig. sig\<lparr>nokev_counter_freq := 0, okev_counter_freq := 0\<rparr>) (signals s)\<rparr>"

subsection \<open>Updating the attributes of a signal\<close>

text \<open>\<open>update\<close> and \<open>updatettl\<close>: both throw with the description \<open>NOT found\<close>.\<close>

definition update_signal ::
  "(hdb_signal \<Rightarrow> hdb_signal) \<Rightarrow> string \<Rightarrow> shared_data \<Rightarrow> unit hdb_result"
where
  "update_signal f signame s =
     (case get_signal signame s of
        LookupThrows \<Rightarrow> (Inl StdException, s)
      | Missing \<Rightarrow>
          (Inl (DevFailed ''BadSignalName'' (''Signal '' @ signame @ '' NOT found'')), s)
      | Found i \<Rightarrow> (Inr (), bump_action HDB_UPDATE_PROP (set_signal i f s)))"

definition update_contexts :: "string \<Rightarrow> string list \<Rightarrow> shared_data \<Rightarrow> unit hdb_result" where
  "update_contexts signame ctxs =
     update_signal (\<lambda>sig. sig\<lparr>contexts := ctxs, contexts_upper := List.map to_upper ctxs\<rparr>) signame"

definition updatettl :: "string \<Rightarrow> u32 \<Rightarrow> shared_data \<Rightarrow> unit hdb_result" where
  "updatettl signame t = update_signal (\<lambda>sig. sig\<lparr>ttl := t\<rparr>) signame"

subsection \<open>Lists and numbers\<close>

definition on_error :: "hdb_signal \<Rightarrow> bool" where
  "on_error sig = (evstate sig = ST_ALARM \<and> running sig)"

definition not_on_error :: "hdb_signal \<Rightarrow> bool" where
  "not_on_error sig = (evstate sig = ST_ON \<or> (evstate sig = ST_ALARM \<and> \<not> running sig))"

definition names_where :: "(hdb_signal \<Rightarrow> bool) \<Rightarrow> shared_data \<Rightarrow> string list" where
  "names_where P s = List.map sig_name (filter P (signals s))"

definition get_sig_list :: "shared_data \<Rightarrow> string list" where
  "get_sig_list s = List.map sig_name (signals s)"

definition get_sig_source_list :: "shared_data \<Rightarrow> bool list" where
  "get_sig_source_list s = List.map isZMQ (signals s)"

definition get_sig_on_error_list :: "shared_data \<Rightarrow> string list" where
  "get_sig_on_error_list = names_where on_error"

definition get_sig_on_error_num :: "shared_data \<Rightarrow> nat" where
  "get_sig_on_error_num s = count_if on_error (signals s)"

definition get_sig_not_on_error_list :: "shared_data \<Rightarrow> string list" where
  "get_sig_not_on_error_list = names_where not_on_error"

definition get_sig_not_on_error_num :: "shared_data \<Rightarrow> nat" where
  "get_sig_not_on_error_num s = count_if not_on_error (signals s)"

definition get_sig_started_list :: "shared_data \<Rightarrow> string list" where
  "get_sig_started_list = names_where running"

definition get_sig_started_num :: "shared_data \<Rightarrow> nat" where
  "get_sig_started_num s = count_if running (signals s)"

definition get_sig_not_started_list :: "shared_data \<Rightarrow> string list" where
  "get_sig_not_started_list = names_where (\<lambda>sig. \<not> running sig)"

definition get_sig_not_started_num :: "shared_data \<Rightarrow> nat" where
  "get_sig_not_started_num s = count_if (\<lambda>sig. \<not> running sig) (signals s)"

text \<open>The sum of two 32-bit counters wraps.\<close>

definition get_ev_counter_list :: "shared_data \<Rightarrow> u32 list" where
  "get_ev_counter_list s = List.map (\<lambda>sig. okev_counter sig + nokev_counter sig) (signals s)"

definition error_text :: "hdb_signal \<Rightarrow> string" where
  "error_text sig = (if evstate sig \<noteq> ST_ON \<and> running sig then sig_status sig else [])"

text \<open>
  The published lists are updated in place: \<open>refresh_list new old\<close> overwrites the common part, erases
  or appends the rest, and tells whether anything changed.
\<close>

fun overwrite :: "'a list \<Rightarrow> 'a list \<Rightarrow> 'a list \<times> bool" where
  "overwrite (x # xs) (y # ys) =
     (let r = overwrite xs ys in (x # fst r, x \<noteq> y \<or> snd r))"
| "overwrite xs ys = ([], False)"

definition refresh_list :: "'a list \<Rightarrow> 'a list \<Rightarrow> 'a list \<times> bool" where
  "refresh_list new old =
     (let r = overwrite new old in
      if length new < length old then (fst r, True)
      else (fst r @ drop (length old) new, snd r \<or> length old < length new))"

definition get_error_list :: "shared_data \<Rightarrow> string list \<Rightarrow> string list \<times> bool" where
  "get_error_list s = refresh_list (List.map error_text (signals s))"

text \<open>
  \<open>get_lists\<close>: names, started, paused, stopped, contexts, and the array of the times to live. A time to
  live is stored for the signals that were in the list before only. The caller keeps the list of contexts
  as long as the list of names.
\<close>

record sig_lists =
  l_names :: "string list"
  l_start :: "string list"
  l_pause :: "string list"
  l_stop :: "string list"
  l_context :: "string list"
  l_ttl :: "nat \<Rightarrow> u32"

definition get_lists :: "shared_data \<Rightarrow> sig_lists \<Rightarrow> sig_lists \<times> bool" where
  "get_lists s l =
     (let n = length (l_names l);
          names = refresh_list (List.map sig_name (signals s)) (l_names l);
          ctxs = refresh_list (List.map (\<lambda>sig. join_contexts (contexts sig)) (signals s)) (l_context l);
          in_old = (\<lambda>i. i < length (signals s) \<and> i < n);
          ttls = (\<lambda>i. if in_old i then ttl (signals s ! i) else l_ttl l i);
          ttl_changed = list_ex (\<lambda>i. in_old i \<and> ttl (signals s ! i) \<noteq> l_ttl l i) [0..<n];
          started = refresh_list (names_where running s) (l_start l);
          pauses = refresh_list (names_where (\<lambda>sig. \<not> running sig \<and> paused sig) s) (l_pause l);
          stops = refresh_list
            (names_where (\<lambda>sig. \<not> running sig \<and> \<not> paused sig \<and> stopped sig) s) (l_stop l)
      in (\<lparr>l_names = fst names, l_start = fst started, l_pause = fst pauses, l_stop = fst stops,
           l_context = fst ctxs, l_ttl = ttls\<rparr>,
          snd names \<or> ttl_changed \<or> snd ctxs \<or> snd started \<or> snd pauses \<or> snd stops))"

definition hdb_state :: "shared_data \<Rightarrow> dev_state" where
  "hdb_state s = (if list_ex on_error (signals s) then ST_ALARM else ST_ON)"

subsection \<open>The subscription thread\<close>

definition is_initialized :: "shared_data \<Rightarrow> bool" where
  "is_initialized s = initialized s"

definition get_if_stop :: "shared_data \<Rightarrow> bool" where
  "get_if_stop s = stop_it s"

definition stop_thread :: "shared_data \<Rightarrow> shared_data" where
  "stop_thread s = s\<lparr>stop_it := True\<rparr>"

definition unsubscribe_events :: "shared_data \<Rightarrow> shared_data" where
  "unsubscribe_events s = s\<lparr>signals := []\<rparr>"

definition to_subscribe :: "hdb_signal \<Rightarrow> bool" where
  "to_subscribe sig = (event_id sig = HDB_ERR \<and> \<not> stopped sig)"

definition nb_sig_to_subscribe :: "shared_data \<Rightarrow> nat" where
  "nb_sig_to_subscribe s = count_if to_subscribe (signals s)"

text \<open>The last part of the subscription of one signal, which has a proxy.\<close>

definition subscribe_with_proxy :: "tango_env \<Rightarrow> hdb_signal \<Rightarrow> hdb_signal" where
  "subscribe_with_proxy env sig =
     (case get_config env (sig_name sig) of
        Inl desc \<Rightarrow> sig\<lparr>event_id := HDB_ERR, sig_status := desc\<rparr>
      | Inr info \<Rightarrow>
          let sig1 = sig\<lparr>sig_first := True, sig_info := info, first_err := True\<rparr> in
          (case subscribe_event env (sig_name sig) of
             Inl desc \<Rightarrow> sig1\<lparr>sig_status := desc, event_id := HDB_ERR\<rparr>
           | Inr (eid, cid, zmq) \<Rightarrow>
               sig1\<lparr>event_conf_id := cid, event_id := eid, isZMQ := zmq\<rparr>))"

text \<open>The loop, from position \<open>i\<close>; other exceptions than Tango's leave it.\<close>

fun subscribe_loop :: "tango_env \<Rightarrow> int \<Rightarrow> nat \<Rightarrow> nat \<Rightarrow> shared_data \<Rightarrow> unit hdb_result" where
  "subscribe_loop env now i 0 s = (Inr (), s)"
| "subscribe_loop env now i (Suc k) s =
     (let sig = signals s ! i in
      if \<not> to_subscribe sig then subscribe_loop env now (Suc i) k s
      else if attr sig then
        subscribe_loop env now (Suc i) k (set_signal i (subscribe_with_proxy env) s)
      else
        (case add_signal env now (sig_name sig) [] 0 HDB_NOTHING True s of
           (Inl (DevFailed reason desc), s1) \<Rightarrow>
             subscribe_loop env now (Suc i) k (set_signal i (\<lambda>sig. sig\<lparr>sig_status := desc\<rparr>) s1)
         | (Inl e, s1) \<Rightarrow> (Inl e, s1)
         | (Inr u, s1) \<Rightarrow>
             subscribe_loop env now (Suc i) k (set_signal i (subscribe_with_proxy env) s1)))"

definition subscribe_events :: "tango_env \<Rightarrow> int \<Rightarrow> shared_data \<Rightarrow> unit hdb_result" where
  "subscribe_events env now s =
     (case subscribe_loop env now 0 (length (signals s)) s of
        (Inl e, s1) \<Rightarrow> (Inl e, s1)
      | (Inr u, s1) \<Rightarrow> (Inr (), s1\<lparr>initialized := True\<rparr>))"

definition conf_string :: "hdb_signal \<Rightarrow> string" where
  "conf_string sig =
     sig_name sig @ '';strategy='' @ join_contexts (contexts sig) @ '';ttl='' @ show_nat (unat (ttl sig))"

definition put_signal_property :: "shared_data \<Rightarrow> shared_data" where
  "put_signal_property s =
     (if action s > HDB_NOTHING then
        let s1 = s\<lparr>signal_property := List.map conf_string (signals s)\<rparr>
        in (if action s1 \<ge> HDB_UPDATE_PROP then s1\<lparr>action := action s1 - 1\<rparr> else s1)
      else s)"

text \<open>One round of \<open>run_undetached\<close>: how the thread waits afterwards is part of the result.\<close>

datatype wait_kind = WaitSignal | WaitPeriod | NoWait

definition thread_round :: "tango_env \<Rightarrow> int \<Rightarrow> shared_data \<Rightarrow> wait_kind hdb_result" where
  "thread_round env now s =
     (case subscribe_events env now (put_signal_property s) of
        (Inl e, s1) \<Rightarrow> (Inl e, s1)
      | (Inr u, s1) \<Rightarrow>
          (Inr (if nb_sig_to_subscribe s1 = 0 \<and> action s1 = HDB_NOTHING then WaitSignal
                else if action s1 = HDB_NOTHING then WaitPeriod
                else NoWait),
           s1))"

end
