(* ===== verification/HdbTable.thy ===== *)
theory HdbTable
  imports HdbEvents
begin

text \<open>
  What the signal table guarantees: every signal is in exactly one of the modes started, paused and
  stopped, and the counters of the archiving device agree with the table. Operations that write other
  fields of a signal share the locale \<open>mode_preserving\<close>. The table abstracts to a map from names to
  modes, on which starting, pausing and stopping are map updates.
\<close>

subsection \<open>The invariant\<close>

definition one_mode :: "hdb_signal \<Rightarrow> bool" where
  "one_mode sig \<longleftrightarrow>
     (running sig \<and> \<not> paused sig \<and> \<not> stopped sig) \<or> (\<not> running sig \<and> paused sig \<and> \<not> stopped sig) \<or>
     (\<not> running sig \<and> \<not> paused sig \<and> stopped sig)"

definition counters_ok :: "shared_data \<Rightarrow> bool" where
  "counters_ok s \<longleftrightarrow>
     attr_number s = int (length (signals s)) \<and> attr_started s = int (count_if running (signals s)) \<and>
     attr_paused s = int (count_if paused (signals s)) \<and>
     attr_stopped s = int (count_if stopped (signals s))"

definition table_inv :: "shared_data \<Rightarrow> bool" where
  "table_inv s \<longleftrightarrow>
     list_all one_mode (signals s) \<and> counters_ok s \<and> distinct (List.map sig_name (signals s)) \<and>
     0 \<le> action s \<and> action s \<le> 2"

lemma table_inv_new: "table_inv SharedData_new"
  by (simp add: table_inv_def counters_ok_def SharedData_new_def)

lemma table_inv_D:
  assumes "table_inv s"
  shows "i < length (signals s) \<Longrightarrow> one_mode (signals s ! i)" and "counters_ok s"
    and "distinct (List.map sig_name (signals s))"
  using assms by (auto simp: table_inv_def list_all_length)

lemma one_mode_cases:
  assumes "one_mode sig"
  obtains (started) "running sig" "\<not> paused sig" "\<not> stopped sig"
  | (paused) "\<not> running sig" "paused sig" "\<not> stopped sig"
  | (stopped) "\<not> running sig" "\<not> paused sig" "stopped sig"
  using assms by (auto simp: one_mode_def)

subsection \<open>Look-up\<close>

lemma scan_names_Found:
  "scan_names nm k ns = Found i \<Longrightarrow>
     k \<le> i \<and> i < k + length ns \<and> compare_without_domain (ns ! (i - k)) nm = Some True"
proof (induction ns arbitrary: k)
  case Nil
  then show ?case by simp
next
  case (Cons n ns)
  show ?case
  proof (cases "compare_without_domain n nm = Some True")
    case True
    with Cons.prems show ?thesis by simp
  next
    case False
    with Cons.prems have "scan_names nm (Suc k) ns = Found i" by (auto split: option.splits bool.splits)
    from Cons.IH [OF this] show ?thesis by (auto simp: nth_Cons' Suc_diff_le)
  qed
qed

lemma lookup_name_Found:
  assumes "lookup_name nm ns = Found i"
  shows "i < length ns \<and> (ns ! i = nm \<or> compare_without_domain (ns ! i) nm = Some True)"
  using assms find_index_SomeD [of "\<lambda>n. n = nm" ns] scan_names_Found [of nm 0 ns i]
  by (auto simp: lookup_name_def split: option.splits)

lemma lookup_name_Missing:
  "lookup_name nm ns = Missing \<Longrightarrow> nm \<notin> set ns"
  by (auto simp: lookup_name_def split: option.splits)

text \<open>The complete description of the second pass.\<close>

lemma scan_names_spec:
  "case scan_names nm k ns of
     Found i \<Rightarrow> k \<le> i \<and> i < k + length ns \<and> compare_without_domain (ns ! (i - k)) nm = Some True \<and>
       (\<forall>j<i - k. compare_without_domain (ns ! j) nm = Some False)
   | Missing \<Rightarrow> \<forall>n\<in>set ns. compare_without_domain n nm = Some False
   | LookupThrows \<Rightarrow> \<exists>n\<in>set ns. compare_without_domain n nm = None"
proof (induction ns arbitrary: k)
  case Nil
  then show ?case by simp
next
  case (Cons n ns)
  consider "compare_without_domain n nm = None" | "compare_without_domain n nm = Some True"
    | "compare_without_domain n nm = Some False"
    by (metis (full_types) not_None_eq)
  then show ?case
  proof cases
    case 3
    show ?thesis
    proof (cases "scan_names nm (Suc k) ns")
      case (Found i)
      have "compare_without_domain ((n # ns) ! j) nm = Some False" if "j < i - k" for j
        using that 3 Cons.IH [of "Suc k"] Found by (cases j) auto
      moreover have "(n # ns) ! (i - k) = ns ! (i - Suc k)" "Suc k \<le> i"
        using Cons.IH [of "Suc k"] Found by (auto simp: nth_Cons')
      ultimately show ?thesis using 3 Found Cons.IH [of "Suc k"] by auto
    qed (use 3 Cons.IH [of "Suc k"] in auto)
  qed simp_all
qed

lemma lookup_name_spec:
  "case lookup_name nm ns of
     Found i \<Rightarrow> i < length ns \<and>
       (ns ! i = nm \<or> (nm \<notin> set ns \<and> compare_without_domain (ns ! i) nm = Some True \<and>
         (\<forall>j<i. compare_without_domain (ns ! j) nm = Some False)))
   | Missing \<Rightarrow> nm \<notin> set ns \<and> (\<forall>n\<in>set ns. compare_without_domain n nm = Some False)
   | LookupThrows \<Rightarrow> nm \<notin> set ns \<and> (\<exists>n\<in>set ns. compare_without_domain n nm = None)"
proof (cases "find_index (\<lambda>n. n = nm) ns")
  case None
  then have "nm \<notin> set ns" by auto
  then show ?thesis
    using scan_names_spec [where nm = nm and k = 0 and ns = ns] None
    by (auto simp: lookup_name_def simp del: find_index_None split: lookup.splits)
next
  case (Some i)
  then show ?thesis using find_index_SomeD [OF Some] by (simp add: lookup_name_def)
qed

text \<open>With a name whose host part has a domain but no port, every comparison throws.\<close>

lemma lookup_name_throws:
  assumes "remove_domain nm = None" and "nm \<notin> set ns" and "ns \<noteq> []"
  shows "lookup_name nm ns = LookupThrows"
proof -
  have "find_index (\<lambda>n. n = nm) ns = None" using assms(2) by auto
  moreover have "scan_names nm 0 ns = LookupThrows"
    using assms(1,3) by (cases ns) (auto simp: compare_without_domain_def split: option.split)
  ultimately show ?thesis by (simp add: lookup_name_def del: find_index_None)
qed

lemma get_signal_bound: "get_signal nm s = Found i \<Longrightarrow> i < length (signals s)"
  using lookup_name_Found [of nm "List.map sig_name (signals s)" i] by (simp add: get_signal_def)

lemma get_signal_cong:
  "List.map sig_name (signals s') = List.map sig_name (signals s) \<Longrightarrow> get_signal nm s' = get_signal nm s"
  by (simp add: get_signal_def)

text \<open>An exact name is found at its place.\<close>

lemma find_index_distinct:
  "distinct xs \<Longrightarrow> i < length xs \<Longrightarrow> find_index (\<lambda>x. x = xs ! i) xs = Some i"
proof (induction xs arbitrary: i)
  case Nil
  then show ?case by simp
next
  case (Cons x xs)
  then show ?case by (cases i) (auto simp: nth_mem)
qed

lemma get_signal_exact:
  assumes "distinct (List.map sig_name (signals s))" and "i < length (signals s)"
  shows "get_signal (sig_name (signals s ! i)) s = Found i"
proof -
  have "find_index (\<lambda>n. n = List.map sig_name (signals s) ! i) (List.map sig_name (signals s)) = Some i"
    using assms by (intro find_index_distinct) simp_all
  then show ?thesis using assms(2) by (simp add: get_signal_def lookup_name_def)
qed

subsection \<open>Writing one signal\<close>

lemma set_signal_frame [simp]:
  "action (set_signal i f s) = action s" "attr_number (set_signal i f s) = attr_number s"
  "attr_started (set_signal i f s) = attr_started s" "attr_paused (set_signal i f s) = attr_paused s"
  "attr_stopped (set_signal i f s) = attr_stopped s" "stop_it (set_signal i f s) = stop_it s"
  "length (signals (set_signal i f s)) = length (signals s)"
  by (simp_all add: set_signal_def)

lemma set_signal_nth:
  "j < length (signals s) \<Longrightarrow>
   signals (set_signal i f s) ! j = (if j = i then f (signals s ! i) else signals s ! j)"
  by (simp add: set_signal_def)

lemma set_signal_names:
  "(\<And>sig. sig_name (f sig) = sig_name sig) \<Longrightarrow>
   List.map sig_name (signals (set_signal i f s)) = List.map sig_name (signals s)"
  by (rule nth_equalityI) (simp_all add: set_signal_nth)

lemma set_signal_counts:
  assumes "i < length (signals s)"
  shows "int (count_if P (signals (set_signal i f s))) =
    int (count_if P (signals s)) - of_bool (P (signals s ! i)) + of_bool (P (f (signals s ! i)))"
  using count_if_update [OF assms, of P "f (signals s ! i)"] by (simp add: set_signal_def)

text \<open>A change of mode with the matching change of the counters.\<close>

lemma table_inv_set_mode:
  assumes inv: "table_inv s" and i: "i < length (signals s)"
    and name: "\<And>sig. sig_name (f sig) = sig_name sig" and mode: "one_mode (f (signals s ! i))"
    and s': "signals s' = signals (set_signal i f s)" "attr_number s' = attr_number s"
      "attr_started s' = attr_started s - of_bool (running (signals s ! i)) + of_bool (running (f (signals s ! i)))"
      "attr_paused s' = attr_paused s - of_bool (paused (signals s ! i)) + of_bool (paused (f (signals s ! i)))"
      "attr_stopped s' = attr_stopped s - of_bool (stopped (signals s ! i)) + of_bool (stopped (f (signals s ! i)))"
      "0 \<le> action s'" "action s' \<le> 2"
  shows "table_inv s'"
proof -
  have "list_all one_mode (signals s')"
    using inv mode s'(1) list_all_update by (auto simp: table_inv_def set_signal_def)
  moreover have "List.map sig_name (signals s') = List.map sig_name (signals s)"
    using s'(1) set_signal_names [OF name] by simp
  moreover have "counters_ok s'"
    using inv s'(2-5) unfolding counters_ok_def s'(1) set_signal_counts [OF i]
    by (simp add: table_inv_def counters_ok_def)
  ultimately show ?thesis using inv s' by (simp add: table_inv_def)
qed

locale mode_preserving =
  fixes f :: "hdb_signal \<Rightarrow> hdb_signal"
  assumes keeps_running: "running (f sig) = running sig"
    and keeps_paused: "paused (f sig) = paused sig"
    and keeps_stopped: "stopped (f sig) = stopped sig"
    and keeps_name: "sig_name (f sig) = sig_name sig"
begin

lemma keeps_mode: "one_mode (f sig) = one_mode sig"
  by (simp add: one_mode_def keeps_running keeps_paused keeps_stopped)

lemma set_inv:
  assumes "table_inv s"
  shows "table_inv (set_signal i f s)"
proof (cases "i < length (signals s)")
  case True
  then show ?thesis
    using assms table_inv_D(1) [OF assms True]
    by (intro table_inv_set_mode [OF assms True, of f])
      (simp_all add: keeps_mode keeps_name keeps_running keeps_paused keeps_stopped table_inv_def)
next
  case False
  then show ?thesis using assms by (simp add: set_signal_def list_update_beyond)
qed

lemma write_inv: "table_inv s \<Longrightarrow> table_inv (snd (write_signal f nm s))"
  by (simp add: write_signal_def set_inv split: lookup.split)

lemma map_inv:
  assumes "table_inv s"
  shows "table_inv (s\<lparr>signals := List.map f (signals s)\<rparr>)"
proof -
  have "count_if P (List.map f xs) = count_if P xs" if "\<And>sig. P (f sig) = P sig" for P xs
    by (induction xs) (simp_all add: that)
  then show ?thesis
    using assms by (simp add: table_inv_def counters_ok_def list_all_iff keeps_mode keeps_running
        keeps_paused keeps_stopped keeps_name comp_def)
qed

lemma update_inv: "table_inv s \<Longrightarrow> table_inv (snd (update_signal f nm s))"
  using set_inv [of s]
  by (auto simp: update_signal_def bump_action_def table_inv_def counters_ok_def split: lookup.split)

end

interpretation first: mode_preserving "\<lambda>sig. sig\<lparr>sig_first := False\<rparr>" by unfold_locales simp_all
interpretation first_err: mode_preserving "\<lambda>sig. sig\<lparr>first_err := False\<rparr>" by unfold_locales simp_all
interpretation ok: mode_preserving "ok_event time now" by unfold_locales (simp_all add: ok_event_def)
interpretation nok: mode_preserving "nok_event time now" by unfold_locales (simp_all add: nok_event_def)
interpretation timed_out: mode_preserving periodic_timeout
  by unfold_locales (simp_all add: periodic_timeout_def)
interpretation period: mode_preserving "\<lambda>sig. sig\<lparr>periodic_ev := p\<rparr>" by unfold_locales simp_all
interpretation stats: mode_preserving "\<lambda>sig. sig\<lparr>nokev_counter := 0, okev_counter := 0\<rparr>"
  by unfold_locales simp_all
interpretation freq_stats: mode_preserving "\<lambda>sig. sig\<lparr>nokev_counter_freq := 0, okev_counter_freq := 0\<rparr>"
  by unfold_locales simp_all
interpretation set_contexts: mode_preserving "\<lambda>sig. sig\<lparr>contexts := c, contexts_upper := u\<rparr>"
  by unfold_locales simp_all
interpretation set_ttl: mode_preserving "\<lambda>sig. sig\<lparr>ttl := t\<rparr>" by unfold_locales simp_all
interpretation set_status: mode_preserving "\<lambda>sig. sig\<lparr>sig_status := st\<rparr>" by unfold_locales simp_all
interpretation set_info: mode_preserving "\<lambda>sig. sig\<lparr>sig_info := info\<rparr>" by unfold_locales simp_all
interpretation drop_proxy: mode_preserving "\<lambda>sig. sig\<lparr>event_id := e, attr := a\<rparr>" by unfold_locales simp_all
interpretation connect: mode_preserving "\<lambda>sig. reset_event_state now (sig\<lparr>attr := True\<rparr>)"
  by unfold_locales (simp_all add: reset_event_state_def)
interpretation subscribe: mode_preserving "subscribe_with_proxy env"
  by unfold_locales (simp_all add: subscribe_with_proxy_def Let_def split: sum.split prod.split)

subsection \<open>Adding and removing\<close>

lemma bump_action_frame [simp]:
  "signals (bump_action k s) = signals s" "attr_number (bump_action k s) = attr_number s"
  "attr_started (bump_action k s) = attr_started s" "attr_paused (bump_action k s) = attr_paused s"
  "attr_stopped (bump_action k s) = attr_stopped s"
  by (simp_all add: bump_action_def)

lemma bump_action_inv:
  "table_inv s \<Longrightarrow> 0 \<le> k \<Longrightarrow> k \<le> 1 \<Longrightarrow> table_inv (bump_action k s)"
  by (auto simp: table_inv_def counters_ok_def bump_action_def)

lemma add_existing_inv:
  assumes "table_inv s" and "get_signal nm s = Found i" and "0 \<le> k" "k \<le> 1"
  shows "table_inv (snd (add_signal env now nm c t k True s))"
  using assms
  by (auto simp: add_signal_def Let_def split: option.split sum.split
      intro!: bump_action_inv set_info.set_inv connect.set_inv set_status.set_inv)

lemma add_new_inv:
  assumes inv: "table_inv s" and new: "get_signal nm s = Missing" and k: "0 \<le> k" "k \<le> 1"
  shows "table_inv (snd (add_signal env now nm c t k False s))"
proof -
  have "nm \<notin> set (List.map sig_name (signals s))"
    using lookup_name_Missing [OF new [unfolded get_signal_def]] by simp
  moreover have "one_mode (reset_event_state now (new_signal nm idx c t))"
    "sig_name (reset_event_state now (new_signal nm idx c t)) = nm"
    "\<not> running (reset_event_state now (new_signal nm idx c t))"
    "\<not> paused (reset_event_state now (new_signal nm idx c t))"
    "stopped (reset_event_state now (new_signal nm idx c t))" for idx
    by (simp_all add: reset_event_state_def new_signal_def one_mode_def)
  ultimately show ?thesis
    using inv k new
    by (auto simp: add_signal_def Let_def table_inv_def counters_ok_def bump_action_def
        split: option.split)
qed

lemma add_signal_inv:
  assumes "table_inv s" and "0 \<le> k" "k \<le> 1"
  shows "table_inv (snd (add_signal env now nm c t k start s))"
proof (cases "get_signal nm s")
  case (Found i)
  then show ?thesis using assms add_existing_inv by (cases start) (auto simp: add_signal_def)
next
  case Missing
  then show ?thesis using assms add_new_inv by (cases start) (auto simp: add_signal_def)
next
  case LookupThrows
  then show ?thesis using assms by (simp add: add_signal_def)
qed

lemma remove_signal_inv:
  assumes inv: "table_inv s"
  shows "table_inv (snd (remove_signal nm stop s))"
proof (cases "get_signal nm s")
  case (Found i)
  then have i: "i < length (signals s)" by (rule get_signal_bound)
  show ?thesis
  proof (cases stop)
    case True
    then show ?thesis using Found inv by (simp add: remove_signal_def drop_proxy.set_inv)
  next
    case False
    have "table_inv (s\<lparr>attr_started := attr_started s - of_bool (running (signals s ! i)),
        attr_paused := attr_paused s - of_bool (paused (signals s ! i)),
        attr_stopped := attr_stopped s - of_bool (stopped (signals s ! i)),
        attr_number := attr_number s - 1, signals := erase_at i (signals s)\<rparr>)"
      using inv i
      by (simp add: table_inv_def counters_ok_def list_all_erase_at map_erase_at distinct_erase_at
          count_if_erase length_erase_at of_nat_diff)
    then show ?thesis using Found False by (simp add: remove_signal_def Let_def bump_action_inv)
  qed
qed (use inv in \<open>simp_all add: remove_signal_def\<close>)

end
