(* ===== verification/HdbSteps.thy ===== *)
theory HdbSteps
  imports HdbTable
begin

text \<open>
  Starting, pausing and stopping: the invariant of the signal table and the refinement to a map from
  names to modes; the operations of the table as a transition system; the subscription step.
\<close>

subsection \<open>Modes\<close>

datatype sig_mode = MStarted | MPaused | MStopped

definition mode_of :: "hdb_signal \<Rightarrow> sig_mode" where
  "mode_of sig = (if running sig then MStarted else if paused sig then MPaused else MStopped)"

definition abs_modes :: "shared_data \<Rightarrow> string \<rightharpoonup> sig_mode" where
  "abs_modes s = map_of (List.map (\<lambda>sig. (sig_name sig, mode_of sig)) (signals s))"

text \<open>Writing one signal is a map update, if names are distinct.\<close>

lemma map_of_update:
  assumes "distinct (List.map fst xs)" and "i < length xs"
  shows "map_of (xs[i := (fst (xs ! i), v)]) = (map_of xs)(fst (xs ! i) \<mapsto> v)"
  using assms
proof (induction xs arbitrary: i)
  case Nil
  then show ?case by simp
next
  case (Cons x xs)
  show ?case
  proof (cases i)
    case 0
    then show ?thesis by (auto simp: fun_eq_iff)
  next
    case (Suc j)
    then have "fst (xs ! j) \<in> set (List.map fst xs)" using Cons.prems by simp
    then have "fst x \<noteq> fst (xs ! j)" using Cons.prems(1) by (metis distinct.simps(2) list.simps(9))
    then show ?thesis using Suc Cons.IH [of j] Cons.prems by (cases x) (auto simp: fun_eq_iff)
  qed
qed

lemma abs_modes_set:
  assumes "distinct (List.map sig_name (signals s))" and "i < length (signals s)"
    and "sig_name (f (signals s ! i)) = sig_name (signals s ! i)"
    and "signals s' = (signals s)[i := f (signals s ! i)]"
  shows "abs_modes s' = (abs_modes s)(sig_name (signals s ! i) \<mapsto> mode_of (f (signals s ! i)))"
  using map_of_update [of "List.map (\<lambda>sig. (sig_name sig, mode_of sig)) (signals s)" i
      "mode_of (f (signals s ! i))"] assms
  by (simp add: abs_modes_def map_update comp_def)

text \<open>A signal the abstraction maps already may be written with its own mode.\<close>

lemma abs_modes_id:
  assumes "distinct (List.map sig_name (signals s))" and "i < length (signals s)"
  shows "(abs_modes s)(sig_name (signals s ! i) \<mapsto> mode_of (signals s ! i)) = abs_modes s"
  using abs_modes_set [OF assms, of "\<lambda>sig. sig" s] by simp

subsection \<open>Starting\<close>

text \<open>What the nested \<open>add\<close> does to an existing signal, Tango exceptions caught.\<close>

lemma connect_existing:
  fixes env now nm s i
  defines "r \<equiv> catch_devfailed i (add_signal env now nm [] 0 HDB_NOTHING True s)"
  assumes found: "get_signal nm s = Found i"
  shows "fst r = Inr ()"
    and "\<exists>g. signals (snd r) = (signals s)[i := g (signals s ! i)] \<and> mode_preserving g"
    and "attr_number (snd r) = attr_number s" and "attr_started (snd r) = attr_started s"
    and "attr_paused (snd r) = attr_paused s" and "attr_stopped (snd r) = attr_stopped s"
    and "action (snd r) = action s"
proof -
  have i: "i < length (signals s)" using found by (rule get_signal_bound)
  let ?nm = "sig_name (signals s ! i)"
  let ?st = "\<lambda>sig. sig\<lparr>sig_status := ''NOT connected''\<rparr>"
  let ?con = "\<lambda>sig. reset_event_state now (sig\<lparr>attr := True\<rparr>)"
  have r: "fst r = Inr () \<and>
      (\<exists>g. signals (snd r) = (signals s)[i := g (signals s ! i)] \<and> mode_preserving g) \<and>
      attr_number (snd r) = attr_number s \<and> attr_started (snd r) = attr_started s \<and>
      attr_paused (snd r) = attr_paused s \<and> attr_stopped (snd r) = attr_stopped s \<and>
      action (snd r) = action s"
  proof (cases "new_proxy env ?nm")
    case (Some e)
    obtain reason desc where e: "e = (reason, desc)" by (cases e)
    have "mode_preserving (\<lambda>sig. (?st sig)\<lparr>sig_status := desc\<rparr>)" by unfold_locales simp_all
    then show ?thesis
      using found i Some e
      by (simp add: r_def add_signal_def catch_devfailed_def Let_def set_signal_def) metis
  next
    case None
    show ?thesis
    proof (cases "get_config env ?nm")
      case (Inl desc)
      have "mode_preserving (\<lambda>sig. ?con (?st sig))" by unfold_locales (simp_all add: reset_event_state_def)
      then show ?thesis
        using found i None Inl
        by (simp add: r_def add_signal_def catch_devfailed_def Let_def set_signal_def bump_action_def)
          (auto intro: exI [of _ "\<lambda>sig. ?con (?st sig)"])
    next
      case (Inr info)
      have "mode_preserving (\<lambda>sig. (?con (?st sig))\<lparr>sig_info := info\<rparr>)"
        by unfold_locales (simp_all add: reset_event_state_def)
      then show ?thesis
        using found i None Inr
        by (simp add: r_def add_signal_def catch_devfailed_def Let_def set_signal_def bump_action_def)
          (auto intro: exI [of _ "\<lambda>sig. (?con (?st sig))\<lparr>sig_info := info\<rparr>"])
    qed
  qed
  then show "fst r = Inr ()"
    "\<exists>g. signals (snd r) = (signals s)[i := g (signals s ! i)] \<and> mode_preserving g"
    "attr_number (snd r) = attr_number s" "attr_started (snd r) = attr_started s"
    "attr_paused (snd r) = attr_paused s" "attr_stopped (snd r) = attr_stopped s"
    "action (snd r) = action s" by blast+
qed

text \<open>
  The common result of the three mode changes: the call succeeds, writes the found signal only, keeps
  its name, gives it the mode, and keeps the invariant.
\<close>

definition mode_changed :: "nat \<Rightarrow> sig_mode \<Rightarrow> shared_data \<Rightarrow> unit hdb_result \<Rightarrow> bool" where
  "mode_changed i md s r \<longleftrightarrow>
     fst r = Inr () \<and> table_inv (snd r) \<and>
     (\<exists>sig'. signals (snd r) = (signals s)[i := sig'] \<and> sig_name sig' = sig_name (signals s ! i) \<and>
       mode_of sig' = md)"

lemma mode_changed_abs:
  assumes "mode_changed i md s r" and "table_inv s" and "i < length (signals s)"
  shows "abs_modes (snd r) = (abs_modes s)(sig_name (signals s ! i) \<mapsto> md)"
proof -
  obtain sig' where "signals (snd r) = (signals s)[i := sig']"
    "sig_name sig' = sig_name (signals s ! i)" "mode_of sig' = md"
    using assms(1) by (auto simp: mode_changed_def)
  then show ?thesis
    using abs_modes_set [OF table_inv_D(3) [OF assms(2)] assms(3), of "\<lambda>_. sig'" "snd r"] by simp
qed

lemma mode_unchanged:
  assumes "table_inv s" and "mode_of (signals s ! i) = md"
  shows "mode_changed i md s (Inr (), s)"
  using assms by (auto simp: mode_changed_def intro: exI [of _ "signals s ! i"])

lemma start_signal_found:
  assumes inv: "table_inv s" and found: "get_signal nm s = Found i"
  shows "mode_changed i MStarted s (start_signal env now nm s)"
proof -
  let ?sig = "signals s ! i"
  have i: "i < length (signals s)" using found by (rule get_signal_bound)
  show ?thesis
  proof (cases "running ?sig")
    case True
    then show ?thesis using found inv mode_unchanged by (simp add: start_signal_def mode_of_def)
  next
    case False
    let ?s0 = "s\<lparr>attr_stopped := attr_stopped s - 1\<rparr>"
    obtain s1 g where r: "(if stopped ?sig then
          catch_devfailed i (add_signal env now nm [] 0 HDB_NOTHING True ?s0)
        else (Inr (), s)) = (Inr (), s1)"
      and g: "signals s1 = (signals s)[i := g ?sig]" "mode_preserving g"
      and c: "attr_number s1 = attr_number s" "attr_started s1 = attr_started s"
        "attr_paused s1 = attr_paused s" "attr_stopped s1 = attr_stopped s - of_bool (stopped ?sig)"
        "action s1 = action s"
    proof (cases "stopped ?sig")
      case True
      let ?r = "catch_devfailed i (add_signal env now nm [] 0 HDB_NOTHING True ?s0)"
      have "get_signal nm ?s0 = Found i" using found by (simp add: get_signal_def)
      note con = connect_existing [OF this, of env now]
      obtain g where "signals (snd ?r) = (signals s)[i := g ?sig]" "mode_preserving g"
        using con(2) by auto
      then show ?thesis
        using True con(1,3-) by (intro that [of "snd ?r" g]) (simp_all add: prod_eq_iff)
    next
      case False
      then show ?thesis by (intro that [of s "\<lambda>sig. sig"]) (simp_all add: mode_preserving_def)
    qed
    note keeps = mode_preserving.keeps_running [OF g(2)] mode_preserving.keeps_paused [OF g(2)]
      mode_preserving.keeps_stopped [OF g(2)] mode_preserving.keeps_name [OF g(2)]
    let ?f = "\<lambda>sig. (g sig)\<lparr>running := True, paused := False, stopped := False\<rparr>"
    let ?s' = "set_signal i (\<lambda>sig. sig\<lparr>running := True, paused := False, stopped := False\<rparr>)
      (s1\<lparr>attr_paused := attr_paused s1 - of_bool (paused (signals s1 ! i)),
          attr_started := attr_started s1 + 1\<rparr>)"
    have eq: "start_signal env now nm s = (Inr (), ?s')"
      using found False r by (simp add: start_signal_def Let_def)
    have sigs: "signals ?s' = (signals s)[i := ?f ?sig]"
      using i g(1) by (simp add: set_signal_def)
    have "table_inv ?s'"
      using inv i False g(1) c
      by (intro table_inv_set_mode [OF inv i, of ?f])
        (simp_all add: keeps one_mode_def table_inv_def set_signal_def)
    then show ?thesis
      using sigs by (auto simp: mode_changed_def eq mode_of_def keeps intro!: exI [of _ "?f ?sig"])
  qed
qed

subsection \<open>Pausing and stopping\<close>

lemma pause_signal_found:
  assumes inv: "table_inv s" and found: "get_signal nm s = Found i"
  shows "mode_changed i MPaused s (pause_signal nm s)"
proof -
  let ?sig = "signals s ! i"
  have i: "i < length (signals s)" using found by (rule get_signal_bound)
  have mode: "one_mode ?sig" using inv i by (rule table_inv_D)
  show ?thesis
  proof (cases "paused ?sig")
    case True
    then have "mode_of ?sig = MPaused" using mode by (auto simp: one_mode_def mode_of_def)
    then show ?thesis using True found inv mode_unchanged by (simp add: pause_signal_def Let_def)
  next
    case False
    let ?f = "\<lambda>sig. sig\<lparr>paused := True, running := False, stopped := False\<rparr>"
    let ?s' = "set_signal i ?f (s\<lparr>attr_paused := attr_paused s + 1,
        attr_started := attr_started s - of_bool (running ?sig),
        attr_stopped := attr_stopped s - of_bool (stopped ?sig)\<rparr>)"
    have eq: "pause_signal nm s = (Inr (), ?s')" using found False by (simp add: pause_signal_def Let_def)
    have "table_inv ?s'"
      using inv False
      by (intro table_inv_set_mode [OF inv i, of ?f])
        (simp_all add: one_mode_def table_inv_def set_signal_def)
    then show ?thesis
      by (auto simp: mode_changed_def eq mode_of_def set_signal_def intro!: exI [of _ "?f ?sig"])
  qed
qed

lemma names_update [simp]:
  "i < length xs \<Longrightarrow> (List.map sig_name xs)[i := sig_name (xs ! i)] = List.map sig_name xs"
  by (metis list_update_id nth_map)

lemma remove_stop_found:
  "get_signal nm s = Found i \<Longrightarrow>
   remove_signal nm True s = (Inr (), set_signal i (\<lambda>sig. sig\<lparr>event_id := HDB_ERR, attr := False\<rparr>) s)"
  by (simp add: remove_signal_def)

lemma stop_signal_found:
  assumes inv: "table_inv s" and found: "get_signal nm s = Found i"
  shows "mode_changed i MStopped s (stop_signal nm s)"
    and "\<not> stopped (signals s ! i) \<Longrightarrow>
           event_id (signals (snd (stop_signal nm s)) ! i) = HDB_ERR \<and>
           \<not> attr (signals (snd (stop_signal nm s)) ! i)"
proof -
  let ?sig = "signals s ! i"
  have i: "i < length (signals s)" using found by (rule get_signal_bound)
  have mode: "one_mode ?sig" using inv i by (rule table_inv_D)
  show "mode_changed i MStopped s (stop_signal nm s)"
  proof (cases "stopped ?sig")
    case True
    then have "mode_of ?sig = MStopped" using mode by (auto simp: one_mode_def mode_of_def)
    then show ?thesis using True found inv mode_unchanged by (simp add: stop_signal_def Let_def)
  next
    case False
    let ?f = "\<lambda>sig. sig\<lparr>stopped := True, event_id := HDB_ERR, attr := False, running := False, paused := False\<rparr>"
    have eq: "stop_signal nm s = (Inr (), s\<lparr>signals := (signals s)[i := ?f ?sig],
        attr_stopped := attr_stopped s + 1, attr_started := attr_started s - of_bool (running ?sig),
        attr_paused := attr_paused s - of_bool (paused ?sig)\<rparr>)"
      using mode found False i
      by (cases rule: one_mode_cases)
        (simp_all add: stop_signal_def stop_if_def log_devfailed_def Let_def remove_signal_def
          set_signal_def get_signal_def map_update list_update_id)
    have "table_inv (snd (stop_signal nm s))"
      using inv False
      by (intro table_inv_set_mode [OF inv i, of ?f])
        (simp_all add: eq one_mode_def table_inv_def set_signal_def)
    then show ?thesis
      by (auto simp: mode_changed_def eq mode_of_def intro!: exI [of _ "?f ?sig"])
  qed
  show "event_id (signals (snd (stop_signal nm s)) ! i) = HDB_ERR \<and> \<not> attr (signals (snd (stop_signal nm s)) ! i)"
    if "\<not> stopped ?sig"
    using mode found that i
    by (cases rule: one_mode_cases)
      (simp_all add: stop_signal_def stop_if_def log_devfailed_def Let_def remove_signal_def
        set_signal_def get_signal_def map_update list_update_id)
qed

subsection \<open>The invariant of every operation\<close>

lemma lookup_fails:
  assumes "get_signal nm s = Missing \<or> get_signal nm s = LookupThrows"
  shows "snd (start_signal env now nm s) = s" and "snd (pause_signal nm s) = s"
    and "snd (stop_signal nm s) = s"
  using assms by (auto simp: start_signal_def pause_signal_def stop_signal_def)

lemma mode_changed_inv: "mode_changed i md s r \<Longrightarrow> table_inv (snd r)"
  by (simp add: mode_changed_def)

lemma start_signal_inv: "table_inv s \<Longrightarrow> table_inv (snd (start_signal env now nm s))"
  by (cases "get_signal nm s") (auto simp: lookup_fails intro: mode_changed_inv start_signal_found)

lemma pause_signal_inv: "table_inv s \<Longrightarrow> table_inv (snd (pause_signal nm s))"
  by (cases "get_signal nm s") (auto simp: lookup_fails intro: mode_changed_inv pause_signal_found)

lemma stop_signal_inv: "table_inv s \<Longrightarrow> table_inv (snd (stop_signal nm s))"
  by (cases "get_signal nm s") (auto simp: lookup_fails intro: mode_changed_inv stop_signal_found(1))

lemma all_inv:
  assumes "table_inv s"
  shows "table_inv (start_all s)" and "table_inv (pause_all s)" and "table_inv (stop_all s)"
  using assms
  by (simp_all add: table_inv_def counters_ok_def start_all_def pause_all_def stop_all_def list_all_iff
      one_mode_def count_if_def comp_def filter_map)

text \<open>What the periodic check does to each signal, and the time it returns.\<close>

definition checked :: "hdb_signal \<Rightarrow> bool" where
  "checked sig \<longleftrightarrow> running sig \<and> evstate sig = ST_ON \<and> 0 < periodic_ev sig"

definition check_signal :: "int \<Rightarrow> int \<Rightarrow> hdb_signal \<Rightarrow> hdb_signal" where
  "check_signal now tol sig =
     (if checked sig \<and> time_to_timeout now tol sig \<le> 0 then periodic_timeout sig else sig)"

interpretation check: mode_preserving "check_signal now tol"
  by unfold_locales (simp_all add: check_signal_def timed_out.keeps_name timed_out.keeps_running
      timed_out.keeps_paused timed_out.keeps_stopped)

definition next_min :: "int \<Rightarrow> int \<Rightarrow> hdb_signal \<Rightarrow> int \<Rightarrow> int" where
  "next_min now tol sig m =
     (if checked sig \<and> 0 < time_to_timeout now tol sig \<and> (time_to_timeout now tol sig < m \<or> m = 0)
      then time_to_timeout now tol sig else m)"

lemma periodic_loop_Cons:
  "periodic_loop now tol (sig # sigs) m =
     (let r = periodic_loop now tol sigs (next_min now tol sig m)
      in (check_signal now tol sig # fst r, snd r))"
  by (simp add: Let_def check_signal_def checked_def next_min_def case_prod_beta)

declare periodic_loop.simps(2) [simp del] periodic_loop_Cons [simp]

lemma periodic_loop_signals: "fst (periodic_loop now tol sigs m) = List.map (check_signal now tol) sigs"
  by (induction sigs arbitrary: m) (simp_all add: Let_def)

definition pending_times :: "int \<Rightarrow> int \<Rightarrow> hdb_signal list \<Rightarrow> int list" where
  "pending_times now tol sigs =
     List.map (time_to_timeout now tol)
       (filter (\<lambda>sig. checked sig \<and> 0 < time_to_timeout now tol sig) sigs)"

lemma periodic_loop_min:
  "0 < m \<Longrightarrow> snd (periodic_loop now tol sigs m) = fold min (pending_times now tol sigs) m"
proof (induction sigs arbitrary: m)
  case Nil
  then show ?case by (simp add: pending_times_def)
next
  case (Cons sig sigs)
  show ?case
  proof (cases "checked sig \<and> 0 < time_to_timeout now tol sig")
    case True
    then have "next_min now tol sig m = min (time_to_timeout now tol sig) m"
      using Cons.prems by (auto simp: next_min_def)
    moreover have "pending_times now tol (sig # sigs) = time_to_timeout now tol sig # pending_times now tol sigs"
      using True by (simp add: pending_times_def)
    ultimately show ?thesis using Cons True by (simp add: Let_def)
  next
    case False
    then have "next_min now tol sig m = m" "pending_times now tol (sig # sigs) = pending_times now tol sigs"
      by (auto simp: next_min_def pending_times_def)
    then show ?thesis using Cons by (simp add: Let_def)
  qed
qed

lemma check_periodic_inv: "table_inv s \<Longrightarrow> table_inv (snd (check_periodic_event_timeout now tol s))"
  by (simp add: check_periodic_event_timeout_def Let_def periodic_loop_signals check.map_inv)

lemma property_inv: "table_inv s \<Longrightarrow> table_inv (put_signal_property s)"
  by (auto simp: put_signal_property_def Let_def table_inv_def counters_ok_def)

end
