(* ===== verification/HdbSubscribe.thy ===== *)
theory HdbSubscribe
  imports HdbSteps
begin

text \<open>
  The subscription pass as a map over the signal table, the operations of the table as a transition
  system, and the facts about look-up and published lists.
\<close>

subsection \<open>The subscription pass\<close>

text \<open>What one pass does to one signal: the specification of the loop.\<close>

definition connect_signal :: "tango_env \<Rightarrow> int \<Rightarrow> hdb_signal \<Rightarrow> hdb_signal" where
  "connect_signal env now sig =
     (let c = reset_event_state now (sig\<lparr>sig_status := ''NOT connected'', attr := True\<rparr>)
      in case get_config env (sig_name sig) of Inl desc \<Rightarrow> c | Inr info \<Rightarrow> c\<lparr>sig_info := info\<rparr>)"

definition subscribe_signal :: "tango_env \<Rightarrow> int \<Rightarrow> hdb_signal \<Rightarrow> hdb_signal" where
  "subscribe_signal env now sig =
     (if \<not> to_subscribe sig then sig
      else if attr sig then subscribe_with_proxy env sig
      else (case new_proxy env (sig_name sig) of
              Some (reason, desc) \<Rightarrow> sig\<lparr>sig_status := desc\<rparr>
            | None \<Rightarrow> subscribe_with_proxy env (connect_signal env now sig)))"

interpretation connect_all: mode_preserving "connect_signal env now"
  by unfold_locales
    (simp_all add: connect_signal_def Let_def reset_event_state_def split: sum.split)

interpretation subscribe_all: mode_preserving "subscribe_signal env now"
  by unfold_locales
    (simp_all add: subscribe_signal_def connect_all.keeps_name connect_all.keeps_running
      connect_all.keeps_paused connect_all.keeps_stopped subscribe.keeps_name
      subscribe.keeps_running subscribe.keeps_paused subscribe.keeps_stopped split: option.split)

text \<open>The nested \<open>add\<close> connects the signal, or leaves an error.\<close>

lemma bump_nothing [simp]: "bump_action HDB_NOTHING s = s"
  by (simp add: bump_action_def)

lemma add_existing_eq:
  assumes "get_signal (sig_name (signals s ! i)) s = Found i"
  shows "add_signal env now (sig_name (signals s ! i)) c t HDB_NOTHING True s =
    (case new_proxy env (sig_name (signals s ! i)) of
       Some (reason, desc) \<Rightarrow>
         (Inl (DevFailed reason desc), set_signal i (\<lambda>sig. sig\<lparr>sig_status := ''NOT connected''\<rparr>) s)
     | None \<Rightarrow> (Inr (), set_signal i (connect_signal env now) s))"
  using assms get_signal_bound [OF assms]
  by (simp add: add_signal_def connect_signal_def Let_def set_signal_def split: option.split sum.split)

lemma set_signal_twice:
  "i < length (signals s) \<Longrightarrow> set_signal i f (set_signal i g s) = set_signal i (\<lambda>sig. f (g sig)) s"
  by (simp add: set_signal_def)

lemma set_signal_cong:
  "f (signals s ! i) = g (signals s ! i) \<Longrightarrow> set_signal i f s = set_signal i g s"
  by (simp add: set_signal_def)

lemma set_signal_id: "f (signals s ! i) = signals s ! i \<Longrightarrow> set_signal i f s = s"
  by (simp add: set_signal_def)

lemma subscribe_loop_step:
  assumes "distinct (List.map sig_name (signals s))" and "i < length (signals s)"
  shows "subscribe_loop env now i (Suc k) s =
    subscribe_loop env now (Suc i) k (set_signal i (subscribe_signal env now) s)"
proof -
  let ?sig = "signals s ! i"
  have found: "get_signal (sig_name ?sig) s = Found i" using assms by (rule get_signal_exact)
  consider "\<not> to_subscribe ?sig" | "to_subscribe ?sig" "attr ?sig"
    | reason desc where "to_subscribe ?sig" "\<not> attr ?sig" "new_proxy env (sig_name ?sig) = Some (reason, desc)"
    | "to_subscribe ?sig" "\<not> attr ?sig" "new_proxy env (sig_name ?sig) = None"
    by fastforce
  then show ?thesis
  proof cases
    case 1
    then show ?thesis by (simp add: Let_def set_signal_id subscribe_signal_def)
  next
    case 2
    then have "set_signal i (subscribe_with_proxy env) s = set_signal i (subscribe_signal env now) s"
      by (intro set_signal_cong) (simp add: subscribe_signal_def)
    then show ?thesis using 2 by (simp add: Let_def)
  next
    case 3
    then have "set_signal i (\<lambda>sig. sig\<lparr>sig_status := ''NOT connected'', sig_status := desc\<rparr>) s =
        set_signal i (subscribe_signal env now) s"
      by (intro set_signal_cong) (simp add: subscribe_signal_def)
    then show ?thesis using 3 assms(2) by (simp add: Let_def add_existing_eq [OF found] set_signal_twice)
  next
    case 4
    then have "set_signal i (\<lambda>sig. subscribe_with_proxy env (connect_signal env now sig)) s =
        set_signal i (subscribe_signal env now) s"
      by (intro set_signal_cong) (simp add: subscribe_signal_def)
    then show ?thesis using 4 assms(2) by (simp add: Let_def add_existing_eq [OF found] set_signal_twice)
  qed
qed

lemma subscribe_loop_eq:
  "distinct (List.map sig_name (signals s)) \<Longrightarrow> i + k = length (signals s) \<Longrightarrow>
   subscribe_loop env now i k s =
     (Inr (), s\<lparr>signals := take i (signals s) @ List.map (subscribe_signal env now) (drop i (signals s))\<rparr>)"
proof (induction k arbitrary: i s)
  case 0
  then show ?case by simp
next
  case (Suc k)
  let ?f = "subscribe_signal env now"
  have i: "i < length (signals s)" using Suc.prems by simp
  have "subscribe_loop env now i (Suc k) s = subscribe_loop env now (Suc i) k (set_signal i ?f s)"
    using Suc.prems(1) i by (rule subscribe_loop_step)
  also have "\<dots> = (Inr (), (set_signal i ?f s)\<lparr>signals := take (Suc i) (signals (set_signal i ?f s)) @
      List.map ?f (drop (Suc i) (signals (set_signal i ?f s)))\<rparr>)"
    using Suc.prems set_signal_names [OF subscribe_all.keeps_name, of i] by (intro Suc.IH) simp_all
  also have "take (Suc i) (signals (set_signal i ?f s)) @ List.map ?f (drop (Suc i) (signals (set_signal i ?f s)))
      = take i (signals s) @ List.map ?f (drop i (signals s))"
    using i by (simp add: set_signal_def take_Suc_conv_app_nth flip: Cons_nth_drop_Suc)
  finally show ?case by (simp add: set_signal_def)
qed

lemma subscribe_events_eq:
  assumes "distinct (List.map sig_name (signals s))"
  shows "subscribe_events env now s =
    (Inr (), s\<lparr>signals := List.map (subscribe_signal env now) (signals s), initialized := True\<rparr>)"
  using subscribe_loop_eq [OF assms, of 0 "length (signals s)" env now]
  by (simp add: subscribe_events_def)

text \<open>A signal is subscribed if each of the three Tango calls for it succeeds.\<close>

definition env_ok :: "tango_env \<Rightarrow> string \<Rightarrow> bool" where
  "env_ok env nm \<longleftrightarrow>
     new_proxy env nm = None \<and> (\<exists>info. get_config env nm = Inr info) \<and>
     (\<exists>e. subscribe_event env nm = Inr e \<and> fst e \<noteq> HDB_ERR)"

lemma subscribe_signal_done:
  "env_ok env (sig_name sig) \<Longrightarrow> \<not> to_subscribe (subscribe_signal env now sig)"
  by (auto simp: subscribe_signal_def env_ok_def to_subscribe_def subscribe_with_proxy_def Let_def
      connect_all.keeps_name)

lemma nb_zero_iff: "nb_sig_to_subscribe s = 0 \<longleftrightarrow> (\<forall>sig\<in>set (signals s). \<not> to_subscribe sig)"
  by (auto simp: nb_sig_to_subscribe_def count_if_def filter_empty_conv)


lemma initialized_inv: "table_inv (s\<lparr>initialized := b\<rparr>) = table_inv s"
  by (simp add: table_inv_def counters_ok_def)

lemma subscribe_events_inv:
  assumes "table_inv s"
  shows "table_inv (snd (subscribe_events env now s))"
  using subscribe_all.map_inv [OF assms, of env now] initialized_inv
  by (simp add: subscribe_events_eq [OF table_inv_D(3) [OF assms]] table_inv_def counters_ok_def)

lemma thread_round_eq:
  assumes "table_inv s"
  shows "snd (thread_round env now s) = snd (subscribe_events env now (put_signal_property s))"
    and "\<exists>w. fst (thread_round env now s) = Inr w"
  using subscribe_events_eq [OF table_inv_D(3) [OF property_inv [OF assms]], of env now]
  by (simp_all add: thread_round_def)

subsection \<open>The table as a transition system\<close>

text \<open>
  One step is one call of a public operation of the table by the device, an event callback or the
  subscription thread, with any arguments and any behaviour of Tango. A call that uses a null pointer
  has no successor. \<open>unsubscribe_events\<close> runs when the device is destroyed and is left out.
\<close>

definition defined :: "'a hdb_result \<Rightarrow> bool" where
  "defined r \<longleftrightarrow> fst r \<noteq> Inl Undefined"

inductive table_step :: "shared_data \<Rightarrow> shared_data \<Rightarrow> bool" where
  add: "r = add_new env now nm ctxs t s \<Longrightarrow> table_step s (snd r)"
| remove: "r = remove_signal nm False s \<Longrightarrow> defined r \<Longrightarrow> table_step s (snd r)"
| start: "r = start_signal env now nm s \<Longrightarrow> table_step s (snd r)"
| pause: "r = pause_signal nm s \<Longrightarrow> table_step s (snd r)"
| stop: "r = stop_signal nm s \<Longrightarrow> table_step s (snd r)"
| start_all: "table_step s (start_all s)"
| pause_all: "table_step s (pause_all s)"
| stop_all: "table_step s (stop_all s)"
| set_first: "table_step s (snd (set_first nm s))"
| set_first_err: "table_step s (snd (set_first_err nm s))"
| ok_event: "table_step s (snd (set_ok_event time now nm s))"
| nok_event: "table_step s (snd (set_nok_event time now nm s))"
| nok_periodic: "table_step s (snd (set_nok_periodic_event nm s))"
| conf_periodic: "table_step s (snd (set_conf_periodic_event p nm s))"
| check_periodic: "table_step s (snd (check_periodic_event_timeout now tol s))"
| reset: "table_step s (reset_statistics s)"
| reset_freq: "table_step s (reset_freq_statistics s)"
| update: "table_step s (snd (update_contexts nm ctxs s))"
| update_ttl: "table_step s (snd (updatettl nm t s))"
| thread: "table_step s (snd (thread_round env now s))"
| stop_thread: "table_step s (stop_thread s)"

inductive_cases table_stepE: "table_step s s'"

inductive table_reachable :: "shared_data \<Rightarrow> bool" where
  init: "table_reachable SharedData_new"
| step: "table_reachable s \<Longrightarrow> table_step s s' \<Longrightarrow> table_reachable s'"

lemma table_step_inv: "table_step s s' \<Longrightarrow> table_inv s \<Longrightarrow> table_inv s'"
proof (induction rule: table_step.induct)
  case (thread s env now)
  then show ?case
    using subscribe_events_inv [OF property_inv, of s env now] by (simp add: thread_round_eq(1))
next
  case (stop_thread s)
  then show ?case by (simp add: stop_thread_def table_inv_def counters_ok_def)
next
  case (reset s)
  then show ?case by (simp add: reset_statistics_def stats.map_inv)
next
  case (reset_freq s)
  then show ?case by (simp add: reset_freq_statistics_def freq_stats.map_inv)
qed (simp_all add: add_new_def add_signal_inv remove_signal_inv start_signal_inv pause_signal_inv
      stop_signal_inv all_inv set_first_def first.write_inv set_first_err_def first_err.write_inv
      set_ok_event_def ok.write_inv set_nok_event_def nok.write_inv set_nok_periodic_event_def
      timed_out.write_inv set_conf_periodic_event_def period.write_inv check_periodic_inv
      update_contexts_def set_contexts.update_inv updatettl_def set_ttl.update_inv)

lemma table_reachable_inv: "table_reachable s \<Longrightarrow> table_inv s"
  by (induction rule: table_reachable.induct) (auto simp: table_inv_new dest: table_step_inv)

subsection \<open>Published lists\<close>

lemma overwrite_eq:
  "length xs \<le> length ys \<Longrightarrow> overwrite xs ys = (xs, xs \<noteq> take (length xs) ys)"
  "length ys \<le> length xs \<Longrightarrow> overwrite xs ys = (take (length ys) xs, take (length ys) xs \<noteq> ys)"
  by (induction xs ys rule: overwrite.induct) (auto simp: Let_def)

text \<open>Refreshing a published list makes it the new one and tells whether it changed.\<close>

lemma refresh_list_eq: "refresh_list new old = (new, new \<noteq> old)"
proof -
  consider "length new < length old" | "length new = length old" | "length old < length new" by linarith
  then show ?thesis
  proof cases
    case 3
    then have "fst (overwrite new old) @ drop (length old) new = new" by (simp add: overwrite_eq(2))
    then show ?thesis using 3 by (auto simp: refresh_list_def Let_def)
  qed (auto simp: refresh_list_def Let_def overwrite_eq(1))
qed

lemma ttl_changed:
  "list_ex (\<lambda>i. (i < m \<and> i < n) \<and> g i \<noteq> f i) [0..<n] =
   ((\<lambda>i. if i < m \<and> i < n then g i else f i) \<noteq> f)"
  unfolding list_ex_iff fun_eq_iff set_upt by force

lemma list_num: "length (names_where P s) = count_if P (signals s)"
  by (simp add: names_where_def count_if_def)


subsection \<open>Adding and removing on the map of modes\<close>

lemma abs_modes_dom: "dom (abs_modes s) = sig_name ` set (signals s)"
  by (simp add: abs_modes_def dom_map_of_conv_image_fst image_image)

text \<open>A name of the table is found as itself.\<close>

lemma get_signal_dom:
  assumes "table_inv s" and "nm \<in> dom (abs_modes s)"
  obtains i where "get_signal nm s = Found i" and "i < length (signals s)"
    and "sig_name (signals s ! i) = nm"
proof -
  obtain i where "i < length (signals s)" "sig_name (signals s ! i) = nm"
    using assms(2) by (auto simp: abs_modes_dom in_set_conv_nth)
  then show ?thesis using that get_signal_exact [OF table_inv_D(3) [OF assms(1)]] by blast
qed

lemma map_of_erase_at:
  assumes "distinct (List.map fst xs)" and "i < length xs"
  shows "map_of (erase_at i xs) = (map_of xs)(fst (xs ! i) := None)"
  using assms
proof (induction xs arbitrary: i)
  case Nil
  then show ?case by simp
next
  case (Cons x xs)
  show ?case
  proof (cases i)
    case 0
    have "map_of xs (fst x) = None" using Cons.prems(1) by (simp add: map_of_eq_None_iff)
    then show ?thesis using 0 by (auto simp: fun_eq_iff)
  next
    case (Suc j)
    then have "fst (xs ! j) \<in> set (List.map fst xs)" using Cons.prems by simp
    then have "fst x \<noteq> fst (xs ! j)" using Cons.prems(1) by (metis distinct.simps(2) list.simps(9))
    then show ?thesis using Suc Cons.IH [of j] Cons.prems by (cases x) (auto simp: fun_eq_iff)
  qed
qed

lemma abs_modes_erase:
  assumes "distinct (List.map sig_name (signals s))" and "i < length (signals s)"
    and "signals s' = erase_at i (signals s)"
  shows "abs_modes s' = (abs_modes s)(sig_name (signals s ! i) := None)"
  using map_of_erase_at [of "List.map (\<lambda>sig. (sig_name sig, mode_of sig)) (signals s)" i] assms
  by (simp add: abs_modes_def map_erase_at comp_def)

lemma abs_modes_append:
  assumes "signals s' = signals s @ [sig]" and "sig_name sig \<notin> sig_name ` set (signals s)"
  shows "abs_modes s' = (abs_modes s)(sig_name sig \<mapsto> mode_of sig)"
proof -
  have "map_of (List.map (\<lambda>sig. (sig_name sig, mode_of sig)) (signals s)) (sig_name sig) = None"
    using assms(2) by (simp add: map_of_eq_None_iff image_image)
  then show ?thesis using assms(1) by (auto simp: abs_modes_def fun_eq_iff map_add_def split: option.split)
qed

lemma add_new_abs:
  assumes "get_signal nm s = Missing" and "find_last_char (CHR ''/'') nm = Some idx"
  shows "fst (add_new env now nm ctxs t s) = Inr ()"
    and "abs_modes (snd (add_new env now nm ctxs t s)) = (abs_modes s)(nm \<mapsto> MStopped)"
proof -
  have "nm \<notin> sig_name ` set (signals s)"
    using lookup_name_Missing [OF assms(1) [unfolded get_signal_def]] by simp
  moreover have "sig_name (reset_event_state now (new_signal nm idx ctxs t)) = nm"
    "mode_of (reset_event_state now (new_signal nm idx ctxs t)) = MStopped"
    by (simp_all add: reset_event_state_def new_signal_def mode_of_def)
  ultimately show "abs_modes (snd (add_new env now nm ctxs t s)) = (abs_modes s)(nm \<mapsto> MStopped)"
    using abs_modes_append [of "snd (add_new env now nm ctxs t s)" s
        "reset_event_state now (new_signal nm idx ctxs t)"] assms
    by (simp add: add_new_def add_signal_def Let_def)
  show "fst (add_new env now nm ctxs t s) = Inr ()"
    using assms by (simp add: add_new_def add_signal_def Let_def)
qed

lemma remove_abs:
  assumes "table_inv s" and "get_signal nm s = Found i"
  shows "fst (remove_signal nm False s) = Inr ()"
    and "abs_modes (snd (remove_signal nm False s)) = (abs_modes s)(sig_name (signals s ! i) := None)"
  using assms abs_modes_erase [OF table_inv_D(3) [OF assms(1)] get_signal_bound [OF assms(2)]]
  by (simp_all add: remove_signal_def Let_def)

end
