(* ===== verification/HdbConfig.thy ===== *)
theory HdbConfig
  imports HdbSubscribe
begin

text \<open>
  The configuration entries of the archiving device (property \<open>AttributeList\<close>):
  \<open>name;strategy=A|B;ttl=5\<close>. Reading and completing them (\<open>HdbDevice::get_hdb_signal_list\<close>,
  \<open>HdbDevice::build_signal_vector\<close> of \<open>HdbDevice.cpp\<close>) and the round trip with \<open>conf_string\<close>, which
  writes them.
\<close>

subsection \<open>Numbers\<close>

text \<open>
  Extraction of an unsigned 32-bit number from a string stream: white space, a sign, digits. Without
  digits the result is 0, out of range it is the maximum, and a negative number wraps.
\<close>

definition is_space :: "char \<Rightarrow> bool" where
  "is_space c = (c = CHR '' '' \<or> (9 \<le> (of_char c :: nat) \<and> (of_char c :: nat) \<le> 13))"

definition is_digit :: "char \<Rightarrow> bool" where
  "is_digit c = (48 \<le> (of_char c :: nat) \<and> (of_char c :: nat) \<le> 57)"

definition digit_value :: "char \<Rightarrow> nat" where
  "digit_value c = (of_char c :: nat) - 48"

definition digits_value :: "string \<Rightarrow> nat" where
  "digits_value ds = fold (\<lambda>c n. 10 * n + digit_value c) ds 0"

definition bounded_u32 :: "bool \<Rightarrow> nat \<Rightarrow> u32" where
  "bounded_u32 negative n =
     (if n < 2 ^ 32 then (if negative then - of_nat n else of_nat n) else of_nat (2 ^ 32 - 1))"

definition read_u32 :: "string \<Rightarrow> u32" where
  "read_u32 str =
     (case dropWhile is_space str of
        [] \<Rightarrow> 0
      | c # cs \<Rightarrow>
          if c = CHR ''-'' then bounded_u32 True (digits_value (takeWhile is_digit cs))
          else if c = CHR ''+'' then bounded_u32 False (digits_value (takeWhile is_digit cs))
          else bounded_u32 False (digits_value (takeWhile is_digit (c # cs))))"

subsection \<open>Entries\<close>

definition CONTEXT_KEY :: string where "CONTEXT_KEY = ''strategy''"
definition TTL_KEY :: string where "TTL_KEY = ''ttl''"
definition DEFAULT_TTL :: u32 where "DEFAULT_TTL = 0"

text \<open>The default strategy and time to live of an entry that lacks them.\<close>

definition end_semicolon :: "string \<Rightarrow> string" where
  "end_semicolon conf = (if last conf \<noteq> CHR '';'' then conf @ '';'' else conf)"

definition complete_conf :: "string \<Rightarrow> string \<Rightarrow> string" where
  "complete_conf defaultStrategy conf =
     (let pos_strat = str_find (CONTEXT_KEY @ ''='') conf 0;
          pos_ttl = str_find (TTL_KEY @ ''='') conf 0;
          ssttl = show_nat (unat DEFAULT_TTL)
      in if length conf = 0 \<or> (pos_strat = None \<and> pos_ttl = None) then
           CONTEXT_KEY @ ''='' @ defaultStrategy @ TTL_KEY @ ''='' @ ssttl
         else if pos_strat \<noteq> None \<and> pos_ttl = None then
           end_semicolon conf @ TTL_KEY @ ''='' @ ssttl
         else if pos_strat = None \<and> pos_ttl \<noteq> None then
           end_semicolon conf @ CONTEXT_KEY @ ''='' @ defaultStrategy
         else conf)"

definition complete_entry :: "string \<Rightarrow> string \<Rightarrow> string \<times> string" where
  "complete_entry defaultStrategy e =
     (case find_index (\<lambda>c. c = CHR '';'') e of
        Some i \<Rightarrow>
          if i > 0 then (take i e, complete_conf defaultStrategy (drop (Suc i) e))
          else (e, CONTEXT_KEY @ ''='' @ defaultStrategy @ '';'' @ TTL_KEY @ ''='' @ show_nat (unat DEFAULT_TTL))
      | None \<Rightarrow>
          (e, CONTEXT_KEY @ ''='' @ defaultStrategy @ '';'' @ TTL_KEY @ ''='' @ show_nat (unat DEFAULT_TTL)))"

text \<open>
  The list of the entries: empty ones and comments are skipped, the names are completed with the
  Tango host (\<open>fix\<close>, which may throw: the error leaves the function).
\<close>

fun get_hdb_signal_list ::
  "(string \<Rightarrow> domain_map \<Rightarrow> (string \<times> domain_map) option) \<Rightarrow> string \<Rightarrow> string list \<Rightarrow> domain_map \<Rightarrow>
     (string list \<times> domain_map) option"
where
  "get_hdb_signal_list fix defaultStrategy [] dm = Some ([], dm)"
| "get_hdb_signal_list fix defaultStrategy (e # es) dm =
     (if length e > 0 \<and> hd e \<noteq> CHR ''#'' then
        (case fix (fst (complete_entry defaultStrategy e)) dm of
           None \<Rightarrow> None
         | Some (name, dm1) \<Rightarrow>
             map_option
               (\<lambda>(list, dm2). ((name @ '';'' @ snd (complete_entry defaultStrategy e)) # list, dm2))
               (get_hdb_signal_list fix defaultStrategy es dm1))
      else get_hdb_signal_list fix defaultStrategy es dm)"

text \<open>One \<open>key=value\<close> part; the first value of a key counts.\<close>

definition key_value :: "string \<Rightarrow> (string \<times> string) list" where
  "key_value part =
     (case find_index (\<lambda>c. c = CHR ''='') part of
        Some i \<Rightarrow> if i > 0 then [(take i part, drop (Suc i) part)] else []
      | None \<Rightarrow> [])"

definition conf_map :: "string list \<Rightarrow> string \<rightharpoonup> string" where
  "conf_map parts = map_of (concat (List.map key_value parts))"

definition default_contexts :: "string \<Rightarrow> string list" where
  "default_contexts defaultStrategy =
     (case str_find (CONTEXT_KEY @ ''='') defaultStrategy 0 of
        None \<Rightarrow> []
      | Some pos \<Rightarrow>
          string_explode (drop (pos + length (CONTEXT_KEY @ ''='')) defaultStrategy) (CHR ''|''))"

text \<open>
  The name, contexts and time to live of an entry; \<open>None\<close> when the entry has no part, where the code
  reads the first element of an empty vector.
\<close>

definition parse_entry :: "string \<Rightarrow> string \<Rightarrow> (string \<times> string list \<times> u32) option" where
  "parse_entry defaultStrategy e =
     (case string_explode e (CHR '';'') of
        [] \<Rightarrow> None
      | [name] \<Rightarrow> Some (name, [], DEFAULT_TTL)
      | name # v_conf \<Rightarrow>
          let db_conf = conf_map v_conf;
              contexts = (case db_conf CONTEXT_KEY of
                            Some s_contexts \<Rightarrow> string_explode s_contexts (CHR ''|'')
                          | None \<Rightarrow> default_contexts defaultStrategy);
              t = (case db_conf TTL_KEY of Some s_ttl \<Rightarrow> read_u32 s_ttl | None \<Rightarrow> DEFAULT_TTL)
          in Some (name, contexts, t))"

text \<open>Unknown contexts are dropped, the others get their configured spelling.\<close>

definition adjusted_contexts :: "(string \<rightharpoonup> string) \<Rightarrow> string list \<Rightarrow> string list" where
  "adjusted_contexts contexts_map_upper ctxs =
     concat (List.map (\<lambda>c. case contexts_map_upper (to_upper c) of None \<Rightarrow> [] | Some c' \<Rightarrow> [c']) ctxs)"

subsection \<open>Splitting what was joined\<close>

lemma find_index_at: "\<lbrakk>c \<notin> set a; P = (\<lambda>d. d = c)\<rbrakk> \<Longrightarrow> find_index P (a @ c # r) = Some (length a)"
  by (induction a) auto

lemma find_index_absent: "c \<notin> set a \<Longrightarrow> find_index (\<lambda>d. d = c) a = None"
  by auto

lemma explode_last: "sep \<notin> set a \<Longrightarrow> a \<noteq> [] \<Longrightarrow> string_explode a sep = [a]"
  using find_index_absent [of sep a] by (subst string_explode.simps) (simp del: find_index_None)

lemma explode_empty [simp]: "string_explode [] sep = []"
  by (subst string_explode.simps) simp

lemma explode_cons:
  "sep \<notin> set a \<Longrightarrow> a \<noteq> [] \<Longrightarrow> string_explode (a @ sep # r) sep = a # string_explode r sep"
  by (subst string_explode.simps) (simp add: find_index_at)

lemma explode_join:
  "list_all (\<lambda>c. c \<noteq> [] \<and> CHR ''|'' \<notin> set c) cs \<Longrightarrow> string_explode (join_contexts cs) (CHR ''|'') = cs"
  by (induction cs rule: join_contexts.induct) (simp_all add: explode_last explode_cons)

lemma set_join:
  "list_all (\<lambda>c. x \<notin> set c) cs \<Longrightarrow> x \<noteq> CHR ''|'' \<Longrightarrow> x \<notin> set (join_contexts cs)"
  by (induction cs rule: join_contexts.induct) auto

subsection \<open>Decimal notation\<close>

declare show_nat.simps [simp del]

lemma show_nat_digits: "list_all is_digit (show_nat n)"
proof (induction n rule: show_nat.induct)
  case (1 n)
  have "is_digit (char_of (48 + n mod 10))"
    by (simp add: is_digit_def take_bit_eq_mod)
  then show ?case
    using 1 show_nat.simps [of n] by (cases "n < 10") (simp_all add: Let_def)
qed

lemma show_nat_nonempty: "show_nat n \<noteq> []"
  by (subst show_nat.simps) (simp add: Let_def)

lemma digits_value_snoc: "digits_value (ds @ [c]) = 10 * digits_value ds + digit_value c"
  by (simp add: digits_value_def)

lemma digits_value_show: "digits_value (show_nat n) = n"
proof (induction n rule: show_nat.induct)
  case (1 n)
  have d: "digit_value (char_of (48 + n mod 10)) = n mod 10"
    by (simp add: digit_value_def take_bit_eq_mod)
  show ?case
  proof (cases "n < 10")
    case True
    then show ?thesis using d by (subst show_nat.simps) (simp add: Let_def digits_value_def)
  next
    case False
    then have "digits_value (show_nat (n div 10)) = n div 10" using 1 by (simp add: Let_def)
    then show ?thesis using d False by (subst show_nat.simps) (simp add: Let_def digits_value_snoc)
  qed
qed

lemma digit_not: "is_digit c \<Longrightarrow> \<not> is_space c \<and> c \<noteq> CHR ''-'' \<and> c \<noteq> CHR ''+'' \<and> c \<noteq> CHR '';''"
  by (auto simp: is_digit_def is_space_def)

lemma read_show:
  assumes "n < 2 ^ 32"
  shows "read_u32 (show_nat n) = of_nat n"
proof -
  obtain c cs where c: "show_nat n = c # cs" using show_nat_nonempty by (cases "show_nat n") auto
  have digits: "is_digit c" using show_nat_digits [of n] by (simp add: c)
  have tw: "takeWhile is_digit (show_nat n) = show_nat n"
    using show_nat_digits [of n] by (simp only: takeWhile_eq_all_conv list_all_iff)
  have "read_u32 (show_nat n) = bounded_u32 False (digits_value (takeWhile is_digit (c # cs)))"
    using digit_not [OF digits] by (simp add: read_u32_def c)
  also have "\<dots> = of_nat n"
    using assms unfolding c [symmetric] tw digits_value_show by (simp add: bounded_u32_def)
  finally show ?thesis .
qed

lemma show_nat_chars: "x \<in> set (show_nat n) \<Longrightarrow> is_digit x"
  using show_nat_digits [of n] by (simp add: list_all_iff)

subsection \<open>The round trip\<close>

text \<open>Contexts that a strategy can be made of, and names that an entry can hold.\<close>

definition context_ok :: "string \<Rightarrow> bool" where
  "context_ok c \<longleftrightarrow> c \<noteq> [] \<and> CHR ''|'' \<notin> set c \<and> CHR '';'' \<notin> set c"

definition name_ok :: "string \<Rightarrow> bool" where
  "name_ok nm \<longleftrightarrow> nm \<noteq> [] \<and> CHR '';'' \<notin> set nm"

lemma key_value_at: "key \<noteq> [] \<Longrightarrow> CHR ''='' \<notin> set key \<Longrightarrow> key_value (key @ CHR ''='' # v) = [(key, v)]"
  by (simp add: key_value_def find_index_at)

lemma key_parts:
  "key_value (''strategy='' @ v) = [(CONTEXT_KEY, v)]" "key_value (''ttl='' @ v) = [(TTL_KEY, v)]"
  using key_value_at [of CONTEXT_KEY v] key_value_at [of TTL_KEY v]
  by (simp_all add: CONTEXT_KEY_def TTL_KEY_def)

lemma parse_both:
  assumes "name_ok nm" and "CHR '';'' \<notin> set s" and "CHR '';'' \<notin> set t"
  shows "parse_entry dflt (nm @ '';strategy='' @ s @ '';ttl='' @ t) =
    Some (nm, string_explode s (CHR ''|''), read_u32 t)"
proof -
  have "string_explode (nm @ CHR '';'' # (''strategy='' @ s) @ CHR '';'' # (''ttl='' @ t)) (CHR '';'') =
      [nm, ''strategy='' @ s, ''ttl='' @ t]"
    using assms by (subst explode_cons; (subst explode_cons)?) (simp_all add: name_ok_def explode_last)
  moreover have "conf_map [''strategy='' @ s, ''ttl='' @ t] = [CONTEXT_KEY \<mapsto> s, TTL_KEY \<mapsto> t]"
    unfolding conf_map_def
    by (simp only: list.map key_parts concat.simps) (simp add: fun_eq_iff CONTEXT_KEY_def TTL_KEY_def)
  moreover have "CONTEXT_KEY \<noteq> TTL_KEY" by (simp add: CONTEXT_KEY_def TTL_KEY_def)
  ultimately show ?thesis by (simp add: parse_entry_def)
qed

lemma parse_conf_string:
  assumes "name_ok (sig_name sig)" and "list_all context_ok (contexts sig)"
  shows "parse_entry dflt (conf_string sig) = Some (sig_name sig, contexts sig, ttl sig)"
proof -
  let ?s = "join_contexts (contexts sig)" and ?t = "show_nat (unat (ttl sig))"
  have "CHR '';'' \<notin> set ?s"
    using assms(2) by (intro set_join) (auto simp: list_all_iff context_ok_def)
  moreover have "CHR '';'' \<notin> set ?t" using show_nat_chars [of "CHR '';''"] digit_not by blast
  ultimately have "parse_entry dflt (conf_string sig) =
      Some (sig_name sig, string_explode ?s (CHR ''|''), read_u32 ?t)"
    using parse_both [OF assms(1)] by (simp add: conf_string_def)
  moreover have "string_explode ?s (CHR ''|'') = contexts sig"
    using assms(2) by (intro explode_join) (auto simp: list_all_iff context_ok_def)
  moreover have "read_u32 ?t = ttl sig"
    using read_show [of "unat (ttl sig)"] unsigned_less [of "ttl sig"] by simp
  ultimately show ?thesis by simp
qed

text \<open>An entry that has both keys is not completed.\<close>

lemma find_sub_here: "find_sub pat (pat @ b) \<noteq> None"
proof (cases "pat @ b")
  case (Cons x xs)
  then have "take (length pat) (x # xs) = pat" by (metis append_eq_conv_conj)
  then show ?thesis by (simp add: Cons)
qed simp

lemma find_sub_prefix: "find_sub pat (a @ pat @ b) \<noteq> None"
  using find_sub_here by (induction a) auto

lemma str_find_prefix: "str_find pat (a @ pat @ b) 0 \<noteq> None"
  using find_sub_prefix by (simp add: str_find_def)

lemma complete_conf_both:
  "str_find (CONTEXT_KEY @ ''='') conf 0 \<noteq> None \<Longrightarrow> str_find (TTL_KEY @ ''='') conf 0 \<noteq> None \<Longrightarrow>
     conf \<noteq> [] \<Longrightarrow> complete_conf dflt conf = conf"
  by (auto simp: complete_conf_def Let_def)

lemma complete_entry_at:
  "name_ok nm \<Longrightarrow> complete_entry dflt (nm @ CHR '';'' # conf) = (nm, complete_conf dflt conf)"
  using find_index_at [of "CHR '';''" nm "\<lambda>c. c = CHR '';''" conf]
  by (simp add: complete_entry_def name_ok_def)

lemma complete_both:
  assumes "name_ok nm"
  shows "complete_entry dflt (nm @ '';strategy='' @ s @ '';ttl='' @ t) =
    (nm, ''strategy='' @ s @ '';ttl='' @ t)"
proof -
  let ?conf = "''strategy='' @ s @ '';ttl='' @ t"
  have "str_find (CONTEXT_KEY @ ''='') ?conf 0 \<noteq> None"
    using str_find_prefix [of "CONTEXT_KEY @ ''=''" "[]"] by (simp add: CONTEXT_KEY_def)
  moreover have "str_find (TTL_KEY @ ''='') ?conf 0 \<noteq> None"
    using str_find_prefix [of "TTL_KEY @ ''=''" "''strategy='' @ s @ '';''" t] by (simp add: TTL_KEY_def)
  ultimately have "complete_conf dflt ?conf = ?conf" by (rule complete_conf_both) simp
  then show ?thesis using complete_entry_at [OF assms, of dflt ?conf] by simp
qed

text \<open>Configured contexts keep their spelling.\<close>

lemma adjusted_id:
  "\<forall>c\<in>set ctxs. m (to_upper c) = Some c \<Longrightarrow> adjusted_contexts m ctxs = ctxs"
  by (induction ctxs) (simp_all add: adjusted_contexts_def)

text \<open>The completed forms of a bare name and of a name with an empty configuration part.\<close>

lemma show_zero: "show_nat (unat DEFAULT_TTL) = ''0''"
  by (subst show_nat.simps) (simp add: DEFAULT_TTL_def char_of_eq_iff take_bit_eq_mod)

lemma complete_bare:
  assumes "name_ok nm"
  shows "complete_entry dflt nm = (nm, ''strategy='' @ dflt @ '';ttl=0'')"
    and "complete_entry dflt (nm @ '';'') = (nm, ''strategy='' @ dflt @ ''ttl=0'')"
proof -
  have "find_index (\<lambda>c. c = CHR '';'') nm = None"
    using assms by (intro find_index_absent) (simp add: name_ok_def)
  then show "complete_entry dflt nm = (nm, ''strategy='' @ dflt @ '';ttl=0'')"
    unfolding complete_entry_def show_zero
    by (simp add: CONTEXT_KEY_def TTL_KEY_def del: find_index_None)
  show "complete_entry dflt (nm @ '';'') = (nm, ''strategy='' @ dflt @ ''ttl=0'')"
    unfolding complete_entry_at [OF assms] complete_conf_def show_zero
    by (simp add: CONTEXT_KEY_def TTL_KEY_def)
qed

lemma parse_strategy:
  assumes "name_ok nm" and "CHR '';'' \<notin> set s"
  shows "parse_entry dflt (nm @ '';strategy='' @ s) = Some (nm, string_explode s (CHR ''|''), DEFAULT_TTL)"
proof -
  have "string_explode (nm @ CHR '';'' # ''strategy='' @ s) (CHR '';'') = [nm, ''strategy='' @ s]"
    using assms by (subst explode_cons) (simp_all add: name_ok_def explode_last)
  moreover have "conf_map [''strategy='' @ s] = [CONTEXT_KEY \<mapsto> s]"
    unfolding conf_map_def by (simp only: list.map key_parts concat.simps) simp
  moreover have "CONTEXT_KEY \<noteq> TTL_KEY" by (simp add: CONTEXT_KEY_def TTL_KEY_def)
  ultimately show ?thesis by (simp add: parse_entry_def)
qed

lemma read_zero: "read_u32 ''0'' = 0"
  using read_show [of 0] show_zero by (simp add: DEFAULT_TTL_def)

end
