(* ===== verification/HdbPush.thy ===== *)
theory HdbPush
  imports HdbSubscribe Complex_Main
begin

text \<open>
  Classes \<open>PushThreadShared\<close> and \<open>PushThread\<close> of
  \<open>src/devices/archiving/HdbEventSubscriber/PushThread.cpp\<close> and \<open>PushThread.h\<close>: the queue of the
  commands for the archive, the statistics of the store operations per signal, and the thread that
  executes the commands. The global minima and maxima that the code keeps in the device are fields
  here.

  A \<open>double\<close> is a real number; \<open>fl\<close> is the rounding of the arithmetic operations. When the counter of
  successes is at its maximum, the next mean divides by zero; the model covers the counters below it.
  The archive (\<open>libhdb++\<close>) and the clock are arguments.
\<close>

subsection \<open>State\<close>

datatype op_code =
  DB_INSERT | DB_START | DB_STOP | DB_REMOVE | DB_INSERT_PARAM | DB_PAUSE | DB_UPDATETTL

text \<open>A command for the archive; a null pointer is \<open>None\<close>. Event data: the name and the date in seconds.\<close>

record hdb_cmd =
  cmd_op :: op_code
  ev_data :: "(string \<times> real) option"
  ev_data_param :: "string option"
  cmd_attr_name :: string
  cmd_ttl :: u32

record hdb_stat =
  st_name :: string
  nokdb_counter :: u32
  nokdb_counter_freq :: u32
  okdb_counter :: u32
  dbstate :: dev_state
  dberror :: string
  process_time_avg :: real
  process_time_min :: real
  process_time_max :: real
  store_time_avg :: real
  store_time_min :: real
  store_time_max :: real
  last_nokdb :: "timestamp option" \<comment> \<open>\<open>None\<close>: never written\<close>

record push_shared =
  cmd_events :: "hdb_cmd list"
  max_waiting :: nat
  push_stop_it :: bool
  stats :: "hdb_stat list"
  pending_number :: nat
  max_pending_number :: nat
  min_store_time :: real
  max_store_time :: real
  min_process_time :: real
  max_process_time :: real

definition PushThreadShared_new :: push_shared where
  "PushThreadShared_new =
     \<lparr>cmd_events = [], max_waiting = 0, push_stop_it = False, stats = [], pending_number = 0,
      max_pending_number = 0, min_store_time = -1, max_store_time = -1, min_process_time = -1,
      max_process_time = -1\<rparr>"

type_synonym 'a push_result = "(hdb_error + 'a) \<times> push_shared"

subsection \<open>The command queue\<close>

definition push_back_cmd :: "hdb_cmd \<Rightarrow> push_shared \<Rightarrow> push_shared" where
  "push_back_cmd cmd p =
     (let evs = cmd_events p @ [cmd];
          mw = (if max_waiting p < length evs then length evs else max_waiting p)
      in p\<lparr>cmd_events := evs, max_waiting := mw, pending_number := length evs, max_pending_number := mw\<rparr>)"

definition nb_cmd_waiting :: "push_shared \<Rightarrow> nat" where
  "nb_cmd_waiting p = length (cmd_events p)"

definition get_max_waiting :: "push_shared \<Rightarrow> nat" where
  "get_max_waiting p = max_waiting p"

text \<open>The published number of pending commands is set before the command is taken.\<close>

definition get_next_cmd :: "push_shared \<Rightarrow> hdb_cmd option \<times> push_shared" where
  "get_next_cmd p =
     (let p1 = p\<lparr>pending_number := length (cmd_events p)\<rparr> in
      case cmd_events p of
        [] \<Rightarrow> (None, p1)
      | cmd # cmds \<Rightarrow> (Some cmd, p1\<lparr>cmd_events := cmds\<rparr>))"

text \<open>The name of a waiting command; \<open>None\<close> when the pointer it is read from is null.\<close>

definition waiting_name :: "hdb_cmd \<Rightarrow> string option" where
  "waiting_name cmd =
     (case cmd_op cmd of
        DB_INSERT \<Rightarrow> map_option fst (ev_data cmd)
      | DB_INSERT_PARAM \<Rightarrow> ev_data_param cmd
      | _ \<Rightarrow> Some (cmd_attr_name cmd))"

definition get_sig_list_waiting :: "push_shared \<Rightarrow> hdb_error + string list" where
  "get_sig_list_waiting p =
     (if list_all (\<lambda>cmd. waiting_name cmd \<noteq> None) (cmd_events p)
      then Inr (List.map (\<lambda>cmd. the (waiting_name cmd)) (cmd_events p))
      else Inl Undefined)"

definition named_cmd :: "op_code \<Rightarrow> string \<Rightarrow> hdb_cmd" where
  "named_cmd op signame =
     \<lparr>cmd_op = op, ev_data = None, ev_data_param = None, cmd_attr_name = signame, cmd_ttl = 0\<rparr>"

definition start_attr :: "string \<Rightarrow> push_shared \<Rightarrow> push_shared" where
  "start_attr signame = push_back_cmd (named_cmd DB_START signame)"

definition pause_attr :: "string \<Rightarrow> push_shared \<Rightarrow> push_shared" where
  "pause_attr signame = push_back_cmd (named_cmd DB_PAUSE signame)"

definition stop_attr :: "string \<Rightarrow> push_shared \<Rightarrow> push_shared" where
  "stop_attr signame = push_back_cmd (named_cmd DB_STOP signame)"

definition remove_attr :: "string \<Rightarrow> push_shared \<Rightarrow> push_shared" where
  "remove_attr signame = push_back_cmd (named_cmd DB_REMOVE signame)"

definition push_updatettl :: "string \<Rightarrow> u32 \<Rightarrow> push_shared \<Rightarrow> push_shared" where
  "push_updatettl signame t = push_back_cmd ((named_cmd DB_UPDATETTL signame)\<lparr>cmd_ttl := t\<rparr>)"

text \<open>One command per signal that has statistics.\<close>

definition push_all :: "op_code \<Rightarrow> push_shared \<Rightarrow> push_shared" where
  "push_all op p = fold (\<lambda>st. push_back_cmd (named_cmd op (st_name st))) (stats p) p"

definition push_start_all :: "push_shared \<Rightarrow> push_shared" where
  "push_start_all = push_all DB_START"

definition push_pause_all :: "push_shared \<Rightarrow> push_shared" where
  "push_pause_all = push_all DB_PAUSE"

definition push_stop_all :: "push_shared \<Rightarrow> push_shared" where
  "push_stop_all = push_all DB_STOP"

definition push_stop_thread :: "push_shared \<Rightarrow> push_shared" where
  "push_stop_thread p = p\<lparr>push_stop_it := True\<rparr>"

definition push_get_if_stop :: "push_shared \<Rightarrow> bool" where
  "push_get_if_stop p = push_stop_it p"

subsection \<open>Statistics\<close>

definition find_stat :: "string \<Rightarrow> push_shared \<Rightarrow> lookup" where
  "find_stat signame p = lookup_name signame (List.map st_name (stats p))"

definition push_remove :: "string \<Rightarrow> push_shared \<Rightarrow> unit push_result" where
  "push_remove signame p =
     (case find_stat signame p of
        Found i \<Rightarrow> (Inr (), p\<lparr>stats := erase_at i (stats p)\<rparr>)
      | Missing \<Rightarrow> (Inr (), p)
      | LookupThrows \<Rightarrow> (Inl StdException, p))"

definition push_reset_statistics :: "push_shared \<Rightarrow> push_shared" where
  "push_reset_statistics p =
     p\<lparr>stats := List.map (\<lambda>st. st\<lparr>nokdb_counter := 0, okdb_counter := 0, store_time_avg := 0,
           store_time_min := -1, store_time_max := -1, process_time_avg := 0,
           process_time_min := -1, process_time_max := -1\<rparr>) (stats p),
       min_store_time := -1, max_store_time := -1, min_process_time := -1, max_process_time := -1,
       max_waiting := 0\<rparr>"

definition push_reset_freq_statistics :: "push_shared \<Rightarrow> push_shared" where
  "push_reset_freq_statistics p =
     p\<lparr>stats := List.map (\<lambda>st. st\<lparr>nokdb_counter_freq := 0\<rparr>) (stats p)\<rparr>"

definition db_on_error_list :: "push_shared \<Rightarrow> string list" where
  "db_on_error_list p = List.map st_name (filter (\<lambda>st. dbstate st = ST_ALARM) (stats p))"

definition db_on_error_num :: "push_shared \<Rightarrow> nat" where
  "db_on_error_num p = count_if (\<lambda>st. dbstate st = ST_ALARM) (stats p)"

definition db_not_on_error_list :: "push_shared \<Rightarrow> string list" where
  "db_not_on_error_list p = List.map st_name (filter (\<lambda>st. dbstate st = ST_ON) (stats p))"

definition db_not_on_error_num :: "push_shared \<Rightarrow> nat" where
  "db_not_on_error_num p = count_if (\<lambda>st. dbstate st = ST_ON) (stats p)"

definition db_state :: "push_shared \<Rightarrow> dev_state" where
  "db_state p = (if list_ex (\<lambda>st. dbstate st = ST_ALARM) (stats p) then ST_ALARM else ST_ON)"

text \<open>The getters return a default for a signal without statistics.\<close>

definition read_stat :: "(hdb_stat \<Rightarrow> 'a) \<Rightarrow> 'a \<Rightarrow> string \<Rightarrow> push_shared \<Rightarrow> hdb_error + 'a" where
  "read_stat f dflt signame p =
     (case find_stat signame p of
        Found i \<Rightarrow> Inr (f (stats p ! i))
      | Missing \<Rightarrow> Inr dflt
      | LookupThrows \<Rightarrow> Inl StdException)"

definition STATUS_DB_ERROR :: string where
  "STATUS_DB_ERROR = ''Storing Error''"

definition db_sig_state :: "string \<Rightarrow> push_shared \<Rightarrow> hdb_error + dev_state" where
  "db_sig_state = read_stat dbstate ST_ON"

definition db_sig_status :: "string \<Rightarrow> push_shared \<Rightarrow> hdb_error + string" where
  "db_sig_status = read_stat dberror STATUS_DB_ERROR"

definition get_nok_db :: "string \<Rightarrow> push_shared \<Rightarrow> hdb_error + u32" where
  "get_nok_db = read_stat nokdb_counter 0"

definition get_nok_db_freq :: "string \<Rightarrow> push_shared \<Rightarrow> hdb_error + u32" where
  "get_nok_db_freq = read_stat nokdb_counter_freq 0"

definition get_avg_store_time :: "string \<Rightarrow> push_shared \<Rightarrow> hdb_error + real" where
  "get_avg_store_time = read_stat store_time_avg (-1)"

definition get_min_store_time :: "string \<Rightarrow> push_shared \<Rightarrow> hdb_error + real" where
  "get_min_store_time = read_stat store_time_min (-1)"

definition get_max_store_time :: "string \<Rightarrow> push_shared \<Rightarrow> hdb_error + real" where
  "get_max_store_time = read_stat store_time_max (-1)"

definition get_avg_process_time :: "string \<Rightarrow> push_shared \<Rightarrow> hdb_error + real" where
  "get_avg_process_time = read_stat process_time_avg (-1)"

definition get_min_process_time :: "string \<Rightarrow> push_shared \<Rightarrow> hdb_error + real" where
  "get_min_process_time = read_stat process_time_min (-1)"

definition get_max_process_time :: "string \<Rightarrow> push_shared \<Rightarrow> hdb_error + real" where
  "get_max_process_time = read_stat process_time_max (-1)"

definition get_last_nokdb :: "string \<Rightarrow> push_shared \<Rightarrow> hdb_error + timestamp option" where
  "get_last_nokdb = read_stat last_nokdb (Some 0)"

subsection \<open>Recording a store operation\<close>

definition min_time :: "real \<Rightarrow> real \<Rightarrow> real" where
  "min_time old t = (if old = -1 then t else if t < old then t else old)"

definition max_time :: "real \<Rightarrow> real \<Rightarrow> real" where
  "max_time old t = (if old = -1 then t else if t > old then t else old)"

definition avg_time :: "(real \<Rightarrow> real) \<Rightarrow> real \<Rightarrow> u32 \<Rightarrow> real \<Rightarrow> real" where
  "avg_time fl old n t = fl (fl (fl (old * real (unat n)) + t) / real (unat (n + 1)))"

definition stat_ok :: "(real \<Rightarrow> real) \<Rightarrow> real \<Rightarrow> real \<Rightarrow> hdb_stat \<Rightarrow> hdb_stat" where
  "stat_ok fl store process st =
     st\<lparr>dbstate := ST_ON, dberror := [],
        store_time_avg := avg_time fl (store_time_avg st) (okdb_counter st) store,
        store_time_min := min_time (store_time_min st) store,
        store_time_max := max_time (store_time_max st) store,
        process_time_avg := avg_time fl (process_time_avg st) (okdb_counter st) process,
        process_time_min := min_time (process_time_min st) process,
        process_time_max := max_time (process_time_max st) process,
        okdb_counter := okdb_counter st + 1\<rparr>"

definition new_stat_ok :: "string \<Rightarrow> real \<Rightarrow> real \<Rightarrow> hdb_stat" where
  "new_stat_ok signame store process =
     \<lparr>st_name = signame, nokdb_counter = 0, nokdb_counter_freq = 0, okdb_counter = 1,
      dbstate = ST_ON, dberror = [], process_time_avg = process, process_time_min = process,
      process_time_max = process, store_time_avg = store, store_time_min = store,
      store_time_max = store, last_nokdb = None\<rparr>"

definition global_times :: "real \<Rightarrow> real \<Rightarrow> push_shared \<Rightarrow> push_shared" where
  "global_times store process p =
     p\<lparr>min_store_time := min_time (min_store_time p) store,
       max_store_time := max_time (max_store_time p) store,
       min_process_time := min_time (min_process_time p) process,
       max_process_time := max_time (max_process_time p) process\<rparr>"

definition set_ok_db ::
  "(real \<Rightarrow> real) \<Rightarrow> string \<Rightarrow> real \<Rightarrow> real \<Rightarrow> push_shared \<Rightarrow> unit push_result"
where
  "set_ok_db fl signame store process p =
     (case find_stat signame p of
        LookupThrows \<Rightarrow> (Inl StdException, p)
      | Found i \<Rightarrow>
          (Inr (), global_times store process
             (p\<lparr>stats := (stats p)[i := stat_ok fl store process (stats p ! i)]\<rparr>))
      | Missing \<Rightarrow>
          (Inr (), global_times store process
             (p\<lparr>stats := stats p @ [new_stat_ok signame store process]\<rparr>)))"

definition db_error_text :: "string \<Rightarrow> string" where
  "db_error_text err = STATUS_DB_ERROR @ (if 0 < length err then '': '' @ err else [])"

definition stat_nok :: "timestamp \<Rightarrow> string \<Rightarrow> hdb_stat \<Rightarrow> hdb_stat" where
  "stat_nok now err st =
     st\<lparr>nokdb_counter := nokdb_counter st + 1, nokdb_counter_freq := nokdb_counter_freq st + 1,
        dbstate := ST_ALARM, dberror := db_error_text err, last_nokdb := Some now\<rparr>"

definition new_stat_nok :: "timestamp \<Rightarrow> string \<Rightarrow> string \<Rightarrow> hdb_stat" where
  "new_stat_nok now signame err =
     \<lparr>st_name = signame, nokdb_counter = 1, nokdb_counter_freq = 1, okdb_counter = 0,
      dbstate = ST_ALARM, dberror = db_error_text err, process_time_avg = 0, process_time_min = -1,
      process_time_max = -1, store_time_avg = 0, store_time_min = -1, store_time_max = -1,
      last_nokdb = Some now\<rparr>"

definition set_nok_db :: "timestamp \<Rightarrow> string \<Rightarrow> string \<Rightarrow> push_shared \<Rightarrow> unit push_result" where
  "set_nok_db now signame err p =
     (case find_stat signame p of
        LookupThrows \<Rightarrow> (Inl StdException, p)
      | Found i \<Rightarrow> (Inr (), p\<lparr>stats := (stats p)[i := stat_nok now err (stats p ! i)]\<rparr>)
      | Missing \<Rightarrow> (Inr (), p\<lparr>stats := stats p @ [new_stat_nok now signame err]\<rparr>))"

subsection \<open>The push thread\<close>

text \<open>
  The archive: each operation gives the description of a Tango exception or \<open>None\<close>. The times around
  an insertion are readings of the clock. The failures of the other operations (start, stop, pause,
  remove, update of the time to live) are logged only, and have no field.
\<close>

record db_env =
  insert_Attr :: "hdb_cmd \<Rightarrow> string option"
  insert_param_Attr :: "hdb_cmd \<Rightarrow> string option"
  insert_times :: "hdb_cmd \<Rightarrow> real \<times> real"
  fail_time :: "hdb_cmd \<Rightarrow> timestamp"

definition process_cmd :: "(real \<Rightarrow> real) \<Rightarrow> db_env \<Rightarrow> hdb_cmd \<Rightarrow> push_shared \<Rightarrow> unit push_result" where
  "process_cmd fl db cmd p =
     (case cmd_op cmd of
        DB_INSERT \<Rightarrow>
          (case ev_data cmd of
             None \<Rightarrow> (Inl Undefined, p)
           | Some (name, date) \<Rightarrow>
               (case insert_Attr db cmd of
                  None \<Rightarrow>
                    let (dstart, dnow) = insert_times db cmd
                    in set_ok_db fl name (fl (dnow - dstart)) (fl (dnow - date)) p
                | Some err \<Rightarrow> set_nok_db (fail_time db cmd) name err p))
      | DB_INSERT_PARAM \<Rightarrow>
          (case insert_param_Attr db cmd of
             None \<Rightarrow> (Inr (), p)
           | Some err \<Rightarrow> (case ev_data cmd of None \<Rightarrow> (Inl Undefined, p) | Some d \<Rightarrow> (Inr (), p)))
      | _ \<Rightarrow> (Inr (), p))"

lemma set_db_events [simp]:
  "cmd_events (snd (set_ok_db fl nm store process p)) = cmd_events p"
  "cmd_events (snd (set_nok_db now nm err p)) = cmd_events p"
  by (cases "find_stat nm p"; simp add: set_ok_db_def set_nok_db_def global_times_def)+

lemma process_cmd_events [simp]:
  "cmd_events (snd (process_cmd fl db cmd p)) = cmd_events p"
  by (cases "cmd_op cmd"; cases "ev_data cmd"; cases "insert_Attr db cmd"; cases "insert_param_Attr db cmd")
    (simp_all add: process_cmd_def case_prod_beta)

text \<open>
  The inner loop of \<open>run_undetached\<close>, with no command arriving meanwhile: the commands handed to the
  archive, in order, and the state after it.
\<close>

function drain :: "(real \<Rightarrow> real) \<Rightarrow> db_env \<Rightarrow> push_shared \<Rightarrow> hdb_cmd list push_result" where
  "drain fl db p =
     (case get_next_cmd p of
        (None, p1) \<Rightarrow> (Inr [], p1)
      | (Some cmd, p1) \<Rightarrow>
          (case process_cmd fl db cmd p1 of
             (Inl e, p2) \<Rightarrow> (Inl e, p2)
           | (Inr u, p2) \<Rightarrow>
               (case drain fl db p2 of
                  (Inl e, p3) \<Rightarrow> (Inl e, p3)
                | (Inr cmds, p3) \<Rightarrow> (Inr (cmd # cmds), p3))))"
  by pat_completeness auto

lemma drain_less:
  assumes "get_next_cmd p = (Some cmd, p1)" and "process_cmd fl db cmd p1 = (Inr u, p2)"
  shows "length (cmd_events p2) < length (cmd_events p)"
proof -
  have "cmd_events p2 = cmd_events p1" using process_cmd_events [of fl db cmd p1] assms(2) by simp
  then show ?thesis using assms(1) by (auto simp: get_next_cmd_def Let_def split: list.splits)
qed

termination drain
  by (relation "measure (\<lambda>(fl, db, p). length (cmd_events p))") (auto intro: drain_less [OF sym sym])

declare drain.simps [simp del]

end
