(* ===== verification/HdbPushSpec.thy ===== *)
theory HdbPushSpec
  imports HdbPush
begin

text \<open>
  What the command queue and the store statistics guarantee: first in, first out, the emptying of the
  queue by the push thread, and the meaning of the mean, minimum and maximum of the store times.
\<close>

subsection \<open>The queue\<close>

locale fifo =
  fixes put :: "'x \<Rightarrow> 's \<Rightarrow> 's" and take_next :: "'s \<Rightarrow> 'x option \<times> 's" and content :: "'s \<Rightarrow> 'x list"
  assumes put_content: "content (put x s) = content s @ [x]"
    and take_empty: "content s = [] \<Longrightarrow> fst (take_next s) = None \<and> content (snd (take_next s)) = []"
    and take_first: "content s = x # xs \<Longrightarrow> fst (take_next s) = Some x \<and> content (snd (take_next s)) = xs"
begin

lemma put_all: "content (fold put xs s) = content s @ xs"
  by (induction xs arbitrary: s) (simp_all add: put_content)

text \<open>Taking \<open>n\<close> times.\<close>

primrec taken :: "nat \<Rightarrow> 's \<Rightarrow> 'x option list" where
  "taken 0 s = []"
| "taken (Suc n) s = fst (take_next s) # taken n (snd (take_next s))"

lemma taken_content: "n \<le> length (content s) \<Longrightarrow> taken n s = List.map Some (take n (content s))"
proof (induction n arbitrary: s)
  case 0
  then show ?case by simp
next
  case (Suc n)
  then obtain x xs where "content s = x # xs" by (cases "content s") auto
  then show ?case using Suc take_first [of s x xs] by simp
qed

lemma first_in_first_out:
  "content s = [] \<Longrightarrow> taken (length xs) (fold put xs s) = List.map Some xs"
  by (simp add: taken_content put_all)

end

interpretation cmds: fifo push_back_cmd get_next_cmd cmd_events
  by unfold_locales (simp_all add: push_back_cmd_def get_next_cmd_def Let_def)

lemma push_back_pending:
  "pending_number (push_back_cmd cmd p) = nb_cmd_waiting (push_back_cmd cmd p)"
  "max_pending_number (push_back_cmd cmd p) = get_max_waiting (push_back_cmd cmd p)"
  "nb_cmd_waiting (push_back_cmd cmd p) \<le> get_max_waiting (push_back_cmd cmd p)"
  by (simp_all add: push_back_cmd_def nb_cmd_waiting_def get_max_waiting_def Let_def)

lemma push_all_events:
  "cmd_events (push_all op p) = cmd_events p @ List.map (\<lambda>st. named_cmd op (st_name st)) (stats p)"
  using cmds.put_all [of "List.map (\<lambda>st. named_cmd op (st_name st)) (stats p)" p]
  by (simp add: push_all_def fold_map comp_def)

subsection \<open>Names that can be compared\<close>

definition good_name :: "string \<Rightarrow> bool" where
  "good_name nm \<longleftrightarrow> remove_domain nm \<noteq> None"

lemma good_compare: "good_name a \<Longrightarrow> good_name b \<Longrightarrow> compare_without_domain a b \<noteq> None"
  by (auto simp: good_name_def compare_without_domain_def)

lemma scan_names_good:
  "good_name nm \<Longrightarrow> list_all good_name ns \<Longrightarrow> scan_names nm k ns \<noteq> LookupThrows"
proof (induction ns arbitrary: k)
  case Nil
  then show ?case by simp
next
  case (Cons n ns)
  have "compare_without_domain n nm \<noteq> None" using Cons.prems by (simp add: good_compare)
  then show ?case using Cons by (auto split: option.splits bool.splits)
qed

lemma lookup_name_good:
  "good_name nm \<Longrightarrow> list_all good_name ns \<Longrightarrow> lookup_name nm ns \<noteq> LookupThrows"
  using scan_names_good by (auto simp: lookup_name_def split: option.splits)

definition stats_good :: "push_shared \<Rightarrow> bool" where
  "stats_good p \<longleftrightarrow> list_all (\<lambda>st. good_name (st_name st)) (stats p)"

lemma find_stat_good: "good_name nm \<Longrightarrow> stats_good p \<Longrightarrow> find_stat nm p \<noteq> LookupThrows"
  using lookup_name_good [of nm "List.map st_name (stats p)"]
  by (simp add: find_stat_def stats_good_def list_all_iff)

lemma find_stat_bound: "find_stat nm p = Found i \<Longrightarrow> i < length (stats p)"
  using lookup_name_Found [of nm "List.map st_name (stats p)" i] by (simp add: find_stat_def)

subsection \<open>One store operation\<close>

lemma stat_names [simp]:
  "st_name (stat_ok fl a b st) = st_name st" "st_name (stat_nok now err st) = st_name st"
  "st_name (new_stat_ok nm a b) = nm" "st_name (new_stat_nok now nm err) = nm"
  by (simp_all add: stat_ok_def stat_nok_def new_stat_ok_def new_stat_nok_def)

lemma stats_good_update:
  "stats_good p \<Longrightarrow> good_name (st_name st) \<Longrightarrow> stats_good (p\<lparr>stats := (stats p)[i := st]\<rparr>)"
  by (simp add: stats_good_def list_all_update)

lemma set_ok_db_good:
  assumes "good_name nm" and "stats_good p"
  shows "fst (set_ok_db fl nm a b p) = Inr () \<and> stats_good (snd (set_ok_db fl nm a b p))"
proof (cases "find_stat nm p")
  case (Found i)
  then have "good_name (st_name (stats p ! i))"
    using assms(2) find_stat_bound by (simp add: stats_good_def list_all_length)
  then show ?thesis
    using Found assms list_all_update [of "\<lambda>st. good_name (st_name st)" "stats p"]
    by (simp add: set_ok_db_def global_times_def stats_good_def)
qed (use assms find_stat_good in \<open>auto simp: set_ok_db_def global_times_def stats_good_def\<close>)

lemma set_nok_db_good:
  assumes "good_name nm" and "stats_good p"
  shows "fst (set_nok_db now nm err p) = Inr () \<and> stats_good (snd (set_nok_db now nm err p))"
proof (cases "find_stat nm p")
  case (Found i)
  then have "good_name (st_name (stats p ! i))"
    using assms(2) find_stat_bound by (simp add: stats_good_def list_all_length)
  then show ?thesis
    using Found assms list_all_update [of "\<lambda>st. good_name (st_name st)" "stats p"]
    by (simp add: set_nok_db_def stats_good_def)
qed (use assms find_stat_good in \<open>auto simp: set_nok_db_def stats_good_def\<close>)

text \<open>A command that the thread can execute: no null pointer and a name that can be compared.\<close>

definition executable_cmd :: "db_env \<Rightarrow> hdb_cmd \<Rightarrow> bool" where
  "executable_cmd db cmd =
     (case cmd_op cmd of
        DB_INSERT \<Rightarrow> (case ev_data cmd of None \<Rightarrow> False | Some (nm, d) \<Rightarrow> good_name nm)
      | DB_INSERT_PARAM \<Rightarrow> insert_param_Attr db cmd = None
      | _ \<Rightarrow> True)"

lemma process_cmd_good:
  assumes "executable_cmd db cmd" and "stats_good p"
  shows "fst (process_cmd fl db cmd p) = Inr () \<and> stats_good (snd (process_cmd fl db cmd p))"
proof (cases "cmd_op cmd")
  case DB_INSERT
  then obtain nm d where "ev_data cmd = Some (nm, d)" "good_name nm"
    using assms(1) by (auto simp: executable_cmd_def split: option.splits)
  then show ?thesis
    using DB_INSERT assms(2)
    by (simp add: process_cmd_def case_prod_beta set_ok_db_good set_nok_db_good split: option.split)
qed (use assms in \<open>simp_all add: process_cmd_def executable_cmd_def\<close>)

subsection \<open>Emptying the queue\<close>

lemma get_next_frame [simp]: "stats (snd (get_next_cmd p)) = stats p"
  by (simp add: get_next_cmd_def Let_def split: list.split)

lemma drain_all:
  "list_all (executable_cmd db) (cmd_events p) \<Longrightarrow> stats_good p \<Longrightarrow>
     fst (drain fl db p) = Inr (cmd_events p) \<and> cmd_events (snd (drain fl db p)) = [] \<and>
     pending_number (snd (drain fl db p)) = 0 \<and> stats_good (snd (drain fl db p))"
proof (induction "cmd_events p" arbitrary: p)
  case Nil
  then show ?case by (simp add: drain.simps [of fl db p] get_next_cmd_def Let_def stats_good_def)
next
  case (Cons cmd cmds)
  define p1 where "p1 = snd (get_next_cmd p)"
  define p2 where "p2 = snd (process_cmd fl db cmd p1)"
  have p1: "get_next_cmd p = (Some cmd, p1)" "cmd_events p1 = cmds" "stats_good p1"
    using Cons.hyps(2) [symmetric] Cons.prems(2)
    by (simp_all add: p1_def get_next_cmd_def Let_def stats_good_def)
  have ex: "executable_cmd db cmd" "list_all (executable_cmd db) cmds"
    using Cons.prems(1) Cons.hyps(2) [symmetric] by simp_all
  have p2: "process_cmd fl db cmd p1 = (Inr (), p2)" "cmd_events p2 = cmds" "stats_good p2"
    using process_cmd_good [OF ex(1) p1(3), of fl] p1(2) by (simp_all add: p2_def prod_eq_iff)
  have "fst (drain fl db p2) = Inr cmds \<and> cmd_events (snd (drain fl db p2)) = [] \<and>
      pending_number (snd (drain fl db p2)) = 0 \<and> stats_good (snd (drain fl db p2))"
    using Cons.hyps(1) [OF p2(2) [symmetric]] ex(2) p2(2,3) by simp
  then show ?case
    using p1(1) p2(1) Cons.hyps(2) [symmetric]
    by (cases "drain fl db p2") (simp add: drain.simps [of fl db p])
qed

subsection \<open>The store times\<close>

text \<open>Recording the times \<open>ts\<close> in turn, with exact arithmetic.\<close>

definition record_times :: "(real \<times> real) list \<Rightarrow> hdb_stat \<Rightarrow> hdb_stat" where
  "record_times ts st = fold (\<lambda>(s, q). stat_ok id s q) ts st"

lemma record_times_simps [simp]:
  "record_times [] st = st"
  "record_times (t # ts) st = record_times ts (stat_ok id (fst t) (snd t) st)"
  by (simp_all add: record_times_def case_prod_beta)

text \<open>The sums that the means stand for.\<close>

definition store_sum :: "hdb_stat \<Rightarrow> real" where
  "store_sum st = store_time_avg st * real (unat (okdb_counter st))"

definition process_sum :: "hdb_stat \<Rightarrow> real" where
  "process_sum st = process_time_avg st * real (unat (okdb_counter st))"

lemma unat_Suc_word: "unat (n :: u32) + 1 < 2 ^ 32 \<Longrightarrow> unat (n + 1) = unat n + 1"
  by (simp add: unat_word_ariths)

lemma stat_ok_sums:
  assumes "unat (okdb_counter st) + 1 < 2 ^ 32"
  shows "store_sum (stat_ok id s q st) = store_sum st + s"
    and "process_sum (stat_ok id s q st) = process_sum st + q"
    and "unat (okdb_counter (stat_ok id s q st)) = unat (okdb_counter st) + 1"
proof -
  have n: "unat (okdb_counter st + 1) = unat (okdb_counter st) + 1" using assms by (rule unat_Suc_word)
  have "real (unat (okdb_counter st) + 1) \<noteq> 0" by linarith
  then show "store_sum (stat_ok id s q st) = store_sum st + s"
    "process_sum (stat_ok id s q st) = process_sum st + q"
    using n by (simp_all add: store_sum_def process_sum_def stat_ok_def avg_time_def)
  show "unat (okdb_counter (stat_ok id s q st)) = unat (okdb_counter st) + 1"
    using n by (simp add: stat_ok_def)
qed

lemma record_times_sums:
  "unat (okdb_counter st) + length ts < 2 ^ 32 \<Longrightarrow>
     store_sum (record_times ts st) = store_sum st + sum_list (List.map fst ts) \<and>
     process_sum (record_times ts st) = process_sum st + sum_list (List.map snd ts) \<and>
     unat (okdb_counter (record_times ts st)) = unat (okdb_counter st) + length ts"
proof (induction ts arbitrary: st)
  case Nil
  then show ?case by simp
next
  case (Cons t ts)
  note sums = stat_ok_sums [of st "fst t" "snd t"]
  then show ?case using Cons.prems Cons.IH [of "stat_ok id (fst t) (snd t) st"] by simp
qed

text \<open>For times that are not negative the sentinel \<open>-1\<close> is never taken for a time.\<close>

lemma record_times_min_max:
  "\<forall>t\<in>set ts. 0 \<le> fst t \<Longrightarrow> 0 \<le> store_time_min st \<Longrightarrow> 0 \<le> store_time_max st \<Longrightarrow>
     store_time_min (record_times ts st) = fold min (List.map fst ts) (store_time_min st) \<and>
     store_time_max (record_times ts st) = fold max (List.map fst ts) (store_time_max st)"
proof (induction ts arbitrary: st)
  case Nil
  then show ?case by simp
next
  case (Cons t ts)
  let ?st = "stat_ok id (fst t) (snd t) st"
  have "store_time_min ?st = min (fst t) (store_time_min st)"
    "store_time_max ?st = max (fst t) (store_time_max st)"
    using Cons.prems by (auto simp: stat_ok_def min_time_def max_time_def)
  then show ?case using Cons.prems Cons.IH [of ?st] by simp
qed

text \<open>Recording for one name acts on the statistics of that name only.\<close>

lemma find_stat_update:
  "st_name st = st_name (stats p ! i) \<Longrightarrow> i < length (stats p) \<Longrightarrow>
     find_stat nm (p\<lparr>stats := (stats p)[i := st]\<rparr>) = find_stat nm p"
  by (simp add: find_stat_def map_update) (metis list_update_id nth_map)

lemma set_ok_db_found:
  assumes "find_stat nm p = Found i"
  shows "stats (snd (set_ok_db fl nm s q p)) = (stats p)[i := stat_ok fl s q (stats p ! i)]"
    and "find_stat nm (snd (set_ok_db fl nm s q p)) = Found i"
  using assms find_stat_update [of "stat_ok fl s q (stats p ! i)" p i nm] find_stat_bound [OF assms]
  by (simp_all add: set_ok_db_def global_times_def find_stat_def)

definition record_ok :: "string \<Rightarrow> real \<times> real \<Rightarrow> push_shared \<Rightarrow> push_shared" where
  "record_ok nm t p = snd (set_ok_db id nm (fst t) (snd t) p)"

lemma record_ok_list:
  "find_stat nm p = Found i \<Longrightarrow>
     stats (fold (record_ok nm) ts p) = (stats p)[i := record_times ts (stats p ! i)] \<and>
     find_stat nm (fold (record_ok nm) ts p) = Found i"
proof (induction ts arbitrary: p)
  case Nil
  then show ?case by simp
next
  case (Cons t ts)
  have "stats (record_ok nm t p) = (stats p)[i := stat_ok id (fst t) (snd t) (stats p ! i)]"
    "find_stat nm (record_ok nm t p) = Found i"
    unfolding record_ok_def using Cons.prems by (rule set_ok_db_found)+
  then show ?case
    using Cons.IH [of "record_ok nm t p"] find_stat_bound [OF Cons.prems] by simp
qed

text \<open>The first success of a signal without statistics.\<close>

lemma find_index_snoc:
  "find_index P xs = None \<Longrightarrow> P y \<Longrightarrow> find_index P (xs @ [y]) = Some (length xs)"
  by (induction xs) auto

lemma record_ok_first:
  assumes "find_stat nm p = Missing"
  shows "stats (record_ok nm t p) = stats p @ [new_stat_ok nm (fst t) (snd t)]"
    and "find_stat nm (record_ok nm t p) = Found (length (stats p))"
proof -
  show *: "stats (record_ok nm t p) = stats p @ [new_stat_ok nm (fst t) (snd t)]"
    using assms by (simp add: record_ok_def set_ok_db_def global_times_def)
  have "find_index (\<lambda>n. n = nm) (List.map st_name (stats p)) = None"
    using lookup_name_Missing [OF assms [unfolded find_stat_def]] by auto
  then show "find_stat nm (record_ok nm t p) = Found (length (stats p))"
    using * find_index_snoc [of "\<lambda>n. n = nm" "List.map st_name (stats p)" nm]
    by (simp add: find_stat_def lookup_name_def)
qed

end
