(* ===== verification/HdbDevice.thy ===== *)
theory HdbDevice
  imports HdbConfig HdbPushSpec
begin

text \<open>
  The archiving device: class \<open>HdbDevice\<close> (\<open>HdbDevice.cpp\<close>), which joins the signal table, the command
  queue and the cache of host domains, the event callback \<open>ArchiveCB\<close>, and the commands of the Tango
  class \<open>HdbEventSubscriber\<close> (\<open>HdbEventSubscriber.cpp\<close>).

  Rethrowing a Tango exception appends an error to its stack and keeps the first one, by which the
  model identifies it. The world (Tango, the clock, \<open>TANGO_HOST\<close>, the resolver) is an argument.
\<close>

subsection \<open>State\<close>

record hdb_device =
  shared :: shared_data
  push :: push_shared
  domains :: domain_map
  contexts_map_upper :: "string \<rightharpoonup> string"
  defaultStrategy :: string \<comment> \<open>the device property\<close>
  context_set :: string
  context_read :: string

record world =
  w_tango :: tango_env
  w_now :: int
  w_time :: timestamp
  w_host :: "string option"
  w_addr :: "string \<Rightarrow> string option list option"

type_synonym 'a dev_result = "(hdb_error + 'a) \<times> hdb_device"

text \<open>Sequencing: an error ends the operation and keeps the state it left.\<close>

definition and_then ::
  "'a dev_result \<Rightarrow> ('a \<Rightarrow> hdb_device \<Rightarrow> 'b dev_result) \<Rightarrow> 'b dev_result"
where
  "and_then r k = (case r of (Inl e, d) \<Rightarrow> (Inl e, d) | (Inr x, d) \<Rightarrow> k x d)"

definition on_shared :: "(shared_data \<Rightarrow> 'a hdb_result) \<Rightarrow> hdb_device \<Rightarrow> 'a dev_result" where
  "on_shared f d = (let r = f (shared d) in (fst r, d\<lparr>shared := snd r\<rparr>))"

definition on_push :: "(push_shared \<Rightarrow> 'a push_result) \<Rightarrow> hdb_device \<Rightarrow> 'a dev_result" where
  "on_push f d = (let r = f (push d) in (fst r, d\<lparr>push := snd r\<rparr>))"

definition do_push :: "(push_shared \<Rightarrow> push_shared) \<Rightarrow> hdb_device \<Rightarrow> unit dev_result" where
  "do_push f d = (Inr (), d\<lparr>push := f (push d)\<rparr>)"

definition throw :: "hdb_error \<Rightarrow> hdb_device \<Rightarrow> 'a dev_result" where
  "throw e d = (Inl e, d)"

text \<open>A Tango exception is logged and ignored.\<close>

definition log_failed :: "unit dev_result \<Rightarrow> unit dev_result" where
  "log_failed r = (case r of (Inl (DevFailed reason desc), d) \<Rightarrow> (Inr (), d) | _ \<Rightarrow> r)"

definition fix_name :: "world \<Rightarrow> string \<Rightarrow> hdb_device \<Rightarrow> string dev_result" where
  "fix_name w nm d =
     (case fix_tango_host (w_host w) (w_addr w) nm (domains d) of
        None \<Rightarrow> (Inl StdException, d)
      | Some (nm', dm) \<Rightarrow> (Inr nm', d\<lparr>domains := dm\<rparr>))"

fun each :: "('a \<Rightarrow> hdb_device \<Rightarrow> unit dev_result) \<Rightarrow> 'a list \<Rightarrow> hdb_device \<Rightarrow> unit dev_result" where
  "each f [] d = (Inr (), d)"
| "each f (x # xs) d = and_then (f x d) (\<lambda>u. each f xs)"

subsection \<open>Class \<open>HdbDevice\<close>\<close>

text \<open>The name is returned as completed, since the code changes the caller's string.\<close>

definition dev_add :: "world \<Rightarrow> string \<Rightarrow> string list \<Rightarrow> u32 \<Rightarrow> hdb_device \<Rightarrow> string dev_result" where
  "dev_add w nm ctxs t d =
     and_then (fix_name w nm d) (\<lambda>signame d1.
     and_then (on_shared (add_signal (w_tango w) (w_now w) signame ctxs t HDB_UPDATE_PROP False) d1)
       (\<lambda>u d2. (Inr signame, d2)))"

definition dev_remove :: "world \<Rightarrow> string \<Rightarrow> hdb_device \<Rightarrow> unit dev_result" where
  "dev_remove w nm d =
     and_then (fix_name w nm d) (\<lambda>signame d1.
     and_then (on_shared (remove_signal signame False) d1) (\<lambda>u d2.
     and_then (on_push (push_remove signame) d2) (\<lambda>u.
     do_push (remove_attr signame))))"

definition dev_update :: "world \<Rightarrow> string \<Rightarrow> string list \<Rightarrow> hdb_device \<Rightarrow> string dev_result" where
  "dev_update w nm ctxs d =
     and_then (fix_name w nm d) (\<lambda>signame d1.
     and_then (on_shared (update_contexts signame ctxs) d1) (\<lambda>u d2. (Inr signame, d2)))"

definition dev_updatettl :: "world \<Rightarrow> string \<Rightarrow> u32 \<Rightarrow> hdb_device \<Rightarrow> string dev_result" where
  "dev_updatettl w nm t d =
     and_then (fix_name w nm d) (\<lambda>signame d1.
     and_then (on_shared (updatettl signame t) d1) (\<lambda>u d2.
     and_then (do_push (push_updatettl signame t) d2) (\<lambda>u d3. (Inr signame, d3))))"

definition build_signal :: "world \<Rightarrow> string \<Rightarrow> hdb_device \<Rightarrow> unit dev_result" where
  "build_signal w e d =
     (if length e > 0 then
        (case parse_entry (to_upper (defaultStrategy d)) e of
           None \<Rightarrow> throw Undefined d
         | Some (name, ctxs, t) \<Rightarrow>
             log_failed
               (and_then
                 (on_shared
                   (add_new (w_tango w) (w_now w) name (adjusted_contexts (contexts_map_upper d) ctxs) t) d)
                 (\<lambda>u. do_push (push_updatettl name t))))
      else (Inr (), d))"

definition build_signal_vector :: "world \<Rightarrow> string list \<Rightarrow> hdb_device \<Rightarrow> unit dev_result" where
  "build_signal_vector w = each (build_signal w)"

definition subcribing_state :: "hdb_device \<Rightarrow> dev_state" where
  "subcribing_state d =
     (if hdb_state (shared d) = ST_ALARM \<or> db_state (push d) = ST_ALARM then ST_ALARM else ST_ON)"

text \<open>The signals without event error whose last store operation failed; a look-up may throw.\<close>

fun in_db_error :: "push_shared \<Rightarrow> string list \<Rightarrow> hdb_error + string list" where
  "in_db_error p [] = Inr []"
| "in_db_error p (n # ns) =
     (case db_sig_state n p of
        Inl e \<Rightarrow> Inl e
      | Inr st \<Rightarrow>
          (case in_db_error p ns of
             Inl e \<Rightarrow> Inl e
           | Inr l \<Rightarrow> Inr (if st = ST_ALARM then n # l else l)))"

definition dev_sig_on_error_list :: "hdb_device \<Rightarrow> hdb_error + string list" where
  "dev_sig_on_error_list d =
     (case in_db_error (push d) (get_sig_not_on_error_list (shared d)) of
        Inl e \<Rightarrow> Inl e
      | Inr l \<Rightarrow> Inr (get_sig_on_error_list (shared d) @ l))"

definition dev_sig_on_error_num :: "hdb_device \<Rightarrow> hdb_error + nat" where
  "dev_sig_on_error_num d =
     (case in_db_error (push d) (get_sig_not_on_error_list (shared d)) of
        Inl e \<Rightarrow> Inl e
      | Inr l \<Rightarrow> Inr (get_sig_on_error_num (shared d) + length l))"

definition dev_sig_not_on_error_num :: "hdb_device \<Rightarrow> hdb_error + int" where
  "dev_sig_not_on_error_num d =
     (case in_db_error (push d) (get_sig_not_on_error_list (shared d)) of
        Inl e \<Rightarrow> Inl e
      | Inr l \<Rightarrow> Inr (int (get_sig_not_on_error_num (shared d)) - int (length l)))"

definition dev_get_sig_status :: "string \<Rightarrow> hdb_device \<Rightarrow> hdb_error + string" where
  "dev_get_sig_status signame d =
     (case fst (get_sig_status signame (shared d)) of
        Inl e \<Rightarrow> Inl e
      | Inr ev_status \<Rightarrow>
          (case db_sig_state signame (push d) of
             Inl e \<Rightarrow> Inl e
           | Inr st \<Rightarrow> if st = ST_ALARM then db_sig_status signame (push d) else Inr ev_status))"

definition dev_reset_statistics :: "hdb_device \<Rightarrow> hdb_device" where
  "dev_reset_statistics d =
     d\<lparr>shared := reset_statistics (shared d), push := push_reset_statistics (push d)\<rparr>"

definition dev_reset_freq_statistics :: "hdb_device \<Rightarrow> hdb_device" where
  "dev_reset_freq_statistics d =
     d\<lparr>shared := reset_freq_statistics (shared d), push := push_reset_freq_statistics (push d)\<rparr>"

subsection \<open>The event callback\<close>

text \<open>An archive event: the name, the description of its error if it is one, and its date.\<close>

record hdb_event =
  e_name :: string
  e_err :: "string option"
  e_date :: real

definition insert_cmd :: "string \<Rightarrow> hdb_event \<Rightarrow> hdb_cmd" where
  "insert_cmd signame ev =
     \<lparr>cmd_op = DB_INSERT, ev_data = Some (signame, e_date ev), ev_data_param = None,
      cmd_attr_name = [], cmd_ttl = 0\<rparr>"

text \<open>
  Whether the event goes on to the archive; a Tango exception of a test is logged and counts as yes.
\<close>

definition test_or_log :: "bool dev_result \<Rightarrow> bool dev_result" where
  "test_or_log r = (case r of (Inl (DevFailed reason desc), d) \<Rightarrow> (Inr True, d) | _ \<Rightarrow> r)"

definition handle_error :: "world \<Rightarrow> string \<Rightarrow> nat \<Rightarrow> string \<Rightarrow> hdb_device \<Rightarrow> bool dev_result" where
  "handle_error w signame i desc d =
     and_then (log_failed (on_shared (set_nok_event (w_time w) (w_now w) signame)
       (d\<lparr>shared := set_signal i (\<lambda>sig. sig\<lparr>evstate := ST_ALARM, sig_status := desc\<rparr>) (shared d)\<rparr>)))
     (\<lambda>u d1.
     and_then (test_or_log
       (and_then (on_shared (is_running signame) d1) (\<lambda>r d2.
          if r then on_shared (is_first_err signame) d2 else (Inr False, d2))))
     (\<lambda>go d3.
        if go then and_then (log_failed (on_shared (set_first_err signame) d3)) (\<lambda>u d4. (Inr True, d4))
        else (Inr False, d3)))"

definition handle_value :: "world \<Rightarrow> string \<Rightarrow> nat \<Rightarrow> hdb_device \<Rightarrow> bool dev_result" where
  "handle_value w signame i d =
     and_then (log_failed (on_shared (set_ok_event (w_time w) (w_now w) signame) d)) (\<lambda>u d1.
     (let d2 = (if evstate (signals (shared d1) ! i) \<noteq> ST_ON
                then d1\<lparr>shared := set_signal i (\<lambda>sig. sig\<lparr>evstate := ST_ON, sig_status := ''Subscribed''\<rparr>)
                        (shared d1)\<rparr>
                else d1)
      in and_then (test_or_log
           (and_then (on_shared (is_running signame) d2) (\<lambda>r d3.
              if r then (Inr True, d3) else on_shared (is_first signame) d3)))
         (\<lambda>go d4.
            if go then
              and_then (log_failed
                (and_then (on_shared (is_first signame) d4) (\<lambda>f d5.
                   if f then on_shared (set_first signame) d5 else (Inr (), d5))))
              (\<lambda>u d6. (Inr True, d6))
            else (Inr False, d4))))"

text \<open>\<open>ArchiveCB::push_event\<close> for event data.\<close>

definition push_event :: "world \<Rightarrow> hdb_event \<Rightarrow> hdb_device \<Rightarrow> unit dev_result" where
  "push_event w ev d =
     and_then (fix_name w (e_name ev) d) (\<lambda>signame d1.
     (case get_signal signame (shared d1) of
        LookupThrows \<Rightarrow> throw StdException d1
      | Missing \<Rightarrow> (Inr (), d1)
      | Found i \<Rightarrow>
          and_then (on_shared (is_first signame) d1) (\<lambda>first d2.
          (if first \<and> \<not> attr (signals (shared d2) ! i) then throw Undefined d2
           else if first \<and> (\<exists>desc. get_config (w_tango w) (sig_name (signals (shared d2) ! i)) = Inl desc)
           then (Inr (), d2)
           else
             and_then (case e_err ev of
                         Some desc \<Rightarrow> handle_error w signame i desc d2
                       | None \<Rightarrow> handle_value w signame i d2)
             (\<lambda>store d3. if store then do_push (push_back_cmd (insert_cmd signame ev)) d3 else (Inr (), d3))))))"

subsection \<open>Commands on one attribute\<close>

definition attribute_start :: "world \<Rightarrow> string \<Rightarrow> hdb_device \<Rightarrow> unit dev_result" where
  "attribute_start w argin d =
     and_then (fix_name w argin d) (\<lambda>signame d1.
     and_then (on_shared (is_paused signame) d1) (\<lambda>p d2.
     and_then (on_shared (is_stopped signame) d2) (\<lambda>st d3.
       if p \<or> st then
         and_then (do_push (start_attr signame) d3) (\<lambda>u.
           on_shared (start_signal (w_tango w) (w_now w) signame))
       else (Inr (), d3))))"

definition stop_if_active :: "string \<Rightarrow> hdb_device \<Rightarrow> unit dev_result" where
  "stop_if_active signame d1 =
     and_then (on_shared (is_running signame) d1) (\<lambda>r d2.
     and_then (on_shared (is_paused signame) d2) (\<lambda>p d3.
       if r \<or> p then and_then (on_shared (stop_signal signame) d3) (\<lambda>u. do_push (stop_attr signame))
       else (Inr (), d3)))"

definition attribute_stop :: "world \<Rightarrow> string \<Rightarrow> hdb_device \<Rightarrow> unit dev_result" where
  "attribute_stop w argin d = and_then (fix_name w argin d) stop_if_active"

definition attribute_pause :: "world \<Rightarrow> string \<Rightarrow> hdb_device \<Rightarrow> unit dev_result" where
  "attribute_pause w argin d =
     and_then (fix_name w argin d) (\<lambda>signame d1.
     and_then (on_shared (is_running signame) d1) (\<lambda>r d2.
       if r then and_then (on_shared (pause_signal signame) d2) (\<lambda>u. do_push (pause_attr signame))
       else throw (DevFailed ''Not started'' (''Signal '' @ signame @ '' NOT started'')) d2))"

definition attribute_remove :: "world \<Rightarrow> string \<Rightarrow> hdb_device \<Rightarrow> unit dev_result" where
  "attribute_remove w argin d =
     and_then (fix_name w argin d) (\<lambda>signame d1.
     and_then (stop_if_active signame d1) (\<lambda>u. dev_remove w signame))"

text \<open>Starting or stopping a signal by the current context.\<close>

definition follow_context :: "world \<Rightarrow> string \<Rightarrow> hdb_device \<Rightarrow> unit dev_result" where
  "follow_context w signame d =
     and_then (on_shared (is_current_context signame (context_set d)) d) (\<lambda>c.
       if c then attribute_start w signame else attribute_stop w signame)"

text \<open>The known contexts of a strategy, and whether there is an unknown one.\<close>

definition strategy_contexts :: "(string \<rightharpoonup> string) \<Rightarrow> string \<Rightarrow> string list \<times> bool" where
  "strategy_contexts m context =
     (let res = string_explode context (CHR ''|'')
      in (adjusted_contexts m res, list_ex (\<lambda>c. m (to_upper c) = None) res))"

definition bad_strategy :: "string \<Rightarrow> string list \<Rightarrow> hdb_error" where
  "bad_strategy requested ctxs =
     DevFailed ''BadStrategy''
       (''Requested strategy: '' @ requested @ [CHR 0x0A] @ ''Applied strategy: '' @ join_contexts ctxs)"

definition attribute_add :: "world \<Rightarrow> string list \<Rightarrow> hdb_device \<Rightarrow> unit dev_result" where
  "attribute_add w argin d =
     (let signame = (if length argin > 0 then argin ! 0 else []);
          requested = (if length argin > 1 then argin ! 1 else []);
          found = strategy_contexts (contexts_map_upper d) requested;
          ctxs = (if fst found = [] then [defaultStrategy d] else fst found);
          t = (if length argin > 2 then read_u32 (argin ! 2) else DEFAULT_TTL)
      in and_then (dev_add w signame ctxs t d) (\<lambda>name1 d1.
         and_then (dev_updatettl w name1 t d1) (\<lambda>name2 d2.
         and_then (follow_context w name2 d2) (\<lambda>u d3.
           if snd found then throw (bad_strategy requested ctxs) d3 else (Inr (), d3)))))"

text \<open>With no argument at all, \<open>length() - 1\<close> wraps and the loop reads past the end.\<close>

definition set_attribute_strategy :: "world \<Rightarrow> string list \<Rightarrow> hdb_device \<Rightarrow> unit dev_result" where
  "set_attribute_strategy w argin d =
     (case argin of
        [] \<Rightarrow> throw Undefined d
      | signame # args \<Rightarrow>
          let parts = List.map (strategy_contexts (contexts_map_upper d)) args;
              known = concat (List.map fst parts);
              ctxs = (if known = [] then [defaultStrategy d] else known);
              requested = concat (List.map
                (\<lambda>i. if args ! i = [] then [] else args ! i @ (if Suc i < length args then ''|'' else []))
                [0..<length args])
          in and_then (dev_update w signame ctxs d) (\<lambda>name1 d1.
             and_then (follow_context w name1 d1) (\<lambda>u d2.
               if list_ex snd parts then throw (bad_strategy requested ctxs) d2 else (Inr (), d2))))"

definition set_attribute_ttl :: "world \<Rightarrow> string list \<Rightarrow> hdb_device \<Rightarrow> unit dev_result" where
  "set_attribute_ttl w argin d =
     (let signame = (if length argin > 0 then argin ! 0 else []);
          t = (if length argin > 1 then read_u32 (argin ! 1) else DEFAULT_TTL)
      in and_then (dev_updatettl w signame t d) (\<lambda>nm d1. (Inr (), d1)))"

definition get_attribute_strategy :: "world \<Rightarrow> string \<Rightarrow> hdb_device \<Rightarrow> string dev_result" where
  "get_attribute_strategy w argin d =
     and_then (fix_name w argin d) (\<lambda>signame. on_shared (get_sig_context signame))"

definition get_attribute_ttl :: "world \<Rightarrow> string \<Rightarrow> hdb_device \<Rightarrow> u32 dev_result" where
  "get_attribute_ttl w argin d =
     and_then (fix_name w argin d) (\<lambda>signame. on_shared (get_sig_ttl signame))"

subsection \<open>Commands on all attributes\<close>

definition start_cmd :: "world \<Rightarrow> hdb_device \<Rightarrow> unit dev_result" where
  "start_cmd w d =
     each (\<lambda>nm d1. and_then (on_shared (is_current_context nm (context_set d1)) d1) (\<lambda>c d2.
         if c then attribute_start w nm d2 else (Inr (), d2)))
       (get_sig_list (shared d)) d"

definition stop_cmd :: "world \<Rightarrow> hdb_device \<Rightarrow> unit dev_result" where
  "stop_cmd w d = each (attribute_stop w) (get_sig_list (shared d)) d"

definition pause_cmd :: "world \<Rightarrow> hdb_device \<Rightarrow> unit dev_result" where
  "pause_cmd w d =
     each (\<lambda>nm d1. log_failed (and_then (on_shared (is_running nm) d1) (\<lambda>r d2.
         if r then attribute_pause w nm d2 else (Inr (), d2))))
       (get_sig_list (shared d)) d"

definition stop_faulty :: "world \<Rightarrow> hdb_device \<Rightarrow> unit dev_result" where
  "stop_faulty w d =
     (case dev_sig_on_error_list d of
        Inl e \<Rightarrow> throw e d
      | Inr l \<Rightarrow> each (attribute_stop w) l d)"

definition write_Context :: "world \<Rightarrow> string \<Rightarrow> hdb_device \<Rightarrow> unit dev_result" where
  "write_Context w argin d =
     (case contexts_map_upper d (to_upper argin) of
        None \<Rightarrow> throw (DevFailed ''BadContext'' (''Context '' @ argin @ '' NOT DEFINED'')) d
      | Some c \<Rightarrow>
          each (follow_context w) (get_sig_list (shared d))
            (d\<lparr>context_set := to_upper argin, context_read := c\<rparr>))"

end
