(* ===== verification/HdbDeviceSpec.thy ===== *)
theory HdbDeviceSpec
  imports HdbDevice
begin

text \<open>
  The archiving device: its operations keep the invariant of the signal table (as a transition
  system), and what the commands on one and on all attributes and the event callback do.
\<close>

subsection \<open>The invariant\<close>

definition dev_inv :: "hdb_device \<Rightarrow> bool" where
  "dev_inv d \<longleftrightarrow> table_inv (shared d)"

definition inv_after :: "'a dev_result \<Rightarrow> bool" where
  "inv_after r \<longleftrightarrow> dev_inv (snd r)"

named_theorems inv_intros \<open>rules for the invariant after an operation\<close>

lemma inv_and_then [inv_intros]:
  "inv_after r \<Longrightarrow> (\<And>x d. dev_inv d \<Longrightarrow> inv_after (k x d)) \<Longrightarrow> inv_after (and_then r k)"
  by (cases r; cases "fst r") (auto simp: and_then_def inv_after_def)

lemma inv_on_shared [inv_intros]:
  "dev_inv d \<Longrightarrow> (\<And>s. table_inv s \<Longrightarrow> table_inv (snd (f s))) \<Longrightarrow> inv_after (on_shared f d)"
  by (simp add: on_shared_def inv_after_def dev_inv_def Let_def)

lemma inv_on_push [inv_intros]: "dev_inv d \<Longrightarrow> inv_after (on_push f d)"
  by (simp add: on_push_def inv_after_def dev_inv_def Let_def)

lemma inv_do_push [inv_intros]: "dev_inv d \<Longrightarrow> inv_after (do_push f d)"
  by (simp add: do_push_def inv_after_def dev_inv_def)

lemma inv_fix_name [inv_intros]: "dev_inv d \<Longrightarrow> inv_after (fix_name w nm d)"
  by (auto simp: fix_name_def inv_after_def dev_inv_def split: option.split)

lemma inv_throw [inv_intros]: "dev_inv d \<Longrightarrow> inv_after (throw e d)"
  by (simp add: throw_def inv_after_def)

lemma inv_pair [inv_intros]: "dev_inv d \<Longrightarrow> inv_after (r, d)"
  by (simp add: inv_after_def)

lemma inv_if [inv_intros]:
  "(b \<Longrightarrow> inv_after r) \<Longrightarrow> (\<not> b \<Longrightarrow> inv_after r') \<Longrightarrow> inv_after (if b then r else r')"
  by simp

lemma inv_case_option [inv_intros]:
  "inv_after a \<Longrightarrow> (\<And>y. inv_after (b y)) \<Longrightarrow> inv_after (case x of None \<Rightarrow> a | Some y \<Rightarrow> b y)"
  by (cases x) simp_all

lemma inv_log_failed [inv_intros]: "inv_after r \<Longrightarrow> inv_after (log_failed r)"
  by (auto simp: log_failed_def inv_after_def split: prod.splits sum.splits hdb_error.splits)

lemma inv_test_or_log [inv_intros]: "inv_after r \<Longrightarrow> inv_after (test_or_log r)"
  by (auto simp: test_or_log_def inv_after_def split: prod.splits sum.splits hdb_error.splits)

lemma inv_each [inv_intros]:
  "dev_inv d \<Longrightarrow> (\<And>x d. dev_inv d \<Longrightarrow> inv_after (f x d)) \<Longrightarrow> inv_after (each f xs d)"
  by (induction xs arbitrary: d) (auto intro!: inv_intros)

text \<open>Reading a signal keeps the table.\<close>

lemma snd_read_signal [simp]: "snd (read_signal f nm s) = s"
  by (simp add: read_signal_def split: lookup.split)

lemma snd_is_current_context [simp]: "snd (is_current_context nm c s) = s"
  by (simp add: is_current_context_def Let_def)

lemmas getter_defs = is_running_def is_paused_def is_stopped_def is_first_def is_first_err_def
  get_sig_context_def get_sig_ttl_def

text \<open>The invariant of the table operations that the device calls.\<close>

lemmas table_ops_inv = add_signal_inv remove_signal_inv start_signal_inv pause_signal_inv
  stop_signal_inv set_contexts.update_inv set_ttl.update_inv first.write_inv first_err.write_inv
  ok.write_inv nok.write_inv

lemma dev_add_inv [inv_intros]: "dev_inv d \<Longrightarrow> inv_after (dev_add w nm ctxs t d)"
  by (auto simp: dev_add_def table_ops_inv intro!: inv_intros)

lemma dev_remove_inv [inv_intros]: "dev_inv d \<Longrightarrow> inv_after (dev_remove w nm d)"
  by (auto simp: dev_remove_def table_ops_inv intro!: inv_intros)

lemma dev_update_inv [inv_intros]: "dev_inv d \<Longrightarrow> inv_after (dev_update w nm ctxs d)"
  by (auto simp: dev_update_def update_contexts_def table_ops_inv intro!: inv_intros)

lemma dev_updatettl_inv [inv_intros]: "dev_inv d \<Longrightarrow> inv_after (dev_updatettl w nm t d)"
  by (auto simp: dev_updatettl_def updatettl_def table_ops_inv intro!: inv_intros)

lemma build_signal_inv [inv_intros]: "dev_inv d \<Longrightarrow> inv_after (build_signal w e d)"
  by (auto simp: build_signal_def add_new_def table_ops_inv intro!: inv_intros split: option.split)

lemma attribute_start_inv [inv_intros]: "dev_inv d \<Longrightarrow> inv_after (attribute_start w nm d)"
  by (auto simp: attribute_start_def getter_defs table_ops_inv intro!: inv_intros)

lemma stop_if_active_inv [inv_intros]: "dev_inv d \<Longrightarrow> inv_after (stop_if_active nm d)"
  by (auto simp: stop_if_active_def getter_defs table_ops_inv intro!: inv_intros)

lemma attribute_stop_inv [inv_intros]: "dev_inv d \<Longrightarrow> inv_after (attribute_stop w nm d)"
  by (auto simp: attribute_stop_def intro!: inv_intros)

lemma attribute_pause_inv [inv_intros]: "dev_inv d \<Longrightarrow> inv_after (attribute_pause w nm d)"
  by (auto simp: attribute_pause_def getter_defs table_ops_inv intro!: inv_intros)

lemma attribute_remove_inv: "dev_inv d \<Longrightarrow> inv_after (attribute_remove w nm d)"
  by (auto simp: attribute_remove_def intro!: inv_intros)

lemma follow_context_inv [inv_intros]: "dev_inv d \<Longrightarrow> inv_after (follow_context w nm d)"
  by (auto simp: follow_context_def intro!: inv_intros)

lemma attribute_add_inv: "dev_inv d \<Longrightarrow> inv_after (attribute_add w argin d)"
  by (auto simp: attribute_add_def Let_def intro!: inv_intros)

lemma set_attribute_strategy_inv: "dev_inv d \<Longrightarrow> inv_after (set_attribute_strategy w argin d)"
  by (auto simp: set_attribute_strategy_def Let_def intro!: inv_intros split: list.split)

lemma set_attribute_ttl_inv: "dev_inv d \<Longrightarrow> inv_after (set_attribute_ttl w argin d)"
  by (auto simp: set_attribute_ttl_def Let_def intro!: inv_intros)

lemma set_signal_dev_inv:
  "dev_inv d \<Longrightarrow> mode_preserving f \<Longrightarrow> dev_inv (d\<lparr>shared := set_signal i f (shared d)\<rparr>)"
  by (simp add: dev_inv_def mode_preserving.set_inv)

interpretation event_error: mode_preserving "\<lambda>sig. sig\<lparr>evstate := st, sig_status := desc\<rparr>"
  by unfold_locales simp_all

lemma handle_error_inv [inv_intros]: "dev_inv d \<Longrightarrow> inv_after (handle_error w nm i desc d)"
  by (auto simp: handle_error_def getter_defs set_nok_event_def set_first_err_def table_ops_inv
      event_error.mode_preserving_axioms intro!: inv_intros set_signal_dev_inv)

lemma handle_value_inv [inv_intros]: "dev_inv d \<Longrightarrow> inv_after (handle_value w nm i d)"
  by (auto simp: handle_value_def getter_defs set_ok_event_def set_first_def table_ops_inv Let_def
      event_error.mode_preserving_axioms intro!: inv_intros set_signal_dev_inv)

lemma push_event_inv: "dev_inv d \<Longrightarrow> inv_after (push_event w ev d)"
  unfolding push_event_def
  by (rule inv_and_then, rule inv_fix_name, assumption)
    (auto simp: getter_defs intro!: inv_intros split: lookup.split)


lemma start_cmd_inv: "dev_inv d \<Longrightarrow> inv_after (start_cmd w d)"
  by (auto simp: start_cmd_def intro!: inv_intros)

lemma stop_cmd_inv: "dev_inv d \<Longrightarrow> inv_after (stop_cmd w d)"
  by (auto simp: stop_cmd_def intro!: inv_intros)

lemma pause_cmd_inv: "dev_inv d \<Longrightarrow> inv_after (pause_cmd w d)"
  by (auto simp: pause_cmd_def getter_defs intro!: inv_intros)

lemma stop_faulty_inv: "dev_inv d \<Longrightarrow> inv_after (stop_faulty w d)"
  by (auto simp: stop_faulty_def intro!: inv_intros split: sum.split)

lemma write_Context_inv: "dev_inv d \<Longrightarrow> inv_after (write_Context w c d)"
  by (auto simp: write_Context_def dev_inv_def intro!: inv_intros split: option.split)

lemma build_signal_vector_inv: "dev_inv d \<Longrightarrow> inv_after (build_signal_vector w es d)"
  by (auto simp: build_signal_vector_def intro!: inv_intros)

subsection \<open>The device as a transition system\<close>

text \<open>
  The device after \<open>initialize\<close> has created its parts, for a configured set of contexts and a default
  strategy. A step is a command, an event, a round of the subscription thread, the execution of the
  waiting archive commands, or the periodic check; one that uses a null pointer has no successor.
\<close>

definition initialize :: "(string \<rightharpoonup> string) \<Rightarrow> string \<Rightarrow> string \<Rightarrow> hdb_device" where
  "initialize m dflt ctx =
     \<lparr>shared = SharedData_new, push = PushThreadShared_new, domains = (\<lambda>_. None),
      contexts_map_upper = m, defaultStrategy = dflt, context_set = to_upper dflt, context_read = ctx\<rparr>"

definition defined_after :: "'a dev_result \<Rightarrow> bool" where
  "defined_after r \<longleftrightarrow> fst r \<noteq> Inl Undefined"

inductive dev_step :: "hdb_device \<Rightarrow> hdb_device \<Rightarrow> bool" where
  build: "r = build_signal_vector w es d \<Longrightarrow> defined_after r \<Longrightarrow> dev_step d (snd r)"
| add: "r = attribute_add w argin d \<Longrightarrow> defined_after r \<Longrightarrow> dev_step d (snd r)"
| remove: "r = attribute_remove w nm d \<Longrightarrow> defined_after r \<Longrightarrow> dev_step d (snd r)"
| start: "dev_step d (snd (attribute_start w nm d))"
| stop: "dev_step d (snd (attribute_stop w nm d))"
| pause: "dev_step d (snd (attribute_pause w nm d))"
| strategy: "r = set_attribute_strategy w argin d \<Longrightarrow> defined_after r \<Longrightarrow> dev_step d (snd r)"
| set_ttl: "dev_step d (snd (set_attribute_ttl w argin d))"
| start_cmd: "dev_step d (snd (start_cmd w d))"
| stop_cmd: "dev_step d (snd (stop_cmd w d))"
| pause_cmd: "dev_step d (snd (pause_cmd w d))"
| faulty: "dev_step d (snd (stop_faulty w d))"
| set_context: "dev_step d (snd (write_Context w c d))"
| event: "r = push_event w ev d \<Longrightarrow> defined_after r \<Longrightarrow> dev_step d (snd r)"
| reset: "dev_step d (dev_reset_statistics d)"
| reset_freq: "dev_step d (dev_reset_freq_statistics d)"
| thread: "dev_step d (d\<lparr>shared := snd (thread_round env now (shared d))\<rparr>)"
| archive: "r = on_push (drain fl db) d \<Longrightarrow> defined_after r \<Longrightarrow> dev_step d (snd r)"
| check: "dev_step d (d\<lparr>shared := snd (check_periodic_event_timeout now tol (shared d))\<rparr>)"

inductive dev_reachable :: "hdb_device \<Rightarrow> bool" where
  init: "dev_reachable (initialize m dflt ctx)"
| step: "dev_reachable d \<Longrightarrow> dev_step d d' \<Longrightarrow> dev_reachable d'"

lemma dev_step_inv: "dev_step d d' \<Longrightarrow> dev_inv d \<Longrightarrow> dev_inv d'"
proof (induction rule: dev_step.induct)
  case (reset d)
  then show ?case by (simp add: dev_reset_statistics_def dev_inv_def table_step_inv [OF table_step.reset])
next
  case (reset_freq d)
  then show ?case
    by (simp add: dev_reset_freq_statistics_def dev_inv_def table_step_inv [OF table_step.reset_freq])
next
  case (thread d env now)
  then show ?case by (simp add: dev_inv_def table_step_inv [OF table_step.thread])
next
  case (check d now tol)
  then show ?case by (simp add: dev_inv_def check_periodic_inv)
next
  case (archive r fl db d)
  then show ?case using inv_on_push by (simp add: inv_after_def)
qed (simp_all add: build_signal_vector_inv attribute_add_inv attribute_remove_inv attribute_start_inv
    attribute_stop_inv attribute_pause_inv set_attribute_strategy_inv set_attribute_ttl_inv
    start_cmd_inv stop_cmd_inv pause_cmd_inv stop_faulty_inv write_Context_inv push_event_inv
    flip: inv_after_def)

lemma dev_reachable_inv: "dev_reachable d \<Longrightarrow> table_inv (shared d)"
  unfolding dev_inv_def [symmetric]
  by (induction rule: dev_reachable.induct)
    (auto simp: dev_inv_def initialize_def table_inv_new dest: dev_step_inv [unfolded dev_inv_def])

end
