(* ===== verification/HdbDeviceOps.thy ===== *)
theory HdbDeviceOps
  imports HdbDeviceSpec
begin

text \<open>
  The effect of the commands on one attribute, of a change of the current context, and of an archive
  event, for signals whose names are complete (completing them again changes nothing).
\<close>

definition complete_name :: "world \<Rightarrow> hdb_device \<Rightarrow> string \<Rightarrow> bool" where
  "complete_name w d nm \<longleftrightarrow> fix_tango_host (w_host w) (w_addr w) nm (domains d) = Some (nm, domains d)"

lemma fix_complete: "complete_name w d nm \<Longrightarrow> fix_name w nm d = (Inr nm, d)"
  by (simp add: complete_name_def fix_name_def)

lemma and_then_simps [simp]:
  "and_then (Inl e, d) k = (Inl e, d)" "and_then (Inr x, d) k = k x d"
  by (simp_all add: and_then_def)

lemma read_found: "get_signal nm s = Found i \<Longrightarrow> read_signal f nm s = (Inr (f (signals s ! i)), s)"
  by (simp add: read_signal_def)

lemma on_shared_read:
  "get_signal nm (shared d) = Found i \<Longrightarrow> on_shared (read_signal f nm) d = (Inr (f (signals (shared d) ! i)), d)"
  by (simp add: on_shared_def read_found)

lemma on_shared_ok: "fst (f (shared d)) = Inr x \<Longrightarrow> on_shared f d = (Inr x, d\<lparr>shared := snd (f (shared d))\<rparr>)"
  by (simp add: on_shared_def Let_def)

subsection \<open>Commands on one attribute\<close>

lemma attribute_start_eq:
  assumes inv: "table_inv (shared d)" and found: "get_signal nm (shared d) = Found i"
    and cn: "complete_name w d nm"
  shows "attribute_start w nm d =
    (Inr (), if running (signals (shared d) ! i) then d
             else d\<lparr>push := start_attr nm (push d),
                    shared := snd (start_signal (w_tango w) (w_now w) nm (shared d))\<rparr>)"
proof -
  have "one_mode (signals (shared d) ! i)" using inv found by (intro table_inv_D get_signal_bound)
  moreover have "fst (start_signal (w_tango w) (w_now w) nm (shared d)) = Inr ()"
    using start_signal_found [OF inv found] by (simp add: mode_changed_def)
  ultimately show ?thesis
    using found
    by (cases rule: one_mode_cases)
      (simp_all add: attribute_start_def fix_complete [OF cn] getter_defs on_shared_read do_push_def
        on_shared_ok)
qed

lemma stop_if_active_eq:
  assumes inv: "table_inv (shared d)" and found: "get_signal nm (shared d) = Found i"
  shows "stop_if_active nm d =
    (Inr (), if stopped (signals (shared d) ! i) then d
             else d\<lparr>shared := snd (stop_signal nm (shared d)), push := stop_attr nm (push d)\<rparr>)"
proof -
  have "one_mode (signals (shared d) ! i)" using inv found by (intro table_inv_D get_signal_bound)
  moreover have "fst (stop_signal nm (shared d)) = Inr ()"
    using stop_signal_found(1) [OF inv found] by (simp add: mode_changed_def)
  ultimately show ?thesis
    using found
    by (cases rule: one_mode_cases)
      (simp_all add: stop_if_active_def getter_defs on_shared_read do_push_def on_shared_ok)
qed

lemma attribute_stop_eq:
  assumes "table_inv (shared d)" and "get_signal nm (shared d) = Found i" and "complete_name w d nm"
  shows "attribute_stop w nm d =
    (Inr (), if stopped (signals (shared d) ! i) then d
             else d\<lparr>shared := snd (stop_signal nm (shared d)), push := stop_attr nm (push d)\<rparr>)"
  using stop_if_active_eq [OF assms(1,2)] by (simp add: attribute_stop_def fix_complete [OF assms(3)])

lemma attribute_pause_eq:
  assumes inv: "table_inv (shared d)" and found: "get_signal nm (shared d) = Found i"
    and cn: "complete_name w d nm"
  shows "attribute_pause w nm d =
    (if running (signals (shared d) ! i) then
       (Inr (), d\<lparr>shared := snd (pause_signal nm (shared d)), push := pause_attr nm (push d)\<rparr>)
     else (Inl (DevFailed ''Not started'' (''Signal '' @ nm @ '' NOT started'')), d))"
proof -
  have "fst (pause_signal nm (shared d)) = Inr ()"
    using pause_signal_found [OF inv found] by (simp add: mode_changed_def)
  then show ?thesis
    using found
    by (simp add: attribute_pause_def fix_complete [OF cn] getter_defs on_shared_read do_push_def
        on_shared_ok throw_def)
qed

subsection \<open>Following the context\<close>

definition in_context :: "string \<Rightarrow> hdb_signal \<Rightarrow> bool" where
  "in_context ctx sig \<longleftrightarrow>
     ctx = ALWAYS_CONTEXT \<or> ctx \<in> set (contexts_upper sig) \<or> ALWAYS_CONTEXT \<in> set (contexts_upper sig)"

definition context_mode :: "string \<Rightarrow> hdb_signal \<Rightarrow> sig_mode" where
  "context_mode ctx sig = (if in_context ctx sig then MStarted else MStopped)"

lemma to_upper_char_idem [simp]: "to_upper_char (to_upper_char c) = to_upper_char c"
proof (cases "97 \<le> (of_char c :: nat) \<and> (of_char c :: nat) \<le> 122")
  case True
  then have "to_upper_char c = char_of ((of_char c :: nat) - 32)" by (simp add: to_upper_char_def Let_def)
  moreover have "(of_char (char_of ((of_char c :: nat) - 32) :: char) :: nat) = of_char c - 32"
  proof -
    have "(of_char c :: nat) - 32 < 256" using True by linarith
    then have "((of_char c :: nat) - 32) mod 256 = of_char c - 32" by (rule mod_less)
    then show ?thesis by (simp add: take_bit_eq_mod)
  qed
  moreover have "\<not> 97 \<le> (of_char c :: nat) - 32" using True by linarith
  ultimately show ?thesis by (simp add: to_upper_char_def [of "char_of ((of_char c :: nat) - 32)"] Let_def)
next
  case False
  then have "to_upper_char c = c" by (auto simp: to_upper_char_def Let_def)
  then show ?thesis by simp
qed

lemma to_upper_idem [simp]: "to_upper (to_upper s) = to_upper s"
  by (simp add: to_upper_def comp_def)

lemma is_current_context_found:
  assumes "get_signal nm (shared d) = Found i"
  shows "on_shared (is_current_context nm (to_upper c)) d =
    (Inr (in_context (to_upper c) (signals (shared d) ! i)), d)"
  using assms by (auto simp: on_shared_def is_current_context_def in_context_def read_found Let_def)

text \<open>
  What a step of the loop does: it succeeds, changes the table and the queue only, and writes at most
  the signal at position \<open>i\<close>, which keeps its name and gets the mode.
\<close>

definition moded :: "nat \<Rightarrow> sig_mode \<Rightarrow> hdb_device \<Rightarrow> unit dev_result \<Rightarrow> bool" where
  "moded i md d r \<longleftrightarrow>
     (\<exists>s p. r = (Inr (), d\<lparr>shared := s, push := p\<rparr>) \<and> mode_changed i md (shared d) (Inr (), s))"

lemma moded_same:
  "table_inv (shared d) \<Longrightarrow> mode_of (signals (shared d) ! i) = md \<Longrightarrow> moded i md d (Inr (), d)"
  unfolding moded_def
  by (intro exI [of _ "shared d"] exI [of _ "push d"]) (simp add: mode_unchanged)

lemma mode_changed_snd: "mode_changed i md s r \<Longrightarrow> mode_changed i md s (Inr (), snd r)"
  by (simp add: mode_changed_def)

lemma push_shared_commute: "d\<lparr>push := p, shared := s\<rparr> = d\<lparr>shared := s, push := p\<rparr>"
  by (cases d) simp

lemma moded_intro:
  assumes "mode_changed i md (shared d) r"
  shows "moded i md d (Inr (), d\<lparr>shared := snd r, push := p\<rparr>)"
  unfolding moded_def using mode_changed_snd [OF assms] by blast

lemma follow_context_found:
  assumes inv: "table_inv (shared d)" and found: "get_signal nm (shared d) = Found i"
    and cn: "complete_name w d nm" and ctx: "context_set d = to_upper c"
  shows "moded i (context_mode (to_upper c) (signals (shared d) ! i)) d (follow_context w nm d)"
proof -
  let ?sig = "signals (shared d) ! i"
  have mode: "one_mode ?sig" using inv found by (intro table_inv_D get_signal_bound)
  have current: "follow_context w nm d =
      (if in_context (to_upper c) ?sig then attribute_start w nm d else attribute_stop w nm d)"
    by (simp add: follow_context_def ctx is_current_context_found [OF found])
  have start: "moded i MStarted d (attribute_start w nm d)"
  proof (cases "running ?sig")
    case True
    then show ?thesis
      using inv moded_same [of d i MStarted] by (simp add: attribute_start_eq [OF inv found cn] mode_of_def)
  next
    case False
    then show ?thesis
      using moded_intro [OF start_signal_found [OF inv found, of "w_tango w" "w_now w"], of "start_attr nm (push d)"]
      by (simp add: attribute_start_eq [OF inv found cn] push_shared_commute)
  qed
  have stop: "moded i MStopped d (attribute_stop w nm d)"
  proof (cases "stopped ?sig")
    case True
    then have "mode_of ?sig = MStopped" using mode by (auto simp: one_mode_def mode_of_def)
    then show ?thesis
      using True inv moded_same [of d i MStopped] by (simp add: attribute_stop_eq [OF inv found cn])
  next
    case False
    then show ?thesis
      using moded_intro [OF stop_signal_found(1) [OF inv found], of "stop_attr nm (push d)"]
      by (simp add: attribute_stop_eq [OF inv found cn])
  qed
  show ?thesis using start stop by (simp add: current context_mode_def)
qed

lemma moded_D:
  assumes "moded i md d r" and "i < length (signals (shared d))"
  obtains d' where "r = (Inr (), d')" and "table_inv (shared d')"
    and "domains d' = domains d" and "context_set d' = context_set d"
    and "length (signals (shared d')) = length (signals (shared d))"
    and "\<And>j. j < length (signals (shared d)) \<Longrightarrow> j \<noteq> i \<Longrightarrow> signals (shared d') ! j = signals (shared d) ! j"
    and "sig_name (signals (shared d') ! i) = sig_name (signals (shared d) ! i)"
    and "mode_of (signals (shared d') ! i) = md"
  using assms by (auto simp: moded_def mode_changed_def)

lemma each_context:
  "table_inv (shared d) \<Longrightarrow> context_set d = to_upper c \<Longrightarrow>
   \<forall>sig\<in>set (signals (shared d)). complete_name w d (sig_name sig) \<Longrightarrow>
   k \<le> length (signals (shared d)) \<Longrightarrow>
   \<exists>d'. each (follow_context w) (drop k (get_sig_list (shared d))) d = (Inr (), d') \<and>
     table_inv (shared d') \<and> length (signals (shared d')) = length (signals (shared d)) \<and>
     (\<forall>j<length (signals (shared d)). sig_name (signals (shared d') ! j) = sig_name (signals (shared d) ! j) \<and>
        (if j < k then signals (shared d') ! j = signals (shared d) ! j
         else mode_of (signals (shared d') ! j) = context_mode (to_upper c) (signals (shared d) ! j)))"
proof (induction "length (signals (shared d)) - k" arbitrary: k d)
  case 0
  then show ?case by (intro exI [of _ d]) (simp add: get_sig_list_def)
next
  case (Suc n)
  let ?sigs = "signals (shared d)"
  have k: "k < length ?sigs" using Suc.hyps(2) by simp
  let ?nm = "sig_name (?sigs ! k)"
  have found: "get_signal ?nm (shared d) = Found k" using Suc.prems(1) k by (intro get_signal_exact table_inv_D)
  have cn: "complete_name w d ?nm" using Suc.prems(3) k by simp
  obtain d1 where d1: "follow_context w ?nm d = (Inr (), d1)" "table_inv (shared d1)"
    "domains d1 = domains d" "context_set d1 = context_set d"
    "length (signals (shared d1)) = length ?sigs"
    "\<And>j. j < length ?sigs \<Longrightarrow> j \<noteq> k \<Longrightarrow> signals (shared d1) ! j = ?sigs ! j"
    "sig_name (signals (shared d1) ! k) = ?nm"
    "mode_of (signals (shared d1) ! k) = context_mode (to_upper c) (?sigs ! k)"
    using moded_D [OF follow_context_found [OF Suc.prems(1) found cn Suc.prems(2)] k] by blast
  have names: "sig_name (signals (shared d1) ! j) = sig_name (?sigs ! j)" if "j < length ?sigs" for j
    using d1(6,7) that by (cases "j = k") simp_all
  then have list: "get_sig_list (shared d1) = get_sig_list (shared d)"
    unfolding get_sig_list_def using d1(5) by (intro nth_equalityI) simp_all
  have "complete_name w d (sig_name (?sigs ! j))" if "j < length ?sigs" for j
    using Suc.prems(3) that by simp
  then have complete: "\<forall>sig\<in>set (signals (shared d1)). complete_name w d1 (sig_name sig)"
    using d1(3,5) names by (auto simp: in_set_conv_nth complete_name_def)
  have n: "n = length (signals (shared d1)) - Suc k" using Suc.hyps(2) d1(5) by simp
  obtain d' where d': "each (follow_context w) (drop (Suc k) (get_sig_list (shared d1))) d1 = (Inr (), d')"
    "table_inv (shared d')" "length (signals (shared d')) = length (signals (shared d1))"
    "\<forall>j<length (signals (shared d1)). sig_name (signals (shared d') ! j) = sig_name (signals (shared d1) ! j) \<and>
        (if j < Suc k then signals (shared d') ! j = signals (shared d1) ! j
         else mode_of (signals (shared d') ! j) = context_mode (to_upper c) (signals (shared d1) ! j))"
    using Suc.hyps(1) [OF n d1(2) _ complete] Suc.prems(2) d1(4,5) k by auto
  have "drop k (get_sig_list (shared d)) = ?nm # drop (Suc k) (get_sig_list (shared d1))"
    using k unfolding list by (simp add: get_sig_list_def Cons_nth_drop_Suc [symmetric])
  then have "each (follow_context w) (drop k (get_sig_list (shared d))) d = (Inr (), d')"
    using d1(1) d'(1) by simp
  moreover have "sig_name (signals (shared d') ! j) = sig_name (?sigs ! j) \<and>
      (if j < k then signals (shared d') ! j = ?sigs ! j
       else mode_of (signals (shared d') ! j) = context_mode (to_upper c) (?sigs ! j))"
    if j: "j < length ?sigs" for j
    using d'(4) d1(5,6,8) names [OF j] j by (cases "j < k"; cases "j = k") auto
  ultimately show ?case using d'(2,3) d1(5) by (intro exI [of _ d']) simp
qed


subsection \<open>Archive events\<close>

lemma log_failed_ok [simp]: "log_failed (Inr u, d) = (Inr u, d)"
  by (simp add: log_failed_def)

lemma test_or_log_ok [simp]: "test_or_log (Inr b, d) = (Inr b, d)"
  by (simp add: test_or_log_def)

lemma write_found: "get_signal nm s = Found i \<Longrightarrow> write_signal f nm s = (Inr (), set_signal i f s)"
  by (simp add: write_signal_def)

lemma on_shared_write:
  "get_signal nm (shared d) = Found i \<Longrightarrow>
     on_shared (write_signal f nm) d = (Inr (), d\<lparr>shared := set_signal i f (shared d)\<rparr>)"
  by (simp add: on_shared_def write_found)

lemma get_signal_set:
  assumes "mode_preserving f"
  shows "get_signal nm (set_signal i f s) = get_signal nm s"
  using mode_preserving.keeps_name [OF assms] by (intro get_signal_cong set_signal_names)

text \<open>What an error event and a value event make of the signal.\<close>

definition after_error :: "world \<Rightarrow> string \<Rightarrow> hdb_signal \<Rightarrow> hdb_signal" where
  "after_error w desc sig =
     (let sig1 = nok_event (w_time w) (w_now w) (sig\<lparr>evstate := ST_ALARM, sig_status := desc\<rparr>)
      in if running sig \<and> first_err sig then sig1\<lparr>first_err := False\<rparr> else sig1)"

definition after_value :: "world \<Rightarrow> hdb_signal \<Rightarrow> hdb_signal" where
  "after_value w sig =
     (let sig1 = ok_event (w_time w) (w_now w) sig
      in if sig_first sig then sig1\<lparr>sig_first := False\<rparr> else sig1)"

lemma handle_error_eq:
  assumes found: "get_signal nm (shared d) = Found i"
  shows "handle_error w nm i desc d =
    (Inr (running (signals (shared d) ! i) \<and> first_err (signals (shared d) ! i)),
     d\<lparr>shared := set_signal i (after_error w desc) (shared d)\<rparr>)"
proof -
  let ?sig = "signals (shared d) ! i"
  let ?err = "\<lambda>sig. sig\<lparr>evstate := ST_ALARM, sig_status := desc\<rparr>"
  let ?nok = "nok_event (w_time w) (w_now w)"
  have i: "i < length (signals (shared d))" using found by (rule get_signal_bound)
  have f1: "get_signal nm (set_signal i ?err (shared d)) = Found i"
    using found get_signal_set [OF event_error.mode_preserving_axioms] by simp
  have f2: "get_signal nm (set_signal i (\<lambda>sig. ?nok (?err sig)) (shared d)) = Found i"
    using f1 get_signal_set [OF nok.mode_preserving_axioms, of nm i _ _ "set_signal i ?err (shared d)"] i
    by (simp add: set_signal_twice)
  have keep: "running (?nok (?err ?sig)) = running ?sig" "first_err (?nok (?err ?sig)) = first_err ?sig"
    by (simp_all add: nok_event_def)
  have last: "set_signal i (after_error w desc) (shared d) =
      (if running ?sig \<and> first_err ?sig
       then set_signal i (\<lambda>sig. (?nok (?err sig))\<lparr>first_err := False\<rparr>) (shared d)
       else set_signal i (\<lambda>sig. ?nok (?err sig)) (shared d))"
    by (auto intro!: set_signal_cong simp: after_error_def Let_def)
  show ?thesis
    using f1 f2 i keep
    by (simp add: handle_error_def set_nok_event_def set_first_err_def getter_defs on_shared_write
        on_shared_read set_signal_twice set_signal_nth last)
qed

lemma handle_value_eq:
  assumes found: "get_signal nm (shared d) = Found i"
  shows "handle_value w nm i d =
    (Inr (running (signals (shared d) ! i) \<or> sig_first (signals (shared d) ! i)),
     d\<lparr>shared := set_signal i (after_value w) (shared d)\<rparr>)"
proof -
  let ?sig = "signals (shared d) ! i"
  let ?ok = "ok_event (w_time w) (w_now w)"
  have i: "i < length (signals (shared d))" using found by (rule get_signal_bound)
  have f1: "get_signal nm (set_signal i ?ok (shared d)) = Found i"
    using found get_signal_set [OF ok.mode_preserving_axioms] by simp
  have keep: "running (?ok ?sig) = running ?sig" "sig_first (?ok ?sig) = sig_first ?sig" "evstate (?ok ?sig) = ST_ON"
    by (simp_all add: ok_event_def)
  have last: "set_signal i (after_value w) (shared d) =
      (if sig_first ?sig then set_signal i (\<lambda>sig. (?ok sig)\<lparr>sig_first := False\<rparr>) (shared d)
       else set_signal i ?ok (shared d))"
    by (auto intro!: set_signal_cong simp: after_value_def Let_def)
  show ?thesis
    using found f1 i keep
    by (simp add: handle_value_def set_ok_event_def set_first_def getter_defs on_shared_write
        on_shared_read set_signal_twice set_signal_nth last Let_def)
qed

text \<open>When an event goes to the archive.\<close>

definition stored :: "hdb_event \<Rightarrow> hdb_signal \<Rightarrow> bool" where
  "stored ev sig =
     (case e_err ev of Some desc \<Rightarrow> running sig \<and> first_err sig | None \<Rightarrow> running sig \<or> sig_first sig)"

definition after_event :: "world \<Rightarrow> hdb_event \<Rightarrow> hdb_signal \<Rightarrow> hdb_signal" where
  "after_event w ev = (case e_err ev of Some desc \<Rightarrow> after_error w desc | None \<Rightarrow> after_value w)"

text \<open>The configuration of the attribute is asked for the first event only.\<close>

definition config_known :: "world \<Rightarrow> hdb_signal \<Rightarrow> bool" where
  "config_known w sig \<longleftrightarrow>
     \<not> sig_first sig \<or> (attr sig \<and> (\<exists>info. get_config (w_tango w) (sig_name sig) = Inr info))"

lemma push_event_eq:
  assumes found: "get_signal (e_name ev) (shared d) = Found i" and cn: "complete_name w d (e_name ev)"
    and config: "config_known w (signals (shared d) ! i)"
  shows "push_event w ev d =
    (Inr (), d\<lparr>shared := set_signal i (after_event w ev) (shared d),
       push := (if stored ev (signals (shared d) ! i) then push_back_cmd (insert_cmd (e_name ev) ev) (push d)
                else push d)\<rparr>)"
  using found config
  by (auto simp: push_event_def fix_complete [OF cn] getter_defs on_shared_read config_known_def
      handle_error_eq handle_value_eq stored_def after_event_def do_push_def split: option.split)


subsection \<open>Removing an attribute\<close>

lemma stop_keeps_lookup:
  assumes "table_inv s" and "get_signal nm s = Found i"
  shows "get_signal nm (snd (stop_signal nm s)) = Found i"
    and "erase_at i (signals (snd (stop_signal nm s))) = erase_at i (signals s)"
proof -
  obtain sig' where "signals (snd (stop_signal nm s)) = (signals s)[i := sig']"
    "sig_name sig' = sig_name (signals s ! i)"
    using stop_signal_found(1) [OF assms] by (auto simp: mode_changed_def)
  then show "get_signal nm (snd (stop_signal nm s)) = Found i"
    "erase_at i (signals (snd (stop_signal nm s))) = erase_at i (signals s)"
    using assms(2) get_signal_bound [OF assms(2)] by (simp_all add: get_signal_def map_update erase_at_update)
qed

lemma dev_remove_found:
  assumes "get_signal nm (shared d) = Found i" and "complete_name w d nm" and "find_stat nm (push d) \<noteq> LookupThrows"
  shows "\<exists>d'. dev_remove w nm d = (Inr (), d') \<and>
    signals (shared d') = erase_at i (signals (shared d)) \<and>
    cmd_events (push d') = cmd_events (push d) @ [named_cmd DB_REMOVE nm]"
proof -
  obtain p where p: "push_remove nm (push d) = (Inr (), p)" "cmd_events p = cmd_events (push d)"
    using assms(3) by (cases "find_stat nm (push d)") (simp_all add: push_remove_def)
  have "fst (remove_signal nm False (shared d)) = Inr ()"
    "signals (snd (remove_signal nm False (shared d))) = erase_at i (signals (shared d))"
    using assms(1) by (simp_all add: remove_signal_def Let_def)
  then show ?thesis
    using p assms(2)
    by (simp add: dev_remove_def fix_complete on_shared_ok on_push_def do_push_def remove_attr_def
        cmds.put_content)
qed

lemma attribute_remove_eq:
  assumes inv: "table_inv (shared d)" and cn: "complete_name w d nm"
    and stat: "find_stat nm (push d) \<noteq> LookupThrows"
  shows "case get_signal nm (shared d) of
      Found i \<Rightarrow> \<exists>d'. attribute_remove w nm d = (Inr (), d') \<and>
        signals (shared d') = erase_at i (signals (shared d)) \<and>
        cmd_events (push d') = cmd_events (push d) @
          (if stopped (signals (shared d) ! i) then [] else [named_cmd DB_STOP nm]) @ [named_cmd DB_REMOVE nm]
    | Missing \<Rightarrow> attribute_remove w nm d = (Inl (not_subscribed nm), d)
    | LookupThrows \<Rightarrow> attribute_remove w nm d = (Inl StdException, d)"
proof (cases "get_signal nm (shared d)")
  case (Found i)
  define d1 where "d1 = (if stopped (signals (shared d) ! i) then d
      else d\<lparr>shared := snd (stop_signal nm (shared d)), push := stop_attr nm (push d)\<rparr>)"
  have "get_signal nm (shared d1) = Found i" "erase_at i (signals (shared d1)) = erase_at i (signals (shared d))"
    using Found stop_keeps_lookup [OF inv Found] by (simp_all add: d1_def)
  moreover have "complete_name w d1 nm" using cn by (simp add: d1_def complete_name_def)
  moreover have "find_stat nm (push d1) \<noteq> LookupThrows"
    using stat by (simp add: d1_def find_stat_def stop_attr_def push_back_cmd_def Let_def)
  moreover have "cmd_events (push d1) = cmd_events (push d) @
      (if stopped (signals (shared d) ! i) then [] else [named_cmd DB_STOP nm])"
    by (simp add: d1_def stop_attr_def cmds.put_content)
  ultimately show ?thesis
    using dev_remove_found [of nm d1 i w] Found stop_if_active_eq [OF inv Found]
    by (simp add: attribute_remove_def fix_complete [OF cn] flip: d1_def)
qed (simp_all add: attribute_remove_def fix_complete [OF cn] stop_if_active_def on_shared_def
    getter_defs read_signal_def)


text \<open>Adding an attribute by command: the entry it makes, its mode, and the archive commands it queues.\<close>

text \<open>What starting makes of a stopped signal.\<close>

definition started :: "tango_env \<Rightarrow> int \<Rightarrow> hdb_signal \<Rightarrow> hdb_signal" where
  "started env now sig =
     (case new_proxy env (sig_name sig) of
        Some (reason, desc) \<Rightarrow> sig\<lparr>sig_status := desc\<rparr>
      | None \<Rightarrow> connect_signal env now sig)\<lparr>running := True, paused := False, stopped := False\<rparr>"

lemma started_keeps:
  "sig_name (started env now sig) = sig_name sig" "contexts (started env now sig) = contexts sig"
  "ttl (started env now sig) = ttl sig" "mode_of (started env now sig) = MStarted"
  by (simp_all add: started_def connect_signal_def reset_event_state_def mode_of_def Let_def
      split: option.split sum.split)

lemma start_stopped_signals:
  assumes found: "get_signal nm s = Found i" and nm: "sig_name (signals s ! i) = nm"
    and st: "stopped (signals s ! i)" "\<not> running (signals s ! i)" "\<not> paused (signals s ! i)"
  shows "signals (snd (start_signal env now nm s)) = (signals s)[i := started env now (signals s ! i)]"
proof -
  let ?s0 = "s\<lparr>attr_stopped := attr_stopped s - 1\<rparr>"
  have i: "i < length (signals s)" using found by (rule get_signal_bound)
  have "get_signal (sig_name (signals ?s0 ! i)) ?s0 = Found i"
    using found nm by (simp add: get_signal_def)
  note add = add_existing_eq [OF this, of env now "[]" 0]
  show ?thesis
    using found st i nm add
    by (cases "new_proxy env nm")
      (auto simp: start_signal_def catch_devfailed_def set_signal_def started_def Let_def)
qed

lemma lookup_snoc:
  assumes "lookup_name nm ns = Missing"
  shows "lookup_name nm (ns @ [nm]) = Found (length ns)"
proof -
  have "find_index (\<lambda>n. n = nm) ns = None" using lookup_name_Missing [OF assms] by auto
  then have "find_index (\<lambda>n. n = nm) (ns @ [nm]) = Some (length ns)" by (rule find_index_snoc) simp
  then show ?thesis by (simp add: lookup_name_def)
qed

text \<open>The new entry, before its mode is decided.\<close>

definition fresh_signal :: "int \<Rightarrow> string \<Rightarrow> nat \<Rightarrow> string list \<Rightarrow> u32 \<Rightarrow> hdb_signal" where
  "fresh_signal now nm idx ctxs t = reset_event_state now (new_signal nm idx ctxs t)"

lemma fresh_signal_fields [simp]:
  "sig_name (fresh_signal now nm idx ctxs t) = nm" "contexts (fresh_signal now nm idx ctxs t) = ctxs"
  "contexts_upper (fresh_signal now nm idx ctxs t) = List.map to_upper ctxs"
  "ttl (fresh_signal now nm idx ctxs t) = t" "stopped (fresh_signal now nm idx ctxs t)"
  "\<not> running (fresh_signal now nm idx ctxs t)" "\<not> paused (fresh_signal now nm idx ctxs t)"
  "(fresh_signal now nm idx ctxs t)\<lparr>ttl := t\<rparr> = fresh_signal now nm idx ctxs t"
  by (simp_all add: fresh_signal_def reset_event_state_def new_signal_def)

lemma dev_add_new:
  assumes "get_signal nm (shared d) = Missing" and "find_last_char (CHR ''/'') nm = Some idx"
    and "complete_name w d nm"
  shows "\<exists>s. dev_add w nm ctxs t d = (Inr nm, d\<lparr>shared := s\<rparr>) \<and>
    signals s = signals (shared d) @ [fresh_signal (w_now w) nm idx ctxs t]"
proof -
  have "on_shared (add_signal (w_tango w) (w_now w) nm ctxs t HDB_UPDATE_PROP False) d =
      (Inr (), d\<lparr>shared := snd (add_signal (w_tango w) (w_now w) nm ctxs t HDB_UPDATE_PROP False (shared d))\<rparr>)"
    using assms(1,2) by (intro on_shared_ok) (simp add: add_signal_def Let_def)
  moreover have "signals (snd (add_signal (w_tango w) (w_now w) nm ctxs t HDB_UPDATE_PROP False (shared d))) =
      signals (shared d) @ [fresh_signal (w_now w) nm idx ctxs t]"
    using assms(1,2) by (simp add: add_signal_def fresh_signal_def Let_def)
  ultimately show ?thesis using assms(3) by (simp add: dev_add_def fix_complete) blast
qed

lemma updatettl_last:
  assumes "signals s = sigs @ [sig]" and "get_signal nm s = Found (length sigs)" and "sig\<lparr>ttl := t\<rparr> = sig"
  shows "\<exists>s'. updatettl nm t s = (Inr (), s') \<and> signals s' = sigs @ [sig]"
  using assms by (simp add: updatettl_def update_signal_def set_signal_def)

lemma new_entry_found:
  assumes "get_signal nm s0 = Missing" and "signals s = signals s0 @ [sig]" and "sig_name sig = nm"
  shows "get_signal nm s = Found (length (signals s0))"
  using assms lookup_snoc [of nm "List.map sig_name (signals s0)"] by (simp add: get_signal_def)

lemma follow_context_new:
  assumes inv: "table_inv (shared d)" and sigs: "signals (shared d) = sigs @ [sig]"
    and found: "get_signal nm (shared d) = Found (length sigs)" and nm: "sig_name sig = nm"
    and st: "stopped sig" "\<not> running sig" "\<not> paused sig"
    and cn: "complete_name w d nm" and ctx: "context_set d = to_upper c"
  shows "\<exists>d'. follow_context w nm d = (Inr (), d') \<and>
    (if in_context (to_upper c) sig
     then signals (shared d') = sigs @ [started (w_tango w) (w_now w) sig] \<and> push d' = start_attr nm (push d)
     else d' = d)"
proof -
  have cur: "follow_context w nm d =
      (if in_context (to_upper c) sig then attribute_start w nm d else attribute_stop w nm d)"
    using is_current_context_found [OF found, of c] by (simp add: follow_context_def ctx sigs)
  have "signals (snd (start_signal (w_tango w) (w_now w) nm (shared d))) =
      sigs @ [started (w_tango w) (w_now w) sig]"
    using start_stopped_signals [OF found] st nm by (simp add: sigs)
  then show ?thesis
    using attribute_start_eq [OF inv found cn] attribute_stop_eq [OF inv found cn] st
    by (simp add: cur sigs)
qed

lemma attribute_add_new:
  fixes w d argin
  defines "nm \<equiv> argin ! 0" and "found \<equiv> strategy_contexts (contexts_map_upper d) (argin ! 1)"
  defines "ctxs \<equiv> (if fst found = [] then [defaultStrategy d] else fst found)"
    and "t \<equiv> read_u32 (argin ! 2)"
  assumes inv: "table_inv (shared d)" and len: "length argin = 3"
    and new: "get_signal nm (shared d) = Missing" and slash: "find_last_char (CHR ''/'') nm = Some idx"
    and cn: "complete_name w d nm" and ctx: "context_set d = to_upper c"
  shows "\<exists>sig d'. attribute_add w argin d =
      (if snd found then Inl (bad_strategy (argin ! 1) ctxs) else Inr (), d') \<and>
    signals (shared d') = signals (shared d) @ [sig] \<and> sig_name sig = nm \<and> contexts sig = ctxs \<and>
    ttl sig = t \<and> mode_of sig = (if to_upper c \<in> {ALWAYS_CONTEXT} \<union> to_upper ` set ctxs \<or>
        ALWAYS_CONTEXT \<in> to_upper ` set ctxs then MStarted else MStopped) \<and>
    cmd_events (push d') = cmd_events (push d) @ [(named_cmd DB_UPDATETTL nm)\<lparr>cmd_ttl := t\<rparr>] @
      (if mode_of sig = MStarted then [named_cmd DB_START nm] else [])"
proof -
  let ?sig = "fresh_signal (w_now w) nm idx ctxs t"
  obtain s1 where s1: "dev_add w nm ctxs t d = (Inr nm, d\<lparr>shared := s1\<rparr>)"
    "signals s1 = signals (shared d) @ [?sig]"
    using dev_add_new [OF new slash cn] by blast
  have found1: "get_signal nm s1 = Found (length (signals (shared d)))"
    using new_entry_found [OF new s1(2)] by simp
  obtain s2 where s2: "updatettl nm t s1 = (Inr (), s2)" "signals s2 = signals (shared d) @ [?sig]"
    using updatettl_last [OF s1(2) found1 fresh_signal_fields(8)] by blast
  define d2 where "d2 = d\<lparr>shared := s2, push := push_updatettl nm t (push d)\<rparr>"
  have add: "dev_add w nm ctxs t d = (Inr nm, d\<lparr>shared := s1\<rparr>)" by (rule s1(1))
  have upd: "dev_updatettl w nm t (d\<lparr>shared := s1\<rparr>) = (Inr nm, d2)"
    using cn s2(1)
    by (simp add: dev_updatettl_def fix_name_def complete_name_def on_shared_def do_push_def d2_def)
  have inv1: "dev_inv (d\<lparr>shared := s1\<rparr>)"
    using dev_add_inv [of d w nm ctxs t] inv add by (simp add: inv_after_def dev_inv_def)
  have inv2: "table_inv (shared d2)"
    using dev_updatettl_inv [OF inv1, of w nm t] upd by (simp add: inv_after_def dev_inv_def)
  have sigs2: "signals (shared d2) = signals (shared d) @ [?sig]" by (simp add: d2_def s2(2))
  have found2: "get_signal nm (shared d2) = Found (length (signals (shared d)))"
    using new_entry_found [OF new sigs2] by simp
  have "complete_name w d2 nm" "context_set d2 = to_upper c"
    using cn ctx by (simp_all add: complete_name_def d2_def)
  from follow_context_new [OF inv2 sigs2 found2 _ _ _ _ this]
  obtain d3 where d3: "follow_context w nm d2 = (Inr (), d3)"
    "if in_context (to_upper c) ?sig
     then signals (shared d3) = signals (shared d) @ [started (w_tango w) (w_now w) ?sig] \<and>
       push d3 = start_attr nm (push d2)
     else d3 = d2"
    by auto
  have "attribute_add w argin d =
      and_then (dev_add w nm ctxs t d) (\<lambda>name1 d1. and_then (dev_updatettl w name1 t d1) (\<lambda>name2 d2.
        and_then (follow_context w name2 d2) (\<lambda>u d3.
          if snd found then throw (bad_strategy (argin ! 1) ctxs) d3 else (Inr (), d3))))"
    using len unfolding attribute_add_def nm_def found_def ctxs_def t_def Let_def by simp
  then have res: "attribute_add w argin d =
      (if snd found then Inl (bad_strategy (argin ! 1) ctxs) else Inr (), d3)"
    using add upd d3(1) by (simp add: throw_def)
  have mode: "in_context (to_upper c) ?sig \<longleftrightarrow>
      to_upper c \<in> {ALWAYS_CONTEXT} \<union> to_upper ` set ctxs \<or> ALWAYS_CONTEXT \<in> to_upper ` set ctxs"
    by (auto simp: in_context_def)
  have ev: "cmd_events (push d2) = cmd_events (push d) @ [(named_cmd DB_UPDATETTL nm)\<lparr>cmd_ttl := t\<rparr>]"
    by (simp add: d2_def push_updatettl_def cmds.put_content)
  show ?thesis
  proof (cases "in_context (to_upper c) ?sig")
    case True
    then show ?thesis
      using d3(2) res mode ev started_keeps [of "w_tango w" "w_now w" ?sig]
      by (intro exI [of _ "started (w_tango w) (w_now w) ?sig"] exI [of _ d3])
        (simp add: start_attr_def cmds.put_content)
  next
    case False
    have "mode_of ?sig = MStopped" by (simp add: mode_of_def)
    then show ?thesis
      using False d3(2) res mode ev sigs2 by (intro exI [of _ ?sig] exI [of _ d3]) simp
  qed
qed

end
