(* ===== verification/HdbProps.thy ===== *)
theory HdbProps
  imports HdbSubscribe
begin

text \<open>The properties of the archiving device's signal table with their witnesses.\<close>

subsection \<open>A small signal table, evaluated: the concrete inputs of the witnesses\<close>

definition info0 :: attr_info where
  "info0 = \<lparr>data_type = 5, data_format = 0, writable = 0, max_dim_x = 1, max_dim_y = 0\<rparr>"

definition ok_env :: tango_env where
  "ok_env = \<lparr>new_proxy = (\<lambda>nm. None), get_config = (\<lambda>nm. Inr info0),
    subscribe_event = (\<lambda>nm. Inr (3, 4, True))\<rparr>"

definition nm_a :: string where "nm_a = ''d/a''"
definition nm_b :: string where "nm_b = ''d/b''"

definition sig_a :: hdb_signal where
  "sig_a = reset_event_state 0 (new_signal nm_a 1 [''run''] 5)"

definition sig_b :: hdb_signal where
  "sig_b = reset_event_state 0 (new_signal nm_b 1 [] 6)"

text \<open>One signal added to the empty table, then a second one.\<close>

definition table1 :: shared_data where
  "table1 = snd (add_new ok_env 0 nm_a [''run''] 5 SharedData_new)"

definition table2 :: shared_data where
  "table2 = snd (add_new ok_env 0 nm_b [] 6 table1)"

lemmas sig_eval = sig_a_def sig_b_def reset_event_state_def new_signal_def nm_a_def nm_b_def

lemma names_lookup:
  "lookup_name nm_a [] = Missing" "lookup_name nm_a [nm_a] = Found 0" "lookup_name nm_b [nm_a] = Missing"
  "lookup_name nm_a [nm_a, nm_b] = Found 0" "lookup_name nm_b [nm_a, nm_b] = Found 1"
  "lookup_name ''d/c'' [nm_a, nm_b] = Missing"
  by (simp_all add: lookup_name_def nm_a_def nm_b_def compare_without_domain_def remove_domain_def
      str_find_def to_lower_def to_lower_char_def Let_def)

lemma names_slash:
  "find_last_char (CHR ''/'') nm_a = Some 1" "find_last_char (CHR ''/'') nm_b = Some 1"
  "find_last_char (CHR ''/'') ''d/c'' = Some 1"
  by (simp_all add: find_last_char_def nm_a_def nm_b_def)

lemma sig_names [simp]: "sig_name sig_a = nm_a" "sig_name sig_b = nm_b"
  by (simp_all add: sig_a_def sig_b_def reset_event_state_def new_signal_def)

lemma table1_eq:
  "table1 = SharedData_new\<lparr>signals := [sig_a], attr_number := 1, attr_stopped := 1\<rparr>"
  by (simp add: table1_def add_new_def add_signal_def get_signal_def SharedData_new_def names_lookup
      names_slash Let_def bump_action_def sig_a_def)

lemma table2_eq:
  "table2 = SharedData_new\<lparr>signals := [sig_a, sig_b], attr_number := 2, attr_stopped := 2\<rparr>"
  by (simp add: table2_def table1_eq add_new_def add_signal_def get_signal_def SharedData_new_def
      names_lookup names_slash Let_def bump_action_def sig_b_def)

lemma table2_reachable: "table_reachable table2"
  unfolding table2_def table1_def
  by (rule table_reachable.step [OF table_reachable.step [OF table_reachable.init]];
      rule table_step.add, rule refl)

lemma table2_inv: "table_inv table2"
  using table2_reachable by (rule table_reachable_inv)

lemma table2_get:
  "get_signal nm_a table2 = Found 0" "get_signal nm_b table2 = Found 1" "get_signal ''d/c'' table2 = Missing"
  by (simp_all add: get_signal_def table2_eq SharedData_new_def names_lookup)

lemma table2_modes: "nm_a \<in> dom (abs_modes table2)" "nm_b \<in> dom (abs_modes table2)"
  by (simp_all add: abs_modes_dom table2_eq)

lemma table2_signals: "signals table2 = [sig_a, sig_b]"
  by (simp add: table2_eq)

text \<open>The first signal started: it has been connected and waits for the subscription thread.\<close>

definition table3 :: shared_data where
  "table3 = snd (start_signal ok_env 0 nm_a table2)"

definition sig_a_started :: hdb_signal where
  "sig_a_started = sig_a\<lparr>sig_info := info0, attr := True, running := True, stopped := False\<rparr>"

lemma table3_signals: "signals table3 = [sig_a_started, sig_b]"
proof -
  have "get_signal nm_a (table2\<lparr>attr_stopped := 1\<rparr>) = Found 0"
    using table2_get(1) by (simp add: get_signal_def)
  moreover have "attr_stopped table2 = 2" by (simp add: table2_eq)
  ultimately show ?thesis
    using table2_get(1) table2_signals
    by (simp add: table3_def start_signal_def add_signal_def catch_devfailed_def ok_env_def Let_def
        set_signal_def sig_a_started_def bump_action_def sig_eval)
qed

lemma table3_reachable: "table_reachable table3"
  unfolding table3_def using table2_reachable by (rule table_reachable.step) (rule table_step.start, rule refl)

lemma table3_inv: "table_inv table3"
  using table3_reachable by (rule table_reachable_inv)

lemma ok_env_ok: "env_ok ok_env nm"
  by (simp add: env_ok_def ok_env_def)

subsection \<open>The table\<close>

text \<open>C14: in every reachable state of the signal table each signal is in exactly one of the modes started,
  paused and stopped, the four published counters are the numbers of signals in each mode, signal names
  are distinct, and the request counter of the property update stays between 0 and 2.\<close>

theorem signal_table_invariant:
  assumes "table_reachable s"
  shows "list_all (\<lambda>sig. of_bool (running sig) + of_bool (paused sig) + of_bool (stopped sig) = (1::nat))
           (signals s) \<and>
         distinct (List.map sig_name (signals s)) \<and> attr_number s = int (length (signals s)) \<and>
         attr_started s = int (count_if running (signals s)) \<and>
         attr_paused s = int (count_if paused (signals s)) \<and>
         attr_stopped s = int (count_if stopped (signals s)) \<and> 0 \<le> action s \<and> action s \<le> 2"
proof -
  have "table_inv s" using assms by (rule table_reachable_inv)
  then show ?thesis
    by (auto simp: table_inv_def counters_ok_def one_mode_def list_all_iff)
qed

theorem signal_table_invariant_witness:
  "attr_number table3 = 2 \<and> attr_started table3 = 1 \<and> attr_stopped table3 = 1 \<and> attr_paused table3 = 0"
  using signal_table_invariant [OF table3_reachable]
  by (simp add: table3_signals sig_a_started_def sig_eval)

text \<open>C15: for a signal of the table, starting, pausing and stopping succeed whatever Tango answers, and
  implement the update of the abstract map from names to modes: the named signal gets the mode and no
  other signal changes its mode.\<close>

theorem mode_commands_refine:
  assumes "table_inv s" and "nm \<in> dom (abs_modes s)"
  shows "fst (start_signal env now nm s) = Inr () \<and>
           abs_modes (snd (start_signal env now nm s)) = (abs_modes s)(nm \<mapsto> MStarted) \<and>
         fst (pause_signal nm s) = Inr () \<and>
           abs_modes (snd (pause_signal nm s)) = (abs_modes s)(nm \<mapsto> MPaused) \<and>
         fst (stop_signal nm s) = Inr () \<and>
           abs_modes (snd (stop_signal nm s)) = (abs_modes s)(nm \<mapsto> MStopped)"
proof -
  obtain i where found: "get_signal nm s = Found i" and i: "i < length (signals s)"
    and nm: "sig_name (signals s ! i) = nm"
    using assms by (rule get_signal_dom)
  note changes = start_signal_found [OF assms(1) found] pause_signal_found [OF assms(1) found]
    stop_signal_found(1) [OF assms(1) found]
  have "fst r = Inr () \<and> abs_modes (snd r) = (abs_modes s)(nm \<mapsto> md)"
    if "mode_changed i md s r" for md r
    using mode_changed_abs [OF that assms(1) i] that nm by (simp add: mode_changed_def)
  then show ?thesis using changes by blast
qed

theorem mode_commands_refine_witness:
  "abs_modes (snd (start_signal ok_env 0 nm_a table2)) = (abs_modes table2)(nm_a \<mapsto> MStarted)"
  using mode_commands_refine [OF table2_inv table2_modes(1)] by blast

text \<open>C16: adding a new signal whose name has an attribute part adds it in the mode stopped, and removing a
  signal removes exactly its entry; a known name cannot be added again, a name without a slash is a
  syntax error, and starting, pausing and stopping an unknown name is an error, all of which leave the
  table as it was.\<close>

theorem add_remove_refine:
  assumes "table_inv s"
  shows "(case get_signal nm s of
            Missing \<Rightarrow>
              (case find_last_char (CHR ''/'') nm of
                 None \<Rightarrow> add_new env now nm ctxs t s =
                   (Inl (DevFailed ''SyntaxError'' (''Syntax error in signal name '' @ nm)), s)
               | Some idx \<Rightarrow> fst (add_new env now nm ctxs t s) = Inr () \<and>
                   abs_modes (snd (add_new env now nm ctxs t s)) = (abs_modes s)(nm \<mapsto> MStopped)) \<and>
              start_signal env now nm s = (Inl (not_subscribed nm), s) \<and>
              pause_signal nm s = (Inl (not_subscribed nm), s) \<and>
              stop_signal nm s = (Inl (not_subscribed nm), s)
          | Found i \<Rightarrow>
              add_new env now nm ctxs t s =
                (Inl (DevFailed ''BadSignalName'' (''Signal '' @ nm @ '' already subscribed'')), s) \<and>
              fst (remove_signal nm False s) = Inr () \<and>
              abs_modes (snd (remove_signal nm False s)) =
                (abs_modes s)(sig_name (signals s ! i) := None)
          | LookupThrows \<Rightarrow>
              add_new env now nm ctxs t s = (Inl StdException, s) \<and>
              remove_signal nm False s = (Inl StdException, s))"
proof (cases "get_signal nm s")
  case (Found i)
  then show ?thesis
    using remove_abs [OF assms Found] by (simp add: add_new_def add_signal_def)
next
  case Missing
  then show ?thesis
    using add_new_abs [OF Missing, of _ env now ctxs t]
    by (simp add: start_signal_def pause_signal_def stop_signal_def split: option.split)
      (simp add: add_new_def add_signal_def)
next
  case LookupThrows
  then show ?thesis by (simp add: add_new_def add_signal_def remove_signal_def)
qed

theorem add_remove_refine_witness:
  "abs_modes (snd (add_new ok_env 0 ''d/c'' [] 7 table2)) = (abs_modes table2)(''d/c'' \<mapsto> MStopped) \<and>
   abs_modes (snd (remove_signal nm_b False table2)) = (abs_modes table2)(nm_b := None)"
  using add_remove_refine [OF table2_inv, where nm = "''d/c''" and env = ok_env and now = 0 and ctxs = "[]" and t = 7]
    add_remove_refine [OF table2_inv, where nm = nm_b and env = ok_env and now = 0 and ctxs = "[]" and t = 7]
  by (simp add: table2_get names_slash table2_signals)

text \<open>Removing a signal that the table does not hold uses a null pointer: \<open>remove\<close> reads the event
  ids of the looked-up signal before it checks that there is one, so that its own check for a missing
  signal is never reached.\<close>

theorem remove_unknown_is_undefined:
  "(fst (remove_signal nm stop s) = Inl Undefined) = (get_signal nm s = Missing) \<and>
   fst (remove_signal nm stop s) \<noteq> Inl (not_subscribed nm)"
  by (simp add: remove_signal_def not_subscribed_def Let_def split: lookup.split)

subsection \<open>Subscription\<close>

text \<open>one pass of the subscription thread acts on each signal independently of the others: the loop
  over the table, with its nested calls of \<open>add\<close> that look the signal up again by name, is the map of a
  function of one signal, and it always completes.\<close>

theorem subscription_pass_is_map:
  assumes "table_inv s"
  shows "subscribe_events env now s =
    (Inr (), s\<lparr>signals := List.map (subscribe_signal env now) (signals s), initialized := True\<rparr>)"
  using assms by (intro subscribe_events_eq table_inv_D(3))

theorem subscription_pass_is_map_witness:
  "signals (snd (subscribe_events ok_env 0 table3)) =
     [subscribe_with_proxy ok_env sig_a_started, sig_b]"
  using subscription_pass_is_map [OF table3_inv, of ok_env 0]
  by (simp add: table3_signals subscribe_signal_def to_subscribe_def sig_a_started_def sig_eval)

text \<open>Subscription is eventually complete: after a round of the thread in which the Tango calls for
  every signal succeed, no signal is left to subscribe, and the thread waits for a signal unless a second
  update of the device property is pending. A signal that was subscribed stays as it was.\<close>

theorem subscription_round_completes:
  assumes "table_inv s" and "\<forall>sig\<in>set (signals s). env_ok env (sig_name sig)"
  shows "nb_sig_to_subscribe (snd (thread_round env now s)) = 0 \<and>
         fst (thread_round env now s) = Inr (if action s = 2 then NoWait else WaitSignal) \<and>
         (\<forall>i<length (signals s). \<not> to_subscribe (signals s ! i) \<longrightarrow>
            signals (snd (thread_round env now s)) ! i = signals s ! i)"
proof -
  let ?p = "put_signal_property s"
  have p: "signals ?p = signals s" "action ?p = (if action s > 0 then action s - 1 else action s)"
    using assms(1) by (auto simp: put_signal_property_def Let_def table_inv_def)
  have sub: "subscribe_events env now ?p =
      (Inr (), ?p\<lparr>signals := List.map (subscribe_signal env now) (signals s), initialized := True\<rparr>)"
    using subscribe_events_eq [OF table_inv_D(3) [OF property_inv [OF assms(1)]]] p(1) by simp
  have "nb_sig_to_subscribe (snd (subscribe_events env now ?p)) = 0"
    using assms(2) by (auto simp: sub nb_zero_iff subscribe_signal_done)
  moreover have "action s \<in> {0, 1, 2}" using assms(1) by (auto simp: table_inv_def)
  ultimately show ?thesis
    using p(2) by (auto simp: thread_round_def sub subscribe_signal_def)
qed

theorem subscription_round_completes_witness:
  "nb_sig_to_subscribe (snd (thread_round ok_env 0 table3)) = 0 \<and> nb_sig_to_subscribe table3 = 1"
  using subscription_round_completes [OF table3_inv, of ok_env 0] ok_env_ok
  by (simp add: nb_sig_to_subscribe_def table3_signals to_subscribe_def sig_a_started_def sig_eval)

text \<open>Stopping one signal drops its subscription, stopping all of them does not: after \<open>stop\<close> the signal
  has no event and no proxy, while \<open>stop_all\<close> and \<open>start_all\<close> keep the event id and the proxy of every
  signal, so that a signal without proxy started by \<open>start_all\<close> waits for the subscription thread.\<close>

theorem stop_drops_stop_all_keeps:
  assumes "table_inv s" and "get_signal nm s = Found i" and "\<not> stopped (signals s ! i)"
  shows "event_id (signals (snd (stop_signal nm s)) ! i) = HDB_ERR \<and>
         \<not> attr (signals (snd (stop_signal nm s)) ! i) \<and>
         event_id (signals (stop_all s) ! i) = event_id (signals s ! i) \<and>
         attr (signals (stop_all s) ! i) = attr (signals s ! i) \<and>
         attr (signals (start_all s) ! i) = attr (signals s ! i) \<and>
         to_subscribe (signals (start_all s) ! i) = (event_id (signals s ! i) = HDB_ERR)"
  using stop_signal_found(2) [OF assms] get_signal_bound [OF assms(2)]
  by (simp add: stop_all_def start_all_def to_subscribe_def)

lemma table3_get: "get_signal nm_a table3 = Found 0"
  by (simp add: get_signal_def table3_signals sig_a_started_def names_lookup)

theorem stop_drops_stop_all_keeps_witness:
  "\<not> attr (signals (snd (stop_signal nm_a table3)) ! 0) \<and> attr (signals (stop_all table3) ! 0)"
  using stop_drops_stop_all_keeps [OF table3_inv table3_get]
  by (simp add: table3_signals sig_a_started_def)


subsection \<open>Periodic events and published lists\<close>

text \<open>C17: the periodic check sets to alarm exactly the started signals without error whose period plus
  tolerance has passed since their last event, and returns, in whole milliseconds, the shortest time to
  the next such timeout, at most ten seconds.\<close>

theorem periodic_check_correct:
  fixes now tol s
  defines "r \<equiv> check_periodic_event_timeout now tol s"
    and "pending \<equiv> {time_to_timeout now tol sig | sig. sig \<in> set (signals s) \<and> running sig \<and>
           evstate sig = ST_ON \<and> 0 < periodic_ev sig \<and> 0 < time_to_timeout now tol sig}"
  shows "signals (snd r) =
           List.map (\<lambda>sig. if running sig \<and> evstate sig = ST_ON \<and> 0 < periodic_ev sig \<and>
                       (periodic_ev sig + tol) * 1000000 \<le> now - last_ev sig
                     then sig\<lparr>evstate := ST_ALARM, sig_status := ''Timeout on periodic event''\<rparr>
                     else sig) (signals s) \<and>
         0 \<le> fst r \<and> fst r \<le> 10000 \<and> (\<forall>t\<in>pending. fst r * 1000000 \<le> t) \<and>
         (fst r = 10000 \<or> fst r \<in> (\<lambda>t. t div 1000000) ` pending)"
proof -
  let ?ts = "pending_times now tol (signals s)" and ?m = "10000 * 1000000 :: int"
  let ?min = "fold min ?ts ?m"
  have r: "fst r = ?min div 1000000" "signals (snd r) = List.map (check_signal now tol) (signals s)"
    using periodic_loop_min [of ?m now tol "signals s"]
    by (simp_all add: r_def check_periodic_event_timeout_def Let_def periodic_loop_signals)
  have pending: "set ?ts = pending"
    by (auto simp: pending_def pending_times_def checked_def)
  have "\<forall>t\<in>pending. 0 < t" by (auto simp: pending_def)
  then have "0 < ?min" using fold_min_mem [of ?ts ?m] pending by auto
  moreover have "?min \<le> ?m" "\<forall>t\<in>pending. ?min \<le> t" using fold_min_le [of ?ts ?m] pending by auto
  moreover have "?min = ?m \<or> ?min \<in> pending" using fold_min_mem [of ?ts ?m] pending by auto
  moreover have "fst r * 1000000 \<le> ?min" by (simp add: r(1))
  ultimately have bounds: "0 \<le> fst r \<and> fst r \<le> 10000 \<and> (\<forall>t\<in>pending. fst r * 1000000 \<le> t) \<and>
      (fst r = 10000 \<or> fst r \<in> (\<lambda>t. t div 1000000) ` pending)"
    unfolding r(1) by auto
  have "signals (snd r) =
      List.map (\<lambda>sig. if running sig \<and> evstate sig = ST_ON \<and> 0 < periodic_ev sig \<and>
                  (periodic_ev sig + tol) * 1000000 \<le> now - last_ev sig
                then sig\<lparr>evstate := ST_ALARM, sig_status := ''Timeout on periodic event''\<rparr>
                else sig) (signals s)"
    unfolding r(2)
    by (intro map_cong refl)
      (simp add: check_signal_def checked_def time_to_timeout_def periodic_timeout_def)
  then show ?thesis using bounds by blast
qed

definition periodic_signal :: hdb_signal where
  "periodic_signal = sig_b\<lparr>running := True, stopped := False, evstate := ST_ON, periodic_ev := 1000, last_ev := 0\<rparr>"

theorem periodic_check_correct_witness:
  "fst (check_periodic_event_timeout 5 0 (table3\<lparr>signals := [periodic_signal]\<rparr>)) = 999"
proof -
  have "{time_to_timeout 5 0 sig | sig. sig \<in> set [periodic_signal] \<and> running sig \<and>
      evstate sig = ST_ON \<and> 0 < periodic_ev sig \<and> 0 < time_to_timeout 5 0 sig} = {999999995}"
    by (auto simp: time_to_timeout_def periodic_signal_def)
  then show ?thesis
    using periodic_check_correct [of 5 0 "table3\<lparr>signals := [periodic_signal]\<rparr>"] by auto
qed

text \<open>The lists of signals with and without error partition the table, the published numbers are their
  lengths, the device is in alarm exactly when some signal is in error, and refreshing the published list
  of error texts gives the current texts and tells whether they differ from the published ones.\<close>

theorem error_lists_agree:
  "length (get_sig_on_error_list s) = get_sig_on_error_num s \<and>
   length (get_sig_not_on_error_list s) = get_sig_not_on_error_num s \<and>
   get_sig_on_error_num s + get_sig_not_on_error_num s = length (signals s) \<and>
   get_sig_started_num s + get_sig_not_started_num s = length (signals s) \<and>
   set (get_sig_on_error_list s) \<union> set (get_sig_not_on_error_list s) = set (get_sig_list s) \<and>
   (hdb_state s = ST_ALARM) = (get_sig_on_error_list s \<noteq> []) \<and>
   get_error_list s old = (List.map error_text (signals s), List.map error_text (signals s) \<noteq> old)"
proof -
  have opposite: "not_on_error = (\<lambda>sig. \<not> on_error sig)"
    by (rule ext) (metis dev_state.distinct(1) dev_state.exhaust not_on_error_def on_error_def)
  have sum: "count_if P sigs + count_if (\<lambda>sig. \<not> P sig) sigs = length sigs"
    for P and sigs :: "hdb_signal list"
    by (induction sigs) auto
  have "set (get_sig_on_error_list s) \<union> set (get_sig_not_on_error_list s) = set (get_sig_list s)"
    by (auto simp: get_sig_on_error_list_def get_sig_not_on_error_list_def get_sig_list_def
        names_where_def opposite)
  moreover have "(hdb_state s = ST_ALARM) = (get_sig_on_error_list s \<noteq> [])"
    by (auto simp: hdb_state_def list_ex_iff get_sig_on_error_list_def names_where_def filter_empty_conv)
  moreover have "get_sig_on_error_num s + get_sig_not_on_error_num s = length (signals s)"
    "get_sig_started_num s + get_sig_not_started_num s = length (signals s)"
    by (simp_all add: get_sig_on_error_num_def get_sig_not_on_error_num_def opposite
        get_sig_started_num_def get_sig_not_started_num_def sum)
  ultimately show ?thesis
    by (simp add: get_sig_on_error_list_def get_sig_not_on_error_list_def get_sig_on_error_num_def
        get_sig_not_on_error_num_def list_num get_error_list_def refresh_list_eq)
qed

text \<open>\<open>get_lists\<close> makes the published lists the names of the table and its names by mode, and reports a
  change exactly when a list changed or a time to live it stores did; the times to live of the signals
  added since the previous call are not stored, so that the array keeps its old entries for them.\<close>

theorem get_lists_correct:
  assumes "table_inv s"
  defines "by_mode \<equiv> (\<lambda>md. names_where (\<lambda>sig. mode_of sig = md) s)"
    and "ctxs \<equiv> List.map (\<lambda>sig. join_contexts (contexts sig)) (signals s)"
  shows "l_names (fst (get_lists s l)) = get_sig_list s \<and> l_start (fst (get_lists s l)) = by_mode MStarted \<and>
         l_pause (fst (get_lists s l)) = by_mode MPaused \<and> l_stop (fst (get_lists s l)) = by_mode MStopped \<and>
         l_context (fst (get_lists s l)) = ctxs \<and>
         l_ttl (fst (get_lists s l)) = (\<lambda>i. if i < length (signals s) \<and> i < length (l_names l)
           then ttl (signals s ! i) else l_ttl l i) \<and>
         snd (get_lists s l) = (get_sig_list s \<noteq> l_names l \<or> by_mode MStarted \<noteq> l_start l \<or>
           by_mode MPaused \<noteq> l_pause l \<or> by_mode MStopped \<noteq> l_stop l \<or> ctxs \<noteq> l_context l \<or>
           l_ttl (fst (get_lists s l)) \<noteq> l_ttl l)"
proof -
  have modes: "list_all one_mode (signals s)" using assms(1) by (simp add: table_inv_def)
  have same: "names_where P s = names_where Q s" if "\<And>sig. one_mode sig \<Longrightarrow> P sig = Q sig" for P Q
    using modes that unfolding names_where_def list_all_iff by (intro arg_cong [of _ _ "List.map sig_name"] filter_cong) auto
  have by_mode: "names_where running s = by_mode MStarted"
    "names_where (\<lambda>sig. \<not> running sig \<and> paused sig) s = by_mode MPaused"
    "names_where (\<lambda>sig. \<not> running sig \<and> \<not> paused sig \<and> stopped sig) s = by_mode MStopped"
    unfolding by_mode_def by (auto intro!: same simp: mode_of_def one_mode_def)
  let ?ttl = "\<lambda>i. if i < length (signals s) \<and> i < length (l_names l) then ttl (signals s ! i) else l_ttl l i"
  have fst: "fst (get_lists s l) =
      \<lparr>l_names = get_sig_list s, l_start = by_mode MStarted, l_pause = by_mode MPaused,
       l_stop = by_mode MStopped, l_context = ctxs, l_ttl = ?ttl\<rparr>"
    by (simp add: get_lists_def Let_def refresh_list_eq get_sig_list_def ctxs_def by_mode)
  have "snd (get_lists s l) = (get_sig_list s \<noteq> l_names l \<or>
      list_ex (\<lambda>i. (i < length (signals s) \<and> i < length (l_names l)) \<and> ttl (signals s ! i) \<noteq> l_ttl l i)
        [0..<length (l_names l)] \<or>
      ctxs \<noteq> l_context l \<or> by_mode MStarted \<noteq> l_start l \<or> by_mode MPaused \<noteq> l_pause l \<or>
      by_mode MStopped \<noteq> l_stop l)"
    unfolding get_lists_def Let_def refresh_list_eq get_sig_list_def ctxs_def by_mode snd_conv by (rule refl)
  moreover note ttl_changed [of "length (signals s)" "length (l_names l)" "\<lambda>i. ttl (signals s ! i)" "l_ttl l"]
  ultimately have "snd (get_lists s l) = (get_sig_list s \<noteq> l_names l \<or> ?ttl \<noteq> l_ttl l \<or>
      ctxs \<noteq> l_context l \<or> by_mode MStarted \<noteq> l_start l \<or> by_mode MPaused \<noteq> l_pause l \<or>
      by_mode MStopped \<noteq> l_stop l)"
    by (simp only:)
  then show ?thesis unfolding fst sig_lists.simps by blast
qed

theorem get_lists_correct_witness:
  "l_start (fst (get_lists table3
     \<lparr>l_names = [], l_start = [], l_pause = [], l_stop = [], l_context = [], l_ttl = (\<lambda>_. 9)\<rparr>)) = [nm_a]"
  using get_lists_correct [OF table3_inv]
  by (simp add: names_where_def table3_signals mode_of_def sig_a_started_def sig_eval)

end
