(* ===== verification/HdbDevProps.thy ===== *)
theory HdbDevProps
  imports HdbDeviceOps HdbProps
begin

text \<open>
  The properties of names, of configuration entries, of the archive queue and of the archiving device,
  with their witnesses.
\<close>

subsection \<open>Names\<close>

text \<open>Looking a signal up gives the signal with that very name if there is one, otherwise the first one
  whose name is the same without its domain; it finds nothing only if no name is the same; and it throws
  a standard exception, which no caller of the class catches, exactly when no exact name exists and
  removing a domain throws before a match, in particular for every name whose host part has a dot and
  no port.\<close>

theorem lookup_correct:
  "(case get_signal nm s of
      Found i \<Rightarrow> i < length (signals s) \<and>
        (sig_name (signals s ! i) = nm \<or>
          (nm \<notin> sig_name ` set (signals s) \<and> compare_without_domain (sig_name (signals s ! i)) nm = Some True \<and>
           (\<forall>j<i. compare_without_domain (sig_name (signals s ! j)) nm = Some False)))
    | Missing \<Rightarrow> nm \<notin> sig_name ` set (signals s) \<and>
        (\<forall>sig\<in>set (signals s). compare_without_domain (sig_name sig) nm = Some False)
    | LookupThrows \<Rightarrow> nm \<notin> sig_name ` set (signals s) \<and>
        (\<exists>sig\<in>set (signals s). compare_without_domain (sig_name sig) nm = None)) \<and>
   (CHR ''.'' \<in> set nm \<and> CHR '':'' \<notin> set (drop (after_scheme nm) nm) \<and> signals s \<noteq> [] \<and>
      nm \<notin> sig_name ` set (signals s) \<longrightarrow> get_signal nm s = LookupThrows)"
proof
  show "case get_signal nm s of
      Found i \<Rightarrow> i < length (signals s) \<and>
        (sig_name (signals s ! i) = nm \<or>
          (nm \<notin> sig_name ` set (signals s) \<and> compare_without_domain (sig_name (signals s ! i)) nm = Some True \<and>
           (\<forall>j<i. compare_without_domain (sig_name (signals s ! j)) nm = Some False)))
    | Missing \<Rightarrow> nm \<notin> sig_name ` set (signals s) \<and>
        (\<forall>sig\<in>set (signals s). compare_without_domain (sig_name sig) nm = Some False)
    | LookupThrows \<Rightarrow> nm \<notin> sig_name ` set (signals s) \<and>
        (\<exists>sig\<in>set (signals s). compare_without_domain (sig_name sig) nm = None)"
    using lookup_name_spec [where nm = nm and ns = "List.map sig_name (signals s)"]
    by (auto simp: get_signal_def split: lookup.splits)
  show "CHR ''.'' \<in> set nm \<and> CHR '':'' \<notin> set (drop (after_scheme nm) nm) \<and> signals s \<noteq> [] \<and>
      nm \<notin> sig_name ` set (signals s) \<longrightarrow> get_signal nm s = LookupThrows"
    by (auto simp: get_signal_def intro!: lookup_name_throws remove_domain_no_port)
qed

theorem lookup_correct_witness: "get_signal ''x.y/z'' table2 = LookupThrows"
  using lookup_correct [where nm = "''x.y/z''" and s = table2]
  by (simp add: table2_signals nm_a_def nm_b_def after_scheme_def scheme_def str_find_def)

text \<open>The cache of host domains is filled and used per host, with the port inside the cached text: once
  a host name without domain has been completed for one port, completing it for any other port gives the
  first port again; and a resolver that returns a second address, whose canonical name is a null pointer,
  makes the completion throw.\<close>

theorem add_domain_cache:
  assumes "set h \<inter> {CHR ''.'', CHR ''/'', CHR '':''} = {}"
    and "set p1 \<inter> {CHR ''.'', CHR ''/'', CHR '':''} = {}" and "set p2 \<inter> {CHR ''.'', CHR ''/'', CHR '':''} = {}"
    and "dm h = None"
  shows "(g h = Some [Some n] \<longrightarrow>
           add_domain g (h @ CHR '':'' # p1) dm = Some (n @ CHR '':'' # p1, dm(h \<mapsto> n @ CHR '':'' # p1)) \<and>
           add_domain g (h @ CHR '':'' # p2) (dm(h \<mapsto> n @ CHR '':'' # p1)) =
             Some (n @ CHR '':'' # p1, dm(h \<mapsto> n @ CHR '':'' # p1))) \<and>
         (g h = Some (Some n # None # names) \<longrightarrow> add_domain g (h @ CHR '':'' # p1) dm = None)"
  using add_domain_host_port [OF assms(1,2), of g dm]
    add_domain_host_port [OF assms(1,3), of g "dm(h \<mapsto> n @ CHR '':'' # p1)"] assms(4)
  by simp

theorem add_domain_cache_witness:
  "add_domain (\<lambda>_. Some [Some ''h.org'']) ''h:20000'' [''h'' \<mapsto> ''h.org:10000''] =
     Some (''h.org:10000'', [''h'' \<mapsto> ''h.org:10000''])"
  using add_domain_cache [of "''h''" "''10000''" "''20000''" "\<lambda>_. None" "\<lambda>_. Some [Some ''h.org'']" "''h.org''"]
  by simp

subsection \<open>Configuration entries\<close>

text \<open>C18: the entry that the device writes into its property for a signal is read back as the same name,
  contexts and time to live: completing it changes nothing, parsing it gives the three values, and
  contexts in their configured spelling are kept.\<close>

theorem entry_round_trip:
  assumes "name_ok (sig_name sig)" and "list_all context_ok (contexts sig)"
    and "\<forall>c\<in>set (contexts sig). m (to_upper c) = Some c"
  shows "(let (nm, conf) = complete_entry dflt (conf_string sig) in nm @ '';'' @ conf) = conf_string sig \<and>
         parse_entry dflt' (conf_string sig) = Some (sig_name sig, contexts sig, ttl sig) \<and>
         adjusted_contexts m (contexts sig) = contexts sig"
  using complete_both [OF assms(1)] parse_conf_string [OF assms(1,2)] adjusted_id [OF assms(3)]
  by (simp add: conf_string_def)

theorem entry_round_trip_witness:
  "parse_entry ''ALWAYS'' (conf_string sig_a) = Some (nm_a, [''run''], 5)"
proof -
  have "name_ok (sig_name sig_a)" "list_all context_ok (contexts sig_a)"
    by (simp_all add: name_ok_def context_ok_def sig_eval)
  moreover have "\<forall>c\<in>set (contexts sig_a). Some ''run'' = Some c" by (simp add: sig_eval)
  ultimately show ?thesis
    using entry_round_trip [of sig_a "\<lambda>_. Some ''run''" "''ALWAYS''" "''ALWAYS''"]
    by (simp add: sig_eval)
qed

text \<open>An entry that is only a name gets the default strategy and time to live, but an entry that ends
  in an empty configuration part gets them glued together, without a separator: its only context is then
  the default strategy followed by the characters \<open>ttl=0\<close>.\<close>

theorem default_configuration:
  assumes "name_ok nm" and "context_ok dflt"
  shows "parse_entry dflt' (let (n, conf) = complete_entry dflt nm in n @ '';'' @ conf) = Some (nm, [dflt], 0) \<and>
         parse_entry dflt' (let (n, conf) = complete_entry dflt (nm @ '';'') in n @ '';'' @ conf) =
           Some (nm, [dflt @ ''ttl=0''], 0)"
proof -
  have dflt: "CHR '';'' \<notin> set dflt" "CHR ''|'' \<notin> set dflt" "dflt \<noteq> []"
    using assms(2) by (simp_all add: context_ok_def)
  have "parse_entry dflt' (nm @ '';strategy='' @ dflt @ '';ttl='' @ ''0'') = Some (nm, [dflt], 0)"
    using dflt parse_both [OF assms(1), of dflt "''0''"] by (simp add: explode_last read_zero)
  moreover have "parse_entry dflt' (nm @ '';strategy='' @ (dflt @ ''ttl=0'')) = Some (nm, [dflt @ ''ttl=0''], 0)"
    using dflt parse_strategy [OF assms(1), of "dflt @ ''ttl=0''"] by (simp add: explode_last DEFAULT_TTL_def)
  ultimately show ?thesis by (simp add: complete_bare [OF assms(1)])
qed

theorem default_configuration_witness:
  "parse_entry ''RUN'' (let (n, conf) = complete_entry ''RUN'' ''d/a;'' in n @ '';'' @ conf) =
     Some (''d/a'', [''RUNttl=0''], 0)"
  using default_configuration [of "''d/a''" "''RUN''" "''RUN''"] by (simp add: name_ok_def context_ok_def)


subsection \<open>The archiving device\<close>

text \<open>C19: changing the current context to a configured one makes every signal of the table follow it,
  whatever Tango answers: the command succeeds, no signal is added, removed or renamed, a signal is
  started if the new context or the context \<open>ALWAYS\<close> is among its contexts or the new context is
  \<open>ALWAYS\<close>, and every other signal is stopped, whatever its mode was.\<close>

theorem write_context_follows:
  assumes "table_inv (shared d)" and "contexts_map_upper d (to_upper c) = Some c'"
    and "\<forall>sig\<in>set (signals (shared d)). complete_name w d (sig_name sig)"
  shows "\<exists>d'. write_Context w c d = (Inr (), d') \<and> table_inv (shared d') \<and>
    length (signals (shared d')) = length (signals (shared d)) \<and>
    (\<forall>i<length (signals (shared d)).
       sig_name (signals (shared d') ! i) = sig_name (signals (shared d) ! i) \<and>
       mode_of (signals (shared d') ! i) =
         (if to_upper c = ALWAYS_CONTEXT \<or> to_upper c \<in> set (contexts_upper (signals (shared d) ! i)) \<or>
             ALWAYS_CONTEXT \<in> set (contexts_upper (signals (shared d) ! i))
          then MStarted else MStopped))"
proof -
  let ?d = "d\<lparr>context_set := to_upper c, context_read := c'\<rparr>"
  have "\<forall>sig\<in>set (signals (shared ?d)). complete_name w ?d (sig_name sig)"
    using assms(3) by (simp add: complete_name_def)
  from each_context [of ?d c w 0, OF _ _ this] assms(1,2) show ?thesis
    by (auto simp: write_Context_def context_mode_def in_context_def)
qed

definition demo_world :: world where
  "demo_world = \<lparr>w_tango = ok_env, w_now = 0, w_time = 0, w_host = None, w_addr = (\<lambda>_. None)\<rparr>"

definition demo_device :: hdb_device where
  "demo_device = (initialize (\<lambda>_. Some ''RUN'') ''RUN'' ''RUN'')\<lparr>shared := table3\<rparr>"

lemma demo_lower: "to_lower nm_a = nm_a" "to_lower nm_b = nm_b" "to_lower ''d/c'' = ''d/c''"
  by (simp_all add: to_lower_def to_lower_char_def nm_a_def nm_b_def Let_def)

lemma demo_complete:
  assumes "to_lower nm = nm" and "CHR '':'' \<notin> set nm"
  shows "complete_name demo_world d nm"
proof -
  have "find_sub scheme nm = None"
    using find_sub_set [of scheme nm] assms(2) by (cases "find_sub scheme nm") (auto simp: scheme_def)
  then show ?thesis
    using assms(1) by (simp add: complete_name_def fix_tango_host_def demo_world_def str_find_def Let_def)
qed

lemma demo_names:
  "complete_name demo_world d nm_a" "complete_name demo_world d nm_b" "complete_name demo_world d ''d/c''"
  using demo_complete [of nm_a] demo_complete [of nm_b] demo_complete [of "''d/c''"] demo_lower
  by (simp_all add: nm_a_def nm_b_def)

lemma demo_shared [simp]:
  "shared demo_device = table3" "push demo_device = PushThreadShared_new"
  "contexts_map_upper demo_device = (\<lambda>_. Some ''RUN'')" "domains demo_device = (\<lambda>_. None)"
  "context_set demo_device = to_upper ''RUN''" "defaultStrategy demo_device = ''RUN''"
  by (simp_all add: demo_device_def initialize_def)

theorem write_context_follows_witness:
  "\<exists>d'. write_Context demo_world ''STOW'' demo_device = (Inr (), d') \<and> mode_of (signals (shared d') ! 1) = MStopped"
proof -
  have "to_upper ''STOW'' = ''STOW''" by (simp add: to_upper_def to_upper_char_def Let_def)
  then show ?thesis
    using write_context_follows [of demo_device "''STOW''" "''RUN''" demo_world] table3_inv demo_names
    by (auto simp: table3_signals sig_a_started_def sig_eval ALWAYS_CONTEXT_def)
qed

text \<open>An archive event for a signal of the table writes that signal only, counts it as good or bad, and
  queues it for the archive exactly when it is a value of a started signal or the first value since the
  subscription, or an error of a started signal with no archived error since its last value; after an
  error event no further error is archived until a value arrives.\<close>

theorem event_archiving:
  assumes "get_signal (e_name ev) (shared d) = Found i" and "complete_name w d (e_name ev)"
    and "config_known w (signals (shared d) ! i)"
  shows "\<exists>d' sig'. push_event w ev d = (Inr (), d') \<and>
    signals (shared d') = (signals (shared d))[i := sig'] \<and>
    (let sig = signals (shared d) ! i;
         store = (if e_err ev = None then running sig \<or> sig_first sig else running sig \<and> first_err sig)
     in cmd_events (push d') =
          cmd_events (push d) @ (if store then [insert_cmd (e_name ev) ev] else []) \<and>
        okev_counter sig' = okev_counter sig + of_bool (e_err ev = None) \<and>
        nokev_counter sig' = nokev_counter sig + of_bool (e_err ev \<noteq> None) \<and>
        evstate sig' = (if e_err ev = None then ST_ON else ST_ALARM) \<and> mode_of sig' = mode_of sig \<and>
        (if e_err ev = None then first_err sig' \<and> \<not> sig_first sig'
         else \<not> (running sig' \<and> first_err sig')))"
proof -
  let ?sig = "signals (shared d) ! i"
  show ?thesis
  proof (cases "e_err ev")
    case None
    then show ?thesis
      by (intro exI [of _ "snd (push_event w ev d)"] exI [of _ "after_value w ?sig"])
        (simp add: push_event_eq [OF assms] set_signal_def after_event_def stored_def cmds.put_content
          after_value_def ok_event_def mode_of_def Let_def)
  next
    case (Some desc)
    then show ?thesis
      by (intro exI [of _ "snd (push_event w ev d)"] exI [of _ "after_error w desc ?sig"])
        (simp add: push_event_eq [OF assms] set_signal_def after_event_def stored_def cmds.put_content
          after_error_def nok_event_def mode_of_def Let_def)
  qed
qed

theorem event_archiving_witness:
  "\<exists>d'. push_event demo_world \<lparr>e_name = nm_a, e_err = None, e_date = 0\<rparr> demo_device = (Inr (), d') \<and>
     length (cmd_events (push d')) = 1"
proof -
  have "config_known demo_world (signals (shared demo_device) ! 0)"
    by (simp add: config_known_def table3_signals sig_a_started_def demo_world_def ok_env_def)
  then show ?thesis
    using event_archiving [of "\<lparr>e_name = nm_a, e_err = None, e_date = 0\<rparr>" demo_device 0 demo_world]
      table3_get demo_names(1)
    by (auto simp: Let_def table3_signals sig_a_started_def PushThreadShared_new_def)
qed


text \<open>adding an attribute by command appends one entry with the known contexts of the requested strategy
  (the default strategy if none is known) and the requested time to live, queues the update of the time
  to live for the archive, and starts the entry exactly if it is in the current context, queueing the
  start as well; an unknown context of the request is then reported as an error, although the attribute
  has been added.\<close>

theorem attribute_add_effect:
  fixes w d argin
  defines "nm \<equiv> argin ! 0" and "found \<equiv> strategy_contexts (contexts_map_upper d) (argin ! 1)"
  defines "ctxs \<equiv> (if fst found = [] then [defaultStrategy d] else fst found)"
    and "t \<equiv> read_u32 (argin ! 2)"
  assumes "table_inv (shared d)" and "length argin = 3"
    and "get_signal nm (shared d) = Missing" and "find_last_char (CHR ''/'') nm = Some idx"
    and "complete_name w d nm" and "context_set d = to_upper c"
  shows "\<exists>sig d'. attribute_add w argin d =
      (if snd found then Inl (bad_strategy (argin ! 1) ctxs) else Inr (), d') \<and>
    signals (shared d') = signals (shared d) @ [sig] \<and> sig_name sig = nm \<and> contexts sig = ctxs \<and>
    ttl sig = t \<and> mode_of sig = (if to_upper c \<in> {ALWAYS_CONTEXT} \<union> to_upper ` set ctxs \<or>
        ALWAYS_CONTEXT \<in> to_upper ` set ctxs then MStarted else MStopped) \<and>
    cmd_events (push d') = cmd_events (push d) @ [(named_cmd DB_UPDATETTL nm)\<lparr>cmd_ttl := t\<rparr>] @
      (if mode_of sig = MStarted then [named_cmd DB_START nm] else [])"
  unfolding nm_def found_def ctxs_def t_def
  by (rule attribute_add_new) (use assms in simp_all)

lemma table3_missing: "get_signal ''d/c'' table3 = Missing"
  by (simp add: get_signal_def table3_signals sig_a_started_def names_lookup)

theorem attribute_add_effect_witness:
  "\<exists>sig d'. attribute_add demo_world [''d/c'', ''RUN'', ''7''] demo_device = (Inr (), d') \<and>
     signals (shared d') = signals table3 @ [sig] \<and> mode_of sig = MStarted"
proof -
  have run: "to_upper ''RUN'' = ''RUN''" by (simp add: to_upper_def to_upper_char_def Let_def)
  have "strategy_contexts (\<lambda>_. Some ''RUN'') ''RUN'' = ([''RUN''], False)"
    using explode_last [of "CHR ''|''" "''RUN''"] by (simp add: strategy_contexts_def adjusted_contexts_def Let_def)
  then show ?thesis
    using attribute_add_effect [of demo_device "[''d/c'', ''RUN'', ''7'']" 1 demo_world "''RUN''"]
      table3_inv table3_missing names_slash(3) demo_names(3) run
    by auto
qed

text \<open>The command to remove an attribute never reaches the null pointer of \<open>SharedData::remove\<close>: for an
  unknown signal it is refused and nothing changes; for a signal of the table it erases that entry only,
  and queues for the archive the stop, if the signal was not stopped, and then the removal.\<close>

theorem attribute_remove_effect:
  assumes "table_inv (shared d)" and "complete_name w d nm" and "find_stat nm (push d) \<noteq> LookupThrows"
  shows "case get_signal nm (shared d) of
      Found i \<Rightarrow> \<exists>d'. attribute_remove w nm d = (Inr (), d') \<and>
        signals (shared d') = erase_at i (signals (shared d)) \<and>
        cmd_events (push d') = cmd_events (push d) @
          (if stopped (signals (shared d) ! i) then [] else [named_cmd DB_STOP nm]) @ [named_cmd DB_REMOVE nm]
    | Missing \<Rightarrow> attribute_remove w nm d = (Inl (not_subscribed nm), d)
    | LookupThrows \<Rightarrow> attribute_remove w nm d = (Inl StdException, d)"
  using assms by (rule attribute_remove_eq)

theorem attribute_remove_effect_witness:
  "\<exists>d'. attribute_remove demo_world nm_a demo_device = (Inr (), d') \<and> signals (shared d') = [sig_b]"
proof -
  have "find_stat nm_a (push demo_device) \<noteq> LookupThrows"
    by (simp add: find_stat_def PushThreadShared_new_def names_lookup)
  then show ?thesis
    using attribute_remove_effect [of demo_device demo_world nm_a] table3_inv demo_names(1) table3_get
    by (auto simp: table3_signals)
qed

text \<open>In every state that the commands, the events, the archive thread, the subscription thread and the
  periodic check can reach, each signal is in exactly one mode, the published counters agree with the
  table and the names are distinct.\<close>

theorem device_invariant:
  assumes "dev_reachable d"
  shows "list_all one_mode (signals (shared d)) \<and> distinct (get_sig_list (shared d)) \<and>
         attr_number (shared d) = attr_started (shared d) + attr_paused (shared d) + attr_stopped (shared d) \<and>
         attr_started (shared d) = int (get_sig_started_num (shared d))"
proof -
  have inv: "table_inv (shared d)" using assms by (rule dev_reachable_inv)
  have "list_all one_mode sigs \<Longrightarrow>
      length sigs = count_if running sigs + count_if paused sigs + count_if stopped sigs" for sigs
    by (induction sigs) (auto simp: one_mode_def)
  then show ?thesis
    using inv by (simp add: table_inv_def counters_ok_def get_sig_list_def get_sig_started_num_def)
qed

theorem device_invariant_witness:
  "distinct (get_sig_list (shared (snd (attribute_stop demo_world nm_a (initialize (\<lambda>_. None) [] [])))))"
  using device_invariant [OF dev_reachable.step [OF dev_reachable.init dev_step.stop]] by blast

subsection \<open>The archive queue\<close>

text \<open>C20: the archive thread executes the waiting commands in the order in which they were queued and leaves
  the queue empty and the published number of pending commands 0, if each of them has its data, a name
  that can be compared, and, for a configuration event, if the archive accepts it; while a command is
  being executed the published number counts it, one more than the commands that wait.\<close>

theorem archive_in_order:
  assumes "cmd_events p = []" and "stats_good p" and "list_all (executable_cmd db) cmds"
  shows "fst (drain fl db (fold push_back_cmd cmds p)) = Inr cmds \<and>
         cmd_events (snd (drain fl db (fold push_back_cmd cmds p))) = [] \<and>
         pending_number (snd (drain fl db (fold push_back_cmd cmds p))) = 0 \<and>
         (\<forall>cmd q. get_next_cmd (fold push_back_cmd cmds p) = (Some cmd, q) \<longrightarrow>
            cmd = hd cmds \<and> pending_number q = nb_cmd_waiting q + 1)"
proof -
  let ?p = "fold push_back_cmd cmds p"
  have events: "cmd_events ?p = cmds" using assms(1) by (simp add: cmds.put_all)
  have "stats (fold push_back_cmd xs q) = stats q" for xs q
    by (induction xs arbitrary: q) (simp_all add: push_back_cmd_def Let_def)
  then have "stats_good ?p" using assms(2) by (simp add: stats_good_def)
  then have "fst (drain fl db ?p) = Inr cmds \<and> cmd_events (snd (drain fl db ?p)) = [] \<and>
      pending_number (snd (drain fl db ?p)) = 0"
    using drain_all [of db ?p fl] assms(3) events by simp
  moreover have "cmd = hd cmds \<and> pending_number q = nb_cmd_waiting q + 1"
    if "get_next_cmd ?p = (Some cmd, q)" for cmd q
    using that events by (auto simp: get_next_cmd_def nb_cmd_waiting_def Let_def split: list.splits)
  ultimately show ?thesis by blast
qed

definition demo_db :: db_env where
  "demo_db = \<lparr>insert_Attr = (\<lambda>_. None), insert_param_Attr = (\<lambda>_. None), insert_times = (\<lambda>_. (1, 3)),
    fail_time = (\<lambda>_. 0)\<rparr>"

theorem archive_in_order_witness:
  "fst (drain id demo_db (fold push_back_cmd [named_cmd DB_START nm_a, named_cmd DB_STOP nm_b]
     PushThreadShared_new)) = Inr [named_cmd DB_START nm_a, named_cmd DB_STOP nm_b]"
  using archive_in_order [of PushThreadShared_new demo_db "[named_cmd DB_START nm_a, named_cmd DB_STOP nm_b]" id]
  by (simp add: PushThreadShared_new_def stats_good_def executable_cmd_def named_cmd_def)

text \<open>With exact arithmetic, after successes with the store times \<open>t # ts\<close> (none negative, fewer than
  2 to the power 32 of them) for a signal that had no statistics, its published mean store time is
  their mean, and its minimum and maximum are theirs.\<close>

theorem store_statistics_correct:
  assumes "find_stat nm p = Missing" and "\<forall>x\<in>set (t # ts). 0 \<le> fst x" and "length (t # ts) < 2 ^ 32"
  shows "get_avg_store_time nm (fold (record_ok nm) (t # ts) p) =
           Inr (sum_list (List.map fst (t # ts)) / real (length (t # ts))) \<and>
         get_min_store_time nm (fold (record_ok nm) (t # ts) p) = Inr (Min (fst ` set (t # ts))) \<and>
         get_max_store_time nm (fold (record_ok nm) (t # ts) p) = Inr (Max (fst ` set (t # ts)))"
proof -
  let ?p = "record_ok nm t p" and ?st = "new_stat_ok nm (fst t) (snd t)"
  note first = record_ok_first [OF assms(1), of t]
  have "stats (fold (record_ok nm) (t # ts) p) = stats p @ [record_times ts ?st]"
    "find_stat nm (fold (record_ok nm) (t # ts) p) = Found (length (stats p))"
    using record_ok_list [OF first(2), of ts] first(1) by simp_all
  then have read: "read_stat f x nm (fold (record_ok nm) (t # ts) p) = Inr (f (record_times ts ?st))" for f x
    by (simp add: read_stat_def)
  have one: "okdb_counter ?st = 1" "store_sum ?st = fst t" "0 \<le> store_time_min ?st" "0 \<le> store_time_max ?st"
    "store_time_min ?st = fst t" "store_time_max ?st = fst t"
    using assms(2) by (simp_all add: new_stat_ok_def store_sum_def)
  have sums: "store_sum (record_times ts ?st) = fst t + sum_list (List.map fst ts)"
    "unat (okdb_counter (record_times ts ?st)) = length (t # ts)"
    using record_times_sums [of ?st ts] assms(3) one(1,2) by simp_all
  then have "store_time_avg (record_times ts ?st) = sum_list (List.map fst (t # ts)) / real (length (t # ts))"
    by (simp add: store_sum_def field_simps)
  moreover have "store_time_min (record_times ts ?st) = Min (fst ` set (t # ts))"
    "store_time_max (record_times ts ?st) = Max (fst ` set (t # ts))"
    using record_times_min_max [of ts ?st] assms(2) one(3-6)
      Min.set_eq_fold [of "fst t" "List.map fst ts"] Max.set_eq_fold [of "fst t" "List.map fst ts"]
    by simp_all
  ultimately show ?thesis
    by (simp only: get_avg_store_time_def get_min_store_time_def get_max_store_time_def read)
qed

theorem store_statistics_correct_witness:
  "get_avg_store_time nm_a (fold (record_ok nm_a) [(1, 0), (3, 0)] PushThreadShared_new) = Inr 2"
  using store_statistics_correct [of nm_a PushThreadShared_new "(1, 0)" "[(3, 0)]"]
  by (simp add: find_stat_def PushThreadShared_new_def names_lookup)

end
