(* ===== verification/HdbThreads.thy ===== *)
theory HdbThreads
  imports HdbDeviceSpec
begin

text \<open>
  The archiver as a Tango server: the device (\<open>HdbDevice\<close>), the values that its poller thread
  (\<open>PollerThread.cpp\<close>) and its statistics thread (\<open>StatsThread.cpp\<close>) publish, the check of the periodic
  events (\<open>CheckPeriodicThread.cpp\<close>), and the status text of one attribute
  (\<open>HdbEventSubscriber::attribute_status\<close>).

  The attribute reads of the server return the published values, so that a client sees the table of the
  signals as it was at the last round of the poller. A round is one step here. The published arrays have
  \<open>MAX_ATTRIBUTES\<close> places, while their published sizes are not bounded: a longer list is read past the
  end of its array, which is undefined. An exception that leaves a round ends the thread.
\<close>

subsection \<open>State\<close>

definition MAX_ATTRIBUTES :: nat where "MAX_ATTRIBUTES = 10000"

record archiver =
  arch_dev :: hdb_device
  arch_lists :: sig_lists
  arch_ok_list :: "string list"
  arch_nok_list :: "string list"
  arch_pending_list :: "string list"
  arch_error_list :: "string list"
  arch_event_numbers :: "nat \<Rightarrow> u32"
  arch_ok_number :: int
  arch_nok_number :: int
  record_freq :: int
  failure_freq :: int
  record_freq_list :: "nat \<Rightarrow> int"
  failure_freq_list :: "nat \<Rightarrow> int"
  last_statistics_reset_time :: real
  arch_contexts_list :: "string list" \<comment> \<open>the attribute \<open>ContextsList\<close>\<close>

text \<open>Sequencing of computations that may fail and change no state.\<close>

definition bind_sum :: "'e + 'a \<Rightarrow> ('a \<Rightarrow> 'e + 'b) \<Rightarrow> 'e + 'b" where
  "bind_sum r k = (case r of Inl e \<Rightarrow> Inl e | Inr x \<Rightarrow> k x)"

lemma bind_sum_simps [simp]: "bind_sum (Inl e) k = Inl e" "bind_sum (Inr x) k = k x"
  by (simp_all add: bind_sum_def)

lemma bind_sum_Inr: "bind_sum r k = Inr y \<longleftrightarrow> (\<exists>x. r = Inr x \<and> k x = Inr y)"
  by (cases r) auto

subsection \<open>The lists of the device\<close>

text \<open>The signals whose events and whose last store operation are good.\<close>

fun without_db_error :: "push_shared \<Rightarrow> string list \<Rightarrow> hdb_error + string list" where
  "without_db_error p [] = Inr []"
| "without_db_error p (n # ns) =
     bind_sum (db_sig_state n p) (\<lambda>st.
     bind_sum (without_db_error p ns) (\<lambda>l. Inr (if st \<noteq> ST_ALARM then n # l else l)))"

definition dev_sig_not_on_error_list :: "hdb_device \<Rightarrow> hdb_error + string list" where
  "dev_sig_not_on_error_list d = without_db_error (push d) (get_sig_not_on_error_list (shared d))"

text \<open>The error texts, where a store error replaces the text of a signal without event error.\<close>

fun put_db_errors ::
  "push_shared \<Rightarrow> string list \<Rightarrow> string list \<Rightarrow> string list \<times> bool \<Rightarrow> hdb_error + string list \<times> bool"
where
  "put_db_errors p sig_list [] r = Inr r"
| "put_db_errors p sig_list (n # ns) (error_list, changed) =
     bind_sum (db_sig_state n p) (\<lambda>st.
       case find_index (\<lambda>m. m = n) sig_list of
         Some idx \<Rightarrow>
           if st = ST_ALARM \<and> idx < length error_list then
             bind_sum (db_sig_status n p) (\<lambda>dberr.
               put_db_errors p sig_list ns (error_list[idx := dberr], changed \<or> dberr \<noteq> error_list ! idx))
           else put_db_errors p sig_list ns (error_list, changed)
       | None \<Rightarrow> put_db_errors p sig_list ns (error_list, changed))"

definition dev_get_error_list :: "hdb_device \<Rightarrow> string list \<Rightarrow> hdb_error + string list \<times> bool" where
  "dev_get_error_list d old =
     put_db_errors (push d) (get_sig_list (shared d)) (get_sig_not_on_error_list (shared d))
       (get_error_list (shared d) old)"

text \<open>
  The numbers of events; a Tango exception counts as none. Storing them into 32 bits wraps, as their sum
  does.
\<close>

definition event_number :: "hdb_device \<Rightarrow> string \<Rightarrow> hdb_error + u32" where
  "event_number d signame =
     (case bind_sum (fst (get_ok_event signame (shared d))) (\<lambda>ok.
             bind_sum (fst (get_nok_event signame (shared d))) (\<lambda>nok. Inr (ok + nok))) of
        Inl (DevFailed reason desc) \<Rightarrow> Inr 0
      | r \<Rightarrow> r)"

fun event_numbers :: "hdb_device \<Rightarrow> nat \<Rightarrow> string list \<Rightarrow> (nat \<Rightarrow> u32) \<Rightarrow> hdb_error + (nat \<Rightarrow> u32)" where
  "event_numbers d i [] f = Inr f"
| "event_numbers d i (n # ns) f =
     bind_sum (event_number d n) (\<lambda>k. event_numbers d (Suc i) ns (f(i := k)))"

definition get_event_number_list :: "hdb_device \<Rightarrow> (nat \<Rightarrow> u32) \<Rightarrow> hdb_error + (nat \<Rightarrow> u32)" where
  "get_event_number_list d = event_numbers d 0 (get_sig_list (shared d))"

subsection \<open>The poller thread\<close>

definition poller_round :: "archiver \<Rightarrow> hdb_error + archiver" where
  "poller_round a =
     (let d = arch_dev a in
      bind_sum (if is_initialized (shared d) then dev_sig_not_on_error_num d else Inr 0) (\<lambda>ok_number.
      bind_sum (if is_initialized (shared d) then map_sum id int (dev_sig_on_error_num d) else Inr 0) (\<lambda>nok_number.
      if length (signals (shared d)) > MAX_ATTRIBUTES then Inl Undefined
      else
        (let lists = fst (get_lists (shared d) (arch_lists a)) in
        bind_sum (dev_sig_not_on_error_list d) (\<lambda>ok_list.
        bind_sum (dev_sig_on_error_list d) (\<lambda>nok_list.
        bind_sum (get_sig_list_waiting (push d)) (\<lambda>pending.
        if length pending > MAX_ATTRIBUTES then Inl Undefined
        else
          bind_sum (dev_get_error_list d (arch_error_list a)) (\<lambda>errs.
          bind_sum (get_event_number_list d (arch_event_numbers a)) (\<lambda>numbers.
          Inr (a\<lparr>arch_ok_number := ok_number, arch_nok_number := nok_number, arch_lists := lists,
                 arch_ok_list := ok_list, arch_nok_list := nok_list, arch_pending_list := pending,
                 arch_error_list := fst errs, arch_event_numbers := numbers\<rparr>))))))))))"

subsection \<open>The statistics thread\<close>

definition threads_start :: "archiver \<Rightarrow> archiver" where
  "threads_start a = a\<lparr>record_freq := -1, failure_freq := -1\<rparr>"

text \<open>
  The events since the last round, per signal: good events, bad events, failed store operations. A signal
  that has been removed since the list was taken throws, and nothing catches it.
\<close>

fun stats_counts :: "hdb_device \<Rightarrow> string list \<Rightarrow> hdb_error + (int \<times> int \<times> int) list" where
  "stats_counts d [] = Inr []"
| "stats_counts d (n # ns) =
     bind_sum (fst (get_ok_event_freq n (shared d))) (\<lambda>ok_ev.
     bind_sum (fst (get_nok_event_freq n (shared d))) (\<lambda>nok_ev.
     bind_sum (get_nok_db_freq n (push d)) (\<lambda>nok_db.
     bind_sum (stats_counts d ns) (\<lambda>rest. Inr ((uint ok_ev, uint nok_ev, uint nok_db) # rest)))))"

definition stats_round_of :: "string list \<Rightarrow> archiver \<Rightarrow> hdb_error + archiver" where
  "stats_round_of attribute_list a =
     (if length attribute_list > MAX_ATTRIBUTES then Inl Undefined
      else
        bind_sum (stats_counts (arch_dev a) attribute_list) (\<lambda>cs.
          Inr (a\<lparr>record_freq_list :=
                   (\<lambda>i. if i < length cs then (case cs ! i of (ok, nok, db) \<Rightarrow> ok - db) else record_freq_list a i),
                 failure_freq_list :=
                   (\<lambda>i. if i < length cs then (case cs ! i of (ok, nok, db) \<Rightarrow> nok + db) else failure_freq_list a i),
                 record_freq := (\<Sum>(ok, nok, db)\<leftarrow>cs. ok) - (\<Sum>(ok, nok, db)\<leftarrow>cs. db),
                 failure_freq := (\<Sum>(ok, nok, db)\<leftarrow>cs. nok) + (\<Sum>(ok, nok, db)\<leftarrow>cs. db),
                 arch_dev := dev_reset_freq_statistics (arch_dev a)\<rparr>)))"

definition stats_round :: "archiver \<Rightarrow> hdb_error + archiver" where
  "stats_round a = stats_round_of (get_sig_list (shared (arch_dev a))) a"

subsection \<open>The check of the periodic events\<close>

text \<open>The new state and the seconds the thread sleeps before the next check.\<close>

definition check_periodic_round :: "int \<Rightarrow> int \<Rightarrow> archiver \<Rightarrow> real \<times> archiver" where
  "check_periodic_round now delay_tolerance_ms a =
     (let r = check_periodic_event_timeout now delay_tolerance_ms (shared (arch_dev a))
      in (1 + of_int (fst r) / 1000, a\<lparr>arch_dev := (arch_dev a)\<lparr>shared := snd r\<rparr>\<rparr>))"

subsection \<open>Commands and reads of the server\<close>

definition archiver_reset_statistics :: "real \<Rightarrow> archiver \<Rightarrow> archiver" where
  "archiver_reset_statistics now a =
     a\<lparr>arch_dev := dev_reset_statistics (arch_dev a), last_statistics_reset_time := now\<rparr>"

text \<open>
  The status text of one attribute. The functions that show a date and a time span in seconds are
  arguments.
\<close>

definition shown_date :: "(timestamp \<Rightarrow> string) \<Rightarrow> u32 \<Rightarrow> timestamp \<Rightarrow> string" where
  "shown_date show_time counter t =
     (if counter \<noteq> 0 then show_time t else ''YYYY-MM-DD HH:MM:SS.UUUUUU'')"

definition archiving_text :: "bool \<Rightarrow> bool \<Rightarrow> string" where
  "archiving_text run pau =
     (if run \<and> \<not> pau then ''Started'' else if pau then ''Paused'' else ''Stopped'')"

definition status_text ::
  "(timestamp \<Rightarrow> string) \<Rightarrow> (real \<Rightarrow> string) \<Rightarrow> string \<Rightarrow> hdb_device \<Rightarrow> hdb_error + string"
where
  "status_text show_time show_seconds signame d =
     bind_sum (dev_get_sig_status signame d) (\<lambda>status_ev.
     bind_sum (fst (get_sig_source signame (shared d))) (\<lambda>zmq.
     bind_sum (fst (is_running signame (shared d))) (\<lambda>run.
     bind_sum (fst (is_paused signame (shared d))) (\<lambda>pau.
     bind_sum (fst (get_last_okev signame (shared d))) (\<lambda>t_ok.
     bind_sum (fst (get_ok_event signame (shared d))) (\<lambda>ok_ev.
     bind_sum (fst (get_last_nokev signame (shared d))) (\<lambda>t_nok.
     bind_sum (fst (get_nok_event signame (shared d))) (\<lambda>nok_ev.
     bind_sum (get_last_nokdb signame (push d)) (\<lambda>t_db.
     bind_sum (get_nok_db signame (push d)) (\<lambda>nok_db.
     bind_sum (get_avg_store_time signame (push d)) (\<lambda>store.
     bind_sum (get_avg_process_time signame (push d)) (\<lambda>process.
     let nl = [CHR 0x0A] in
     Inr (''Event status       : '' @ status_ev @ nl @
       ''Events engine      : '' @ (if zmq then ''ZMQ'' else ''Notifd'') @ nl @
       ''Archiving          : '' @ archiving_text run pau @ nl @
       ''Event OK counter   : '' @ show_nat (unat ok_ev) @ '' - '' @ shown_date show_time ok_ev t_ok @ nl @
       ''Event NOK counter  : '' @ show_nat (unat nok_ev) @ '' - '' @ shown_date show_time nok_ev t_nok @ nl @
       ''DB ERRORS counter  : '' @ show_nat (unat nok_db) @ '' - '' @
         shown_date show_time nok_db (case t_db of Some t \<Rightarrow> t | None \<Rightarrow> 0) @ nl @
       ''Storing time AVG   : '' @ show_seconds store @ ''s'' @ nl @
       ''Processing time AVG: '' @ show_seconds process @ ''s'')))))))))))))"

definition attribute_status ::
  "(timestamp \<Rightarrow> string) \<Rightarrow> (real \<Rightarrow> string) \<Rightarrow> world \<Rightarrow> string \<Rightarrow> hdb_device \<Rightarrow> string dev_result"
where
  "attribute_status show_time show_seconds w argin d =
     and_then (fix_name w argin d) (\<lambda>signame d1. (status_text show_time show_seconds signame d1, d1))"

end
