(* ===== verification/HdbManager.thy ===== *)
theory HdbManager
  imports HdbThreads "HOL-Library.List_Lexorder" "HOL-Library.Char_ord"
begin

text \<open>
  The configuration manager of the archivers: class \<open>HdbConfigurationManager\<close>
  (\<open>src/devices/archiving/HdbConfigurationManager/HdbConfigurationManager.cpp\<close>). It spreads the attributes
  to be archived over the archivers (\<open>HdbThreads.archiver\<close>), which it reaches through Tango proxies: it
  reads the lists they publish and sends them the commands of \<open>HdbDevice\<close>.

  The archivers are part of the state, since the commands of the manager change them. What Tango and the
  archive library answer is an argument: to which archiver a proxy leads, which archivers can be
  reached, the configuration of an attribute, and whether \<open>DeviceAttribute::is_empty\<close> throws for a list
  without elements, which depends on the exception flags of the attribute. A call of an archiver that
  cannot be reached throws, and so does one whose command threw in the server. The names are treated by
  the functions of \<open>HdbNames\<close>, which have the same text in both classes; an exception thrown by them
  leaves the cache of the host domains as it was.
\<close>

subsection \<open>State\<close>

abbreviation (input) DEV_BOOLEAN_ID :: int where "DEV_BOOLEAN_ID \<equiv> 1"
abbreviation (input) DEV_STRING_ID :: int where "DEV_STRING_ID \<equiv> 8"
abbreviation (input) DEV_STATE_ID :: int where "DEV_STATE_ID \<equiv> 19"

record archiver_entry =
  attr_list :: "string list"
  dp :: "string option" \<comment> \<open>the archiver to which the proxy leads; \<open>None\<close> is \<open>NULL\<close>\<close>

type_synonym archiver_map = "(string \<times> archiver_entry) list"

text \<open>The event configuration of an attribute, and what the manager needs of its type.\<close>

record event_conf =
  conf_type :: int
  conf_format :: int
  conf_writable :: int
  archive_rel_change :: string
  archive_abs_change :: string
  archive_period :: string

datatype mgr_state = MGR_ON | MGR_ALARM | MGR_FAULT

record hdb_manager =
  archiverMap :: archiver_map
  archiver_list_fix :: "string list"
  domain_cache :: domain_map
  SetAttributeName :: string
  SetPollingPeriod :: int
  original_SetPollingPeriod :: "int option" \<comment> \<open>\<open>None\<close>: never written\<close>
  SetAbsoluteEvent :: real
  SetRelativeEvent :: real
  SetPeriodEvent :: int
  SetCodePushedEvent :: bool
  SetArchiver :: string
  SetTTL :: u32
  SetStrategy :: string
  mdb :: bool \<comment> \<open>the archive library has been initialised\<close>
  mandatoryNotDefined :: bool
  mgr_state :: mgr_state
  mgr_status :: string
  last_stat :: real
  saved_archivers :: "string list option" \<comment> \<open>the property \<open>ArchiverList\<close> as last written\<close>
  archivers :: "string \<Rightarrow> archiver"
  configured :: "(string \<times> int \<times> int \<times> int \<times> u32) list" \<comment> \<open>calls of \<open>configure_Attr\<close>\<close>
  event_confs :: "(string \<times> string \<times> event_conf) list" \<comment> \<open>calls of \<open>set_attribute_config\<close>\<close>
  polled_attrs :: "(string \<times> string \<times> int) list" \<comment> \<open>calls of \<open>poll_attribute\<close>\<close>

record mgr_env =
  g_host :: "string option"
  g_addr :: "string \<Rightarrow> string option list option"
  archiver_proxy :: "string \<Rightarrow> string option"
  unreachable :: "string \<Rightarrow> (string \<times> string) option"
  ping_time :: "string \<Rightarrow> int"
  arch_world :: "string \<Rightarrow> world"
  tango_error :: "string \<times> string" \<comment> \<open>the error that Tango makes of any other failure\<close>
  empty_throws :: bool
  att_proxy :: "string \<Rightarrow> (string \<times> string) option"
  att_config :: "string \<Rightarrow> string \<Rightarrow> hdb_error + event_conf"
  att_config_ex :: "string \<Rightarrow> string \<Rightarrow> hdb_error + event_conf"
  att_poll_period :: "string \<Rightarrow> string \<Rightarrow> hdb_error + int"
  set_config_ok :: "string \<Rightarrow> string \<Rightarrow> event_conf \<Rightarrow> bool"
  poll_ok :: "string \<Rightarrow> string \<Rightarrow> int \<Rightarrow> bool"
  configure_Attr :: "string \<Rightarrow> (string \<times> string) option"
  hdb_library :: "string option" \<comment> \<open>the description of the error of its initialisation\<close>
  new_database :: "(string \<times> string) option"
  put_property_ok :: bool
  show_double :: "real \<Rightarrow> string"
  read_double :: "string \<Rightarrow> real option"
  read_long :: "string \<Rightarrow> int option"
  clock_now :: real
  arch_show_time :: "timestamp \<Rightarrow> string"
  arch_show_seconds :: "real \<Rightarrow> string"

type_synonym 'a mgr_result = "(hdb_error + 'a) \<times> hdb_manager"

definition mgr_then :: "'a mgr_result \<Rightarrow> ('a \<Rightarrow> hdb_manager \<Rightarrow> 'b mgr_result) \<Rightarrow> 'b mgr_result" where
  "mgr_then r k = (case r of (Inl e, m) \<Rightarrow> (Inl e, m) | (Inr x, m) \<Rightarrow> k x m)"

definition mgr_throw :: "string \<Rightarrow> string \<Rightarrow> hdb_manager \<Rightarrow> 'a mgr_result" where
  "mgr_throw reason desc m = (Inl (DevFailed reason desc), m)"

definition show_long :: "int \<Rightarrow> string" where
  "show_long n = (if n < 0 then ''-'' @ show_nat (nat (- n)) else show_nat (nat n))"

subsection \<open>Names\<close>

definition cm_fix_name :: "mgr_env \<Rightarrow> string \<Rightarrow> hdb_manager \<Rightarrow> string mgr_result" where
  "cm_fix_name g nm m =
     (case fix_tango_host (g_host g) (g_addr g) nm (domain_cache m) of
        None \<Rightarrow> (Inl StdException, m)
      | Some (nm', dm) \<Rightarrow> (Inr nm', m\<lparr>domain_cache := dm\<rparr>))"

text \<open>
  The order of the names, by the completed names without their domains; names that are equal before or
  after completion are not ordered. \<open>None\<close> is an exception.
\<close>

definition compare_tango_names ::
  "mgr_env \<Rightarrow> string \<Rightarrow> string \<Rightarrow> domain_map \<Rightarrow> (bool \<times> domain_map) option"
where
  "compare_tango_names g str1 str2 dm =
     (if str1 = str2 then Some (False, dm)
      else
        (case fix_tango_host (g_host g) (g_addr g) str1 dm of
           None \<Rightarrow> None
         | Some (s1, dm1) \<Rightarrow>
             (case fix_tango_host (g_host g) (g_addr g) str2 dm1 of
                None \<Rightarrow> None
              | Some (s2, dm2) \<Rightarrow>
                  if s1 = s2 then Some (False, dm2)
                  else
                    (case (remove_domain s1, remove_domain s2) of
                       (Some str1_nd, Some str2_nd) \<Rightarrow>
                         if str1_nd = str2_nd then Some (False, dm2) else Some (str1_nd < str2_nd, dm2)
                     | _ \<Rightarrow> None))))"

text \<open>Equality in that order: neither name is less than the other; the second test is not made when the first decides.\<close>

definition same_tango_name ::
  "mgr_env \<Rightarrow> string \<Rightarrow> string \<Rightarrow> domain_map \<Rightarrow> (bool \<times> domain_map) option"
where
  "same_tango_name g a b dm =
     (case compare_tango_names g a b dm of
        None \<Rightarrow> None
      | Some (True, dm1) \<Rightarrow> Some (False, dm1)
      | Some (False, dm1) \<Rightarrow>
          map_option (\<lambda>(less, dm2). (\<not> less, dm2)) (compare_tango_names g b a dm1))"

subsection \<open>The map of the archivers\<close>

text \<open>
  \<open>archiverMap\<close> is a \<open>std::map\<close> ordered by \<open>compare_tango_names\<close>: a list in that order. \<open>find\<close> takes the
  first entry that is not less than the key, if the key is not less than it; \<open>insert\<close> does nothing when
  there is such an entry. (The tree compares the key with some of the entries only.)
\<close>

fun map_find ::
  "mgr_env \<Rightarrow> string \<Rightarrow> archiver_map \<Rightarrow> domain_map \<Rightarrow> (nat option \<times> domain_map) option"
where
  "map_find g key [] dm = Some (None, dm)"
| "map_find g key ((k, e) # es) dm =
     (case compare_tango_names g k key dm of
        None \<Rightarrow> None
      | Some (True, dm1) \<Rightarrow>
          map_option (\<lambda>(r, dm2). (map_option Suc r, dm2)) (map_find g key es dm1)
      | Some (False, dm1) \<Rightarrow>
          map_option (\<lambda>(less, dm2). (if less then None else Some 0, dm2)) (compare_tango_names g key k dm1))"

fun map_put ::
  "mgr_env \<Rightarrow> string \<Rightarrow> archiver_entry \<Rightarrow> archiver_map \<Rightarrow> domain_map \<Rightarrow>
     (archiver_map \<times> domain_map) option"
where
  "map_put g key x [] dm = Some ([(key, x)], dm)"
| "map_put g key x ((k, e) # es) dm =
     (case compare_tango_names g k key dm of
        None \<Rightarrow> None
      | Some (True, dm1) \<Rightarrow>
          map_option (\<lambda>(es', dm2). ((k, e) # es', dm2)) (map_put g key x es dm1)
      | Some (False, dm1) \<Rightarrow>
          map_option (\<lambda>(less, dm2). (if less then (key, x) # (k, e) # es else (k, e) # es, dm2))
            (compare_tango_names g key k dm1))"

definition lookup_archiver :: "mgr_env \<Rightarrow> string \<Rightarrow> hdb_manager \<Rightarrow> nat option mgr_result" where
  "lookup_archiver g archname m =
     (case map_find g archname (archiverMap m) (domain_cache m) of
        None \<Rightarrow> (Inl StdException, m)
      | Some (r, dm) \<Rightarrow> (Inr r, m\<lparr>domain_cache := dm\<rparr>))"

subsection \<open>Calls of an archiver\<close>

text \<open>A command of the archiver behind a proxy, with what the caller sees of its errors.\<close>

definition remote ::
  "mgr_env \<Rightarrow> string \<Rightarrow> (world \<Rightarrow> hdb_device \<Rightarrow> 'a dev_result) \<Rightarrow> hdb_manager \<Rightarrow> 'a mgr_result"
where
  "remote g t f m =
     (case unreachable g t of
        Some (reason, desc) \<Rightarrow> mgr_throw reason desc m
      | None \<Rightarrow>
          (let a = archivers m t;
               (r, d) = f (arch_world g t) (arch_dev a);
               m' = m\<lparr>archivers := (archivers m)(t := a\<lparr>arch_dev := d\<rparr>)\<rparr>
           in case r of
                Inl StdException \<Rightarrow> mgr_throw (fst (tango_error g)) (snd (tango_error g)) m'
              | Inl e \<Rightarrow> (Inl e, m')
              | Inr x \<Rightarrow> (Inr x, m')))"

definition not_responding :: "string \<Rightarrow> hdb_manager \<Rightarrow> 'a mgr_result" where
  "not_responding archname = mgr_throw ''Error'' (''Archiver '' @ archname @ '' Not Responding'')"

definition attribute_not_found :: "string \<Rightarrow> hdb_manager \<Rightarrow> 'a mgr_result" where
  "attribute_not_found signame =
     mgr_throw ''Attribute not found'' (''Attribute '' @ [CHR 0x27] @ signame @ [CHR 0x27] @ '' not found'')"

definition archiver_not_found :: "string \<Rightarrow> hdb_manager \<Rightarrow> 'a mgr_result" where
  "archiver_not_found archname =
     mgr_throw ''Archiver not found'' (''Archiver '' @ [CHR 0x27] @ archname @ [CHR 0x27] @ '' not found'')"

definition call_entry ::
  "mgr_env \<Rightarrow> nat \<Rightarrow> (world \<Rightarrow> hdb_device \<Rightarrow> 'a dev_result) \<Rightarrow> hdb_manager \<Rightarrow> 'a mgr_result"
where
  "call_entry g i f m =
     (let (archname, e) = archiverMap m ! i
      in case dp e of Some t \<Rightarrow> remote g t f m | None \<Rightarrow> not_responding archname m)"

subsection \<open>Searching an attribute\<close>

text \<open>Reading the attribute \<open>AttributeList\<close> of an archiver into the entry of the map.\<close>

definition refresh_entry :: "mgr_env \<Rightarrow> (string \<Rightarrow> archiver) \<Rightarrow> archiver_entry \<Rightarrow> archiver_entry" where
  "refresh_entry g arch e =
     (case dp e of
        None \<Rightarrow> e\<lparr>attr_list := []\<rparr>
      | Some t \<Rightarrow>
          if unreachable g t \<noteq> None then e\<lparr>attr_list := []\<rparr>
          else if l_names (arch_lists (arch t)) \<noteq> [] then e\<lparr>attr_list := l_names (arch_lists (arch t))\<rparr>
          else if empty_throws g then e\<lparr>attr_list := []\<rparr>
          else e)"

fun name_in_list ::
  "mgr_env \<Rightarrow> string \<Rightarrow> string list \<Rightarrow> domain_map \<Rightarrow> (bool \<times> domain_map) option"
where
  "name_in_list g signame [] dm = Some (False, dm)"
| "name_in_list g signame (n # ns) dm =
     (if signame = [] then name_in_list g signame ns dm
      else
        (case same_tango_name g n signame dm of
           None \<Rightarrow> None
         | Some (True, dm1) \<Rightarrow> Some (True, dm1)
         | Some (False, dm1) \<Rightarrow> name_in_list g signame ns dm1))"

text \<open>
  The archivers in the order of the map, up to the first whose list has the name: its position, the
  entries with the lists read so far, and the cache. The outer \<open>None\<close> is an exception.
\<close>

fun scan_archivers ::
  "mgr_env \<Rightarrow> (string \<Rightarrow> archiver) \<Rightarrow> string \<Rightarrow> archiver_map \<Rightarrow> domain_map \<Rightarrow>
     nat option option \<times> archiver_map \<times> domain_map"
where
  "scan_archivers g arch signame [] dm = (Some None, [], dm)"
| "scan_archivers g arch signame ((k, e) # es) dm =
     (let e' = refresh_entry g arch e in
      case name_in_list g signame (attr_list e') dm of
        None \<Rightarrow> (None, (k, e') # es, dm)
      | Some (True, dm1) \<Rightarrow> (Some (Some 0), (k, e') # es, dm1)
      | Some (False, dm1) \<Rightarrow>
          (let (r, es', dm2) = scan_archivers g arch signame es dm1
           in (map_option (map_option Suc) r, (k, e') # es', dm2)))"

definition scan_map :: "mgr_env \<Rightarrow> string \<Rightarrow> hdb_manager \<Rightarrow> nat option mgr_result" where
  "scan_map g signame m =
     (let (r, es, dm) = scan_archivers g (archivers m) signame (archiverMap m) (domain_cache m);
          m' = m\<lparr>archiverMap := es, domain_cache := dm\<rparr>
      in case r of None \<Rightarrow> (Inl StdException, m') | Some found \<Rightarrow> (Inr found, m'))"

definition find_archiver :: "mgr_env \<Rightarrow> string \<Rightarrow> hdb_manager \<Rightarrow> string mgr_result" where
  "find_archiver g nm m =
     mgr_then (cm_fix_name g nm m) (\<lambda>signame m1.
     mgr_then (scan_map g signame m1) (\<lambda>found m2.
       (Inr (case found of None \<Rightarrow> [] | Some i \<Rightarrow> fst (archiverMap m2 ! i)), m2)))"

text \<open>The archiver of an attribute, completed before it is searched.\<close>

definition archiver_of :: "mgr_env \<Rightarrow> string \<Rightarrow> hdb_manager \<Rightarrow> (string \<times> nat) mgr_result" where
  "archiver_of g argin m =
     mgr_then (cm_fix_name g argin m) (\<lambda>signame m1.
     mgr_then (find_archiver g signame m1) (\<lambda>archname m2.
     mgr_then (lookup_archiver g archname m2) (\<lambda>found m3.
       case found of None \<Rightarrow> attribute_not_found signame m3 | Some i \<Rightarrow> (Inr (signame, i), m3))))"

subsection \<open>Commands on one attribute\<close>

definition cm_attribute_remove :: "mgr_env \<Rightarrow> string \<Rightarrow> hdb_manager \<Rightarrow> unit mgr_result" where
  "cm_attribute_remove g argin m =
     mgr_then (archiver_of g argin m) (\<lambda>(signame, i). call_entry g i (\<lambda>w. attribute_remove w signame))"

definition cm_attribute_start :: "mgr_env \<Rightarrow> string \<Rightarrow> hdb_manager \<Rightarrow> unit mgr_result" where
  "cm_attribute_start g argin m =
     mgr_then (archiver_of g argin m) (\<lambda>(signame, i). call_entry g i (\<lambda>w. attribute_start w signame))"

definition cm_attribute_stop :: "mgr_env \<Rightarrow> string \<Rightarrow> hdb_manager \<Rightarrow> unit mgr_result" where
  "cm_attribute_stop g argin m =
     mgr_then (archiver_of g argin m) (\<lambda>(signame, i). call_entry g i (\<lambda>w. attribute_stop w signame))"

definition cm_attribute_pause :: "mgr_env \<Rightarrow> string \<Rightarrow> hdb_manager \<Rightarrow> unit mgr_result" where
  "cm_attribute_pause g argin m =
     mgr_then (archiver_of g argin m) (\<lambda>(signame, i). call_entry g i (\<lambda>w. attribute_pause w signame))"

text \<open>The non-empty contexts, joined; a separator follows each but the last argument.\<close>

definition joined_contexts :: "string list \<Rightarrow> string" where
  "joined_contexts args =
     concat (List.map
       (\<lambda>i. if args ! i = [] then [] else args ! i @ (if Suc i = length args then [] else ''|''))
       [0..<length args])"

text \<open>Without arguments \<open>length() - 1\<close> wraps and the loop reads past the end.\<close>

definition cm_set_attribute_strategy :: "mgr_env \<Rightarrow> string list \<Rightarrow> hdb_manager \<Rightarrow> unit mgr_result" where
  "cm_set_attribute_strategy g argin m =
     (case argin of
        [] \<Rightarrow> (Inl Undefined, m)
      | nm # args \<Rightarrow>
          mgr_then (archiver_of g nm m) (\<lambda>(signame, i).
            call_entry g i (\<lambda>w. set_attribute_strategy w [signame, joined_contexts args])))"

definition cm_get_attribute_strategy :: "mgr_env \<Rightarrow> string \<Rightarrow> hdb_manager \<Rightarrow> string mgr_result" where
  "cm_get_attribute_strategy g argin m =
     mgr_then (archiver_of g argin m) (\<lambda>(signame, i) m1.
       case dp (snd (archiverMap m1 ! i)) of
         Some t \<Rightarrow> remote g t (\<lambda>w. get_attribute_strategy w signame) m1
       | None \<Rightarrow> (Inr [], m1))"

definition cm_set_attribute_ttl :: "mgr_env \<Rightarrow> string list \<Rightarrow> hdb_manager \<Rightarrow> unit mgr_result" where
  "cm_set_attribute_ttl g argin m =
     (let nm = (if length argin > 0 then argin ! 0 else []);
          s_ttl = (if length argin > 1 then argin ! 1 else ''0'')
      in mgr_then (archiver_of g nm m) (\<lambda>(signame, i).
           call_entry g i (\<lambda>w. set_attribute_ttl w [signame, s_ttl])))"

definition cm_get_attribute_ttl :: "mgr_env \<Rightarrow> string \<Rightarrow> hdb_manager \<Rightarrow> u32 mgr_result" where
  "cm_get_attribute_ttl g argin m =
     mgr_then (archiver_of g argin m) (\<lambda>(signame, i) m1.
       case dp (snd (archiverMap m1 ! i)) of
         Some t \<Rightarrow> remote g t (\<lambda>w. get_attribute_ttl w signame) m1
       | None \<Rightarrow>
           mgr_throw ''Cannot read ttl''
             (''Cannot read ttl for attribute '' @ [CHR 0x27] @ signame @ [CHR 0x27]) m1)"

definition cm_attribute_get_archiver :: "mgr_env \<Rightarrow> string \<Rightarrow> hdb_manager \<Rightarrow> string mgr_result" where
  "cm_attribute_get_archiver g argin m = find_archiver g argin m"

definition cm_attribute_status :: "mgr_env \<Rightarrow> string \<Rightarrow> hdb_manager \<Rightarrow> string mgr_result" where
  "cm_attribute_status g argin m =
     mgr_then (cm_fix_name g argin m) (\<lambda>signame m1.
     mgr_then (scan_map g signame m1) (\<lambda>found m2.
       case found of
         None \<Rightarrow>
           mgr_throw ''Archiver not found''
             (''Attribute '' @ [CHR 0x27] @ signame @ [CHR 0x27] @ '' not found'') m2
       | Some i \<Rightarrow>
           mgr_then
             (call_entry g i (\<lambda>w. attribute_status (arch_show_time g) (arch_show_seconds g) w signame) m2)
             (\<lambda>status m3. (Inr (status @ [CHR 0x0A] @ ''Archiver: '' @ fst (archiverMap m3 ! i)), m3))))"

subsection \<open>Adding an attribute\<close>

definition just_polling :: "event_conf \<Rightarrow> bool" where
  "just_polling info \<longleftrightarrow>
     conf_type info = DEV_STATE_ID \<or> conf_type info = DEV_BOOLEAN_ID \<or> conf_type info = DEV_STRING_ID"

definition events_configured :: "hdb_manager \<Rightarrow> event_conf \<Rightarrow> bool" where
  "events_configured m info \<longleftrightarrow>
     SetCodePushedEvent m \<or>
     (SetPollingPeriod m > 0 \<and>
      (just_polling info \<or> SetAbsoluteEvent m > 0 \<or> SetRelativeEvent m > 0 \<or> SetPeriodEvent m > 0))"

definition requested_conf :: "mgr_env \<Rightarrow> hdb_manager \<Rightarrow> event_conf \<Rightarrow> event_conf" where
  "requested_conf g m conf =
     (let c1 = (if SetRelativeEvent m \<noteq> 0
                then conf\<lparr>archive_rel_change := show_double g (SetRelativeEvent m)\<rparr> else conf);
          c2 = (if SetAbsoluteEvent m \<noteq> 0
                then c1\<lparr>archive_abs_change := show_double g (SetAbsoluteEvent m)\<rparr> else c1)
      in if SetPeriodEvent m > 0 then c2\<lparr>archive_period := show_long (SetPeriodEvent m)\<rparr> else c2)"

text \<open>The attribute gets its event configuration and polling; errors are logged and ignored.\<close>

definition set_events :: "mgr_env \<Rightarrow> string \<Rightarrow> string \<Rightarrow> hdb_manager \<Rightarrow> hdb_manager" where
  "set_events g dev att m =
     (case att_config_ex g dev att of
        Inl e \<Rightarrow> m
      | Inr conf \<Rightarrow>
          let conf' = requested_conf g m conf;
              changed = (SetRelativeEvent m \<noteq> 0 \<or> SetAbsoluteEvent m \<noteq> 0 \<or> SetPeriodEvent m > 0)
          in if changed \<and> \<not> set_config_ok g dev att conf' then m
             else
               let m1 = (if changed then m\<lparr>event_confs := event_confs m @ [(dev, att, conf')]\<rparr> else m)
               in if SetPollingPeriod m \<noteq> 0 \<and> original_SetPollingPeriod m \<noteq> Some (SetPollingPeriod m) \<and>
                     poll_ok g dev att (SetPollingPeriod m)
                  then m1\<lparr>polled_attrs := polled_attrs m1 @ [(dev, att, SetPollingPeriod m)]\<rparr>
                  else m1)"

text \<open>The last two steps: the archive and the archiver.\<close>

definition assign_new :: "mgr_env \<Rightarrow> string \<Rightarrow> nat \<Rightarrow> event_conf \<Rightarrow> hdb_manager \<Rightarrow> unit mgr_result" where
  "assign_new g signame i info m =
     (case configure_Attr g signame of
        Some (reason, desc) \<Rightarrow> mgr_throw reason desc m
      | None \<Rightarrow>
          call_entry g i
            (\<lambda>w. attribute_add w [signame, SetStrategy m, show_nat (unat (SetTTL m))])
            (m\<lparr>configured := configured m @
                 [(signame, conf_type info, conf_format info, conf_writable info, SetTTL m)]\<rparr>))"

text \<open>What follows when no archiver has the attribute.\<close>

definition add_to_archiver :: "mgr_env \<Rightarrow> string \<Rightarrow> hdb_manager \<Rightarrow> unit mgr_result" where
  "add_to_archiver g signame m =
     mgr_then (lookup_archiver g (SetArchiver m) m) (\<lambda>found m1.
       case found of
         None \<Rightarrow> archiver_not_found (SetArchiver m1) m1
       | Some i \<Rightarrow>
           (case find_last_char (CHR ''/'') signame of
              None \<Rightarrow> mgr_throw ''SyntaxError'' ''Syntax error in signal name'' m1
            | Some idx \<Rightarrow>
                let dev = take idx signame; att = drop (Suc idx) signame in
                (case att_proxy g dev of
                   Some (reason, desc) \<Rightarrow> mgr_throw reason desc m1
                 | None \<Rightarrow>
                     (case att_config g dev att of
                        Inl e \<Rightarrow> (Inl e, m1)
                      | Inr info \<Rightarrow>
                          if \<not> events_configured m1 info then
                            mgr_throw ''Event properties wrongly configured''
                              ''Event properties wrongly configured'' m1
                          else assign_new g signame i info (set_events g dev att m1)))))"

definition cm_attribute_add :: "mgr_env \<Rightarrow> hdb_manager \<Rightarrow> unit mgr_result" where
  "cm_attribute_add g m =
     (if \<not> mdb m then mgr_throw ''NO Hdb++ Library'' ''Failed initialization of Hdb++ Library'' m
      else
        (let signame = SetAttributeName m in
         mgr_then (find_archiver g signame m) (\<lambda>archname m1.
         mgr_then (lookup_archiver g archname m1) (\<lambda>present m2.
           if present \<noteq> None then
             mgr_throw ''Already archived''
               (''Attribute '' @ [CHR 0x27] @ signame @ [CHR 0x27] @ '' already archived by '' @ [CHR 0x27] @
                archname @ [CHR 0x27]) m2
           else add_to_archiver g signame m2))))"

subsection \<open>Moving an attribute to another archiver\<close>

text \<open>
  The strategy is read from the present archiver when only two arguments are given, a time to live is
  passed on when there are exactly four. The attribute is removed from its archiver before the new one
  is asked.
\<close>

definition assign_argument :: "string \<Rightarrow> string \<Rightarrow> string list \<Rightarrow> string list" where
  "assign_argument signame strategy argin =
     (let strat = (if length argin > 2 \<and> argin ! 2 \<noteq> [] then argin ! 2 else strategy)
      in if length argin = 4 then [signame, strat, argin ! 3] else [signame, strat])"

definition cm_attribute_assign :: "mgr_env \<Rightarrow> string list \<Rightarrow> hdb_manager \<Rightarrow> unit mgr_result" where
  "cm_attribute_assign g argin m =
     (if length argin < 2 then mgr_throw ''Bad parameters'' ''Needed at least 2 parameters'' m
      else
        mgr_then (cm_fix_name g (argin ! 0) m) (\<lambda>signame m1.
        mgr_then (cm_fix_name g (argin ! 1) m1) (\<lambda>archname m2.
        mgr_then (lookup_archiver g archname m2) (\<lambda>target m3.
          case target of
            None \<Rightarrow> archiver_not_found archname m3
          | Some new \<Rightarrow>
              mgr_then (scan_map g signame m3) (\<lambda>found m4.
                case found of
                  None \<Rightarrow> attribute_not_found signame m4
                | Some old \<Rightarrow>
                    mgr_then
                      (if length argin = 2 then call_entry g old (\<lambda>w. get_attribute_strategy w signame) m4
                       else (Inr [], m4))
                      (\<lambda>strategy m5.
                    mgr_then (call_entry g old (\<lambda>w. attribute_remove w signame) m5) (\<lambda>u m6.
                      call_entry g new
                        (\<lambda>w. attribute_add w (assign_argument signame strategy argin)) m6)))))))"

subsection \<open>Searching by a part of the name\<close>

text \<open>At least one name is returned if there is one, since the bound is tested after each.\<close>

fun collect_names :: "int \<Rightarrow> string \<Rightarrow> string list \<Rightarrow> string list \<Rightarrow> string list" where
  "collect_names maxSearchSize pat acc [] = acc"
| "collect_names maxSearchSize pat acc (n # ns) =
     (if pat = [] \<or> find_sub pat n \<noteq> None then
        let acc' = acc @ [n] in
        if 0 \<le> maxSearchSize \<and> maxSearchSize \<le> int (length acc') then acc'
        else collect_names maxSearchSize pat acc' ns
      else collect_names maxSearchSize pat acc ns)"

definition cm_attribute_search :: "mgr_env \<Rightarrow> int \<Rightarrow> string \<Rightarrow> hdb_manager \<Rightarrow> string list mgr_result" where
  "cm_attribute_search g maxSearchSize pat m =
     (let es = List.map (\<lambda>(k, e). (k, refresh_entry g (archivers m) e)) (archiverMap m)
      in (Inr (collect_names maxSearchSize pat [] (concat (List.map (\<lambda>(k, e). attr_list e) es))),
          m\<lparr>archiverMap := es\<rparr>))"

subsection \<open>Adding and removing archivers\<close>

text \<open>Saving the list: a failure to write it is logged, a failure to connect to the database is not caught.\<close>

definition save_archiver_list :: "mgr_env \<Rightarrow> hdb_manager \<Rightarrow> unit mgr_result" where
  "save_archiver_list g m =
     (case new_database g of
        Some (reason, desc) \<Rightarrow> mgr_throw reason desc m
      | None \<Rightarrow>
          (Inr (), if put_property_ok g then m\<lparr>saved_archivers := Some (archiver_list_fix m)\<rparr> else m))"

definition insert_archiver :: "mgr_env \<Rightarrow> string \<Rightarrow> archiver_entry \<Rightarrow> hdb_manager \<Rightarrow> unit mgr_result" where
  "insert_archiver g archname e m =
     (case map_put g archname e (archiverMap m) (domain_cache m) of
        None \<Rightarrow> (Inl StdException, m)
      | Some (es, dm) \<Rightarrow> (Inr (), m\<lparr>archiverMap := es, domain_cache := dm\<rparr>))"

text \<open>The host of a name that has no scheme is \<open>unknown\<close>.\<close>

definition cm_get_only_tango_host :: "string \<Rightarrow> string" where
  "cm_get_only_tango_host = get_only_tango_host None"

definition cm_archiver_add :: "mgr_env \<Rightarrow> string \<Rightarrow> hdb_manager \<Rightarrow> unit mgr_result" where
  "cm_archiver_add g argin m =
     (if str_find '':'' (cm_get_only_tango_host argin) 0 = None
      then mgr_throw ''Bad Tango host'' ''Bad Tango host'' m
      else
        mgr_then (cm_fix_name g argin m) (\<lambda>archname m1.
        mgr_then (lookup_archiver g archname m1) (\<lambda>found m2.
          if found \<noteq> None \<or> archname \<in> set (archiver_list_fix m2) then
            mgr_throw ''Archiver already present''
              (''Archiver '' @ [CHR 0x27] @ archname @ [CHR 0x27] @ '' already present'') m2
          else
            mgr_then
              (insert_archiver g archname \<lparr>attr_list = [], dp = archiver_proxy g archname\<rparr>
                (m2\<lparr>archiver_list_fix := archiver_list_fix m2 @ [archname]\<rparr>))
              (\<lambda>u. save_archiver_list g))))"

definition cm_archiver_remove :: "mgr_env \<Rightarrow> string \<Rightarrow> hdb_manager \<Rightarrow> unit mgr_result" where
  "cm_archiver_remove g argin m =
     mgr_then (cm_fix_name g argin m) (\<lambda>archname m1.
     mgr_then (lookup_archiver g archname m1) (\<lambda>found m2.
       case (found, archname \<in> set (archiver_list_fix m2)) of
         (Some i, True) \<Rightarrow>
           save_archiver_list g
             (m2\<lparr>archiver_list_fix := remove1 archname (archiver_list_fix m2),
                 archiverMap := erase_at i (archiverMap m2)\<rparr>)
       | _ \<Rightarrow> archiver_not_found archname m2))"

fun reset_loop :: "mgr_env \<Rightarrow> archiver_map \<Rightarrow> hdb_manager \<Rightarrow> unit mgr_result" where
  "reset_loop g [] m = (Inr (), m)"
| "reset_loop g ((k, e) # es) m =
     (case dp e of
        None \<Rightarrow> reset_loop g es m
      | Some t \<Rightarrow>
          (case unreachable g t of
             Some (reason, desc) \<Rightarrow> mgr_throw reason desc m
           | None \<Rightarrow>
               reset_loop g es
                 (m\<lparr>archivers := (archivers m)(t := archiver_reset_statistics (clock_now g) (archivers m t))\<rparr>)))"

definition cm_reset_statistics :: "mgr_env \<Rightarrow> hdb_manager \<Rightarrow> unit mgr_result" where
  "cm_reset_statistics g m = reset_loop g (archiverMap m) m"

subsection \<open>Writing the attributes of the manager\<close>

definition write_SetAttributeName :: "mgr_env \<Rightarrow> string \<Rightarrow> hdb_manager \<Rightarrow> unit mgr_result" where
  "write_SetAttributeName g w_val m =
     mgr_then (cm_fix_name g w_val m) (\<lambda>fixed m1.
       let signame = filter (\<lambda>c. c \<noteq> CHR '' '') fixed in
       case find_last_char (CHR ''/'') signame of
         None \<Rightarrow> mgr_throw ''SyntaxError'' ''Syntax error in signal name'' m1
       | Some idx \<Rightarrow>
           let dev = take idx signame; att = drop (Suc idx) signame;
               error = (\<lambda>e. case e of
                          DevFailed reason desc \<Rightarrow> mgr_throw reason desc m1
                        | _ \<Rightarrow> mgr_throw ''Error'' ''Error in signal name'' m1)
           in (case att_proxy g dev of
                 Some (reason, desc) \<Rightarrow> mgr_throw reason desc m1
               | None \<Rightarrow>
                   (case att_config g dev att of
                      Inl e \<Rightarrow> error e
                    | Inr info \<Rightarrow>
                        (case att_poll_period g dev att of
                           Inl e \<Rightarrow> error e
                         | Inr period \<Rightarrow>
                             (Inr (), m1\<lparr>SetPollingPeriod := period, original_SetPollingPeriod := Some period,
                                SetRelativeEvent :=
                                  (case read_double g (archive_rel_change info) of Some r \<Rightarrow> r | None \<Rightarrow> 0),
                                SetAbsoluteEvent :=
                                  (case read_double g (archive_abs_change info) of Some r \<Rightarrow> r | None \<Rightarrow> 0),
                                SetPeriodEvent :=
                                  (case read_long g (archive_period info) of Some n \<Rightarrow> n | None \<Rightarrow> -1),
                                SetAttributeName := signame\<rparr>)))))"

text \<open>The parameters of the next attribute may be written once its name has been.\<close>

definition when_named :: "(hdb_manager \<Rightarrow> hdb_manager) \<Rightarrow> hdb_manager \<Rightarrow> unit mgr_result" where
  "when_named f m =
     (if SetAttributeName m = []
      then mgr_throw ''Attribute not Defined'' ''Define first attribute to be added'' m
      else (Inr (), f m))"

definition write_SetPollingPeriod :: "int \<Rightarrow> hdb_manager \<Rightarrow> unit mgr_result" where
  "write_SetPollingPeriod w_val = when_named (\<lambda>m. m\<lparr>SetPollingPeriod := w_val\<rparr>)"

definition write_SetAbsoluteEvent :: "real \<Rightarrow> hdb_manager \<Rightarrow> unit mgr_result" where
  "write_SetAbsoluteEvent w_val = when_named (\<lambda>m. m\<lparr>SetAbsoluteEvent := w_val\<rparr>)"

definition write_SetRelativeEvent :: "real \<Rightarrow> hdb_manager \<Rightarrow> unit mgr_result" where
  "write_SetRelativeEvent w_val = when_named (\<lambda>m. m\<lparr>SetRelativeEvent := w_val\<rparr>)"

definition write_SetPeriodEvent :: "int \<Rightarrow> hdb_manager \<Rightarrow> unit mgr_result" where
  "write_SetPeriodEvent w_val = when_named (\<lambda>m. m\<lparr>SetPeriodEvent := w_val\<rparr>)"

definition write_SetCodePushedEvent :: "bool \<Rightarrow> hdb_manager \<Rightarrow> unit mgr_result" where
  "write_SetCodePushedEvent w_val = when_named (\<lambda>m. m\<lparr>SetCodePushedEvent := w_val\<rparr>)"

definition write_SetArchiver :: "mgr_env \<Rightarrow> string \<Rightarrow> hdb_manager \<Rightarrow> unit mgr_result" where
  "write_SetArchiver g w_val m =
     mgr_then (cm_fix_name g w_val m) (\<lambda>signame m1. (Inr (), m1\<lparr>SetArchiver := signame\<rparr>))"

definition write_SetTTL :: "u32 \<Rightarrow> hdb_manager \<Rightarrow> unit mgr_result" where
  "write_SetTTL w_val m = (Inr (), m\<lparr>SetTTL := w_val\<rparr>)"

definition write_SetStrategy :: "string \<Rightarrow> hdb_manager \<Rightarrow> unit mgr_result" where
  "write_SetStrategy w_val m = (Inr (), m\<lparr>SetStrategy := w_val\<rparr>)"

text \<open>
  The context is written to all archivers as a group, each addressed by its name in the map; the error
  lists the replies of all of them.
\<close>

fun group_write :: "mgr_env \<Rightarrow> string \<Rightarrow> string list \<Rightarrow> hdb_manager \<Rightarrow> ((string \<times> string option) list) mgr_result" where
  "group_write g ctx [] m = (Inr [], m)"
| "group_write g ctx (k # ks) m =
     (let (r, m1) = (case archiver_proxy g k of
                       None \<Rightarrow> mgr_throw (fst (tango_error g)) (snd (tango_error g)) m
                     | Some t \<Rightarrow> remote g t (\<lambda>w. write_Context w ctx) m)
      in case r of
           Inl (DevFailed reason desc) \<Rightarrow>
             mgr_then (group_write g ctx ks m1) (\<lambda>rs m2. (Inr ((k, Some desc) # rs), m2))
         | Inl e \<Rightarrow> (Inl e, m1)
         | Inr u \<Rightarrow> mgr_then (group_write g ctx ks m1) (\<lambda>rs m2. (Inr ((k, None) # rs), m2)))"

definition group_text :: "(string \<times> string option) list \<Rightarrow> string" where
  "group_text rs =
     ''Some Errors writing context:'' @ [CHR 0x0A] @
     concat (List.map (\<lambda>(k, err).
       k @ (case err of Some desc \<Rightarrow> '' ERROR = '' @ desc | None \<Rightarrow> '' WRITE OK'') @ [CHR 0x0A]) rs)"

definition cm_write_Context :: "mgr_env \<Rightarrow> string \<Rightarrow> hdb_manager \<Rightarrow> unit mgr_result" where
  "cm_write_Context g w_val m =
     mgr_then (group_write g w_val (List.map fst (archiverMap m)) m) (\<lambda>resp m1.
       if list_ex (\<lambda>(k, err). err \<noteq> None) resp
       then mgr_throw ''Archiver Context Error'' (group_text resp) m1
       else (Inr (), m1))"

subsection \<open>Reading the attributes of the manager\<close>

text \<open>The archivers that answer, in the order of the map; the others are skipped.\<close>

definition readable :: "mgr_env \<Rightarrow> hdb_manager \<Rightarrow> archiver list" where
  "readable g m =
     concat (List.map (\<lambda>(k, e).
       case dp e of None \<Rightarrow> [] | Some t \<Rightarrow> if unreachable g t = None then [archivers m t] else [])
       (archiverMap m))"

definition sum_over :: "mgr_env \<Rightarrow> (archiver \<Rightarrow> int) \<Rightarrow> hdb_manager \<Rightarrow> int" where
  "sum_over g f m = fold (\<lambda>a num. num + f a) (readable g m) 0"

definition read_AttributeOKNumber :: "mgr_env \<Rightarrow> hdb_manager \<Rightarrow> int" where
  "read_AttributeOKNumber g = sum_over g arch_ok_number"

definition read_AttributeNokNumber :: "mgr_env \<Rightarrow> hdb_manager \<Rightarrow> int" where
  "read_AttributeNokNumber g = sum_over g arch_nok_number"

definition read_AttributePendingNumber :: "mgr_env \<Rightarrow> hdb_manager \<Rightarrow> int" where
  "read_AttributePendingNumber g = sum_over g (\<lambda>a. int (pending_number (push (arch_dev a))))"

definition read_AttributeNumber :: "mgr_env \<Rightarrow> hdb_manager \<Rightarrow> int" where
  "read_AttributeNumber g = sum_over g (\<lambda>a. attr_number (shared (arch_dev a)))"

definition read_AttributeStartedNumber :: "mgr_env \<Rightarrow> hdb_manager \<Rightarrow> int" where
  "read_AttributeStartedNumber g = sum_over g (\<lambda>a. attr_started (shared (arch_dev a)))"

definition read_AttributeStoppedNumber :: "mgr_env \<Rightarrow> hdb_manager \<Rightarrow> int" where
  "read_AttributeStoppedNumber g = sum_over g (\<lambda>a. attr_stopped (shared (arch_dev a)))"

definition read_AttributePausedNumber :: "mgr_env \<Rightarrow> hdb_manager \<Rightarrow> int" where
  "read_AttributePausedNumber g = sum_over g (\<lambda>a. attr_paused (shared (arch_dev a)))"

definition read_AttributeMaxPendingNumber :: "mgr_env \<Rightarrow> hdb_manager \<Rightarrow> int" where
  "read_AttributeMaxPendingNumber g = sum_over g (\<lambda>a. int (max_pending_number (push (arch_dev a))))"

definition read_AttributeRecordFreq :: "mgr_env \<Rightarrow> hdb_manager \<Rightarrow> int" where
  "read_AttributeRecordFreq g = sum_over g record_freq"

definition read_AttributeFailureFreq :: "mgr_env \<Rightarrow> hdb_manager \<Rightarrow> int" where
  "read_AttributeFailureFreq g = sum_over g failure_freq"

definition larger :: "real \<Rightarrow> real \<Rightarrow> real" where
  "larger val acc = (if val > acc \<and> val \<noteq> -1 then val else acc)"

definition read_AttributeMaxStoreTime :: "mgr_env \<Rightarrow> hdb_manager \<Rightarrow> real" where
  "read_AttributeMaxStoreTime g m =
     fold (\<lambda>a. larger (max_store_time (push (arch_dev a)))) (readable g m) 0"

definition read_AttributeMaxProcessingTime :: "mgr_env \<Rightarrow> hdb_manager \<Rightarrow> real" where
  "read_AttributeMaxProcessingTime g m =
     fold (\<lambda>a. larger (max_process_time (push (arch_dev a)))) (readable g m) 0"

text \<open>The first value replaces the initial 0, even when it is the \<open>-1\<close> of an archiver without statistics.\<close>

definition read_AttributeMinStoreTime :: "mgr_env \<Rightarrow> hdb_manager \<Rightarrow> real" where
  "read_AttributeMinStoreTime g m =
     fold (\<lambda>a acc.
       let val = min_store_time (push (arch_dev a)); acc1 = (if acc = 0 then val else acc)
       in if val < acc1 \<and> val \<noteq> -1 then val else acc1)
       (readable g m) 0"

definition read_AttributeMinProcessingTime :: "mgr_env \<Rightarrow> hdb_manager \<Rightarrow> real" where
  "read_AttributeMinProcessingTime g m =
     fold (\<lambda>a acc.
       let val = min_process_time (push (arch_dev a))
       in if acc = 0 then val else if val < acc \<and> val \<noteq> -1 then val else acc)
       (readable g m) 0"

definition read_ArchiverList :: "hdb_manager \<Rightarrow> string list" where
  "read_ArchiverList m = List.map fst (archiverMap m)"

definition state_text :: "dev_state \<Rightarrow> string" where
  "state_text st =
     [CHR 0x09] @ (case st of ST_ON \<Rightarrow> ''ON'' | ST_ALARM \<Rightarrow> ''ALARM'') @ [CHR 0x09]"

definition read_ArchiverStatus :: "mgr_env \<Rightarrow> hdb_manager \<Rightarrow> string list" where
  "read_ArchiverStatus g m =
     List.map (\<lambda>(k, e).
       k @ (case dp e of
              None \<Rightarrow> [CHR 0x09] @ ''NOT Connected''
            | Some t \<Rightarrow>
                (case unreachable g t of
                   Some (reason, desc) \<Rightarrow> [CHR 0x09] @ ''Error='' @ [CHR 0x27] @ desc @ [CHR 0x27]
                 | None \<Rightarrow>
                     let a = archivers m t; d = arch_dev a in
                     state_text (subcribing_state d) @ [CHR 0x09] @ ''NOK='' @ show_long (arch_nok_number a) @
                     ''/'' @ show_long (attr_number (shared d)) @ [CHR 0x09] @ ''Pending='' @
                     show_nat (pending_number (push d)))))
       (archiverMap m)"

definition read_or :: "mgr_env \<Rightarrow> hdb_manager \<Rightarrow> 'a \<Rightarrow> (archiver \<Rightarrow> 'a) \<Rightarrow> archiver_entry \<Rightarrow> 'a" where
  "read_or g m dflt f e =
     (case dp e of None \<Rightarrow> dflt
      | Some t \<Rightarrow> if unreachable g t = None then f (archivers m t) else dflt)"

definition read_ArchiverStatisticsResetTime :: "mgr_env \<Rightarrow> hdb_manager \<Rightarrow> real list" where
  "read_ArchiverStatisticsResetTime g m =
     List.map (\<lambda>(k, e). read_or g m 0 (\<lambda>a. clock_now g - last_statistics_reset_time a) e) (archiverMap m)"

definition read_ArchiverContext :: "mgr_env \<Rightarrow> hdb_manager \<Rightarrow> string list" where
  "read_ArchiverContext g m =
     List.map (\<lambda>(k, e). read_or g m [] (\<lambda>a. context_read (arch_dev a)) e) (archiverMap m)"

text \<open>
  The contexts of all archivers, without those whose key (the upper-case part before a colon) an earlier
  archiver has given. The keys are taken before the contexts of an archiver are added.
\<close>

definition context_key :: "string \<Rightarrow> string" where
  "context_key c = to_upper (takeWhile (\<lambda>x. x \<noteq> CHR '':'') c)"

definition read_ContextsList :: "mgr_env \<Rightarrow> hdb_manager \<Rightarrow> string list" where
  "read_ContextsList g m =
     fold (\<lambda>(k, e) acc.
       acc @ filter (\<lambda>c. context_key c \<notin> context_key ` set acc) (read_or g m [] arch_contexts_list e))
       (archiverMap m) []"

subsection \<open>The hook before every request\<close>

text \<open>
  Reconnecting the proxies that are missing, and pinging the others; the flag tells whether one of these
  did not answer (a call that takes no microsecond counts as that).
\<close>

fun ping_loop :: "mgr_env \<Rightarrow> archiver_map \<Rightarrow> archiver_map \<times> bool" where
  "ping_loop g [] = ([], False)"
| "ping_loop g ((k, e) # es) =
     (let (es', fault) = ping_loop g es in
      case dp e of
        None \<Rightarrow> ((k, e\<lparr>dp := archiver_proxy g k\<rparr>) # es', fault)
      | Some t \<Rightarrow> ((k, e) # es', fault \<or> unreachable g t \<noteq> None \<or> ping_time g t = 0))"

text \<open>
  The state of the manager by those of the archivers. For an archiver without proxy the status is written
  into a variable that hides the one returned.
\<close>

fun state_loop :: "mgr_env \<Rightarrow> (string \<Rightarrow> archiver) \<Rightarrow> archiver_map \<Rightarrow> mgr_state \<times> string" where
  "state_loop g arch [] = (MGR_ON, ''Everything is OK'')"
| "state_loop g arch ((k, e) # es) =
     (case dp e of
        None \<Rightarrow> (MGR_FAULT, ''Everything is OK'')
      | Some t \<Rightarrow>
          if unreachable g t \<noteq> None then (MGR_FAULT, ''At least one Archiver Not Responding'')
          else if subcribing_state (arch_dev (arch t)) \<noteq> ST_ON
          then (MGR_ALARM, ''At least one signal is faulty'')
          else state_loop g arch es)"

definition cm_always_executed_hook :: "mgr_env \<Rightarrow> hdb_manager \<Rightarrow> unit mgr_result" where
  "cm_always_executed_hook g m =
     (if mandatoryNotDefined m then mgr_throw ''PROPERTY_NOT_SET'' (mgr_status m) m
      else if clock_now g - last_stat m < 2 then (Inr (), m)
      else
        (let (es, archiver_fault) = ping_loop g (archiverMap m);
             m1 = m\<lparr>last_stat := clock_now g, archiverMap := es\<rparr>
         in if archiver_fault then
              (Inr (), m1\<lparr>mgr_state := MGR_FAULT, mgr_status := ''At least one Archiver Not Responding''\<rparr>)
            else
              (let (stat, status) = state_loop g (archivers m1) es
               in (Inr (), if mgr_state m1 \<noteq> stat then m1\<lparr>mgr_state := stat, mgr_status := status\<rparr> else m1))))"

subsection \<open>Start and end\<close>

text \<open>
  The archivers of the property. The list \<open>archiver_list_fix\<close> is not emptied before, and takes a name that
  the map has already.
\<close>

fun init_archivers :: "mgr_env \<Rightarrow> string list \<Rightarrow> hdb_manager \<Rightarrow> unit mgr_result" where
  "init_archivers g [] m = (Inr (), m)"
| "init_archivers g (nm # nms) m =
     mgr_then (cm_fix_name g nm m) (\<lambda>archname m1.
     mgr_then
       (insert_archiver g archname \<lparr>attr_list = [], dp = archiver_proxy g nm\<rparr>
         (m1\<lparr>archiver_list_fix := archiver_list_fix m1 @ [archname]\<rparr>))
       (\<lambda>u. init_archivers g nms))"

definition cm_init_device :: "mgr_env \<Rightarrow> string list option \<Rightarrow> hdb_manager \<Rightarrow> unit mgr_result" where
  "cm_init_device g archiverList m =
     (case archiverList of
        None \<Rightarrow>
          (Inr (), m\<lparr>mandatoryNotDefined := True,
             mgr_status := mgr_status m @ [CHR 0x0A] @ ''Property '' @ [CHR 0x27] @ ''ArchiverList'' @
               [CHR 0x27] @ '' is mandatory but not defined in database''\<rparr>)
      | Some names \<Rightarrow>
          mgr_then
            (init_archivers g names
              (m\<lparr>mandatoryNotDefined := False, SetCodePushedEvent := False, SetAttributeName := [],
                 SetArchiver := [], SetPeriodEvent := -1, SetRelativeEvent := -1, SetAbsoluteEvent := -1,
                 SetPollingPeriod := -1, SetTTL := 0, SetStrategy := []\<rparr>))
            (\<lambda>u m1.
              let m2 = m1\<lparr>last_stat := clock_now g\<rparr> in
              case hdb_library g of
                None \<Rightarrow> (Inr (), m2\<lparr>mdb := True\<rparr>)
              | Some desc \<Rightarrow>
                  (Inr (), m2\<lparr>mdb := False, mgr_state := MGR_FAULT,
                     mgr_status := ''Error initializing Hdb++ library: '' @ desc\<rparr>)))"

definition cm_delete_device :: "hdb_manager \<Rightarrow> hdb_manager" where
  "cm_delete_device m = m\<lparr>archiverMap := []\<rparr>"

end
