(* ===== verification/HdbManagerProps.thy ===== *)
theory HdbManagerProps
  imports HdbManager HdbDevProps
begin

text \<open>
  Correctness of the configuration manager of the archivers: the order of its map, searching an
  attribute, and the effect of its commands on the archivers, which are the devices of \<open>HdbDevice\<close>.

  A name is \<open>known\<close> if it is completed without change of the cache of host domains. The order of two known
  names is the order of their keys, so that the look-ups depend on the keys only.
\<close>

subsection \<open>Sequencing\<close>

lemma mgr_then_simps [simp]:
  "mgr_then (Inl e, m) k = (Inl e, m)" "mgr_then (Inr x, m) k = k x m"
  by (simp_all add: mgr_then_def)

lemma mgr_throw_simps [simp]:
  "fst (mgr_throw r d m) = Inl (DevFailed r d)" "snd (mgr_throw r d m) = m"
  by (simp_all add: mgr_throw_def)

subsection \<open>The order of the names\<close>

definition completed :: "mgr_env \<Rightarrow> domain_map \<Rightarrow> string \<Rightarrow> string" where
  "completed g dm nm = fst (the (fix_tango_host (g_host g) (g_addr g) nm dm))"

definition known :: "mgr_env \<Rightarrow> domain_map \<Rightarrow> string \<Rightarrow> bool" where
  "known g dm nm \<longleftrightarrow>
     fix_tango_host (g_host g) (g_addr g) nm dm = Some (completed g dm nm, dm) \<and>
     remove_domain (completed g dm nm) \<noteq> None"

definition name_key :: "mgr_env \<Rightarrow> domain_map \<Rightarrow> string \<Rightarrow> string" where
  "name_key g dm nm = the (remove_domain (completed g dm nm))"

lemma compare_known:
  assumes "known g dm a" and "known g dm b"
  shows "compare_tango_names g a b dm = Some (name_key g dm a < name_key g dm b, dm)"
  using assms by (auto simp: compare_tango_names_def known_def name_key_def)

lemma same_known:
  assumes "known g dm a" and "known g dm b"
  shows "same_tango_name g a b dm = Some (name_key g dm a = name_key g dm b, dm)"
  using compare_known [OF assms] compare_known [OF assms(2,1)]
  by (cases "name_key g dm a" "name_key g dm b" rule: linorder_cases)
    (simp_all add: same_tango_name_def less_not_sym)

lemma fix_known: "known g (domain_cache m) nm \<Longrightarrow> cm_fix_name g nm m = (Inr (completed g (domain_cache m) nm), m)"
  by (simp add: cm_fix_name_def known_def)

text \<open>The map in strict order of the keys, with known names.\<close>

abbreviation (input) map_keys :: "mgr_env \<Rightarrow> domain_map \<Rightarrow> archiver_map \<Rightarrow> string list" where
  "map_keys g dm es \<equiv> List.map (\<lambda>e. name_key g dm (fst e)) es"

definition map_ordered :: "mgr_env \<Rightarrow> domain_map \<Rightarrow> archiver_map \<Rightarrow> bool" where
  "map_ordered g dm es \<longleftrightarrow> (\<forall>e\<in>set es. known g dm (fst e)) \<and> sorted_wrt (<) (map_keys g dm es)"

lemma map_ordered_Cons:
  "map_ordered g dm (e # es) \<longleftrightarrow>
     known g dm (fst e) \<and> (\<forall>e'\<in>set es. name_key g dm (fst e) < name_key g dm (fst e')) \<and> map_ordered g dm es"
  by (auto simp: map_ordered_def)

lemma map_find_ordered:
  assumes "map_ordered g dm es" and "known g dm key"
  shows "map_find g key es dm =
    Some (find_index (\<lambda>e. name_key g dm (fst e) = name_key g dm key) es, dm)"
  using assms
proof (induction es)
  case (Cons e es)
  obtain k v where e: "e = (k, v)" by (cases e)
  have k: "known g dm k" and es: "map_ordered g dm es"
    and above: "\<forall>e'\<in>set es. name_key g dm k < name_key g dm (fst e')"
    using Cons.prems(1) by (simp_all add: map_ordered_Cons e)
  note cmp = compare_known [OF k Cons.prems(2)] compare_known [OF Cons.prems(2) k]
  show ?case
  proof (cases "name_key g dm key" "name_key g dm k" rule: linorder_cases)
    case less
    then have none: "find_index (\<lambda>e. name_key g dm (fst e) = name_key g dm key) es = None"
      using above by (auto dest: order.strict_trans)
    show ?thesis using less cmp none by (simp add: e less_not_sym)
  next
    case equal
    then show ?thesis using cmp by (simp add: e)
  next
    case greater
    then show ?thesis using cmp Cons.IH [OF es Cons.prems(2)] by (simp add: e)
  qed
qed simp

lemma map_ordered_cong: "List.map fst es' = List.map fst es \<Longrightarrow> map_ordered g dm es' = map_ordered g dm es"
proof -
  assume eq: "List.map fst es' = List.map fst es"
  have "map_keys g dm xs = List.map (name_key g dm) (List.map fst xs)" for xs :: archiver_map by simp
  moreover have "(\<forall>e\<in>set xs. known g dm (fst e)) = (\<forall>k\<in>set (List.map fst xs). known g dm k)" for xs :: archiver_map
    by simp
  ultimately show ?thesis unfolding map_ordered_def by (simp only: eq)
qed

lemma map_put_present:
  assumes "map_ordered g dm es" and "known g dm key" and "\<exists>e\<in>set es. name_key g dm (fst e) = name_key g dm key"
  shows "map_put g key x es dm = Some (es, dm)"
  using assms
proof (induction es)
  case (Cons e es)
  obtain k v where e: "e = (k, v)" by (cases e)
  have k: "known g dm k" and es: "map_ordered g dm es"
    and above: "\<forall>e'\<in>set es. name_key g dm k < name_key g dm (fst e')"
    using Cons.prems(1) by (simp_all add: map_ordered_Cons e)
  note cmp = compare_known [OF k Cons.prems(2)] compare_known [OF Cons.prems(2) k]
  show ?case
  proof (cases "name_key g dm key" "name_key g dm k" rule: linorder_cases)
    case less
    then show ?thesis using Cons.prems(3) above by (auto simp: e)
  next
    case equal
    then show ?thesis using cmp by (simp add: e)
  next
    case greater
    then show ?thesis using cmp Cons.IH [OF es Cons.prems(2)] Cons.prems(3) by (auto simp: e)
  qed
qed simp



lemma map_ordered_erase:
  assumes "map_ordered g dm es"
  shows "map_ordered g dm (erase_at i es)"
proof -
  have "map_keys g dm (erase_at i es) = take i (map_keys g dm es) @ drop (Suc i) (map_keys g dm es)"
    by (simp add: erase_at_def take_map drop_map)
  moreover have "sorted_wrt (<) (take i xs @ drop (Suc i) xs)" if "sorted_wrt (<) xs" for xs :: "string list"
  proof -
    have "sorted_wrt (<) (take i xs @ drop i xs)" using that by simp
    then have "\<forall>x\<in>set (take i xs). \<forall>y\<in>set (drop i xs). x < y" by (simp only: sorted_wrt_append) simp
    moreover have "set (drop (Suc i) xs) \<subseteq> set (drop i xs)" by (simp add: set_drop_subset_set_drop)
    ultimately show ?thesis using that by (auto simp: sorted_wrt_append intro: sorted_wrt_take sorted_wrt_drop)
  qed
  ultimately show ?thesis using assms set_erase_at [of i es] by (auto simp: map_ordered_def)
qed

subsection \<open>Searching an attribute\<close>

lemma name_in_list_known:
  assumes "\<forall>n\<in>set ns. known g dm n" and "known g dm nm" and "nm \<noteq> []"
  shows "name_in_list g nm ns dm = Some (\<exists>n\<in>set ns. name_key g dm n = name_key g dm nm, dm)"
  using assms
proof (induction ns)
  case (Cons n ns)
  have same: "same_tango_name g n nm dm = Some (name_key g dm n = name_key g dm nm, dm)"
    using Cons.prems by (intro same_known) simp_all
  have IH: "name_in_list g nm ns dm = Some (\<exists>n\<in>set ns. name_key g dm n = name_key g dm nm, dm)"
    using Cons.IH Cons.prems by simp
  show ?case using Cons.prems(3) same IH by (cases "name_key g dm n = name_key g dm nm") simp_all
qed simp

text \<open>What a read of the lists leaves alone: the names and the proxies of the entries.\<close>

definition same_entries :: "archiver_map \<Rightarrow> archiver_map \<Rightarrow> bool" where
  "same_entries es es' \<longleftrightarrow> List.map (\<lambda>e. (fst e, dp (snd e))) es' = List.map (\<lambda>e. (fst e, dp (snd e))) es"

lemma same_entries_nth:
  assumes "same_entries es es'" and "i < length es"
  shows "length es' = length es" and "fst (es' ! i) = fst (es ! i)" and "dp (snd (es' ! i)) = dp (snd (es ! i))"
proof -
  show len: "length es' = length es" using arg_cong [OF assms(1) [unfolded same_entries_def], of length] by simp
  have "List.map (\<lambda>e. (fst e, dp (snd e))) es' ! i = List.map (\<lambda>e. (fst e, dp (snd e))) es ! i"
    using assms(1) by (simp add: same_entries_def)
  then show "fst (es' ! i) = fst (es ! i)" "dp (snd (es' ! i)) = dp (snd (es ! i))" using assms(2) len by simp_all
qed

lemma same_entries_fst: "same_entries es es' \<Longrightarrow> List.map fst es' = List.map fst es"
proof -
  assume "same_entries es es'"
  then have "List.map fst (List.map (\<lambda>e. (fst e, dp (snd e))) es') = List.map fst (List.map (\<lambda>e. (fst e, dp (snd e))) es)"
    by (simp only: same_entries_def)
  then show ?thesis by (simp add: comp_def)
qed

lemma refresh_dp [simp]: "dp (refresh_entry g arch e) = dp e"
  by (simp add: refresh_entry_def split: option.split)

text \<open>The list that counts for an entry, after the read.\<close>

definition read_list :: "mgr_env \<Rightarrow> (string \<Rightarrow> archiver) \<Rightarrow> string \<times> archiver_entry \<Rightarrow> string list" where
  "read_list g arch e = attr_list (refresh_entry g arch (snd e))"

lemma scan_archivers_known:
  assumes "\<forall>e\<in>set es. \<forall>n\<in>set (read_list g arch e). known g dm n" and "known g dm nm" and "nm \<noteq> []"
  shows "\<exists>es'. scan_archivers g arch nm es dm =
      (Some (find_index (\<lambda>e. \<exists>n\<in>set (read_list g arch e). name_key g dm n = name_key g dm nm) es), es', dm) \<and>
    same_entries es es'"
  using assms
proof (induction es)
  case (Cons e es)
  obtain k v where e: "e = (k, v)" by (cases e)
  note found = name_in_list_known [of "read_list g arch e", OF _ Cons.prems(2,3)]
  obtain es' where IH: "scan_archivers g arch nm es dm =
      (Some (find_index (\<lambda>e. \<exists>n\<in>set (read_list g arch e). name_key g dm n = name_key g dm nm) es), es', dm)"
    "same_entries es es'" using Cons by auto
  then show ?case
    using found Cons.prems(1)
    by (cases "\<exists>n\<in>set (read_list g arch e). name_key g dm n = name_key g dm nm")
      (auto simp: e read_list_def same_entries_def Let_def)
qed (simp add: same_entries_def)

text \<open>
  The names with which the look-ups of a manager work: those of the map and of the lists are known, the map
  is ordered, and no archiver has the key of the empty name, which stands for \<open>not found\<close>.
\<close>

definition manager_ok :: "mgr_env \<Rightarrow> hdb_manager \<Rightarrow> bool" where
  "manager_ok g m \<longleftrightarrow>
     map_ordered g (domain_cache m) (archiverMap m) \<and> known g (domain_cache m) [] \<and>
     (\<forall>e\<in>set (archiverMap m). name_key g (domain_cache m) (fst e) \<noteq> name_key g (domain_cache m) [] \<and>
        (\<forall>n\<in>set (read_list g (archivers m) e). known g (domain_cache m) n))"

text \<open>A complete attribute name: known, unchanged by the completion, and not empty.\<close>

definition complete :: "mgr_env \<Rightarrow> domain_map \<Rightarrow> string \<Rightarrow> bool" where
  "complete g dm nm \<longleftrightarrow> known g dm nm \<and> completed g dm nm = nm \<and> nm \<noteq> []"

lemma fix_complete_name: "complete g (domain_cache m) nm \<Longrightarrow> cm_fix_name g nm m = (Inr nm, m)"
  by (simp add: complete_def fix_known)

text \<open>The entries whose list has the name.\<close>

definition lists_name :: "mgr_env \<Rightarrow> hdb_manager \<Rightarrow> string \<Rightarrow> string \<times> archiver_entry \<Rightarrow> bool" where
  "lists_name g m nm e \<longleftrightarrow>
     (\<exists>n\<in>set (read_list g (archivers m) e). name_key g (domain_cache m) n = name_key g (domain_cache m) nm)"

lemma scan_map_known:
  assumes "manager_ok g m" and "complete g (domain_cache m) nm"
  shows "\<exists>es. scan_map g nm m = (Inr (find_index (lists_name g m nm) (archiverMap m)), m\<lparr>archiverMap := es\<rparr>) \<and>
    same_entries (archiverMap m) es"
proof -
  have "\<forall>e\<in>set (archiverMap m). \<forall>n\<in>set (read_list g (archivers m) e). known g (domain_cache m) n"
    using assms(1) by (simp add: manager_ok_def)
  from scan_archivers_known [OF this] obtain es where
    "scan_archivers g (archivers m) nm (archiverMap m) (domain_cache m) =
      (Some (find_index (lists_name g m nm) (archiverMap m)), es, domain_cache m)" "same_entries (archiverMap m) es"
    using assms(2) by (auto simp: complete_def lists_name_def [abs_def])
  then show ?thesis by (intro exI [of _ es]) (simp add: scan_map_def)
qed

definition found_name :: "archiver_map \<Rightarrow> nat option \<Rightarrow> string" where
  "found_name es r = (case r of None \<Rightarrow> [] | Some i \<Rightarrow> fst (es ! i))"

lemma found_name_same:
  "same_entries es es' \<Longrightarrow> r = find_index P es \<Longrightarrow> found_name es' r = found_name es r"
  using find_index_bound [of P es] same_entries_nth(2) [of es es']
  by (cases "find_index P es") (simp_all add: found_name_def)

lemma find_archiver_known:
  assumes "manager_ok g m" and "complete g (domain_cache m) nm"
  shows "\<exists>es. find_archiver g nm m =
      (Inr (found_name (archiverMap m) (find_index (lists_name g m nm) (archiverMap m))), m\<lparr>archiverMap := es\<rparr>) \<and>
    same_entries (archiverMap m) es"
proof -
  obtain es where es: "scan_map g nm m = (Inr (find_index (lists_name g m nm) (archiverMap m)), m\<lparr>archiverMap := es\<rparr>)"
    "same_entries (archiverMap m) es" using scan_map_known [OF assms] by blast
  define r where "r = find_index (lists_name g m nm) (archiverMap m)"
  have "find_archiver g nm m = (Inr (found_name es r), m\<lparr>archiverMap := es\<rparr>)"
    using es(1) [folded r_def]
    by (cases r) (simp_all add: find_archiver_def fix_complete_name [OF assms(2)] found_name_def)
  then show ?thesis using es(2) found_name_same [OF es(2) r_def] unfolding r_def by auto
qed

text \<open>Looking up the found archiver in the map gives its position, and the empty name is not found.\<close>

lemma lookup_known:
  assumes "map_ordered g (domain_cache m) (archiverMap m)" and "known g (domain_cache m) key"
  shows "lookup_archiver g key m =
    (Inr (find_index (\<lambda>e. name_key g (domain_cache m) (fst e) = name_key g (domain_cache m) key) (archiverMap m)), m)"
  using map_find_ordered [OF assms] by (simp add: lookup_archiver_def)

lemma ordered_position:
  assumes "map_ordered g dm es" and "i < length es"
  shows "find_index (\<lambda>e. name_key g dm (fst e) = name_key g dm (fst (es ! i))) es = Some i"
  using assms
proof (induction es arbitrary: i)
  case (Cons e es)
  show ?case
  proof (cases i)
    case (Suc j)
    then have "es ! j \<in> set es" using Cons.prems(2) by simp
    then have "name_key g dm (fst e) < name_key g dm (fst (es ! j))"
      using Cons.prems(1) by (simp add: map_ordered_Cons)
    then have "name_key g dm (fst e) \<noteq> name_key g dm (fst (es ! j))" by simp
    then show ?thesis using Cons Suc by (simp add: map_ordered_Cons)
  qed simp
qed simp

lemma lookup_found:
  assumes ok: "manager_ok g m" and es: "same_entries (archiverMap m) es"
    and r: "r = find_index P (archiverMap m)"
  shows "lookup_archiver g (found_name (archiverMap m) r) (m\<lparr>archiverMap := es\<rparr>) = (Inr r, m\<lparr>archiverMap := es\<rparr>)"
proof -
  let ?dm = "domain_cache m" and ?m = "m\<lparr>archiverMap := es\<rparr>"
  have ord: "map_ordered g ?dm (archiverMap m)" using ok by (simp add: manager_ok_def)
  then have ord': "map_ordered g ?dm es" using map_ordered_cong [OF same_entries_fst [OF es]] by simp
  show ?thesis
  proof (cases r)
    case None
    have img: "fst ` set es = fst ` set (archiverMap m)"
      using arg_cong [OF same_entries_fst [OF es], of set] by simp
    have "\<forall>k\<in>fst ` set es. name_key g ?dm k \<noteq> name_key g ?dm []"
      unfolding img using ok by (simp add: manager_ok_def)
    then have "find_index (\<lambda>e. name_key g ?dm (fst e) = name_key g ?dm []) es = None" by simp
    then show ?thesis
      using None ok ord' lookup_known [of g ?m "[]"] by (simp add: found_name_def manager_ok_def)
  next
    case (Some i)
    then have i: "i < length (archiverMap m)" using find_index_bound r by force
    then have "archiverMap m ! i \<in> set (archiverMap m)" by simp
    then have kn: "known g ?dm (fst (archiverMap m ! i))" using ord by (simp add: map_ordered_def)
    have "i < length es" using same_entries_nth(1) [OF es i] i by simp
    from ordered_position [OF ord' this] show ?thesis
      using Some kn ord' lookup_known [of g ?m "fst (archiverMap m ! i)"]
      by (simp add: found_name_def same_entries_nth(2) [OF es i])
  qed
qed

declare show_nat.simps [simp del]

subsection \<open>Calls of an archiver\<close>

lemma remote_success:
  assumes "remote g t f m = (Inr x, m')"
  shows "\<exists>d. unreachable g t = None \<and> f (arch_world g t) (arch_dev (archivers m t)) = (Inr x, d) \<and>
    m' = m\<lparr>archivers := (archivers m)(t := (archivers m t)\<lparr>arch_dev := d\<rparr>)\<rparr>"
  using assms
  by (cases "f (arch_world g t) (arch_dev (archivers m t))")
    (auto simp: remote_def mgr_throw_def Let_def split: option.splits sum.splits hdb_error.splits)

lemma remote_ok:
  assumes "unreachable g t = None" and "f (arch_world g t) (arch_dev (archivers m t)) = (Inr x, d)"
  shows "remote g t f m = (Inr x, m\<lparr>archivers := (archivers m)(t := (archivers m t)\<lparr>arch_dev := d\<rparr>)\<rparr>)"
  using assms by (simp add: remote_def)

lemma call_entry_success:
  assumes "call_entry g i f m = (Inr x, m')"
  shows "\<exists>t d. dp (snd (archiverMap m ! i)) = Some t \<and> unreachable g t = None \<and>
    f (arch_world g t) (arch_dev (archivers m t)) = (Inr x, d) \<and>
    m' = m\<lparr>archivers := (archivers m)(t := (archivers m t)\<lparr>arch_dev := d\<rparr>)\<rparr>"
proof -
  obtain k e where ke: "archiverMap m ! i = (k, e)" by (cases "archiverMap m ! i")
  show ?thesis
  proof (cases "dp e")
    case None
    then show ?thesis using assms by (simp add: call_entry_def ke not_responding_def mgr_throw_def)
  next
    case (Some t)
    then have "remote g t f m = (Inr x, m')" using assms by (simp add: call_entry_def ke)
    from remote_success [OF this] show ?thesis using Some ke by auto
  qed
qed

lemma call_entry_ok:
  assumes "dp (snd (archiverMap m ! i)) = Some t" and "unreachable g t = None"
    and "f (arch_world g t) (arch_dev (archivers m t)) = (Inr x, d)"
  shows "call_entry g i f m = (Inr x, m\<lparr>archivers := (archivers m)(t := (archivers m t)\<lparr>arch_dev := d\<rparr>)\<rparr>)"
  using assms remote_ok by (simp add: call_entry_def case_prod_beta)

text \<open>An archiver that is not connected or cannot be reached.\<close>

lemma call_entry_down:
  assumes "case dp (snd (archiverMap m ! i)) of None \<Rightarrow> True | Some t \<Rightarrow> unreachable g t \<noteq> None"
  shows "\<exists>reason desc. call_entry g i f m = (Inl (DevFailed reason desc), m)"
  using assms
  by (auto simp: call_entry_def case_prod_beta not_responding_def remote_def mgr_throw_def split: option.splits)

subsection \<open>Adding an attribute\<close>

lemma set_events_frame [simp]:
  "archivers (set_events g dev att m) = archivers m" "archiverMap (set_events g dev att m) = archiverMap m"
  "configured (set_events g dev att m) = configured m" "SetStrategy (set_events g dev att m) = SetStrategy m"
  "SetTTL (set_events g dev att m) = SetTTL m" "SetAttributeName (set_events g dev att m) = SetAttributeName m"
  "mdb (set_events g dev att m) = mdb m" "domain_cache (set_events g dev att m) = domain_cache m"
  by (simp_all add: set_events_def Let_def split: sum.split)

lemma attribute_add_present:
  assumes ok: "manager_ok g m" and nm: "complete g (domain_cache m) (SetAttributeName m)" and mdb: "mdb m"
    and listed: "\<exists>e\<in>set (archiverMap m). lists_name g m (SetAttributeName m) e"
  shows "\<exists>es desc. cm_attribute_add g m = (Inl (DevFailed ''Already archived'' desc), m\<lparr>archiverMap := es\<rparr>) \<and>
    same_entries (archiverMap m) es"
proof -
  define r where "r = find_index (lists_name g m (SetAttributeName m)) (archiverMap m)"
  obtain es where es: "find_archiver g (SetAttributeName m) m = (Inr (found_name (archiverMap m) r), m\<lparr>archiverMap := es\<rparr>)"
    "same_entries (archiverMap m) es" using find_archiver_known [OF ok nm] unfolding r_def by blast
  have "r \<noteq> None" using listed by (simp add: r_def)
  then show ?thesis
    using es mdb lookup_found [OF ok es(2) r_def] by (auto simp: cm_attribute_add_def mgr_throw_def Let_def)
qed

text \<open>When no list has the name, the manager has read the lists of all archivers.\<close>

definition refreshed :: "mgr_env \<Rightarrow> hdb_manager \<Rightarrow> archiver_map" where
  "refreshed g m = List.map (\<lambda>e. (fst e, refresh_entry g (archivers m) (snd e))) (archiverMap m)"

lemma refreshed_same: "same_entries (archiverMap m) (refreshed g m)"
  by (simp add: refreshed_def same_entries_def)

lemma scan_archivers_absent:
  assumes "\<forall>e\<in>set es. \<forall>n\<in>set (read_list g arch e). known g dm n" and "known g dm nm" and "nm \<noteq> []"
    and "\<forall>e\<in>set es. \<not> (\<exists>n\<in>set (read_list g arch e). name_key g dm n = name_key g dm nm)"
  shows "scan_archivers g arch nm es dm =
    (Some None, List.map (\<lambda>e. (fst e, refresh_entry g arch (snd e))) es, dm)"
  using assms
proof (induction es)
  case (Cons e es)
  obtain k v where e: "e = (k, v)" by (cases e)
  have "name_in_list g nm (read_list g arch e) dm = Some (False, dm)"
    using name_in_list_known [of "read_list g arch e", OF _ Cons.prems(2,3)] Cons.prems(1,4) by simp
  then show ?case using Cons by (simp add: e read_list_def Let_def)
qed simp

lemma attribute_add_absent:
  assumes ok: "manager_ok g m" and nm: "complete g (domain_cache m) (SetAttributeName m)" and mdb: "mdb m"
    and absent: "\<forall>e\<in>set (archiverMap m). \<not> lists_name g m (SetAttributeName m) e"
  shows "cm_attribute_add g m = add_to_archiver g (SetAttributeName m) (m\<lparr>archiverMap := refreshed g m\<rparr>)"
proof -
  have "scan_archivers g (archivers m) (SetAttributeName m) (archiverMap m) (domain_cache m) =
      (Some None, refreshed g m, domain_cache m)"
    unfolding refreshed_def using ok nm absent
    by (intro scan_archivers_absent) (simp_all add: manager_ok_def complete_def lists_name_def)
  then have "find_archiver g (SetAttributeName m) m = (Inr [], m\<lparr>archiverMap := refreshed g m\<rparr>)"
    by (simp add: find_archiver_def fix_complete_name [OF nm] scan_map_def)
  moreover have "find_index (lists_name g m (SetAttributeName m)) (archiverMap m) = None" using absent by simp
  from lookup_found [OF ok refreshed_same this [symmetric]] have
    "lookup_archiver g [] (m\<lparr>archiverMap := refreshed g m\<rparr>) = (Inr None, m\<lparr>archiverMap := refreshed g m\<rparr>)"
    by (simp add: found_name_def)
  ultimately show ?thesis using mdb by (simp add: cm_attribute_add_def Let_def)
qed

text \<open>The archiver chosen by \<open>SetArchiver\<close>.\<close>

definition chosen :: "mgr_env \<Rightarrow> hdb_manager \<Rightarrow> nat option" where
  "chosen g m = find_index (\<lambda>e. name_key g (domain_cache m) (fst e) = name_key g (domain_cache m) (SetArchiver m))
     (archiverMap m)"

lemma add_to_archiver_success:
  assumes ord: "map_ordered g (domain_cache m) (archiverMap m)" and arch: "known g (domain_cache m) (SetArchiver m)"
    and success: "add_to_archiver g nm m = (Inr (), m')"
  shows "\<exists>i t d (info :: event_conf). chosen g m = Some i \<and> dp (snd (archiverMap m ! i)) = Some t \<and> unreachable g t = None \<and>
    configure_Attr g nm = None \<and>
    attribute_add (arch_world g t) [nm, SetStrategy m, show_nat (unat (SetTTL m))] (arch_dev (archivers m t)) =
      (Inr (), d) \<and>
    archivers m' = (archivers m)(t := (archivers m t)\<lparr>arch_dev := d\<rparr>) \<and> archiverMap m' = archiverMap m \<and>
    domain_cache m' = domain_cache m \<and> SetAttributeName m' = SetAttributeName m \<and> mdb m' = mdb m \<and>
    configured m' = configured m @ [(nm, conf_type info, conf_format info, conf_writable info, SetTTL m)]"
proof -
  have lookup: "lookup_archiver g (SetArchiver m) m = (Inr (chosen g m), m)"
    using lookup_known [OF ord arch] by (simp add: chosen_def)
  obtain i where i: "chosen g m = Some i"
    using success lookup by (cases "chosen g m") (auto simp: add_to_archiver_def archiver_not_found_def mgr_throw_def)
  obtain idx where idx: "find_last_char (CHR ''/'') nm = Some idx"
    using success lookup i by (cases "find_last_char (CHR ''/'') nm") (auto simp: add_to_archiver_def mgr_throw_def)
  let ?dev = "take idx nm" and ?att = "drop (Suc idx) nm"
  have proxy: "att_proxy g ?dev = None"
    using success lookup i idx by (cases "att_proxy g ?dev") (auto simp: add_to_archiver_def mgr_throw_def Let_def)
  obtain info where info: "att_config g ?dev ?att = Inr info"
    using success lookup i idx proxy by (cases "att_config g ?dev ?att") (auto simp: add_to_archiver_def Let_def)
  let ?m = "set_events g ?dev ?att m"
  have assign: "assign_new g nm i info ?m = (Inr (), m')"
    using success lookup i idx proxy info
    by (cases "events_configured m info") (auto simp: add_to_archiver_def mgr_throw_def Let_def)
  then have conf: "configure_Attr g nm = None"
    by (cases "configure_Attr g nm") (auto simp: assign_new_def mgr_throw_def)
  have "call_entry g i (\<lambda>w. attribute_add w [nm, SetStrategy m, show_nat (unat (SetTTL m))])
      (?m\<lparr>configured := configured m @ [(nm, conf_type info, conf_format info, conf_writable info, SetTTL m)]\<rparr>) =
      (Inr (), m')"
    using assign conf by (simp add: assign_new_def)
  from call_entry_success [OF this] obtain t d where
    t: "dp (snd (archiverMap m ! i)) = Some t" "unreachable g t = None"
      "attribute_add (arch_world g t) [nm, SetStrategy m, show_nat (unat (SetTTL m))] (arch_dev (archivers m t)) =
        (Inr (), d)"
      "m' = ?m\<lparr>configured := configured m @ [(nm, conf_type info, conf_format info, conf_writable info, SetTTL m)],
        archivers := (archivers m)(t := (archivers m t)\<lparr>arch_dev := d\<rparr>)\<rparr>" by auto
  show ?thesis
    by (rule exI [of _ i], rule exI [of _ t], rule exI [of _ d], rule exI [of _ info]) (simp add: i conf t)
qed

text \<open>What the success of the archiver's command means for its table.\<close>

lemma attribute_add_enters:
  assumes inv: "table_inv (shared d)" and cn: "complete_name w d nm" and ctx: "context_set d = to_upper c"
    and success: "attribute_add w [nm, s, t] d = (Inr (), d')"
  shows "nm \<in> set (get_sig_list (shared d'))"
proof -
  define ctxs where "ctxs = (if fst (strategy_contexts (contexts_map_upper d) s) = [] then [defaultStrategy d]
    else fst (strategy_contexts (contexts_map_upper d) s))"
  have "attribute_add w [nm, s, t] d =
      and_then (dev_add w nm ctxs (read_u32 t) d) (\<lambda>name1 d1. and_then (dev_updatettl w name1 (read_u32 t) d1)
        (\<lambda>name2 d2. and_then (follow_context w name2 d2) (\<lambda>u d3.
          if snd (strategy_contexts (contexts_map_upper d) s)
          then throw (bad_strategy s ctxs) d3 else (Inr (), d3))))"
    unfolding ctxs_def attribute_add_def Let_def by (simp cong: if_cong)
  then have added: "\<exists>x d1. dev_add w nm ctxs (read_u32 t) d = (Inr x, d1)"
    using success by (cases "dev_add w nm ctxs (read_u32 t) d") (auto simp: and_then_def split: sum.splits)
  have missing: "get_signal nm (shared d) = Missing"
    using added fix_complete [OF cn]
    by (cases "get_signal nm (shared d)") (auto simp: dev_add_def on_shared_def add_signal_def Let_def)
  then have "find_last_char (CHR ''/'') nm \<noteq> None"
    using added fix_complete [OF cn]
    by (cases "find_last_char (CHR ''/'') nm") (auto simp: dev_add_def on_shared_def add_signal_def Let_def)
  then obtain idx where "find_last_char (CHR ''/'') nm = Some idx" by auto
  with attribute_add_new [of d "[nm, s, t]" idx w c] inv cn ctx missing
  obtain sig d2 where "snd (attribute_add w [nm, s, t] d) = d2"
    "signals (shared d2) = signals (shared d) @ [sig]" "sig_name sig = nm" by auto
  then show ?thesis using success by (simp add: get_sig_list_def)
qed

subsection \<open>The poller of an archiver\<close>










subsection \<open>Finding the archiver of an attribute\<close>

text \<open>The list an archiver publishes, for those who can reach it.\<close>

definition published_list :: "mgr_env \<Rightarrow> hdb_manager \<Rightarrow> string \<times> archiver_entry \<Rightarrow> string list" where
  "published_list g m e =
     (case dp (snd e) of
        None \<Rightarrow> []
      | Some t \<Rightarrow> if unreachable g t = None then l_names (arch_lists (archivers m t)) else [])"

lemma read_list_published:
  assumes "empty_throws g \<or> published_list g m e \<noteq> [] \<or> attr_list (snd e) = []"
  shows "read_list g (archivers m) e = published_list g m e"
  using assms by (auto simp: read_list_def published_list_def refresh_entry_def split: option.splits if_splits)

text \<open>C21: The manager finds the first archiver, in the order of its map, that publishes a name with the same key
  (the completed name without domain), or none, and changes nothing but the lists it remembers, provided
  that an empty list either makes Tango throw or leaves no remembered list in place.\<close>

theorem find_archiver_correct:
  assumes "manager_ok g m" and "complete g (domain_cache m) nm"
    and "empty_throws g \<or> (\<forall>e\<in>set (archiverMap m). published_list g m e \<noteq> [] \<or> attr_list (snd e) = [])"
  shows "\<exists>es. find_archiver g nm m =
      (Inr (case find_index (\<lambda>e. \<exists>n\<in>set (published_list g m e).
              name_key g (domain_cache m) n = name_key g (domain_cache m) nm) (archiverMap m) of
            None \<Rightarrow> [] | Some i \<Rightarrow> fst (archiverMap m ! i)),
       m\<lparr>archiverMap := es\<rparr>) \<and>
    List.map (\<lambda>e. (fst e, dp (snd e))) es = List.map (\<lambda>e. (fst e, dp (snd e))) (archiverMap m)"
proof -
  have "find_index (lists_name g m nm) (archiverMap m) =
      find_index (\<lambda>e. \<exists>n\<in>set (published_list g m e).
        name_key g (domain_cache m) n = name_key g (domain_cache m) nm) (archiverMap m)"
  proof (rule find_index_cong)
    fix e assume "e \<in> set (archiverMap m)"
    then have "read_list g (archivers m) e = published_list g m e" using assms(3) by (intro read_list_published) blast
    then show "lists_name g m nm e = (\<exists>n\<in>set (published_list g m e).
        name_key g (domain_cache m) n = name_key g (domain_cache m) nm)" by (simp add: lists_name_def)
  qed
  then show ?thesis
    using find_archiver_known [OF assms(1,2)] by (simp add: found_name_def same_entries_def)
qed


subsection \<open>Adding an attribute\<close>

lemma chosen_same: "same_entries (archiverMap m) es \<Longrightarrow> chosen g (m\<lparr>archiverMap := es\<rparr>) = chosen g m"
  using find_index_map [of "\<lambda>k. name_key g (domain_cache m) k = name_key g (domain_cache m) (SetArchiver m)" fst es]
    find_index_map [of "\<lambda>k. name_key g (domain_cache m) k = name_key g (domain_cache m) (SetArchiver m)" fst "archiverMap m"]
  by (simp add: chosen_def same_entries_fst)

lemma attribute_add_success:
  assumes ok: "manager_ok g m" and nm: "complete g (domain_cache m) (SetAttributeName m)"
    and arch: "known g (domain_cache m) (SetArchiver m)" and success: "cm_attribute_add g m = (Inr (), m')"
  shows "(\<forall>e\<in>set (archiverMap m). \<not> lists_name g m (SetAttributeName m) e) \<and>
    (\<exists>i t d (info :: event_conf). chosen g m = Some i \<and> i < length (archiverMap m) \<and>
      dp (snd (archiverMap m ! i)) = Some t \<and> unreachable g t = None \<and>
      attribute_add (arch_world g t) [SetAttributeName m, SetStrategy m, show_nat (unat (SetTTL m))]
        (arch_dev (archivers m t)) = (Inr (), d) \<and>
      archivers m' = (archivers m)(t := (archivers m t)\<lparr>arch_dev := d\<rparr>) \<and> archiverMap m' = refreshed g m \<and>
      domain_cache m' = domain_cache m \<and> SetAttributeName m' = SetAttributeName m \<and> mdb m' = mdb m \<and>
      configured m' = configured m @
        [(SetAttributeName m, conf_type info, conf_format info, conf_writable info, SetTTL m)])"
proof -
  have mdb: "mdb m" using success by (cases "mdb m") (simp_all add: cm_attribute_add_def mgr_throw_def)
  have absent: "\<forall>e\<in>set (archiverMap m). \<not> lists_name g m (SetAttributeName m) e"
    using attribute_add_present [OF ok nm mdb] success by fastforce
  let ?es = "refreshed g m"
  have add: "add_to_archiver g (SetAttributeName m) (m\<lparr>archiverMap := ?es\<rparr>) = (Inr (), m')"
    using attribute_add_absent [OF ok nm mdb absent] success by simp
  have "map_ordered g (domain_cache m) ?es"
    using map_ordered_cong [OF same_entries_fst [OF refreshed_same]] ok by (simp add: manager_ok_def)
  then obtain i t d and info :: event_conf where r: "chosen g (m\<lparr>archiverMap := ?es\<rparr>) = Some i"
    "dp (snd (?es ! i)) = Some t" "unreachable g t = None"
    "attribute_add (arch_world g t) [SetAttributeName m, SetStrategy m, show_nat (unat (SetTTL m))]
      (arch_dev (archivers m t)) = (Inr (), d)"
    "archivers m' = (archivers m)(t := (archivers m t)\<lparr>arch_dev := d\<rparr>)" "archiverMap m' = ?es"
    "domain_cache m' = domain_cache m" "SetAttributeName m' = SetAttributeName m" "mdb m' = mdb m"
    "configured m' = configured m @
      [(SetAttributeName m, conf_type info, conf_format info, conf_writable info, SetTTL m)]"
    using add_to_archiver_success [OF _ _ add] arch by auto
  have i: "chosen g m = Some i" using r(1) chosen_same [OF refreshed_same] by simp
  then have len: "i < length (archiverMap m)" by (auto simp: chosen_def dest: find_index_bound)
  show ?thesis
    using absent i len r same_entries_nth(3) [OF refreshed_same len]
    by (intro conjI exI [of _ i] exI [of _ t] exI [of _ d] exI [of _ info]) simp_all
qed

text \<open>A device whose commands on the attribute work on complete names.\<close>

definition device_ready :: "world \<Rightarrow> string \<Rightarrow> hdb_device \<Rightarrow> bool" where
  "device_ready w nm d \<longleftrightarrow> table_inv (shared d) \<and> complete_name w d nm \<and> (\<exists>c. context_set d = to_upper c)"

text \<open>C22: When the pollers of all reachable archivers have published their tables, a successful \<open>AttributeAdd\<close> leaves the
  attribute in the table of exactly one of them, the one chosen by \<open>SetArchiver\<close>; the archive has been
  configured for it once, and no other archiver has changed.\<close>

theorem attribute_added_once:
  assumes "manager_ok g m" and "complete g (domain_cache m) (SetAttributeName m)" and "known g (domain_cache m) (SetArchiver m)"
    and polled: "\<And>e t. e \<in> set (archiverMap m) \<Longrightarrow> dp (snd e) = Some t \<Longrightarrow> unreachable g t = None \<Longrightarrow>
      l_names (arch_lists (archivers m t)) = get_sig_list (shared (arch_dev (archivers m t)))"
    and ready: "\<And>e t. e \<in> set (archiverMap m) \<Longrightarrow> dp (snd e) = Some t \<Longrightarrow> unreachable g t = None \<Longrightarrow>
      device_ready (arch_world g t) (SetAttributeName m) (arch_dev (archivers m t))"
    and success: "cm_attribute_add g m = (Inr (), m')"
  shows "\<exists>i t. chosen g m = Some i \<and> dp (snd (archiverMap m ! i)) = Some t \<and> unreachable g t = None \<and>
    (\<forall>e\<in>set (archiverMap m). \<forall>t'. dp (snd e) = Some t' \<longrightarrow> unreachable g t' = None \<longrightarrow>
       (SetAttributeName m \<in> set (get_sig_list (shared (arch_dev (archivers m' t')))) \<longleftrightarrow> t' = t)) \<and>
    (\<forall>t'. t' \<noteq> t \<longrightarrow> archivers m' t' = archivers m t') \<and>
    List.map fst (configured m') = List.map fst (configured m) @ [SetAttributeName m]"
proof -
  let ?nm = "SetAttributeName m"
  obtain i t d and info :: event_conf where r: "\<forall>e\<in>set (archiverMap m). \<not> lists_name g m ?nm e" "chosen g m = Some i"
    "i < length (archiverMap m)" "dp (snd (archiverMap m ! i)) = Some t" "unreachable g t = None"
    "attribute_add (arch_world g t) [?nm, SetStrategy m, show_nat (unat (SetTTL m))] (arch_dev (archivers m t)) = (Inr (), d)"
    "archivers m' = (archivers m)(t := (archivers m t)\<lparr>arch_dev := d\<rparr>)"
    "configured m' = configured m @ [(?nm, conf_type info, conf_format info, conf_writable info, SetTTL m)]"
    using attribute_add_success [OF assms(1-3) success] by (elim exE conjE)
  have mem: "archiverMap m ! i \<in> set (archiverMap m)" using r(3) by simp
  then have in_t: "?nm \<in> set (get_sig_list (shared d))"
    using ready [OF mem r(4,5)] attribute_add_enters [OF _ _ _ r(6)] by (auto simp: device_ready_def)
  have before: "?nm \<notin> set (get_sig_list (shared (arch_dev (archivers m t'))))"
    if e: "e \<in> set (archiverMap m)" "dp (snd e) = Some t'" "unreachable g t' = None" for e t'
  proof
    assume in': "?nm \<in> set (get_sig_list (shared (arch_dev (archivers m t'))))"
    then have "?nm \<in> set (read_list g (archivers m) e)"
      using e polled [OF e] by (auto simp: read_list_def refresh_entry_def)
    then have "lists_name g m ?nm e" by (auto simp: lists_name_def)
    with r(1) e(1) show False by blast
  qed
  have "?nm \<in> set (get_sig_list (shared (arch_dev (archivers m' t')))) \<longleftrightarrow> t' = t"
    if "e \<in> set (archiverMap m)" "dp (snd e) = Some t'" "unreachable g t' = None" for e t'
    using before [OF that] in_t by (simp add: r(7))
  then show ?thesis using r by (intro exI [of _ i] exI [of _ t]) auto
qed

text \<open>Between two rounds of the poller nothing keeps the attribute from being archived twice.\<close>

lemma refresh_again:
  assumes "\<And>t. arch_lists (arch' t) = arch_lists (arch t)"
  shows "refresh_entry g arch' (refresh_entry g arch e) = refresh_entry g arch e"
  using assms by (simp add: refresh_entry_def split: option.split)

lemma after_add_unseen:
  assumes ok: "manager_ok g m" and nm: "complete g (domain_cache m) (SetAttributeName m)"
    and arch: "known g (domain_cache m) (SetArchiver m)" and success: "cm_attribute_add g m = (Inr (), m')"
    and m2_def: "m2 = m'\<lparr>SetArchiver := k2\<rparr>"
  shows "manager_ok g m2" and "\<forall>e\<in>set (archiverMap m2). \<not> lists_name g m2 (SetAttributeName m) e"
    and "domain_cache m2 = domain_cache m" and "SetAttributeName m2 = SetAttributeName m" and "mdb m2"
    and "archiverMap m2 = refreshed g m"
proof -
  obtain i t d where r: "\<forall>e\<in>set (archiverMap m). \<not> lists_name g m (SetAttributeName m) e"
    "archivers m' = (archivers m)(t := (archivers m t)\<lparr>arch_dev := d\<rparr>)" "archiverMap m' = refreshed g m"
    "domain_cache m' = domain_cache m" "SetAttributeName m' = SetAttributeName m" "mdb m' = mdb m"
    using attribute_add_success [OF ok nm arch success] by blast
  show dc: "domain_cache m2 = domain_cache m" "SetAttributeName m2 = SetAttributeName m"
    "archiverMap m2 = refreshed g m"
    using r by (simp_all add: m2_def)
  show "mdb m2" using success r(6) by (cases "mdb m") (simp_all add: m2_def cm_attribute_add_def mgr_throw_def)
  have "read_list g (archivers m2) (fst e, refresh_entry g (archivers m) (snd e)) = read_list g (archivers m) e" for e
    using refresh_again [of "archivers m2" "archivers m"] r(2) by (simp add: read_list_def m2_def)
  then have lists: "\<forall>e\<in>set (refreshed g m). \<exists>e0\<in>set (archiverMap m). fst e = fst e0 \<and>
      read_list g (archivers m2) e = read_list g (archivers m) e0"
    by (auto simp: refreshed_def)
  show "\<forall>e\<in>set (archiverMap m2). \<not> lists_name g m2 (SetAttributeName m) e"
    using lists r(1) unfolding dc by (fastforce simp: lists_name_def dc)
  have "map_ordered g (domain_cache m) (refreshed g m)"
    using map_ordered_cong [OF same_entries_fst [OF refreshed_same]] ok by (simp add: manager_ok_def)
  then show "manager_ok g m2" using lists ok by (fastforce simp: manager_ok_def dc)
qed

text \<open>C23: After a successful \<open>AttributeAdd\<close>, and before the poller of the archiver has published its table again, a
  second one that names another archiver passes the test that the attribute is not archived yet; if the
  other archiver takes it too, both archive it.\<close>

theorem stale_lists_archive_twice:
  assumes "manager_ok g m" and "complete g (domain_cache m) (SetAttributeName m)" and "known g (domain_cache m) (SetArchiver m)"
    and "known g (domain_cache m) k2"
    and ready: "\<And>e t. e \<in> set (archiverMap m) \<Longrightarrow> dp (snd e) = Some t \<Longrightarrow> unreachable g t = None \<Longrightarrow>
      device_ready (arch_world g t) (SetAttributeName m) (arch_dev (archivers m t))"
    and chosen: "chosen g m = Some i1" "dp (snd (archiverMap m ! i1)) = Some t1"
      "chosen g (m\<lparr>SetArchiver := k2\<rparr>) = Some i2" "dp (snd (archiverMap m ! i2)) = Some t2" "t1 \<noteq> t2"
    and success: "cm_attribute_add g m = (Inr (), m')"
  shows "(\<exists>es. cm_attribute_add g (m'\<lparr>SetArchiver := k2\<rparr>) =
      add_to_archiver g (SetAttributeName m) (m'\<lparr>SetArchiver := k2, archiverMap := es\<rparr>)) \<and>
    (\<forall>m''. cm_attribute_add g (m'\<lparr>SetArchiver := k2\<rparr>) = (Inr (), m'') \<longrightarrow>
       SetAttributeName m \<in> set (get_sig_list (shared (arch_dev (archivers m'' t1)))) \<inter>
         set (get_sig_list (shared (arch_dev (archivers m'' t2)))))"
proof -
  let ?nm = "SetAttributeName m" and ?m2 = "m'\<lparr>SetArchiver := k2\<rparr>"
  note un = after_add_unseen [OF assms(1-3) success, of ?m2 k2, OF refl]
  have nm2: "complete g (domain_cache ?m2) (SetAttributeName ?m2)" using assms(2) un(3,4) by simp
  have "cm_attribute_add g ?m2 = add_to_archiver g ?nm (?m2\<lparr>archiverMap := refreshed g ?m2\<rparr>)"
    using attribute_add_absent [OF un(1) nm2 un(5)] un(2,4) by simp
  moreover have "?nm \<in> set (get_sig_list (shared (arch_dev (archivers m'' t1)))) \<inter>
      set (get_sig_list (shared (arch_dev (archivers m'' t2))))"
    if success2: "cm_attribute_add g ?m2 = (Inr (), m'')" for m''
  proof -
    obtain d1 where d1: "i1 < length (archiverMap m)" "unreachable g t1 = None"
      "attribute_add (arch_world g t1) [?nm, SetStrategy m, show_nat (unat (SetTTL m))] (arch_dev (archivers m t1)) = (Inr (), d1)"
      "archivers m' = (archivers m)(t1 := (archivers m t1)\<lparr>arch_dev := d1\<rparr>)"
      using attribute_add_success [OF assms(1-3) success] chosen(1,2) by auto
    have "known g (domain_cache ?m2) (SetArchiver ?m2)" using assms(4) un(3) by simp
    moreover have "chosen g ?m2 = Some i2"
      using chosen(3) chosen_same [OF refreshed_same [of "m\<lparr>SetArchiver := k2\<rparr>" g]] un(3,6)
      by (simp add: chosen_def refreshed_def)
    moreover have i2: "i2 < length (archiverMap m)" using chosen(3) by (auto simp: chosen_def dest: find_index_bound)
    ultimately obtain s2 ttl2 d2 where d2: "unreachable g t2 = None"
      "attribute_add (arch_world g t2) [?nm, s2, ttl2] (arch_dev (archivers m' t2)) = (Inr (), d2)"
      "archivers m'' = (archivers m')(t2 := (archivers m' t2)\<lparr>arch_dev := d2\<rparr>)"
      using attribute_add_success [OF un(1) nm2 _ success2] same_entries_nth(3) [OF refreshed_same i2] chosen(4) un(4,6)
      by auto
    have r1: "device_ready (arch_world g t1) ?nm (arch_dev (archivers m t1))"
      using ready [of "archiverMap m ! i1"] d1(1,2) chosen(2) by simp
    have r2: "device_ready (arch_world g t2) ?nm (arch_dev (archivers m t2))"
      using ready [of "archiverMap m ! i2"] i2 d2(1) chosen(4) by simp
    have "?nm \<in> set (get_sig_list (shared d1))" "?nm \<in> set (get_sig_list (shared d2))"
      using attribute_add_enters [OF _ _ _ d1(3)] attribute_add_enters [OF _ _ _ d2(2)] r1 r2 d1(4) chosen(5)
      by (auto simp: device_ready_def)
    then show ?thesis using d1(4) d2(3) chosen(5) by simp
  qed
  ultimately show ?thesis by auto
qed

subsection \<open>Moving an attribute\<close>

lemma erase_distinct: "distinct xs \<Longrightarrow> p < length xs \<Longrightarrow> xs ! p \<notin> set (erase_at p xs)"
proof (induction xs arbitrary: p)
  case (Cons x xs)
  then show ?case by (cases p) auto
qed simp

lemma erased_name:
  assumes "table_inv s" and "nm \<in> set (get_sig_list s)"
  shows "\<exists>p. get_signal nm s = Found p \<and> nm \<notin> set (List.map sig_name (erase_at p (signals s)))"
proof -
  have dist: "distinct (List.map sig_name (signals s))" using assms(1) by (simp add: table_inv_def)
  obtain p where p: "p < length (signals s)" "nm = sig_name (signals s ! p)"
    using assms(2) by (auto simp: get_sig_list_def in_set_conv_nth)
  have "get_signal nm s = Found p" using get_signal_exact [OF dist p(1)] p(2) by simp
  moreover have "nm \<notin> set (List.map sig_name (erase_at p (signals s)))"
    using erase_distinct [OF dist, of p] p by (simp add: map_erase_at)
  ultimately show ?thesis by blast
qed

lemma attribute_remove_erases:
  assumes "table_inv (shared d)" and "complete_name w d nm" and "find_stat nm (push d) \<noteq> LookupThrows"
    and "nm \<in> set (get_sig_list (shared d))"
  shows "\<exists>d'. attribute_remove w nm d = (Inr (), d') \<and> nm \<notin> set (get_sig_list (shared d'))"
proof -
  obtain p where "get_signal nm (shared d) = Found p" "nm \<notin> set (List.map sig_name (erase_at p (signals (shared d))))"
    using erased_name [OF assms(1,4)] by blast
  then show ?thesis using attribute_remove_eq [OF assms(1-3)] by (auto simp: get_sig_list_def)
qed

text \<open>C24: \<open>AttributeAssign\<close> removes the attribute from its archiver before it asks the new one: when the new archiver is
  not connected or cannot be reached, the command fails and the attribute is archived no more, neither by
  the old archiver nor by the new one; no other archiver has changed.\<close>

theorem assign_loses_attribute:
  assumes ok: "manager_ok g m" and nm: "complete g (domain_cache m) nm" and k: "complete g (domain_cache m) k"
    and new: "find_index (\<lambda>e. name_key g (domain_cache m) (fst e) = name_key g (domain_cache m) k) (archiverMap m) = Some new"
    and down: "case dp (snd (archiverMap m ! new)) of None \<Rightarrow> True | Some t \<Rightarrow> unreachable g t \<noteq> None"
    and old: "find_index (lists_name g m nm) (archiverMap m) = Some old" "dp (snd (archiverMap m ! old)) = Some t"
      "unreachable g t = None"
    and dev: "table_inv (shared (arch_dev (archivers m t)))" "complete_name (arch_world g t) (arch_dev (archivers m t)) nm"
      "find_stat nm (push (arch_dev (archivers m t))) \<noteq> LookupThrows"
      "nm \<in> set (get_sig_list (shared (arch_dev (archivers m t))))"
  shows "\<exists>reason desc m'. cm_attribute_assign g [nm, k, strategy] m = (Inl (DevFailed reason desc), m') \<and>
    nm \<notin> set (get_sig_list (shared (arch_dev (archivers m' t)))) \<and>
    (\<forall>t'. t' \<noteq> t \<longrightarrow> archivers m' t' = archivers m t')"
proof -
  have lookup: "lookup_archiver g k m = (Inr (Some new), m)"
    using lookup_known [of g m k] ok k new by (simp add: manager_ok_def complete_def)
  obtain es where es: "scan_map g nm m = (Inr (Some old), m\<lparr>archiverMap := es\<rparr>)" "same_entries (archiverMap m) es"
    using scan_map_known [OF ok nm] old(1) by auto
  let ?m = "m\<lparr>archiverMap := es\<rparr>"
  have len: "old < length (archiverMap m)" "new < length (archiverMap m)"
    using find_index_bound [OF old(1)] find_index_bound [OF new] by simp_all
  obtain d where d: "attribute_remove (arch_world g t) nm (arch_dev (archivers m t)) = (Inr (), d)"
    "nm \<notin> set (get_sig_list (shared d))" using attribute_remove_erases [OF dev] by blast
  let ?m' = "?m\<lparr>archivers := (archivers m)(t := (archivers m t)\<lparr>arch_dev := d\<rparr>)\<rparr>"
  have remove: "call_entry g old (\<lambda>w. attribute_remove w nm) ?m = (Inr (), ?m')"
    using call_entry_ok [where m = ?m and i = old and t = t and g = g and f = "\<lambda>w. attribute_remove w nm" and x = "()" and d = d] d(1) old(2,3)
      same_entries_nth(3) [OF es(2) len(1)] by simp
  obtain reason desc where add:
    "call_entry g new (\<lambda>w. attribute_add w (assign_argument nm [] [nm, k, strategy])) ?m' = (Inl (DevFailed reason desc), ?m')"
    using call_entry_down [where m = ?m' and i = new and g = g and f = "\<lambda>w. attribute_add w (assign_argument nm [] [nm, k, strategy])"] down
      same_entries_nth(3) [OF es(2) len(2)] by auto
  have "cm_attribute_assign g [nm, k, strategy] m = (Inl (DevFailed reason desc), ?m')"
    using lookup es(1) remove add fix_complete_name [OF nm] fix_complete_name [OF k]
    by (simp add: cm_attribute_assign_def)
  then show ?thesis using d(2) by auto
qed

subsection \<open>Adding and removing archivers\<close>



subsection \<open>A small archiving system, for the witnesses\<close>

text \<open>Two archivers, of which the first has the signals of \<open>table3\<close>, and a third that cannot be reached.\<close>

definition base_archiver :: archiver where
  "base_archiver =
     \<lparr>arch_dev = initialize (\<lambda>_. Some ''RUN'') ''RUN'' ''RUN'',
      arch_lists = \<lparr>l_names = [], l_start = [], l_pause = [], l_stop = [], l_context = [], l_ttl = (\<lambda>_. 0)\<rparr>,
      arch_ok_list = [], arch_nok_list = [], arch_pending_list = [], arch_error_list = [],
      arch_event_numbers = (\<lambda>_. 0), arch_ok_number = 0, arch_nok_number = 0, record_freq = -1, failure_freq = -1,
      record_freq_list = (\<lambda>_. 0), failure_freq_list = (\<lambda>_. 0), last_statistics_reset_time = 0,
      arch_contexts_list = [''RUN'']\<rparr>"

definition full_archiver :: archiver where
  "full_archiver = base_archiver\<lparr>arch_dev := demo_device,
     arch_lists := (arch_lists base_archiver)\<lparr>l_names := [nm_a, nm_b]\<rparr>\<rparr>"

definition info1 :: event_conf where
  "info1 = \<lparr>conf_type = 5, conf_format = 0, conf_writable = 0, archive_rel_change = [], archive_abs_change = [],
     archive_period = []\<rparr>"

definition demo_env :: mgr_env where
  "demo_env =
     \<lparr>g_host = None, g_addr = (\<lambda>_. None), archiver_proxy = Some,
      unreachable = (\<lambda>t. if t = ''Z'' then Some (''API_DeviceTimedOut'', ''Timeout'') else None),
      ping_time = (\<lambda>_. 1), arch_world = (\<lambda>_. demo_world), tango_error = (''API_CorbaException'', ''Unknown''),
      empty_throws = False, att_proxy = (\<lambda>_. None), att_config = (\<lambda>_ _. Inr info1),
      att_config_ex = (\<lambda>_ _. Inr info1), att_poll_period = (\<lambda>_ _. Inr 0), set_config_ok = (\<lambda>_ _ _. True),
      poll_ok = (\<lambda>_ _ _. True), configure_Attr = (\<lambda>_. None), hdb_library = None, new_database = None,
      put_property_ok = True, show_double = (\<lambda>_. []), read_double = (\<lambda>_. None), read_long = (\<lambda>_. None),
      clock_now = 0, arch_show_time = (\<lambda>_. []), arch_show_seconds = (\<lambda>_. [])\<rparr>"

definition demo_manager :: hdb_manager where
  "demo_manager =
     \<lparr>archiverMap = [(''x'', \<lparr>attr_list = [], dp = Some ''X''\<rparr>), (''y'', \<lparr>attr_list = [], dp = Some ''Y''\<rparr>),
        (''z'', \<lparr>attr_list = [], dp = Some ''Z''\<rparr>)],
      archiver_list_fix = [''x'', ''y'', ''z''], domain_cache = (\<lambda>_. None), SetAttributeName = ''d/c'',
      SetPollingPeriod = 0, original_SetPollingPeriod = Some 0, SetAbsoluteEvent = 0, SetRelativeEvent = 0,
      SetPeriodEvent = -1, SetCodePushedEvent = True, SetArchiver = ''x'', SetTTL = 0, SetStrategy = [],
      mdb = True, mandatoryNotDefined = False, mgr_state = MGR_ON, mgr_status = [], last_stat = 0,
      saved_archivers = None, archivers = (\<lambda>t. if t = ''X'' then full_archiver else base_archiver),
      configured = [], event_confs = [], polled_attrs = []\<rparr>"

text \<open>Names without scheme, host and dot.\<close>

lemma plain_name:
  assumes "to_lower nm = nm" and "CHR '':'' \<notin> set nm" and "CHR ''.'' \<notin> set nm"
  shows "known demo_env dm nm" and "completed demo_env dm nm = nm" and "name_key demo_env dm nm = nm"
proof -
  have "find_sub scheme nm = None"
    using find_sub_set [of scheme nm] assms(2) by (cases "find_sub scheme nm") (auto simp: scheme_def)
  then have fixed: "fix_tango_host (g_host demo_env) (g_addr demo_env) nm dm = Some (nm, dm)"
    using assms(1) by (simp add: fix_tango_host_def demo_env_def str_find_def Let_def)
  then show c: "completed demo_env dm nm = nm" by (simp add: completed_def)
  show "known demo_env dm nm" using fixed c remove_domain_plain [OF assms(3)] by (simp add: known_def)
  show "name_key demo_env dm nm = nm" using c remove_domain_plain [OF assms(3)] by (simp add: name_key_def)
qed

lemma lower_names:
  "to_lower [] = []" "to_lower ''x'' = ''x''" "to_lower ''y'' = ''y''" "to_lower ''z'' = ''z''"
  by (simp_all add: to_lower_def to_lower_char_def Let_def)

lemmas demo_known = plain_name [of "[]"] plain_name [of "''x''"] plain_name [of "''y''"] plain_name [of "''z''"]
  plain_name [of nm_a] plain_name [of nm_b] plain_name [of "''d/c''"]

lemma known_names [simp]:
  "known demo_env dm []" "known demo_env dm ''x''" "known demo_env dm ''y''" "known demo_env dm ''z''"
  "known demo_env dm nm_a" "known demo_env dm nm_b" "known demo_env dm ''d/c''"
  using demo_known lower_names demo_lower by (simp_all add: nm_a_def nm_b_def)

lemma key_names [simp]:
  "name_key demo_env dm [] = []" "name_key demo_env dm ''x'' = ''x''" "name_key demo_env dm ''y'' = ''y''"
  "name_key demo_env dm ''z'' = ''z''" "name_key demo_env dm nm_a = nm_a" "name_key demo_env dm nm_b = nm_b"
  "name_key demo_env dm ''d/c'' = ''d/c''"
  using demo_known lower_names demo_lower by (simp_all add: nm_a_def nm_b_def)

lemma complete_names [simp]: "complete demo_env dm nm_a" "complete demo_env dm ''d/c''" "complete demo_env dm ''z''"
  using demo_known lower_names demo_lower by (simp_all add: complete_def) (simp_all add: nm_a_def)

lemma letters [simp]: "''x'' < ''y''" "''x'' < ''z''" "''y'' < ''z''"
  by (simp_all add: less_char_def)

lemma demo_lists:
  "read_list demo_env (archivers demo_manager) (k, \<lparr>attr_list = [], dp = Some ''X''\<rparr>) = [nm_a, nm_b]"
  "read_list demo_env (archivers demo_manager) (k, \<lparr>attr_list = [], dp = Some ''Y''\<rparr>) = []"
  "read_list demo_env (archivers demo_manager) (k, \<lparr>attr_list = [], dp = Some ''Z''\<rparr>) = []"
  by (simp_all add: read_list_def refresh_entry_def demo_env_def demo_manager_def full_archiver_def base_archiver_def)

lemma demo_fields [simp]:
  "archiverMap demo_manager = [(''x'', \<lparr>attr_list = [], dp = Some ''X''\<rparr>), (''y'', \<lparr>attr_list = [], dp = Some ''Y''\<rparr>),
     (''z'', \<lparr>attr_list = [], dp = Some ''Z''\<rparr>)]"
  "SetAttributeName demo_manager = ''d/c''" "SetArchiver demo_manager = ''x''" "mdb demo_manager"
  "archivers demo_manager ''X'' = full_archiver" "archivers demo_manager ''Y'' = base_archiver"
  "archiver_list_fix demo_manager = [''x'', ''y'', ''z'']" "unreachable demo_env ''X'' = None"
  "unreachable demo_env ''Y'' = None" "unreachable demo_env ''Z'' \<noteq> None" "arch_world demo_env t = demo_world"
  "arch_dev full_archiver = demo_device" "\<not> empty_throws demo_env"
  by (simp_all add: demo_manager_def demo_env_def full_archiver_def)

lemma demo_ok: "manager_ok demo_env demo_manager"
  by (simp add: manager_ok_def map_ordered_def demo_lists)

theorem find_archiver_correct_witness:
  "\<exists>m'. find_archiver demo_env nm_a demo_manager = (Inr ''x'', m')"
proof -
  have "empty_throws demo_env \<or> (\<forall>e\<in>set (archiverMap demo_manager).
      published_list demo_env demo_manager e \<noteq> [] \<or> attr_list (snd e) = [])" by simp
  moreover have "published_list demo_env demo_manager (''x'', \<lparr>attr_list = [], dp = Some ''X''\<rparr>) = [nm_a, nm_b]"
    by (simp add: published_list_def full_archiver_def base_archiver_def)
  ultimately show ?thesis using find_archiver_correct [OF demo_ok complete_names(1)] by auto
qed


text \<open>The second archiver has an empty table, and takes any attribute as the first takes one that it lacks.\<close>

lemma base_device [simp]:
  "shared (arch_dev base_archiver) = SharedData_new" "push (arch_dev base_archiver) = PushThreadShared_new"
  "contexts_map_upper (arch_dev base_archiver) = (\<lambda>_. Some ''RUN'')"
  "context_set (arch_dev base_archiver) = to_upper ''RUN''"
  by (simp_all add: base_archiver_def initialize_def)

lemma demo_device_ready: "device_ready demo_world ''d/c'' demo_device" "device_ready demo_world ''d/c'' (arch_dev base_archiver)"
  using table3_inv table_inv_new demo_names(3) by (auto simp: device_ready_def)

lemma demo_add:
  assumes "d = demo_device \<or> d = arch_dev base_archiver"
  shows "\<exists>d'. attribute_add demo_world [''d/c'', [], t] d = (Inr (), d')"
proof -
  have "string_explode [] (CHR ''|'') = []" by (simp add: string_explode.simps)
  then have "strategy_contexts (\<lambda>_. Some ''RUN'') [] = ([], False)"
    by (simp add: strategy_contexts_def adjusted_contexts_def Let_def)
  moreover have "get_signal ''d/c'' (shared d) = Missing"
    using assms
  proof
    assume "d = arch_dev base_archiver"
    then show ?thesis by (simp add: get_signal_def SharedData_new_def names_lookup lookup_name_def)
  qed (simp add: table3_missing)
  moreover have "table_inv (shared d)" using assms table3_inv table_inv_new by auto
  moreover have "contexts_map_upper d = (\<lambda>_. Some ''RUN'')" "context_set d = to_upper ''RUN''" using assms by auto
  moreover have "complete_name demo_world d ''d/c''" using demo_device_ready assms by (auto simp: device_ready_def)
  ultimately show ?thesis
    using attribute_add_new [of d "[''d/c'', [], t]" 1 demo_world "''RUN''"] names_slash(3)
    by (simp del: demo_shared base_device) blast
qed

lemma add_to_demo:
  assumes "chosen demo_env m = Some i" and "map_ordered demo_env (domain_cache m) (archiverMap m)"
    and "known demo_env (domain_cache m) (SetArchiver m)" and "dp (snd (archiverMap m ! i)) = Some t"
    and "unreachable demo_env t = None" and "SetCodePushedEvent m" and "SetStrategy m = []"
    and "arch_dev (archivers m t) = demo_device \<or> arch_dev (archivers m t) = arch_dev base_archiver"
  shows "\<exists>d' m'. add_to_archiver demo_env ''d/c'' m = (Inr (), m') \<and>
    archivers m' = (archivers m)(t := (archivers m t)\<lparr>arch_dev := d'\<rparr>) \<and> SetCodePushedEvent m' \<and> SetStrategy m' = []"
proof -
  have lookup: "lookup_archiver demo_env (SetArchiver m) m = (Inr (Some i), m)"
    using lookup_known [OF assms(2,3)] assms(1) by (simp add: chosen_def)
  have env: "att_proxy demo_env dev = None" "att_config demo_env dev att = Inr info1" "configure_Attr demo_env nm = None" for dev att nm
    by (simp_all add: demo_env_def)
  let ?m = "set_events demo_env ''d'' ''c'' m"
  have kept: "SetCodePushedEvent ?m = SetCodePushedEvent m" by (simp add: set_events_def Let_def split: sum.split)
  obtain d' where d': "attribute_add demo_world [''d/c'', [], show_nat (unat (SetTTL m))] (arch_dev (archivers m t)) = (Inr (), d')"
    using demo_add [OF assms(8)] by blast
  let ?c = "?m\<lparr>configured := configured m @ [(''d/c'', conf_type info1, conf_format info1, conf_writable info1, SetTTL m)]\<rparr>"
  have "call_entry demo_env i (\<lambda>w. attribute_add w [''d/c'', [], show_nat (unat (SetTTL m))]) ?c =
      (Inr (), ?c\<lparr>archivers := (archivers m)(t := (archivers m t)\<lparr>arch_dev := d'\<rparr>)\<rparr>)"
    using call_entry_ok [where m = ?c and i = i and t = t and g = demo_env and x = "()" and d = d' and
        f = "\<lambda>w. attribute_add w [''d/c'', [], show_nat (unat (SetTTL m))]"] assms(4,5) d' by simp
  then have "add_to_archiver demo_env ''d/c'' m =
      (Inr (), ?c\<lparr>archivers := (archivers m)(t := (archivers m t)\<lparr>arch_dev := d'\<rparr>)\<rparr>)"
    using lookup env names_slash(3) assms(6,7)
    by (simp add: add_to_archiver_def assign_new_def events_configured_def Let_def)
  then show ?thesis using kept assms(6,7) by auto
qed

lemma demo_chosen [simp]:
  "chosen demo_env demo_manager = Some 0" "chosen demo_env (demo_manager\<lparr>SetArchiver := ''y''\<rparr>) = Some 1"
  by (simp_all add: chosen_def)

lemma demo_absent: "\<forall>e\<in>set (archiverMap demo_manager). \<not> lists_name demo_env demo_manager ''d/c'' e"
  by (simp add: lists_name_def demo_lists) (simp add: nm_a_def nm_b_def)

lemma demo_success:
  "\<exists>d' m'. cm_attribute_add demo_env demo_manager = (Inr (), m') \<and>
    archivers m' = (archivers demo_manager)(''X'' := full_archiver\<lparr>arch_dev := d'\<rparr>) \<and> SetCodePushedEvent m' \<and>
    SetStrategy m' = []"
proof -
  let ?m = "demo_manager\<lparr>archiverMap := refreshed demo_env demo_manager\<rparr>"
  have "cm_attribute_add demo_env demo_manager = add_to_archiver demo_env ''d/c'' ?m"
    using attribute_add_absent [of demo_env demo_manager] demo_ok demo_absent by simp
  moreover have "map_ordered demo_env (domain_cache ?m) (archiverMap ?m)"
    using map_ordered_cong [OF same_entries_fst [OF refreshed_same]] demo_ok by (simp add: manager_ok_def)
  moreover have "chosen demo_env ?m = Some 0" using chosen_same [OF refreshed_same] by simp
  moreover have "dp (snd (archiverMap ?m ! 0)) = Some ''X''" by (simp add: refreshed_def)
  moreover have "SetCodePushedEvent ?m" "SetStrategy ?m = []" by (simp_all add: demo_manager_def)
  ultimately show ?thesis using add_to_demo [of ?m 0 "''X''"] by auto
qed

lemma demo_ready:
  "e \<in> set (archiverMap demo_manager) \<Longrightarrow> dp (snd e) = Some t \<Longrightarrow> unreachable demo_env t = None \<Longrightarrow>
   device_ready (arch_world demo_env t) (SetAttributeName demo_manager) (arch_dev (archivers demo_manager t))"
  using demo_device_ready by auto

lemma demo_set:
  "complete demo_env (domain_cache demo_manager) (SetAttributeName demo_manager)"
  "known demo_env (domain_cache demo_manager) (SetArchiver demo_manager)"
  by simp_all

theorem attribute_added_once_witness:
  "\<exists>m'. cm_attribute_add demo_env demo_manager = (Inr (), m') \<and>
    ''d/c'' \<in> set (get_sig_list (shared (arch_dev (archivers m' ''X'')))) \<and>
    ''d/c'' \<notin> set (get_sig_list (shared (arch_dev (archivers m' ''Y''))))"
proof -
  obtain m' where m': "cm_attribute_add demo_env demo_manager = (Inr (), m')" using demo_success by blast
  have polled: "l_names (arch_lists (archivers demo_manager t)) = get_sig_list (shared (arch_dev (archivers demo_manager t)))"
    if "e \<in> set (archiverMap demo_manager)" "dp (snd e) = Some t" "unreachable demo_env t = None" for e t
    using that by (auto simp: full_archiver_def base_archiver_def initialize_def SharedData_new_def get_sig_list_def
        table3_signals sig_a_started_def)
  have "\<exists>i t. chosen demo_env demo_manager = Some i \<and> dp (snd (archiverMap demo_manager ! i)) = Some t \<and>
    unreachable demo_env t = None \<and>
    (\<forall>e\<in>set (archiverMap demo_manager). \<forall>t'. dp (snd e) = Some t' \<longrightarrow> unreachable demo_env t' = None \<longrightarrow>
       (SetAttributeName demo_manager \<in> set (get_sig_list (shared (arch_dev (archivers m' t')))) \<longleftrightarrow> t' = t)) \<and>
    (\<forall>t'. t' \<noteq> t \<longrightarrow> archivers m' t' = archivers demo_manager t') \<and>
    List.map fst (configured m') = List.map fst (configured demo_manager) @ [SetAttributeName demo_manager]"
    by (rule attribute_added_once [OF demo_ok demo_set polled demo_ready m'])
  then obtain i t where r: "chosen demo_env demo_manager = Some i" "dp (snd (archiverMap demo_manager ! i)) = Some t"
    "\<forall>e\<in>set (archiverMap demo_manager). \<forall>t'. dp (snd e) = Some t' \<longrightarrow> unreachable demo_env t' = None \<longrightarrow>
       (SetAttributeName demo_manager \<in> set (get_sig_list (shared (arch_dev (archivers m' t')))) \<longleftrightarrow> t' = t)"
    by (elim exE conjE)
  have t: "t = ''X''" using r(1,2) by simp
  have "''d/c'' \<in> set (get_sig_list (shared (arch_dev (archivers m' ''X''))))"
    using r(3) [rule_format, of "(''x'', \<lparr>attr_list = [], dp = Some ''X''\<rparr>)" "''X''"] t by simp
  moreover have "''d/c'' \<notin> set (get_sig_list (shared (arch_dev (archivers m' ''Y''))))"
    using r(3) [rule_format, of "(''y'', \<lparr>attr_list = [], dp = Some ''Y''\<rparr>)" "''Y''"] t by simp
  ultimately show ?thesis using m' by blast
qed

theorem stale_lists_archive_twice_witness:
  "\<exists>m' m''. cm_attribute_add demo_env demo_manager = (Inr (), m') \<and>
    cm_attribute_add demo_env (m'\<lparr>SetArchiver := ''y''\<rparr>) = (Inr (), m'') \<and>
    ''d/c'' \<in> set (get_sig_list (shared (arch_dev (archivers m'' ''X'')))) \<and>
    ''d/c'' \<in> set (get_sig_list (shared (arch_dev (archivers m'' ''Y''))))"
proof -
  obtain d' m' where m': "cm_attribute_add demo_env demo_manager = (Inr (), m')"
    "archivers m' = (archivers demo_manager)(''X'' := full_archiver\<lparr>arch_dev := d'\<rparr>)"
    "SetCodePushedEvent m'" "SetStrategy m' = []" using demo_success by blast
  let ?m = "m'\<lparr>SetArchiver := ''y''\<rparr>"
  note un = after_add_unseen [OF demo_ok _ _ m'(1), of ?m "''y''", simplified]
  let ?m2 = "?m\<lparr>archiverMap := refreshed demo_env ?m\<rparr>"
  have "chosen demo_env ?m = chosen demo_env (demo_manager\<lparr>SetArchiver := ''y''\<rparr>)"
    using chosen_same [OF refreshed_same [of "demo_manager\<lparr>SetArchiver := ''y''\<rparr>" demo_env]] un
    by (simp add: chosen_def refreshed_def)
  then have "chosen demo_env ?m2 = Some 1" using chosen_same [OF refreshed_same [of ?m demo_env]] by simp
  moreover have "map_ordered demo_env (domain_cache ?m2) (archiverMap ?m2)"
    using map_ordered_cong [OF same_entries_fst [OF refreshed_same]] un by (simp add: manager_ok_def)
  moreover have "dp (snd (archiverMap ?m2 ! 1)) = Some ''Y''" using un by (simp add: refreshed_def)
  ultimately obtain m'' where "add_to_archiver demo_env ''d/c'' ?m2 = (Inr (), m'')"
    using add_to_demo [of ?m2 1 "''Y''"] m' by auto
  then have m'': "cm_attribute_add demo_env ?m = (Inr (), m'')"
    using attribute_add_absent [of demo_env ?m] un by simp
  have "(\<exists>es. cm_attribute_add demo_env ?m =
      add_to_archiver demo_env (SetAttributeName demo_manager) (?m\<lparr>archiverMap := es\<rparr>)) \<and>
    (\<forall>m''. cm_attribute_add demo_env ?m = (Inr (), m'') \<longrightarrow>
       SetAttributeName demo_manager \<in> set (get_sig_list (shared (arch_dev (archivers m'' ''X'')))) \<inter>
         set (get_sig_list (shared (arch_dev (archivers m'' ''Y'')))))"
    by (rule stale_lists_archive_twice [OF demo_ok demo_set known_names(3) demo_ready, where ?i1.0 = 0 and ?i2.0 = 1])
      (simp_all add: m'(1))
  then have "''d/c'' \<in> set (get_sig_list (shared (arch_dev (archivers m'' ''X'')))) \<inter>
      set (get_sig_list (shared (arch_dev (archivers m'' ''Y''))))"
    using m'' demo_fields(2) by (elim conjE allE [of _ m'']) simp
  then show ?thesis using m'(1) m'' by blast
qed

theorem assign_loses_attribute_witness:
  "\<exists>reason desc m'. cm_attribute_assign demo_env [nm_a, ''z'', []] demo_manager = (Inl (DevFailed reason desc), m') \<and>
    nm_a \<in> set (get_sig_list (shared (arch_dev (archivers demo_manager ''X'')))) \<and>
    nm_a \<notin> set (get_sig_list (shared (arch_dev (archivers m' ''X''))))"
proof -
  have stat: "find_stat nm_a (push demo_device) \<noteq> LookupThrows"
    by (simp add: find_stat_def PushThreadShared_new_def names_lookup)
  have mem: "nm_a \<in> set (get_sig_list (shared (arch_dev (archivers demo_manager ''X''))))"
    by (simp add: get_sig_list_def table3_signals sig_a_started_def)
  have "find_index (lists_name demo_env demo_manager nm_a) (archiverMap demo_manager) = Some 0"
    by (simp add: lists_name_def demo_lists)
  moreover have "find_index (\<lambda>e. name_key demo_env (domain_cache demo_manager) (fst e) =
      name_key demo_env (domain_cache demo_manager) ''z'') (archiverMap demo_manager) = Some 2"
    by simp
  ultimately have "\<exists>reason desc m'. cm_attribute_assign demo_env [nm_a, ''z'', []] demo_manager =
      (Inl (DevFailed reason desc), m') \<and> nm_a \<notin> set (get_sig_list (shared (arch_dev (archivers m' ''X'')))) \<and>
      (\<forall>t'. t' \<noteq> ''X'' \<longrightarrow> archivers m' t' = archivers demo_manager t')"
    using demo_ok mem stat table3_inv demo_names(1)
    by (intro assign_loses_attribute [where new = 2 and old = 0]) simp_all
  then show ?thesis using mem by blast
qed







end
