(* ===== verification/AlarmTypes.thy ===== *)
theory AlarmTypes
  imports HdbNames StdContainers
begin

text \<open>
  The data of the alarm handler (\<open>src/devices/alarm/AlarmHandler_last\<close>): time stamps, the alarm record
  \<open>alarm_t\<close> of \<open>alarm_table.h\<close>, the group masks, the configuration string of an alarm and the
  countdown of the silence time.

  Seconds and microseconds are the 32-bit integers of \<open>Tango::TimeVal\<close>. The elapsed minutes are
  computed by the code in double precision; the model computes them exactly, so the two may differ for
  instants within a microsecond of a full minute. A local variable of class \<open>alarm_t\<close> has the members
  that its constructor does not set at indeterminate values; they are the argument \<open>raw\<close> of
  \<open>alarm_t_new\<close>.
\<close>

subsection \<open>Time\<close>

record timeval =
  tv_sec :: u32
  tv_usec :: u32

definition show_int :: "int \<Rightarrow> string" where
  "show_int i = (if i < 0 then CHR ''-'' # show_nat (nat (- i)) else show_nat (nat i))"

text \<open>\<open>floor(dminutes)\<close>, and \<open>dminutes < n\<close> holds exactly when it is below \<open>n\<close>.\<close>

definition elapsed_minutes :: "timeval \<Rightarrow> timeval \<Rightarrow> int" where
  "elapsed_minutes now since =
     ((sint (tv_sec now) - sint (tv_sec since)) * 1000000
        + (sint (tv_usec now) - sint (tv_usec since))) div 60000000"

subsection \<open>Constants\<close>

abbreviation (input) S_NORMAL :: string where "S_NORMAL \<equiv> ''NORMAL''"
abbreviation (input) S_ALARM :: string where "S_ALARM \<equiv> ''ALARM''"
abbreviation (input) NOT_ACK :: string where "NOT_ACK \<equiv> ''NACK''"
abbreviation (input) ACK :: string where "ACK \<equiv> ''ACK''"

abbreviation (input) GR_ALL :: u32 where "GR_ALL \<equiv> 0xffffffff"
abbreviation (input) GR_NONE :: u32 where "GR_NONE \<equiv> 0"
abbreviation (input) GR_DEFAULT :: u32 where "GR_DEFAULT \<equiv> GR_NONE"
abbreviation (input) GR_ALL_NAME :: string where "GR_ALL_NAME \<equiv> ''gr_all''"
abbreviation (input) GR_NONE_NAME :: string where "GR_NONE_NAME \<equiv> ''gr_none''"

abbreviation (input) LEV_LOG :: string where "LEV_LOG \<equiv> ''log''"
abbreviation (input) LEV_WARNING :: string where "LEV_WARNING \<equiv> ''warning''"
abbreviation (input) LEV_FAULT :: string where "LEV_FAULT \<equiv> ''fault''"

text \<open>\<open>Tango::AttrQuality\<close>, kept as an \<open>int\<close> by the code.\<close>

abbreviation (input) ATTR_VALID :: int where "ATTR_VALID \<equiv> 0"
abbreviation (input) ATTR_INVALID :: int where "ATTR_INVALID \<equiv> 1"
abbreviation (input) ATTR_ALARM :: int where "ATTR_ALARM \<equiv> 2"
abbreviation (input) ATTR_CHANGING :: int where "ATTR_CHANGING \<equiv> 3"
abbreviation (input) ATTR_WARNING :: int where "ATTR_WARNING \<equiv> 4"

text \<open>The values of an \<open>AlarmState\<close> attribute.\<close>

datatype alarm_state = NORM | UNACK | ACKED | RTNUN | SHLVD | DSUPR | OOSRV | ERROR

fun state_code :: "alarm_state \<Rightarrow> nat" where
  "state_code NORM = 0"
| "state_code UNACK = 1"
| "state_code ACKED = 2"
| "state_code RTNUN = 3"
| "state_code SHLVD = 4"
| "state_code DSUPR = 5"
| "state_code OOSRV = 6"
| "state_code ERROR = 7"

fun state_label :: "alarm_state \<Rightarrow> string" where
  "state_label NORM = ''NORM''"
| "state_label UNACK = ''UNACK''"
| "state_label ACKED = ''ACKED''"
| "state_label RTNUN = ''RTNUN''"
| "state_label SHLVD = ''SHLVD''"
| "state_label DSUPR = ''DSUPR''"
| "state_label OOSRV = ''OOSRV''"
| "state_label ERROR = ''ERROR''"

subsection \<open>The tree of a formula\<close>

text \<open>
  The nodes that the grammar builds carry the identifier of their rule, the text they match, a number
  (for states, qualities and alarm states) and their children.
\<close>

datatype node_id =
  val_rID | val_hID | val_stID | event_ID | nameID | indexID | funcID | logical_exprID
  | bitwise_exprID | equality_exprID | compare_exprID | add_exprID | mult_exprID | expr_atomID
  | shift_exprID | unary_exprID | val_stringID | func_dualID | logical_expr_parenID | cond_exprID
  | exprID | nonempty_exprID | val_qualityID | val_alarm_enum_stID | propertyID

datatype node = Node (node_of: node_id) (text_of: string) (number_of: u32) (kids_of: "node list")

subsection \<open>Alarms\<close>

text \<open>
  \<open>attr_value\<close> is the cell of the dynamic attribute of the alarm, \<open>dp_a\<close> and \<open>dp_n\<close> the device a
  proxy is connected to (\<open>None\<close> for the null pointer), \<open>s_event\<close> the set of event names in order.
\<close>

record alarm =
  al_name :: string
  al_formula :: string
  attr_name :: string
  attr_value :: alarm_state
  al_quality :: int
  ex_reason :: string
  ex_desc :: string
  ex_origin :: string
  al_ts :: timeval
  stat :: string
  ack :: string
  enabled :: bool
  shelved :: bool
  on_counter :: u32
  off_counter :: u32
  freq_counter :: u32
  formula_tree :: node
  al_done :: bool
  to_be_evaluated :: bool
  msg :: string
  grp :: u32
  lev :: string
  s_event :: "string list"
  is_new :: int
  ts_on_delay :: timeval
  on_delay :: u32
  ts_off_delay :: timeval
  off_delay :: u32
  ts_time_silenced :: timeval
  silent_time :: int
  silenced :: int
  attr_values :: string
  attr_values_delay :: string
  cmd_name_a :: string
  cmd_dp_a :: string
  cmd_action_a :: string
  send_arg_a :: bool
  dp_a :: "string option"
  cmd_name_n :: string
  cmd_dp_n :: string
  cmd_action_n :: string
  send_arg_n :: bool
  dp_n :: "string option"

type_synonym alarm_container = "(string \<times> alarm) list"
type_synonym groups = "(string \<times> u32) list"

text \<open>The constructor. The strings and the set are default constructed.\<close>

definition alarm_t_new :: "alarm \<Rightarrow> alarm" where
  "alarm_t_new raw =
     raw\<lparr>grp := 0, on_counter := 0, off_counter := 0, freq_counter := 0, stat := S_NORMAL, ack := ACK,
       on_delay := 0, off_delay := 0, silent_time := -1, cmd_name_a := [], cmd_name_n := [],
       enabled := True, shelved := False,
       al_name := [], al_formula := [], attr_name := [], ex_reason := [], ex_desc := [],
       ex_origin := [], msg := [], lev := [], s_event := [], attr_values := [],
       attr_values_delay := [], cmd_dp_a := [], cmd_action_a := [], cmd_dp_n := [],
       cmd_action_n := []\<rparr>"

definition alarm_clear :: "alarm \<Rightarrow> alarm" where
  "alarm_clear a =
     a\<lparr>al_name := [], al_formula := [], msg := [], lev := [], grp := 0, s_event := [],
       to_be_evaluated := False, stat := [], ack := [], al_done := False\<rparr>"

text \<open>Equality of alarms: the status of the other one is contained in that of this one.\<close>

definition alarm_eq :: "alarm \<Rightarrow> alarm \<Rightarrow> bool" where
  "alarm_eq a that \<longleftrightarrow> str_find (stat that) (stat a) 0 \<noteq> None \<and> ack a = ack that"

definition alarm_insert :: "string \<Rightarrow> alarm \<Rightarrow> alarm" where
  "alarm_insert s a = a\<lparr>s_event := set_insert (<) s (s_event a)\<rparr>"

subsection \<open>Groups\<close>

text \<open>
  \<open>0x1 << j\<close> in \<open>int\<close>; the code does not check \<open>j\<close>, and more than 32 groups shift out of the width,
  which C++ leaves undefined and the model takes as 0.
\<close>

fun insert_groups :: "bool \<Rightarrow> nat \<Rightarrow> string list \<Rightarrow> groups \<Rightarrow> groups" where
  "insert_groups first j [] m = m"
| "insert_groups first j (g # gs) m =
     (if g = GR_ALL_NAME then insert_groups False j gs m
      else if first then insert_groups False j gs (map_insert g GR_NONE m)
      else insert_groups False (Suc j) gs (map_insert g (push_bit j 1) m))"

definition init_static_map :: "string list \<Rightarrow> groups \<Rightarrow> groups" where
  "init_static_map group_names m =
     (if m \<noteq> [] then m
      else
        let m1 = (if group_names = [] then map_insert GR_NONE_NAME GR_NONE m else m);
            m2 = insert_groups True 0 group_names m1
        in map_insert GR_ALL_NAME GR_ALL m2)"

fun join_bar :: "string list \<Rightarrow> string" where
  "join_bar [] = []"
| "join_bar [x] = x"
| "join_bar (x # xs) = x @ ''|'' @ join_bar xs"

definition grp2str :: "groups \<Rightarrow> alarm \<Rightarrow> string" where
  "grp2str gs a =
     (if grp a = GR_ALL then GR_ALL_NAME
      else if grp a = GR_NONE then
        (case gs of [] \<Rightarrow> GR_NONE_NAME | (k, v) # gs' \<Rightarrow> k)
      else join_bar (List.map fst
             (filter (\<lambda>p. fst p \<noteq> GR_ALL_NAME \<and> and (grp a) (snd p) \<noteq> 0) gs)))"

definition add_grp_from_str :: "groups \<Rightarrow> string \<Rightarrow> alarm \<Rightarrow> alarm" where
  "add_grp_from_str gs s a =
     (case map_of gs s of None \<Rightarrow> a | Some v \<Rightarrow> a\<lparr>grp := or (grp a) v\<rparr>)"

definition str2grp :: "groups \<Rightarrow> string \<Rightarrow> alarm \<Rightarrow> alarm" where
  "str2grp gs s a =
     fold (\<lambda>p b. if str_find (fst p) s 0 \<noteq> None then b\<lparr>grp := or (grp b) (snd p)\<rparr> else b) gs a"

subsection \<open>The configuration string\<close>

definition key :: "string \<Rightarrow> string" where
  "key k = k @ ''=''"

definition SEP :: string where
  "SEP = '';''"

definition confstr :: "groups \<Rightarrow> alarm \<Rightarrow> string" where
  "confstr gs a =
     key ''tag'' @ al_name a @ SEP @
     key ''formula'' @ al_formula a @ SEP @
     key ''on_delay'' @ show_nat (unat (on_delay a)) @ SEP @
     key ''off_delay'' @ show_nat (unat (off_delay a)) @ SEP @
     key ''priority'' @ lev a @ SEP @
     key ''shlvd_time'' @ show_int (silent_time a) @ SEP @
     key ''group'' @ grp2str gs a @ SEP @
     key ''message'' @ msg a @ SEP @
     key ''on_command'' @ cmd_name_a a @ SEP @
     key ''off_command'' @ cmd_name_n a @ SEP @
     key ''enabled'' @ (if enabled a then ''1'' else ''0'')"

subsection \<open>The countdown of the silence time\<close>

text \<open>
  The code repeats this computation in \<open>silence\<close>, \<open>shelve\<close> and \<open>prepare_alarm_attr\<close>; in \<open>update\<close> and
  \<open>timer_update\<close> the end of the silence also stops the audible signal and acknowledges the alarm.
\<close>

definition countdown :: "timeval \<Rightarrow> alarm \<Rightarrow> alarm" where
  "countdown now a =
     (if silenced a > 0 then
        let minutes = elapsed_minutes now (ts_time_silenced a)
        in if minutes < silent_time a then a\<lparr>silenced := silent_time a - minutes\<rparr>
           else a\<lparr>silenced := 0, shelved := False\<rparr>
      else a)"

definition countdown_ack :: "timeval \<Rightarrow> alarm \<Rightarrow> alarm" where
  "countdown_ack now a =
     (if silenced a > 0 then
        let minutes = elapsed_minutes now (ts_time_silenced a)
        in if minutes < silent_time a then a\<lparr>silenced := silent_time a - minutes\<rparr>
           else a\<lparr>silenced := 0, shelved := False, is_new := 0, ack := ACK\<rparr>
      else a)"

subsection \<open>The value of the alarm attribute\<close>

text \<open>
  The chain of tests by which \<open>do_alarm_eval\<close>, \<open>ack\<close> and \<open>enable\<close> set the attribute; the last two
  arguments of the chain are the status and the acknowledgement.
\<close>

definition state_by_status :: "string \<Rightarrow> string \<Rightarrow> alarm_state \<Rightarrow> alarm_state" where
  "state_by_status st ac old =
     (if st = S_NORMAL \<and> ac = ACK then NORM
      else if st = S_ALARM \<and> ac = NOT_ACK then UNACK
      else if st = S_ALARM \<and> ac = ACK then ACKED
      else if st = S_NORMAL \<and> ac = NOT_ACK then RTNUN
      else old)"

definition set_attr_state :: "alarm \<Rightarrow> alarm" where
  "set_attr_state a =
     a\<lparr>attr_value :=
         (if \<not> enabled a then OOSRV
          else if shelved a \<and> silenced a > 0 then SHLVD
          else state_by_status (stat a) (ack a) (attr_value a))\<rparr>"

end
