(* ===== verification/AlarmEvents.thy ===== *)
theory AlarmEvents
  imports AlarmTypes
begin

text \<open>
  The event table of the alarm handler: classes \<open>event\<close>, \<open>event_table\<close> and \<open>EventCallBack\<close>
  (\<open>event_table.cpp\<close>), the comparison of names without domain (\<open>AlarmHandler.cpp\<close>), and the
  subscription of the attributes that the formulas read.

  The type \<open>'v\<close> is the type \<open>double\<close> of the attribute values. Tango is the argument \<open>env\<close>: the
  construction of a proxy and the subscription may fail. \<open>new event()\<close> leaves the members that \<open>add\<close>
  does not set indeterminate; they are those of \<open>blank\<close>.
\<close>

subsection \<open>Errors\<close>

text \<open>
  \<open>AlarmFailed\<close> is a \<open>Tango::DevFailed\<close> (reason, description and origin of its first error),
  \<open>AlarmString\<close> a thrown \<open>std::string\<close>, \<open>Unexpected\<close> the call of \<open>std::unexpected\<close> for an exception
  that the \<open>throw(...)\<close> clause of a function does not list (it ends the process), \<open>BadPointer\<close> the use
  of a null or uninitialised pointer.
\<close>

datatype alarm_error =
  AlarmFailed string string string | AlarmString string | Unexpected alarm_error | BadPointer

subsection \<open>Events\<close>

datatype tango_type =
  DEV_UCHAR | DEV_SHORT | DEV_USHORT | DEV_LONG | DEV_STATE | DEV_ULONG | DEV_DOUBLE | DEV_FLOAT
  | DEV_BOOLEAN | DEV_LONG64 | DEV_ULONG64 | DEV_STRING | DEV_ENUM | DEV_OTHER int

datatype event_type = TYPE_TANGO_ERR | TYPE_GENERIC_ERR | ValueType tango_type

abbreviation (input) SUB_ERR :: u32 where "SUB_ERR \<equiv> 0xffffffff"
abbreviation (input) EV_NOTHING :: int where "EV_NOTHING \<equiv> 0"
abbreviation (input) UPDATE_PROP :: int where "UPDATE_PROP \<equiv> 1"

datatype ev_state = EvOn | EvAlarm

record 'v alm_event =
  ev_name :: string
  ev_devname :: string
  ev_attname :: string
  ev_value :: "'v list"
  value_string :: string
  ev_quality :: int
  ev_reason :: string
  ev_desc :: string
  ev_origin :: string
  ev_ts :: timeval
  ev_type :: event_type
  err_counter :: int
  m_alarm :: "string list"
  valid :: bool
  ev_first :: bool
  ev_first_err :: bool
  ev_attr :: bool
  evstate :: ev_state
  ev_id :: u32
  isZMQ :: bool
  ev_running :: bool
  ev_paused :: bool
  ev_stopped :: bool
  okev :: u32
  okev_freq :: u32
  nokev :: u32
  nokev_freq :: u32

definition push_alarm :: "string \<Rightarrow> 'v alm_event \<Rightarrow> 'v alm_event" where
  "push_alarm n e = e\<lparr>m_alarm := m_alarm e @ [n]\<rparr>"

text \<open>\<open>std::find\<close> and \<open>erase\<close>: the first occurrence.\<close>

definition pop_alarm :: "string \<Rightarrow> 'v alm_event \<Rightarrow> 'v alm_event" where
  "pop_alarm n e = e\<lparr>m_alarm := remove1 n (m_alarm e)\<rparr>"

text \<open>The information that the callback queues for the alarm thread.\<close>

record 'v bei =
  bei_name :: string
  bei_value :: "'v list"
  bei_value_string :: string
  bei_quality :: int
  bei_reason :: string
  bei_desc :: string
  bei_origin :: string
  bei_type :: event_type
  bei_ts :: timeval
  bei_msg :: string

subsection \<open>Names\<close>

definition alm_remove_domain :: "string \<Rightarrow> string" where
  "alm_remove_domain s =
     (case str_find ''.'' s 0 of
        None \<Rightarrow> s
      | Some end1 \<Rightarrow>
          let start = (if str_find scheme s 0 = None then 0 else 8)
          in (case str_find '':'' s start of
                None \<Rightarrow> s
              | Some end2 \<Rightarrow> if end1 > end2 then s else take end1 s @ drop end2 s))"

definition same_without_domain :: "string \<Rightarrow> string \<Rightarrow> bool" where
  "same_without_domain a b \<longleftrightarrow> alm_remove_domain a = alm_remove_domain b"

subsection \<open>The table\<close>

record 'v event_table =
  v_event :: "'v alm_event list"
  ev_action :: int
  ev_initialized :: bool
  stop_it :: bool
  attr_AttributeNumber :: int
  attr_AttributeStartedNumber :: int
  attr_AttributePausedNumber :: int
  attr_AttributeStoppedNumber :: int

record ev_env =
  new_attr_proxy :: "string \<Rightarrow> (string \<times> string \<times> string) option"
  subscribe_event :: "string \<Rightarrow> (string \<times> string \<times> string) + (u32 \<times> bool)"

type_synonym ('a, 'v) ev_result = "(alarm_error + 'a) \<times> 'v event_table"

text \<open>The constructor; the other members, which no code initialises, are those of \<open>raw\<close>.\<close>

definition event_table_new :: "'v event_table \<Rightarrow> 'v event_table" where
  "event_table_new raw = raw\<lparr>v_event := [], stop_it := False, ev_action := EV_NOTHING\<rparr>"

text \<open>\<open>std::find\<close> in \<open>v_event\<close> by name, as the alarm device searches it.\<close>

definition find_event :: "string \<Rightarrow> 'v alm_event list \<Rightarrow> nat option" where
  "find_event nm es = find_index (\<lambda>e. ev_name e = nm) es"

text \<open>The search of the table: by name, then by name without domain.\<close>

definition get_event :: "string \<Rightarrow> 'v alm_event list \<Rightarrow> nat option" where
  "get_event nm es =
     (case find_event nm es of
        Some i \<Rightarrow> Some i
      | None \<Rightarrow> find_index (\<lambda>e. same_without_domain (ev_name e) nm) es)"

definition set_event ::
  "nat \<Rightarrow> ('v alm_event \<Rightarrow> 'v alm_event) \<Rightarrow> 'v event_table \<Rightarrow> 'v event_table"
where
  "set_event i f t = t\<lparr>v_event := (v_event t)[i := f (v_event t ! i)]\<rparr>"

definition not_subscribed_err :: "string \<Rightarrow> string \<Rightarrow> alarm_error" where
  "not_subscribed_err nm origin =
     AlarmFailed ''BadSignalName'' (''Signal '' @ nm @ '' NOT subscribed'') origin"

definition raise_action :: "int \<Rightarrow> 'v event_table \<Rightarrow> 'v event_table" where
  "raise_action n t = (if ev_action t \<le> UPDATE_PROP then t\<lparr>ev_action := ev_action t + n\<rparr> else t)"

definition update_property :: "'v event_table \<Rightarrow> 'v event_table" where
  "update_property = raise_action 1"

subsection \<open>Adding\<close>

definition reset_event :: "'v alm_event \<Rightarrow> 'v alm_event" where
  "reset_event e =
     e\<lparr>ev_id := SUB_ERR, evstate := EvAlarm, isZMQ := False, okev := 0, okev_freq := 0, nokev := 0,
       nokev_freq := 0, ev_first := True, ev_first_err := True\<rparr>"

text \<open>A default constructed member (the strings and vectors) is empty.\<close>

definition new_event :: "'v alm_event \<Rightarrow> string \<Rightarrow> nat \<Rightarrow> 'v alm_event" where
  "new_event blank nm idx =
     blank\<lparr>ev_value := [], value_string := [], m_alarm := [],
       ev_name := nm, ev_devname := take idx nm, ev_attname := drop (Suc idx) nm,
       ev_reason := ''NOT_connected'', ev_desc := ''Attribute not subscribed'',
       ev_origin := ''...'', ev_attr := False, ev_running := False, ev_stopped := True,
       ev_paused := False\<rparr>"

definition ev_add ::
  "ev_env \<Rightarrow> 'v alm_event \<Rightarrow> string \<Rightarrow> int \<Rightarrow> bool \<Rightarrow> 'v event_table \<Rightarrow> (unit, 'v) ev_result"
where
  "ev_add env blank nm to_do start t =
     (case get_event nm (v_event t) of
        Some i \<Rightarrow>
          if \<not> start then
            (Inl (AlarmFailed ''BadSignalName'' (''Signal '' @ nm @ '' already subscribed'')
                    ''event_table::add()''), t)
          else
            (case new_attr_proxy env (ev_name (v_event t ! i)) of
               Some (r, d, og) \<Rightarrow> (Inl (AlarmFailed r d og), t)
             | None \<Rightarrow>
                 (Inr (), raise_action to_do (set_event i (\<lambda>e. reset_event (e\<lparr>ev_attr := True\<rparr>)) t)))
      | None \<Rightarrow>
          if start then (Inl BadPointer, t)
          else
            (case find_last_char CHR ''/'' nm of
               None \<Rightarrow>
                 (Inl (AlarmFailed ''SyntaxError'' (''Syntax error in signal name '' @ nm)
                         ''event_table::add()''), t)
             | Some idx \<Rightarrow>
                 (Inr (), raise_action to_do
                    (t\<lparr>v_event := v_event t @ [reset_event (new_event blank nm idx)],
                       attr_AttributeNumber := attr_AttributeNumber t + 1,
                       attr_AttributeStoppedNumber := attr_AttributeStoppedNumber t + 1\<rparr>))))"

subsection \<open>Stopping and removing\<close>

text \<open>
  \<open>remove\<close> with \<open>stop\<close> frees the proxy and the callback; the record of the event keeps the freed
  pointer and its identifier. It looks at the event before it has tested that there is one.
\<close>

definition ev_remove :: "string \<Rightarrow> bool \<Rightarrow> 'v event_table \<Rightarrow> (unit, 'v) ev_result" where
  "ev_remove nm stop t =
     (case get_event nm (v_event t) of
        None \<Rightarrow> (Inl BadPointer, t)
      | Some i \<Rightarrow>
          if stop then (Inr (), t)
          else
            let e = v_event t ! i
            in (Inr (), t\<lparr>v_event := erase_at i (v_event t),
                  attr_AttributeStartedNumber := attr_AttributeStartedNumber t - of_bool (ev_running e),
                  attr_AttributePausedNumber := attr_AttributePausedNumber t - of_bool (ev_paused e),
                  attr_AttributeStoppedNumber := attr_AttributeStoppedNumber t - of_bool (ev_stopped e),
                  attr_AttributeNumber := attr_AttributeNumber t - 1\<rparr>))"

text \<open>The call of \<open>remove\<close> in \<open>stop\<close> catches a Tango exception.\<close>

definition ignore_failed :: "(unit, 'v) ev_result \<Rightarrow> (unit, 'v) ev_result" where
  "ignore_failed r = (case r of (Inl (AlarmFailed a b c), t) \<Rightarrow> (Inr (), t) | _ \<Rightarrow> r)"

definition ev_then ::
  "('a, 'v) ev_result \<Rightarrow> ('a \<Rightarrow> 'v event_table \<Rightarrow> ('b, 'v) ev_result) \<Rightarrow> ('b, 'v) ev_result"
where
  "ev_then r k = (case r of (Inl e, t) \<Rightarrow> (Inl e, t) | (Inr x, t) \<Rightarrow> k x t)"

definition ev_stop :: "string \<Rightarrow> 'v event_table \<Rightarrow> (unit, 'v) ev_result" where
  "ev_stop nm t =
     (case get_event nm (v_event t) of
        None \<Rightarrow> (Inl (not_subscribed_err nm ''event_table::stop()''), t)
      | Some i \<Rightarrow>
          if ev_stopped (v_event t ! i) then (Inr (), t)
          else
            let t1 = (set_event i (\<lambda>e. e\<lparr>ev_stopped := True\<rparr>) t)
                       \<lparr>attr_AttributeStoppedNumber := attr_AttributeStoppedNumber t + 1\<rparr>
            in ev_then
                 (if ev_running (v_event t1 ! i) then
                    ignore_failed (ev_remove nm True
                      (t1\<lparr>attr_AttributeStartedNumber := attr_AttributeStartedNumber t1 - 1\<rparr>))
                  else (Inr (), t1)) (\<lambda>u t2.
               ev_then
                 (if ev_paused (v_event t2 ! i) then
                    ignore_failed (ev_remove nm True
                      (t2\<lparr>attr_AttributePausedNumber := attr_AttributePausedNumber t2 - 1\<rparr>))
                  else (Inr (), t2)) (\<lambda>u t3.
               (Inr (), set_event i (\<lambda>e. e\<lparr>ev_running := False, ev_paused := False\<rparr>) t3))))"

subsection \<open>Starting\<close>

text \<open>The body of the loops of \<open>start\<close> and \<open>start_all\<close> for the event at position \<open>i\<close>.\<close>

definition note_error :: "nat \<Rightarrow> (unit, 'v) ev_result \<Rightarrow> (unit, 'v) ev_result" where
  "note_error i r =
     (case r of
        (Inl (AlarmFailed a b c), t) \<Rightarrow>
          (Inr (), set_event i (\<lambda>e. e\<lparr>ev_reason := a, ev_desc := b, ev_origin := c\<rparr>) t)
      | _ \<Rightarrow> r)"

definition start_at ::
  "ev_env \<Rightarrow> 'v alm_event \<Rightarrow> string \<Rightarrow> nat \<Rightarrow> 'v event_table \<Rightarrow> (unit, 'v) ev_result"
where
  "start_at env blank nm i t =
     (if ev_running (v_event t ! i) then (Inr (), t)
      else
        ev_then
          (if ev_stopped (v_event t ! i) then
             note_error i (ev_add env blank nm EV_NOTHING True
               (t\<lparr>attr_AttributeStoppedNumber := attr_AttributeStoppedNumber t - 1\<rparr>))
           else (Inr (), t)) (\<lambda>u t1.
        let p = ev_paused (v_event t1 ! i);
            t2 = set_event i (\<lambda>e. e\<lparr>ev_running := True, ev_paused := False, ev_stopped := False\<rparr>) t1
        in (Inr (), t2\<lparr>attr_AttributePausedNumber := attr_AttributePausedNumber t2 - of_bool p,
              attr_AttributeStartedNumber := attr_AttributeStartedNumber t2 + 1\<rparr>)))"

definition ev_start ::
  "ev_env \<Rightarrow> 'v alm_event \<Rightarrow> string \<Rightarrow> 'v event_table \<Rightarrow> (unit, 'v) ev_result"
where
  "ev_start env blank nm t =
     (case get_event nm (v_event t) of
        None \<Rightarrow> (Inl (not_subscribed_err nm ''event_table::start()''), t)
      | Some i \<Rightarrow> start_at env blank nm i t)"

fun start_from ::
  "ev_env \<Rightarrow> 'v alm_event \<Rightarrow> nat list \<Rightarrow> 'v event_table \<Rightarrow> (unit, 'v) ev_result"
where
  "start_from env blank [] t = (Inr (), t)"
| "start_from env blank (i # is) t =
     ev_then (start_at env blank (ev_name (v_event t ! i)) i t) (\<lambda>u. start_from env blank is)"

definition ev_start_all ::
  "ev_env \<Rightarrow> 'v alm_event \<Rightarrow> 'v event_table \<Rightarrow> (unit, 'v) ev_result"
where
  "ev_start_all env blank t = start_from env blank [0..<length (v_event t)] t"

subsection \<open>The subscribe thread\<close>

definition wants_subscription :: "'v alm_event \<Rightarrow> bool" where
  "wants_subscription e \<longleftrightarrow> ev_id e = SUB_ERR \<and> \<not> ev_stopped e"

definition ev_nb_sig_to_subscribe :: "'v event_table \<Rightarrow> nat" where
  "ev_nb_sig_to_subscribe t = count_if wants_subscription (v_event t)"

definition subscribe_one :: "ev_env \<Rightarrow> 'v alm_event \<Rightarrow> 'v alm_event" where
  "subscribe_one env e =
     (let e1 = e\<lparr>ev_first := True, ev_first_err := True\<rparr>
      in (case subscribe_event env (ev_name e) of
            Inl (a, b, c) \<Rightarrow> e1\<lparr>ev_reason := a, ev_desc := b, ev_origin := c, ev_id := SUB_ERR\<rparr>
          | Inr (eid, zmq) \<Rightarrow> e1\<lparr>ev_id := eid, isZMQ := zmq\<rparr>))"

text \<open>The proxy is created by \<open>add\<close> under the name of the event; an exception skips the event.\<close>

definition subscribe_at ::
  "ev_env \<Rightarrow> 'v alm_event \<Rightarrow> nat \<Rightarrow> 'v event_table \<Rightarrow> (unit, 'v) ev_result"
where
  "subscribe_at env blank i t =
     (let e = v_event t ! i
      in if \<not> wants_subscription e then (Inr (), t)
         else if ev_attr e then (Inr (), set_event i (subscribe_one env) t)
         else
           (case ev_add env blank (ev_name e) EV_NOTHING True t of
              (Inr u, t1) \<Rightarrow> (Inr (), set_event i (subscribe_one env) t1)
            | r \<Rightarrow> note_error i r))"

fun subscribe_from ::
  "ev_env \<Rightarrow> 'v alm_event \<Rightarrow> nat list \<Rightarrow> 'v event_table \<Rightarrow> (unit, 'v) ev_result"
where
  "subscribe_from env blank [] t = (Inr (), t)"
| "subscribe_from env blank (i # is) t =
     ev_then (subscribe_at env blank i t) (\<lambda>u. subscribe_from env blank is)"

definition ev_subscribe_events ::
  "ev_env \<Rightarrow> 'v alm_event \<Rightarrow> 'v event_table \<Rightarrow> (unit, 'v) ev_result"
where
  "ev_subscribe_events env blank t =
     ev_then (subscribe_from env blank [0..<length (v_event t)] t)
       (\<lambda>u t1. (Inr (), t1\<lparr>ev_initialized := True\<rparr>))"

definition ev_unsubscribe_events :: "'v event_table \<Rightarrow> 'v event_table" where
  "ev_unsubscribe_events t = t\<lparr>v_event := []\<rparr>"

definition ev_stop_thread :: "'v event_table \<Rightarrow> 'v event_table" where
  "ev_stop_thread t = t\<lparr>stop_it := True\<rparr>"

datatype sub_wait = ForSignal | ForPeriod | NotAtAll

definition sub_wait_kind :: "'v event_table \<Rightarrow> sub_wait" where
  "sub_wait_kind t =
     (if ev_nb_sig_to_subscribe t = 0 \<and> ev_action t = EV_NOTHING then ForSignal
      else if ev_action t = EV_NOTHING then ForPeriod
      else NotAtAll)"

end
