(* ===== verification/AlarmFormula.thy ===== *)
theory AlarmFormula
  imports AlarmEvents
begin

text \<open>
  The evaluation of alarm formulas: struct \<open>formula_res_t\<close> (\<open>alarm_table.h\<close>) and the functions
  \<open>eval_expression\<close>, \<open>eval_formula\<close>, \<open>eval_node_event\<close> and \<open>find_event_formula\<close> of
  \<open>AlarmHandler.cpp\<close>.

  The arithmetic of \<open>double\<close> is the argument \<open>d\<close>: no result depends on it. C++ leaves open in which
  order the two operands of an overloaded operator are evaluated; the model evaluates the left one
  first. \<open>&&\<close> and \<open>||\<close> are overloaded, so both operands are evaluated. \<open>*i->value.begin()\<close> of an
  empty text is undefined in C++; the grammar gives no operator node an empty text, and the model
  takes no branch for it.
\<close>

subsection \<open>Results\<close>

record 'v arith =
  d_strtod :: "string \<Rightarrow> 'v"
  d_of_int :: "int \<Rightarrow> 'v"
  d_show :: "'v \<Rightarrow> string"
  d_neg :: "'v \<Rightarrow> 'v"
  d_add :: "'v \<Rightarrow> 'v \<Rightarrow> 'v"
  d_sub :: "'v \<Rightarrow> 'v \<Rightarrow> 'v"
  d_mul :: "'v \<Rightarrow> 'v \<Rightarrow> 'v"
  d_div :: "'v \<Rightarrow> 'v \<Rightarrow> 'v"
  d_eq :: "'v \<Rightarrow> 'v \<Rightarrow> bool"
  d_lt :: "'v \<Rightarrow> 'v \<Rightarrow> bool"
  d_le :: "'v \<Rightarrow> 'v \<Rightarrow> bool"
  d_pow :: "'v \<Rightarrow> 'v \<Rightarrow> 'v"
  d_fabs :: "'v \<Rightarrow> 'v"
  d_cos :: "'v \<Rightarrow> 'v"
  d_sin :: "'v \<Rightarrow> 'v"
  d_to_int :: "'v \<Rightarrow> int"
  d_trunc_long :: "'v \<Rightarrow> 64 word"
  d_of_long :: "64 word \<Rightarrow> 'v"

definition d_bool :: "'v arith \<Rightarrow> bool \<Rightarrow> 'v" where
  "d_bool d b = d_of_int d (of_bool b)"

definition d_true :: "'v arith \<Rightarrow> 'v \<Rightarrow> bool" where
  "d_true d x \<longleftrightarrow> \<not> d_eq d x (d_of_int d 0)"

record 'v formula_res =
  fr_value :: 'v
  fr_quality :: int
  fr_reason :: string
  fr_desc :: string
  fr_origin :: string

definition res_of :: "'v \<Rightarrow> 'v formula_res" where
  "res_of x = \<lparr>fr_value = x, fr_quality = ATTR_VALID, fr_reason = [], fr_desc = [], fr_origin = []\<rparr>"

definition combine_quality :: "int \<Rightarrow> int \<Rightarrow> int" where
  "combine_quality q1 q2 =
     (if q1 = ATTR_INVALID \<or> q2 = ATTR_INVALID then ATTR_INVALID
      else if q1 = ATTR_ALARM \<or> q2 = ATTR_ALARM then ATTR_ALARM
      else if q1 = ATTR_WARNING \<or> q2 = ATTR_WARNING then ATTR_WARNING
      else if q1 = ATTR_CHANGING \<or> q2 = ATTR_CHANGING then ATTR_CHANGING
      else if q1 > q2 then q1 else q2)"

definition combine_exception :: "string \<Rightarrow> string \<Rightarrow> string" where
  "combine_exception e1 e2 = (if length e1 > 0 then e1 else e2)"

text \<open>The overloaded operators differ in the value only.\<close>

definition combine :: "('v \<Rightarrow> 'v \<Rightarrow> 'v) \<Rightarrow> 'v formula_res \<Rightarrow> 'v formula_res \<Rightarrow> 'v formula_res" where
  "combine f a b =
     \<lparr>fr_value = f (fr_value a) (fr_value b),
      fr_quality = combine_quality (fr_quality a) (fr_quality b),
      fr_reason = combine_exception (fr_reason a) (fr_reason b),
      fr_desc = combine_exception (fr_desc a) (fr_desc b),
      fr_origin = combine_exception (fr_origin a) (fr_origin b)\<rparr>"

subsection \<open>Operators\<close>

datatype eval_error = EvalErr string | Out_Of_Range | Undefined_Shift

type_synonym 'a evaluation = "(eval_error + 'a) \<times> string"

definition begins :: "char \<Rightarrow> string \<Rightarrow> bool" where
  "begins c t \<longleftrightarrow> take 1 t = [c]"

definition mult_op :: "'v arith \<Rightarrow> string \<Rightarrow> ('v \<Rightarrow> 'v \<Rightarrow> 'v) option" where
  "mult_op d t =
     (if begins CHR ''*'' t then Some (d_mul d)
      else if begins CHR ''/'' t then Some (d_div d) else None)"

definition add_op :: "'v arith \<Rightarrow> string \<Rightarrow> ('v \<Rightarrow> 'v \<Rightarrow> 'v) option" where
  "add_op d t =
     (if begins CHR ''+'' t then Some (d_add d)
      else if begins CHR ''-'' t then Some (d_sub d) else None)"

definition logical_op :: "'v arith \<Rightarrow> string \<Rightarrow> ('v \<Rightarrow> 'v \<Rightarrow> 'v) option" where
  "logical_op d t =
     (if t = ''&&'' then Some (\<lambda>a b. d_bool d (d_true d a \<and> d_true d b))
      else if t = ''||'' then Some (\<lambda>a b. d_bool d (d_true d a \<or> d_true d b)) else None)"

definition compare_op :: "'v arith \<Rightarrow> string \<Rightarrow> ('v \<Rightarrow> 'v \<Rightarrow> 'v) option" where
  "compare_op d t =
     (if t = ''<='' then Some (\<lambda>a b. d_bool d (d_le d a b))
      else if t = ''>='' then Some (\<lambda>a b. d_bool d (d_le d b a))
      else if begins CHR ''<'' t then Some (\<lambda>a b. d_bool d (d_lt d a b))
      else if begins CHR ''>'' t then Some (\<lambda>a b. d_bool d (d_lt d b a)) else None)"

definition equality_op :: "'v arith \<Rightarrow> string \<Rightarrow> ('v \<Rightarrow> 'v \<Rightarrow> 'v) option" where
  "equality_op d t =
     (if t = ''!='' then Some (\<lambda>a b. d_bool d (\<not> d_eq d a b))
      else if t = ''=='' then Some (\<lambda>a b. d_bool d (d_eq d a b)) else None)"

text \<open>\<open>std::min\<close> and \<open>std::max\<close>.\<close>

definition dual_op :: "'v arith \<Rightarrow> string \<Rightarrow> ('v \<Rightarrow> 'v \<Rightarrow> 'v) option" where
  "dual_op d t =
     (if t = ''min'' then Some (\<lambda>a b. if d_lt d b a then b else a)
      else if t = ''max'' then Some (\<lambda>a b. if d_lt d a b then b else a)
      else if t = ''pow'' then Some (d_pow d) else None)"

definition bitwise_op :: "string \<Rightarrow> (64 word \<Rightarrow> 64 word \<Rightarrow> 64 word) option" where
  "bitwise_op t =
     (if begins CHR ''&'' t then Some and
      else if begins CHR ''|'' t then Some or
      else if begins CHR ''^'' t then Some xor else None)"

text \<open>A shift by a count outside \<open>0..63\<close> is undefined in C++.\<close>

definition shift_op :: "string \<Rightarrow> (64 word \<Rightarrow> 64 word \<Rightarrow> 64 word) option" where
  "shift_op t =
     (if t = ''<<'' then Some (\<lambda>a b. push_bit (unat b) a)
      else if t = ''>>'' then Some (\<lambda>a b. signed_drop_bit (unat b) a) else None)"

definition unary_op :: "'v arith \<Rightarrow> string \<Rightarrow> ('v \<Rightarrow> 'v) option" where
  "unary_op d t =
     (if begins CHR ''+'' t then Some (\<lambda>x. x)
      else if begins CHR ''-'' t then Some (d_neg d)
      else if begins CHR ''!'' t then Some (\<lambda>x. d_bool d (\<not> d_true d x)) else None)"

definition func_op :: "'v arith \<Rightarrow> string \<Rightarrow> ('v formula_res \<Rightarrow> 'v) option" where
  "func_op d t =
     (if t = ''abs'' then Some (\<lambda>r. d_fabs d (fr_value r))
      else if t = ''cos'' then Some (\<lambda>r. d_cos d (fr_value r))
      else if t = ''sin'' then Some (\<lambda>r. d_sin d (fr_value r))
      else if t = ''quality'' then Some (\<lambda>r. d_of_int d (fr_quality r)) else None)"

text \<open>The properties of an attribute; a text that is none of them leaves the value.\<close>

definition property_op :: "'v arith \<Rightarrow> string \<Rightarrow> 'v formula_res \<Rightarrow> 'v" where
  "property_op d t r =
     (let is = (\<lambda>s. d_eq d (fr_value r) (d_of_int d (int (state_code s))))
      in if t = ''.quality'' then d_of_int d (fr_quality r)
         else if t = ''.alarm'' then d_bool d (is UNACK \<or> is ACKED)
         else if t = ''.normal'' then d_bool d (is NORM \<or> is RTNUN)
         else fr_value r)"

subsection \<open>Evaluation\<close>

definition ev_err :: "string \<Rightarrow> eval_error" where
  "ev_err s = EvalErr (''Evaluating formula: '' @ s)"

definition bad_children :: "string \<Rightarrow> string \<Rightarrow> node list \<Rightarrow> eval_error" where
  "bad_children rule t ks =
     ev_err (''in node '' @ rule @ ''('' @ t @ '') children='' @ show_nat (length ks))"

definition not_allowed :: "string \<Rightarrow> string \<Rightarrow> eval_error" where
  "not_allowed rule t = ev_err (''in node '' @ rule @ ''('' @ t @ '') value not allowed'')"

definition eval_then :: "'a evaluation \<Rightarrow> ('a \<Rightarrow> string \<Rightarrow> 'b evaluation) \<Rightarrow> 'b evaluation" where
  "eval_then r k = (case r of (Inl e, s) \<Rightarrow> (Inl e, s) | (Inr x, s) \<Rightarrow> k x s)"

definition eval_fail :: "eval_error \<Rightarrow> string \<Rightarrow> 'a evaluation" where
  "eval_fail e s = (Inl e, s)"

definition event_res :: "'v alm_event \<Rightarrow> 'v \<Rightarrow> 'v formula_res" where
  "event_res e v =
     \<lparr>fr_value = v, fr_quality = ev_quality e, fr_reason = ev_reason e, fr_desc = ev_desc e,
      fr_origin = ev_origin e\<rparr>"

definition not_initialized :: "'v alm_event \<Rightarrow> bool" where
  "not_initialized e \<longleftrightarrow> ev_type e \<noteq> ValueType DEV_STRING \<and> ev_value e = []"

text \<open>Node \<open>nameID\<close>: the value of an attribute at an index, recorded in the text of values.\<close>

definition attribute_error :: "string \<Rightarrow> string \<Rightarrow> 'v alm_event \<Rightarrow> eval_error" where
  "attribute_error t what e =
     ev_err (''attribute '' @ [CHR 0x27] @ t @ [CHR 0x27] @
       (if length (ev_desc e) > 0
        then '' exception: '' @ [CHR 0x27] @ ev_desc e @ [CHR 0x27]
        else what))"

definition dquote :: string where
  "dquote = [CHR 0x22]"

definition eval_name ::
  "'v arith \<Rightarrow> 'v alm_event list \<Rightarrow> string \<Rightarrow> int \<Rightarrow> string \<Rightarrow> 'v formula_res evaluation"
where
  "eval_name d es t ev_ind s =
     (case find_event (to_lower t) es of
        None \<Rightarrow> eval_fail (ev_err (''in event: ('' @ t @ '') not found in event table'')) s
      | Some i \<Rightarrow>
          let e = es ! i
          in if \<not> valid e then eval_fail (attribute_error t '' value not valid!'' e) s
             else if not_initialized e
             then eval_fail (attribute_error t '' value not initialized!!'' e) s
             else if ev_ind < 0 \<or> int (length (ev_value e)) \<le> ev_ind then eval_fail Out_Of_Range s
             else
               let v = ev_value e ! nat ev_ind;
                   label = (if length (ev_value e) > 1
                            then ev_name e @ ''['' @ show_int ev_ind @ '']'' else ev_name e)
               in (Inr (event_res e v), s @ dquote @ label @ dquote @ '':'' @ d_show d v @ '',''))"

text \<open>Node \<open>equality_exprID\<close> that compares an attribute with a string constant.\<close>

definition string_error :: "string \<Rightarrow> string \<Rightarrow> 'v alm_event \<Rightarrow> eval_error" where
  "string_error pre post e =
     ev_err (pre @ post @
       (if length (ev_desc e) > 0
        then '' EX: '' @ [CHR 0x27] @ ev_desc e @ [CHR 0x27] else []))"

definition eval_string_eq ::
  "'v arith \<Rightarrow> 'v alm_event list \<Rightarrow> string \<Rightarrow> string \<Rightarrow> string \<Rightarrow> string \<Rightarrow> 'v formula_res evaluation"
where
  "eval_string_eq d es op nm str s =
     (case find_event (to_lower nm) es of
        None \<Rightarrow> eval_fail (ev_err (''in event: ('' @ op @ '') not found in event table'')) s
      | Some i \<Rightarrow>
          let e = es ! i
          in if \<not> valid e
             then eval_fail (string_error
                    (''in node equality_exprID -> nameID('' @ nm) '') value not valid!'' e) s
             else if not_initialized e
             then eval_fail (string_error (''in node nameID('' @ nm) '') value not initialized!!'' e) s
             else
               let s1 = s @ dquote @ ev_name e @ dquote @ '':'' @ dquote @ value_string e @ dquote @ '','';
                   attr_val = [CHR 0x27] @ value_string e @ [CHR 0x27]
               in if op = ''!='' then (Inr (event_res e (d_bool d (attr_val \<noteq> str))), s1)
                  else if op = ''=='' then (Inr (event_res e (d_bool d (attr_val = str))), s1)
                  else eval_fail (ev_err (''in node equality_exprID('' @ op @
                         '') value not allowed (val_stringID)'')) s1)"

text \<open>The value of the operands of a bitwise operator must be integers.\<close>

definition longs_op ::
  "'v arith \<Rightarrow> (64 word \<Rightarrow> 64 word \<Rightarrow> 64 word) option \<Rightarrow> eval_error \<Rightarrow> bool \<Rightarrow>
   'v formula_res \<Rightarrow> 'v formula_res \<Rightarrow> string \<Rightarrow> 'v formula_res evaluation"
where
  "longs_op d oper e shift a b s =
     (let la = d_trunc_long d (fr_value a); lb = d_trunc_long d (fr_value b)
      in if \<not> d_eq d (d_of_long d la) (fr_value a) \<or> \<not> d_eq d (d_of_long d lb) (fr_value b)
         then eval_fail (EvalErr ''ERROR: non-int value in bitwise operation!'') s
         else (case oper of
                 None \<Rightarrow> eval_fail e s
               | Some f \<Rightarrow>
                   if shift \<and> 64 \<le> unat lb then eval_fail Undefined_Shift s
                   else (Inr (combine (\<lambda>x y. d_of_long d (f la lb)) a b), s)))"

definition leaf :: "string \<Rightarrow> string \<Rightarrow> node list \<Rightarrow> 'v \<Rightarrow> string \<Rightarrow> 'v formula_res evaluation" where
  "leaf rule t ks v s =
     (if ks \<noteq> [] then eval_fail (bad_children rule t ks) s else (Inr (res_of v), s))"

fun eval_expression ::
  "'v arith \<Rightarrow> 'v alm_event list \<Rightarrow> node \<Rightarrow> int \<Rightarrow> string \<Rightarrow> 'v formula_res evaluation"
where
  "eval_expression d es (Node i t n ks) ev_ind s =
     (case i of
        val_rID \<Rightarrow> leaf ''val_rID'' t ks (d_strtod d t) s
      | val_hID \<Rightarrow> leaf ''val_hID'' t ks (d_strtod d t) s
      | val_stID \<Rightarrow> leaf ''val_stID'' t ks (d_of_int d (uint n)) s
      | val_alarm_enum_stID \<Rightarrow> leaf ''val_alarm_enum_stID'' t ks (d_of_int d (uint n)) s
      | val_qualityID \<Rightarrow> leaf ''val_qualityID'' t ks (d_of_int d (uint n)) s
      | indexID \<Rightarrow> leaf ''indexID'' t ks (d_strtod d t) s
      | nameID \<Rightarrow>
          if ks \<noteq> [] then eval_fail (bad_children ''nameID'' t ks) s
          else eval_name d es t ev_ind s
      | unary_exprID \<Rightarrow>
          (case ks of
             [a] \<Rightarrow>
               eval_then (eval_expression d es a 0 s) (\<lambda>r s1.
               (case unary_op d t of
                  None \<Rightarrow> eval_fail (not_allowed ''unary_exprID'' t) s1
                | Some f \<Rightarrow> (Inr (r\<lparr>fr_value := f (fr_value r)\<rparr>), s1)))
           | _ \<Rightarrow> eval_fail (bad_children ''unary_exprID'' t ks) s)
      | funcID \<Rightarrow>
          (case ks of
             [a] \<Rightarrow>
               eval_then (eval_expression d es a 0 s) (\<lambda>r s1.
               (case func_op d t of
                  None \<Rightarrow> eval_fail (not_allowed ''funcID'' t) s1
                | Some f \<Rightarrow> (Inr (r\<lparr>fr_value := f r\<rparr>), s1)))
           | _ \<Rightarrow> eval_fail (bad_children ''funcID'' t ks) s)
      | event_ID \<Rightarrow>
          (case ks of
             [a, b] \<Rightarrow>
               if node_of b = indexID then
                 eval_then (eval_expression d es b 0 s)
                   (\<lambda>ind s1. eval_expression d es a (d_to_int d (fr_value ind)) s1)
               else if node_of b = propertyID then
                 eval_then (eval_expression d es a (d_to_int d (d_of_int d 0)) s)
                   (\<lambda>r s1. (Inr (r\<lparr>fr_value := property_op d (text_of b) r\<rparr>), s1))
               else eval_fail (ev_err (''in node event_ID('' @ t @
                      '') children2 is not an index ->'' @ text_of b)) s
           | _ \<Rightarrow> eval_fail (bad_children ''event_ID'' t ks) s)
      | mult_exprID \<Rightarrow>
          (case ks of
             [a, b] \<Rightarrow>
               (case mult_op d t of
                  None \<Rightarrow> eval_fail (not_allowed ''mult_exprID'' t) s
                | Some f \<Rightarrow>
                    eval_then (eval_expression d es a 0 s) (\<lambda>r1 s1.
                    eval_then (eval_expression d es b 0 s1) (\<lambda>r2 s2. (Inr (combine f r1 r2), s2))))
           | _ \<Rightarrow> eval_fail (bad_children ''mult_exprID'' t ks) s)
      | add_exprID \<Rightarrow>
          (case ks of
             [a, b] \<Rightarrow>
               (case add_op d t of
                  None \<Rightarrow> eval_fail (not_allowed ''add_exprID'' t) s
                | Some f \<Rightarrow>
                    eval_then (eval_expression d es a 0 s) (\<lambda>r1 s1.
                    eval_then (eval_expression d es b 0 s1) (\<lambda>r2 s2. (Inr (combine f r1 r2), s2))))
           | _ \<Rightarrow> eval_fail (bad_children ''add_exprID'' t ks) s)
      | logical_exprID \<Rightarrow>
          (case ks of
             [a, b] \<Rightarrow>
               (case logical_op d t of
                  None \<Rightarrow> eval_fail (not_allowed ''logical_exprID'' t) s
                | Some f \<Rightarrow>
                    eval_then (eval_expression d es a 0 s) (\<lambda>r1 s1.
                    eval_then (eval_expression d es b 0 s1) (\<lambda>r2 s2. (Inr (combine f r1 r2), s2))))
           | _ \<Rightarrow> eval_fail (bad_children ''logical_exprID'' t ks) s)
      | compare_exprID \<Rightarrow>
          (case ks of
             [a, b] \<Rightarrow>
               (case compare_op d t of
                  None \<Rightarrow> eval_fail (not_allowed ''equality_exprID'' t) s
                | Some f \<Rightarrow>
                    eval_then (eval_expression d es a 0 s) (\<lambda>r1 s1.
                    eval_then (eval_expression d es b 0 s1) (\<lambda>r2 s2. (Inr (combine f r1 r2), s2))))
           | _ \<Rightarrow> eval_fail (bad_children ''compare_exprID'' t ks) s)
      | equality_exprID \<Rightarrow>
          (case ks of
             [a, b] \<Rightarrow>
               if node_of a = nameID \<and> node_of b = val_stringID then
                 (if kids_of a = [] \<and> kids_of b = []
                  then eval_string_eq d es t (text_of a) (text_of b) s
                  else (Inr (res_of (d_of_int d 0)), s))
               else
                 (case equality_op d t of
                    None \<Rightarrow> eval_fail (not_allowed ''equality_exprID'' t) s
                  | Some f \<Rightarrow>
                      eval_then (eval_expression d es a 0 s) (\<lambda>r1 s1.
                      eval_then (eval_expression d es b 0 s1)
                        (\<lambda>r2 s2. (Inr (combine f r1 r2), s2))))
           | _ \<Rightarrow> eval_fail (bad_children ''equality_exprID'' t ks) s)
      | bitwise_exprID \<Rightarrow>
          (case ks of
             [a, b] \<Rightarrow>
               eval_then (eval_expression d es a 0 s) (\<lambda>r1 s1.
               eval_then (eval_expression d es b 0 s1) (\<lambda>r2 s2.
                 longs_op d (bitwise_op t) (not_allowed ''bitwise_exprID'' t) False r1 r2 s2))
           | _ \<Rightarrow> eval_fail (bad_children ''bitwise_exprID'' t ks) s)
      | shift_exprID \<Rightarrow>
          (case ks of
             [a, b] \<Rightarrow>
               eval_then (eval_expression d es a 0 s) (\<lambda>r1 s1.
               eval_then (eval_expression d es b 0 s1) (\<lambda>r2 s2.
                 longs_op d (shift_op t) (not_allowed ''shift_exprID'' t) True r1 r2 s2))
           | _ \<Rightarrow> eval_fail (bad_children ''shift_exprID'' t ks) s)
      | func_dualID \<Rightarrow>
          (case ks of
             [a, b] \<Rightarrow>
               eval_then (eval_expression d es a 0 s) (\<lambda>r1 s1.
               eval_then (eval_expression d es b 0 s1) (\<lambda>r2 s2.
               (case dual_op d t of
                  None \<Rightarrow> eval_fail (not_allowed ''func_dualID'' t) s2
                | Some f \<Rightarrow> (Inr (combine f r1 r2), s2))))
           | _ \<Rightarrow> eval_fail (bad_children ''func_dualID'' t ks) s)
      | cond_exprID \<Rightarrow>
          (case ks of
             [a, b, c] \<Rightarrow>
               eval_then (eval_expression d es a 0 s) (\<lambda>r1 s1.
               if d_true d (fr_value r1) then eval_expression d es b 0 s1
               else eval_expression d es c 0 s1)
           | _ \<Rightarrow> eval_fail (bad_children ''ternary_ifID'' t ks) s)
      | _ \<Rightarrow> eval_fail (ev_err (''node unknown!! value='' @ t)) s)"

definition eval_formula ::
  "'v arith \<Rightarrow> 'v alm_event list \<Rightarrow> node \<Rightarrow> string \<Rightarrow> 'v formula_res evaluation"
where
  "eval_formula d es tree s = eval_expression d es tree 0 s"

subsection \<open>The events of a formula\<close>

text \<open>The names are collected into a vector; on an error the names before it stay in it.\<close>

fun eval_node_event :: "node \<Rightarrow> string list \<Rightarrow> (string + unit) \<times> string list"
and eval_node_events :: "node list \<Rightarrow> string list \<Rightarrow> (string + unit) \<times> string list"
where
  "eval_node_event (Node i t n ks) ev =
     (if i = nameID \<and> ks \<noteq> [] then
        (Inl (''Looking for event in formula tree: in node nameID('' @ t @ '') children='' @
              show_nat (length ks)), ev)
      else eval_node_events ks (if i = nameID then ev @ [to_lower t] else ev))"
| "eval_node_events [] ev = (Inr (), ev)"
| "eval_node_events (k # ks) ev =
     (case eval_node_event k ev of
        (Inl e, ev1) \<Rightarrow> (Inl e, ev1)
      | (Inr u, ev1) \<Rightarrow> eval_node_events ks ev1)"

definition find_event_formula :: "node \<Rightarrow> string list \<Rightarrow> (string + unit) \<times> string list" where
  "find_event_formula tree ev = eval_node_event tree ev"

end
