(* ===== verification/AlarmTable.thy ===== *)
theory AlarmTable
  imports AlarmFormula
begin

text \<open>
  The alarm table: class \<open>alarm_table\<close> (\<open>alarm_table.cpp\<close>), the update of an alarm with the result of
  its formula, the periodic update for the delays and the silence time, and the commands that these
  queue for the command thread (\<open>cmd_thread.h\<close>).

  All calls of \<open>gettime\<close> in one operation return the same instant \<open>now\<close>. The events pushed to the
  Tango clients are collected in a list; pushing does not fail in the model.
\<close>

record cmd =
  dp_add :: "string option"
  arg_s1 :: string
  arg_s2 :: string
  arg_s3 :: string
  arg_b :: bool

datatype push = PushState string alarm_state int | PushError string string string string

record alarm_table =
  v_alarm :: alarm_container
  cmd_list :: "cmd list"
  startup_complete :: timeval

text \<open>The change and archive event of the attribute of an alarm: its value, or its exception.\<close>

definition push_of :: "alarm \<Rightarrow> push" where
  "push_of a =
     (if length (ex_reason a) = 0 then PushState (attr_name a) (attr_value a) (al_quality a)
      else PushError (attr_name a) (ex_reason a) (ex_desc a) (ex_origin a))"

subsection \<open>Simple operations\<close>

definition at_push_back :: "alarm \<Rightarrow> alarm_table \<Rightarrow> alarm_table" where
  "at_push_back a t = t\<lparr>v_alarm := map_insert (al_name a) a (v_alarm t)\<rparr>"

definition at_size :: "alarm_table \<Rightarrow> nat" where
  "at_size t = length (v_alarm t)"

definition at_erase :: "string \<Rightarrow> alarm_table \<Rightarrow> alarm_table" where
  "at_erase nm t = t\<lparr>v_alarm := map_erase nm (v_alarm t)\<rparr>"

definition at_exist :: "string \<Rightarrow> alarm_table \<Rightarrow> bool" where
  "at_exist s t \<longleftrightarrow> map_of (v_alarm t) s \<noteq> None"

definition restore_alarm :: "alarm \<Rightarrow> alarm \<Rightarrow> alarm" where
  "restore_alarm i a =
     a\<lparr>al_ts := al_ts i, stat := stat i, ack := ack i, al_done := al_done i, is_new := is_new i\<rparr>"

definition at_stored :: "alarm list \<Rightarrow> alarm_table \<Rightarrow> alarm_table" where
  "at_stored as t =
     t\<lparr>v_alarm := fold (\<lambda>i. map_modify (al_name i) (restore_alarm i)) as (v_alarm t)\<rparr>"

definition to_be_evaluated_list :: "alarm_table \<Rightarrow> string list" where
  "to_be_evaluated_list t = List.map fst (filter (\<lambda>p. to_be_evaluated (snd p)) (v_alarm t))"

definition to_be_evaluated_num :: "alarm_table \<Rightarrow> nat" where
  "to_be_evaluated_num t = count_if (\<lambda>p. to_be_evaluated (snd p)) (v_alarm t)"

subsection \<open>Commands\<close>

definition commas :: "string \<Rightarrow> string" where
  "commas = List.map (\<lambda>c. if c = CHR '';'' then CHR '','' else c)"

definition command_arg :: "string \<Rightarrow> string \<Rightarrow> string \<Rightarrow> string \<Rightarrow> string \<Rightarrow> string" where
  "command_arg nm groups m vals formula =
     ''name='' @ nm @ '';groups='' @ groups @ '';msg='' @ commas m @ '';values='' @ commas vals @
     '';formula='' @ formula"

text \<open>The actions are disabled during the first ten seconds after the start.\<close>

definition startup_over :: "timeval \<Rightarrow> timeval \<Rightarrow> bool" where
  "startup_over startup ts \<longleftrightarrow> sint (tv_sec ts) - sint (tv_sec startup) > 10"

definition on_command :: "timeval \<Rightarrow> timeval \<Rightarrow> string \<Rightarrow> alarm \<Rightarrow> cmd list" where
  "on_command startup ts arg a =
     (if dp_a a \<noteq> None \<and> startup_over startup ts then
        [\<lparr>dp_add = dp_a a, arg_s1 = arg, arg_s2 = cmd_action_a a, arg_s3 = cmd_name_a a,
          arg_b = send_arg_a a\<rparr>]
      else [])"

definition off_command :: "timeval \<Rightarrow> timeval \<Rightarrow> string \<Rightarrow> alarm \<Rightarrow> cmd list" where
  "off_command startup ts arg a =
     (if dp_n a \<noteq> None \<and> startup_over startup ts then
        [\<lparr>dp_add = dp_n a, arg_s1 = arg, arg_s2 = cmd_action_n a, arg_s3 = cmd_name_n a,
          arg_b = send_arg_n a\<rparr>]
      else [])"

subsection \<open>Update with the result of the formula\<close>

text \<open>The delay has passed; the arithmetic is that of \<open>unsigned int\<close>.\<close>

definition delay_passed :: "timeval \<Rightarrow> u32 \<Rightarrow> u32 \<Rightarrow> timeval \<Rightarrow> bool" where
  "delay_passed ts delay counter since \<longleftrightarrow> counter \<ge> 1 \<and> tv_sec since < tv_sec ts - delay"

definition on_status :: "timeval \<Rightarrow> bool \<Rightarrow> alarm \<Rightarrow> bool" where
  "on_status ts v a \<longleftrightarrow>
     (if on_delay a > 0 then v \<and> delay_passed ts (on_delay a) (on_counter a) (ts_on_delay a) else v)"

definition off_status :: "timeval \<Rightarrow> bool \<Rightarrow> alarm \<Rightarrow> bool" where
  "off_status ts v a \<longleftrightarrow>
     (if off_delay a > 0
      then \<not> v \<and> delay_passed ts (off_delay a) (off_counter a) (ts_off_delay a) else \<not> v)"

definition status_changes :: "bool \<Rightarrow> bool \<Rightarrow> alarm \<Rightarrow> bool" where
  "status_changes on off a \<longleftrightarrow> (on \<and> stat a = S_NORMAL) \<or> (off \<and> stat a = S_ALARM)"

definition set_stat :: "bool \<Rightarrow> bool \<Rightarrow> alarm \<Rightarrow> alarm" where
  "set_stat on off a =
     (if on then a\<lparr>stat := S_ALARM\<rparr> else if off then a\<lparr>stat := S_NORMAL\<rparr> else a)"

text \<open>The value \<open>v\<close> of the formula, its quality and its exception.\<close>

record outcome =
  oc_on :: bool
  oc_quality :: int
  oc_reason :: string
  oc_desc :: string
  oc_origin :: string

definition take_result :: "outcome \<Rightarrow> alarm \<Rightarrow> alarm" where
  "take_result r a =
     a\<lparr>al_quality := oc_quality r, ex_reason := oc_reason r, ex_desc := oc_desc r,
       ex_origin := oc_origin r\<rparr>"

definition note_change :: "timeval \<Rightarrow> bool \<Rightarrow> alarm \<Rightarrow> alarm" where
  "note_change ts v a =
     (if v then a\<lparr>ack := NOT_ACK, al_ts := ts, is_new := 1\<rparr> else a\<lparr>al_ts := ts\<rparr>)"

definition count_eval :: "timeval \<Rightarrow> bool \<Rightarrow> string \<Rightarrow> alarm \<Rightarrow> alarm" where
  "count_eval now v vals a =
     (let b = (if v then a\<lparr>on_counter := on_counter a + 1, off_counter := 0\<rparr>
               else a\<lparr>on_counter := 0, off_counter := off_counter a + 1\<rparr>);
          c = b\<lparr>attr_values_delay := vals\<rparr>;
          e = (if on_counter c = 1 then c\<lparr>ts_on_delay := now\<rparr> else c)
      in if off_counter e = 1 then e\<lparr>ts_off_delay := now\<rparr> else e)"

text \<open>The results are the new alarm, the commands to execute and whether the status changed.\<close>

definition update_one ::
  "timeval \<Rightarrow> timeval \<Rightarrow> timeval \<Rightarrow> outcome \<Rightarrow> string \<Rightarrow> string \<Rightarrow> alarm \<Rightarrow> alarm \<times> cmd list \<times> bool"
where
  "update_one now startup ts r vals arg a =
     (let a1 = take_result r (countdown_ack now a);
          v = oc_on r;
          on = on_status ts v a1;
          off = off_status ts v a1;
          changed = status_changes on off a1;
          a2 = (if changed then note_change ts v a1 else a1);
          cmds = (if changed then
                    (if v then on_command startup ts arg a2 else off_command startup ts arg a2)
                  else [])
      in (count_eval now v vals (set_stat on off a2), cmds, changed))"

definition at_update ::
  "timeval \<Rightarrow> string \<Rightarrow> timeval \<Rightarrow> outcome \<Rightarrow> string \<Rightarrow> string \<Rightarrow> string \<Rightarrow> string \<Rightarrow> alarm_table \<Rightarrow>
   (alarm_error + bool) \<times> alarm_table"
where
  "at_update now nm ts r vals groups m formula t =
     (case map_of (v_alarm t) nm of
        None \<Rightarrow>
          (Inl (AlarmString (''couldn'' @ [CHR 0x27] @ ''t find alarm '' @ [CHR 0x27] @ nm @
                  [CHR 0x27] @ '' in '' @ [CHR 0x27] @ ''alarms'' @ [CHR 0x27] @ '' table'')), t)
      | Some a \<Rightarrow>
          (case update_one now (startup_complete t) ts r vals (command_arg nm groups m vals formula) a of
             (b, cmds, changed) \<Rightarrow>
               (Inr changed, t\<lparr>v_alarm := map_modify nm (\<lambda>x. b) (v_alarm t),
                               cmd_list := cmd_list t @ cmds\<rparr>)))"

subsection \<open>Periodic update\<close>

definition timer_attr_value :: "bool \<Rightarrow> bool \<Rightarrow> alarm \<Rightarrow> alarm_state" where
  "timer_attr_value on off a =
     (if \<not> enabled a then OOSRV
      else if shelved a \<and> silenced a > 0 then SHLVD
      else if off \<and> ack a = ACK then NORM
      else if on \<and> ack a = NOT_ACK then UNACK
      else if on \<and> ack a = ACK then ACKED
      else if off \<and> ack a = NOT_ACK then RTNUN
      else attr_value a)"

definition timer_idle :: "alarm \<Rightarrow> bool" where
  "timer_idle a \<longleftrightarrow> on_delay a = 0 \<and> off_delay a = 0 \<and> \<not> shelved a \<and> silenced a \<le> 0"

definition timer_on :: "timeval \<Rightarrow> alarm \<Rightarrow> bool" where
  "timer_on now a \<longleftrightarrow>
     on_delay a > 0 \<and> delay_passed now (on_delay a) (on_counter a) (ts_on_delay a)"

definition timer_off :: "timeval \<Rightarrow> alarm \<Rightarrow> bool" where
  "timer_off now a \<longleftrightarrow>
     off_delay a > 0 \<and> delay_passed now (off_delay a) (off_counter a) (ts_off_delay a)"

definition timer_note :: "timeval \<Rightarrow> bool \<Rightarrow> bool \<Rightarrow> alarm \<Rightarrow> alarm" where
  "timer_note now on off a =
     (let b = (if on then a\<lparr>ack := NOT_ACK, al_ts := now, is_new := 1, off_counter := 0\<rparr>
               else if off then a\<lparr>al_ts := now, on_counter := 0\<rparr>
               else a\<lparr>al_ts := now\<rparr>)
      in b\<lparr>attr_value := timer_attr_value on off b\<rparr>)"

definition timer_one ::
  "timeval \<Rightarrow> timeval \<Rightarrow> groups \<Rightarrow> alarm \<Rightarrow> alarm \<times> cmd list \<times> push list \<times> bool"
where
  "timer_one now startup gs a =
     (if timer_idle a then (a, [], [], False)
      else
        let on = timer_on now a;
            off = timer_off now a;
            a1 = countdown_ack now a;
            changed = (status_changes on off a1 \<or> (shelved a \<and> \<not> shelved a1));
            arg = command_arg (al_name a1) (grp2str gs a1) (msg a1) (attr_values_delay a1) (al_formula a1);
            a2 = (if changed then timer_note now on off a1 else a1);
            cmds = (if \<not> changed then []
                    else if on then on_command startup now arg a1
                    else if off \<and> stat a1 = S_ALARM then off_command startup now arg a1
                    else []);
            pushes = (if changed then [push_of a2] else [])
        in (set_stat on off a2, cmds, pushes,
            changed \<or> (silenced a > 0 \<and> silenced a1 = 0)))"

fun timer_all ::
  "timeval \<Rightarrow> timeval \<Rightarrow> groups \<Rightarrow> alarm_container \<Rightarrow> alarm_container \<times> cmd list \<times> push list \<times> bool"
where
  "timer_all now startup gs [] = ([], [], [], False)"
| "timer_all now startup gs ((k, a) # m) =
     (case timer_one now startup gs a of
        (b, c, p, ch) \<Rightarrow>
          (case timer_all now startup gs m of
             (m', cs, ps, ch') \<Rightarrow> ((k, b) # m', c @ cs, p @ ps, ch \<or> ch')))"

definition at_timer_update :: "timeval \<Rightarrow> groups \<Rightarrow> alarm_table \<Rightarrow> bool \<times> push list \<times> alarm_table" where
  "at_timer_update now gs t =
     (case timer_all now (startup_complete t) gs (v_alarm t) of
        (m, cs, ps, ch) \<Rightarrow> (ch, ps, t\<lparr>v_alarm := m, cmd_list := cmd_list t @ cs\<rparr>))"

end
