(* ===== verification/AlarmTableSpec.thy ===== *)
theory AlarmTableSpec
  imports AlarmTable
begin

text \<open>
  The contract of the alarm table: the states of an alarm as a state machine (normal, unacknowledged,
  acknowledged, returned to normal unacknowledged), which \<open>update\<close> and \<open>timer_update\<close> refine; the
  types of the members; the meaning of the on and off delays over a sequence of evaluations; the
  countdown of the silence time.
\<close>

subsection \<open>Simplification rules\<close>

named_theorems alarm_defs
lemmas [alarm_defs] = countdown_def countdown_ack_def take_result_def note_change_def count_eval_def
  set_stat_def timer_note_def Let_def

text \<open>The members that the countdown, the result and the counters leave as they are.\<close>

lemma countdown_ack_keeps [simp]:
  "stat (countdown_ack now a) = stat a" "enabled (countdown_ack now a) = enabled a"
  "on_delay (countdown_ack now a) = on_delay a" "off_delay (countdown_ack now a) = off_delay a"
  "on_counter (countdown_ack now a) = on_counter a" "off_counter (countdown_ack now a) = off_counter a"
  "ts_on_delay (countdown_ack now a) = ts_on_delay a" "ts_off_delay (countdown_ack now a) = ts_off_delay a"
  "al_name (countdown_ack now a) = al_name a" "attr_name (countdown_ack now a) = attr_name a"
  "silent_time (countdown_ack now a) = silent_time a" "s_event (countdown_ack now a) = s_event a"
  "al_formula (countdown_ack now a) = al_formula a" "formula_tree (countdown_ack now a) = formula_tree a"
  by (simp_all add: countdown_ack_def Let_def)

lemma take_result_keeps [simp]:
  "stat (take_result r a) = stat a" "ack (take_result r a) = ack a"
  "enabled (take_result r a) = enabled a" "shelved (take_result r a) = shelved a"
  "silenced (take_result r a) = silenced a" "is_new (take_result r a) = is_new a"
  "on_delay (take_result r a) = on_delay a" "off_delay (take_result r a) = off_delay a"
  "on_counter (take_result r a) = on_counter a" "off_counter (take_result r a) = off_counter a"
  "ts_on_delay (take_result r a) = ts_on_delay a" "ts_off_delay (take_result r a) = ts_off_delay a"
  "al_name (take_result r a) = al_name a" "attr_name (take_result r a) = attr_name a"
  "silent_time (take_result r a) = silent_time a" "s_event (take_result r a) = s_event a"
  by (simp_all add: take_result_def)

lemma note_change_keeps [simp]:
  "stat (note_change ts v a) = stat a" "enabled (note_change ts v a) = enabled a"
  "shelved (note_change ts v a) = shelved a" "silenced (note_change ts v a) = silenced a"
  "on_delay (note_change ts v a) = on_delay a" "off_delay (note_change ts v a) = off_delay a"
  "on_counter (note_change ts v a) = on_counter a" "off_counter (note_change ts v a) = off_counter a"
  "ts_on_delay (note_change ts v a) = ts_on_delay a" "ts_off_delay (note_change ts v a) = ts_off_delay a"
  "al_name (note_change ts v a) = al_name a" "silent_time (note_change ts v a) = silent_time a"
  "attr_name (note_change ts v a) = attr_name a"
  "ack (note_change ts v a) = (if v then NOT_ACK else ack a)"
  by (simp_all add: note_change_def)

lemma set_stat_keeps [simp]:
  "stat (set_stat on off a) = (if on then S_ALARM else if off then S_NORMAL else stat a)"
  "ack (set_stat on off a) = ack a" "enabled (set_stat on off a) = enabled a"
  "shelved (set_stat on off a) = shelved a" "silenced (set_stat on off a) = silenced a"
  "on_delay (set_stat on off a) = on_delay a" "off_delay (set_stat on off a) = off_delay a"
  "on_counter (set_stat on off a) = on_counter a" "off_counter (set_stat on off a) = off_counter a"
  "ts_on_delay (set_stat on off a) = ts_on_delay a" "ts_off_delay (set_stat on off a) = ts_off_delay a"
  "al_name (set_stat on off a) = al_name a" "silent_time (set_stat on off a) = silent_time a"
  "attr_name (set_stat on off a) = attr_name a" "attr_value (set_stat on off a) = attr_value a"
  by (simp_all add: set_stat_def)

lemma count_eval_keeps [simp]:
  "stat (count_eval now v vals a) = stat a" "ack (count_eval now v vals a) = ack a"
  "enabled (count_eval now v vals a) = enabled a" "shelved (count_eval now v vals a) = shelved a"
  "silenced (count_eval now v vals a) = silenced a" "al_name (count_eval now v vals a) = al_name a"
  "on_delay (count_eval now v vals a) = on_delay a" "off_delay (count_eval now v vals a) = off_delay a"
  "silent_time (count_eval now v vals a) = silent_time a"
  "attr_name (count_eval now v vals a) = attr_name a"
  "on_counter (count_eval now v vals a) = (if v then on_counter a + 1 else 0)"
  "off_counter (count_eval now v vals a) = (if v then 0 else off_counter a + 1)"
  by (simp_all add: count_eval_def Let_def)

lemma on_off_keep [simp]:
  "on_status ts v (take_result r a) = on_status ts v a"
  "on_status ts v (countdown_ack now a) = on_status ts v a"
  "off_status ts v (take_result r a) = off_status ts v a"
  "off_status ts v (countdown_ack now a) = off_status ts v a"
  "status_changes on off (take_result r a) = status_changes on off a"
  "status_changes on off (countdown_ack now a) = status_changes on off a"
  by (simp_all add: on_status_def off_status_def status_changes_def)

lemma on_off_value [simp]: "\<not> on_status ts False a" "\<not> off_status ts True a"
  by (simp_all add: on_status_def off_status_def)

lemma on_off_exclusive: "\<not> (on_status ts v a \<and> off_status ts v a)"
  by (auto simp: on_status_def off_status_def split: if_splits)

lemma update_one_alarm:
  "fst (update_one now st ts r vals arg a) =
     (let on = on_status ts (oc_on r) a; off = off_status ts (oc_on r) a;
          a1 = take_result r (countdown_ack now a)
      in count_eval now (oc_on r) vals (set_stat on off
           (if status_changes on off a then note_change ts (oc_on r) a1 else a1)))"
  by (simp add: update_one_def Let_def)

lemma update_one_changed:
  "snd (snd (update_one now st ts r vals arg a)) =
     status_changes (on_status ts (oc_on r) a) (off_status ts (oc_on r) a) a"
  by (simp add: update_one_def Let_def)

subsection \<open>The states of an alarm\<close>

definition alarm_typed :: "alarm \<Rightarrow> bool" where
  "alarm_typed a \<longleftrightarrow> stat a \<in> {S_NORMAL, S_ALARM} \<and> ack a \<in> {ACK, NOT_ACK}"

datatype life = Normal | Unacknowledged | Acknowledged | Returned

definition life_of :: "alarm \<Rightarrow> life" where
  "life_of a =
     (if stat a = S_ALARM then (if ack a = ACK then Acknowledged else Unacknowledged)
      else (if ack a = ACK then Normal else Returned))"

datatype stimulus = Raise | Clear | Idle | Confirm

text \<open>Raising, clearing and acknowledging an alarm.\<close>

fun life_step :: "stimulus \<Rightarrow> life \<Rightarrow> life" where
  "life_step Raise Normal = Unacknowledged"
| "life_step Raise Returned = Unacknowledged"
| "life_step Clear Unacknowledged = Returned"
| "life_step Clear Acknowledged = Normal"
| "life_step Confirm Unacknowledged = Acknowledged"
| "life_step Confirm Returned = Normal"
| "life_step x l = l"

definition stimulus_of :: "bool \<Rightarrow> bool \<Rightarrow> stimulus" where
  "stimulus_of on off = (if on then Raise else if off then Clear else Idle)"

definition silence_ends :: "timeval \<Rightarrow> alarm \<Rightarrow> bool" where
  "silence_ends now a \<longleftrightarrow>
     silenced a > 0 \<and> silent_time a \<le> elapsed_minutes now (ts_time_silenced a)"

lemma life_countdown:
  "life_of (countdown_ack now a) =
     (if silence_ends now a then life_step Confirm (life_of a) else life_of a)"
  by (auto simp: life_of_def countdown_ack_def silence_ends_def Let_def)

lemma typed_countdown: "alarm_typed a \<Longrightarrow> alarm_typed (countdown_ack now a)"
  by (auto simp: alarm_typed_def countdown_ack_def Let_def)

lemma update_one_typed:
  "alarm_typed a \<Longrightarrow> alarm_typed (fst (update_one now st ts r vals arg a))"
  using typed_countdown [of a now]
  by (auto simp: update_one_alarm alarm_typed_def Let_def)

text \<open>The result of \<open>update\<close> says whether the status is another one.\<close>

lemma update_one_reports:
  assumes "alarm_typed a"
  shows "snd (snd (update_one now st ts r vals arg a)) =
    (stat (fst (update_one now st ts r vals arg a)) \<noteq> stat a)"
proof -
  let ?on = "on_status ts (oc_on r) a" and ?off = "off_status ts (oc_on r) a"
  have "stat (fst (update_one now st ts r vals arg a)) = stat (set_stat ?on ?off a)"
    by (simp add: update_one_alarm Let_def)
  moreover have "status_changes ?on ?off a = (stat (set_stat ?on ?off a) \<noteq> stat a)"
    using assms on_off_exclusive [of ts "oc_on r" a]
    by (cases ?on; cases ?off) (auto simp: status_changes_def set_stat_def alarm_typed_def)
  ultimately show ?thesis by (simp add: update_one_changed)
qed

text \<open>
  \<open>update\<close> refines the state machine: the alarm is raised when its formula holds and the on delay has
  passed, cleared when it does not hold and the off delay has passed; the end of the silence time
  acknowledges it before.
\<close>

lemma update_one_life:
  assumes "alarm_typed a"
  shows "life_of (fst (update_one now st ts r vals arg a)) =
    life_step (stimulus_of (on_status ts (oc_on r) a) (off_status ts (oc_on r) a))
      (if silence_ends now a then life_step Confirm (life_of a) else life_of a)"
proof -
  let ?on = "on_status ts (oc_on r) a" and ?off = "off_status ts (oc_on r) a"
  let ?c = "countdown_ack now a"
  have typed: "ack ?c \<in> {ACK, NOT_ACK}" "stat a \<in> {S_NORMAL, S_ALARM}"
    using assms typed_countdown [OF assms, of now] by (auto simp: alarm_typed_def)
  have "life_of (fst (update_one now st ts r vals arg a)) = life_step (stimulus_of ?on ?off) (life_of ?c)"
    using typed
    by (cases "oc_on r") (auto simp: update_one_alarm life_of_def stimulus_of_def status_changes_def Let_def)
  then show ?thesis by (simp add: life_countdown)
qed

subsection \<open>The periodic update\<close>

lemma timer_note_keeps [simp]:
  "stat (timer_note now on off a) = stat a" "enabled (timer_note now on off a) = enabled a"
  "shelved (timer_note now on off a) = shelved a" "silenced (timer_note now on off a) = silenced a"
  "al_name (timer_note now on off a) = al_name a" "attr_name (timer_note now on off a) = attr_name a"
  "ack (timer_note now on off a) = (if on then NOT_ACK else ack a)"
  "on_counter (timer_note now on off a) = (if \<not> on \<and> off then 0 else on_counter a)"
  "off_counter (timer_note now on off a) = (if on then 0 else off_counter a)"
  by (simp_all add: timer_note_def Let_def)

definition timer_changes :: "timeval \<Rightarrow> alarm \<Rightarrow> bool" where
  "timer_changes now a \<longleftrightarrow>
     status_changes (timer_on now a) (timer_off now a) a \<or> (shelved a \<and> silence_ends now a)"

lemma unshelved_iff: "shelved a \<and> \<not> shelved (countdown_ack now a) \<longleftrightarrow> shelved a \<and> silence_ends now a"
  by (auto simp: countdown_ack_def silence_ends_def Let_def)

lemma timer_one_alarm:
  "\<not> timer_idle a \<Longrightarrow>
   fst (timer_one now st gs a) =
     (let on = timer_on now a; off = timer_off now a; a1 = countdown_ack now a
      in set_stat on off (if timer_changes now a then timer_note now on off a1 else a1))"
  using unshelved_iff [of a now] by (simp add: timer_one_def timer_changes_def Let_def)

lemma timer_one_idle: "timer_idle a \<Longrightarrow> timer_one now st gs a = (a, [], [], False)"
  by (simp add: timer_one_def)

lemma timer_one_typed: "alarm_typed a \<Longrightarrow> alarm_typed (fst (timer_one now st gs a))"
proof (cases "timer_idle a")
  case True
  then show "alarm_typed a \<Longrightarrow> ?thesis" by (simp add: timer_one_idle)
next
  case False
  then show "alarm_typed a \<Longrightarrow> ?thesis"
    using typed_countdown [of a now] by (auto simp: timer_one_alarm alarm_typed_def Let_def)
qed

text \<open>
  The periodic update refines it too, with one more transition: an alarm that is raised for longer
  than its on delay when its shelving ends is unacknowledged again.
\<close>

definition timer_life :: "timeval \<Rightarrow> alarm \<Rightarrow> life" where
  "timer_life now a =
     (let l = (if silence_ends now a then life_step Confirm (life_of a) else life_of a)
      in if timer_on now a \<and> shelved a \<and> silence_ends now a then Unacknowledged
         else life_step (stimulus_of (timer_on now a) (timer_off now a)) l)"

text \<open>One of the counters is zero.\<close>

definition counters_exclusive :: "alarm \<Rightarrow> bool" where
  "counters_exclusive a \<longleftrightarrow> on_counter a = 0 \<or> off_counter a = 0"

lemma timer_exclusive: "counters_exclusive a \<Longrightarrow> \<not> (timer_on now a \<and> timer_off now a)"
  by (auto simp: counters_exclusive_def timer_on_def timer_off_def delay_passed_def)

lemma timer_one_life:
  assumes "alarm_typed a" "counters_exclusive a" "\<not> timer_idle a"
  shows "life_of (fst (timer_one now st gs a)) = timer_life now a"
proof -
  let ?on = "timer_on now a" and ?off = "timer_off now a" and ?c = "countdown_ack now a"
  have typed: "ack ?c \<in> {ACK, NOT_ACK}" "stat a \<in> {S_NORMAL, S_ALARM}"
    using assms typed_countdown [OF assms(1), of now] by (auto simp: alarm_typed_def)
  have "life_of (fst (timer_one now st gs a)) =
      (if ?on \<and> shelved a \<and> silence_ends now a then Unacknowledged
       else life_step (stimulus_of ?on ?off) (life_of ?c))"
    using typed timer_exclusive [OF assms(2), of now]
    by (auto simp: timer_one_alarm [OF assms(3)] life_of_def stimulus_of_def timer_changes_def
        status_changes_def Let_def)
  then show ?thesis by (simp add: timer_life_def life_countdown)
qed

lemma update_one_counters: "counters_exclusive (fst (update_one now st ts r vals arg a))"
  by (simp add: counters_exclusive_def update_one_alarm Let_def)

lemma timer_one_counters:
  "counters_exclusive a \<Longrightarrow> counters_exclusive (fst (timer_one now st gs a))"
  by (cases "timer_idle a")
    (auto simp: timer_one_idle timer_one_alarm counters_exclusive_def Let_def)

subsection \<open>The delays\<close>

text \<open>A sequence of evaluations of one alarm.\<close>

record eval_step =
  es_now :: timeval
  es_ts :: timeval
  es_outcome :: outcome
  es_vals :: string

fun eval_run :: "timeval \<Rightarrow> eval_step list \<Rightarrow> alarm \<Rightarrow> alarm" where
  "eval_run st [] a = a"
| "eval_run st (x # h) a =
     eval_run st h (fst (update_one (es_now x) st (es_ts x) (es_outcome x) (es_vals x) [] a))"

lemma eval_run_snoc:
  "eval_run st (h @ [x]) a =
     fst (update_one (es_now x) st (es_ts x) (es_outcome x) (es_vals x) [] (eval_run st h a))"
  by (induction h arbitrary: a) simp_all

text \<open>The alarm is due since the evaluation \<open>x\<close>: the formula has held from it on.\<close>

definition held_since :: "eval_step list \<Rightarrow> timeval \<Rightarrow> bool" where
  "held_since h t \<longleftrightarrow>
     (\<exists>h1 x h2. h = h1 @ x # h2 \<and> es_now x = t \<and> (\<forall>y\<in>set (x # h2). oc_on (es_outcome y)))"

lemma held_since_snoc:
  "held_since h t \<Longrightarrow> oc_on (es_outcome x) \<Longrightarrow> held_since (h @ [x]) t"
  unfolding held_since_def by (elim exE) (rule_tac x = h1 in exI, rule_tac x = xa in exI, rule_tac x = "h2 @ [x]" in exI, simp)

lemma held_since_last: "oc_on (es_outcome x) \<Longrightarrow> held_since (h @ [x]) (es_now x)"
  unfolding held_since_def by (rule exI [of _ h], rule exI [of _ x], rule exI [of _ "[]"]) simp

lemma count_eval_ts_on:
  "ts_on_delay (count_eval now v vals a) =
     (if v \<and> on_counter a = 0 then now else ts_on_delay a)"
  by (auto simp: count_eval_def Let_def)

lemma ts_on_delay_keeps [simp]:
  "ts_on_delay (set_stat on off a) = ts_on_delay a"
  "ts_on_delay (note_change ts v a) = ts_on_delay a"
  by (simp_all add: set_stat_def note_change_def)

lemma update_one_ts_on:
  "ts_on_delay (fst (update_one now st ts r vals arg a)) =
     (if oc_on r \<and> on_counter a = 0 then now else ts_on_delay a)"
  by (simp add: update_one_alarm count_eval_ts_on Let_def)

lemma update_one_on_counter:
  "on_counter (fst (update_one now st ts r vals arg a)) = (if oc_on r then on_counter a + 1 else 0)"
  by (simp add: update_one_alarm Let_def)

lemma delay_history:
  assumes "on_counter a = 0"
  shows "on_counter (eval_run st h a) \<noteq> 0 \<Longrightarrow> held_since h (ts_on_delay (eval_run st h a))"
proof (induction h rule: rev_induct)
  case Nil
  with assms show ?case by simp
next
  case (snoc x h)
  have on: "oc_on (es_outcome x)"
    using snoc.prems by (simp add: eval_run_snoc update_one_on_counter split: if_splits)
  show ?case
  proof (cases "on_counter (eval_run st h a) = 0")
    case True
    then show ?thesis using on held_since_last [OF on, of h] by (simp add: eval_run_snoc update_one_ts_on)
  next
    case False
    then show ?thesis using held_since_snoc [OF snoc.IH [OF False] on]
      by (simp add: eval_run_snoc update_one_ts_on)
  qed
qed

text \<open>The delay of an alarm does not change while it is evaluated.\<close>

lemma eval_run_delay [simp]: "on_delay (eval_run st h a) = on_delay a"
  by (induction h arbitrary: a) (simp_all add: update_one_alarm Let_def)

lemma delayed_raise:
  assumes "on_counter a = 0" "on_delay a > 0"
    and "stat (eval_run st h a) = S_NORMAL" "stat (eval_run st (h @ [x]) a) = S_ALARM"
  shows "oc_on (es_outcome x) \<and>
    (\<exists>t. held_since h t \<and> tv_sec t < tv_sec (es_ts x) - on_delay a)"
proof -
  let ?b = "eval_run st h a"
  have "on_status (es_ts x) (oc_on (es_outcome x)) ?b"
    using assms(3,4) by (auto simp: eval_run_snoc update_one_alarm Let_def split: if_splits)
  then have "oc_on (es_outcome x)" and
    d: "delay_passed (es_ts x) (on_delay a) (on_counter ?b) (ts_on_delay ?b)"
    using assms(2) by (simp_all add: on_status_def)
  moreover have "on_counter ?b \<noteq> 0" using d by (auto simp: delay_passed_def)
  ultimately show ?thesis using delay_history [OF assms(1)] by (auto simp: delay_passed_def)
qed

end
