(* ===== verification/AlarmPublish.thy ===== *)
theory AlarmPublish
  imports AlarmTableSpec
begin

text \<open>
  The state of the alarm device (class \<open>AlarmHandler\<close>, \<open>AlarmHandler.h\<close>), the internal alarms that
  report its errors, and \<open>prepare_alarm_attr\<close>, which computes the list attributes and keeps the table
  \<open>alarmed\<close> of the alarms to show.

  The list attributes are arrays of \<open>MAX_ALARMS\<close> entries which the code fills without a test; the
  model is that of a table with at most so many alarms. \<open>localtime_r\<close> and \<open>strftime\<close> are the argument
  \<open>aw_localtime\<close>.
\<close>

subsection \<open>State\<close>

abbreviation (input) MAX_ALARMS :: nat where "MAX_ALARMS \<equiv> 2000"
abbreviation (input) INTERNAL_ERROR :: string where "INTERNAL_ERROR \<equiv> ''internal_error''"

record alarm_lists =
  outOfServiceAlarms :: "string list"
  shelvedAlarms :: "string list"
  acknowledgedAlarms :: "string list"
  unacknowledgedAlarms :: "string list"
  unacknowledgedNormalAlarms :: "string list"
  normalAlarms :: "string list"
  silencedAlarms :: "string list"
  listAlarms :: "string list"
  alarmFrequency :: "u32 list"
  alarmSummary :: "string list"
  alarmAudible :: bool
  ds_rows :: "string list"

text \<open>
  What is pushed to the clients: the attribute of one alarm, the frequencies, or the lists. Most
  commands push the summary without its length, so that only its first line is sent; \<open>shelve\<close> and
  \<open>enable\<close> leave out the frequencies and the audible signal as well.
\<close>

datatype publication = All_Lists | First_Summary | Without_Audible

datatype published =
  OfAlarm push | OfFrequency "u32 list" | OfLists publication alarm_lists

type_synonym db_properties = "(string \<times> string) list"

record 'v alarm_device =
  d_alarms :: alarm_table
  d_events :: "'v event_table"
  d_alarmed :: "alarm list"
  d_internal :: "alarm list"
  d_internal_counter :: int
  d_evlist :: "'v bei list"
  d_groups :: groups
  d_saved :: "(string \<times> string) list"
  d_conf_db :: "(string \<times> db_properties) list"
  d_alarm_list_prop :: "string list"
  d_lists :: alarm_lists
  d_published :: "published list"

text \<open>What the parser assigns to the alarm, starting from the cleared members.\<close>

record parsed =
  pr_full :: bool
  pr_stop :: nat
  pr_tree :: node
  pr_name :: string
  pr_formula :: string
  pr_on_delay :: u32
  pr_off_delay :: u32
  pr_lev :: string
  pr_silent_time :: int
  pr_grp :: u32
  pr_msg :: string
  pr_cmd_a :: string
  pr_cmd_n :: string
  pr_enabled :: bool

type_synonym dev_failed = "string \<times> string \<times> string"

text \<open>The type of the argument of a command, as \<open>command_query\<close> tells it.\<close>

datatype arg_type = Arg_Void | Arg_String | Arg_Other

record 'v alarm_world =
  aw_now :: timeval
  aw_arith :: "'v arith"
  aw_env :: ev_env
  aw_blank :: "'v alm_event"
  aw_raw :: alarm
  aw_parse :: "groups \<Rightarrow> string \<Rightarrow> parsed"
  aw_new_proxy :: "string \<Rightarrow> dev_failed option"
  aw_ping :: "string \<Rightarrow> dev_failed option"
  aw_command_query :: "string \<Rightarrow> string \<Rightarrow> dev_failed + arg_type"
  aw_localtime :: "u32 \<Rightarrow> string"

type_synonym ('a, 'v) alarm_result = "(alarm_error + 'a) \<times> 'v alarm_device"

definition dev_then ::
  "('a, 'v) alarm_result \<Rightarrow> ('a \<Rightarrow> 'v alarm_device \<Rightarrow> ('b, 'v) alarm_result) \<Rightarrow> ('b, 'v) alarm_result"
where
  "dev_then r k = (case r of (Inl e, d) \<Rightarrow> (Inl e, d) | (Inr x, d) \<Rightarrow> k x d)"

definition the_alarms :: "'v alarm_device \<Rightarrow> alarm_container" where
  "the_alarms d = v_alarm (d_alarms d)"

definition find_alarm :: "string \<Rightarrow> 'v alarm_device \<Rightarrow> alarm option" where
  "find_alarm nm d = map_of (the_alarms d) nm"

definition on_alarms :: "(alarm_container \<Rightarrow> alarm_container) \<Rightarrow> 'v alarm_device \<Rightarrow> 'v alarm_device" where
  "on_alarms f d = d\<lparr>d_alarms := (d_alarms d)\<lparr>v_alarm := f (v_alarm (d_alarms d))\<rparr>\<rparr>"

definition change_alarm :: "string \<Rightarrow> (alarm \<Rightarrow> alarm) \<Rightarrow> 'v alarm_device \<Rightarrow> 'v alarm_device" where
  "change_alarm nm f = on_alarms (map_modify nm f)"

definition emit :: "published \<Rightarrow> 'v alarm_device \<Rightarrow> 'v alarm_device" where
  "emit p d = d\<lparr>d_published := d_published d @ [p]\<rparr>"

text \<open>Pushing the attribute of an alarm of the table.\<close>

definition push_alarm_attr :: "string \<Rightarrow> 'v alarm_device \<Rightarrow> 'v alarm_device" where
  "push_alarm_attr nm d =
     (case find_alarm nm d of None \<Rightarrow> d | Some a \<Rightarrow> emit (OfAlarm (push_of a)) d)"

subsection \<open>Internal alarms\<close>

definition internal_match :: "string \<Rightarrow> string \<Rightarrow> alarm \<Rightarrow> bool" where
  "internal_match nm m a \<longleftrightarrow>
     (if nm = INTERNAL_ERROR then msg a = m else str_find nm (msg a) 0 \<noteq> None)"

definition again :: "string \<Rightarrow> string \<Rightarrow> u32 \<Rightarrow> alarm \<Rightarrow> alarm" where
  "again nm m count a =
     (let b = (if nm \<noteq> INTERNAL_ERROR \<and> on_counter a < count then a\<lparr>on_counter := count\<rparr> else a)
      in b\<lparr>on_counter := on_counter b + 1, msg := m\<rparr>)"

definition internal_alarm :: "alarm \<Rightarrow> int \<Rightarrow> timeval \<Rightarrow> string \<Rightarrow> u32 \<Rightarrow> groups \<Rightarrow> alarm" where
  "internal_alarm raw n t m count gs =
     (alarm_t_new raw)\<lparr>al_name := INTERNAL_ERROR @ ''_'' @ show_int n, al_ts := t,
       on_counter := count, stat := S_ALARM, ack := NOT_ACK, al_done := False, msg := m,
       grp := (case gs of [] \<Rightarrow> GR_DEFAULT | (k, v) # gs' \<Rightarrow> v), lev := LEV_LOG\<rparr>"

definition set_internal_alarm ::
  "'v alarm_world \<Rightarrow> string \<Rightarrow> string \<Rightarrow> u32 \<Rightarrow> 'v alarm_device \<Rightarrow> 'v alarm_device"
where
  "set_internal_alarm w nm m count d =
     (let c = (if d_internal d = [] then 0 else d_internal_counter d)
      in case find_index (internal_match nm m) (d_internal d) of
           Some i \<Rightarrow>
             d\<lparr>d_internal_counter := c,
               d_internal := (d_internal d)[i := again nm m count (d_internal d ! i)]\<rparr>
         | None \<Rightarrow>
             d\<lparr>d_internal_counter := c + 1,
               d_internal := d_internal d @
                 [internal_alarm (aw_raw w) c (aw_now w) m count (d_groups d)]\<rparr>)"

definition report :: "'v alarm_world \<Rightarrow> string \<Rightarrow> 'v alarm_device \<Rightarrow> 'v alarm_device" where
  "report w m = set_internal_alarm w INTERNAL_ERROR m 1"

subsection \<open>The table of the alarms to show\<close>

definition find_alarmed :: "string \<Rightarrow> alarm list \<Rightarrow> nat option" where
  "find_alarmed nm as = find_index (\<lambda>a. al_name a = nm) as"

text \<open>The entry of an alarm that is raised, and of one that is back to normal.\<close>

definition refresh_raised :: "alarm \<Rightarrow> alarm \<Rightarrow> alarm" where
  "refresh_raised a e =
     (let e1 = (if stat e = S_NORMAL
                then e\<lparr>stat := S_ALARM, ack := NOT_ACK, al_ts := al_ts a, msg := msg a\<rparr> else e)
      in e1\<lparr>grp := grp a, lev := lev a, is_new := is_new a, on_counter := on_counter a,
           off_counter := off_counter a, ack := ack a, silenced := silenced a,
           silent_time := silent_time a\<rparr>)"

definition refresh_normal :: "alarm \<Rightarrow> alarm \<Rightarrow> alarm" where
  "refresh_normal a e =
     e\<lparr>stat := S_NORMAL, al_ts := al_ts a, msg := msg a, grp := grp a, lev := lev a,
       on_counter := on_counter a, off_counter := off_counter a, ack := ack a, is_new := is_new a,
       silenced := silenced a, silent_time := silent_time a\<rparr>"

definition to_show :: "alarm \<Rightarrow> bool" where
  "to_show a \<longleftrightarrow> stat a = S_ALARM \<and> enabled a \<and> \<not> shelved a"

definition update_alarmed :: "alarm \<Rightarrow> alarm list \<Rightarrow> alarm list" where
  "update_alarmed a as =
     (if to_show a then
        (case find_alarmed (al_name a) as of
           Some i \<Rightarrow> as[i := refresh_raised a (as ! i)]
         | None \<Rightarrow> as @ [a])
      else if stat a = S_NORMAL then
        (case find_alarmed (al_name a) as of
           Some i \<Rightarrow>
             let e = refresh_normal a (as ! i)
             in if ack e = ACK then (if al_done e then erase_at i as else as[i := e\<lparr>al_done := True\<rparr>])
                else as[i := e]
         | None \<Rightarrow> as)
      else as)"

subsection \<open>The lists\<close>

text \<open>
  The state that an alarm contributes to the summary. The code keeps the variable across the alarms,
  so that an alarm whose status is none of the known ones shows the state of the alarm before it.
\<close>

definition summary_state :: "string \<Rightarrow> alarm \<Rightarrow> string" where
  "summary_state old a =
     (if \<not> enabled a then ''OOSRV''
      else if shelved a then ''SHLVD''
      else if stat a = S_ALARM \<and> ack a = ACK then ''ACKED''
      else if stat a = S_ALARM \<and> ack a = NOT_ACK then ''UNACK''
      else if stat a = S_NORMAL \<and> ack a = NOT_ACK then ''RTNUN''
      else if stat a = S_NORMAL \<and> ack a = ACK then ''NORM''
      else old)"

definition add_to_lists :: "alarm \<Rightarrow> alarm_lists \<Rightarrow> alarm_lists" where
  "add_to_lists a l =
     (if \<not> enabled a then l\<lparr>outOfServiceAlarms := outOfServiceAlarms l @ [al_name a]\<rparr>
      else if shelved a then l\<lparr>shelvedAlarms := shelvedAlarms l @ [al_name a]\<rparr>
      else
        let l1 =
          (if stat a = S_ALARM \<and> ack a = ACK
           then l\<lparr>acknowledgedAlarms := acknowledgedAlarms l @ [al_name a]\<rparr>
           else if stat a = S_ALARM \<and> ack a = NOT_ACK
           then l\<lparr>unacknowledgedAlarms := unacknowledgedAlarms l @ [al_name a]\<rparr>
           else if stat a = S_NORMAL \<and> ack a = NOT_ACK
           then l\<lparr>unacknowledgedNormalAlarms := unacknowledgedNormalAlarms l @ [al_name a]\<rparr>
           else if stat a = S_NORMAL \<and> ack a = ACK
           then l\<lparr>normalAlarms := normalAlarms l @ [al_name a]\<rparr>
           else l)
        in if silenced a > 0 then l1\<lparr>silencedAlarms := silencedAlarms l1 @ [al_name a]\<rparr> else l1)"

definition has_exception :: "alarm \<Rightarrow> bool" where
  "has_exception a \<longleftrightarrow> ex_reason a \<noteq> [] \<or> ex_desc a \<noteq> [] \<or> ex_origin a \<noteq> []"

definition error_state :: "alarm \<Rightarrow> string \<Rightarrow> string" where
  "error_state a st =
     (if has_exception a \<and> st \<noteq> ''SHLVD'' \<and> st \<noteq> ''OOSRV'' then ''ERROR'' else st)"

definition summary_line :: "(u32 \<Rightarrow> string) \<Rightarrow> string \<Rightarrow> string \<Rightarrow> alarm \<Rightarrow> string" where
  "summary_line localtime nm st a =
     key ''tag'' @ nm @ SEP @ key ''state'' @ st @ SEP @ key ''priority'' @ lev a @ SEP @
     key ''time'' @ localtime (tv_sec (al_ts a)) @ ''.'' @ show_int (sint (tv_usec (al_ts a))) @ SEP @
     key ''formula'' @ al_formula a @ SEP @ key ''message'' @ msg a"

definition audible :: "alarm \<Rightarrow> bool" where
  "audible a \<longleftrightarrow> is_new a \<noteq> 0 \<and> silenced a \<le> 0 \<and> enabled a \<and> \<not> shelved a"

record prepare_state =
  ps_lists :: alarm_lists
  ps_state :: string
  ps_alarmed :: "alarm list"

definition prepare_one ::
  "(u32 \<Rightarrow> string) \<Rightarrow> string \<times> alarm \<Rightarrow> prepare_state \<Rightarrow> prepare_state"
where
  "prepare_one localtime p s =
     (let a = snd p;
          st = error_state a (summary_state (ps_state s) a);
          l = add_to_lists a (ps_lists s)
      in \<lparr>ps_lists = l\<lparr>alarmSummary := alarmSummary l @ [summary_line localtime (fst p) st a],
             alarmFrequency := alarmFrequency l @ [freq_counter a],
             listAlarms := listAlarms l @ [al_name a],
             alarmAudible := (alarmAudible l \<or> audible a)\<rparr>,
          ps_state = st,
          ps_alarmed = update_alarmed a (ps_alarmed s)\<rparr>)"

definition empty_lists :: "string list \<Rightarrow> alarm_lists" where
  "empty_lists rows =
     \<lparr>outOfServiceAlarms = [], shelvedAlarms = [], acknowledgedAlarms = [],
      unacknowledgedAlarms = [], unacknowledgedNormalAlarms = [], normalAlarms = [],
      silencedAlarms = [], listAlarms = [], alarmFrequency = [], alarmSummary = [],
      alarmAudible = False, ds_rows = rows\<rparr>"

definition tab :: string where
  "tab = [CHR 0x09]"

definition alarm_row :: "groups \<Rightarrow> alarm \<Rightarrow> string" where
  "alarm_row gs a =
     show_int (sint (tv_sec (al_ts a))) @ tab @ show_int (sint (tv_usec (al_ts a))) @ tab @
     al_name a @ tab @ stat a @ tab @ ack a @ tab @ show_nat (unat (on_counter a)) @ tab @
     lev a @ tab @ show_int (silenced a) @ tab @ grp2str gs a @ tab @ msg a @ tab @
     (if is_new a \<noteq> 0 \<and> silenced a \<le> 0 then ''NEW'' else '' '')"

definition no_alarm_row :: string where
  "no_alarm_row =
     concat (List.map (\<lambda>x. x @ tab)
       [''0'', ''0'', ''0'', ''0'', ''0'', ''0'', ''0'', ''-1'', ''0'', ''0'']) @ '' ''"

definition fit_row :: "string \<Rightarrow> string" where
  "fit_row r = (if length r \<ge> 10124 then take 10123 r else r)"

definition table_rows :: "groups \<Rightarrow> alarm list \<Rightarrow> string list" where
  "table_rows gs as =
     (let rows = List.map fit_row (take MAX_ALARMS (List.map (alarm_row gs) as))
      in if rows = [] then [fit_row no_alarm_row] else rows)"

definition prepare_alarm_attr :: "'v alarm_world \<Rightarrow> 'v alarm_device \<Rightarrow> 'v alarm_device" where
  "prepare_alarm_attr w d =
     (let s0 = \<lparr>ps_lists = empty_lists (ds_rows (d_lists d)), ps_state = [],
                ps_alarmed = d_alarmed d\<rparr>;
          s1 = fold (prepare_one (aw_localtime w)) (the_alarms d) s0;
          shown = List.map (countdown (aw_now w)) (ps_alarmed s1)
      in d\<lparr>d_alarmed := shown,
           d_lists := (ps_lists s1)\<lparr>ds_rows := table_rows (d_groups d) shown\<rparr>\<rparr>)"

definition publish :: "'v alarm_world \<Rightarrow> publication \<Rightarrow> 'v alarm_device \<Rightarrow> 'v alarm_device" where
  "publish w p d = (let e = prepare_alarm_attr w d in emit (OfLists p (d_lists e)) e)"

end
