(* ===== verification/AlarmDevice.thy ===== *)
theory AlarmDevice
  imports AlarmPublish
begin

text \<open>
  What the alarm device does with the events of its attributes: the callback \<open>push_event\<close>
  (\<open>event_table.cpp\<close>), \<open>do_alarm\<close>, \<open>do_alarm_eval\<close> and \<open>timer_update\<close> (\<open>AlarmHandler.cpp\<close>), and the
  rounds of the alarm thread (\<open>alarm-thread.cpp\<close>).
\<close>

subsection \<open>The callback\<close>

text \<open>
  \<open>*attr_value >> v\<close> yields the elements or fails; numbers of every type are converted to \<open>double\<close>. A
  string attribute without elements is not defined in C++; the model takes the empty string.
\<close>

datatype 'v payload = Numbers "'v list" | Strings "string list" | Extraction_Fails alarm_error

record 'v tango_event =
  te_err :: bool
  te_attr_name :: string
  te_event :: string
  te_error_desc :: string
  te_quality :: int
  te_time :: timeval
  te_type :: tango_type
  te_name :: string
  te_payload :: "'v payload"

definition ends :: string where
  "ends = [CHR 0x00]"

definition extract_values :: "'v tango_event \<Rightarrow> alarm_error + ('v list \<times> string)" where
  "extract_values ev =
     (case te_type ev of
        DEV_OTHER n \<Rightarrow>
          Inl (AlarmString (''Unknown type ('' @ show_int n @ '') for attribute '' @ te_name ev @ ends))
      | _ \<Rightarrow>
          (case te_payload ev of
             Extraction_Fails e \<Rightarrow> Inl e
           | Numbers vs \<Rightarrow> Inr (vs, [])
           | Strings ss \<Rightarrow> Inr ([], case ss of [] \<Rightarrow> [] | t # ts \<Rightarrow> t)))"

definition cut_change :: "string \<Rightarrow> string" where
  "cut_change s = (case str_find ''.change'' s 0 of None \<Rightarrow> s | Some i \<Rightarrow> take i s)"

text \<open>
  The time of the error event of Tango stays that of the default constructed \<open>bei_t\<close>, whose integers
  are indeterminate: the argument \<open>junk\<close>.
\<close>

definition event_info :: "timeval \<Rightarrow> 'v bei \<Rightarrow> 'v tango_event \<Rightarrow> 'v bei" where
  "event_info now junk ev =
     (let e = junk\<lparr>bei_name := [], bei_value := [], bei_value_string := [], bei_msg := [],
                bei_reason := [], bei_desc := [], bei_origin := [], bei_quality := ATTR_VALID\<rparr>
      in if te_err ev then
           let nm = cut_change (te_attr_name ev @ ''.'' @ te_event ev)
           in e\<lparr>bei_name := nm, bei_type := TYPE_TANGO_ERR,
                bei_msg := ''Tango error for '' @ [CHR 0x27] @ nm @ [CHR 0x27] @ ''='' @
                  te_error_desc ev @ ends\<rparr>
         else
           let e1 = e\<lparr>bei_quality := te_quality ev, bei_name := te_attr_name ev, bei_ts := te_time ev\<rparr>
           in (case extract_values ev of
                 Inr (vs, s) \<Rightarrow>
                   e1\<lparr>bei_value := vs, bei_value_string := s, bei_type := ValueType (te_type ev)\<rparr>
               | Inl err \<Rightarrow>
                   e1\<lparr>bei_type := TYPE_GENERIC_ERR, bei_ts := now,
                      bei_msg := (case err of
                          AlarmString m \<Rightarrow> m @ '' for event '' @ [CHR 0x27] @ te_attr_name ev @ [CHR 0x27]
                        | AlarmFailed a b c \<Rightarrow> ''Event exception for'' @ [CHR 0x27] @ te_attr_name ev @
                            [CHR 0x27] @ '' error='' @ b @ ends
                        | _ \<Rightarrow> ''Generic Event exception for'' @ [CHR 0x27] @ te_attr_name ev @
                            [CHR 0x27] @ ends)\<rparr>))"

definition push_tango_event ::
  "'v alarm_world \<Rightarrow> 'v bei \<Rightarrow> 'v tango_event \<Rightarrow> 'v alarm_device \<Rightarrow> 'v alarm_device"
where
  "push_tango_event w junk ev d =
     d\<lparr>d_evlist := d_evlist d @ [event_info (aw_now w) junk ev]\<rparr>"

subsection \<open>Finding the event of a name\<close>

definition without_domain_of_host :: "string \<Rightarrow> string option" where
  "without_domain_of_host s =
     (case (str_find ''.'' s 8, str_find '':'' s 8, str_find ''/'' s 8) of
        (Some dot, Some colon, Some slash) \<Rightarrow>
          if dot < slash then Some (take dot s @ drop colon s) else None
      | _ \<Rightarrow> None)"

definition resolve_event :: "string \<Rightarrow> 'v alm_event list \<Rightarrow> nat option" where
  "resolve_event nm es =
     (case find_event nm es of
        Some i \<Rightarrow> Some i
      | None \<Rightarrow>
          if str_find scheme nm 0 = None then None
          else
            (case (case without_domain_of_host nm of None \<Rightarrow> None | Some s \<Rightarrow> find_event s es) of
               Some i \<Rightarrow> Some i
             | None \<Rightarrow>
                 (case str_find ''/'' nm 8 of
                    None \<Rightarrow> None
                  | Some slash \<Rightarrow> find_event (drop (Suc slash) nm) es)))"

subsection \<open>Evaluating an alarm\<close>

definition outcome_of :: "'v arith \<Rightarrow> 'v formula_res \<Rightarrow> outcome" where
  "outcome_of d r =
     \<lparr>oc_on = d_true d (fr_value r), oc_quality = fr_quality r, oc_reason = fr_reason r,
      oc_desc = fr_desc r, oc_origin = fr_origin r\<rparr>"

text \<open>The text of values loses its last character and gets a closing brace.\<close>

definition close_values :: "string \<Rightarrow> string" where
  "close_values s = butlast s @ ''}''"

definition formula_failed ::
  "'v alarm_world \<Rightarrow> string \<Rightarrow> string \<Rightarrow> string \<Rightarrow> string \<Rightarrow> 'v alarm_device \<Rightarrow> 'v alarm_device"
where
  "formula_failed w nm ev reason text d =
     push_alarm_attr nm (change_alarm nm
       (\<lambda>a. a\<lparr>ex_reason := reason, ex_desc := ev @ '': '' @ text, ex_origin := ev\<rparr>)
       (report w text d))"

definition FORCED_EVAL :: string where
  "FORCED_EVAL = ''FORCED_EVAL''"

definition evaluation_error ::
  "'v alarm_world \<Rightarrow> string \<Rightarrow> string \<Rightarrow> string \<Rightarrow> 'v alarm_device \<Rightarrow> 'v alarm_device"
where
  "evaluation_error w nm ev text d =
     formula_failed w nm ev ''FORMULA_ERROR'' (nm @ '': in formula err='' @ text) d"

definition evaluated ::
  "'v alarm_world \<Rightarrow> string \<Rightarrow> string \<Rightarrow> string \<Rightarrow> timeval \<Rightarrow> alarm \<Rightarrow> 'v formula_res \<Rightarrow>
   'v alarm_device \<Rightarrow> bool \<times> 'v alarm_device"
where
  "evaluated w nm ev vals ts a r d =
     (case at_update (aw_now w) nm ts (outcome_of (aw_arith w) r) vals (grp2str (d_groups d) a)
             (msg a) (al_formula a) (d_alarms d) of
        (Inl e, t) \<Rightarrow>
          (True, evaluation_error w nm ev (case e of AlarmString m \<Rightarrow> m | _ \<Rightarrow> []) (d\<lparr>d_alarms := t\<rparr>))
      | (Inr changed, t) \<Rightarrow>
          (changed, push_alarm_attr nm (change_alarm nm
             (\<lambda>x. (set_attr_state x)\<lparr>to_be_evaluated := False\<rparr>) (d\<lparr>d_alarms := t\<rparr>))))"

definition do_alarm_eval ::
  "'v alarm_world \<Rightarrow> string \<Rightarrow> string \<Rightarrow> timeval \<Rightarrow> 'v alarm_device \<Rightarrow> bool \<times> 'v alarm_device"
where
  "do_alarm_eval w nm ev ts d =
     (case find_alarm nm d of
        None \<Rightarrow> (True, report w (nm @ '': not found formula in alarm table'') d)
      | Some a0 \<Rightarrow>
          if ev = FORCED_EVAL \<and> \<not> to_be_evaluated a0 then (False, d)
          else
            let a = (if ev \<noteq> FORCED_EVAL then a0\<lparr>freq_counter := freq_counter a0 + 1\<rparr> else a0)
            in (case eval_formula (aw_arith w) (v_event (d_events d)) (formula_tree a) ''{'' of
                  (Inr r, s) \<Rightarrow>
                    let a1 = a\<lparr>attr_values := close_values s\<rparr>
                    in evaluated w nm ev (close_values s) ts a1 r (change_alarm nm (\<lambda>x. a1) d)
                | (Inl e, s) \<Rightarrow>
                    let d1 = change_alarm nm (\<lambda>x. a\<lparr>attr_values := s\<rparr>) d
                    in (True,
                        case e of
                          EvalErr t \<Rightarrow> evaluation_error w nm ev t d1
                        | _ \<Rightarrow>
                            formula_failed w nm ev ''OUT_OF_RANGE''
                              (nm @ '': in formula array index out of range!'') d1)))"

subsection \<open>Events\<close>

definition on_events :: "('v event_table \<Rightarrow> 'v event_table) \<Rightarrow> 'v alarm_device \<Rightarrow> 'v alarm_device" where
  "on_events f d = d\<lparr>d_events := f (d_events d)\<rparr>"

definition line_end :: string where
  "line_end = [CHR 0x0A]"

definition spread_error :: "'v alm_event \<Rightarrow> string \<Rightarrow> 'v alarm_device \<Rightarrow> 'v alarm_device" where
  "spread_error e nm d =
     (let d1 = change_alarm nm
            (\<lambda>a. a\<lparr>ex_reason := ev_reason e, ex_desc := ev_desc e, ex_origin := ev_origin e\<rparr>) d
      in (case find_alarm nm d1 of
            None \<Rightarrow> d1
          | Some a \<Rightarrow>
              emit (OfAlarm (PushError (attr_name a) (ex_reason a) (ex_desc a) (ex_origin a))) d1))"

definition event_failed :: "'v bei \<Rightarrow> 'v alm_event \<Rightarrow> 'v alm_event" where
  "event_failed e f =
     f\<lparr>err_counter := err_counter f + 1,
       ev_reason := (if bei_type e = TYPE_TANGO_ERR then ''Event_ERROR'' else ''Alarm_ERROR''),
       ev_desc := bei_msg e @ line_end, ev_origin := bei_name e\<rparr>"

definition error_event :: "'v alarm_world \<Rightarrow> 'v bei \<Rightarrow> 'v alarm_device \<Rightarrow> 'v alarm_device" where
  "error_event w e d =
     (case resolve_event (bei_name e) (v_event (d_events d)) of
        None \<Rightarrow>
          set_internal_alarm w (bei_name e)
            (''TANGO Error but event '' @ [CHR 0x27] @ bei_name e @ [CHR 0x27] @
             '' not found in event table!'') 1 d
      | Some i \<Rightarrow>
          let d1 = on_events (set_event i (event_failed e)) d;
              f = v_event (d_events d1) ! i
          in fold (spread_error f) (m_alarm f) d1)"

definition event_arrived :: "'v bei \<Rightarrow> 'v alm_event \<Rightarrow> 'v alm_event" where
  "event_arrived e f =
     f\<lparr>ev_value := bei_value e, value_string := bei_value_string e, ev_quality := bei_quality e,
       ev_reason := bei_reason e, ev_desc := bei_desc e, ev_origin := bei_origin e, valid := True,
       ev_ts := bei_ts e, ev_type := bei_type e, err_counter := 0\<rparr>"

fun eval_alarms ::
  "'v alarm_world \<Rightarrow> string \<Rightarrow> timeval \<Rightarrow> string list \<Rightarrow> nat \<Rightarrow> 'v alarm_device \<Rightarrow> nat \<times> 'v alarm_device"
where
  "eval_alarms w ev ts [] n d = (n, d)"
| "eval_alarms w ev ts (nm # nms) n d =
     (case do_alarm_eval w nm ev ts d of
        (changed, d1) \<Rightarrow> eval_alarms w ev ts nms (if changed then Suc n else n) d1)"

text \<open>The array of frequencies is overwritten from its start.\<close>

definition refresh_frequency :: "'v alarm_device \<Rightarrow> 'v alarm_device" where
  "refresh_frequency d =
     (let fs = List.map (\<lambda>p. freq_counter (snd p)) (the_alarms d);
          old = alarmFrequency (d_lists d);
          l = (d_lists d)\<lparr>alarmFrequency := fs @ drop (length fs) old\<rparr>
      in emit (OfFrequency (take (length (listAlarms l)) (alarmFrequency l))) (d\<lparr>d_lists := l\<rparr>))"

definition do_alarm :: "'v alarm_world \<Rightarrow> 'v bei \<Rightarrow> 'v alarm_device \<Rightarrow> 'v alarm_device" where
  "do_alarm w e d =
     (if bei_type e = TYPE_TANGO_ERR \<or> bei_type e = TYPE_GENERIC_ERR then error_event w e d
      else
        (case resolve_event (bei_name e) (v_event (d_events d)) of
           None \<Rightarrow>
             report w (''event '' @ [CHR 0x27] @ bei_name e @ [CHR 0x27] @
               '' not found in event table!'') d
         | Some i \<Rightarrow>
             let d1 = on_events (set_event i (event_arrived e)) d;
                 f = v_event (d_events d1) ! i
             in (case eval_alarms w (bei_name e) (ev_ts f) (m_alarm f) 0 d1 of
                   (n, d2) \<Rightarrow> if n = 0 then refresh_frequency d2 else publish w All_Lists d2)))"

subsection \<open>The periodic update\<close>

definition timer_update :: "'v alarm_world \<Rightarrow> 'v alarm_device \<Rightarrow> 'v alarm_device" where
  "timer_update w d =
     (case at_timer_update (aw_now w) (d_groups d) (d_alarms d) of
        (changed, ps, t) \<Rightarrow>
          let d1 = d\<lparr>d_alarms := t, d_published := d_published d @ List.map OfAlarm ps\<rparr>
          in if changed then publish w All_Lists d1 else d1)"

subsection \<open>The alarm thread\<close>

text \<open>
  One round of the loop: the alarms that wait for an evaluation are evaluated when more than ten
  seconds have passed (the argument \<open>due\<close>), then the next event is taken from the queue. The round
  waits (\<open>None\<close>) when the queue is empty; the last result tells whether the thread goes on.
\<close>

record thread_state =
  th_to_eval :: "string list"

definition force_evaluations :: "'v alarm_world \<Rightarrow> string list \<Rightarrow> 'v alarm_device \<Rightarrow> 'v alarm_device" where
  "force_evaluations w nms d = snd (eval_alarms w FORCED_EVAL (aw_now w) nms 0 d)"

definition is_request :: "'v alarm_world \<Rightarrow> string \<Rightarrow> int \<Rightarrow> 'v bei \<Rightarrow> bool" where
  "is_request w nm v e \<longleftrightarrow>
     bei_name e = nm \<and> d_eq (aw_arith w) (hd (bei_value e)) (d_of_int (aw_arith w) v)"

definition thread_forced ::
  "'v alarm_world \<Rightarrow> bool \<Rightarrow> thread_state \<times> 'v alarm_device \<Rightarrow> thread_state \<times> 'v alarm_device"
where
  "thread_forced w due s =
     (if th_to_eval (fst s) \<noteq> [] \<and> due then
        let d1 = force_evaluations w (th_to_eval (fst s)) (snd s)
        in (\<lparr>th_to_eval = to_be_evaluated_list (d_alarms d1)\<rparr>, d1)
      else s)"

definition alarm_thread_round ::
  "'v alarm_world \<Rightarrow> bool \<Rightarrow> thread_state \<times> 'v alarm_device \<Rightarrow>
   (bool \<times> thread_state \<times> 'v alarm_device) option"
where
  "alarm_thread_round w due s =
     (case thread_forced w due s of
        (th, d) \<Rightarrow>
          (case d_evlist d of
             [] \<Rightarrow> None
           | e # es \<Rightarrow>
               let d1 = d\<lparr>d_evlist := es\<rparr>
               in if is_request w ''alarm_thread_exit'' (-100) e then Some (False, th, d1)
                  else if is_request w ''to_be_evaluated'' (-200) e
                  then Some (True, \<lparr>th_to_eval = to_be_evaluated_list (d_alarms d1)\<rparr>, d1)
                  else Some (True, th, do_alarm w e d1)))"

end
