(* ===== verification/AlarmCommands.thy ===== *)
theory AlarmCommands
  imports AlarmDevice
begin

text \<open>
  The commands of the alarm device (\<open>AlarmHandler.cpp\<close>): loading, modifying and removing an alarm, and
  the operator commands acknowledge, silence, shelve, enable and disable.
\<close>

definition failed :: "string \<Rightarrow> string \<Rightarrow> string \<Rightarrow> 'v alarm_device \<Rightarrow> ('a, 'v) alarm_result" where
  "failed reason desc origin d = (Inl (AlarmFailed reason desc origin), d)"

definition error_desc :: "alarm_error \<Rightarrow> string" where
  "error_desc e = (case e of AlarmFailed a b c \<Rightarrow> b | AlarmString m \<Rightarrow> m | _ \<Rightarrow> [])"

subsection \<open>Parsing an alarm\<close>

text \<open>The device part and the command part of a command name: the first three fields and the rest.\<close>

fun split_command :: "nat \<Rightarrow> string \<Rightarrow> string \<times> string" where
  "split_command j [] = ([], [])"
| "split_command j (c # cs) =
     (let j' = (if c = CHR ''/'' then Suc j else j);
          r = split_command j' cs
      in if j' < 3 then (c # fst r, snd r)
         else if c \<noteq> CHR ''/'' then (fst r, c # snd r)
         else r)"

definition level_known :: "string \<Rightarrow> bool" where
  "level_known l \<longleftrightarrow> l = LEV_LOG \<or> l = LEV_WARNING \<or> l = LEV_FAULT \<or> l = []"

definition assign_parsed :: "parsed \<Rightarrow> alarm \<Rightarrow> alarm" where
  "assign_parsed p a =
     a\<lparr>al_name := pr_name p, al_formula := pr_formula p, on_delay := pr_on_delay p,
       off_delay := pr_off_delay p, lev := pr_lev p, silent_time := pr_silent_time p, grp := pr_grp p,
       msg := pr_msg p, cmd_name_a := pr_cmd_a p, cmd_name_n := pr_cmd_n p, enabled := pr_enabled p,
       formula_tree := pr_tree p\<rparr>"

text \<open>The members that \<open>load_alarm\<close> and \<open>modify\<close> clear before they parse.\<close>

definition clear_for_parse :: "alarm \<Rightarrow> alarm" where
  "clear_for_parse a =
     a\<lparr>al_name := [], attr_name := [], al_formula := [], msg := [], lev := [], grp := 0,
       to_be_evaluated := False, on_delay := 0, off_delay := 0, silent_time := -1, silenced := -1,
       cmd_name_a := [], cmd_dp_a := [], cmd_action_a := [], send_arg_a := False, dp_a := None,
       cmd_name_n := [], cmd_dp_n := [], cmd_action_n := [], send_arg_n := False, dp_n := None,
       enabled := True\<rparr>"

definition complete_parsed :: "alarm \<Rightarrow> alarm" where
  "complete_parsed a =
     a\<lparr>al_name := to_lower (al_name a), lev := to_lower (lev a),
       cmd_dp_a := fst (split_command 0 (cmd_name_a a)),
       cmd_action_a := snd (split_command 0 (cmd_name_a a)),
       cmd_dp_n := fst (split_command 0 (cmd_name_n a)),
       cmd_action_n := snd (split_command 0 (cmd_name_n a))\<rparr>"

definition can_be_silenced :: "alarm \<Rightarrow> int" where
  "can_be_silenced a = (if silent_time a > 0 then 0 else -1)"

text \<open>The result is the error, or the alarm and the names of the events of its formula.\<close>

definition load_alarm ::
  "'v alarm_world \<Rightarrow> string \<Rightarrow> alarm \<Rightarrow> 'v alarm_device \<Rightarrow> alarm_error + (alarm \<times> string list)"
where
  "load_alarm w s alm d =
     (let p = aw_parse w (d_groups d) s;
          a0 = (clear_for_parse alm)\<lparr>al_quality := ATTR_INVALID, ex_reason := ''NOT_SUBSCRIBED'',
                 ex_desc := ''One or more events not subscribed'', ex_origin := []\<rparr>;
          a1 = assign_parsed p a0
      in if \<not> pr_full p then
           Inl (AlarmFailed ''Parsing Failed!''
             (''AlarmHandler::load_alarm(): Parsing Failed, '' @ [CHR 0x27] @ take (pr_stop p) s @
              [CHR 0x27] @ '' parsed ok, BUT '' @ [CHR 0x27] @ drop (pr_stop p) s @ [CHR 0x27] @
              '' not parsed'') ''AlarmHandler::load_alarm()'')
         else
           let a2 = complete_parsed a1;
               a3 = a2\<lparr>attr_name := al_name a2, silenced := can_be_silenced a2\<rparr>
           in (case find_event_formula (formula_tree a3) [] of
                 (Inl e, evn) \<Rightarrow> Inl (AlarmString e)
               | (Inr u, evn) \<Rightarrow>
                   let a4 = a3\<lparr>al_ts := aw_now w\<rparr>
                   in if \<not> (al_name a4 \<noteq> [] \<and> al_formula a4 \<noteq> [] \<and> level_known (lev a4)) then
                        Inl (AlarmFailed
                          (''AlarmHandler::load_alarm(): syntax error in '' @ [CHR 0x27] @ s @ [CHR 0x27])
                          [] ''AlarmHandler::load_alarm()'')
                      else
                        let a5 = a4\<lparr>stat := S_NORMAL, ack := ACK, al_done := False\<rparr>
                        in if at_exist (al_name a5) (d_alarms d) then
                             (let t = ''AlarmHandler::load_alarm(): alarm '' @ [CHR 0x27] @ al_name a5 @
                                      [CHR 0x27] @ '' already exist''
                              in Inl (AlarmFailed t t ''AlarmHandler::load_alarm()''))
                           else Inr (a5, evn)))"

subsection \<open>Adding an alarm and its events\<close>

text \<open>\<open>add_AlarmState_dynamic_attribute\<close> creates the cell of the attribute with the value 0.\<close>

definition add_alarm :: "bool \<Rightarrow> alarm \<Rightarrow> 'v alarm_device \<Rightarrow> 'v alarm_device" where
  "add_alarm starting a d =
     (let d1 = d\<lparr>d_alarms := at_push_back a (d_alarms d)\<rparr>
      in if starting then d1 else change_alarm (al_name a) (\<lambda>x. x\<lparr>attr_value := NORM\<rparr>) d1)"

text \<open>
  An exception of \<open>event_table\<close> leaves \<open>add_event\<close>, which lists only strings in its \<open>throw\<close> clause.
\<close>

fun add_events :: "'v alarm_world \<Rightarrow> string list \<Rightarrow> 'v event_table \<Rightarrow> (unit, 'v) ev_result" where
  "add_events w [] t = (Inr (), t)"
| "add_events w (j # js) t =
     (case find_event j (v_event t) of
        Some k \<Rightarrow> add_events w js t
      | None \<Rightarrow> ev_then (ev_add (aw_env w) (aw_blank w) j UPDATE_PROP False t)
                  (\<lambda>u. add_events w js))"

fun start_events :: "'v alarm_world \<Rightarrow> string list \<Rightarrow> 'v event_table \<Rightarrow> (unit, 'v) ev_result" where
  "start_events w [] t = (Inr (), t)"
| "start_events w (j # js) t =
     (case find_event j (v_event t) of
        None \<Rightarrow> start_events w js t
      | Some k \<Rightarrow> ev_then (ev_start (aw_env w) (aw_blank w) j t) (\<lambda>u. start_events w js))"

definition link_event :: "string \<Rightarrow> string \<Rightarrow> 'v alarm_device \<Rightarrow> 'v alarm_device" where
  "link_event nm j d =
     (case find_event j (v_event (d_events d)) of
        Some k \<Rightarrow>
          change_alarm nm (\<lambda>a. alarm_insert j (a\<lparr>to_be_evaluated := True\<rparr>))
            (on_events (set_event k (push_alarm nm)) d)
      | None \<Rightarrow> change_alarm nm (alarm_insert j) d)"

definition lift_events ::
  "('v event_table \<Rightarrow> (unit, 'v) ev_result) \<Rightarrow> 'v alarm_device \<Rightarrow> (unit, 'v) alarm_result"
where
  "lift_events f d =
     (case f (d_events d) of
        (Inr u, t) \<Rightarrow> (Inr (), d\<lparr>d_events := t\<rparr>)
      | (Inl e, t) \<Rightarrow> (Inl (Unexpected e), d\<lparr>d_events := t\<rparr>))"

definition add_event ::
  "'v alarm_world \<Rightarrow> string \<Rightarrow> string list \<Rightarrow> 'v alarm_device \<Rightarrow> (unit, 'v) alarm_result"
where
  "add_event w nm evn d =
     dev_then (lift_events (add_events w evn) d) (\<lambda>u d1.
     lift_events (start_events w evn) (fold (link_event nm) evn d1))"

subsection \<open>The commands of an alarm\<close>

text \<open>
  Connecting to the device of the on command and of the off command. \<open>query\<close> is the name that is asked
  for: \<open>modify\<close> asks the device of the off command for the on command.
\<close>

definition proxy_error :: "string \<Rightarrow> string \<Rightarrow> dev_failed \<Rightarrow> string" where
  "proxy_error nm dp e =
     nm @ '': error connecting to device proxy='' @ dp @ '', err='' @ fst (snd e)"

definition bad_argument :: "string \<Rightarrow> string" where
  "bad_argument c = ''Error: command '' @ c @ '' does not accept a Tango::DevString as input value''"

definition connect_on :: "'v alarm_world \<Rightarrow> string \<Rightarrow> 'v alarm_device \<Rightarrow> 'v alarm_device" where
  "connect_on w nm d =
     (case find_alarm nm d of
        None \<Rightarrow> d
      | Some a \<Rightarrow>
          if cmd_name_a a = [] then d
          else (case aw_new_proxy w (cmd_dp_a a) of
            Some e \<Rightarrow> report w (proxy_error nm (cmd_dp_a a) e) d
          | None \<Rightarrow>
              let d1 = change_alarm nm (\<lambda>x. x\<lparr>dp_a := Some (cmd_dp_a a)\<rparr>) d
              in (case aw_ping w (cmd_dp_a a) of
                Some e \<Rightarrow> report w (proxy_error nm (cmd_dp_a a) e) d1
              | None \<Rightarrow>
                  (case aw_command_query w (cmd_dp_a a) (cmd_action_a a) of
                     Inl e \<Rightarrow> report w (proxy_error nm (cmd_dp_a a) e) d1
                   | Inr Arg_String \<Rightarrow> change_alarm nm (\<lambda>x. x\<lparr>send_arg_a := True\<rparr>) d1
                   | Inr t \<Rightarrow> report w (bad_argument (cmd_name_a a)) d1))))"

definition connect_off ::
  "'v alarm_world \<Rightarrow> (alarm \<Rightarrow> string) \<Rightarrow> string \<Rightarrow> 'v alarm_device \<Rightarrow> 'v alarm_device"
where
  "connect_off w query nm d =
     (case find_alarm nm d of
        None \<Rightarrow> d
      | Some a \<Rightarrow>
          if cmd_name_n a = [] then d
          else (case aw_new_proxy w (cmd_dp_n a) of
            Some e \<Rightarrow> report w (proxy_error nm (cmd_dp_n a) e) d
          | None \<Rightarrow>
              let d1 = change_alarm nm (\<lambda>x. x\<lparr>dp_n := Some (cmd_dp_n a)\<rparr>) d
              in (case aw_ping w (cmd_dp_n a) of
                Some e \<Rightarrow> report w (proxy_error nm (cmd_dp_n a) e) d1
              | None \<Rightarrow>
                  (case aw_command_query w (cmd_dp_n a) (query a) of
                     Inl e \<Rightarrow> report w (proxy_error nm (cmd_dp_n a) e) d1
                   | Inr Arg_String \<Rightarrow> change_alarm nm (\<lambda>x. x\<lparr>send_arg_n := True\<rparr>) d1
                   | Inr t \<Rightarrow> report w (bad_argument (cmd_name_n a)) d1))))"

subsection \<open>The configuration in the database\<close>

text \<open>The delays are stored as signed numbers (\<open>Tango::DevLong\<close>).\<close>

definition conf_properties :: "groups \<Rightarrow> alarm \<Rightarrow> db_properties" where
  "conf_properties gs a =
     [(''tag'', al_name a), (''formula'', al_formula a), (''on_delay'', show_int (sint (on_delay a))),
      (''off_delay'', show_int (sint (off_delay a))), (''priority'', lev a),
      (''shlvd_time'', show_int (silent_time a)), (''group'', grp2str gs a), (''message'', msg a),
      (''on_command'', cmd_name_a a), (''off_command'', cmd_name_n a),
      (''enabled'', if enabled a then ''1'' else ''0'')]"

definition put_conf ::
  "string \<Rightarrow> db_properties \<Rightarrow> (string \<times> db_properties) list \<Rightarrow> (string \<times> db_properties) list"
where
  "put_conf att ps db = map_modify att (\<lambda>x. ps) (map_insert att ps db)"

definition save_alarm_conf_db :: "alarm \<Rightarrow> 'v alarm_device \<Rightarrow> 'v alarm_device" where
  "save_alarm_conf_db a d =
     d\<lparr>d_conf_db := put_conf (attr_name a) (conf_properties (d_groups d) a) (d_conf_db d)\<rparr>"

definition delete_alarm_conf_db :: "string \<Rightarrow> 'v alarm_device \<Rightarrow> 'v alarm_device" where
  "delete_alarm_conf_db att d = d\<lparr>d_conf_db := map_erase att (d_conf_db d)\<rparr>"

subsection \<open>Command \<open>Load\<close>\<close>

definition TO_BE_EVAL :: string where
  "TO_BE_EVAL = ''to_be_evaluated''"

definition request_evaluation :: "'v alarm_world \<Rightarrow> 'v bei \<Rightarrow> 'v alarm_device \<Rightarrow> 'v alarm_device" where
  "request_evaluation w junk d =
     (let v = d_of_int (aw_arith w) (-200)
      in d\<lparr>d_evlist := d_evlist d @
             [junk\<lparr>bei_name := TO_BE_EVAL, bei_value := [v, v], bei_value_string := [], bei_msg := [],
                bei_reason := [], bei_desc := [], bei_origin := []\<rparr>]\<rparr>)"

text \<open>
  The command ends when \<open>add_event\<close> calls \<open>std::unexpected\<close>; a string thrown by it would be logged.
\<close>

definition finish_load ::
  "'v alarm_world \<Rightarrow> 'v bei \<Rightarrow> string \<Rightarrow> string list \<Rightarrow> 'v alarm_device \<Rightarrow> (unit, 'v) alarm_result"
where
  "finish_load w junk nm evn d =
     dev_then (add_event w nm evn d) (\<lambda>u d1.
     let d2 = connect_off w cmd_action_n nm (connect_on w nm d1)
     in (case find_alarm nm d2 of
           None \<Rightarrow> (Inr (), d2)
         | Some a \<Rightarrow>
             (Inr (), if to_be_evaluated a then request_evaluation w junk d2 else d2)))"

text \<open>The name of the alarm when \<open>load_alarm\<close> fails: it is in lower case once the text is parsed.\<close>

definition parsed_name :: "parsed \<Rightarrow> string" where
  "parsed_name p = (if pr_full p then to_lower (pr_name p) else pr_name p)"

definition load :: "'v alarm_world \<Rightarrow> 'v bei \<Rightarrow> string \<Rightarrow> 'v alarm_device \<Rightarrow> (unit, 'v) alarm_result" where
  "load w junk s d =
     (case load_alarm w s (alarm_t_new (aw_raw w)) d of
        Inl (AlarmFailed a b c) \<Rightarrow>
          failed ''AlarmHandler::load()''
            (''error loading alarm='' @ parsed_name (aw_parse w (d_groups d) s) @ '' , '' @ b)
            ''AlarmHandler::load()'' d
      | Inl e \<Rightarrow> (Inl e, d)
      | Inr (a, evn) \<Rightarrow>
          let d1 = save_alarm_conf_db a (add_alarm False a d);
              d2 = d1\<lparr>d_saved := map_insert (attr_name a) (confstr (d_groups d1) a) (d_saved d1)\<rparr>
          in finish_load w junk (al_name a) evn d2)"

subsection \<open>Command \<open>Remove\<close>\<close>

text \<open>Removing the alarm from one event; an event without alarms is stopped and removed.\<close>

definition unlink_event :: "string \<Rightarrow> string \<Rightarrow> 'v event_table \<Rightarrow> (unit, 'v) ev_result" where
  "unlink_event nm j t =
     (case find_event j (v_event t) of
        None \<Rightarrow>
          (Inl (AlarmString (''event '' @ [CHR 0x27] @ j @ [CHR 0x27] @ '' not found in event table'')), t)
      | Some k \<Rightarrow>
          let t1 = set_event k (pop_alarm nm) t
          in if m_alarm (v_event t1 ! k) \<noteq> [] then (Inr (), t1)
             else
               let jn = ev_name (v_event t1 ! k)
               in (case ev_then (ev_stop jn t1) (\<lambda>u. ev_remove jn False) of
                     (Inr u, t2) \<Rightarrow> (Inr (), t2)
                   | (Inl e, t2) \<Rightarrow> (Inl (AlarmString (''unsubscribe_event() failed for '' @ jn)), t2)))"

fun unlink_events :: "string \<Rightarrow> string list \<Rightarrow> 'v event_table \<Rightarrow> (unit, 'v) ev_result" where
  "unlink_events nm [] t = (Inr (), t)"
| "unlink_events nm (j # js) t = ev_then (unlink_event nm j t) (\<lambda>u. unlink_events nm js)"

definition remove_alarm :: "string \<Rightarrow> 'v alarm_device \<Rightarrow> (unit, 'v) alarm_result" where
  "remove_alarm s d =
     (case find_alarm s d of
        None \<Rightarrow> (Inl (AlarmString (''alarm '' @ [CHR 0x27] @ s @ [CHR 0x27] @ '' not found in alarm table'')), d)
      | Some a \<Rightarrow>
          (case unlink_events (al_name a) (s_event a) (d_events d) of
             (Inl e, t) \<Rightarrow> (Inl e, d\<lparr>d_events := t\<rparr>)
           | (Inr u, t) \<Rightarrow>
               (Inr (), d\<lparr>d_events := update_property t, d_alarms := at_erase s (d_alarms d)\<rparr>)))"

definition underscores :: "string \<Rightarrow> string" where
  "underscores = List.map (\<lambda>c. if c = CHR ''/'' \<or> c = CHR ''.'' then CHR ''_'' else c)"

text \<open>The name that is looked for in \<open>alarmed\<close> is the one with the replaced characters.\<close>

definition remove :: "'v alarm_world \<Rightarrow> string \<Rightarrow> 'v alarm_device \<Rightarrow> (unit, 'v) alarm_result" where
  "remove w s d =
     (case (case find_alarmed s (d_alarmed d) of
              None \<Rightarrow> False
            | Some i \<Rightarrow> stat (d_alarmed d ! i) = S_ALARM \<and> ack (d_alarmed d ! i) = NOT_ACK) of
        True \<Rightarrow>
          failed ''Error removing alarm''
            (s @ '' is in ALARM status! Acknowledge it before removing.'') ''AlarmHandler::remove'' d
      | False \<Rightarrow>
          (case remove_alarm s d of
             (Inl e, d1) \<Rightarrow> failed ''Error removing alarm'' (error_desc e) ''AlarmHandler::remove'' d1
           | (Inr u, d1) \<Rightarrow>
               let d2 = (case find_alarmed (underscores s) (d_alarmed d1) of
                           None \<Rightarrow> d1
                         | Some i \<Rightarrow> d1\<lparr>d_alarmed := erase_at i (d_alarmed d1)\<rparr>)
               in (Inr (), publish w First_Summary d2)))"

definition remove_alarm_attrs :: "'v alarm_world \<Rightarrow> 'v alarm_device \<Rightarrow> 'v alarm_device" where
  "remove_alarm_attrs w d =
     fst (fold (\<lambda>i p. (let d1 = fst p; l = listAlarms (d_lists d1)
                       in if snd p \<and> i < length l then (snd (remove w (l ! i) d1), True)
                          else (d1, False)))
            [0..<length (listAlarms (d_lists d))] (d, True))"

end
