(* ===== verification/AlarmOperator.thy ===== *)
theory AlarmOperator
  imports AlarmCommands
begin

text \<open>
  The commands of the operator (\<open>AlarmHandler.cpp\<close>): acknowledge, silence, shelve, enable, disable,
  modify, the audible signal, the statistics and the queries; the configuration in the database and
  its reading (\<open>alarm_table.cpp\<close>); the rounds of the subscribe thread and of the command thread.
\<close>

subsection \<open>Acknowledge\<close>

definition change_alarmed :: "string \<Rightarrow> (alarm \<Rightarrow> alarm) \<Rightarrow> 'v alarm_device \<Rightarrow> 'v alarm_device" where
  "change_alarmed nm f d =
     (case find_alarmed nm (d_alarmed d) of
        None \<Rightarrow> d
      | Some k \<Rightarrow> d\<lparr>d_alarmed := (d_alarmed d)[k := f (d_alarmed d ! k)]\<rparr>)"

definition erase_alarmed :: "string \<Rightarrow> 'v alarm_device \<Rightarrow> 'v alarm_device" where
  "erase_alarmed nm d =
     (case find_alarmed nm (d_alarmed d) of
        None \<Rightarrow> d
      | Some k \<Rightarrow> d\<lparr>d_alarmed := erase_at k (d_alarmed d)\<rparr>)"

definition ack_one :: "string \<Rightarrow> 'v alarm_device \<Rightarrow> 'v alarm_device" where
  "ack_one nm d =
     (case find_alarmed nm (d_alarmed d) of
        None \<Rightarrow> d
      | Some k \<Rightarrow>
          (case find_alarm nm d of
             None \<Rightarrow> d
           | Some a \<Rightarrow>
               if \<not> enabled a \<or> shelved a then d
               else
                 let d1 = change_alarm nm (\<lambda>x. x\<lparr>ack := ACK\<rparr>) d;
                     d2 = (if ack (d_alarmed d ! k) = NOT_ACK
                           then push_alarm_attr nm (change_alarm nm set_attr_state d1) else d1)
                 in change_alarmed nm (\<lambda>e. e\<lparr>stat := stat a, ack := ACK\<rparr>) d2))"

definition normal_acknowledged :: "alarm \<Rightarrow> bool" where
  "normal_acknowledged a \<longleftrightarrow> str_find S_NORMAL (stat a) 0 \<noteq> None \<and> ack a = ACK"

text \<open>The loop that erases one entry at a time until none is found.\<close>

function erase_every :: "(alarm \<Rightarrow> bool) \<Rightarrow> alarm list \<Rightarrow> alarm list" where
  "erase_every P as =
     (case find_index P as of None \<Rightarrow> as | Some i \<Rightarrow> erase_every P (erase_at i as))"
  by pat_completeness auto
termination erase_every
  by (relation "measure (\<lambda>(P, as). length as)")
    (auto simp: length_erase_at dest: find_index_bound split: option.splits)

definition ack_alarms :: "'v alarm_world \<Rightarrow> string list \<Rightarrow> 'v alarm_device \<Rightarrow> 'v alarm_device" where
  "ack_alarms w nms d =
     (let d1 = fold ack_one nms d
      in publish w First_Summary (d1\<lparr>d_alarmed := erase_every normal_acknowledged (d_alarmed d1)\<rparr>))"

subsection \<open>Audible signal and statistics\<close>

definition stop_audible :: "'v alarm_world \<Rightarrow> 'v alarm_device \<Rightarrow> 'v alarm_device" where
  "stop_audible w d = publish w First_Summary (on_alarms (map_values (\<lambda>a. a\<lparr>is_new := 0\<rparr>)) d)"

definition stop_new :: "'v alarm_world \<Rightarrow> 'v alarm_device \<Rightarrow> 'v alarm_device" where
  "stop_new w d = publish w First_Summary (on_alarms (map_values (\<lambda>a. a\<lparr>is_new := 0\<rparr>)) d)"

definition reset_statistics_al :: "'v alarm_device \<Rightarrow> 'v alarm_device" where
  "reset_statistics_al = on_alarms (map_values (\<lambda>a. a\<lparr>freq_counter := 0\<rparr>))"

subsection \<open>Silence\<close>

text \<open>A command on several names stops at the first name that fails.\<close>

fun each_name ::
  "(string \<Rightarrow> 'v alarm_device \<Rightarrow> (unit, 'v) alarm_result) \<Rightarrow> string list \<Rightarrow> 'v alarm_device \<Rightarrow>
   (unit, 'v) alarm_result"
where
  "each_name f [] d = (Inr (), d)"
| "each_name f (nm # nms) d = dev_then (f nm d) (\<lambda>u. each_name f nms)"

definition start_silence :: "timeval \<Rightarrow> alarm \<Rightarrow> alarm" where
  "start_silence now a = a\<lparr>ts_time_silenced := now, silenced := silent_time a\<rparr>"

definition silence_one ::
  "'v alarm_world \<Rightarrow> string \<Rightarrow> 'v alarm_device \<Rightarrow> (unit, 'v) alarm_result"
where
  "silence_one w nm d =
     (case find_alarm nm d of
        None \<Rightarrow>
          failed ''Alarm not found!!'' (''Alarm '' @ nm @ '' not found'') ''AlarmHandler::silence()'' d
      | Some a0 \<Rightarrow>
          let a = countdown (aw_now w) a0;
              d1 = change_alarm nm (countdown (aw_now w)) d
          in if silenced a > 0 then
               failed ''Alarm already silenced''
                 (''Alarm '' @ nm @ '' already silenced for '' @ show_int (silenced a) @
                  '' more minutes'') ''AlarmHandler::silence()'' d1
             else if silent_time a \<le> 0 then
               failed ''Alarm cannot be silenced'' (''Alarm '' @ nm @ '' cannot be silenced'')
                 ''AlarmHandler::silence()'' d1
             else
               (Inr (), change_alarmed nm
                  (\<lambda>e. e\<lparr>silenced := silent_time a, ts_time_silenced := aw_now w\<rparr>)
                  (change_alarm nm (start_silence (aw_now w)) d1)))"

definition silence ::
  "'v alarm_world \<Rightarrow> string list \<Rightarrow> 'v alarm_device \<Rightarrow> (unit, 'v) alarm_result"
where
  "silence w nms d =
     dev_then (each_name (silence_one w) nms d) (\<lambda>u d1. (Inr (), publish w First_Summary d1))"

subsection \<open>Shelve\<close>

text \<open>All the names are tested before the first alarm is shelved.\<close>

definition shelve_check ::
  "'v alarm_world \<Rightarrow> string \<Rightarrow> 'v alarm_device \<Rightarrow> (unit, 'v) alarm_result"
where
  "shelve_check w nm d =
     (case find_alarm nm d of
        None \<Rightarrow> failed ''NOT_FOUND'' (nm @ '' not found in configured alarms'') ''shelve'' d
      | Some a0 \<Rightarrow>
          if \<not> enabled a0 then failed ''NOT_ENABLED'' (nm @ '' is not enabled'') ''shelve'' d
          else
            let a = countdown (aw_now w) a0;
                d1 = change_alarm nm (countdown (aw_now w)) d
            in if shelved a then
                 failed ''ALREADY_SHELVED'' (nm @ '' is already shelved'') ''shelve'' d1
               else if silent_time a \<le> 0 then
                 failed ''NOT_ALLOWED'' (''Alarm '' @ nm @ '' cannot be shelved'') ''shelve'' d1
               else (Inr (), d1))"

definition shelved_now :: "timeval \<Rightarrow> alarm \<Rightarrow> alarm" where
  "shelved_now now a = (start_silence now (a\<lparr>shelved := True\<rparr>))\<lparr>attr_value := SHLVD\<rparr>"

definition shelve_one :: "'v alarm_world \<Rightarrow> string \<Rightarrow> 'v alarm_device \<Rightarrow> 'v alarm_device" where
  "shelve_one w nm d =
     (case find_alarm nm d of
        None \<Rightarrow> d
      | Some a \<Rightarrow>
          push_alarm_attr nm (erase_alarmed nm (change_alarm nm (shelved_now (aw_now w)) d)))"

definition shelve ::
  "'v alarm_world \<Rightarrow> string list \<Rightarrow> 'v alarm_device \<Rightarrow> (unit, 'v) alarm_result"
where
  "shelve w nms d =
     dev_then (each_name (shelve_check w) nms d) (\<lambda>u d1.
     (Inr (), publish w Without_Audible (fold (shelve_one w) nms d1)))"

subsection \<open>Enable and disable\<close>

definition not_configured ::
  "string \<Rightarrow> string \<Rightarrow> 'v alarm_device \<Rightarrow> (unit, 'v) alarm_result"
where
  "not_configured nm origin = failed ''NOT_FOUND'' (nm @ '' not found in configured alarms'') origin"

definition enabled_now :: "alarm \<Rightarrow> alarm" where
  "enabled_now a =
     a\<lparr>enabled := True, silenced := can_be_silenced a, shelved := False,
       attr_value := state_by_status (stat a) (ack a) (attr_value a)\<rparr>"

definition enable :: "'v alarm_world \<Rightarrow> string \<Rightarrow> 'v alarm_device \<Rightarrow> (unit, 'v) alarm_result" where
  "enable w nm d =
     (case find_alarm nm d of
        None \<Rightarrow> not_configured nm ''enable'' d
      | Some a \<Rightarrow>
          (Inr (), on_events update_property
             (publish w Without_Audible (push_alarm_attr nm (change_alarm nm enabled_now d)))))"

definition disabled_now :: "alarm \<Rightarrow> alarm" where
  "disabled_now a =
     a\<lparr>enabled := False, silenced := can_be_silenced a, shelved := False, attr_value := OOSRV\<rparr>"

definition disable :: "'v alarm_world \<Rightarrow> string \<Rightarrow> 'v alarm_device \<Rightarrow> (unit, 'v) alarm_result" where
  "disable w nm d =
     (case find_alarm nm d of
        None \<Rightarrow> not_configured nm ''disable'' d
      | Some a \<Rightarrow>
          let d1 = push_alarm_attr nm (change_alarm nm disabled_now d);
              d2 = d1\<lparr>d_alarmed := erase_every (\<lambda>e. al_name e = nm) (d_alarmed d1)\<rparr>
          in (Inr (), on_events update_property (publish w First_Summary d2)))"

subsection \<open>Modify\<close>

text \<open>The members that are changed when the formula stays the same.\<close>

definition modify_members :: "alarm \<Rightarrow> alarm \<Rightarrow> alarm" where
  "modify_members p a =
     a\<lparr>stat := S_NORMAL, ack := ACK, al_done := False, msg := msg p, lev := lev p, grp := grp p,
       on_delay := on_delay p, off_delay := off_delay p, silent_time := silent_time p,
       silenced := can_be_silenced p, cmd_name_a := cmd_name_a p, cmd_dp_a := cmd_dp_a p,
       cmd_action_a := cmd_action_a p, cmd_name_n := cmd_name_n p, cmd_dp_n := cmd_dp_n p,
       cmd_action_n := cmd_action_n p, enabled := enabled p\<rparr>"

definition drop_proxies :: "alarm \<Rightarrow> alarm" where
  "drop_proxies a = a\<lparr>dp_a := None, dp_n := None\<rparr>"

definition modify_same ::
  "'v alarm_world \<Rightarrow> string \<Rightarrow> alarm \<Rightarrow> 'v alarm_device \<Rightarrow> (unit, 'v) alarm_result"
where
  "modify_same w s p d =
     (if \<not> (al_name p \<noteq> [] \<and> al_formula p \<noteq> [] \<and> level_known (lev p)) then
        failed (''modify: syntax error in '' @ [CHR 0x27] @ s @ [CHR 0x27]) [] ''modify'' d
      else
        let nm = al_name p;
            d1 = on_events update_property (change_alarm nm (modify_members p) d)
        in (Inr (), connect_off w cmd_action_a nm
              (connect_on w nm (change_alarm nm drop_proxies d1))))"

definition modify :: "'v alarm_world \<Rightarrow> 'v bei \<Rightarrow> string \<Rightarrow> 'v alarm_device \<Rightarrow> (unit, 'v) alarm_result"
where
  "modify w junk s d =
     (let p = aw_parse w (d_groups d) s;
          a = complete_parsed (assign_parsed p (clear_for_parse (alarm_t_new (aw_raw w))))
      in if \<not> pr_full p then
           failed ''Parsing Failed!''
             (''modify: Parsing Failed, parsed up to '' @ [CHR 0x27] @ take (pr_stop p) s @ [CHR 0x27] @
              '' not parsed '' @ [CHR 0x27] @ drop (pr_stop p) s @ [CHR 0x27]) ''modify'' d
         else
           (case find_alarm (al_name a) d of
              None \<Rightarrow>
                failed ''Not found'' (''Alarm '' @ [CHR 0x27] @ al_name a @ [CHR 0x27] @ '' not found'')
                  ''modify'' d
            | Some b \<Rightarrow>
                if al_formula b = al_formula a then modify_same w s a d
                else
                  dev_then (remove w (al_name a) d) (\<lambda>u d1.
                  dev_then (load w junk s d1) (\<lambda>u d2.
                  (Inr (), publish w First_Summary d2)))))"

end
