(* ===== verification/AlarmConfig.thy ===== *)
theory AlarmConfig
  imports AlarmOperator
begin

text \<open>
  The configuration of the alarms in the Tango database (\<open>get_alarm_list_db\<close> of \<open>alarm_table.cpp\<close>,
  \<open>put_signal_property\<close> of \<open>AlarmHandler.cpp\<close> and \<open>event_table.cpp\<close>), the round of the subscribe
  thread (\<open>SubscribeThread.cpp\<close>), and the commands \<open>SearchAlarm\<close> and \<open>GetAlarmInfo\<close>.

  The database keeps the properties of an attribute as strings and does not fail in the model.
\<close>

subsection \<open>Reading the configuration\<close>

text \<open>The loop over the properties of one attribute: the last value of a name counts.\<close>

definition conf_value :: "db_properties \<Rightarrow> string \<Rightarrow> string \<Rightarrow> string" where
  "conf_value ps k dflt = fold (\<lambda>p v. if fst p = k then snd p else v) ps dflt"

definition conf_line :: "db_properties \<Rightarrow> string" where
  "conf_line ps =
     key ''tag'' @ conf_value ps ''tag'' [] @ SEP @
     key ''formula'' @ conf_value ps ''formula'' [] @ SEP @
     key ''on_delay'' @ conf_value ps ''on_delay'' ''0'' @ SEP @
     key ''off_delay'' @ conf_value ps ''off_delay'' ''0'' @ SEP @
     key ''priority'' @ conf_value ps ''priority'' [] @ SEP @
     key ''shlvd_time'' @ conf_value ps ''shlvd_time'' ''-1'' @ SEP @
     key ''group'' @ conf_value ps ''group'' [] @ SEP @
     key ''message'' @ conf_value ps ''message'' [] @ SEP @
     key ''on_command'' @ conf_value ps ''on_command'' [] @ SEP @
     key ''off_command'' @ conf_value ps ''off_command'' [] @ SEP @
     key ''enabled'' @ conf_value ps ''enabled'' ''1''"

definition conf_complete :: "db_properties \<Rightarrow> bool" where
  "conf_complete ps \<longleftrightarrow>
     (\<forall>k\<in>{''tag'', ''formula'', ''priority'', ''group'', ''message''}. conf_value ps k [] \<noteq> [])"

fun get_alarm_list_db ::
  "(string \<times> db_properties) list \<Rightarrow> string list \<times> (string \<times> string) list \<Rightarrow>
   string list \<times> (string \<times> string) list"
where
  "get_alarm_list_db [] r = r"
| "get_alarm_list_db ((att, ps) # db) r =
     (if conf_complete ps then
        get_alarm_list_db db
          (fst r @ [conf_line ps], map_insert (conf_value ps ''tag'' []) (conf_line ps) (snd r))
      else get_alarm_list_db db r)"

subsection \<open>Writing the configuration\<close>

definition save_one :: "string \<times> alarm \<Rightarrow> 'v alarm_device \<Rightarrow> 'v alarm_device" where
  "save_one p d =
     (let c = confstr (d_groups d) (snd p)
      in case map_of (d_saved d) (fst p) of
           None \<Rightarrow>
             (let d1 = save_alarm_conf_db (snd p) d in d1\<lparr>d_saved := map_insert (fst p) c (d_saved d1)\<rparr>)
         | Some old \<Rightarrow>
             if c \<noteq> old then
               (let d1 = save_alarm_conf_db (snd p) d
                in d1\<lparr>d_saved := map_modify (fst p) (\<lambda>x. c) (d_saved d1)\<rparr>)
             else d)"

text \<open>
  The loop over \<open>saved_alarms\<close> deletes the configurations without an alarm. After an erasure the code
  increments the erased iterator, which C++ does not define; the model goes on with the next entry.
\<close>

definition forget_one :: "string \<Rightarrow> 'v alarm_device \<Rightarrow> 'v alarm_device" where
  "forget_one nm d =
     (if at_exist nm (d_alarms d) then d
      else (let d1 = delete_alarm_conf_db nm d in d1\<lparr>d_saved := map_erase nm (d_saved d1)\<rparr>))"

definition put_signal_property_al :: "'v alarm_device \<Rightarrow> 'v alarm_device" where
  "put_signal_property_al d =
     (let d1 = fold save_one (the_alarms d) d;
          d2 = fold forget_one (List.map fst (d_saved d1)) d1
      in d2\<lparr>d_alarm_list_prop := List.map fst (the_alarms d)\<rparr>)"

definition table_put_signal_property :: "'v alarm_device \<Rightarrow> 'v alarm_device" where
  "table_put_signal_property d =
     (if ev_action (d_events d) > EV_NOTHING then
        on_events (\<lambda>t. if ev_action t \<ge> UPDATE_PROP then t\<lparr>ev_action := ev_action t - 1\<rparr> else t)
          (put_signal_property_al d)
      else d)"

text \<open>One round of the subscribe thread; it tells how the thread waits for the next one.\<close>

definition subscribe_round ::
  "'v alarm_world \<Rightarrow> 'v alarm_device \<Rightarrow> (sub_wait, 'v) alarm_result"
where
  "subscribe_round w d =
     dev_then (lift_events (ev_subscribe_events (aw_env w) (aw_blank w)) (table_put_signal_property d))
       (\<lambda>u d1. (Inr (sub_wait_kind (d_events d1)), d1))"

subsection \<open>Command \<open>SearchAlarm\<close>\<close>

definition filter_begin :: "string \<Rightarrow> string" where
  "filter_begin f =
     (case str_find ''*'' f 0 of
        Some i \<Rightarrow> if i = length f - 1 then butlast f else f
      | None \<Rightarrow> f)"

definition search_line :: "groups \<Rightarrow> alarm \<Rightarrow> string" where
  "search_line gs a = show_int (sint (tv_sec (al_ts a))) @ SEP @ confstr gs a"

definition search_alarm :: "string \<Rightarrow> 'v alarm_device \<Rightarrow> string list" where
  "search_alarm f d =
     (let b = filter_begin f
      in List.map (\<lambda>p. search_line (d_groups d) (snd p))
           (filter (\<lambda>p. b = [] \<or> str_find b (fst p) 0 \<noteq> None) (the_alarms d)))"

subsection \<open>Command \<open>GetAlarmInfo\<close>\<close>

definition quality_label :: "int \<Rightarrow> string" where
  "quality_label q =
     (if q = ATTR_VALID then ''ATTR_VALID'' else if q = ATTR_INVALID then ''ATTR_INVALID''
      else if q = ATTR_ALARM then ''ATTR_ALARM'' else if q = ATTR_CHANGING then ''ATTR_CHANGING''
      else if q = ATTR_WARNING then ''ATTR_WARNING'' else show_int q)"

definition exception_text :: "alarm \<Rightarrow> string" where
  "exception_text a =
     (let quote = [CHR 0x22]
      in ''{'' @ quote @ ''Reason'' @ quote @ '':'' @ quote @ ex_reason a @ quote @ '','' @
         quote @ ''Desc'' @ quote @ '':'' @ quote @ ex_desc a @ quote @ '','' @
         quote @ ''Origin'' @ quote @ '':'' @ quote @ ex_origin a @ quote @ ''}'')"

definition flag :: "bool \<Rightarrow> string" where
  "flag b = (if b then ''1'' else ''0'')"

text \<open>The value of the key of the off delay is the on delay.\<close>

definition info_pairs :: "groups \<Rightarrow> string \<Rightarrow> alarm \<Rightarrow> (string \<times> string) list" where
  "info_pairs gs nm a =
     [(''tag'', nm),
      (''state'', if has_exception a then ''ERROR'' else state_label (attr_value a)),
      (''formula'', al_formula a),
      (''values'', if has_exception a then exception_text a else attr_values a),
      (''quality'', quality_label (al_quality a)),
      (''enabled'', flag (enabled a)), (''shelved'', flag (shelved a)),
      (''ack'', flag (ack a = ''ACK'')), (''audible'', flag (is_new a \<noteq> 0)),
      (''counter'', show_nat (unat (if stat a = S_ALARM then on_counter a else off_counter a))),
      (''freq_counter'', show_nat (unat (freq_counter a))),
      (''on_delay'', show_nat (unat (on_delay a))), (''off_delay'', show_nat (unat (on_delay a))),
      (''priority'', lev a), (''shlvd_time'', show_int (silent_time a)),
      (''shlvd_end'', show_int (silenced a)), (''group'', grp2str gs a),
      (''message'', [CHR 0x22] @ msg a @ [CHR 0x22]),
      (''on_command'', cmd_name_a a), (''off_command'', cmd_name_n a)]"

definition info_line :: "string \<times> string \<Rightarrow> string" where
  "info_line p = fst p @ ''='' @ snd p"

text \<open>The message of the unknown name shows the address of the argument, here \<open>address\<close>.\<close>

definition get_alarm_info ::
  "string \<Rightarrow> string list \<Rightarrow> 'v alarm_device \<Rightarrow> alarm_error + string list"
where
  "get_alarm_info address args d =
     (case args of
        [] \<Rightarrow> Inl (AlarmFailed ''BAD PARAMETERS'' ''At least alarm name expected'' ''get_alarm_info'')
      | nm # ks \<Rightarrow>
          (case find_alarm nm d of
             None \<Rightarrow>
               Inl (AlarmFailed ''NOT FOUND''
                 (''Alarm '' @ [CHR 0x27] @ address @ [CHR 0x27] @ '' not found'') ''get_alarm_info'')
           | Some a \<Rightarrow>
               let info = info_pairs (d_groups d) nm a
               in Inr (if ks = [] then List.map info_line info
                       else List.map (\<lambda>k. info_line (k, the (map_of info k)))
                              (filter (\<lambda>k. map_of info k \<noteq> None) ks))))"


text \<open>
  Start and end of the alarm device: the alarms of a configuration file (\<open>src/utils/AlarmData.cc\<close>,
  \<open>LoadAlarmsFromFile\<close>), \<open>init_device\<close>, \<open>add_dynamic_attributes\<close> and \<open>delete_device\<close>
  (\<open>AlarmHandler.cpp\<close>), and the command thread (\<open>cmd_thread.cpp\<close>).
\<close>

subsection \<open>Alarms of a configuration file\<close>

record alarm_data =
  m_name :: string
  m_formula :: string
  m_symbols :: "(string \<times> string) list"
  m_level :: string
  m_groups :: "string list"
  m_message :: string
  m_on_delay :: int
  m_off_delay :: int
  m_silent_time :: int
  m_on_command :: string
  m_off_command :: string
  m_enabled :: bool
  m_is_polled :: bool
  m_poll_period :: int

definition AlarmData_new ::
  "string \<Rightarrow> string \<Rightarrow> (string \<times> string) list \<Rightarrow> string \<Rightarrow> string list \<Rightarrow> string \<Rightarrow> alarm_data"
where
  "AlarmData_new name formula symbols level groups message =
     \<lparr>m_name = name, m_formula = formula, m_symbols = symbols, m_level = level, m_groups = groups,
      m_message = message, m_on_delay = 0, m_off_delay = 0, m_silent_time = -1, m_on_command = [],
      m_off_command = [], m_enabled = True, m_is_polled = False, m_poll_period = 0\<rparr>"

definition IsValid :: "alarm_data \<Rightarrow> bool" where
  "IsValid x \<longleftrightarrow>
     m_name x \<noteq> [] \<and> m_formula x \<noteq> [] \<and> m_symbols x \<noteq> [] \<and> m_level x \<noteq> [] \<and> m_message x \<noteq> [] \<and>
     \<not> (m_is_polled x \<and> m_poll_period x < 0)"

text \<open>
  \<open>StringFindAndReplace\<close> searches from the end of the last replacement. The fuel is the length of the
  string: every round with a nonempty \<open>old\<close> moves on by a part of the string, and the callers pass
  strings that start with a dollar sign. The result tells whether something was replaced.
\<close>

fun find_replace :: "nat \<Rightarrow> string \<Rightarrow> string \<Rightarrow> string \<Rightarrow> bool \<times> string" where
  "find_replace 0 old new s = (False, s)"
| "find_replace (Suc n) old new s =
     (case str_find old s 0 of
        None \<Rightarrow> (False, s)
      | Some i \<Rightarrow>
          (True, take i s @ new @ snd (find_replace n old new (drop (i + length old) s))))"

definition StringFindAndReplace :: "string \<Rightarrow> string \<Rightarrow> string \<Rightarrow> bool \<times> string" where
  "StringFindAndReplace s old new = find_replace (length s) old new s"

text \<open>The symbols are replaced in the member \<open>m_formula\<close>, in the order of their names.\<close>

fun expand_symbols :: "(string \<times> string) list \<Rightarrow> string \<Rightarrow> bool \<times> string" where
  "expand_symbols [] f = (True, f)"
| "expand_symbols ((k, v) # m) f =
     (case StringFindAndReplace f (''$'' @ k) v of
        (False, g) \<Rightarrow> (False, g)
      | (True, g) \<Rightarrow> expand_symbols m g)"

definition ExpandFormula :: "alarm_data \<Rightarrow> bool \<times> alarm_data" where
  "ExpandFormula x =
     (if m_symbols x = [] then (False, x)
      else (let r = expand_symbols (m_symbols x) (m_formula x) in (fst r, x\<lparr>m_formula := snd r\<rparr>)))"

fun join_groups :: "string list \<Rightarrow> string" where
  "join_groups [] = ''none''"
| "join_groups [g] = g"
| "join_groups (g # gs) = g @ '' | '' @ join_groups gs"

definition tango_format :: "alarm_data \<Rightarrow> string" where
  "tango_format x =
     ''tag='' @ m_name x @ '';formula='' @ m_formula x @ '';on_delay='' @ show_int (m_on_delay x) @
     '';off_delay='' @ show_int (m_off_delay x) @ '';priority='' @ m_level x @
     '';shlvd_time='' @ show_int (m_silent_time x) @ '';group='' @ join_groups (m_groups x) @
     '';message='' @ m_message x @ '';'' @
     (if m_on_command x \<noteq> [] then ''on_command='' @ m_on_command x @ '';'' else []) @
     (if m_off_command x \<noteq> [] then ''off_command='' @ m_off_command x @ '';'' else []) @
     ''enabled='' @ (if m_enabled x then ''1'' else ''0'')"

text \<open>The text, or \<open>None\<close> for the status -1, and the object with the changed formula.\<close>

definition SerializeToTangoFormat :: "alarm_data \<Rightarrow> string option \<times> alarm_data" where
  "SerializeToTangoFormat x =
     (if \<not> IsValid x then (None, x)
      else (case ExpandFormula x of
              (False, y) \<Rightarrow> (None, y)
            | (True, y) \<Rightarrow> (Some (tango_format y), y)))"

text \<open>
  The loop over the alarms that \<open>DevConfigParser\<close> has read: a failure to serialize or to load one of
  them is logged and the loop goes on. An exception of another kind ends it.
\<close>

fun load_collection ::
  "'v alarm_world \<Rightarrow> 'v bei \<Rightarrow> alarm_data list \<Rightarrow> 'v alarm_device \<Rightarrow> (unit, 'v) alarm_result"
where
  "load_collection w junk [] d = (Inr (), d)"
| "load_collection w junk (x # xs) d =
     (case SerializeToTangoFormat x of
        (None, y) \<Rightarrow> load_collection w junk xs d
      | (Some s, y) \<Rightarrow>
          (case load w junk s d of
             (Inl (AlarmFailed a b c), d1) \<Rightarrow> load_collection w junk xs d1
           | (Inl e, d1) \<Rightarrow> (Inl e, d1)
           | (Inr u, d1) \<Rightarrow> load_collection w junk xs d1))"

text \<open>The file is the collection of its alarms, or the reason for which it cannot be read.\<close>

definition LoadAlarmsFromFile ::
  "'v alarm_world \<Rightarrow> 'v bei \<Rightarrow> string + alarm_data list \<Rightarrow> 'v alarm_device \<Rightarrow> (int, 'v) alarm_result"
where
  "LoadAlarmsFromFile w junk file d =
     (case file of
        Inl m \<Rightarrow> failed ''LOAD_ALARMS_FROM_FILE_FAILED'' m [] d
      | Inr xs \<Rightarrow> dev_then (load_collection w junk xs d) (\<lambda>u d1. (Inr 0, d1)))"

subsection \<open>Start of the device\<close>

text \<open>
  Loading the alarms of the database. An alarm that does not load is reported by an internal alarm.
  The name in the report is that of the alarm as far as it was parsed.
\<close>

definition load_stored_alarm ::
  "'v alarm_world \<Rightarrow> string \<Rightarrow> (string \<times> string list) list \<times> 'v alarm_device \<Rightarrow>
   (string \<times> string list) list \<times> 'v alarm_device"
where
  "load_stored_alarm w s p =
     (case p of (evs, d) \<Rightarrow>
       (case load_alarm w s (alarm_clear (alarm_t_new (aw_raw w))) d of
          Inl e \<Rightarrow>
            (evs, report w (''error loading alarm='' @ parsed_name (aw_parse w (d_groups d) s) @
                    '' , '' @ error_desc e) d)
        | Inr (a, evn) \<Rightarrow>
            (map_insert (al_name a) (remdups (sort evn)) evs, add_alarm True a d)))"

definition connect_action ::
  "'v alarm_world \<Rightarrow> (alarm \<Rightarrow> string) \<Rightarrow> (alarm \<Rightarrow> string) \<Rightarrow> (alarm \<Rightarrow> string) \<Rightarrow>
   (string option \<Rightarrow> alarm \<Rightarrow> alarm) \<Rightarrow> (bool \<Rightarrow> alarm \<Rightarrow> alarm) \<Rightarrow> string \<Rightarrow> 'v alarm_device \<Rightarrow>
   'v alarm_device"
where
  "connect_action w full device action set_dp set_send nm d =
     (case find_alarm nm d of
        None \<Rightarrow> d
      | Some a \<Rightarrow>
          if full a = [] then d
          else (case aw_new_proxy w (device a) of
            Some e \<Rightarrow>
              change_alarm nm (set_dp None) (report w (proxy_error (al_name a) (device a) e) d)
          | None \<Rightarrow>
              (case aw_ping w (device a) of
                Some e \<Rightarrow>
                  change_alarm nm (set_dp None) (report w (proxy_error (al_name a) (device a) e) d)
              | None \<Rightarrow>
                  let d1 = change_alarm nm (set_dp (Some (device a))) d
                  in (case aw_command_query w (device a) (action a) of
                     Inl e \<Rightarrow>
                       change_alarm nm (set_dp None) (report w (proxy_error (al_name a) (device a) e) d1)
                   | Inr Arg_Other \<Rightarrow>
                       report w (al_name a @ '': error, command '' @ full a @
                         '' does not accept a Tango::DevString or a Tango::DevVoid as input value'') d1
                   | Inr t \<Rightarrow> change_alarm nm (set_send (t = Arg_String)) d1))))"

definition connect_actions :: "'v alarm_world \<Rightarrow> string \<Rightarrow> 'v alarm_device \<Rightarrow> 'v alarm_device" where
  "connect_actions w nm d =
     connect_action w cmd_name_n cmd_dp_n cmd_action_n (\<lambda>x a. a\<lparr>dp_n := x\<rparr>) (\<lambda>b a. a\<lparr>send_arg_n := b\<rparr>) nm
       (connect_action w cmd_name_a cmd_dp_a cmd_action_a (\<lambda>x a. a\<lparr>dp_a := x\<rparr>)
         (\<lambda>b a. a\<lparr>send_arg_a := b\<rparr>) nm d)"

text \<open>The alarms of \<open>stored\<close> (a member that no code of the repository fills) without one in the table.\<close>

definition known_stored :: "'v alarm_device \<Rightarrow> alarm list \<Rightarrow> alarm list" where
  "known_stored d st = filter (\<lambda>i. at_exist (al_name i) (d_alarms d)) st"

fun add_all_events ::
  "'v alarm_world \<Rightarrow> (string \<times> string list) list \<Rightarrow> 'v alarm_device \<Rightarrow> (unit, 'v) alarm_result"
where
  "add_all_events w [] d = (Inr (), d)"
| "add_all_events w ((nm, evn) # m) d =
     (if at_exist nm (d_alarms d)
      then dev_then (add_event w nm evn d) (\<lambda>u. add_all_events w m)
      else add_all_events w m d)"

definition request_all ::
  "'v alarm_world \<Rightarrow> 'v bei \<Rightarrow> (string \<times> string list) list \<Rightarrow> 'v alarm_device \<Rightarrow> 'v alarm_device"
where
  "request_all w junk evs d =
     fold (\<lambda>p d1. case find_alarm (fst p) d1 of
             None \<Rightarrow> d1
           | Some a \<Rightarrow> if to_be_evaluated a then request_evaluation w junk d1 else d1) evs d"

text \<open>
  The device after its construction, up to the start of the file: tables, stored alarms, proxies,
  events, requests of evaluation. The device ends when \<open>add_event\<close> calls \<open>std::unexpected\<close>.
\<close>

definition init_device ::
  "'v alarm_world \<Rightarrow> 'v bei \<Rightarrow> alarm list \<Rightarrow> 'v alarm_device \<Rightarrow> (unit, 'v) alarm_result"
where
  "init_device w junk st d0 =
     (let db = get_alarm_list_db (d_conf_db d0) ([], []);
          l = fold (load_stored_alarm w) (fst db)
                ([], d0\<lparr>d_internal_counter := 0, d_saved := snd db\<rparr>);
          evs = fst l;
          d1 = snd l;
          keep = known_stored d1 st;
          d2 = d1\<lparr>d_alarms := at_stored keep (d_alarms d1), d_alarmed := d_alarmed d1 @ keep\<rparr>;
          d3 = fold (connect_actions w) (List.map fst (the_alarms d2)) d2
      in dev_then (add_all_events w evs d3) (\<lambda>u d4.
         dev_then (lift_events (ev_start_all (aw_env w) (aw_blank w)) d4) (\<lambda>u d5.
         let d6 = request_all w junk evs d5
         in (Inr (), d6\<lparr>d_alarms := (d_alarms d6)\<lparr>startup_complete := aw_now w\<rparr>\<rparr>))))"

text \<open>The cells of the attributes are created once the device is constructed.\<close>

definition add_dynamic_attributes :: "'v alarm_device \<Rightarrow> 'v alarm_device" where
  "add_dynamic_attributes = on_alarms (map_values (\<lambda>a. a\<lparr>attr_value := NORM\<rparr>))"

subsection \<open>End of the device\<close>

definition alm2str :: "groups \<Rightarrow> alarm \<Rightarrow> string" where
  "alm2str gs a =
     show_int (sint (tv_sec (al_ts a))) @ tab @ show_int (sint (tv_usec (al_ts a))) @ tab @
     al_name a @ tab @ stat a @ tab @ ack a @ tab @ show_nat (unat (on_counter a)) @ tab @
     lev a @ tab @ show_int (silent_time a) @ tab @ grp2str gs a @ tab @ msg a @ ends"

text \<open>The result is the property \<open>AlarmStatus\<close> and the device with empty tables.\<close>

definition delete_device :: "'v alarm_device \<Rightarrow> string list \<times> 'v alarm_device" where
  "delete_device d =
     (List.map (alm2str (d_groups d)) (d_alarmed d),
      d\<lparr>d_alarms := (d_alarms d)\<lparr>v_alarm := []\<rparr>, d_events := ev_unsubscribe_events (d_events d),
        d_evlist := [], d_alarmed := []\<rparr>)"

subsection \<open>The command thread\<close>

text \<open>
  A request is a command to send, the answer to a command to wait for, or the end of the thread. The
  answers of Tango are arguments: the identifier of the call or an error (whether its description
  says that the answer is not yet arrived), and whether the answer is there.
\<close>

datatype cmd_request = CMD_COMMAND cmd | CMD_RESPONSE u32 cmd | CMD_THREAD_EXIT

datatype sent = Called u32 | Not_Arrived u32 | Send_Failed

record cmd_log =
  cl_calls :: "(string option \<times> string \<times> string option) list"
  cl_queue :: "cmd_request list"

text \<open>A call has an argument when \<open>arg_b\<close> is set.\<close>

definition call_of :: "cmd \<Rightarrow> string option \<times> string \<times> string option" where
  "call_of c = (dp_add c, arg_s2 c, if arg_b c then Some (arg_s1 c) else None)"

text \<open>One round; \<open>None\<close> for waiting on the empty queue, \<open>False\<close> for the end of the thread.\<close>

definition cmd_round ::
  "(cmd \<Rightarrow> sent) \<Rightarrow> (u32 \<Rightarrow> bool) \<Rightarrow> cmd_log \<Rightarrow> (bool \<times> cmd_log) option"
where
  "cmd_round send arrived s =
     (case cl_queue s of
        [] \<Rightarrow> None
      | CMD_THREAD_EXIT # q \<Rightarrow> Some (False, s\<lparr>cl_queue := q\<rparr>)
      | CMD_COMMAND c # q \<Rightarrow>
          let s1 = s\<lparr>cl_calls := cl_calls s @ [call_of c]\<rparr>
          in Some (True,
               case send c of
                 Called i \<Rightarrow> s1\<lparr>cl_queue := q @ [CMD_RESPONSE i c]\<rparr>
               | Not_Arrived i \<Rightarrow> s1\<lparr>cl_queue := q @ [CMD_RESPONSE i c]\<rparr>
               | Send_Failed \<Rightarrow> s1\<lparr>cl_queue := q\<rparr>)
      | CMD_RESPONSE i c # q \<Rightarrow>
          Some (True, s\<lparr>cl_queue := (if arrived i then q else q @ [CMD_RESPONSE i c])\<rparr>))"

end
