(* ===== verification/AlarmEventsSpec.thy ===== *)
theory AlarmEventsSpec
  imports AlarmEvents
begin

text \<open>
  What the operations of the event table keep: the names are distinct, each event is either running
  or stopped, and the alarms that are registered at an event change only by \<open>push_alarm\<close>,
  \<open>pop_alarm\<close>, \<open>add\<close> and \<open>remove\<close>.
\<close>

definition links :: "'v event_table \<Rightarrow> (string \<times> string list) list" where
  "links t = List.map (\<lambda>e. (ev_name e, m_alarm e)) (v_event t)"

definition mode_ok :: "'v alm_event \<Rightarrow> bool" where
  "mode_ok e \<longleftrightarrow> ev_running e \<noteq> ev_stopped e \<and> \<not> ev_paused e"

definition events_ok :: "'v event_table \<Rightarrow> bool" where
  "events_ok t \<longleftrightarrow> distinct (List.map ev_name (v_event t)) \<and> list_all mode_ok (v_event t)"

lemma events_ok_cong: "v_event t' = v_event t \<Longrightarrow> events_ok t' = events_ok t"
  by (simp add: events_ok_def)

lemma links_cong: "v_event t' = v_event t \<Longrightarrow> links t' = links t"
  by (simp add: links_def)

lemma links_names: "List.map fst (links t) = List.map ev_name (v_event t)"
  by (simp add: links_def comp_def)

subsection \<open>Finding an event\<close>

lemma find_event_cong:
  "List.map ev_name es' = List.map ev_name es \<Longrightarrow> find_event nm es' = find_event nm es"
  by (simp add: find_event_def find_index_map [where g = ev_name and P = "\<lambda>n. n = nm"])

lemma get_event_cong:
  "List.map ev_name es' = List.map ev_name es \<Longrightarrow> get_event nm es' = get_event nm es"
  using find_event_cong [of es' es nm]
  by (simp add: get_event_def
      find_index_map [where g = ev_name and P = "\<lambda>n. same_without_domain n nm"] split: option.split)

lemma find_event_hit: "find_event nm es = Some i \<Longrightarrow> i < length es \<and> ev_name (es ! i) = nm"
  by (auto simp: find_event_def dest: find_index_SomeD)

lemma find_event_absent: "find_event nm es = None \<longleftrightarrow> nm \<notin> ev_name ` set es"
  by (auto simp: find_event_def)

lemma get_event_bound: "get_event nm es = Some i \<Longrightarrow> i < length es"
  by (auto simp: get_event_def find_event_def dest: find_index_bound split: option.splits)

lemma get_event_absent: "get_event nm es = None \<Longrightarrow> nm \<notin> ev_name ` set es"
  by (auto simp: get_event_def find_event_absent split: option.splits)

lemma get_event_exact: "find_event nm es = Some i \<Longrightarrow> get_event nm es = Some i"
  by (simp add: get_event_def)

subsection \<open>Changes of one event\<close>

text \<open>A change that keeps the name and the registered alarms, and does not spoil the mode.\<close>

locale event_update =
  fixes f :: "'v alm_event \<Rightarrow> 'v alm_event"
  assumes keeps_name: "ev_name (f e) = ev_name e"
    and keeps_alarms: "m_alarm (f e) = m_alarm e"
    and keeps_mode: "mode_ok e \<Longrightarrow> mode_ok (f e)"
begin

lemma set_names: "List.map ev_name (v_event (set_event i f t)) = List.map ev_name (v_event t)"
  by (simp add: set_event_def map_update_same keeps_name)

lemma set_links: "links (set_event i f t) = links t"
  by (simp add: links_def set_event_def map_update_same keeps_name keeps_alarms)

lemma set_ok: "events_ok t \<Longrightarrow> events_ok (set_event i f t)"
proof (cases "i < length (v_event t)")
  case True
  then show "events_ok t \<Longrightarrow> ?thesis"
    using set_names [of i t] by (auto simp: events_ok_def set_event_def list_all_length nth_list_update
        intro!: keeps_mode)
next
  case False
  then show "events_ok t \<Longrightarrow> ?thesis" by (simp add: events_ok_def set_event_def not_less list_update_beyond)
qed

end

interpretation ev_reset: event_update "\<lambda>e. reset_event (e\<lparr>ev_attr := True\<rparr>)"
  by unfold_locales (simp_all add: reset_event_def mode_ok_def)

interpretation ev_fail: event_update "\<lambda>e. e\<lparr>ev_reason := a, ev_desc := b, ev_origin := c\<rparr>"
  by unfold_locales (simp_all add: mode_ok_def)

interpretation ev_run: event_update "\<lambda>e. e\<lparr>ev_running := True, ev_paused := False, ev_stopped := False\<rparr>"
  by unfold_locales (simp_all add: mode_ok_def)

definition stop_event :: "'v alm_event \<Rightarrow> 'v alm_event" where
  "stop_event e =
     (if ev_stopped e then e else e\<lparr>ev_stopped := True, ev_running := False, ev_paused := False\<rparr>)"

interpretation ev_halt: event_update stop_event
  by unfold_locales (simp_all add: mode_ok_def stop_event_def)

interpretation ev_subscribe: event_update "subscribe_one env"
  by unfold_locales (simp_all add: mode_ok_def subscribe_one_def Let_def split: sum.splits prod.splits)

subsection \<open>Operations of the table\<close>

lemma raise_action_events [simp]: "v_event (raise_action n t) = v_event t"
  by (simp add: raise_action_def)

lemma update_property_events [simp]: "v_event (update_property t) = v_event t"
  by (simp add: update_property_def)

text \<open>A change of the table keeps its links and its invariant.\<close>

definition same_links :: "'v event_table \<Rightarrow> 'v event_table \<Rightarrow> bool" where
  "same_links t t' \<longleftrightarrow> links t' = links t \<and> (events_ok t \<longrightarrow> events_ok t')"

lemma same_links_refl [simp]: "same_links t t"
  by (simp add: same_links_def)

lemma same_links_trans: "same_links t u \<Longrightarrow> same_links u v \<Longrightarrow> same_links t v"
  by (simp add: same_links_def)

lemma same_links_events: "v_event t' = v_event t \<Longrightarrow> same_links t t'"
  by (simp add: same_links_def events_ok_def links_def)

lemma same_links_frame [simp]:
  "same_links t (u\<lparr>ev_initialized := b\<rparr>) = same_links t u"
  "same_links t (u\<lparr>attr_AttributeStoppedNumber := n\<rparr>) = same_links t u"
  "same_links t (u\<lparr>attr_AttributeStartedNumber := n\<rparr>) = same_links t u"
  "same_links t (u\<lparr>attr_AttributePausedNumber := n\<rparr>) = same_links t u"
  "same_links (t\<lparr>attr_AttributeStoppedNumber := n\<rparr>) u = same_links t u"
  by (simp_all add: same_links_def events_ok_def links_def)

lemma same_links_names:
  "same_links t t' \<Longrightarrow> List.map ev_name (v_event t') = List.map ev_name (v_event t)"
  using links_names [of t] links_names [of t'] by (simp add: same_links_def)

lemma ev_add_start: "same_links t (snd (ev_add env blank nm to_do True t))"
  by (auto simp: ev_add_def same_links_def ev_reset.set_links ev_reset.set_ok
      events_ok_cong [of "raise_action n u" u for n u] links_cong [of "raise_action n u" u for n u]
      split: option.splits prod.splits)

lemma note_error_links: "same_links t (snd r) \<Longrightarrow> same_links t (snd (note_error i r))"
  by (auto simp: note_error_def same_links_def ev_fail.set_links ev_fail.set_ok
      split: prod.splits sum.splits alarm_error.splits)

text \<open>Stopping an event that the table has.\<close>

lemma stop_frame [simp]:
  "v_event (t\<lparr>attr_AttributeStoppedNumber := n\<rparr>) = v_event t"
  "v_event (t\<lparr>attr_AttributeStartedNumber := n\<rparr>) = v_event t"
  "v_event (t\<lparr>attr_AttributePausedNumber := n\<rparr>) = v_event t"
  by simp_all

lemma ev_stop_found:
  assumes "get_event nm (v_event t) = Some i"
  shows "fst (ev_stop nm t) = Inr ()"
    and "v_event (snd (ev_stop nm t)) = (v_event t)[i := stop_event (v_event t ! i)]"
proof -
  let ?e = "v_event t ! i"
  have i: "i < length (v_event t)" using assms by (rule get_event_bound)
  have same: "get_event nm ((v_event t)[i := ?e\<lparr>ev_stopped := True\<rparr>]) = Some i"
    using assms get_event_cong [of "(v_event t)[i := ?e\<lparr>ev_stopped := True\<rparr>]" "v_event t" nm]
    by (simp add: map_update_same)
  have "fst (ev_stop nm t) = Inr () \<and>
      v_event (snd (ev_stop nm t)) = (v_event t)[i := stop_event ?e]"
    using assms same i
    by (simp add: ev_stop_def ev_then_def ev_remove_def ignore_failed_def set_event_def stop_event_def
        Let_def list_update_id)
  then show "fst (ev_stop nm t) = Inr ()"
    and "v_event (snd (ev_stop nm t)) = (v_event t)[i := stop_event ?e]" by simp_all
qed

lemma ev_stop_links: "same_links t (snd (ev_stop nm t))"
proof (cases "get_event nm (v_event t)")
  case None
  then show ?thesis by (simp add: ev_stop_def)
next
  case (Some i)
  have "v_event (snd (ev_stop nm t)) = v_event (set_event i stop_event t)"
    by (simp add: ev_stop_found(2) [OF Some] set_event_def)
  then show ?thesis
    using ev_halt.set_links [of i t] ev_halt.set_ok [of t i]
      links_cong [of "snd (ev_stop nm t)" "set_event i stop_event t"]
      events_ok_cong [of "snd (ev_stop nm t)" "set_event i stop_event t"]
    by (simp add: same_links_def)
qed

text \<open>Starting.\<close>

lemma ev_then_links:
  "same_links t (snd r) \<Longrightarrow> (\<And>x u. same_links t u \<Longrightarrow> same_links t (snd (k x u))) \<Longrightarrow>
   same_links t (snd (ev_then r k))"
  by (auto simp: ev_then_def split: prod.splits sum.splits)

lemma run_links:
  "same_links t u \<Longrightarrow>
   same_links t (set_event i (\<lambda>e. e\<lparr>ev_running := True, ev_paused := False, ev_stopped := False\<rparr>) u)"
  using ev_run.set_links [of i u] ev_run.set_ok [of u i] by (simp add: same_links_def)

lemma start_at_links: "same_links t (snd (start_at env blank nm i t))"
proof -
  let ?u = "t\<lparr>attr_AttributeStoppedNumber := attr_AttributeStoppedNumber t - 1\<rparr>"
  have add: "same_links t (snd (note_error i (ev_add env blank nm EV_NOTHING True ?u)))"
    using note_error_links [OF ev_add_start, of ?u i env blank nm EV_NOTHING] by simp
  show ?thesis
  proof (cases "ev_running (v_event t ! i)")
    case True
    then show ?thesis by (simp add: start_at_def)
  next
    case False
    then show ?thesis
      unfolding start_at_def Let_def
      by (simp only: if_False) (rule ev_then_links; simp add: add run_links)
  qed
qed

lemma ev_start_links: "same_links t (snd (ev_start env blank nm t))"
  by (simp add: ev_start_def start_at_links split: option.splits)

lemma start_from_links: "same_links t (snd (start_from env blank is t))"
proof (induction "is" arbitrary: t)
  case Nil
  then show ?case by simp
next
  case (Cons i "is")
  then show ?case
    by (auto intro!: ev_then_links start_at_links intro: same_links_trans)
qed

lemma ev_start_all_links: "same_links t (snd (ev_start_all env blank t))"
  by (simp add: ev_start_all_def start_from_links)

text \<open>Subscribing.\<close>

lemma subscribe_at_links: "same_links t (snd (subscribe_at env blank i t))"
proof -
  let ?r = "ev_add env blank (ev_name (v_event t ! i)) EV_NOTHING True t"
  have sub: "same_links t (set_event i (subscribe_one env) u)" if "same_links t u" for u
    using that ev_subscribe.set_links [of i env u] ev_subscribe.set_ok [of u i env]
    by (simp add: same_links_def)
  have "same_links t (snd ?r)" by (rule ev_add_start)
  then show ?thesis
    using note_error_links [of t ?r i] sub
    by (auto simp: subscribe_at_def Let_def split: prod.splits sum.splits)
qed

lemma subscribe_from_links: "same_links t (snd (subscribe_from env blank is t))"
proof (induction "is" arbitrary: t)
  case Nil
  then show ?case by simp
next
  case (Cons i "is")
  then show ?case
    by (auto intro!: ev_then_links subscribe_at_links intro: same_links_trans)
qed

lemma ev_subscribe_links: "same_links t (snd (ev_subscribe_events env blank t))"
  unfolding ev_subscribe_events_def
  by (rule ev_then_links [OF subscribe_from_links]) simp

subsection \<open>Adding and removing an event\<close>

lemma ev_add_new:
  assumes "fst (ev_add env blank nm to_do False t) = Inr ()"
  shows "links (snd (ev_add env blank nm to_do False t)) = links t @ [(nm, [])]"
    and "events_ok t \<Longrightarrow> events_ok (snd (ev_add env blank nm to_do False t))"
    and "nm \<notin> set (List.map fst (links t))"
proof -
  obtain i where g: "get_event nm (v_event t) = None" and f: "find_last_char CHR ''/'' nm = Some i"
    using assms by (auto simp: ev_add_def split: option.splits if_splits)
  let ?e = "reset_event (new_event blank nm i)"
  have e: "ev_name ?e = nm" "m_alarm ?e = []" "mode_ok ?e"
    by (simp_all add: reset_event_def new_event_def mode_ok_def)
  have v: "v_event (snd (ev_add env blank nm to_do False t)) = v_event t @ [?e]"
    using g f by (simp add: ev_add_def raise_action_def)
  show "links (snd (ev_add env blank nm to_do False t)) = links t @ [(nm, [])]"
    by (simp add: links_def v e)
  show new: "nm \<notin> set (List.map fst (links t))"
    using get_event_absent [OF g] by (simp only: links_names) simp
  show "events_ok t \<Longrightarrow> events_ok (snd (ev_add env blank nm to_do False t))"
    using get_event_absent [OF g] e by (auto simp: events_ok_def v)
qed

lemma ev_remove_found:
  assumes "find_event nm (v_event t) = Some i" "events_ok t"
  shows "fst (ev_remove nm False t) = Inr ()"
    and "links (snd (ev_remove nm False t)) = map_erase nm (links t)"
    and "events_ok (snd (ev_remove nm False t))"
proof -
  have g: "get_event nm (v_event t) = Some i" using assms(1) by (rule get_event_exact)
  have i: "i < length (v_event t)" "ev_name (v_event t ! i) = nm"
    using find_event_hit [OF assms(1)] by simp_all
  have v: "v_event (snd (ev_remove nm False t)) = erase_at i (v_event t)"
    using g by (simp add: ev_remove_def Let_def)
  show "fst (ev_remove nm False t) = Inr ()" using g by (simp add: ev_remove_def Let_def)
  have ts: "v_event t = take i (v_event t) @ v_event t ! i # drop (Suc i) (v_event t)"
    using i(1) by (simp add: id_take_nth_drop)
  have "nm \<notin> ev_name ` set (take i (v_event t)) \<union> ev_name ` set (drop (Suc i) (v_event t))"
    using assms(2) i(2) ts unfolding events_ok_def by (metis (no_types, lifting) Un_iff distinct.simps(2) distinct_append
        disjoint_iff list.set_intros(1) list.set_map list.simps(9) map_append)
  then have keep: "filter (\<lambda>e. ev_name e \<noteq> nm) (take i (v_event t)) = take i (v_event t)"
      "filter (\<lambda>e. ev_name e \<noteq> nm) (drop (Suc i) (v_event t)) = drop (Suc i) (v_event t)"
    by (auto intro!: filter_True)
  have "map_erase nm (links t) = links (snd (ev_remove nm False t))"
    unfolding links_def v erase_at_def map_erase_def
    by (subst ts) (simp add: filter_map comp_def i(2) keep)
  then show "links (snd (ev_remove nm False t)) = map_erase nm (links t)" by simp
  show "events_ok (snd (ev_remove nm False t))"
    using assms(2) distinct_erase_at [of "List.map ev_name (v_event t)" i]
    by (simp add: events_ok_def v map_erase_at list_all_erase_at)
qed

end
