(* ===== verification/AlarmDeviceSpec.thy ===== *)
theory AlarmDeviceSpec
  imports AlarmConfig AlarmEventsSpec
begin

text \<open>
  The invariant of the alarm device: the table of the alarms is sorted, each alarm stands under its own
  name with a known status and acknowledgement, the events are well formed, and every event name of
  an alarm is an event of the table at which the alarm is registered.
\<close>

definition alarm_ok :: "string \<Rightarrow> alarm \<Rightarrow> bool" where
  "alarm_ok k a \<longleftrightarrow>
     al_name a = k \<and> attr_name a = k \<and> alarm_typed a \<and> counters_exclusive a \<and>
     sorted_wrt (<) (s_event a)"

definition table_ok :: "alarm_container \<Rightarrow> bool" where
  "table_ok m \<longleftrightarrow> sorted_map m \<and> (\<forall>p\<in>set m. alarm_ok (fst p) (snd p))"

definition monitors :: "(string \<times> string list) list \<Rightarrow> string \<Rightarrow> string \<Rightarrow> bool" where
  "monitors ls j nm \<longleftrightarrow> (case map_of ls j of None \<Rightarrow> False | Some nms \<Rightarrow> nm \<in> set nms)"

definition linked :: "alarm_container \<Rightarrow> (string \<times> string list) list \<Rightarrow> bool" where
  "linked m ls \<longleftrightarrow> (\<forall>p\<in>set m. \<forall>j\<in>set (s_event (snd p)). monitors ls j (fst p))"

definition parts_ok :: "alarm_container \<Rightarrow> 'v event_table \<Rightarrow> bool" where
  "parts_ok m t \<longleftrightarrow> table_ok m \<and> events_ok t \<and> linked m (links t)"

definition dev_ok :: "'v alarm_device \<Rightarrow> bool" where
  "dev_ok d \<longleftrightarrow> parts_ok (the_alarms d) (d_events d)"

subsection \<open>What the operations do not touch\<close>

lemma change_alarm_parts [simp]:
  "the_alarms (change_alarm nm f d) = map_modify nm f (the_alarms d)"
  "d_events (change_alarm nm f d) = d_events d"
  "the_alarms (on_alarms g d) = g (the_alarms d)"
  "d_events (on_alarms g d) = d_events d"
  "the_alarms (on_events h d) = the_alarms d"
  "d_events (on_events h d) = h (d_events d)"
  by (simp_all add: the_alarms_def change_alarm_def on_alarms_def on_events_def)

lemma emit_parts [simp]:
  "the_alarms (emit p d) = the_alarms d" "d_events (emit p d) = d_events d"
  by (simp_all add: the_alarms_def emit_def)

lemma push_alarm_attr_parts [simp]:
  "the_alarms (push_alarm_attr nm d) = the_alarms d" "d_events (push_alarm_attr nm d) = d_events d"
  by (simp_all add: push_alarm_attr_def split: option.split)

lemma set_internal_alarm_parts [simp]:
  "the_alarms (set_internal_alarm w nm m n d) = the_alarms d"
  "d_events (set_internal_alarm w nm m n d) = d_events d"
  by (simp_all add: the_alarms_def set_internal_alarm_def Let_def split: option.split)

lemma report_parts [simp]:
  "the_alarms (report w m d) = the_alarms d" "d_events (report w m d) = d_events d"
  by (simp_all add: report_def)

lemma publish_parts [simp]:
  "the_alarms (publish w p d) = the_alarms d" "d_events (publish w p d) = d_events d"
  by (simp_all add: publish_def prepare_alarm_attr_def the_alarms_def emit_def Let_def)

lemma refresh_frequency_parts [simp]:
  "the_alarms (refresh_frequency d) = the_alarms d" "d_events (refresh_frequency d) = d_events d"
  by (simp_all add: refresh_frequency_def the_alarms_def emit_def Let_def)

lemma alarmed_parts [simp]:
  "the_alarms (change_alarmed nm f d) = the_alarms d" "d_events (change_alarmed nm f d) = d_events d"
  "the_alarms (erase_alarmed nm d) = the_alarms d" "d_events (erase_alarmed nm d) = d_events d"
  by (simp_all add: change_alarmed_def erase_alarmed_def the_alarms_def split: option.split)

lemma request_evaluation_parts [simp]:
  "the_alarms (request_evaluation w junk d) = the_alarms d"
  "d_events (request_evaluation w junk d) = d_events d"
  by (simp_all add: request_evaluation_def the_alarms_def Let_def)

lemma save_parts [simp]:
  "the_alarms (save_alarm_conf_db a d) = the_alarms d" "d_events (save_alarm_conf_db a d) = d_events d"
  "the_alarms (delete_alarm_conf_db nm d) = the_alarms d"
  "d_events (delete_alarm_conf_db nm d) = d_events d"
  by (simp_all add: save_alarm_conf_db_def delete_alarm_conf_db_def the_alarms_def)

lemma field_parts [simp]:
  "the_alarms (d\<lparr>d_alarmed := x1\<rparr>) = the_alarms d" "the_alarms (d\<lparr>d_saved := x2\<rparr>) = the_alarms d"
  "the_alarms (d\<lparr>d_evlist := x3\<rparr>) = the_alarms d" "the_alarms (d\<lparr>d_events := x4\<rparr>) = the_alarms d"
  "the_alarms (d\<lparr>d_published := x5\<rparr>) = the_alarms d"
  "the_alarms (d\<lparr>d_internal_counter := x6\<rparr>) = the_alarms d"
  "the_alarms (d\<lparr>d_alarm_list_prop := x7\<rparr>) = the_alarms d"
  "the_alarms (d\<lparr>d_alarms := t\<rparr>) = v_alarm t"
  by (simp_all add: the_alarms_def)

lemma dev_ok_cong:
  "the_alarms d' = the_alarms d \<Longrightarrow> d_events d' = d_events d \<Longrightarrow> dev_ok d' = dev_ok d"
  by (simp add: dev_ok_def)

subsection \<open>Changes of one alarm\<close>

lemma sorted_ball:
  "sorted_map m \<Longrightarrow> (\<forall>p\<in>set m. P (fst p) (snd p)) \<longleftrightarrow> (\<forall>k a. map_of m k = Some a \<longrightarrow> P k a)"
  by (metis (full_types) in_set_map_of map_of_in_set prod.collapse fst_conv snd_conv)

lemma parts_ok_iff:
  "parts_ok m t \<longleftrightarrow> sorted_map m \<and> events_ok t \<and>
     (\<forall>k a. map_of m k = Some a \<longrightarrow> alarm_ok k a \<and> (\<forall>j\<in>set (s_event a). monitors (links t) j k))"
proof (cases "sorted_map m")
  case True
  have "(\<forall>p\<in>set m. alarm_ok (fst p) (snd p) \<and> (\<forall>j\<in>set (s_event (snd p)). monitors (links t) j (fst p)))
    \<longleftrightarrow> (\<forall>k a. map_of m k = Some a \<longrightarrow> alarm_ok k a \<and> (\<forall>j\<in>set (s_event a). monitors (links t) j k))"
    by (rule sorted_ball [OF True])
  then show ?thesis by (simp add: parts_ok_def table_ok_def linked_def True ball_conj_distrib conj_ac)
next
  case False
  then show ?thesis by (simp add: parts_ok_def table_ok_def)
qed

lemma parts_ok_modify:
  assumes "parts_ok m t"
    and "\<And>a. map_of m nm = Some a \<Longrightarrow> alarm_ok nm a \<Longrightarrow> alarm_ok nm (f a) \<and> s_event (f a) = s_event a"
  shows "parts_ok (map_modify nm f m) t"
  using assms by (auto simp: parts_ok_iff map_of_modify split: if_splits)

locale alarm_update =
  fixes f :: "alarm \<Rightarrow> alarm"
  assumes keeps_ok: "alarm_ok k a \<Longrightarrow> alarm_ok k (f a)"
    and keeps_events: "s_event (f a) = s_event a"
begin

lemma modify_ok: "parts_ok m t \<Longrightarrow> parts_ok (map_modify nm f m) t"
  by (rule parts_ok_modify) (simp_all add: keeps_ok keeps_events)

lemma values_ok: "parts_ok m t \<Longrightarrow> parts_ok (map_values f m) t"
  by (auto simp: parts_ok_iff map_of_values keeps_ok keeps_events)

lemma change_ok: "dev_ok d \<Longrightarrow> dev_ok (change_alarm nm f d)"
  by (simp add: dev_ok_def modify_ok)

lemma all_ok: "dev_ok d \<Longrightarrow> dev_ok (on_alarms (map_values f) d)"
  by (simp add: dev_ok_def values_ok)

end

lemmas ok_defs = alarm_ok_def alarm_typed_def counters_exclusive_def

interpretation al_count: alarm_update "countdown now"
  by unfold_locales (auto simp: ok_defs countdown_def Let_def)
interpretation al_exception: alarm_update "\<lambda>a. a\<lparr>ex_reason := r, ex_desc := s, ex_origin := u\<rparr>"
  by unfold_locales (simp_all add: ok_defs)
interpretation al_evaluated: alarm_update "\<lambda>x. (set_attr_state x)\<lparr>to_be_evaluated := False\<rparr>"
  by unfold_locales (simp_all add: ok_defs set_attr_state_def)
interpretation al_attr: alarm_update set_attr_state
  by unfold_locales (simp_all add: ok_defs set_attr_state_def)
interpretation al_ack: alarm_update "\<lambda>x. x\<lparr>ack := ACK\<rparr>"
  by unfold_locales (simp_all add: ok_defs)
interpretation al_quiet: alarm_update "\<lambda>a. a\<lparr>is_new := 0\<rparr>"
  by unfold_locales (simp_all add: ok_defs)
interpretation al_statistics: alarm_update "\<lambda>a. a\<lparr>freq_counter := 0\<rparr>"
  by unfold_locales (simp_all add: ok_defs)
interpretation al_silence: alarm_update "start_silence now"
  by unfold_locales (simp_all add: ok_defs start_silence_def)
interpretation al_shelve: alarm_update "shelved_now now"
  by unfold_locales (simp_all add: ok_defs shelved_now_def start_silence_def)
interpretation al_enable: alarm_update enabled_now
  by unfold_locales (simp_all add: ok_defs enabled_now_def)
interpretation al_disable: alarm_update disabled_now
  by unfold_locales (simp_all add: ok_defs disabled_now_def)
interpretation al_modify: alarm_update "modify_members p"
  by unfold_locales (simp_all add: ok_defs modify_members_def)
interpretation al_drop: alarm_update drop_proxies
  by unfold_locales (simp_all add: ok_defs drop_proxies_def)
interpretation al_cell: alarm_update "\<lambda>a. a\<lparr>attr_value := v\<rparr>"
  by unfold_locales (simp_all add: ok_defs)
interpretation al_dp_a: alarm_update "\<lambda>a. a\<lparr>dp_a := x\<rparr>"
  by unfold_locales (simp_all add: ok_defs)
interpretation al_dp_n: alarm_update "\<lambda>a. a\<lparr>dp_n := x\<rparr>"
  by unfold_locales (simp_all add: ok_defs)
interpretation al_send_a: alarm_update "\<lambda>a. a\<lparr>send_arg_a := b\<rparr>"
  by unfold_locales (simp_all add: ok_defs)
interpretation al_send_n: alarm_update "\<lambda>a. a\<lparr>send_arg_n := b\<rparr>"
  by unfold_locales (simp_all add: ok_defs)

lemma timer_one_events: "s_event (fst (timer_one now st gs a)) = s_event a"
  by (simp add: timer_one_def Let_def set_stat_def timer_note_def countdown_ack_def)

lemma timer_one_names:
  "al_name (fst (timer_one now st gs a)) = al_name a"
  "attr_name (fst (timer_one now st gs a)) = attr_name a"
  by (simp_all add: timer_one_def Let_def set_stat_def timer_note_def countdown_ack_def)

interpretation al_timer: alarm_update "\<lambda>a. fst (timer_one now st gs a)"
  by unfold_locales
    (simp_all add: alarm_ok_def timer_one_typed timer_one_counters timer_one_events timer_one_names)

lemma update_one_names:
  "al_name (fst (update_one now st ts r vals arg a)) = al_name a"
  "attr_name (fst (update_one now st ts r vals arg a)) = attr_name a"
  by (simp_all add: update_one_alarm Let_def)

lemma update_one_events: "s_event (fst (update_one now st ts r vals arg a)) = s_event a"
  by (simp add: update_one_def Let_def set_stat_def count_eval_def note_change_def take_result_def
      countdown_ack_def)

interpretation al_update: alarm_update "\<lambda>a. fst (update_one now st ts r vals arg a)"
  by unfold_locales
    (simp_all add: alarm_ok_def update_one_typed update_one_counters update_one_events
      update_one_names)


text \<open>
  Every operation of the alarm device keeps its invariant \<open>dev_ok\<close>, and the loops that unregister a
  removed alarm at its events never fail.
\<close>

lemma dev_ok_map_of: "dev_ok d \<Longrightarrow> find_alarm nm d = Some a \<Longrightarrow> alarm_ok nm a"
  by (simp add: dev_ok_def parts_ok_iff find_alarm_def)

lemma change_const_ok:
  assumes "dev_ok d"
    and "\<And>a. find_alarm nm d = Some a \<Longrightarrow> alarm_ok nm a \<Longrightarrow> alarm_ok nm (f a) \<and> s_event (f a) = s_event a"
  shows "dev_ok (change_alarm nm f d)"
  using assms parts_ok_modify [of "the_alarms d" "d_events d" nm f] by (simp add: dev_ok_def find_alarm_def)

lemma fold_ok:
  assumes "\<And>x d. x \<in> set xs \<Longrightarrow> dev_ok d \<Longrightarrow> dev_ok (f x d)" "dev_ok d"
  shows "dev_ok (fold f xs d)"
  using assms by (induction xs arbitrary: d) auto

lemma dev_then_ok:
  "dev_ok (snd r) \<Longrightarrow> (\<And>x d. dev_ok d \<Longrightarrow> dev_ok (snd (k x d))) \<Longrightarrow> dev_ok (snd (dev_then r k))"
  by (auto simp: dev_then_def split: prod.splits sum.splits)

lemma frame_ok [simp]:
  "dev_ok (emit p d) = dev_ok d" "dev_ok (push_alarm_attr nm d) = dev_ok d"
  "dev_ok (report w m d) = dev_ok d" "dev_ok (set_internal_alarm w i m n d) = dev_ok d"
  "dev_ok (publish w q d) = dev_ok d" "dev_ok (refresh_frequency d) = dev_ok d"
  "dev_ok (request_evaluation w junk d) = dev_ok d"
  "dev_ok (change_alarmed nm f d) = dev_ok d" "dev_ok (erase_alarmed nm d) = dev_ok d"
  "dev_ok (d\<lparr>d_alarmed := x1\<rparr>) = dev_ok d" "dev_ok (d\<lparr>d_saved := x2\<rparr>) = dev_ok d"
  "dev_ok (d\<lparr>d_evlist := x3\<rparr>) = dev_ok d" "dev_ok (d\<lparr>d_published := x4\<rparr>) = dev_ok d"
  "dev_ok (d\<lparr>d_internal_counter := x5\<rparr>) = dev_ok d" "dev_ok (d\<lparr>d_alarm_list_prop := x6\<rparr>) = dev_ok d"
  "dev_ok (save_alarm_conf_db a d) = dev_ok d" "dev_ok (delete_alarm_conf_db nm d) = dev_ok d"
  by (simp_all add: dev_ok_def)

lemma failed_ok [simp]: "dev_ok (snd (failed r s u d)) = dev_ok d"
  by (simp add: failed_def)

subsection \<open>Changes of the event table\<close>

definition links_le :: "(string \<times> string list) list \<Rightarrow> (string \<times> string list) list \<Rightarrow> bool" where
  "links_le ls ls' \<longleftrightarrow> (\<forall>j nm. monitors ls j nm \<longrightarrow> monitors ls' j nm)"

lemma links_le_refl [simp]: "links_le ls ls"
  by (simp add: links_le_def)

lemma parts_ok_events:
  "parts_ok m t \<Longrightarrow> events_ok t' \<Longrightarrow> links_le (links t) (links t') \<Longrightarrow> parts_ok m t'"
  by (auto simp: parts_ok_iff links_le_def)

lemma same_links_ok: "dev_ok d \<Longrightarrow> same_links (d_events d) t \<Longrightarrow> dev_ok (d\<lparr>d_events := t\<rparr>)"
  using parts_ok_events [of "the_alarms d" "d_events d" t]
  by (simp add: dev_ok_def same_links_def parts_ok_def)

lemma on_events_ok: "dev_ok d \<Longrightarrow> same_links (d_events d) (h (d_events d)) \<Longrightarrow> dev_ok (on_events h d)"
  by (simp add: on_events_def same_links_ok)

lemma update_property_ok [simp]: "dev_ok d \<Longrightarrow> dev_ok (on_events update_property d)"
  by (rule on_events_ok) (simp_all add: same_links_events)

lemma lift_events_ok:
  "dev_ok d \<Longrightarrow> same_links (d_events d) (snd (f (d_events d))) \<Longrightarrow> dev_ok (snd (lift_events f d))"
  by (auto simp: lift_events_def same_links_ok split: prod.splits sum.splits)

interpretation ev_arrive: event_update "event_arrived e"
  by unfold_locales (simp_all add: event_arrived_def mode_ok_def)

interpretation ev_failing: event_update "event_failed e"
  by unfold_locales (simp_all add: event_failed_def mode_ok_def)

lemma arrived_links: "same_links t (set_event i (event_arrived e) t)"
  by (simp add: same_links_def ev_arrive.set_links ev_arrive.set_ok)

lemma failing_links: "same_links t (set_event i (event_failed e) t)"
  by (simp add: same_links_def ev_failing.set_links ev_failing.set_ok)

text \<open>Registering an alarm at an event and taking it off.\<close>

lemma set_event_links:
  assumes f: "find_event j (v_event t) = Some k" and ok: "events_ok t"
    and h: "\<And>e. ev_name (h e) = ev_name e" "\<And>e. m_alarm (h e) = g (m_alarm e)"
      "\<And>e. mode_ok e \<Longrightarrow> mode_ok (h e)"
  shows "links (set_event k h t) = map_modify j g (links t)" and "events_ok (set_event k h t)"
proof -
  have k: "k < length (v_event t)" "ev_name (v_event t ! k) = j" using find_event_hit [OF f] by simp_all
  have d: "distinct (List.map ev_name (v_event t))" using ok by (simp add: events_ok_def)
  have other: "ev_name (v_event t ! i) \<noteq> j" if "i < length (v_event t)" "i \<noteq> k" for i
    using d k that by (auto simp: distinct_conv_nth)
  show "links (set_event k h t) = map_modify j g (links t)"
    by (rule nth_equalityI)
      (use k other in \<open>auto simp: links_def set_event_def map_modify_def nth_list_update h\<close>)
  have "List.map ev_name (v_event (set_event k h t)) = List.map ev_name (v_event t)"
    by (simp add: set_event_def map_update_same h(1))
  then show "events_ok (set_event k h t)"
    using ok k by (auto simp: events_ok_def set_event_def list_all_length nth_list_update intro: h(3))
qed

lemma mode_push_pop [simp]:
  "mode_ok (push_alarm nm e) = mode_ok e" "mode_ok (pop_alarm nm e) = mode_ok e"
  by (simp_all add: push_alarm_def pop_alarm_def mode_ok_def)

lemma push_links:
  assumes "find_event j (v_event t) = Some k" "events_ok t"
  shows "links (set_event k (push_alarm nm) t) = map_modify j (\<lambda>ms. ms @ [nm]) (links t)"
    and "events_ok (set_event k (push_alarm nm) t)"
  by (rule set_event_links [OF assms]; simp add: push_alarm_def mode_ok_def)+

lemma pop_links:
  assumes "find_event j (v_event t) = Some k" "events_ok t"
  shows "links (set_event k (pop_alarm nm) t) = map_modify j (remove1 nm) (links t)"
    and "events_ok (set_event k (pop_alarm nm) t)"
  by (rule set_event_links [OF assms]; simp add: pop_alarm_def mode_ok_def)+

lemma links_find: "find_event j (v_event t) = None \<longleftrightarrow> map_of (links t) j = None"
proof -
  have "fst ` set (links t) = ev_name ` set (v_event t)"
    using arg_cong [OF links_names, of set t] by simp
  then show ?thesis by (simp add: find_event_absent map_of_eq_None_iff)
qed

lemma links_nth:
  assumes "events_ok t" "k < length (v_event t)"
  shows "map_of (links t) (ev_name (v_event t ! k)) = Some (m_alarm (v_event t ! k))"
proof (rule map_of_is_SomeI)
  show "distinct (List.map fst (links t))" using assms(1) by (simp add: links_names events_ok_def)
  show "(ev_name (v_event t ! k), m_alarm (v_event t ! k)) \<in> set (links t)"
    unfolding links_def set_map by (rule image_eqI [OF refl]) (rule nth_mem [OF assms(2)])
qed

text \<open>The alarm \<open>nm\<close> is unregistered; the other registrations stay.\<close>

definition links_but :: "string \<Rightarrow> (string \<times> string list) list \<Rightarrow> (string \<times> string list) list \<Rightarrow> bool" where
  "links_but nm ls ls' \<longleftrightarrow> (\<forall>j nm'. nm' \<noteq> nm \<longrightarrow> monitors ls j nm' \<longrightarrow> monitors ls' j nm')"

lemma unlink_event_ok:
  assumes ok: "events_ok t" and j: "map_of (links t) j \<noteq> None"
  shows "fst (unlink_event nm j t) = Inr ()"
    and "events_ok (snd (unlink_event nm j t))"
    and "links_but nm (links t) (links (snd (unlink_event nm j t)))"
    and "j' \<noteq> j \<Longrightarrow> map_of (links (snd (unlink_event nm j t))) j' = map_of (links t) j'"
proof -
  obtain k where f: "find_event j (v_event t) = Some k" using j links_find [of j t] by auto
  obtain ms where ms: "map_of (links t) j = Some ms" using j by auto
  let ?t1 = "set_event k (pop_alarm nm) t"
  have k: "k < length (v_event t)" "ev_name (v_event t ! k) = j" using find_event_hit [OF f] by simp_all
  have l1: "links ?t1 = map_modify j (remove1 nm) (links t)" and ok1: "events_ok ?t1"
    using pop_links [OF f ok] by simp_all
  have n1: "ev_name (v_event ?t1 ! k) = j" using k by (simp add: set_event_def pop_alarm_def)
  have names1: "List.map ev_name (v_event ?t1) = List.map ev_name (v_event t)"
    by (simp add: set_event_def map_update_same pop_alarm_def)
  have f1: "find_event j (v_event ?t1) = Some k" using find_event_cong [OF names1, of j] f by simp
  have "map_of (links ?t1) j = Some (m_alarm (v_event ?t1 ! k))"
    using links_nth [OF ok1, of k] k n1 by (simp add: set_event_def)
  then have m1: "m_alarm (v_event ?t1 ! k) = remove1 nm ms" by (simp add: l1 map_of_modify ms)
  have but: "links_but nm (links t) (map_modify j (remove1 nm) (links t))"
    by (auto simp: links_but_def monitors_def map_of_modify split: option.splits)
  have "fst (unlink_event nm j t) = Inr () \<and> events_ok (snd (unlink_event nm j t)) \<and>
      links_but nm (links t) (links (snd (unlink_event nm j t))) \<and>
      (j' \<noteq> j \<longrightarrow> map_of (links (snd (unlink_event nm j t))) j' = map_of (links t) j')" for j'
  proof (cases "remove1 nm ms = []")
    case False
    then show ?thesis
      using f m1 ok1 l1 but by (simp add: unlink_event_def Let_def map_of_modify)
  next
    case True
    let ?t2 = "snd (ev_stop j ?t1)"
    have g1: "get_event j (v_event ?t1) = Some k" using f1 by (rule get_event_exact)
    have s: "fst (ev_stop j ?t1) = Inr ()" "same_links ?t1 ?t2"
      using ev_stop_found(1) [OF g1] ev_stop_links by simp_all
    have f2: "find_event j (v_event ?t2) = Some k"
      using find_event_cong [OF same_links_names [OF s(2)], of j] f1 by simp
    have ok2: "events_ok ?t2" and l2: "links ?t2 = links ?t1" using s(2) ok1 by (simp_all add: same_links_def)
    note r = ev_remove_found [OF f2 ok2]
    have u: "unlink_event nm j t = ev_remove j False ?t2"
      using f m1 True n1 s(1) r(1)
      by (cases "ev_stop j ?t1"; cases "ev_remove j False ?t2")
        (simp add: unlink_event_def Let_def ev_then_def)
    have "nm' \<notin> set ms" if "nm' \<noteq> nm" for nm'
      using True in_set_remove1 [OF that, of ms] by simp
    then have "links_but nm (links t) (map_erase j (map_modify j (remove1 nm) (links t)))"
      using ms by (auto simp: links_but_def monitors_def map_of_modify map_of_erase split: option.splits)
    then show ?thesis
      using r l2 l1 by (simp add: u map_of_erase map_of_modify)
  qed
  then show "fst (unlink_event nm j t) = Inr ()" and "events_ok (snd (unlink_event nm j t))"
    and "links_but nm (links t) (links (snd (unlink_event nm j t)))"
    and "j' \<noteq> j \<Longrightarrow> map_of (links (snd (unlink_event nm j t))) j' = map_of (links t) j'"
    by blast+
qed

text \<open>Taking a removed alarm off all its events.\<close>

lemma unlink_events_ok:
  assumes "events_ok t" "distinct js" "\<forall>j\<in>set js. map_of (links t) j \<noteq> None"
  shows "fst (unlink_events nm js t) = Inr () \<and> events_ok (snd (unlink_events nm js t)) \<and>
    links_but nm (links t) (links (snd (unlink_events nm js t)))"
  using assms
proof (induction js arbitrary: t)
  case Nil
  then show ?case by (simp add: links_but_def)
next
  case (Cons j js)
  let ?t1 = "snd (unlink_event nm j t)"
  have j: "map_of (links t) j \<noteq> None" using Cons.prems by simp
  note u = unlink_event_ok(1,2,3) [OF Cons.prems(1) j, of nm]
  have other: "map_of (links ?t1) j' = map_of (links t) j'" if "j' \<noteq> j" for j'
    using that by (rule unlink_event_ok(4) [OF Cons.prems(1) j])
  have "map_of (links ?t1) i \<noteq> None" if "i \<in> set js" for i
    using Cons.prems(2,3) that other [of i] by fastforce
  then have "\<forall>i\<in>set js. map_of (links ?t1) i \<noteq> None" by blast
  from Cons.IH [OF u(2) _ this] Cons.prems u(1,3) show ?case
    by (cases "unlink_event nm j t") (auto simp: ev_then_def links_but_def)
qed

end
