(* ===== verification/AlarmDeviceInv.thy ===== *)
theory AlarmDeviceInv
  imports AlarmDeviceSpec
begin

text \<open>
  The invariant of the alarm device is kept by every command, event and thread round; the states that
  the device can reach.
\<close>

subsection \<open>Evaluations and events\<close>

lemma at_update_cases:
  obtains e where "map_of (v_alarm t) nm = None"
      "at_update now nm ts r vals gs m f t = (Inl (AlarmString e), t)"
  | a b cs ch where "map_of (v_alarm t) nm = Some a"
      "update_one now (startup_complete t) ts r vals (command_arg nm gs m vals f) a = (b, cs, ch)"
      "at_update now nm ts r vals gs m f t =
        (Inr ch, t\<lparr>v_alarm := map_modify nm (\<lambda>x. b) (v_alarm t), cmd_list := cmd_list t @ cs\<rparr>)"
proof (cases "map_of (v_alarm t) nm")
  case None
  then show thesis by (auto simp: at_update_def intro: that(1))
next
  case (Some a)
  obtain b cs ch
    where u: "update_one now (startup_complete t) ts r vals (command_arg nm gs m vals f) a = (b, cs, ch)"
    by (cases "update_one now (startup_complete t) ts r vals (command_arg nm gs m vals f) a")
  then show thesis using Some by (intro that(2)) (simp_all add: at_update_def)
qed

lemma update_table_ok:
  assumes "dev_ok d" "map_of (v_alarm (d_alarms d)) nm = Some a"
    and "update_one now st ts r vals arg a = (b, cs, ch)"
  shows "dev_ok (d\<lparr>d_alarms := (d_alarms d)\<lparr>v_alarm := map_modify nm (\<lambda>x. b) (v_alarm (d_alarms d)),
                    cmd_list := xs\<rparr>\<rparr>)"
proof -
  have m: "map_of (the_alarms d) nm = Some a" using assms(2) by (simp add: the_alarms_def)
  have "b = fst (update_one now st ts r vals arg a)" using assms(3) by simp
  then have "alarm_ok nm b \<and> s_event b = s_event a"
    using al_update.keeps_ok [OF dev_ok_map_of [OF assms(1)], of nm a] m al_update.keeps_events
    by (simp add: find_alarm_def)
  then show ?thesis
    using parts_ok_modify [of "the_alarms d" "d_events d" nm "\<lambda>x. b"] assms(1) m
    by (simp add: dev_ok_def the_alarms_def)
qed

lemma formula_failed_ok [simp]: "dev_ok d \<Longrightarrow> dev_ok (formula_failed w nm ev r s d)"
  by (simp add: formula_failed_def al_exception.change_ok)

lemma evaluation_error_ok [simp]: "dev_ok d \<Longrightarrow> dev_ok (evaluation_error w nm ev s d)"
  by (simp add: evaluation_error_def)

lemma evaluated_ok:
  assumes "dev_ok d"
  shows "dev_ok (snd (evaluated w nm ev vals ts a r d))"
proof -
  let ?u = "at_update (aw_now w) nm ts (outcome_of (aw_arith w) r) vals (grp2str (d_groups d) a)
             (msg a) (al_formula a) (d_alarms d)"
  show ?thesis
  proof (cases rule: at_update_cases [of "d_alarms d" nm "aw_now w" ts "outcome_of (aw_arith w) r" vals
        "grp2str (d_groups d) a" "msg a" "al_formula a"])
    case (1 e)
    then show ?thesis using assms by (simp add: evaluated_def)
  next
    case (2 a' b cs ch)
    with update_table_ok [OF assms 2(1,2)] show ?thesis
      by (simp add: evaluated_def al_evaluated.change_ok)
  qed
qed

lemma do_alarm_eval_ok:
  assumes "dev_ok d"
  shows "dev_ok (snd (do_alarm_eval w nm ev ts d))"
proof (cases "find_alarm nm d")
  case None
  then show ?thesis using assms by (simp add: do_alarm_eval_def)
next
  case (Some a0)
  let ?a = "if ev \<noteq> FORCED_EVAL then a0\<lparr>freq_counter := freq_counter a0 + 1\<rparr> else a0"
  have "alarm_ok nm a0" using assms Some by (rule dev_ok_map_of)
  then have sub: "dev_ok (change_alarm nm (\<lambda>x. ?a\<lparr>attr_values := s\<rparr>) d)" for s
    using assms Some by (intro change_const_ok) (auto simp: ok_defs)
  obtain r s where e: "eval_formula (aw_arith w) (v_event (d_events d)) (formula_tree ?a) ''{'' = (r, s)"
    by fastforce
  have good: "dev_ok (snd (evaluated w nm ev (close_values s) ts (?a\<lparr>attr_values := close_values s\<rparr>) x
      (change_alarm nm (\<lambda>y. ?a\<lparr>attr_values := close_values s\<rparr>) d)))" for x
    by (rule evaluated_ok [OF sub])
  show ?thesis
  proof (cases "ev = FORCED_EVAL \<and> \<not> to_be_evaluated a0")
    case True
    then show ?thesis using assms Some by (simp add: do_alarm_eval_def)
  next
    case False
    then show ?thesis
      using Some e sub [of s] good
      by (cases r) (auto simp: do_alarm_eval_def Let_def split: sum.split eval_error.split)
  qed
qed

lemma eval_alarms_ok: "dev_ok d \<Longrightarrow> dev_ok (snd (eval_alarms w ev ts nms n d))"
proof (induction nms arbitrary: n d)
  case Nil
  then show ?case by simp
next
  case (Cons nm nms)
  then show ?case
    using do_alarm_eval_ok [OF Cons.prems, of w nm ev ts]
    by (cases "do_alarm_eval w nm ev ts d") simp
qed

lemma spread_error_ok: "dev_ok d \<Longrightarrow> dev_ok (spread_error e nm d)"
  by (simp add: spread_error_def Let_def al_exception.change_ok split: option.split)

lemma arrived_ok: "dev_ok d \<Longrightarrow> dev_ok (on_events (set_event i (event_arrived e)) d)"
  by (erule on_events_ok) (rule arrived_links)

lemma error_event_ok: "dev_ok d \<Longrightarrow> dev_ok (error_event w e d)"
  by (auto simp: error_event_def Let_def intro!: fold_ok spread_error_ok on_events_ok failing_links
      split: option.split)

lemma do_alarm_ok: "dev_ok d \<Longrightarrow> dev_ok (do_alarm w e d)"
proof (cases "resolve_event (bei_name e) (v_event (d_events d))")
  case None
  then show "dev_ok d \<Longrightarrow> ?thesis" by (simp add: do_alarm_def error_event_ok)
next
  case (Some i)
  let ?d1 = "on_events (set_event i (event_arrived e)) d"
  let ?f = "v_event (d_events ?d1) ! i"
  let ?r = "eval_alarms w (bei_name e) (ev_ts ?f) (m_alarm ?f) 0 ?d1"
  show "dev_ok d \<Longrightarrow> ?thesis"
    using eval_alarms_ok [OF arrived_ok, of d w "bei_name e" "ev_ts ?f" "m_alarm ?f" 0 i e] Some
    by (cases ?r) (simp add: do_alarm_def Let_def error_event_ok)
qed

lemma timer_all_alarms:
  "fst (timer_all now st gs m) = map_values (\<lambda>a. fst (timer_one now st gs a)) m"
  by (induction m) (auto simp: map_values_def split: prod.splits)

lemma timer_update_ok:
  assumes "dev_ok d"
  shows "dev_ok (timer_update w d)"
proof -
  obtain ch ps t where u: "at_timer_update (aw_now w) (d_groups d) (d_alarms d) = (ch, ps, t)"
    by (cases "at_timer_update (aw_now w) (d_groups d) (d_alarms d)") auto
  have "v_alarm t = map_values (\<lambda>a. fst (timer_one (aw_now w) (startup_complete (d_alarms d)) (d_groups d) a))
      (the_alarms d)"
    using u timer_all_alarms [of "aw_now w" "startup_complete (d_alarms d)" "d_groups d" "the_alarms d"]
    by (auto simp: at_timer_update_def the_alarms_def split: prod.splits)
  then have "dev_ok (d\<lparr>d_alarms := t\<rparr>)" using assms al_timer.values_ok by (simp add: dev_ok_def)
  then have "dev_ok (d\<lparr>d_alarms := t, d_published := xs\<rparr>)" for xs by simp
  then show ?thesis by (simp add: timer_update_def u Let_def)
qed

lemma force_evaluations_ok: "dev_ok d \<Longrightarrow> dev_ok (force_evaluations w nms d)"
  by (simp add: force_evaluations_def eval_alarms_ok)

lemma thread_round_ok:
  assumes "alarm_thread_round w due (th, d) = Some (go, th', d')" "dev_ok d"
  shows "dev_ok d'"
proof -
  obtain th1 d1 where f: "thread_forced w due (th, d) = (th1, d1)" by fastforce
  then have "dev_ok d1"
    using assms(2) force_evaluations_ok by (auto simp: thread_forced_def Let_def split: if_splits)
  then show ?thesis
    using assms(1) f by (auto simp: alarm_thread_round_def Let_def do_alarm_ok split: list.splits if_splits)
qed

subsection \<open>Commands of the operator\<close>

lemma ack_one_ok: "dev_ok d \<Longrightarrow> dev_ok (ack_one nm d)"
  by (simp add: ack_one_def Let_def al_ack.change_ok al_attr.change_ok split: option.split)

lemma ack_alarms_ok: "dev_ok d \<Longrightarrow> dev_ok (ack_alarms w nms d)"
  by (simp add: ack_alarms_def Let_def fold_ok ack_one_ok)

lemma stop_audible_ok: "dev_ok d \<Longrightarrow> dev_ok (stop_audible w d)"
  by (simp add: stop_audible_def al_quiet.all_ok)

lemma stop_new_ok: "dev_ok d \<Longrightarrow> dev_ok (stop_new w d)"
  by (simp add: stop_new_def al_quiet.all_ok)

lemma reset_statistics_ok: "dev_ok d \<Longrightarrow> dev_ok (reset_statistics_al d)"
  by (simp add: reset_statistics_al_def al_statistics.all_ok)

lemma each_name_ok:
  "(\<And>nm d. dev_ok d \<Longrightarrow> dev_ok (snd (f nm d))) \<Longrightarrow> dev_ok d \<Longrightarrow> dev_ok (snd (each_name f nms d))"
  by (induction nms arbitrary: d) (auto intro!: dev_then_ok)

lemma silence_one_ok: "dev_ok d \<Longrightarrow> dev_ok (snd (silence_one w nm d))"
  by (simp add: silence_one_def Let_def al_count.change_ok al_silence.change_ok split: option.split)

lemma silence_ok: "dev_ok d \<Longrightarrow> dev_ok (snd (silence w nms d))"
  by (simp add: silence_def dev_then_ok each_name_ok silence_one_ok)

lemma shelve_check_ok: "dev_ok d \<Longrightarrow> dev_ok (snd (shelve_check w nm d))"
  by (simp add: shelve_check_def Let_def al_count.change_ok split: option.split)

lemma shelve_one_ok: "dev_ok d \<Longrightarrow> dev_ok (shelve_one w nm d)"
  by (simp add: shelve_one_def al_shelve.change_ok split: option.split)

lemma shelve_ok: "dev_ok d \<Longrightarrow> dev_ok (snd (shelve w nms d))"
  by (simp add: shelve_def dev_then_ok each_name_ok shelve_check_ok fold_ok shelve_one_ok)

lemma enable_ok: "dev_ok d \<Longrightarrow> dev_ok (snd (enable w nm d))"
  by (simp add: enable_def not_configured_def al_enable.change_ok split: option.split)

lemma disable_ok: "dev_ok d \<Longrightarrow> dev_ok (snd (disable w nm d))"
  by (simp add: disable_def not_configured_def Let_def al_disable.change_ok split: option.split)

subsection \<open>Loading and removing\<close>

lemma parts_ok_insert:
  assumes "parts_ok m t" "alarm_ok k a" "s_event a = []"
  shows "parts_ok (map_insert k a m) t"
  using assms by (auto simp: parts_ok_iff sorted_map_insert map_of_insert_sorted split: if_splits)

lemma load_alarm_ok:
  assumes "load_alarm w s alm d = Inr (a, evn)" "s_event alm = []" "on_counter alm = 0"
  shows "alarm_ok (al_name a) a" "s_event a = []"
  using assms
  by (auto simp: load_alarm_def Let_def alarm_ok_def alarm_typed_def counters_exclusive_def
      complete_parsed_def assign_parsed_def clear_for_parse_def split: if_splits prod.splits sum.splits)

lemma new_alarm [simp]:
  "s_event (alarm_t_new raw) = []" "on_counter (alarm_t_new raw) = 0"
  "s_event (alarm_clear a) = []" "on_counter (alarm_clear a) = on_counter a"
  by (simp_all add: alarm_t_new_def alarm_clear_def)

lemma add_alarm_ok:
  assumes "dev_ok d" "alarm_ok (al_name a) a" "s_event a = []"
  shows "dev_ok (add_alarm starting a d)"
proof -
  have "dev_ok (d\<lparr>d_alarms := at_push_back a (d_alarms d)\<rparr>)"
    using parts_ok_insert [of "the_alarms d" "d_events d" "al_name a" a] assms
    by (simp add: dev_ok_def at_push_back_def the_alarms_def)
  then show ?thesis by (simp add: add_alarm_def Let_def al_cell.change_ok)
qed

lemma links_le_append: "links_le ls (ls @ ns)"
  by (auto simp: links_le_def monitors_def map_add_def split: option.splits)

lemma links_le_trans: "links_le a b \<Longrightarrow> links_le b c \<Longrightarrow> links_le a c"
  by (simp add: links_le_def)

text \<open>All the events of the list are in the table once \<open>add_events\<close> returns.\<close>

lemma add_events_ok:
  assumes "events_ok t"
  shows "events_ok (snd (add_events w js t)) \<and> links_le (links t) (links (snd (add_events w js t))) \<and>
    (\<forall>j. map_of (links t) j \<noteq> None \<longrightarrow> map_of (links (snd (add_events w js t))) j \<noteq> None) \<and>
    (fst (add_events w js t) = Inr () \<longrightarrow> (\<forall>j\<in>set js. map_of (links (snd (add_events w js t))) j \<noteq> None))"
  using assms
proof (induction js arbitrary: t)
  case Nil
  then show ?case by simp
next
  case (Cons j js)
  show ?case
  proof (cases "find_event j (v_event t)")
    case (Some k)
    then have "map_of (links t) j \<noteq> None" using links_find [of j t] by simp
    then show ?thesis using Cons.IH [OF Cons.prems] Some by simp
  next
    case None
    let ?r = "ev_add (aw_env w) (aw_blank w) j UPDATE_PROP False t"
    show ?thesis
    proof (cases "fst ?r")
      case (Inl e)
      then have "snd ?r = t" by (auto simp: ev_add_def split: option.splits if_splits)
      then show ?thesis using None Inl Cons.prems
        by (cases ?r) (simp add: ev_then_def)
    next
      case (Inr u)
      then have r: "fst ?r = Inr ()" by simp
      note new = ev_add_new [OF r]
      have le: "links_le (links t) (links (snd ?r))" by (simp add: new(1) links_le_append)
      have step: "add_events w (j # js) t = add_events w js (snd ?r)"
        using None r by (cases ?r) (simp add: ev_then_def)
      have "map_of (links (snd ?r)) j \<noteq> None" by (simp add: new(1) map_add_def split: option.split)
      moreover have "\<forall>i. map_of (links t) i \<noteq> None \<longrightarrow> map_of (links (snd ?r)) i \<noteq> None"
        by (auto simp: new(1) map_add_def split: option.split)
      ultimately show ?thesis
        unfolding step using Cons.IH [OF new(2) [OF Cons.prems]] links_le_trans [OF le] by auto
    qed
  qed
qed

lemma start_events_links: "same_links t (snd (start_events w js t))"
proof (induction js arbitrary: t)
  case Nil
  then show ?case by simp
next
  case (Cons j js)
  show ?case
  proof (cases "find_event j (v_event t)")
    case None
    then show ?thesis by (simp add: Cons)
  next
    case (Some k)
    then show ?thesis
      by (auto intro!: ev_then_links ev_start_links intro: same_links_trans Cons)
  qed
qed

lemma sorted_names_insert:
  "sorted_wrt (<) (xs :: string list) \<Longrightarrow> sorted_wrt (<) (set_insert (<) x xs)"
  using strict_weak_on.sorted_set_insert [OF strict_weak_on_key [of "\<lambda>x. x" UNIV], of xs x] by simp

lemma link_event_ok:
  assumes ok: "dev_ok d" and j: "map_of (links (d_events d)) j \<noteq> None"
  shows "dev_ok (link_event nm j d)"
    and "map_of (links (d_events (link_event nm j d))) i \<noteq> None \<longleftrightarrow> map_of (links (d_events d)) i \<noteq> None"
proof -
  obtain k where f: "find_event j (v_event (d_events d)) = Some k"
    using j links_find [of j "d_events d"] by auto
  have eok: "events_ok (d_events d)" using ok by (simp add: dev_ok_def parts_ok_def)
  note p = push_links [OF f eok, of nm]
  have le: "links_le (links (d_events d)) (map_modify j (\<lambda>ms. ms @ [nm]) (links (d_events d)))"
    by (auto simp: links_le_def monitors_def map_of_modify split: option.splits if_splits)
  have mon: "monitors (map_modify j (\<lambda>ms. ms @ [nm]) (links (d_events d))) j nm"
    using j by (auto simp: monitors_def map_of_modify)
  have parts: "parts_ok (the_alarms d) (set_event k (push_alarm nm) (d_events d))"
    using ok p(2) le unfolding dev_ok_def p(1) [symmetric] by (rule parts_ok_events)
  let ?f = "\<lambda>a. alarm_insert j (a\<lparr>to_be_evaluated := True\<rparr>)"
  let ?m = "the_alarms d" and ?t = "set_event k (push_alarm nm) (d_events d)"
  have good: "alarm_ok i a \<and> (\<forall>x\<in>set (s_event a). monitors (links ?t) x i)"
    if m: "map_of (map_modify nm ?f ?m) i = Some a" for i a
  proof (cases "i = nm")
    case True
    then obtain b where b: "map_of ?m nm = Some b" "a = ?f b" using m by (auto simp: map_of_modify)
    have ev: "s_event a = set_insert (<) j (s_event b)" using b(2) by (simp add: alarm_insert_def)
    have "alarm_ok nm b" "\<forall>x\<in>set (s_event b). monitors (links ?t) x nm"
      using parts b(1) by (simp_all add: parts_ok_iff)
    moreover have "alarm_ok nm a" using \<open>alarm_ok nm b\<close> b(2)
      by (simp add: sorted_names_insert alarm_ok_def alarm_typed_def counters_exclusive_def alarm_insert_def)
    ultimately show ?thesis
      using True mon set_insert_subset [of "(<)" j "s_event b"] unfolding ev p(1) by auto
  next
    case False
    then show ?thesis using m parts by (simp add: map_of_modify parts_ok_iff)
  qed
  have "parts_ok (map_modify nm ?f ?m) ?t"
    unfolding parts_ok_iff using parts good by (simp add: parts_ok_iff)
  then show "dev_ok (link_event nm j d)"
    using f by (simp add: link_event_def dev_ok_def)
  show "map_of (links (d_events (link_event nm j d))) i \<noteq> None \<longleftrightarrow> map_of (links (d_events d)) i \<noteq> None"
    using f p(1) by (simp add: link_event_def map_of_modify)
qed

lemma link_all_ok:
  "dev_ok d \<Longrightarrow> \<forall>j\<in>set js. map_of (links (d_events d)) j \<noteq> None \<Longrightarrow> dev_ok (fold (link_event nm) js d)"
proof (induction js arbitrary: d)
  case Nil
  then show ?case by simp
next
  case (Cons j js)
  have j: "map_of (links (d_events d)) j \<noteq> None" using Cons.prems by simp
  show ?case
    using Cons.IH [OF link_event_ok(1) [OF Cons.prems(1) j]] link_event_ok(2) [OF Cons.prems(1) j]
      Cons.prems(2) by simp
qed

lemma add_event_ok:
  assumes "dev_ok d"
  shows "dev_ok (snd (add_event w nm evn d))"
proof -
  let ?t = "snd (add_events w evn (d_events d))"
  have a: "events_ok ?t" "links_le (links (d_events d)) (links ?t)"
    and all: "fst (add_events w evn (d_events d)) = Inr () \<Longrightarrow> \<forall>j\<in>set evn. map_of (links ?t) j \<noteq> None"
    using add_events_ok [of "d_events d" w evn] assms by (simp_all add: dev_ok_def parts_ok_def)
  have d1: "dev_ok (d\<lparr>d_events := ?t\<rparr>)"
    using assms a parts_ok_events [of "the_alarms d" "d_events d" ?t] by (simp add: dev_ok_def)
  show ?thesis
  proof (cases "fst (add_events w evn (d_events d))")
    case (Inl e)
    then show ?thesis using d1
      by (cases "add_events w evn (d_events d)") (simp add: add_event_def lift_events_def dev_then_def)
  next
    case (Inr u)
    have "dev_ok (fold (link_event nm) evn (d\<lparr>d_events := ?t\<rparr>))"
      using all Inr by (intro link_all_ok d1) simp
    then have "dev_ok (snd (lift_events (start_events w evn) (fold (link_event nm) evn (d\<lparr>d_events := ?t\<rparr>))))"
      by (rule lift_events_ok) (rule start_events_links)
    then show ?thesis using Inr
      by (cases "add_events w evn (d_events d)") (simp add: add_event_def lift_events_def [of "add_events w evn"] dev_then_def)
  qed
qed

lemma connect_on_ok: "dev_ok d \<Longrightarrow> dev_ok (connect_on w nm d)"
  by (simp add: connect_on_def Let_def al_dp_a.change_ok al_send_a.change_ok
      split: option.split sum.split arg_type.split)

lemma connect_off_ok: "dev_ok d \<Longrightarrow> dev_ok (connect_off w q nm d)"
  by (simp add: connect_off_def Let_def al_dp_n.change_ok al_send_n.change_ok
      split: option.split sum.split arg_type.split)

lemma finish_load_ok: "dev_ok d \<Longrightarrow> dev_ok (snd (finish_load w junk nm evn d))"
  unfolding finish_load_def
  by (rule dev_then_ok [OF add_event_ok])
    (simp_all add: Let_def connect_on_ok connect_off_ok split: option.split)

lemma load_ok:
  assumes "dev_ok d"
  shows "dev_ok (snd (load w junk s d))"
proof (cases "load_alarm w s (alarm_t_new (aw_raw w)) d")
  case (Inl e)
  then show ?thesis using assms by (cases e) (simp_all add: load_def)
next
  case (Inr p)
  obtain a evn where p: "p = (a, evn)" by fastforce
  have "alarm_ok (al_name a) a" "s_event a = []"
    using load_alarm_ok [of w s "alarm_t_new (aw_raw w)" d a evn] Inr p by simp_all
  then have "dev_ok (add_alarm False a d)" using assms by (rule add_alarm_ok [rotated])
  then show ?thesis using Inr p by (simp add: load_def Let_def finish_load_ok)
qed

text \<open>The events of an alarm of the table can all be unregistered: \<open>remove_alarm\<close> does not fail half way.\<close>

lemma remove_alarm_ok:
  assumes "dev_ok d"
  shows "dev_ok (snd (remove_alarm s d))"
    and "find_alarm s d \<noteq> None \<Longrightarrow> fst (remove_alarm s d) = Inr ()"
    and "find_alarm s d \<noteq> None \<Longrightarrow> the_alarms (snd (remove_alarm s d)) = map_erase s (the_alarms d)"
proof -
  have parts: "parts_ok (the_alarms d) (d_events d)" using assms by (simp add: dev_ok_def)
  consider "find_alarm s d = None" | a where "find_alarm s d = Some a" by (cases "find_alarm s d") auto
  then have "dev_ok (snd (remove_alarm s d)) \<and> (find_alarm s d \<noteq> None \<longrightarrow> fst (remove_alarm s d) = Inr () \<and>
    the_alarms (snd (remove_alarm s d)) = map_erase s (the_alarms d))"
  proof cases
    case 1
    then show ?thesis using assms by (simp add: remove_alarm_def)
  next
    case (2 a)
    then have a: "map_of (the_alarms d) s = Some a" by (simp add: find_alarm_def)
    have ok: "alarm_ok s a" and mon: "\<forall>j\<in>set (s_event a). monitors (links (d_events d)) j s"
      using parts a by (simp_all add: parts_ok_iff)
    have nm: "al_name a = s" and d: "distinct (s_event a)"
      using ok by (simp_all add: alarm_ok_def strict_sorted_iff)
    have "\<forall>j\<in>set (s_event a). map_of (links (d_events d)) j \<noteq> None"
      using mon by (auto simp: monitors_def split: option.splits)
    then have u: "fst (unlink_events s (s_event a) (d_events d)) = Inr ()"
        "events_ok (snd (unlink_events s (s_event a) (d_events d)))"
        "links_but s (links (d_events d)) (links (snd (unlink_events s (s_event a) (d_events d))))"
      using unlink_events_ok [of "d_events d" "s_event a" s] parts d by (simp_all add: parts_ok_def)
    let ?t = "snd (unlink_events s (s_event a) (d_events d))"
    have "parts_ok (map_erase s (the_alarms d)) ?t"
      using parts u(2,3)
      by (auto simp: parts_ok_iff map_of_erase sorted_map_erase links_but_def split: if_splits)
    then have "parts_ok (map_erase s (the_alarms d)) (update_property ?t)"
      by (rule parts_ok_events)
        (use u(2) in \<open>simp_all add: events_ok_cong [of "update_property ?t" ?t] links_cong [of "update_property ?t" ?t]\<close>)
    then show ?thesis using 2 u(1) nm
      by (cases "unlink_events s (s_event a) (d_events d)")
        (simp add: remove_alarm_def dev_ok_def the_alarms_def at_erase_def)
  qed
  then show "dev_ok (snd (remove_alarm s d))"
    and "find_alarm s d \<noteq> None \<Longrightarrow> fst (remove_alarm s d) = Inr ()"
    and "find_alarm s d \<noteq> None \<Longrightarrow> the_alarms (snd (remove_alarm s d)) = map_erase s (the_alarms d)"
    by simp_all
qed

lemma remove_ok: "dev_ok d \<Longrightarrow> dev_ok (snd (remove w s d))"
  using remove_alarm_ok(1) [of d s]
  by (cases "remove_alarm s d")
    (auto simp: remove_def Let_def split: option.splits bool.splits sum.splits)

lemma modify_command_ok: "dev_ok d \<Longrightarrow> dev_ok (snd (modify w junk s d))"
  unfolding modify_def Let_def modify_same_def
  by (auto intro!: dev_then_ok remove_ok load_ok connect_on_ok connect_off_ok al_drop.change_ok
      update_property_ok al_modify.change_ok split: option.split)

end
