(* ===== verification/AlarmSteps.thy ===== *)
theory AlarmSteps
  imports AlarmDeviceInv "HOL-Library.Multiset"
begin

text \<open>
  The alarm device as a state machine: a step is a command of a client, an event of Tango, a round of
  one of the threads, or a restart. A call that ends the process (\<open>std::unexpected\<close>, or the use of a
  null pointer) has no successor. The invariant \<open>dev_ok\<close> holds in every state that can be reached.
\<close>

subsection \<open>Configuration, start and end\<close>

lemma save_one_ok: "dev_ok d \<Longrightarrow> dev_ok (save_one p d)"
  by (simp add: save_one_def Let_def split: option.split)

lemma forget_one_ok: "dev_ok d \<Longrightarrow> dev_ok (forget_one nm d)"
  by (simp add: forget_one_def Let_def)

lemma put_signal_property_ok: "dev_ok d \<Longrightarrow> dev_ok (put_signal_property_al d)"
  by (simp add: put_signal_property_al_def Let_def fold_ok save_one_ok forget_one_ok)

lemma table_put_signal_property_ok: "dev_ok d \<Longrightarrow> dev_ok (table_put_signal_property d)"
  by (auto simp: table_put_signal_property_def intro!: on_events_ok put_signal_property_ok same_links_events)

lemma subscribe_round_ok: "dev_ok d \<Longrightarrow> dev_ok (snd (subscribe_round w d))"
  unfolding subscribe_round_def
  by (intro dev_then_ok lift_events_ok table_put_signal_property_ok ev_subscribe_links) simp_all

lemma load_collection_ok: "dev_ok d \<Longrightarrow> dev_ok (snd (load_collection w junk xs d))"
proof (induction xs arbitrary: d)
  case Nil
  then show ?case by simp
next
  case (Cons x xs)
  then show ?case
    using load_ok [OF Cons.prems, of w junk]
    by (auto split: prod.splits option.splits sum.splits alarm_error.splits)
      (metis snd_conv)+
qed

lemma LoadAlarmsFromFile_ok: "dev_ok d \<Longrightarrow> dev_ok (snd (LoadAlarmsFromFile w junk file d))"
  by (auto simp: LoadAlarmsFromFile_def intro!: dev_then_ok load_collection_ok split: sum.split)

lemma load_stored_alarm_ok: "dev_ok (snd p) \<Longrightarrow> dev_ok (snd (load_stored_alarm w s p))"
proof -
  assume ok: "dev_ok (snd p)"
  obtain evs d where p: "p = (evs, d)" by fastforce
  show ?thesis
  proof (cases "load_alarm w s (alarm_clear (alarm_t_new (aw_raw w))) d")
    case (Inl e)
    then show ?thesis using ok p by (simp add: load_stored_alarm_def)
  next
    case (Inr q)
    obtain a evn where q: "q = (a, evn)" by fastforce
    have "alarm_ok (al_name a) a" "s_event a = []"
      using load_alarm_ok [of w s "alarm_clear (alarm_t_new (aw_raw w))" d a evn] Inr q by simp_all
    then show ?thesis using ok p q Inr by (simp add: load_stored_alarm_def add_alarm_ok)
  qed
qed

lemma load_all_ok: "dev_ok (snd p) \<Longrightarrow> dev_ok (snd (fold (load_stored_alarm w) ss p))"
  by (induction ss arbitrary: p) (simp_all add: load_stored_alarm_ok)

lemma connect_action_ok:
  assumes "\<And>x. alarm_update (set_dp x)" "\<And>b. alarm_update (set_send b)" "dev_ok d"
  shows "dev_ok (connect_action w full device action set_dp set_send nm d)"
  using assms(3)
  by (simp add: connect_action_def Let_def alarm_update.change_ok [OF assms(1)]
      alarm_update.change_ok [OF assms(2)] split: option.split sum.split arg_type.split)

lemma connect_actions_ok: "dev_ok d \<Longrightarrow> dev_ok (connect_actions w nm d)"
  unfolding connect_actions_def
  by (intro connect_action_ok al_dp_a.alarm_update_axioms al_dp_n.alarm_update_axioms
      al_send_a.alarm_update_axioms al_send_n.alarm_update_axioms)

lemma stored_ok:
  assumes "parts_ok m t" "\<forall>i\<in>set st. alarm_typed i"
  shows "parts_ok (fold (\<lambda>i. map_modify (al_name i) (restore_alarm i)) st m) t"
  using assms
proof (induction st arbitrary: m)
  case Nil
  then show ?case by simp
next
  case (Cons i st)
  have "parts_ok (map_modify (al_name i) (restore_alarm i) m) t"
    using Cons.prems by (intro parts_ok_modify) (simp_all add: ok_defs restore_alarm_def)
  then show ?case using Cons by simp
qed

lemma add_all_events_ok: "dev_ok d \<Longrightarrow> dev_ok (snd (add_all_events w evs d))"
  by (induction evs arbitrary: d) (auto intro!: dev_then_ok add_event_ok)

lemma request_all_ok: "dev_ok d \<Longrightarrow> dev_ok (request_all w junk evs d)"
  by (auto simp: request_all_def intro!: fold_ok split: option.split)

lemma init_device_ok:
  assumes "dev_ok d" "\<forall>i\<in>set st. alarm_typed i"
  shows "dev_ok (snd (init_device w junk st d))"
proof -
  let ?db = "get_alarm_list_db (d_conf_db d) ([], [])"
  let ?l = "fold (load_stored_alarm w) (fst ?db) ([], d\<lparr>d_internal_counter := 0, d_saved := snd ?db\<rparr>)"
  let ?d1 = "snd ?l"
  let ?keep = "known_stored ?d1 st"
  let ?d2 = "?d1\<lparr>d_alarms := at_stored ?keep (d_alarms ?d1), d_alarmed := d_alarmed ?d1 @ ?keep\<rparr>"
  have "dev_ok ?d1" using assms(1) by (intro load_all_ok) simp
  then have "dev_ok ?d2"
    using stored_ok [of "the_alarms ?d1" "d_events ?d1" ?keep] assms(2)
    by (simp add: dev_ok_def at_stored_def the_alarms_def known_stored_def)
  then have "dev_ok (fold (connect_actions w) (List.map fst (the_alarms ?d2)) ?d2)"
    by (intro fold_ok connect_actions_ok)
  then show ?thesis
    unfolding init_device_def Let_def
    by (intro dev_then_ok add_all_events_ok lift_events_ok ev_start_all_links)
      (simp_all add: dev_ok_def the_alarms_def request_all_ok [unfolded dev_ok_def the_alarms_def])
qed

lemma add_dynamic_attributes_ok: "dev_ok d \<Longrightarrow> dev_ok (add_dynamic_attributes d)"
  by (simp add: add_dynamic_attributes_def al_cell.all_ok)

lemma delete_device_ok: "dev_ok (snd (delete_device d))"
  by (simp add: delete_device_def dev_ok_def parts_ok_def table_ok_def linked_def events_ok_def
      ev_unsubscribe_events_def the_alarms_def)

subsection \<open>Steps\<close>

definition goes_on :: "('a, 'v) alarm_result \<Rightarrow> bool" where
  "goes_on r \<longleftrightarrow> (case fst r of Inl (Unexpected e) \<Rightarrow> False | Inl BadPointer \<Rightarrow> False | _ \<Rightarrow> True)"

inductive alarm_step :: "'v alarm_device \<Rightarrow> 'v alarm_device \<Rightarrow> bool" where
  event: "alarm_step d (push_tango_event w junk ev d)"
| round: "alarm_thread_round w due (th, d) = Some (go, th', d') \<Longrightarrow> alarm_step d d'"
| timer: "alarm_step d (timer_update w d)"
| subscribe: "goes_on (subscribe_round w d) \<Longrightarrow> alarm_step d (snd (subscribe_round w d))"
| load: "goes_on (load w junk s d) \<Longrightarrow> alarm_step d (snd (load w junk s d))"
| alarm_file: "goes_on (LoadAlarmsFromFile w junk f d) \<Longrightarrow> alarm_step d (snd (LoadAlarmsFromFile w junk f d))"
| remove: "alarm_step d (snd (remove w s d))"
| modify: "goes_on (modify w junk s d) \<Longrightarrow> alarm_step d (snd (modify w junk s d))"
| ack: "alarm_step d (ack_alarms w nms d)"
| stop_audible: "alarm_step d (stop_audible w d)"
| stop_new: "alarm_step d (stop_new w d)"
| reset: "alarm_step d (reset_statistics_al d)"
| silence: "alarm_step d (snd (silence w nms d))"
| shelve: "alarm_step d (snd (shelve w nms d))"
| enable: "alarm_step d (snd (enable w nm d))"
| disable: "alarm_step d (snd (disable w nm d))"
| attributes: "alarm_step d (add_dynamic_attributes d)"
| restart: "goes_on (init_device w junk [] (snd (delete_device d))) \<Longrightarrow>
    alarm_step d (snd (init_device w junk [] (snd (delete_device d))))"

text \<open>The device before its first start: empty tables, with any configuration and groups.\<close>

definition blank_device :: "'v alarm_device \<Rightarrow> bool" where
  "blank_device d \<longleftrightarrow> the_alarms d = [] \<and> v_event (d_events d) = []"

inductive reachable_alarm :: "'v alarm_device \<Rightarrow> bool" where
  start: "blank_device d \<Longrightarrow> goes_on (init_device w junk [] d) \<Longrightarrow>
    reachable_alarm (snd (init_device w junk [] d))"
| step: "reachable_alarm d \<Longrightarrow> alarm_step d d' \<Longrightarrow> reachable_alarm d'"

lemma blank_ok: "blank_device d \<Longrightarrow> dev_ok d"
  by (simp add: blank_device_def dev_ok_def parts_ok_def table_ok_def linked_def events_ok_def)

lemma push_event_ok: "dev_ok d \<Longrightarrow> dev_ok (push_tango_event w junk ev d)"
  by (simp add: push_tango_event_def)

lemma alarm_step_ok: "alarm_step d d' \<Longrightarrow> dev_ok d \<Longrightarrow> dev_ok d'"
proof (induction rule: alarm_step.induct)
  case (round w due th d go th' d')
  then show ?case by (rule thread_round_ok)
next
  case (restart w junk d)
  show ?case by (rule init_device_ok [OF delete_device_ok]) simp
qed (simp_all add: push_event_ok timer_update_ok subscribe_round_ok load_ok LoadAlarmsFromFile_ok remove_ok
    modify_command_ok ack_alarms_ok stop_audible_ok stop_new_ok reset_statistics_ok silence_ok shelve_ok enable_ok
    disable_ok add_dynamic_attributes_ok)

lemma reachable_ok: "reachable_alarm d \<Longrightarrow> dev_ok d"
  by (induction rule: reachable_alarm.induct)
    (auto intro: alarm_step_ok init_device_ok [OF blank_ok])


text \<open>
  What the operations of the alarm device achieve: an event evaluates the alarms that are registered at
  it, the published lists are the alarms by state, shelving checks every name before it changes one,
  removing an alarm removes nothing else.
\<close>

subsection \<open>Evaluation of the registered alarms\<close>

lemma find_change:
  "find_alarm k (change_alarm nm f d) =
     (if k = nm then map_option f (find_alarm nm d) else find_alarm k d)"
  by (simp add: find_alarm_def map_of_modify)

lemma find_frame [simp]:
  "find_alarm k (emit p d) = find_alarm k d" "find_alarm k (push_alarm_attr nm d) = find_alarm k d"
  "find_alarm k (report w m d) = find_alarm k d" "find_alarm k (publish w q d) = find_alarm k d"
  "find_alarm k (refresh_frequency d) = find_alarm k d"
  "find_alarm k (on_events h d) = find_alarm k d"
  "find_alarm k (d\<lparr>d_alarmed := x\<rparr>) = find_alarm k d"
  by (simp_all add: find_alarm_def)

definition frequency :: "string \<Rightarrow> 'v alarm_device \<Rightarrow> u32 option" where
  "frequency k d = map_option freq_counter (find_alarm k d)"

lemma frequency_frame [simp]:
  "frequency k (emit p d) = frequency k d" "frequency k (push_alarm_attr nm d) = frequency k d"
  "frequency k (report w m d) = frequency k d" "frequency k (publish w q d) = frequency k d"
  "frequency k (refresh_frequency d) = frequency k d" "frequency k (on_events h d) = frequency k d"
  by (simp_all add: frequency_def)

lemma frequency_change:
  "(\<And>a. find_alarm nm d = Some a \<Longrightarrow> freq_counter (f a) = freq_counter a) \<Longrightarrow>
   frequency k (change_alarm nm f d) = frequency k d"
  by (cases "find_alarm nm d") (auto simp: frequency_def find_change)

lemma frequency_failed [simp]: "frequency k (formula_failed w nm ev r s d) = frequency k d"
  by (simp add: formula_failed_def frequency_change)

lemma update_one_frequency:
  "freq_counter (fst (update_one now st ts r vals arg a)) = freq_counter a"
  by (simp add: update_one_def Let_def set_stat_def count_eval_def note_change_def take_result_def
      countdown_ack_def)

lemma frequency_evaluated: "frequency k (snd (evaluated w nm ev vals ts a r d)) = frequency k d"
proof (cases rule: at_update_cases [of "d_alarms d" nm "aw_now w" ts "outcome_of (aw_arith w) r" vals
      "grp2str (d_groups d) a" "msg a" "al_formula a"])
  case (1 e)
  then show ?thesis by (simp add: evaluated_def evaluation_error_def)
next
  case (2 a' b cs ch)
  have "freq_counter b = freq_counter a'" using update_one_frequency 2(2) by (metis fst_conv)
  then have "frequency k (d\<lparr>d_alarms := (d_alarms d)\<lparr>v_alarm := map_modify nm (\<lambda>x. b) (v_alarm (d_alarms d)),
      cmd_list := xs\<rparr>\<rparr>) = frequency k d" for xs
    using 2(1) by (simp add: frequency_def find_alarm_def map_of_modify the_alarms_def)
  with 2(3) show ?thesis by (simp add: evaluated_def frequency_change set_attr_state_def)
qed

lemma frequency_eval:
  assumes "ev \<noteq> FORCED_EVAL"
  shows "frequency k (snd (do_alarm_eval w nm ev ts d)) =
    map_option (\<lambda>n. n + of_bool (k = nm)) (frequency k d)"
proof (cases "find_alarm nm d")
  case None
  then show ?thesis by (cases "k = nm") (simp_all add: do_alarm_eval_def frequency_def option.map_ident)
next
  case (Some a)
  let ?a = "a\<lparr>freq_counter := freq_counter a + 1\<rparr>"
  have sub: "frequency k (change_alarm nm (\<lambda>x. ?a\<lparr>attr_values := s\<rparr>) d) =
      map_option (\<lambda>n. n + of_bool (k = nm)) (frequency k d)" for s
    using Some by (simp add: frequency_def find_change option.map_ident)
  obtain r s where e: "eval_formula (aw_arith w) (v_event (d_events d)) (formula_tree ?a) ''{'' = (r, s)"
    by fastforce
  show ?thesis
    using assms Some e sub frequency_evaluated [of k w nm ev]
    by (cases r)
      (auto simp: do_alarm_eval_def Let_def evaluation_error_def split: eval_error.split)
qed

lemma eval_events: "d_events (snd (do_alarm_eval w nm ev ts d)) = d_events d"
  by (auto simp: do_alarm_eval_def evaluated_def evaluation_error_def formula_failed_def Let_def
      split: option.split prod.split sum.split eval_error.split)

lemma frequency_eval_alarms:
  assumes "ev \<noteq> FORCED_EVAL"
  shows "frequency k (snd (eval_alarms w ev ts nms n d)) =
    map_option (\<lambda>c. c + of_nat (count_list nms k)) (frequency k d)"
proof (induction nms arbitrary: n d)
  case Nil
  then show ?case by (simp add: option.map_ident)
next
  case (Cons nm nms)
  obtain ch d1 where e: "do_alarm_eval w nm ev ts d = (ch, d1)" by fastforce
  then have "frequency k d1 = map_option (\<lambda>c. c + of_bool (k = nm)) (frequency k d)"
    using frequency_eval [OF assms, of k w nm ts d] by simp
  then show ?case
    by (cases "frequency k d") (auto simp: e Cons.IH)
qed

text \<open>The counter of the evaluations of every alarm after an event with a value.\<close>

lemma do_alarm_frequency:
  assumes "bei_type e = ValueType ty" "bei_name e \<noteq> FORCED_EVAL"
    and "map_of (links (d_events d)) (bei_name e) = Some ms" "dev_ok d"
  shows "frequency k (do_alarm w e d) = map_option (\<lambda>c. c + of_nat (count_list ms k)) (frequency k d)"
proof -
  obtain i where f: "find_event (bei_name e) (v_event (d_events d)) = Some i"
    using assms(3) links_find [of "bei_name e" "d_events d"] by auto
  have i: "i < length (v_event (d_events d))" "ev_name (v_event (d_events d) ! i) = bei_name e"
    using find_event_hit [OF f] by simp_all
  have r: "resolve_event (bei_name e) (v_event (d_events d)) = Some i"
    using f by (simp add: resolve_event_def)
  let ?d1 = "on_events (set_event i (event_arrived e)) d"
  let ?f = "v_event (d_events ?d1) ! i"
  have "events_ok (d_events d)" using assms(4) by (simp add: dev_ok_def parts_ok_def)
  then have "m_alarm (v_event (d_events d) ! i) = ms"
    using links_nth [of "d_events d" i] i assms(3) by simp
  then have m: "m_alarm ?f = ms" using i(1) by (simp add: set_event_def event_arrived_def)
  obtain n d2 where ev: "eval_alarms w (bei_name e) (ev_ts ?f) (m_alarm ?f) 0 ?d1 = (n, d2)" by fastforce
  have "frequency k d2 = map_option (\<lambda>c. c + of_nat (count_list ms k)) (frequency k d)"
    using frequency_eval_alarms [OF assms(2), of k w "ev_ts ?f" "m_alarm ?f" 0 ?d1] ev
    by (simp only: m snd_conv frequency_frame)
  moreover have "frequency k (do_alarm w e d) = frequency k d2"
    using assms(1) r ev by (simp add: do_alarm_def Let_def)
  ultimately show ?thesis by simp
qed

subsection \<open>The published lists\<close>

definition names_of :: "(alarm \<Rightarrow> bool) \<Rightarrow> alarm_container \<Rightarrow> string list" where
  "names_of P m = List.map (\<lambda>p. al_name (snd p)) (filter (\<lambda>p. P (snd p)) m)"

lemma names_of_simps [simp]:
  "names_of P [] = []"
  "names_of P (p # m) = (if P (snd p) then al_name (snd p) # names_of P m else names_of P m)"
  by (simp_all add: names_of_def)

definition in_service :: "alarm \<Rightarrow> bool" where
  "in_service a \<longleftrightarrow> enabled a \<and> \<not> shelved a"

lemma prepared_lists:
  "outOfServiceAlarms (ps_lists (fold (prepare_one lt) m s)) =
     outOfServiceAlarms (ps_lists s) @ names_of (\<lambda>a. \<not> enabled a) m"
  "shelvedAlarms (ps_lists (fold (prepare_one lt) m s)) =
     shelvedAlarms (ps_lists s) @ names_of (\<lambda>a. enabled a \<and> shelved a) m"
  "acknowledgedAlarms (ps_lists (fold (prepare_one lt) m s)) =
     acknowledgedAlarms (ps_lists s) @ names_of (\<lambda>a. in_service a \<and> stat a = S_ALARM \<and> ack a = ACK) m"
  "unacknowledgedAlarms (ps_lists (fold (prepare_one lt) m s)) =
     unacknowledgedAlarms (ps_lists s) @ names_of (\<lambda>a. in_service a \<and> stat a = S_ALARM \<and> ack a = NOT_ACK) m"
  "unacknowledgedNormalAlarms (ps_lists (fold (prepare_one lt) m s)) =
     unacknowledgedNormalAlarms (ps_lists s) @
       names_of (\<lambda>a. in_service a \<and> stat a = S_NORMAL \<and> ack a = NOT_ACK) m"
  "normalAlarms (ps_lists (fold (prepare_one lt) m s)) =
     normalAlarms (ps_lists s) @ names_of (\<lambda>a. in_service a \<and> stat a = S_NORMAL \<and> ack a = ACK) m"
  "silencedAlarms (ps_lists (fold (prepare_one lt) m s)) =
     silencedAlarms (ps_lists s) @ names_of (\<lambda>a. in_service a \<and> silenced a > 0) m"
  "listAlarms (ps_lists (fold (prepare_one lt) m s)) = listAlarms (ps_lists s) @ names_of (\<lambda>a. True) m"
  "alarmAudible (ps_lists (fold (prepare_one lt) m s)) \<longleftrightarrow>
     alarmAudible (ps_lists s) \<or> (\<exists>p\<in>set m. audible (snd p))"
  by (induction m arbitrary: s)
    (auto simp: prepare_one_def add_to_lists_def in_service_def Let_def)

lemma publish_lists:
  "d_lists (publish w q d) =
     (ps_lists (fold (prepare_one (aw_localtime w)) (the_alarms d)
        \<lparr>ps_lists = empty_lists (ds_rows (d_lists d)), ps_state = [], ps_alarmed = d_alarmed d\<rparr>))
     \<lparr>ds_rows := table_rows (d_groups d) (d_alarmed (publish w q d))\<rparr>"
  by (simp add: publish_def prepare_alarm_attr_def emit_def Let_def)

lemma mset_names_split:
  "(\<And>p. p \<in> set m \<Longrightarrow> R (snd p) \<longleftrightarrow> P (snd p) \<or> Q (snd p)) \<Longrightarrow> (\<And>p. p \<in> set m \<Longrightarrow> \<not> (P (snd p) \<and> Q (snd p))) \<Longrightarrow>
   mset (names_of R m) = mset (names_of P m) + mset (names_of Q m)"
proof (induction m)
  case Nil
  then show ?case by simp
next
  case (Cons p m)
  have "mset (names_of R m) = mset (names_of P m) + mset (names_of Q m)"
    by (rule Cons.IH) (use Cons.prems in auto)
  then show ?case using Cons.prems [of p] by auto
qed

lemma table_names: "table_ok m \<Longrightarrow> names_of (\<lambda>a. True) m = List.map fst m"
  by (auto simp: table_ok_def names_of_def alarm_ok_def)

lemma lists_partition:
  assumes "dev_ok d" and l: "l = d_lists (publish w q d)"
  shows "mset (listAlarms l) =
      mset (outOfServiceAlarms l) + mset (shelvedAlarms l) + mset (acknowledgedAlarms l) +
      mset (unacknowledgedAlarms l) + mset (unacknowledgedNormalAlarms l) + mset (normalAlarms l)"
    and "listAlarms l = List.map fst (the_alarms d)" and "distinct (listAlarms l)"
proof -
  let ?m = "the_alarms d"
  have t: "table_ok ?m" using assms(1) by (simp add: dev_ok_def parts_ok_def)
  then have ty: "alarm_typed (snd p)" if "p \<in> set ?m" for p
    using that by (auto simp: table_ok_def alarm_ok_def)
  have fields: "outOfServiceAlarms l = names_of (\<lambda>a. \<not> enabled a) ?m"
    "shelvedAlarms l = names_of (\<lambda>a. enabled a \<and> shelved a) ?m"
    "acknowledgedAlarms l = names_of (\<lambda>a. in_service a \<and> stat a = S_ALARM \<and> ack a = ACK) ?m"
    "unacknowledgedAlarms l = names_of (\<lambda>a. in_service a \<and> stat a = S_ALARM \<and> ack a = NOT_ACK) ?m"
    "unacknowledgedNormalAlarms l = names_of (\<lambda>a. in_service a \<and> stat a = S_NORMAL \<and> ack a = NOT_ACK) ?m"
    "normalAlarms l = names_of (\<lambda>a. in_service a \<and> stat a = S_NORMAL \<and> ack a = ACK) ?m"
    "listAlarms l = names_of (\<lambda>a. True) ?m"
    by (simp_all add: l publish_lists prepared_lists empty_lists_def)
  show "listAlarms l = List.map fst ?m" using t by (simp add: fields table_names)
  then show "distinct (listAlarms l)" using t by (simp add: table_ok_def sorted_map_distinct)
  note split = mset_names_split [of ?m]
  have "mset (names_of (\<lambda>a. True) ?m) = mset (names_of (\<lambda>a. \<not> enabled a) ?m) + mset (names_of enabled ?m)"
    by (rule split) auto
  moreover have "mset (names_of enabled ?m) =
      mset (names_of (\<lambda>a. enabled a \<and> shelved a) ?m) + mset (names_of in_service ?m)"
    by (rule split) (auto simp: in_service_def)
  moreover have "mset (names_of in_service ?m) =
      mset (names_of (\<lambda>a. in_service a \<and> stat a = S_ALARM) ?m) +
      mset (names_of (\<lambda>a. in_service a \<and> stat a = S_NORMAL) ?m)"
    by (rule split) (auto simp: alarm_typed_def dest: ty)
  moreover have "mset (names_of (\<lambda>a. in_service a \<and> stat a = S_ALARM) ?m) =
      mset (names_of (\<lambda>a. in_service a \<and> stat a = S_ALARM \<and> ack a = ACK) ?m) +
      mset (names_of (\<lambda>a. in_service a \<and> stat a = S_ALARM \<and> ack a = NOT_ACK) ?m)"
    by (rule split) (auto simp: alarm_typed_def dest: ty)
  moreover have "mset (names_of (\<lambda>a. in_service a \<and> stat a = S_NORMAL) ?m) =
      mset (names_of (\<lambda>a. in_service a \<and> stat a = S_NORMAL \<and> ack a = ACK) ?m) +
      mset (names_of (\<lambda>a. in_service a \<and> stat a = S_NORMAL \<and> ack a = NOT_ACK) ?m)"
    by (rule split) (auto simp: alarm_typed_def dest: ty)
  ultimately show "mset (listAlarms l) =
      mset (outOfServiceAlarms l) + mset (shelvedAlarms l) + mset (acknowledgedAlarms l) +
      mset (unacknowledgedAlarms l) + mset (unacknowledgedNormalAlarms l) + mset (normalAlarms l)"
    by (simp add: fields ac_simps)
qed

text \<open>The table of the alarms to show: the entry of a name is not changed by the alarms of other names.\<close>

definition entry :: "string \<Rightarrow> alarm list \<Rightarrow> alarm option" where
  "entry k as = map_option (\<lambda>i. as ! i) (find_alarmed k as)"

lemma entry_simps [simp]:
  "entry k [] = None"
  "entry k (a # as) = (if al_name a = k then Some a else entry k as)"
  by (simp_all add: entry_def find_alarmed_def option.map_comp comp_def)

lemma entry_append: "entry k (as @ [a]) = (case entry k as of None \<Rightarrow> if al_name a = k then Some a else None | Some e \<Rightarrow> Some e)"
  by (induction as) (auto split: option.split)

lemma entry_found: "find_alarmed n as = Some i \<Longrightarrow> entry n as = Some (as ! i)"
  by (simp add: entry_def)

lemma entry_update:
  "find_alarmed n as = Some i \<Longrightarrow> al_name e = n \<Longrightarrow>
   entry k (as[i := e]) = (if k = n then Some e else entry k as)"
  by (induction as arbitrary: i) (auto simp: find_alarmed_def split: if_splits nat.split)

lemma entry_erase:
  "find_alarmed n as = Some i \<Longrightarrow> k \<noteq> n \<Longrightarrow> entry k (erase_at i as) = entry k as"
  by (induction as arbitrary: i) (auto simp: find_alarmed_def split: if_splits)

lemma refresh_names [simp]:
  "al_name (refresh_raised a e) = al_name e" "al_name (refresh_normal a e) = al_name e"
  by (simp_all add: refresh_raised_def refresh_normal_def Let_def)

lemma found_name: "find_alarmed n as = Some i \<Longrightarrow> al_name (as ! i) = n"
  by (auto simp: find_alarmed_def dest: find_index_SomeD)

lemma update_alarmed_other: "al_name a \<noteq> k \<Longrightarrow> entry k (update_alarmed a as) = entry k as"
  by (auto simp: update_alarmed_def entry_append entry_update entry_erase found_name Let_def
      split: option.split)

lemma update_alarmed_self:
  assumes "to_show a"
  shows "entry (al_name a) (update_alarmed a as) =
    Some (case entry (al_name a) as of None \<Rightarrow> a | Some e \<Rightarrow> refresh_raised a e)"
proof (cases "find_alarmed (al_name a) as")
  case None
  then have "entry (al_name a) as = None" by (simp add: entry_def)
  then show ?thesis using assms None by (simp add: update_alarmed_def entry_append)
next
  case (Some i)
  then show ?thesis using assms by (simp add: update_alarmed_def entry_update found_name entry_found)
qed

lemma prepare_one_alarmed: "ps_alarmed (prepare_one lt p s) = update_alarmed (snd p) (ps_alarmed s)"
  by (simp add: prepare_one_def Let_def)

lemma prepared_alarmed: "ps_alarmed (fold (prepare_one lt) m s) = fold (\<lambda>p. update_alarmed (snd p)) m (ps_alarmed s)"
  by (induction m arbitrary: s) (simp_all add: prepare_one_def Let_def)

lemma entry_countdown: "entry k (List.map (countdown now) as) = map_option (countdown now) (entry k as)"
  by (induction as) (auto simp: countdown_def Let_def)

lemma fold_alarmed_other:
  "\<forall>p\<in>set m. al_name (snd p) \<noteq> k \<Longrightarrow> entry k (fold (\<lambda>p. update_alarmed (snd p)) m as) = entry k as"
  by (induction m arbitrary: as) (auto simp: update_alarmed_other)

text \<open>Every raised alarm in service is shown, with its acknowledgement.\<close>

lemma raised_shown:
  assumes ok: "dev_ok d" and a: "find_alarm k d = Some a" "to_show a"
  shows "entry k (d_alarmed (publish w q d)) =
    Some (countdown (aw_now w) (case entry k (d_alarmed d) of None \<Rightarrow> a | Some e \<Rightarrow> refresh_raised a e))"
proof -
  have t: "table_ok (the_alarms d)" using ok by (simp add: dev_ok_def parts_ok_def)
  have m: "(k, a) \<in> set (the_alarms d)" using a(1) by (simp add: find_alarm_def map_of_in_set)
  then obtain m1 m2 where s: "the_alarms d = m1 @ (k, a) # m2" by (meson split_list)
  have keys: "al_name (snd p) = fst p" if "p \<in> set (the_alarms d)" for p
    using t that by (auto simp: table_ok_def alarm_ok_def)
  have "distinct (List.map fst (the_alarms d))" using t by (simp add: table_ok_def sorted_map_distinct)
  then have other: "\<forall>p\<in>set m1. al_name (snd p) \<noteq> k" "\<forall>p\<in>set m2. al_name (snd p) \<noteq> k"
    using keys by (auto simp: s image_iff)
  have "al_name a = k" using keys [OF m] by simp
  then show ?thesis
    using fold_alarmed_other [OF other(1)] fold_alarmed_other [OF other(2)] update_alarmed_self [OF a(2)]
    by (simp add: publish_def prepare_alarm_attr_def emit_def Let_def prepared_alarmed prepare_one_alarmed
        entry_countdown s)
qed

end
