(* ===== verification/AlarmOperatorSpec.thy ===== *)
theory AlarmOperatorSpec
  imports AlarmSteps
begin

text \<open>
  The contracts of the commands of the operator: shelving is all or nothing, acknowledging moves the
  state machine of the named alarms, disabling and enabling is a round trip, removing an alarm keeps
  the others, and the loop that erases acknowledged entries is a filter.
\<close>

subsection \<open>Erasing\<close>

lemma filter_erase_at: "find_index P as = Some i \<Longrightarrow> filter (\<lambda>x. \<not> P x) (erase_at i as) = filter (\<lambda>x. \<not> P x) as"
  by (induction as arbitrary: i) (auto split: if_splits)

declare erase_every.simps [simp del]

lemma erase_every_filter: "erase_every P as = filter (\<lambda>x. \<not> P x) as"
proof (induction P as rule: erase_every.induct)
  case (1 P as)
  show ?case
  proof (cases "find_index P as")
    case None
    then have "filter (\<lambda>x. \<not> P x) as = as" by (auto intro!: filter_True)
    then show ?thesis by (subst erase_every.simps) (simp only: None option.case)
  next
    case (Some i)
    then show ?thesis using 1 [OF Some] by (simp add: erase_every.simps [of P as] filter_erase_at)
  qed
qed

subsection \<open>Shelve\<close>

lemma countdown_idem: "countdown now (countdown now a) = countdown now a"
  by (simp add: countdown_def Let_def)

definition can_shelve :: "timeval \<Rightarrow> alarm \<Rightarrow> bool" where
  "can_shelve now a \<longleftrightarrow> enabled a \<and> \<not> shelved (countdown now a) \<and> silent_time a > 0"

lemma countdown_members [simp]:
  "enabled (countdown now a) = enabled a" "silent_time (countdown now a) = silent_time a"
  "stat (countdown now a) = stat a" "ack (countdown now a) = ack a" "al_name (countdown now a) = al_name a"
  by (simp_all add: countdown_def Let_def)

text \<open>The test changes nothing but the remaining silence times.\<close>

definition counted :: "timeval \<Rightarrow> 'v alarm_device \<Rightarrow> 'v alarm_device \<Rightarrow> bool" where
  "counted now d d' \<longleftrightarrow>
     d_alarmed d' = d_alarmed d \<and> d_published d' = d_published d \<and> d_events d' = d_events d \<and>
     (\<forall>k. find_alarm k d' = find_alarm k d \<or>
          find_alarm k d' = map_option (countdown now) (find_alarm k d))"

lemma counted_refl [simp]: "counted now d d"
  by (simp add: counted_def)

lemma counted_trans: "counted now d d1 \<Longrightarrow> counted now d1 d2 \<Longrightarrow> counted now d d2"
proof -
  have idem: "map_option (countdown now) (map_option (countdown now) x) = map_option (countdown now) x" for x
    by (cases x) (simp_all add: countdown_idem)
  show "counted now d d1 \<Longrightarrow> counted now d1 d2 \<Longrightarrow> counted now d d2"
    unfolding counted_def by (metis idem)
qed

lemma check_counted: "counted (aw_now w) d (snd (shelve_check w nm d))"
proof -
  have "counted (aw_now w) d (change_alarm nm (countdown (aw_now w)) d)"
    by (auto simp: counted_def find_change)
      (simp_all add: change_alarm_def on_alarms_def)
  then show ?thesis by (simp add: shelve_check_def failed_def Let_def split: option.split)
qed

lemma check_passes:
  "fst (shelve_check w nm d) = Inr () \<longleftrightarrow>
     (\<exists>a. find_alarm nm d = Some a \<and> can_shelve (aw_now w) a)"
  by (auto simp: shelve_check_def can_shelve_def failed_def Let_def split: option.split)

lemma check_result: "\<exists>x. fst (shelve_check w nm d) = Inr () \<or> (\<exists>r s u. fst (shelve_check w nm d) = Inl (AlarmFailed r s u))"
  by (auto simp: shelve_check_def failed_def Let_def split: option.split)

lemma can_shelve_counted:
  "counted now d d' \<Longrightarrow>
   (\<exists>a. find_alarm k d' = Some a \<and> can_shelve now a) \<longleftrightarrow> (\<exists>a. find_alarm k d = Some a \<and> can_shelve now a)"
proof -
  assume c: "counted now d d'"
  then have "find_alarm k d' = find_alarm k d \<or>
      find_alarm k d' = map_option (countdown now) (find_alarm k d)" by (simp add: counted_def)
  then show ?thesis by (cases "find_alarm k d") (auto simp: can_shelve_def countdown_idem)
qed

lemma checks:
  "counted (aw_now w) d (snd (each_name (shelve_check w) nms d)) \<and>
   (fst (each_name (shelve_check w) nms d) = Inr () \<longleftrightarrow>
     (\<forall>nm\<in>set nms. \<exists>a. find_alarm nm d = Some a \<and> can_shelve (aw_now w) a))"
proof (induction nms arbitrary: d)
  case Nil
  then show ?case by simp
next
  case (Cons nm nms)
  obtain r d1 where c: "shelve_check w nm d = (r, d1)" by fastforce
  have cd: "counted (aw_now w) d d1" using check_counted [of w d nm] c by simp
  have p: "r = Inr () \<longleftrightarrow> (\<exists>a. find_alarm nm d = Some a \<and> can_shelve (aw_now w) a)"
    using check_passes [of w nm d] c by simp
  show ?case
  proof (cases r)
    case (Inl e)
    then show ?thesis using c cd p by (auto simp: dev_then_def)
  next
    case (Inr u)
    then show ?thesis
      using c p Cons.IH [of d1] counted_trans [OF cd] can_shelve_counted [OF cd]
      by (simp add: dev_then_def)
  qed
qed

lemma find_erase_alarmed [simp]: "find_alarm k (erase_alarmed nm d) = find_alarm k d"
  by (simp add: find_alarm_def)

lemma find_shelve_one:
  "find_alarm k (shelve_one w nm d) =
     (if k = nm then map_option (shelved_now (aw_now w)) (find_alarm k d) else find_alarm k d)"
  by (simp add: shelve_one_def find_change split: option.split)

lemma shelved_again: "shelved_now now (shelved_now now a) = shelved_now now a"
  by (simp add: shelved_now_def start_silence_def)

lemma find_shelve_all:
  "find_alarm k (fold (shelve_one w) nms d) =
     (if k \<in> set nms then map_option (shelved_now (aw_now w)) (find_alarm k d) else find_alarm k d)"
  by (induction nms arbitrary: d) (auto simp: find_shelve_one option.map_comp comp_def shelved_again)

lemma in_names_of: "dev_ok d \<Longrightarrow> find_alarm k d = Some a \<Longrightarrow> P a \<Longrightarrow> k \<in> set (names_of P (the_alarms d))"
  using map_of_in_set [of "the_alarms d" k a] dev_ok_map_of [of d k a]
  by (force simp: names_of_def find_alarm_def alarm_ok_def)

subsection \<open>Remove\<close>

definition shown_raised :: "string \<Rightarrow> 'v alarm_device \<Rightarrow> bool" where
  "shown_raised nm d \<longleftrightarrow>
     (case entry nm (d_alarmed d) of None \<Rightarrow> False | Some e \<Rightarrow> stat e = S_ALARM \<and> ack e = NOT_ACK)"

lemma remove_effect:
  assumes ok: "dev_ok d" and a: "find_alarm nm d \<noteq> None" and s: "\<not> shown_raised nm d"
  shows "fst (remove w nm d) = Inr ()"
    and "find_alarm k (snd (remove w nm d)) = (if k = nm then None else find_alarm k d)"
proof -
  note r = remove_alarm_ok(2,3) [OF ok a]
  obtain d1 where d1: "remove_alarm nm d = (Inr (), d1)" using r(1) by (cases "remove_alarm nm d") auto
  have t: "the_alarms d1 = map_erase nm (the_alarms d)" using r(2) d1 by simp
  have guard: "(case find_alarmed nm (d_alarmed d) of None \<Rightarrow> False
      | Some i \<Rightarrow> stat (d_alarmed d ! i) = S_ALARM \<and> ack (d_alarmed d ! i) = NOT_ACK) = False"
    using s by (auto simp: shown_raised_def entry_def split: option.splits)
  show "fst (remove w nm d) = Inr ()" by (simp only: remove_def guard) (simp add: d1 Let_def)
  have "find_alarm k d1 = (if k = nm then None else find_alarm k d)"
    by (simp add: find_alarm_def t map_of_erase)
  then show "find_alarm k (snd (remove w nm d)) = (if k = nm then None else find_alarm k d)"
    by (cases "k = nm"; simp only: remove_def guard) (simp_all add: d1 Let_def split: option.split)
qed

subsection \<open>Acknowledge\<close>

definition acknowledged :: "alarm \<Rightarrow> alarm" where
  "acknowledged a = a\<lparr>ack := ACK\<rparr>"

lemma find_change_alarmed [simp]: "find_alarm k (change_alarmed nm f d) = find_alarm k d"
  by (simp add: find_alarm_def)

lemma ack_one_life:
  assumes "find_alarm k d = Some a"
  shows "\<exists>b. find_alarm k (ack_one nm d) = Some b \<and> stat b = stat a \<and> enabled b = enabled a \<and>
    shelved b = shelved a \<and>
    ack b = (if k = nm \<and> k \<in> al_name ` set (d_alarmed d) \<and> in_service a then ACK else ack a)"
proof (cases "find_alarmed nm (d_alarmed d)")
  case None
  then have "nm \<notin> al_name ` set (d_alarmed d)" by (auto simp: find_alarmed_def)
  then show ?thesis using assms None by (auto simp: ack_one_def)
next
  case (Some i)
  then have "nm \<in> al_name ` set (d_alarmed d)"
    by (auto simp: find_alarmed_def dest!: find_index_SomeD intro!: image_eqI [OF _ nth_mem])
  then show ?thesis using assms Some
    by (cases "find_alarm nm d")
      (auto simp: ack_one_def in_service_def find_change set_attr_state_def Let_def)
qed

lemma ack_one_names: "al_name ` set (d_alarmed (ack_one nm d)) = al_name ` set (d_alarmed d)"
proof -
  have f: "d_alarmed (push_alarm_attr nm e) = d_alarmed e" "d_alarmed (change_alarm nm g e) = d_alarmed e"
    for e :: "'a alarm_device" and g
    by (simp_all add: push_alarm_attr_def emit_def change_alarm_def on_alarms_def split: option.split)
  have u: "al_name ` set (as[i := (as ! i)\<lparr>stat := x, ack := y\<rparr>]) = al_name ` set as" for as i x y
    using arg_cong [OF map_update_same [of al_name "(as ! i)\<lparr>stat := x, ack := y\<rparr>" as i], of set] by simp
  show ?thesis
    by (auto simp: ack_one_def change_alarmed_def f u Let_def split: option.split)
qed

lemma ack_all_life:
  "find_alarm k d = Some a \<Longrightarrow>
   \<exists>b. find_alarm k (fold ack_one nms d) = Some b \<and> stat b = stat a \<and> enabled b = enabled a \<and>
     shelved b = shelved a \<and>
     ack b = (if k \<in> set nms \<and> k \<in> al_name ` set (d_alarmed d) \<and> in_service a then ACK else ack a)"
proof (induction nms arbitrary: d a)
  case Nil
  then show ?case by simp
next
  case (Cons nm nms)
  obtain b where b: "find_alarm k (ack_one nm d) = Some b" "stat b = stat a" "enabled b = enabled a"
      "shelved b = shelved a"
      "ack b = (if k = nm \<and> k \<in> al_name ` set (d_alarmed d) \<and> in_service a then ACK else ack a)"
    using ack_one_life [OF Cons.prems, of nm] by blast
  have srv: "in_service b = in_service a" using b by (simp add: in_service_def)
  from Cons.IH [OF b(1)] b srv show ?case
    by (auto simp: ack_one_names split: if_splits)
qed

end
