(* ===== verification/AlarmConfigSpec.thy ===== *)
theory AlarmConfigSpec
  imports AlarmOperatorSpec
begin

text \<open>
  The configuration of the alarms survives the database: what \<open>save_alarm_conf_db\<close> writes is read back
  by \<open>get_alarm_list_db\<close> as the configuration string of the alarm, and \<open>put_signal_property\<close> brings the
  database in line with the table. The expansion of a formula always ends.
\<close>

subsection \<open>Round trip\<close>

definition conf_writable :: "groups \<Rightarrow> alarm \<Rightarrow> bool" where
  "conf_writable gs a \<longleftrightarrow>
     al_name a \<noteq> [] \<and> al_formula a \<noteq> [] \<and> lev a \<noteq> [] \<and> msg a \<noteq> [] \<and> grp2str gs a \<noteq> [] \<and>
     sint (on_delay a) \<ge> 0 \<and> sint (off_delay a) \<ge> 0"

lemma sint_unat: "sint (x :: u32) \<ge> 0 \<Longrightarrow> sint x = int (unat x)"
proof -
  assume n: "sint x \<ge> 0"
  have "uint x = uint (word_of_int (sint x) :: u32)" by simp
  also have "\<dots> = sint x mod 2 ^ 32" by (subst uint_word_of_int) simp
  also have "\<dots> = sint x" using n sint_lt [of x] by (simp add: mod_pos_pos_trivial)
  finally show ?thesis by simp
qed

lemma show_int_delay: "sint (x :: u32) \<ge> 0 \<Longrightarrow> show_int (sint x) = show_nat (unat x)"
  by (simp add: show_int_def sint_unat)

lemma conf_round_trip:
  assumes "conf_writable gs a"
  shows "conf_line (conf_properties gs a) = confstr gs a" and "conf_complete (conf_properties gs a)"
    and "conf_value (conf_properties gs a) ''tag'' [] = al_name a"
  using assms
  by (simp_all add: conf_writable_def conf_line_def conf_properties_def conf_value_def confstr_def
      conf_complete_def show_int_delay)

text \<open>The configurations of a whole table are read back in their order.\<close>

definition conf_rows :: "groups \<Rightarrow> alarm_container \<Rightarrow> (string \<times> db_properties) list" where
  "conf_rows gs m = List.map (\<lambda>p. (fst p, conf_properties gs (snd p))) m"

lemma conf_rows_read:
  "\<forall>p\<in>set m. conf_writable gs (snd p) \<Longrightarrow>
   get_alarm_list_db (conf_rows gs m) r =
     (fst r @ List.map (\<lambda>p. confstr gs (snd p)) m,
      fold (\<lambda>p. map_insert (al_name (snd p)) (confstr gs (snd p))) m (snd r))"
  by (induction m arbitrary: r) (auto simp: conf_rows_def conf_round_trip)

subsection \<open>\<open>put_signal_property\<close>\<close>

text \<open>What is remembered as saved is what the database holds.\<close>

definition conf_synced :: "'v alarm_device \<Rightarrow> bool" where
  "conf_synced d \<longleftrightarrow> sorted_map (d_saved d) \<and> sorted_map (d_conf_db d) \<and>
     (\<forall>p\<in>set (d_saved d). map_option conf_line (map_of (d_conf_db d) (fst p)) = Some (snd p))"

lemma conf_synced_iff:
  "conf_synced d \<longleftrightarrow> sorted_map (d_saved d) \<and> sorted_map (d_conf_db d) \<and>
     (\<forall>k c. map_of (d_saved d) k = Some c \<longrightarrow> (\<exists>ps. map_of (d_conf_db d) k = Some ps \<and> conf_line ps = c))"
proof (cases "sorted_map (d_saved d)")
  case True
  then show ?thesis
    using sorted_ball [OF True, of "\<lambda>k c. \<exists>ps. map_of (d_conf_db d) k = Some ps \<and> conf_line ps = c"]
    by (simp add: conf_synced_def)
qed (simp add: conf_synced_def)

lemma map_of_put_conf: "sorted_map db \<Longrightarrow> map_of (put_conf k ps db) = (map_of db)(k \<mapsto> ps)"
  by (auto simp: put_conf_def map_of_modify map_of_insert_sorted fun_eq_iff)

lemma sorted_put_conf: "sorted_map db \<Longrightarrow> sorted_map (put_conf k ps db)"
  by (simp add: put_conf_def sorted_map_insert)

lemma save_one_frame [simp]:
  "d_groups (save_one p d) = d_groups d" "the_alarms (save_one p d) = the_alarms d"
  "d_alarms (save_one p d) = d_alarms d"
  by (simp_all add: save_one_def save_alarm_conf_db_def the_alarms_def Let_def split: option.split)

lemma save_one_effect:
  assumes "conf_synced d" "attr_name a = k" "conf_writable (d_groups d) a"
  shows "conf_synced (save_one (k, a) d)"
    and "map_of (d_saved (save_one (k, a) d)) = (map_of (d_saved d))(k \<mapsto> confstr (d_groups d) a)"
proof -
  have srt: "sorted_map (d_saved d)" "sorted_map (d_conf_db d)"
    and sy: "\<And>i c. map_of (d_saved d) i = Some c \<Longrightarrow> \<exists>ps. map_of (d_conf_db d) i = Some ps \<and> conf_line ps = c"
    using assms(1) by (simp_all add: conf_synced_iff)
  have "conf_synced (save_one (k, a) d) \<and>
      map_of (d_saved (save_one (k, a) d)) = (map_of (d_saved d))(k \<mapsto> confstr (d_groups d) a)"
    using srt sy conf_round_trip(1) [OF assms(3)] assms(2)
    by (cases "map_of (d_saved d) k")
      (auto simp: save_one_def save_alarm_conf_db_def conf_synced_iff map_of_put_conf sorted_put_conf
        sorted_map_insert map_of_insert_sorted map_of_modify Let_def fun_eq_iff)
  then show "conf_synced (save_one (k, a) d)"
    and "map_of (d_saved (save_one (k, a) d)) = (map_of (d_saved d))(k \<mapsto> confstr (d_groups d) a)"
    by simp_all
qed

lemma save_all:
  assumes "conf_synced d" "distinct (List.map fst m)"
    and "\<forall>p\<in>set m. attr_name (snd p) = fst p \<and> conf_writable (d_groups d) (snd p)"
  shows "conf_synced (fold save_one m d) \<and>
    map_of (d_saved (fold save_one m d)) k =
      (case map_of m k of None \<Rightarrow> map_of (d_saved d) k | Some a \<Rightarrow> Some (confstr (d_groups d) a)) \<and>
    the_alarms (fold save_one m d) = the_alarms d \<and> d_alarms (fold save_one m d) = d_alarms d"
  using assms
proof (induction m arbitrary: d)
  case Nil
  then show ?case by simp
next
  case (Cons p m)
  obtain i a where p: "p = (i, a)" by fastforce
  have a: "attr_name a = i" "conf_writable (d_groups d) a" using Cons.prems(3) p by simp_all
  note e = save_one_effect [OF Cons.prems(1) a]
  have "i \<notin> fst ` set m" using Cons.prems(2) p by simp
  then have "map_of m i = None" by (simp add: map_of_eq_None_iff)
  then show ?case
    using Cons.IH [OF e(1)] Cons.prems(2,3) e(2) p by (auto split: option.split)
qed

lemma forget_one_frame [simp]:
  "the_alarms (forget_one nm d) = the_alarms d" "d_alarms (forget_one nm d) = d_alarms d"
  by (simp_all add: forget_one_def delete_alarm_conf_db_def the_alarms_def Let_def)

lemma forget_one_effect:
  assumes "conf_synced d"
  shows "conf_synced (forget_one nm d)"
    and "map_of (d_saved (forget_one nm d)) k =
      (if k = nm \<and> find_alarm k d = None then None else map_of (d_saved d) k)"
  using assms
  by (auto simp: forget_one_def delete_alarm_conf_db_def conf_synced_iff sorted_map_erase map_of_erase
      at_exist_def find_alarm_def the_alarms_def Let_def split: if_splits)

lemma forget_all:
  assumes "conf_synced d"
  shows "conf_synced (fold forget_one nms d) \<and>
    map_of (d_saved (fold forget_one nms d)) k =
      (if k \<in> set nms \<and> find_alarm k d = None then None else map_of (d_saved d) k) \<and>
    the_alarms (fold forget_one nms d) = the_alarms d"
  using assms
proof (induction nms arbitrary: d)
  case Nil
  then show ?case by simp
next
  case (Cons nm nms)
  have "find_alarm k (forget_one nm d) = find_alarm k d" by (simp add: find_alarm_def)
  then show ?case
    using Cons.IH [OF forget_one_effect(1) [OF Cons.prems]] forget_one_effect(2) [OF Cons.prems, of nm k]
    by auto
qed

lemma put_property_effect:
  assumes ok: "dev_ok d" and sy: "conf_synced d"
    and wr: "\<forall>p\<in>set (the_alarms d). conf_writable (d_groups d) (snd p)"
  shows "conf_synced (put_signal_property_al d)"
    and "map_of (d_saved (put_signal_property_al d)) k = map_option (confstr (d_groups d)) (find_alarm k d)"
    and "d_alarm_list_prop (put_signal_property_al d) = List.map fst (the_alarms d)"
proof -
  let ?d1 = "fold save_one (the_alarms d) d"
  have t: "table_ok (the_alarms d)" using ok by (simp add: dev_ok_def parts_ok_def)
  then have dist: "distinct (List.map fst (the_alarms d))" by (simp add: table_ok_def sorted_map_distinct)
  have good: "\<forall>p\<in>set (the_alarms d). attr_name (snd p) = fst p \<and> conf_writable (d_groups d) (snd p)"
    using t wr by (auto simp: table_ok_def alarm_ok_def)
  note s = save_all [OF sy dist good]
  have sy1: "conf_synced ?d1" and a1: "the_alarms ?d1 = the_alarms d" using s by simp_all
  note f = forget_all [OF sy1, of "List.map fst (d_saved ?d1)"]
  have find1: "find_alarm k ?d1 = find_alarm k d" for k using a1 by (simp add: find_alarm_def)
  have none: "map_of (d_saved ?d1) k = None" if "k \<notin> set (List.map fst (d_saved ?d1))"
    using that by (simp add: map_of_eq_None_iff)
  show "conf_synced (put_signal_property_al d)"
    using f by (simp add: put_signal_property_al_def conf_synced_def Let_def)
  have "map_of (d_saved (fold forget_one (List.map fst (d_saved ?d1)) ?d1)) k =
      map_option (confstr (d_groups d)) (map_of (the_alarms d) k)"
    using f [of k] s [of k] none find1 [of k]
    by (cases "map_of (the_alarms d) k") (auto simp: find_alarm_def)
  then show "map_of (d_saved (put_signal_property_al d)) k = map_option (confstr (d_groups d)) (find_alarm k d)"
    by (simp add: put_signal_property_al_def find_alarm_def Let_def)
  show "d_alarm_list_prop (put_signal_property_al d) = List.map fst (the_alarms d)"
    by (simp add: put_signal_property_al_def Let_def)
qed

subsection \<open>Expansion of a formula\<close>

lemma find_sub_bound: "find_sub pat s = Some i \<Longrightarrow> i + length pat \<le> length s"
proof (induction s arbitrary: i)
  case Nil
  then show ?case by (simp split: if_splits)
next
  case (Cons c cs)
  show ?case
  proof (cases "take (length pat) (c # cs) = pat")
    case True
    then have "length pat \<le> length (c # cs)" by (metis length_take min.cobounded1)
    then show ?thesis using Cons.prems True by simp
  next
    case False
    then show ?thesis using Cons by auto
  qed
qed

text \<open>More fuel than the length of the string changes nothing.\<close>

lemma find_replace_fuel:
  "pat \<noteq> [] \<Longrightarrow> length s \<le> n \<Longrightarrow> find_replace n pat new s = find_replace (length s) pat new s"
proof (induction n arbitrary: s rule: less_induct)
  case (less n)
  have same: "find_replace n' pat new u = find_replace n'' pat new u"
    if "length u \<le> n'" "length u \<le> n''" "n' < n" "n'' < n" for u n' n''
    using less.IH [of n' u] less.IH [of n'' u] that less.prems(1) by simp
  show ?case
  proof (cases n)
    case 0
    then show ?thesis using less.prems by simp
  next
    case (Suc n')
    show ?thesis
    proof (cases s)
      case Nil
      then show ?thesis using less.prems(1) Suc by (simp add: str_find_def)
    next
      case (Cons c cs)
      show ?thesis
      proof (cases "str_find pat s 0")
        case None
        then show ?thesis using Suc Cons by simp
      next
        case (Some i)
        let ?u = "drop (i + length pat) s"
        have "length ?u \<le> n'" "length ?u \<le> length cs"
          using less.prems Suc Cons by (cases pat; simp)+
        moreover have "n' < n" "length cs < n" using Suc Cons less.prems(2) by simp_all
        ultimately have "find_replace n' pat new ?u = find_replace (length cs) pat new ?u"
          by (rule same)
        then show ?thesis using Suc Cons Some by simp
      qed
    qed
  qed
qed

end
