(* ===== verification/AlarmFormulaSpec.thy ===== *)
theory AlarmFormulaSpec
  imports AlarmFormula
begin

text \<open>
  What the evaluation of formulas promises: the order of the qualities that \<open>combine_quality\<close>
  computes the maximum of, the attributes that a formula reads, that it depends on nothing else, that
  it succeeds only when each of them has a value, and the quality of its result.
\<close>

declare eval_expression.simps [simp del]

named_theorems eval_defs
lemmas [eval_defs] = eval_expression.simps eval_then_def eval_fail_def leaf_def

subsection \<open>Qualities\<close>

definition quality_codes :: "int set" where
  "quality_codes = {ATTR_VALID, ATTR_INVALID, ATTR_ALARM, ATTR_CHANGING, ATTR_WARNING}"

text \<open>How bad a quality is.\<close>

definition quality_rank :: "int \<Rightarrow> nat" where
  "quality_rank q =
     (if q = ATTR_INVALID then 4 else if q = ATTR_ALARM then 3 else if q = ATTR_WARNING then 2
      else if q = ATTR_CHANGING then 1 else 0)"

lemma combine_quality_codes:
  "a \<in> quality_codes \<Longrightarrow> b \<in> quality_codes \<Longrightarrow> combine_quality a b \<in> quality_codes"
  by (auto simp: quality_codes_def combine_quality_def)

lemma rank_combine:
  "a \<in> quality_codes \<Longrightarrow> b \<in> quality_codes \<Longrightarrow>
   quality_rank (combine_quality a b) = max (quality_rank a) (quality_rank b)"
  by (auto simp: quality_codes_def combine_quality_def quality_rank_def)

lemma rank_valid: "quality_rank ATTR_VALID = 0"
  by (simp add: quality_rank_def)

lemma rank_inj:
  "a \<in> quality_codes \<Longrightarrow> b \<in> quality_codes \<Longrightarrow> quality_rank a = quality_rank b \<Longrightarrow> a = b"
  by (auto simp: quality_codes_def quality_rank_def split: if_splits)

subsection \<open>The attributes of a formula\<close>

fun reads :: "node \<Rightarrow> string list" where
  "reads (Node i t n ks) =
     (if i = nameID then [to_lower t] else []) @ concat (List.map reads ks)"

fun names_ok :: "node \<Rightarrow> bool" where
  "names_ok (Node i t n ks) \<longleftrightarrow> (i = nameID \<longrightarrow> ks = []) \<and> list_all names_ok ks"

lemma eval_node_events_ok:
  "(\<And>k ev. k \<in> set ks \<Longrightarrow> names_ok k \<Longrightarrow> eval_node_event k ev = (Inr (), ev @ reads k)) \<Longrightarrow>
   list_all names_ok ks \<Longrightarrow>
   eval_node_events ks ev = (Inr (), ev @ concat (List.map reads ks))"
  by (induction ks arbitrary: ev) auto

lemma eval_node_event_ok: "names_ok k \<Longrightarrow> eval_node_event k ev = (Inr (), ev @ reads k)"
  by (induction k arbitrary: ev) (auto simp: eval_node_events_ok)

lemma eval_node_events_bad:
  "(\<And>k ev. k \<in> set ks \<Longrightarrow> \<not> names_ok k \<Longrightarrow> \<exists>e. fst (eval_node_event k ev) = Inl e) \<Longrightarrow>
   \<not> list_all names_ok ks \<Longrightarrow> \<exists>e. fst (eval_node_events ks ev) = Inl e"
proof (induction ks arbitrary: ev)
  case Nil
  then show ?case by simp
next
  case (Cons k ks)
  show ?case
  proof (cases "names_ok k")
    case True
    then have "\<not> list_all names_ok ks" using Cons.prems(2) by simp
    then obtain e where "fst (eval_node_events ks (ev @ reads k)) = Inl e"
      using Cons.IH [of "ev @ reads k"] Cons.prems(1) by auto
    then show ?thesis using True by (simp add: eval_node_event_ok)
  next
    case False
    then obtain e where "fst (eval_node_event k ev) = Inl e" using Cons.prems(1) by fastforce
    then show ?thesis by (cases "eval_node_event k ev") simp
  qed
qed

lemma eval_node_event_bad: "\<not> names_ok k \<Longrightarrow> \<exists>e. fst (eval_node_event k ev) = Inl e"
proof (induction k arbitrary: ev)
  case (Node i t n ks)
  then show ?case by (auto intro: eval_node_events_bad)
qed

lemma find_event_formula_iff:
  "find_event_formula k [] = (Inr (), ns) \<longleftrightarrow> names_ok k \<and> ns = reads k"
proof (cases "names_ok k")
  case True
  then show ?thesis by (auto simp: find_event_formula_def eval_node_event_ok)
next
  case False
  then obtain e where "fst (eval_node_event k []) = Inl e" using eval_node_event_bad by blast
  then show ?thesis using False by (cases "eval_node_event k []") (simp add: find_event_formula_def)
qed

subsection \<open>Locality\<close>

text \<open>The record of an attribute, as the evaluation sees it.\<close>

definition event_named :: "string \<Rightarrow> 'v alm_event list \<Rightarrow> 'v alm_event option" where
  "event_named n es = map_option (\<lambda>i. es ! i) (find_event n es)"

lemma event_named_hit: "event_named n es = Some e \<Longrightarrow> e \<in> set es \<and> ev_name e = n"
  by (auto simp: event_named_def find_event_def dest: find_index_SomeD)

lemma eval_name_named:
  "eval_name d es t ev_ind s =
     (case event_named (to_lower t) es of
        None \<Rightarrow> eval_fail (ev_err (''in event: ('' @ t @ '') not found in event table'')) s
      | Some e \<Rightarrow> eval_name d [e\<lparr>ev_name := to_lower t\<rparr>] t ev_ind s)"
proof (cases "find_event (to_lower t) es")
  case None
  then show ?thesis by (simp add: eval_name_def event_named_def)
next
  case (Some i)
  then have "ev_name (es ! i) = to_lower t" using find_index_hit unfolding find_event_def by fastforce
  then have e: "(es ! i)\<lparr>ev_name := to_lower t\<rparr> = es ! i" by (metis (mono_tags) alm_event.surjective alm_event.update_convs(1))
  have "find_event (to_lower t) [(es ! i)\<lparr>ev_name := to_lower t\<rparr>] = Some 0"
    by (simp add: find_event_def)
  with Some show ?thesis by (simp add: eval_name_def event_named_def e)
qed

lemma eval_string_eq_named:
  "eval_string_eq d es op t str s =
     (case event_named (to_lower t) es of
        None \<Rightarrow> eval_fail (ev_err (''in event: ('' @ op @ '') not found in event table'')) s
      | Some e \<Rightarrow> eval_string_eq d [e\<lparr>ev_name := to_lower t\<rparr>] op t str s)"
proof (cases "find_event (to_lower t) es")
  case None
  then show ?thesis by (simp add: eval_string_eq_def event_named_def)
next
  case (Some i)
  then have "ev_name (es ! i) = to_lower t" using find_index_hit unfolding find_event_def by fastforce
  then have e: "(es ! i)\<lparr>ev_name := to_lower t\<rparr> = es ! i" by (metis (mono_tags) alm_event.surjective alm_event.update_convs(1))
  have "find_event (to_lower t) [(es ! i)\<lparr>ev_name := to_lower t\<rparr>] = Some 0"
    by (simp add: find_event_def)
  with Some show ?thesis by (simp add: eval_string_eq_def event_named_def e)
qed

text \<open>The shapes of the list of children that the evaluation distinguishes.\<close>

lemma kids_cases:
  obtains "ks = []" | a where "ks = [a]" | a b where "ks = [a, b]" | a b c where "ks = [a, b, c]"
  | a b c e r where "ks = a # b # c # e # r"
  by (metis neq_Nil_conv)

definition agree_on :: "string set \<Rightarrow> 'v alm_event list \<Rightarrow> 'v alm_event list \<Rightarrow> bool" where
  "agree_on N es es' \<longleftrightarrow> (\<forall>n\<in>N. event_named n es = event_named n es')"

lemma eval_locality:
  "agree_on (set (reads k)) es es' \<Longrightarrow> eval_expression d es k ev_ind s = eval_expression d es' k ev_ind s"
proof (induction k arbitrary: ev_ind s)
  case (Node i t n ks)
  have IH: "eval_expression d es k ev = eval_expression d es' k ev" if "k \<in> set ks" for k ev
  proof
    show "eval_expression d es k ev s' = eval_expression d es' k ev s'" for s'
      using Node.IH [OF that] Node.prems that by (auto simp: agree_on_def)
  qed
  have nm: "eval_name d es t ev s' = eval_name d es' t ev s'" if "i = nameID" for ev s'
    using Node.prems that by (subst (1 2) eval_name_named) (simp add: agree_on_def)
  have eq: "eval_string_eq d es op (text_of a) str s' = eval_string_eq d es' op (text_of a) str s'"
    if "a \<in> set ks" "node_of a = nameID" for a op str s'
  proof -
    have "to_lower (text_of a) \<in> set (reads a)" using that(2) by (cases a) simp
    then have "to_lower (text_of a) \<in> set (reads (Node i t n ks))" using that(1) by auto
    then show ?thesis using Node.prems by (subst (1 2) eval_string_eq_named) (simp add: agree_on_def)
  qed
  show ?case
  proof (cases ks rule: kids_cases)
    case 1
    then show ?thesis using nm by (cases i) (simp_all add: eval_defs)
  next
    case (2 a)
    then show ?thesis using IH [of a] nm by (cases i) (simp_all add: eval_expression.simps split: option.split)
  next
    case (3 a b)
    then show ?thesis using IH [of a] IH [of b] nm eq [of a]
      by (cases i) (simp_all add: eval_expression.simps split: option.split)
  next
    case (4 a b c)
    then show ?thesis using IH [of a] IH [of b] IH [of c] nm
      by (cases i) (simp_all add: eval_expression.simps cong: if_cong split: option.split)
  next
    case (5 a b c e r)
    then show ?thesis using nm by (cases i) (simp_all add: eval_expression.simps split: option.split)
  qed
qed


subsection \<open>Successful evaluations\<close>

text \<open>The trees that the grammar builds: the rules of tokens have no children.\<close>

definition token_ids :: "node_id set" where
  "token_ids = {val_rID, val_hID, val_stID, nameID, indexID, val_stringID, val_qualityID,
     val_alarm_enum_stID, propertyID}"

fun grammar_tree :: "node \<Rightarrow> bool" where
  "grammar_tree (Node i t n ks) \<longleftrightarrow> (i \<in> token_ids \<longrightarrow> ks = []) \<and> list_all grammar_tree ks"

text \<open>Without the conditional operator, which evaluates one of its branches only.\<close>

fun cond_free :: "node \<Rightarrow> bool" where
  "cond_free (Node i t n ks) \<longleftrightarrow> i \<noteq> cond_exprID \<and> list_all cond_free ks"

lemma grammar_names_ok: "grammar_tree k \<Longrightarrow> names_ok k"
  by (induction k) (auto simp: token_ids_def list_all_iff)

lemma token_reads: "grammar_tree k \<Longrightarrow> node_of k \<in> token_ids - {nameID} \<Longrightarrow> reads k = []"
  by (cases k) auto

lemma eval_then_Inr:
  "eval_then r k = (Inr y, s') \<longleftrightarrow> (\<exists>x s1. r = (Inr x, s1) \<and> k x s1 = (Inr y, s'))"
  by (auto simp: eval_then_def split: prod.splits sum.splits)

lemma eval_fail_Inr [simp]: "eval_fail e s \<noteq> (Inr r, s')"
  by (simp add: eval_fail_def)

lemma leaf_Inr: "leaf rule t ks v s = (Inr r, s') \<longleftrightarrow> ks = [] \<and> r = res_of v \<and> s' = s"
  by (auto simp: leaf_def)

lemma longs_op_Inr: "longs_op d oper e sh a b s = (Inr r, s') \<Longrightarrow> s' = s \<and> (\<exists>f. r = combine f a b)"
  by (auto simp: longs_op_def Let_def split: if_splits option.splits)

text \<open>An attribute that has a value.\<close>

definition readable :: "string \<Rightarrow> 'v alm_event list \<Rightarrow> bool" where
  "readable n es \<longleftrightarrow> (\<exists>e. event_named n es = Some e \<and> valid e \<and> \<not> not_initialized e)"

lemma eval_name_Inr:
  "eval_name d es t ev_ind s = (Inr r, s') \<Longrightarrow>
   \<exists>e v x. event_named (to_lower t) es = Some e \<and> valid e \<and> \<not> not_initialized e \<and>
     r = event_res e v \<and> s' = s @ x"
  by (auto simp: eval_name_def event_named_def Let_def split: if_splits option.splits)

lemma eval_string_eq_Inr:
  "eval_string_eq d es op nm str s = (Inr r, s') \<Longrightarrow>
   \<exists>e v x. event_named (to_lower nm) es = Some e \<and> valid e \<and> \<not> not_initialized e \<and>
     r = event_res e v \<and> s' = s @ x"
  by (auto simp: eval_string_eq_def event_named_def Let_def split: if_splits option.splits)

lemmas success_simps = eval_expression.simps eval_then_Inr leaf_Inr

lemma eval_success_cases:
  assumes ev: "eval_expression d es (Node i t n ks) ev_ind s = (Inr r, s')"
    and g: "grammar_tree (Node i t n ks)" and c: "i \<noteq> cond_exprID"
  obtains (const) v where "reads (Node i t n ks) = []" "r = res_of v" "s' = s"
  | (attribute) nm e v x where "reads (Node i t n ks) = [nm]" "event_named nm es = Some e"
      "valid e" "\<not> not_initialized e" "r = event_res e v" "s' = s @ x"
  | (unary) a i' r1 v where "a \<in> set ks" "reads (Node i t n ks) = reads a"
      "eval_expression d es a i' s = (Inr r1, s')" "r = r1\<lparr>fr_value := v\<rparr>"
  | (binary) a b r1 s1 r2 f where "ks = [a, b]" "reads (Node i t n ks) = reads a @ reads b"
      "eval_expression d es a 0 s = (Inr r1, s1)" "eval_expression d es b 0 s1 = (Inr r2, s')"
      "r = combine f r1 r2"
proof (cases ks rule: kids_cases)
  case 1
  show ?thesis
  proof (cases "i = nameID")
    case True
    then have "eval_name d es t ev_ind s = (Inr r, s')" using ev 1 by (simp add: success_simps)
    from eval_name_Inr [OF this] show ?thesis using attribute True 1 by fastforce
  next
    case False
    with ev 1 show ?thesis by (cases i) (auto simp: success_simps intro: const)
  qed
next
  case (2 a)
  have "i \<noteq> nameID" "i \<notin> token_ids" using g 2 by (auto simp: token_ids_def)
  with ev 2 show ?thesis
    by (cases i) (auto simp: success_simps token_ids_def split: option.splits intro!: unary [of a])
next
  case (3 a b)
  have i: "i \<noteq> nameID" "i \<notin> token_ids" using g 3 by (auto simp: token_ids_def)
  then have reads: "reads (Node i t n ks) = reads a @ reads b" using 3 by simp
  have gb: "grammar_tree a" "grammar_tree b" using g 3 by auto
  consider (e) "i = event_ID" | (q) "i = equality_exprID" | (o) "i \<noteq> event_ID" "i \<noteq> equality_exprID"
    by blast
  then show ?thesis
  proof cases
    case e
    have kb: "node_of b = indexID \<or> node_of b = propertyID" using ev 3 e
      by (auto simp: success_simps split: if_splits)
    then have rb: "reads b = []" using gb(2) by (intro token_reads) (auto simp: token_ids_def)
    show ?thesis
    proof (cases "node_of b = indexID")
      case True
      obtain t' n' where b: "b = Node indexID t' n' []" using True gb(2)
        by (cases b) (auto simp: token_ids_def)
      have "eval_expression d es a (d_to_int d (d_strtod d t')) s = (Inr r, s')"
        using ev 3 e b by (auto simp: success_simps res_of_def)
      then show ?thesis using 3 reads rb by (intro unary [of a _ r "fr_value r"]) auto
    next
      case False
      then show ?thesis using ev 3 e kb reads rb
        by (auto simp: success_simps intro!: unary [of a])
    qed
  next
    case q
    show ?thesis
    proof (cases "node_of a = nameID \<and> node_of b = val_stringID")
      case True
      then have "kids_of a = []" "kids_of b = []" "reads b = []" "reads a = [to_lower (text_of a)]"
        using gb by (cases a; cases b; auto simp: token_ids_def)+
      moreover have "eval_string_eq d es t (text_of a) (text_of b) s = (Inr r, s')"
        using ev 3 q True calculation by (simp add: success_simps)
      note eval_string_eq_Inr [OF this]
      ultimately show ?thesis using attribute reads by fastforce
    next
      case False
      from ev 3 q this obtain f r1 s1 r2 where
        "eval_expression d es a 0 s = (Inr r1, s1)" "eval_expression d es b 0 s1 = (Inr r2, s')"
        "r = combine f r1 r2"
        by (auto simp: success_simps split: option.splits if_splits)
      with 3 reads show ?thesis by (intro binary)
    qed
  next
    case o
    then show ?thesis using ev 3 i reads binary c
      by (cases i) (auto simp: success_simps token_ids_def split: option.splits dest!: longs_op_Inr)
  qed
next
  case (4 a b c)
  have "i \<notin> token_ids" using g 4 by auto
  with ev 4 c show ?thesis by (cases i) (auto simp: success_simps token_ids_def)
next
  case (5 a b c e r)
  have "i \<notin> token_ids" using g 5 by auto
  with ev 5 c show ?thesis by (cases i) (auto simp: success_simps token_ids_def)
qed


subsection \<open>What a result takes from the attributes\<close>

text \<open>
  A member of the result that the operators combine with an associative operation: the result of a
  formula has the combination of this member over the attributes it reads, from left to right.
\<close>

locale result_fold =
  fixes proj :: "'v formula_res \<Rightarrow> 'm" and oper :: "'m \<Rightarrow> 'm \<Rightarrow> 'm" and unit :: 'm
    and member :: "'v alm_event \<Rightarrow> 'm" and C :: "'m set"
  assumes unit_closed: "unit \<in> C"
    and closed: "a \<in> C \<Longrightarrow> b \<in> C \<Longrightarrow> oper a b \<in> C"
    and assoc: "a \<in> C \<Longrightarrow> b \<in> C \<Longrightarrow> c \<in> C \<Longrightarrow> oper (oper a b) c = oper a (oper b c)"
    and left_neutral: "a \<in> C \<Longrightarrow> oper unit a = a"
    and right_neutral: "a \<in> C \<Longrightarrow> oper a unit = a"
    and proj_const: "proj (res_of v) = unit"
    and proj_value: "proj (r\<lparr>fr_value := v\<rparr>) = proj r"
    and proj_event: "proj (event_res e v) = member e"
    and proj_combine: "proj (combine f r1 r2) = oper (proj r1) (proj r2)"
begin

definition total :: "'v alm_event list \<Rightarrow> string list \<Rightarrow> 'm" where
  "total es ns = foldr (\<lambda>n m. oper (member (the (event_named n es))) m) ns unit"

definition members_in :: "'v alm_event list \<Rightarrow> bool" where
  "members_in es \<longleftrightarrow> (\<forall>e\<in>set es. member e \<in> C)"

lemma total_simps [simp]:
  "total es [] = unit"
  "total es (n # ns) = oper (member (the (event_named n es))) (total es ns)"
  by (simp_all add: total_def)

lemma member_named: "members_in es \<Longrightarrow> event_named n es = Some e \<Longrightarrow> member e \<in> C"
  using event_named_hit [of n es e] by (simp add: members_in_def)

lemma total_closed:
  "members_in es \<Longrightarrow> \<forall>n\<in>set ns. event_named n es \<noteq> None \<Longrightarrow> total es ns \<in> C"
  by (induction ns) (auto simp: unit_closed intro!: closed member_named)

lemma total_append:
  "members_in es \<Longrightarrow> \<forall>n\<in>set (ns @ ms). event_named n es \<noteq> None \<Longrightarrow>
   total es (ns @ ms) = oper (total es ns) (total es ms)"
proof (induction ns)
  case Nil
  then show ?case using total_closed [of es ms] by (simp add: left_neutral)
next
  case (Cons n ns)
  then show ?case
    using assoc total_closed [of es ns] total_closed [of es ms] by (auto simp: member_named)
qed

lemma eval_total:
  assumes "members_in es"
  shows "grammar_tree k \<Longrightarrow> cond_free k \<Longrightarrow> eval_expression d es k ev_ind s = (Inr r, s') \<Longrightarrow>
    (\<forall>n\<in>set (reads k). readable n es) \<and> proj r = total es (reads k) \<and> (\<exists>x. s' = s @ x)"
proof (induction k arbitrary: ev_ind s r s')
  case (Node i t n ks)
  have sub: "grammar_tree k" "cond_free k" if "k \<in> set ks" for k
    using that Node.prems(1,2) by (auto simp: list_all_iff)
  have "i \<noteq> cond_exprID" using Node.prems(2) by simp
  from Node.prems(3,1) this show ?case
  proof (cases rule: eval_success_cases)
    case const
    then show ?thesis by (simp add: proj_const del: reads.simps)
  next
    case (attribute nm e v x)
    then have "proj r = oper (member e) unit"
      using right_neutral member_named [OF assms] by (simp add: proj_event)
    with attribute show ?thesis by (auto simp: readable_def simp del: reads.simps)
  next
    case (unary a i' r1 v)
    from Node.IH [OF unary(1) sub(1) [OF unary(1)] sub(2) [OF unary(1)] unary(3)] unary(2,4)
    show ?thesis by (simp add: proj_value del: reads.simps)
  next
    case (binary a b r1 s1 r2 f)
    have a: "a \<in> set ks" and b: "b \<in> set ks" using binary(1) by simp_all
    note A = Node.IH [OF a sub [OF a] binary(3)] and B = Node.IH [OF b sub [OF b] binary(4)]
    have "\<forall>n\<in>set (reads a @ reads b). event_named n es \<noteq> None"
      using A B by (auto simp: readable_def)
    then show ?thesis using A B assms
      by (auto simp: binary(2,5) proj_combine total_append simp del: reads.simps)
  qed
qed

end

interpretation quality_of: result_fold fr_quality combine_quality ATTR_VALID ev_quality quality_codes
  by unfold_locales
    (auto simp: quality_codes_def combine_quality_def res_of_def event_res_def combine_def)

interpretation reason_of: result_fold fr_reason combine_exception "[]" ev_reason UNIV
  by unfold_locales (auto simp: combine_exception_def res_of_def event_res_def combine_def)

interpretation desc_of: result_fold fr_desc combine_exception "[]" ev_desc UNIV
  by unfold_locales (auto simp: combine_exception_def res_of_def event_res_def combine_def)

interpretation origin_of: result_fold fr_origin combine_exception "[]" ev_origin UNIV
  by unfold_locales (auto simp: combine_exception_def res_of_def event_res_def combine_def)

lemma qualities_in: "quality_of.members_in es \<longleftrightarrow> (\<forall>e\<in>set es. ev_quality e \<in> quality_codes)"
  by (simp add: quality_of.members_in_def)

text \<open>The quality of a formula is the worst of its attributes.\<close>

lemma rank_total:
  assumes "quality_of.members_in es"
  shows "\<forall>n\<in>set ns. event_named n es \<noteq> None \<Longrightarrow>
    quality_rank (quality_of.total es ns) =
      foldr max (List.map (\<lambda>n. quality_rank (ev_quality (the (event_named n es)))) ns) 0"
proof (induction ns)
  case Nil
  then show ?case by (simp add: rank_valid)
next
  case (Cons n ns)
  then show ?case
    using rank_combine quality_of.member_named [OF assms] quality_of.total_closed [OF assms, of ns]
    by auto
qed

lemma combine_exception_simps [simp]:
  "combine_exception [] t = t"
  "t \<noteq> [] \<Longrightarrow> combine_exception t u = t"
  by (simp_all add: combine_exception_def)

lemma first_text:
  "desc_of.total es ns =
     (case find (\<lambda>t. t \<noteq> []) (List.map (\<lambda>n. ev_desc (the (event_named n es))) ns) of
        None \<Rightarrow> [] | Some t \<Rightarrow> t)"
proof (induction ns)
  case Nil
  then show ?case by simp
next
  case (Cons n ns)
  then show ?case by (cases "ev_desc (the (event_named n es)) = []") simp_all
qed

end
