(* ===== verification/AlarmExamples.thy ===== *)
theory AlarmExamples
  imports AlarmConfigSpec AlarmFormulaSpec
begin

text \<open>
  A small alarm device, evaluated: the concrete inputs of the witnesses of \<open>AlarmProps\<close>. The type
  \<open>double\<close> is instantiated by the integers.
\<close>

definition arith0 :: "int arith" where
  "arith0 = \<lparr>d_strtod = (\<lambda>t. if t = ''5'' then 5 else 0), d_of_int = (\<lambda>i. i), d_show = show_int,
     d_neg = uminus, d_add = (+), d_sub = (-), d_mul = (*), d_div = (div), d_eq = (=), d_lt = (<),
     d_le = (\<le>), d_pow = (\<lambda>a b. a ^ nat b), d_fabs = abs, d_cos = (\<lambda>x. 1), d_sin = (\<lambda>x. 0),
     d_to_int = (\<lambda>i. i), d_trunc_long = word_of_int, d_of_long = sint\<rparr>"

definition nm_temp :: string where "nm_temp = ''temp''"
definition ev_temp :: string where "ev_temp = ''a/b/c/d''"

text \<open>The formula \<open>(a/b/c/d > 5)\<close>.\<close>

definition tree0 :: node where
  "tree0 = Node compare_exprID ''>'' 0 [Node nameID ''A/b/c/D'' 0 [], Node val_rID ''5'' 0 []]"

definition parsed0 :: parsed where
  "parsed0 = \<lparr>pr_full = True, pr_stop = 0, pr_tree = tree0, pr_name = ''Temp'', pr_formula = ''f'',
     pr_on_delay = 0, pr_off_delay = 0, pr_lev = ''log'', pr_silent_time = 3, pr_grp = 0,
     pr_msg = ''hot'', pr_cmd_a = [], pr_cmd_n = [], pr_enabled = True\<rparr>"

definition time0 :: timeval where
  "time0 = \<lparr>tv_sec = 100, tv_usec = 0\<rparr>"

definition raw0 :: alarm where
  "raw0 = \<lparr>al_name = [], al_formula = [], attr_name = [], attr_value = NORM, al_quality = 0,
     ex_reason = [], ex_desc = [], ex_origin = [], al_ts = time0, stat = [], ack = [], enabled = True,
     shelved = False, on_counter = 0, off_counter = 0, freq_counter = 0, formula_tree = tree0,
     al_done = False, to_be_evaluated = False, msg = [], grp = 0, lev = [], s_event = [], is_new = 0,
     ts_on_delay = time0, on_delay = 0, ts_off_delay = time0, off_delay = 0, ts_time_silenced = time0,
     silent_time = 0, silenced = 0, attr_values = [], attr_values_delay = [], cmd_name_a = [],
     cmd_dp_a = [], cmd_action_a = [], send_arg_a = False, dp_a = None, cmd_name_n = [], cmd_dp_n = [],
     cmd_action_n = [], send_arg_n = False, dp_n = None\<rparr>"

definition blank0 :: "int alm_event" where
  "blank0 = \<lparr>ev_name = [], ev_devname = [], ev_attname = [], ev_value = [], value_string = [],
     ev_quality = 0, ev_reason = [], ev_desc = [], ev_origin = [], ev_ts = time0,
     ev_type = TYPE_GENERIC_ERR, err_counter = 0, m_alarm = [], valid = False, ev_first = False,
     ev_first_err = False, ev_attr = False, evstate = EvOn, ev_id = 0, isZMQ = False,
     ev_running = False, ev_paused = False, ev_stopped = False, okev = 0, okev_freq = 0, nokev = 0,
     nokev_freq = 0\<rparr>"

definition world0 :: "int alarm_world" where
  "world0 = \<lparr>aw_now = time0, aw_arith = arith0,
     aw_env = \<lparr>new_attr_proxy = (\<lambda>n. None), subscribe_event = (\<lambda>n. Inr (7, True))\<rparr>,
     aw_blank = blank0, aw_raw = raw0, aw_parse = (\<lambda>gs s. parsed0), aw_new_proxy = (\<lambda>n. None),
     aw_ping = (\<lambda>n. None), aw_command_query = (\<lambda>n c. Inr Arg_String), aw_localtime = (\<lambda>t. ''now'')\<rparr>"

definition bei0 :: "int bei" where
  "bei0 = \<lparr>bei_name = ev_temp, bei_value = [7], bei_value_string = [], bei_quality = 0, bei_reason = [],
     bei_desc = [], bei_origin = [], bei_type = ValueType DEV_DOUBLE, bei_ts = time0, bei_msg = []\<rparr>"

definition device0 :: "int alarm_device" where
  "device0 = \<lparr>d_alarms = \<lparr>v_alarm = [], cmd_list = [], startup_complete = time0\<rparr>,
     d_events = \<lparr>v_event = [], ev_action = 0, ev_initialized = False, stop_it = False,
       attr_AttributeNumber = 0, attr_AttributeStartedNumber = 0, attr_AttributePausedNumber = 0,
       attr_AttributeStoppedNumber = 0\<rparr>,
     d_alarmed = [], d_internal = [], d_internal_counter = 0, d_evlist = [],
     d_groups = [(''gr_all'', 0xffffffff), (''gr_none'', 0)], d_saved = [], d_conf_db = [],
     d_alarm_list_prop = [], d_lists = empty_lists [], d_published = []\<rparr>"

text \<open>The device after its start, with the alarm loaded, and after an event with the value 7.\<close>

definition device1 :: "int alarm_device" where
  "device1 = snd (init_device world0 bei0 [] device0)"

definition device2 :: "int alarm_device" where
  "device2 = snd (load world0 bei0 ''s'' device1)"

definition device3 :: "int alarm_device" where
  "device3 = do_alarm world0 bei0 device2"

lemma device1_goes_on: "goes_on (init_device world0 bei0 [] device0)"
  by code_simp

lemma device2_goes_on: "goes_on (load world0 bei0 ''s'' device1)"
  by code_simp

lemma device2_alarm: "map_option s_event (find_alarm nm_temp device2) = Some [ev_temp]"
  by code_simp

lemma device2_links: "links (d_events device2) = [(ev_temp, [nm_temp])]"
  by code_simp

lemma device2_state: "map_option stat (find_alarm nm_temp device2) = Some S_NORMAL"
  by code_simp

lemma device3_state: "map_option stat (find_alarm nm_temp device3) = Some S_ALARM"
  by code_simp

lemma device1_reachable: "reachable_alarm device1"
  unfolding device1_def
  by (rule reachable_alarm.start [OF _ device1_goes_on]) (simp add: blank_device_def device0_def the_alarms_def)

lemma device2_reachable: "reachable_alarm device2"
  unfolding device2_def
  by (rule reachable_alarm.step [OF device1_reachable alarm_step.load [OF device2_goes_on]])

text \<open>The same event through the callback and the rounds of the alarm thread.\<close>

definition tango0 :: "int tango_event" where
  "tango0 = \<lparr>te_err = False, te_attr_name = ev_temp, te_event = ''change'', te_error_desc = [],
     te_quality = 0, te_time = time0, te_type = DEV_DOUBLE, te_name = ''d'', te_payload = Numbers [7]\<rparr>"

definition device4 :: "int alarm_device" where
  "device4 = push_tango_event world0 bei0 tango0 device2"

fun thread_rounds :: "nat \<Rightarrow> thread_state \<times> int alarm_device \<Rightarrow> int alarm_device" where
  "thread_rounds 0 (th, d) = d"
| "thread_rounds (Suc n) (th, d) =
     (case alarm_thread_round world0 False (th, d) of
        None \<Rightarrow> d | Some (go, th', d') \<Rightarrow> thread_rounds n (th', d'))"

definition device5 :: "int alarm_device" where
  "device5 = thread_rounds 2 (\<lparr>th_to_eval = []\<rparr>, device4)"

lemma device4_reachable: "reachable_alarm device4"
  unfolding device4_def by (rule reachable_alarm.step [OF device2_reachable alarm_step.event])

lemma thread_rounds_reachable: "reachable_alarm d \<Longrightarrow> reachable_alarm (thread_rounds n (th, d))"
proof (induction n arbitrary: th d)
  case (Suc n)
  then show ?case
    using reachable_alarm.step [OF Suc.prems alarm_step.round]
    by (auto split: option.split)
qed simp

lemma device5_reachable: "reachable_alarm device5"
  unfolding device5_def by (rule thread_rounds_reachable [OF device4_reachable])

lemma device5_raised: "map_option to_show (find_alarm nm_temp device5) = Some True"
  by code_simp

text \<open>An event table with one value of a bad quality.\<close>

definition hot_event :: "int alm_event" where
  "hot_event = blank0\<lparr>ev_name := ev_temp, ev_value := [7], valid := True, ev_type := ValueType DEV_DOUBLE,
     ev_quality := ATTR_ALARM, ev_desc := ''sensor''\<rparr>"

lemma tree0_facts:
  "grammar_tree tree0" "cond_free tree0" "find_event_formula tree0 [] = (Inr (), [ev_temp])"
  "reads tree0 = [ev_temp]"
  by (code_simp, code_simp, code_simp, code_simp)

lemma hot_eval:
  "map_option fr_value (case fst (eval_formula arith0 [hot_event] tree0 ''{'') of Inl e \<Rightarrow> None | Inr r \<Rightarrow> Some r) =
   Some 1"
  by code_simp

lemma device2_writable: "\<forall>p\<in>set (the_alarms device2). conf_writable (d_groups device2) (snd p)"
  by code_simp

lemma device2_can_shelve:
  "map_option (can_shelve (aw_now world0)) (find_alarm nm_temp device2) = Some True"
  by code_simp

lemma device2_no_x: "find_alarm ''x'' device2 = None"
  by code_simp

lemma device2_shown: "\<not> shown_raised nm_temp device2"
  by code_simp

lemma device2_synced: "conf_synced device2"
  by code_simp

text \<open>A table with one alarm, an alarm whose silence time ends, and one with an on delay.\<close>

definition alarm0 :: alarm where
  "alarm0 = alarm_t_new raw0"

definition silenced0 :: alarm where
  "silenced0 = alarm0\<lparr>stat := S_ALARM, ack := NOT_ACK, silenced := 1, silent_time := 0\<rparr>"

definition delayed0 :: alarm where
  "delayed0 = alarm0\<lparr>on_delay := 5\<rparr>"

definition table0 :: "alarm \<Rightarrow> alarm_table" where
  "table0 a = \<lparr>v_alarm = [(nm_temp, a)], cmd_list = [], startup_complete = time0\<rparr>"

definition true0 :: outcome where
  "true0 = \<lparr>oc_on = True, oc_quality = 0, oc_reason = [], oc_desc = [], oc_origin = []\<rparr>"

definition eval0 :: eval_step where
  "eval0 = \<lparr>es_now = time0, es_ts = time0, es_outcome = true0, es_vals = []\<rparr>"

definition eval10 :: eval_step where
  "eval10 = eval0\<lparr>es_ts := \<lparr>tv_sec = 110, tv_usec = 0\<rparr>\<rparr>"

lemma table0_find [simp]: "map_of (v_alarm (table0 a)) nm_temp = Some a"
  by (simp add: table0_def)

lemma alarm0_facts:
  "alarm_typed alarm0" "life_of alarm0 = Normal" "on_status time0 (oc_on true0) alarm0"
  "\<not> off_status time0 (oc_on true0) alarm0" "\<not> silence_ends time0 alarm0"
  by (simp_all add: alarm0_def alarm_t_new_def raw0_def alarm_typed_def life_of_def on_status_def
      off_status_def silence_ends_def true0_def)

lemma silenced0_facts:
  "alarm_typed silenced0" "counters_exclusive silenced0" "\<not> timer_idle silenced0"
  "timer_life time0 silenced0 = Acknowledged"
  by (code_simp, code_simp, code_simp, code_simp)

lemma delayed0_facts:
  "on_counter delayed0 = 0" "on_delay delayed0 > 0" "stat (eval_run time0 [eval0] delayed0) = S_NORMAL"
  "stat (eval_run time0 ([eval0] @ [eval10]) delayed0) = S_ALARM" "on_delay delayed0 = 5"
  by (code_simp, code_simp, code_simp, code_simp, code_simp)

end
