(* ===== verification/AlarmProps.thy ===== *)
theory AlarmProps
  imports AlarmExamples
begin

text \<open>The properties of the alarm handler, with their witnesses.\<close>

subsection \<open>The device\<close>

text \<open>C28: in every state that the alarm device can reach the table of the alarms is sorted, each alarm stands
  under its own name, which is the name of its attribute, its status is normal or alarm, its
  acknowledgement is acknowledged or not, and one of its evaluation counters is zero; no event stands in
  the event table twice, and each event is either running or stopped.\<close>

theorem alarm_device_typed:
  assumes "reachable_alarm d"
  shows "sorted_map (the_alarms d) \<and>
    (\<forall>p\<in>set (the_alarms d). al_name (snd p) = fst p \<and> attr_name (snd p) = fst p \<and>
       stat (snd p) \<in> {S_NORMAL, S_ALARM} \<and> ack (snd p) \<in> {ACK, NOT_ACK} \<and>
       (on_counter (snd p) = 0 \<or> off_counter (snd p) = 0)) \<and>
    distinct (List.map ev_name (v_event (d_events d))) \<and>
    (\<forall>e\<in>set (v_event (d_events d)). ev_running e \<noteq> ev_stopped e \<and> \<not> ev_paused e)"
  using reachable_ok [OF assms]
  by (simp add: dev_ok_def parts_ok_def table_ok_def events_ok_def ok_defs mode_ok_def list_all_iff)

theorem alarm_device_typed_witness: "sorted_map (the_alarms device2)"
  using alarm_device_typed [OF device2_reachable] by blast

text \<open>C29: no alarm is left unmonitored: in every reachable state each event name that an alarm has collected
  from its formula is an event of the event table at which the alarm is registered, whatever alarms were
  loaded, modified and removed before.\<close>

theorem alarms_monitored:
  assumes "reachable_alarm d" "find_alarm nm d = Some a" "j \<in> set (s_event a)"
  shows "\<exists>e\<in>set (v_event (d_events d)). ev_name e = j \<and> nm \<in> set (m_alarm e)"
proof -
  have "monitors (links (d_events d)) j nm"
    using reachable_ok [OF assms(1)] assms(2,3) by (simp add: dev_ok_def parts_ok_iff find_alarm_def)
  then obtain ms where "map_of (links (d_events d)) j = Some ms" "nm \<in> set ms"
    by (auto simp: monitors_def split: option.splits)
  then show ?thesis using map_of_in_set by (fastforce simp: links_def)
qed

theorem alarms_monitored_witness: "ev_temp \<in> ev_name ` set (v_event (d_events device2))"
proof -
  obtain a where "find_alarm nm_temp device2 = Some a" "s_event a = [ev_temp]"
    using device2_alarm by (cases "find_alarm nm_temp device2") auto
  then have "\<exists>e\<in>set (v_event (d_events device2)). ev_name e = ev_temp \<and> nm_temp \<in> set (m_alarm e)"
    by (intro alarms_monitored [OF device2_reachable, of nm_temp a ev_temp]) simp_all
  then show ?thesis by (metis image_eqI)
qed



subsection \<open>The life of an alarm\<close>

text \<open>C31: an evaluation refines the state machine of an alarm (normal, unacknowledged, acknowledged, returned
  to normal): it raises the alarm exactly when the formula holds and the on delay has passed, clears it
  exactly when it does not hold and the off delay has passed, after the silence time that has ended has
  acknowledged it; it reports a change exactly when the status changes, and leaves the other alarms.\<close>

theorem update_refines_life:
  assumes "map_of (v_alarm t) nm = Some a" "alarm_typed a"
  shows "\<exists>b. map_of (v_alarm (snd (at_update now nm ts r vals gs m f t))) nm = Some b \<and>
      life_of b = life_step (stimulus_of (on_status ts (oc_on r) a) (off_status ts (oc_on r) a))
        (if silence_ends now a then life_step Confirm (life_of a) else life_of a) \<and>
      fst (at_update now nm ts r vals gs m f t) = Inr (stat b \<noteq> stat a) \<and>
      (\<forall>k. k \<noteq> nm \<longrightarrow> map_of (v_alarm (snd (at_update now nm ts r vals gs m f t))) k = map_of (v_alarm t) k)"
proof -
  let ?arg = "command_arg nm gs m vals f"
  obtain b cs ch where u: "update_one now (startup_complete t) ts r vals ?arg a = (b, cs, ch)"
    by (cases "update_one now (startup_complete t) ts r vals ?arg a")
  have "life_of b = life_step (stimulus_of (on_status ts (oc_on r) a) (off_status ts (oc_on r) a))
        (if silence_ends now a then life_step Confirm (life_of a) else life_of a)"
    using update_one_life [OF assms(2), of now "startup_complete t" ts r vals ?arg] u by simp
  moreover have "ch = (stat b \<noteq> stat a)"
    using update_one_reports [OF assms(2), of now "startup_complete t" ts r vals ?arg] u by simp
  ultimately show ?thesis using assms(1) u by (simp add: at_update_def map_of_modify)
qed

theorem update_refines_life_witness:
  "map_option life_of (map_of (v_alarm (snd (at_update time0 nm_temp time0 true0 [] [] [] [] (table0 alarm0)))) nm_temp) =
   Some Unacknowledged"
proof -
  obtain b where "map_of (v_alarm (snd (at_update time0 nm_temp time0 true0 [] [] [] [] (table0 alarm0)))) nm_temp = Some b"
      "life_of b = life_step (stimulus_of (on_status time0 (oc_on true0) alarm0) (off_status time0 (oc_on true0) alarm0))
        (if silence_ends time0 alarm0 then life_step Confirm (life_of alarm0) else life_of alarm0)"
    using update_refines_life [OF table0_find alarm0_facts(1), of time0 time0 true0 "[]" "[]" "[]" "[]"] by blast
  then show ?thesis by (simp add: alarm0_facts stimulus_of_def)
qed

text \<open>C32: the periodic update refines the same state machine for every alarm of the table: an alarm without
  delays, silence and shelving is left as it is; for the others the end of the silence time acknowledges
  the alarm, and a delay that has passed raises or clears it. The only transition outside the machine is
  that of a shelved alarm whose formula still holds when the shelving ends: it becomes unacknowledged.\<close>

theorem timer_refines_life:
  assumes "map_of (v_alarm t) nm = Some a" "alarm_typed a" "counters_exclusive a"
  shows "\<exists>b. map_of (v_alarm (snd (snd (at_timer_update now gs t)))) nm = Some b \<and>
      life_of b = (if timer_idle a then life_of a else timer_life now a)"
proof -
  have "v_alarm (snd (snd (at_timer_update now gs t))) =
      map_values (\<lambda>a. fst (timer_one now (startup_complete t) gs a)) (v_alarm t)"
    using timer_all_alarms [of now "startup_complete t" gs "v_alarm t"]
    by (simp add: at_timer_update_def split: prod.splits) (metis fst_conv)
  moreover have "life_of (fst (timer_one now (startup_complete t) gs a)) =
      (if timer_idle a then life_of a else timer_life now a)"
    using timer_one_life [OF assms(2,3)] by (simp add: timer_one_idle)
  ultimately show ?thesis using assms(1) by (simp add: map_of_values)
qed

theorem timer_refines_life_witness:
  "map_option life_of (map_of (v_alarm (snd (snd (at_timer_update time0 [] (table0 silenced0))))) nm_temp) =
   Some Acknowledged"
  using timer_refines_life [OF table0_find silenced0_facts(1,2), of time0 "[]"] silenced0_facts(3,4) by auto



end
