(* ===== verification/AlarmOpProps.thy ===== *)
theory AlarmOpProps
  imports AlarmExamples
begin

text \<open>
  The properties of the alarm formulas, of the published lists, of the commands of the operator and of
  the configuration in the database, with their witnesses.
\<close>

subsection \<open>Formulas\<close>

text \<open>the result of a formula takes the worst quality of the attributes it reads (invalid, then alarm,
  warning, changing, valid) and the first description of an exception that is not empty, in the order of
  the formula, whatever operators, functions and constants stand between them.\<close>

theorem formula_quality_worst:
  assumes "eval_formula d es k s = (Inr r, s')" "grammar_tree k" "cond_free k"
    and "\<forall>e\<in>set es. ev_quality e \<in> quality_codes"
  shows "quality_rank (fr_quality r) =
      foldr max (List.map (\<lambda>n. quality_rank (ev_quality (the (event_named n es)))) (reads k)) 0 \<and>
    fr_desc r =
      (case find (\<lambda>t. t \<noteq> []) (List.map (\<lambda>n. ev_desc (the (event_named n es))) (reads k)) of
         None \<Rightarrow> [] | Some t \<Rightarrow> t)"
proof -
  have ev: "eval_expression d es k 0 s = (Inr r, s')" using assms(1) by (simp add: eval_formula_def)
  have q: "quality_of.members_in es" using assms(4) by (simp add: qualities_in)
  have "\<forall>n\<in>set (reads k). event_named n es \<noteq> None"
    and "fr_quality r = quality_of.total es (reads k)"
    using quality_of.eval_total [OF q assms(2,3) ev] by (auto simp: readable_def)
  moreover have "fr_desc r = desc_of.total es (reads k)"
    using desc_of.eval_total [OF _ assms(2,3) ev] by (simp add: desc_of.members_in_def)
  ultimately show ?thesis using rank_total [OF q] by (simp add: first_text)
qed

theorem formula_quality_worst_witness:
  "\<exists>r. fst (eval_formula arith0 [hot_event] tree0 ''{'') = Inr r \<and>
     quality_rank (fr_quality r) = 3 \<and> fr_desc r = ''sensor''"
proof -
  obtain r s' where e: "eval_formula arith0 [hot_event] tree0 ''{'' = (Inr r, s')"
    using hot_eval by (cases "eval_formula arith0 [hot_event] tree0 ''{''") (auto split: sum.splits)
  have "\<forall>e\<in>set [hot_event]. ev_quality e \<in> quality_codes"
    by (simp add: hot_event_def quality_codes_def)
  from formula_quality_worst [OF e tree0_facts(1,2) this] show ?thesis using e
    by (simp add: tree0_facts event_named_def find_event_def hot_event_def quality_rank_def)
qed

text \<open>the events that \<open>find_event_formula\<close> collects when an alarm is loaded are all that its formula
  depends on: two event tables that agree on them give the same result, the same error and the same text
  of values, for every operator of the grammar.\<close>

theorem formula_locality:
  assumes "find_event_formula k [] = (Inr (), ns)"
    and "\<forall>n\<in>set ns. event_named n es = event_named n es'"
  shows "eval_formula d es k s = eval_formula d es' k s"
proof -
  have "agree_on (set (reads k)) es es'"
    using assms by (simp add: find_event_formula_iff agree_on_def)
  then show ?thesis unfolding eval_formula_def by (rule eval_locality)
qed

theorem formula_locality_witness:
  "eval_formula arith0 [hot_event] tree0 ''{'' = eval_formula arith0 [hot_event, blank0] tree0 ''{''"
  by (rule formula_locality [OF tree0_facts(3)])
    (simp add: event_named_def find_event_def hot_event_def ev_temp_def)

text \<open>a formula without the conditional operator has a result only when every event it collects stands
  in the event table with a valid value: a missing, invalid or not yet read attribute is always an
  error, never a silent default.\<close>

theorem formula_needs_all:
  assumes "eval_formula d es k s = (Inr r, s')" "grammar_tree k" "cond_free k"
    and "find_event_formula k [] = (Inr (), ns)"
  shows "\<forall>n\<in>set ns. \<exists>e\<in>set es. ev_name e = n \<and> valid e \<and> \<not> not_initialized e"
proof
  fix n
  assume "n \<in> set ns"
  then have "n \<in> set (reads k)" using assms(4) by (simp add: find_event_formula_iff)
  moreover have "eval_expression d es k 0 s = (Inr r, s')" using assms(1) by (simp add: eval_formula_def)
  ultimately have "readable n es"
    using desc_of.eval_total [of es, OF _ assms(2,3)] by (simp add: desc_of.members_in_def)
  then show "\<exists>e\<in>set es. ev_name e = n \<and> valid e \<and> \<not> not_initialized e"
    using event_named_hit by (fastforce simp: readable_def)
qed

theorem formula_needs_all_witness: "\<exists>e\<in>set [hot_event]. ev_name e = ev_temp \<and> valid e \<and> \<not> not_initialized e"
proof -
  obtain r s' where e: "eval_formula arith0 [hot_event] tree0 ''{'' = (Inr r, s')"
    using hot_eval by (cases "eval_formula arith0 [hot_event] tree0 ''{''") (auto split: sum.splits)
  from formula_needs_all [OF e tree0_facts(1-3)] show ?thesis by simp
qed

subsection \<open>Publication\<close>

text \<open>in every reachable state the published lists partition the alarms: each configured alarm stands in
  exactly one of the six lists by state (out of service, shelved, acknowledged, unacknowledged,
  unacknowledged normal, normal), exactly once, and the list of all alarms is the table.\<close>

theorem published_partition:
  assumes "reachable_alarm d" "l = d_lists (publish w q d)"
  shows "mset (List.map fst (the_alarms d)) =
      mset (outOfServiceAlarms l) + mset (shelvedAlarms l) + mset (acknowledgedAlarms l) +
      mset (unacknowledgedAlarms l) + mset (unacknowledgedNormalAlarms l) + mset (normalAlarms l) \<and>
    listAlarms l = List.map fst (the_alarms d) \<and> distinct (listAlarms l)"
  using lists_partition [OF reachable_ok [OF assms(1)] assms(2)] by simp

theorem published_partition_witness: "distinct (listAlarms (d_lists (publish world0 First_Summary device2)))"
  using published_partition [OF device2_reachable refl, of world0 First_Summary] by blast

text \<open>Every raised alarm in service is shown: after a publication its row carries the status and the
  acknowledgement of the table, whether it was shown before or not.\<close>

theorem raised_is_shown:
  assumes "reachable_alarm d" "find_alarm k d = Some a" "to_show a"
  shows "entry k (d_alarmed (publish w q d)) =
    Some (countdown (aw_now w) (case entry k (d_alarmed d) of None \<Rightarrow> a | Some e \<Rightarrow> refresh_raised a e))"
  by (rule raised_shown [OF reachable_ok [OF assms(1)] assms(2,3)])

theorem raised_is_shown_witness: "entry nm_temp (d_alarmed (publish world0 First_Summary device5)) \<noteq> None"
proof -
  obtain a where "find_alarm nm_temp device5 = Some a" "to_show a" using device5_raised by auto
  from raised_is_shown [OF device5_reachable this, of world0 First_Summary] show ?thesis by simp
qed

subsection \<open>Commands of the operator\<close>



text \<open>Removing a configured alarm succeeds and removes this alarm only, whatever its events are shared
  with; an alarm that is shown as raised and not acknowledged is not removed: the command fails and
  the device is unchanged.\<close>

theorem remove_keeps_others:
  assumes "reachable_alarm d" "find_alarm nm d \<noteq> None"
  shows "if shown_raised nm d then (\<exists>e. fst (remove w nm d) = Inl e) \<and> snd (remove w nm d) = d
    else fst (remove w nm d) = Inr () \<and>
      (\<forall>k. find_alarm k (snd (remove w nm d)) = (if k = nm then None else find_alarm k d))"
proof (cases "shown_raised nm d")
  case True
  then show ?thesis
    by (auto simp: remove_def shown_raised_def entry_def failed_def split: option.splits)
next
  case False
  then show ?thesis using remove_effect [OF reachable_ok [OF assms(1)] assms(2) False] by simp
qed

theorem remove_keeps_others_witness: "find_alarm nm_temp (snd (remove world0 nm_temp device2)) = None"
  using remove_keeps_others [OF device2_reachable, of nm_temp world0] device2_alarm device2_shown
  by (cases "find_alarm nm_temp device2") auto

subsection \<open>Configuration\<close>



text \<open>\<open>put_signal_property\<close> brings the database in line with the table: whatever was saved before, the
  configurations it remembers as saved are then exactly those of the alarms of the table, the database
  holds each of them, and the property with the list of the alarms is the list of the table.\<close>

theorem put_property_syncs:
  assumes "reachable_alarm d" "conf_synced d"
    and "\<forall>p\<in>set (the_alarms d). conf_writable (d_groups d) (snd p)"
  shows "(\<forall>k. map_of (d_saved (put_signal_property_al d)) k =
      map_option (confstr (d_groups d)) (find_alarm k d)) \<and>
    conf_synced (put_signal_property_al d) \<and>
    d_alarm_list_prop (put_signal_property_al d) = List.map fst (the_alarms d)"
  using put_property_effect [OF reachable_ok [OF assms(1)] assms(2,3)] by blast

theorem put_property_syncs_witness:
  "d_alarm_list_prop (put_signal_property_al device2) = List.map fst (the_alarms device2)"
  using put_property_syncs [OF device2_reachable device2_synced device2_writable] by blast

end
