(* ===== verification/LmcRules.thy ===== *)
theory LmcRules
  imports StdContainers Complex_Main "HOL-Library.Product_Lexorder"
begin

text \<open>
  The rules of the device state machines: the containers \<open>Set\<close>, \<open>MapSet\<close> and \<open>BiMapSet\<close> of
  \<open>src/src/utils/CodeUtils.h\<close> and the class \<open>RuleFactory\<close> of \<open>src/src/utils/TangoUtils.h\<close> that keeps
  the command rules, the transition rules, the read and write rules and the write actions.

  The containers erase the types of their elements; the code casts them back without a check
  (\<open>static_pointer_cast\<close>). The model keeps the type beside the elements: \<open>None\<close> is the undefined
  behaviour of a cast to another type. A \<open>double\<close> or \<open>float\<close> is a real number.
\<close>

subsection \<open>Values\<close>

datatype ctype = TFloat | TDouble | TLong | TShort | TString | TBool | TState

datatype scalar =
  VFloat real | VDouble real | VLong "32 word" | VShort "16 word" | VString string
| VBool bool | VState nat \<comment> \<open>the number of the \<open>Tango::DevState\<close>\<close>

primrec ctype_of :: "scalar \<Rightarrow> ctype" where
  "ctype_of (VFloat r) = TFloat"
| "ctype_of (VDouble r) = TDouble"
| "ctype_of (VLong w) = TLong"
| "ctype_of (VShort w) = TShort"
| "ctype_of (VString s) = TString"
| "ctype_of (VBool b) = TBool"
| "ctype_of (VState n) = TState"

text \<open>
  Keys of a \<open>std::map\<close> are compared with the order of their type; keys of one map have one type.
\<close>

primrec scalar_key :: "scalar \<Rightarrow> nat \<times> int \<times> real \<times> string" where
  "scalar_key (VFloat r) = (0, 0, r, [])"
| "scalar_key (VDouble r) = (1, 0, r, [])"
| "scalar_key (VLong w) = (2, sint w, 0, [])"
| "scalar_key (VShort w) = (3, sint w, 0, [])"
| "scalar_key (VString s) = (4, 0, 0, s)"
| "scalar_key (VBool b) = (5, if b then 1 else 0, 0, [])"
| "scalar_key (VState n) = (6, int n, 0, [])"

lemma scalar_key_inj: "scalar_key x = scalar_key y \<Longrightarrow> x = y"
  by (cases x; cases y) (auto split: if_splits dest: signed_word_eqI)

instantiation scalar :: linorder
begin

definition less_eq_scalar :: "scalar \<Rightarrow> scalar \<Rightarrow> bool" where
  "less_eq_scalar x y \<longleftrightarrow> scalar_key x \<le> scalar_key y"

definition less_scalar :: "scalar \<Rightarrow> scalar \<Rightarrow> bool" where
  "less_scalar x y \<longleftrightarrow> scalar_key x < scalar_key y"

instance
proof
  fix x y z :: scalar
  show "x < y \<longleftrightarrow> x \<le> y \<and> \<not> y \<le> x"
    unfolding less_eq_scalar_def less_scalar_def by (rule less_le_not_le)
  show "x \<le> x" by (simp add: less_eq_scalar_def)
  show "x \<le> y \<Longrightarrow> y \<le> z \<Longrightarrow> x \<le> z"
    unfolding less_eq_scalar_def by (rule order_trans)
  show "x \<le> y \<Longrightarrow> y \<le> x \<Longrightarrow> x = y"
    unfolding less_eq_scalar_def by (rule scalar_key_inj) (rule antisym)
  show "x \<le> y \<or> y \<le> x" unfolding less_eq_scalar_def by (rule linear)
qed

end

lemma VString_less [simp]: "VString s < VString t \<longleftrightarrow> s < t"
  by (simp add: less_scalar_def)

subsection \<open>The containers\<close>

text \<open>A \<open>Set<K>\<close>: the element type and the elements in the order given.\<close>

datatype rule_set = RuleSet (elem_type: ctype) (elems: "scalar list")

definition HasValueInSet :: "ctype \<Rightarrow> scalar \<Rightarrow> rule_set \<Rightarrow> bool option" where
  "HasValueInSet K v rs = (if elem_type rs = K then Some (v \<in> set (elems rs)) else None)"

text \<open>A \<open>MapSet<T>\<close>: the type of the keys and the map. \<open>std::map::insert\<close> keeps what is there.\<close>

datatype map_set = MapSet (key_type: ctype) (entries: "(scalar \<times> rule_set) list")

definition MapSet_Add :: "scalar \<Rightarrow> rule_set \<Rightarrow> map_set \<Rightarrow> map_set" where
  "MapSet_Add key rs ms = MapSet (key_type ms) (map_insert key rs (entries ms))"

definition MapSet_HasValueInSet :: "ctype \<Rightarrow> scalar \<Rightarrow> scalar \<Rightarrow> map_set \<Rightarrow> bool option" where
  "MapSet_HasValueInSet K key v ms =
     (case map_of (entries ms) key of None \<Rightarrow> Some False | Some rs \<Rightarrow> HasValueInSet K v rs)"

definition MapSet_HasAllowedValueInSet :: "ctype \<Rightarrow> scalar \<Rightarrow> scalar \<Rightarrow> map_set \<Rightarrow> bool option" where
  "MapSet_HasAllowedValueInSet K key v ms =
     (case map_of (entries ms) key of None \<Rightarrow> Some True | Some rs \<Rightarrow> HasValueInSet K v rs)"

text \<open>\<open>GetSetValues\<close>: \<open>Some None\<close> is the result -1, a key that is not there.\<close>

definition MapSet_GetSetValues :: "ctype \<Rightarrow> scalar \<Rightarrow> map_set \<Rightarrow> scalar list option option" where
  "MapSet_GetSetValues K key ms =
     (case map_of (entries ms) key of
        None \<Rightarrow> Some None
      | Some rs \<Rightarrow> if elem_type rs = K then Some (Some (elems rs)) else None)"

definition MapSet_GetKeys :: "map_set \<Rightarrow> scalar list" where
  "MapSet_GetKeys ms = List.map fst (entries ms)"

text \<open>A \<open>BiMapSet<std::string>\<close>: maps of the second level by the first key.\<close>

type_synonym bi_map_set = "(string \<times> map_set) list"

definition BiMapSet_Add ::
    "ctype \<Rightarrow> string \<Rightarrow> scalar \<Rightarrow> rule_set \<Rightarrow> bi_map_set \<Rightarrow> bi_map_set option" where
  "BiMapSet_Add K key key2 rs m =
     (case map_of m key of
        Some item \<Rightarrow>
          if key_type item = K then Some (map_modify key (MapSet_Add key2 rs) m) else None
      | None \<Rightarrow> Some (map_insert key (MapSet_Add key2 rs (MapSet K [])) m))"

definition BiMapSet_HasValueInSet ::
    "ctype \<Rightarrow> ctype \<Rightarrow> string \<Rightarrow> scalar \<Rightarrow> scalar \<Rightarrow> bi_map_set \<Rightarrow> bool option" where
  "BiMapSet_HasValueInSet K S key key2 v m =
     (case map_of m key of
        None \<Rightarrow> Some False
      | Some item \<Rightarrow> if key_type item = K then MapSet_HasValueInSet S key2 v item else None)"

definition BiMapSet_HasAllowedValueInSet ::
    "ctype \<Rightarrow> ctype \<Rightarrow> string \<Rightarrow> scalar \<Rightarrow> scalar \<Rightarrow> bi_map_set \<Rightarrow> bool option" where
  "BiMapSet_HasAllowedValueInSet K S key key2 v m =
     (case map_of m key of
        None \<Rightarrow> Some True
      | Some item \<Rightarrow> if key_type item = K then MapSet_HasAllowedValueInSet S key2 v item else None)"

definition BiMapSet_Get2ndKeyList :: "ctype \<Rightarrow> string \<Rightarrow> bi_map_set \<Rightarrow> scalar list option option" where
  "BiMapSet_Get2ndKeyList K key m =
     (case map_of m key of
        None \<Rightarrow> Some None
      | Some item \<Rightarrow> if key_type item = K then Some (Some (MapSet_GetKeys item)) else None)"

subsection \<open>The rules\<close>

text \<open>
  \<open>RuleFactory\<close>. Its maps are static members: one set of rules for all devices of the process.
  \<open>Instance()\<close> creates the maps, so their pointers are not null when they are used.
\<close>

record rule_factory =
  cmdRules :: bi_map_set
  attrRules :: bi_map_set
  attrReadRules :: bi_map_set
  attrWriteRules :: bi_map_set
  attrWritePreAction :: map_set
  attrWritePostAction :: map_set

definition RuleFactory_Instance :: rule_factory where
  "RuleFactory_Instance =
     \<lparr>cmdRules = [], attrRules = [], attrReadRules = [], attrWriteRules = [],
      attrWritePreAction = MapSet TString [], attrWritePostAction = MapSet TString []\<rparr>"

definition AddCmdRule_factory ::
    "ctype \<Rightarrow> string \<Rightarrow> string \<Rightarrow> scalar list \<Rightarrow> rule_factory \<Rightarrow> rule_factory option" where
  "AddCmdRule_factory T cmd_name attr_name attr_values r =
     map_option (\<lambda>m. r\<lparr>cmdRules := m\<rparr>)
       (BiMapSet_Add TString cmd_name (VString attr_name) (RuleSet T attr_values) (cmdRules r))"

definition AddAttrReadRule_factory ::
    "ctype \<Rightarrow> string \<Rightarrow> string \<Rightarrow> scalar list \<Rightarrow> rule_factory \<Rightarrow> rule_factory option" where
  "AddAttrReadRule_factory T attr_name sm_attr_name sm_attr_values r =
     map_option (\<lambda>m. r\<lparr>attrReadRules := m\<rparr>)
       (BiMapSet_Add TString attr_name (VString sm_attr_name) (RuleSet T sm_attr_values)
          (attrReadRules r))"

definition AddAttrWriteRule_factory ::
    "ctype \<Rightarrow> string \<Rightarrow> string \<Rightarrow> scalar list \<Rightarrow> rule_factory \<Rightarrow> rule_factory option" where
  "AddAttrWriteRule_factory T attr_name sm_attr_name sm_attr_values r =
     map_option (\<lambda>m. r\<lparr>attrWriteRules := m\<rparr>)
       (BiMapSet_Add TString attr_name (VString sm_attr_name) (RuleSet T sm_attr_values)
          (attrWriteRules r))"

definition AddAttrRule_factory ::
    "ctype \<Rightarrow> string \<Rightarrow> scalar \<Rightarrow> scalar list \<Rightarrow> rule_factory \<Rightarrow> rule_factory option" where
  "AddAttrRule_factory T attr_name attr_key attr_values r =
     map_option (\<lambda>m. r\<lparr>attrRules := m\<rparr>)
       (BiMapSet_Add T attr_name attr_key (RuleSet T attr_values) (attrRules r))"

definition AddAttrWritePreAction :: "string \<Rightarrow> string list \<Rightarrow> rule_factory \<Rightarrow> rule_factory" where
  "AddAttrWritePreAction attr_name cmd_names r =
     r\<lparr>attrWritePreAction := MapSet_Add (VString attr_name)
         (RuleSet TString (List.map VString cmd_names)) (attrWritePreAction r)\<rparr>"

definition AddAttrWritePostAction :: "string \<Rightarrow> string list \<Rightarrow> rule_factory \<Rightarrow> rule_factory" where
  "AddAttrWritePostAction attr_name cmd_names r =
     r\<lparr>attrWritePostAction := MapSet_Add (VString attr_name)
         (RuleSet TString (List.map VString cmd_names)) (attrWritePostAction r)\<rparr>"

definition IsCmdAllowed_factory :: "ctype \<Rightarrow> string \<Rightarrow> string \<Rightarrow> scalar \<Rightarrow> rule_factory \<Rightarrow> bool option" where
  "IsCmdAllowed_factory T cmd_name attr_name attr_value r =
     BiMapSet_HasAllowedValueInSet TString T cmd_name (VString attr_name) attr_value (cmdRules r)"

definition IsAttrReadAllowed_factory ::
    "ctype \<Rightarrow> string \<Rightarrow> string \<Rightarrow> scalar \<Rightarrow> rule_factory \<Rightarrow> bool option" where
  "IsAttrReadAllowed_factory T attr_name sm_attr_name v r =
     BiMapSet_HasAllowedValueInSet TString T attr_name (VString sm_attr_name) v (attrReadRules r)"

definition IsAttrWriteAllowed_factory ::
    "ctype \<Rightarrow> string \<Rightarrow> string \<Rightarrow> scalar \<Rightarrow> rule_factory \<Rightarrow> bool option" where
  "IsAttrWriteAllowed_factory T attr_name sm_attr_name v r =
     BiMapSet_HasAllowedValueInSet TString T attr_name (VString sm_attr_name) v (attrWriteRules r)"

text \<open>A transition is allowed unless there is a rule for the current value that excludes it.\<close>

definition IsAttrAllowed_factory ::
    "ctype \<Rightarrow> string \<Rightarrow> scalar \<Rightarrow> scalar \<Rightarrow> rule_factory \<Rightarrow> bool option" where
  "IsAttrAllowed_factory T attr_name attr_key attr_value r =
     BiMapSet_HasAllowedValueInSet T T attr_name attr_key attr_value (attrRules r)"

definition GetAttrsInCmdRules :: "string \<Rightarrow> rule_factory \<Rightarrow> scalar list option option" where
  "GetAttrsInCmdRules cmd_name r = BiMapSet_Get2ndKeyList TString cmd_name (cmdRules r)"

definition GetSMAttrsInAttrReadRules :: "string \<Rightarrow> rule_factory \<Rightarrow> scalar list option option" where
  "GetSMAttrsInAttrReadRules attr_name r = BiMapSet_Get2ndKeyList TString attr_name (attrReadRules r)"

definition GetSMAttrsInAttrWriteRules :: "string \<Rightarrow> rule_factory \<Rightarrow> scalar list option option" where
  "GetSMAttrsInAttrWriteRules attr_name r =
     BiMapSet_Get2ndKeyList TString attr_name (attrWriteRules r)"

definition GetAttrWritePreActions :: "string \<Rightarrow> rule_factory \<Rightarrow> scalar list option option" where
  "GetAttrWritePreActions attr_name r =
     MapSet_GetSetValues TString (VString attr_name) (attrWritePreAction r)"

definition GetAttrWritePostActions :: "string \<Rightarrow> rule_factory \<Rightarrow> scalar list option option" where
  "GetAttrWritePostActions attr_name r =
     MapSet_GetSetValues TString (VString attr_name) (attrWritePostAction r)"

end
