(* ===== verification/LmcDevice.thy ===== *)
theory LmcDevice
  imports LmcRules HdbNames
begin

text \<open>
  The part of \<open>LMCDevice\<close>, the common base of the devices, that holds the dynamic attributes and
  checks the rules: \<open>src/src/devices/core/LMCDevice/LMCDevice.cpp\<close>, \<open>LMCDevice.tpp\<close> and the
  functions of \<open>src/src/utils/TangoUtils.cc\<close>, \<open>TangoUtils.tpp\<close> that register rules and convert the
  labels of enumerated attributes.

  The attributes of the device and the data that the attribute manager keeps for them are one
  table; names are looked up as they are spelled. Attributes are Tango's; what can fail in Tango
  when a written value is recorded (\<open>WAttribute\<close>, the memorized value in the database) is the
  argument \<open>w_ok\<close>. Events are not emitted (the default of the parameter, which the callers here
  use). An access through a pointer that a \<open>dynamic_cast\<close> made null is undefined behaviour.
\<close>

subsection \<open>Attributes\<close>

datatype data_type =
  DEV_FLOAT | DEV_DOUBLE | DEV_LONG | DEV_SHORT | DEV_ENUM | DEV_STRING | DEV_BOOLEAN | DEV_STATE
| DEV_OTHER \<comment> \<open>a type the rules do not support\<close>

record dyn_attr =
  at_type :: data_type
  at_scalar :: bool \<comment> \<open>\<open>SCALAR\<close> or \<open>SPECTRUM\<close>\<close>
  at_max_dim :: nat \<comment> \<open>\<open>get_max_dim_x()\<close>\<close>
  at_labels :: "string list"
  at_written :: bool \<comment> \<open>\<open>is_writ_associated()\<close>\<close>
  at_value :: scalar
  at_spectrum :: "scalar list"

record lmc_device =
  dyn_attrs :: "(string \<times> dyn_attr) list"
  dev_commands :: "string list"
  rules :: rule_factory

datatype 'a access =
  Got 'a | Failing \<comment> \<open>the result -1 or an exception\<close> | Undefined_Access

definition access_of :: "'a option \<Rightarrow> 'a access" where
  "access_of r = (case r of None \<Rightarrow> Undefined_Access | Some x \<Rightarrow> Got x)"

text \<open>
  \<open>GetDynAttrValue<T>\<close> for scalars. The version for \<open>DevShort\<close> accepts enumerated attributes only
  and checks the pointer; the others do not.
\<close>

definition GetDynAttrValue :: "ctype \<Rightarrow> string \<Rightarrow> 'z lmc_device_scheme \<Rightarrow> scalar access" where
  "GetDynAttrValue T attr_name d =
     (case map_of (dyn_attrs d) attr_name of
        None \<Rightarrow> Failing
      | Some a \<Rightarrow>
          if \<not> at_scalar a then Failing
          else if T = TShort \<and> at_type a \<noteq> DEV_ENUM then Failing
          else if ctype_of (at_value a) = T then Got (at_value a)
          else if T = TShort then Failing
          else Undefined_Access)"

definition GetDynAttrValue_spectrum :: "ctype \<Rightarrow> string \<Rightarrow> 'z lmc_device_scheme \<Rightarrow> scalar list access" where
  "GetDynAttrValue_spectrum T attr_name d =
     (case map_of (dyn_attrs d) attr_name of
        None \<Rightarrow> Failing
      | Some a \<Rightarrow>
          if at_scalar a then Failing
          else if list_all (\<lambda>v. ctype_of v = T) (at_spectrum a) then Got (at_spectrum a)
          else Undefined_Access)"

text \<open>Labels: \<open>None\<close> is the result -1; the label is then empty, the value is -1.\<close>

definition GetEnumAttrLabelValue :: "string \<Rightarrow> 16 word \<Rightarrow> 'z lmc_device_scheme \<Rightarrow> string option" where
  "GetEnumAttrLabelValue attr_name enumValue d =
     (case map_of (dyn_attrs d) attr_name of
        None \<Rightarrow> None
      | Some a \<Rightarrow>
          if at_type a \<noteq> DEV_ENUM then None
          else if at_labels a = [] then None
          else if sint enumValue < 0 \<or> sint enumValue > int (length (at_labels a)) - 1 then None
          else Some (at_labels a ! nat (sint enumValue)))"

definition label_string :: "string \<Rightarrow> 16 word \<Rightarrow> 'z lmc_device_scheme \<Rightarrow> string" where
  "label_string attr_name enumValue d =
     (case GetEnumAttrLabelValue attr_name enumValue d of None \<Rightarrow> [] | Some s \<Rightarrow> s)"

definition GetEnumAttrValue :: "string \<Rightarrow> string \<Rightarrow> 'z lmc_device_scheme \<Rightarrow> 16 word option" where
  "GetEnumAttrValue attr_name enumLabel d =
     (case map_of (dyn_attrs d) attr_name of
        None \<Rightarrow> None
      | Some a \<Rightarrow>
          if at_type a \<noteq> DEV_ENUM then None
          else if at_labels a = [] then None
          else map_option of_nat (find_index (\<lambda>l. l = enumLabel) (at_labels a)))"

definition enum_value :: "string \<Rightarrow> string \<Rightarrow> 'z lmc_device_scheme \<Rightarrow> 16 word" where
  "enum_value attr_name enumLabel d =
     (case GetEnumAttrValue attr_name enumLabel d of None \<Rightarrow> -1 | Some v \<Rightarrow> v)"

subsection \<open>Setting a value\<close>

definition set_value :: "string \<Rightarrow> scalar \<Rightarrow> 'z lmc_device_scheme \<Rightarrow> 'z lmc_device_scheme" where
  "set_value attr_name v d =
     d\<lparr>dyn_attrs := map_modify attr_name (at_value_update (\<lambda>_. v)) (dyn_attrs d)\<rparr>"

definition SetDynAttrValueInManager ::
    "scalar \<Rightarrow> string \<Rightarrow> 'z lmc_device_scheme \<Rightarrow> 'z lmc_device_scheme access" where
  "SetDynAttrValueInManager v attr_name d =
     (case map_of (dyn_attrs d) attr_name of
        None \<Rightarrow> Failing
      | Some a \<Rightarrow>
          (case v of
             VShort w \<Rightarrow>
               if at_labels a \<noteq> [] \<and> (sint w < 0 \<or> sint w \<ge> int (length (at_labels a))) then Failing
               else if ctype_of (at_value a) = TShort then Got (set_value attr_name v d)
               else Undefined_Access
           | _ \<Rightarrow> if ctype_of (at_value a) = ctype_of v then Got (set_value attr_name v d)
                 else Undefined_Access))"

definition SetDynAttrValue ::
    "(string \<Rightarrow> scalar \<Rightarrow> bool) \<Rightarrow> scalar \<Rightarrow> string \<Rightarrow> 'z lmc_device_scheme
     \<Rightarrow> unit access \<times> 'z lmc_device_scheme" where
  "SetDynAttrValue w_ok v attr_name d =
     (case map_of (dyn_attrs d) attr_name of
        None \<Rightarrow> (Failing, d)
      | Some a \<Rightarrow>
          if \<not> at_scalar a then (Failing, d)
          else
            (case SetDynAttrValueInManager v attr_name d of
               Failing \<Rightarrow> (Failing, d)
             | Undefined_Access \<Rightarrow> (Undefined_Access, d)
             | Got d1 \<Rightarrow> if at_written a \<and> \<not> w_ok attr_name v then (Failing, d1) else (Got (), d1)))"

text \<open>
  The versions for a spectrum of strings: more values than the attribute can hold are refused, an
  enumeration is not involved. \<open>wlist_ok\<close> tells whether Tango records the written values.
\<close>

definition set_spectrum :: "string \<Rightarrow> scalar list \<Rightarrow> 'z lmc_device_scheme \<Rightarrow> 'z lmc_device_scheme" where
  "set_spectrum attr_name vs d =
     d\<lparr>dyn_attrs := map_modify attr_name (at_spectrum_update (\<lambda>_. vs)) (dyn_attrs d)\<rparr>"

definition SetDynAttrValueInManager_strings ::
    "string list \<Rightarrow> string \<Rightarrow> 'z lmc_device_scheme \<Rightarrow> 'z lmc_device_scheme access" where
  "SetDynAttrValueInManager_strings vs attr_name d =
     (case map_of (dyn_attrs d) attr_name of
        None \<Rightarrow> Failing
      | Some a \<Rightarrow>
          if at_type a = DEV_STRING then Got (set_spectrum attr_name (List.map VString vs) d)
          else Undefined_Access)"

definition SetDynAttrValue_strings ::
    "(string \<Rightarrow> string list \<Rightarrow> bool) \<Rightarrow> string list \<Rightarrow> string \<Rightarrow> 'z lmc_device_scheme
     \<Rightarrow> unit access \<times> 'z lmc_device_scheme" where
  "SetDynAttrValue_strings wlist_ok vs attr_name d =
     (case map_of (dyn_attrs d) attr_name of
        None \<Rightarrow> (Failing, d)
      | Some a \<Rightarrow>
          if at_scalar a then (Failing, d)
          else if length vs > at_max_dim a then (Failing, d)
          else
            (case SetDynAttrValueInManager_strings vs attr_name d of
               Failing \<Rightarrow> (Failing, d)
             | Undefined_Access \<Rightarrow> (Undefined_Access, d)
             | Got d1 \<Rightarrow> if at_written a \<and> \<not> wlist_ok attr_name vs then (Failing, d1) else (Got (), d1)))"

text \<open>\<open>IsAttrAllowed\<close>: is the transition allowed? Enumerated values are compared by their labels.\<close>

definition IsAttrAllowed :: "string \<Rightarrow> scalar \<Rightarrow> scalar \<Rightarrow> 'z lmc_device_scheme \<Rightarrow> bool option" where
  "IsAttrAllowed attr_name cur new d =
     (case (cur, new) of
        (VShort c, VShort n) \<Rightarrow>
          (case map_of (dyn_attrs d) attr_name of
             None \<Rightarrow> Some False
           | Some a \<Rightarrow>
               if \<not> at_scalar a then Some False
               else if at_type a = DEV_ENUM then
                 (case (GetEnumAttrLabelValue attr_name c d, GetEnumAttrLabelValue attr_name n d) of
                    (Some cs, Some ns) \<Rightarrow>
                      IsAttrAllowed_factory TString attr_name (VString cs) (VString ns) (rules d)
                  | _ \<Rightarrow> Some False)
               else IsAttrAllowed_factory TShort attr_name cur new (rules d))
      | _ \<Rightarrow> IsAttrAllowed_factory (ctype_of new) attr_name cur new (rules d))"

text \<open>\<open>SetSMDynAttrValue\<close> without a fallback value: in case of failure the old value is set again.\<close>

definition SetSMDynAttrValue ::
    "(string \<Rightarrow> scalar \<Rightarrow> bool) \<Rightarrow> scalar \<Rightarrow> string \<Rightarrow> 'z lmc_device_scheme
     \<Rightarrow> unit access \<times> 'z lmc_device_scheme" where
  "SetSMDynAttrValue w_ok v attr_name d =
     (case GetDynAttrValue (ctype_of v) attr_name d of
        Failing \<Rightarrow> (Failing, d)
      | Undefined_Access \<Rightarrow> (Undefined_Access, d)
      | Got cur \<Rightarrow>
          (case IsAttrAllowed attr_name cur v d of
             None \<Rightarrow> (Undefined_Access, d)
           | Some False \<Rightarrow> (Failing, d)
           | Some True \<Rightarrow>
               (case SetDynAttrValue w_ok v attr_name d of
                  (Failing, d1) \<Rightarrow>
                    (case SetDynAttrValue w_ok cur attr_name d1 of
                       (Undefined_Access, d2) \<Rightarrow> (Undefined_Access, d2)
                     | (_, d2) \<Rightarrow> (Failing, d2))
                | r \<Rightarrow> r)))"

subsection \<open>Checking the rules\<close>

text \<open>The C++ type that the \<open>switch\<close> over the data type of the attribute chooses.\<close>

primrec rule_type :: "data_type \<Rightarrow> ctype option" where
  "rule_type DEV_FLOAT = Some TFloat"
| "rule_type DEV_DOUBLE = Some TDouble"
| "rule_type DEV_LONG = Some TLong"
| "rule_type DEV_SHORT = Some TShort"
| "rule_type DEV_ENUM = Some TShort"
| "rule_type DEV_STRING = Some TString"
| "rule_type DEV_BOOLEAN = Some TBool"
| "rule_type DEV_STATE = Some TState"
| "rule_type DEV_OTHER = None"

text \<open>
  The check of one rule, common to the rules for commands, reads and writes: the current value of
  the attribute of the rule, or its label, is given to the rules. \<open>Failing\<close> is an exception.
\<close>

definition check_rule ::
    "(ctype \<Rightarrow> scalar \<Rightarrow> bool option) \<Rightarrow> string \<Rightarrow> 'z lmc_device_scheme \<Rightarrow> bool access" where
  "check_rule allowed attr_name d =
     (case map_of (dyn_attrs d) attr_name of
        None \<Rightarrow> Failing
      | Some a \<Rightarrow>
          if \<not> at_scalar a then Failing
          else
            (case rule_type (at_type a) of
               None \<Rightarrow> Failing
             | Some T \<Rightarrow>
                 (case GetDynAttrValue T attr_name d of
                    Failing \<Rightarrow> Failing
                  | Undefined_Access \<Rightarrow> Undefined_Access
                  | Got v \<Rightarrow>
                      (case v of
                         VShort w \<Rightarrow>
                           if at_type a = DEV_ENUM then
                             (case GetEnumAttrLabelValue attr_name w d of
                                None \<Rightarrow> Failing
                              | Some s \<Rightarrow> access_of (allowed TString (VString s)))
                           else access_of (allowed TShort v)
                       | _ \<Rightarrow> access_of (allowed T v)))))"

definition CheckIfCmdIsAllowed :: "string \<Rightarrow> string \<Rightarrow> bool \<Rightarrow> 'z lmc_device_scheme \<Rightarrow> bool access" where
  "CheckIfCmdIsAllowed cmd_name attr_name check_cmd d =
     (if check_cmd \<and> cmd_name \<notin> set (dev_commands d) then Failing
      else check_rule (\<lambda>T v. IsCmdAllowed_factory T cmd_name attr_name v (rules d)) attr_name d)"

definition CheckIfAttrReadIsAllowed :: "string \<Rightarrow> string \<Rightarrow> 'z lmc_device_scheme \<Rightarrow> bool access" where
  "CheckIfAttrReadIsAllowed attr_name sm_attr_name d =
     check_rule (\<lambda>T v. IsAttrReadAllowed_factory T attr_name sm_attr_name v (rules d)) sm_attr_name d"

definition CheckIfAttrWriteIsAllowed :: "string \<Rightarrow> string \<Rightarrow> 'z lmc_device_scheme \<Rightarrow> bool access" where
  "CheckIfAttrWriteIsAllowed attr_name sm_attr_name d =
     check_rule (\<lambda>T v. IsAttrWriteAllowed_factory T attr_name sm_attr_name v (rules d)) sm_attr_name d"

datatype gate =
  Pass | Violated string \<comment> \<open>thrown: the attribute whose value violates a rule\<close>
| Not_Found \<comment> \<open>thrown: the attribute does not exist\<close> | Gate_Undefined

text \<open>The loop over the attributes of the rules: a check that throws is skipped.\<close>

fun check_rules :: "(string \<Rightarrow> bool access) \<Rightarrow> string list \<Rightarrow> gate" where
  "check_rules chk [] = Pass"
| "check_rules chk (a # as) =
     (case chk a of
        Got True \<Rightarrow> check_rules chk as
      | Failing \<Rightarrow> check_rules chk as
      | Got False \<Rightarrow> Violated a
      | Undefined_Access \<Rightarrow> Gate_Undefined)"

fun string_of :: "scalar \<Rightarrow> string" where
  "string_of (VString s) = s"
| "string_of _ = []"

definition rule_gate :: "(string \<Rightarrow> bool access) \<Rightarrow> scalar list option option \<Rightarrow> gate" where
  "rule_gate chk names =
     (case names of
        None \<Rightarrow> Gate_Undefined
      | Some None \<Rightarrow> Pass
      | Some (Some ks) \<Rightarrow> check_rules chk (List.map string_of ks))"

text \<open>The name of the command in the name of the function that asks.\<close>

definition extract_cmd_name :: "string \<Rightarrow> string" where
  "extract_cmd_name fcn_name =
     (case (str_find ''is_'' fcn_name 0, str_find ''_allowed'' fcn_name 0) of
        (Some p, Some q) \<Rightarrow>
          (if p + 3 \<le> q then take (q - p - 3) (drop (p + 3) fcn_name) else drop (p + 3) fcn_name)
      | _ \<Rightarrow> fcn_name)"

definition IsCmdAllowed :: "string \<Rightarrow> bool \<Rightarrow> 'z lmc_device_scheme \<Rightarrow> gate" where
  "IsCmdAllowed fcn_name check_cmd d =
     (let cmd_name = extract_cmd_name fcn_name
      in rule_gate (\<lambda>a. CheckIfCmdIsAllowed cmd_name a check_cmd d)
           (GetAttrsInCmdRules cmd_name (rules d)))"

definition IsAttrReadAllowed :: "string \<Rightarrow> bool \<Rightarrow> 'z lmc_device_scheme \<Rightarrow> gate" where
  "IsAttrReadAllowed attr_name check d =
     (if check \<and> map_of (dyn_attrs d) attr_name = None then Not_Found
      else rule_gate (\<lambda>a. CheckIfAttrReadIsAllowed attr_name a d)
             (GetSMAttrsInAttrReadRules attr_name (rules d)))"

definition IsAttrWriteAllowed :: "string \<Rightarrow> bool \<Rightarrow> 'z lmc_device_scheme \<Rightarrow> gate" where
  "IsAttrWriteAllowed attr_name check d =
     (case map_of (dyn_attrs d) attr_name of
        None \<Rightarrow>
          if check then Not_Found
          else rule_gate (\<lambda>a. CheckIfAttrWriteIsAllowed attr_name a d)
                 (GetSMAttrsInAttrWriteRules attr_name (rules d))
      | Some a \<Rightarrow>
          if check \<and> \<not> at_written a then Pass
          else rule_gate (\<lambda>a. CheckIfAttrWriteIsAllowed attr_name a d)
                 (GetSMAttrsInAttrWriteRules attr_name (rules d)))"

subsection \<open>Registering rules\<close>

text \<open>
  \<open>TangoUtils::AddCmdRule\<close> and the functions for the other rules. \<open>Failing\<close> is the result -1, the
  device is then unchanged.
\<close>

definition put_rules :: "rule_factory option \<Rightarrow> 'z lmc_device_scheme \<Rightarrow> 'z lmc_device_scheme access" where
  "put_rules r d = (case r of None \<Rightarrow> Undefined_Access | Some r' \<Rightarrow> Got (d\<lparr>rules := r'\<rparr>))"

definition is_scalar_attr :: "string \<Rightarrow> 'z lmc_device_scheme \<Rightarrow> bool" where
  "is_scalar_attr attr_name d =
     (case map_of (dyn_attrs d) attr_name of None \<Rightarrow> False | Some a \<Rightarrow> at_scalar a)"

definition AddCmdRule ::
    "ctype \<Rightarrow> string \<Rightarrow> string \<Rightarrow> scalar list \<Rightarrow> bool \<Rightarrow> 'z lmc_device_scheme
     \<Rightarrow> 'z lmc_device_scheme access" where
  "AddCmdRule T cmd_name attr_name attr_values check d =
     (if check \<and> (cmd_name \<notin> set (dev_commands d) \<or> \<not> is_scalar_attr attr_name d) then Failing
      else put_rules (AddCmdRule_factory T cmd_name attr_name attr_values (rules d)) d)"

definition AddAttrReadRule ::
    "ctype \<Rightarrow> string \<Rightarrow> string \<Rightarrow> scalar list \<Rightarrow> bool \<Rightarrow> 'z lmc_device_scheme
     \<Rightarrow> 'z lmc_device_scheme access" where
  "AddAttrReadRule T attr_name sm_attr_name sm_attr_values check d =
     (if check \<and> (map_of (dyn_attrs d) attr_name = None \<or> \<not> is_scalar_attr sm_attr_name d) then Failing
      else put_rules (AddAttrReadRule_factory T attr_name sm_attr_name sm_attr_values (rules d)) d)"

definition is_written_attr :: "string \<Rightarrow> 'z lmc_device_scheme \<Rightarrow> bool" where
  "is_written_attr attr_name d =
     (case map_of (dyn_attrs d) attr_name of None \<Rightarrow> False | Some a \<Rightarrow> at_written a)"

definition AddAttrWriteRule ::
    "ctype \<Rightarrow> string \<Rightarrow> string \<Rightarrow> scalar list \<Rightarrow> bool \<Rightarrow> 'z lmc_device_scheme
     \<Rightarrow> 'z lmc_device_scheme access" where
  "AddAttrWriteRule T attr_name sm_attr_name sm_attr_values check d =
     (if check \<and> (\<not> is_written_attr attr_name d \<or> \<not> is_scalar_attr sm_attr_name d) then Failing
      else put_rules (AddAttrWriteRule_factory T attr_name sm_attr_name sm_attr_values (rules d)) d)"

definition AddAttrRule ::
    "ctype \<Rightarrow> string \<Rightarrow> scalar \<Rightarrow> scalar list \<Rightarrow> bool \<Rightarrow> 'z lmc_device_scheme
     \<Rightarrow> 'z lmc_device_scheme access" where
  "AddAttrRule T attr_name attr_value attr_values check d =
     (if check \<and> \<not> is_scalar_attr attr_name d then Failing
      else put_rules (AddAttrRule_factory T attr_name attr_value attr_values (rules d)) d)"

definition AddAttrWriteAction ::
    "string \<Rightarrow> string list \<Rightarrow> bool \<Rightarrow> bool \<Rightarrow> 'z lmc_device_scheme \<Rightarrow> 'z lmc_device_scheme access" where
  "AddAttrWriteAction attr_name cmd_names preaction check d =
     (if check \<and> \<not> is_written_attr attr_name d then Failing
      else put_rules (Some (if preaction then AddAttrWritePreAction attr_name cmd_names (rules d)
                            else AddAttrWritePostAction attr_name cmd_names (rules d))) d)"

text \<open>The functions that register the rules of a device ignore the result of each registration.\<close>

definition ignoring ::
    "('z lmc_device_scheme \<Rightarrow> 'z lmc_device_scheme access) \<Rightarrow> 'z lmc_device_scheme option
     \<Rightarrow> 'z lmc_device_scheme option" where
  "ignoring f d =
     (case d of
        None \<Rightarrow> None
      | Some d0 \<Rightarrow>
          (case f d0 of Got d1 \<Rightarrow> Some d1 | Failing \<Rightarrow> Some d0 | Undefined_Access \<Rightarrow> None))"

subsection \<open>Writing an attribute from outside\<close>

text \<open>
  \<open>ExecuteAttrWriteActions\<close>: the commands registered for the attribute are executed one after the
  other; the first exception ends the sequence. Executing a command is the argument \<open>exec\<close>, whose
  first result says whether the command returned. \<open>Got\<close> is the return, with the device as it is.
\<close>

fun run_actions ::
    "(string \<Rightarrow> 'z lmc_device_scheme \<Rightarrow> bool \<times> 'z lmc_device_scheme) \<Rightarrow> bool \<Rightarrow> string list
     \<Rightarrow> 'z lmc_device_scheme \<Rightarrow> bool \<times> 'z lmc_device_scheme" where
  "run_actions exec check [] d = (True, d)"
| "run_actions exec check (c # cs) d =
     (if check \<and> c \<notin> set (dev_commands d) then run_actions exec check cs d
      else
        (case exec c d of
           (False, d1) \<Rightarrow> (False, d1)
         | (True, d1) \<Rightarrow> run_actions exec check cs d1))"

definition ExecuteAttrWriteActions ::
    "(string \<Rightarrow> 'z lmc_device_scheme \<Rightarrow> bool \<times> 'z lmc_device_scheme) \<Rightarrow> string \<Rightarrow> bool \<Rightarrow> bool
     \<Rightarrow> 'z lmc_device_scheme \<Rightarrow> unit access \<times> 'z lmc_device_scheme" where
  "ExecuteAttrWriteActions exec attr_name preaction check d =
     (if check \<and> map_of (dyn_attrs d) attr_name = None then (Failing, d)
      else if check \<and> \<not> is_written_attr attr_name d then (Got (), d)
      else
        (case (if preaction then GetAttrWritePreActions attr_name (rules d)
               else GetAttrWritePostActions attr_name (rules d)) of
           None \<Rightarrow> (Undefined_Access, d)
         | Some None \<Rightarrow> (Got (), d)
         | Some (Some cs) \<Rightarrow>
             (case run_actions exec check (List.map string_of cs) d of
                (True, d1) \<Rightarrow> (Got (), d1)
              | (False, d1) \<Rightarrow> (Failing, d1))))"

text \<open>
  \<open>dyn_attr_write_cb\<close> for a scalar attribute: the write rules, the pre-actions, the value, the
  post-actions. The written value comes from Tango and has the type of the attribute.
\<close>

definition SetScalarDynWAttr :: "scalar \<Rightarrow> string \<Rightarrow> 'z lmc_device_scheme \<Rightarrow> 'z lmc_device_scheme access" where
  "SetScalarDynWAttr w attr_name d =
     (case map_of (dyn_attrs d) attr_name of
        None \<Rightarrow> Failing
      | Some a \<Rightarrow>
          if ctype_of (at_value a) = ctype_of w \<and> rule_type (at_type a) = Some (ctype_of w)
          then Got (set_value attr_name w d) else Failing)"

definition dyn_attr_write_cb ::
    "(string \<Rightarrow> 'z lmc_device_scheme \<Rightarrow> bool \<times> 'z lmc_device_scheme) \<Rightarrow> scalar \<Rightarrow> string
     \<Rightarrow> 'z lmc_device_scheme \<Rightarrow> unit access \<times> 'z lmc_device_scheme" where
  "dyn_attr_write_cb exec w attr_name d =
     (case IsAttrWriteAllowed attr_name False d of
        Gate_Undefined \<Rightarrow> (Undefined_Access, d)
      | Violated a \<Rightarrow> (Failing, d)
      | Not_Found \<Rightarrow> (Failing, d)
      | Pass \<Rightarrow>
          (case ExecuteAttrWriteActions exec attr_name True False d of
             (Got _, d1) \<Rightarrow>
               (case SetScalarDynWAttr w attr_name d1 of
                  Got d2 \<Rightarrow> ExecuteAttrWriteActions exec attr_name False False d2
                | Failing \<Rightarrow> (Failing, d1)
                | Undefined_Access \<Rightarrow> (Undefined_Access, d1))
           | r \<Rightarrow> r))"

end
