(* ===== verification/DsPointing.thy ===== *)
theory DsPointing
  imports StdContainers Complex_Main
begin

text \<open>
  The classes \<open>PointingData\<close> and \<open>PointingSchedule\<close> of
  \<open>src/src/devices/emulators/DSEmulator/PointingSchedule.h\<close> and \<open>PointingSchedule.cpp\<close>: the queue of
  the pointing coordinates of the antenna emulator, a \<open>std::set\<close> ordered by the time stamps.

  A \<open>double\<close> is a real number. Time stamps are milliseconds since the unix epoch, a \<open>yat::Time\<close> is
  seconds since the epoch; the current time is an argument. A negative time stamp means at once.
\<close>

datatype pointing_type = eSTOW | eTRACK_PROGRAM | eSCAN

record pointing_data =
  pd_az :: real
  pd_el :: real
  pd_t :: real
  pd_timestamp :: real
  pd_dt :: real
  pd_pntType :: pointing_type

definition PointingData_default :: pointing_data where
  "PointingData_default =
     \<lparr>pd_az = 0, pd_el = 0, pd_t = 0, pd_timestamp = 0, pd_dt = 0, pd_pntType = eTRACK_PROGRAM\<rparr>"

definition PointingData_new :: "real \<Rightarrow> real \<Rightarrow> real \<Rightarrow> pointing_type \<Rightarrow> pointing_data" where
  "PointingData_new az el t ty =
     \<lparr>pd_az = az, pd_el = el, pd_t = t, pd_timestamp = (if t > 0 then t / 1000 else 0), pd_dt = 0,
      pd_pntType = ty\<rparr>"

text \<open>\<open>PointingDataSorter\<close>\<close>

definition pnt_before :: "pointing_data \<Rightarrow> pointing_data \<Rightarrow> bool" where
  "pnt_before d1 d2 \<longleftrightarrow> pd_t d1 < pd_t d2"

text \<open>\<open>TangoUtils::GetYatTimeDiffUSec\<close>\<close>

definition time_diff_usec :: "real \<Rightarrow> real \<Rightarrow> real" where
  "time_diff_usec before after = (after - before) * 1000000"

record schedule =
  pointingQueue :: "pointing_data list"
  maxQueueSize :: int
  expiredTimeThr :: int

definition PointingSchedule_new :: schedule where
  "PointingSchedule_new = \<lparr>pointingQueue = [], maxQueueSize = 100, expiredTimeThr = 100\<rparr>"

definition SetMaxQueueSize :: "int \<Rightarrow> schedule \<Rightarrow> schedule" where
  "SetMaxQueueSize val s = s\<lparr>maxQueueSize := val\<rparr>"

definition is_queue_full :: "schedule \<Rightarrow> bool" where
  "is_queue_full s \<longleftrightarrow> int (length (pointingQueue s)) \<ge> maxQueueSize s"

definition IsQueueEmpty :: "schedule \<Rightarrow> bool" where
  "IsQueueEmpty s \<longleftrightarrow> pointingQueue s = []"

definition HasEntriesInQueue :: "schedule \<Rightarrow> bool" where
  "HasEntriesInQueue s \<longleftrightarrow> pointingQueue s \<noteq> []"

definition flush_queue :: "schedule \<Rightarrow> schedule" where
  "flush_queue s = s\<lparr>pointingQueue := []\<rparr>"

text \<open>\<open>MatchExpiredPointingData\<close> and \<open>remove_expired_data_in_queue\<close>, which nothing calls.\<close>

definition match_expired :: "real \<Rightarrow> int \<Rightarrow> pointing_data \<Rightarrow> bool" where
  "match_expired t0 dt p \<longleftrightarrow> time_diff_usec t0 (pd_timestamp p) \<ge> of_int dt"

definition remove_expired_data_in_queue :: "real \<Rightarrow> schedule \<Rightarrow> schedule" where
  "remove_expired_data_in_queue now s =
     s\<lparr>pointingQueue := set_erase_if (match_expired now (expiredTimeThr s)) (pointingQueue s)\<rparr>"

text \<open>
  \<open>Pop\<close>: status, data, difference to the activation time in ms, schedule. The status is 0 when the
  data are given out, 1 when it is too early, -1 for an empty queue or expired data.
\<close>

definition Pop ::
    "real \<Rightarrow> pointing_data \<Rightarrow> real \<Rightarrow> schedule \<Rightarrow> int \<times> pointing_data \<times> real \<times> schedule" where
  "Pop now data tdiff_in s =
     (case pointingQueue s of
        [] \<Rightarrow> (-1, data, tdiff_in, s)
      | p # ps \<Rightarrow>
          (let tdiff_ms = (if pd_t p \<ge> 0 then time_diff_usec now (pd_timestamp p) / 1000 else 0)
           in if tdiff_ms \<le> 0 then
                (if \<bar>tdiff_ms\<bar> < of_int (expiredTimeThr s)
                 then (0, p\<lparr>pd_dt := - tdiff_ms\<rparr>, tdiff_ms, s\<lparr>pointingQueue := ps\<rparr>)
                 else (-1, data, tdiff_ms, s\<lparr>pointingQueue := ps\<rparr>))
              else (1, data, tdiff_ms, s)))"

text \<open>\<open>Push\<close>; \<open>None\<close> is a null pointer, the first result is the status.\<close>

definition Push :: "pointing_data option \<Rightarrow> schedule \<Rightarrow> int \<times> schedule" where
  "Push data s =
     (case data of
        None \<Rightarrow> (-1, s)
      | Some p \<Rightarrow>
          if is_queue_full s \<and> pd_pntType p \<noteq> eSTOW then (-1, s)
          else (0, s\<lparr>pointingQueue := set_insert pnt_before p (pointingQueue s)\<rparr>))"

definition Push_list :: "pointing_data list \<Rightarrow> schedule \<Rightarrow> int \<times> schedule" where
  "Push_list data s =
     (if data = [] then (-1, s)
      else if int (length data) + int (length (pointingQueue s)) \<ge> maxQueueSize s then (-1, s)
      else (0, s\<lparr>pointingQueue := fold (set_insert pnt_before) data (pointingQueue s)\<rparr>))"

end
