(* ===== verification/DsEmulator.thy ===== *)
theory DsEmulator
  imports LmcDevice DsPointing
begin

text \<open>
  The device \<open>DSEmulator\<close> (\<open>src/src/devices/emulators/DSEmulator/DSEmulator.cpp\<close> and
  \<open>DSEmulatorStateMachine.cpp\<close>), the emulator of the antenna: its state, its rules, its commands.
  Commands check the rules, change attributes, post messages to the task thread (\<open>DsTask\<close>) and use
  the pointing queue of the tracking thread (\<open>DsTracking\<close>).

  A progress attribute is its status; the information text beside it, the status text of the device
  and the texts of the exceptions are not modelled, an exception is its reason. The tracking thread
  and the schedule exist from \<open>init_device\<close> on. Durations are not modelled: a task sleeps until it
  is woken. The calculation of \<open>double\<close> is exact.
\<close>

subsection \<open>State\<close>

datatype ds_dev_state = DS_INIT | DS_STANDBY | DS_ON | DS_RUNNING | DS_DISABLE | DS_MOVING | DS_FAULT

text \<open>The messages of the task thread, with the fields of the message structs that are used.\<close>

datatype ds_msg =
  StartupMsg bool \<comment> \<open>\<open>enable_failure\<close>\<close>
| StowMsg | StowSimpleMsg bool
| MoveIndexerMsg "16 word"
| StandbyLPMsg bool \<comment> \<open>\<open>checkPreConditions\<close>\<close>
| StandbyFPMsg | PointMsg | ShutdownMsg

text \<open>Where a task waits; \<open>Sleep_LP\<close> says whether it is a step of the shutdown task.\<close>

datatype ds_phase =
  Sleep_Startup bool | Sleep_StowSimple bool | Sleep_Indexer "16 word" | Sleep_LP bool | Sleep_FP
| Sleep_Point | Sleep_Shutdown

text \<open>The variables of the slewing loop, and where the tracking thread is.\<close>

record slew_vars =
  currentAz :: real
  currentEl :: real
  azPosStep :: real
  elPosStep :: real
  azReached :: bool
  elReached :: bool

datatype tracker =
  T_Waiting | T_Popped pointing_data | T_Slewing pointing_data slew_vars
| T_Slept pointing_data slew_vars | T_At pointing_data | T_Ended

record ds_config =
  stowAzimuthPos :: real
  stowElevationPos :: real
  slewRate :: real
  slewTimeStep :: real
  pointingResolution :: real
  smearPointingCoords :: bool
  trackProgramMaxSize :: "16 word"
  trackProgramTimeStep :: real
  pointingModelParamsDefault :: "real list"
  enableStartupFailure :: bool
  maxPointingQueueSize :: "16 word"

record ds_emulator = lmc_device +
  ds_cfg :: ds_config
  ds_schedule :: schedule
  trackingEnabled :: bool
  stopThread :: bool
  tracker_at :: tracker
  stowProgress :: string
  indexingProgress :: string
  setStandbyLPModeProgress :: string
  setStandbyFPModeProgress :: string
  setPointModeProgress :: string
  powerCut :: bool
  powerRestored :: bool
  achievedPointing :: "real list"
  desiredPointing :: "real list"
  ds_state :: ds_dev_state
  ds_messages :: "ds_msg list"
  ds_sleeping :: "ds_phase option"

datatype ds_reply = Reply int | Returned_Void | Thrown string | Reply_Undefined

subsection \<open>Attributes by label\<close>

text \<open>\<open>GetDynAttrValue(current,name)\<close> for an enumerated attribute.\<close>

definition get_enum :: "string \<Rightarrow> 'z lmc_device_scheme \<Rightarrow> 16 word access" where
  "get_enum attr_name d =
     (case GetDynAttrValue TShort attr_name d of
        Got (VShort w) \<Rightarrow> Got w
      | Got _ \<Rightarrow> Undefined_Access
      | Failing \<Rightarrow> Failing
      | Undefined_Access \<Rightarrow> Undefined_Access)"

definition set_label ::
    "(string \<Rightarrow> scalar \<Rightarrow> bool) \<Rightarrow> string \<Rightarrow> string \<Rightarrow> 'z lmc_device_scheme
     \<Rightarrow> unit access \<times> 'z lmc_device_scheme" where
  "set_label w_ok label attr_name d =
     SetDynAttrValue w_ok (VShort (enum_value attr_name label d)) attr_name d"

definition sm_label ::
    "(string \<Rightarrow> scalar \<Rightarrow> bool) \<Rightarrow> string \<Rightarrow> string \<Rightarrow> 'z lmc_device_scheme
     \<Rightarrow> unit access \<times> 'z lmc_device_scheme" where
  "sm_label w_ok label attr_name d =
     SetSMDynAttrValue w_ok (VShort (enum_value attr_name label d)) attr_name d"

definition set_flag ::
    "(string \<Rightarrow> scalar \<Rightarrow> bool) \<Rightarrow> bool \<Rightarrow> string \<Rightarrow> 'z lmc_device_scheme
     \<Rightarrow> unit access \<times> 'z lmc_device_scheme" where
  "set_flag w_ok b attr_name d = SetDynAttrValue w_ok (VBool b) attr_name d"

text \<open>Steps one after the other, up to the first that fails.\<close>

fun run_steps ::
    "('d \<Rightarrow> unit access \<times> 'd) list \<Rightarrow> 'd \<Rightarrow> unit access \<times> 'd" where
  "run_steps [] d = (Got (), d)"
| "run_steps (f # fs) d =
     (case f d of
        (Got _, d1) \<Rightarrow> run_steps fs d1
      | r \<Rightarrow> r)"

definition brake_names :: "string list" where
  "brake_names = [''indexerBrakeState'', ''azimuthBrakeState'', ''elevationBrakeState'']"

definition servo_names :: "string list" where
  "servo_names = [''indexerServoState'', ''azimuthServoState'', ''elevationServoState'']"

subsection \<open>Initialization\<close>

text \<open>\<open>InitCmdAttrStateMachine\<close>: the results of the registrations are ignored.\<close>

definition mode_rules :: "(string \<times> string list) list" where
  "mode_rules =
     [(''SetMaintenanceMode'', [''STANDBY-LP'', ''STANDBY-FP'', ''POINT'', ''MAINTENANCE'', ''STOW'']),
      (''Stow'', [''STOW'', ''STANDBY-LP'', ''STANDBY-FP'', ''POINT'', ''MAINTENANCE'', ''ESTOP'']),
      (''SetPointMode'', [''STANDBY-FP'', ''POINT'', ''STOW'']),
      (''SetStandbyLPMode'',
        [''STANDBY-LP'', ''STANDBY-FP'', ''POINT'', ''STOW'', ''ESTOP'', ''MAINTENANCE'', ''STARTUP'']),
      (''SetStandbyFPMode'', [''STANDBY-FP'', ''STANDBY-LP'', ''POINT'', ''STOW'', ''MAINTENANCE'']),
      (''SetIndexPosition'', [''STANDBY-FP'', ''POINT'', ''STOW''])]"

definition test_mode_rules :: "string list" where
  "test_mode_rules = [''SimulateESTOP'', ''SimulatePowerCut'', ''SimulatePowerRestore'']"

definition transition_rules :: "(string \<times> string list) list" where
  "transition_rules =
     [(''STARTUP'', [''STARTUP'', ''STANDBY-LP'', ''ESTOP'']),
      (''STANDBY-LP'',
        [''STANDBY-LP'', ''STANDBY-FP'', ''STOW'', ''POINT'', ''MAINTENANCE'', ''ESTOP'']),
      (''POINT'', [''POINT'', ''STANDBY-LP'', ''STANDBY-FP'', ''MAINTENANCE'', ''STOW'', ''ESTOP'']),
      (''MAINTENANCE'', [''MAINTENANCE'', ''STANDBY-LP'', ''STANDBY-FP'', ''STOW'', ''ESTOP''])]"

definition write_rules :: "string list" where
  "write_rules =
     [''azimuthOverWrap'', ''targetLock'', ''antennaAzPosition'', ''antennaElPosition'', ''pointingState'',
      ''healthState'', ''interfaceType'', ''indexerPosition'', ''powerState'', ''operatingMode'']"

definition InitCmdAttrStateMachine :: "'z lmc_device_scheme \<Rightarrow> 'z lmc_device_scheme option" where
  "InitCmdAttrStateMachine d0 =
     (let d1 = fold (\<lambda>(cmd, modes). ignoring
                 (AddCmdRule TString cmd ''operatingMode'' (List.map VString modes) True))
                 mode_rules (Some d0);
          d2 = fold (\<lambda>cmd. ignoring (AddCmdRule TBool cmd ''testMode'' [VBool True] True))
                 test_mode_rules d1;
          d3 = fold (\<lambda>(mode, modes). ignoring
                 (AddAttrRule TString ''operatingMode'' (VString mode) (List.map VString modes) True))
                 transition_rules d2
      in fold (\<lambda>attr. ignoring (AddAttrWriteRule TBool attr ''testMode'' [VBool True] True))
           write_rules d3)"

text \<open>The device after \<open>init_device\<close> and \<open>InitTrackingThread\<close>, over the attributes it then has.\<close>

definition ds_init :: "ds_config \<Rightarrow> lmc_device \<Rightarrow> ds_emulator" where
  "ds_init cf d =
     lmc_device.extend d
       \<lparr>ds_cfg = cf,
        ds_schedule = SetMaxQueueSize (sint (maxPointingQueueSize cf)) PointingSchedule_new,
        trackingEnabled = False, stopThread = False, tracker_at = T_Waiting,
        stowProgress = ''INIT'', indexingProgress = ''INIT'', setStandbyLPModeProgress = ''INIT'',
        setStandbyFPModeProgress = ''INIT'', setPointModeProgress = ''INIT'',
        powerCut = False, powerRestored = False, achievedPointing = replicate 3 0,
        desiredPointing = replicate 7 0, ds_state = DS_INIT, ds_messages = [], ds_sleeping = None\<rparr>"

text \<open>\<open>Startup\<close> posts the start-up message; \<open>post_ok\<close> says whether the queue takes it.\<close>

definition ds_post :: "bool \<Rightarrow> ds_msg \<Rightarrow> ds_emulator \<Rightarrow> bool \<times> ds_emulator" where
  "ds_post post_ok msg d =
     (if post_ok then (True, d\<lparr>ds_messages := ds_messages d @ [msg]\<rparr>) else (False, d))"

definition Startup :: "bool \<Rightarrow> ds_emulator \<Rightarrow> int \<times> ds_emulator" where
  "Startup post_ok d =
     (case ds_post post_ok (StartupMsg (enableStartupFailure (ds_cfg d))) d of
        (True, d1) \<Rightarrow> (0, d1)
      | (False, d1) \<Rightarrow> (-1, d1\<lparr>ds_state := DS_FAULT\<rparr>))"

subsection \<open>Mode commands\<close>

definition gate_reply :: "gate \<Rightarrow> ds_reply" where
  "gate_reply g =
     (case g of
        Pass \<Rightarrow> Returned_Void
      | Gate_Undefined \<Rightarrow> Reply_Undefined
      | _ \<Rightarrow> Thrown ''IS_CMD_ALLOWED'')"

definition task_active :: "string \<Rightarrow> bool" where
  "task_active progress \<longleftrightarrow> progress = ''RUNNING'' \<or> progress = ''IDLE''"

definition set_standby_lpmode :: "bool \<Rightarrow> ds_emulator \<Rightarrow> ds_reply \<times> ds_emulator" where
  "set_standby_lpmode post_ok d =
     (case IsCmdAllowed ''set_standby_lpmode'' True d of
        Pass \<Rightarrow>
          if task_active (setStandbyLPModeProgress d) then (Thrown ''SET_STANDBY_LP_MODE_FAILED'', d)
          else
            (case (get_enum ''operatingMode'' d, get_enum ''powerState'' d) of
               (Got mode_current, Got powerState_current) \<Rightarrow>
                 if enum_value ''operatingMode'' ''STANDBY-LP'' d = mode_current
                 then (Reply 0, d\<lparr>setStandbyLPModeProgress := ''COMPLETED''\<rparr>)
                 else
                   (case ds_post post_ok (StandbyLPMsg False) (d\<lparr>setStandbyLPModeProgress := ''IDLE''\<rparr>) of
                      (True, d1) \<Rightarrow> (Reply 1, d1)
                    | (False, d1) \<Rightarrow>
                        (Thrown ''POST_FAILED'', d1\<lparr>setStandbyLPModeProgress := ''ABORTED''\<rparr>))
             | (Undefined_Access, _) \<Rightarrow> (Reply_Undefined, d)
             | (Got _, Undefined_Access) \<Rightarrow> (Reply_Undefined, d)
             | _ \<Rightarrow> (Thrown ''SET_STANDBY_LP_MODE_FAILED'', d))
      | g \<Rightarrow> (gate_reply g, d))"

text \<open>When posting fails the code sets the progress attribute of the other stand-by mode.\<close>

definition set_standby_fpmode :: "bool \<Rightarrow> ds_emulator \<Rightarrow> ds_reply \<times> ds_emulator" where
  "set_standby_fpmode post_ok d =
     (case IsCmdAllowed ''set_standby_fpmode'' True d of
        Pass \<Rightarrow>
          if task_active (setStandbyFPModeProgress d) then (Thrown ''SET_STANDBY_FP_MODE_FAILED'', d)
          else
            (case (get_enum ''operatingMode'' d, get_enum ''powerState'' d) of
               (Got mode_current, Got powerState_current) \<Rightarrow>
                 if enum_value ''operatingMode'' ''STANDBY-FP'' d = mode_current \<and>
                    enum_value ''powerState'' ''FULL-POWER'' d = powerState_current
                 then (Reply 0, d\<lparr>setStandbyFPModeProgress := ''COMPLETED''\<rparr>)
                 else
                   (case ds_post post_ok StandbyFPMsg (d\<lparr>setStandbyFPModeProgress := ''IDLE''\<rparr>) of
                      (True, d1) \<Rightarrow> (Reply 1, d1)
                    | (False, d1) \<Rightarrow>
                        (Thrown ''POST_FAILED'', d1\<lparr>setStandbyLPModeProgress := ''ABORTED''\<rparr>))
             | (Undefined_Access, _) \<Rightarrow> (Reply_Undefined, d)
             | (Got _, Undefined_Access) \<Rightarrow> (Reply_Undefined, d)
             | _ \<Rightarrow> (Thrown ''SET_STANDBY_FP_MODE_FAILED'', d))
      | g \<Rightarrow> (gate_reply g, d))"

definition set_point_mode :: "bool \<Rightarrow> ds_emulator \<Rightarrow> ds_reply \<times> ds_emulator" where
  "set_point_mode post_ok d =
     (case IsCmdAllowed ''set_point_mode'' True d of
        Pass \<Rightarrow>
          if task_active (setPointModeProgress d) then (Thrown ''SET_POINT_MODE_FAILED'', d)
          else
            (case get_enum ''operatingMode'' d of
               Got mode_current \<Rightarrow>
                 if enum_value ''operatingMode'' ''POINT'' d = mode_current
                 then (Reply 0, d\<lparr>setPointModeProgress := ''COMPLETED''\<rparr>)
                 else
                   (case ds_post post_ok PointMsg (d\<lparr>setPointModeProgress := ''IDLE''\<rparr>) of
                      (True, d1) \<Rightarrow> (Reply 1, d1)
                    | (False, d1) \<Rightarrow>
                        (Thrown ''POST_FAILED'', d1\<lparr>setPointModeProgress := ''ABORTED''\<rparr>))
             | Undefined_Access \<Rightarrow> (Reply_Undefined, d)
             | Failing \<Rightarrow> (Thrown ''SET_POINT_MODE_FAILED'', d))
      | g \<Rightarrow> (gate_reply g, d))"

definition set_maintenance_mode ::
    "(string \<Rightarrow> scalar \<Rightarrow> bool) \<Rightarrow> ds_emulator \<Rightarrow> ds_reply \<times> ds_emulator" where
  "set_maintenance_mode w_ok d =
     (case get_enum ''operatingMode'' d of
        Got mode_current \<Rightarrow>
          if enum_value ''operatingMode'' ''MAINTENANCE'' d = mode_current then (Returned_Void, d)
          else
            (case sm_label w_ok ''MAINTENANCE'' ''operatingMode'' d of
               (Got _, d1) \<Rightarrow> (Returned_Void, d1)
             | (Failing, d1) \<Rightarrow> (Thrown ''SET_MAINTENANCE_MODE_FAILED'', d1)
             | (Undefined_Access, d1) \<Rightarrow> (Reply_Undefined, d1))
      | Undefined_Access \<Rightarrow> (Reply_Undefined, d)
      | Failing \<Rightarrow> (Thrown ''SET_MAINTENANCE_MODE_FAILED'', d))"

definition set_index_position :: "bool \<Rightarrow> 16 word \<Rightarrow> ds_emulator \<Rightarrow> ds_reply \<times> ds_emulator" where
  "set_index_position post_ok argin d =
     (case IsCmdAllowed ''set_index_position'' True d of
        Pass \<Rightarrow>
          if task_active (indexingProgress d) then (Thrown ''SET_INDEX_POSITION_FAILED'', d)
          else
            (case get_enum ''indexerPosition'' d of
               Got cur \<Rightarrow>
                 if argin = cur then (Reply 0, d\<lparr>indexingProgress := ''COMPLETED''\<rparr>)
                 else
                   (case ds_post post_ok (MoveIndexerMsg argin) (d\<lparr>indexingProgress := ''IDLE''\<rparr>) of
                      (True, d1) \<Rightarrow> (Reply 1, d1)
                    | (False, d1) \<Rightarrow>
                        (Thrown ''POST_FAILED'', d1\<lparr>indexingProgress := ''ABORTED''\<rparr>))
             | Undefined_Access \<Rightarrow> (Reply_Undefined, d)
             | Failing \<Rightarrow> (Thrown ''SET_INDEX_POSITION_FAILED'', d))
      | g \<Rightarrow> (gate_reply g, d))"

end
