(* ===== verification/DsCommands.thy ===== *)
theory DsCommands
  imports DsEmulator
begin

text \<open>
  The commands of \<open>DSEmulator.cpp\<close> that use the pointing queue, those that simulate faults, the write
  function of the attribute \<open>desiredPointing\<close>, and the dispatch of the commands through the functions
  \<open>is_<command>_allowed\<close> of \<open>DSEmulatorStateMachine.cpp\<close>.
\<close>

subsection \<open>Tracking\<close>

definition DisableTracking :: "ds_emulator \<Rightarrow> ds_emulator" where
  "DisableTracking d = d\<lparr>trackingEnabled := False\<rparr>"

definition EnableTracking :: "ds_emulator \<Rightarrow> ds_emulator" where
  "EnableTracking d = d\<lparr>trackingEnabled := True\<rparr>"

definition flush_track_program :: "ds_emulator \<Rightarrow> ds_emulator" where
  "flush_track_program d = d\<lparr>ds_schedule := flush_queue (ds_schedule d)\<rparr>"

definition pause_tracking :: "ds_emulator \<Rightarrow> ds_emulator" where
  "pause_tracking d = DisableTracking d"

definition resume_tracking :: "ds_emulator \<Rightarrow> ds_emulator" where
  "resume_tracking d = EnableTracking d"

text \<open>The stow position goes to an emptied queue; tracking starts again for it.\<close>

definition schedule_stow :: "ds_emulator \<Rightarrow> bool \<times> ds_emulator" where
  "schedule_stow d =
     (let d1 = flush_track_program (DisableTracking d);
          p = PointingData_new (stowAzimuthPos (ds_cfg d)) (stowElevationPos (ds_cfg d)) (-1) eSTOW
      in case Push (Some p) (ds_schedule d1) of
           (st, s1) \<Rightarrow>
             if st < 0 then (False, d1\<lparr>ds_schedule := s1, stowProgress := ''ABORTED''\<rparr>)
             else (True, EnableTracking (d1\<lparr>ds_schedule := s1\<rparr>)))"

definition stow :: "ds_emulator \<Rightarrow> ds_reply \<times> ds_emulator" where
  "stow d =
     (case IsCmdAllowed ''stow'' True d of
        Pass \<Rightarrow>
          if task_active (stowProgress d) then (Thrown ''STOW_FAILED'', d)
          else
            (case get_enum ''operatingMode'' d of
               Got current_mode \<Rightarrow>
                 if label_string ''operatingMode'' current_mode d = ''STOW''
                 then (Reply 0, d\<lparr>stowProgress := ''COMPLETED''\<rparr>)
                 else
                   (case schedule_stow d of
                      (True, d1) \<Rightarrow> (Reply 1, d1)
                    | (False, d1) \<Rightarrow> (Thrown ''STOW_FAILED'', d1))
             | Undefined_Access \<Rightarrow> (Reply_Undefined, d)
             | Failing \<Rightarrow> (Thrown ''STOW_FAILED'', d))
      | g \<Rightarrow> (gate_reply g, d))"

definition simulate_power_cut :: "bool \<Rightarrow> ds_emulator \<Rightarrow> ds_reply \<times> ds_emulator" where
  "simulate_power_cut post_ok d =
     (case IsCmdAllowed ''simulate_power_cut'' True d of
        Pass \<Rightarrow>
          (case ds_post post_ok ShutdownMsg d of
             (True, d1) \<Rightarrow> (Returned_Void, d1)
           | (False, d1) \<Rightarrow> (Thrown ''POST_FAILED'', d1))
      | g \<Rightarrow> (gate_reply g, d))"

definition simulate_power_restore ::
    "(string \<Rightarrow> scalar \<Rightarrow> bool) \<Rightarrow> ds_emulator \<Rightarrow> ds_reply \<times> ds_emulator" where
  "simulate_power_restore w_ok d =
     (if powerRestored d then (Returned_Void, d)
      else
        (case set_label w_ok ''LOW-POWER'' ''powerState'' d of
           (Got _, d1) \<Rightarrow> (Returned_Void, d1\<lparr>powerCut := False, powerRestored := True\<rparr>)
         | (Failing, d1) \<Rightarrow> (Thrown ''SIMULATE_POWER_RESTORE_FAILED'', d1)
         | (Undefined_Access, d1) \<Rightarrow> (Reply_Undefined, d1)))"

definition simulate_estop ::
    "(string \<Rightarrow> scalar \<Rightarrow> bool) \<Rightarrow> ds_emulator \<Rightarrow> ds_reply \<times> ds_emulator" where
  "simulate_estop w_ok d =
     (case get_enum ''operatingMode'' d of
        Got mode_current \<Rightarrow>
          if label_string ''operatingMode'' mode_current d = ''ESTOP'' then (Returned_Void, d)
          else
            (case set_label w_ok ''ESTOP'' ''operatingMode'' (flush_track_program (DisableTracking d)) of
               (Got _, d1) \<Rightarrow> (Returned_Void, d1)
             | (Failing, d1) \<Rightarrow> (Thrown ''SIMULATE_ESTOP_FAILED'', d1)
             | (Undefined_Access, d1) \<Rightarrow> (Reply_Undefined, d1))
      | Undefined_Access \<Rightarrow> (Reply_Undefined, d)
      | Failing \<Rightarrow> (Thrown ''SIMULATE_ESTOP_FAILED'', d))"

definition reset_progress_attrs :: "ds_emulator \<Rightarrow> ds_emulator" where
  "reset_progress_attrs d =
     d\<lparr>stowProgress := ''INIT'', indexingProgress := ''INIT'', setStandbyLPModeProgress := ''INIT'',
       setStandbyFPModeProgress := ''INIT'', setPointModeProgress := ''INIT''\<rparr>"

definition reset_power_cut_attrs :: "ds_emulator \<Rightarrow> ds_emulator" where
  "reset_power_cut_attrs d = d\<lparr>powerCut := False, powerRestored := False\<rparr>"

subsection \<open>Desired pointing\<close>

definition deg2rad :: "real \<Rightarrow> real" where
  "deg2rad degrees = degrees * 4 * arctan 1 / 180"

text \<open>The pointing model; \<open>p\<close> holds at least nine parameters.\<close>

definition CorrectPointingData :: "real list \<Rightarrow> pointing_data \<Rightarrow> pointing_data" where
  "CorrectPointingData p d =
     (let Az = pd_az d; El = pd_el d; Az_r = deg2rad Az; El_r = deg2rad El;
          dAz = p ! 0 + p ! 1 / cos El_r + p ! 2 * tan El_r + p ! 3 * tan El_r * cos Az_r
                + p ! 4 * tan El_r * sin Az_r + p ! 5 * sin Az_r;
          dEl = p ! 6 - p ! 3 * sin Az_r + p ! 4 * cos Az_r + p ! 7 * cos El_r + p ! 8 * sin El_r
                + p ! 5 * cos Az_r * sin El_r
      in d\<lparr>pd_az := Az + dAz, pd_el := El + dEl\<rparr>)"

fun real_of_scalar :: "scalar \<Rightarrow> real" where
  "real_of_scalar (VFloat r) = r"
| "real_of_scalar _ = 0"

definition CorrectPointingDataList ::
    "pointing_data list \<Rightarrow> 'z lmc_device_scheme \<Rightarrow> pointing_data list access" where
  "CorrectPointingDataList ps d =
     (if ps = [] then Got []
      else
        (case GetDynAttrValue_spectrum TFloat ''pointingModelParams'' d of
           Failing \<Rightarrow> Failing
         | Undefined_Access \<Rightarrow> Undefined_Access
         | Got vs \<Rightarrow>
             if length vs < 9 then Failing
             else Got (List.map (CorrectPointingData (List.map real_of_scalar vs)) ps)))"

text \<open>
  The expansion of a track polynomial: \<open>trackProgramMaxSize\<close> points, \<open>trackProgramTimeStep\<close> apart. The
  loop also leaves the time after the last point.
\<close>

fun expand_program ::
    "(real \<Rightarrow> real) \<Rightarrow> (real \<Rightarrow> real) \<Rightarrow> real \<Rightarrow> nat \<Rightarrow> real \<Rightarrow> pointing_data list \<times> real" where
  "expand_program fAz fEl step 0 t = ([], t)"
| "expand_program fAz fEl step (Suc n) t =
     (let (ps, t') = expand_program fAz fEl step n (t + step)
      in (PointingData_new (fAz t) (fEl t) t eTRACK_PROGRAM # ps, t'))"

definition program_size :: "ds_config \<Rightarrow> nat" where
  "program_size cf = nat (sint (trackProgramMaxSize cf))"

definition push_program ::
    "(real \<Rightarrow> real) \<Rightarrow> (real \<Rightarrow> real) \<Rightarrow> real list \<Rightarrow> ds_emulator \<Rightarrow> ds_reply \<times> ds_emulator" where
  "push_program fAz fEl w_val d =
     (let (ps, t) = expand_program fAz fEl (trackProgramTimeStep (ds_cfg d)) (program_size (ds_cfg d))
                      (w_val ! 0)
      in case CorrectPointingDataList ps d of
           Failing \<Rightarrow> (Thrown ''WRITE_DESIRED_POINTING_FAILED'', d)
         | Undefined_Access \<Rightarrow> (Reply_Undefined, d)
         | Got qs \<Rightarrow>
             (case Push_list qs (ds_schedule d) of
                (st, s1) \<Rightarrow>
                  if st < 0 then (Thrown ''WRITE_DESIRED_POINTING_FAILED'', d\<lparr>ds_schedule := s1\<rparr>)
                  else (Returned_Void,
                        d\<lparr>ds_schedule := s1,
                          desiredPointing := (t # tl w_val) @ drop (length w_val) (desiredPointing d)\<rparr>)))"

definition push_single :: "real list \<Rightarrow> ds_emulator \<Rightarrow> ds_reply \<times> ds_emulator" where
  "push_single w_val d =
     (case CorrectPointingDataList [PointingData_new (w_val ! 1) (w_val ! 2) (w_val ! 0) eTRACK_PROGRAM] d of
        Got [p] \<Rightarrow>
          (case Push (Some p) (ds_schedule d) of
             (st, s1) \<Rightarrow>
               if st < 0 then (Thrown ''WRITE_DESIRED_POINTING_FAILED'', d\<lparr>ds_schedule := s1\<rparr>)
               else (Returned_Void,
                     d\<lparr>ds_schedule := s1, desiredPointing := w_val @ drop 3 (desiredPointing d)\<rparr>))
      | Got _ \<Rightarrow> (Reply_Undefined, d)
      | Undefined_Access \<Rightarrow> (Reply_Undefined, d)
      | Failing \<Rightarrow> (Thrown ''WRITE_DESIRED_POINTING_FAILED'', d))"

text \<open>
  \<open>write_desiredPointing\<close>. The second check of the length is written as in the code, where \<open>%\<close> binds
  stronger than \<open>-\<close>.
\<close>

definition write_desiredPointing ::
    "real \<Rightarrow> real list \<Rightarrow> ds_emulator \<Rightarrow> ds_reply \<times> ds_emulator" where
  "write_desiredPointing now w_val d =
     (let failed = (Thrown ''WRITE_DESIRED_POINTING_FAILED'', d); n = length w_val; t0 = w_val ! 0 in
      case get_enum ''operatingMode'' d of
        Failing \<Rightarrow> failed
      | Undefined_Access \<Rightarrow> (Reply_Undefined, d)
      | Got operatingMode \<Rightarrow>
          if operatingMode \<noteq> enum_value ''operatingMode'' ''POINT'' d then failed
          else if n < 3 then failed
          else if int n - 1 mod 2 = 1 then failed
          else if t0 > 0 \<and> t0 / 1000 \<le> now then failed
          else if n = 3 then push_single w_val d
          else if n = 5 then
            push_program (\<lambda>t. w_val ! 1 + w_val ! 3 * (t - t0)) (\<lambda>t. w_val ! 2 + w_val ! 4 * (t - t0))
              w_val d
          else if n = 7 then
            push_program
              (\<lambda>t. w_val ! 1 + w_val ! 3 * (t - t0) + w_val ! 5 * (t - t0) * (t - t0))
              (\<lambda>t. w_val ! 2 + w_val ! 4 * (t - t0) + w_val ! 6 * (t - t0) * (t - t0))
              w_val d
          else failed)"

subsection \<open>Dispatch\<close>

datatype ds_command =
  SetStandbyLPMode | SetStandbyFPMode | SetPointMode | Stow | SetMaintenanceMode
| SetIndexPosition "16 word" | SimulatePowerCut | SimulatePowerRestore | SimulateESTOP
| FlushTrackProgram | PauseTracking | ResumeTracking | ResetProgressAttrs | ResetPowerCutAttrs

text \<open>The check of the argument in \<open>is_SetIndexPosition_allowed\<close> uses the position minus one.\<close>

definition is_allowed :: "ds_command \<Rightarrow> ds_emulator \<Rightarrow> ds_reply" where
  "is_allowed c d =
     (case c of
        SetStandbyLPMode \<Rightarrow> gate_reply (IsCmdAllowed ''is_SetStandbyLPMode_allowed'' True d)
      | SetStandbyFPMode \<Rightarrow> gate_reply (IsCmdAllowed ''is_SetStandbyFPMode_allowed'' True d)
      | SetPointMode \<Rightarrow> gate_reply (IsCmdAllowed ''is_SetPointMode_allowed'' True d)
      | Stow \<Rightarrow> gate_reply (IsCmdAllowed ''is_Stow_allowed'' True d)
      | SetMaintenanceMode \<Rightarrow> gate_reply (IsCmdAllowed ''is_SetMaintenanceMode_allowed'' True d)
      | SetIndexPosition argin \<Rightarrow>
          (case IsCmdAllowed ''is_SetIndexPosition_allowed'' True d of
             Pass \<Rightarrow>
               (case GetEnumAttrLabelValue ''indexerPosition'' (argin - 1) d of
                  None \<Rightarrow> Thrown ''SET_INDEX_POSITION_FAILED''
                | Some s \<Rightarrow> Returned_Void)
           | g \<Rightarrow> gate_reply g)
      | _ \<Rightarrow> Returned_Void)"

definition execute_command ::
    "(string \<Rightarrow> scalar \<Rightarrow> bool) \<Rightarrow> bool \<Rightarrow> ds_command \<Rightarrow> ds_emulator \<Rightarrow> ds_reply \<times> ds_emulator" where
  "execute_command w_ok post_ok c d =
     (case c of
        SetStandbyLPMode \<Rightarrow> set_standby_lpmode post_ok d
      | SetStandbyFPMode \<Rightarrow> set_standby_fpmode post_ok d
      | SetPointMode \<Rightarrow> set_point_mode post_ok d
      | Stow \<Rightarrow> stow d
      | SetMaintenanceMode \<Rightarrow> set_maintenance_mode w_ok d
      | SetIndexPosition argin \<Rightarrow> set_index_position post_ok argin d
      | SimulatePowerCut \<Rightarrow> simulate_power_cut post_ok d
      | SimulatePowerRestore \<Rightarrow> simulate_power_restore w_ok d
      | SimulateESTOP \<Rightarrow> simulate_estop w_ok d
      | FlushTrackProgram \<Rightarrow> (Returned_Void, flush_track_program d)
      | PauseTracking \<Rightarrow> (Returned_Void, pause_tracking d)
      | ResumeTracking \<Rightarrow> (Returned_Void, resume_tracking d)
      | ResetProgressAttrs \<Rightarrow> (Returned_Void, reset_progress_attrs d)
      | ResetPowerCutAttrs \<Rightarrow> (Returned_Void, reset_power_cut_attrs d))"

definition ds_command ::
    "(string \<Rightarrow> scalar \<Rightarrow> bool) \<Rightarrow> bool \<Rightarrow> ds_command \<Rightarrow> ds_emulator \<Rightarrow> ds_reply \<times> ds_emulator" where
  "ds_command w_ok post_ok c d =
     (case is_allowed c d of
        Returned_Void \<Rightarrow> execute_command w_ok post_ok c d
      | r \<Rightarrow> (r, d))"

end
