(* ===== verification/DsTask.thy ===== *)
theory DsTask
  imports DsCommands
begin

text \<open>
  The task thread of the emulator (\<open>src/src/devices/emulators/DSEmulator/DSEmulatorTask.cpp\<close>). A task
  runs up to its sleep, other operations happen, and when it is woken it runs on: the model has the
  part before the sleep (\<open>..._begin\<close>) and the part after it (\<open>..._finish\<close>). The argument \<open>signalled\<close>
  says that the wait condition was signalled (the device is being deleted) instead of the time being
  over, \<open>unlucky\<close> that the random number is below the failure probability.
\<close>

datatype task_outcome = Task_Returned | Task_Sleeps ds_phase | Task_Threw | Task_Undefined

text \<open>
  A sequence of steps of a task: on failure the progress attribute is set by \<open>on_fail\<close> and the task
  throws.
\<close>

definition task_steps ::
    "(ds_emulator \<Rightarrow> unit access \<times> ds_emulator) list \<Rightarrow> (ds_emulator \<Rightarrow> ds_emulator)
     \<Rightarrow> (ds_emulator \<Rightarrow> task_outcome \<times> ds_emulator) \<Rightarrow> ds_emulator \<Rightarrow> task_outcome \<times> ds_emulator" where
  "task_steps steps on_fail go_on d =
     (case run_steps steps d of
        (Got _, d1) \<Rightarrow> go_on d1
      | (Failing, d1) \<Rightarrow> (Task_Threw, on_fail d1)
      | (Undefined_Access, d1) \<Rightarrow> (Task_Undefined, d1))"

definition has_label :: "string \<Rightarrow> string \<Rightarrow> 'z lmc_device_scheme \<Rightarrow> bool" where
  "has_label attr_name label d \<longleftrightarrow> GetEnumAttrValue attr_name label d \<noteq> None"

subsection \<open>Start-up and simple stow\<close>

definition set_default_model :: "ds_emulator \<Rightarrow> unit access \<times> ds_emulator" where
  "set_default_model d =
     (case map_of (dyn_attrs d) ''pointingModelParams'' of
        None \<Rightarrow> (Failing, d)
      | Some a \<Rightarrow>
          if at_scalar a then (Failing, d)
          else (Got (),
                d\<lparr>dyn_attrs := map_modify ''pointingModelParams''
                    (at_spectrum_update (\<lambda>_. List.map VFloat (pointingModelParamsDefault (ds_cfg d))))
                    (dyn_attrs d)\<rparr>))"

definition startup_begin ::
    "(string \<Rightarrow> scalar \<Rightarrow> bool) \<Rightarrow> bool \<Rightarrow> ds_emulator \<Rightarrow> task_outcome \<times> ds_emulator" where
  "startup_begin w_ok enable_failure d =
     (if has_label ''operatingMode'' ''STARTUP'' d \<and> has_label ''operatingMode'' ''STANDBY-LP'' d \<and>
         has_label ''operatingMode'' ''ESTOP'' d \<and> has_label ''powerState'' ''LOW-POWER'' d
      then task_steps
             [sm_label w_ok ''LOW-POWER'' ''powerState'', sm_label w_ok ''STARTUP'' ''operatingMode'',
              set_default_model]
             (\<lambda>d1. d1) (\<lambda>d1. (Task_Sleeps (Sleep_Startup enable_failure), d1)) d
      else (Task_Threw, d))"

definition startup_finish ::
    "(string \<Rightarrow> scalar \<Rightarrow> bool) \<Rightarrow> bool \<Rightarrow> bool \<Rightarrow> bool \<Rightarrow> ds_emulator \<Rightarrow> task_outcome \<times> ds_emulator" where
  "startup_finish w_ok signalled unlucky enable_failure d =
     (if signalled then (Task_Returned, d)
      else if enable_failure \<and> unlucky then
        (case set_label w_ok ''ESTOP'' ''operatingMode'' d of
           (Undefined_Access, d1) \<Rightarrow> (Task_Undefined, d1)
         | (_, d1) \<Rightarrow> (Task_Returned, d1))
      else task_steps [sm_label w_ok ''STANDBY-LP'' ''operatingMode''] (\<lambda>d1. d1)
             (\<lambda>d1. (Task_Returned, d1\<lparr>ds_state := DS_STANDBY\<rparr>)) d)"

definition stow_failed :: "ds_emulator \<Rightarrow> ds_emulator" where
  "stow_failed d = d\<lparr>stowProgress := ''FAILED''\<rparr>"

definition stow_simple_begin :: "bool \<Rightarrow> ds_emulator \<Rightarrow> task_outcome \<times> ds_emulator" where
  "stow_simple_begin enable_failure d =
     (let d1 = d\<lparr>stowProgress := ''RUNNING''\<rparr> in
      if has_label ''operatingMode'' ''STOW'' d1 \<and> has_label ''operatingMode'' ''ESTOP'' d1 \<and>
         has_label ''powerState'' ''LOW-POWER'' d1
      then (Task_Sleeps (Sleep_StowSimple enable_failure), d1)
      else (Task_Threw, stow_failed d1))"

text \<open>Full power becomes low power; the power state \<open>UPS\<close> is kept.\<close>

definition lower_power ::
    "(string \<Rightarrow> scalar \<Rightarrow> bool) \<Rightarrow> bool \<Rightarrow> ds_emulator \<Rightarrow> unit access \<times> ds_emulator" where
  "lower_power w_ok need_label d =
     (case get_enum ''powerState'' d of
        Failing \<Rightarrow> (Failing, d)
      | Undefined_Access \<Rightarrow> (Undefined_Access, d)
      | Got cur \<Rightarrow>
          if need_label \<and> GetEnumAttrLabelValue ''powerState'' cur d = None then (Failing, d)
          else if label_string ''powerState'' cur d = ''FULL-POWER''
          then sm_label w_ok ''LOW-POWER'' ''powerState'' d
          else (Got (), d))"

definition stow_simple_finish ::
    "(string \<Rightarrow> scalar \<Rightarrow> bool) \<Rightarrow> bool \<Rightarrow> bool \<Rightarrow> bool \<Rightarrow> ds_emulator \<Rightarrow> task_outcome \<times> ds_emulator" where
  "stow_simple_finish w_ok signalled unlucky enable_failure d =
     (if signalled then (Task_Returned, d\<lparr>stowProgress := ''ABORTED''\<rparr>)
      else if enable_failure \<and> unlucky then
        (case set_label w_ok ''ESTOP'' ''operatingMode'' (stow_failed d) of
           (Undefined_Access, d1) \<Rightarrow> (Task_Undefined, d1)
         | (_, d1) \<Rightarrow> (Task_Returned, d1))
      else task_steps [sm_label w_ok ''STOW'' ''operatingMode'', lower_power w_ok True] stow_failed
             (\<lambda>d1. (Task_Returned, d1\<lparr>ds_state := DS_DISABLE, stowProgress := ''COMPLETED''\<rparr>)) d)"

subsection \<open>Moving the indexer\<close>

definition indexing_failed :: "ds_emulator \<Rightarrow> ds_emulator" where
  "indexing_failed d = d\<lparr>indexingProgress := ''FAILED''\<rparr>"

definition move_indexer_begin ::
    "(string \<Rightarrow> scalar \<Rightarrow> bool) \<Rightarrow> 16 word \<Rightarrow> ds_emulator \<Rightarrow> task_outcome \<times> ds_emulator" where
  "move_indexer_begin w_ok pos d =
     (let d1 = d\<lparr>indexingProgress := ''RUNNING''\<rparr> in
      case GetEnumAttrLabelValue ''indexerPosition'' pos d1 of
        None \<Rightarrow> (Task_Threw, indexing_failed d1)
      | Some s \<Rightarrow>
          task_steps [set_label w_ok ''MOVING'' ''indexerPosition''] indexing_failed
            (\<lambda>d2. (Task_Sleeps (Sleep_Indexer pos), d2)) (d1\<lparr>ds_state := DS_MOVING\<rparr>))"

text \<open>The device state stays \<open>MOVING\<close>.\<close>

definition move_indexer_finish ::
    "(string \<Rightarrow> scalar \<Rightarrow> bool) \<Rightarrow> bool \<Rightarrow> 16 word \<Rightarrow> ds_emulator \<Rightarrow> task_outcome \<times> ds_emulator" where
  "move_indexer_finish w_ok signalled pos d =
     (if signalled then (Task_Returned, d\<lparr>indexingProgress := ''ABORTED''\<rparr>)
      else task_steps [SetDynAttrValue w_ok (VShort pos) ''indexerPosition''] indexing_failed
             (\<lambda>d1. (Task_Returned, d1\<lparr>indexingProgress := ''COMPLETED''\<rparr>)) d)"

subsection \<open>Stand-by and pointing modes\<close>

definition set_flags ::
    "(string \<Rightarrow> scalar \<Rightarrow> bool) \<Rightarrow> bool \<Rightarrow> string list
     \<Rightarrow> (ds_emulator \<Rightarrow> unit access \<times> ds_emulator) list" where
  "set_flags w_ok b names = List.map (set_flag w_ok b) names"

text \<open>The power state is set unless it is \<open>UPS\<close>.\<close>

definition set_power ::
    "(string \<Rightarrow> scalar \<Rightarrow> bool) \<Rightarrow> string \<Rightarrow> ds_emulator \<Rightarrow> unit access \<times> ds_emulator" where
  "set_power w_ok label d =
     (case get_enum ''powerState'' d of
        Failing \<Rightarrow> (Failing, d)
      | Undefined_Access \<Rightarrow> (Undefined_Access, d)
      | Got cur \<Rightarrow>
          if cur \<noteq> enum_value ''powerState'' ''UPS'' d then sm_label w_ok label ''powerState'' d
          else (Got (), d))"

definition standby_lp_begin :: "bool \<Rightarrow> bool \<Rightarrow> ds_emulator \<Rightarrow> task_outcome \<times> ds_emulator" where
  "standby_lp_begin in_shutdown checkPreConditions d =
     (let go = (\<lambda>d1. (Task_Sleeps (Sleep_LP in_shutdown), d1\<lparr>setStandbyLPModeProgress := ''RUNNING''\<rparr>)) in
      if \<not> checkPreConditions then go d
      else if task_active (setStandbyLPModeProgress d) then (Task_Threw, d)
      else
        (let d1 = d\<lparr>setStandbyLPModeProgress := ''RUNNING''\<rparr>;
             aborted = (Task_Threw, d1\<lparr>setStandbyLPModeProgress := ''ABORTED''\<rparr>)
         in case IsCmdAllowed ''SetStandbyLPMode'' True d1 of
              Pass \<Rightarrow>
                (case get_enum ''operatingMode'' d1 of
                   Failing \<Rightarrow> aborted
                 | Undefined_Access \<Rightarrow> (Task_Undefined, d1)
                 | Got cur \<Rightarrow>
                     if enum_value ''operatingMode'' ''STANDBY-LP'' d1 = cur
                     then (Task_Returned, d1\<lparr>setStandbyLPModeProgress := ''COMPLETED''\<rparr>)
                     else go d1)
            | Gate_Undefined \<Rightarrow> (Task_Undefined, d1)
            | _ \<Rightarrow> aborted))"

definition standby_lp_finish ::
    "(string \<Rightarrow> scalar \<Rightarrow> bool) \<Rightarrow> bool \<Rightarrow> ds_emulator \<Rightarrow> task_outcome \<times> ds_emulator" where
  "standby_lp_finish w_ok signalled d =
     (if signalled then (Task_Returned, d\<lparr>setStandbyLPModeProgress := ''ABORTED''\<rparr>)
      else task_steps
             (set_flags w_ok True brake_names @ set_flags w_ok False servo_names @
              [set_power w_ok ''LOW-POWER'', sm_label w_ok ''NONE'' ''pointingState'',
               sm_label w_ok ''STANDBY-LP'' ''operatingMode''])
             (\<lambda>d1. d1\<lparr>setStandbyLPModeProgress := ''FAILED''\<rparr>)
             (\<lambda>d1. (Task_Returned, d1\<lparr>ds_state := DS_STANDBY, setStandbyLPModeProgress := ''COMPLETED''\<rparr>))
             (DisableTracking d))"

definition standby_fp_begin :: "ds_emulator \<Rightarrow> task_outcome \<times> ds_emulator" where
  "standby_fp_begin d = (Task_Sleeps Sleep_FP, d\<lparr>setStandbyFPModeProgress := ''RUNNING''\<rparr>)"

definition standby_fp_finish ::
    "(string \<Rightarrow> scalar \<Rightarrow> bool) \<Rightarrow> bool \<Rightarrow> ds_emulator \<Rightarrow> task_outcome \<times> ds_emulator" where
  "standby_fp_finish w_ok signalled d =
     (if signalled then (Task_Returned, d\<lparr>setStandbyFPModeProgress := ''ABORTED''\<rparr>)
      else task_steps
             (set_flags w_ok True brake_names @ set_flags w_ok True servo_names @
              [set_power w_ok ''FULL-POWER'', sm_label w_ok ''NONE'' ''pointingState'',
               sm_label w_ok ''STANDBY-FP'' ''operatingMode''])
             (\<lambda>d1. d1\<lparr>setStandbyFPModeProgress := ''FAILED''\<rparr>)
             (\<lambda>d1. (Task_Returned, d1\<lparr>ds_state := DS_ON, setStandbyFPModeProgress := ''COMPLETED''\<rparr>))
             (DisableTracking d))"

definition set_point_begin :: "ds_emulator \<Rightarrow> task_outcome \<times> ds_emulator" where
  "set_point_begin d = (Task_Sleeps Sleep_Point, d\<lparr>setPointModeProgress := ''RUNNING''\<rparr>)"

definition set_point_finish ::
    "(string \<Rightarrow> scalar \<Rightarrow> bool) \<Rightarrow> bool \<Rightarrow> ds_emulator \<Rightarrow> task_outcome \<times> ds_emulator" where
  "set_point_finish w_ok signalled d =
     (if signalled then (Task_Returned, d\<lparr>setPointModeProgress := ''ABORTED''\<rparr>)
      else task_steps
             (set_flags w_ok True servo_names @ set_flags w_ok False brake_names @
              [set_power w_ok ''FULL-POWER'', sm_label w_ok ''READY'' ''pointingState'',
               sm_label w_ok ''POINT'' ''operatingMode''])
             (\<lambda>d1. d1\<lparr>setPointModeProgress := ''FAILED''\<rparr>)
             (\<lambda>d1. (Task_Returned,
                    (EnableTracking d1)\<lparr>ds_state := DS_RUNNING, setPointModeProgress := ''COMPLETED''\<rparr>)) d)"

subsection \<open>Stow and shutdown\<close>

definition stow_task :: "ds_emulator \<Rightarrow> task_outcome \<times> ds_emulator" where
  "stow_task d =
     (case IsCmdAllowed ''Stow'' True d of
        Pass \<Rightarrow>
          if task_active (stowProgress d) then (Task_Threw, d)
          else
            (case get_enum ''operatingMode'' d of
               Failing \<Rightarrow> (Task_Threw, d)
             | Undefined_Access \<Rightarrow> (Task_Undefined, d)
             | Got current_mode \<Rightarrow>
                 if label_string ''operatingMode'' current_mode d = ''STOW''
                 then (Task_Returned, d\<lparr>stowProgress := ''COMPLETED''\<rparr>)
                 else
                   (case schedule_stow d of
                      (True, d1) \<Rightarrow> (Task_Returned, d1)
                    | (False, d1) \<Rightarrow> (Task_Threw, d1)))
      | Gate_Undefined \<Rightarrow> (Task_Undefined, d)
      | _ \<Rightarrow> (Task_Threw, d))"

text \<open>The shutdown after its step to stand-by: the power cut is published.\<close>

definition shutdown_cut :: "task_outcome \<times> ds_emulator \<Rightarrow> task_outcome \<times> ds_emulator" where
  "shutdown_cut r =
     (case r of
        (Task_Returned, d) \<Rightarrow> (Task_Sleeps Sleep_Shutdown, d\<lparr>powerRestored := False, powerCut := True\<rparr>)
      | _ \<Rightarrow> r)"

definition shutdown_begin ::
    "(string \<Rightarrow> scalar \<Rightarrow> bool) \<Rightarrow> ds_emulator \<Rightarrow> task_outcome \<times> ds_emulator" where
  "shutdown_begin w_ok d =
     (if powerCut d then (Task_Returned, d)
      else task_steps [set_label w_ok ''UPS'' ''powerState''] (\<lambda>d1. d1)
             (\<lambda>d1. shutdown_cut (standby_lp_begin True True d1)) d)"

definition shutdown_finish :: "bool \<Rightarrow> ds_emulator \<Rightarrow> task_outcome \<times> ds_emulator" where
  "shutdown_finish signalled d = (if signalled then (Task_Returned, d) else stow_task d)"

subsection \<open>The task thread\<close>

definition process_message ::
    "(string \<Rightarrow> scalar \<Rightarrow> bool) \<Rightarrow> ds_msg \<Rightarrow> ds_emulator \<Rightarrow> task_outcome \<times> ds_emulator" where
  "process_message w_ok msg d =
     (case msg of
        StartupMsg f \<Rightarrow> startup_begin w_ok f d
      | StowMsg \<Rightarrow> stow_task d
      | StowSimpleMsg f \<Rightarrow> stow_simple_begin f d
      | MoveIndexerMsg pos \<Rightarrow> move_indexer_begin w_ok pos d
      | StandbyLPMsg chk \<Rightarrow> standby_lp_begin False chk d
      | StandbyFPMsg \<Rightarrow> standby_fp_begin d
      | PointMsg \<Rightarrow> set_point_begin d
      | ShutdownMsg \<Rightarrow> shutdown_begin w_ok d)"

definition wake_task ::
    "(string \<Rightarrow> scalar \<Rightarrow> bool) \<Rightarrow> bool \<Rightarrow> bool \<Rightarrow> ds_phase \<Rightarrow> ds_emulator
     \<Rightarrow> task_outcome \<times> ds_emulator" where
  "wake_task w_ok signalled unlucky ph d =
     (case ph of
        Sleep_Startup f \<Rightarrow> startup_finish w_ok signalled unlucky f d
      | Sleep_StowSimple f \<Rightarrow> stow_simple_finish w_ok signalled unlucky f d
      | Sleep_Indexer pos \<Rightarrow> move_indexer_finish w_ok signalled pos d
      | Sleep_LP in_shutdown \<Rightarrow>
          if in_shutdown then shutdown_cut (standby_lp_finish w_ok signalled d)
          else standby_lp_finish w_ok signalled d
      | Sleep_FP \<Rightarrow> standby_fp_finish w_ok signalled d
      | Sleep_Point \<Rightarrow> set_point_finish w_ok signalled d
      | Sleep_Shutdown \<Rightarrow> shutdown_finish signalled d)"

text \<open>
  A round of the thread: exceptions of a task are caught by the loop over the messages; \<open>None\<close> is
  undefined behaviour.
\<close>

definition after_task :: "task_outcome \<times> ds_emulator \<Rightarrow> ds_emulator option" where
  "after_task r =
     (case r of
        (Task_Sleeps ph, d) \<Rightarrow> Some (d\<lparr>ds_sleeping := Some ph\<rparr>)
      | (Task_Undefined, d) \<Rightarrow> None
      | (_, d) \<Rightarrow> Some (d\<lparr>ds_sleeping := None\<rparr>))"

definition task_round ::
    "(string \<Rightarrow> scalar \<Rightarrow> bool) \<Rightarrow> bool \<Rightarrow> bool \<Rightarrow> ds_emulator \<Rightarrow> ds_emulator option" where
  "task_round w_ok signalled unlucky d =
     (case ds_sleeping d of
        Some ph \<Rightarrow> after_task (wake_task w_ok signalled unlucky ph d)
      | None \<Rightarrow>
          (case ds_messages d of
             [] \<Rightarrow> Some d
           | m # ms \<Rightarrow> after_task (process_message w_ok m (d\<lparr>ds_messages := ms\<rparr>))))"

end
