(* ===== verification/DsTracking.thy ===== *)
theory DsTracking
  imports DsTask
begin

text \<open>
  The tracking thread of the emulator (\<open>src/src/devices/emulators/DSEmulator/TrackingThread.cpp\<close>): it
  takes the pointing data from the queue, slews to their coordinates in steps and sets them. The
  current time (in seconds since the epoch), the gaussian random numbers and what other threads do
  while this thread waits are arguments.
\<close>

definition get_double :: "string \<Rightarrow> 'z lmc_device_scheme \<Rightarrow> real access" where
  "get_double attr_name d =
     (case GetDynAttrValue TDouble attr_name d of
        Got (VDouble r) \<Rightarrow> Got r
      | Got _ \<Rightarrow> Undefined_Access
      | Failing \<Rightarrow> Failing
      | Undefined_Access \<Rightarrow> Undefined_Access)"

definition set_double ::
    "(string \<Rightarrow> scalar \<Rightarrow> bool) \<Rightarrow> real \<Rightarrow> string \<Rightarrow> 'z lmc_device_scheme
     \<Rightarrow> unit access \<times> 'z lmc_device_scheme" where
  "set_double w_ok r attr_name d = SetDynAttrValue w_ok (VDouble r) attr_name d"

text \<open>The antenna position attributes and the attribute \<open>achievedPointing\<close>.\<close>

definition set_position ::
    "(string \<Rightarrow> scalar \<Rightarrow> bool) \<Rightarrow> real \<Rightarrow> real \<Rightarrow> real \<Rightarrow> ds_emulator \<Rightarrow> unit access \<times> ds_emulator" where
  "set_position w_ok now az el d =
     run_steps
       [set_double w_ok az ''antennaAzPosition'', set_double w_ok el ''antennaElPosition'',
        \<lambda>d1. (Got (), d1\<lparr>achievedPointing := [now * 1000, az, el] @ drop 3 (achievedPointing d1)\<rparr>)] d"

subsection \<open>Slewing\<close>

datatype slew_outcome = Slew_Reached | Slew_Moving slew_vars | Slew_Stopped | Slew_Undefined

definition stow_status :: "pointing_data \<Rightarrow> string \<Rightarrow> ds_emulator \<Rightarrow> ds_emulator" where
  "stow_status p status d = (if pd_pntType p = eSTOW then d\<lparr>stowProgress := status\<rparr> else d)"

definition slew_steps ::
    "pointing_data \<Rightarrow> slew_outcome \<Rightarrow> unit access \<times> ds_emulator \<Rightarrow> slew_outcome \<times> ds_emulator" where
  "slew_steps p go_on r =
     (case r of
        (Got _, d1) \<Rightarrow> (go_on, d1)
      | (Failing, d1) \<Rightarrow> (Slew_Stopped, stow_status p ''FAILED'' d1)
      | (Undefined_Access, d1) \<Rightarrow> (Slew_Undefined, d1))"

definition slew_start :: "ds_config \<Rightarrow> pointing_data \<Rightarrow> real \<Rightarrow> real \<Rightarrow> slew_vars" where
  "slew_start cf p startAz startEl =
     (let reso = pointingResolution cf / 3600; dAz = pd_az p - startAz; dEl = pd_el p - startEl;
          step = slewRate cf * (slewTimeStep cf / 1000)
      in \<lparr>currentAz = startAz, currentEl = startEl,
          azPosStep = (if dAz < 0 then step * -1 else step),
          elPosStep = (if dEl < 0 then step * -1 else step),
          azReached = (\<bar>dAz\<bar> \<le> reso), elReached = (\<bar>dEl\<bar> \<le> reso)\<rparr>)"

text \<open>\<open>Slew\<close> up to its loop.\<close>

definition slew_begin ::
    "(string \<Rightarrow> scalar \<Rightarrow> bool) \<Rightarrow> pointing_data \<Rightarrow> ds_emulator \<Rightarrow> slew_outcome \<times> ds_emulator" where
  "slew_begin w_ok p d =
     (if \<not> trackingEnabled d then (Slew_Stopped, d)
      else
        (let d1 = stow_status p ''RUNNING'' d in
         case (get_double ''antennaAzPosition'' d1, get_double ''antennaElPosition'' d1) of
           (Got startAz, Got startEl) \<Rightarrow>
             (let v = slew_start (ds_cfg d1) p startAz startEl in
              if azReached v \<and> elReached v then (Slew_Reached, d1)
              else slew_steps p (Slew_Moving v)
                     (run_steps [set_label w_ok ''SLEW'' ''pointingState'', set_flag w_ok False ''targetLock'']
                        d1))
         | (Undefined_Access, _) \<Rightarrow> (Slew_Undefined, d1)
         | (Got _, Undefined_Access) \<Rightarrow> (Slew_Undefined, d1)
         | _ \<Rightarrow> (Slew_Stopped, stow_status p ''FAILED'' d1)))"

text \<open>One axis moves a step; it stops at the target.\<close>

definition move_axis :: "real \<Rightarrow> real \<Rightarrow> bool \<Rightarrow> real \<Rightarrow> real \<times> bool" where
  "move_axis stop step reached current =
     (if reached then (current, True)
      else
        (let c = current + step
         in if step > 0 \<and> c - stop \<ge> 0 \<or> step < 0 \<and> c - stop \<le> 0 then (stop, True) else (c, False)))"

definition slew_move :: "pointing_data \<Rightarrow> slew_vars \<Rightarrow> slew_vars" where
  "slew_move p v =
     (case move_axis (pd_az p) (azPosStep v) (azReached v) (currentAz v) of
        (az, azR) \<Rightarrow>
          (case move_axis (pd_el p) (elPosStep v) (elReached v) (currentEl v) of
             (el, elR) \<Rightarrow>
               v\<lparr>currentAz := az, currentEl := el, azReached := azR, elReached := elR\<rparr>))"

text \<open>The body of the loop before its wait, and what follows the wait.\<close>

definition slew_iter ::
    "(string \<Rightarrow> scalar \<Rightarrow> bool) \<Rightarrow> real \<Rightarrow> pointing_data \<Rightarrow> slew_vars \<Rightarrow> ds_emulator
     \<Rightarrow> slew_outcome \<times> ds_emulator" where
  "slew_iter w_ok now p v d =
     (let v' = slew_move p v
      in slew_steps p (Slew_Moving v') (set_position w_ok now (currentAz v') (currentEl v') d))"

definition slew_check :: "pointing_data \<Rightarrow> slew_vars \<Rightarrow> ds_emulator \<Rightarrow> slew_outcome \<times> ds_emulator" where
  "slew_check p v d =
     (if stopThread d \<or> \<not> trackingEnabled d then (Slew_Stopped, stow_status p ''CANCELED'' d)
      else if azReached v \<and> elReached v then (Slew_Reached, d)
      else (Slew_Moving v, d))"

text \<open>The loop. \<open>env n\<close> is the outcome of writes, the time, and what others do in the wait of round \<open>n\<close>.\<close>

record slew_env =
  env_w_ok :: "string \<Rightarrow> scalar \<Rightarrow> bool"
  env_now :: real
  env_others :: "ds_emulator \<Rightarrow> ds_emulator"

partial_function (option) slew_loop ::
    "(nat \<Rightarrow> slew_env) \<Rightarrow> nat \<Rightarrow> pointing_data \<Rightarrow> slew_vars \<Rightarrow> ds_emulator
     \<Rightarrow> (slew_outcome \<times> ds_emulator) option" where
  "slew_loop env n p v d =
     (case slew_iter (env_w_ok (env n)) (env_now (env n)) p v d of
        (Slew_Moving v1, d1) \<Rightarrow>
          (case slew_check p v1 (env_others (env n) d1) of
             (Slew_Moving v2, d2) \<Rightarrow> slew_loop env (Suc n) p v2 d2
           | r \<Rightarrow> Some r)
      | r \<Rightarrow> Some r)"

definition Slew ::
    "(nat \<Rightarrow> slew_env) \<Rightarrow> pointing_data \<Rightarrow> ds_emulator \<Rightarrow> (slew_outcome \<times> ds_emulator) option" where
  "Slew env p d =
     (case slew_begin (env_w_ok (env 0)) p d of
        (Slew_Moving v, d1) \<Rightarrow> slew_loop env 0 p v d1
      | r \<Rightarrow> Some r)"

subsection \<open>Setting the coordinates\<close>

definition SmearPointing :: "real \<times> real \<Rightarrow> pointing_data \<Rightarrow> pointing_data" where
  "SmearPointing g p = p\<lparr>pd_az := pd_az p + fst g, pd_el := pd_el p + snd g\<rparr>"

definition finish_stow ::
    "(string \<Rightarrow> scalar \<Rightarrow> bool) \<Rightarrow> ds_emulator \<Rightarrow> unit access \<times> ds_emulator" where
  "finish_stow w_ok d =
     (case run_steps
             (set_flag w_ok False ''targetLock'' # set_flags w_ok True brake_names @
              set_flags w_ok False servo_names @
              [lower_power w_ok False, sm_label w_ok ''NONE'' ''pointingState'',
               sm_label w_ok ''STOW'' ''operatingMode''])
             (DisableTracking d) of
        (Got _, d1) \<Rightarrow> (Got (), d1\<lparr>ds_state := DS_DISABLE, stowProgress := ''COMPLETED''\<rparr>)
      | (Failing, d1) \<Rightarrow> (Failing, stow_failed d1)
      | (Undefined_Access, d1) \<Rightarrow> (Undefined_Access, d1))"

definition SetTrackCoords ::
    "(string \<Rightarrow> scalar \<Rightarrow> bool) \<Rightarrow> real \<Rightarrow> real \<times> real \<Rightarrow> pointing_data \<Rightarrow> bool \<Rightarrow> ds_emulator
     \<Rightarrow> unit access \<times> ds_emulator" where
  "SetTrackCoords w_ok now g p smearCoords d =
     (let p1 = (if smearCoords then SmearPointing g p else p); is_stow = (pd_pntType p = eSTOW)
      in run_steps
           ((if is_stow then []
             else [set_label w_ok ''TRACK'' ''pointingState'', set_flag w_ok True ''targetLock'']) @
            [set_position w_ok now (pd_az p1) (pd_el p1),
             \<lambda>d1. if IsQueueEmpty (ds_schedule d1) then set_label w_ok ''READY'' ''pointingState'' d1
                   else (Got (), d1)] @
            (if is_stow then [finish_stow w_ok] else [])) d)"

subsection \<open>The thread\<close>

text \<open>
  \<open>Run\<close>, a step at a time; \<open>None\<close> is undefined behaviour. \<open>PopTrackCoordsFromQueue\<close> is part of the step
  from \<open>T_Waiting\<close>: when it is too early or the data have expired, the thread is there again.
\<close>

definition tracker_pop :: "real \<Rightarrow> ds_emulator \<Rightarrow> ds_emulator" where
  "tracker_pop now d =
     (case Pop now PointingData_default 0 (ds_schedule d) of
        (st, p, _, s1) \<Rightarrow>
          if st = 0 then d\<lparr>ds_schedule := s1, tracker_at := T_Popped p\<rparr> else d\<lparr>ds_schedule := s1\<rparr>)"

definition tracker_slew ::
    "pointing_data \<Rightarrow> (slew_vars \<Rightarrow> tracker) \<Rightarrow> slew_outcome \<times> ds_emulator \<Rightarrow> ds_emulator option" where
  "tracker_slew p moving r =
     (case r of
        (Slew_Reached, d1) \<Rightarrow> Some (d1\<lparr>tracker_at := T_At p\<rparr>)
      | (Slew_Moving v, d1) \<Rightarrow> Some (d1\<lparr>tracker_at := moving v\<rparr>)
      | (Slew_Stopped, d1) \<Rightarrow> Some (d1\<lparr>tracker_at := T_Waiting\<rparr>)
      | (Slew_Undefined, d1) \<Rightarrow> None)"

definition tracker_step ::
    "(string \<Rightarrow> scalar \<Rightarrow> bool) \<Rightarrow> real \<Rightarrow> real \<times> real \<Rightarrow> ds_emulator \<Rightarrow> ds_emulator option" where
  "tracker_step w_ok now g d =
     (case tracker_at d of
        T_Ended \<Rightarrow> Some d
      | T_Waiting \<Rightarrow>
          if stopThread d then Some (d\<lparr>tracker_at := T_Ended\<rparr>)
          else if HasEntriesInQueue (ds_schedule d) \<and> trackingEnabled d then Some (tracker_pop now d)
          else Some d
      | T_Popped p \<Rightarrow> tracker_slew p (T_Slewing p) (slew_begin w_ok p d)
      | T_Slewing p v \<Rightarrow> tracker_slew p (T_Slept p) (slew_iter w_ok now p v d)
      | T_Slept p v \<Rightarrow> tracker_slew p (T_Slewing p) (slew_check p v d)
      | T_At p \<Rightarrow>
          (case SetTrackCoords w_ok now g p (smearPointingCoords (ds_cfg d) \<and> pd_pntType p \<noteq> eSTOW) d of
             (Undefined_Access, d1) \<Rightarrow> None
           | (_, d1) \<Rightarrow> Some (d1\<lparr>tracker_at := T_Waiting\<rparr>)))"

definition stop_tracking_thread :: "ds_emulator \<Rightarrow> ds_emulator" where
  "stop_tracking_thread d = d\<lparr>stopThread := True\<rparr>"

end
