(* ===== verification/DsPointingSpec.thy ===== *)
theory DsPointingSpec
  imports DsPointing
begin

text \<open>
  The abstract view of the pointing queue: a partial function from time stamps to pointing data, where
  the first data pushed for a time stamp stay. The locale \<open>timed_store\<close> is the interface between that
  view and its clients; it is interpreted on the \<open>std::set\<close> of the class \<open>PointingSchedule\<close>.
\<close>

subsection \<open>A store by time stamps\<close>

locale timed_store =
  fixes look :: "'s \<Rightarrow> real \<Rightarrow> 'p option"
    and add :: "'p \<Rightarrow> 's \<Rightarrow> 's"
    and time_of :: "'p \<Rightarrow> real"
    and inv :: "'s \<Rightarrow> bool"
  assumes look_add: "inv s \<Longrightarrow>
            look (add p s) t = (if t = time_of p \<and> look s t = None then Some p else look s t)"
    and inv_add: "inv s \<Longrightarrow> inv (add p s)"
begin

lemma inv_fold_add: "inv s \<Longrightarrow> inv (fold add ps s)"
  by (induction ps arbitrary: s) (auto simp: inv_add)

lemma look_fold_add:
  "inv s \<Longrightarrow> look (fold add ps s) t =
     (case look s t of Some q \<Rightarrow> Some q | None \<Rightarrow> find (\<lambda>p. time_of p = t) ps)"
  by (induction ps arbitrary: s) (auto simp: inv_add look_add split: option.splits)

lemma fold_add_keeps: "inv s \<Longrightarrow> look s t = Some q \<Longrightarrow> look (fold add ps s) t = Some q"
  by (simp add: look_fold_add)

end

subsection \<open>The queue\<close>

interpretation pnt: strict_weak_on pnt_before UNIV
  unfolding pnt_before_def [abs_def] by (rule strict_weak_on_key)

definition queue_at :: "pointing_data list \<Rightarrow> real \<Rightarrow> pointing_data option" where
  "queue_at q t = find (\<lambda>p. pd_t p = t) q"

definition program :: "schedule \<Rightarrow> real \<Rightarrow> pointing_data option" where
  "program s = queue_at (pointingQueue s)"

definition queue_sorted :: "pointing_data list \<Rightarrow> bool" where
  "queue_sorted q \<longleftrightarrow> sorted_wrt pnt_before q"

lemma queue_at_simps [simp]:
  "queue_at [] t = None"
  "queue_at (p # q) t = (if pd_t p = t then Some p else queue_at q t)"
  by (simp_all add: queue_at_def)

lemma queue_at_later: "\<forall>r\<in>set q. t < pd_t r \<Longrightarrow> queue_at q t = None"
  by (induction q) auto

lemma queue_at_first: "\<forall>r\<in>set q. a < pd_t r \<Longrightarrow> t \<le> a \<Longrightarrow> queue_at q t = None"
  by (rule queue_at_later) auto

lemma queue_at_in_set: "queue_at q t = Some p \<Longrightarrow> p \<in> set q \<and> pd_t p = t"
  by (induction q) (auto split: if_splits)

lemma queue_sorted_simps [simp]:
  "queue_sorted []"
  "queue_sorted (p # q) \<longleftrightarrow> (\<forall>r\<in>set q. pd_t p < pd_t r) \<and> queue_sorted q"
  by (auto simp: queue_sorted_def pnt_before_def)

lemma queue_sorted_insert: "queue_sorted q \<Longrightarrow> queue_sorted (set_insert pnt_before p q)"
  unfolding queue_sorted_def by (rule pnt.sorted_set_insert) auto

lemma queue_at_insert:
  "queue_sorted q \<Longrightarrow> queue_at (set_insert pnt_before p q) t =
     (if t = pd_t p \<and> queue_at q t = None then Some p else queue_at q t)"
  by (induction q) (auto simp: pnt_before_def queue_at_first)

interpretation pq: timed_store queue_at "set_insert pnt_before" pd_t queue_sorted
  by unfold_locales (simp_all add: queue_at_insert queue_sorted_insert)

lemma queue_at_member: "queue_sorted q \<Longrightarrow> p \<in> set q \<Longrightarrow> queue_at q (pd_t p) = Some p"
  by (induction q) auto

subsection \<open>The invariant of the schedule\<close>

definition sched_ok :: "schedule \<Rightarrow> bool" where
  "sched_ok s \<longleftrightarrow> queue_sorted (pointingQueue s) \<and>
     int (length (pointingQueue s)) \<le> max 1 (maxQueueSize s)"

lemma sched_ok_sorted: "sched_ok s \<Longrightarrow> queue_sorted (pointingQueue s)"
  by (simp add: sched_ok_def)

lemma length_fold_insert: "length (fold (set_insert lt) ps q) \<le> length ps + length q"
proof (induction ps arbitrary: q)
  case (Cons p ps)
  show ?case using Cons.IH [of "set_insert lt p q"] length_set_insert [of lt p q] by simp
qed simp

lemma sched_ok_new [simp]: "sched_ok (SetMaxQueueSize n PointingSchedule_new)"
  by (simp add: sched_ok_def SetMaxQueueSize_def PointingSchedule_new_def)

lemma sched_ok_flush [simp]: "sched_ok (flush_queue s)"
  by (simp add: sched_ok_def flush_queue_def)

lemma sched_ok_Push:
  assumes "sched_ok s" and "Push data s = (st, s')"
    and "\<And>p. data = Some p \<Longrightarrow> pd_pntType p = eSTOW \<Longrightarrow> pointingQueue s = []"
  shows "sched_ok s'"
proof (cases data)
  case None
  with assms show ?thesis by (simp add: Push_def)
next
  case (Some p)
  have "int (length (set_insert pnt_before p (pointingQueue s))) \<le> int (length (pointingQueue s)) + 1"
    using length_set_insert [of pnt_before p "pointingQueue s"] by simp
  with Some assms show ?thesis
    by (auto simp: Push_def is_queue_full_def sched_ok_def queue_sorted_insert split: if_splits)
qed

lemma sched_ok_Push_list: "sched_ok s \<Longrightarrow> Push_list ps s = (st, s') \<Longrightarrow> sched_ok s'"
  using length_fold_insert [of pnt_before ps "pointingQueue s"]
  by (auto simp: Push_list_def sched_ok_def pq.inv_fold_add split: if_splits)

lemma sched_ok_Pop: "sched_ok s \<Longrightarrow> Pop now data td s = (st, p, td', s') \<Longrightarrow> sched_ok s'"
  by (auto simp: Pop_def sched_ok_def Let_def split: list.splits if_splits)

lemma Push_limits: "Push data s = (st, s') \<Longrightarrow> maxQueueSize s' = maxQueueSize s \<and> expiredTimeThr s' = expiredTimeThr s"
  by (auto simp: Push_def split: option.splits if_splits)

lemma Push_list_limits: "Push_list ps s = (st, s') \<Longrightarrow> maxQueueSize s' = maxQueueSize s \<and> expiredTimeThr s' = expiredTimeThr s"
  by (auto simp: Push_list_def split: if_splits)

lemma Pop_limits: "Pop now data td s = (st, p, td', s') \<Longrightarrow> maxQueueSize s' = maxQueueSize s \<and> expiredTimeThr s' = expiredTimeThr s"
  by (auto simp: Pop_def Let_def split: list.splits if_splits)

subsection \<open>Operations on the abstract view\<close>

lemma Push_program:
  assumes "sched_ok s" and "Push (Some p) s = (st, s')"
  shows "st = (if is_queue_full s \<and> pd_pntType p \<noteq> eSTOW then -1 else 0) \<and>
         program s' = (if st = 0 \<and> program s (pd_t p) = None then (program s)(pd_t p \<mapsto> p) else program s)"
  using assms sched_ok_sorted [OF assms(1)]
  by (auto simp: Push_def program_def queue_at_insert fun_eq_iff split: if_splits)

lemma Push_list_program:
  assumes "sched_ok s" and "Push_list ps s = (0, s')"
  shows "program s' t = (case program s t of Some q \<Rightarrow> Some q | None \<Rightarrow> find (\<lambda>p. pd_t p = t) ps)"
  using assms by (auto simp: Push_list_def program_def sched_ok_sorted pq.look_fold_add split: if_splits)

lemma Push_list_fails: "Push_list ps s = (st, s') \<Longrightarrow> st \<noteq> 0 \<Longrightarrow> s' = s"
  by (auto simp: Push_list_def split: if_splits)

lemma Push_list_status: "Push_list ps s = (st, s') \<Longrightarrow> st = 0 \<or> st = -1"
  by (auto simp: Push_list_def split: if_splits)

lemma Push_status: "Push data s = (st, s') \<Longrightarrow> st = 0 \<or> st = -1 \<and> s' = s"
  by (auto simp: Push_def split: option.splits if_splits)

lemma program_hd:
  "sched_ok s \<Longrightarrow> pointingQueue s = p # q \<Longrightarrow> program s (pd_t p) = Some p"
  by (simp add: program_def)

lemma program_tl:
  "sched_ok s \<Longrightarrow> pointingQueue s = p # q \<Longrightarrow>
     program (s\<lparr>pointingQueue := q\<rparr>) = (program s)(pd_t p := None)"
  by (auto simp: program_def sched_ok_def queue_at_later fun_eq_iff)

lemma program_first:
  "sched_ok s \<Longrightarrow> pointingQueue s = p # q \<Longrightarrow> program s t = Some r \<Longrightarrow> pd_t p \<le> t"
  using queue_at_in_set [of "pointingQueue s" t r] by (auto simp: program_def sched_ok_def split: if_splits)

text \<open>The size of the queue is the number of the time stamps of the program.\<close>

lemma queue_sorted_distinct: "queue_sorted q \<Longrightarrow> distinct (List.map pd_t q)"
  by (induction q) auto

lemma program_dom: "queue_sorted (pointingQueue s) \<Longrightarrow> dom (program s) = pd_t ` set (pointingQueue s)"
  by (auto simp: program_def dom_def image_iff dest: queue_at_in_set intro: queue_at_member)

lemma program_size: "queue_sorted (pointingQueue s) \<Longrightarrow> card (dom (program s)) = length (pointingQueue s)"
  using distinct_card [of "List.map pd_t (pointingQueue s)"] queue_sorted_distinct [of "pointingQueue s"]
  by (simp add: program_dom)

text \<open>The time at which data become active, and what \<open>Pop\<close> does in terms of it.\<close>

definition active_at :: "pointing_data \<Rightarrow> real \<Rightarrow> real" where
  "active_at p now = (if pd_t p \<ge> 0 then pd_timestamp p else now)"

lemma Pop_first:
  assumes "pointingQueue s = p # q"
  shows "Pop now data td s =
     (let late = (now - active_at p now) * 1000 in
      if late < 0 then (1, data, - late, s)
      else if late < of_int (expiredTimeThr s)
      then (0, p\<lparr>pd_dt := late\<rparr>, - late, s\<lparr>pointingQueue := q\<rparr>)
      else (-1, data, - late, s\<lparr>pointingQueue := q\<rparr>))"
  using assms by (auto simp: Pop_def Let_def time_diff_usec_def active_at_def field_simps)

end
