(* ===== verification/LmcDeviceSpec.thy ===== *)
theory LmcDeviceSpec
  imports LmcDevice
begin

text \<open>
  What operations on the attributes keep: the shape of a device is everything about its attributes
  but their values, with its commands and its rules. Setting a value keeps the shape and the values of
  the other attributes, and with a defined, well-typed value the attribute has it afterwards.
\<close>

subsection \<open>The shape of a device\<close>

definition attr_shape :: "dyn_attr \<Rightarrow> data_type \<times> bool \<times> string list \<times> bool \<times> ctype" where
  "attr_shape a = (at_type a, at_scalar a, at_labels a, at_written a, ctype_of (at_value a))"

definition shape ::
    "'z lmc_device_scheme \<Rightarrow> (string \<Rightarrow> (data_type \<times> bool \<times> string list \<times> bool \<times> ctype) option)
       \<times> string list \<times> rule_factory" where
  "shape d = (\<lambda>n. map_option attr_shape (map_of (dyn_attrs d) n), dev_commands d, rules d)"

lemma shape_attr:
  "shape d' = shape d \<Longrightarrow>
     map_option attr_shape (map_of (dyn_attrs d') n) = map_option attr_shape (map_of (dyn_attrs d) n)"
  by (simp add: shape_def fun_eq_iff)

lemma shape_Some:
  assumes "shape d' = shape d" and "map_of (dyn_attrs d) n = Some a"
  obtains a' where "map_of (dyn_attrs d') n = Some a'" and "at_type a' = at_type a"
    and "at_scalar a' = at_scalar a" and "at_labels a' = at_labels a" and "at_written a' = at_written a"
    and "ctype_of (at_value a') = ctype_of (at_value a)"
  using shape_attr [OF assms(1), of n] assms(2) by (auto simp: attr_shape_def)

lemma shape_None: "shape d' = shape d \<Longrightarrow> map_of (dyn_attrs d) n = None \<Longrightarrow> map_of (dyn_attrs d') n = None"
  using shape_attr [of d' d n] by simp

lemma shape_rules: "shape d' = shape d \<Longrightarrow> rules d' = rules d"
  by (simp add: shape_def)

lemma shape_commands: "shape d' = shape d \<Longrightarrow> dev_commands d' = dev_commands d"
  by (simp add: shape_def)

lemma shape_set_value:
  assumes "map_of (dyn_attrs d) n = Some a" and "ctype_of v = ctype_of (at_value a)"
  shows "shape (set_value n v d) = shape d"
  using assms by (auto simp: shape_def set_value_def map_of_modify attr_shape_def fun_eq_iff)

lemma label_shape:
  assumes "shape d' = shape d"
  shows "GetEnumAttrLabelValue n w d' = GetEnumAttrLabelValue n w d"
proof (cases "map_of (dyn_attrs d) n")
  case None
  with shape_None [OF assms None] show ?thesis by (simp add: GetEnumAttrLabelValue_def)
next
  case (Some a)
  from shape_Some [OF assms Some] obtain a' where "map_of (dyn_attrs d') n = Some a'"
    "at_type a' = at_type a" "at_labels a' = at_labels a" by blast
  with Some show ?thesis by (simp add: GetEnumAttrLabelValue_def)
qed

lemma enum_shape:
  assumes "shape d' = shape d"
  shows "GetEnumAttrValue n l d' = GetEnumAttrValue n l d"
proof (cases "map_of (dyn_attrs d) n")
  case None
  with shape_None [OF assms None] show ?thesis by (simp add: GetEnumAttrValue_def)
next
  case (Some a)
  from shape_Some [OF assms Some] obtain a' where "map_of (dyn_attrs d') n = Some a'"
    "at_type a' = at_type a" "at_labels a' = at_labels a" by blast
  with Some show ?thesis by (simp add: GetEnumAttrValue_def)
qed

lemma label_string_shape: "shape d' = shape d \<Longrightarrow> label_string n w d' = label_string n w d"
  unfolding label_string_def by (drule label_shape [of d' d n w]) simp

lemma enum_value_shape: "shape d' = shape d \<Longrightarrow> enum_value n l d' = enum_value n l d"
  unfolding enum_value_def by (drule enum_shape [of d' d n l]) simp

subsection \<open>Setting values\<close>

text \<open>The value an attribute has.\<close>

definition value_at :: "string \<Rightarrow> 'z lmc_device_scheme \<Rightarrow> scalar option" where
  "value_at n d = map_option at_value (map_of (dyn_attrs d) n)"

lemma value_at_set_value:
  "value_at m (set_value n v d) = (if m = n then map_option (\<lambda>_. v) (value_at n d) else value_at m d)"
  by (auto simp: value_at_def set_value_def map_of_modify option.map_comp comp_def)

lemma SetDynAttrValueInManager_Got:
  assumes "SetDynAttrValueInManager v n d = Got d'"
  shows "shape d' = shape d \<and> d' = set_value n v d \<and> value_at n d' = Some v"
proof -
  from assms obtain a where "map_of (dyn_attrs d) n = Some a" "ctype_of v = ctype_of (at_value a)"
    "d' = set_value n v d"
    by (auto simp: SetDynAttrValueInManager_def split: option.splits scalar.splits if_splits)
  then show ?thesis
    by (simp add: shape_set_value value_at_set_value) (simp add: value_at_def)
qed

lemma SetDynAttrValue_cases:
  assumes "SetDynAttrValue w_ok v n d = (r, d')"
  shows "r \<noteq> Got () \<and> d' = d \<or> d' = set_value n v d \<and> shape d' = shape d \<and> value_at n d' = Some v"
  using assms
  by (auto simp: SetDynAttrValue_def dest!: SetDynAttrValueInManager_Got
      split: option.splits if_splits access.splits)

text \<open>Only the table of the attributes changes.\<close>

definition attrs_only :: "'z lmc_device_scheme \<Rightarrow> 'z lmc_device_scheme \<Rightarrow> bool" where
  "attrs_only d d' \<longleftrightarrow> d\<lparr>dyn_attrs := dyn_attrs d'\<rparr> = d'"

lemma attrs_only_refl [simp]: "attrs_only d d"
  by (simp add: attrs_only_def)

lemma attrs_only_trans: "attrs_only d d' \<Longrightarrow> attrs_only d' d'' \<Longrightarrow> attrs_only d d''"
  unfolding attrs_only_def by (metis lmc_device.surjective lmc_device.update_convs(1))

lemma attrs_only_set_value [simp]: "attrs_only d (set_value n v d)"
  by (simp add: attrs_only_def set_value_def)

lemma SetDynAttrValue_attrs: "SetDynAttrValue w_ok v n d = (r, d') \<Longrightarrow> attrs_only d d'"
  using SetDynAttrValue_cases [of w_ok v n d r d'] by auto

lemma SetDynAttrValue_shape: "SetDynAttrValue w_ok v n d = (r, d') \<Longrightarrow> shape d' = shape d"
  using SetDynAttrValue_cases [of w_ok v n d r d'] by auto

lemma SetDynAttrValue_others:
  "SetDynAttrValue w_ok v n d = (r, d') \<Longrightarrow> m \<noteq> n \<Longrightarrow> value_at m d' = value_at m d"
  using SetDynAttrValue_cases [of w_ok v n d r d'] by (auto simp: value_at_set_value)

lemma SetDynAttrValue_sets: "SetDynAttrValue w_ok v n d = (Got (), d') \<Longrightarrow> value_at n d' = Some v"
  using SetDynAttrValue_cases [of w_ok v n d "Got ()" d'] by auto

lemma SetSMDynAttrValue_cases:
  assumes "SetSMDynAttrValue w_ok v n d = (r, d')"
  shows "shape d' = shape d \<and> attrs_only d d' \<and> (\<forall>m. m \<noteq> n \<longrightarrow> value_at m d' = value_at m d) \<and>
    (r = Got () \<longrightarrow> value_at n d' = Some v)"
proof -
  consider "r \<noteq> Got ()" "d' = d" | "SetDynAttrValue w_ok v n d = (r, d')"
    | cur d1 r1 r2 where "r \<noteq> Got ()" "SetDynAttrValue w_ok v n d = (r1, d1)"
        "SetDynAttrValue w_ok cur n d1 = (r2, d')"
    using assms by (auto simp: SetSMDynAttrValue_def split: access.splits option.splits bool.splits prod.splits)
  then show ?thesis
  proof cases
    case 3
    then show ?thesis
      using SetDynAttrValue_shape [OF 3(2)] SetDynAttrValue_shape [OF 3(3)]
        SetDynAttrValue_others [OF 3(2)] SetDynAttrValue_others [OF 3(3)]
        attrs_only_trans [OF SetDynAttrValue_attrs [OF 3(2)] SetDynAttrValue_attrs [OF 3(3)]] by simp
  qed (auto dest: SetDynAttrValue_shape SetDynAttrValue_attrs SetDynAttrValue_others SetDynAttrValue_sets)
qed

subsection \<open>Writing from outside\<close>

text \<open>
  What the setting of values and the commands of the write actions keep is kept by the whole callback:
  the locale takes a preorder on devices that well-typed values respect.
\<close>

locale kept_by_values =
  fixes kept :: "'z lmc_device_scheme \<Rightarrow> 'z lmc_device_scheme \<Rightarrow> bool"
  assumes kept_refl: "kept d d"
    and kept_trans: "kept d d1 \<Longrightarrow> kept d1 d2 \<Longrightarrow> kept d d2"
    and kept_value: "map_of (dyn_attrs d) n = Some a \<Longrightarrow> ctype_of v = ctype_of (at_value a) \<Longrightarrow>
                       kept d (set_value n v d)"
begin

lemma run_actions_kept:
  assumes "run_actions exec chk cs d = (b, d')" and "\<And>c e b e'. exec c e = (b, e') \<Longrightarrow> kept e e'"
  shows "kept d d'"
  using assms(1)
proof (induction cs arbitrary: d)
  case Nil
  then show ?case by (simp add: kept_refl)
next
  case (Cons c cs)
  show ?case
  proof (cases "chk \<and> c \<notin> set (dev_commands d)")
    case True
    with Cons show ?thesis by simp
  next
    case False
    obtain b1 d1 where e: "exec c d = (b1, d1)" by fastforce
    with False Cons.prems Cons.IH [of d1] have "kept d1 d'" by (cases b1) (auto simp: kept_refl)
    with assms(2) [OF e] show ?thesis by (rule kept_trans)
  qed
qed

lemma ExecuteAttrWriteActions_kept:
  assumes "ExecuteAttrWriteActions exec n pre chk d = (r, d')"
    and "\<And>c e b e'. exec c e = (b, e') \<Longrightarrow> kept e e'"
  shows "kept d d'"
  using assms(1)
  by (auto simp: ExecuteAttrWriteActions_def kept_refl dest: run_actions_kept [OF _ assms(2)]
      split: if_splits option.splits prod.splits bool.splits)

lemma SetScalarDynWAttr_kept: "SetScalarDynWAttr w n d = Got d' \<Longrightarrow> kept d d'"
  by (auto simp: SetScalarDynWAttr_def intro!: kept_value split: option.splits if_splits)

lemma dyn_attr_write_cb_kept:
  assumes "dyn_attr_write_cb exec w n d = (r, d')"
    and "\<And>c e b e'. exec c e = (b, e') \<Longrightarrow> kept e e'"
  shows "kept d d'"
proof -
  have act: "kept e e'" if "ExecuteAttrWriteActions exec n pre chk e = (q, e')" for pre chk e q e'
    using that assms(2) by (rule ExecuteAttrWriteActions_kept)
  obtain r1 d1 where e: "ExecuteAttrWriteActions exec n True False d = (r1, d1)" by fastforce
  show ?thesis
  proof (cases "IsAttrWriteAllowed n False d = Pass \<and> r1 = Got ()")
    case False
    with assms(1) e act [OF e] show ?thesis
      by (cases r1) (simp_all add: dyn_attr_write_cb_def kept_refl split: gate.splits)
  next
    case True
    show ?thesis
    proof (cases "SetScalarDynWAttr w n d1")
      case (Got d2)
      with True assms(1) e have "ExecuteAttrWriteActions exec n False False d2 = (r, d')"
        by (simp add: dyn_attr_write_cb_def)
      from kept_trans [OF act [OF e] kept_trans [OF SetScalarDynWAttr_kept [OF Got] act [OF this]]]
      show ?thesis .
    qed (use True assms(1) e act [OF e] in \<open>simp_all add: dyn_attr_write_cb_def\<close>)
  qed
qed

end

interpretation kept_shape: kept_by_values "\<lambda>d d'. shape d' = shape d"
  by unfold_locales (simp_all add: shape_set_value)

interpretation kept_attrs: kept_by_values attrs_only
  by unfold_locales (auto intro: attrs_only_trans)

end
