(* ===== verification/DsStable.thy ===== *)
theory DsStable
  imports DsTracking DsPointingSpec LmcDeviceSpec
begin

text \<open>
  What every operation of the emulator keeps: the shape of the attribute table (with the rules and the
  commands), the configuration, and the invariant of the pointing schedule. The collection
  \<open>ds_stable\<close> holds the lemma of each operation.
\<close>

named_theorems ds_stable

definition keeps :: "ds_emulator \<Rightarrow> ds_emulator \<Rightarrow> bool" where
  "keeps d d' \<longleftrightarrow> shape d' = shape d \<and> ds_cfg d' = ds_cfg d \<and>
     maxQueueSize (ds_schedule d') = maxQueueSize (ds_schedule d) \<and>
     expiredTimeThr (ds_schedule d') = expiredTimeThr (ds_schedule d) \<and>
     (sched_ok (ds_schedule d) \<longrightarrow> sched_ok (ds_schedule d'))"

lemma stable_refl [simp]: "keeps d d"
  by (simp add: keeps_def)

lemma stable_trans: "keeps d d1 \<Longrightarrow> keeps d1 d2 \<Longrightarrow> keeps d d2"
  by (simp add: keeps_def)

text \<open>Updates of fields that do not matter.\<close>

lemma shape_fields [simp]:
  "shape (d\<lparr>ds_schedule := s\<rparr>) = shape d" "shape (d\<lparr>trackingEnabled := b\<rparr>) = shape d"
  "shape (d\<lparr>stopThread := b\<rparr>) = shape d" "shape (d\<lparr>tracker_at := t\<rparr>) = shape d"
  "shape (d\<lparr>stowProgress := x\<rparr>) = shape d" "shape (d\<lparr>indexingProgress := x\<rparr>) = shape d"
  "shape (d\<lparr>setStandbyLPModeProgress := x\<rparr>) = shape d"
  "shape (d\<lparr>setStandbyFPModeProgress := x\<rparr>) = shape d"
  "shape (d\<lparr>setPointModeProgress := x\<rparr>) = shape d"
  "shape (d\<lparr>powerCut := b\<rparr>) = shape d" "shape (d\<lparr>powerRestored := b\<rparr>) = shape d"
  "shape (d\<lparr>achievedPointing := l\<rparr>) = shape d" "shape (d\<lparr>desiredPointing := l\<rparr>) = shape d"
  "shape (d\<lparr>ds_state := q\<rparr>) = shape d" "shape (d\<lparr>ds_messages := ms\<rparr>) = shape d"
  "shape (d\<lparr>ds_sleeping := p\<rparr>) = shape d"
  by (simp_all add: shape_def)

lemma stable_fields [simp]:
  "keeps d (d'\<lparr>trackingEnabled := b\<rparr>) = keeps d d'"
  "keeps d (d'\<lparr>stopThread := b\<rparr>) = keeps d d'"
  "keeps d (d'\<lparr>tracker_at := t\<rparr>) = keeps d d'"
  "keeps d (d'\<lparr>stowProgress := x\<rparr>) = keeps d d'"
  "keeps d (d'\<lparr>indexingProgress := x\<rparr>) = keeps d d'"
  "keeps d (d'\<lparr>setStandbyLPModeProgress := x\<rparr>) = keeps d d'"
  "keeps d (d'\<lparr>setStandbyFPModeProgress := x\<rparr>) = keeps d d'"
  "keeps d (d'\<lparr>setPointModeProgress := x\<rparr>) = keeps d d'"
  "keeps d (d'\<lparr>powerCut := b\<rparr>) = keeps d d'"
  "keeps d (d'\<lparr>powerRestored := b\<rparr>) = keeps d d'"
  "keeps d (d'\<lparr>achievedPointing := l\<rparr>) = keeps d d'"
  "keeps d (d'\<lparr>desiredPointing := l\<rparr>) = keeps d d'"
  "keeps d (d'\<lparr>ds_state := q\<rparr>) = keeps d d'"
  "keeps d (d'\<lparr>ds_messages := ms\<rparr>) = keeps d d'"
  "keeps d (d'\<lparr>ds_sleeping := p\<rparr>) = keeps d d'"
  by (simp_all add: keeps_def)

lemma stable_schedule:
  "keeps d d1 \<Longrightarrow> maxQueueSize s = maxQueueSize (ds_schedule d1) \<and>
       expiredTimeThr s = expiredTimeThr (ds_schedule d1) \<Longrightarrow>
     (sched_ok (ds_schedule d1) \<Longrightarrow> sched_ok s) \<Longrightarrow> keeps d (d1\<lparr>ds_schedule := s\<rparr>)"
  by (simp add: keeps_def)

text \<open>Operations on the attributes only.\<close>

lemma attrs_only_fields:
  assumes "attrs_only d d'"
  shows "ds_cfg d' = ds_cfg d" and "ds_schedule d' = ds_schedule d" and "rules d' = rules d"
    and "trackingEnabled d' = trackingEnabled d" and "stopThread d' = stopThread d"
    and "tracker_at d' = tracker_at d" and "stowProgress d' = stowProgress d"
    and "achievedPointing d' = achievedPointing d" and "ds_messages d' = ds_messages d"
    and "ds_sleeping d' = ds_sleeping d" and "setPointModeProgress d' = setPointModeProgress d"
    and "ds_state d' = ds_state d" and "powerCut d' = powerCut d"
proof -
  from assms have "d' = d\<lparr>dyn_attrs := dyn_attrs d'\<rparr>" by (simp add: attrs_only_def)
  then obtain x where "d' = d\<lparr>dyn_attrs := x\<rparr>" ..
  then show "ds_cfg d' = ds_cfg d" "ds_schedule d' = ds_schedule d" "rules d' = rules d"
    "trackingEnabled d' = trackingEnabled d" "stopThread d' = stopThread d"
    "tracker_at d' = tracker_at d" "stowProgress d' = stowProgress d"
    "achievedPointing d' = achievedPointing d" "ds_messages d' = ds_messages d"
    "ds_sleeping d' = ds_sleeping d" "setPointModeProgress d' = setPointModeProgress d"
    "ds_state d' = ds_state d" "powerCut d' = powerCut d" by simp_all
qed

lemma stable_attrs: "shape d' = shape d \<Longrightarrow> attrs_only d d' \<Longrightarrow> keeps d d'"
  by (simp add: keeps_def attrs_only_fields)

lemma stable_set [ds_stable]: "SetDynAttrValue w_ok v n d = (r, d') \<Longrightarrow> keeps d d'"
  by (simp add: stable_attrs SetDynAttrValue_shape SetDynAttrValue_attrs)

lemma stable_SM [ds_stable]: "SetSMDynAttrValue w_ok v n d = (r, d') \<Longrightarrow> keeps d d'"
  by (drule SetSMDynAttrValue_cases) (simp add: stable_attrs)

lemma stable_labels [ds_stable]:
  "set_label w_ok l n d = (r, d') \<Longrightarrow> keeps d d'"
  "sm_label w_ok l n d = (r, d') \<Longrightarrow> keeps d d'"
  "set_flag w_ok b n d = (r, d') \<Longrightarrow> keeps d d'"
  "set_double w_ok x n d = (r, d') \<Longrightarrow> keeps d d'"
  unfolding set_label_def sm_label_def set_flag_def set_double_def by (rule stable_set stable_SM, assumption)+

lemma stable_default_model [ds_stable]: "set_default_model d = (r, d') \<Longrightarrow> keeps d d'"
  by (auto simp: set_default_model_def keeps_def shape_def map_of_modify attr_shape_def fun_eq_iff
      split: option.splits if_splits)

lemma stable_power [ds_stable]:
  "lower_power w_ok b d = (r, d') \<Longrightarrow> keeps d d'"
  "set_power w_ok l d = (r, d') \<Longrightarrow> keeps d d'"
  by (auto simp: lower_power_def set_power_def dest: stable_labels split: access.splits if_splits)

subsection \<open>Sequences of steps\<close>

definition stable_op :: "(ds_emulator \<Rightarrow> 'r \<times> ds_emulator) \<Rightarrow> bool" where
  "stable_op f \<longleftrightarrow> (\<forall>d r d'. f d = (r, d') \<longrightarrow> keeps d d')"

lemma stable_opI: "(\<And>d r d'. f d = (r, d') \<Longrightarrow> keeps d d') \<Longrightarrow> stable_op f"
  by (simp add: stable_op_def)

lemma stable_opD: "stable_op f \<Longrightarrow> f d = (r, d') \<Longrightarrow> keeps d d'"
  by (simp add: stable_op_def)

lemma stable_ops [simp]:
  "stable_op (set_label w_ok l n)" "stable_op (sm_label w_ok l n)" "stable_op (set_flag w_ok b n)"
  "stable_op (set_double w_ok x n)" "stable_op set_default_model" "stable_op (lower_power w_ok b)"
  "stable_op (set_power w_ok l)" "stable_op (SetDynAttrValue w_ok v n)"
  by (rule stable_opI, erule ds_stable)+

lemma stable_ops_flags [simp]: "list_all stable_op (set_flags w_ok b ns)"
  by (simp add: set_flags_def list_all_iff)

lemma stable_run_steps [ds_stable]:
  "run_steps fs d = (r, d') \<Longrightarrow> list_all stable_op fs \<Longrightarrow> keeps d d'"
proof (induction fs arbitrary: d)
  case (Cons f fs)
  obtain r1 d1 where f: "f d = (r1, d1)" by fastforce
  with Cons.prems have "keeps d d1" by (auto dest: stable_opD)
  with f Cons show ?case by (cases r1) (auto intro: stable_trans)
qed simp

lemma stable_task_steps:
  assumes "task_steps fs on_fail go_on d = (r, d')" and "list_all stable_op fs"
    and "\<And>e. keeps e (on_fail e)" and "\<And>e r e'. go_on e = (r, e') \<Longrightarrow> keeps e e'"
  shows "keeps d d'"
proof -
  obtain r1 d1 where f: "run_steps fs d = (r1, d1)" by fastforce
  with assms(2) have "keeps d d1" by (rule stable_run_steps [rotated])
  with f assms show ?thesis
    by (cases r1) (auto simp: task_steps_def intro: stable_trans)
qed


text \<open>Each command, each part of a task and each step of the tracking thread is keeps (\<open>DsStable\<close>).\<close>

subsection \<open>Commands\<close>

lemma stable_tracking [simp]:
  "keeps d (DisableTracking d') = keeps d d'" "keeps d (EnableTracking d') = keeps d d'"
  by (simp_all add: DisableTracking_def EnableTracking_def)

lemma stable_flush [simp]: "keeps d (flush_track_program d)"
  by (simp add: flush_track_program_def stable_schedule flush_queue_def sched_ok_def)

lemma stable_stow_failed [simp]: "keeps d (stow_failed d') = keeps d d'"
  "keeps d (indexing_failed d') = keeps d d'" "keeps d (stow_status p x d') = keeps d d'"
  by (simp_all add: stow_failed_def indexing_failed_def stow_status_def)

lemma stable_post [ds_stable]: "ds_post post_ok msg d = (b, d') \<Longrightarrow> keeps d d'"
  by (auto simp: ds_post_def split: if_splits)

lemma stable_posted: "ds_post post_ok msg d1 = (b, d') \<Longrightarrow> keeps d d1 \<Longrightarrow> keeps d d'"
  by (auto dest: stable_post intro: stable_trans)

lemma stable_Push:
  assumes "Push (Some p) (ds_schedule d1) = (st, s)" and "keeps d d1"
    and "pd_pntType p = eSTOW \<Longrightarrow> pointingQueue (ds_schedule d1) = []"
  shows "keeps d (d1\<lparr>ds_schedule := s\<rparr>)"
  using assms(2)
proof (rule stable_schedule)
  show "maxQueueSize s = maxQueueSize (ds_schedule d1) \<and>
    expiredTimeThr s = expiredTimeThr (ds_schedule d1)" by (rule Push_limits [OF assms(1)])
  show "sched_ok (ds_schedule d1) \<Longrightarrow> sched_ok s"
    by (rule sched_ok_Push [OF _ assms(1)]) (use assms(3) in simp_all)
qed

lemma stable_Push_list:
  "Push_list ps (ds_schedule d1) = (st, s) \<Longrightarrow> keeps d d1 \<Longrightarrow> keeps d (d1\<lparr>ds_schedule := s\<rparr>)"
  by (erule stable_schedule) (auto dest: Push_list_limits sched_ok_Push_list)

lemma stable_schedule_stow [ds_stable]:
  assumes "schedule_stow d = (b, d')"
  shows "keeps d d'"
proof -
  let ?d1 = "flush_track_program (DisableTracking d)"
  let ?p = "PointingData_new (stowAzimuthPos (ds_cfg d)) (stowElevationPos (ds_cfg d)) (-1) eSTOW"
  obtain st s where p: "Push (Some ?p) (ds_schedule ?d1) = (st, s)" by fastforce
  have "keeps d ?d1" by (rule stable_trans [OF _ stable_flush]) simp
  with p have "keeps d (?d1\<lparr>ds_schedule := s\<rparr>)"
    by (rule stable_Push) (simp add: flush_track_program_def flush_queue_def)
  with p assms show ?thesis
    by (auto simp: schedule_stow_def Let_def split: if_splits)
qed

lemma stable_stow [ds_stable]: "stow d = (r, d') \<Longrightarrow> keeps d d'"
  by (auto simp: stow_def dest: stable_schedule_stow
      split: gate.splits access.splits if_splits prod.splits bool.splits)

lemma stable_modes [ds_stable]:
  "set_standby_lpmode post_ok d = (r, d') \<Longrightarrow> keeps d d'"
  "set_standby_fpmode post_ok d = (r, d') \<Longrightarrow> keeps d d'"
  "set_point_mode post_ok d = (r, d') \<Longrightarrow> keeps d d'"
  "set_index_position post_ok argin d = (r, d') \<Longrightarrow> keeps d d'"
  unfolding set_standby_lpmode_def set_standby_fpmode_def set_point_mode_def set_index_position_def
  by (auto dest!: stable_posted [of _ _ _ _ _ d]
      split: gate.splits access.splits if_splits prod.splits bool.splits)

lemma stable_faults [ds_stable]:
  "set_maintenance_mode w_ok d = (r, d') \<Longrightarrow> keeps d d'"
  "simulate_power_cut post_ok d = (r, d') \<Longrightarrow> keeps d d'"
  "simulate_power_restore w_ok d = (r, d') \<Longrightarrow> keeps d d'"
  "Startup post_ok d = (i, d') \<Longrightarrow> keeps d d'"
  unfolding set_maintenance_mode_def simulate_power_cut_def simulate_power_restore_def Startup_def
  by (auto dest!: stable_post stable_labels
      split: gate.splits access.splits if_splits prod.splits bool.splits)

lemma stable_estop [ds_stable]: "simulate_estop w_ok d = (r, d') \<Longrightarrow> keeps d d'"
proof -
  have "keeps d (flush_track_program (DisableTracking d))"
    by (rule stable_trans [OF _ stable_flush]) simp
  then show "simulate_estop w_ok d = (r, d') \<Longrightarrow> keeps d d'"
    by (auto simp: simulate_estop_def dest!: stable_labels(1) intro: stable_trans
        split: access.splits if_splits prod.splits)
qed

lemma stable_ds_command [ds_stable]: "ds_command w_ok post_ok c d = (r, d') \<Longrightarrow> keeps d d'"
  by (cases c)
    (auto simp: ds_command_def execute_command_def pause_tracking_def resume_tracking_def
      reset_progress_attrs_def reset_power_cut_attrs_def intro: ds_stable split: ds_reply.splits)

lemma stable_push_single [ds_stable]: "push_single w_val d = (r, d') \<Longrightarrow> keeps d d'"
  by (auto simp: push_single_def CorrectPointingDataList_def CorrectPointingData_def PointingData_new_def
      Let_def intro!: stable_Push split: access.splits if_splits prod.splits list.splits)

lemma stable_push_program [ds_stable]: "push_program fAz fEl w_val d = (r, d') \<Longrightarrow> keeps d d'"
  by (auto simp: push_program_def intro!: stable_Push_list split: access.splits if_splits prod.splits)

lemma stable_write_pointing [ds_stable]: "write_desiredPointing now w_val d = (r, d') \<Longrightarrow> keeps d d'"
  by (auto simp: write_desiredPointing_def Let_def dest: stable_push_single stable_push_program
      split: access.splits if_splits)

subsection \<open>The task thread\<close>

lemma stable_startup [ds_stable]:
  "startup_begin w_ok f d = (t, d') \<Longrightarrow> keeps d d'"
  "startup_finish w_ok sg un f d = (t, d') \<Longrightarrow> keeps d d'"
  unfolding startup_begin_def startup_finish_def
  by (auto elim!: stable_task_steps dest: stable_labels split: if_splits prod.splits access.splits)

lemma stable_stow_simple [ds_stable]:
  "stow_simple_begin f d = (t, d') \<Longrightarrow> keeps d d'"
  "stow_simple_finish w_ok sg un f d = (t, d') \<Longrightarrow> keeps d d'"
  unfolding stow_simple_begin_def stow_simple_finish_def Let_def
  by (auto elim!: stable_task_steps dest!: stable_labels(1) intro: stable_trans [of _ "stow_failed d"]
      split: if_splits prod.splits access.splits)

lemma stable_move_indexer [ds_stable]:
  assumes "move_indexer_begin w_ok pos d = (t, d')"
  shows "keeps d d'"
proof (cases "GetEnumAttrLabelValue ''indexerPosition'' pos (d\<lparr>indexingProgress := ''RUNNING''\<rparr>)")
  case None
  with assms show ?thesis by (auto simp: move_indexer_begin_def)
next
  case (Some a)
  let ?d1 = "d\<lparr>indexingProgress := ''RUNNING'', ds_state := DS_MOVING\<rparr>"
  from assms Some have "keeps ?d1 d'"
    by (auto simp: move_indexer_begin_def Let_def elim!: stable_task_steps)
  then show ?thesis by (rule stable_trans [rotated]) simp
qed

lemma stable_move_indexer_finish [ds_stable]:
  "move_indexer_finish w_ok sg pos d = (t, d') \<Longrightarrow> keeps d d'"
  by (auto simp: move_indexer_finish_def elim!: stable_task_steps split: if_splits)

lemma stable_standby_lp_begin [ds_stable]: "standby_lp_begin b chk d = (t, d') \<Longrightarrow> keeps d d'"
  by (auto simp: standby_lp_begin_def Let_def split: if_splits gate.splits access.splits)

lemma stable_standby_finish [ds_stable]:
  assumes "standby_lp_finish w_ok sg d = (t, d')"
  shows "keeps d d'"
proof (cases sg)
  case False
  with assms have "keeps (DisableTracking d) d'"
    by (auto simp: standby_lp_finish_def elim!: stable_task_steps)
  then show ?thesis by (rule stable_trans [rotated]) simp
qed (use assms in \<open>auto simp: standby_lp_finish_def\<close>)

lemma stable_standby_fp_finish [ds_stable]:
  assumes "standby_fp_finish w_ok sg d = (t, d')"
  shows "keeps d d'"
proof (cases sg)
  case False
  with assms have "keeps (DisableTracking d) d'"
    by (auto simp: standby_fp_finish_def elim!: stable_task_steps)
  then show ?thesis by (rule stable_trans [rotated]) simp
qed (use assms in \<open>auto simp: standby_fp_finish_def\<close>)

lemma stable_begin_fp_point [ds_stable]:
  "standby_fp_begin d = (t, d') \<Longrightarrow> keeps d d'" "set_point_begin d = (t, d') \<Longrightarrow> keeps d d'"
  by (auto simp: standby_fp_begin_def set_point_begin_def)

lemma stable_set_point_finish [ds_stable]: "set_point_finish w_ok sg d = (t, d') \<Longrightarrow> keeps d d'"
  by (auto simp: set_point_finish_def elim!: stable_task_steps split: if_splits)

lemma stable_stow_task [ds_stable]: "stow_task d = (t, d') \<Longrightarrow> keeps d d'"
  by (auto simp: stow_task_def dest: stable_schedule_stow
      split: gate.splits access.splits if_splits prod.splits bool.splits)

lemma stable_shutdown_cut: "shutdown_cut (t, d1) = (t', d') \<Longrightarrow> keeps d d1 \<Longrightarrow> keeps d d'"
  by (auto simp: shutdown_cut_def split: task_outcome.splits)

lemma stable_shutdown_begin [ds_stable]: "shutdown_begin w_ok d = (t, d') \<Longrightarrow> keeps d d'"
  by (cases "powerCut d")
    (auto simp: shutdown_begin_def elim!: stable_task_steps
      dest: stable_standby_lp_begin stable_shutdown_cut,
     metis stable_shutdown_cut stable_standby_lp_begin surj_pair)

lemma stable_shutdown_finish [ds_stable]: "shutdown_finish sg d = (t, d') \<Longrightarrow> keeps d d'"
  by (auto simp: shutdown_finish_def dest: stable_stow_task split: if_splits)

lemma stable_process_message [ds_stable]: "process_message w_ok m d = (t, d') \<Longrightarrow> keeps d d'"
  by (cases m) (auto simp: process_message_def intro: ds_stable)

lemma stable_wake_LP: "wake_task w_ok sg un (Sleep_LP b) d = (t, d') \<Longrightarrow> keeps d d'"
  by (cases b; cases "standby_lp_finish w_ok sg d")
    (auto simp: wake_task_def dest: stable_standby_finish elim: stable_shutdown_cut)

lemma stable_wake_task [ds_stable]: "wake_task w_ok sg un ph d = (t, d') \<Longrightarrow> keeps d d'"
proof (cases "\<exists>b. ph = Sleep_LP b")
  case True
  then show "wake_task w_ok sg un ph d = (t, d') \<Longrightarrow> keeps d d'" by (auto dest: stable_wake_LP)
next
  case False
  then show "wake_task w_ok sg un ph d = (t, d') \<Longrightarrow> keeps d d'"
    by (cases ph) (auto simp: wake_task_def intro: ds_stable)
qed

lemma stable_after_task: "after_task (t, d1) = Some d' \<Longrightarrow> keeps d d1 \<Longrightarrow> keeps d d'"
  by (auto simp: after_task_def split: task_outcome.splits)

lemma stable_task_round: "task_round w_ok sg un d = Some d' \<Longrightarrow> keeps d d'"
proof (cases "ds_sleeping d")
  case (Some ph)
  obtain t d1 where w: "wake_task w_ok sg un ph d = (t, d1)" by fastforce
  assume "task_round w_ok sg un d = Some d'"
  with Some w stable_wake_task [OF w] show ?thesis
    by (auto simp: task_round_def intro: stable_after_task)
next
  case None
  assume r: "task_round w_ok sg un d = Some d'"
  show ?thesis
  proof (cases "ds_messages d")
    case Nil
    with None r show ?thesis by (simp add: task_round_def)
  next
    case (Cons m ms)
    obtain t d1 where w: "process_message w_ok m (d\<lparr>ds_messages := ms\<rparr>) = (t, d1)" by fastforce
    have "keeps d (d\<lparr>ds_messages := ms\<rparr>)" by simp
    from stable_trans [OF this stable_process_message [OF w]] None Cons w r show ?thesis
      by (auto simp: task_round_def intro: stable_after_task)
  qed
qed

subsection \<open>The tracking thread\<close>

lemma stable_set_position [ds_stable]: "set_position w_ok now az el d = (r, d') \<Longrightarrow> keeps d d'"
  unfolding set_position_def by (erule stable_run_steps) (simp, simp add: stable_op_def)

lemma stable_slew_steps:
  "slew_steps p go r = (t, d') \<Longrightarrow> keeps d (snd r) \<Longrightarrow> keeps d d'"
  by (cases r) (auto simp: slew_steps_def split: access.splits)

lemma stable_slew_begin [ds_stable]: "slew_begin w_ok p d = (t, d') \<Longrightarrow> keeps d d'"
proof -
  let ?d1 = "stow_status p ''RUNNING'' d"
  obtain r d2 where s: "run_steps [set_label w_ok ''SLEW'' ''pointingState'',
      set_flag w_ok False ''targetLock''] ?d1 = (r, d2)" by fastforce
  have "keeps ?d1 d2" by (rule stable_run_steps [OF s]) simp
  then have "keeps d d2" by (rule stable_trans [rotated]) simp
  with s show "slew_begin w_ok p d = (t, d') \<Longrightarrow> keeps d d'"
    by (auto simp: slew_begin_def Let_def dest!: stable_slew_steps [of _ _ _ _ _ d]
        split: if_splits access.splits)
qed

lemma stable_slew_iter [ds_stable]: "slew_iter w_ok now p v d = (t, d') \<Longrightarrow> keeps d d'"
  unfolding slew_iter_def Let_def
  by (erule stable_slew_steps) (metis prod.collapse stable_set_position)

lemma stable_slew_check [ds_stable]: "slew_check p v d = (t, d') \<Longrightarrow> keeps d d'"
  by (auto simp: slew_check_def split: if_splits)

lemma stable_finish_stow [ds_stable]:
  assumes "finish_stow w_ok d = (r, d')"
  shows "keeps d d'"
proof -
  let ?fs = "set_flag w_ok False ''targetLock'' # set_flags w_ok True brake_names @
    set_flags w_ok False servo_names @ [lower_power w_ok False, sm_label w_ok ''NONE'' ''pointingState'',
      sm_label w_ok ''STOW'' ''operatingMode'']"
  obtain q d1 where s: "run_steps ?fs (DisableTracking d) = (q, d1)" by fastforce
  then have "keeps (DisableTracking d) d1" by (rule stable_run_steps) simp
  then have "keeps d d1" by (rule stable_trans [rotated]) simp
  with s assms show ?thesis by (auto simp: finish_stow_def split: access.splits)
qed

lemma stable_SetTrackCoords [ds_stable]: "SetTrackCoords w_ok now g p sm d = (r, d') \<Longrightarrow> keeps d d'"
  unfolding SetTrackCoords_def Let_def
  by (erule stable_run_steps)
    (auto simp: stable_op_def intro: ds_stable split: if_splits)

lemma stable_tracker_pop: "keeps d (tracker_pop now d)"
  by (auto simp: tracker_pop_def intro!: stable_schedule dest: Pop_limits sched_ok_Pop split: prod.splits)

lemma stable_tracker_slew: "tracker_slew p f (t, d1) = Some d' \<Longrightarrow> keeps d d1 \<Longrightarrow> keeps d d'"
  by (auto simp: tracker_slew_def split: slew_outcome.splits)

lemma stable_tracker_step: "tracker_step w_ok now g d = Some d' \<Longrightarrow> keeps d d'"
proof (cases "tracker_at d")
  case (T_Popped p)
  assume "tracker_step w_ok now g d = Some d'"
  with T_Popped show ?thesis
    by (cases "slew_begin w_ok p d") (auto simp: tracker_step_def intro: stable_tracker_slew ds_stable)
next
  case (T_Slewing p v)
  assume "tracker_step w_ok now g d = Some d'"
  with T_Slewing show ?thesis
    by (cases "slew_iter w_ok now p v d") (auto simp: tracker_step_def intro: stable_tracker_slew ds_stable)
next
  case (T_Slept p v)
  assume "tracker_step w_ok now g d = Some d'"
  with T_Slept show ?thesis
    by (cases "slew_check p v d") (auto simp: tracker_step_def intro: stable_tracker_slew ds_stable)
next
  case (T_At p)
  obtain r d1 where s: "SetTrackCoords w_ok now g p (smearPointingCoords (ds_cfg d) \<and> pd_pntType p \<noteq> eSTOW) d
    = (r, d1)" by fastforce
  assume "tracker_step w_ok now g d = Some d'"
  with T_At s stable_SetTrackCoords [OF s] show ?thesis
    by (cases r) (auto simp: tracker_step_def)
qed (auto simp: tracker_step_def stable_tracker_pop split: if_splits)

end
