(* ===== verification/LmcRulesSpec.thy ===== *)
theory LmcRulesSpec
  imports LmcDevice
begin

text \<open>
  What the rules promise: the two-level containers as partial functions, registration (the first
  registration for a key stays), and the gate in front of a command as a search for the first attribute
  whose value violates a rule.
\<close>

subsection \<open>The two-level containers\<close>

definition bi_lookup :: "bi_map_set \<Rightarrow> string \<Rightarrow> scalar \<Rightarrow> rule_set option" where
  "bi_lookup m k k2 = (case map_of m k of None \<Rightarrow> None | Some item \<Rightarrow> map_of (entries item) k2)"

definition item_ok :: "map_set \<Rightarrow> bool" where
  "item_ok item \<longleftrightarrow> key_type item = TString \<and> sorted_map (entries item) \<and>
     fst ` set (entries item) \<subseteq> range VString"

definition bi_ok :: "bi_map_set \<Rightarrow> bool" where
  "bi_ok m \<longleftrightarrow> sorted_map m \<and> (\<forall>p\<in>set m. item_ok (snd p))"

lemma bi_ok_Nil [simp]: "bi_ok []"
  by (simp add: bi_ok_def)

lemma bi_lookup_Nil [simp]: "bi_lookup [] k k2 = None"
  by (simp add: bi_lookup_def)

lemma bi_ok_item: "bi_ok m \<Longrightarrow> map_of m k = Some item \<Longrightarrow> item_ok item"
  by (force simp: bi_ok_def dest: map_of_SomeD)

lemma item_ok_Add: "item_ok item \<Longrightarrow> item_ok (MapSet_Add (VString a) rs item)"
  by (auto simp: item_ok_def MapSet_Add_def sorted_map_insert keys_map_insert)

lemma item_ok_new: "item_ok (MapSet_Add (VString a) rs (MapSet TString []))"
  by (rule item_ok_Add) (simp add: item_ok_def)

lemma item_lookup_Add:
  "item_ok item \<Longrightarrow> map_of (entries (MapSet_Add k rs item)) x =
     (if x = k \<and> map_of (entries item) k = None then Some rs else map_of (entries item) x)"
  by (simp add: item_ok_def MapSet_Add_def map_of_insert_sorted)

lemma bi_ok_insert: "bi_ok m \<Longrightarrow> item_ok item \<Longrightarrow> bi_ok (map_insert k item m)"
  using set_map_insert [of k item m] by (auto simp: bi_ok_def sorted_map_insert)

lemma bi_ok_modify: "bi_ok m \<Longrightarrow> (\<And>i. item_ok i \<Longrightarrow> item_ok (f i)) \<Longrightarrow> bi_ok (map_modify k f m)"
  by (fastforce simp: bi_ok_def dest: in_set_modify)

lemma BiMapSet_Add_ok:
  assumes "bi_ok m"
  shows "\<exists>m'. BiMapSet_Add TString k (VString a) rs m = Some m' \<and> bi_ok m' \<and>
    (\<forall>c x. bi_lookup m' c x =
       (if c = k \<and> x = VString a \<and> bi_lookup m c x = None then Some rs else bi_lookup m c x))"
proof (cases "map_of m k")
  case None
  from assms have "sorted_map m" by (simp add: bi_ok_def)
  with None bi_ok_insert [OF assms item_ok_new] show ?thesis
    by (simp add: BiMapSet_Add_def bi_lookup_def map_of_insert_sorted)
      (simp add: MapSet_Add_def)
next
  case (Some item)
  note item = bi_ok_item [OF assms Some]
  then have "key_type item = TString" by (simp add: item_ok_def)
  with Some item bi_ok_modify [OF assms, of "MapSet_Add (VString a) rs" k] show ?thesis
    by (simp add: BiMapSet_Add_def item_ok_Add bi_lookup_def map_of_modify item_lookup_Add)
qed

text \<open>The attributes of the rules of a command, in the order of the map.\<close>

definition bi_attrs :: "bi_map_set \<Rightarrow> string \<Rightarrow> string list" where
  "bi_attrs m k = (case map_of m k of None \<Rightarrow> [] | Some item \<Rightarrow> List.map (string_of \<circ> fst) (entries item))"

lemma bi_attrs_lookup:
  assumes "bi_ok m"
  shows "a \<in> set (bi_attrs m k) \<longleftrightarrow> bi_lookup m k (VString a) \<noteq> None"
proof (cases "map_of m k")
  case None
  then show ?thesis by (simp add: bi_attrs_def bi_lookup_def)
next
  case (Some item)
  from bi_ok_item [OF assms Some] have "fst ` set (entries item) \<subseteq> range VString"
    by (simp add: item_ok_def)
  then have "a \<in> string_of ` fst ` set (entries item) \<longleftrightarrow> VString a \<in> fst ` set (entries item)"
    by (force simp: image_iff)
  with Some show ?thesis
    by (simp add: bi_attrs_def bi_lookup_def map_of_eq_None_iff image_comp)
qed

subsection \<open>Registration\<close>

definition rules_ok :: "rule_factory \<Rightarrow> bool" where
  "rules_ok r \<longleftrightarrow> bi_ok (cmdRules r) \<and> bi_ok (attrRules r) \<and> bi_ok (attrReadRules r) \<and>
     bi_ok (attrWriteRules r)"

abbreviation cmd_rule :: "'z lmc_device_scheme \<Rightarrow> string \<Rightarrow> string \<Rightarrow> rule_set option" where
  "cmd_rule d c a \<equiv> bi_lookup (cmdRules (rules d)) c (VString a)"

lemma rules_ok_Instance [simp]: "rules_ok RuleFactory_Instance"
  by (simp add: rules_ok_def RuleFactory_Instance_def)

lemma AddCmdRule_Got:
  assumes "rules_ok (rules d)"
    and "check \<Longrightarrow> cmd \<in> set (dev_commands d) \<and> is_scalar_attr attr d"
  shows "\<exists>d'. AddCmdRule T cmd attr vs check d = Got d' \<and> rules_ok (rules d') \<and>
     dyn_attrs d' = dyn_attrs d \<and> dev_commands d' = dev_commands d \<and>
     attrRules (rules d') = attrRules (rules d) \<and>
     (\<forall>c a. cmd_rule d' c a =
        (if c = cmd \<and> a = attr \<and> cmd_rule d c a = None then Some (RuleSet T vs) else cmd_rule d c a))"
proof -
  from assms(1) have "bi_ok (cmdRules (rules d))" by (simp add: rules_ok_def)
  from BiMapSet_Add_ok [OF this, of cmd attr "RuleSet T vs"] obtain m where
    "BiMapSet_Add TString cmd (VString attr) (RuleSet T vs) (cmdRules (rules d)) = Some m" "bi_ok m"
    "\<forall>c x. bi_lookup m c x =
       (if c = cmd \<and> x = VString attr \<and> bi_lookup (cmdRules (rules d)) c x = None then Some (RuleSet T vs)
        else bi_lookup (cmdRules (rules d)) c x)" by blast
  with assms show ?thesis
    by (auto simp: AddCmdRule_def AddCmdRule_factory_def put_rules_def rules_ok_def)
qed

lemma AddCmdRule_Failing:
  "AddCmdRule T cmd attr vs check d = Failing \<longleftrightarrow>
     check \<and> (cmd \<notin> set (dev_commands d) \<or> \<not> is_scalar_attr attr d)"
  by (auto simp: AddCmdRule_def put_rules_def split: option.splits)

text \<open>The registrations that do not concern commands.\<close>

abbreviation attr_rule :: "'z lmc_device_scheme \<Rightarrow> string \<Rightarrow> string \<Rightarrow> rule_set option" where
  "attr_rule d a l \<equiv> bi_lookup (attrRules (rules d)) a (VString l)"

lemma AddAttrRule_Got:
  assumes "rules_ok (rules d)" and "check \<Longrightarrow> is_scalar_attr attr d"
  shows "\<exists>d'. AddAttrRule TString attr (VString v) vs check d = Got d' \<and> rules_ok (rules d') \<and>
     dyn_attrs d' = dyn_attrs d \<and> dev_commands d' = dev_commands d \<and>
     cmdRules (rules d') = cmdRules (rules d) \<and>
     (\<forall>a l. attr_rule d' a l =
        (if a = attr \<and> l = v \<and> attr_rule d a l = None then Some (RuleSet TString vs) else attr_rule d a l))"
proof -
  from assms(1) have "bi_ok (attrRules (rules d))" by (simp add: rules_ok_def)
  from BiMapSet_Add_ok [OF this, of attr v "RuleSet TString vs"] obtain m where
    "BiMapSet_Add TString attr (VString v) (RuleSet TString vs) (attrRules (rules d)) = Some m" "bi_ok m"
    "\<forall>c x. bi_lookup m c x =
       (if c = attr \<and> x = VString v \<and> bi_lookup (attrRules (rules d)) c x = None
        then Some (RuleSet TString vs) else bi_lookup (attrRules (rules d)) c x)" by blast
  with assms show ?thesis
    by (auto simp: AddAttrRule_def AddAttrRule_factory_def put_rules_def rules_ok_def)
qed

lemma AddAttrWriteRule_keeps:
  assumes "AddAttrWriteRule T attr sm vs check d = Got d'" and "rules_ok (rules d)"
  shows "rules_ok (rules d') \<and> cmdRules (rules d') = cmdRules (rules d) \<and>
    attrRules (rules d') = attrRules (rules d) \<and> dyn_attrs d' = dyn_attrs d \<and> dev_commands d' = dev_commands d"
proof -
  from assms(2) have "bi_ok (attrWriteRules (rules d))" by (simp add: rules_ok_def)
  from BiMapSet_Add_ok [OF this, of attr sm "RuleSet T vs"] assms show ?thesis
    by (auto simp: AddAttrWriteRule_def put_rules_def AddAttrWriteRule_factory_def rules_ok_def
        split: if_splits option.splits)
qed

lemma AddAttrWriteRule_defined:
  "rules_ok (rules d) \<Longrightarrow> AddAttrWriteRule T attr sm vs check d \<noteq> Undefined_Access"
  using BiMapSet_Add_ok [of "attrWriteRules (rules d)" attr sm "RuleSet T vs"]
  by (auto simp: AddAttrWriteRule_def put_rules_def AddAttrWriteRule_factory_def rules_ok_def)

subsection \<open>The value that the rules see\<close>

text \<open>The current value of an attribute, the label for an enumerated one.\<close>

definition seen_value :: "string \<Rightarrow> 'z lmc_device_scheme \<Rightarrow> scalar access" where
  "seen_value a d =
     (case map_of (dyn_attrs d) a of
        None \<Rightarrow> Failing
      | Some x \<Rightarrow>
          if \<not> at_scalar x then Failing
          else
            (case rule_type (at_type x) of
               None \<Rightarrow> Failing
             | Some T \<Rightarrow>
                 (case GetDynAttrValue T a d of
                    Got (VShort w) \<Rightarrow>
                      if at_type x = DEV_ENUM then
                        (case GetEnumAttrLabelValue a w d of None \<Rightarrow> Failing | Some s \<Rightarrow> Got (VString s))
                      else Got (VShort w)
                  | r \<Rightarrow> r)))"

lemma check_rule_seen:
  "check_rule allowed a d =
     (case seen_value a d of
        Got v \<Rightarrow> access_of (allowed (ctype_of v) v) | Failing \<Rightarrow> Failing | Undefined_Access \<Rightarrow> Undefined_Access)"
proof (cases "map_of (dyn_attrs d) a")
  case None
  then show ?thesis by (simp add: check_rule_def seen_value_def)
next
  case (Some x)
  show ?thesis
  proof (cases "at_scalar x \<and> rule_type (at_type x) \<noteq> None")
    case False
    with Some show ?thesis by (auto simp: check_rule_def seen_value_def)
  next
    case True
    then obtain T where T: "rule_type (at_type x) = Some T" and sc: "at_scalar x" by auto
    show ?thesis
    proof (cases "GetDynAttrValue T a d")
      case (Got v)
      with Some sc have "ctype_of v = T"
        by (auto simp: GetDynAttrValue_def split: if_splits)
      with Some sc T Got show ?thesis
        by (cases v) (auto simp: check_rule_def seen_value_def split: option.splits)
    qed (use Some sc T in \<open>simp_all add: check_rule_def seen_value_def\<close>)
  qed
qed

subsection \<open>The gate\<close>

definition cmd_violated :: "string \<Rightarrow> bool \<Rightarrow> 'z lmc_device_scheme \<Rightarrow> string \<Rightarrow> bool" where
  "cmd_violated cmd check d a \<longleftrightarrow> (check \<longrightarrow> cmd \<in> set (dev_commands d)) \<and>
     (case (seen_value a d, cmd_rule d cmd a) of
        (Got v, Some rs) \<Rightarrow> v \<notin> set (elems rs)
      | _ \<Rightarrow> False)"

definition cmd_rules_typed :: "string \<Rightarrow> 'z lmc_device_scheme \<Rightarrow> bool" where
  "cmd_rules_typed cmd d \<longleftrightarrow>
     (\<forall>a\<in>set (bi_attrs (cmdRules (rules d)) cmd). seen_value a d \<noteq> Undefined_Access \<and>
        (\<forall>v rs. seen_value a d = Got v \<longrightarrow> cmd_rule d cmd a = Some rs \<longrightarrow> elem_type rs = ctype_of v))"

lemma CheckIfCmdIsAllowed_seen:
  assumes "bi_ok (cmdRules (rules d))" and "cmd_rule d cmd a = Some rs"
    and "seen_value a d \<noteq> Undefined_Access"
    and "\<And>v. seen_value a d = Got v \<Longrightarrow> elem_type rs = ctype_of v"
  shows "CheckIfCmdIsAllowed cmd a check d =
    (if (check \<longrightarrow> cmd \<in> set (dev_commands d)) \<and> seen_value a d \<noteq> Failing
     then Got (\<not> cmd_violated cmd check d a) else Failing)"
proof -
  from assms(2) obtain item where item: "map_of (cmdRules (rules d)) cmd = Some item"
    "map_of (entries item) (VString a) = Some rs" by (auto simp: bi_lookup_def split: option.splits)
  with bi_ok_item [OF assms(1)] have "key_type item = TString" by (simp add: item_ok_def)
  with item assms show ?thesis
    by (cases "seen_value a d")
      (auto simp: CheckIfCmdIsAllowed_def check_rule_seen IsCmdAllowed_factory_def cmd_violated_def
        BiMapSet_HasAllowedValueInSet_def MapSet_HasAllowedValueInSet_def HasValueInSet_def access_of_def)
qed

lemma check_rules_first:
  assumes "\<And>a. a \<in> set as \<Longrightarrow> chk a = Failing \<and> \<not> bad a \<or> chk a = Got (\<not> bad a)"
  shows "check_rules chk as = (case find bad as of None \<Rightarrow> Pass | Some a \<Rightarrow> Violated a)"
  using assms
proof (induction as)
  case (Cons a as)
  from Cons.prems [of a] have "chk a = Failing \<and> \<not> bad a \<or> chk a = Got (\<not> bad a)" by simp
  moreover have "check_rules chk as = (case find bad as of None \<Rightarrow> Pass | Some a \<Rightarrow> Violated a)"
    by (rule Cons.IH) (simp add: Cons.prems)
  ultimately show ?case by (cases "bad a") auto
qed simp

lemma cmd_gate:
  assumes "bi_ok (cmdRules (rules d))" and "cmd_rules_typed cmd d" and "extract_cmd_name fcn = cmd"
  shows "IsCmdAllowed fcn check d =
    (case find (cmd_violated cmd check d) (bi_attrs (cmdRules (rules d)) cmd) of
       None \<Rightarrow> Pass | Some a \<Rightarrow> Violated a)"
proof (cases "map_of (cmdRules (rules d)) cmd")
  case None
  with assms(3) show ?thesis
    by (simp add: IsCmdAllowed_def rule_gate_def GetAttrsInCmdRules_def BiMapSet_Get2ndKeyList_def
        bi_attrs_def)
next
  case (Some item)
  let ?as = "bi_attrs (cmdRules (rules d)) cmd"
  have "check_rules (\<lambda>a. CheckIfCmdIsAllowed cmd a check d) ?as =
      (case find (cmd_violated cmd check d) ?as of None \<Rightarrow> Pass | Some a \<Rightarrow> Violated a)"
  proof (rule check_rules_first)
    fix a assume a: "a \<in> set ?as"
    with bi_attrs_lookup [OF assms(1)] obtain rs where rs: "cmd_rule d cmd a = Some rs" by auto
    from a assms(2) have "seen_value a d \<noteq> Undefined_Access"
      "\<And>v. seen_value a d = Got v \<Longrightarrow> elem_type rs = ctype_of v"
      using rs by (auto simp: cmd_rules_typed_def)
    from CheckIfCmdIsAllowed_seen [OF assms(1) rs this] show
      "CheckIfCmdIsAllowed cmd a check d = Failing \<and> \<not> cmd_violated cmd check d a \<or>
       CheckIfCmdIsAllowed cmd a check d = Got (\<not> cmd_violated cmd check d a)"
      by (auto simp: cmd_violated_def)
  qed
  with Some bi_ok_item [OF assms(1) Some] assms(3) show ?thesis
    by (simp add: item_ok_def IsCmdAllowed_def rule_gate_def GetAttrsInCmdRules_def BiMapSet_Get2ndKeyList_def
        bi_attrs_def MapSet_GetKeys_def)
qed

text \<open>A command with the rule of one attribute, and a command without a rule.\<close>

lemma find_SomeD: "find P xs = Some x \<Longrightarrow> x \<in> set xs \<and> P x"
  by (induction xs) (auto split: if_splits)

lemma find_single: "set xs = {a} \<Longrightarrow> find P xs = (if P a then Some a else None)"
  by (cases "find P xs") (auto simp: find_None_iff dest: find_SomeD)

lemma single_rule_gate:
  assumes "bi_ok (cmdRules (rules d))"
    and "\<And>a. cmd_rule d cmd a = (if a = n then Some (RuleSet TString (List.map VString ms)) else None)"
    and "seen_value n d = Got (VString l)" and "cmd \<in> set (dev_commands d)" and "extract_cmd_name fcn = cmd"
  shows "IsCmdAllowed fcn True d = (if l \<in> set ms then Pass else Violated n)"
proof -
  have as: "set (bi_attrs (cmdRules (rules d)) cmd) = {n}"
    using bi_attrs_lookup [OF assms(1)] assms(2) by (auto split: if_splits)
  then have "cmd_rules_typed cmd d" using assms(2,3) by (simp add: cmd_rules_typed_def)
  from cmd_gate [OF assms(1) this assms(5), of True] find_single [OF as] assms(2-4) show ?thesis
    by (auto simp: cmd_violated_def)
qed

lemma unruled_gate:
  assumes "bi_ok (cmdRules (rules d))" and "\<And>a. cmd_rule d cmd a = None" and "extract_cmd_name fcn = cmd"
  shows "IsCmdAllowed fcn check d = Pass"
proof -
  have "bi_attrs (cmdRules (rules d)) cmd = []"
    using bi_attrs_lookup [OF assms(1), of _ cmd] assms(2)
    by (cases "bi_attrs (cmdRules (rules d)) cmd") fastforce+
  then show ?thesis using cmd_gate [OF assms(1) _ assms(3), of check] by (simp add: cmd_rules_typed_def)
qed

subsection \<open>Registering a list of rules\<close>

text \<open>
  The contract of a function that registers a rule: with what it needs it succeeds, the first rule for
  a key stays, and a frame is not touched.
\<close>

locale registration =
  fixes add :: "'x \<Rightarrow> 'z lmc_device_scheme \<Rightarrow> 'z lmc_device_scheme access"
    and look :: "'z lmc_device_scheme \<Rightarrow> 'k \<Rightarrow> 'v option"
    and key :: "'x \<Rightarrow> 'k"
    and val :: "'x \<Rightarrow> 'v"
    and ready :: "'x \<Rightarrow> 'z lmc_device_scheme \<Rightarrow> bool"
    and frame :: "'z lmc_device_scheme \<Rightarrow> 'f"
  assumes add_Got: "ready x d \<Longrightarrow>
    \<exists>d'. add x d = Got d' \<and> frame d' = frame d \<and> (\<forall>y. ready y d \<longrightarrow> ready y d') \<and>
      (\<forall>k. look d' k = (if k = key x \<and> look d k = None then Some (val x) else look d k))"
begin

lemma register_all:
  assumes "\<forall>x\<in>set xs. ready x d"
  shows "\<exists>d'. fold (\<lambda>x. ignoring (add x)) xs (Some d) = Some d' \<and> frame d' = frame d \<and>
    (\<forall>y. ready y d \<longrightarrow> ready y d') \<and>
    (\<forall>k. look d' k =
       (if look d k = None then map_of (List.map (\<lambda>x. (key x, val x)) xs) k else look d k))"
  using assms
proof (induction xs arbitrary: d)
  case Nil
  then show ?case by simp
next
  case (Cons x xs)
  from Cons.prems add_Got [of x d] obtain d1 where d1: "add x d = Got d1" "frame d1 = frame d"
    "\<forall>y. ready y d \<longrightarrow> ready y d1"
    "\<forall>k. look d1 k = (if k = key x \<and> look d k = None then Some (val x) else look d k)" by auto
  with Cons.prems have "\<forall>y\<in>set xs. ready y d1" by simp
  from Cons.IH [OF this] obtain d' where d': "fold (\<lambda>x. ignoring (add x)) xs (Some d1) = Some d'"
    "frame d' = frame d1" "\<forall>y. ready y d1 \<longrightarrow> ready y d'"
    "\<forall>k. look d' k =
       (if look d1 k = None then map_of (List.map (\<lambda>x. (key x, val x)) xs) k else look d1 k)" by blast
  from d1(1) have "ignoring (add x) (Some d) = Some d1" by (simp add: ignoring_def)
  with d1 d' show ?case by simp
qed

end

definition label_rule :: "string \<times> string list \<Rightarrow> rule_set" where
  "label_rule x = RuleSet TString (List.map VString (snd x))"

definition base_frame :: "'z lmc_device_scheme \<Rightarrow> (string \<times> dyn_attr) list \<times> string list" where
  "base_frame d = (dyn_attrs d, dev_commands d)"

subsection \<open>Registrations that may fail\<close>

lemma ignoring_fold:
  assumes "P d" and "\<And>x e. x \<in> set xs \<Longrightarrow> P e \<Longrightarrow> add x e \<noteq> Undefined_Access"
    and "\<And>x e e'. x \<in> set xs \<Longrightarrow> P e \<Longrightarrow> add x e = Got e' \<Longrightarrow> P e'"
  shows "\<exists>d'. fold (\<lambda>x. ignoring (add x)) xs (Some d) = Some d' \<and> P d'"
  using assms
proof (induction xs arbitrary: d)
  case (Cons x xs)
  show ?case
  proof (cases "add x d")
    case (Got e)
    with Cons.prems(1) have "P e" using Cons.prems(3) [of x d e] by simp
    then have "\<exists>d'. fold (\<lambda>x. ignoring (add x)) xs (Some e) = Some d' \<and> P d'"
      by (rule Cons.IH) (rule Cons.prems(2), simp, assumption, erule Cons.prems(3) [rotated 2], auto)
    moreover from Got have "ignoring (add x) (Some d) = Some e" by (simp add: ignoring_def)
    ultimately show ?thesis by simp
  next
    case Failing
    then have "ignoring (add x) (Some d) = Some d" by (simp add: ignoring_def)
    moreover have "\<exists>d'. fold (\<lambda>x. ignoring (add x)) xs (Some d) = Some d' \<and> P d'"
      using Cons.prems(1)
      by (rule Cons.IH) (rule Cons.prems(2), simp, assumption, erule Cons.prems(3) [rotated 2], auto)
    ultimately show ?thesis by simp
  qed (use Cons.prems in auto)
qed simp

definition rule_of :: "(string \<times> string list) list \<Rightarrow> string \<Rightarrow> rule_set option" where
  "rule_of tab c = map_option (\<lambda>ms. RuleSet TString (List.map VString ms)) (map_of tab c)"

lemma map_of_keyed:
  "map_of (List.map (\<lambda>x. ((fst x, n), label_rule x)) tab) (c, a) = (if a = n then rule_of tab c else None)"
  "map_of (List.map (\<lambda>x. ((n, fst x), label_rule x)) tab) (a, c) = (if a = n then rule_of tab c else None)"
  by (induction tab) (auto simp: rule_of_def label_rule_def)

lemma bi_lookup_Instance [simp]:
  "bi_lookup (cmdRules RuleFactory_Instance) c x = None"
  "bi_lookup (attrRules RuleFactory_Instance) c x = None"
  by (simp_all add: RuleFactory_Instance_def)

end
