(* ===== verification/DsModes.thy ===== *)
theory DsModes
  imports DsStable LmcRulesSpec
begin

text \<open>
  The rules that the emulator registers when it starts (\<open>InitCmdAttrStateMachine\<close>), found again by
  lookup, with the locale \<open>registration\<close> interpreted on the registration of the command rules and of the
  transition rules.
\<close>

subsection \<open>The registrations\<close>

definition add_mode_rule :: "string \<times> string list \<Rightarrow> lmc_device \<Rightarrow> lmc_device access" where
  "add_mode_rule x = AddCmdRule TString (fst x) ''operatingMode'' (List.map VString (snd x)) True"

definition add_transition_rule :: "string \<times> string list \<Rightarrow> lmc_device \<Rightarrow> lmc_device access" where
  "add_transition_rule x =
     AddAttrRule TString ''operatingMode'' (VString (fst x)) (List.map VString (snd x)) True"

interpretation mode_reg: registration add_mode_rule "\<lambda>d (c, a). cmd_rule d c a"
    "\<lambda>x. (fst x, ''operatingMode'')" label_rule
    "\<lambda>x d. rules_ok (rules d) \<and> fst x \<in> set (dev_commands d) \<and> is_scalar_attr ''operatingMode'' d"
    "\<lambda>d. (base_frame d, attrRules (rules d))"
proof (unfold_locales, goal_cases)
  case (1 x d)
  then show ?case
    using AddCmdRule_Got [of d True "fst x" "''operatingMode''" TString "List.map VString (snd x)"]
    by (auto simp: add_mode_rule_def label_rule_def base_frame_def is_scalar_attr_def)
qed

interpretation trans_reg: registration add_transition_rule "\<lambda>d (a, l). attr_rule d a l"
    "\<lambda>x. (''operatingMode'', fst x)" label_rule
    "\<lambda>x d. rules_ok (rules d) \<and> is_scalar_attr ''operatingMode'' d"
    "\<lambda>d. (base_frame d, cmdRules (rules d))"
proof (unfold_locales, goal_cases)
  case (1 x d)
  then show ?case
    using AddAttrRule_Got [of d True "''operatingMode''" "fst x" "List.map VString (snd x)"]
    by (auto simp: add_transition_rule_def label_rule_def base_frame_def is_scalar_attr_def)
qed

subsection \<open>The rules after the start\<close>

text \<open>What the rules are, once registered; \<open>cmd_rule\<close> for the simulation commands depends on the attributes.\<close>

definition ds_rules :: "rule_factory \<Rightarrow> bool" where
  "ds_rules r \<longleftrightarrow> rules_ok r \<and>
     (\<forall>c a. c \<notin> set test_mode_rules \<longrightarrow>
        bi_lookup (cmdRules r) c (VString a) = (if a = ''operatingMode'' then rule_of mode_rules c else None)) \<and>
     (\<forall>a l. bi_lookup (attrRules r) a (VString l) =
        (if a = ''operatingMode'' then rule_of transition_rules l else None))"

definition registered :: "lmc_device \<Rightarrow> lmc_device \<Rightarrow> bool" where
  "registered d0 d \<longleftrightarrow> base_frame d = base_frame d0 \<and> ds_rules (rules d)"

definition mode_ready :: "lmc_device \<Rightarrow> bool" where
  "mode_ready d \<longleftrightarrow> rules d = RuleFactory_Instance \<and> is_scalar_attr ''operatingMode'' d \<and>
     (\<forall>x\<in>set mode_rules. fst x \<in> set (dev_commands d))"

lemma register_modes:
  assumes "mode_ready d0"
  shows "\<exists>d. fold (\<lambda>x. ignoring (add_mode_rule x)) mode_rules (Some d0) = Some d \<and>
    rules_ok (rules d) \<and> base_frame d = base_frame d0 \<and> attrRules (rules d) = attrRules (rules d0) \<and>
    (\<forall>c a. cmd_rule d c a = (if a = ''operatingMode'' then rule_of mode_rules c else None))"
proof -
  from assms have "\<forall>x\<in>set mode_rules. rules_ok (rules d0) \<and> fst x \<in> set (dev_commands d0) \<and>
      is_scalar_attr ''operatingMode'' d0" by (simp add: mode_ready_def)
  from mode_reg.register_all [OF this] this assms show ?thesis
    by (auto simp: mode_ready_def map_of_keyed) (auto simp: mode_rules_def)
qed

lemma register_transitions:
  assumes "rules_ok (rules d)" and "is_scalar_attr ''operatingMode'' d" and "attrRules (rules d) = []"
  shows "\<exists>d'. fold (\<lambda>x. ignoring (add_transition_rule x)) transition_rules (Some d) = Some d' \<and>
    rules_ok (rules d') \<and> base_frame d' = base_frame d \<and> cmdRules (rules d') = cmdRules (rules d) \<and>
    (\<forall>a l. attr_rule d' a l = (if a = ''operatingMode'' then rule_of transition_rules l else None))"
proof -
  from assms have "\<forall>x\<in>set transition_rules. rules_ok (rules d) \<and> is_scalar_attr ''operatingMode'' d"
    by simp
  from trans_reg.register_all [OF this] this assms show ?thesis
    by (auto simp: map_of_keyed)
qed

lemma register_test_mode:
  assumes "rules_ok (rules d)"
  shows "\<exists>d'. fold (\<lambda>c. ignoring (AddCmdRule TBool c ''testMode'' [VBool True] True)) test_mode_rules
      (Some d) = Some d' \<and>
    rules_ok (rules d') \<and> base_frame d' = base_frame d \<and> attrRules (rules d') = attrRules (rules d) \<and>
    (\<forall>c a. c \<notin> set test_mode_rules \<longrightarrow> cmd_rule d' c a = cmd_rule d c a)"
proof (rule ignoring_fold, goal_cases)
  case (2 x e)
  then show ?case
    using AddCmdRule_Got [of e True x "''testMode''" TBool "[VBool True]"]
      AddCmdRule_Failing [of TBool x "''testMode''" "[VBool True]" True e]
    by (cases "x \<in> set (dev_commands e) \<and> is_scalar_attr ''testMode'' e") auto
next
  case (3 x e e')
  then have "x \<in> set (dev_commands e) \<and> is_scalar_attr ''testMode'' e"
    using AddCmdRule_Failing [of TBool x "''testMode''" "[VBool True]" True e] by auto
  with 3 AddCmdRule_Got [of e True x "''testMode''" TBool "[VBool True]"] show ?case
    by (auto simp: base_frame_def)
qed (use assms in simp_all)

lemma register_writes:
  assumes "rules_ok (rules d)"
  shows "\<exists>d'. fold (\<lambda>a. ignoring (AddAttrWriteRule TBool a ''testMode'' [VBool True] True)) write_rules
      (Some d) = Some d' \<and>
    rules_ok (rules d') \<and> base_frame d' = base_frame d \<and> attrRules (rules d') = attrRules (rules d) \<and>
    cmdRules (rules d') = cmdRules (rules d)"
proof (rule ignoring_fold, goal_cases)
  case (2 x e)
  then show ?case by (simp add: AddAttrWriteRule_defined)
next
  case (3 x e e')
  with AddAttrWriteRule_keeps [OF 3(3)] show ?case by (simp add: base_frame_def)
qed (use assms in simp_all)

lemma InitCmdAttrStateMachine_registered:
  assumes "mode_ready d0"
  shows "\<exists>d. InitCmdAttrStateMachine d0 = Some d \<and> registered d0 d"
proof -
  from register_modes [OF assms] assms obtain d1 where 1:
    "fold (\<lambda>x. ignoring (add_mode_rule x)) mode_rules (Some d0) = Some d1" "rules_ok (rules d1)"
    "base_frame d1 = base_frame d0" "attrRules (rules d1) = []"
    "\<forall>c a. cmd_rule d1 c a = (if a = ''operatingMode'' then rule_of mode_rules c else None)"
    by (auto simp: mode_ready_def RuleFactory_Instance_def)
  from register_test_mode [OF 1(2)] 1 obtain d2 where 2:
    "fold (\<lambda>c. ignoring (AddCmdRule TBool c ''testMode'' [VBool True] True)) test_mode_rules (Some d1) =
       Some d2" "rules_ok (rules d2)" "base_frame d2 = base_frame d0" "attrRules (rules d2) = []"
    "\<forall>c a. c \<notin> set test_mode_rules \<longrightarrow> cmd_rule d2 c a = cmd_rule d1 c a" by auto
  from 2(3) assms have "is_scalar_attr ''operatingMode'' d2"
    by (simp add: mode_ready_def base_frame_def is_scalar_attr_def)
  from register_transitions [OF 2(2) this 2(4)] 2 obtain d3 where 3:
    "fold (\<lambda>x. ignoring (add_transition_rule x)) transition_rules (Some d2) = Some d3"
    "rules_ok (rules d3)" "base_frame d3 = base_frame d0" "cmdRules (rules d3) = cmdRules (rules d2)"
    "\<forall>a l. attr_rule d3 a l = (if a = ''operatingMode'' then rule_of transition_rules l else None)"
    by auto
  from register_writes [OF 3(2)] 3 obtain d4 where 4:
    "fold (\<lambda>a. ignoring (AddAttrWriteRule TBool a ''testMode'' [VBool True] True)) write_rules (Some d3) =
       Some d4" "rules_ok (rules d4)" "base_frame d4 = base_frame d0"
    "attrRules (rules d4) = attrRules (rules d3)" "cmdRules (rules d4) = cmdRules (rules d3)" by auto
  have f: "(\<lambda>(c, ms). ignoring (AddCmdRule TString c ''operatingMode'' (List.map VString ms) True)) =
      (\<lambda>x. ignoring (add_mode_rule x))"
    "(\<lambda>(m, ms). ignoring (AddAttrRule TString ''operatingMode'' (VString m) (List.map VString ms) True)) =
      (\<lambda>x. ignoring (add_transition_rule x))"
    by (auto simp: fun_eq_iff add_mode_rule_def add_transition_rule_def)
  have "InitCmdAttrStateMachine d0 = Some d4"
    using 1(1) 2(1) 3(1) 4(1) by (simp only: InitCmdAttrStateMachine_def Let_def f)
  moreover have "registered d0 d4" using 1 2 3 4 by (simp add: registered_def ds_rules_def)
  ultimately show ?thesis by blast
qed

text \<open>
  The reachable states of the emulator and the gate in front of its commands: the step relation over
  the operations of the clients, of the task thread and of the tracking thread, in any order, and the
  operating modes in which a command is allowed.
\<close>

subsection \<open>Steps\<close>

text \<open>
  The start of the device: the rules are registered over the attributes, then the device runs. The
  device registers no write actions, so writing an attribute executes no command.
\<close>

definition ds_start :: "ds_config \<Rightarrow> lmc_device \<Rightarrow> ds_emulator option" where
  "ds_start cf d0 = map_option (ds_init cf) (InitCmdAttrStateMachine d0)"

inductive ds_step :: "ds_emulator \<Rightarrow> ds_emulator \<Rightarrow> bool" where
  Step_Startup: "Startup post_ok d = (st, d') \<Longrightarrow> ds_step d d'"
| Step_Command: "ds_command w_ok post_ok c d = (r, d') \<Longrightarrow> r \<noteq> Reply_Undefined \<Longrightarrow> ds_step d d'"
| Step_Pointing: "write_desiredPointing now w_val d = (r, d') \<Longrightarrow> r \<noteq> Reply_Undefined \<Longrightarrow> ds_step d d'"
| Step_Write: "dyn_attr_write_cb (\<lambda>c e. (False, e)) v attr_name d = (r, d') \<Longrightarrow>
     r \<noteq> Undefined_Access \<Longrightarrow> ds_step d d'"
| Step_Task: "task_round w_ok signalled unlucky d = Some d' \<Longrightarrow> ds_step d d'"
| Step_Tracking: "tracker_step w_ok now g d = Some d' \<Longrightarrow> ds_step d d'"
| Step_Stop: "ds_step d (stop_tracking_thread d)"

inductive ds_reach :: "ds_config \<Rightarrow> lmc_device \<Rightarrow> ds_emulator \<Rightarrow> bool" for cf d0 where
  Reach_Start: "ds_start cf d0 = Some d \<Longrightarrow> ds_reach cf d0 d"
| Reach_Step: "ds_reach cf d0 d \<Longrightarrow> ds_step d d' \<Longrightarrow> ds_reach cf d0 d'"

inductive_cases ds_stepE: "ds_step d d'"

lemma keeps_write: "dyn_attr_write_cb (\<lambda>c e. (False, e)) v n d = (r, d') \<Longrightarrow> keeps d d'"
  by (rule stable_attrs)
    (erule kept_shape.dyn_attr_write_cb_kept kept_attrs.dyn_attr_write_cb_kept, simp)+

lemma keeps_step: "ds_step d d' \<Longrightarrow> keeps d d'"
  by (erule ds_stepE)
    (auto intro: ds_stable keeps_write stable_task_round stable_tracker_step
      simp: stop_tracking_thread_def)

lemma ds_reach_keeps: "ds_reach cf d0 d \<Longrightarrow> \<exists>d1. ds_start cf d0 = Some d1 \<and> keeps d1 d"
proof (induction rule: ds_reach.induct)
  case (Reach_Start d)
  then show ?case by auto
next
  case (Reach_Step d d')
  then show ?case using keeps_step by (blast intro: stable_trans)
qed

lemma ds_init_fields [simp]:
  "ds_cfg (ds_init cf d) = cf" "ds_schedule (ds_init cf d) =
     SetMaxQueueSize (sint (maxPointingQueueSize cf)) PointingSchedule_new"
  "rules (ds_init cf d) = rules d" "dyn_attrs (ds_init cf d) = dyn_attrs d"
  "dev_commands (ds_init cf d) = dev_commands d"
  by (simp_all add: ds_init_def lmc_device.defs)

lemma ds_start_fields:
  assumes "mode_ready d0" and "ds_start cf d0 = Some d"
  shows "ds_cfg d = cf" and "ds_rules (rules d)" and "dyn_attrs d = dyn_attrs d0"
    and "dev_commands d = dev_commands d0" and "sched_ok (ds_schedule d)"
    and "maxQueueSize (ds_schedule d) = sint (maxPointingQueueSize cf)"
    and "expiredTimeThr (ds_schedule d) = 100"
proof -
  from InitCmdAttrStateMachine_registered [OF assms(1)] obtain d1 where
    "InitCmdAttrStateMachine d0 = Some d1" "registered d0 d1" by blast
  with assms(2) show "ds_cfg d = cf" "ds_rules (rules d)" "dyn_attrs d = dyn_attrs d0"
    "dev_commands d = dev_commands d0" "sched_ok (ds_schedule d)"
    "maxQueueSize (ds_schedule d) = sint (maxPointingQueueSize cf)" "expiredTimeThr (ds_schedule d) = 100"
    by (auto simp: ds_start_def registered_def base_frame_def SetMaxQueueSize_def PointingSchedule_new_def
        simp flip: SetMaxQueueSize_def)
      (simp_all add: SetMaxQueueSize_def sched_ok_def)
qed

text \<open>What holds in every reachable state.\<close>

lemma ds_reach_inv:
  assumes "mode_ready d0" and "ds_reach cf d0 d"
  shows "ds_cfg d = cf" and "ds_rules (rules d)" and "dev_commands d = dev_commands d0"
    and "sched_ok (ds_schedule d)"
    and "maxQueueSize (ds_schedule d) = sint (maxPointingQueueSize cf)"
    and "expiredTimeThr (ds_schedule d) = 100"
proof -
  from ds_reach_keeps [OF assms(2)] obtain d1 where d1: "ds_start cf d0 = Some d1" "keeps d1 d" by blast
  with ds_start_fields [OF assms(1) d1(1)]
  show "ds_cfg d = cf" "ds_rules (rules d)" "dev_commands d = dev_commands d0"
    "sched_ok (ds_schedule d)" "maxQueueSize (ds_schedule d) = sint (maxPointingQueueSize cf)"
    "expiredTimeThr (ds_schedule d) = 100"
    by (auto simp: keeps_def shape_def)
qed

subsection \<open>Commands and modes\<close>

text \<open>The operating mode, as the rules see it.\<close>

definition in_mode :: "string \<Rightarrow> 'z lmc_device_scheme \<Rightarrow> bool" where
  "in_mode l d \<longleftrightarrow> seen_value ''operatingMode'' d = Got (VString l)"

lemma mode_gate:
  assumes "ds_rules (rules d)" and "in_mode l d" and "cmd \<in> set (dev_commands d)"
    and "map_of mode_rules cmd = Some ms" and "cmd \<notin> set test_mode_rules"
    and "extract_cmd_name fcn = cmd"
  shows "IsCmdAllowed fcn True d = (if l \<in> set ms then Pass else Violated ''operatingMode'')"
  using assms by (intro single_rule_gate) (simp_all add: ds_rules_def rules_ok_def rule_of_def in_mode_def)

lemma no_rule_gate:
  assumes "ds_rules (rules d)" and "cmd \<notin> set test_mode_rules" and "map_of mode_rules cmd = None"
    and "extract_cmd_name fcn = cmd"
  shows "IsCmdAllowed fcn check d = Pass"
  using assms by (intro unruled_gate) (simp_all add: ds_rules_def rules_ok_def rule_of_def)

lemma extract_names:
  "extract_cmd_name ''is_SetStandbyLPMode_allowed'' = ''SetStandbyLPMode''"
  "extract_cmd_name ''is_SetStandbyFPMode_allowed'' = ''SetStandbyFPMode''"
  "extract_cmd_name ''is_SetPointMode_allowed'' = ''SetPointMode''"
  "extract_cmd_name ''is_Stow_allowed'' = ''Stow''"
  "extract_cmd_name ''is_SetMaintenanceMode_allowed'' = ''SetMaintenanceMode''"
  "extract_cmd_name ''is_SetIndexPosition_allowed'' = ''SetIndexPosition''"
  "extract_cmd_name ''Stow'' = ''Stow''" "extract_cmd_name ''stow'' = ''stow''"
  "extract_cmd_name ''set_standby_lpmode'' = ''set_standby_lpmode''"
  "extract_cmd_name ''set_standby_fpmode'' = ''set_standby_fpmode''"
  "extract_cmd_name ''set_point_mode'' = ''set_point_mode''"
  "extract_cmd_name ''set_index_position'' = ''set_index_position''"
  "extract_cmd_name ''simulate_power_cut'' = ''simulate_power_cut''"
  by code_simp+

definition command_name :: "ds_command \<Rightarrow> string" where
  "command_name c =
     (case c of
        SetStandbyLPMode \<Rightarrow> ''SetStandbyLPMode'' | SetStandbyFPMode \<Rightarrow> ''SetStandbyFPMode''
      | SetPointMode \<Rightarrow> ''SetPointMode'' | Stow \<Rightarrow> ''Stow'' | SetMaintenanceMode \<Rightarrow> ''SetMaintenanceMode''
      | SetIndexPosition p \<Rightarrow> ''SetIndexPosition'' | SimulatePowerCut \<Rightarrow> ''SimulatePowerCut''
      | SimulatePowerRestore \<Rightarrow> ''SimulatePowerRestore'' | SimulateESTOP \<Rightarrow> ''SimulateESTOP''
      | FlushTrackProgram \<Rightarrow> ''FlushTrackProgram'' | PauseTracking \<Rightarrow> ''PauseTracking''
      | ResumeTracking \<Rightarrow> ''ResumeTracking'' | ResetProgressAttrs \<Rightarrow> ''ResetProgressAttrs''
      | ResetPowerCutAttrs \<Rightarrow> ''ResetPowerCutAttrs'')"

lemma is_allowed_mode:
  assumes "ds_rules (rules d)" and "in_mode l d" and "command_name c \<in> set (dev_commands d)"
    and "map_of mode_rules (command_name c) = Some ms"
  shows "l \<notin> set ms \<Longrightarrow> is_allowed c d = Thrown ''IS_CMD_ALLOWED''"
    and "l \<in> set ms \<Longrightarrow> (\<And>p. c \<noteq> SetIndexPosition p) \<Longrightarrow> is_allowed c d = Returned_Void"
proof -
  have n: "command_name c \<notin> set test_mode_rules"
    using assms(4) by (cases c) (simp_all add: command_name_def mode_rules_def test_mode_rules_def)
  note gate = mode_gate [OF assms(1-4) n]
  show "l \<notin> set ms \<Longrightarrow> is_allowed c d = Thrown ''IS_CMD_ALLOWED''"
    using assms(4) gate
    by (cases c) (simp_all add: command_name_def is_allowed_def extract_names gate_reply_def mode_rules_def)
  show "l \<in> set ms \<Longrightarrow> (\<And>p. c \<noteq> SetIndexPosition p) \<Longrightarrow> is_allowed c d = Returned_Void"
    using assms(4) gate
    by (cases c) (auto simp: command_name_def is_allowed_def extract_names gate_reply_def mode_rules_def)
qed

end
