(* ===== verification/DsAttrs.thy ===== *)
theory DsAttrs
  imports DsModes
begin

text \<open>
  Attributes of the emulator with the types it uses them with, and the effect of its steps when the
  attributes are there: every step is then a setting of a value.
\<close>

subsection \<open>Typed attributes\<close>

definition enum_attr :: "string \<Rightarrow> string list \<Rightarrow> 'z lmc_device_scheme \<Rightarrow> bool" where
  "enum_attr n ls d \<longleftrightarrow>
     (case map_of (dyn_attrs d) n of
        None \<Rightarrow> False
      | Some a \<Rightarrow> at_scalar a \<and> at_type a = DEV_ENUM \<and> ctype_of (at_value a) = TShort \<and>
                  set ls \<subseteq> set (at_labels a) \<and> length (at_labels a) < 2 ^ 15)"

definition plain_attr :: "ctype \<Rightarrow> string \<Rightarrow> 'z lmc_device_scheme \<Rightarrow> bool" where
  "plain_attr T n d \<longleftrightarrow>
     (case map_of (dyn_attrs d) n of
        None \<Rightarrow> False | Some a \<Rightarrow> at_scalar a \<and> ctype_of (at_value a) = T)"

lemma enum_attr_shape:
  assumes "shape d' = shape d"
  shows "enum_attr n ls d' = enum_attr n ls d"
  using shape_attr [OF assms, of n]
  by (cases "map_of (dyn_attrs d) n"; cases "map_of (dyn_attrs d') n")
    (auto simp: enum_attr_def attr_shape_def)

lemma plain_attr_shape:
  assumes "shape d' = shape d"
  shows "plain_attr T n d' = plain_attr T n d"
  using shape_attr [OF assms, of n]
  by (cases "map_of (dyn_attrs d) n"; cases "map_of (dyn_attrs d') n")
    (auto simp: plain_attr_def attr_shape_def)

text \<open>The label an enumerated attribute has; -1 and values out of range have none.\<close>

definition has_now :: "string \<Rightarrow> string \<Rightarrow> 'z lmc_device_scheme \<Rightarrow> bool" where
  "has_now n l d \<longleftrightarrow> (case value_at n d of
       Some (VShort w) \<Rightarrow> GetEnumAttrLabelValue n w d = Some l | _ \<Rightarrow> False)"

lemma enum_value_label:
  assumes "enum_attr n ls d" and "l \<in> set ls"
  shows "GetEnumAttrLabelValue n (enum_value n l d) d = Some l"
    and "0 \<le> sint (enum_value n l d)"
    and "map_of (dyn_attrs d) n = Some a \<Longrightarrow> sint (enum_value n l d) < int (length (at_labels a))"
proof -
  from assms obtain b where b: "map_of (dyn_attrs d) n = Some b" "at_type b = DEV_ENUM"
    "l \<in> set (at_labels b)" "length (at_labels b) < 2 ^ 15"
    by (auto simp: enum_attr_def split: option.splits)
  have "find_index (\<lambda>x. x = l) (at_labels b) \<noteq> None" using b(3) by simp
  then obtain i where i: "find_index (\<lambda>x. x = l) (at_labels b) = Some i" by blast
  from find_index_bound [OF i] find_index_hit [OF i] have il: "i < length (at_labels b)"
    "at_labels b ! i = l" by simp_all
  have v: "enum_value n l d = of_nat i"
    using b i by (auto simp: enum_value_def GetEnumAttrValue_def)
  have s: "sint (of_nat i :: 16 word) = int i"
    using il b(4) by (simp add: signed_of_nat signed_take_bit_int_eq_self)
  from b il v s show "GetEnumAttrLabelValue n (enum_value n l d) d = Some l"
    by (auto simp: GetEnumAttrLabelValue_def)
  from v s show "0 \<le> sint (enum_value n l d)" by simp
  from v s b il show "map_of (dyn_attrs d) n = Some a \<Longrightarrow>
    sint (enum_value n l d) < int (length (at_labels a))" by simp
qed

subsection \<open>Steps that succeed\<close>

text \<open>Every written value is accepted by Tango.\<close>

definition w_all :: "string \<Rightarrow> scalar \<Rightarrow> bool" where
  "w_all n v = True"

definition put_label :: "string \<Rightarrow> string \<Rightarrow> 'z lmc_device_scheme \<Rightarrow> 'z lmc_device_scheme" where
  "put_label l n d = set_value n (VShort (enum_value n l d)) d"

lemma SetDynAttrValue_label:
  assumes "enum_attr n ls d" and "l \<in> set ls"
  shows "SetDynAttrValue w_all (VShort (enum_value n l d)) n d = (Got (), put_label l n d)"
proof -
  from assms(1) obtain b where b: "map_of (dyn_attrs d) n = Some b" "at_scalar b"
    "ctype_of (at_value b) = TShort" by (auto simp: enum_attr_def split: option.splits)
  with enum_value_label(2) [OF assms] enum_value_label(3) [OF assms b(1)] show ?thesis
    by (simp add: SetDynAttrValue_def SetDynAttrValueInManager_def put_label_def w_all_def)
qed

lemma set_label_ok: "enum_attr n ls d \<Longrightarrow> l \<in> set ls \<Longrightarrow> set_label w_all l n d = (Got (), put_label l n d)"
  by (simp add: set_label_def SetDynAttrValue_label)

lemma set_plain_ok:
  "plain_attr (ctype_of v) n d \<Longrightarrow> (\<And>w. v \<noteq> VShort w) \<Longrightarrow>
     SetDynAttrValue w_all v n d = (Got (), set_value n v d)"
  by (cases v) (auto simp: plain_attr_def SetDynAttrValue_def SetDynAttrValueInManager_def w_all_def
      split: option.splits)

lemma set_flag_ok: "plain_attr TBool n d \<Longrightarrow> set_flag w_all b n d = (Got (), set_value n (VBool b) d)"
  by (simp add: set_flag_def set_plain_ok)

lemma set_double_ok: "plain_attr TDouble n d \<Longrightarrow> set_double w_all x n d = (Got (), set_value n (VDouble x) d)"
  by (simp add: set_double_def set_plain_ok)

lemma shape_put_label [simp]:
  assumes "enum_attr n ls d"
  shows "shape (put_label l n d) = shape d"
  using assms by (auto simp: put_label_def enum_attr_def intro!: shape_set_value split: option.splits)

lemma shape_put_plain:
  "plain_attr (ctype_of v) n d \<Longrightarrow> shape (set_value n v d) = shape d"
  by (auto simp: plain_attr_def intro!: shape_set_value split: option.splits)

lemma value_put_label: "m \<noteq> n \<Longrightarrow> value_at m (put_label l n d) = value_at m d"
  by (simp add: put_label_def value_at_set_value)

lemma value_put_other: "m \<noteq> n \<Longrightarrow> value_at m (set_value n v d) = value_at m d"
  by (simp add: value_at_set_value)

lemma value_set_same: "map_of (dyn_attrs d) n = Some a \<Longrightarrow> value_at n (set_value n v d) = Some v"
  by (simp add: value_at_set_value) (simp add: value_at_def)

lemma value_put_plain: "plain_attr T n d \<Longrightarrow> value_at n (set_value n v d) = Some v"
  by (auto simp: plain_attr_def value_set_same split: option.splits)

lemma has_now_put_label:
  assumes "enum_attr n ls d" and "l \<in> set ls"
  shows "has_now n l (put_label l n d)"
proof -
  from assms(1) have "value_at n (put_label l n d) = Some (VShort (enum_value n l d))"
    by (auto simp: put_label_def enum_attr_def value_set_same split: option.splits)
  with enum_value_label(1) [OF assms] label_shape [OF shape_put_label [OF assms(1), of l]] show ?thesis
    by (simp add: has_now_def)
qed

lemma has_now_cong:
  "shape d' = shape d \<Longrightarrow> value_at n d' = value_at n d \<Longrightarrow> has_now n l d' = has_now n l d"
  unfolding has_now_def by (auto simp: label_shape [of d' d] split: option.splits scalar.splits)

lemma get_enum_now:
  assumes "enum_attr n ls d" and "has_now n l d"
  obtains w where "get_enum n d = Got w" and "GetEnumAttrLabelValue n w d = Some l"
    and "GetDynAttrValue TShort n d = Got (VShort w)"
proof -
  from assms obtain b w where "map_of (dyn_attrs d) n = Some b" "at_scalar b" "at_type b = DEV_ENUM"
    "at_value b = VShort w" "GetEnumAttrLabelValue n w d = Some l"
    by (auto simp: enum_attr_def has_now_def value_at_def split: option.splits scalar.splits)
  then have "GetDynAttrValue TShort n d = Got (VShort w)" "get_enum n d = Got w"
    "GetEnumAttrLabelValue n w d = Some l" by (simp_all add: get_enum_def GetDynAttrValue_def)
  then show ?thesis using that by blast
qed

lemma has_now_seen:
  assumes "enum_attr n ls d" and "has_now n l d"
  shows "seen_value n d = Got (VString l)"
proof -
  from get_enum_now [OF assms] obtain w where w: "GetEnumAttrLabelValue n w d = Some l"
    "GetDynAttrValue TShort n d = Got (VShort w)" by blast
  from assms(1) obtain b where "map_of (dyn_attrs d) n = Some b" "at_scalar b" "at_type b = DEV_ENUM"
    by (auto simp: enum_attr_def split: option.splits)
  with w show ?thesis by (simp add: seen_value_def)
qed

subsection \<open>Transitions\<close>

text \<open>The label may follow the current one: no rule for the current label, or one that has it.\<close>

definition may_follow :: "string \<Rightarrow> string \<Rightarrow> string \<Rightarrow> bool" where
  "may_follow n cur l \<longleftrightarrow> n \<noteq> ''operatingMode'' \<or>
     (case map_of transition_rules cur of None \<Rightarrow> True | Some ls \<Rightarrow> l \<in> set ls)"

lemma IsAttrAllowed_labels:
  assumes "ds_rules (rules d)" and "enum_attr n ls d"
    and "GetEnumAttrLabelValue n c d = Some cur" and "GetEnumAttrLabelValue n v d = Some l"
  shows "IsAttrAllowed n (VShort c) (VShort v) d = Some (may_follow n cur l)"
proof -
  have ok: "bi_ok (attrRules (rules d))" using assms(1) by (simp add: ds_rules_def rules_ok_def)
  have r: "bi_lookup (attrRules (rules d)) n (VString cur) =
      (if n = ''operatingMode'' then rule_of transition_rules cur else None)"
    using assms(1) by (simp add: ds_rules_def)
  from assms(2) obtain a where a: "map_of (dyn_attrs d) n = Some a" "at_scalar a" "at_type a = DEV_ENUM"
    by (auto simp: enum_attr_def split: option.splits)
  have "IsAttrAllowed n (VShort c) (VShort v) d =
      BiMapSet_HasAllowedValueInSet TString TString n (VString cur) (VString l) (attrRules (rules d))"
    using a assms(3,4) by (simp add: IsAttrAllowed_def IsAttrAllowed_factory_def)
  also have "\<dots> = Some (may_follow n cur l)"
  proof (cases "map_of (attrRules (rules d)) n")
    case None
    with r show ?thesis
      by (auto simp: BiMapSet_HasAllowedValueInSet_def may_follow_def bi_lookup_def rule_of_def
          split: if_splits option.splits)
  next
    case (Some item)
    with bi_ok_item [OF ok Some] r show ?thesis
      by (auto simp: BiMapSet_HasAllowedValueInSet_def may_follow_def bi_lookup_def rule_of_def item_ok_def
          MapSet_HasAllowedValueInSet_def HasValueInSet_def split: if_splits option.splits)
  qed
  finally show ?thesis .
qed

lemma sm_label_ok:
  assumes "ds_rules (rules d)" and "enum_attr n ls d" and "l \<in> set ls" and "has_now n cur d"
  shows "sm_label w_all l n d =
    (if may_follow n cur l then (Got (), put_label l n d) else (Failing, d))"
proof -
  from get_enum_now [OF assms(2,4)] obtain c where c: "GetEnumAttrLabelValue n c d = Some cur"
    "GetDynAttrValue TShort n d = Got (VShort c)" by blast
  from IsAttrAllowed_labels [OF assms(1,2) c(1) enum_value_label(1) [OF assms(2,3)]] c(2)
    SetDynAttrValue_label [OF assms(2,3)] show ?thesis
    by (simp add: sm_label_def SetSMDynAttrValue_def)
qed

lemma lower_power_ok:
  assumes "ds_rules (rules d)" and "enum_attr ''powerState'' ls d" and "''LOW-POWER'' \<in> set ls"
    and "has_now ''powerState'' cur d"
  shows "lower_power w_all b d =
    (Got (), if cur = ''FULL-POWER'' then put_label ''LOW-POWER'' ''powerState'' d else d)"
proof -
  from get_enum_now [OF assms(2,4)] obtain c where "GetEnumAttrLabelValue ''powerState'' c d = Some cur"
    "get_enum ''powerState'' d = Got c" by blast
  with sm_label_ok [OF assms] show ?thesis
    by (simp add: lower_power_def label_string_def may_follow_def)
qed

text \<open>Setting several flags.\<close>

definition put_flags :: "bool \<Rightarrow> string list \<Rightarrow> 'z lmc_device_scheme \<Rightarrow> 'z lmc_device_scheme" where
  "put_flags b ns d = fold (\<lambda>n. set_value n (VBool b)) ns d"

lemma shape_put_flags: "\<forall>n\<in>set ns. plain_attr TBool n d \<Longrightarrow> shape (put_flags b ns d) = shape d"
proof (induction ns arbitrary: d)
  case (Cons n ns)
  then have s: "shape (set_value n (VBool b) d) = shape d" by (simp add: shape_put_plain)
  with Cons.prems have "\<forall>m\<in>set ns. plain_attr TBool m (set_value n (VBool b) d)"
    by (simp add: plain_attr_shape [OF s])
  from Cons.IH [OF this] s show ?case by (simp add: put_flags_def)
qed (simp add: put_flags_def)

lemma run_steps_flags:
  "\<forall>n\<in>set ns. plain_attr TBool n d \<Longrightarrow>
     run_steps (set_flags w_all b ns @ fs) d = run_steps fs (put_flags b ns d)"
proof (induction ns arbitrary: d)
  case (Cons n ns)
  then have s: "shape (set_value n (VBool b) d) = shape d" by (simp add: shape_put_plain)
  with Cons.prems have "\<forall>m\<in>set ns. plain_attr TBool m (set_value n (VBool b) d)"
    by (simp add: plain_attr_shape [OF s])
  from Cons.IH [OF this] Cons.prems show ?case by (simp add: set_flags_def put_flags_def set_flag_ok)
qed (simp add: set_flags_def put_flags_def)

lemma value_put_flags:
  assumes "\<forall>n\<in>set ns. plain_attr TBool n d"
  shows "value_at m (put_flags b ns d) = (if m \<in> set ns then Some (VBool b) else value_at m d)"
  using assms
proof (induction ns arbitrary: d)
  case (Cons n ns)
  then have s: "shape (set_value n (VBool b) d) = shape d" by (simp add: shape_put_plain)
  with Cons.prems have "\<forall>m\<in>set ns. plain_attr TBool m (set_value n (VBool b) d)"
    by (simp add: plain_attr_shape [OF s])
  from Cons.IH [OF this] Cons.prems show ?case
    by (auto simp: put_flags_def value_put_plain value_put_other)
qed (simp add: put_flags_def)


text \<open>
  The changes of the operating mode. The tasks and the tracking thread end them with the same sequence:
  flags of the brakes and of the servos, the power state, the pointing state, the mode. One lemma gives
  the effect of the sequence; \<open>DsStowRun\<close> and \<open>DsProps\<close> use it for the stow position and for pointing.
\<close>

subsection \<open>The attributes of the emulator\<close>

definition ds_attrs_ok :: "'z lmc_device_scheme \<Rightarrow> bool" where
  "ds_attrs_ok d \<longleftrightarrow>
     enum_attr ''operatingMode'' [''STOW'', ''ESTOP'', ''POINT''] d \<and>
     enum_attr ''powerState'' [''LOW-POWER'', ''FULL-POWER'', ''UPS''] d \<and>
     enum_attr ''pointingState'' [''READY'', ''SLEW'', ''TRACK'', ''NONE''] d \<and>
     (\<forall>n\<in>set (''targetLock'' # brake_names @ servo_names). plain_attr TBool n d) \<and>
     plain_attr TDouble ''antennaAzPosition'' d \<and> plain_attr TDouble ''antennaElPosition'' d"

lemma ds_attrs_shape: "shape d' = shape d \<Longrightarrow> ds_attrs_ok d' = ds_attrs_ok d"
  by (simp add: ds_attrs_ok_def enum_attr_shape [of d' d] plain_attr_shape [of d' d])

lemma ds_attrsD:
  assumes "ds_attrs_ok d"
  shows "enum_attr ''operatingMode'' [''STOW'', ''ESTOP'', ''POINT''] d"
    and "enum_attr ''powerState'' [''LOW-POWER'', ''FULL-POWER'', ''UPS''] d"
    and "enum_attr ''pointingState'' [''READY'', ''SLEW'', ''TRACK'', ''NONE''] d"
    and "plain_attr TBool ''targetLock'' d"
    and "\<forall>n\<in>set brake_names. plain_attr TBool n d" and "\<forall>n\<in>set servo_names. plain_attr TBool n d"
    and "plain_attr TDouble ''antennaAzPosition'' d" and "plain_attr TDouble ''antennaElPosition'' d"
  using assms by (auto simp: ds_attrs_ok_def)

text \<open>The names of the flags are none of the other attributes.\<close>

lemma flag_names:
  "n \<in> set brake_names \<Longrightarrow> n \<notin> set servo_names \<and> n \<notin> {''operatingMode'', ''pointingState'', ''powerState''}"
  "n \<in> set servo_names \<Longrightarrow> n \<notin> {''operatingMode'', ''pointingState'', ''powerState''}"
  "''operatingMode'' \<notin> set brake_names" "''operatingMode'' \<notin> set servo_names"
  "''powerState'' \<notin> set brake_names" "''powerState'' \<notin> set servo_names"
  "''pointingState'' \<notin> set brake_names" "''pointingState'' \<notin> set servo_names"
  "''targetLock'' \<notin> set brake_names" "''targetLock'' \<notin> set servo_names"
  "''antennaAzPosition'' \<notin> set brake_names" "''antennaAzPosition'' \<notin> set servo_names"
  "''antennaElPosition'' \<notin> set brake_names" "''antennaElPosition'' \<notin> set servo_names"
  by (auto simp: brake_names_def servo_names_def)

subsection \<open>A change of the mode\<close>

text \<open>A step that changes the power state at most, to a label in \<open>S\<close>.\<close>

definition power_step ::
    "string \<Rightarrow> string set \<Rightarrow> (ds_emulator \<Rightarrow> unit access \<times> ds_emulator) \<Rightarrow> ds_emulator \<Rightarrow> bool" where
  "power_step pw S f e \<longleftrightarrow> has_now ''powerState'' pw e \<longrightarrow>
     (\<exists>e'. f e = (Got (), e') \<and> shape e' = shape e \<and> attrs_only e e' \<and>
        (\<exists>pw'\<in>S. has_now ''powerState'' pw' e') \<and>
        (\<forall>n. n \<noteq> ''powerState'' \<longrightarrow> value_at n e' = value_at n e))"

lemma attrs_only_put_label [simp]: "attrs_only d (put_label l n d)"
  by (simp add: put_label_def)

lemma attrs_only_put_flags [simp]: "attrs_only d (put_flags b ns d)"
proof (induction ns arbitrary: d)
  case (Cons n ns)
  have "attrs_only (set_value n (VBool b) d) (put_flags b ns (set_value n (VBool b) d))" by (rule Cons.IH)
  then have "attrs_only d (put_flags b ns (set_value n (VBool b) d))"
    by (rule attrs_only_trans [rotated]) simp
  then show ?case by (simp add: put_flags_def)
qed (simp add: put_flags_def)

text \<open>The last two steps: pointing state and mode.\<close>

lemma change_labels:
  assumes A: "ds_attrs_ok d" and R: "ds_rules (rules d)"
    and cur: "has_now ''operatingMode'' cur d" and pc: "has_now ''pointingState'' pc d"
    and follow: "may_follow ''operatingMode'' cur mode" and mode: "mode \<in> {''STOW'', ''ESTOP'', ''POINT''}"
    and pnt: "pnt \<in> {''READY'', ''SLEW'', ''TRACK'', ''NONE''}"
  shows "\<exists>d'. run_steps [sm_label w_all pnt ''pointingState'', sm_label w_all mode ''operatingMode''] d =
      (Got (), d') \<and> shape d' = shape d \<and> attrs_only d d' \<and>
    has_now ''operatingMode'' mode d' \<and> has_now ''pointingState'' pnt d' \<and>
    (\<forall>n. n \<notin> {''operatingMode'', ''pointingState''} \<longrightarrow> value_at n d' = value_at n d)"
proof -
  let ?d1 = "put_label pnt ''pointingState'' d"
  let ?d2 = "put_label mode ''operatingMode'' ?d1"
  note E = ds_attrsD(1,3) [OF A]
  have s1: "shape ?d1 = shape d" by (rule shape_put_label [OF E(2)])
  have E1: "enum_attr ''operatingMode'' [''STOW'', ''ESTOP'', ''POINT''] ?d1"
    using E(1) by (simp add: enum_attr_shape [OF s1])
  have s2: "shape ?d2 = shape ?d1" by (rule shape_put_label [OF E1])
  have l1: "sm_label w_all pnt ''pointingState'' d = (Got (), ?d1)"
    using sm_label_ok [OF R E(2) _ pc, of pnt] pnt by (auto simp: may_follow_def)
  have R1: "ds_rules (rules ?d1)" using R shape_rules [OF s1] by simp
  have "has_now ''operatingMode'' cur ?d1" using cur by (simp add: has_now_cong [OF s1] value_put_label)
  from sm_label_ok [OF R1 E1 _ this, of mode] mode follow
  have l2: "sm_label w_all mode ''operatingMode'' ?d1 = (Got (), ?d2)" by auto
  have "has_now ''operatingMode'' mode ?d2" by (rule has_now_put_label [OF E1]) (use mode in auto)
  moreover have "has_now ''pointingState'' pnt ?d1" by (rule has_now_put_label [OF E(2)]) (use pnt in auto)
  then have "has_now ''pointingState'' pnt ?d2" by (simp add: has_now_cong [OF s2] value_put_label)
  moreover have "attrs_only d ?d2" by (rule attrs_only_trans [of d ?d1]) simp_all
  ultimately show ?thesis using l1 l2 s1 s2
    by (intro exI [of _ ?d2]) (simp add: value_put_label)
qed

lemma run_steps_Got: "run_steps fs d = (Got (), d1) \<Longrightarrow> run_steps (fs @ gs) d = run_steps gs d1"
proof (induction fs arbitrary: d)
  case (Cons f fs)
  obtain r e where "f d = (r, e)" by fastforce
  with Cons show ?case by (cases r) auto
qed simp

lemma change_mode:
  assumes A: "ds_attrs_ok d" and R: "ds_rules (rules d)"
    and cur: "has_now ''operatingMode'' cur d" and pw: "has_now ''powerState'' pw d"
    and pc: "has_now ''pointingState'' pc d"
    and ns: "set ns1 \<union> set ns2 \<subseteq> set (brake_names @ servo_names)"
    and f: "\<And>e. shape e = shape d \<Longrightarrow> power_step pw S f e"
    and follow: "may_follow ''operatingMode'' cur mode" and mode: "mode \<in> {''STOW'', ''ESTOP'', ''POINT''}"
    and pnt: "pnt \<in> {''READY'', ''SLEW'', ''TRACK'', ''NONE''}"
  shows "\<exists>d'. run_steps (set_flags w_all b1 ns1 @ set_flags w_all b2 ns2 @
        [f, sm_label w_all pnt ''pointingState'', sm_label w_all mode ''operatingMode'']) d = (Got (), d') \<and>
    shape d' = shape d \<and> attrs_only d d' \<and> has_now ''operatingMode'' mode d' \<and>
    has_now ''pointingState'' pnt d' \<and> (\<exists>pw'\<in>S. has_now ''powerState'' pw' d') \<and>
    (\<forall>n. n \<notin> {''operatingMode'', ''pointingState'', ''powerState''} \<longrightarrow> value_at n d' =
       (if n \<in> set ns2 then Some (VBool b2) else if n \<in> set ns1 then Some (VBool b1) else value_at n d))"
proof -
  let ?e1 = "put_flags b1 ns1 d"
  let ?e2 = "put_flags b2 ns2 ?e1"
  have p: "\<forall>n\<in>set ns1. plain_attr TBool n d" "\<forall>n\<in>set ns2. plain_attr TBool n d"
    using A ns by (auto simp: ds_attrs_ok_def)
  have s1: "shape ?e1 = shape d" by (rule shape_put_flags [OF p(1)])
  have p2: "\<forall>n\<in>set ns2. plain_attr TBool n ?e1" using p(2) by (simp add: plain_attr_shape [OF s1])
  have s2: "shape ?e2 = shape d" using shape_put_flags [OF p2] s1 by simp
  have v2: "value_at n ?e2 = (if n \<in> set ns2 then Some (VBool b2)
      else if n \<in> set ns1 then Some (VBool b1) else value_at n d)" for n
    by (simp add: value_put_flags [OF p2] value_put_flags [OF p(1)])
  have a2: "attrs_only d ?e2" by (rule attrs_only_trans [of d ?e1]) simp_all
  have other: "n \<notin> set ns1 \<and> n \<notin> set ns2" if "n \<in> {''operatingMode'', ''pointingState'', ''powerState''}" for n
    using ns that flag_names(1,2) by fastforce
  have "has_now ''powerState'' pw ?e2"
    using pw other [of "''powerState''"] by (simp add: has_now_cong [OF s2] v2)
  with f [OF s2] obtain e3 pw' where e3: "f ?e2 = (Got (), e3)" "shape e3 = shape ?e2" "attrs_only ?e2 e3"
    "pw' \<in> S" "has_now ''powerState'' pw' e3" "\<And>n. n \<noteq> ''powerState'' \<Longrightarrow> value_at n e3 = value_at n ?e2"
    by (auto simp: power_step_def)
  have s3: "shape e3 = shape d" using e3(2) s2 by simp
  have "ds_attrs_ok e3" "ds_rules (rules e3)"
    using A R shape_rules [OF s3] by (simp_all add: ds_attrs_shape [OF s3])
  moreover have "has_now ''operatingMode'' cur e3"
    using cur other [of "''operatingMode''"] by (simp add: has_now_cong [OF s3] e3(6) v2)
  moreover have "has_now ''pointingState'' pc e3"
    using pc other [of "''pointingState''"] by (simp add: has_now_cong [OF s3] e3(6) v2)
  ultimately obtain d' where d':
    "run_steps [sm_label w_all pnt ''pointingState'', sm_label w_all mode ''operatingMode''] e3 = (Got (), d')"
    "shape d' = shape e3" "attrs_only e3 d'" "has_now ''operatingMode'' mode d'"
    "has_now ''pointingState'' pnt d'"
    "\<forall>n. n \<notin> {''operatingMode'', ''pointingState''} \<longrightarrow> value_at n d' = value_at n e3"
    using change_labels [OF _ _ _ _ follow mode pnt] by blast
  from d'(1) e3(1) have "run_steps (set_flags w_all b1 ns1 @ set_flags w_all b2 ns2 @
      [f, sm_label w_all pnt ''pointingState'', sm_label w_all mode ''operatingMode'']) d = (Got (), d')"
    by (simp add: run_steps_flags [OF p(1)] run_steps_flags [OF p2])
  moreover have "has_now ''powerState'' pw' d'"
    using e3(5) d'(6) by (simp add: has_now_cong [OF d'(2)])
  moreover have "attrs_only d d'" using a2 e3(3) d'(3) by (blast intro: attrs_only_trans)
  ultimately show ?thesis using d' s3 e3(4,6) v2 by auto
qed

subsection \<open>The power steps\<close>

lemma lower_power_step:
  assumes "ds_attrs_ok e" and "ds_rules (rules e)"
  shows "power_step pw {if pw = ''FULL-POWER'' then ''LOW-POWER'' else pw} (lower_power w_all b) e"
proof -
  have E: "enum_attr ''powerState'' [''LOW-POWER'', ''FULL-POWER'', ''UPS''] e" by (rule ds_attrsD(2) [OF assms(1)])
  have s: "shape (put_label ''LOW-POWER'' ''powerState'' e) = shape e" by (rule shape_put_label [OF E])
  have h: "has_now ''powerState'' ''LOW-POWER'' (put_label ''LOW-POWER'' ''powerState'' e)"
    by (rule has_now_put_label [OF E]) simp
  show ?thesis
    using lower_power_ok [OF assms(2) E, of pw b] s h by (auto simp: power_step_def value_put_label)
qed

lemma set_power_step:
  assumes "ds_attrs_ok e" and "ds_rules (rules e)" and "l \<in> {''LOW-POWER'', ''FULL-POWER''}"
  shows "power_step pw {l, pw} (set_power w_all l) e"
proof (cases "has_now ''powerState'' pw e")
  case True
  have E: "enum_attr ''powerState'' [''LOW-POWER'', ''FULL-POWER'', ''UPS''] e" by (rule ds_attrsD(2) [OF assms(1)])
  have s: "shape (put_label l ''powerState'' e) = shape e" by (rule shape_put_label [OF E])
  have h: "has_now ''powerState'' l (put_label l ''powerState'' e)"
    by (rule has_now_put_label [OF E]) (use assms(3) in auto)
  from get_enum_now [OF E True] obtain w where w: "get_enum ''powerState'' e = Got w" by blast
  have "sm_label w_all l ''powerState'' e = (Got (), put_label l ''powerState'' e)"
    using sm_label_ok [OF assms(2) E _ True, of l] assms(3) by (auto simp: may_follow_def)
  with w True s h show ?thesis
    by (auto simp: power_step_def set_power_def value_put_label)
qed (simp add: power_step_def)

end
