(* ===== verification/DsStowSpec.thy ===== *)
theory DsStowSpec
  imports DsAttrs
begin

text \<open>
  Slewing: the number of steps an axis needs, termination of the loop whatever other threads do while
  it waits, and the runs of the tracking thread when nothing else happens.
\<close>

subsection \<open>One axis\<close>

text \<open>The axis has at most \<open>k\<close> steps to go, in the right direction.\<close>

definition axis_ok :: "real \<Rightarrow> real \<Rightarrow> bool \<Rightarrow> real \<Rightarrow> nat \<Rightarrow> bool" where
  "axis_ok stop step reached current k \<longleftrightarrow> reached \<or>
     step > 0 \<and> current < stop \<and> stop - current \<le> real k * step \<or>
     step < 0 \<and> stop < current \<and> current - stop \<le> real k * - step"

lemma axis_ok_0: "axis_ok stop step r c 0 \<Longrightarrow> r"
  by (auto simp: axis_ok_def)

lemma move_axis_ok:
  assumes "axis_ok stop step r c (Suc k)" and "move_axis stop step r c = (c', r')"
  shows "axis_ok stop step r' c' k"
  using assms by (auto simp: axis_ok_def move_axis_def Let_def algebra_simps split: if_splits)

subsection \<open>Both axes\<close>

definition slew_ok :: "pointing_data \<Rightarrow> slew_vars \<Rightarrow> nat \<Rightarrow> bool" where
  "slew_ok p v k \<longleftrightarrow> axis_ok (pd_az p) (azPosStep v) (azReached v) (currentAz v) k \<and>
     axis_ok (pd_el p) (elPosStep v) (elReached v) (currentEl v) k"

definition slewed :: "slew_vars \<Rightarrow> bool" where
  "slewed v \<longleftrightarrow> azReached v \<and> elReached v"

lemma slew_ok_0: "slew_ok p v 0 \<Longrightarrow> slewed v"
  by (auto simp: slew_ok_def slewed_def dest: axis_ok_0)

lemma slew_move_ok: "slew_ok p v (Suc k) \<Longrightarrow> slew_ok p (slew_move p v) k"
  by (auto simp: slew_ok_def slew_move_def split: prod.splits dest: move_axis_ok)

lemma slew_move_slewed: "slewed v \<Longrightarrow> slew_move p v = v"
  by (auto simp: slewed_def slew_move_def move_axis_def)

lemma slew_ok_slewed: "slewed v \<Longrightarrow> slew_ok p v k"
  by (simp add: slew_ok_def slewed_def axis_ok_def)

definition slew_step :: "ds_config \<Rightarrow> real" where
  "slew_step cf = slewRate cf * (slewTimeStep cf / 1000)"

lemma slew_start_axis:
  assumes "0 < step" and "\<bar>stop - start\<bar> \<le> real k * step" and "0 \<le> reso"
  shows "axis_ok stop (if stop - start < 0 then step * -1 else step) (\<bar>stop - start\<bar> \<le> reso) start k"
  using assms by (cases "stop = start") (auto simp: axis_ok_def)

text \<open>The steps the slewing takes at most.\<close>

definition slew_bound :: "ds_config \<Rightarrow> pointing_data \<Rightarrow> real \<Rightarrow> real \<Rightarrow> nat" where
  "slew_bound cf p az el = nat \<lceil>max \<bar>pd_az p - az\<bar> \<bar>pd_el p - el\<bar> / slew_step cf\<rceil>"

lemma slew_bound:
  assumes "0 < slew_step cf"
  shows "\<bar>pd_az p - az\<bar> \<le> real (slew_bound cf p az el) * slew_step cf"
    and "\<bar>pd_el p - el\<bar> \<le> real (slew_bound cf p az el) * slew_step cf"
proof -
  have "max \<bar>pd_az p - az\<bar> \<bar>pd_el p - el\<bar> / slew_step cf \<le> real (slew_bound cf p az el)"
    unfolding slew_bound_def by (rule real_nat_ceiling_ge)
  with assms have "max \<bar>pd_az p - az\<bar> \<bar>pd_el p - el\<bar> \<le> real (slew_bound cf p az el) * slew_step cf"
    by (simp add: field_simps)
  then show "\<bar>pd_az p - az\<bar> \<le> real (slew_bound cf p az el) * slew_step cf"
    "\<bar>pd_el p - el\<bar> \<le> real (slew_bound cf p az el) * slew_step cf" by simp_all
qed

lemma slew_start_ok:
  assumes "0 < slew_step cf" and "0 \<le> pointingResolution cf"
  shows "slew_ok p (slew_start cf p az el) (slew_bound cf p az el)"
  unfolding slew_ok_def slew_start_def Let_def slew_step_def [symmetric] slew_vars.select_convs
  by (intro conjI slew_start_axis slew_bound) (use assms in simp_all)

subsection \<open>Termination of the loop\<close>

lemma slew_iter_result:
  "slew_iter w_ok now p v d = (Slew_Moving v1, d1) \<Longrightarrow> v1 = slew_move p v"
  by (auto simp: slew_iter_def slew_steps_def Let_def split: access.splits prod.splits)

lemma slew_iter_not_reached: "fst (slew_iter w_ok now p v d) \<noteq> Slew_Reached"
  by (auto simp: slew_iter_def slew_steps_def Let_def split: access.splits prod.splits)

lemma slew_check_result:
  "slew_check p v d = (Slew_Moving v1, d1) \<Longrightarrow> v1 = v \<and> d1 = d \<and> \<not> slewed v"
  by (auto simp: slew_check_def slewed_def split: if_splits)

definition finished :: "(slew_outcome \<times> ds_emulator) option \<Rightarrow> bool" where
  "finished r \<longleftrightarrow> (\<exists>q d. r = Some (q, d) \<and> (\<forall>v. q \<noteq> Slew_Moving v))"

lemma slew_loop_returns: "slew_ok p v k \<Longrightarrow> finished (slew_loop env n p v d)"
proof (induction k arbitrary: n v d)
  case 0
  then have s: "slewed v" by (rule slew_ok_0)
  obtain o1 d1 where i: "slew_iter (env_w_ok (env n)) (env_now (env n)) p v d = (o1, d1)" by fastforce
  obtain o2 d2 where c: "slew_check p v (env_others (env n) d1) = (o2, d2)" by fastforce
  have "slew_move p v = v" using s by (rule slew_move_slewed)
  with i slew_iter_result have "o1 = Slew_Moving v \<or> (\<forall>v1. o1 \<noteq> Slew_Moving v1)" by metis
  moreover from c slew_check_result s have "\<forall>v1. o2 \<noteq> Slew_Moving v1" by metis
  ultimately show ?case using i c
    by (subst slew_loop.simps) (cases o1; cases o2; auto simp: finished_def)
next
  case (Suc k)
  obtain o1 d1 where i: "slew_iter (env_w_ok (env n)) (env_now (env n)) p v d = (o1, d1)" by fastforce
  show ?case
  proof (cases o1)
    case (Slew_Moving v1)
    with i have v1: "slew_ok p v1 k" using slew_iter_result slew_move_ok [OF Suc.prems] by metis
    obtain o2 d2 where c: "slew_check p v1 (env_others (env n) d1) = (o2, d2)" by fastforce
    show ?thesis
    proof (cases o2)
      case [simp]: (Slew_Moving v2)
      from c slew_check_result have "v2 = v1" by auto
      with v1 Suc.IH [of v2 "Suc n" d2] i c Slew_Moving \<open>o1 = _\<close> show ?thesis
        by (subst slew_loop.simps) simp
    qed (subst slew_loop.simps, use i c Slew_Moving in \<open>simp add: finished_def\<close>)+
  qed (subst slew_loop.simps, use i in \<open>simp add: finished_def\<close>)+
qed

lemma slew_begin_moving:
  assumes "slew_begin w_ok p d = (Slew_Moving v, d1)"
  shows "\<exists>az el. v = slew_start (ds_cfg d) p az el \<and> \<not> slewed v"
  using assms
  by (auto simp: slew_begin_def slew_steps_def Let_def stow_status_def slewed_def
      split: if_splits access.splits prod.splits)

lemma Slew_returns:
  assumes "0 < slewRate (ds_cfg d)" and "0 < slewTimeStep (ds_cfg d)"
    and "0 \<le> pointingResolution (ds_cfg d)"
  shows "finished (Slew env p d)"
proof -
  from assms have pos: "0 < slew_step (ds_cfg d)" by (simp add: slew_step_def)
  obtain o1 d1 where b: "slew_begin (env_w_ok (env 0)) p d = (o1, d1)" by fastforce
  show ?thesis
  proof (cases o1)
    case (Slew_Moving v)
    with b slew_begin_moving obtain az el where "v = slew_start (ds_cfg d) p az el" by metis
    then have "slew_ok p v (slew_bound (ds_cfg d) p az el)" using slew_start_ok [OF pos assms(3)] by simp
    from slew_loop_returns [OF this] b Slew_Moving show ?thesis by (simp add: Slew_def)
  qed (use b in \<open>simp_all add: Slew_def finished_def\<close>)
qed


text \<open>
  Stowing from the command to the stow position: the command empties the queue and puts the stow
  position there, the tracking thread takes it, slews and makes the antenna safe.
\<close>

subsection \<open>Fields\<close>

text \<open>The record fields that the setting of values does not touch.\<close>

lemma set_value_fields [simp]:
  "ds_cfg (set_value n v d) = ds_cfg d" "ds_schedule (set_value n v d) = ds_schedule d"
  "rules (set_value n v d) = rules d" "trackingEnabled (set_value n v d) = trackingEnabled d"
  "stopThread (set_value n v d) = stopThread d" "tracker_at (set_value n v d) = tracker_at d"
  by (simp_all add: set_value_def)

lemma put_label_fields [simp]:
  "ds_cfg (put_label l n d) = ds_cfg d" "ds_schedule (put_label l n d) = ds_schedule d"
  "rules (put_label l n d) = rules d" "trackingEnabled (put_label l n d) = trackingEnabled d"
  "stopThread (put_label l n d) = stopThread d" "tracker_at (put_label l n d) = tracker_at d"
  by (simp_all add: put_label_def)

lemma value_at_fields [simp]:
  "value_at n (d\<lparr>ds_schedule := s\<rparr>) = value_at n d" "value_at n (d\<lparr>trackingEnabled := b\<rparr>) = value_at n d"
  "value_at n (d\<lparr>tracker_at := t\<rparr>) = value_at n d" "value_at n (d\<lparr>stowProgress := x\<rparr>) = value_at n d"
  "value_at n (d\<lparr>achievedPointing := l\<rparr>) = value_at n d" "value_at n (d\<lparr>ds_state := q\<rparr>) = value_at n d"
  "value_at n (d\<lparr>setPointModeProgress := x\<rparr>) = value_at n d"
  "value_at n (d\<lparr>ds_sleeping := ph\<rparr>) = value_at n d"
  by (simp_all add: value_at_def)

subsection \<open>The tracking thread alone\<close>

text \<open>Steps of the tracking thread with nothing in between; the inputs are times and random numbers.\<close>

fun track_run :: "(real \<times> real \<times> real) list \<Rightarrow> ds_emulator \<Rightarrow> ds_emulator option" where
  "track_run [] d = Some d"
| "track_run (i # ins) d =
     (case tracker_step w_all (fst i) (snd i) d of None \<Rightarrow> None | Some d1 \<Rightarrow> track_run ins d1)"

text \<open>What slewing needs and keeps: mode \<open>cur\<close>, power \<open>pw\<close>, tracking on, no more data in the queue.\<close>

definition on_the_way :: "string \<Rightarrow> string \<Rightarrow> ds_emulator \<Rightarrow> bool" where
  "on_the_way cur pw d \<longleftrightarrow> ds_attrs_ok d \<and> ds_rules (rules d) \<and> has_now ''operatingMode'' cur d \<and>
     has_now ''powerState'' pw d \<and> pointingQueue (ds_schedule d) = [] \<and> trackingEnabled d \<and>
     \<not> stopThread d"

lemma on_the_way_cong:
  assumes "on_the_way cur pw d" and "shape d' = shape d" and "value_at ''operatingMode'' d' = value_at ''operatingMode'' d"
    and "value_at ''powerState'' d' = value_at ''powerState'' d" and "ds_schedule d' = ds_schedule d"
    and "trackingEnabled d' = trackingEnabled d" and "stopThread d' = stopThread d"
  shows "on_the_way cur pw d'"
  using assms
  by (simp add: on_the_way_def ds_attrs_shape [OF assms(2)] has_now_cong [OF assms(2)] shape_rules [OF assms(2)])

text \<open>Setting the position.\<close>

definition put_position :: "real \<Rightarrow> real \<Rightarrow> real \<Rightarrow> ds_emulator \<Rightarrow> ds_emulator" where
  "put_position now az el d =
     (let d1 = set_value ''antennaElPosition'' (VDouble el) (set_value ''antennaAzPosition'' (VDouble az) d)
      in d1\<lparr>achievedPointing := [now * 1000, az, el] @ drop 3 (achievedPointing d1)\<rparr>)"

lemma put_position_fields:
  assumes "plain_attr TDouble ''antennaAzPosition'' d" and "plain_attr TDouble ''antennaElPosition'' d"
  shows "shape (put_position now az el d) = shape d"
    and "value_at ''antennaAzPosition'' (put_position now az el d) = Some (VDouble az)"
    and "value_at ''antennaElPosition'' (put_position now az el d) = Some (VDouble el)"
    and "m \<noteq> ''antennaAzPosition'' \<Longrightarrow> m \<noteq> ''antennaElPosition'' \<Longrightarrow>
           value_at m (put_position now az el d) = value_at m d"
    and "set_position w_all now az el d = (Got (), put_position now az el d)"
proof -
  have s: "shape (set_value ''antennaAzPosition'' (VDouble az) d) = shape d"
    using assms by (simp add: shape_put_plain)
  then have e: "plain_attr TDouble ''antennaElPosition'' (set_value ''antennaAzPosition'' (VDouble az) d)"
    using assms(2) by (simp add: plain_attr_shape [OF s])
  with s show "shape (put_position now az el d) = shape d"
    by (simp add: put_position_def Let_def shape_put_plain)
  from e assms show "set_position w_all now az el d = (Got (), put_position now az el d)"
    by (simp add: set_position_def put_position_def set_double_ok Let_def)
  from e show "value_at ''antennaElPosition'' (put_position now az el d) = Some (VDouble el)"
    by (simp add: put_position_def Let_def value_put_plain)
  from assms show "value_at ''antennaAzPosition'' (put_position now az el d) = Some (VDouble az)"
    by (simp add: put_position_def Let_def value_put_other value_put_plain)
  show "m \<noteq> ''antennaAzPosition'' \<Longrightarrow> m \<noteq> ''antennaElPosition'' \<Longrightarrow>
      value_at m (put_position now az el d) = value_at m d"
    by (simp add: put_position_def Let_def value_put_other)
qed

lemma put_position_fixed [simp]:
  "ds_schedule (put_position now az el d) = ds_schedule d" "rules (put_position now az el d) = rules d"
  "trackingEnabled (put_position now az el d) = trackingEnabled d"
  "stopThread (put_position now az el d) = stopThread d" "ds_cfg (put_position now az el d) = ds_cfg d"
  by (simp_all add: put_position_def Let_def)

lemma on_the_way_position:
  assumes "on_the_way cur pw d"
  shows "on_the_way cur pw (put_position now az el d)"
proof -
  from assms have p: "plain_attr TDouble ''antennaAzPosition'' d" "plain_attr TDouble ''antennaElPosition'' d"
    by (simp_all add: on_the_way_def ds_attrsD)
  note f = put_position_fields [OF p]
  show ?thesis by (rule on_the_way_cong [OF assms f(1)]) (simp_all add: f(4))
qed

lemma on_the_way_tracker [simp]: "on_the_way cur pw (d\<lparr>tracker_at := t\<rparr>) = on_the_way cur pw d"
proof -
  have "on_the_way cur pw e \<Longrightarrow> on_the_way cur pw (e\<lparr>tracker_at := u\<rparr>)" for e u
    by (erule on_the_way_cong) simp_all
  from this [of "d\<lparr>tracker_at := t\<rparr>" "tracker_at d"] this [of d t] show ?thesis by auto
qed

text \<open>The loop of the slewing, step by step.\<close>

lemma track_slewing:
  assumes "on_the_way cur pw d" and "tracker_at d = T_Slewing p v" and "slew_ok p v k"
    and "\<not> slewed v" and "2 * k \<le> length ins"
  shows "\<exists>n d'. n \<le> 2 * k \<and> track_run ins d = track_run (drop n ins) d' \<and> tracker_at d' = T_At p \<and>
    on_the_way cur pw d' \<and> shape d' = shape d \<and> ds_cfg d' = ds_cfg d"
  using assms
proof (induction k arbitrary: d v ins)
  case 0
  then show ?case using slew_ok_0 by blast
next
  case (Suc k)
  let ?v = "slew_move p v"
  from Suc.prems(5) obtain i j rest where ins: "ins = i # j # rest" "2 * k \<le> length rest"
    by (cases ins; cases "tl ins") auto
  from Suc.prems(1) have p: "plain_attr TDouble ''antennaAzPosition'' d"
      "plain_attr TDouble ''antennaElPosition'' d" and t: "trackingEnabled d" "\<not> stopThread d"
    by (simp_all add: on_the_way_def ds_attrsD)
  let ?d1 = "(put_position (fst i) (currentAz ?v) (currentEl ?v) d)\<lparr>tracker_at := T_Slept p ?v\<rparr>"
  have s1: "tracker_step w_all (fst i) (snd i) d = Some ?d1"
    using Suc.prems(2) put_position_fields(5) [OF p]
    by (simp add: tracker_step_def slew_iter_def Let_def slew_steps_def tracker_slew_def)
  have o1: "on_the_way cur pw ?d1" using Suc.prems(1) by (simp add: on_the_way_position)
  have sh: "shape ?d1 = shape d" using put_position_fields(1) [OF p] by simp
  have ok: "slew_ok p ?v k" by (rule slew_move_ok [OF Suc.prems(3)])
  show ?case
  proof (cases "slewed ?v")
    case True
    then have "tracker_step w_all (fst j) (snd j) ?d1 = Some (?d1\<lparr>tracker_at := T_At p\<rparr>)"
      using t by (simp add: tracker_step_def slew_check_def tracker_slew_def slewed_def)
    with s1 ins have "track_run ins d = track_run (drop 2 ins) (?d1\<lparr>tracker_at := T_At p\<rparr>)" by simp
    with o1 sh show ?thesis
      by (intro exI [of _ 2] exI [of _ "?d1\<lparr>tracker_at := T_At p\<rparr>"]) simp
  next
    case False
    let ?d2 = "?d1\<lparr>tracker_at := T_Slewing p ?v\<rparr>"
    have s2: "tracker_step w_all (fst j) (snd j) ?d1 = Some ?d2"
      using False t by (auto simp: tracker_step_def slew_check_def tracker_slew_def slewed_def)
    have "on_the_way cur pw ?d2" "tracker_at ?d2 = T_Slewing p ?v" using o1 by simp_all
    from Suc.IH [OF this ok False ins(2)] obtain n d' where n: "n \<le> 2 * k"
      "track_run rest ?d2 = track_run (drop n rest) d'" "tracker_at d' = T_At p" "on_the_way cur pw d'"
      "shape d' = shape ?d2" "ds_cfg d' = ds_cfg ?d2" by blast
    with s1 s2 ins sh show ?thesis
      by (intro exI [of _ "n + 2"] exI [of _ d']) simp
  qed
qed

text \<open>The begin of the slewing.\<close>

lemma get_double_ok:
  assumes "plain_attr TDouble n d"
  shows "\<exists>x. get_double n d = Got x \<and> value_at n d = Some (VDouble x)"
proof -
  from assms obtain a x where "map_of (dyn_attrs d) n = Some a" "at_scalar a" "at_value a = VDouble x"
    by (cases "map_of (dyn_attrs d) n")
      (auto simp: plain_attr_def split: option.splits, metis (no_types) ctype.distinct ctype_of.simps scalar.exhaust)
  then show ?thesis by (auto simp: get_double_def GetDynAttrValue_def value_at_def)
qed

lemma track_popped:
  assumes "on_the_way cur pw d" and "tracker_at d = T_Popped p"
    and "0 < slew_step (ds_cfg d)" and "0 \<le> pointingResolution (ds_cfg d)"
    and "value_at ''antennaAzPosition'' d = Some (VDouble az)"
    and "value_at ''antennaElPosition'' d = Some (VDouble el)"
  shows "\<exists>d'. tracker_step w_all now g d = Some d' \<and> on_the_way cur pw d' \<and> shape d' = shape d \<and>
    ds_cfg d' = ds_cfg d \<and>
    (tracker_at d' = T_At p \<or>
     (\<exists>v. tracker_at d' = T_Slewing p v \<and> \<not> slewed v \<and> slew_ok p v (slew_bound (ds_cfg d) p az el)))"
proof -
  let ?d1 = "stow_status p ''RUNNING'' d"
  let ?v = "slew_start (ds_cfg d) p az el"
  from assms(1) have a: "ds_attrs_ok d" and t: "trackingEnabled d" by (simp_all add: on_the_way_def)
  have f1: "shape ?d1 = shape d" "ds_cfg ?d1 = ds_cfg d" "ds_schedule ?d1 = ds_schedule d"
    "trackingEnabled ?d1 = trackingEnabled d" "stopThread ?d1 = stopThread d"
    "\<And>n. value_at n ?d1 = value_at n d" by (simp_all add: stow_status_def)
  have o1: "on_the_way cur pw ?d1" by (rule on_the_way_cong [OF assms(1)]) (simp_all add: f1)
  then have a1: "ds_attrs_ok ?d1" by (simp add: on_the_way_def)
  from get_double_ok [OF ds_attrsD(7) [OF a1]] get_double_ok [OF ds_attrsD(8) [OF a1]] assms(5,6) f1
  have g: "get_double ''antennaAzPosition'' ?d1 = Got az" "get_double ''antennaElPosition'' ?d1 = Got el"
    by auto
  show ?thesis
  proof (cases "slewed ?v")
    case True
    with t g f1 assms(2) have "tracker_step w_all now g d = Some (?d1\<lparr>tracker_at := T_At p\<rparr>)"
      by (simp add: tracker_step_def slew_begin_def Let_def slewed_def tracker_slew_def)
    with o1 f1 show ?thesis by simp
  next
    case False
    let ?d2 = "put_label ''SLEW'' ''pointingState'' ?d1"
    let ?d3 = "set_value ''targetLock'' (VBool False) ?d2"
    have s2: "shape ?d2 = shape ?d1" by (rule shape_put_label [OF ds_attrsD(3) [OF a1]])
    have l2: "plain_attr TBool ''targetLock'' ?d2"
      using ds_attrsD(4) [OF a1] by (simp add: plain_attr_shape [OF s2])
    have s3: "shape ?d3 = shape ?d2" using l2 by (simp add: shape_put_plain)
    have "run_steps [set_label w_all ''SLEW'' ''pointingState'', set_flag w_all False ''targetLock''] ?d1 =
        (Got (), ?d3)"
      using set_label_ok [OF ds_attrsD(3) [OF a1], of "''SLEW''"] set_flag_ok [OF l2] by simp
    with False t g f1 assms(2) have
      step: "tracker_step w_all now g d = Some (?d3\<lparr>tracker_at := T_Slewing p ?v\<rparr>)"
      by (auto simp: tracker_step_def slew_begin_def Let_def slewed_def tracker_slew_def slew_steps_def)
    have "on_the_way cur pw ?d3"
      by (rule on_the_way_cong [OF o1]) (simp_all add: s3 s2 value_put_other value_put_label)
    moreover have "slew_ok p ?v (slew_bound (ds_cfg d) p az el)" by (rule slew_start_ok [OF assms(3,4)])
    ultimately show ?thesis using step False s2 s3 f1
      by (intro exI [of _ "?d3\<lparr>tracker_at := T_Slewing p ?v\<rparr>"]) simp
  qed
qed

subsection \<open>The safe position\<close>

definition stowed :: "pointing_data \<Rightarrow> string \<Rightarrow> ds_emulator \<Rightarrow> bool" where
  "stowed p pw d \<longleftrightarrow>
     value_at ''antennaAzPosition'' d = Some (VDouble (pd_az p)) \<and>
     value_at ''antennaElPosition'' d = Some (VDouble (pd_el p)) \<and>
     (\<forall>n\<in>set brake_names. value_at n d = Some (VBool True)) \<and>
     (\<forall>n\<in>set servo_names. value_at n d = Some (VBool False)) \<and>
     value_at ''targetLock'' d = Some (VBool False) \<and>
     has_now ''powerState'' (if pw = ''FULL-POWER'' then ''LOW-POWER'' else pw) d \<and>
     has_now ''pointingState'' ''NONE'' d \<and> has_now ''operatingMode'' ''STOW'' d \<and>
     \<not> trackingEnabled d \<and> pointingQueue (ds_schedule d) = [] \<and>
     stowProgress d = ''COMPLETED'' \<and> ds_state d = DS_DISABLE"

end
