(* ===== verification/DsStowRun.thy ===== *)
theory DsStowRun
  imports DsStowSpec
begin

text \<open>
  The parts of \<open>DsStowSpec\<close> put together: an accepted stow command and the steps of the tracking thread
  that follow it. The number of steps is bounded by the distance and the slewing step.
\<close>

lemma ready_on_the_way:
  assumes "on_the_way cur pw d"
  shows "on_the_way cur pw (put_label ''READY'' ''pointingState'' d)"
    and "has_now ''pointingState'' ''READY'' (put_label ''READY'' ''pointingState'' d)"
    and "set_label w_all ''READY'' ''pointingState'' d = (Got (), put_label ''READY'' ''pointingState'' d)"
proof -
  from assms have A: "ds_attrs_ok d" by (simp add: on_the_way_def)
  have s: "shape (put_label ''READY'' ''pointingState'' d) = shape d"
    by (rule shape_put_label [OF ds_attrsD(3) [OF A]])
  show "on_the_way cur pw (put_label ''READY'' ''pointingState'' d)"
    by (rule on_the_way_cong [OF assms s]) (simp_all add: value_put_label)
  show "has_now ''pointingState'' ''READY'' (put_label ''READY'' ''pointingState'' d)"
    by (rule has_now_put_label [OF ds_attrsD(3) [OF A]]) simp
  show "set_label w_all ''READY'' ''pointingState'' d = (Got (), put_label ''READY'' ''pointingState'' d)"
    by (rule set_label_ok [OF ds_attrsD(3) [OF A]]) simp
qed

lemma finish_stow_stowed:
  assumes "on_the_way cur pw d" and "has_now ''pointingState'' pc d"
    and "may_follow ''operatingMode'' cur ''STOW''"
    and "value_at ''antennaAzPosition'' d = Some (VDouble (pd_az p))"
    and "value_at ''antennaElPosition'' d = Some (VDouble (pd_el p))"
  shows "\<exists>d'. finish_stow w_all d = (Got (), d') \<and> stowed p pw d' \<and> stopThread d' = stopThread d"
proof -
  let ?d0 = "DisableTracking d"
  let ?d1 = "set_value ''targetLock'' (VBool False) ?d0"
  have s0: "shape ?d0 = shape d" by (simp add: DisableTracking_def)
  from assms(1) have A: "ds_attrs_ok d" by (simp add: on_the_way_def)
  then have p0: "plain_attr TBool ''targetLock'' ?d0" by (simp add: plain_attr_shape [OF s0] ds_attrsD)
  have s1: "shape ?d1 = shape d" using shape_put_plain [of "VBool False" "''targetLock''" ?d0] p0 s0 by simp
  have v1: "value_at n ?d1 = (if n = ''targetLock'' then Some (VBool False) else value_at n d)" for n
    by (simp add: value_put_other value_put_plain [OF p0]) (simp add: DisableTracking_def)
  have A1: "ds_attrs_ok ?d1" using A by (simp add: ds_attrs_shape [OF s1])
  have R1: "ds_rules (rules ?d1)" using assms(1) shape_rules [OF s1] by (simp add: on_the_way_def)
  have h: "has_now ''operatingMode'' cur ?d1" "has_now ''powerState'' pw ?d1" "has_now ''pointingState'' pc ?d1"
    using assms(1,2) by (simp_all add: has_now_cong [OF s1] v1 on_the_way_def)
  have f: "power_step pw {if pw = ''FULL-POWER'' then ''LOW-POWER'' else pw} (lower_power w_all False) e"
    if "shape e = shape ?d1" for e
    by (rule lower_power_step) (use A1 R1 ds_attrs_shape [OF that] shape_rules [OF that] in simp_all)
  have sub: "set brake_names \<union> set servo_names \<subseteq> set (brake_names @ servo_names)" by simp
  have l: "''STOW'' \<in> {''STOW'', ''ESTOP'', ''POINT''}" "''NONE'' \<in> {''READY'', ''SLEW'', ''TRACK'', ''NONE''}"
    by simp_all
  from change_mode [OF A1 R1 h sub f assms(3) l, of True False] obtain d' where d':
    "run_steps (set_flags w_all True brake_names @ set_flags w_all False servo_names @
       [lower_power w_all False, sm_label w_all ''NONE'' ''pointingState'', sm_label w_all ''STOW'' ''operatingMode''])
       ?d1 = (Got (), d')" "shape d' = shape ?d1" "attrs_only ?d1 d'" "has_now ''operatingMode'' ''STOW'' d'"
    "has_now ''pointingState'' ''NONE'' d'"
    "\<exists>pw'\<in>{if pw = ''FULL-POWER'' then ''LOW-POWER'' else pw}. has_now ''powerState'' pw' d'"
    "\<forall>n. n \<notin> {''operatingMode'', ''pointingState'', ''powerState''} \<longrightarrow> value_at n d' =
       (if n \<in> set servo_names then Some (VBool False) else if n \<in> set brake_names then Some (VBool True)
        else value_at n ?d1)" by blast
  from d'(6) have pw': "has_now ''powerState'' (if pw = ''FULL-POWER'' then ''LOW-POWER'' else pw) d'" by simp
  let ?d2 = "d'\<lparr>ds_state := DS_DISABLE, stowProgress := ''COMPLETED''\<rparr>"
  have s2: "shape ?d2 = shape d'" by simp
  have "finish_stow w_all d = (Got (), ?d2)"
    using d'(1) set_flag_ok [OF p0, of False] by (simp add: finish_stow_def)
  moreover have V: "value_at n d' = (if n \<in> set servo_names then Some (VBool False)
      else if n \<in> set brake_names then Some (VBool True)
      else if n = ''targetLock'' then Some (VBool False) else value_at n d)"
    if "n \<notin> {''operatingMode'', ''pointingState'', ''powerState''}" for n
    using d'(7) that by (simp add: v1)
  have F: "\<not> trackingEnabled d'" "ds_schedule d' = ds_schedule d" "stopThread d' = stopThread d"
    using attrs_only_fields [OF d'(3)] by (simp_all add: DisableTracking_def)
  have "\<forall>n\<in>set brake_names. value_at n d' = Some (VBool True)"
    "\<forall>n\<in>set servo_names. value_at n d' = Some (VBool False)"
    using flag_names(1,2) by (simp_all add: V)
  then have "stowed p pw ?d2"
    using d'(4,5) pw' assms(1,4,5) F flag_names
    by (simp add: stowed_def has_now_cong [OF s2] V on_the_way_def)
  ultimately show ?thesis using F by simp
qed

lemma SetTrackCoords_stow:
  assumes "on_the_way cur pw d" and "pd_pntType p = eSTOW" and "may_follow ''operatingMode'' cur ''STOW''"
  shows "\<exists>d'. SetTrackCoords w_all now g p False d = (Got (), d') \<and> stowed p pw d' \<and>
    stopThread d' = stopThread d"
proof -
  let ?d1 = "put_position now (pd_az p) (pd_el p) d"
  let ?d2 = "put_label ''READY'' ''pointingState'' ?d1"
  from assms(1) have pa: "plain_attr TDouble ''antennaAzPosition'' d" "plain_attr TDouble ''antennaElPosition'' d"
    by (simp_all add: on_the_way_def ds_attrsD)
  note P = put_position_fields [OF pa]
  note o1 = on_the_way_position [OF assms(1), of now "pd_az p" "pd_el p"]
  note o2 = ready_on_the_way [OF o1]
  from finish_stow_stowed [OF o2(1,2) assms(3), of p] P(2,3) obtain d' where
    "finish_stow w_all ?d2 = (Got (), d')" "stowed p pw d'" "stopThread d' = stopThread ?d2"
    by (auto simp: value_put_label)
  moreover from o1 have "IsQueueEmpty (ds_schedule ?d1)" by (simp add: on_the_way_def IsQueueEmpty_def)
  ultimately show ?thesis using P(5) o2(3) assms(2)
    by (simp add: SetTrackCoords_def Let_def)
qed

lemma track_at_stow:
  assumes "on_the_way cur pw d" and "tracker_at d = T_At p" and "pd_pntType p = eSTOW"
    and "may_follow ''operatingMode'' cur ''STOW''"
  shows "\<exists>d'. tracker_step w_all now g d = Some d' \<and> stowed p pw d' \<and> tracker_at d' = T_Waiting \<and>
    \<not> stopThread d'"
proof -
  from SetTrackCoords_stow [OF assms(1,3,4), of now g] obtain d1 where
    s: "SetTrackCoords w_all now g p False d = (Got (), d1)" "stowed p pw d1" "stopThread d1 = stopThread d"
    by blast
  have sh: "shape (d1\<lparr>tracker_at := T_Waiting\<rparr>) = shape d1" by simp
  from s(2) have "stowed p pw (d1\<lparr>tracker_at := T_Waiting\<rparr>)"
    by (simp add: stowed_def has_now_cong [OF sh])
  with s assms show ?thesis by (simp add: tracker_step_def on_the_way_def)
qed

text \<open>The thread stays where it is when tracking is off.\<close>

lemma track_run_idle:
  "tracker_at d = T_Waiting \<Longrightarrow> \<not> trackingEnabled d \<Longrightarrow> \<not> stopThread d \<Longrightarrow> track_run ins d = Some d"
  by (induction ins) (simp_all add: tracker_step_def)

lemma track_run_finish:
  assumes "on_the_way cur pw d" and "tracker_at d = T_At p" and "pd_pntType p = eSTOW"
    and "may_follow ''operatingMode'' cur ''STOW''" and "ins \<noteq> []"
  shows "\<exists>d'. track_run ins d = Some d' \<and> stowed p pw d'"
proof -
  from assms(5) obtain i rest where i: "ins = i # rest" by (cases ins) auto
  from track_at_stow [OF assms(1-4), of "fst i" "snd i"] obtain d1 where
    "tracker_step w_all (fst i) (snd i) d = Some d1" "stowed p pw d1" "tracker_at d1 = T_Waiting"
    "\<not> stopThread d1" by blast
  with i show ?thesis by (simp add: track_run_idle stowed_def)
qed

text \<open>From the taking of the data on.\<close>

lemma track_run_popped:
  assumes "on_the_way cur pw d" and "tracker_at d = T_Popped p" and "pd_pntType p = eSTOW"
    and "may_follow ''operatingMode'' cur ''STOW''"
    and "0 < slew_step (ds_cfg d)" and "0 \<le> pointingResolution (ds_cfg d)"
    and "value_at ''antennaAzPosition'' d = Some (VDouble az)"
    and "value_at ''antennaElPosition'' d = Some (VDouble el)"
    and "2 * slew_bound (ds_cfg d) p az el + 2 \<le> length ins"
  shows "\<exists>d'. track_run ins d = Some d' \<and> stowed p pw d'"
proof -
  let ?k = "slew_bound (ds_cfg d) p az el"
  from assms(9) obtain i rest where i: "ins = i # rest" "2 * ?k + 1 \<le> length rest" by (cases ins) auto
  from track_popped [OF assms(1,2,5-8), of "fst i" "snd i"] obtain d1 where
    s: "tracker_step w_all (fst i) (snd i) d = Some d1" "on_the_way cur pw d1" and
    c: "tracker_at d1 = T_At p \<or> (\<exists>v. tracker_at d1 = T_Slewing p v \<and> \<not> slewed v \<and> slew_ok p v ?k)"
    by blast
  from c have "\<exists>d'. track_run rest d1 = Some d' \<and> stowed p pw d'"
  proof (elim disjE exE conjE)
    assume "tracker_at d1 = T_At p"
    from track_run_finish [OF s(2) this assms(3,4), of rest] i show ?thesis by fastforce
  next
    fix v assume v: "tracker_at d1 = T_Slewing p v" "\<not> slewed v" "slew_ok p v ?k"
    have len: "2 * ?k \<le> length rest" using i by simp
    from track_slewing [OF s(2) v(1,3,2) len] obtain n d2 where
      n: "n \<le> 2 * ?k" "track_run rest d1 = track_run (drop n rest) d2" "tracker_at d2 = T_At p"
      "on_the_way cur pw d2" by blast
    have "drop n rest \<noteq> []" using n(1) i(2) by simp
    from track_run_finish [OF n(4,3) assms(3,4) this] n(2) show ?thesis by simp
  qed
  with i s show ?thesis by simp
qed

subsection \<open>The command\<close>

definition stow_data :: "ds_config \<Rightarrow> pointing_data" where
  "stow_data cf = PointingData_new (stowAzimuthPos cf) (stowElevationPos cf) (-1) eSTOW"

lemma stow_data_fields [simp]:
  "pd_t (stow_data cf) = -1" "pd_pntType (stow_data cf) = eSTOW"
  "pd_az (stow_data cf) = stowAzimuthPos cf" "pd_el (stow_data cf) = stowElevationPos cf"
  by (simp_all add: stow_data_def PointingData_new_def)

definition stow_scheduled :: "ds_emulator \<Rightarrow> ds_emulator" where
  "stow_scheduled d =
     d\<lparr>trackingEnabled := True, ds_schedule := (ds_schedule d)\<lparr>pointingQueue := [stow_data (ds_cfg d)]\<rparr>\<rparr>"

text \<open>Whatever the queue holds, afterwards it holds the stow position only.\<close>

lemma schedule_stow_scheduled: "schedule_stow d = (True, stow_scheduled d)"
  by (simp add: schedule_stow_def Let_def Push_def flush_track_program_def flush_queue_def
      DisableTracking_def EnableTracking_def stow_scheduled_def stow_data_def PointingData_new_def)

lemma stow_scheduled_fields [simp]:
  "ds_cfg (stow_scheduled d) = ds_cfg d" "shape (stow_scheduled d) = shape d"
  "value_at n (stow_scheduled d) = value_at n d" "tracker_at (stow_scheduled d) = tracker_at d"
  "stopThread (stow_scheduled d) = stopThread d" "trackingEnabled (stow_scheduled d)"
  "pointingQueue (ds_schedule (stow_scheduled d)) = [stow_data (ds_cfg d)]"
  "expiredTimeThr (ds_schedule (stow_scheduled d)) = expiredTimeThr (ds_schedule d)"
  by (simp_all add: stow_scheduled_def)

lemma track_run_scheduled:
  assumes "tracker_at d = T_Waiting" and "\<not> stopThread d" and "0 < expiredTimeThr (ds_schedule d)"
    and "ds_attrs_ok d" and "ds_rules (rules d)" and "has_now ''operatingMode'' cur d"
    and "has_now ''powerState'' pw d" and "may_follow ''operatingMode'' cur ''STOW''"
    and "0 < slew_step (ds_cfg d)" and "0 \<le> pointingResolution (ds_cfg d)"
    and "value_at ''antennaAzPosition'' d = Some (VDouble az)"
    and "value_at ''antennaElPosition'' d = Some (VDouble el)"
    and "2 * slew_bound (ds_cfg d) (stow_data (ds_cfg d)) az el + 3 \<le> length ins"
  shows "\<exists>d'. track_run ins (stow_scheduled d) = Some d' \<and> stowed (stow_data (ds_cfg d)) pw d'"
proof -
  let ?d = "stow_scheduled d" and ?p = "(stow_data (ds_cfg d))\<lparr>pd_dt := 0\<rparr>"
  let ?k = "slew_bound (ds_cfg d) (stow_data (ds_cfg d)) az el"
  let ?d1 = "?d\<lparr>ds_schedule := (ds_schedule ?d)\<lparr>pointingQueue := []\<rparr>, tracker_at := T_Popped ?p\<rparr>"
  from assms(13) obtain i rest where i: "ins = i # rest" "2 * ?k + 2 \<le> length rest" by (cases ins) auto
  have "Pop (fst i) PointingData_default 0 (ds_schedule ?d) =
      (0, ?p, 0, (ds_schedule ?d)\<lparr>pointingQueue := []\<rparr>)"
    using assms(3) Pop_first [of "ds_schedule ?d" "stow_data (ds_cfg d)" "[]" "fst i"]
    by (simp add: active_at_def Let_def)
  with assms(1,2) have step: "tracker_step w_all (fst i) (snd i) ?d = Some ?d1"
    by (simp add: tracker_step_def tracker_pop_def HasEntriesInQueue_def)
  have sh: "shape ?d1 = shape d" by simp
  have "on_the_way cur pw ?d1"
    using assms(2,4-7) shape_rules [OF sh]
    by (simp add: on_the_way_def ds_attrs_shape [OF sh] has_now_cong [OF sh])
  moreover have "slew_bound (ds_cfg ?d1) ?p az el = ?k" by (simp add: slew_bound_def)
  moreover have "value_at n ?d1 = value_at n d" for n by simp
  ultimately have "\<exists>d'. track_run rest ?d1 = Some d' \<and> stowed ?p pw d'"
    using assms(8-12) i(2) by (intro track_run_popped [of cur pw ?d1 ?p az el]) simp_all
  with step i(1) show ?thesis by (simp add: stowed_def)
qed

lemma stow_accepted:
  assumes "ds_rules (rules d)" and "ds_attrs_ok d" and "has_now ''operatingMode'' cur d" and "cur \<noteq> ''STOW''"
    and "\<not> task_active (stowProgress d)"
  shows "stow d = (Reply 1, stow_scheduled d)"
proof -
  have "IsCmdAllowed ''stow'' True d = Pass"
    by (rule no_rule_gate [OF assms(1)]) (simp_all add: extract_names test_mode_rules_def mode_rules_def)
  moreover from get_enum_now [OF ds_attrsD(1) [OF assms(2)] assms(3)] obtain w where
    "get_enum ''operatingMode'' d = Got w" "GetEnumAttrLabelValue ''operatingMode'' w d = Some cur" by blast
  ultimately show ?thesis using assms(4,5) schedule_stow_scheduled [of d]
    by (simp add: stow_def label_string_def)
qed

lemma in_mode_now: "ds_attrs_ok d \<Longrightarrow> has_now ''operatingMode'' l d \<Longrightarrow> in_mode l d"
  unfolding in_mode_def by (rule has_now_seen [OF ds_attrsD(1)])

end
