(* ===== verification/DsDesired.thy ===== *)
theory DsDesired
  imports DsAttrs DsPointingSpec
begin

text \<open>
  What writing \<open>desiredPointing\<close> means: the list of points that a written value stands for, in closed
  form, and that it is added to the program of the antenna as a whole or not at all.
\<close>

lemma expand_program_points:
  "expand_program fAz fEl step n t =
     (List.map (\<lambda>i. let u = t + real i * step in PointingData_new (fAz u) (fEl u) u eTRACK_PROGRAM) [0..<n],
      t + real n * step)"
proof (induction n arbitrary: t)
  case (Suc n)
  have "[0..<Suc n] = 0 # List.map Suc [0..<n]" by (simp add: upt_conv_Cons map_Suc_upt del: upt_Suc)
  then show ?case using Suc [of "t + step"]
    by (simp add: Let_def algebra_simps comp_def del: upt_Suc)
qed simp

text \<open>One point, or the points of a polynomial of degree one or two in the time since the first.\<close>

definition desired_points :: "ds_config \<Rightarrow> real list \<Rightarrow> pointing_data list" where
  "desired_points cf w =
     (if length w = 3 then [PointingData_new (w ! 1) (w ! 2) (w ! 0) eTRACK_PROGRAM]
      else List.map (\<lambda>i. let u = real i * trackProgramTimeStep cf in
             PointingData_new (w ! 1 + w ! 3 * u + (if length w = 7 then w ! 5 * u\<^sup>2 else 0))
               (w ! 2 + w ! 4 * u + (if length w = 7 then w ! 6 * u\<^sup>2 else 0)) (w ! 0 + u) eTRACK_PROGRAM)
           [0..<program_size cf])"

lemma desired_points_linear:
  assumes "length w = 5"
  shows "fst (expand_program (\<lambda>t. w ! 1 + w ! 3 * (t - w ! 0)) (\<lambda>t. w ! 2 + w ! 4 * (t - w ! 0))
      (trackProgramTimeStep cf) (program_size cf) (w ! 0)) = desired_points cf w"
  using assms by (simp add: expand_program_points desired_points_def Let_def)

lemma desired_points_quadratic:
  assumes "length w = 7"
  shows "fst (expand_program
        (\<lambda>t. w ! 1 + w ! 3 * (t - w ! 0) + w ! 5 * (t - w ! 0) * (t - w ! 0))
        (\<lambda>t. w ! 2 + w ! 4 * (t - w ! 0) + w ! 6 * (t - w ! 0) * (t - w ! 0))
      (trackProgramTimeStep cf) (program_size cf) (w ! 0)) = desired_points cf w"
  using assms by (simp add: expand_program_points desired_points_def Let_def power2_eq_square algebra_simps)

text \<open>A program with further points: what is there stays.\<close>

definition extended ::
    "(real \<Rightarrow> pointing_data option) \<Rightarrow> pointing_data list \<Rightarrow> real \<Rightarrow> pointing_data option" where
  "extended prog ps t = (case prog t of Some q \<Rightarrow> Some q | None \<Rightarrow> find (\<lambda>p. pd_t p = t) ps)"

definition added_program :: "real list \<Rightarrow> ds_emulator \<Rightarrow> ds_emulator \<Rightarrow> bool" where
  "added_program w d d' \<longleftrightarrow>
     (\<exists>qs. CorrectPointingDataList (desired_points (ds_cfg d) w) d = Got qs \<and>
        program (ds_schedule d') = extended (program (ds_schedule d)) qs)"

lemma push_program_effect:
  assumes "push_program fAz fEl w d = (r, d')" and "sched_ok (ds_schedule d)"
    and "fst (expand_program fAz fEl (trackProgramTimeStep (ds_cfg d)) (program_size (ds_cfg d)) (w ! 0)) =
           desired_points (ds_cfg d) w"
  shows "(r = Returned_Void \<longrightarrow> added_program w d d') \<and> (r \<noteq> Returned_Void \<longrightarrow> d' = d)"
proof (cases "CorrectPointingDataList (desired_points (ds_cfg d) w) d")
  case (Got qs)
  obtain st s where p: "Push_list qs (ds_schedule d) = (st, s)" by fastforce
  obtain ps t where e: "expand_program fAz fEl (trackProgramTimeStep (ds_cfg d)) (program_size (ds_cfg d))
    (w ! 0) = (ps, t)" by fastforce
  with assms(3) have ps: "ps = desired_points (ds_cfg d) w" by simp
  consider "st = 0" | "st = -1" using Push_list_status [OF p] by blast
  then show ?thesis
  proof cases
    case 1
    with Push_list_program [OF assms(2), of qs s] p have
      "program s = extended (program (ds_schedule d)) qs" by (simp add: extended_def fun_eq_iff)
    with 1 assms(1) e ps p Got show ?thesis
      by (auto simp: push_program_def added_program_def)
  next
    case 2
    with Push_list_fails [OF p] assms(1) e ps p Got show ?thesis
      by (auto simp: push_program_def)
  qed
qed (use assms in \<open>auto simp: push_program_def split: prod.splits\<close>)

lemma push_single_effect:
  assumes "push_single w d = (r, d')" and "sched_ok (ds_schedule d)" and "length w = 3"
  shows "(r = Returned_Void \<longrightarrow> added_program w d d') \<and> (r \<noteq> Returned_Void \<longrightarrow> d' = d)"
proof -
  let ?c = "CorrectPointingDataList [PointingData_new (w ! 1) (w ! 2) (w ! 0) eTRACK_PROGRAM] d"
  have dp: "desired_points (ds_cfg d) w = [PointingData_new (w ! 1) (w ! 2) (w ! 0) eTRACK_PROGRAM]"
    using assms(3) by (simp add: desired_points_def)
  show ?thesis
  proof (cases "\<exists>p. ?c = Got [p]")
    case True
    then obtain p where c: "?c = Got [p]" ..
    obtain st s where p: "Push (Some p) (ds_schedule d) = (st, s)" by fastforce
    consider "st = 0" | "st = -1" "s = ds_schedule d" using Push_status [OF p] by blast
    then show ?thesis
    proof cases
      case 1
      with Push_program [OF assms(2) p] have
        "program s = extended (program (ds_schedule d)) [p]"
        by (auto simp: extended_def fun_eq_iff split: if_splits option.splits)
      with 1 c p assms(1) dp show ?thesis by (auto simp: push_single_def added_program_def)
    next
      case 2
      with c p assms(1) show ?thesis by (auto simp: push_single_def)
    qed
  next
    case False
    with assms(1) show ?thesis
      by (auto simp: push_single_def split: access.splits list.splits)
  qed
qed

text \<open>The mode of the emulator is POINT, as the code asks.\<close>

definition accepts_pointing :: "real \<Rightarrow> real list \<Rightarrow> ds_emulator \<Rightarrow> bool" where
  "accepts_pointing now w d \<longleftrightarrow>
     get_enum ''operatingMode'' d = Got (enum_value ''operatingMode'' ''POINT'' d) \<and>
     length w \<in> {3, 5, 7} \<and> (w ! 0 > 0 \<longrightarrow> now < w ! 0 / 1000)"

lemma write_desiredPointing_rejects:
  assumes "\<not> accepts_pointing now w d" and "get_enum ''operatingMode'' d \<noteq> Undefined_Access"
  shows "write_desiredPointing now w d = (Thrown ''WRITE_DESIRED_POINTING_FAILED'', d)"
  using assms by (auto simp: write_desiredPointing_def accepts_pointing_def Let_def split: access.splits)

lemma write_desiredPointing_accepts:
  assumes "accepts_pointing now w d" and "write_desiredPointing now w d = (r, d')"
    and "sched_ok (ds_schedule d)"
  shows "(r = Returned_Void \<longrightarrow> added_program w d d') \<and> (r \<noteq> Returned_Void \<longrightarrow> d' = d)"
proof -
  have w: "write_desiredPointing now w d =
    (if length w = 3 then push_single w d
     else if length w = 5 then push_program (\<lambda>t. w ! 1 + w ! 3 * (t - w ! 0)) (\<lambda>t. w ! 2 + w ! 4 * (t - w ! 0)) w d
     else push_program (\<lambda>t. w ! 1 + w ! 3 * (t - w ! 0) + w ! 5 * (t - w ! 0) * (t - w ! 0))
            (\<lambda>t. w ! 2 + w ! 4 * (t - w ! 0) + w ! 6 * (t - w ! 0) * (t - w ! 0)) w d)"
    using assms(1) by (auto simp: write_desiredPointing_def accepts_pointing_def Let_def)
  consider "length w = 3" | "length w = 5" | "length w = 7"
    using assms(1) by (auto simp: accepts_pointing_def)
  then show ?thesis
  proof cases
    case 1
    with w assms(2) have "push_single w d = (r, d')" by simp
    then show ?thesis using assms(3) 1 by (rule push_single_effect)
  next
    case 2
    with w assms(2) have "push_program (\<lambda>t. w ! 1 + w ! 3 * (t - w ! 0)) (\<lambda>t. w ! 2 + w ! 4 * (t - w ! 0))
      w d = (r, d')" by simp
    then show ?thesis using assms(3) desired_points_linear [OF 2] by (rule push_program_effect)
  next
    case 3
    with w assms(2) have "push_program
        (\<lambda>t. w ! 1 + w ! 3 * (t - w ! 0) + w ! 5 * (t - w ! 0) * (t - w ! 0))
        (\<lambda>t. w ! 2 + w ! 4 * (t - w ! 0) + w ! 6 * (t - w ! 0) * (t - w ! 0)) w d = (r, d')" by simp
    then show ?thesis using assms(3) desired_points_quadratic [OF 3] by (rule push_program_effect)
  qed
qed


text \<open>
  The emergency stop and a task that sleeps: what the command \<open>SimulateESTOP\<close> does and what the task of
  \<open>SetPointMode\<close> does when it wakes up afterwards.
\<close>

definition brakes_set :: "bool \<Rightarrow> ds_emulator \<Rightarrow> bool" where
  "brakes_set b d \<longleftrightarrow> (\<forall>n\<in>set brake_names. value_at n d = Some (VBool b))"

lemma estop_effect:
  assumes "ds_attrs_ok d" and "has_now ''operatingMode'' l d" and "l \<noteq> ''ESTOP''"
  shows "\<exists>d1. ds_command w_all post_ok SimulateESTOP d = (Returned_Void, d1) \<and> shape d1 = shape d \<and>
    has_now ''operatingMode'' ''ESTOP'' d1 \<and> \<not> trackingEnabled d1 \<and> pointingQueue (ds_schedule d1) = [] \<and>
    ds_sleeping d1 = ds_sleeping d \<and> (\<forall>n. n \<noteq> ''operatingMode'' \<longrightarrow> value_at n d1 = value_at n d)"
proof -
  let ?e = "flush_track_program (DisableTracking d)"
  have s: "shape ?e = shape d" by (simp add: flush_track_program_def DisableTracking_def)
  have E: "enum_attr ''operatingMode'' [''STOW'', ''ESTOP'', ''POINT''] ?e"
    using ds_attrsD(1) [OF assms(1)] by (simp add: enum_attr_shape [OF s])
  let ?d1 = "put_label ''ESTOP'' ''operatingMode'' ?e"
  from get_enum_now [OF ds_attrsD(1) [OF assms(1)] assms(2)] obtain w where
    "get_enum ''operatingMode'' d = Got w" "GetEnumAttrLabelValue ''operatingMode'' w d = Some l" by blast
  with assms(3) set_label_ok [OF E, of "''ESTOP''"] have
    c: "ds_command w_all post_ok SimulateESTOP d = (Returned_Void, ?d1)"
    by (simp add: ds_command_def is_allowed_def execute_command_def simulate_estop_def label_string_def)
  have a: "attrs_only ?e ?d1" by simp
  have "value_at n ?d1 = value_at n d" if "n \<noteq> ''operatingMode''" for n
    using that by (simp add: value_put_label)
      (simp add: value_at_def flush_track_program_def DisableTracking_def)
  moreover have "shape ?d1 = shape d" using shape_put_label [OF E] s by simp
  moreover have "has_now ''operatingMode'' ''ESTOP'' ?d1" by (rule has_now_put_label [OF E]) simp
  ultimately show ?thesis using c attrs_only_fields [OF a]
    by (intro exI [of _ ?d1]) (simp add: flush_track_program_def DisableTracking_def flush_queue_def)
qed

lemma point_effect:
  assumes "ds_attrs_ok d" and "ds_rules (rules d)" and "has_now ''operatingMode'' cur d"
    and "has_now ''powerState'' pw d" and "has_now ''pointingState'' pc d"
    and "may_follow ''operatingMode'' cur ''POINT''"
  shows "\<exists>d1. set_point_finish w_all False d = (Task_Returned, d1) \<and> has_now ''operatingMode'' ''POINT'' d1 \<and>
    trackingEnabled d1 \<and> brakes_set False d1 \<and> ds_state d1 = DS_RUNNING"
proof -
  have f: "power_step pw {''FULL-POWER'', pw} (set_power w_all ''FULL-POWER'') e" if "shape e = shape d" for e
    by (rule set_power_step) (use assms(1,2) ds_attrs_shape [OF that] shape_rules [OF that] in simp_all)
  have l: "set servo_names \<union> set brake_names \<subseteq> set (brake_names @ servo_names)"
    "''POINT'' \<in> {''STOW'', ''ESTOP'', ''POINT''}" "''READY'' \<in> {''READY'', ''SLEW'', ''TRACK'', ''NONE''}" by auto
  from change_mode [OF assms(1-5) l(1) f assms(6) l(2,3), of True False] obtain d' where d':
    "run_steps (set_flags w_all True servo_names @ set_flags w_all False brake_names @
       [set_power w_all ''FULL-POWER'', sm_label w_all ''READY'' ''pointingState'',
        sm_label w_all ''POINT'' ''operatingMode'']) d = (Got (), d')"
    "has_now ''operatingMode'' ''POINT'' d'"
    "\<forall>n. n \<notin> {''operatingMode'', ''pointingState'', ''powerState''} \<longrightarrow> value_at n d' =
       (if n \<in> set brake_names then Some (VBool False) else if n \<in> set servo_names then Some (VBool True)
        else value_at n d)" by blast
  let ?d1 = "(EnableTracking d')\<lparr>ds_state := DS_RUNNING, setPointModeProgress := ''COMPLETED''\<rparr>"
  have s: "shape ?d1 = shape d'" by (simp add: EnableTracking_def)
  have v: "value_at n ?d1 = value_at n d'" for n by (simp add: value_at_def EnableTracking_def)
  have "brakes_set False ?d1" using d'(3) flag_names(1) by (simp add: brakes_set_def v)
  moreover have "has_now ''operatingMode'' ''POINT'' ?d1" using d'(2) by (simp add: has_now_cong [OF s v])
  ultimately show ?thesis using d'(1)
    by (intro exI [of _ ?d1]) (simp add: set_point_finish_def task_steps_def EnableTracking_def)
qed

lemma estop_has_no_rule: "may_follow ''operatingMode'' ''ESTOP'' l"
  by (simp add: may_follow_def transition_rules_def)

lemma has_now_keep:
  "shape d' = shape d \<Longrightarrow> value_at n d' = value_at n d \<Longrightarrow> has_now n l d \<Longrightarrow> has_now n l d'"
  by (simp add: has_now_cong [of d' d])

lemma set_point_after_estop:
  assumes "ds_attrs_ok d" and "ds_rules (rules d)" and "has_now ''operatingMode'' l d" and "l \<noteq> ''ESTOP''"
    and "has_now ''powerState'' pw d" and "has_now ''pointingState'' pc d"
    and "ds_sleeping d = Some Sleep_Point"
  shows "\<exists>d1 d2. ds_command w_all post_ok SimulateESTOP d = (Returned_Void, d1) \<and>
    has_now ''operatingMode'' ''ESTOP'' d1 \<and> \<not> trackingEnabled d1 \<and>
    task_round w_all False un d1 = Some d2 \<and>
    has_now ''operatingMode'' ''POINT'' d2 \<and> trackingEnabled d2 \<and> brakes_set False d2 \<and> ds_state d2 = DS_RUNNING"
proof -
  from estop_effect [OF assms(1,3,4)] obtain d1 where d1:
    "ds_command w_all post_ok SimulateESTOP d = (Returned_Void, d1)" "shape d1 = shape d"
    "has_now ''operatingMode'' ''ESTOP'' d1" "\<not> trackingEnabled d1" "ds_sleeping d1 = ds_sleeping d"
    "\<forall>n. n \<noteq> ''operatingMode'' \<longrightarrow> value_at n d1 = value_at n d" by blast
  have "has_now ''powerState'' pw d1" "has_now ''pointingState'' pc d1"
    using assms(5,6) d1(6) by (auto intro: has_now_keep [OF d1(2)])
  moreover have "ds_attrs_ok d1" "ds_rules (rules d1)"
    using assms(1,2) ds_attrs_shape [OF d1(2)] shape_rules [OF d1(2)] by simp_all
  ultimately obtain d2 where d2: "set_point_finish w_all False d1 = (Task_Returned, d2)"
    "has_now ''operatingMode'' ''POINT'' d2" "trackingEnabled d2" "brakes_set False d2" "ds_state d2 = DS_RUNNING"
    using point_effect [OF _ _ d1(3) _ _ estop_has_no_rule] by blast
  let ?d3 = "d2\<lparr>ds_sleeping := None\<rparr>"
  have s: "shape ?d3 = shape d2" by simp
  have v: "value_at n ?d3 = value_at n d2" for n by (simp add: value_at_def)
  have "task_round w_all False un d1 = Some ?d3"
    using assms(7) d1(5) d2(1) by (simp add: task_round_def wake_task_def after_task_def)
  moreover have "has_now ''operatingMode'' ''POINT'' ?d3" by (rule has_now_keep [OF s v d2(2)])
  ultimately show ?thesis using d1 d2 v
    by (intro exI [of _ d1] exI [of _ ?d3]) (simp add: brakes_set_def)
qed

end
