(* ===== verification/DsExamples.thy ===== *)
theory DsExamples
  imports DsStowRun DsDesired
begin

text \<open>The emulator of the witnesses: the attributes and commands of a dish at rest in a given mode.\<close>

definition enum_of :: "string list \<Rightarrow> 16 word \<Rightarrow> dyn_attr" where
  "enum_of ls w = \<lparr>at_type = DEV_ENUM, at_scalar = True, at_max_dim = 1, at_labels = ls, at_written = True,
     at_value = VShort w, at_spectrum = []\<rparr>"

definition flag_of :: "bool \<Rightarrow> dyn_attr" where
  "flag_of b = \<lparr>at_type = DEV_BOOLEAN, at_scalar = True, at_max_dim = 1, at_labels = [], at_written = True,
     at_value = VBool b, at_spectrum = []\<rparr>"

definition double_of :: "real \<Rightarrow> dyn_attr" where
  "double_of x = \<lparr>at_type = DEV_DOUBLE, at_scalar = True, at_max_dim = 1, at_labels = [], at_written = True,
     at_value = VDouble x, at_spectrum = []\<rparr>"

definition model_of :: "real list \<Rightarrow> dyn_attr" where
  "model_of xs = \<lparr>at_type = DEV_FLOAT, at_scalar = False, at_max_dim = 20, at_labels = [], at_written = True,
     at_value = VFloat 0, at_spectrum = List.map VFloat xs\<rparr>"

definition mode_labels :: "string list" where
  "mode_labels = [''STARTUP'', ''STANDBY-LP'', ''STOW'', ''ESTOP'', ''POINT'', ''MAINTENANCE'', ''STANDBY-FP'']"

definition dish_in :: "nat \<Rightarrow> lmc_device" where
  "dish_in i =
     \<lparr>dyn_attrs =
        [(''operatingMode'', enum_of mode_labels (of_nat i)),
         (''powerState'', enum_of [''OFF'', ''UPS'', ''FULL-POWER'', ''LOW-POWER''] 2),
         (''pointingState'', enum_of [''READY'', ''SLEW'', ''TRACK'', ''SCAN'', ''NONE''] 0),
         (''targetLock'', flag_of False),
         (''indexerBrakeState'', flag_of False), (''azimuthBrakeState'', flag_of False),
         (''elevationBrakeState'', flag_of False), (''indexerServoState'', flag_of True),
         (''azimuthServoState'', flag_of True), (''elevationServoState'', flag_of True),
         (''antennaAzPosition'', double_of 0), (''antennaElPosition'', double_of 30),
         (''testMode'', flag_of False), (''pointingModelParams'', model_of (replicate 9 0))],
      dev_commands = List.map fst mode_rules @ test_mode_rules, rules = RuleFactory_Instance\<rparr>"

definition conf0 :: ds_config where
  "conf0 = \<lparr>stowAzimuthPos = 0, stowElevationPos = 90, slewRate = 3, slewTimeStep = 1000,
     pointingResolution = 5, smearPointingCoords = False, trackProgramMaxSize = 50,
     trackProgramTimeStep = 10, pointingModelParamsDefault = replicate 9 0, enableStartupFailure = False,
     maxPointingQueueSize = 100\<rparr>"

lemma dish_ready: "mode_ready (dish_in i)"
  by (simp add: mode_ready_def dish_in_def is_scalar_attr_def enum_of_def mode_rules_def)

lemma dish_attrs: "ds_attrs_ok (dish_in i)"
  by (simp add: ds_attrs_ok_def enum_attr_def plain_attr_def dish_in_def enum_of_def flag_of_def double_of_def
      brake_names_def servo_names_def mode_labels_def)

lemma dish_mode: "i < 7 \<Longrightarrow> has_now ''operatingMode'' (mode_labels ! i) (dish_in i)"
  by (simp add: has_now_def value_at_def GetEnumAttrLabelValue_def dish_in_def enum_of_def
      signed_of_nat signed_take_bit_int_eq_self mode_labels_def)

lemma dish_values:
  "has_now ''powerState'' ''FULL-POWER'' (dish_in i)" "has_now ''pointingState'' ''READY'' (dish_in i)"
  "value_at ''antennaAzPosition'' (dish_in i) = Some (VDouble 0)"
  "value_at ''antennaElPosition'' (dish_in i) = Some (VDouble 30)"
  by (simp_all add: has_now_def value_at_def GetEnumAttrLabelValue_def dish_in_def enum_of_def double_of_def
      flag_of_def)

text \<open>The emulator started over these attributes.\<close>

lemma dish_starts: "\<exists>d. ds_start conf0 (dish_in i) = Some d"
  using InitCmdAttrStateMachine_registered [OF dish_ready, of i] by (auto simp: ds_start_def)

lemma same_attrs:
  assumes "dyn_attrs d' = dyn_attrs d"
  shows "value_at n d' = value_at n d" and "has_now n l d' = has_now n l d" and "ds_attrs_ok d' = ds_attrs_ok d"
    and "seen_value n d' = seen_value n d" and "get_enum n d' = get_enum n d"
    and "enum_value n l d' = enum_value n l d"
proof -
  have L: "GetEnumAttrLabelValue m w d' = GetEnumAttrLabelValue m w d" for m w
    using assms by (simp add: GetEnumAttrLabelValue_def)
  have G: "GetDynAttrValue T m d' = GetDynAttrValue T m d" for T m
    using assms by (simp add: GetDynAttrValue_def)
  have V: "value_at m d' = value_at m d" for m using assms by (simp add: value_at_def)
  show "value_at n d' = value_at n d" "has_now n l d' = has_now n l d" "ds_attrs_ok d' = ds_attrs_ok d"
    "seen_value n d' = seen_value n d" "get_enum n d' = get_enum n d" "enum_value n l d' = enum_value n l d"
    using assms by (simp_all only: V has_now_def L ds_attrs_ok_def enum_attr_def plain_attr_def seen_value_def
        get_enum_def G enum_value_def GetEnumAttrValue_def)
qed

lemma started_fields:
  assumes "ds_start conf0 (dish_in i) = Some d"
  shows "ds_cfg d = conf0" and "ds_rules (rules d)" and "ds_attrs_ok d"
    and "i < 7 \<Longrightarrow> has_now ''operatingMode'' (mode_labels ! i) d"
    and "has_now ''powerState'' ''FULL-POWER'' d" and "has_now ''pointingState'' ''READY'' d"
    and "value_at ''antennaAzPosition'' d = Some (VDouble 0)"
    and "value_at ''antennaElPosition'' d = Some (VDouble 30)"
    and "tracker_at d = T_Waiting" and "\<not> stopThread d" and "stowProgress d = ''INIT''"
    and "setPointModeProgress d = ''INIT''" and "ds_messages d = []" and "ds_sleeping d = None"
    and "pointingQueue (ds_schedule d) = []" and "sched_ok (ds_schedule d)"
    and "dev_commands d = dev_commands (dish_in i)" and "dyn_attrs d = dyn_attrs (dish_in i)"
    and "ds_reach conf0 (dish_in i) d"
proof -
  note F = ds_start_fields [OF dish_ready assms]
  from assms obtain e where "d = ds_init conf0 e" by (auto simp: ds_start_def)
  then show "tracker_at d = T_Waiting" "\<not> stopThread d" "stowProgress d = ''INIT''"
    "setPointModeProgress d = ''INIT''" "ds_messages d = []" "ds_sleeping d = None"
    "pointingQueue (ds_schedule d) = []"
    by (simp_all add: ds_init_def lmc_device.defs SetMaxQueueSize_def PointingSchedule_new_def)
  from F(1-5) show "ds_cfg d = conf0" "ds_rules (rules d)" "dev_commands d = dev_commands (dish_in i)"
    "dyn_attrs d = dyn_attrs (dish_in i)" "sched_ok (ds_schedule d)" by auto
  show "ds_attrs_ok d" "i < 7 \<Longrightarrow> has_now ''operatingMode'' (mode_labels ! i) d"
    "has_now ''powerState'' ''FULL-POWER'' d" "has_now ''pointingState'' ''READY'' d"
    "value_at ''antennaAzPosition'' d = Some (VDouble 0)"
    "value_at ''antennaElPosition'' d = Some (VDouble 30)"
    using dish_values dish_attrs dish_mode by (simp_all add: same_attrs [OF F(3)])
  from assms show "ds_reach conf0 (dish_in i) d" by (rule Reach_Start)
qed

lemma mode_label_at [simp]: "mode_labels ! 4 = ''POINT''" "mode_labels ! 6 = ''STANDBY-FP''"
  by (simp_all add: mode_labels_def)

text \<open>The command \<open>SetPointMode\<close> in the mode STANDBY-FP, up to the sleep of its task.\<close>

lemma point_sleeps:
  assumes "ds_start conf0 (dish_in 6) = Some d"
  shows "\<exists>e. ds_reach conf0 (dish_in 6) e \<and> ds_sleeping e = Some Sleep_Point \<and> shape e = shape d \<and>
    (\<forall>n. value_at n e = value_at n d)"
proof -
  note f = started_fields [OF assms]
  have m: "has_now ''operatingMode'' ''STANDBY-FP'' d" using f(4) by simp
  let ?d1 = "d\<lparr>setPointModeProgress := ''IDLE'', ds_messages := [PointMsg]\<rparr>"
  let ?d2 = "?d1\<lparr>ds_messages := [], setPointModeProgress := ''RUNNING'', ds_sleeping := Some Sleep_Point\<rparr>"
  have "''SetPointMode'' \<in> set (dev_commands d)" using f(17) by (simp add: dish_in_def mode_rules_def)
  then have a: "is_allowed SetPointMode d = Returned_Void"
    using is_allowed_mode(2) [OF f(2) in_mode_now [OF f(3) m], of SetPointMode]
    by (simp add: command_name_def mode_rules_def)
  have g: "IsCmdAllowed ''set_point_mode'' True d = Pass"
    by (rule no_rule_gate [OF f(2)]) (simp_all add: extract_names test_mode_rules_def mode_rules_def)
  have v: "get_enum ''operatingMode'' d = Got 6" "enum_value ''operatingMode'' ''POINT'' d = 4"
    by (simp_all add: same_attrs [OF f(18)])
      (simp_all add: get_enum_def GetDynAttrValue_def enum_value_def GetEnumAttrValue_def dish_in_def
        enum_of_def mode_labels_def)
  have "ds_command w_all True SetPointMode d = (Reply 1, ?d1)"
    using a g v f(12,13)
    by (simp add: ds_command_def execute_command_def set_point_mode_def task_active_def ds_post_def)
  then have "ds_step d ?d1" by (rule Step_Command) simp
  moreover have "task_round w_all False False ?d1 = Some ?d2"
    using f(14) by (simp add: task_round_def process_message_def set_point_begin_def after_task_def)
  then have "ds_step ?d1 ?d2" by (rule Step_Task)
  ultimately have "ds_reach conf0 (dish_in 6) ?d2" using f(19) by (blast intro: Reach_Step)
  then show ?thesis by (intro exI [of _ ?d2]) (simp add: value_at_def)
qed

end
