(* ===== verification/DsProps.thy ===== *)
theory DsProps
  imports DsExamples
begin

text \<open>The properties of the antenna emulator and of the rules it uses, with their witnesses.\<close>

subsection \<open>Stowing\<close>

text \<open>C36: in every reachable state in which the rules allow it, the command \<open>Stow\<close> is accepted and throws
  away the program of the antenna, and the steps of the tracking thread that follow it end in the safe
  position: the antenna is at the stow coordinates, the brakes are on, the servos off, no target is locked,
  full power has become low power (a power state \<open>UPS\<close> is kept), the mode is \<open>STOW\<close>, tracking is off and
  the progress is \<open>COMPLETED\<close>. The number of steps is bounded by the distance and the slewing step.\<close>

theorem stow_reaches_safe_position:
  assumes "mode_ready d0" and "ds_reach cf d0 d" and "ds_attrs_ok d"
    and "0 < slewRate cf" and "0 < slewTimeStep cf" and "0 \<le> pointingResolution cf"
    and "has_now ''operatingMode'' cur d" and "has_now ''powerState'' pw d"
    and "cur \<in> {''STANDBY-LP'', ''STANDBY-FP'', ''POINT'', ''MAINTENANCE'', ''ESTOP''}"
    and "\<not> task_active (stowProgress d)" and "tracker_at d = T_Waiting" and "\<not> stopThread d"
    and "value_at ''antennaAzPosition'' d = Some (VDouble az)"
    and "value_at ''antennaElPosition'' d = Some (VDouble el)"
  shows "\<exists>d1. ds_command w_ok post_ok Stow d = (Reply 1, d1) \<and>
    (\<forall>ins. 2 * slew_bound cf (stow_data cf) az el + 3 \<le> length ins \<longrightarrow>
       (\<exists>d2. track_run ins d1 = Some d2 \<and> stowed (stow_data cf) pw d2))"
proof (rule exI [of _ "stow_scheduled d"], intro conjI allI impI)
  note inv = ds_reach_inv [OF assms(1,2)]
  have "''Stow'' \<in> set (dev_commands d)" using assms(1) inv(3) by (simp add: mode_ready_def mode_rules_def)
  with is_allowed_mode(2) [OF inv(2) in_mode_now [OF assms(3,7)], of Stow] assms(9)
  have "is_allowed Stow d = Returned_Void" by (auto simp: command_name_def mode_rules_def)
  moreover have "stow d = (Reply 1, stow_scheduled d)"
    by (rule stow_accepted [OF inv(2) assms(3,7) _ assms(10)]) (use assms(9) in auto)
  ultimately show "ds_command w_ok post_ok Stow d = (Reply 1, stow_scheduled d)"
    by (simp add: ds_command_def execute_command_def)
  fix ins :: "(real \<times> real \<times> real) list"
  assume "2 * slew_bound cf (stow_data cf) az el + 3 \<le> length ins"
  moreover have "may_follow ''operatingMode'' cur ''STOW''"
    using assms(9) by (auto simp: may_follow_def transition_rules_def)
  ultimately show "\<exists>d2. track_run ins (stow_scheduled d) = Some d2 \<and> stowed (stow_data cf) pw d2"
    using track_run_scheduled [OF assms(11,12) _ assms(3) inv(2) assms(7,8) _ _ _ assms(13,14), of ins]
      inv(1,6) assms(4-6) by (simp add: slew_step_def)
qed

theorem stow_reaches_safe_position_witness:
  "\<exists>d d1 d2. ds_start conf0 (dish_in 4) = Some d \<and> ds_command w_all True Stow d = (Reply 1, d1) \<and>
     track_run (replicate 43 (0, 0, 0)) d1 = Some d2 \<and> stowed (stow_data conf0) ''FULL-POWER'' d2"
proof -
  obtain d where d: "ds_start conf0 (dish_in 4) = Some d" using dish_starts by blast
  note f = started_fields [OF d]
  have b: "slew_bound conf0 (stow_data conf0) 0 30 = 20"
    by (simp add: slew_bound_def slew_step_def conf0_def stow_data_def PointingData_new_def)
  have c: "0 < slewRate conf0" "0 < slewTimeStep conf0" "0 \<le> pointingResolution conf0"
    by (simp_all add: conf0_def)
  have m: "has_now ''operatingMode'' ''POINT'' d" using f(4) by simp
  have p: "''POINT'' \<in> {''STANDBY-LP'', ''STANDBY-FP'', ''POINT'', ''MAINTENANCE'', ''ESTOP''}"
    "\<not> task_active (stowProgress d)" using f(11) by (simp_all add: task_active_def)
  from stow_reaches_safe_position [OF dish_ready f(19) f(3) c m f(5) p f(9,10,7,8), of w_all True] obtain d1
    where d1: "ds_command w_all True Stow d = (Reply 1, d1)"
    "\<forall>ins. 2 * slew_bound conf0 (stow_data conf0) 0 30 + 3 \<le> length ins \<longrightarrow>
       (\<exists>d2. track_run ins d1 = Some d2 \<and> stowed (stow_data conf0) ''FULL-POWER'' d2)" by blast
  from d1(2) b have "\<exists>d2. track_run (replicate 43 (0, 0, 0)) d1 = Some d2 \<and>
      stowed (stow_data conf0) ''FULL-POWER'' d2"
    by (elim allE [of _ "replicate 43 (0, 0, 0)"]) simp
  with d d1(1) show ?thesis by blast
qed

subsection \<open>Modes and commands\<close>



subsection \<open>Pointing\<close>

text \<open>C38: in every reachable state of the emulator, whatever clients and threads do, the pointing queue is
  strictly ordered by time, has no two points for one time, and has at most as many points as the property
  \<open>maxPointingQueueSize\<close> allows (one, for the stow position, if that is zero or negative).\<close>

theorem ds_queue_ordered:
  assumes "mode_ready d0" and "ds_reach cf d0 d"
  shows "sorted_wrt pnt_before (pointingQueue (ds_schedule d)) \<and>
    distinct (List.map pd_t (pointingQueue (ds_schedule d))) \<and>
    int (length (pointingQueue (ds_schedule d))) \<le> max 1 (sint (maxPointingQueueSize cf))"
  using ds_reach_inv(4,5) [OF assms] queue_sorted_distinct
  by (simp add: sched_ok_def queue_sorted_def)

theorem ds_queue_ordered_witness:
  "\<exists>d d1. ds_start conf0 (dish_in 4) = Some d \<and> ds_command w_all True Stow d = (Reply 1, d1) \<and>
     length (pointingQueue (ds_schedule d1)) = 1 \<and>
     int (length (pointingQueue (ds_schedule d1))) \<le> max 1 (sint (maxPointingQueueSize conf0))"
proof -
  obtain d where d: "ds_start conf0 (dish_in 4) = Some d" using dish_starts by blast
  note f = started_fields [OF d]
  have m: "has_now ''operatingMode'' ''POINT'' d" using f(4) by simp
  have "''Stow'' \<in> set (dev_commands d)" using f(17) by (simp add: dish_in_def mode_rules_def)
  with is_allowed_mode(2) [OF f(2) in_mode_now [OF f(3) m], of Stow]
  have "is_allowed Stow d = Returned_Void" by (simp add: command_name_def mode_rules_def)
  moreover have "stow d = (Reply 1, stow_scheduled d)"
    by (rule stow_accepted [OF f(2,3) m]) (simp_all add: f(11) task_active_def)
  ultimately have c: "ds_command w_all True Stow d = (Reply 1, stow_scheduled d)"
    by (simp add: ds_command_def execute_command_def)
  then have "ds_step d (stow_scheduled d)" by (rule Step_Command) simp
  with f(19) have "ds_reach conf0 (dish_in 4) (stow_scheduled d)" by (rule Reach_Step)
  from ds_queue_ordered [OF dish_ready this] d c show ?thesis by auto
qed

text \<open>\<open>Pop\<close> gives out the earliest point of the program and takes it away, and only while its time has
  come and is over for less than the limit (a negative time means at once); when its time has not come
  nothing changes; when it is over for longer the point is thrown away and not given out.\<close>

theorem pop_in_window:
  assumes "sched_ok s" and "Pop now data tdiff s = (st, p, td, s')"
  shows "case pointingQueue s of
      [] \<Rightarrow> st = -1 \<and> s' = s
    | q # qs \<Rightarrow>
        (\<forall>t r. program s t = Some r \<longrightarrow> pd_t q \<le> t) \<and>
        (if now < active_at q now then st = 1 \<and> s' = s
         else program s' = (program s)(pd_t q := None) \<and>
           (if (now - active_at q now) * 1000 < of_int (expiredTimeThr s)
            then st = 0 \<and> p = q\<lparr>pd_dt := (now - active_at q now) * 1000\<rparr>
            else st = -1 \<and> p = data))"
proof (cases "pointingQueue s")
  case Nil
  with assms(2) show ?thesis by (simp add: Pop_def)
next
  case (Cons q qs)
  with assms Pop_first [OF Cons, of now data tdiff] program_tl [OF assms(1) Cons]
    program_first [OF assms(1) Cons] show ?thesis
    by (auto simp: Let_def split: if_splits)
qed

theorem pop_in_window_witness:
  "let s = snd (Push (Some (PointingData_new 10 20 5000 eTRACK_PROGRAM)) (SetMaxQueueSize 10 PointingSchedule_new))
   in fst (Pop 4 PointingData_default 0 s) = 1 \<and> fst (Pop 5 PointingData_default 0 s) = 0 \<and>
      fst (Pop 6 PointingData_default 0 s) = -1"
proof -
  let ?p = "PointingData_new 10 20 5000 eTRACK_PROGRAM"
  let ?new = "SetMaxQueueSize 10 PointingSchedule_new"
  let ?s = "?new\<lparr>pointingQueue := [?p]\<rparr>"
  have q: "pointingQueue ?new = []" "maxQueueSize ?new = 10" "expiredTimeThr ?new = 100"
    by (simp_all add: SetMaxQueueSize_def PointingSchedule_new_def)
  then have s: "Push (Some ?p) ?new = (0, ?s)" by (simp add: Push_def is_queue_full_def)
  have ok: "sched_ok ?s" by (rule sched_ok_Push [OF sched_ok_new s]) (simp add: PointingData_new_def)
  have pop: "case [?p] of [] \<Rightarrow> True | q # qs \<Rightarrow>
      (if now < 5 then fst (Pop now PointingData_default 0 ?s) = 1
       else if (now - 5) * 1000 < 100 then fst (Pop now PointingData_default 0 ?s) = 0
       else fst (Pop now PointingData_default 0 ?s) = -1)" for now
    using pop_in_window [OF ok, of now PointingData_default 0]
    by (cases "Pop now PointingData_default 0 ?s")
      (auto simp: active_at_def PointingData_new_def q split: if_splits)
  from pop [of 4] pop [of 5] pop [of 6] s show ?thesis by (simp add: Let_def)
qed

text \<open>C39: the schedule implements a program, a function from time stamps to points. \<open>Push\<close> of one point is
  refused exactly when the program has its full size and the point is not the stow position, \<open>Push\<close> of a
  list when it is empty or the sum of the sizes reaches the limit; refused, the schedule is unchanged;
  accepted, the program is extended, and a point that the program has for a time stays.\<close>

theorem push_refines_program:
  assumes "sched_ok s"
  shows "(case Push (Some p) s of (st, s') \<Rightarrow>
      if int (card (dom (program s))) \<ge> maxQueueSize s \<and> pd_pntType p \<noteq> eSTOW then st = -1 \<and> s' = s
      else st = 0 \<and> program s' = extended (program s) [p]) \<and>
    (case Push_list ps s of (st, s') \<Rightarrow>
      if ps = [] \<or> int (length ps) + int (card (dom (program s))) \<ge> maxQueueSize s then st = -1 \<and> s' = s
      else st = 0 \<and> program s' = extended (program s) ps)"
proof (rule conjI)
  note c = program_size [OF sched_ok_sorted [OF assms]]
  obtain st s' where p: "Push (Some p) s = (st, s')" by fastforce
  from Push_program [OF assms p] have "st = 0 \<Longrightarrow> program s' = extended (program s) [p]"
    by (auto simp: extended_def fun_eq_iff split: if_splits option.splits)
  with Push_program [OF assms p] Push_status [OF p] p c show "case Push (Some p) s of (st, s') \<Rightarrow>
      if int (card (dom (program s))) \<ge> maxQueueSize s \<and> pd_pntType p \<noteq> eSTOW then st = -1 \<and> s' = s
      else st = 0 \<and> program s' = extended (program s) [p]"
    by (auto simp: is_queue_full_def)
  obtain st s' where l: "Push_list ps s = (st, s')" by fastforce
  have "st = 0 \<Longrightarrow> program s' = extended (program s) ps"
    using Push_list_program [OF assms] l by (auto simp: extended_def fun_eq_iff)
  with l c show "case Push_list ps s of (st, s') \<Rightarrow>
      if ps = [] \<or> int (length ps) + int (card (dom (program s))) \<ge> maxQueueSize s then st = -1 \<and> s' = s
      else st = 0 \<and> program s' = extended (program s) ps"
    by (auto simp: Push_list_def split: if_splits)
qed

theorem push_refines_program_witness:
  "let s = SetMaxQueueSize 1 PointingSchedule_new; p = PointingData_new 10 20 5000 eTRACK_PROGRAM
   in fst (Push (Some p) s) = 0 \<and> program (snd (Push (Some p) s)) 5000 = Some p \<and>
      fst (Push_list [p] s) = -1"
  using push_refines_program [where s = "SetMaxQueueSize 1 PointingSchedule_new" and
      p = "PointingData_new 10 20 5000 eTRACK_PROGRAM" and
      ps = "[PointingData_new 10 20 5000 eTRACK_PROGRAM]", OF sched_ok_new]
  by (auto simp: Let_def program_def SetMaxQueueSize_def PointingSchedule_new_def extended_def
      PointingData_new_def dom_def split: prod.splits)

text \<open>with a positive slewing rate and time step the slewing ends, whatever the clients and the task
  thread do in its waits and whether or not the attributes can be written: the target is reached, or the
  slewing is stopped.\<close>

theorem slew_terminates:
  assumes "0 < slewRate (ds_cfg d)" and "0 < slewTimeStep (ds_cfg d)"
    and "0 \<le> pointingResolution (ds_cfg d)"
  shows "\<exists>q d'. Slew env p d = Some (q, d') \<and> (\<forall>v. q \<noteq> Slew_Moving v)"
  using Slew_returns [OF assms, of env p] by (simp add: finished_def)

theorem slew_terminates_witness:
  "\<exists>d q d'. ds_start conf0 (dish_in 4) = Some d \<and>
     Slew (\<lambda>n. \<lparr>env_w_ok = w_all, env_now = real n, env_others = id\<rparr>) (stow_data conf0) d = Some (q, d')"
proof -
  obtain d where d: "ds_start conf0 (dish_in 4) = Some d" using dish_starts by blast
  have "0 < slewRate (ds_cfg d)" "0 < slewTimeStep (ds_cfg d)" "0 \<le> pointingResolution (ds_cfg d)"
    using started_fields(1) [OF d] by (simp_all add: conf0_def)
  from slew_terminates [OF this] d show ?thesis by blast
qed

text \<open>writing \<open>desiredPointing\<close> is all or nothing. The write returns only when the mode is \<open>POINT\<close>, the
  value has 3, 5 or 7 numbers and its first time is not over; then the program is extended by the point, or
  by the points of the polynomial of degree one or two that the value stands for, each corrected by the
  pointing model. In every other case it throws and the emulator is unchanged.\<close>

theorem write_pointing_all_or_nothing:
  assumes "mode_ready d0" and "ds_reach cf d0 d" and "write_desiredPointing now w d = (r, d')"
  shows "(r = Returned_Void \<longrightarrow> accepts_pointing now w d \<and> added_program w d d') \<and>
    (r \<noteq> Returned_Void \<longrightarrow> d' = d)"
proof (cases "accepts_pointing now w d")
  case True
  with write_desiredPointing_accepts [OF True assms(3) ds_reach_inv(4) [OF assms(1,2)]] show ?thesis by simp
next
  case False
  show ?thesis
  proof (cases "get_enum ''operatingMode'' d = Undefined_Access")
    case True
    with assms(3) show ?thesis by (auto simp: write_desiredPointing_def)
  next
    case def: False
    from write_desiredPointing_rejects [OF False def] assms(3) show ?thesis by simp
  qed
qed

theorem write_pointing_all_or_nothing_witness:
  "\<exists>d d'. ds_start conf0 (dish_in 4) = Some d \<and>
     write_desiredPointing 0 [1000, 10, 20] d = (Returned_Void, d') \<and>
     added_program [1000, 10, 20] d d' \<and> accepts_pointing 0 [1000, 10, 20] d"
proof -
  obtain d where d: "ds_start conf0 (dish_in 4) = Some d" using dish_starts by blast
  note f = started_fields [OF d]
  have m: "get_enum ''operatingMode'' d = Got 4" "enum_value ''operatingMode'' ''POINT'' d = 4"
    "\<exists>ps. CorrectPointingDataList [PointingData_new 10 20 1000 eTRACK_PROGRAM] d = Got [ps]"
    by (simp_all add: f(18) get_enum_def GetDynAttrValue_def enum_value_def GetEnumAttrValue_def dish_in_def
        enum_of_def mode_labels_def CorrectPointingDataList_def GetDynAttrValue_spectrum_def model_of_def list_all_iff)
  then obtain q where q: "CorrectPointingDataList [PointingData_new 10 20 1000 eTRACK_PROGRAM] d = Got [q]"
    by blast
  have "maxQueueSize (ds_schedule d) = 100"
    using ds_reach_inv(5) [OF dish_ready f(19)] by (simp add: conf0_def)
  then obtain s where "Push (Some q) (ds_schedule d) = (0, s)"
    using f(15) by (simp add: Push_def is_queue_full_def)
  with m q obtain d' where w: "write_desiredPointing 0 [1000, 10, 20] d = (Returned_Void, d')"
    by (simp add: write_desiredPointing_def push_single_def Let_def)
  from write_pointing_all_or_nothing [OF dish_ready f(19) w] w d show ?thesis by auto
qed

subsection \<open>Rules and emergency stop\<close>

text \<open>the gate in front of a command of any LMC device. The rules of the command are looked at in the
  order of the names of their attributes; the first attribute whose current value (the label, for an
  enumerated attribute) is not in its list is named in the exception; attributes that cannot be read are
  skipped; without a violated rule the command passes.\<close>

theorem gate_finds_first_violation:
  assumes "bi_ok (cmdRules (rules d))" and "cmd_rules_typed (extract_cmd_name fcn) d"
  shows "IsCmdAllowed fcn check d =
    (case find (cmd_violated (extract_cmd_name fcn) check d)
       (bi_attrs (cmdRules (rules d)) (extract_cmd_name fcn)) of
       None \<Rightarrow> Pass | Some a \<Rightarrow> Violated a)"
  using cmd_gate [OF assms refl] .

theorem gate_finds_first_violation_witness:
  "\<exists>d. ds_start conf0 (dish_in 6) = Some d \<and>
     IsCmdAllowed ''is_Stow_allowed'' True d =
       (case find (cmd_violated ''Stow'' True d) (bi_attrs (cmdRules (rules d)) ''Stow'') of
          None \<Rightarrow> Pass | Some a \<Rightarrow> Violated a)"
proof -
  obtain d where d: "ds_start conf0 (dish_in 6) = Some d" using dish_starts by blast
  note f = started_fields [OF d]
  have ok: "bi_ok (cmdRules (rules d))" using f(2) by (simp add: ds_rules_def rules_ok_def)
  have m: "seen_value ''operatingMode'' d = Got (VString ''STANDBY-FP'')"
    using f(4) by (intro has_now_seen [OF ds_attrsD(1) [OF f(3)]]) simp
  have r: "cmd_rule d ''Stow'' a = (if a = ''operatingMode'' then rule_of mode_rules ''Stow'' else None)" for a
    using f(2) by (simp add: ds_rules_def test_mode_rules_def)
  have "cmd_rules_typed ''Stow'' d"
    using m bi_attrs_lookup [OF ok] r
    by (auto simp: cmd_rules_typed_def rule_of_def mode_rules_def split: if_splits)
  then have "cmd_rules_typed (extract_cmd_name ''is_Stow_allowed'') d" by (simp add: extract_names)
  from gate_finds_first_violation [OF ok this, of True] d show ?thesis by (auto simp: extract_names)
qed

text \<open>C40: the task of \<open>SetPointMode\<close> overrides an emergency stop. When the task sleeps while the stop is
  commanded, the stop sets the mode \<open>ESTOP\<close> and disables tracking; the task then wakes up, releases the
  brakes, sets the mode \<open>POINT\<close> and enables tracking, for there is no transition rule for \<open>ESTOP\<close>.\<close>

theorem set_point_overrides_estop:
  assumes "mode_ready d0" and "ds_reach cf d0 d" and "ds_attrs_ok d" and "ds_sleeping d = Some Sleep_Point"
    and "has_now ''operatingMode'' l d" and "l \<noteq> ''ESTOP''"
    and "has_now ''powerState'' pw d" and "has_now ''pointingState'' pc d"
  shows "\<exists>d1 d2. ds_command w_all post_ok SimulateESTOP d = (Returned_Void, d1) \<and>
    has_now ''operatingMode'' ''ESTOP'' d1 \<and> \<not> trackingEnabled d1 \<and>
    task_round w_all False unlucky d1 = Some d2 \<and>
    has_now ''operatingMode'' ''POINT'' d2 \<and> trackingEnabled d2 \<and> brakes_set False d2 \<and> ds_state d2 = DS_RUNNING"
  using set_point_after_estop [OF assms(3) ds_reach_inv(2) [OF assms(1,2)] assms(5,6,7,8,4)] .

theorem set_point_overrides_estop_witness:
  "\<exists>d d1 d2. ds_reach conf0 (dish_in 6) d \<and>
     ds_command w_all True SimulateESTOP d = (Returned_Void, d1) \<and> has_now ''operatingMode'' ''ESTOP'' d1 \<and>
     task_round w_all False False d1 = Some d2 \<and> has_now ''operatingMode'' ''POINT'' d2 \<and> trackingEnabled d2"
proof -
  obtain d where d: "ds_start conf0 (dish_in 6) = Some d" using dish_starts by blast
  note f = started_fields [OF d]
  obtain e where e: "ds_reach conf0 (dish_in 6) e" "ds_sleeping e = Some Sleep_Point" "shape e = shape d"
    "\<forall>n. value_at n e = value_at n d" using point_sleeps [OF d] by blast
  have h: "has_now ''operatingMode'' ''STANDBY-FP'' e" "has_now ''powerState'' ''FULL-POWER'' e"
    "has_now ''pointingState'' ''READY'' e" "ds_attrs_ok e"
    using f(3-6) e(4) by (simp_all add: has_now_cong [OF e(3)] ds_attrs_shape [OF e(3)])
  from set_point_overrides_estop [OF dish_ready e(1) h(4) e(2) h(1) _ h(2,3), of True False] e(1)
  show ?thesis by auto
qed

end
