(* ===== verification/LmcTasks.thy ===== *)
theory LmcTasks
  imports LmcDevice TaskMgr
begin

text \<open>
  The part of \<open>LMCDevice\<close> that drives the task manager: the commands that flush the queue, revoke and
  clear tasks, the update of the progress attributes from the statuses of the sequences
  (\<open>update_status_attrs\<close>, polled every three seconds) and of the tasks from the progress attributes
  (\<open>UpdateAsynchTaskStatus\<close>), the commands queued on an event (\<open>ExecuteEventCmdHandlers\<close>) and the loop of
  \<open>TaskThread\<close>: \<open>src/src/devices/core/LMCDevice/LMCDevice.cpp\<close> and \<open>TaskThread.cpp\<close>.

  The task manager exists once \<open>InitTaskThread\<close> has run, which is part of the initialisation: a null
  pointer to it does not arise. Tasks and sequences are allocated at fresh addresses of its heaps.
  What the operations ask of the outside is a record: whether Tango records the written values, the
  successive readings of the clock and the identifier while the \<open>i\<close>th object is built.
\<close>

record lmc_env =
  env_w_ok :: "string \<Rightarrow> scalar \<Rightarrow> bool"
  env_wlist_ok :: "string \<Rightarrow> string list \<Rightarrow> bool"
  env_clock :: "nat \<Rightarrow> clock"
  env_uuid :: "nat \<Rightarrow> string"

record lmc_tasks = lmc_device +
  lmc_name :: string
  taskManager :: task_manager
  next_task :: task_ptr
  next_sequence :: seq_ptr
  defaultTaskTimeout :: int
  taskHistoryTimeDepth :: int
  taskSequenceStatusAttrList :: "string list"
  taskStatusAttrList :: "string list"

subsection \<open>Results of a command\<close>

text \<open>
  A command returns, throws a Tango exception with a reason, throws another exception, or its behaviour
  is undefined. The device after it is the second component.
\<close>

datatype 'a call = Returns 'a | Raises string | Throws | Crashes

definition call_then :: "'a call \<times> 'd \<Rightarrow> ('a \<Rightarrow> 'd \<Rightarrow> 'b call \<times> 'd) \<Rightarrow> 'b call \<times> 'd" where
  "call_then r f =
     (case r of
        (Returns x, d) \<Rightarrow> f x d
      | (Raises e, d) \<Rightarrow> (Raises e, d)
      | (Throws, d) \<Rightarrow> (Throws, d)
      | (Crashes, d) \<Rightarrow> (Crashes, d))"

lemma call_then_simps [simp]:
  "call_then (Returns x, d) f = f x d"
  "call_then (Raises e, d) f = (Raises e, d)"
  "call_then (Throws, d) f = (Throws, d)"
  "call_then (Crashes, d) f = (Crashes, d)"
  by (simp_all add: call_then_def)

text \<open>The test of a result below zero, which the callers answer with an exception.\<close>

definition or_raise :: "string \<Rightarrow> 'a access \<Rightarrow> 'a call" where
  "or_raise reason r =
     (case r of Got x \<Rightarrow> Returns x | Failing \<Rightarrow> Raises reason | Undefined_Access \<Rightarrow> Crashes)"

lemma or_raise_simps [simp]:
  "or_raise reason (Got x) = Returns x" "or_raise reason Failing = Raises reason"
  "or_raise reason Undefined_Access = Crashes"
  by (simp_all add: or_raise_def)

definition on_mgr ::
    "(task_manager \<Rightarrow> int \<times> task_manager) \<Rightarrow> 'z lmc_tasks_scheme \<Rightarrow> int \<times> 'z lmc_tasks_scheme" where
  "on_mgr f d = (case f (taskManager d) of (r, m) \<Rightarrow> (r, d\<lparr>taskManager := m\<rparr>))"

definition raise_negative :: "string \<Rightarrow> int \<times> 'd \<Rightarrow> unit call \<times> 'd" where
  "raise_negative reason r = (if fst r < 0 then (Raises reason, snd r) else (Returns (), snd r))"

subsection \<open>Commands on the task manager\<close>

definition flush_task_queue :: "'z lmc_tasks_scheme \<Rightarrow> unit call \<times> 'z lmc_tasks_scheme" where
  "flush_task_queue d = raise_negative ''FLUSH_QUEUE_FAILED'' (on_mgr FlushQueue d)"

definition clear_tasks :: "timestamp \<Rightarrow> 'z lmc_tasks_scheme \<Rightarrow> unit call \<times> 'z lmc_tasks_scheme" where
  "clear_tasks now d =
     raise_negative ''CLEAR_TASKS_FAILED''
       (on_mgr (ClearSequenceTasks now (taskHistoryTimeDepth d) True) d)"

definition clear_task_history :: "'z lmc_tasks_scheme \<Rightarrow> unit call \<times> 'z lmc_tasks_scheme" where
  "clear_task_history d = raise_negative ''CLEAR_TASK_HISTORY_FAILED'' (on_mgr ClearAllSequenceTasks d)"

definition revoke_task :: "string \<Rightarrow> 'z lmc_tasks_scheme \<Rightarrow> unit call \<times> 'z lmc_tasks_scheme" where
  "revoke_task task_name d =
     (if task_name = [] then (Raises ''REVOKE_TASK_FAILED'', d)
      else raise_negative ''REVOKE_TASK_FAILED'' (on_mgr (RevokeTask task_name) d))"

definition revoke_task_sequence :: "string \<Rightarrow> 'z lmc_tasks_scheme \<Rightarrow> unit call \<times> 'z lmc_tasks_scheme" where
  "revoke_task_sequence task_seq_name d =
     (if task_seq_name = [] then (Raises ''REVOKE_TASK_SEQUENCE_FAILED'', d)
      else raise_negative ''REVOKE_TASK_SEQUENCE'' (on_mgr (RevokeTaskSequence task_seq_name) d))"

subsection \<open>Statuses and progress attributes\<close>

text \<open>The most recent of the status records; of two as recent the first.\<close>

fun most_recent :: "task_info \<Rightarrow> task_info list \<Rightarrow> task_info" where
  "most_recent best [] = best"
| "most_recent best (i # is) =
     (case (best, i) of
        ((_, _, _, tb), (_, _, _, ti)) \<Rightarrow> most_recent (if tb < ti then i else best) is)"

definition update_status_attr ::
    "'e lmc_env_scheme \<Rightarrow> string \<Rightarrow> 'z lmc_tasks_scheme \<Rightarrow> unit call \<times> 'z lmc_tasks_scheme" where
  "update_status_attr env attr_name d =
     (case GetTaskSequenceStatusInfo True attr_name (taskManager d) of
        [] \<Rightarrow> (Returns (), d)
      | i # is \<Rightarrow>
          (case most_recent i is of (_, st, info, _) \<Rightarrow>
             (case GetDynAttrValue_spectrum TString attr_name d of
                Failing \<Rightarrow> (Returns (), d)
              | Undefined_Access \<Rightarrow> (Crashes, d)
              | Got attr_values \<Rightarrow>
                  (case GetTaskStatusString st of (r, status_str) \<Rightarrow>
                     if r < 0 then (Returns (), d)
                     else if length attr_values < 2 then (Crashes, d)
                     else
                       (case SetDynAttrValue_strings (env_wlist_ok env)
                               (status_str # info # drop 2 (List.map string_of attr_values)) attr_name d of
                          (Undefined_Access, d1) \<Rightarrow> (Crashes, d1)
                        | (_, d1) \<Rightarrow> (Returns (), d1))))))"

fun for_each :: "('a \<Rightarrow> 'd \<Rightarrow> unit call \<times> 'd) \<Rightarrow> 'a list \<Rightarrow> 'd \<Rightarrow> unit call \<times> 'd" where
  "for_each f [] d = (Returns (), d)"
| "for_each f (x # xs) d = call_then (f x d) (\<lambda>_. for_each f xs)"

definition update_status_attrs :: "'e lmc_env_scheme \<Rightarrow> 'z lmc_tasks_scheme \<Rightarrow> unit call \<times> 'z lmc_tasks_scheme" where
  "update_status_attrs env d = for_each (update_status_attr env) (taskSequenceStatusAttrList d) d"

definition UpdateAsynchTaskStatus :: "string \<Rightarrow> 'z lmc_tasks_scheme \<Rightarrow> int call \<times> 'z lmc_tasks_scheme" where
  "UpdateAsynchTaskStatus attr_name d =
     (if attr_name \<notin> set (taskStatusAttrList d) then (Returns 0, d)
      else
        (case map_of (dyn_attrs d) attr_name of
           None \<Rightarrow> (Returns (-1), d)
         | Some a \<Rightarrow>
             if at_type a \<noteq> DEV_STRING \<or> at_scalar a \<or> at_max_dim a < 2 then (Returns (-1), d)
             else
               (case GetDynAttrValue_spectrum TString attr_name d of
                  Failing \<Rightarrow> (Returns (-1), d)
                | Undefined_Access \<Rightarrow> (Crashes, d)
                | Got attr_values \<Rightarrow>
                    (case List.map string_of attr_values of
                       task_status_str # task_status_info # _ \<Rightarrow>
                         (case GetTaskStatusFromString task_status_str (-1) of (r, task_status) \<Rightarrow>
                            if r < 0 then (Returns (-1), d)
                            else
                              (case on_mgr (mgr_SetAsynchTaskStatus attr_name task_status task_status_info) d of
                                 (r1, d1) \<Rightarrow> (Returns (if r1 < 0 then -1 else 0), d1)))
                     | _ \<Rightarrow> (Crashes, d)))))"


text \<open>
  How the devices build a sequence of tasks and hand it to the task manager, the tasks queued on an
  event (\<open>ExecuteEventCmdHandlers\<close>), and the thread that pops and executes tasks (\<open>TaskThread::Run\<close>).
\<close>

subsection \<open>Building tasks\<close>

text \<open>What the code gives a task between its construction and its insertion into a sequence.\<close>

datatype task_duration = MaxDuration int | DelayAndDuration int int

record task_spec =
  ts_name :: string
  ts_duration :: task_duration
  ts_argin :: "(string \<times> int \<times> int) option"
  ts_asynch :: "string option"

definition build_task :: "'e lmc_env_scheme \<Rightarrow> nat \<Rightarrow> int \<Rightarrow> task_spec \<Rightarrow> task" where
  "build_task env i prio ts =
     (let clk = env_clock env i;
          t0 = Task_new clk (env_uuid env i) True (ts_name ts) prio False;
          t1 = (case ts_duration ts of
                  MaxDuration ms \<Rightarrow> snd (SetMaxDuration (\<lambda>n. clk (n + 2)) ms eTIME_NOW empty_unix t0)
                | DelayAndDuration delay ms \<Rightarrow>
                    snd (SetTimeDelayAndDuration (\<lambda>n. clk (n + 2)) delay ms eTIME_NOW empty_unix t0));
          t2 = (case ts_argin ts of None \<Rightarrow> t1 | Some (argin, ty, fmt) \<Rightarrow> SetTaskArgin argin ty fmt t1)
      in (case ts_asynch ts of None \<Rightarrow> t2 | Some attr_name \<Rightarrow> SetAsynchTask attr_name t2))"

fun build_tasks :: "'e lmc_env_scheme \<Rightarrow> nat \<Rightarrow> int \<Rightarrow> task_spec list \<Rightarrow> task list" where
  "build_tasks env i prio [] = []"
| "build_tasks env i prio (ts # tss) = build_task env i prio ts # build_tasks env (Suc i) prio tss"

fun write_tasks :: "task_ptr \<Rightarrow> task list \<Rightarrow> task_heap \<Rightarrow> task_heap" where
  "write_tasks p [] h = h"
| "write_tasks p (t # ts) h = write_tasks (Suc p) ts (h(p := t))"

subsection \<open>Building a sequence\<close>

text \<open>The loop over \<open>AddTask\<close>; the flag is false when a task is refused.\<close>

fun add_tasks ::
    "task_ptr list \<Rightarrow> task_heap \<Rightarrow> task_sequence \<Rightarrow> bool \<times> task_heap \<times> task_sequence" where
  "add_tasks [] h s = (True, h, s)"
| "add_tasks (p # ps) h s =
     (case AddTask (Some p) h s of
        (r, h', s') \<Rightarrow> if r < 0 then (False, h', s') else add_tasks ps h' s')"

definition HasAttribute :: "'z lmc_tasks_scheme \<Rightarrow> string \<Rightarrow> bool" where
  "HasAttribute d attr_name = (map_of (dyn_attrs d) attr_name \<noteq> None)"

definition put_mgr :: "task_heap \<Rightarrow> seq_ptr \<Rightarrow> task_sequence \<Rightarrow> 'z lmc_tasks_scheme \<Rightarrow> 'z lmc_tasks_scheme" where
  "put_mgr h sp s d =
     d\<lparr>taskManager := (taskManager d)\<lparr>m_tasks := h, m_seqs := (m_seqs (taskManager d))(sp := s)\<rparr>\<rparr>"

definition build_sequence ::
    "'e lmc_env_scheme \<Rightarrow> string \<Rightarrow> int \<Rightarrow> task_spec list \<Rightarrow> string \<Rightarrow> string option \<Rightarrow> 'z lmc_tasks_scheme
     \<Rightarrow> seq_ptr call \<times> 'z lmc_tasks_scheme" where
  "build_sequence env reason prio tss name status_attr d =
     (let k = length tss;
          p = next_task d;
          h = write_tasks p (build_tasks env 0 prio tss) (m_tasks (taskManager d));
          s0 = TaskSequence_new (env_uuid env k) (env_clock env k 0) name False;
          s1 = (case status_attr of None \<Rightarrow> s0 | Some a \<Rightarrow> snd (SetDevStatusAttr (HasAttribute d) a s0));
          sp = next_sequence d
      in case add_tasks [p ..< p + k] h s1 of
           (ok, h', s2) \<Rightarrow>
             (if ok then Returns sp else Raises reason,
              (put_mgr h' sp s2 d)\<lparr>next_task := p + k, next_sequence := Suc sp\<rparr>))"

definition set_dependency ::
    "'e lmc_env_scheme \<Rightarrow> nat \<Rightarrow> string \<Rightarrow> dep_matrix \<Rightarrow> seq_ptr \<Rightarrow> 'z lmc_tasks_scheme
     \<Rightarrow> unit call \<times> 'z lmc_tasks_scheme" where
  "set_dependency env i reason deps sp d =
     (case SetTaskDependency (env_clock env i) deps (m_tasks (taskManager d)) (m_seqs (taskManager d) sp) of
        None \<Rightarrow> (Crashes, d)
      | Some (r, h, s) \<Rightarrow> raise_negative reason (r, put_mgr h sp s d))"

definition queue_sequence ::
    "string \<Rightarrow> seq_ptr \<Rightarrow> 'z lmc_tasks_scheme \<Rightarrow> unit call \<times> 'z lmc_tasks_scheme" where
  "queue_sequence reason sp d =
     raise_negative reason (on_mgr (AddTaskSequence (HasAttribute d) (Some sp) True) d)"

subsection \<open>Commands queued on an event\<close>

record event_handler =
  eh_name :: string
  eh_priority :: int
  eh_execution_delay :: int

text \<open>
  One handler: the task gets the value of the event and, when the delay is positive, a start time; a
  refused start time skips the handler. The result is the new \<open>status\<close>.
\<close>

definition queue_event_handler ::
    "'e lmc_env_scheme \<Rightarrow> (string \<times> int \<times> int) \<Rightarrow> event_handler \<Rightarrow> 'z lmc_tasks_scheme
     \<Rightarrow> int \<times> 'z lmc_tasks_scheme" where
  "queue_event_handler env event_value eh d =
     (let clk = env_clock env 0;
          delay = eh_execution_delay eh;
          duration = defaultTaskTimeout d * 1000;
          t0 = Task_new clk (env_uuid env 0) True (eh_name eh) (eh_priority eh) False;
          t1 = (case event_value of (argin, ty, fmt) \<Rightarrow> SetTaskArgin argin ty fmt t0)
      in case (if 0 < delay
               then SetTimeDelayAndDuration (\<lambda>n. clk (n + 2)) delay duration eTIME_NOW empty_unix t1
               else (0, t1)) of
           (r, t2) \<Rightarrow>
             if r < 0 then (0, d)
             else
               (let p = next_task d;
                    sp = next_sequence d;
                    s0 = TaskSequence_new (env_uuid env 1) (env_clock env 1 0) (eh_name eh) False;
                    h = (m_tasks (taskManager d))(p := t2)
                in case AddTask (Some p) h s0 of
                     (r1, h1, s1) \<Rightarrow>
                       (let d1 = (put_mgr h1 sp s1 d)\<lparr>next_task := Suc p, next_sequence := Suc sp\<rparr>
                        in if r1 < 0 then (1, d1)
                           else
                             (case on_mgr (AddTaskSequence (HasAttribute d1) (Some sp) True) d1 of
                                (r2, d2) \<Rightarrow> (if r2 < 0 then 1 else 0, d2)))))"

fun queue_event_handlers ::
    "(nat \<Rightarrow> 'e lmc_env_scheme) \<Rightarrow> (string \<times> int \<times> int) \<Rightarrow> event_handler list \<Rightarrow> int \<Rightarrow> 'z lmc_tasks_scheme
     \<Rightarrow> int \<times> 'z lmc_tasks_scheme" where
  "queue_event_handlers envs v [] st d = (st, d)"
| "queue_event_handlers envs v (eh # ehs) st d =
     (case queue_event_handler (envs 0) v eh d of
        (r, d1) \<Rightarrow> queue_event_handlers (\<lambda>n. envs (Suc n)) v ehs (if r = 0 then st else 1) d1)"

text \<open>The value of the event is \<open>None\<close> when it cannot be converted.\<close>

definition ExecuteEventCmdHandlers ::
    "(nat \<Rightarrow> 'e lmc_env_scheme) \<Rightarrow> event_handler list \<Rightarrow> (string \<times> int \<times> int) option \<Rightarrow> 'z lmc_tasks_scheme
     \<Rightarrow> int \<times> 'z lmc_tasks_scheme" where
  "ExecuteEventCmdHandlers envs evt_handlers event_value d =
     (if evt_handlers = [] then (0, d)
      else
        (case event_value of
           None \<Rightarrow> (-1, d)
         | Some v \<Rightarrow> queue_event_handlers envs v evt_handlers 0 d))"

subsection \<open>The thread\<close>

definition InitTaskThread ::
    "int \<Rightarrow> int \<Rightarrow> 'z lmc_tasks_scheme \<Rightarrow> int \<times> 'z lmc_tasks_scheme" where
  "InitTaskThread maxQueueableTask maxTrackableTasks d =
     (0, d\<lparr>taskManager :=
            SetMaxNTasksInCollection maxTrackableTasks
              (SetMaxNTasksInQueue maxQueueableTask
                 (TaskManager_new (m_tasks (taskManager d)) (m_seqs (taskManager d))))\<rparr>)"

text \<open>
  One turn of the loop. The command handler that \<open>Task::Run\<close> calls is the argument \<open>run\<close>; an exception
  that \<open>ExecuteTask\<close> throws on is caught.
\<close>

definition outcome_of_call :: "'a call \<Rightarrow> run_outcome option" where
  "outcome_of_call r =
     (case r of
        Returns _ \<Rightarrow> Some RunReturns
      | Raises e \<Rightarrow> Some (RunDevFailed e)
      | Throws \<Rightarrow> Some RunThrows
      | Crashes \<Rightarrow> None)"

definition thread_turn ::
    "(task \<Rightarrow> 'z lmc_tasks_scheme \<Rightarrow> unit call \<times> 'z lmc_tasks_scheme) \<Rightarrow> (nat \<Rightarrow> timer_state)
     \<Rightarrow> 'z lmc_tasks_scheme \<Rightarrow> unit call \<times> 'z lmc_tasks_scheme" where
  "thread_turn run tms d =
     (case PopTask tms (taskManager d) of
        (Popped t, m) \<Rightarrow>
          (case run t (d\<lparr>taskManager := m\<rparr>) of
             (r, d1) \<Rightarrow>
               (case outcome_of_call r of
                  None \<Rightarrow> (Crashes, d1)
                | Some outcome \<Rightarrow>
                    (Returns (),
                     d1\<lparr>taskManager := snd (ExecuteTask (lmc_name d1) outcome t (taskManager d1))\<rparr>)))
      | (_, m) \<Rightarrow> (Returns (), d\<lparr>taskManager := m\<rparr>))"

text \<open>The end of a wait for the activation of a task; the loop then turns again.\<close>

definition thread_resume :: "'z lmc_tasks_scheme \<Rightarrow> 'z lmc_tasks_scheme" where
  "thread_resume d = d\<lparr>taskManager := PopTask_resume (taskManager d)\<rparr>"

end
