(* ===== verification/TaskJson.thy ===== *)
theory TaskJson
  imports TaskModel LmcDevice
begin

text \<open>
  How a task is handed to the command that executes it: \<open>Task::EncodeToJson\<close> and class \<open>TaskUtils\<close> of
  \<open>src/src/utils/Task.cc\<close>, \<open>TaskData\<close> of \<open>Task.h\<close>, and the conversion of a \<open>CORBA::Any\<close> of
  \<open>src/src/utils/TangoUtils.cc\<close> and \<open>TangoUtils.h\<close>.

  JSON trees are a datatype with the accessors of JsonCpp; its printer and reader of JSON text, what an
  \<open>Any\<close> holds and the ISO form of a time stamp are arguments. JsonCpp throws when a value cannot be
  converted to the type asked for.
\<close>

subsection \<open>JSON values\<close>

datatype json =
  JNull | JBool bool | JInt int | JReal real | JString string | JArray "json list"
| JObject "(string \<times> json) list"

definition json_empty :: "json \<Rightarrow> bool" where
  "json_empty j = (j = JNull \<or> j = JArray [] \<or> j = JObject [])"

definition json_member :: "json \<Rightarrow> string \<Rightarrow> json option" where
  "json_member j key = (case j of JObject ms \<Rightarrow> map_of ms key | _ \<Rightarrow> None)"

definition json_get :: "json \<Rightarrow> string \<Rightarrow> json" where
  "json_get j key = (case json_member j key of None \<Rightarrow> JNull | Some v \<Rightarrow> v)"

text \<open>The conversions; \<open>None\<close> is an exception. A \<open>double\<close> is truncated towards zero.\<close>

definition in_int32 :: "int \<Rightarrow> bool" where
  "in_int32 n = (- (2 ^ 31) \<le> n \<and> n < 2 ^ 31)"

definition trunc_real :: "real \<Rightarrow> int" where
  "trunc_real r = (if 0 \<le> r then floor r else - floor (- r))"

fun asInt :: "json \<Rightarrow> int option" where
  "asInt JNull = Some 0"
| "asInt (JBool b) = Some (if b then 1 else 0)"
| "asInt (JInt n) = (if in_int32 n then Some n else None)"
| "asInt (JReal r) = (if in_int32 (trunc_real r) then Some (trunc_real r) else None)"
| "asInt _ = None"

fun asUInt :: "json \<Rightarrow> int option" where
  "asUInt JNull = Some 0"
| "asUInt (JBool b) = Some (if b then 1 else 0)"
| "asUInt (JInt n) = (if 0 \<le> n \<and> n < 2 ^ 32 then Some n else None)"
| "asUInt (JReal r) = (if 0 \<le> trunc_real r \<and> trunc_real r < 2 ^ 32 then Some (trunc_real r) else None)"
| "asUInt _ = None"

fun asReal :: "json \<Rightarrow> real option" where
  "asReal JNull = Some 0"
| "asReal (JBool b) = Some (if b then 1 else 0)"
| "asReal (JInt n) = Some (of_int n)"
| "asReal (JReal r) = Some r"
| "asReal _ = None"

text \<open>Numbers are printed by JsonCpp when they are asked for as strings: the argument \<open>show\<close>.\<close>

fun asString :: "(json \<Rightarrow> string) \<Rightarrow> json \<Rightarrow> string option" where
  "asString sh JNull = Some []"
| "asString sh (JString s) = Some s"
| "asString sh (JArray _) = None"
| "asString sh (JObject _) = None"
| "asString sh j = Some (sh j)"

fun asBool :: "json \<Rightarrow> bool option" where
  "asBool JNull = Some False"
| "asBool (JBool b) = Some b"
| "asBool (JInt n) = Some (n \<noteq> 0)"
| "asBool (JReal r) = Some (r \<noteq> 0)"
| "asBool _ = None"

fun isNumeric :: "json \<Rightarrow> bool" where
  "isNumeric (JInt _) = True"
| "isNumeric (JReal _) = True"
| "isNumeric _ = False"

subsection \<open>Arguments\<close>

text \<open>What a \<open>CORBA::Any\<close> holds, or a \<open>ScalarDataValue<T>\<close> or \<open>SpectrumDataValue<T>\<close> object.\<close>

datatype any_value = Any_Scalar scalar | Any_Spectrum ctype "scalar list"

abbreviation (input) fmt_SCALAR :: int where "fmt_SCALAR \<equiv> 0"
abbreviation (input) fmt_SPECTRUM :: int where "fmt_SPECTRUM \<equiv> 1"
abbreviation (input) code_SHORT :: int where "code_SHORT \<equiv> 2"

text \<open>The numbers that Tango gives to the types, and the C++ type of the \<open>switch\<close>.\<close>

definition ctype_of_code :: "int \<Rightarrow> ctype option" where
  "ctype_of_code ty =
     (if ty = 19 then Some TState else if ty = 4 then Some TFloat else if ty = 5 then Some TDouble
      else if ty = 3 then Some TLong else if ty = code_SHORT then Some TShort
      else if ty = 29 then Some TShort else if ty = 8 then Some TString
      else if ty = 1 then Some TBool else None)"

fun scalar_json :: "scalar \<Rightarrow> json" where
  "scalar_json (VFloat r) = JReal r"
| "scalar_json (VDouble r) = JReal r"
| "scalar_json (VLong w) = JInt (sint w)"
| "scalar_json (VShort w) = JInt (sint w)"
| "scalar_json (VString s) = JString s"
| "scalar_json (VBool b) = JBool b"
| "scalar_json (VState n) = JInt (int n)"

text \<open>The member \<open>value\<close> is appended to, element by element: an empty spectrum leaves none.\<close>

definition CorbaAnyToJsonObj :: "any_value \<Rightarrow> int \<Rightarrow> int \<Rightarrow> (string \<times> json) list option" where
  "CorbaAnyToJsonObj any ty fmt =
     (case ctype_of_code ty of
        None \<Rightarrow> None
      | Some T \<Rightarrow>
          if fmt = fmt_SCALAR then
            (case any of
               Any_Scalar v \<Rightarrow> if ctype_of v = T then Some [(''value'', scalar_json v)] else None
             | _ \<Rightarrow> None)
          else if fmt = fmt_SPECTRUM then
            (case any of
               Any_Spectrum T' vs \<Rightarrow>
                 if T' \<noteq> T then None
                 else if vs = [] then Some []
                 else Some [(''value'', JArray (List.map scalar_json vs))]
             | _ \<Rightarrow> None)
          else None)"

subsection \<open>Encoding a task\<close>

definition EncodeToJson :: "(timestamp \<Rightarrow> string) \<Rightarrow> (string \<Rightarrow> any_value) \<Rightarrow> task \<Rightarrow> json option" where
  "EncodeToJson iso8601 contents t =
     (let fields =
        [(''id'', JString (task_id t)), (''name'', JString (cmd_name t)),
         (''priority'', JInt (priority t)), (''status'', JInt (status t)),
         (''status_info'', JString (status_info t)), (''is_utc'', JBool (useUTC t)),
         (''creation_time'', JString (iso8601 (creation_time t))),
         (''activation_time'', JString (if hasActivationTime t then iso8601 (activation_time t) else [])),
         (''expiration_time'', JString (if hasExpirationTime t then iso8601 (expiration_time t) else [])),
         (''is_asynch'', JBool (is_asynch t)), (''status_attr_name'', JString (status_attr_name t)),
         (''seq_id'', JString (sequence_id t)), (''seq_name'', JString (sequence_name t))]
      in if \<not> hasArgin t then Some (JObject fields)
         else
           (case CorbaAnyToJsonObj (contents (cmd_argin t)) (argin_type t) (argin_format t) of
              None \<Rightarrow> None
            | Some value \<Rightarrow>
                Some (JObject (fields @
                  [(''arg'', JObject ([(''type'', JInt (argin_type t)),
                                        (''format'', JInt (argin_format t))] @ value))]))))"

subsection \<open>Parsing\<close>

record task_data =
  td_id :: string
  td_name :: string
  td_priority :: int
  td_status :: int
  td_is_utc :: bool
  td_creation_time :: string
  td_has_activation_time :: bool
  td_activation_time :: string
  td_has_expiration_time :: bool
  td_expiration_time :: string
  td_has_data :: bool
  td_data :: "any_value option"

text \<open>
  \<open>Parse_Fails\<close> is the result -1 or a null pointer, \<open>Parse_Raises\<close> a Tango exception, \<open>Parse_Throws\<close> an
  exception of JsonCpp.
\<close>

datatype 'a parse = Parsed 'a | Parse_Fails | Parse_Raises string | Parse_Throws

definition then_parse :: "'a parse \<Rightarrow> ('a \<Rightarrow> 'b parse) \<Rightarrow> 'b parse" where
  "then_parse p f =
     (case p of
        Parsed x \<Rightarrow> f x
      | Parse_Fails \<Rightarrow> Parse_Fails
      | Parse_Raises e \<Rightarrow> Parse_Raises e
      | Parse_Throws \<Rightarrow> Parse_Throws)"

definition or_throw :: "'a option \<Rightarrow> 'a parse" where
  "or_throw r = (case r of None \<Rightarrow> Parse_Throws | Some x \<Rightarrow> Parsed x)"

lemma parse_simps [simp]:
  "then_parse (Parsed x) f = f x" "then_parse Parse_Fails f = Parse_Fails"
  "then_parse (Parse_Raises e) f = Parse_Raises e" "then_parse Parse_Throws f = Parse_Throws" "or_throw None = Parse_Throws"
  "or_throw (Some x) = Parsed x"
  by (simp_all add: then_parse_def or_throw_def)

fun parse_all :: "(json \<Rightarrow> scalar parse) \<Rightarrow> json list \<Rightarrow> scalar list parse" where
  "parse_all f [] = Parsed []"
| "parse_all f (j # js) = then_parse (f j) (\<lambda>v. then_parse (parse_all f js) (\<lambda>vs. Parsed (v # vs)))"

definition create_data :: "ctype \<Rightarrow> (json \<Rightarrow> scalar parse) \<Rightarrow> json \<Rightarrow> any_value parse" where
  "create_data T f j =
     (if json_empty j then Parse_Fails
      else case j of
          JArray js \<Rightarrow> then_parse (parse_all f js) (\<lambda>vs. Parsed (Any_Spectrum T vs))
        | _ \<Rightarrow> then_parse (f j) (\<lambda>v. Parsed (Any_Scalar v)))"

definition bool_item :: "json \<Rightarrow> scalar parse" where
  "bool_item j = (case j of JBool b \<Rightarrow> Parsed (VBool b) | _ \<Rightarrow> Parse_Fails)"

definition string_item :: "json \<Rightarrow> scalar parse" where
  "string_item j = (case j of JString s \<Rightarrow> Parsed (VString s) | _ \<Rightarrow> Parse_Fails)"

definition float_item :: "json \<Rightarrow> scalar parse" where
  "float_item j = (if isNumeric j then then_parse (or_throw (asReal j)) (\<lambda>r. Parsed (VFloat r)) else Parse_Fails)"

text \<open>An \<open>int\<close> is narrowed to the type of the value by assignment.\<close>

definition int_item :: "ctype \<Rightarrow> json \<Rightarrow> scalar parse" where
  "int_item T j =
     (if \<not> isNumeric j then Parse_Fails
      else if T = TState then then_parse (or_throw (asUInt j)) (\<lambda>n. Parsed (VState (nat n)))
      else if T = TLong then then_parse (or_throw (asInt j)) (\<lambda>n. Parsed (VLong (word_of_int n)))
      else then_parse (or_throw (asInt j)) (\<lambda>n. Parsed (VShort (word_of_int n))))"

definition CreateBoolDataFromJson :: "json \<Rightarrow> any_value parse" where
  "CreateBoolDataFromJson = create_data TBool bool_item"

definition CreateFloatDataFromJson :: "json \<Rightarrow> any_value parse" where
  "CreateFloatDataFromJson = create_data TFloat float_item"

definition double_item :: "json \<Rightarrow> scalar parse" where
  "double_item j = (if isNumeric j then then_parse (or_throw (asReal j)) (\<lambda>r. Parsed (VDouble r)) else Parse_Fails)"

text \<open>Nothing calls this one.\<close>

definition CreateDoubleDataFromJson :: "json \<Rightarrow> any_value parse" where
  "CreateDoubleDataFromJson = create_data TDouble double_item"

definition CreateStringDataFromJson :: "json \<Rightarrow> any_value parse" where
  "CreateStringDataFromJson = create_data TString string_item"

definition CreateIntDataFromJson :: "ctype \<Rightarrow> json \<Rightarrow> any_value parse" where
  "CreateIntDataFromJson T = create_data T (int_item T)"

text \<open>The \<open>switch\<close> over the type: \<open>double\<close> data are created as \<open>float\<close> data.\<close>

definition data_of_json :: "int \<Rightarrow> json \<Rightarrow> any_value parse" where
  "data_of_json ty j =
     (case ctype_of_code ty of
        None \<Rightarrow> Parse_Raises ''PARSE_DATA_FIELD_FROM_JSON_FAILED''
      | Some T \<Rightarrow>
          (case T of
             TFloat \<Rightarrow> CreateFloatDataFromJson j
           | TDouble \<Rightarrow> CreateFloatDataFromJson j
           | TString \<Rightarrow> CreateStringDataFromJson j
           | TBool \<Rightarrow> CreateBoolDataFromJson j
           | _ \<Rightarrow> CreateIntDataFromJson T j))"

text \<open>Members are asked of objects only; anything else is an error of JsonCpp's.\<close>

definition is_object :: "json \<Rightarrow> bool" where
  "is_object j = (case j of JObject _ \<Rightarrow> True | _ \<Rightarrow> False)"

definition ParseDataFieldFromJson :: "json \<Rightarrow> any_value option parse" where
  "ParseDataFieldFromJson jroot =
     (let arg_root = json_get jroot ''arg'' in
      if json_empty arg_root then Parsed None
      else if \<not> is_object arg_root then Parse_Throws
      else if json_member arg_root ''type'' = None \<or> json_member arg_root ''format'' = None \<or>
              json_member arg_root ''value'' = None then Parse_Fails
      else
        then_parse (or_throw (asInt (json_get arg_root ''type''))) (\<lambda>data_type.
        then_parse (data_of_json data_type (json_get arg_root ''value'')) (\<lambda>v. Parsed (Some v))))"

definition need :: "json \<Rightarrow> string \<Rightarrow> (json \<Rightarrow> 'a option) \<Rightarrow> 'a parse" where
  "need jroot key conv =
     (case json_member jroot key of None \<Rightarrow> Parse_Fails | Some j \<Rightarrow> or_throw (conv j))"

definition optional :: "json \<Rightarrow> string \<Rightarrow> (json \<Rightarrow> string option) \<Rightarrow> (bool \<times> string) parse" where
  "optional jroot key conv =
     (case json_member jroot key of
        None \<Rightarrow> Parsed (False, [])
      | Some j \<Rightarrow> then_parse (or_throw (conv j)) (\<lambda>s. Parsed (True, s)))"

definition ParseFromJson :: "(json \<Rightarrow> string) \<Rightarrow> json \<Rightarrow> task_data parse" where
  "ParseFromJson sh jroot =
     (if jroot = JNull then Parse_Fails
      else if \<not> is_object jroot then Parse_Throws
      else
        then_parse (need jroot ''id'' (asString sh)) (\<lambda>i.
        then_parse (need jroot ''name'' (asString sh)) (\<lambda>name.
        then_parse (need jroot ''priority'' asInt) (\<lambda>prio.
        then_parse (need jroot ''status'' asInt) (\<lambda>st.
        then_parse (need jroot ''is_utc'' asBool) (\<lambda>utc.
        then_parse (need jroot ''creation_time'' (asString sh)) (\<lambda>created.
        then_parse (optional jroot ''activation_time'' (asString sh)) (\<lambda>act.
        then_parse (optional jroot ''expiration_time'' (asString sh)) (\<lambda>expi.
        then_parse (ParseDataFieldFromJson jroot) (\<lambda>arg.
          Parsed \<lparr>td_id = i, td_name = name, td_priority = prio, td_status = st, td_is_utc = utc,
                  td_creation_time = created, td_has_activation_time = fst act,
                  td_activation_time = snd act, td_has_expiration_time = fst expi,
                  td_expiration_time = snd expi, td_has_data = (arg \<noteq> None), td_data = arg\<rparr>))))))))))"

text \<open>
  The reader of JSON text is the argument; its failure is not looked at and leaves the null value.
\<close>

definition ParseFromJsonString ::
    "(json \<Rightarrow> string) \<Rightarrow> (string \<Rightarrow> json option) \<Rightarrow> string \<Rightarrow> task_data parse" where
  "ParseFromJsonString sh reader json_string =
     ParseFromJson sh (case reader json_string of None \<Rightarrow> JNull | Some jroot \<Rightarrow> jroot)"

text \<open>
  \<open>GetData<T>\<close> for scalars: the cast of the pointer to another type gives a null pointer, which is then
  dereferenced.
\<close>

definition GetData :: "ctype \<Rightarrow> task_data \<Rightarrow> scalar access" where
  "GetData T td =
     (if \<not> td_has_data td then Failing
      else case td_data td of
          None \<Rightarrow> Failing
        | Some (Any_Scalar v) \<Rightarrow> if ctype_of v = T then Got v else Undefined_Access
        | Some (Any_Spectrum _ _) \<Rightarrow> Undefined_Access)"


text \<open>What a command reads back of a task: \<open>ParseFromJson\<close> after \<open>EncodeToJson\<close>.\<close>

lemma sint32_in_range [simp]: "in_int32 (sint (w :: 32 word))"
  using sint_range_size [of w] by (simp add: in_int32_def word_size)

lemma sint16_in_range [simp]: "in_int32 (sint (w :: 16 word))"
  using sint_range_size [of w] by (simp add: in_int32_def word_size)

lemma asInt_in_range [simp]: "in_int32 n \<Longrightarrow> asInt (JInt n) = Some n"
  by simp

text \<open>The arguments that come back: scalars that are not of type \<open>double\<close>.\<close>

definition plain_scalar :: "int \<Rightarrow> scalar \<Rightarrow> bool" where
  "plain_scalar ty v \<longleftrightarrow> ctype_of_code ty = Some (ctype_of v) \<and> ctype_of v \<noteq> TDouble \<and>
     (\<forall>n. v = VState n \<longrightarrow> n < 2 ^ 32)"

lemma data_of_json_scalar:
  "plain_scalar ty v \<Longrightarrow> data_of_json ty (scalar_json v) = Parsed (Any_Scalar v)"
  by (cases v)
    (auto simp: plain_scalar_def data_of_json_def CreateIntDataFromJson_def CreateFloatDataFromJson_def
      CreateStringDataFromJson_def CreateBoolDataFromJson_def create_data_def json_empty_def
      int_item_def float_item_def string_item_def bool_item_def)

lemma code_in_range: "ctype_of_code ty = Some T \<Longrightarrow> in_int32 ty"
  by (auto simp: ctype_of_code_def in_int32_def split: if_splits)

lemma any_scalar_json:
  "plain_scalar ty v \<Longrightarrow>
   CorbaAnyToJsonObj (Any_Scalar v) ty fmt_SCALAR = Some [(''value'', scalar_json v)]"
  by (simp add: plain_scalar_def CorbaAnyToJsonObj_def)

lemmas parse_defs =
  EncodeToJson_def ParseFromJson_def need_def optional_def json_member_def json_get_def json_empty_def
  is_object_def ParseDataFieldFromJson_def Let_def

definition parsed_task :: "(timestamp \<Rightarrow> string) \<Rightarrow> any_value option \<Rightarrow> task \<Rightarrow> task_data" where
  "parsed_task iso8601 arg t =
     \<lparr>td_id = task_id t, td_name = cmd_name t, td_priority = priority t, td_status = status t,
      td_is_utc = useUTC t, td_creation_time = iso8601 (creation_time t),
      td_has_activation_time = True,
      td_activation_time = (if hasActivationTime t then iso8601 (activation_time t) else []),
      td_has_expiration_time = True,
      td_expiration_time = (if hasExpirationTime t then iso8601 (expiration_time t) else []),
      td_has_data = (arg \<noteq> None), td_data = arg\<rparr>"

lemma roundtrip_no_argument:
  assumes "\<not> hasArgin t" and "in_int32 (priority t)" and "in_int32 (status t)"
  shows "\<exists>j. EncodeToJson iso8601 contents t = Some j \<and>
             ParseFromJson sh j = Parsed (parsed_task iso8601 None t)"
  using assms by (simp add: parse_defs parsed_task_def)

lemma roundtrip_scalar:
  assumes "hasArgin t" and "contents (cmd_argin t) = Any_Scalar v" and "plain_scalar (argin_type t) v"
    and "argin_format t = fmt_SCALAR" and "in_int32 (priority t)" and "in_int32 (status t)"
  shows "\<exists>j. EncodeToJson iso8601 contents t = Some j \<and>
             ParseFromJson sh j = Parsed (parsed_task iso8601 (Some (Any_Scalar v)) t)"
proof -
  have ty: "in_int32 (argin_type t)" using assms(3) code_in_range by (auto simp: plain_scalar_def)
  have any: "CorbaAnyToJsonObj (contents (cmd_argin t)) (argin_type t) (argin_format t) =
      Some [(''value'', scalar_json v)]"
    using any_scalar_json [OF assms(3)] assms(2,4) by simp
  show ?thesis
    using assms(1,5,6) ty data_of_json_scalar [OF assms(3)]
    by (simp add: parse_defs any parsed_task_def)
qed

lemma empty_spectrum_lost:
  assumes "hasArgin t" and "contents (cmd_argin t) = Any_Spectrum T []" and "ctype_of_code (argin_type t) = Some T"
    and "argin_format t = fmt_SPECTRUM" and "in_int32 (priority t)" and "in_int32 (status t)"
  shows "\<exists>j. EncodeToJson iso8601 contents t = Some j \<and> ParseFromJson sh j = Parse_Fails"
proof -
  have any: "CorbaAnyToJsonObj (contents (cmd_argin t)) (argin_type t) (argin_format t) = Some []"
    using assms(2-4) by (simp add: CorbaAnyToJsonObj_def)
  show ?thesis using assms(1,5,6) by (simp add: parse_defs any)
qed

lemma double_read_as_float:
  "data_of_json 5 (scalar_json (VDouble r)) = Parsed (Any_Scalar (VFloat r))"
  by (simp add: data_of_json_def ctype_of_code_def CreateFloatDataFromJson_def create_data_def
      json_empty_def float_item_def)

text \<open>Reading such a task's argument as \<open>double\<close> dereferences a null pointer.\<close>

lemma double_argument_undefined:
  "td_has_data td \<Longrightarrow> td_data td = Some (Any_Scalar (VFloat r)) \<Longrightarrow> GetData TDouble td = Undefined_Access"
  by (simp add: GetData_def)

text \<open>The arguments that come back: also spectra of such values that are not empty.\<close>

definition plain_argin :: "int \<Rightarrow> int \<Rightarrow> any_value \<Rightarrow> bool" where
  "plain_argin ty fmt any =
     (case any of
        Any_Scalar v \<Rightarrow> fmt = fmt_SCALAR \<and> plain_scalar ty v
      | Any_Spectrum T vs \<Rightarrow>
          fmt = fmt_SPECTRUM \<and> vs \<noteq> [] \<and> ctype_of_code ty = Some T \<and> (\<forall>v\<in>set vs. plain_scalar ty v))"

lemma parse_all_scalars:
  assumes "\<And>v. v \<in> set vs \<Longrightarrow> f (scalar_json v) = Parsed v"
  shows "parse_all f (List.map scalar_json vs) = Parsed vs"
  using assms by (induction vs) auto

lemma scalar_items:
  "ctype_of v = TBool \<Longrightarrow> bool_item (scalar_json v) = Parsed v"
  "ctype_of v = TString \<Longrightarrow> string_item (scalar_json v) = Parsed v"
  "ctype_of v = TFloat \<Longrightarrow> float_item (scalar_json v) = Parsed v"
  "ctype_of v = T \<Longrightarrow> T = TLong \<or> T = TShort \<or> T = TState \<Longrightarrow> \<forall>n. v = VState n \<longrightarrow> n < 2 ^ 32 \<Longrightarrow>
   int_item T (scalar_json v) = Parsed v"
  by (cases v; auto simp: bool_item_def string_item_def float_item_def int_item_def)+

lemma data_of_json_spectrum:
  assumes "ctype_of_code ty = Some T" and "\<forall>v\<in>set vs. plain_scalar ty v" and "vs \<noteq> []"
  shows "data_of_json ty (JArray (List.map scalar_json vs)) = Parsed (Any_Spectrum T vs)"
proof -
  have T: "ctype_of v = T \<and> T \<noteq> TDouble \<and> (\<forall>n. v = VState n \<longrightarrow> n < 2 ^ 32)" if "v \<in> set vs" for v
    using assms(1,2) that by (auto simp: plain_scalar_def)
  have j: "parse_all bool_item (List.map scalar_json vs) = Parsed vs" if "T = TBool"
    by (rule parse_all_scalars) (use T that in \<open>simp add: scalar_items(1)\<close>)
  have s: "parse_all string_item (List.map scalar_json vs) = Parsed vs" if "T = TString"
    by (rule parse_all_scalars) (use T that in \<open>simp add: scalar_items(2)\<close>)
  have f: "parse_all float_item (List.map scalar_json vs) = Parsed vs" if "T = TFloat"
    by (rule parse_all_scalars) (use T that in \<open>simp add: scalar_items(3)\<close>)
  have i: "parse_all (int_item T) (List.map scalar_json vs) = Parsed vs" if "T = TLong \<or> T = TShort \<or> T = TState"
    by (rule parse_all_scalars) (use T that in \<open>simp add: scalar_items(4)\<close>)
  from assms(3) T have "T \<noteq> TDouble" by (cases vs) auto
  with assms(1,3) j s f i show ?thesis
    by (cases T)
      (auto simp: data_of_json_def CreateIntDataFromJson_def CreateFloatDataFromJson_def
        CreateStringDataFromJson_def CreateBoolDataFromJson_def create_data_def json_empty_def)
qed

lemma roundtrip_argument:
  assumes "hasArgin t" and "plain_argin (argin_type t) (argin_format t) (contents (cmd_argin t))"
    and "in_int32 (priority t)" and "in_int32 (status t)"
  shows "\<exists>j. EncodeToJson iso8601 contents t = Some j \<and>
             ParseFromJson sh j = Parsed (parsed_task iso8601 (Some (contents (cmd_argin t))) t)"
proof (cases "contents (cmd_argin t)")
  case (Any_Scalar v)
  with assms show ?thesis
    using roundtrip_scalar [of t contents v] by (simp add: plain_argin_def)
next
  case (Any_Spectrum T vs)
  with assms(2) have p: "argin_format t = fmt_SPECTRUM" "vs \<noteq> []" "ctype_of_code (argin_type t) = Some T"
    "\<forall>v\<in>set vs. plain_scalar (argin_type t) v" by (simp_all add: plain_argin_def)
  have ty: "in_int32 (argin_type t)" by (rule code_in_range [OF p(3)])
  have any: "CorbaAnyToJsonObj (Any_Spectrum T vs) (argin_type t) fmt_SPECTRUM =
      Some [(''value'', JArray (List.map scalar_json vs))]"
    using p by (simp add: CorbaAnyToJsonObj_def)
  show ?thesis
    using assms(1,3,4) ty data_of_json_spectrum [OF p(3,4,2)]
    by (simp add: parse_defs any parsed_task_def Any_Spectrum p(1))
qed

end
