(* ===== verification/DishForward.thy ===== *)
theory DishForward
  imports LmcTasks TaskJson
begin

text \<open>
  \<open>DishManager\<close> (\<open>src/src/devices/master/DishManager/DishManager.cpp\<close>), the master of a dish: its state, the
  commands it sends to the controllers of the feed package (SPF), the receiver (Rx), the dish structure
  (DS) and the power unit (\<open>ExecCmdOnProxy\<close>, \<open>WriteSEAttrs\<close>), and the commands that forward.

  The proxies are outside: whether a proxy is registered, the aliases, the names of the administration
  devices and what a remote command or write answers are arguments, and the state records what was
  sent. Tango exceptions of the proxy and other exceptions are both passed on.
\<close>

subsection \<open>State\<close>

datatype remote_arg = No_Arg | Scalar_Arg scalar | Shorts_Arg "16 word list"

text \<open>A reply is the string and long array, when the data that came back have that type.\<close>

type_synonym reply = "string list \<times> int list"

datatype remote_result = Replied "reply option" | Remote_Raises string | Remote_Throws

datatype remote_event =
    Sent string string remote_arg \<comment> \<open>proxy, command, argument\<close>
  | Written string "string list" scalar \<comment> \<open>proxy, attributes, value\<close>

record dish_env = lmc_env +
  env_any :: "scalar \<Rightarrow> string" \<comment> \<open>the \<open>CORBA::Any\<close> that holds the value\<close>
  env_contents :: "string \<Rightarrow> any_value"
  env_iso8601 :: "timestamp \<Rightarrow> string"
  env_writer :: "json \<Rightarrow> string option" \<comment> \<open>\<open>CodeUtils::JsonToString\<close>\<close>
  env_reader :: "string \<Rightarrow> json option"
  env_show :: "json \<Rightarrow> string"
  env_found :: "string \<Rightarrow> bool" \<comment> \<open>\<open>FindProxy\<close>\<close>
  env_alias :: "string \<Rightarrow> string option" \<comment> \<open>\<open>GetFQDNDeviceNameFromAlias\<close>\<close>
  env_admin :: "string \<Rightarrow> string option" \<comment> \<open>\<open>GetAdminProxyName\<close>\<close>
  env_exec :: "string \<Rightarrow> string \<Rightarrow> remote_arg \<Rightarrow> remote_result"
  env_write :: "string \<Rightarrow> string list \<Rightarrow> scalar \<Rightarrow> remote_result"
  env_unregister :: "string \<Rightarrow> bool"
  env_register :: "string \<Rightarrow> bool"

record dish = lmc_tasks +
  configureTaskTimeout :: int
  operateTaskTimeout :: int
  shutdownTaskTimeout :: int
  rxShutdownTimeDelay :: int
  rxControllerAddress :: string
  spfControllerAddress :: string
  dsManagerAddress :: string
  pduManagerAddress :: string
  dish_fault :: bool \<comment> \<open>\<open>set_state(Tango::FAULT)\<close> was called\<close>
  dish_sent :: "remote_event list"

subsection \<open>Commands on proxies\<close>

text \<open>The registered name of a proxy, or the full name that its alias stands for.\<close>

definition resolve_proxy :: "'e dish_env_scheme \<Rightarrow> string \<Rightarrow> string option" where
  "resolve_proxy env name = (if env_found env name then Some name else env_alias env name)"

definition of_remote :: "remote_result \<Rightarrow> reply option call" where
  "of_remote r =
     (case r of Replied x \<Rightarrow> Returns x | Remote_Raises e \<Rightarrow> Raises e | Remote_Throws \<Rightarrow> Throws)"

definition ExecCmdOnProxy ::
    "'e dish_env_scheme \<Rightarrow> string \<Rightarrow> string \<Rightarrow> remote_arg \<Rightarrow> bool \<Rightarrow> dish \<Rightarrow> reply option call \<times> dish" where
  "ExecCmdOnProxy env input_proxy_name cmd arg execOnAdminDevice d =
     (case (if execOnAdminDevice then env_admin env input_proxy_name else Some input_proxy_name) of
        None \<Rightarrow> (Raises ''EXEC_CMD_ON_PROXY_FAILED'', d)
      | Some proxy_name \<Rightarrow>
          (case resolve_proxy env proxy_name of
             None \<Rightarrow> (Raises ''EXEC_CMD_ON_PROXY_FAILED'', d)
           | Some full_proxy_name \<Rightarrow>
               (of_remote (env_exec env full_proxy_name cmd arg),
                d\<lparr>dish_sent := dish_sent d @ [Sent full_proxy_name cmd arg]\<rparr>)))"

definition WriteSEAttrs ::
    "'e dish_env_scheme \<Rightarrow> string \<Rightarrow> string list \<Rightarrow> scalar \<Rightarrow> dish \<Rightarrow> unit call \<times> dish" where
  "WriteSEAttrs env se_proxy_name attr_names attr_value d =
     (case resolve_proxy env se_proxy_name of
        None \<Rightarrow> (Raises ''WRITE_SE_ATTRS_FAILED'', d)
      | Some full_proxy_name \<Rightarrow>
          call_then
            (of_remote (env_write env full_proxy_name attr_names attr_value),
             d\<lparr>dish_sent := dish_sent d @ [Written full_proxy_name attr_names attr_value]\<rparr>)
            (\<lambda>_ d1. (Returns (), d1)))"

text \<open>A command without reply, and one whose reply is handed on.\<close>

definition forward :: "'e dish_env_scheme \<Rightarrow> string \<Rightarrow> string \<Rightarrow> remote_arg \<Rightarrow> dish \<Rightarrow> unit call \<times> dish" where
  "forward env proxy_name cmd arg d =
     call_then (ExecCmdOnProxy env proxy_name cmd arg False d) (\<lambda>_ d1. (Returns (), d1))"

definition forward_reply ::
    "'e dish_env_scheme \<Rightarrow> string \<Rightarrow> string \<Rightarrow> string \<Rightarrow> remote_arg \<Rightarrow> dish \<Rightarrow> reply call \<times> dish" where
  "forward_reply env reason proxy_name cmd arg d =
     call_then (ExecCmdOnProxy env proxy_name cmd arg False d)
       (\<lambda>r d1. (case r of None \<Rightarrow> Raises reason | Some x \<Rightarrow> Returns x, d1))"

definition without_reply :: "'a call \<times> 'd \<Rightarrow> unit call \<times> 'd" where
  "without_reply r = call_then r (\<lambda>_ d. (Returns (), d))"

subsection \<open>Guards\<close>

definition in_bands :: "int \<Rightarrow> int \<Rightarrow> 16 word \<Rightarrow> bool" where
  "in_bands lo hi bandId = (lo \<le> sint bandId \<and> sint bandId \<le> hi)"

text \<open>
  The call of \<open>IsCmdAllowed\<close> with the name of the function, in the functions \<open>is_..._allowed\<close> and again in
  the bodies of some commands. A violated rule and an unknown attribute are Tango exceptions.
\<close>

definition cmd_allowed :: "string \<Rightarrow> dish \<Rightarrow> unit call \<times> dish" where
  "cmd_allowed fcn_name d =
     (case IsCmdAllowed fcn_name True d of
        Pass \<Rightarrow> (Returns (), d)
      | Violated _ \<Rightarrow> (Raises ''IS_CMD_ALLOWED'', d)
      | Not_Found \<Rightarrow> (Raises ''IS_CMD_ALLOWED'', d)
      | Gate_Undefined \<Rightarrow> (Crashes, d))"

text \<open>The parsing of the argument of a task command.\<close>

definition with_task_data ::
    "'e dish_env_scheme \<Rightarrow> string \<Rightarrow> string \<Rightarrow> (task_data \<Rightarrow> dish \<Rightarrow> 'a call \<times> dish) \<Rightarrow> dish \<Rightarrow> 'a call \<times> dish"
where
  "with_task_data env reason argin f d =
     (case ParseFromJsonString (env_show env) (env_reader env) argin of
        Parsed td \<Rightarrow> f td d
      | Parse_Fails \<Rightarrow> (Raises reason, d)
      | Parse_Raises e \<Rightarrow> (Raises e, d)
      | Parse_Throws \<Rightarrow> (Throws, d))"

text \<open>The value in the argument, which must be there.\<close>

definition with_value ::
    "string \<Rightarrow> ctype \<Rightarrow> task_data \<Rightarrow> (scalar \<Rightarrow> dish \<Rightarrow> 'a call \<times> dish) \<Rightarrow> dish \<Rightarrow> 'a call \<times> dish" where
  "with_value reason T td f d =
     (if \<not> td_has_data td then (Raises reason, d) else call_then (or_raise reason (GetData T td), d) f)"

fun short_of :: "scalar \<Rightarrow> 16 word" where
  "short_of (VShort w) = w"
| "short_of _ = 0"

fun bool_of :: "scalar \<Rightarrow> bool" where
  "bool_of (VBool b) = b"
| "bool_of _ = False"


text \<open>
  The commands of \<open>DishManager\<close> that forward to a controller, and the commands ending in \<open>Task\<close> that the
  task thread executes: they parse their argument and call the former. The bands are numbered from 1
  to 6 (5 is band 5a, 6 is band 5b); the feed package and the indexer have one band 5.
\<close>

subsection \<open>Plain forwarding\<close>

definition set_rx_standby_lpmode :: "'e dish_env_scheme \<Rightarrow> dish \<Rightarrow> unit call \<times> dish" where
  "set_rx_standby_lpmode env d = forward env (rxControllerAddress d) ''SetStandbyLPMode'' No_Arg d"

definition set_rx_standby_fpmode :: "'e dish_env_scheme \<Rightarrow> dish \<Rightarrow> unit call \<times> dish" where
  "set_rx_standby_fpmode env d = forward env (rxControllerAddress d) ''SetStandbyFPMode'' No_Arg d"

definition set_rx_maintenance_mode :: "'e dish_env_scheme \<Rightarrow> dish \<Rightarrow> unit call \<times> dish" where
  "set_rx_maintenance_mode env d = forward env (rxControllerAddress d) ''SetMaintenanceMode'' No_Arg d"

definition shutdown_rxpu :: "'e dish_env_scheme \<Rightarrow> dish \<Rightarrow> unit call \<times> dish" where
  "shutdown_rxpu env d = forward env (rxControllerAddress d) ''Shutdown'' No_Arg d"

definition power_off_rxpu :: "'e dish_env_scheme \<Rightarrow> dish \<Rightarrow> unit call \<times> dish" where
  "power_off_rxpu env d = forward env (pduManagerAddress d) ''SPFRx_OFF'' No_Arg d"

definition power_on_rxpu :: "'e dish_env_scheme \<Rightarrow> dish \<Rightarrow> unit call \<times> dish" where
  "power_on_rxpu env d = forward env (pduManagerAddress d) ''SPFRx_ON'' No_Arg d"

definition shutdown_spfc :: "'e dish_env_scheme \<Rightarrow> dish \<Rightarrow> unit call \<times> dish" where
  "shutdown_spfc env d = forward env (spfControllerAddress d) ''Shutdown'' No_Arg d"

definition power_off_spfc :: "'e dish_env_scheme \<Rightarrow> dish \<Rightarrow> unit call \<times> dish" where
  "power_off_spfc env d = forward env (pduManagerAddress d) ''SPFC_OFF'' No_Arg d"

definition power_on_spfc :: "'e dish_env_scheme \<Rightarrow> dish \<Rightarrow> unit call \<times> dish" where
  "power_on_spfc env d = forward env (pduManagerAddress d) ''SPFC_ON'' No_Arg d"

definition set_dsmaintenance_mode :: "'e dish_env_scheme \<Rightarrow> dish \<Rightarrow> unit call \<times> dish" where
  "set_dsmaintenance_mode env d = forward env (dsManagerAddress d) ''SetMaintenanceMode'' No_Arg d"

text \<open>The restart goes to the administration device of the feed controller.\<close>

definition restart_spfcomponents :: "'e dish_env_scheme \<Rightarrow> dish \<Rightarrow> unit call \<times> dish" where
  "restart_spfcomponents env d =
     without_reply (ExecCmdOnProxy env (spfControllerAddress d) ''Restart'' No_Arg True d)"

definition enable_rx_engineering_mode :: "'e dish_env_scheme \<Rightarrow> bool \<Rightarrow> dish \<Rightarrow> unit call \<times> dish" where
  "enable_rx_engineering_mode env argin d =
     forward env (rxControllerAddress d) ''EnableEngineeringMode'' (Scalar_Arg (VBool argin)) d"

definition configure_rx_attenuation :: "'e dish_env_scheme \<Rightarrow> real \<Rightarrow> dish \<Rightarrow> unit call \<times> dish" where
  "configure_rx_attenuation env argin d =
     for_each (\<lambda>cmd d1. forward env (rxControllerAddress d1) cmd (Scalar_Arg (VFloat argin)) d1)
       [''AdjustPolHAttenuation'', ''AdjustPolVAttenuation''] d"

subsection \<open>Forwarding with a reply\<close>

definition set_spfstandby_lpmode :: "'e dish_env_scheme \<Rightarrow> dish \<Rightarrow> reply call \<times> dish" where
  "set_spfstandby_lpmode env d =
     forward_reply env ''SET_SPF_STANDBY_LP_MODE_FAILED'' (spfControllerAddress d) ''SetStandbyLPMode'' No_Arg d"

definition set_spfoperate_mode :: "'e dish_env_scheme \<Rightarrow> dish \<Rightarrow> reply call \<times> dish" where
  "set_spfoperate_mode env d =
     forward_reply env ''SET_SPF_OPERATE_MODE_FAILED'' (spfControllerAddress d) ''SetOperateMode'' No_Arg d"

definition set_spfmaintenance_mode :: "'e dish_env_scheme \<Rightarrow> dish \<Rightarrow> reply call \<times> dish" where
  "set_spfmaintenance_mode env d =
     forward_reply env ''SET_SPF_MAINTENANCE_MODE_FAILED'' (spfControllerAddress d) ''SetMaintenanceMode'' No_Arg d"

definition set_dsstandby_lpmode :: "'e dish_env_scheme \<Rightarrow> dish \<Rightarrow> reply call \<times> dish" where
  "set_dsstandby_lpmode env d =
     forward_reply env ''SET_DS_STANDBY_LP_MODE_FAILED'' (dsManagerAddress d) ''SetStandbyLPMode'' No_Arg d"

definition set_dsstandby_fpmode :: "'e dish_env_scheme \<Rightarrow> dish \<Rightarrow> reply call \<times> dish" where
  "set_dsstandby_fpmode env d =
     forward_reply env ''SET_DS_STANDBY_FP_MODE_FAILED'' (dsManagerAddress d) ''SetStandbyFPMode'' No_Arg d"

definition set_dspoint_mode :: "'e dish_env_scheme \<Rightarrow> dish \<Rightarrow> reply call \<times> dish" where
  "set_dspoint_mode env d =
     forward_reply env ''SET_DS_POINT_MODE_FAILED'' (dsManagerAddress d) ''SetPointMode'' No_Arg d"

definition set_dsstow_mode :: "'e dish_env_scheme \<Rightarrow> dish \<Rightarrow> reply call \<times> dish" where
  "set_dsstow_mode env d =
     forward_reply env ''SET_DS_STOW_MODE_FAILED'' (dsManagerAddress d) ''Stow'' No_Arg d"

definition shorts_reply ::
    "'e dish_env_scheme \<Rightarrow> string \<Rightarrow> string \<Rightarrow> 16 word list \<Rightarrow> dish \<Rightarrow> reply call \<times> dish" where
  "shorts_reply env reason cmd argin d =
     (case argin of
        bandId # feed # _ \<Rightarrow>
          if \<not> in_bands 1 5 bandId then (Raises reason, d)
          else forward_reply env reason (spfControllerAddress d) cmd (Shorts_Arg [bandId, feed]) d
      | _ \<Rightarrow> (Raises reason, d))"

definition set_spffeed_mode :: "'e dish_env_scheme \<Rightarrow> 16 word list \<Rightarrow> dish \<Rightarrow> reply call \<times> dish" where
  "set_spffeed_mode env argin d = shorts_reply env ''SET_SPF_FEED_MODE_FAILED'' ''SetFeedMode'' argin d"

definition send_spffeed_command :: "'e dish_env_scheme \<Rightarrow> 16 word list \<Rightarrow> dish \<Rightarrow> unit call \<times> dish" where
  "send_spffeed_command env argin d =
     (case argin of
        bandId # feed # _ \<Rightarrow>
          if \<not> in_bands 1 5 bandId then (Raises ''SEND_SPF_FEED_COMMAND_FAILED'', d)
          else forward env (spfControllerAddress d) ''SendFeedCommand'' (Shorts_Arg [bandId, feed]) d
      | _ \<Rightarrow> (Raises ''SEND_SPF_FEED_COMMAND_FAILED'', d))"

subsection \<open>The receiver\<close>

definition rx_band_commands :: "string list" where
  "rx_band_commands =
     [''ConfigureBand1'', ''ConfigureBand2'', ''ConfigureBand3'', ''ConfigureBand4'', ''ConfigureBand5a'',
      ''ConfigureBand5b'']"

definition configure_rx_band :: "'e dish_env_scheme \<Rightarrow> 16 word \<Rightarrow> dish \<Rightarrow> unit call \<times> dish" where
  "configure_rx_band env bandId d =
     call_then (cmd_allowed ''configure_rx_band'' d) (\<lambda>_ d1.
       if \<not> in_bands 1 6 bandId then (Raises ''CONFIGURE_RX_BAND_FAILED'', d1)
       else forward env (rxControllerAddress d1) (rx_band_commands ! (nat (sint bandId) - 1)) No_Arg d1)"

definition configure_rx_band_async :: "'e dish_env_scheme \<Rightarrow> 16 word \<Rightarrow> dish \<Rightarrow> reply call \<times> dish" where
  "configure_rx_band_async env bandId d =
     call_then (cmd_allowed ''configure_rx_band_async'' d) (\<lambda>_ d1.
       if \<not> in_bands 1 6 bandId then (Raises ''CONFIGURE_RX_BAND_ASYNC_FAILED'', d1)
       else forward_reply env ''CONFIGURE_RX_BAND_ASYNC_FAILED'' (rxControllerAddress d1)
              ''ConfigureBandAsync'' (Scalar_Arg (VShort bandId)) d1)"

definition configure_rx_band_task :: "'e dish_env_scheme \<Rightarrow> string \<Rightarrow> dish \<Rightarrow> unit call \<times> dish" where
  "configure_rx_band_task env argin =
     with_task_data env ''CONFIGURE_RX_BAND_TASK_FAILED'' argin (\<lambda>td.
       with_value ''CONFIGURE_RX_BAND_TASK_FAILED'' TShort td (\<lambda>v. configure_rx_band env (short_of v)))"

definition configure_and_synchronise_rx_band ::
    "'e dish_env_scheme \<Rightarrow> 16 word \<Rightarrow> dish \<Rightarrow> unit call \<times> dish" where
  "configure_and_synchronise_rx_band env bandId d =
     call_then (cmd_allowed ''configure_and_synchronise_rx_band'' d) (\<lambda>_ d1.
       if \<not> in_bands 1 6 bandId then (Raises ''CONFIGURE_RX_BAND_FAILED'', d1)
       else
         call_then (forward env (rxControllerAddress d1) ''ConfigureBand'' (Scalar_Arg (VShort bandId)) d1)
           (\<lambda>_ d2. forward env (rxControllerAddress d2) ''Synchronise'' (Scalar_Arg (VShort bandId)) d2))"

definition capture :: "'e dish_env_scheme \<Rightarrow> bool \<Rightarrow> dish \<Rightarrow> unit call \<times> dish" where
  "capture env argin d =
     call_then (cmd_allowed ''capture'' d)
       (\<lambda>_ d1. forward env (rxControllerAddress d1) ''CaptureData'' (Scalar_Arg (VBool argin)) d1)"

definition start_capture :: "'e dish_env_scheme \<Rightarrow> dish \<Rightarrow> unit call \<times> dish" where
  "start_capture env d = call_then (cmd_allowed ''start_capture'' d) (\<lambda>_. capture env True)"

definition stop_capture :: "'e dish_env_scheme \<Rightarrow> dish \<Rightarrow> unit call \<times> dish" where
  "stop_capture env d = call_then (cmd_allowed ''stop_capture'' d) (\<lambda>_. capture env False)"

definition synchronise :: "'e dish_env_scheme \<Rightarrow> dish \<Rightarrow> unit call \<times> dish" where
  "synchronise env d =
     call_then (cmd_allowed ''synchronise'' d) (\<lambda>_ d1.
       if resolve_proxy env (rxControllerAddress d1) = None then (Raises ''SYNCHRONISE_FAILED'', d1)
       else forward env (rxControllerAddress d1) ''Synchronise'' No_Arg d1)"

subsection \<open>The indexer\<close>

definition set_indexer_position :: "'e dish_env_scheme \<Rightarrow> 16 word \<Rightarrow> dish \<Rightarrow> unit call \<times> dish" where
  "set_indexer_position env bandId d =
     (if \<not> in_bands 1 5 bandId then (Raises ''SET_INDEXER_POSITION_FAILED'', d)
      else if resolve_proxy env (dsManagerAddress d) = None then (Raises ''SET_INDEXER_POSITION_FAILED'', d)
      else forward env (dsManagerAddress d) ''SetIndexPosition'' (Scalar_Arg (VShort bandId)) d)"

definition set_indexer_position_task :: "'e dish_env_scheme \<Rightarrow> string \<Rightarrow> dish \<Rightarrow> unit call \<times> dish" where
  "set_indexer_position_task env argin =
     with_task_data env ''SET_INDEXER_POSITION_TASK_FAILED'' argin (\<lambda>td.
       with_value ''SET_INDEXER_POSITION_TASK_FAILED'' TShort td (\<lambda>v d1.
         if \<not> in_bands 1 5 (short_of v) then (Raises ''SET_INDEXER_POSITION_TASK_FAILED'', d1)
         else set_indexer_position env (short_of v) d1))"

subsection \<open>The feed package\<close>

text \<open>
  The map from bands to bands of the feed package, accessed with \<open>operator[]\<close>: a key that is not there
  is inserted with the value 0.
\<close>

definition spfBandIdMap :: "16 word \<Rightarrow> 16 word" where
  "spfBandIdMap w =
     (if w = 6 then 5 else if - 1 \<le> sint w \<and> sint w \<le> 5 then w else 0)"

definition is_supported :: "int \<Rightarrow> int list \<Rightarrow> bool" where
  "is_supported band unsupported_bands = (\<not> list_ex (\<lambda>u. u = band) unsupported_bands)"

definition nth_band_attr :: "16 word \<Rightarrow> string list \<Rightarrow> string list call" where
  "nth_band_attr bandIndex attr_names =
     (if 1 \<le> sint bandIndex \<and> sint bandIndex \<le> int (length attr_names)
      then Returns [attr_names ! nat (sint bandIndex - 1)] else Crashes)"

text \<open>Band 0 stands for the configured band, -1 for all bands.\<close>

definition SelectBandAttrsInCmd ::
    "16 word \<Rightarrow> string list \<Rightarrow> int list \<Rightarrow> dish \<Rightarrow> string list call" where
  "SelectBandAttrsInCmd bandId attr_names unsupported_bands d =
     (let reason = ''SELECT_BAND_ATTRS_IN_CMD_FAILED'' in
      if sint bandId < -1 \<or> 6 < sint bandId then Raises reason
      else if bandId = 0 then
        (case GetDynAttrValue TShort ''configuredBand'' d of
           Failing \<Rightarrow> Raises reason
         | Undefined_Access \<Rightarrow> Crashes
         | Got v \<Rightarrow>
             let activeBand = short_of v in
             if sint activeBand \<le> 0 \<or> 6 < sint activeBand then Raises reason
             else if \<not> is_supported (sint activeBand) unsupported_bands then Raises reason
             else nth_band_attr (spfBandIdMap activeBand) attr_names)
      else if bandId = -1 then
        (let selected =
           List.map (\<lambda>i. attr_names ! i)
             (filter (\<lambda>i. is_supported (int i + 1) unsupported_bands) [0 ..< length attr_names])
         in if selected = [] then Raises reason else Returns selected)
      else if \<not> is_supported (sint bandId) unsupported_bands then Raises reason
      else nth_band_attr (spfBandIdMap bandId) attr_names)"

definition lna_h_attrs :: "string list" where
  "lna_h_attrs =
     [''b1LnaHPowerState'', ''b2LnaHPowerState'', ''b3LnaHPowerState'', ''b4LnaHPowerState'', ''b5LnaHPowerState'']"

definition lna_v_attrs :: "string list" where
  "lna_v_attrs =
     [''b1LnaVPowerState'', ''b2LnaVPowerState'', ''b3LnaVPowerState'', ''b4LnaVPowerState'', ''b5LnaVPowerState'']"

text \<open>
  Both LNA commands: the band is mapped, the attributes of both polarisations are selected, with no
  unsupported band, and written. The range test after the map cannot fail.
\<close>

definition set_spflna_power ::
    "'e dish_env_scheme \<Rightarrow> string \<Rightarrow> bool \<Rightarrow> 16 word \<Rightarrow> dish \<Rightarrow> unit call \<times> dish" where
  "set_spflna_power env reason lna_power argin d =
     (let bandId = spfBandIdMap argin in
      if sint bandId < -1 \<or> 6 < sint bandId then (Raises reason, d)
      else
        call_then (SelectBandAttrsInCmd bandId lna_h_attrs [] d, d) (\<lambda>hs d1.
        call_then (SelectBandAttrsInCmd bandId lna_v_attrs [] d1, d1) (\<lambda>vs d2.
          WriteSEAttrs env (spfControllerAddress d2) (hs @ vs) (VBool lna_power) d2)))"

definition set_spflna_power_off :: "'e dish_env_scheme \<Rightarrow> 16 word \<Rightarrow> dish \<Rightarrow> unit call \<times> dish" where
  "set_spflna_power_off env = set_spflna_power env ''SET_SPF_LNA_POWER_OFF_FAILED'' False"

definition set_spflna_power_on :: "'e dish_env_scheme \<Rightarrow> 16 word \<Rightarrow> dish \<Rightarrow> unit call \<times> dish" where
  "set_spflna_power_on env = set_spflna_power env ''SET_SPF_LNA_POWER_ON_FAILED'' True"

definition set_spflna_power_on_task :: "'e dish_env_scheme \<Rightarrow> string \<Rightarrow> dish \<Rightarrow> unit call \<times> dish" where
  "set_spflna_power_on_task env argin =
     with_task_data env ''SET_SPF_LNA_POWER_ON_TASK_FAILED'' argin (\<lambda>td.
       with_value ''SET_SPF_LNA_POWER_ON_TASK_FAILED'' TShort td (\<lambda>v d1.
         let bandId = spfBandIdMap (short_of v) in
         if sint bandId < -1 \<or> 6 < sint bandId then (Raises ''SET_SPF_LNA_POWER_ON_TASK_FAILED'', d1)
         else set_spflna_power_on env bandId d1))"

definition set_spfband_in_focus :: "'e dish_env_scheme \<Rightarrow> 16 word \<Rightarrow> dish \<Rightarrow> unit call \<times> dish" where
  "set_spfband_in_focus env bandId d =
     (if \<not> in_bands 1 5 bandId then (Raises ''SET_SPF_BANDINFOCUS_FAILED'', d)
      else WriteSEAttrs env (spfControllerAddress d) [''bandInFocus''] (VShort bandId) d)"

text \<open>Here the presence of a value is left to \<open>GetData\<close>.\<close>

definition set_spfband_in_focus_task :: "'e dish_env_scheme \<Rightarrow> string \<Rightarrow> dish \<Rightarrow> unit call \<times> dish" where
  "set_spfband_in_focus_task env argin =
     with_task_data env ''SET_SPF_BANDINFOCUS_TASK_FAILED'' argin (\<lambda>td d1.
       call_then (or_raise ''SET_SPF_BANDINFOCUS_TASK_FAILED'' (GetData TShort td), d1)
         (\<lambda>v. set_spfband_in_focus env (short_of v)))"

subsection \<open>Task commands that only call another command\<close>

definition set_rx_standby_lpmode_task :: "'e dish_env_scheme \<Rightarrow> string \<Rightarrow> dish \<Rightarrow> unit call \<times> dish" where
  "set_rx_standby_lpmode_task env argin =
     with_task_data env ''SET_RX_STANDBY_LP_MODE_TASK_FAILED'' argin (\<lambda>_ d1. set_rx_standby_lpmode env d1)"

definition set_rx_standby_fpmode_task :: "'e dish_env_scheme \<Rightarrow> string \<Rightarrow> dish \<Rightarrow> unit call \<times> dish" where
  "set_rx_standby_fpmode_task env argin =
     with_task_data env ''SET_RX_STANDBY_FP_MODE_TASK_FAILED'' argin (\<lambda>_ d1. set_rx_standby_fpmode env d1)"

definition set_rx_maintenance_mode_task :: "'e dish_env_scheme \<Rightarrow> string \<Rightarrow> dish \<Rightarrow> unit call \<times> dish" where
  "set_rx_maintenance_mode_task env argin =
     with_task_data env ''SET_RX_MAINTENANCE_MODE_TASK_FAILED'' argin (\<lambda>_ d1. set_rx_maintenance_mode env d1)"

definition start_rx_capture_task :: "'e dish_env_scheme \<Rightarrow> string \<Rightarrow> dish \<Rightarrow> unit call \<times> dish" where
  "start_rx_capture_task env argin =
     with_task_data env ''START_RX_CAPTURE_TASK_FAILED'' argin (\<lambda>_ d1. start_capture env d1)"

definition synchronise_rx_band_task :: "'e dish_env_scheme \<Rightarrow> string \<Rightarrow> dish \<Rightarrow> unit call \<times> dish" where
  "synchronise_rx_band_task env argin =
     with_task_data env ''SYNCHRONISE_RX_BAND_FAILED'' argin (\<lambda>_ d1. synchronise env d1)"

definition shutdown_rxputask :: "'e dish_env_scheme \<Rightarrow> string \<Rightarrow> dish \<Rightarrow> unit call \<times> dish" where
  "shutdown_rxputask env argin =
     with_task_data env ''SHUTDOWN_RXPU_TASK_FAILED'' argin (\<lambda>_ d1. shutdown_rxpu env d1)"

definition power_off_rxputask :: "'e dish_env_scheme \<Rightarrow> string \<Rightarrow> dish \<Rightarrow> unit call \<times> dish" where
  "power_off_rxputask env argin =
     with_task_data env ''POWER_OFF_RXPU_TASK_FAILED'' argin (\<lambda>_ d1. power_off_rxpu env d1)"

definition power_on_rxputask :: "'e dish_env_scheme \<Rightarrow> string \<Rightarrow> dish \<Rightarrow> unit call \<times> dish" where
  "power_on_rxputask env argin =
     with_task_data env ''POWER_ON_RXPU_TASK_FAILED'' argin (\<lambda>_ d1. power_on_rxpu env d1)"

definition set_spfstandby_lpmode_task :: "'e dish_env_scheme \<Rightarrow> string \<Rightarrow> dish \<Rightarrow> unit call \<times> dish" where
  "set_spfstandby_lpmode_task env argin =
     with_task_data env ''SET_SPF_STANDBY_LP_MODE_TASK_FAILED'' argin (\<lambda>_ d1. without_reply (set_spfstandby_lpmode env d1))"

definition set_spfoperate_mode_task :: "'e dish_env_scheme \<Rightarrow> string \<Rightarrow> dish \<Rightarrow> unit call \<times> dish" where
  "set_spfoperate_mode_task env argin =
     with_task_data env ''SET_SPF_OPERATE_MODE_TASK_FAILED'' argin (\<lambda>_ d1. without_reply (set_spfoperate_mode env d1))"

definition set_spfmaintenance_mode_task :: "'e dish_env_scheme \<Rightarrow> string \<Rightarrow> dish \<Rightarrow> unit call \<times> dish" where
  "set_spfmaintenance_mode_task env argin =
     with_task_data env ''SET_SPF_MAINTENANCE_MODE_TASK_FAILED'' argin (\<lambda>_ d1. without_reply (set_spfmaintenance_mode env d1))"

definition shutdown_spfctask :: "'e dish_env_scheme \<Rightarrow> string \<Rightarrow> dish \<Rightarrow> unit call \<times> dish" where
  "shutdown_spfctask env argin =
     with_task_data env ''SHUTDOWN_SPFC_TASK_FAILED'' argin (\<lambda>_ d1. shutdown_spfc env d1)"

definition power_off_spfctask :: "'e dish_env_scheme \<Rightarrow> string \<Rightarrow> dish \<Rightarrow> unit call \<times> dish" where
  "power_off_spfctask env argin =
     with_task_data env ''POWER_OFF_SPFC_TASK_FAILED'' argin (\<lambda>_ d1. power_off_spfc env d1)"

definition power_on_spfctask :: "'e dish_env_scheme \<Rightarrow> string \<Rightarrow> dish \<Rightarrow> unit call \<times> dish" where
  "power_on_spfctask env argin =
     with_task_data env ''POWER_ON_SPFC_TASK_FAILED'' argin (\<lambda>_ d1. power_on_spfc env d1)"

definition set_dsstandby_lpmode_task :: "'e dish_env_scheme \<Rightarrow> string \<Rightarrow> dish \<Rightarrow> unit call \<times> dish" where
  "set_dsstandby_lpmode_task env argin =
     with_task_data env ''SET_DS_STANDBY_LP_MODE_TASK_FAILED'' argin (\<lambda>_ d1. without_reply (set_dsstandby_lpmode env d1))"

definition set_dsstandby_fpmode_task :: "'e dish_env_scheme \<Rightarrow> string \<Rightarrow> dish \<Rightarrow> unit call \<times> dish" where
  "set_dsstandby_fpmode_task env argin =
     with_task_data env ''SET_DS_STANDBY_FP_MODE_TASK_FAILED'' argin (\<lambda>_ d1. without_reply (set_dsstandby_fpmode env d1))"

definition set_dspoint_mode_task :: "'e dish_env_scheme \<Rightarrow> string \<Rightarrow> dish \<Rightarrow> unit call \<times> dish" where
  "set_dspoint_mode_task env argin =
     with_task_data env ''SET_DS_POINT_MODE_TASK_FAILED'' argin (\<lambda>_ d1. without_reply (set_dspoint_mode env d1))"

definition set_dsstow_mode_task :: "'e dish_env_scheme \<Rightarrow> string \<Rightarrow> dish \<Rightarrow> unit call \<times> dish" where
  "set_dsstow_mode_task env argin =
     with_task_data env ''SET_DS_STOW_MODE_TASK_FAILED'' argin (\<lambda>_ d1. without_reply (set_dsstow_mode env d1))"

definition set_dsmaintenance_mode_task :: "'e dish_env_scheme \<Rightarrow> string \<Rightarrow> dish \<Rightarrow> unit call \<times> dish" where
  "set_dsmaintenance_mode_task env argin =
     with_task_data env ''SET_DS_MAINTENANCE_MODE_TASK_FAILED'' argin (\<lambda>_ d1. set_dsmaintenance_mode env d1)"

end
