(* ===== verification/DishModes.thy ===== *)
theory DishModes
  imports DishForward
begin

text \<open>
  The mode commands of \<open>DishManager\<close> (\<open>SetStandbyLPMode\<close>, \<open>SetStandbyFPMode\<close>, \<open>SetOperateMode\<close>,
  \<open>SetMaintenanceMode\<close>, \<open>SetStowMode\<close>): each queues a sequence of three tasks, one for each controller,
  unless the dish is in the mode already or the progress attribute says that the command is ongoing.
  The five functions have the same steps; they are written once, over what differs. The rules that
  \<open>InitCmdAttrStateMachine\<close> registers guard the commands through \<open>is_..._allowed\<close>
  (\<open>DishManagerStateMachine.cpp\<close>).
\<close>

subsection \<open>Rules\<close>

definition dish_mode_rules :: "(string \<times> string list) list" where
  "dish_mode_rules =
     [(''SetMaintenanceMode'', [''STANDBY-LP'', ''STANDBY-FP'', ''MAINTENANCE'']),
      (''SetStandbyFPMode'', [''STANDBY-LP'', ''STANDBY-FP'', ''MAINTENANCE'', ''OPERATE'', ''STOW'']),
      (''SetOperateMode'', [''STANDBY-FP'', ''OPERATE'']),
      (''Synchronise'', [''OPERATE'']),
      (''Capture'', [''OPERATE'']),
      (''ConfigureBand1'', [''STANDBY-FP'', ''OPERATE'', ''STOW'']),
      (''ConfigureBand2'', [''STANDBY-FP'', ''OPERATE'', ''STOW'']),
      (''ConfigureBand3'', [''STANDBY-FP'', ''OPERATE'', ''STOW'']),
      (''ConfigureBand4'', [''STANDBY-FP'', ''OPERATE'', ''STOW'']),
      (''ConfigureBand5a'', [''STANDBY-FP'', ''OPERATE'', ''STOW'']),
      (''ConfigureBand5b'', [''STANDBY-FP'', ''OPERATE'', ''STOW'']),
      (''Track'', [''OPERATE'']),
      (''Slew'', [''OPERATE'']),
      (''Scan'', [''OPERATE''])]"

definition dish_write_rules :: "string list" where
  "dish_write_rules =
     [''dishMode'', ''healthState'', ''setStowModeProgress'', ''setStandbyLPModeProgress'',
      ''setStandbyFPModeProgress'', ''setMaintenanceModeProgress'', ''setOperateModeProgress'',
      ''configureBandProgress'', ''setStowModeProgressStatus'', ''setStandbyLPModeProgressStatus'',
      ''setStandbyFPModeProgressStatus'', ''setMaintenanceModeProgressStatus'',
      ''setOperateModeProgressStatus'', ''configureBandProgressStatus'']"

definition DishManager_InitCmdAttrStateMachine ::
    "'z lmc_device_scheme \<Rightarrow> 'z lmc_device_scheme option" where
  "DishManager_InitCmdAttrStateMachine d0 =
     (let d1 = fold (\<lambda>x. ignoring
                 (AddCmdRule TString (fst x) ''dishMode'' (List.map VString (snd x)) True))
                 dish_mode_rules (Some d0)
      in fold (\<lambda>attr. ignoring (AddAttrWriteRule TBool attr ''testMode'' [VBool True] True))
           dish_write_rules d1)"

subsection \<open>The progress attribute of a sequence\<close>

definition taskSequence_progress_ongoing :: "string list" where
  "taskSequence_progress_ongoing = [''INIT'', ''IDLE'', ''RUNNING'']"

definition progress_ongoing :: "string \<Rightarrow> string \<Rightarrow> dish \<Rightarrow> bool call \<times> dish" where
  "progress_ongoing reason attr_name d =
     call_then (or_raise reason (GetDynAttrValue_spectrum TString attr_name d), d) (\<lambda>taskProgress d1.
       if length taskProgress < 2 then (Raises reason, d1)
       else (Returns (string_of (taskProgress ! 0) \<in> set taskSequence_progress_ongoing), d1))"

definition set_progress ::
    "'e dish_env_scheme \<Rightarrow> string \<Rightarrow> string \<Rightarrow> string list \<Rightarrow> dish \<Rightarrow> unit call \<times> dish" where
  "set_progress env reason attr_name msg d =
     (case SetDynAttrValue_strings (env_wlist_ok env) msg attr_name d of
        (r, d1) \<Rightarrow> (or_raise reason r, d1))"

subsection \<open>Tasks\<close>

definition synch_task :: "string \<Rightarrow> int \<Rightarrow> task_spec" where
  "synch_task name timeout =
     \<lparr>ts_name = name, ts_duration = MaxDuration (timeout * 1000), ts_argin = None, ts_asynch = None\<rparr>"

definition asynch_task :: "string \<Rightarrow> int \<Rightarrow> string \<Rightarrow> task_spec" where
  "asynch_task name timeout attr_name =
     \<lparr>ts_name = name, ts_duration = MaxDuration (timeout * 1000), ts_argin = None, ts_asynch = Some attr_name\<rparr>"

definition short_argin :: "'e dish_env_scheme \<Rightarrow> 16 word \<Rightarrow> (string \<times> int \<times> int) option" where
  "short_argin env w = Some (env_any env (VShort w), code_SHORT, fmt_SCALAR)"

definition delayed_task :: "string \<Rightarrow> int \<Rightarrow> int \<Rightarrow> task_spec" where
  "delayed_task name delay timeout =
     \<lparr>ts_name = name, ts_duration = DelayAndDuration (delay * 1000) (timeout * 1000), ts_argin = None,
      ts_asynch = None\<rparr>"

subsection \<open>The mode commands\<close>

record mode_spec =
  mc_function :: string
  mc_reason :: string
  mc_mode_reason :: string \<comment> \<open>when \<open>dishMode\<close> cannot be read\<close>
  mc_mode :: string
  mc_sequence :: string
  mc_progress :: string
  mc_started :: string
  mc_completed :: string
  mc_scheduled :: string

definition schedule_sequence ::
    "'e dish_env_scheme \<Rightarrow> string \<Rightarrow> int \<Rightarrow> task_spec list \<Rightarrow> string \<Rightarrow> string \<Rightarrow> string \<Rightarrow> dish
     \<Rightarrow> unit call \<times> dish" where
  "schedule_sequence env reason prio tss name progress started d =
     call_then (build_sequence env reason prio tss name (Some progress) d) (\<lambda>sp d1.
     call_then (queue_sequence reason sp d1) (\<lambda>_ d2.
       set_progress env reason progress [''IDLE'', started] d2))"

definition mode_command ::
    "'e dish_env_scheme \<Rightarrow> mode_spec \<Rightarrow> (dish \<Rightarrow> unit call) \<Rightarrow> (dish \<Rightarrow> task_spec list) \<Rightarrow> dish
     \<Rightarrow> reply call \<times> dish" where
  "mode_command env c guard tss d =
     call_then (cmd_allowed (mc_function c) d) (\<lambda>_ d1.
     call_then (progress_ongoing (mc_reason c) (mc_progress c) d1) (\<lambda>isTaskRunning d2.
       if isTaskRunning then (Raises (mc_reason c), d2)
       else
         call_then (guard d2, d2) (\<lambda>_ d3.
         call_then (or_raise (mc_mode_reason c) (GetDynAttrValue TShort ''dishMode'' d3), d3) (\<lambda>mode_current d4.
           if enum_value ''dishMode'' (mc_mode c) d4 = short_of mode_current then
             call_then (set_progress env (mc_reason c) (mc_progress c) [''COMPLETED'', mc_completed c] d4)
               (\<lambda>_ d5. (Returns ([mc_completed c], [0]), d5))
           else
             call_then (schedule_sequence env (mc_reason c) eMEDIUM_PRIORITY (tss d4) (mc_sequence c)
                         (mc_progress c) (mc_started c) d4)
               (\<lambda>_ d5. (Returns ([mc_scheduled c], [1]), d5))))))"

definition lp_spec :: mode_spec where
  "lp_spec =
     \<lparr>mc_function = ''set_standby_lpmode'', mc_reason = ''SET_STANDBY_LP_MODE_FAILED'',
      mc_mode_reason = ''SET_STANDBY_LP_MODE_FAILED'', mc_mode = ''STANDBY-LP'',
      mc_sequence = ''SetStandbyLPMode'', mc_progress = ''setStandbyLPModeProgress'',
      mc_started = ''Set dish to STANDBY-LP mode scheduled'',
      mc_completed = ''Dish is already in STANDBY-LP mode'',
      mc_scheduled = ''Set STANDBY-LP mode task scheduled''\<rparr>"

definition lp_tasks :: "dish \<Rightarrow> task_spec list" where
  "lp_tasks d =
     [asynch_task ''SetSPFStandbyLPModeTask'' (defaultTaskTimeout d) ''spfSetStandbyLPModeProgress'',
      asynch_task ''SetDSStandbyLPModeTask'' (defaultTaskTimeout d) ''dsSetStandbyLPModeProgress'',
      synch_task ''SetRxStandbyLPModeTask'' (defaultTaskTimeout d)]"

definition dish_set_standby_lpmode :: "'e dish_env_scheme \<Rightarrow> dish \<Rightarrow> reply call \<times> dish" where
  "dish_set_standby_lpmode env = mode_command env lp_spec (\<lambda>_. Returns ()) lp_tasks"

definition fp_spec :: mode_spec where
  "fp_spec =
     \<lparr>mc_function = ''set_standby_fpmode'', mc_reason = ''SET_STANDBY_FP_MODE_FAILED'',
      mc_mode_reason = ''SET_STANDBY_LP_MODE_FAILED'', mc_mode = ''STANDBY-FP'',
      mc_sequence = ''SetStandbyFPMode'', mc_progress = ''setStandbyFPModeProgress'',
      mc_started = ''Set dish to STANDBY-FP mode scheduled'',
      mc_completed = ''Dish is already in STANDBY-FP mode'',
      mc_scheduled = ''Set STANDBY-FP mode task scheduled''\<rparr>"

definition fp_tasks :: "dish \<Rightarrow> task_spec list" where
  "fp_tasks d =
     [asynch_task ''SetSPFOperateModeTask'' (defaultTaskTimeout d) ''spfSetOperateModeProgress'',
      asynch_task ''SetDSStandbyFPModeTask'' (defaultTaskTimeout d) ''dsSetStandbyFPModeProgress'',
      synch_task ''SetRxStandbyFPModeTask'' (defaultTaskTimeout d)]"

definition dish_set_standby_fpmode :: "'e dish_env_scheme \<Rightarrow> dish \<Rightarrow> reply call \<times> dish" where
  "dish_set_standby_fpmode env = mode_command env fp_spec (\<lambda>_. Returns ()) fp_tasks"

definition operate_spec :: mode_spec where
  "operate_spec =
     \<lparr>mc_function = ''set_operate_mode'', mc_reason = ''SET_OPERATE_MODE_FAILED'',
      mc_mode_reason = ''SET_OPERATE_MODE_FAILED'', mc_mode = ''OPERATE'',
      mc_sequence = ''SetOperateMode'', mc_progress = ''setOperateModeProgress'',
      mc_started = ''Set dish to OPERATE mode scheduled'',
      mc_completed = ''Dish is already in OPERATE mode'',
      mc_scheduled = ''Set OPERATE mode task scheduled''\<rparr>"

definition band_labels :: "string list" where
  "band_labels = [''B1'', ''B2'', ''B3'', ''B4'', ''B5a'', ''B5b'']"

definition has_configured_band :: "dish \<Rightarrow> unit call" where
  "has_configured_band d =
     (case GetDynAttrValue TShort ''configuredBand'' d of
        Failing \<Rightarrow> Raises ''SET_OPERATE_MODE_FAILED''
      | Undefined_Access \<Rightarrow> Crashes
      | Got v \<Rightarrow>
          if label_string ''configuredBand'' (short_of v) d \<in> set band_labels then Returns ()
          else Raises ''SET_OPERATE_MODE_FAILED'')"

definition operate_tasks :: "'e dish_env_scheme \<Rightarrow> dish \<Rightarrow> task_spec list" where
  "operate_tasks env d =
     [synch_task ''StartRxCaptureTask'' (defaultTaskTimeout d),
      asynch_task ''SetDSPointModeTask'' (defaultTaskTimeout d) ''dsSetPointModeProgress'',
      (synch_task ''SetSPFLnaPowerOnTask'' (defaultTaskTimeout d))\<lparr>ts_argin := short_argin env 0\<rparr>]"

definition set_operate_mode :: "'e dish_env_scheme \<Rightarrow> dish \<Rightarrow> reply call \<times> dish" where
  "set_operate_mode env = mode_command env operate_spec has_configured_band (operate_tasks env)"

definition maintenance_spec :: mode_spec where
  "maintenance_spec =
     \<lparr>mc_function = ''set_maintenance_mode'', mc_reason = ''SET_MAINTENANCE_MODE_FAILED'',
      mc_mode_reason = ''SET_MAINTENANCE_MODE_FAILED'', mc_mode = ''MAINTENANCE'',
      mc_sequence = ''SetMaintenanceMode'', mc_progress = ''setMaintenanceModeProgress'',
      mc_started = ''Set dish to MAINTENANCE mode scheduled'',
      mc_completed = ''Dish is already in MAINTENANCE mode'',
      mc_scheduled = ''Set MAINTENANCE mode task scheduled''\<rparr>"

definition maintenance_tasks :: "dish \<Rightarrow> task_spec list" where
  "maintenance_tasks d =
     [synch_task ''SetRxMaintenanceModeTask'' (defaultTaskTimeout d),
      synch_task ''SetDSMaintenanceModeTask'' (defaultTaskTimeout d),
      asynch_task ''SetSPFMaintenanceModeTask'' (defaultTaskTimeout d) ''spfSetMaintenanceModeProgress'']"

definition dish_set_maintenance_mode :: "'e dish_env_scheme \<Rightarrow> dish \<Rightarrow> reply call \<times> dish" where
  "dish_set_maintenance_mode env = mode_command env maintenance_spec (\<lambda>_. Returns ()) maintenance_tasks"

definition stow_spec :: mode_spec where
  "stow_spec =
     \<lparr>mc_function = ''set_stow_mode'', mc_reason = ''SET_STOW_MODE_FAILED'',
      mc_mode_reason = ''SET_STOW_MODE_FAILED'', mc_mode = ''STOW'',
      mc_sequence = ''SetStowMode'', mc_progress = ''setStowModeProgress'',
      mc_started = ''Set dish to STOW mode scheduled'',
      mc_completed = ''Dish is already in STOW mode'',
      mc_scheduled = ''Set STOW mode task scheduled''\<rparr>"

definition stow_tasks :: "dish \<Rightarrow> task_spec list" where
  "stow_tasks d =
     [synch_task ''SetRxStandbyLPModeTask'' (defaultTaskTimeout d),
      asynch_task ''SetDSStowModeTask'' (defaultTaskTimeout d) ''dsStowProgress'',
      asynch_task ''SetSPFStandbyLPModeTask'' (defaultTaskTimeout d) ''spfSetStandbyLPModeProgress'']"

definition set_stow_mode :: "'e dish_env_scheme \<Rightarrow> dish \<Rightarrow> reply call \<times> dish" where
  "set_stow_mode env = mode_command env stow_spec (\<lambda>_. Returns ()) stow_tasks"


text \<open>
  \<open>DishManager::ConfigureBand\<close> and the commands \<open>ConfigureBand1\<close> to \<open>ConfigureBand5b\<close>: the band must be
  available, no configuration may be ongoing, and a sequence of five tasks is queued in which the
  receiver is synchronised after it is configured and the feed package is switched after the indexer
  has moved. \<open>SetSPFOperational\<close> queues two tasks, the second after the first.
\<close>

definition capability_attrs :: "string list" where
  "capability_attrs =
     [''b1CapabilityState'', ''b2CapabilityState'', ''b3CapabilityState'', ''b4CapabilityState'',
      ''b5aCapabilityState'', ''b5bCapabilityState'']"

text \<open>\<open>Failing\<close> is the result -1.\<close>

definition IsBandCapabilityAvailable :: "16 word \<Rightarrow> dish \<Rightarrow> bool access" where
  "IsBandCapabilityAvailable bandId d =
     (if \<not> in_bands 1 6 bandId then Failing
      else
        (let cap_attr = capability_attrs ! (nat (sint bandId) - 1) in
         case GetDynAttrValue TShort cap_attr d of
           Failing \<Rightarrow> Failing
         | Undefined_Access \<Rightarrow> Undefined_Access
         | Got v \<Rightarrow>
             (case GetEnumAttrLabelValue cap_attr (short_of v) d of
                None \<Rightarrow> Failing
              | Some label \<Rightarrow> Got (label \<notin> {''UNAVAILABLE'', ''UNKNOWN''}))))"

text \<open>The maps from bands to those of the controllers, for a band in range.\<close>

definition shared_band :: "16 word \<Rightarrow> 16 word" where
  "shared_band bandId = (if bandId = 6 then 5 else bandId)"

definition band_tasks :: "'e dish_env_scheme \<Rightarrow> 16 word \<Rightarrow> dish \<Rightarrow> task_spec list" where
  "band_tasks env bandId d =
     [(synch_task ''ConfigureRxBandTask'' (configureTaskTimeout d))\<lparr>ts_argin := short_argin env bandId\<rparr>,
      synch_task ''SynchroniseRxBandTask'' (defaultTaskTimeout d),
      (asynch_task ''SetIndexerPositionTask'' (configureTaskTimeout d) ''dsIndexingProgress'')
        \<lparr>ts_argin := short_argin env (shared_band bandId)\<rparr>,
      (synch_task ''SetSPFLnaPowerOnTask'' (defaultTaskTimeout d))
        \<lparr>ts_argin := short_argin env (shared_band bandId)\<rparr>,
      (synch_task ''SetSPFBandInFocusTask'' (defaultTaskTimeout d))
        \<lparr>ts_argin := short_argin env (shared_band bandId)\<rparr>]"

definition band_matrix :: dep_matrix where
  "band_matrix = [[], [0], [], [2], [2]]"

definition store_requested_band :: "'e dish_env_scheme \<Rightarrow> 16 word \<Rightarrow> dish \<Rightarrow> unit call \<times> dish" where
  "store_requested_band env bandId d =
     (let label = band_labels ! (nat (sint bandId) - 1);
          requestedBand = enum_value ''requestedBand'' label d
      in case SetDynAttrValue (env_w_ok env) (VShort requestedBand) ''requestedBand'' d of
           (Got _, d1) \<Rightarrow> (Returns (), d1)
         | (Failing, d1) \<Rightarrow> (Raises ''CONFIGURE_BAND_FAILED'', d1\<lparr>dish_fault := True\<rparr>)
         | (Undefined_Access, d1) \<Rightarrow> (Crashes, d1))"

text \<open>Here the progress attribute is read without a test of its size.\<close>

definition band_ongoing :: "dish \<Rightarrow> bool call \<times> dish" where
  "band_ongoing d =
     call_then (or_raise ''CONFIGURE_BAND_FAILED''
                 (GetDynAttrValue_spectrum TString ''configureBandProgress'' d), d)
       (\<lambda>taskProgress d1.
          (case taskProgress of
             [] \<Rightarrow> Crashes
           | s # _ \<Rightarrow> Returns (string_of s \<in> set taskSequence_progress_ongoing), d1))"

definition ConfigureBand ::
    "'e dish_env_scheme \<Rightarrow> 16 word \<Rightarrow> string \<Rightarrow> dish \<Rightarrow> int call \<times> dish" where
  "ConfigureBand env bandId activation_timestamp d =
     (let reason = ''CONFIGURE_BAND_FAILED''; progress = ''configureBandProgress'' in
      if \<not> in_bands 1 6 bandId then (Raises reason, d)
      else
        call_then (or_raise reason (GetDynAttrValue TShort ''configuredBand'' d), d) (\<lambda>_ d1.
        call_then (or_raise reason (IsBandCapabilityAvailable bandId d1), d1) (\<lambda>isAvailable d2.
          if \<not> isAvailable then (Raises reason, d2)
          else
            call_then (band_ongoing d2) (\<lambda>isTaskRunning d3.
              if isTaskRunning then (Raises reason, d3)
              else
                call_then (build_sequence env reason eMEDIUM_PRIORITY (band_tasks env bandId d3)
                            ''ConfigureBand'' (Some progress) d3) (\<lambda>sp d4.
                call_then (set_dependency env 6 reason band_matrix sp d4) (\<lambda>_ d5.
                call_then (queue_sequence reason sp d5) (\<lambda>_ d6.
                call_then (set_progress env reason progress
                            [''IDLE'', ''Dish configuration for band '' @ show_nat (nat (sint bandId)) @
                             '' scheduled''] d6) (\<lambda>_ d7.
                call_then (store_requested_band env bandId d7) (\<lambda>_ d8. (Returns 0, d8))))))))))"

definition configure_band1 :: "'e dish_env_scheme \<Rightarrow> string \<Rightarrow> dish \<Rightarrow> unit call \<times> dish" where
  "configure_band1 env argin d = without_reply (ConfigureBand env 1 argin d)"

definition configure_band2 :: "'e dish_env_scheme \<Rightarrow> string \<Rightarrow> dish \<Rightarrow> unit call \<times> dish" where
  "configure_band2 env argin d = without_reply (ConfigureBand env 2 argin d)"

definition configure_band3 :: "'e dish_env_scheme \<Rightarrow> string \<Rightarrow> dish \<Rightarrow> unit call \<times> dish" where
  "configure_band3 env argin d = without_reply (ConfigureBand env 3 argin d)"

definition configure_band4 :: "'e dish_env_scheme \<Rightarrow> string \<Rightarrow> dish \<Rightarrow> unit call \<times> dish" where
  "configure_band4 env argin d = without_reply (ConfigureBand env 4 argin d)"

definition configure_band5a :: "'e dish_env_scheme \<Rightarrow> string \<Rightarrow> dish \<Rightarrow> unit call \<times> dish" where
  "configure_band5a env argin d = without_reply (ConfigureBand env 5 argin d)"

definition configure_band5b :: "'e dish_env_scheme \<Rightarrow> string \<Rightarrow> dish \<Rightarrow> unit call \<times> dish" where
  "configure_band5b env argin d = without_reply (ConfigureBand env 6 argin d)"

subsection \<open>The feed package made operational\<close>

definition spf_operational_tasks :: "'e dish_env_scheme \<Rightarrow> 16 word \<Rightarrow> dish \<Rightarrow> task_spec list" where
  "spf_operational_tasks env argin d =
     [asynch_task ''SetSPFOperateModeTask'' (operateTaskTimeout d) ''spfSetOperateModeProgress'',
      (synch_task ''SetSPFLnaPowerOnTask'' (defaultTaskTimeout d))\<lparr>ts_argin := short_argin env argin\<rparr>]"

definition set_spfoperational :: "'e dish_env_scheme \<Rightarrow> 16 word \<Rightarrow> dish \<Rightarrow> reply call \<times> dish" where
  "set_spfoperational env argin d =
     (let reason = ''SET_SPF_OPERATIONAL_FAILED'' in
      if \<not> in_bands (-1) 5 argin then (Raises reason, d)
      else
        call_then (build_sequence env reason eMEDIUM_PRIORITY (spf_operational_tasks env argin d)
                    ''SetSPFOperational'' (Some ''spfGoOperationalProgress'') d) (\<lambda>sp d1.
        call_then (set_dependency env 3 reason [[], [0]] sp d1) (\<lambda>_ d2.
        call_then (queue_sequence reason sp d2) (\<lambda>_ d3.
          (Returns ([''Set SPF operational task scheduled''], [1]), d3)))))"

end
