(* ===== verification/DishEvents.thy ===== *)
theory DishEvents
  imports DishModes
begin

text \<open>
  The event handlers of \<open>DishManager\<close>: emergency stop, power cut and restore, the indexer in a new
  position, a band error, the loss of the telescope manager; and the commands that reset the tasks.
  A handler that is disabled, or whose event asks for nothing, returns.
\<close>

subsection \<open>Shared steps\<close>

definition handler_enabled :: "string \<Rightarrow> string \<Rightarrow> dish \<Rightarrow> bool call \<times> dish" where
  "handler_enabled reason attr_name d =
     call_then (or_raise reason (GetDynAttrValue TBool attr_name d), d) (\<lambda>v d1. (Returns (bool_of v), d1))"

text \<open>The label of an enumerated attribute.\<close>

definition enum_label :: "string \<Rightarrow> string \<Rightarrow> dish \<Rightarrow> string call \<times> dish" where
  "enum_label reason attr_name d =
     call_then (or_raise reason (GetDynAttrValue TShort attr_name d), d) (\<lambda>v d1.
       (case GetEnumAttrLabelValue attr_name (short_of v) d1 of
          None \<Rightarrow> Raises reason
        | Some label \<Rightarrow> Returns label, d1))"

text \<open>A \<open>catch\<close> that sets the progress attribute, whatever comes of it, and throws on.\<close>

definition aborting ::
    "'e dish_env_scheme \<Rightarrow> string \<Rightarrow> string list \<Rightarrow> unit call \<times> dish \<Rightarrow> unit call \<times> dish" where
  "aborting env attr_name msg r =
     (case r of
        (Returns u, d) \<Rightarrow> (Returns u, d)
      | (Crashes, d) \<Rightarrow> (Crashes, d)
      | (e, d) \<Rightarrow>
          (case SetDynAttrValue_strings (env_wlist_ok env) msg attr_name d of
             (Undefined_Access, d1) \<Rightarrow> (Crashes, d1)
           | (_, d1) \<Rightarrow> (e, d1)))"

subsection \<open>Emergency stop\<close>

definition estop_tasks :: "dish \<Rightarrow> task_spec list" where
  "estop_tasks d =
     [asynch_task ''SetSPFOperateModeTask'' (defaultTaskTimeout d) ''spfSetOperateModeProgress'',
      synch_task ''SetRxStandbyFPModeTask'' (defaultTaskTimeout d)]"

definition estop_action :: "'e dish_env_scheme \<Rightarrow> dish \<Rightarrow> unit call \<times> dish" where
  "estop_action env d =
     (let reason = ''HANDLE_ESTOP_EVENT_FAILED''; progress = ''setStandbyFPOnESTOPProgress'' in
      call_then (enum_label reason ''dishMode'' d) (\<lambda>dishMode d1.
        if dishMode \<notin> {''CONFIG'', ''OPERATE''} then (Returns (), d1)
        else if dishMode = ''STANDBY-FP'' then
          set_progress env reason progress [''COMPLETED'', ''Dish is already in STANDBY-FP mode''] d1
        else
          call_then (progress_ongoing reason progress d1) (\<lambda>isTaskRunning d2.
            if isTaskRunning then (Returns (), d2)
            else
              call_then (build_sequence env reason eHIGH_PRIORITY (estop_tasks d2) ''HandleESTOPEvent''
                          (Some progress) d2) (\<lambda>sp d3.
              call_then (flush_task_queue d3) (\<lambda>_ d4.
              call_then (queue_sequence reason sp d4) (\<lambda>_ d5.
                set_progress env reason progress
                  [''IDLE'', ''Set dish to STANDBY-FP mode on ESTOP scheduled''] d5))))))"

definition handle_estop_event :: "'e dish_env_scheme \<Rightarrow> string \<Rightarrow> dish \<Rightarrow> unit call \<times> dish" where
  "handle_estop_event env argin d =
     (let reason = ''HANDLE_ESTOP_EVENT_FAILED'' in
      call_then (handler_enabled reason ''enableESTOPEventHandler'' d) (\<lambda>handlerEnabled d1.
        if \<not> handlerEnabled then (Returns (), d1)
        else
          with_task_data env reason argin (\<lambda>td.
            with_value reason TShort td (\<lambda>dsMode d2.
              if short_of dsMode \<noteq> 4 then (Returns (), d2) else estop_action env d2)) d1))"

subsection \<open>Power cut and restore\<close>

definition power_cut_tasks :: "dish \<Rightarrow> task_spec list" where
  "power_cut_tasks d =
     [delayed_task ''SetRxStandbyLPModeTask'' (rxShutdownTimeDelay d) (shutdownTaskTimeout d),
      synch_task ''ShutdownRXPUTask'' (shutdownTaskTimeout d),
      delayed_task ''PowerOffRXPUTask'' 5 (shutdownTaskTimeout d),
      asynch_task ''SetSPFStandbyLPModeTask'' (shutdownTaskTimeout d) ''spfSetStandbyLPModeProgress'',
      synch_task ''ShutdownSPFCTask'' (shutdownTaskTimeout d),
      delayed_task ''PowerOffSPFCTask'' 5 (shutdownTaskTimeout d)]"

definition power_cut_matrix :: dep_matrix where
  "power_cut_matrix = [[], [0], [1], [], [3], [4]]"

definition power_cut_action :: "'e dish_env_scheme \<Rightarrow> dish \<Rightarrow> unit call \<times> dish" where
  "power_cut_action env d =
     (let reason = ''HANDLE_POWER_CUT_EVENT_FAILED''; progress = ''shutdownOnPowerCutProgress'';
          aborted = [''ABORTED'', ''Dish shutdown on power cut aborted'']
      in
      call_then (progress_ongoing reason progress d) (\<lambda>isTaskRunning d1.
        if isTaskRunning then (Returns (), d1)
        else
          call_then (enum_label reason ''seCtrlPowerStatus'' d1) (\<lambda>power d2.
            if power = ''OFF'' then (Returns (), d2)
            else
              call_then (build_sequence env reason eHIGH_PRIORITY (power_cut_tasks d2)
                          ''ShutdownOnPowerCut'' (Some progress) d2) (\<lambda>sp d3.
              call_then (set_dependency env 7 reason power_cut_matrix sp d3) (\<lambda>_ d4.
              call_then (set_progress env reason progress
                          [''INIT'', ''Dish shutdown on power cut initialized''] d4) (\<lambda>_ d5.
              call_then (aborting env progress aborted (flush_task_queue d5)) (\<lambda>_ d6.
              call_then (aborting env progress aborted (queue_sequence reason sp d6)) (\<lambda>_ d7.
                set_progress env reason progress
                  [''IDLE'', ''Dish shutdown on power cut scheduled''] d7))))))))"

definition handle_power_cut_event :: "'e dish_env_scheme \<Rightarrow> string \<Rightarrow> dish \<Rightarrow> unit call \<times> dish" where
  "handle_power_cut_event env argin d =
     (let reason = ''HANDLE_POWER_CUT_EVENT_FAILED'' in
      call_then (handler_enabled reason ''enablePowerCutEventHandler'' d) (\<lambda>handlerEnabled d1.
        if \<not> handlerEnabled then (Returns (), d1)
        else
          with_task_data env reason argin (\<lambda>td.
            with_value reason TBool td (\<lambda>isPowerCut d2.
              if \<not> bool_of isPowerCut then (Returns (), d2) else power_cut_action env d2)) d1))"

definition revoked_on_restore :: "string list" where
  "revoked_on_restore = [''ShutdownRXPUTask'', ''PowerOffRXPUTask'', ''ShutdownSPFCTask'', ''PowerOffSPFCTask'']"

definition power_restore_tasks :: "dish \<Rightarrow> task_spec list" where
  "power_restore_tasks d =
     [synch_task ''PowerOnRXPUTask'' (defaultTaskTimeout d),
      synch_task ''PowerOnSPFCTask'' (defaultTaskTimeout d)]"

definition power_restore_action :: "'e dish_env_scheme \<Rightarrow> dish \<Rightarrow> unit call \<times> dish" where
  "power_restore_action env d =
     (let reason = ''HANDLE_POWER_RESTORE_EVENT_FAILED''; progress = ''startupOnPowerRestoreProgress'' in
      call_then (progress_ongoing reason progress d) (\<lambda>isTaskRunning d1.
        if isTaskRunning then (Returns (), d1)
        else
          call_then (enum_label reason ''seCtrlPowerStatus'' d1) (\<lambda>power d2.
            if power = ''ON'' then (Returns (), d2)
            else
              call_then (for_each revoke_task revoked_on_restore d2) (\<lambda>_ d3.
                schedule_sequence env reason eHIGH_PRIORITY (power_restore_tasks d3)
                  ''StartupOnPowerRestore'' progress ''Dish startup on power restore scheduled'' d3))))"

definition handle_power_restore_event :: "'e dish_env_scheme \<Rightarrow> string \<Rightarrow> dish \<Rightarrow> unit call \<times> dish" where
  "handle_power_restore_event env argin d =
     (let reason = ''HANDLE_POWER_RESTORE_EVENT_FAILED'' in
      call_then (handler_enabled reason ''enablePowerRestoreEventHandler'' d) (\<lambda>handlerEnabled d1.
        if \<not> handlerEnabled then (Returns (), d1)
        else
          with_task_data env reason argin (\<lambda>td.
            with_value reason TBool td (\<lambda>isPowerRestore d2.
              if \<not> bool_of isPowerRestore then (Returns (), d2) else power_restore_action env d2)) d1))"

subsection \<open>The indexer and band errors\<close>

definition handle_band_in_focus_event :: "'e dish_env_scheme \<Rightarrow> string \<Rightarrow> dish \<Rightarrow> unit call \<times> dish" where
  "handle_band_in_focus_event env argin =
     with_task_data env ''HANDLE_BAND_IN_FOCUS_EVENT_FAILED'' argin (\<lambda>td.
       with_value ''HANDLE_BAND_IN_FOCUS_EVENT_FAILED'' TShort td (\<lambda>indexerPosition d1.
         if \<not> in_bands 1 5 (short_of indexerPosition) then (Returns (), d1)
         else set_spfband_in_focus env (short_of indexerPosition) d1))"

text \<open>\<open>nBands\<close> is 6 and the test is \<open>>=\<close>.\<close>

definition set_standby_fpmode_on_band_error :: "'e dish_env_scheme \<Rightarrow> dish \<Rightarrow> unit call \<times> dish" where
  "set_standby_fpmode_on_band_error env d =
     (let reason = ''SET_STANDBY_FP_ON_BAND_ERROR_FAILED''; progress = ''setStandbyFPOnBandErrorProgress'' in
      call_then (handler_enabled reason ''enableBandErrorEventHandler'' d) (\<lambda>handlerEnabled d1.
      if \<not> handlerEnabled then (Returns (), d1) else
      call_then (enum_label reason ''dishMode'' d1) (\<lambda>dishMode d2.
      if dishMode \<noteq> ''OPERATE'' then (Returns (), d2) else
      call_then (or_raise reason (GetDynAttrValue TShort ''configuredBand'' d2), d2) (\<lambda>v d3.
      let configuredBand = short_of v in
      if sint configuredBand \<le> 0 \<or> 6 \<le> sint configuredBand then (Returns (), d3) else
      call_then (enum_label reason (capability_attrs ! (nat (sint configuredBand) - 1)) d3) (\<lambda>capability d4.
      if capability \<noteq> ''UNAVAILABLE'' then (Returns (), d4) else
      call_then (progress_ongoing reason progress d4) (\<lambda>isTaskRunning d5.
      if isTaskRunning then (Returns (), d5)
      else if dishMode = ''STANDBY-FP'' then
        set_progress env reason progress [''COMPLETED'', ''Dish is already in STANDBY-FP mode''] d5
      else
        schedule_sequence env reason eMEDIUM_PRIORITY (fp_tasks d5) ''SetStandbyFPModeOnBandError'' progress
          ''Set dish to STANDBY-FP mode on band error scheduled'' d5))))))"

definition handle_band_functional_error_event ::
    "'e dish_env_scheme \<Rightarrow> string \<Rightarrow> dish \<Rightarrow> unit call \<times> dish" where
  "handle_band_functional_error_event env argin =
     with_task_data env ''HANDLE_BAND_FUNCTIONAL_ERROR_EVENT_FAILED'' argin
       (\<lambda>_. set_standby_fpmode_on_band_error env)"

subsection \<open>Resetting\<close>

definition flush_command_queue :: "dish \<Rightarrow> unit call \<times> dish" where
  "flush_command_queue d = flush_task_queue d"

definition reset_progress :: "'e dish_env_scheme \<Rightarrow> string list \<Rightarrow> dish \<Rightarrow> unit call \<times> dish" where
  "reset_progress env attr_names =
     for_each (\<lambda>attr_name.
       set_progress env ''RESET_DISH_MODE_FAILED'' attr_name [''UNKNOWN'', ''Progress attribute was reset''])
       attr_names"

definition mode_progress_attrs :: "string list" where
  "mode_progress_attrs =
     [''setStowModeProgress'', ''setStandbyLPModeProgress'', ''setStandbyFPModeProgress'',
      ''setMaintenanceModeProgress'', ''setOperateModeProgress'', ''configureBandProgress'']"

definition reset_dish_mode :: "'e dish_env_scheme \<Rightarrow> dish \<Rightarrow> unit call \<times> dish" where
  "reset_dish_mode env d =
     call_then (flush_task_queue d) (\<lambda>_ d1.
     call_then (reset_progress env mode_progress_attrs d1) (\<lambda>_ d2.
       without_reply (dish_set_standby_lpmode env d2)))"

definition reset_dish_tasks :: "'e dish_env_scheme \<Rightarrow> dish \<Rightarrow> unit call \<times> dish" where
  "reset_dish_tasks env d =
     call_then (flush_task_queue d) (\<lambda>_ d1.
       reset_progress env
         (mode_progress_attrs @ [''startupOnPowerRestoreProgress'', ''shutdownOnPowerCutProgress'']) d1)"

subsection \<open>The telescope manager\<close>

definition handle_tmcomm_loss_event :: "'e dish_env_scheme \<Rightarrow> dish \<Rightarrow> unit call \<times> dish" where
  "handle_tmcomm_loss_event env d =
     call_then (reset_dish_tasks env d) (\<lambda>_ d1. without_reply (set_dsstow_mode env d1))"

abbreviation (input) ePROXY_HARD_OFFLINE :: int where "ePROXY_HARD_OFFLINE \<equiv> 2"

definition HandleTMProxyRunStatusInfo ::
    "'e dish_env_scheme \<Rightarrow> string \<Rightarrow> int \<Rightarrow> dish \<Rightarrow> int call \<times> dish" where
  "HandleTMProxyRunStatusInfo env proxy_name proxy_run_status d =
     (case GetDynAttrValue TString ''tmProxyAddress'' d of
        Failing \<Rightarrow> (Returns (-1), d)
      | Undefined_Access \<Rightarrow> (Crashes, d)
      | Got tmProxyAddress \<Rightarrow>
          (case GetDynAttrValue TBool ''enableTMProxyMoniHandler'' d of
             Failing \<Rightarrow> (Returns (-1), d)
           | Undefined_Access \<Rightarrow> (Crashes, d)
           | Got enabled \<Rightarrow>
               if bool_of enabled \<and> proxy_name = string_of tmProxyAddress \<and>
                  proxy_run_status = ePROXY_HARD_OFFLINE
               then
                 (case handle_tmcomm_loss_event env d of
                    (Returns _, d1) \<Rightarrow> (Returns 0, d1)
                  | (Crashes, d1) \<Rightarrow> (Crashes, d1)
                  | (_, d1) \<Rightarrow> (Returns (-1), d1))
               else (Returns 0, d)))"

definition HandleProxyRunStatusInfo ::
    "'e dish_env_scheme \<Rightarrow> string \<Rightarrow> int \<Rightarrow> dish \<Rightarrow> int call \<times> dish" where
  "HandleProxyRunStatusInfo env proxy_name proxy_run_status d =
     call_then (HandleTMProxyRunStatusInfo env proxy_name proxy_run_status d) (\<lambda>_ d1. (Returns 0, d1))"

definition set_tmproxy_address :: "'e dish_env_scheme \<Rightarrow> string \<Rightarrow> dish \<Rightarrow> unit call \<times> dish" where
  "set_tmproxy_address env argin d =
     (let reason = ''SET_TM_PROXY_ADDRESS_FAILED'' in
      call_then (or_raise reason (GetDynAttrValue TString ''tmProxyAddress'' d), d) (\<lambda>tmProxyAddress d1.
        if \<not> env_unregister env (string_of tmProxyAddress) then (Raises reason, d1)
        else if \<not> env_register env argin then (Raises reason, d1)
        else
          (case SetDynAttrValue (env_w_ok env) (VString argin) ''tmProxyAddress'' d1 of
             (r, d2) \<Rightarrow> (or_raise reason r, d2))))"

end
