(* ===== verification/DishRun.thy ===== *)
theory DishRun
  imports DishEvents
begin

text \<open>
  \<open>DishManager\<close> as a whole: the commands that Tango dispatches by name
  (\<open>DishManagerClass::command_factory\<close> and the \<open>is_..._allowed\<close> functions), the execution of a task as
  one of these commands (\<open>Task::Run\<close>), and the steps of the device: a command of a client, a turn of
  the task thread, the polled update of the progress attributes, and an event that sets an attribute.
  Tango serialises the commands of clients; the task thread and the event thread run beside them, and
  each of their steps is taken as a whole here.
\<close>

subsection \<open>Commands by name\<close>

definition gated :: "string \<Rightarrow> (dish \<Rightarrow> unit call \<times> dish) \<Rightarrow> dish \<Rightarrow> unit call \<times> dish" where
  "gated fcn_name f d = call_then (cmd_allowed fcn_name d) (\<lambda>_. f)"

text \<open>The commands that take a string or nothing; the argument of the latter is not looked at.\<close>

definition mode_commands ::
    "'e dish_env_scheme \<Rightarrow> string \<Rightarrow> (string \<times> (dish \<Rightarrow> unit call \<times> dish)) list" where
  "mode_commands env argin =
     [(''SetStandbyLPMode'', gated ''is_SetStandbyLPMode_allowed'' (\<lambda>d. without_reply (dish_set_standby_lpmode env d))),
      (''SetStandbyFPMode'', gated ''is_SetStandbyFPMode_allowed'' (\<lambda>d. without_reply (dish_set_standby_fpmode env d))),
      (''SetOperateMode'', gated ''is_SetOperateMode_allowed'' (\<lambda>d. without_reply (set_operate_mode env d))),
      (''SetMaintenanceMode'',
         gated ''is_SetMaintenanceMode_allowed'' (\<lambda>d. without_reply (dish_set_maintenance_mode env d))),
      (''SetStowMode'', gated ''is_SetStowMode_allowed'' (\<lambda>d. without_reply (set_stow_mode env d))),
      (''ConfigureBand1'', gated ''is_ConfigureBand1_allowed'' (configure_band1 env argin)),
      (''ConfigureBand2'', gated ''is_ConfigureBand2_allowed'' (configure_band2 env argin)),
      (''ConfigureBand3'', gated ''is_ConfigureBand3_allowed'' (configure_band3 env argin)),
      (''ConfigureBand4'', gated ''is_ConfigureBand4_allowed'' (configure_band4 env argin)),
      (''ConfigureBand5a'', configure_band5a env argin),
      (''ConfigureBand5b'', configure_band5b env argin),
      (''HandleBandFunctionalErrorEvent'', handle_band_functional_error_event env argin),
      (''HandleEStopEvent'', handle_estop_event env argin),
      (''HandlePowerCutEvent'', handle_power_cut_event env argin),
      (''HandlePowerRestoreEvent'', handle_power_restore_event env argin),
      (''HandleTMCommLossEvent'', handle_tmcomm_loss_event env),
      (''HandleBandInFocusEvent'', handle_band_in_focus_event env argin),
      (''SetStandbyFPModeOnBandError'', set_standby_fpmode_on_band_error env),
      (''FlushCommandQueue'', flush_command_queue),
      (''ResetDishMode'', reset_dish_mode env),
      (''ResetDishTasks'', reset_dish_tasks env),
      (''SetTMProxyAddress'', set_tmproxy_address env argin)]"

definition task_commands ::
    "'e dish_env_scheme \<Rightarrow> string \<Rightarrow> (string \<times> (dish \<Rightarrow> unit call \<times> dish)) list" where
  "task_commands env argin =
     [(''SetIndexerPositionTask'', set_indexer_position_task env argin),
      (''SetRxStandbyLPModeTask'', set_rx_standby_lpmode_task env argin),
      (''SetRxStandbyFPModeTask'', set_rx_standby_fpmode_task env argin),
      (''SetRxMaintenanceModeTask'', set_rx_maintenance_mode_task env argin),
      (''ConfigureRxBandTask'', configure_rx_band_task env argin),
      (''StartRxCaptureTask'', start_rx_capture_task env argin),
      (''SynchroniseRxBandTask'', synchronise_rx_band_task env argin),
      (''ShutdownRXPUTask'', shutdown_rxputask env argin),
      (''PowerOffRXPUTask'', power_off_rxputask env argin),
      (''PowerOnRXPUTask'', power_on_rxputask env argin),
      (''SetSPFStandbyLPModeTask'', set_spfstandby_lpmode_task env argin),
      (''SetSPFOperateModeTask'', set_spfoperate_mode_task env argin),
      (''SetSPFMaintenanceModeTask'', set_spfmaintenance_mode_task env argin),
      (''SetSPFLnaPowerOnTask'', set_spflna_power_on_task env argin),
      (''SetSPFBandInFocusTask'', set_spfband_in_focus_task env argin),
      (''ShutdownSPFCTask'', shutdown_spfctask env argin),
      (''PowerOffSPFCTask'', power_off_spfctask env argin),
      (''PowerOnSPFCTask'', power_on_spfctask env argin),
      (''SetDSStandbyLPModeTask'', set_dsstandby_lpmode_task env argin),
      (''SetDSStandbyFPModeTask'', set_dsstandby_fpmode_task env argin),
      (''SetDSPointModeTask'', set_dspoint_mode_task env argin),
      (''SetDSStowModeTask'', set_dsstow_mode_task env argin),
      (''SetDSMaintenanceModeTask'', set_dsmaintenance_mode_task env argin)]"

definition forward_commands :: "'e dish_env_scheme \<Rightarrow> (string \<times> (dish \<Rightarrow> unit call \<times> dish)) list" where
  "forward_commands env =
     [(''SetRxStandbyLPMode'', set_rx_standby_lpmode env),
      (''SetRxStandbyFPMode'', set_rx_standby_fpmode env),
      (''SetRxMaintenanceMode'', set_rx_maintenance_mode env),
      (''StartCapture'', start_capture env),
      (''StopCapture'', stop_capture env),
      (''Synchronise'', gated ''is_Synchronise_allowed'' (synchronise env)),
      (''ShutdownRXPU'', shutdown_rxpu env), (''PowerOffRXPU'', power_off_rxpu env),
      (''PowerOnRXPU'', power_on_rxpu env),
      (''SetSPFStandbyLPMode'', \<lambda>d. without_reply (set_spfstandby_lpmode env d)),
      (''SetSPFOperateMode'', \<lambda>d. without_reply (set_spfoperate_mode env d)),
      (''SetSPFMaintenanceMode'', \<lambda>d. without_reply (set_spfmaintenance_mode env d)),
      (''ShutdownSPFC'', shutdown_spfc env), (''PowerOffSPFC'', power_off_spfc env),
      (''PowerOnSPFC'', power_on_spfc env),
      (''SetDSStandbyLPMode'', \<lambda>d. without_reply (set_dsstandby_lpmode env d)),
      (''SetDSStandbyFPMode'', \<lambda>d. without_reply (set_dsstandby_fpmode env d)),
      (''SetDSPointMode'', \<lambda>d. without_reply (set_dspoint_mode env d)),
      (''SetDSStowMode'', \<lambda>d. without_reply (set_dsstow_mode env d)),
      (''SetDSMaintenanceMode'', set_dsmaintenance_mode env),
      (''RestartSPFComponents'', restart_spfcomponents env)]"

text \<open>The commands inherited from \<open>LMCDevice\<close> that concern tasks; \<open>now\<close> is the time of the call.\<close>

definition inherited_commands ::
    "'e dish_env_scheme \<Rightarrow> string \<Rightarrow> timestamp \<Rightarrow> (string \<times> (dish \<Rightarrow> unit call \<times> dish)) list" where
  "inherited_commands env argin now =
     [(''FlushTaskQueue'', flush_task_queue), (''ClearTasks'', clear_tasks now),
      (''ClearTaskHistory'', clear_task_history), (''RevokeTask'', revoke_task argin),
      (''RevokeTaskSequence'', revoke_task_sequence argin), (''UpdateStatusAttrs'', update_status_attrs env)]"

definition dish_execute_command ::
    "'e dish_env_scheme \<Rightarrow> timestamp \<Rightarrow> string \<Rightarrow> string \<Rightarrow> dish \<Rightarrow> unit call \<times> dish" where
  "dish_execute_command env now name argin d =
     (case map_of (mode_commands env argin @ task_commands env argin @ forward_commands env @
                   inherited_commands env argin now) name of
        None \<Rightarrow> (Raises ''API_CommandNotFound'', d)
      | Some f \<Rightarrow> f d)"

text \<open>The commands that take a short, a float, a boolean or an array of shorts.\<close>

definition argument_commands ::
    "'e dish_env_scheme \<Rightarrow> 16 word \<Rightarrow> real \<Rightarrow> bool \<Rightarrow> 16 word list
     \<Rightarrow> (string \<times> (dish \<Rightarrow> unit call \<times> dish)) list" where
  "argument_commands env w x b ws =
     [(''SetIndexerPosition'', set_indexer_position env w), (''ConfigureRxBand'', configure_rx_band env w),
      (''ConfigureRxBandAsync'', \<lambda>d. without_reply (configure_rx_band_async env w d)),
      (''ConfigureAndSynchroniseRxBand'', configure_and_synchronise_rx_band env w),
      (''SetSPFOperational'', \<lambda>d. without_reply (set_spfoperational env w d)),
      (''SetSPFLnaPowerOff'', set_spflna_power_off env w),
      (''SetSPFLnaPowerOn'', set_spflna_power_on env w),
      (''SetSPFBandInFocus'', set_spfband_in_focus env w),
      (''ConfigureRxAttenuation'', configure_rx_attenuation env x),
      (''Capture'', gated ''is_Capture_allowed'' (capture env b)),
      (''EnableRxEngineeringMode'', enable_rx_engineering_mode env b),
      (''SetSPFFeedMode'', \<lambda>d. without_reply (set_spffeed_mode env ws d)),
      (''SendSPFFeedCommand'', send_spffeed_command env ws)]"

subsection \<open>Executing a task\<close>

definition Task_Run :: "'e dish_env_scheme \<Rightarrow> timestamp \<Rightarrow> task \<Rightarrow> dish \<Rightarrow> unit call \<times> dish" where
  "Task_Run env now t d =
     (if \<not> has_dev t then (Raises ''RUN_FAILED'', d)
      else
        (case EncodeToJson (env_iso8601 env) (env_contents env) t of
           None \<Rightarrow> (Raises ''RUN_FAILED'', d)
         | Some j \<Rightarrow>
             (case env_writer env j of
                None \<Rightarrow> (Raises ''RUN_FAILED'', d)
              | Some json_str \<Rightarrow> dish_execute_command env now (cmd_name t) json_str d)))"

subsection \<open>Steps\<close>

text \<open>
  A value that arrives for a progress attribute, from a formula that an event triggers: it is set and
  the tasks that watch the attribute are updated.
\<close>

definition progress_event ::
    "'e dish_env_scheme \<Rightarrow> string \<Rightarrow> string list \<Rightarrow> dish \<Rightarrow> unit call \<times> dish" where
  "progress_event env attr_name vs d =
     (case SetDynAttrValue_strings (env_wlist_ok env) vs attr_name d of
        (Got _, d1) \<Rightarrow> without_reply (UpdateAsynchTaskStatus attr_name d1)
      | (Failing, d1) \<Rightarrow> (Returns (), d1)
      | (Undefined_Access, d1) \<Rightarrow> (Crashes, d1))"

text \<open>An event that sets a scalar attribute.\<close>

definition scalar_event ::
    "'e dish_env_scheme \<Rightarrow> string \<Rightarrow> scalar \<Rightarrow> dish \<Rightarrow> unit call \<times> dish" where
  "scalar_event env attr_name v d =
     (case SetDynAttrValue (env_w_ok env) v attr_name d of
        (Undefined_Access, d1) \<Rightarrow> (Crashes, d1)
      | (_, d1) \<Rightarrow> (Returns (), d1))"

definition task_turn :: "dish_env \<Rightarrow> timestamp \<Rightarrow> (nat \<Rightarrow> timer_state) \<Rightarrow> dish \<Rightarrow> unit call \<times> dish" where
  "task_turn env now = thread_turn (Task_Run env now)"

text \<open>
  The sequences with dependencies. No event handler is configured to call a command with one of these
  names.
\<close>

definition chained_sequences :: "string list" where
  "chained_sequences = [''ConfigureBand'', ''ShutdownOnPowerCut'', ''SetSPFOperational'']"

inductive dish_step :: "dish \<Rightarrow> dish \<Rightarrow> bool" where
  Dish_Command: "dish_execute_command (env :: dish_env) now name argin d = (r, d') \<Longrightarrow> r \<noteq> Crashes \<Longrightarrow>
     dish_step d d'"
| Dish_Argument: "map_of (argument_commands (env :: dish_env) w x b ws) name = Some f \<Longrightarrow> f d = (r, d') \<Longrightarrow>
     r \<noteq> Crashes \<Longrightarrow> dish_step d d'"
| Dish_Thread: "task_turn env now tms d = (r, d') \<Longrightarrow> r \<noteq> Crashes \<Longrightarrow> dish_step d d'"
| Dish_Resume: "dish_step d (thread_resume d)"
| Dish_Progress: "progress_event (env :: dish_env) attr_name vs d = (r, d') \<Longrightarrow> r \<noteq> Crashes \<Longrightarrow>
     dish_step d d'"
| Dish_Scalar: "scalar_event (env :: dish_env) attr_name v d = (r, d') \<Longrightarrow> r \<noteq> Crashes \<Longrightarrow> dish_step d d'"
| Dish_Event: "ExecuteEventCmdHandlers (envs :: nat \<Rightarrow> lmc_env) evt_handlers event_value d = (n, d') \<Longrightarrow>
     (\<forall>eh\<in>set evt_handlers. eh_name eh \<notin> set chained_sequences) \<Longrightarrow> dish_step d d'"
| Dish_Proxy: "HandleProxyRunStatusInfo (env :: dish_env) proxy_name st d = (rn, d') \<Longrightarrow> rn \<noteq> Crashes \<Longrightarrow>
     dish_step d d'"

inductive_cases dish_stepE: "dish_step d d'"

inductive dish_reachable :: "dish \<Rightarrow> dish \<Rightarrow> bool" for d0 where
  Dish_Start: "dish_reachable d0 d0"
| Dish_Next: "dish_reachable d0 d \<Longrightarrow> dish_step d d' \<Longrightarrow> dish_reachable d0 d'"

end
