(* ===== verification/DishInv.thy ===== *)
theory DishInv
  imports DishRun TaskMgrOps
begin

text \<open>
  The invariant of \<open>DishManager\<close> that its sequences with dependencies rest on: whatever the device has
  done, a queued task of such a sequence has the name and the dependencies of its position, and a
  sequence in the collection has the tasks it was built with. The queue and the collection hold
  allocated addresses, and the queue no task twice.
\<close>

subsection \<open>Templates\<close>

definition band_names :: "string list" where
  "band_names =
     [''ConfigureRxBandTask'', ''SynchroniseRxBandTask'', ''SetIndexerPositionTask'',
      ''SetSPFLnaPowerOnTask'', ''SetSPFBandInFocusTask'']"

definition power_cut_names :: "string list" where
  "power_cut_names =
     [''SetRxStandbyLPModeTask'', ''ShutdownRXPUTask'', ''PowerOffRXPUTask'', ''SetSPFStandbyLPModeTask'',
      ''ShutdownSPFCTask'', ''PowerOffSPFCTask'']"

text \<open>The names of the tasks of a sequence and the dependencies between them, by the name of the sequence.\<close>

definition template :: "string \<Rightarrow> (string list \<times> dep_matrix) option" where
  "template =
     map_of [(''ConfigureBand'', (band_names, band_matrix)),
             (''ShutdownOnPowerCut'', (power_cut_names, power_cut_matrix)),
             (''SetSPFOperational'', ([''SetSPFOperateModeTask'', ''SetSPFLnaPowerOnTask''], [[], [0]]))]"

definition at_position :: "string list \<Rightarrow> dep_matrix \<Rightarrow> task \<Rightarrow> bool" where
  "at_position names deps t \<longleftrightarrow>
     is_in_sequence t \<and> sequence_index t < length names \<and> cmd_name t = names ! sequence_index t \<and>
     dep_task_seq_indexes t = deps ! sequence_index t \<and>
     depend_on_sequence_tasks t = (deps ! sequence_index t \<noteq> [])"

definition task_fits :: "task \<Rightarrow> bool" where
  "task_fits t \<longleftrightarrow> (\<forall>names deps. template (sequence_name t) = Some (names, deps) \<longrightarrow> at_position names deps t)"

definition seq_fits :: "task_heap \<Rightarrow> task_sequence \<Rightarrow> bool" where
  "seq_fits h s \<longleftrightarrow>
     (\<forall>names deps. template (seq_name s) = Some (names, deps) \<longrightarrow> List.map (\<lambda>p. cmd_name (h p)) (tasks s) = names)"

definition mgr_fits :: "nat \<Rightarrow> nat \<Rightarrow> task_manager \<Rightarrow> bool" where
  "mgr_fits n k m \<longleftrightarrow>
     distinct (m_taskQueue m) \<and>
     (\<forall>p\<in>set (m_taskQueue m). p < n \<and> task_fits (m_tasks m p)) \<and>
     (\<forall>sp\<in>set (m_taskSequences m). sp < k \<and> (\<forall>p\<in>set (tasks (m_seqs m sp)). p < n) \<and>
        seq_fits (m_tasks m) (m_seqs m sp))"

definition dish_fits :: "'z lmc_tasks_scheme \<Rightarrow> bool" where
  "dish_fits d \<longleftrightarrow> mgr_fits (next_task d) (next_sequence d) (taskManager d)"

subsection \<open>Operations of the manager\<close>

lemma task_fits_static: "static_task t' = static_task t \<Longrightarrow> task_fits t' = task_fits t"
  unfolding task_fits_def at_position_def by (metis static_task_fields)

lemma seq_fits_static:
  "same_static m m' \<Longrightarrow> seq_fits (m_tasks m') (m_seqs m' sp) = seq_fits (m_tasks m) (m_seqs m sp)"
  by (simp add: seq_fits_def same_static_def static_task_cong(9) [of "m_tasks m' p" "m_tasks m p" for p])

lemma shrinks_fits:
  assumes "shrinks m m'" and "mgr_fits n k m"
  shows "mgr_fits n k m'"
proof -
  from assms(1) have st: "same_static m m'" and q: "subseq (m_taskQueue m') (m_taskQueue m)"
    and c: "set (m_taskSequences m') \<subseteq> set (m_taskSequences m)" by (simp_all add: shrinks_def)
  from st have h: "task_fits (m_tasks m' p) = task_fits (m_tasks m p)" for p
    by (intro task_fits_static) (simp add: same_static_def)
  from st have t: "tasks (m_seqs m' sp) = tasks (m_seqs m sp)" for sp by (simp add: same_static_def)
  from q have "set (m_taskQueue m') \<subseteq> set (m_taskQueue m)" by (auto dest: list_emb_set)
  then show ?thesis
    using assms(2) c distinct_subseq [OF q] seq_fits_static [OF st] by (auto simp: mgr_fits_def h t)
qed

text \<open>Allocation does not touch what was there.\<close>

definition agrees :: "nat \<Rightarrow> nat \<Rightarrow> task_manager \<Rightarrow> task_manager \<Rightarrow> bool" where
  "agrees n k m m' \<longleftrightarrow>
     (\<forall>p<n. m_tasks m' p = m_tasks m p) \<and> (\<forall>sp<k. m_seqs m' sp = m_seqs m sp) \<and>
     m_taskQueue m' = m_taskQueue m \<and> m_taskSequences m' = m_taskSequences m"

lemma agrees_fits:
  assumes "agrees n k m m'" and "mgr_fits n k m" and "n \<le> n'" and "k \<le> k'"
  shows "mgr_fits n' k' m'"
proof -
  have "seq_fits (m_tasks m') s = seq_fits (m_tasks m) s" if "\<forall>p\<in>set (tasks s). p < n" for s
  proof -
    from that assms(1) have "List.map (\<lambda>p. cmd_name (m_tasks m' p)) (tasks s) =
        List.map (\<lambda>p. cmd_name (m_tasks m p)) (tasks s)" by (simp add: agrees_def)
    then show ?thesis by (simp only: seq_fits_def)
  qed
  with assms show ?thesis by (fastforce simp: mgr_fits_def agrees_def)
qed

subsection \<open>Queueing a sequence\<close>

lemma distinct_set_insert: "x \<notin> set xs \<Longrightarrow> distinct xs \<Longrightarrow> distinct (set_insert lt x xs)"
proof (induction xs)
  case (Cons y ys)
  then show ?case using set_insert_subset [of lt x ys] by auto
qed simp

lemma queue_tasks_frame:
  "m_seqs (snd (queue_tasks has_attr ps m)) = m_seqs m"
  "m_taskSequences (snd (queue_tasks has_attr ps m)) = m_taskSequences m"
  by (induction ps arbitrary: m) (simp_all add: Let_def put_task_def)

lemma queue_tasks_set:
  "set (m_taskQueue (snd (queue_tasks has_attr ps m))) \<subseteq> set (m_taskQueue m) \<union> set ps"
proof (induction ps arbitrary: m)
  case (Cons p ps)
  let ?m = "put_task (\<lambda>t. t\<lparr>status := eIDLE\<rparr>) p
      (m\<lparr>m_taskQueue := set_insert (queue_lt (m_tasks m)) p (m_taskQueue m)\<rparr>)"
  have "set (m_taskQueue ?m) \<subseteq> insert p (set (m_taskQueue m))"
    by (simp add: put_task_def set_insert_subset)
  with Cons.IH [of ?m] show ?case by (auto simp: Let_def)
qed simp

lemma queue_tasks_distinct:
  "distinct (m_taskQueue m) \<Longrightarrow> distinct ps \<Longrightarrow> set ps \<inter> set (m_taskQueue m) = {} \<Longrightarrow>
   distinct (m_taskQueue (snd (queue_tasks has_attr ps m)))"
proof (induction ps arbitrary: m)
  case (Cons p ps)
  let ?m = "put_task (\<lambda>t. t\<lparr>status := eIDLE\<rparr>) p
      (m\<lparr>m_taskQueue := set_insert (queue_lt (m_tasks m)) p (m_taskQueue m)\<rparr>)"
  from Cons.prems have "distinct (m_taskQueue ?m)" by (simp add: put_task_def distinct_set_insert)
  moreover from Cons.prems have "set ps \<inter> set (m_taskQueue ?m) = {}"
    using set_insert_subset [of "queue_lt (m_tasks m)" p "m_taskQueue m"] by (auto simp: put_task_def)
  ultimately have "distinct (m_taskQueue (snd (queue_tasks has_attr ps ?m)))"
    using Cons.prems by (intro Cons.IH) auto
  with Cons.prems show ?case by (simp add: Let_def)
qed simp

lemma add_sequence_fits:
  assumes "mgr_fits n k m" and "sp < k" and "distinct (tasks (m_seqs m sp))"
    and "\<forall>p\<in>set (tasks (m_seqs m sp)). p < n \<and> p \<notin> set (m_taskQueue m) \<and> task_fits (m_tasks m p)"
    and "seq_fits (m_tasks m) (m_seqs m sp)"
  shows "mgr_fits n k (snd (AddTaskSequence has_attr (Some sp) b m))"
proof -
  let ?ps = "tasks (m_seqs m sp)"
  obtain ok m1 where q: "queue_tasks has_attr ?ps m = (ok, m1)" by fastforce
  have m1: "m_seqs m1 = m_seqs m" "m_taskSequences m1 = m_taskSequences m"
    "set (m_taskQueue m1) \<subseteq> set (m_taskQueue m) \<union> set ?ps"
    "same_static m m1"
    using queue_tasks_frame [of has_attr ?ps m] queue_tasks_set [of has_attr ?ps m]
      queue_tasks_static [of m has_attr ?ps] q by simp_all
  have "distinct (m_taskQueue m1)"
    using queue_tasks_distinct [of m ?ps has_attr] assms(1,3,4) q by (auto simp: mgr_fits_def)
  moreover from m1(4) have h: "task_fits (m_tasks m1 p) = task_fits (m_tasks m p)" for p
    by (intro task_fits_static) (simp add: same_static_def)
  moreover have s: "seq_fits (m_tasks m1) (m_seqs m1 sq) = seq_fits (m_tasks m) (m_seqs m sq)" for sq
    by (rule seq_fits_static [OF m1(4)])
  ultimately have "mgr_fits n k m1" using assms(1,4) m1(1-3) by (fastforce simp: mgr_fits_def)
  moreover have "sp < k \<and> (\<forall>p\<in>set ?ps. p < n) \<and> seq_fits (m_tasks m1) (m_seqs m1 sp)"
    using assms s by simp
  ultimately show ?thesis
    using assms q m1(1) by (auto simp: AddTaskSequence_def Let_def mgr_fits_def)
qed


text \<open>
  What the building of a sequence does: its tasks are new, at their positions, and have the
  dependencies that were set; what was there before is untouched.
\<close>

subsection \<open>A new task\<close>

lemmas task_setters =
  SetMaxDuration_def SetTimeDelayAndDuration_def SetActivationTimeout_def SetExpirationTimeout_def
  InitActivationTimeout_def InitExpirationTimeout_def SetTaskArgin_def SetAsynchTask_def Let_def

lemma Task_new_fields:
  "cmd_name (Task_new clk u dev name prio utc) = name" "priority (Task_new clk u dev name prio utc) = prio"
  "dep_task_seq_indexes (Task_new clk u dev name prio utc) = []"
  "depend_on_sequence_tasks (Task_new clk u dev name prio utc) = False"
  "status (Task_new clk u dev name prio utc) = eINIT" "is_asynch (Task_new clk u dev name prio utc) = False"
  "hasArgin (Task_new clk u dev name prio utc) = False" "has_dev (Task_new clk u dev name prio utc) = dev"
  by (simp_all add: Task_new_def Task_Init_def raw_task_def task_setters)

lemma SetMaxDuration_frame:
  "cmd_name (snd (SetMaxDuration clk ms mode tr t)) = cmd_name t"
  "priority (snd (SetMaxDuration clk ms mode tr t)) = priority t"
  "dep_task_seq_indexes (snd (SetMaxDuration clk ms mode tr t)) = dep_task_seq_indexes t"
  "depend_on_sequence_tasks (snd (SetMaxDuration clk ms mode tr t)) = depend_on_sequence_tasks t"
  "status (snd (SetMaxDuration clk ms mode tr t)) = status t"
  "is_asynch (snd (SetMaxDuration clk ms mode tr t)) = is_asynch t"
  "hasArgin (snd (SetMaxDuration clk ms mode tr t)) = hasArgin t"
  "has_dev (snd (SetMaxDuration clk ms mode tr t)) = has_dev t"
  by (simp_all add: task_setters split: option.split)

lemma SetTimeDelayAndDuration_frame:
  "cmd_name (snd (SetTimeDelayAndDuration clk dl ms mode tr t)) = cmd_name t"
  "priority (snd (SetTimeDelayAndDuration clk dl ms mode tr t)) = priority t"
  "dep_task_seq_indexes (snd (SetTimeDelayAndDuration clk dl ms mode tr t)) = dep_task_seq_indexes t"
  "depend_on_sequence_tasks (snd (SetTimeDelayAndDuration clk dl ms mode tr t)) = depend_on_sequence_tasks t"
  "status (snd (SetTimeDelayAndDuration clk dl ms mode tr t)) = status t"
  "is_asynch (snd (SetTimeDelayAndDuration clk dl ms mode tr t)) = is_asynch t"
  "hasArgin (snd (SetTimeDelayAndDuration clk dl ms mode tr t)) = hasArgin t"
  "has_dev (snd (SetTimeDelayAndDuration clk dl ms mode tr t)) = has_dev t"
  by (simp_all add: task_setters split: option.split)

lemma build_task_fields [simp]:
  "cmd_name (build_task env i prio ts) = ts_name ts"
  "priority (build_task env i prio ts) = prio"
  "dep_task_seq_indexes (build_task env i prio ts) = []"
  "depend_on_sequence_tasks (build_task env i prio ts) = False"
  "status (build_task env i prio ts) = eINIT"
  "is_asynch (build_task env i prio ts) = (ts_asynch ts \<noteq> None)"
  "has_dev (build_task env i prio ts)"
  "hasArgin (build_task env i prio ts) = (ts_argin ts \<noteq> None)"
  by (simp_all add: build_task_def Let_def SetTaskArgin_def SetAsynchTask_def Task_new_fields
      SetMaxDuration_frame SetTimeDelayAndDuration_frame split: option.split task_duration.split)

lemma build_task_attr: "ts_asynch ts = Some a \<Longrightarrow> status_attr_name (build_task env i prio ts) = a"
  by (simp add: build_task_def Let_def SetAsynchTask_def)

lemma build_task_argin:
  "ts_argin ts = Some (x, ty, fmt) \<Longrightarrow>
   cmd_argin (build_task env i prio ts) = x \<and> argin_type (build_task env i prio ts) = ty \<and>
   argin_format (build_task env i prio ts) = fmt"
  by (simp add: build_task_def Let_def SetTaskArgin_def SetAsynchTask_def split: option.split)

lemma length_build_tasks [simp]: "length (build_tasks env i prio tss) = length tss"
  by (induction tss arbitrary: i) simp_all

lemma build_tasks_nth: "j < length tss \<Longrightarrow> build_tasks env i prio tss ! j = build_task env (i + j) prio (tss ! j)"
  by (induction tss arbitrary: i j) (auto simp: nth_Cons split: nat.split)

lemma write_tasks_below: "q < p \<Longrightarrow> write_tasks p ts h q = h q"
  by (induction ts arbitrary: p h) simp_all

lemma write_tasks_nth: "i < length ts \<Longrightarrow> write_tasks p ts h (p + i) = ts ! i"
proof (induction ts arbitrary: p h i)
  case (Cons t ts)
  show ?case
  proof (cases i)
    case 0
    then show ?thesis by (simp add: write_tasks_below)
  next
    case (Suc j)
    with Cons.prems have "write_tasks (Suc p) ts (h(p := t)) (Suc p + j) = ts ! j" by (intro Cons.IH) simp
    with Suc show ?thesis by (simp only: write_tasks.simps nth_Cons_Suc add_Suc add_Suc_right)
  qed
qed simp

subsection \<open>Putting the tasks into the sequence\<close>

definition placed :: "task_sequence \<Rightarrow> nat \<Rightarrow> task \<Rightarrow> task" where
  "placed s i t =
     t\<lparr>is_in_sequence := True, sequence_id := seq_id s, sequence_name := seq_name s, sequence_index := i\<rparr>"

lemma placed_fields [simp]:
  "is_in_sequence (placed s i t)" "sequence_id (placed s i t) = seq_id s"
  "sequence_name (placed s i t) = seq_name s" "sequence_index (placed s i t) = i"
  "cmd_name (placed s i t) = cmd_name t" "dep_task_seq_indexes (placed s i t) = dep_task_seq_indexes t"
  "depend_on_sequence_tasks (placed s i t) = depend_on_sequence_tasks t" "status (placed s i t) = status t"
  "is_asynch (placed s i t) = is_asynch t" "status_attr_name (placed s i t) = status_attr_name t"
  by (simp_all add: placed_def)

lemma add_tasks_spec:
  "add_tasks ps h s = (ok, h', s') \<Longrightarrow> distinct ps \<Longrightarrow>
   seq_name s' = seq_name s \<and> seq_id s' = seq_id s \<and> (\<forall>p. p \<notin> set ps \<longrightarrow> h' p = h p) \<and>
   s' = s\<lparr>tasks := tasks s'\<rparr> \<and>
   (ok \<longrightarrow> tasks s' = tasks s @ ps \<and>
      (\<forall>i<length ps. h' (ps ! i) = placed s (length (tasks s) + i) (h (ps ! i))))"
proof (induction ps arbitrary: h s)
  case (Cons p ps)
  show ?case
  proof (cases "seq_id s = [] \<or> seq_name s = []")
    case True
    with Cons.prems(1) show ?thesis by (auto simp: AddTask_def)
  next
    case False
    let ?s = "s\<lparr>tasks := tasks s @ [p]\<rparr>"
    let ?h = "h(p := placed s (length (tasks s)) (h p))"
    from False have "AddTask (Some p) h s = (0, ?h, ?s)"
      by (simp add: AddTask_def Let_def placed_def update_task_def)
    with Cons.prems(1) have "add_tasks ps ?h ?s = (ok, h', s')" by simp
    from Cons.IH [OF this] Cons.prems(2)
    have IH: "seq_name s' = seq_name s" "seq_id s' = seq_id s" "\<forall>q. q \<notin> set ps \<longrightarrow> h' q = ?h q"
      "s' = ?s\<lparr>tasks := tasks s'\<rparr>"
      "ok \<longrightarrow> tasks s' = tasks ?s @ ps \<and>
        (\<forall>i<length ps. h' (ps ! i) = placed ?s (length (tasks ?s) + i) (?h (ps ! i)))"
      by simp_all
    have "h' ((p # ps) ! i) = placed s (length (tasks s) + i) (h ((p # ps) ! i))"
      if "ok" "i < length (p # ps)" for i
    proof (cases i)
      case 0
      with IH(3) Cons.prems(2) show ?thesis by simp
    next
      case (Suc j)
      with that IH(5) have "h' (ps ! j) = placed ?s (length (tasks ?s) + j) (?h (ps ! j))" by simp
      moreover from Suc that Cons.prems(2) have "ps ! j \<noteq> p" by auto
      ultimately show ?thesis using Suc by (simp add: placed_def)
    qed
    with IH Cons.prems(2) show ?thesis by auto
  qed
qed auto

subsection \<open>A sequence ready to be queued\<close>

definition ready :: "string \<Rightarrow> string list \<Rightarrow> dep_matrix \<Rightarrow> seq_ptr \<Rightarrow> 'z lmc_tasks_scheme \<Rightarrow> bool" where
  "ready name names deps sp d \<longleftrightarrow>
     dish_fits d \<and> sp < next_sequence d \<and>
     (let m = taskManager d; s = m_seqs m sp; ps = tasks s in
      seq_name s = name \<and> length ps = length names \<and> distinct ps \<and>
      (\<forall>i<length names. ps ! i < next_task d \<and> ps ! i \<notin> set (m_taskQueue m) \<and>
         sequence_index (m_tasks m (ps ! i)) = i \<and> sequence_name (m_tasks m (ps ! i)) = name \<and>
         at_position names deps (m_tasks m (ps ! i))))"

lemma no_deps_at_position:
  "i < length names \<Longrightarrow> at_position names (replicate (length names) []) t \<longleftrightarrow>
     is_in_sequence t \<and> sequence_index t < length names \<and> cmd_name t = names ! sequence_index t \<and>
     dep_task_seq_indexes t = [] \<and> \<not> depend_on_sequence_tasks t"
  by (auto simp: at_position_def)

lemma put_mgr_fields [simp]:
  "m_tasks (taskManager (put_mgr h sp s d)) = h"
  "m_seqs (taskManager (put_mgr h sp s d)) = (m_seqs (taskManager d))(sp := s)"
  "m_taskQueue (taskManager (put_mgr h sp s d)) = m_taskQueue (taskManager d)"
  "m_taskSequences (taskManager (put_mgr h sp s d)) = m_taskSequences (taskManager d)"
  "m_maxTasksInQueue (taskManager (put_mgr h sp s d)) = m_maxTasksInQueue (taskManager d)"
  "next_task (put_mgr h sp s d) = next_task d" "next_sequence (put_mgr h sp s d) = next_sequence d"
  "dyn_attrs (put_mgr h sp s d) = dyn_attrs d"
  by (simp_all add: put_mgr_def)

lemma build_sequence_spec:
  assumes "build_sequence env reason prio tss name sattr d = (r, d')" and "dish_fits d"
  shows "dish_fits d' \<and> (r = Raises reason \<or> (\<exists>sp. r = Returns sp \<and>
           ready name (List.map ts_name tss) (replicate (length tss) []) sp d'))"
proof -
  let ?k = "length tss" and ?p = "next_task d" and ?sp = "next_sequence d"
  let ?h = "write_tasks ?p (build_tasks env 0 prio tss) (m_tasks (taskManager d))"
  let ?s0 = "TaskSequence_new (env_uuid env ?k) (env_clock env ?k 0) name False"
  let ?s = "case sattr of None \<Rightarrow> ?s0 | Some a \<Rightarrow> snd (SetDevStatusAttr (HasAttribute d) a ?s0)"
  obtain ok h' s' where a: "add_tasks [?p ..< ?p + ?k] ?h ?s = (ok, h', s')"
    by (cases "add_tasks [?p ..< ?p + ?k] ?h ?s") auto
  from assms(1) a have r: "r = (if ok then Returns ?sp else Raises reason)"
    and d': "d' = (put_mgr h' ?sp s' d)\<lparr>next_task := ?p + ?k, next_sequence := Suc ?sp\<rparr>"
    by (auto simp: build_sequence_def Let_def)
  have s: "tasks ?s = []" "seq_name ?s = name"
    by (auto simp: TaskSequence_new_def SetDevStatusAttr_def split: option.split)
  from add_tasks_spec [OF a] s have
    b: "seq_name s' = name" "\<forall>p. p \<notin> {?p ..< ?p + ?k} \<longrightarrow> h' p = ?h p"
    and b2: "ok \<longrightarrow> tasks s' = [?p ..< ?p + ?k] \<and> (\<forall>i<?k. h' (?p + i) = placed ?s i (?h (?p + i)))"
    by simp_all
  have "agrees ?p ?sp (taskManager d) (taskManager d')"
    using b(2) by (simp add: agrees_def d' write_tasks_below)
  from agrees_fits [OF this] assms(2) have fits: "dish_fits d'" by (simp add: dish_fits_def d')
  have q: "p < ?p" if "p \<in> set (m_taskQueue (taskManager d))" for p
    using assms(2) that by (simp add: dish_fits_def mgr_fits_def)
  have "ready name (List.map ts_name tss) (replicate ?k []) ?sp d'" if ok
  proof -
    from that b2 have t: "tasks s' = [?p ..< ?p + ?k]" by simp
    obtain s0 where s0: "seq_name s0 = name"
      and h: "\<And>i. i < ?k \<Longrightarrow> h' (?p + i) = placed s0 i (build_task env i prio (tss ! i))"
    proof
      show "seq_name ?s = name" by (rule s(2))
      show "h' (?p + i) = placed ?s i (build_task env i prio (tss ! i))" if "i < ?k" for i
        using that \<open>ok\<close> b2 by (simp add: write_tasks_nth build_tasks_nth)
    qed
    have at: "at_position (List.map ts_name tss) (replicate ?k []) (placed s0 i (build_task env i prio (tss ! i)))"
      if "i < ?k" for i
      using that by (simp add: at_position_def)
    have nq: "?p + i \<notin> set (m_taskQueue (taskManager d))" for i using q by fastforce
    from fits b(1) t show ?thesis by (simp add: ready_def Let_def d' at nq h s0)
  qed
  with fits r show ?thesis by auto
qed

lemma cmd_name_times_blank: "times_blank t' = times_blank t \<Longrightarrow> cmd_name t' = cmd_name t"
  by (drule arg_cong [where f = cmd_name]) (simp add: times_blank_def)

lemma set_dependency_spec:
  assumes "set_dependency env i reason deps sp d = (r, d')"
    and "ready name names (replicate (length names) []) sp d"
    and "deps \<noteq> []" and "length deps = length names" and "in_range deps" and "\<not> has_cycle deps"
  shows "r = Returns () \<and> ready name names deps sp d'"
proof -
  let ?m = "taskManager d"
  let ?s = "m_seqs ?m sp"
  from assms(2) have R: "dish_fits d" "sp < next_sequence d" "seq_name ?s = name"
    "length (tasks ?s) = length names" "distinct (tasks ?s)"
    and P: "\<And>i. i < length names \<Longrightarrow> tasks ?s ! i < next_task d \<and> tasks ?s ! i \<notin> set (m_taskQueue ?m) \<and>
      sequence_index (m_tasks ?m (tasks ?s ! i)) = i \<and> sequence_name (m_tasks ?m (tasks ?s ! i)) = name \<and>
      at_position names (replicate (length names) []) (m_tasks ?m (tasks ?s ! i))"
    by (auto simp: ready_def Let_def)
  obtain h' where h': "SetTaskDependency (env_clock env i) deps (m_tasks ?m) ?s =
      Some (0, h', ?s\<lparr>dependency_matrix := deps\<rparr>)"
    "\<And>j. j < length deps \<Longrightarrow> times_blank (h' (tasks ?s ! j)) =
        times_blank (with_deps (deps ! j) (m_tasks ?m (tasks ?s ! j)))"
    "\<And>p. p \<notin> set (tasks ?s) \<Longrightarrow> h' p = m_tasks ?m p"
    using set_task_dependency_accepts [OF assms(3) _ assms(5,6) R(5), of "env_clock env i" "m_tasks ?m"]
      assms(4) R(4) by auto
  from assms(1) h'(1) have r: "r = Returns ()" and
    d': "d' = put_mgr h' sp (?s\<lparr>dependency_matrix := deps\<rparr>) d"
    by (simp_all add: set_dependency_def raise_negative_def)
  have at: "at_position names deps (h' (tasks ?s ! j)) \<and> sequence_index (h' (tasks ?s ! j)) = j \<and>
      sequence_name (h' (tasks ?s ! j)) = name" if "j < length names" for j
  proof -
    from that assms(4) have "times_blank (h' (tasks ?s ! j)) =
        times_blank (with_deps (deps ! j) (m_tasks ?m (tasks ?s ! j)))" by (simp add: h'(2))
    from times_blank_fields [OF this] cmd_name_times_blank [OF this] P [OF that] show ?thesis
      by (simp add: at_position_def with_deps_def)
  qed
  have sep: "tasks (m_seqs ?m sq) = tasks ?s \<or> p \<notin> set (tasks ?s) \<or> \<not> p \<in> {}" for sq p by simp
  have names: "cmd_name (h' p) = cmd_name (m_tasks ?m p)" for p
  proof (cases "p \<in> set (tasks ?s)")
    case True
    then obtain j where j: "j < length names" "p = tasks ?s ! j" using R(4) by (metis in_set_conv_nth)
    from at [OF j(1)] P [OF j(1)] show ?thesis by (simp add: j at_position_def)
  qed (simp add: h'(3))
  have queue: "h' p = m_tasks ?m p" if "p \<in> set (m_taskQueue ?m)" for p
    using that P R(4) h'(3) by (metis in_set_conv_nth)
  have "seq_fits h' (m_seqs (taskManager d') sq) = seq_fits (m_tasks ?m) (m_seqs ?m sq)"
    and "tasks (m_seqs (taskManager d') sq) = tasks (m_seqs ?m sq)" for sq
    by (simp_all add: seq_fits_def names d')
  with R(1) queue have "dish_fits d'" by (simp add: dish_fits_def mgr_fits_def d')
  with r at R P show ?thesis by (simp add: ready_def Let_def d')
qed

lemma queue_sequence_spec:
  assumes "queue_sequence reason sp d = (r, d')" and "ready name names deps sp d"
    and "template name = None \<or> template name = Some (names, deps)"
  shows "dish_fits d'"
proof -
  let ?m = "taskManager d"
  let ?s = "m_seqs ?m sp"
  from assms(2) have R: "dish_fits d" "sp < next_sequence d" "seq_name ?s = name"
    "length (tasks ?s) = length names" "distinct (tasks ?s)"
    and P: "\<And>i. i < length names \<Longrightarrow> tasks ?s ! i < next_task d \<and> tasks ?s ! i \<notin> set (m_taskQueue ?m) \<and>
      sequence_index (m_tasks ?m (tasks ?s ! i)) = i \<and> sequence_name (m_tasks ?m (tasks ?s ! i)) = name \<and>
      at_position names deps (m_tasks ?m (tasks ?s ! i))"
    by (auto simp: ready_def Let_def)
  have "p < next_task d \<and> p \<notin> set (m_taskQueue ?m) \<and> task_fits (m_tasks ?m p)"
    if "p \<in> set (tasks ?s)" for p
  proof -
    from that obtain i where i: "i < length names" "p = tasks ?s ! i" using R(4) by (metis in_set_conv_nth)
    from P [OF i(1)] assms(3) show ?thesis by (auto simp: i(2) task_fits_def)
  qed
  moreover have "seq_fits (m_tasks ?m) ?s"
  proof -
    have "cmd_name (m_tasks ?m (tasks ?s ! i)) = names ! i" if "i < length names" for i
      using P [OF that] by (auto simp: at_position_def)
    then have "List.map (\<lambda>p. cmd_name (m_tasks ?m p)) (tasks ?s) = names"
      by (simp add: list_eq_iff_nth_eq R(4))
    with assms(3) R(3) show ?thesis by (auto simp: seq_fits_def)
  qed
  ultimately have "mgr_fits (next_task d) (next_sequence d) (snd (AddTaskSequence (HasAttribute d) (Some sp) True ?m))"
    using R by (intro add_sequence_fits) (simp_all add: dish_fits_def)
  with assms(1) show ?thesis
    by (auto simp: queue_sequence_def raise_negative_def on_mgr_def dish_fits_def split: prod.splits if_splits)
qed

end
