(* ===== verification/DishSpec.thy ===== *)
theory DishSpec
  imports DishInv LmcDeviceSpec
begin

text \<open>
  Every step of \<open>DishManager\<close> keeps the invariant \<open>dish_fits\<close>. The commands are built from
  \<open>call_then\<close>, so the rules of the collection \<open>fits\<close> follow the structure of the definitions, and a
  command is a matter of unfolding.
\<close>

definition fits_after :: "'a call \<times> 'z lmc_tasks_scheme \<Rightarrow> bool" where
  "fits_after r \<longleftrightarrow> dish_fits (snd r)"

named_theorems fits "rules that reduce the invariant after a command to that after its parts"

lemma fits_pair [fits]: "dish_fits d \<Longrightarrow> fits_after (r, d)"
  by (simp add: fits_after_def)

lemma fits_call_then [fits]:
  "fits_after r \<Longrightarrow> (\<And>x d. dish_fits d \<Longrightarrow> fits_after (f x d)) \<Longrightarrow> fits_after (call_then r f)"
  by (cases r) (auto simp: fits_after_def call_then_def split: call.split)

lemma fits_if [fits]: "(b \<Longrightarrow> fits_after r) \<Longrightarrow> (\<not> b \<Longrightarrow> fits_after s) \<Longrightarrow> fits_after (if b then r else s)"
  by simp

lemma fits_without_reply [fits]: "fits_after r \<Longrightarrow> fits_after (without_reply r)"
  unfolding without_reply_def by (rule fits_call_then) (auto intro: fits_pair)

lemma fits_for_each [fits]:
  "dish_fits d \<Longrightarrow> (\<And>x d. dish_fits d \<Longrightarrow> fits_after (f x d)) \<Longrightarrow> fits_after (for_each f xs d)"
  by (induction xs arbitrary: d) (auto intro: fits)

lemma fits_with_task_data [fits]:
  "dish_fits d \<Longrightarrow> (\<And>td d. dish_fits d \<Longrightarrow> fits_after (f td d)) \<Longrightarrow>
   fits_after (with_task_data env reason argin f d)"
  by (auto simp: with_task_data_def intro: fits split: parse.split)

lemma fits_with_value [fits]:
  "dish_fits d \<Longrightarrow> (\<And>v d. dish_fits d \<Longrightarrow> fits_after (f v d)) \<Longrightarrow> fits_after (with_value reason T td f d)"
  by (auto simp: with_value_def intro!: fits)

lemma fits_cmd_allowed [fits]: "dish_fits d \<Longrightarrow> fits_after (cmd_allowed fcn_name d)"
  by (auto simp: cmd_allowed_def intro: fits split: gate.split)

lemma fits_gated [fits]:
  "dish_fits d \<Longrightarrow> (\<And>d. dish_fits d \<Longrightarrow> fits_after (f d)) \<Longrightarrow> fits_after (gated fcn_name f d)"
  by (auto simp: gated_def intro!: fits)

subsection \<open>Attributes and proxies\<close>

lemma fits_frame:
  "taskManager d' = taskManager d \<Longrightarrow> next_task d' = next_task d \<Longrightarrow> next_sequence d' = next_sequence d \<Longrightarrow>
   dish_fits d' = dish_fits d"
  by (simp add: dish_fits_def)

lemma fits_fields [simp]:
  "dish_fits (d\<lparr>dyn_attrs := as\<rparr>) = dish_fits d"
  "dish_fits (d1\<lparr>dish_sent := es\<rparr>) = dish_fits d1" "dish_fits (d1\<lparr>dish_fault := b\<rparr>) = dish_fits d1"
  by (rule fits_frame; simp)+

lemma fits_attrs: "attrs_only d d' \<Longrightarrow> dish_fits d' = dish_fits d"
  unfolding attrs_only_def using fits_fields(1) by metis

lemma SetDynAttrValue_fits: "SetDynAttrValue w_ok v n d = (r, d') \<Longrightarrow> dish_fits d' = dish_fits d"
  by (auto dest: SetDynAttrValue_attrs fits_attrs)

lemma SetDynAttrValue_strings_fits:
  "SetDynAttrValue_strings wlist_ok vs n d = (r, d') \<Longrightarrow> dish_fits d' = dish_fits d"
  by (rule fits_frame)
    (auto simp: SetDynAttrValue_strings_def SetDynAttrValueInManager_strings_def set_spectrum_def
      split: option.splits if_splits)

lemma fits_set_progress [fits]: "dish_fits d \<Longrightarrow> fits_after (set_progress env reason attr_name msg d)"
  by (auto simp: set_progress_def fits_after_def dest: SetDynAttrValue_strings_fits split: prod.split)

lemma fits_store_band [fits]: "dish_fits d \<Longrightarrow> fits_after (store_requested_band env bandId d)"
  by (auto simp: store_requested_band_def Let_def fits_after_def dest: SetDynAttrValue_fits
      split: prod.split access.split)

lemma fits_exec_cmd [fits]: "dish_fits d \<Longrightarrow> fits_after (ExecCmdOnProxy env name cmd arg adm d)"
  by (auto simp: ExecCmdOnProxy_def fits_after_def split: option.split)

lemma fits_write_attrs [fits]: "dish_fits d \<Longrightarrow> fits_after (WriteSEAttrs env name attr_names v d)"
  by (auto simp: WriteSEAttrs_def intro!: fits split: option.split)

lemma fits_forward [fits]:
  "dish_fits d \<Longrightarrow> fits_after (forward env name cmd arg d)"
  "dish_fits d \<Longrightarrow> fits_after (forward_reply env reason name cmd arg d)"
  by (auto simp: forward_def forward_reply_def intro!: fits)

subsection \<open>The task manager\<close>

lemma fits_on_mgr:
  "dish_fits d \<Longrightarrow> shrinks (taskManager d) (snd (f (taskManager d))) \<Longrightarrow> dish_fits (snd (on_mgr f d))"
  by (auto simp: on_mgr_def dish_fits_def dest: shrinks_fits split: prod.split)

lemma fits_raise_negative [fits]: "dish_fits (snd r) \<Longrightarrow> fits_after (raise_negative reason r)"
  by (simp add: fits_after_def raise_negative_def)

lemma fits_flush [fits]: "dish_fits d \<Longrightarrow> fits_after (flush_task_queue d)"
  unfolding flush_task_queue_def by (intro fits_raise_negative fits_on_mgr flush.op_shrinks)

lemma fits_clear [fits]:
  "dish_fits d \<Longrightarrow> fits_after (clear_tasks now d)" "dish_fits d \<Longrightarrow> fits_after (clear_task_history d)"
  unfolding clear_tasks_def clear_task_history_def
  by (intro fits_raise_negative fits_on_mgr clear_all.op_shrinks clear_sequences.op_shrinks; assumption)+

lemma fits_revoke [fits]:
  "dish_fits d \<Longrightarrow> fits_after (revoke_task name d)"
  "dish_fits d \<Longrightarrow> fits_after (revoke_task_sequence name d)"
  by (auto simp: revoke_task_def revoke_task_sequence_def
      intro!: fits fits_on_mgr revoke_task.op_shrinks revoke_sequence.op_shrinks)

lemma fits_update_status_attr [fits]: "dish_fits d \<Longrightarrow> fits_after (update_status_attr env attr_name d)"
  by (auto simp: update_status_attr_def fits_after_def dest: SetDynAttrValue_strings_fits
      split: list.split prod.split access.split)

lemma fits_update_status_attrs [fits]: "dish_fits d \<Longrightarrow> fits_after (update_status_attrs env d)"
  unfolding update_status_attrs_def by (auto intro!: fits)

subsection \<open>Sequences\<close>

lemma fits_build [fits]: "dish_fits d \<Longrightarrow> fits_after (build_sequence env reason prio tss name sattr d)"
  by (cases "build_sequence env reason prio tss name sattr d") (auto simp: fits_after_def dest: build_sequence_spec)

lemma fits_building:
  assumes "dish_fits d"
    and "\<And>sp d. ready name (List.map ts_name tss) (replicate (length tss) []) sp d \<Longrightarrow> fits_after (f sp d)"
  shows "fits_after (call_then (build_sequence env reason prio tss name sattr d) f)"
proof (cases "build_sequence env reason prio tss name sattr d")
  case (Pair r d1)
  from build_sequence_spec [OF this assms(1)] assms(2) Pair show ?thesis by (auto intro: fits_pair)
qed

lemma fits_dependency:
  assumes "ready name names (replicate (length names) []) sp d"
    and "deps \<noteq> []" and "length deps = length names" and "in_range deps" and "\<not> has_cycle deps"
    and "\<And>d. ready name names deps sp d \<Longrightarrow> fits_after (f () d)"
  shows "fits_after (call_then (set_dependency env i reason deps sp d) f)"
proof (cases "set_dependency env i reason deps sp d")
  case (Pair r d1)
  from set_dependency_spec [OF this assms(1-5)] assms(6) Pair show ?thesis by auto
qed

lemma ready_fits: "ready name names deps sp d \<Longrightarrow> dish_fits d"
  by (simp add: ready_def)

lemma fits_queue:
  "ready name names deps sp d \<Longrightarrow> template name = None \<or> template name = Some (names, deps) \<Longrightarrow>
   fits_after (queue_sequence reason sp d)"
  by (cases "queue_sequence reason sp d") (auto simp: fits_after_def dest: queue_sequence_spec)

text \<open>What comes between the building and the queueing keeps the sequence ready.\<close>

lemma ready_frame:
  "taskManager d' = taskManager d \<Longrightarrow> next_task d' = next_task d \<Longrightarrow> next_sequence d' = next_sequence d \<Longrightarrow>
   ready name names deps sp d' = ready name names deps sp d"
  by (simp add: ready_def dish_fits_def)

lemma ready_flush:
  assumes "ready name names deps sp d" and "flush_task_queue d = (r, d')"
  shows "r = Returns () \<and> ready name names deps sp d'"
proof -
  from assms(2) have d': "d' = d\<lparr>taskManager := snd (FlushQueue (taskManager d))\<rparr>" and r: "r = Returns ()"
    by (auto simp: flush_task_queue_def raise_negative_def on_mgr_def FlushQueue_def split: prod.splits if_splits)
  from assms(2) fits_flush [OF ready_fits [OF assms(1)]] have "dish_fits d'" by (simp add: fits_after_def)
  with assms(1) r show ?thesis by (simp add: ready_def Let_def d' FlushQueue_def)
qed

lemma ready_set_progress:
  assumes "ready name names deps sp d" and "set_progress env reason attr_name msg d = (r, d')"
  shows "ready name names deps sp d'"
proof -
  have "SetDynAttrValue_strings wlist_ok vs n d = (r', d') \<Longrightarrow>
      taskManager d' = taskManager d \<and> next_task d' = next_task d \<and> next_sequence d' = next_sequence d"
    for wlist_ok vs n r'
    by (auto simp: SetDynAttrValue_strings_def SetDynAttrValueInManager_strings_def set_spectrum_def
        split: option.splits if_splits)
  with assms(2) have "taskManager d' = taskManager d \<and> next_task d' = next_task d \<and> next_sequence d' = next_sequence d"
    by (auto simp: set_progress_def split: prod.splits)
  with assms(1) ready_frame [of d' d] show ?thesis by simp
qed

lemma fits_flushing:
  assumes "ready name names deps sp d" and "\<And>d. ready name names deps sp d \<Longrightarrow> fits_after (f () d)"
  shows "fits_after (call_then (flush_task_queue d) f)"
  using assms(2) ready_flush [OF assms(1)] by (cases "flush_task_queue d") simp

lemma fits_aborting_flush:
  assumes "ready name names deps sp d" and "\<And>d. ready name names deps sp d \<Longrightarrow> fits_after (f () d)"
  shows "fits_after (call_then (aborting env attr_name msg (flush_task_queue d)) f)"
  using assms(2) ready_flush [OF assms(1)] by (cases "flush_task_queue d") (simp add: aborting_def)

lemma fits_progress:
  assumes "ready name names deps sp d" and "\<And>d. ready name names deps sp d \<Longrightarrow> fits_after (f () d)"
  shows "fits_after (call_then (set_progress env reason attr_name msg d) f)"
proof (cases "set_progress env reason attr_name msg d")
  case (Pair r d1)
  from ready_set_progress [OF assms(1) this] assms(2) show ?thesis
    by (cases r) (auto simp: Pair intro: fits_pair ready_fits)
qed

lemma fits_aborting [fits]: "fits_after r \<Longrightarrow> fits_after (aborting env attr_name msg r)"
  by (cases r)
    (auto simp: aborting_def fits_after_def dest: SetDynAttrValue_strings_fits split: call.split access.split prod.split)

lemma fits_schedule:
  "template name = None \<Longrightarrow> dish_fits d \<Longrightarrow> fits_after (schedule_sequence env reason prio tss name progress started d)"
  unfolding schedule_sequence_def
  by (rule fits_building, assumption) (blast intro: fits_call_then fits_queue fits_set_progress)

subsection \<open>Tasks queued on an event\<close>

lemma template_chained: "name \<notin> set chained_sequences \<Longrightarrow> template name = None"
  by (simp add: template_def chained_sequences_def)

text \<open>A sequence of one task whose name has no template.\<close>

lemma fits_single:
  assumes "dish_fits d" and "template name = None"
    and "s0 = TaskSequence_new u clk name False"
    and "AddTask (Some (next_task d)) ((m_tasks (taskManager d))(next_task d := t)) s0 = (r, h, s)"
    and "d1 = (put_mgr h (next_sequence d) s d)\<lparr>next_task := Suc (next_task d), next_sequence := Suc (next_sequence d)\<rparr>"
  shows "dish_fits d1" and "dish_fits (snd (on_mgr (AddTaskSequence has_attr (Some (next_sequence d)) b) d1))"
proof -
  let ?p = "next_task d" and ?sp = "next_sequence d"
  from assms(3) have s0: "seq_name s0 = name" "tasks s0 = []" by (simp_all add: TaskSequence_new_def)
  from assms(4) s0 have h: "\<forall>p. p \<noteq> ?p \<longrightarrow> h p = m_tasks (taskManager d) p" and s: "seq_name s = name"
    and t: "tasks s = [] \<or> tasks s = [?p] \<and> sequence_name (h ?p) = name"
    by (auto simp: AddTask_def Let_def update_task_def split: if_splits)
  have "agrees ?p ?sp (taskManager d) (taskManager d1)"
    using h by (simp add: agrees_def assms(5))
  from agrees_fits [OF this] assms(1) show fits: "dish_fits d1" by (simp add: dish_fits_def assms(5))
  from assms(1) have q: "?p \<notin> set (m_taskQueue (taskManager d))" by (auto simp: dish_fits_def mgr_fits_def)
  have "mgr_fits (next_task d1) (next_sequence d1)
      (snd (AddTaskSequence has_attr (Some ?sp) b (taskManager d1)))"
    using fits t s q assms(2)
    by (intro add_sequence_fits) (auto simp: dish_fits_def assms(5) task_fits_def seq_fits_def)
  then show "dish_fits (snd (on_mgr (AddTaskSequence has_attr (Some ?sp) b) d1))"
    by (auto simp: on_mgr_def dish_fits_def split: prod.split)
qed

lemma queue_event_handler_fits:
  assumes "dish_fits d" and "template (eh_name eh) = None" and "queue_event_handler env v eh d = (r, d')"
  shows "dish_fits d'"
proof -
  obtain argin ty fmt where v: "v = (argin, ty, fmt)" by (cases v)
  let ?clk = "env_clock env 0"
  let ?t = "SetTaskArgin argin ty fmt (Task_new ?clk (env_uuid env 0) True (eh_name eh) (eh_priority eh) False)"
  let ?d1 = "\<lambda>h s. (put_mgr h (next_sequence d) s d)
      \<lparr>next_task := Suc (next_task d), next_sequence := Suc (next_sequence d)\<rparr>"
  obtain r1 t where t: "(if 0 < eh_execution_delay eh
      then SetTimeDelayAndDuration (\<lambda>n. ?clk (n + 2)) (eh_execution_delay eh) (defaultTaskTimeout d * 1000)
             eTIME_NOW empty_unix ?t
      else (0, ?t)) = (r1, t)" by fastforce
  obtain r2 h s where a: "AddTask (Some (next_task d)) ((m_tasks (taskManager d))(next_task d := t))
      (TaskSequence_new (env_uuid env 1) (env_clock env 1 0) (eh_name eh) False) = (r2, h, s)"
    by (cases "AddTask (Some (next_task d)) ((m_tasks (taskManager d))(next_task d := t))
      (TaskSequence_new (env_uuid env 1) (env_clock env 1 0) (eh_name eh) False)") auto
  note F = fits_single [OF assms(1,2) refl a refl]
  from assms(3) consider "d' = d" | "d' = ?d1 h s"
    | "d' = snd (on_mgr (AddTaskSequence (HasAttribute (?d1 h s)) (Some (next_sequence d)) True) (?d1 h s))"
    unfolding queue_event_handler_def Let_def v prod.case t a
    by (cases "r1 < 0"; cases "r2 < 0") (simp_all split: prod.splits)
  then show ?thesis by cases (use assms(1) F in simp_all)
qed

lemma queue_event_handlers_fits:
  "queue_event_handlers envs v ehs st d = (r, d') \<Longrightarrow> dish_fits d \<Longrightarrow>
   \<forall>eh\<in>set ehs. template (eh_name eh) = None \<Longrightarrow> dish_fits d'"
proof (induction ehs arbitrary: envs st d)
  case (Cons eh ehs)
  obtain r1 d1 where 1: "queue_event_handler (envs 0) v eh d = (r1, d1)" by fastforce
  with Cons.prems have "dish_fits d1" by (auto intro: queue_event_handler_fits)
  with Cons.prems 1 show ?case by (auto intro: Cons.IH)
qed simp

subsection \<open>Commands\<close>

lemma fits_case_call [fits]:
  "(\<And>x. r = Returns x \<Longrightarrow> fits_after (f x)) \<Longrightarrow> (\<And>e. r = Raises e \<Longrightarrow> fits_after (g e)) \<Longrightarrow>
   (r = Throws \<Longrightarrow> fits_after t) \<Longrightarrow> (r = Crashes \<Longrightarrow> fits_after c) \<Longrightarrow>
   fits_after (case r of Returns x \<Rightarrow> f x | Raises e \<Rightarrow> g e | Throws \<Rightarrow> t | Crashes \<Rightarrow> c)"
  by (cases r) simp_all

lemmas forwarder_defs =
  set_rx_standby_lpmode_def set_rx_standby_fpmode_def set_rx_maintenance_mode_def shutdown_rxpu_def
  power_off_rxpu_def power_on_rxpu_def shutdown_spfc_def power_off_spfc_def power_on_spfc_def
  set_dsmaintenance_mode_def restart_spfcomponents_def enable_rx_engineering_mode_def
  configure_rx_attenuation_def set_spfstandby_lpmode_def set_spfoperate_mode_def
  set_spfmaintenance_mode_def set_dsstandby_lpmode_def set_dsstandby_fpmode_def set_dspoint_mode_def
  set_dsstow_mode_def shorts_reply_def set_spffeed_mode_def send_spffeed_command_def
  configure_rx_band_def configure_rx_band_async_def configure_and_synchronise_rx_band_def capture_def
  start_capture_def stop_capture_def synchronise_def set_indexer_position_def set_spflna_power_def
  set_spflna_power_off_def set_spflna_power_on_def set_spfband_in_focus_def

lemma forward_commands_fit:
  assumes "(name, f) \<in> set (forward_commands env)" and "dish_fits d"
  shows "fits_after (f d)"
  using assms by (auto simp: forward_commands_def forwarder_defs intro!: fits)

lemmas task_command_defs =
  set_indexer_position_task_def set_rx_standby_lpmode_task_def set_rx_standby_fpmode_task_def
  set_rx_maintenance_mode_task_def configure_rx_band_task_def start_rx_capture_task_def
  synchronise_rx_band_task_def shutdown_rxputask_def power_off_rxputask_def power_on_rxputask_def
  set_spfstandby_lpmode_task_def set_spfoperate_mode_task_def set_spfmaintenance_mode_task_def
  set_spflna_power_on_task_def set_spfband_in_focus_task_def shutdown_spfctask_def
  power_off_spfctask_def power_on_spfctask_def set_dsstandby_lpmode_task_def
  set_dsstandby_fpmode_task_def set_dspoint_mode_task_def set_dsstow_mode_task_def
  set_dsmaintenance_mode_task_def

lemma task_commands_fit:
  assumes "(name, f) \<in> set (task_commands env argin)" and "dish_fits d"
  shows "fits_after (f d)"
  using assms by (auto simp: task_commands_def task_command_defs forwarder_defs Let_def intro!: fits)

lemma fits_spf_band_in_focus [fits]: "dish_fits d \<Longrightarrow> fits_after (set_spfband_in_focus env w d)"
  by (auto simp: set_spfband_in_focus_def intro!: fits)

subsection \<open>Commands that queue a sequence\<close>

text \<open>A sequence with dependencies, as its template has it.\<close>

lemma fits_chained:
  fixes d :: "'z lmc_tasks_scheme"
  assumes "template name = Some (List.map ts_name tss, deps)" and "dish_fits d"
    and "deps \<noteq> []" and "length deps = length tss" and "in_range deps" and "\<not> has_cycle deps"
    and "\<And>x d. dish_fits d \<Longrightarrow> fits_after (f x d)"
  shows "fits_after (call_then (build_sequence env reason prio tss name sattr d) (\<lambda>sp d1.
           call_then (set_dependency env i reason1 deps sp d1) (\<lambda>_ d2.
           call_then (queue_sequence reason2 sp d2) f)))"
proof (rule fits_building [OF assms(2)])
  fix sp and d1 :: "'z lmc_tasks_scheme"
  assume "ready name (List.map ts_name tss) (replicate (length tss) []) sp d1"
  then have R: "ready name (List.map ts_name tss) (replicate (length (List.map ts_name tss)) []) sp d1" by simp
  have "fits_after (call_then (queue_sequence reason2 sp d2) f)"
    if "ready name (List.map ts_name tss) deps sp d2" for d2 :: "'z lmc_tasks_scheme"
    using that assms(1,7) by (blast intro: fits_call_then fits_queue)
  then show "fits_after (call_then (set_dependency env i reason1 deps sp d1)
      (\<lambda>_ d2. call_then (queue_sequence reason2 sp d2) f))"
    using assms(3-6) by (intro fits_dependency [OF R]) simp_all
qed

lemma matrices_in_range: "in_range band_matrix" "in_range power_cut_matrix" "in_range [[], [0]]"
  by (simp_all add: in_range_def band_matrix_def power_cut_matrix_def)

text \<open>The check that the code makes decides that there is no cycle.\<close>

lemma acyclic_by_check:
  "in_range dep \<Longrightarrow> HasCyclicDependencies (length dep) dep = Some False \<Longrightarrow> \<not> has_cycle dep"
  using has_cyclic_dependencies_iff [of dep] by (cases "dep = []") (auto simp: has_cycle_def dep_rel_def)

lemma matrices_acyclic: "\<not> has_cycle band_matrix" "\<not> has_cycle power_cut_matrix" "\<not> has_cycle [[], [0]]"
  by (rule acyclic_by_check, rule matrices_in_range, code_simp)+

lemmas matrices_ok = matrices_in_range matrices_acyclic

lemma template_configure_band:
  "template ''ConfigureBand'' = Some (List.map ts_name (band_tasks env bandId d), band_matrix)"
  by (simp add: template_def band_names_def band_tasks_def synch_task_def asynch_task_def)

lemma template_spf_operational:
  "template ''SetSPFOperational'' = Some (List.map ts_name (spf_operational_tasks env argin d), [[], [0]])"
  by (simp add: template_def spf_operational_tasks_def synch_task_def asynch_task_def)

lemma template_power_cut:
  "template ''ShutdownOnPowerCut'' = Some (List.map ts_name (power_cut_tasks d), power_cut_matrix)"
  by (simp add: template_def power_cut_names_def power_cut_tasks_def synch_task_def asynch_task_def delayed_task_def)

lemma fits_band_ongoing [fits]: "dish_fits d \<Longrightarrow> fits_after (band_ongoing d)"
  by (auto simp: band_ongoing_def intro!: fits)

lemma fits_configure_band [fits]: "dish_fits d \<Longrightarrow> fits_after (ConfigureBand env bandId ts d)"
  unfolding ConfigureBand_def Let_def
  by (intro fits_chained [OF template_configure_band] matrices_ok fits)
    (simp_all add: band_matrix_def band_tasks_def)

lemma fits_spf_operational [fits]: "dish_fits d \<Longrightarrow> fits_after (set_spfoperational env argin d)"
  unfolding set_spfoperational_def Let_def
  by (intro fits_chained [OF template_spf_operational] matrices_ok fits) (simp_all add: spf_operational_tasks_def)

lemma fits_progress_ongoing [fits]: "dish_fits d \<Longrightarrow> fits_after (progress_ongoing reason attr_name d)"
  by (auto simp: progress_ongoing_def intro!: fits)

lemma fits_mode_command [fits]:
  "template (mc_sequence c) = None \<Longrightarrow> dish_fits d \<Longrightarrow> fits_after (mode_command env c guard tss d)"
  by (auto simp: mode_command_def intro!: fits fits_schedule)

lemma fits_modes [fits]:
  "dish_fits d \<Longrightarrow> fits_after (dish_set_standby_lpmode env d)"
  "dish_fits d \<Longrightarrow> fits_after (dish_set_standby_fpmode env d)"
  "dish_fits d \<Longrightarrow> fits_after (set_operate_mode env d)"
  "dish_fits d \<Longrightarrow> fits_after (dish_set_maintenance_mode env d)"
  "dish_fits d \<Longrightarrow> fits_after (set_stow_mode env d)"
  unfolding dish_set_standby_lpmode_def dish_set_standby_fpmode_def set_operate_mode_def dish_set_maintenance_mode_def
    set_stow_mode_def
  by (rule fits_mode_command;
      simp add: template_def lp_spec_def fp_spec_def operate_spec_def maintenance_spec_def stow_spec_def)+

subsection \<open>Event handlers\<close>

lemma fits_queries [fits]:
  "dish_fits d \<Longrightarrow> fits_after (handler_enabled reason attr_name d)"
  "dish_fits d \<Longrightarrow> fits_after (enum_label reason attr_name d)"
  by (auto simp: handler_enabled_def enum_label_def intro!: fits)

text \<open>The sequences before which the queue is flushed.\<close>

lemma fits_flushed:
  fixes d :: "'z lmc_tasks_scheme"
  assumes "template name = None" and "dish_fits d" and "\<And>x d. dish_fits d \<Longrightarrow> fits_after (f x d)"
  shows "fits_after (call_then (build_sequence env reason prio tss name sattr d) (\<lambda>sp d1.
           call_then (flush_task_queue d1) (\<lambda>_ d2. call_then (queue_sequence reason1 sp d2) f)))"
proof (rule fits_building [OF assms(2)])
  fix sp and d1 :: "'z lmc_tasks_scheme"
  assume R: "ready name (List.map ts_name tss) (replicate (length tss) []) sp d1"
  show "fits_after (call_then (flush_task_queue d1) (\<lambda>_ d2. call_then (queue_sequence reason1 sp d2) f))"
    by (rule fits_flushing [OF R]) (use assms(1,3) in \<open>blast intro: fits_call_then fits_queue\<close>)
qed

lemma fits_estop_action [fits]: "dish_fits d \<Longrightarrow> fits_after (estop_action env d)"
  unfolding estop_action_def Let_def by (intro fits_flushed fits) (simp_all add: template_def)

lemma fits_power_cut_sequence:
  fixes d :: dish
  assumes "template name = Some (List.map ts_name tss, deps)" and "dish_fits d"
    and "deps \<noteq> []" and "length deps = length tss" and "in_range deps" and "\<not> has_cycle deps"
    and "\<And>x d. dish_fits d \<Longrightarrow> fits_after (f x d)"
  shows "fits_after (call_then (build_sequence env reason prio tss name sattr d) (\<lambda>sp d1.
           call_then (set_dependency env i reason1 deps sp d1) (\<lambda>_ d2.
           call_then (set_progress env reason2 progress started d2) (\<lambda>_ d3.
           call_then (aborting env progress msg (flush_task_queue d3)) (\<lambda>_ d4.
           call_then (aborting env progress msg (queue_sequence reason3 sp d4)) f)))))"
proof (rule fits_building [OF assms(2)])
  fix sp and d1 :: dish
  let ?ready = "ready name (List.map ts_name tss) deps sp"
  assume "ready name (List.map ts_name tss) (replicate (length tss) []) sp d1"
  then have R: "ready name (List.map ts_name tss) (replicate (length (List.map ts_name tss)) []) sp d1" by simp
  have 1: "fits_after (call_then (aborting env progress msg (queue_sequence reason3 sp d)) f)" if "?ready d" for d
    using that assms(1,7) by (blast intro: fits_call_then fits_aborting fits_queue)
  have 2: "fits_after (call_then (aborting env progress msg (flush_task_queue d))
      (\<lambda>_ d. call_then (aborting env progress msg (queue_sequence reason3 sp d)) f))" if "?ready d" for d
    by (rule fits_aborting_flush [OF that 1])
  show "fits_after (call_then (set_dependency env i reason1 deps sp d1) (\<lambda>_ d2.
      call_then (set_progress env reason2 progress started d2) (\<lambda>_ d3.
      call_then (aborting env progress msg (flush_task_queue d3)) (\<lambda>_ d4.
      call_then (aborting env progress msg (queue_sequence reason3 sp d4)) f))))"
    using assms(3-6) by (intro fits_dependency [OF R] fits_progress 2) simp_all
qed

lemma fits_power_cut_action [fits]: "dish_fits d \<Longrightarrow> fits_after (power_cut_action env d)"
  unfolding power_cut_action_def Let_def
  by (intro fits_power_cut_sequence [OF template_power_cut] matrices_ok fits)
    (simp_all add: power_cut_tasks_def power_cut_matrix_def)

lemma fits_power_restore_action [fits]: "dish_fits d \<Longrightarrow> fits_after (power_restore_action env d)"
  unfolding power_restore_action_def Let_def by (intro fits_schedule fits) (simp_all add: template_def)

lemma fits_on_band_error [fits]: "dish_fits d \<Longrightarrow> fits_after (set_standby_fpmode_on_band_error env d)"
  unfolding set_standby_fpmode_on_band_error_def Let_def
  by (intro fits_schedule fits) (simp_all add: template_def)

lemma fits_reset_progress [fits]: "dish_fits d \<Longrightarrow> fits_after (reset_progress env attr_names d)"
  by (auto simp: reset_progress_def intro!: fits)

lemma fits_reset [fits]:
  "dish_fits d \<Longrightarrow> fits_after (reset_dish_mode env d)"
  "dish_fits d \<Longrightarrow> fits_after (reset_dish_tasks env d)"
  by (auto simp: reset_dish_mode_def reset_dish_tasks_def intro!: fits)

lemma fits_tmcomm_loss [fits]: "dish_fits d \<Longrightarrow> fits_after (handle_tmcomm_loss_event env d)"
  by (auto simp: handle_tmcomm_loss_event_def set_dsstow_mode_def intro!: fits)

lemma fits_events [fits]:
  "dish_fits d \<Longrightarrow> fits_after (handle_estop_event env argin d)"
  "dish_fits d \<Longrightarrow> fits_after (handle_power_cut_event env argin d)"
  "dish_fits d \<Longrightarrow> fits_after (handle_power_restore_event env argin d)"
  "dish_fits d \<Longrightarrow> fits_after (handle_band_in_focus_event env argin d)"
  "dish_fits d \<Longrightarrow> fits_after (handle_band_functional_error_event env argin d)"
  unfolding handle_estop_event_def handle_power_cut_event_def handle_power_restore_event_def
    handle_band_in_focus_event_def handle_band_functional_error_event_def Let_def
  by (auto intro!: fits)

lemma fits_write_case [fits]:
  "dish_fits d \<Longrightarrow> fits_after (case SetDynAttrValue w_ok v n d of (r, d1) \<Rightarrow> (g r, d1))"
  by (auto simp: fits_after_def dest: SetDynAttrValue_fits split: prod.split)

lemma fits_tmproxy [fits]: "dish_fits d \<Longrightarrow> fits_after (set_tmproxy_address env argin d)"
  unfolding set_tmproxy_address_def Let_def
  by (intro fits)

lemma mode_commands_fit:
  assumes "(name, f) \<in> set (mode_commands env argin)" and "dish_fits d"
  shows "fits_after (f d)"
  using assms
  by (auto simp: mode_commands_def configure_band1_def configure_band2_def configure_band3_def
      configure_band4_def configure_band5a_def configure_band5b_def flush_command_queue_def intro!: fits)

lemma inherited_commands_fit:
  assumes "(name, f) \<in> set (inherited_commands env argin now)" and "dish_fits d"
  shows "fits_after (f d)"
  using assms by (auto simp: inherited_commands_def intro!: fits)

lemma argument_commands_fit:
  assumes "(name, f) \<in> set (argument_commands env w x b ws)" and "dish_fits d"
  shows "fits_after (f d)"
  using assms
  by (auto simp: argument_commands_def forwarder_defs Let_def intro!: fits split: list.split)

lemma fits_execute_command [fits]: "dish_fits d \<Longrightarrow> fits_after (dish_execute_command env now name argin d)"
  unfolding dish_execute_command_def
  by (auto split: option.split intro!: fits_pair dest!: map_of_SomeD
      dest: mode_commands_fit task_commands_fit forward_commands_fit inherited_commands_fit)

subsection \<open>Steps\<close>

lemma fits_run_task [fits]: "dish_fits d \<Longrightarrow> fits_after (Task_Run env now t d)"
  by (auto simp: Task_Run_def intro!: fits split: option.split)

lemma task_turn_fits:
  assumes "task_turn env now tms d = (r, d')" and "dish_fits d"
  shows "dish_fits d'"
proof -
  obtain pr m where pop: "PopTask tms (taskManager d) = (pr, m)" by fastforce
  have d1: "dish_fits (d\<lparr>taskManager := m\<rparr>)"
    using assms(2) shrinks_pop [of "taskManager d" tms] pop by (auto simp: dish_fits_def dest: shrinks_fits)
  show ?thesis
  proof (cases pr)
    case (Popped t)
    obtain r1 d2 where run: "Task_Run env now t (d\<lparr>taskManager := m\<rparr>) = (r1, d2)" by fastforce
    with fits_run_task [OF d1, of env now t] have d2: "dish_fits d2" by (simp add: fits_after_def)
    have "dish_fits (d2\<lparr>taskManager := snd (ExecuteTask (lmc_name d2) oc t (taskManager d2))\<rparr>)" for oc
      using d2 shrinks_fits [OF execute.op_shrinks] by (simp add: dish_fits_def)
    with d2 assms(1) show ?thesis
      by (auto simp: task_turn_def thread_turn_def pop Popped run split: option.splits)
  qed (use assms(1) d1 in \<open>auto simp: task_turn_def thread_turn_def pop\<close>)
qed

lemma set_asynch_fits:
  "on_mgr (mgr_SetAsynchTaskStatus attr st info) d = (r, d') \<Longrightarrow> dish_fits d \<Longrightarrow> dish_fits d'"
  using fits_on_mgr [where d = d and f = "mgr_SetAsynchTaskStatus attr st info", OF _ set_asynch_status.op_shrinks]
  by simp

lemma UpdateAsynchTaskStatus_fits:
  "UpdateAsynchTaskStatus attr_name d = (r, d') \<Longrightarrow> dish_fits d \<Longrightarrow> dish_fits d'"
  by (auto simp: UpdateAsynchTaskStatus_def dest: set_asynch_fits
      split: if_splits option.splits access.splits list.splits prod.splits)

lemma progress_event_fits:
  assumes "progress_event env attr_name vs d = (r, d')" and "dish_fits d"
  shows "dish_fits d'"
proof -
  obtain r1 d1 where 1: "SetDynAttrValue_strings (env_wlist_ok env) vs attr_name d = (r1, d1)" by fastforce
  obtain r2 d2 where 2: "UpdateAsynchTaskStatus attr_name d1 = (r2, d2)" by fastforce
  from 1 assms(2) have "dish_fits d1" by (simp add: SetDynAttrValue_strings_fits)
  moreover with 2 have "dish_fits d2" by (rule UpdateAsynchTaskStatus_fits)
  ultimately show ?thesis
    using assms(1) 1 2 by (cases r2; auto simp: progress_event_def without_reply_def split: access.splits)
qed

lemma scalar_event_fits: "scalar_event env attr_name v d = (r, d') \<Longrightarrow> dish_fits d \<Longrightarrow> dish_fits d'"
  by (auto simp: scalar_event_def dest: SetDynAttrValue_fits split: prod.splits access.splits)

lemma fits_proxy_status: "dish_fits d \<Longrightarrow> fits_after (HandleProxyRunStatusInfo env name st d)"
  unfolding HandleProxyRunStatusInfo_def HandleTMProxyRunStatusInfo_def
  using fits_tmcomm_loss [of d env]
  by (auto intro!: fits_call_then fits_pair simp: fits_after_def split: access.split prod.split call.split)

lemma dish_step_fits: "dish_step d d' \<Longrightarrow> dish_fits d \<Longrightarrow> dish_fits d'"
proof (induction rule: dish_step.induct)
  case (Dish_Command env now name argin d r d')
  with fits_execute_command [of d env now name argin] show ?case by (simp add: fits_after_def)
next
  case (Dish_Argument env w x b ws name f d r d')
  with argument_commands_fit [OF map_of_SomeD] show ?case by (fastforce simp: fits_after_def)
next
  case (Dish_Thread env now tms d r d')
  then show ?case by (blast intro: task_turn_fits)
next
  case (Dish_Resume d)
  then show ?case using shrinks_fits [OF pop_resume.op_shrinks] by (simp add: thread_resume_def dish_fits_def)
next
  case (Dish_Event envs evt_handlers event_value d n d')
  then show ?case
    by (auto simp: ExecuteEventCmdHandlers_def intro: queue_event_handlers_fits template_chained
        split: if_splits option.splits)
next
  case (Dish_Proxy env proxy_name st d rn d')
  with fits_proxy_status [of d env proxy_name st] show ?case by (simp add: fits_after_def)
qed (auto intro: progress_event_fits scalar_event_fits)

lemma dish_reachable_fits: "dish_reachable d0 d \<Longrightarrow> dish_fits d0 \<Longrightarrow> dish_fits d"
  by (induction rule: dish_reachable.induct) (auto intro: dish_step_fits)

end
