(* ===== verification/DishVerdict.thy ===== *)
theory DishVerdict
  imports DishSpec LmcRulesSpec
begin

text \<open>
  What the invariant and the structure of the commands of \<open>DishManager\<close> give: the order of the tasks of a
  sequence, the locking of a command by its progress attribute, the rules in front of the commands, what
  a configuration of a band and an emergency stop leave behind.
\<close>

subsection \<open>The order of the tasks of a sequence\<close>

text \<open>What must have been completed: a sequence, a task of it and the task before it.\<close>

definition comes_after :: "(string \<times> string \<times> string) list" where
  "comes_after =
     [(''ConfigureBand'', ''SynchroniseRxBandTask'', ''ConfigureRxBandTask''),
      (''ConfigureBand'', ''SetSPFLnaPowerOnTask'', ''SetIndexerPositionTask''),
      (''ConfigureBand'', ''SetSPFBandInFocusTask'', ''SetIndexerPositionTask''),
      (''ShutdownOnPowerCut'', ''ShutdownRXPUTask'', ''SetRxStandbyLPModeTask''),
      (''ShutdownOnPowerCut'', ''PowerOffRXPUTask'', ''ShutdownRXPUTask''),
      (''ShutdownOnPowerCut'', ''ShutdownSPFCTask'', ''SetSPFStandbyLPModeTask''),
      (''ShutdownOnPowerCut'', ''PowerOffSPFCTask'', ''ShutdownSPFCTask''),
      (''SetSPFOperational'', ''SetSPFLnaPowerOnTask'', ''SetSPFOperateModeTask'')]"

lemma popped_position:
  assumes "mgr_fits n k m" and "PopTask tms m = (Popped t, m')"
    and "template (sequence_name t) = Some (names, deps)"
  shows "\<exists>i<length names. cmd_name t = names ! i \<and>
    (\<forall>j\<in>set (deps ! i). \<exists>sp\<in>set (m_taskSequences m'). \<exists>p\<in>set (tasks (m_seqs m' sp)).
       MatchTaskSequenceByIdAndName (sequence_id t) (sequence_name t) (m_seqs m' sp) \<and>
       cmd_name (m_tasks m' p) = names ! j \<and> status (m_tasks m' p) = eCOMPLETED)"
proof -
  from assms(1) have dist: "distinct (m_taskQueue m)" by (simp add: mgr_fits_def)
  have sh: "shrinks m m'" using shrinks_pop [of m tms] assms(2) by simp
  from pop_task_popped [OF assms(2) dist] obtain p tm where
    p: "p \<in> set (m_taskQueue m)" "t = m_tasks m' p" "is_sequence_task_runnable (Some p) m'" by blast
  from sh have "static_task (m_tasks m' p) = static_task (m_tasks m p)" by (simp add: shrinks_def same_static_def)
  with assms(1) p(1) have "task_fits (m_tasks m' p)"
    using task_fits_static [of "m_tasks m' p" "m_tasks m p"] by (simp add: mgr_fits_def)
  with assms(3) p(2) have at: "at_position names deps t" by (simp add: task_fits_def)
  from shrinks_fits [OF sh assms(1)] have fits: "mgr_fits n k m'" .
  have "\<exists>sp\<in>set (m_taskSequences m'). \<exists>q\<in>set (tasks (m_seqs m' sp)).
       MatchTaskSequenceByIdAndName (sequence_id t) (sequence_name t) (m_seqs m' sp) \<and>
       cmd_name (m_tasks m' q) = names ! j \<and> status (m_tasks m' q) = eCOMPLETED"
    if j: "j \<in> set (deps ! sequence_index t)" for j
  proof -
    from at j have "is_in_sequence t" "depend_on_sequence_tasks t" "j \<in> set (dep_task_seq_indexes t)"
      by (auto simp: at_position_def)
    with sequence_task_runnable_deps [OF p(3), of j] obtain sp where
      sp: "find_task_sequence (sequence_id t) (sequence_name t) m' = Some sp" "j < length (tasks (m_seqs m' sp))"
      "status (m_tasks m' (tasks (m_seqs m' sp) ! j)) = eCOMPLETED" by (auto simp: p(2))
    from sp(1) have s: "sp \<in> set (m_taskSequences m')"
      "MatchTaskSequenceByIdAndName (sequence_id t) (sequence_name t) (m_seqs m' sp)"
      by (auto simp: find_task_sequence_def dest: find_index_bound find_index_hit)
    then have "seq_name (m_seqs m' sp) = sequence_name t" by (simp add: MatchTaskSequenceByIdAndName_def)
    with fits s(1) assms(3) have "List.map (\<lambda>p. cmd_name (m_tasks m' p)) (tasks (m_seqs m' sp)) = names"
      by (auto simp: mgr_fits_def seq_fits_def)
    with sp(2) have "cmd_name (m_tasks m' (tasks (m_seqs m' sp) ! j)) = names ! j" by (metis nth_map)
    with s sp(2,3) show ?thesis by (meson nth_mem)
  qed
  with at show ?thesis by (auto simp: at_position_def)
qed

lemma comes_after_template:
  assumes "(sq, name, before) \<in> set comes_after"
  shows "\<exists>names deps. template sq = Some (names, deps) \<and>
    (\<forall>i<length names. names ! i = name \<longrightarrow> (\<exists>j\<in>set (deps ! i). names ! j = before))"
proof -
  have "list_all (\<lambda>(sq, name, before).
      case template sq of
        None \<Rightarrow> False
      | Some (names, deps) \<Rightarrow>
          list_all (\<lambda>i. names ! i = name \<longrightarrow> list_ex (\<lambda>j. names ! j = before) (deps ! i)) [0..<length names])
    comes_after"
    by code_simp
  with assms show ?thesis by (fastforce simp: list_all_iff list_ex_iff split: option.splits)
qed

subsection \<open>The rules\<close>

definition add_dish_rule :: "string \<times> string list \<Rightarrow> dish \<Rightarrow> dish access" where
  "add_dish_rule x = AddCmdRule TString (fst x) ''dishMode'' (List.map VString (snd x)) True"

interpretation dish_reg: registration add_dish_rule "\<lambda>d (c, a). cmd_rule d c a"
    "\<lambda>x. (fst x, ''dishMode'')" label_rule
    "\<lambda>x d. rules_ok (rules d) \<and> fst x \<in> set (dev_commands d) \<and> is_scalar_attr ''dishMode'' d"
    base_frame
proof (unfold_locales, goal_cases)
  case (1 x d)
  then show ?case
    using AddCmdRule_Got [of d True "fst x" "''dishMode''" TString "List.map VString (snd x)"]
    by (auto simp: add_dish_rule_def label_rule_def base_frame_def is_scalar_attr_def)
qed

definition dish_rules_ready :: "dish \<Rightarrow> bool" where
  "dish_rules_ready d \<longleftrightarrow> rules d = RuleFactory_Instance \<and> is_scalar_attr ''dishMode'' d \<and>
     (\<forall>x\<in>set dish_mode_rules. fst x \<in> set (dev_commands d))"

definition dish_ruled :: "rule_factory \<Rightarrow> bool" where
  "dish_ruled r \<longleftrightarrow> rules_ok r \<and>
     (\<forall>c a. bi_lookup (cmdRules r) c (VString a) = (if a = ''dishMode'' then rule_of dish_mode_rules c else None))"

lemma dish_rules_registered:
  assumes "dish_rules_ready d0"
  shows "\<exists>d. DishManager_InitCmdAttrStateMachine d0 = Some d \<and> base_frame d = base_frame d0 \<and> dish_ruled (rules d)"
proof -
  from assms have "\<forall>x\<in>set dish_mode_rules. rules_ok (rules d0) \<and> fst x \<in> set (dev_commands d0) \<and>
      is_scalar_attr ''dishMode'' d0" by (simp add: dish_rules_ready_def)
  from dish_reg.register_all [OF this] this assms obtain d1 where 1:
    "fold (\<lambda>x. ignoring (add_dish_rule x)) dish_mode_rules (Some d0) = Some d1" "rules_ok (rules d1)"
    "base_frame d1 = base_frame d0"
    "\<forall>c a. cmd_rule d1 c a = (if a = ''dishMode'' then rule_of dish_mode_rules c else None)"
    by (auto simp: dish_rules_ready_def map_of_keyed) (auto simp: dish_mode_rules_def)
  have "\<exists>d2. fold (\<lambda>a. ignoring (AddAttrWriteRule TBool a ''testMode'' [VBool True] True)) dish_write_rules
      (Some d1) = Some d2 \<and> rules_ok (rules d2) \<and> base_frame d2 = base_frame d1 \<and>
      cmdRules (rules d2) = cmdRules (rules d1)"
  proof (rule ignoring_fold, goal_cases)
    case (2 x e)
    then show ?case by (simp add: AddAttrWriteRule_defined)
  next
    case (3 x e e')
    with AddAttrWriteRule_keeps [OF 3(3)] show ?case by (simp add: base_frame_def)
  qed (use 1 in simp_all)
  then obtain d2 where 2: "fold (\<lambda>a. ignoring (AddAttrWriteRule TBool a ''testMode'' [VBool True] True))
      dish_write_rules (Some d1) = Some d2" "rules_ok (rules d2)" "base_frame d2 = base_frame d1"
    "cmdRules (rules d2) = cmdRules (rules d1)" by blast
  have f: "(\<lambda>x. ignoring (AddCmdRule TString (fst x) ''dishMode'' (List.map VString (snd x)) True)) =
      (\<lambda>x. ignoring (add_dish_rule x))" by (simp add: add_dish_rule_def)
  have "DishManager_InitCmdAttrStateMachine d0 = Some d2"
    using 1(1) 2(1) by (simp only: DishManager_InitCmdAttrStateMachine_def Let_def f)
  with 1 2 show ?thesis by (simp add: dish_ruled_def)
qed

lemma dish_gate:
  assumes "dish_ruled (rules d)" and "seen_value ''dishMode'' d = Got (VString l)"
    and "cmd \<in> set (dev_commands d)" and "map_of dish_mode_rules cmd = Some ms" and "extract_cmd_name fcn = cmd"
  shows "cmd_allowed fcn d = (if l \<in> set ms then Returns () else Raises ''IS_CMD_ALLOWED'', d)"
proof -
  have "IsCmdAllowed fcn True d = (if l \<in> set ms then Pass else Violated ''dishMode'')"
    using assms by (intro single_rule_gate) (simp_all add: dish_ruled_def rules_ok_def rule_of_def)
  then show ?thesis by (simp add: cmd_allowed_def)
qed

lemma dish_no_gate:
  assumes "dish_ruled (rules d)" and "map_of dish_mode_rules cmd = None" and "extract_cmd_name fcn = cmd"
  shows "cmd_allowed fcn d = (Returns (), d)"
proof -
  have "IsCmdAllowed fcn True d = Pass"
    using assms by (intro unruled_gate) (simp_all add: dish_ruled_def rules_ok_def rule_of_def)
  then show ?thesis by (simp add: cmd_allowed_def)
qed

text \<open>The names that the functions pass to the gate: their own, in which only \<open>is_..._allowed\<close> names a command.\<close>

lemma dish_names:
  "extract_cmd_name ''is_SetStandbyLPMode_allowed'' = ''SetStandbyLPMode''"
  "extract_cmd_name ''is_SetStandbyFPMode_allowed'' = ''SetStandbyFPMode''"
  "extract_cmd_name ''is_SetOperateMode_allowed'' = ''SetOperateMode''"
  "extract_cmd_name ''is_SetMaintenanceMode_allowed'' = ''SetMaintenanceMode''"
  "extract_cmd_name ''is_SetStowMode_allowed'' = ''SetStowMode''"
  "extract_cmd_name ''is_ConfigureBand1_allowed'' = ''ConfigureBand1''"
  "extract_cmd_name ''is_ConfigureBand2_allowed'' = ''ConfigureBand2''"
  "extract_cmd_name ''is_ConfigureBand3_allowed'' = ''ConfigureBand3''"
  "extract_cmd_name ''is_ConfigureBand4_allowed'' = ''ConfigureBand4''"
  "extract_cmd_name ''is_Synchronise_allowed'' = ''Synchronise''"
  "extract_cmd_name ''is_Capture_allowed'' = ''Capture''"
  by code_simp+

lemma dish_body_names:
  "f \<in> {''set_standby_lpmode'', ''set_standby_fpmode'', ''set_operate_mode'', ''set_maintenance_mode'',
     ''set_stow_mode'', ''capture'', ''synchronise'', ''start_capture'', ''stop_capture'', ''configure_rx_band''} \<Longrightarrow>
   extract_cmd_name f = f \<and> map_of dish_mode_rules f = None"
proof -
  have "list_all (\<lambda>f. extract_cmd_name f = f \<and> map_of dish_mode_rules f = None)
     [''set_standby_lpmode'', ''set_standby_fpmode'', ''set_operate_mode'', ''set_maintenance_mode'',
      ''set_stow_mode'', ''capture'', ''synchronise'', ''start_capture'', ''stop_capture'', ''configure_rx_band'']"
    by code_simp
  then show "f \<in> {''set_standby_lpmode'', ''set_standby_fpmode'', ''set_operate_mode'', ''set_maintenance_mode'',
     ''set_stow_mode'', ''capture'', ''synchronise'', ''start_capture'', ''stop_capture'', ''configure_rx_band''} \<Longrightarrow>
   extract_cmd_name f = f \<and> map_of dish_mode_rules f = None" by auto
qed

subsection \<open>Progress attributes\<close>

text \<open>The strings of a spectrum.\<close>

definition strings_at :: "string \<Rightarrow> 'z lmc_device_scheme \<Rightarrow> string list option" where
  "strings_at n d =
     (case GetDynAttrValue_spectrum TString n d of Got vs \<Rightarrow> Some (List.map string_of vs) | _ \<Rightarrow> None)"

text \<open>A spectrum of strings that can hold two values, and whose values are strings.\<close>

definition progress_attr :: "string \<Rightarrow> 'z lmc_device_scheme \<Rightarrow> bool" where
  "progress_attr n d \<longleftrightarrow>
     (\<exists>a. map_of (dyn_attrs d) n = Some a \<and> at_type a = DEV_STRING \<and> \<not> at_scalar a \<and> 2 \<le> at_max_dim a \<and>
        list_all (\<lambda>v. ctype_of v = TString) (at_spectrum a))"

lemma string_of_strings: "list_all (\<lambda>v. ctype_of v = TString) vs \<Longrightarrow> List.map VString (List.map string_of vs) = vs"
proof (induction vs)
  case (Cons v vs)
  then show ?case by (cases v) auto
qed simp

lemma progress_read:
  assumes "progress_attr n d"
  shows "\<exists>ss. strings_at n d = Some ss \<and> GetDynAttrValue_spectrum TString n d = Got (List.map VString ss)"
proof -
  from assms obtain a where a: "map_of (dyn_attrs d) n = Some a" "\<not> at_scalar a"
    "list_all (\<lambda>v. ctype_of v = TString) (at_spectrum a)" by (auto simp: progress_attr_def)
  then have "GetDynAttrValue_spectrum TString n d = Got (at_spectrum a)"
    by (simp add: GetDynAttrValue_spectrum_def)
  with string_of_strings [OF a(3)] show ?thesis by (simp add: strings_at_def)
qed

lemma set_strings_result:
  assumes "SetDynAttrValue_strings wlist_ok vs n d = (Got (), d')"
  shows "strings_at n d' = Some vs" and "\<And>m. m \<noteq> n \<Longrightarrow> strings_at m d' = strings_at m d"
    and "attrs_only d d'" and "\<And>m. m \<noteq> n \<Longrightarrow> map_of (dyn_attrs d') m = map_of (dyn_attrs d) m"
    and "progress_attr m d \<Longrightarrow> progress_attr m d'"
proof -
  from assms obtain a where a: "map_of (dyn_attrs d) n = Some a" "\<not> at_scalar a" "at_type a = DEV_STRING"
    "d' = set_spectrum n (List.map VString vs) d"
    by (auto simp: SetDynAttrValue_strings_def SetDynAttrValueInManager_strings_def
        split: option.splits if_splits access.splits)
  then have m: "map_of (dyn_attrs d') m =
      (if m = n then Some (a\<lparr>at_spectrum := List.map VString vs\<rparr>) else map_of (dyn_attrs d) m)" for m
    by (simp add: set_spectrum_def map_of_modify)
  have s: "list_all (\<lambda>v. ctype_of v = TString) (List.map VString vs)"
    and t: "List.map string_of (List.map VString vs) = vs"
    by (simp_all add: list_all_iff comp_def)
  from m a(2) s t show "strings_at n d' = Some vs"
    by (simp add: strings_at_def GetDynAttrValue_spectrum_def del: list.map_comp map_map)
  from m show "m \<noteq> n \<Longrightarrow> strings_at m d' = strings_at m d" for m
    by (simp add: strings_at_def GetDynAttrValue_spectrum_def)
  from m show "m \<noteq> n \<Longrightarrow> map_of (dyn_attrs d') m = map_of (dyn_attrs d) m" for m by simp
  show "attrs_only d d'" by (simp add: attrs_only_def a(4) set_spectrum_def)
  show "progress_attr m d \<Longrightarrow> progress_attr m d'"
    using m a(1) s by (auto simp: progress_attr_def)
qed

lemma progress_ongoing_value:
  "progress_attr n d \<Longrightarrow> progress_ongoing reason n d =
     (case strings_at n d of
        Some (st # info # _) \<Rightarrow> (Returns (st \<in> set taskSequence_progress_ongoing), d)
      | _ \<Rightarrow> (Raises reason, d))"
  using progress_read [of n d] by (auto simp: progress_ongoing_def split: list.split)

subsection \<open>What a queued sequence is\<close>

definition same_base :: "'z lmc_device_scheme \<Rightarrow> 'z lmc_device_scheme \<Rightarrow> bool" where
  "same_base d d' \<longleftrightarrow> dyn_attrs d' = dyn_attrs d \<and> dev_commands d' = dev_commands d \<and> rules d' = rules d"

lemma attrs_frame: "dyn_attrs d' = dyn_attrs d \<Longrightarrow> strings_at n d' = strings_at n d \<and> progress_attr n d' = progress_attr n d"
  by (simp add: strings_at_def progress_attr_def GetDynAttrValue_spectrum_def)

lemma same_base_strings: "same_base d d' \<Longrightarrow> strings_at n d' = strings_at n d \<and> progress_attr n d' = progress_attr n d"
  by (rule attrs_frame) (simp add: same_base_def)

lemma same_base_trans: "same_base d d' \<Longrightarrow> same_base d' e \<Longrightarrow> same_base d e"
  by (simp add: same_base_def)

lemma put_mgr_base: "same_base d (put_mgr h sp s d)"
  by (simp add: same_base_def put_mgr_def)

lemma on_mgr_base: "on_mgr f d = (r, d') \<Longrightarrow> same_base d d'"
  by (auto simp: same_base_def on_mgr_def split: prod.splits)

lemma build_sequence_base: "build_sequence env reason prio tss name sattr d = (r, d') \<Longrightarrow> same_base d d'"
  by (auto simp: build_sequence_def Let_def same_base_def put_mgr_def split: prod.splits)

lemma set_dependency_base: "set_dependency env i reason deps sp d = (r, d') \<Longrightarrow> same_base d d'"
  by (auto simp: set_dependency_def raise_negative_def same_base_def put_mgr_def
      split: option.splits prod.splits if_splits)

lemma raised_mgr_base: "raise_negative reason (on_mgr f d) = (r, d') \<Longrightarrow> same_base d d'"
  using on_mgr_base [of f d "fst (on_mgr f d)" d'] by (auto simp: raise_negative_def split: if_splits)

lemma queue_sequence_base: "queue_sequence reason sp d = (r, d') \<Longrightarrow> same_base d d'"
  by (auto simp: queue_sequence_def dest: raised_mgr_base)

lemma flush_base: "flush_task_queue d = (r, d') \<Longrightarrow> same_base d d'"
  by (auto simp: flush_task_queue_def dest: raised_mgr_base)

text \<open>A sequence of tasks with these names, all of them idle, is the last of the collection.\<close>

definition scheduled :: "string \<Rightarrow> string list \<Rightarrow> 'z lmc_tasks_scheme \<Rightarrow> seq_ptr \<Rightarrow> bool" where
  "scheduled name names d sp \<longleftrightarrow>
     (let m = taskManager d in
      m_taskSequences m \<noteq> [] \<and> last (m_taskSequences m) = sp \<and> seq_name (m_seqs m sp) = name \<and>
      List.map (\<lambda>p. cmd_name (m_tasks m p)) (tasks (m_seqs m sp)) = names \<and>
      (\<forall>p\<in>set (tasks (m_seqs m sp)). status (m_tasks m p) = eIDLE))"

lemma queue_tasks_idle:
  "queue_tasks has_attr ps m = (True, m') \<Longrightarrow> p \<in> set ps \<Longrightarrow> status (m_tasks m' p) = eIDLE"
proof (induction ps arbitrary: m)
  case (Cons q ps)
  let ?m = "put_task (\<lambda>t. t\<lparr>status := eIDLE\<rparr>) q
      (m\<lparr>m_taskQueue := set_insert (queue_lt (m_tasks m)) q (m_taskQueue m)\<rparr>)"
  from Cons.prems(1) have q: "queue_tasks has_attr ps ?m = (True, m')" by (simp add: Let_def split: if_splits)
  show ?case
  proof (cases "p \<in> set ps")
    case True
    with Cons.IH [OF q] show ?thesis by simp
  next
    case False
    have "p \<notin> set ps \<Longrightarrow> m_tasks (snd (queue_tasks has_attr ps m)) p = m_tasks m p" for m
      by (induction ps arbitrary: m) (auto simp: Let_def put_task_def)
    from this [OF False, of ?m] q have "m_tasks m' p = m_tasks ?m p" by simp
    moreover from False Cons.prems(2) have "p = q" by simp
    ultimately show ?thesis by (simp add: put_task_def)
  qed
qed simp

lemma queue_sequence_scheduled:
  assumes "queue_sequence reason sp d = (Returns (), d')" and "ready name names deps sp d"
  shows "scheduled name names d' sp"
    and "set (m_taskQueue (taskManager d')) \<subseteq> set (m_taskQueue (taskManager d)) \<union>
           set (tasks (m_seqs (taskManager d') sp))"
proof -
  let ?m = "taskManager d" and ?has = "HasAttribute d"
  let ?ps = "tasks (m_seqs ?m sp)"
  obtain r m1 where a: "AddTaskSequence ?has (Some sp) True ?m = (r, m1)" by fastforce
  from assms(1) a have r: "0 \<le> r" and d': "taskManager d' = m1"
    by (auto simp: queue_sequence_def raise_negative_def on_mgr_def split: if_splits)
  obtain ok m2 where q: "queue_tasks ?has ?ps ?m = (ok, m2)" by fastforce
  from a r q have ok: "ok" and m1: "m1 = m2\<lparr>m_taskSequences := m_taskSequences m2 @ [sp], m_wakeUpSignal := True\<rparr>"
    by (auto simp: AddTaskSequence_def Let_def split: if_splits)
  have seqs: "m_seqs m2 = m_seqs ?m" using queue_tasks_frame(1) [of ?has ?ps ?m] q by simp
  have names: "cmd_name (m_tasks m2 p) = cmd_name (m_tasks ?m p)" for p
    using queue_tasks_static [of ?m ?has ?ps] q static_task_cong(9) [of "m_tasks m2 p" "m_tasks ?m p"]
    by (simp add: same_static_def)
  from assms(2) have "seq_name (m_seqs ?m sp) = name" "length ?ps = length names"
    "\<And>i. i < length names \<Longrightarrow> cmd_name (m_tasks ?m (?ps ! i)) = names ! i"
    by (auto simp: ready_def Let_def at_position_def)
  then have "seq_name (m_seqs ?m sp) = name" "List.map (\<lambda>p. cmd_name (m_tasks ?m p)) ?ps = names"
    by (simp_all add: list_eq_iff_nth_eq)
  with queue_tasks_idle [of ?has ?ps ?m m2] q ok show "scheduled name names d' sp"
    by (simp add: scheduled_def d' m1 Let_def seqs names)
  show "set (m_taskQueue (taskManager d')) \<subseteq> set (m_taskQueue ?m) \<union> set (tasks (m_seqs (taskManager d') sp))"
    using queue_tasks_set [of ?has ?ps ?m] q by (simp add: d' m1 seqs)
qed

lemma scheduled_frame: "taskManager d' = taskManager d \<Longrightarrow> scheduled name names d' sp = scheduled name names d sp"
  by (simp add: scheduled_def)

lemma set_progress_result:
  assumes "set_progress env reason n msg d = (Returns u, d')"
  shows "strings_at n d' = Some msg" and "\<And>m. m \<noteq> n \<Longrightarrow> strings_at m d' = strings_at m d"
    and "taskManager d' = taskManager d" and "rules d' = rules d" and "progress_attr m d \<Longrightarrow> progress_attr m d'"
proof -
  from assms have w: "SetDynAttrValue_strings (env_wlist_ok env) msg n d = (Got (), d')"
    by (auto simp: set_progress_def or_raise_def split: prod.splits access.splits)
  note R = set_strings_result [OF w]
  show "strings_at n d' = Some msg" "\<And>m. m \<noteq> n \<Longrightarrow> strings_at m d' = strings_at m d"
    "progress_attr m d \<Longrightarrow> progress_attr m d'" by (rule R; assumption)+
  from R(3) have "d' = d\<lparr>dyn_attrs := dyn_attrs d'\<rparr>" by (simp add: attrs_only_def)
  then show "taskManager d' = taskManager d" "rules d' = rules d" by (metis lmc_tasks.select_convs lmc_device.select_convs lmc_device.update_convs lmc_tasks.surjective)+
qed

subsection \<open>The mode commands\<close>

lemma call_then_Returns: "call_then r f = (Returns y, d') \<longleftrightarrow> (\<exists>x d1. r = (Returns x, d1) \<and> f x d1 = (Returns y, d'))"
  by (cases r; cases "fst r") (auto simp: call_then_def)

lemma or_raise_Returns: "or_raise reason r = Returns x \<longleftrightarrow> r = Got x"
  by (cases r) simp_all

lemma cmd_allowed_same: "cmd_allowed fcn d = (r, d') \<Longrightarrow> d' = d"
  by (auto simp: cmd_allowed_def split: gate.splits)

lemma progress_ongoing_same: "progress_ongoing reason n d = (r, d') \<Longrightarrow> d' = d"
  by (auto simp: progress_ongoing_def call_then_def or_raise_def split: access.splits if_splits)

lemma build_sequence_Returns:
  "build_sequence env reason prio tss name sattr d = (Returns sp, d') \<Longrightarrow> dish_fits d \<Longrightarrow>
   ready name (List.map ts_name tss) (replicate (length tss) []) sp d'"
  by (frule build_sequence_spec) (auto simp: build_sequence_def Let_def split: prod.splits if_splits)

lemma schedule_sequence_Returns:
  assumes "schedule_sequence env reason prio tss name progress started d = (Returns (), d')" and "dish_fits d"
  shows "\<exists>sp. scheduled name (List.map ts_name tss) d' sp" and "strings_at progress d' = Some [''IDLE'', started]"
    and "rules d' = rules d" and "progress_attr n d \<Longrightarrow> progress_attr n d'"
proof -
  from assms(1) obtain sp d1 d2 where
    1: "build_sequence env reason prio tss name (Some progress) d = (Returns sp, d1)" and
    2: "queue_sequence reason sp d1 = (Returns (), d2)" and
    3: "set_progress env reason progress [''IDLE'', started] d2 = (Returns (), d')"
    by (auto simp: schedule_sequence_def call_then_Returns)
  from queue_sequence_scheduled(1) [OF 2 build_sequence_Returns [OF 1 assms(2)]] set_progress_result(3) [OF 3]
  show "\<exists>sp. scheduled name (List.map ts_name tss) d' sp" using scheduled_frame by blast
  show "strings_at progress d' = Some [''IDLE'', started]" by (rule set_progress_result(1) [OF 3])
  have base: "same_base d d2" using build_sequence_base [OF 1] queue_sequence_base [OF 2] by (rule same_base_trans)
  with set_progress_result(4) [OF 3] show "rules d' = rules d" by (simp add: same_base_def)
  show "progress_attr n d \<Longrightarrow> progress_attr n d'"
    using same_base_strings [OF base] set_progress_result(5) [OF 3] by simp
qed

text \<open>A command that is refused because the progress attribute says that it is ongoing.\<close>

lemma mode_command_refused:
  assumes "cmd_allowed (mc_function c) d = (Returns (), d)" and "progress_attr (mc_progress c) d"
    and "strings_at (mc_progress c) d = Some (st # info # vs)" and "st \<in> set taskSequence_progress_ongoing"
  shows "mode_command env c guard tss d = (Raises (mc_reason c), d)"
  using assms by (simp add: mode_command_def progress_ongoing_value)

lemma mode_command_accepted:
  assumes "mode_command env c guard tss d = (Returns ([mc_scheduled c], [1]), d')" and "dish_fits d"
  shows "\<exists>w. GetDynAttrValue TShort ''dishMode'' d = Got w \<and> enum_value ''dishMode'' (mc_mode c) d \<noteq> short_of w"
    and "\<exists>sp. scheduled (mc_sequence c) (List.map ts_name (tss d)) d' sp"
    and "strings_at (mc_progress c) d' = Some [''IDLE'', mc_started c]"
    and "rules d' = rules d" and "progress_attr n d \<Longrightarrow> progress_attr n d'"
proof -
  from assms(1) obtain w where g: "GetDynAttrValue TShort ''dishMode'' d = Got w"
    and m: "enum_value ''dishMode'' (mc_mode c) d \<noteq> short_of w"
    and s: "schedule_sequence env (mc_reason c) eMEDIUM_PRIORITY (tss d) (mc_sequence c)
      (mc_progress c) (mc_started c) d = (Returns (), d')"
    by (auto simp: mode_command_def call_then_Returns or_raise_Returns split: if_splits
        dest!: cmd_allowed_same progress_ongoing_same)
  from m g show "\<exists>w. GetDynAttrValue TShort ''dishMode'' d = Got w \<and>
      enum_value ''dishMode'' (mc_mode c) d \<noteq> short_of w" by blast
  show "\<exists>sp. scheduled (mc_sequence c) (List.map ts_name (tss d)) d' sp"
    "strings_at (mc_progress c) d' = Some [''IDLE'', mc_started c]" "rules d' = rules d"
    "progress_attr n d \<Longrightarrow> progress_attr n d'"
    by (rule schedule_sequence_Returns [OF s assms(2)]; assumption)+
qed

subsection \<open>Emergency stop\<close>

lemma flush_empties: "flush_task_queue d = (r, d') \<Longrightarrow> m_taskQueue (taskManager d') = []"
  by (auto simp: flush_task_queue_def raise_negative_def on_mgr_def FlushQueue_def split: if_splits)

lemma enum_label_same: "enum_label reason n d = (r, d') \<Longrightarrow> d' = d"
  by (auto simp: enum_label_def call_then_def or_raise_def split: access.splits)

lemma estop_action_effect:
  assumes "estop_action env d = (Returns (), d')" and "dish_fits d"
    and "enum_label ''HANDLE_ESTOP_EVENT_FAILED'' ''dishMode'' d = (Returns l, d)"
    and "l \<in> {''CONFIG'', ''OPERATE''}" and "progress_attr ''setStandbyFPOnESTOPProgress'' d"
    and "strings_at ''setStandbyFPOnESTOPProgress'' d = Some (st # info # vs)"
    and "st \<notin> set taskSequence_progress_ongoing"
  shows "\<exists>sp. scheduled ''HandleESTOPEvent'' [''SetSPFOperateModeTask'', ''SetRxStandbyFPModeTask''] d' sp \<and>
      set (m_taskQueue (taskManager d')) \<subseteq> set (tasks (m_seqs (taskManager d') sp))"
proof -
  let ?reason = "''HANDLE_ESTOP_EVENT_FAILED''" and ?progress = "''setStandbyFPOnESTOPProgress''"
  have o: "progress_ongoing ?reason ?progress d = (Returns False, d)"
    using assms(5-7) by (simp add: progress_ongoing_value)
  from assms(1,3,4) o obtain sp d1 d2 d3 where
    1: "build_sequence env ?reason eHIGH_PRIORITY (estop_tasks d) ''HandleESTOPEvent'' (Some ?progress) d = (Returns sp, d1)" and
    2: "flush_task_queue d1 = (Returns (), d2)" and 3: "queue_sequence ?reason sp d2 = (Returns (), d3)" and
    4: "set_progress env ?reason ?progress [''IDLE'', ''Set dish to STANDBY-FP mode on ESTOP scheduled''] d3 = (Returns (), d')"
    by (auto simp: estop_action_def Let_def call_then_Returns)
  from ready_flush [OF build_sequence_Returns [OF 1 assms(2)] 2] have
    "ready ''HandleESTOPEvent'' (List.map ts_name (estop_tasks d)) (replicate (length (estop_tasks d)) []) sp d2" by simp
  from queue_sequence_scheduled [OF 3 this] flush_empties [OF 2] set_progress_result(3) [OF 4] scheduled_frame [of d' d3]
  show ?thesis
    by (intro exI [of _ sp]) (simp add: estop_tasks_def synch_task_def asynch_task_def)
qed

subsection \<open>Configuring a band\<close>

lemma band_ongoing_value:
  "progress_attr ''configureBandProgress'' d \<Longrightarrow> band_ongoing d =
     (case strings_at ''configureBandProgress'' d of
        Some (st # _) \<Rightarrow> (Returns (st \<in> set taskSequence_progress_ongoing), d)
      | _ \<Rightarrow> (Crashes, d))"
  using progress_read [of "''configureBandProgress''" d] by (auto simp: band_ongoing_def split: list.split)

lemma scheduled_deps:
  assumes "queue_sequence reason sp d = (Returns (), d')" and "ready name names deps sp d"
  shows "\<forall>i<length names. dep_task_seq_indexes (m_tasks (taskManager d') (tasks (m_seqs (taskManager d') sp) ! i)) = deps ! i"
proof -
  let ?m = "taskManager d"
  from assms(1) obtain m1 r where a: "AddTaskSequence (HasAttribute d) (Some sp) True ?m = (r, m1)" "0 \<le> r"
    and d': "taskManager d' = m1"
    by (auto simp: queue_sequence_def raise_negative_def on_mgr_def split: if_splits prod.splits)
  from a(1) have "static_task (m_tasks m1 p) = static_task (m_tasks ?m p)" for p
    using queue_tasks_static [of ?m "HasAttribute d" "tasks (m_seqs ?m sp)"]
    by (auto simp: AddTaskSequence_def Let_def same_static_def split: if_splits)
  then have st: "dep_task_seq_indexes (m_tasks m1 p) = dep_task_seq_indexes (m_tasks ?m p)" for p
    by (metis static_task_fields)
  from a have seqs: "m_seqs m1 = m_seqs ?m"
    using queue_tasks_frame(1) [of "HasAttribute d" "tasks (m_seqs ?m sp)" ?m]
    by (auto simp: AddTaskSequence_def Let_def split: if_splits)
  from assms(2) have "\<forall>i<length names. sequence_index (m_tasks ?m (tasks (m_seqs ?m sp) ! i)) = i \<and>
      at_position names deps (m_tasks ?m (tasks (m_seqs ?m sp) ! i))" by (simp add: ready_def Let_def)
  then show ?thesis by (auto simp: d' seqs st at_position_def)
qed

lemma configure_band_Returns:
  assumes "ConfigureBand env bandId ts d = (Returns r, d')" and "dish_fits d"
    and "progress_attr ''configureBandProgress'' d"
  shows "in_bands 1 6 bandId" and "IsBandCapabilityAvailable bandId d = Got True"
    and "\<exists>st vs. strings_at ''configureBandProgress'' d = Some (st # vs) \<and> st \<notin> set taskSequence_progress_ongoing"
    and "\<exists>sp. scheduled ''ConfigureBand'' band_names d' sp \<and>
      (\<forall>i<5. dep_task_seq_indexes (m_tasks (taskManager d') (tasks (m_seqs (taskManager d') sp) ! i)) = band_matrix ! i)"
    and "\<exists>info. strings_at ''configureBandProgress'' d' = Some [''IDLE'', info]"
proof -
  let ?reason = "''CONFIGURE_BAND_FAILED''" and ?progress = "''configureBandProgress''"
  show bands: "in_bands 1 6 bandId"
    by (rule ccontr) (use assms(1) in \<open>simp add: ConfigureBand_def\<close>)
  from assms(1) bands obtain v where v: "GetDynAttrValue TShort ''configuredBand'' d = Got v"
    by (cases "GetDynAttrValue TShort ''configuredBand'' d") (simp_all add: ConfigureBand_def Let_def)
  from assms(1) bands v show cap: "IsBandCapabilityAvailable bandId d = Got True"
    by (cases "IsBandCapabilityAvailable bandId d") (simp_all add: ConfigureBand_def Let_def split: if_splits)
  from progress_read [OF assms(3)] obtain ss where ss: "strings_at ?progress d = Some ss" by blast
  from assms(1,3) bands v cap ss obtain st vs where st: "ss = st # vs" "st \<notin> set taskSequence_progress_ongoing"
    by (cases ss) (auto simp: ConfigureBand_def Let_def band_ongoing_value split: if_splits)
  with ss show "\<exists>st vs. strings_at ?progress d = Some (st # vs) \<and> st \<notin> set taskSequence_progress_ongoing"
    by blast
  have o: "band_ongoing d = (Returns False, d)" using st ss assms(3) by (simp add: band_ongoing_value)
  from assms(1) bands v cap o obtain sp msg d4 d5 d6 d7 where
    1: "build_sequence env ?reason eMEDIUM_PRIORITY (band_tasks env bandId d) ''ConfigureBand'' (Some ?progress) d =
        (Returns sp, d4)" and
    2: "set_dependency env 6 ?reason band_matrix sp d4 = (Returns (), d5)" and
    3: "queue_sequence ?reason sp d5 = (Returns (), d6)" and
    4: "set_progress env ?reason ?progress [''IDLE'', msg] d6 = (Returns (), d7)" and
    5: "store_requested_band env bandId d7 = (Returns (), d')"
    by (auto simp: ConfigureBand_def Let_def call_then_Returns)
  have names: "List.map ts_name (band_tasks env bandId d) = band_names" "length band_names = 5"
    by (simp_all add: band_tasks_def band_names_def synch_task_def asynch_task_def)
  then have l: "length (band_tasks env bandId d) = length band_names" by (metis length_map)
  from build_sequence_Returns [OF 1 assms(2)] have "ready ''ConfigureBand'' band_names (replicate (length band_names) []) sp d4"
    by (simp add: names(1) l)
  from set_dependency_spec [OF 2 this] matrices_ok have R: "ready ''ConfigureBand'' band_names band_matrix sp d5"
    by (simp add: band_matrix_def names(2))
  from 5 have w: "SetDynAttrValue (env_w_ok env) (VShort (enum_value ''requestedBand''
      (band_labels ! (nat (sint bandId) - 1)) d7)) ''requestedBand'' d7 = (Got (), d')"
    by (auto simp: store_requested_band_def Let_def split: prod.splits access.splits)
  from SetDynAttrValue_attrs [OF w] have "d' = d7\<lparr>dyn_attrs := dyn_attrs d'\<rparr>" by (simp add: attrs_only_def)
  then have tm: "taskManager d' = taskManager d7" by (metis lmc_tasks.select_convs(2) lmc_device.update_convs(1) lmc_tasks.surjective)
  with set_progress_result(3) [OF 4] have tm6: "taskManager d' = taskManager d6" by simp
  with queue_sequence_scheduled(1) [OF 3 R] scheduled_deps [OF 3 R] names(2) scheduled_frame [OF tm6]
  show "\<exists>sp. scheduled ''ConfigureBand'' band_names d' sp \<and>
      (\<forall>i<5. dep_task_seq_indexes (m_tasks (taskManager d') (tasks (m_seqs (taskManager d') sp) ! i)) = band_matrix ! i)"
    by auto
  from w have "map_of (dyn_attrs d') ?progress = map_of (dyn_attrs d7) ?progress"
    by (auto simp: SetDynAttrValue_def SetDynAttrValueInManager_def set_value_def map_of_modify
        split: option.splits if_splits)
  with set_progress_result(1) [OF 4] show "\<exists>info. strings_at ?progress d' = Some [''IDLE'', info]"
    by (auto simp: strings_at_def GetDynAttrValue_spectrum_def)
qed

subsection \<open>Reset and poll\<close>

lemma reset_progress_result:
  assumes "reset_progress env ns d = (Returns (), d')" and "distinct ns"
  shows "(\<forall>n\<in>set ns. strings_at n d' = Some [''UNKNOWN'', ''Progress attribute was reset'']) \<and>
    (\<forall>n. n \<notin> set ns \<longrightarrow> strings_at n d' = strings_at n d) \<and> taskManager d' = taskManager d \<and>
    rules d' = rules d \<and> (\<forall>m. progress_attr m d \<longrightarrow> progress_attr m d')"
  using assms
proof (induction ns arbitrary: d)
  case Nil
  then show ?case by (simp add: reset_progress_def)
next
  case (Cons n ns)
  then obtain d1 where 1: "set_progress env ''RESET_DISH_MODE_FAILED'' n
      [''UNKNOWN'', ''Progress attribute was reset''] d = (Returns (), d1)"
    and 2: "reset_progress env ns d1 = (Returns (), d')"
    by (auto simp: reset_progress_def call_then_Returns)
  from Cons.IH [OF 2] Cons.prems(2) set_progress_result [OF 1] show ?case by auto
qed

lemma reset_dish_tasks_result:
  assumes "reset_dish_tasks env d = (Returns (), d')"
  shows "m_taskQueue (taskManager d') = []" and "m_taskSequences (taskManager d') = m_taskSequences (taskManager d)"
    and "m_seqs (taskManager d') = m_seqs (taskManager d)" and "rules d' = rules d"
    and "n \<in> set mode_progress_attrs \<Longrightarrow>
           strings_at n d' = Some [''UNKNOWN'', ''Progress attribute was reset'']"
    and "progress_attr n d \<Longrightarrow> progress_attr n d'"
    and "strings_at n d' = strings_at n d \<or> strings_at n d' = Some [''UNKNOWN'', ''Progress attribute was reset'']"
proof -
  let ?ns = "mode_progress_attrs @ [''startupOnPowerRestoreProgress'', ''shutdownOnPowerCutProgress'']"
  from assms obtain d1 where f: "flush_task_queue d = (Returns (), d1)" and
    r: "reset_progress env ?ns d1 = (Returns (), d')" by (auto simp: reset_dish_tasks_def call_then_Returns)
  have "distinct ?ns" by (simp add: mode_progress_attrs_def)
  note R = reset_progress_result [OF r this]
  from f have tm: "taskManager d1 = (taskManager d)\<lparr>m_taskQueue := []\<rparr>"
    by (auto simp: flush_task_queue_def raise_negative_def on_mgr_def FlushQueue_def split: if_splits)
  with R show "m_taskQueue (taskManager d') = []" "m_taskSequences (taskManager d') = m_taskSequences (taskManager d)"
    "m_seqs (taskManager d') = m_seqs (taskManager d)" by simp_all
  from flush_base [OF f] R show "rules d' = rules d" by (simp add: same_base_def)
  from R show "n \<in> set mode_progress_attrs \<Longrightarrow>
      strings_at n d' = Some [''UNKNOWN'', ''Progress attribute was reset'']" by simp
  from R same_base_strings [OF flush_base [OF f]] show "progress_attr n d \<Longrightarrow> progress_attr n d'" by simp
  from R same_base_strings [OF flush_base [OF f]] show
    "strings_at n d' = strings_at n d \<or> strings_at n d' = Some [''UNKNOWN'', ''Progress attribute was reset'']" by metis
qed

text \<open>The status of the most recent sequence that reports to an attribute.\<close>

definition newest_status :: "string \<Rightarrow> task_manager \<Rightarrow> int option" where
  "newest_status n m =
     (case GetTaskSequenceStatusInfo True n m of
        [] \<Rightarrow> None
      | i # is \<Rightarrow> (case most_recent i is of (_, st, _, _) \<Rightarrow> Some st))"

lemma newest_status_frame:
  "m_taskSequences m' = m_taskSequences m \<Longrightarrow> m_seqs m' = m_seqs m \<Longrightarrow> newest_status n m' = newest_status n m"
  by (simp add: newest_status_def GetTaskSequenceStatusInfo_def find_task_sequences_by_dev_attr_def)

lemma ongoing_status:
  "st \<in> {eINIT, eIDLE, eRUNNING} \<Longrightarrow>
   \<exists>s. GetTaskStatusString st = (0, s) \<and> s \<in> set taskSequence_progress_ongoing"
  by (auto simp: GetTaskStatusString_def taskSequence_progress_ongoing_def)

lemma poll_one:
  assumes "update_status_attr env n d = (Returns (), d')" and "\<And>m vs. env_wlist_ok env m vs"
  shows "taskManager d' = taskManager d" and "rules d' = rules d" and "progress_attr m d \<Longrightarrow> progress_attr m d'"
    and "m \<noteq> n \<Longrightarrow> strings_at m d' = strings_at m d"
    and "progress_attr n d \<Longrightarrow> newest_status n (taskManager d) = Some st \<Longrightarrow> st \<in> {eINIT, eIDLE, eRUNNING} \<Longrightarrow>
         (\<exists>ss. strings_at n d = Some ss \<and> length ss = 2) \<Longrightarrow>
         \<exists>s info. strings_at n d' = Some [s, info] \<and> s \<in> set taskSequence_progress_ongoing"
proof -
  have *: "d' = d \<or> (\<exists>vs. SetDynAttrValue_strings (env_wlist_ok env) vs n d = (Got (), d')) \<or>
      (\<exists>vs. SetDynAttrValue_strings (env_wlist_ok env) vs n d = (Failing, d'))"
    using assms(1)
    by (auto simp: update_status_attr_def split: list.splits prod.splits access.splits if_splits)
  have f: "SetDynAttrValue_strings (env_wlist_ok env) vs n d = (Failing, d') \<Longrightarrow> d' = d" for vs
    using assms(2)
    by (auto simp: SetDynAttrValue_strings_def split: option.splits if_splits access.splits)
  have g: "taskManager d' = taskManager d \<and> rules d' = rules d"
    if "SetDynAttrValue_strings (env_wlist_ok env) vs n d = (Got (), d')" for vs
  proof -
    from set_strings_result(3) [OF that] have "d' = d\<lparr>dyn_attrs := dyn_attrs d'\<rparr>" by (simp add: attrs_only_def)
    then show ?thesis
      by (metis lmc_tasks.select_convs lmc_device.select_convs lmc_device.update_convs lmc_tasks.surjective)
  qed
  from * f g show "taskManager d' = taskManager d" "rules d' = rules d" by auto
  from * f set_strings_result(5) [of "env_wlist_ok env" _ n d d' m] show "progress_attr m d \<Longrightarrow> progress_attr m d'" by blast
  from * f set_strings_result(2) [of "env_wlist_ok env" _ n d d' m] show "m \<noteq> n \<Longrightarrow> strings_at m d' = strings_at m d"
    by metis
  assume p: "progress_attr n d" and st: "newest_status n (taskManager d) = Some st" "st \<in> {eINIT, eIDLE, eRUNNING}"
    and ss: "\<exists>ss. strings_at n d = Some ss \<and> length ss = 2"
  from st(1) obtain i "is" nm info tm where i: "GetTaskSequenceStatusInfo True n (taskManager d) = i # is"
    "most_recent i is = (nm, st, info, tm)"
    by (auto simp: newest_status_def split: list.splits prod.splits)
  from progress_read [OF p] ss obtain ss where read: "GetDynAttrValue_spectrum TString n d = Got (List.map VString ss)"
    "length ss = 2" by auto
  from ongoing_status [OF st(2)] obtain s where s: "GetTaskStatusString st = (0, s)"
    "s \<in> set taskSequence_progress_ongoing" by blast
  from p obtain a where a: "map_of (dyn_attrs d) n = Some a" "at_type a = DEV_STRING" "\<not> at_scalar a" "2 \<le> at_max_dim a"
    by (auto simp: progress_attr_def)
  from a assms(2) have w: "SetDynAttrValue_strings (env_wlist_ok env) [s, info] n d =
      (Got (), set_spectrum n (List.map VString [s, info]) d)"
    by (simp add: SetDynAttrValue_strings_def SetDynAttrValueInManager_strings_def)
  with assms(1) i read s have "d' = set_spectrum n (List.map VString [s, info]) d"
    by (simp add: update_status_attr_def)
  with w have "SetDynAttrValue_strings (env_wlist_ok env) [s, info] n d = (Got (), d')" by simp
  from set_strings_result(1) [OF this] s(2) show
    "\<exists>s info. strings_at n d' = Some [s, info] \<and> s \<in> set taskSequence_progress_ongoing" by blast
qed

lemma poll_restores:
  assumes "for_each (update_status_attr env) ns d = (Returns (), d')" and "\<And>m vs. env_wlist_ok env m vs"
    and "progress_attr n d" and "newest_status n (taskManager d) = Some st" and "st \<in> {eINIT, eIDLE, eRUNNING}"
    and "\<exists>ss. strings_at n d = Some ss \<and> length ss = 2"
    and "n \<in> set ns \<or> (\<exists>s info. strings_at n d = Some [s, info] \<and> s \<in> set taskSequence_progress_ongoing)"
  shows "rules d' = rules d \<and> progress_attr n d' \<and>
    (\<exists>s info. strings_at n d' = Some [s, info] \<and> s \<in> set taskSequence_progress_ongoing)"
  using assms(1,3-)
proof (induction ns arbitrary: d)
  case (Cons m ns)
  from Cons.prems(1) obtain d1 where 1: "update_status_attr env m d = (Returns (), d1)"
    and 2: "for_each (update_status_attr env) ns d1 = (Returns (), d')" by (auto simp: call_then_Returns)
  note P = poll_one [OF 1 assms(2)]
  have "n \<in> set ns \<or> (\<exists>s info. strings_at n d1 = Some [s, info] \<and> s \<in> set taskSequence_progress_ongoing)"
    using P(4) [of n] P(5) [of st] Cons.prems(2-6) by (cases "n = m") auto
  moreover have "\<exists>ss. strings_at n d1 = Some ss \<and> length ss = 2"
    using P(4) [of n] P(5) [of st] Cons.prems(2-5) by (cases "n = m") auto
  moreover have "progress_attr n d1" "newest_status n (taskManager d1) = Some st"
    using P(1,3) Cons.prems(2,3) by simp_all
  ultimately have "rules d' = rules d1 \<and> progress_attr n d' \<and>
      (\<exists>s info. strings_at n d' = Some [s, info] \<and> s \<in> set taskSequence_progress_ongoing)"
    using Cons.prems(4) by (intro Cons.IH [OF 2])
  with P(2) show ?case by simp
qed simp

subsection \<open>Acceptance\<close>

lemma queue_tasks_verdict:
  "fst (queue_tasks has_attr ps m) \<longleftrightarrow>
     (\<forall>p\<in>set ps. is_asynch (m_tasks m p) \<longrightarrow> has_attr (status_attr_name (m_tasks m p)))"
proof (induction ps arbitrary: m)
  case (Cons p ps)
  let ?m = "put_task (\<lambda>t. t\<lparr>status := eIDLE\<rparr>) p
      (m\<lparr>m_taskQueue := set_insert (queue_lt (m_tasks m)) p (m_taskQueue m)\<rparr>)"
  have "is_asynch (m_tasks ?m q) = is_asynch (m_tasks m q)"
    "status_attr_name (m_tasks ?m q) = status_attr_name (m_tasks m q)" for q
    by (simp_all add: put_task_def)
  with Cons.IH [of ?m] show ?case by (simp add: Let_def)
qed simp

lemma add_tasks_ok: "seq_id s \<noteq> [] \<Longrightarrow> seq_name s \<noteq> [] \<Longrightarrow> \<exists>h' s'. add_tasks ps h s = (True, h', s')"
  by (induction ps arbitrary: h s) (auto simp: AddTask_def Let_def)

lemma set_progress_writes:
  assumes "progress_attr n d" and "env_wlist_ok env n [a, b]"
  shows "\<exists>d'. set_progress env reason n [a, b] d = (Returns (), d')"
proof -
  from assms(1) obtain x where x: "map_of (dyn_attrs d) n = Some x" "at_type x = DEV_STRING" "\<not> at_scalar x"
    "2 \<le> at_max_dim x" by (auto simp: progress_attr_def)
  with assms(2) have "SetDynAttrValue_strings (env_wlist_ok env) [a, b] n d =
      (Got (), set_spectrum n (List.map VString [a, b]) d)"
    by (simp add: SetDynAttrValue_strings_def SetDynAttrValueInManager_strings_def)
  then show ?thesis by (simp add: set_progress_def)
qed

text \<open>
  What the scheduling of a sequence needs: identifiers that are not empty, the attributes that the
  asynchronous tasks watch, and room in the queue.
\<close>

definition can_schedule :: "'e lmc_env_scheme \<Rightarrow> task_spec list \<Rightarrow> 'z lmc_tasks_scheme \<Rightarrow> bool" where
  "can_schedule env tss d \<longleftrightarrow>
     env_uuid env (length tss) \<noteq> [] \<and> tss \<noteq> [] \<and>
     (\<forall>ts\<in>set tss. \<forall>a. ts_asynch ts = Some a \<longrightarrow> HasAttribute d a) \<and>
     int (length (m_taskQueue (taskManager d)) + length tss) \<le> m_maxTasksInQueue (taskManager d)"

text \<open>A sequence that the queue takes.\<close>

definition queueable :: "seq_ptr \<Rightarrow> 'z lmc_tasks_scheme \<Rightarrow> bool" where
  "queueable sp d \<longleftrightarrow>
     (let m = taskManager d; ps = tasks (m_seqs m sp) in
      ps \<noteq> [] \<and> int (length (m_taskQueue m) + length ps) \<le> m_maxTasksInQueue m \<and>
      (\<forall>p\<in>set ps. is_asynch (m_tasks m p) \<longrightarrow> HasAttribute d (status_attr_name (m_tasks m p))))"

lemma build_queueable:
  assumes "can_schedule env tss d" and "name \<noteq> []"
  shows "\<exists>sp d1. build_sequence env reason prio tss name sattr d = (Returns sp, d1) \<and> queueable sp d1"
proof -
  let ?k = "length tss" and ?p = "next_task d" and ?sp = "next_sequence d"
  let ?h = "write_tasks ?p (build_tasks env 0 prio tss) (m_tasks (taskManager d))"
  let ?s0 = "TaskSequence_new (env_uuid env ?k) (env_clock env ?k 0) name False"
  let ?s = "case sattr of None \<Rightarrow> ?s0 | Some a \<Rightarrow> snd (SetDevStatusAttr (HasAttribute d) a ?s0)"
  have s: "seq_id ?s \<noteq> []" "seq_name ?s \<noteq> []" "tasks ?s = []"
    using assms(1,2) by (auto simp: can_schedule_def TaskSequence_new_def SetDevStatusAttr_def split: option.split)
  obtain h' s' where a: "add_tasks [?p ..< ?p + ?k] ?h ?s = (True, h', s')"
    using add_tasks_ok [OF s(1,2)] by blast
  let ?d1 = "(put_mgr h' ?sp s' d)\<lparr>next_task := ?p + ?k, next_sequence := Suc ?sp\<rparr>"
  have b: "build_sequence env reason prio tss name sattr d = (Returns ?sp, ?d1)"
    using a by (simp add: build_sequence_def Let_def)
  from add_tasks_spec [OF a] s(3) have t: "tasks s' = [?p ..< ?p + ?k]"
    and h: "\<And>i. i < ?k \<Longrightarrow> h' (?p + i) = placed ?s i (?h (?p + i))" by simp_all
  have as: "is_asynch (h' p) \<longrightarrow> HasAttribute d (status_attr_name (h' p))" if "p \<in> set (tasks s')" for p
  proof -
    define i where "i = p - ?p"
    from that t have i: "i < ?k" "p = ?p + i" by (auto simp: i_def)
    from i(1) have "?h (?p + i) = build_task env i prio (tss ! i)" by (simp add: write_tasks_nth build_tasks_nth)
    with h [OF i(1)] i assms(1) show ?thesis
      by (auto simp: can_schedule_def build_task_attr dest: nth_mem)
  qed
  moreover have "HasAttribute ?d1 = HasAttribute d" by (simp add: HasAttribute_def fun_eq_iff)
  ultimately have "queueable ?sp ?d1"
    using t assms(1) by (simp add: queueable_def Let_def can_schedule_def)
  with b show ?thesis by blast
qed

lemma queue_accepts:
  assumes "queueable sp d"
  shows "\<exists>d'. queue_sequence reason sp d = (Returns (), d')"
proof -
  have "fst (AddTaskSequence (HasAttribute d) (Some sp) True (taskManager d)) = 0"
    using assms queue_tasks_verdict [of "HasAttribute d" "tasks (m_seqs (taskManager d) sp)" "taskManager d"]
    by (auto simp: queueable_def AddTaskSequence_def Let_def GetNTasks_def GetNTasksInQueue_def)
  then show ?thesis by (auto simp: queue_sequence_def raise_negative_def on_mgr_def split: prod.split)
qed

lemma build_and_queue:
  assumes "can_schedule env tss d" and "name \<noteq> []"
  shows "\<exists>sp d1 d2. build_sequence env reason prio tss name sattr d = (Returns sp, d1) \<and>
    queue_sequence reason sp d1 = (Returns (), d2)"
  using build_queueable [OF assms] queue_accepts by blast

lemma dependency_queueable:
  assumes "ready name names (replicate (length names) []) sp d" and "queueable sp d"
    and "deps \<noteq> []" and "length deps = length names" and "in_range deps" and "\<not> has_cycle deps"
  shows "\<exists>d'. set_dependency env i reason deps sp d = (Returns (), d') \<and> queueable sp d'"
proof -
  let ?m = "taskManager d"
  let ?s = "m_seqs ?m sp"
  from assms(1) have l: "length (tasks ?s) = length names" and dist: "distinct (tasks ?s)"
    by (auto simp: ready_def Let_def)
  obtain h' where h': "SetTaskDependency (env_clock env i) deps (m_tasks ?m) ?s =
      Some (0, h', ?s\<lparr>dependency_matrix := deps\<rparr>)"
    "\<And>j. j < length deps \<Longrightarrow> times_blank (h' (tasks ?s ! j)) =
        times_blank (with_deps (deps ! j) (m_tasks ?m (tasks ?s ! j)))"
    using set_task_dependency_accepts [OF assms(3) _ assms(5,6) dist, of "env_clock env i" "m_tasks ?m"]
      assms(4) l by auto
  let ?d = "put_mgr h' sp (?s\<lparr>dependency_matrix := deps\<rparr>) d"
  have same: "is_asynch (h' p) = is_asynch (m_tasks ?m p) \<and> status_attr_name (h' p) = status_attr_name (m_tasks ?m p)"
    if "p \<in> set (tasks ?s)" for p
  proof -
    from that obtain j where j: "j < length deps" "p = tasks ?s ! j" using l assms(4) by (metis in_set_conv_nth)
    from arg_cong [OF h'(2) [OF j(1)], of is_asynch] arg_cong [OF h'(2) [OF j(1)], of status_attr_name]
    show ?thesis by (simp add: j times_blank_def with_deps_def)
  qed
  have "HasAttribute ?d = HasAttribute d" by (simp add: HasAttribute_def fun_eq_iff)
  with assms(2) same have "queueable sp ?d" by (simp add: queueable_def Let_def)
  with h'(1) show ?thesis by (simp add: set_dependency_def raise_negative_def)
qed

lemma schedule_accepts:
  assumes "can_schedule env tss d" and "name \<noteq> []" and "progress_attr progress d"
    and "\<And>n vs. env_wlist_ok env n vs"
  shows "\<exists>d'. schedule_sequence env reason prio tss name progress started d = (Returns (), d')"
proof -
  from build_and_queue [OF assms(1,2)] obtain sp d1 d2 where
    1: "build_sequence env reason prio tss name (Some progress) d = (Returns sp, d1)"
    and 2: "queue_sequence reason sp d1 = (Returns (), d2)" by blast
  have "progress_attr progress d2"
    using same_base_strings [OF same_base_trans [OF build_sequence_base [OF 1] queue_sequence_base [OF 2]]] assms(3)
    by simp
  from set_progress_writes [OF this assms(4)] 1 2 show ?thesis
    by (auto simp: schedule_sequence_def)
qed

subsection \<open>A band configuration accepted\<close>

text \<open>An enumeration of the bands that Tango clients do not write.\<close>

definition band_enum :: "string \<Rightarrow> 'z lmc_device_scheme \<Rightarrow> bool" where
  "band_enum n d \<longleftrightarrow>
     (\<exists>a. map_of (dyn_attrs d) n = Some a \<and> at_type a = DEV_ENUM \<and> at_scalar a \<and> \<not> at_written a \<and>
        at_labels a = ''NONE'' # band_labels \<and> ctype_of (at_value a) = TShort)"

lemma below_six: "(i :: nat) < 6 \<Longrightarrow> i \<in> {0, 1, 2, 3, 4, 5}"
  by auto

lemma enum_value_band:
  assumes "band_enum n d" and "i < 6"
  shows "enum_value n (band_labels ! i) d = of_nat (Suc i)"
proof -
  from below_six [OF assms(2)] assms(1) show ?thesis
    by (auto simp: band_enum_def enum_value_def GetEnumAttrValue_def band_labels_def)
qed

lemma store_requested_band_accepts:
  assumes "band_enum ''requestedBand'' d" and "in_bands 1 6 bandId"
  shows "\<exists>d'. store_requested_band env bandId d = (Returns (), d')"
proof -
  let ?i = "nat (sint bandId) - 1"
  from assms(2) have i: "?i < 6" by (auto simp: in_bands_def)
  note v = enum_value_band [OF assms(1) i]
  have "j \<in> {0, 1, 2, 3, 4, 5} \<Longrightarrow>
      0 \<le> sint (word_of_nat (Suc j) :: 16 word) \<and> sint (word_of_nat (Suc j) :: 16 word) < 7" for j by auto
  from this [OF below_six [OF i]]
  have s: "0 \<le> sint (word_of_nat (Suc ?i) :: 16 word) \<and> sint (word_of_nat (Suc ?i) :: 16 word) < 7" .
  let ?w = "enum_value ''requestedBand'' (band_labels ! ?i) d"
  from s have w: "0 \<le> sint ?w \<and> sint ?w < 7" by (simp only: v)
  from assms(1) have "fst (SetDynAttrValue (env_w_ok env) (VShort ?w) ''requestedBand'' d) = Got ()"
    using w by (auto simp: SetDynAttrValue_def SetDynAttrValueInManager_def band_enum_def band_labels_def)
  then show ?thesis by (auto simp: store_requested_band_def Let_def split: prod.splits)
qed

lemma configure_band_accepts:
  assumes "in_bands 1 6 bandId" and "GetDynAttrValue TShort ''configuredBand'' d = Got v"
    and "IsBandCapabilityAvailable bandId d = Got True" and "band_ongoing d = (Returns False, d)"
    and "dish_fits d" and "can_schedule env (band_tasks env bandId d) d"
    and "progress_attr ''configureBandProgress'' d" and "band_enum ''requestedBand'' d"
    and "\<And>n vs. env_wlist_ok env n vs"
  shows "\<exists>d'. ConfigureBand env bandId ts d = (Returns 0, d')"
proof -
  let ?reason = "''CONFIGURE_BAND_FAILED''" and ?progress = "''configureBandProgress''"
  let ?msg = "''Dish configuration for band '' @ show_nat (nat (sint bandId)) @ '' scheduled''"
  from build_queueable [OF assms(6), of "''ConfigureBand''" ?reason eMEDIUM_PRIORITY "Some ?progress"]
  obtain sp d4 where 1: "build_sequence env ?reason eMEDIUM_PRIORITY (band_tasks env bandId d) ''ConfigureBand''
      (Some ?progress) d = (Returns sp, d4)" and q: "queueable sp d4" by auto
  have names: "List.map ts_name (band_tasks env bandId d) = band_names" "length band_names = 5"
    by (simp_all add: band_tasks_def band_names_def synch_task_def asynch_task_def)
  then have l: "length (band_tasks env bandId d) = length band_names" by (metis length_map)
  from build_sequence_Returns [OF 1 assms(5)] have "ready ''ConfigureBand'' band_names (replicate (length band_names) []) sp d4"
    by (simp add: names(1) l)
  from dependency_queueable [OF this q, of band_matrix env 6 ?reason] matrices_ok
  obtain d5 where 2: "set_dependency env 6 ?reason band_matrix sp d4 = (Returns (), d5)" and q5: "queueable sp d5"
    by (auto simp: names(2) band_matrix_def)
  from queue_accepts [OF q5] obtain d6 where 3: "queue_sequence ?reason sp d5 = (Returns (), d6)" by blast
  have base: "same_base d d6"
    by (intro same_base_trans [OF build_sequence_base [OF 1]] same_base_trans [OF set_dependency_base [OF 2]]
        queue_sequence_base [OF 3])
  then have "progress_attr ?progress d6" using same_base_strings assms(7) by blast
  from set_progress_writes [OF this assms(9)] obtain d7 where
    4: "set_progress env ?reason ?progress [''IDLE'', ?msg] d6 = (Returns (), d7)" by blast
  have "band_enum ''requestedBand'' d7"
  proof -
    from 4 have "SetDynAttrValue_strings (env_wlist_ok env) [''IDLE'', ?msg] ?progress d6 = (Got (), d7)"
      by (auto simp: set_progress_def or_raise_def split: prod.splits access.splits)
    from set_strings_result(4) [OF this, of "''requestedBand''"] base assms(8) show ?thesis
      by (simp add: band_enum_def same_base_def)
  qed
  from store_requested_band_accepts [OF this assms(1)] obtain d' where "store_requested_band env bandId d7 = (Returns (), d')"
    by blast
  with 1 2 3 4 assms(1-4) show ?thesis by (simp add: ConfigureBand_def Let_def)
qed

lemma band_ongoing_strings:
  "strings_at ''configureBandProgress'' d = Some (st # vs) \<Longrightarrow>
   band_ongoing d = (Returns (st \<in> set taskSequence_progress_ongoing), d)"
  by (auto simp: strings_at_def band_ongoing_def split: access.splits)

lemma short_reads [simp]: "GetDynAttrValue TShort n d \<noteq> Undefined_Access"
  by (simp add: GetDynAttrValue_def split: option.split)

lemma capability_reads: "IsBandCapabilityAvailable bandId d \<noteq> Undefined_Access"
  by (simp add: IsBandCapabilityAvailable_def Let_def split: access.split option.split)

lemma configure_band_not_accepted:
  assumes "IsBandCapabilityAvailable bandId d \<noteq> Got True \<or> band_ongoing d = (Returns True, d)"
  shows "ConfigureBand env bandId ts d = (Raises ''CONFIGURE_BAND_FAILED'', d)"
proof (cases "GetDynAttrValue TShort ''configuredBand'' d")
  case (Got v)
  with assms capability_reads [of bandId d] show ?thesis
    by (cases "IsBandCapabilityAvailable bandId d") (auto simp: ConfigureBand_def Let_def)
qed (use short_reads [of "''configuredBand''" d] in \<open>auto simp: ConfigureBand_def Let_def\<close>)

subsection \<open>Reset and poll return\<close>

lemma set_progress_list:
  "set_progress env reason n msg d = (Returns (), d') \<Longrightarrow> taskSequenceStatusAttrList d' = taskSequenceStatusAttrList d"
  by (auto simp: set_progress_def or_raise_def SetDynAttrValue_strings_def SetDynAttrValueInManager_strings_def
      set_spectrum_def split: option.splits if_splits access.splits prod.splits)

lemma reset_progress_returns:
  assumes "\<forall>n\<in>set ns. progress_attr n d" and "\<And>n vs. env_wlist_ok env n vs"
  shows "\<exists>d'. reset_progress env ns d = (Returns (), d') \<and> taskSequenceStatusAttrList d' = taskSequenceStatusAttrList d"
  using assms(1)
proof (induction ns arbitrary: d)
  case Nil
  then show ?case by (simp add: reset_progress_def)
next
  case (Cons n ns)
  then obtain d1 where 1: "set_progress env ''RESET_DISH_MODE_FAILED'' n
      [''UNKNOWN'', ''Progress attribute was reset''] d = (Returns (), d1)"
    using set_progress_writes [of n d env] assms(2) by fastforce
  with Cons.prems have "\<forall>n\<in>set ns. progress_attr n d1" using set_progress_result(5) [OF 1] by simp
  from Cons.IH [OF this] 1 set_progress_list [OF 1] show ?case by (auto simp: reset_progress_def)
qed

lemma flush_returns: "\<exists>d'. flush_task_queue d = (Returns (), d') \<and>
    taskSequenceStatusAttrList d' = taskSequenceStatusAttrList d"
  by (simp add: flush_task_queue_def raise_negative_def on_mgr_def FlushQueue_def)

lemma reset_dish_tasks_returns:
  assumes "\<forall>n\<in>set mode_progress_attrs \<union> {''startupOnPowerRestoreProgress'', ''shutdownOnPowerCutProgress''}.
      progress_attr n d" and "\<And>n vs. env_wlist_ok env n vs"
  shows "\<exists>d'. reset_dish_tasks env d = (Returns (), d') \<and> taskSequenceStatusAttrList d' = taskSequenceStatusAttrList d"
proof -
  obtain d1 where 1: "flush_task_queue d = (Returns (), d1)" "taskSequenceStatusAttrList d1 = taskSequenceStatusAttrList d"
    using flush_returns [of d] by auto
  let ?ns = "mode_progress_attrs @ [''startupOnPowerRestoreProgress'', ''shutdownOnPowerCutProgress'']"
  have "\<forall>n\<in>set ?ns. progress_attr n d1"
    using assms(1) same_base_strings [OF flush_base [OF 1(1)]] by auto
  from reset_progress_returns [OF this assms(2)] 1 show ?thesis by (auto simp: reset_dish_tasks_def)
qed

text \<open>The attributes that are polled: spectra of strings that hold two values.\<close>

definition polled :: "'z lmc_tasks_scheme \<Rightarrow> bool" where
  "polled d \<longleftrightarrow>
     (\<forall>n\<in>set (taskSequenceStatusAttrList d). progress_attr n d \<and> (\<exists>ss. strings_at n d = Some ss \<and> length ss = 2))"

lemma poll_writes:
  assumes "progress_attr n d" and "strings_at n d = Some ss" and "length ss = 2" and "\<And>m vs. env_wlist_ok env m vs"
  shows "\<exists>d'. update_status_attr env n d = (Returns (), d') \<and> (\<exists>ss. strings_at n d' = Some ss \<and> length ss = 2)"
proof -
  from assms(1) obtain a where a: "map_of (dyn_attrs d) n = Some a" "at_type a = DEV_STRING" "\<not> at_scalar a" "2 \<le> at_max_dim a"
    by (auto simp: progress_attr_def)
  have w: "SetDynAttrValue_strings (env_wlist_ok env) [s, info] n d = (Got (), set_spectrum n (List.map VString [s, info]) d)"
    for s info
    using a assms(4) by (simp add: SetDynAttrValue_strings_def SetDynAttrValueInManager_strings_def)
  note r = set_strings_result(1) [OF w]
  from progress_read [OF assms(1)] assms(2) have "GetDynAttrValue_spectrum TString n d = Got (List.map VString ss)" by simp
  with assms(2,3) w r show ?thesis
    by (auto simp: update_status_attr_def split: list.split prod.split)
qed

lemma poll_returns:
  assumes "\<forall>n\<in>set ns. progress_attr n d \<and> (\<exists>ss. strings_at n d = Some ss \<and> length ss = 2)"
    and "\<And>m vs. env_wlist_ok env m vs"
  shows "\<exists>d'. for_each (update_status_attr env) ns d = (Returns (), d')"
  using assms(1)
proof (induction ns arbitrary: d)
  case (Cons n ns)
  from Cons.prems obtain ss where "progress_attr n d" "strings_at n d = Some ss" "length ss = 2" by auto
  from poll_writes [OF this assms(2)] obtain d1 where 1: "update_status_attr env n d = (Returns (), d1)"
    "\<exists>ss. strings_at n d1 = Some ss \<and> length ss = 2" by blast
  have "\<forall>m\<in>set ns. progress_attr m d1 \<and> (\<exists>ss. strings_at m d1 = Some ss \<and> length ss = 2)"
  proof
    fix m
    assume "m \<in> set ns"
    with Cons.prems poll_one(3,4) [OF 1(1) assms(2), of m] 1(2)
    show "progress_attr m d1 \<and> (\<exists>ss. strings_at m d1 = Some ss \<and> length ss = 2)" by (cases "m = n") auto
  qed
  from Cons.IH [OF this] 1(1) show ?case by auto
qed simp

end
