(* ===== verification/DishExamples.thy ===== *)
theory DishExamples
  imports DishVerdict
begin

text \<open>
  The dish of the witnesses: its attributes, an empty task manager, controllers that accept every command,
  and the surroundings: a clock that stands still, identifiers that are all the same, arguments of tasks
  that are handed over as they are.
\<close>

definition enum_at :: "string list \<Rightarrow> 16 word \<Rightarrow> dyn_attr" where
  "enum_at ls w = \<lparr>at_type = DEV_ENUM, at_scalar = True, at_max_dim = 1, at_labels = ls, at_written = False,
     at_value = VShort w, at_spectrum = []\<rparr>"

definition bool_at :: "bool \<Rightarrow> dyn_attr" where
  "bool_at b = \<lparr>at_type = DEV_BOOLEAN, at_scalar = True, at_max_dim = 1, at_labels = [], at_written = False,
     at_value = VBool b, at_spectrum = []\<rparr>"

definition progress_at :: "string \<Rightarrow> dyn_attr" where
  "progress_at st = \<lparr>at_type = DEV_STRING, at_scalar = False, at_max_dim = 2, at_labels = [], at_written = False,
     at_value = VString [], at_spectrum = [VString st, VString []]\<rparr>"

definition dish_modes :: "string list" where
  "dish_modes =
     [''OFF'', ''STARTUP'', ''SHUTDOWN'', ''STANDBY-LP'', ''STANDBY-FP'', ''MAINTENANCE'', ''STOW'', ''CONFIG'', ''OPERATE'']"

definition progress_names :: "string list" where
  "progress_names = mode_progress_attrs @
     [''setStandbyFPOnESTOPProgress'', ''spfGoOperationalProgress'', ''startupOnPowerRestoreProgress'',
      ''shutdownOnPowerCutProgress'', ''spfSetStandbyLPModeProgress'', ''dsSetStandbyLPModeProgress'',
      ''spfSetOperateModeProgress'', ''dsIndexingProgress'']"

definition dish_attrs :: "nat \<Rightarrow> (string \<times> dyn_attr) list" where
  "dish_attrs i =
     [(''dishMode'', enum_at dish_modes (of_nat i)),
      (''configuredBand'', enum_at (''NONE'' # band_labels) 1), (''requestedBand'', enum_at (''NONE'' # band_labels) 1),
      (''b1CapabilityState'', enum_at [''UNAVAILABLE'', ''STANDBY'', ''OPERATE''] 1),
      (''b2CapabilityState'', enum_at [''UNAVAILABLE'', ''STANDBY'', ''OPERATE''] 0),
      (''b5aCapabilityState'', enum_at [''UNAVAILABLE'', ''STANDBY'', ''OPERATE''] 1),
      (''enableESTOPEventHandler'', bool_at True)] @
     List.map (\<lambda>n. (n, progress_at ''UNKNOWN''))
       progress_names"

definition the_dish :: "nat \<Rightarrow> dish" where
  "the_dish i =
     \<lparr>dyn_attrs = dish_attrs i, dev_commands = List.map fst dish_mode_rules, rules = RuleFactory_Instance,
      lmc_name = ''mid_dsh/elt/master'',
      taskManager = SetMaxNTasksInQueue 100
        (TaskManager_new (\<lambda>p. Task_new (\<lambda>n. 0) [] False [] 0 False) (\<lambda>p. TaskSequence_new [] 0 [] False)),
      next_task = 0, next_sequence = 0, defaultTaskTimeout = 30, taskHistoryTimeDepth = 3600,
      taskSequenceStatusAttrList = mode_progress_attrs, taskStatusAttrList = [''spfSetOperateModeProgress''],
      configureTaskTimeout = 30, operateTaskTimeout = 30, shutdownTaskTimeout = 30, rxShutdownTimeDelay = 10,
      rxControllerAddress = ''rx'', spfControllerAddress = ''spf'', dsManagerAddress = ''ds'',
      pduManagerAddress = ''pdu'', dish_fault = False, dish_sent = []\<rparr>"

text \<open>An argument is held as the JSON text of its task; the only one here is the band 1.\<close>

definition quiet_env :: dish_env where
  "quiet_env =
     \<lparr>env_w_ok = \<lambda>n v. True, env_wlist_ok = \<lambda>n vs. True, env_clock = \<lambda>i n. 0, env_uuid = \<lambda>i. ''id'',
      env_any = \<lambda>v. ''1'', env_contents = \<lambda>s. Any_Scalar (VShort 1), env_iso8601 = \<lambda>t. [],
      env_writer = \<lambda>j. Some [],
      env_reader = \<lambda>s. Some (JObject [(''id'', JString ''id''), (''name'', JString ''task''), (''priority'', JInt 1),
        (''status'', JInt 1), (''is_utc'', JBool False), (''creation_time'', JString [])]),
      env_show = \<lambda>j. [], env_found = \<lambda>n. True, env_alias = \<lambda>n. None, env_admin = \<lambda>n. None,
      env_exec = \<lambda>p c a. Replied (Some ([''ok''], [0])), env_write = \<lambda>p ns v. Replied None,
      env_unregister = \<lambda>n. True, env_register = \<lambda>n. True\<rparr>"

text \<open>The dish with its rules, in the mode with index \<open>i\<close>.\<close>

definition registered_rules :: rule_factory where
  "registered_rules = rules (the (DishManager_InitCmdAttrStateMachine (the_dish 0)))"

definition ruled_dish :: "nat \<Rightarrow> dish" where
  "ruled_dish i = (the_dish i)\<lparr>rules := registered_rules\<rparr>"

lemma ruled_dish_ruled: "dish_ruled (rules (ruled_dish i))"
proof -
  have "dish_rules_ready (the_dish 0)"
    by (simp add: dish_rules_ready_def the_dish_def dish_attrs_def is_scalar_attr_def enum_at_def)
  from dish_rules_registered [OF this] show ?thesis by (auto simp: ruled_dish_def registered_rules_def)
qed

lemma ruled_dish_attrs:
  "map_of (dyn_attrs (ruled_dish i)) ''dishMode'' = Some (enum_at dish_modes (of_nat i))"
  "map_of (dyn_attrs (ruled_dish i)) ''b1CapabilityState'' = Some (enum_at [''UNAVAILABLE'', ''STANDBY'', ''OPERATE''] 1)"
  "map_of (dyn_attrs (ruled_dish i)) ''b2CapabilityState'' = Some (enum_at [''UNAVAILABLE'', ''STANDBY'', ''OPERATE''] 0)"
  "map_of (dyn_attrs (ruled_dish i)) ''configuredBand'' = Some (enum_at (''NONE'' # band_labels) 1)"
  "map_of (dyn_attrs (ruled_dish i)) ''requestedBand'' = Some (enum_at (''NONE'' # band_labels) 1)"
  "n \<in> set progress_names \<Longrightarrow>
   map_of (dyn_attrs (ruled_dish i)) n = Some (progress_at ''UNKNOWN'')"
  by (auto simp: ruled_dish_def the_dish_def dish_attrs_def progress_names_def mode_progress_attrs_def)

lemma ruled_dish_progress:
  assumes "n \<in> set progress_names"
  shows "progress_attr n (ruled_dish i)" and "strings_at n (ruled_dish i) = Some [''UNKNOWN'', []]"
    and "HasAttribute (ruled_dish i) n"
  using ruled_dish_attrs(6) [OF assms]
  by (simp_all add: progress_attr_def strings_at_def GetDynAttrValue_spectrum_def HasAttribute_def progress_at_def)

lemma progress_names_elems:
  "n \<in> set mode_progress_attrs \<Longrightarrow> n \<in> set progress_names" "''setStandbyFPOnESTOPProgress'' \<in> set progress_names"
  "''startupOnPowerRestoreProgress'' \<in> set progress_names" "''shutdownOnPowerCutProgress'' \<in> set progress_names"
  "''spfSetStandbyLPModeProgress'' \<in> set progress_names" "''dsSetStandbyLPModeProgress'' \<in> set progress_names"
  "''spfSetOperateModeProgress'' \<in> set progress_names" "''dsIndexingProgress'' \<in> set progress_names"
  by (simp_all add: progress_names_def)

lemma ruled_dish_fits: "dish_fits (ruled_dish i)"
  by (simp add: dish_fits_def mgr_fits_def ruled_dish_def the_dish_def TaskManager_new_def SetMaxNTasksInQueue_def)

lemma ruled_dish_mode:
  "GetDynAttrValue TShort ''dishMode'' (ruled_dish i) = Got (VShort (of_nat i))"
  "i < 9 \<Longrightarrow> seen_value ''dishMode'' (ruled_dish i) = Got (VString (dish_modes ! i))"
  "enum_value ''dishMode'' ''STANDBY-LP'' (ruled_dish i) = 3"
proof -
  have "dish_modes ! 3 = ''STANDBY-LP''" by (simp add: dish_modes_def)
  show "GetDynAttrValue TShort ''dishMode'' (ruled_dish i) = Got (VShort (of_nat i))"
    by (simp add: GetDynAttrValue_def ruled_dish_attrs enum_at_def)
  show "enum_value ''dishMode'' ''STANDBY-LP'' (ruled_dish i) = 3"
    by (simp add: enum_value_def GetEnumAttrValue_def ruled_dish_attrs enum_at_def dish_modes_def)
  show "seen_value ''dishMode'' (ruled_dish i) = Got (VString (dish_modes ! i))" if "i < 9"
  proof -
    from that have "i \<in> {0,1,2,3,4,5,6,7,8}" by auto
    then show ?thesis
      by (auto simp: seen_value_def ruled_dish_attrs enum_at_def dish_modes_def rule_type_def GetDynAttrValue_def
          GetEnumAttrLabelValue_def)
  qed
qed

lemma ruled_dish_room: "int (length (m_taskQueue (taskManager (ruled_dish i)))) + 90 \<le>
    m_maxTasksInQueue (taskManager (ruled_dish i))"
  by (simp add: ruled_dish_def the_dish_def TaskManager_new_def SetMaxNTasksInQueue_def)

lemma quiet_env_fields [simp]: "env_wlist_ok quiet_env n vs" "env_uuid quiet_env k = ''id''"
  by (simp_all add: quiet_env_def)

end
