(* ===== verification/DishProps.thy ===== *)
theory DishProps
  imports DishExamples TaskExamples
begin

text \<open>
  Properties of \<open>DishManager\<close>: the order of the tasks of its sequences, the commands and their locks, the
  rules, the configuration of a band, the emergency stop, the reset.
\<close>

subsection \<open>Order of tasks\<close>

lemma fresh_fits: "m_taskQueue (taskManager d) = [] \<Longrightarrow> m_taskSequences (taskManager d) = [] \<Longrightarrow> dish_fits d"
  by (simp add: dish_fits_def mgr_fits_def)

text \<open>C8: In every state that the device reaches, the task thread gives out a task of a band configuration,
  of a shutdown after a power cut or of the start of the feed package only when the task that must come
  before it is completed: the receiver is synchronised after it is configured, the feed is switched after
  the indexer has moved, power is cut after the shutdown.\<close>

theorem dish_tasks_in_order:
  assumes "dish_reachable d0 d" and "dish_fits d0"
    and "PopTask tms (taskManager d) = (Popped t, m')"
    and "(sequence_name t, cmd_name t, before) \<in> set comes_after"
  shows "\<exists>sp\<in>set (m_taskSequences m'). \<exists>p\<in>set (tasks (m_seqs m' sp)).
           MatchTaskSequenceByIdAndName (sequence_id t) (sequence_name t) (m_seqs m' sp) \<and>
           cmd_name (m_tasks m' p) = before \<and> status (m_tasks m' p) = eCOMPLETED"
proof -
  from dish_reachable_fits [OF assms(1,2)] have fits: "mgr_fits (next_task d) (next_sequence d) (taskManager d)"
    by (simp add: dish_fits_def)
  from comes_after_template [OF assms(4)] obtain names deps where t: "template (sequence_name t) = Some (names, deps)"
    and b: "\<And>i. i < length names \<Longrightarrow> names ! i = cmd_name t \<Longrightarrow> \<exists>j\<in>set (deps ! i). names ! j = before" by blast
  from popped_position [OF fits assms(3) t] b show ?thesis by metis
qed

text \<open>A feed package whose first task is completed and whose second task is queued.\<close>

definition half_task :: "nat \<Rightarrow> task" where
  "half_task i = (raw_task True (if i = 0 then ''SetSPFOperateModeTask'' else ''SetSPFLnaPowerOnTask'') 1 False)
     \<lparr>task_id := ''id'', status := (if i = 0 then eCOMPLETED else eIDLE), is_in_sequence := True,
      sequence_id := ''id'', sequence_name := ''SetSPFOperational'', sequence_index := i,
      depend_on_sequence_tasks := i \<noteq> 0, dep_task_seq_indexes := if i = 0 then [] else [0]\<rparr>"

definition half_done :: dish where
  "half_done = (the_dish 4)\<lparr>next_task := 2, next_sequence := 1, taskManager :=
     (TaskManager_new half_task (\<lambda>sp. (TaskSequence_new ''id'' 0 ''SetSPFOperational'' False)\<lparr>tasks := [0, 1]\<rparr>))
       \<lparr>m_taskQueue := [1], m_taskSequences := [0]\<rparr>\<rparr>"

lemma half_done_mgr:
  "m_taskQueue (taskManager half_done) = [1]" "m_taskSequences (taskManager half_done) = [0]"
  "m_tasks (taskManager half_done) = half_task" "\<not> m_endSignal (taskManager half_done)"
  "tasks (m_seqs (taskManager half_done) sp) = [0, 1]" "seq_id (m_seqs (taskManager half_done) sp) = ''id''"
  "seq_name (m_seqs (taskManager half_done) sp) = ''SetSPFOperational''"
  "next_task half_done = 2" "next_sequence half_done = 1"
  by (simp_all add: half_done_def TaskManager_new_def TaskSequence_new_def)

lemma half_done_fits: "dish_fits half_done"
  by (simp add: dish_fits_def mgr_fits_def half_done_mgr task_fits_def at_position_def seq_fits_def
      template_def half_task_def raw_task_def)

lemma half_done_pops: "\<exists>t m'. PopTask (\<lambda>n. all_fired) (taskManager half_done) = (Popped t, m') \<and>
    sequence_name t = ''SetSPFOperational'' \<and> cmd_name t = ''SetSPFLnaPowerOnTask''"
proof -
  let ?m = "taskManager half_done"
  have "IsRunnable all_fired (half_task (Suc 0))"
    by (simp add: IsRunnable_def IsActivationReached_def IsExpirationReached_def half_task_def raw_task_def)
  moreover have "is_sequence_task_runnable (Some (Suc 0)) ?m"
    by (simp add: is_sequence_task_runnable_def half_done_mgr half_task_def raw_task_def
        find_task_sequence_def MatchTaskSequenceByIdAndName_def)
  moreover have "status (half_task (Suc 0)) \<noteq> eCOMPLETED" by (simp add: half_task_def raw_task_def)
  ultimately obtain t m' where pop: "PopTask (\<lambda>n. all_fired) ?m = (Popped t, m')"
    using pop_task_returns [of ?m 1 "\<lambda>n. all_fired"] half_done_mgr by auto
  from pop_task_popped [OF pop] have t: "t = m_tasks m' (Suc 0)" by (auto simp: half_done_mgr)
  have "static_task t = static_task (half_task (Suc 0))"
    using shrinks_pop [of ?m "\<lambda>n. all_fired"] pop t by (simp add: shrinks_def same_static_def half_done_mgr)
  then have "sequence_name t = sequence_name (half_task (Suc 0))" "cmd_name t = cmd_name (half_task (Suc 0))"
    by (metis static_task_fields)+
  with pop show ?thesis by (auto simp: half_task_def raw_task_def)
qed

theorem dish_tasks_in_order_witness:
  "\<exists>t m'. PopTask (\<lambda>n. all_fired) (taskManager half_done) = (Popped t, m') \<and>
     cmd_name t = ''SetSPFLnaPowerOnTask'' \<and>
     (\<exists>sp\<in>set (m_taskSequences m'). \<exists>p\<in>set (tasks (m_seqs m' sp)).
        cmd_name (m_tasks m' p) = ''SetSPFOperateModeTask'' \<and> status (m_tasks m' p) = eCOMPLETED)"
proof -
  obtain t m' where p: "PopTask (\<lambda>n. all_fired) (taskManager half_done) = (Popped t, m')"
    "sequence_name t = ''SetSPFOperational''" "cmd_name t = ''SetSPFLnaPowerOnTask''" using half_done_pops by blast
  have "(sequence_name t, cmd_name t, ''SetSPFOperateModeTask'') \<in> set comes_after"
    by (simp add: p comes_after_def)
  from dish_tasks_in_order [OF Dish_Start half_done_fits p(1) this] p show ?thesis by blast
qed

subsection \<open>Mode commands\<close>

text \<open>The five commands that \<open>mode_command\<close> describes.\<close>

definition mode_specs :: "mode_spec list" where
  "mode_specs = [lp_spec, fp_spec, operate_spec, maintenance_spec, stow_spec]"

lemmas mode_spec_defs = lp_spec_def fp_spec_def operate_spec_def maintenance_spec_def stow_spec_def

lemma mode_specs_ungated:
  "c \<in> set mode_specs \<Longrightarrow> dish_ruled (rules d) \<Longrightarrow> cmd_allowed (mc_function c) d = (Returns (), d)"
  by (rule dish_no_gate [where cmd = "mc_function c"])
    (use dish_body_names [of "mc_function c"] in \<open>auto simp: mode_specs_def mode_spec_defs\<close>)




subsection \<open>Bands\<close>


lemma ruled_dish_bands:
  "GetDynAttrValue TShort ''configuredBand'' (ruled_dish i) = Got (VShort 1)"
  "band_enum ''requestedBand'' (ruled_dish i)" "IsBandCapabilityAvailable 1 (ruled_dish i) = Got True"
  by (simp_all add: GetDynAttrValue_def ruled_dish_attrs enum_at_def band_enum_def IsBandCapabilityAvailable_def
      GetEnumAttrLabelValue_def capability_attrs_def in_bands_def)

lemma ruled_dish_can_configure: "can_schedule quiet_env (band_tasks quiet_env b (ruled_dish i)) (ruled_dish i)"
  using ruled_dish_room [of i]
  by (auto simp: can_schedule_def band_tasks_def asynch_task_def synch_task_def ruled_dish_progress progress_names_elems)


subsection \<open>Rules\<close>


lemma mode_command_found:
  "map_of (mode_commands env argin) ''SetStandbyFPMode'' =
     Some (gated ''is_SetStandbyFPMode_allowed'' (\<lambda>d. without_reply (dish_set_standby_fpmode env d)))"
  "map_of (mode_commands env argin) ''SetOperateMode'' =
     Some (gated ''is_SetOperateMode_allowed'' (\<lambda>d. without_reply (set_operate_mode env d)))"
  "map_of (mode_commands env argin) ''SetMaintenanceMode'' =
     Some (gated ''is_SetMaintenanceMode_allowed'' (\<lambda>d. without_reply (dish_set_maintenance_mode env d)))"
  "map_of (mode_commands env argin) ''ConfigureBand1'' = Some (gated ''is_ConfigureBand1_allowed'' (configure_band1 env argin))"
  "map_of (mode_commands env argin) ''ConfigureBand2'' = Some (gated ''is_ConfigureBand2_allowed'' (configure_band2 env argin))"
  "map_of (mode_commands env argin) ''ConfigureBand3'' = Some (gated ''is_ConfigureBand3_allowed'' (configure_band3 env argin))"
  "map_of (mode_commands env argin) ''ConfigureBand4'' = Some (gated ''is_ConfigureBand4_allowed'' (configure_band4 env argin))"
  "map_of (mode_commands env argin) ''ConfigureBand5a'' = Some (configure_band5a env argin)"
  "map_of (mode_commands env argin) ''ConfigureBand5b'' = Some (configure_band5b env argin)"
  "map_of (mode_commands env argin) ''Synchronise'' = None"
  by (simp_all add: mode_commands_def)






text \<open>The rules of the bands 5a and 5b are never asked for: \<open>ConfigureBand5a\<close> and \<open>ConfigureBand5b\<close>
  configure the band in a mode that the rules forbid.\<close>

theorem band_5_not_gated:
  assumes "\<exists>ms. map_of dish_mode_rules cmd = Some ms \<and> l \<notin> set ms"
    and "seen_value ''dishMode'' d = Got (VString l)"
    and "(cmd, bandId) \<in> {(''ConfigureBand5a'', 5), (''ConfigureBand5b'', 6)}"
    and "dish_fits d" and "can_schedule env (band_tasks env bandId d) d"
    and "progress_attr ''configureBandProgress'' d"
    and "strings_at ''configureBandProgress'' d = Some (st # vs)" and "st \<notin> set taskSequence_progress_ongoing"
    and "band_enum ''requestedBand'' d" and "GetDynAttrValue TShort ''configuredBand'' d = Got v"
    and "IsBandCapabilityAvailable bandId d = Got True" and "\<And>n vs. env_wlist_ok env n vs"
  shows "\<exists>d' sp. dish_execute_command env now cmd argin d = (Returns (), d') \<and>
    scheduled ''ConfigureBand'' band_names d' sp"
proof -
  have b: "in_bands 1 6 bandId" using assms(3) by (auto simp: in_bands_def)
  have o: "band_ongoing d = (Returns False, d)" using band_ongoing_strings [OF assms(7)] assms(8) by simp
  from configure_band_accepts [OF b assms(10,11) o assms(4-6,9,12)] obtain d' where
    r: "ConfigureBand env bandId argin d = (Returns 0, d')" by blast
  from configure_band_Returns(4) [OF r assms(4,6)] obtain sp where "scheduled ''ConfigureBand'' band_names d' sp" by blast
  moreover have "dish_execute_command env now cmd argin d = without_reply (ConfigureBand env bandId argin d)"
    using assms(3)
    by (elim insertE emptyE)
      (simp_all add: dish_execute_command_def mode_command_found map_add_def configure_band5a_def configure_band5b_def)
  ultimately show ?thesis using r by (auto simp: without_reply_def)
qed

lemma ruled_dish_band_5:
  "map_of (dyn_attrs (ruled_dish i)) ''b5aCapabilityState'' = Some (enum_at [''UNAVAILABLE'', ''STANDBY'', ''OPERATE''] 1)"
  "IsBandCapabilityAvailable 5 (ruled_dish i) = Got True"
proof -
  show 1: "map_of (dyn_attrs (ruled_dish i)) ''b5aCapabilityState'' = Some (enum_at [''UNAVAILABLE'', ''STANDBY'', ''OPERATE''] 1)"
    by (simp add: ruled_dish_def the_dish_def dish_attrs_def)
  then show "IsBandCapabilityAvailable 5 (ruled_dish i) = Got True"
    by (simp add: IsBandCapabilityAvailable_def GetDynAttrValue_def enum_at_def GetEnumAttrLabelValue_def
        capability_attrs_def in_bands_def)
qed

theorem band_5_not_gated_witness:
  "\<exists>d' sp. dish_execute_command quiet_env 0 ''ConfigureBand5a'' [] (ruled_dish 5) = (Returns (), d') \<and>
     scheduled ''ConfigureBand'' band_names d' sp"
proof (rule band_5_not_gated [where bandId = 5 and st = "''UNKNOWN''" and vs = "[[]]" and l = "''MAINTENANCE''"])
  show "seen_value ''dishMode'' (ruled_dish 5) = Got (VString ''MAINTENANCE'')"
    by (simp add: ruled_dish_mode(2)) (simp add: dish_modes_def)
  show "\<exists>ms. map_of dish_mode_rules ''ConfigureBand5a'' = Some ms \<and> ''MAINTENANCE'' \<notin> set ms"
    by (simp add: dish_mode_rules_def)
  show "''UNKNOWN'' \<notin> set taskSequence_progress_ongoing" by (simp add: taskSequence_progress_ongoing_def)
qed (simp_all add: ruled_dish_fits ruled_dish_can_configure ruled_dish_progress progress_names_elems mode_progress_attrs_def
    ruled_dish_bands ruled_dish_band_5)

subsection \<open>Reset\<close>

text \<open>C12: \<open>ResetDishTasks\<close> empties the queue and resets the progress attributes, but the sequences stay in
  the collection with their statuses: the next poll writes the status of the discarded sequence back, and
  its command is refused again although nothing is queued.\<close>

theorem reset_undone_by_poll:
  assumes "c \<in> set mode_specs" and "dish_ruled (rules d)" and "polled d"
    and "\<forall>n\<in>set mode_progress_attrs \<union> {''startupOnPowerRestoreProgress'', ''shutdownOnPowerCutProgress''}. progress_attr n d"
    and "mc_progress c \<in> set (taskSequenceStatusAttrList d)"
    and "newest_status (mc_progress c) (taskManager d) = Some st" and "st \<in> {eINIT, eIDLE, eRUNNING}"
    and "\<And>n vs. env_wlist_ok env n vs"
  shows "\<exists>d1 d2. reset_dish_tasks env d = (Returns (), d1) \<and> m_taskQueue (taskManager d1) = [] \<and>
    strings_at (mc_progress c) d1 = Some [''UNKNOWN'', ''Progress attribute was reset''] \<and>
    update_status_attrs env d1 = (Returns (), d2) \<and> mode_command env c guard tss d2 = (Raises (mc_reason c), d2)"
proof -
  from reset_dish_tasks_returns [OF assms(4,8)] obtain d1 where 1: "reset_dish_tasks env d = (Returns (), d1)"
    and l: "taskSequenceStatusAttrList d1 = taskSequenceStatusAttrList d" by blast
  note R = reset_dish_tasks_result [OF 1]
  let ?n = "mc_progress c"
  have n: "?n \<in> set mode_progress_attrs" using assms(1) by (auto simp: mode_specs_def mode_spec_defs mode_progress_attrs_def)
  have two: "\<exists>ss. strings_at m d1 = Some ss \<and> length ss = 2" if "m \<in> set (taskSequenceStatusAttrList d)" for m
  proof (cases "strings_at m d1 = strings_at m d")
    case True
    with assms(3) that show ?thesis by (simp add: polled_def)
  next
    case False
    from R(7) [of m] False show ?thesis by auto
  qed
  have "\<forall>m\<in>set (taskSequenceStatusAttrList d1). progress_attr m d1 \<and> (\<exists>ss. strings_at m d1 = Some ss \<and> length ss = 2)"
    using two assms(3) R(6) l by (auto simp: polled_def)
  from poll_returns [OF this assms(8)] obtain d2 where 2: "update_status_attrs env d1 = (Returns (), d2)"
    by (auto simp: update_status_attrs_def)
  have p: "progress_attr ?n d1" using assms(4) n R(6) by blast
  have st: "newest_status ?n (taskManager d1) = Some st" using newest_status_frame [OF R(2,3)] assms(6) by simp
  from poll_restores [OF 2 [unfolded update_status_attrs_def] assms(8) p st assms(7) two [OF assms(5)]] assms(5) l
  obtain s info where s: "rules d2 = rules d1" "progress_attr ?n d2" "strings_at ?n d2 = Some [s, info]"
    "s \<in> set taskSequence_progress_ongoing" by auto
  have "cmd_allowed (mc_function c) d2 = (Returns (), d2)"
    using mode_specs_ungated [OF assms(1)] assms(2) s(1) R(4) by simp
  from mode_command_refused [OF this s(2,3,4)] 1 2 R(1) R(5) [OF n] show ?thesis by blast
qed

text \<open>A dish whose sequence \<open>SetStandbyLPMode\<close> was queued.\<close>

definition pending_dish :: dish where
  "pending_dish = (ruled_dish 4)\<lparr>taskManager :=
     (TaskManager_new half_task (\<lambda>sp. (TaskSequence_new ''id'' 0 ''SetStandbyLPMode'' False)
        \<lparr>tasks := [0, 1], seq_status := eIDLE, has_device_status_attr := True,
         dev_status_attr_name := ''setStandbyLPModeProgress''\<rparr>))
       \<lparr>m_taskQueue := [1], m_taskSequences := [0]\<rparr>\<rparr>"

lemma pending_dish_fields:
  "rules (pending_dish) = rules (ruled_dish 4)" "dyn_attrs pending_dish = dyn_attrs (ruled_dish 4)"
  "taskSequenceStatusAttrList pending_dish = mode_progress_attrs"
  by (simp_all add: pending_dish_def ruled_dish_def the_dish_def)

lemma pending_dish_progress:
  assumes "n \<in> set mode_progress_attrs \<union> {''startupOnPowerRestoreProgress'', ''shutdownOnPowerCutProgress''}"
  shows "progress_attr n pending_dish" and "strings_at n pending_dish = Some [''UNKNOWN'', []]"
proof -
  from assms have 1: "n \<in> set progress_names" by (auto simp: progress_names_elems)
  from ruled_dish_progress(1,2) [OF 1, of 4] show "progress_attr n pending_dish"
    "strings_at n pending_dish = Some [''UNKNOWN'', []]" by (simp_all only: attrs_frame [OF pending_dish_fields(2)])
qed

lemma pending_dish_status: "newest_status ''setStandbyLPModeProgress'' (taskManager pending_dish) = Some eIDLE"
  by (simp add: newest_status_def GetTaskSequenceStatusInfo_def find_task_sequences_by_dev_attr_def pending_dish_def
      TaskManager_new_def TaskSequence_new_def sequence_info_def MatchTaskSequenceByDevAttrName_def)

theorem reset_undone_by_poll_witness:
  "\<exists>d1 d2. reset_dish_tasks quiet_env pending_dish = (Returns (), d1) \<and> m_taskQueue (taskManager d1) = [] \<and>
     update_status_attrs quiet_env d1 = (Returns (), d2) \<and>
     dish_set_standby_lpmode quiet_env d2 = (Raises ''SET_STANDBY_LP_MODE_FAILED'', d2)"
proof -
  have p: "polled pending_dish" "\<forall>n\<in>set mode_progress_attrs \<union>
      {''startupOnPowerRestoreProgress'', ''shutdownOnPowerCutProgress''}. progress_attr n pending_dish"
    using pending_dish_progress by (auto simp: polled_def pending_dish_fields)
  have "lp_spec \<in> set mode_specs" "mc_progress lp_spec \<in> set (taskSequenceStatusAttrList pending_dish)"
    "newest_status (mc_progress lp_spec) (taskManager pending_dish) = Some eIDLE"
    using pending_dish_status by (simp_all add: mode_specs_def lp_spec_def pending_dish_fields mode_progress_attrs_def)
  from reset_undone_by_poll [OF this(1) _ p this(2,3), of quiet_env "\<lambda>_. Returns ()" lp_tasks] ruled_dish_ruled [of 4]
  show ?thesis by (auto simp: pending_dish_fields dish_set_standby_lpmode_def lp_spec_def)
qed

subsection \<open>Emergency stop\<close>

lemma flushed_queueable:
  assumes "queueable sp d" and "flush_task_queue d = (Returns (), d')"
  shows "queueable sp d'"
proof -
  from assms(2) have "taskManager d' = (taskManager d)\<lparr>m_taskQueue := []\<rparr>" "dyn_attrs d' = dyn_attrs d"
    by (auto simp: flush_task_queue_def raise_negative_def on_mgr_def FlushQueue_def split: if_splits)
  with assms(1) show ?thesis by (simp add: queueable_def Let_def HasAttribute_def)
qed

text \<open>An emergency stop that arrives in the modes CONFIG or OPERATE discards everything that is queued and
  queues the two tasks of the stop, and nothing else; its progress attribute says IDLE.\<close>

theorem estop_discards_queue:
  assumes "GetDynAttrValue TBool ''enableESTOPEventHandler'' d = Got (VBool True)"
    and "ParseFromJsonString (env_show env) (env_reader env) argin = Parsed td"
    and "td_data td = Some (Any_Scalar (VShort 4))" and "td_has_data td"
    and "enum_label ''HANDLE_ESTOP_EVENT_FAILED'' ''dishMode'' d = (Returns l, d)" and "l \<in> {''CONFIG'', ''OPERATE''}"
    and "progress_attr ''setStandbyFPOnESTOPProgress'' d"
    and "strings_at ''setStandbyFPOnESTOPProgress'' d = Some (st # info # vs)"
    and "st \<notin> set taskSequence_progress_ongoing"
    and "dish_fits d" and "can_schedule env (estop_tasks d) d" and "\<And>n vs. env_wlist_ok env n vs"
  shows "\<exists>d' sp. handle_estop_event env argin d = (Returns (), d') \<and>
    scheduled ''HandleESTOPEvent'' [''SetSPFOperateModeTask'', ''SetRxStandbyFPModeTask''] d' sp \<and>
    set (m_taskQueue (taskManager d')) \<subseteq> set (tasks (m_seqs (taskManager d') sp)) \<and>
    (\<exists>info. strings_at ''setStandbyFPOnESTOPProgress'' d' = Some [''IDLE'', info])"
proof -
  let ?reason = "''HANDLE_ESTOP_EVENT_FAILED''" and ?progress = "''setStandbyFPOnESTOPProgress''"
  let ?msg = "''Set dish to STANDBY-FP mode on ESTOP scheduled''"
  from build_queueable [OF assms(11), of "''HandleESTOPEvent''" ?reason eHIGH_PRIORITY "Some ?progress"]
  obtain sp d1 where 1: "build_sequence env ?reason eHIGH_PRIORITY (estop_tasks d) ''HandleESTOPEvent'' (Some ?progress) d =
    (Returns sp, d1)" and q: "queueable sp d1" by auto
  obtain d2 where 2: "flush_task_queue d1 = (Returns (), d2)" using flush_returns [of d1] by auto
  from queue_accepts [OF flushed_queueable [OF q 2]] obtain d3 where 3: "queue_sequence ?reason sp d2 = (Returns (), d3)" by blast
  have "same_base d d3"
    by (intro same_base_trans [OF build_sequence_base [OF 1]] same_base_trans [OF flush_base [OF 2]] queue_sequence_base [OF 3])
  then have "progress_attr ?progress d3" using same_base_strings assms(7) by blast
  from set_progress_writes [OF this assms(12)] obtain d' where
    4: "set_progress env ?reason ?progress [''IDLE'', ?msg] d3 = (Returns (), d')" by blast
  have o: "progress_ongoing ?reason ?progress d = (Returns False, d)"
    using assms(7-9) by (simp add: progress_ongoing_value)
  from assms(5,6) o 1 2 3 4 have r: "estop_action env d = (Returns (), d')"
    by (auto simp: estop_action_def Let_def)
  have "handle_estop_event env argin d = estop_action env d"
    using assms(1-4) by (simp add: handle_estop_event_def Let_def handler_enabled_def with_task_data_def with_value_def GetData_def)
  with r estop_action_effect [OF r assms(10,5-9)] set_progress_result(1) [OF 4] show ?thesis by auto
qed

text \<open>The event with the argument 4, the state of an emergency stop.\<close>

definition estop_env :: dish_env where
  "estop_env = quiet_env\<lparr>env_reader := (\<lambda>s. Some (JObject
     [(''id'', JString ''id''), (''name'', JString ''task''), (''priority'', JInt 1), (''status'', JInt 1),
      (''is_utc'', JBool False), (''creation_time'', JString []),
      (''arg'', JObject [(''type'', JInt 2), (''format'', JInt 0), (''value'', JInt 4)])]))\<rparr>"

lemma estop_argument: "\<exists>td. ParseFromJsonString (env_show estop_env) (env_reader estop_env) [] = Parsed td \<and>
    td_data td = Some (Any_Scalar (VShort 4)) \<and> td_has_data td"
  by (simp add: estop_env_def ParseFromJsonString_def parse_defs ctype_of_code_def data_of_json_def
      CreateIntDataFromJson_def create_data_def int_item_def in_int32_def)

theorem estop_discards_queue_witness:
  "\<exists>d' sp. handle_estop_event estop_env [] (ruled_dish 8) = (Returns (), d') \<and>
     set (m_taskQueue (taskManager d')) \<subseteq> set (tasks (m_seqs (taskManager d') sp))"
proof -
  let ?d = "ruled_dish 8" and ?p = "''setStandbyFPOnESTOPProgress''"
  obtain td where td: "ParseFromJsonString (env_show estop_env) (env_reader estop_env) [] = Parsed td"
    "td_data td = Some (Any_Scalar (VShort 4))" "td_has_data td" using estop_argument by blast
  have p: "progress_attr ?p ?d" "strings_at ?p ?d = Some (''UNKNOWN'' # [] # [])" by (simp_all add: ruled_dish_progress progress_names_elems)
  have m: "enum_label ''HANDLE_ESTOP_EVENT_FAILED'' ''dishMode'' ?d = (Returns ''OPERATE'', ?d)"
    by (simp add: enum_label_def ruled_dish_mode(1) GetEnumAttrLabelValue_def ruled_dish_attrs(1) enum_at_def dish_modes_def)
  have e: "GetDynAttrValue TBool ''enableESTOPEventHandler'' ?d = Got (VBool True)"
    by (simp add: GetDynAttrValue_def ruled_dish_def the_dish_def dish_attrs_def bool_at_def)
  have i: "''UNKNOWN'' \<notin> set taskSequence_progress_ongoing" by (simp add: taskSequence_progress_ongoing_def)
  have s: "can_schedule estop_env (estop_tasks ?d) ?d"
    using ruled_dish_room [of 8]
    by (auto simp: can_schedule_def estop_tasks_def asynch_task_def synch_task_def ruled_dish_progress progress_names_elems estop_env_def quiet_env_def)
  have "env_wlist_ok estop_env n vs" for n vs by (simp add: estop_env_def)
  from estop_discards_queue [OF e td m _ p i ruled_dish_fits s this] show ?thesis by auto
qed

subsection \<open>Task data\<close>



end
