(* ===== verification/Spec2Isabelle.thy ===== *)
theory Spec2Isabelle
  imports TaskProps HdbDevProps HdbManagerProps AlarmProps AlarmOpProps DsProps DishProps
begin

text \<open>
  Verification library of DSH.LMC, the local monitoring and control system of the SKA dishes.

  \<^bold>\<open>The program.\<close> The repository is a set of Tango device servers in C++ (\<open>src/devices\<close>) over a library of
  utilities (\<open>src/utils\<close>). The LMC device and the dish manager turn commands of the telescope manager into
  sequences of tasks for the devices of the dish; the tasks depend on each other, have time windows, and
  are run by a task manager that watches the status the devices report. An archiving device subscribes to
  the attributes of the other devices and stores their events in a database; a configuration manager spreads
  the attributes over several of them. An alarm device evaluates
  formulas over such attributes, raises and clears alarms, and takes the commands of the operators. All
  devices derive from \<open>LMCDevice\<close>, whose rules say which command, write or change of an attribute is allowed
  in which state. Emulators stand for the sub-elements of a dish; the antenna emulator tracks a program of
  pointings and stows the antenna. Most of the lines are
  generated by Tango's code generator (device classes, state machines, property readers) or vendored.

  \<^bold>\<open>Task engine\<close> (\<open>src/utils/Task.h\<close>, \<open>Task.cc\<close>, \<open>TaskManager.h\<close>, \<open>TaskManager.cc\<close>).
  \<open>TaskModel\<close> has the class \<open>Task\<close>: a queued command with its activation and expiration window, as a record
  with the setters that keep the time fields consistent, and the predicates of the matchers.
  \<open>TaskOrder\<close> has \<open>CompareTask\<close>, the order of the queue, and shows where it is a strict weak order.
  \<open>TaskGraph\<close> and \<open>TaskSort\<close> have the two recursive searches of \<open>TaskSequence\<close>, cycle detection and
  topological sorting, over the vectors of marks the code uses. \<open>TaskSeq\<close> has \<open>TaskSequence\<close>: its tasks,
  dependencies and status; \<open>TaskSeqSpec\<close> proves its computation of times and status. \<open>TaskMgr\<close> has
  \<open>TaskManager\<close>: the queue, kept as the sorted list that iterating the \<open>std::set\<close> gives (\<open>StdContainers\<close> has the
  operations of such a set), and the collection of task sequences; \<open>TaskMgrSpec\<close> and \<open>TaskMgrOps\<close> prove its invariant, the reachable states of a step relation over its operations, and the
  effect of each operation. \<open>TaskProps\<close> states the properties, \<open>TaskExamples\<close> has the concrete manager of
  the witnesses.

  \<^bold>\<open>Archiving device\<close> (\<open>src/devices/archiving/HdbEventSubscriber\<close>).
  \<open>HdbNames\<close> has the functions on attribute names and host domains of \<open>HdbDevice.cpp\<close>. \<open>HdbSignals\<close> and
  \<open>HdbEvents\<close> have the class \<open>SharedData\<close> of \<open>SubscribeThread.cpp\<close>: the table of archived signals with its
  counters, and a round of the subscription thread. \<open>HdbTable\<close> has its invariant and the locale
  \<open>mode_preserving\<close> of the changes that keep it, \<open>HdbSteps\<close> the abstract view of the table as a map from
  names to modes, \<open>HdbSubscribe\<close> the subscription pass and the reachable tables. \<open>HdbPush\<close> has
  \<open>PushThread.cpp\<close>, the queue of archive commands and the statistics of their execution; \<open>HdbPushSpec\<close> the
  locale \<open>fifo\<close> of queues, interpreted on it, and the execution of a whole queue. \<open>HdbConfig\<close> reads the
  configuration entries. \<open>HdbDevice\<close> joins the parts: the commands of \<open>HdbEventSubscriber.cpp\<close> and the event
  callback; \<open>HdbDeviceSpec\<close> has the invariant and the reachable states of the device, \<open>HdbDeviceOps\<close>
  the effect of each command. \<open>HdbThreads\<close> has the archiver as a server: the rounds of \<open>PollerThread.cpp\<close>,
  \<open>StatsThread.cpp\<close> and \<open>CheckPeriodicThread.cpp\<close>, which publish the table to the clients. \<open>HdbProps\<close> and
  \<open>HdbDevProps\<close> state the properties.

  \<^bold>\<open>Archiving configuration manager\<close> (\<open>src/devices/archiving/HdbConfigurationManager\<close>).
  \<open>HdbManager\<close> has the device that spreads the attributes over the archivers: its ordered map of archivers, the
  search of an attribute in the lists they publish, its commands and attributes, and the hook that watches
  them. Its state holds the archivers themselves, so that a command of the manager is a command of the
  archiving device above. \<open>HdbManagerProps\<close> shows that look-ups in the map are look-ups by a key (the completed
  name without domain), when the names are known to the cache of host domains, and states the properties:
  what the manager finds, when an attribute is archived exactly once, how it can be archived twice or lost,
  the map as a set, and what a round of the poller publishes. Commands of the manager and rounds of the
  pollers are single steps in any order; commands of several managers are not considered.

  \<^bold>\<open>Alarm device\<close> (\<open>src/devices/alarm/AlarmHandler_last\<close>, \<open>src/utils/AlarmData.cc\<close>).
  \<open>AlarmTypes\<close> has the class \<open>alarm_t\<close>, \<open>AlarmEvents\<close> the event table of \<open>event_table.cpp\<close>, \<open>AlarmFormula\<close> the
  evaluation of formula trees of \<open>AlarmHandler.cpp\<close>, \<open>AlarmTable\<close> the class \<open>alarm_table\<close> with the update by
  an evaluation and by the clock, \<open>AlarmPublish\<close> the state of the device and the lists it publishes,
  \<open>AlarmDevice\<close> its reaction to events and the rounds of the alarm thread, \<open>AlarmCommands\<close> loading and
  removing, \<open>AlarmOperator\<close> the other commands, \<open>AlarmConfig\<close> the configuration in the database, the
  queries, the start and end of the device, the alarm files and the command thread. \<open>StdContainers\<close>
  has \<open>std::map\<close> as a sorted list of pairs.
  The contracts: \<open>AlarmFormulaSpec\<close> (locale \<open>result_fold\<close>: what a result takes from the attributes it reads),
  \<open>AlarmTableSpec\<close> (the state machine of an alarm that \<open>update\<close> and \<open>timer_update\<close> refine, delays),
  \<open>AlarmEventsSpec\<close> (invariant of the event table, locale \<open>event_update\<close>), \<open>AlarmDeviceSpec\<close>
  and \<open>AlarmDeviceInv\<close> (invariant of the device: every alarm is registered at the events of
  its formula; locale \<open>alarm_update\<close>), \<open>AlarmSteps\<close> (the step relation and the reachable states),
  \<open>AlarmOperatorSpec\<close> and \<open>AlarmConfigSpec\<close> (what the operations achieve). \<open>AlarmProps\<close> and
  \<open>AlarmOpProps\<close> state the properties, \<open>AlarmExamples\<close> has the device of the witnesses. The grammar of the
  formulas is an argument (\<open>aw_parse\<close>), as is the arithmetic of \<open>double\<close> (\<open>arith\<close>). A call of
  \<open>std::unexpected\<close> and a use of a bad pointer end the reachable states: the step relation takes the
  results of a command only when the process goes on (\<open>goes_on\<close>).

  \<^bold>\<open>Rules and device base\<close> (\<open>src/utils/CodeUtils.h\<close>, \<open>TangoUtils.h\<close>, \<open>src/devices/core/LMCDevice\<close>).
  \<open>LmcRules\<close> has the containers and the class \<open>RuleFactory\<close>; \<open>LmcDevice\<close> the scalar attributes of a device, the
  checks of the rules for commands, transitions, reads and writes, their registration and the write callback.
  \<open>LmcRulesSpec\<close> reads the nested containers as a map from commands and attributes to the allowed values and
  proves what the gate of a command decides; \<open>LmcDeviceSpec\<close> (locale \<open>kept_by_values\<close>) says which changes keep
  the shape of the attributes.

  \<^bold>\<open>Antenna emulator\<close> (\<open>src/devices/emulators/DSEmulator\<close>).
  \<open>DsPointing\<close> has \<open>PointingSchedule\<close>, the queue of pointings; \<open>DsEmulator\<close> and \<open>DsCommands\<close> the device, its rules
  and commands; \<open>DsTask\<close> the tasks of \<open>DSEmulatorTask.cpp\<close>, each cut at its sleep; \<open>DsTracking\<close> the thread of
  \<open>TrackingThread.cpp\<close>, which pops a pointing, slews in steps and sets it.
  The contracts: \<open>DsPointingSpec\<close> (locale \<open>timed_store\<close>: the queue as a map from times to points, interpreted on
  both functions \<open>Push\<close>), \<open>DsStable\<close> (what every operation keeps), \<open>DsModes\<close> (locale \<open>registration\<close>: the rules after the start;
  the step relation, the reachable states, the gates of the mode commands), \<open>DsAttrs\<close> (attributes by label, the
  mode changes of the tasks), \<open>DsStowSpec\<close> (the slewing loop ends) and \<open>DsStowRun\<close> (the steps of the thread
  after a stow), \<open>DsDesired\<close> (the points a written value stands for, the emergency stop). \<open>DsProps\<close> states the
  properties, \<open>DsExamples\<close> has the device of the witnesses. Durations, the texts beside the statuses and the
  creation of the attributes are not modelled; the slewing loop is a partial function, which may not return,
  and returns when the rate and the step of the slewing are positive.

  \<^bold>\<open>Tasks of a device\<close> (\<open>src/devices/core/LMCDevice/LMCDevice.cpp\<close>, \<open>TaskThread.cpp\<close>, \<open>src/utils/Task.cc\<close>).
  \<open>LmcTasks\<close> has the part of \<open>LMCDevice\<close> that drives the task manager: the commands that flush, clear and revoke,
  the poll that writes the statuses of the sequences into progress attributes, the progress attributes that
  set the statuses of tasks, the commands queued on an event, the building of a sequence, and the turns of
  the task thread. \<open>TaskJson\<close> has the JSON form in which a task is handed to its command, over a datatype of
  JSON values (the text is written and read by JsonCpp, an argument of the model), and its round trip.

  \<^bold>\<open>Dish manager\<close> (\<open>src/devices/master/DishManager\<close>).
  \<open>DishForward\<close> has the state of the device, \<open>ExecCmdOnProxy\<close> and the commands that forward to the controllers of
  the receiver, the feed package and the antenna; what a controller answers is an argument, what was sent is
  recorded in the state. \<open>DishModes\<close> has the rules, the mode commands and the configuration of bands,
  \<open>DishEvents\<close> the handlers of emergency stop, power cut and restore, band errors and the loss of the
  telescope manager, and the resets, \<open>DishRun\<close> the commands by name, the execution of a task as a command of the
  device itself, and the step relation: clients, task thread, poll, events.
  \<open>DishInv\<close> states the invariant of the sequences with dependencies (\<open>dish_fits\<close>) and \<open>DishSpec\<close> proves that every
  command and step keeps it (collection \<open>fits\<close>); \<open>DishVerdict\<close> proves what the commands decide: the order of
  tasks, the rules after the start (an interpretation of \<open>registration\<close>), the locks by progress attributes,
  acceptance and refusal. \<open>DishProps\<close> states the properties, \<open>DishExamples\<close> has the dish of the witnesses.
  The steps are whole commands: Tango serialises clients, and the task and event threads are taken to
  interleave between commands. An event handler that queues a command under the name of a chained sequence
  is excluded; none is configured.

  \<^bold>\<open>Representation.\<close> Classes are records, pointers that may be null are options or fields that say whether
  the object exists, exceptions are left values of a sum type together with the state they leave, and a
  use of a null or uninitialised pointer is an error value of its own. Counters of type \<open>uint32_t\<close> are
  words; times of the task engine are integers in microseconds or numbers of Julian days as the code
  computes them; a \<open>double\<close> is a real number with, where arithmetic is rounded, the rounding as an argument.
  What comes from outside (Tango, the clock, the resolver, the database) is an argument of the
  definitions. The methods hold their lock for their whole body, so that each is one step; threads are
  interleaved at the level of the methods by the step relations.

  \<^bold>\<open>Loops.\<close> All loops end: they are structural recursion on the list they run over, or recursion with a
  measure (the number of unmarked nodes of the graph searches, the length of the queue, the position in a
  string). The slewing loop of the antenna emulator has no such measure and is a partial function. Fuel is used in one place, the search and replace of \<open>CodeUtils.h\<close>: it is the length of the
  string, and more changes nothing (\<open>find_replace_fuel\<close>). The threads are modelled by their rounds, which
  the step relations repeat.

  \<^bold>\<open>Not modelled.\<close> Generated code (the \<open>Class\<close> and \<open>StateMachine\<close> files of the devices but for what they
  dispatch and guard, the property readers, \<open>DSManager\<close>), vendored code (\<open>src/external\<close>), the grammars written in
  boost spirit (\<open>alarm_grammar.h\<close>, \<open>formula_grammar.h\<close>), and glue whose work is done by Tango calls: proxies,
  logging, sockets, the launch of processes, the configuration of devices from XML files, the hosts of a database
  with several addresses (\<open>_MULTI_TANGO_HOST\<close>, \<open>_USE_FERMI_DB_RW\<close>, which the build does not define), what is not named
  above of \<open>LMCDevice\<close>, the commands of \<open>DishManager\<close> with an empty body (\<open>Track\<close>, \<open>Slew\<close>, \<open>Scan\<close>), and the
  emulators of the other sub-elements.
\<close>

end
